(* ===== verification/LteBase.thy ===== *)
theory LteBase
  imports Main "HOL-Library.Word" "HOL-Library.Signed_Division"
begin

text \<open>
  Prelude of the development: the machine types of the C++ sources, the packet payload
  operations of \<^verbatim>\<open>src/network/model/packet.cc\<close> and \<^verbatim>\<open>buffer.cc\<close> that the LTE classes call,
  the time arithmetic of \<^verbatim>\<open>ns3::Time\<close>, and the generic lemmas the component theories share.

  Conventions used by every theory:
  \<^item> an unsigned C++ integer of width w is a word of length w where its wrap-around can be
    observed; sizes of single packets are natural numbers (a packet is shorter than 2 to the 32);
  \<^item> \<^verbatim>\<open>NS_ASSERT\<close> is compiled out in optimised builds, so it does not change the state; where the
    code relies on an assertion a lemma states that it holds;
  \<^item> \<^verbatim>\<open>NS_ABORT\<close>, dereferencing a null pointer, \<^verbatim>\<open>front()\<close> of an empty container and reading past
    the end of a buffer are the value \<open>None\<close> of an option type;
  \<^item> trace sources, logging and the byte tags that only feed trace sources (\<^verbatim>\<open>RlcTag\<close>,
    \<^verbatim>\<open>PdcpTag\<close>) are left out.
\<close>

unbundle bit_operations_syntax

section \<open>Machine types\<close>

type_synonym u8 = "8 word"
type_synonym u16 = "16 word"
type_synonym u32 = "32 word"
type_synonym u64 = "64 word"

text \<open>Serialised packet contents, the bytes of \<^verbatim>\<open>ns3::Buffer\<close>.\<close>

type_synonym bytes = "u8 list"

text \<open>Simulation time in nanoseconds, the time step of \<^verbatim>\<open>ns3::Time\<close>.\<close>

type_synonym time_ns = int

named_theorems word_nat \<open>reading word arithmetic as natural-number arithmetic\<close>
named_theorems codec_simps \<open>unfolding rules of the header codecs\<close>

section \<open>Time\<close>

text \<open>\<^verbatim>\<open>Time::GetMilliSeconds()\<close> divides the time step by a million, truncating towards zero.\<close>

definition GetMilliSeconds :: "time_ns \<Rightarrow> int" where
  "GetMilliSeconds t = t sdiv 1000000"

text \<open>\<^verbatim>\<open>MilliSeconds(n)\<close>.\<close>

definition MilliSeconds :: "int \<Rightarrow> time_ns" where
  "MilliSeconds n = n * 1000000"

section \<open>Packet payload operations\<close>

text \<open>
  \<^verbatim>\<open>Packet::GetSize()\<close> is a 32-bit value.
\<close>

definition GetSize :: "bytes \<Rightarrow> u32" where
  "GetSize p = word_of_nat (length p)"

text \<open>
  \<^verbatim>\<open>Packet::CreateFragment(0, n)\<close>: \<^verbatim>\<open>Buffer::CreateFragment\<close> removes
  \<^verbatim>\<open>GetSize() - (0 + n)\<close> bytes at the end, a 32-bit subtraction. When n exceeds the size it
  wraps to a huge value and \<^verbatim>\<open>Buffer::RemoveAtEnd\<close> empties the fragment.
\<close>

definition CreateFragment0 :: "nat \<Rightarrow> bytes \<Rightarrow> bytes" where
  "CreateFragment0 n p = (if n \<le> length p then take n p else [])"

text \<open>\<^verbatim>\<open>Packet::RemoveAtStart\<close>: removing more than there is leaves an empty buffer.\<close>

definition RemoveAtStart :: "nat \<Rightarrow> bytes \<Rightarrow> bytes" where
  "RemoveAtStart n p = drop n p"

lemma fragment_split [simp]:
  "n \<le> length p \<Longrightarrow> CreateFragment0 n p @ RemoveAtStart n p = p"
  by (simp add: CreateFragment0_def RemoveAtStart_def)

lemma length_CreateFragment0 [simp]:
  "length (CreateFragment0 n p) = (if n \<le> length p then n else 0)"
  by (simp add: CreateFragment0_def)

lemma length_RemoveAtStart [simp]: "length (RemoveAtStart n p) = length p - n"
  by (simp add: RemoveAtStart_def)

lemma CreateFragment0_append [simp]: "CreateFragment0 (length p) (p @ q) = p"
  by (simp add: CreateFragment0_def)

lemma RemoveAtStart_append [simp]: "RemoveAtStart (length p) (p @ q) = q"
  by (simp add: RemoveAtStart_def)

lemma CreateFragment0_all [simp]: "CreateFragment0 (length p) p = p"
  by (simp add: CreateFragment0_def)

lemma RemoveAtStart_all [simp]: "RemoveAtStart (length p) p = []"
  by (simp add: RemoveAtStart_def)

section \<open>Words as numbers\<close>

lemma unat_mod_1024_less [simp]: "unat ((w :: u16) mod 1024) < 1024"
  by (simp add: unat_mod)

lemma u16_mod_1024_id [simp]: "unat (w :: u16) < 1024 \<Longrightarrow> w mod 1024 = w"
  by (simp add: word_unat_eq_iff unat_mod)

lemma u16_lt_1024_mod [simp]: "(w :: u16) < 1024 \<Longrightarrow> w mod 1024 = w"
  by (simp add: word_less_nat_alt)

lemma mod_1024_cancel:
  assumes "(v + k) mod 1024 = (w + k) mod 1024" "v < 1024" "w < (1024 :: nat)"
  shows "v = w"
proof -
  obtain q1 q2 where "v + k + 1024 * q1 = w + k + 1024 * q2"
    using assms(1) by (auto simp: nat_mod_eq_iff)
  then have "v + 1024 * q1 = w + 1024 * q2"
    by simp
  then have "v mod 1024 = w mod 1024"
    by (metis mod_mult_self2)
  then show "v = w"
    using assms(2,3) by simp
qed

section \<open>Words bit by bit\<close>

text \<open>
  Equality of bytes and of 16-bit words as a finite conjunction over the bits, and the zero
  high bits of a bounded word: with \<open>bit_simps\<close> they decide the header codecs.
\<close>

lemma all_less_8:
  "(\<forall>n<8. P (n::nat)) \<longleftrightarrow> P 0 \<and> P 1 \<and> P 2 \<and> P 3 \<and> P 4 \<and> P 5 \<and> P 6 \<and> P 7"
proof -
  have "(8::nat) = Suc (Suc (Suc (Suc (Suc (Suc (Suc (Suc 0)))))))"
    by simp
  then show ?thesis
    by (simp only: All_less_Suc) (auto simp: numeral_eq_Suc)
qed

lemma all_less_16:
  "(\<forall>n<16. P (n::nat)) \<longleftrightarrow>
     P 0 \<and> P 1 \<and> P 2 \<and> P 3 \<and> P 4 \<and> P 5 \<and> P 6 \<and> P 7 \<and>
     P 8 \<and> P 9 \<and> P 10 \<and> P 11 \<and> P 12 \<and> P 13 \<and> P 14 \<and> P 15"
proof -
  have "(16::nat) = Suc (Suc (Suc (Suc (Suc (Suc (Suc (Suc
      (Suc (Suc (Suc (Suc (Suc (Suc (Suc (Suc 0)))))))))))))))"
    by simp
  then show ?thesis
    by (simp only: All_less_Suc) (auto simp: numeral_eq_Suc)
qed

lemma u8_eq_iff:
  "(a::u8) = b \<longleftrightarrow>
     (bit a 0 = bit b 0) \<and> (bit a 1 = bit b 1) \<and> (bit a 2 = bit b 2) \<and> (bit a 3 = bit b 3) \<and>
     (bit a 4 = bit b 4) \<and> (bit a 5 = bit b 5) \<and> (bit a 6 = bit b 6) \<and> (bit a 7 = bit b 7)"
  using all_less_8 [of "\<lambda>n. bit a n = bit b n"] by (simp add: bit_eq_iff)

lemma u16_eq_iff:
  "(a::u16) = b \<longleftrightarrow>
     (bit a 0 = bit b 0) \<and> (bit a 1 = bit b 1) \<and> (bit a 2 = bit b 2) \<and> (bit a 3 = bit b 3) \<and>
     (bit a 4 = bit b 4) \<and> (bit a 5 = bit b 5) \<and> (bit a 6 = bit b 6) \<and> (bit a 7 = bit b 7) \<and>
     (bit a 8 = bit b 8) \<and> (bit a 9 = bit b 9) \<and> (bit a 10 = bit b 10) \<and>
     (bit a 11 = bit b 11) \<and> (bit a 12 = bit b 12) \<and> (bit a 13 = bit b 13) \<and>
     (bit a 14 = bit b 14) \<and> (bit a 15 = bit b 15)"
  using all_less_16 [of "\<lambda>n. bit a n = bit b n"] by (simp add: bit_eq_iff)

lemma high_bit_zero:
  fixes w :: "'a::len word"
  assumes "unat w < 2 ^ k" and "k \<le> n"
  shows "\<not> bit w n"
proof
  assume "bit w n"
  then have "bit (unat w) n"
    by (simp add: bit_unsigned_iff)
  then have "unat w div 2 ^ n \<noteq> 0"
    by (metis bit_iff_odd even_zero)
  then have "2 ^ n \<le> unat w"
    by (metis div_less not_le)
  moreover have "(2::nat) ^ k \<le> 2 ^ n"
    using assms(2) by simp
  ultimately show False
    using assms(1) by simp
qed

lemma u16_bit_mult_2: "bit (w * 2 :: u16) n \<longleftrightarrow> 0 < n \<and> n < 16 \<and> bit w (n - 1)"
  using bit_double_iff [of w n] by (auto simp: mult.commute [of w] possible_bit_word)

lemma u8_high_bits [simp]:
  "\<not> bit (w :: u8) 8" "\<not> bit w 9" "\<not> bit w 10" "\<not> bit w 11" "\<not> bit w 12" "\<not> bit w 13"
  "\<not> bit w 14" "\<not> bit w 15"
  by (auto dest: bit_imp_le_length)

lemma u8_lt_2: "w < (2::u8) \<Longrightarrow>
    \<not> bit w 1 \<and> \<not> bit w 2 \<and> \<not> bit w 3 \<and> \<not> bit w 4 \<and> \<not> bit w 5 \<and> \<not> bit w 6 \<and> \<not> bit w 7"
  using high_bit_zero [of w 1] by (simp add: word_less_nat_alt)

lemma u8_lt_4: "w < (4::u8) \<Longrightarrow>
    \<not> bit w 2 \<and> \<not> bit w 3 \<and> \<not> bit w 4 \<and> \<not> bit w 5 \<and> \<not> bit w 6 \<and> \<not> bit w 7"
  using high_bit_zero [of w 2] by (simp add: word_less_nat_alt)

lemma u8_lt_8: "w < (8::u8) \<Longrightarrow>
    \<not> bit w 3 \<and> \<not> bit w 4 \<and> \<not> bit w 5 \<and> \<not> bit w 6 \<and> \<not> bit w 7"
  using high_bit_zero [of w 3] by (simp add: word_less_nat_alt)

lemma u16_lt_1024: "w < (1024::u16) \<Longrightarrow>
    \<not> bit w 10 \<and> \<not> bit w 11 \<and> \<not> bit w 12 \<and> \<not> bit w 13 \<and> \<not> bit w 14 \<and> \<not> bit w 15"
  using high_bit_zero [of w 10] by (simp add: word_less_nat_alt)

lemma u16_lt_2048: "w < (2048::u16) \<Longrightarrow>
    \<not> bit w 11 \<and> \<not> bit w 12 \<and> \<not> bit w 13 \<and> \<not> bit w 14 \<and> \<not> bit w 15"
  using high_bit_zero [of w 11] by (simp add: word_less_nat_alt)

lemma u16_lt_4096: "w < (4096::u16) \<Longrightarrow>
    \<not> bit w 12 \<and> \<not> bit w 13 \<and> \<not> bit w 14 \<and> \<not> bit w 15"
  using high_bit_zero [of w 12] by (simp add: word_less_nat_alt)

lemma u16_lt_256: "w < (256::u16) \<Longrightarrow>
    \<not> bit w 8 \<and> \<not> bit w 9 \<and> \<not> bit w 10 \<and> \<not> bit w 11 \<and> \<not> bit w 12 \<and> \<not> bit w 13 \<and>
    \<not> bit w 14 \<and> \<not> bit w 15"
  using high_bit_zero [of w 8] by (simp add: word_less_nat_alt)

lemma u16_lt_32768: "w < (32768::u16) \<Longrightarrow> \<not> bit w 15"
  using high_bit_zero [of w 15] by (simp add: word_less_nat_alt)

lemmas word_bits_eq = u8_eq_iff u16_eq_iff
lemmas word_bits_bounds =
  u8_lt_2 u8_lt_4 u8_lt_8 u16_lt_256 u16_lt_1024 u16_lt_2048 u16_lt_4096 u16_lt_32768

section \<open>Lists\<close>

lemma concat_replicate_Nil [simp]: "concat (map (\<lambda>_. []) xs) = []"
  by (induction xs) auto

lemma take_Suc_butlast_last:
  "xs \<noteq> [] \<Longrightarrow> butlast xs @ [last xs] = xs"
  by simp

end
