(* ===== verification/RlcSap.thy ===== *)
theory RlcSap
  imports LteBase
begin

text \<open>
  The service access points of the RLC layer: the structures of
  \<^verbatim>\<open>src/lte/model/lte-mac-sap.h\<close>, the base class \<^verbatim>\<open>LteRlc\<close> and the saturation mode
  \<^verbatim>\<open>LteRlcSm\<close> of \<^verbatim>\<open>src/lte/model/lte-rlc.cc\<close>, and the contract of the entities that queue SDUs.
\<close>

section \<open>The MAC SAP\<close>

record TxOpportunityParameters =
  txo_bytes :: nat
  txo_layer :: u8
  txo_harqId :: u8
  txo_componentCarrierId :: u8

record TransmitPduParameters =
  tpp_pdu :: bytes
  tpp_rnti :: u16
  tpp_lcid :: u8
  tpp_layer :: u8
  tpp_harqProcessId :: u8
  tpp_componentCarrierId :: u8

record ReportBufferStatusParameters =
  rbs_rnti :: u16
  rbs_lcid :: u8
  rbs_txQueueSize :: u32
  rbs_txQueueHolDelay :: u16
  rbs_retxQueueSize :: u32
  rbs_retxQueueHolDelay :: u16
  rbs_statusPduSize :: u16

text \<open>
  The calls an RLC entity makes: to the MAC, to the PDCP above, and the drop trace.
\<close>

datatype rlc_action =
    TransmitPdu TransmitPduParameters
  | ReportBufferStatus ReportBufferStatusParameters
  | ReceivePdcpPdu bytes
  | TxDrop bytes

fun transmitted :: "rlc_action list \<Rightarrow> bytes list" where
  "transmitted [] = []"
| "transmitted (TransmitPdu p # as) = tpp_pdu p # transmitted as"
| "transmitted (_ # as) = transmitted as"

fun delivered :: "rlc_action list \<Rightarrow> bytes list" where
  "delivered [] = []"
| "delivered (ReceivePdcpPdu p # as) = p # delivered as"
| "delivered (_ # as) = delivered as"

lemma transmitted_append [simp]: "transmitted (as @ bs) = transmitted as @ transmitted bs"
  by (induction as rule: transmitted.induct) auto

lemma delivered_append [simp]: "delivered (as @ bs) = delivered as @ delivered bs"
  by (induction as rule: delivered.induct) auto

lemma delivered_map_ReceivePdcpPdu [simp]: "delivered (map ReceivePdcpPdu ps) = ps"
  by (induction ps) auto

lemma transmitted_map_ReceivePdcpPdu [simp]: "transmitted (map ReceivePdcpPdu ps) = []"
  by (induction ps) auto

section \<open>The base class\<close>

record rlc_base =
  rlc_rnti :: u16
  rlc_lcid :: u8
  rlc_packetDelayBudgetMs :: u16

definition rlc_base_init :: rlc_base where
  "rlc_base_init = \<lparr>rlc_rnti = 0, rlc_lcid = 0, rlc_packetDelayBudgetMs = 65535\<rparr>"

definition SetRnti :: "u16 \<Rightarrow> rlc_base \<Rightarrow> rlc_base" where
  "SetRnti rnti b = b\<lparr>rlc_rnti := rnti\<rparr>"

definition SetLcId :: "u8 \<Rightarrow> rlc_base \<Rightarrow> rlc_base" where
  "SetLcId lcId b = b\<lparr>rlc_lcid := lcId\<rparr>"

definition SetPacketDelayBudgetMs :: "u16 \<Rightarrow> rlc_base \<Rightarrow> rlc_base" where
  "SetPacketDelayBudgetMs packetDelayBudget b = b\<lparr>rlc_packetDelayBudgetMs := packetDelayBudget\<rparr>"

text \<open>The parameters of a PDU sent in answer to an opportunity.\<close>

definition answer_params :: "rlc_base \<Rightarrow> TxOpportunityParameters \<Rightarrow> bytes \<Rightarrow> TransmitPduParameters" where
  "answer_params b txOpParams packet =
     \<lparr>tpp_pdu = packet, tpp_rnti = rlc_rnti b, tpp_lcid = rlc_lcid b,
      tpp_layer = txo_layer txOpParams, tpp_harqProcessId = txo_harqId txOpParams,
      tpp_componentCarrierId = txo_componentCarrierId txOpParams\<rparr>"

lemma answer_params_simps [simp]: "tpp_pdu (answer_params b o' p) = p"
  by (simp add: answer_params_def)

section \<open>Saturation mode\<close>

text \<open>
  \<^verbatim>\<open>LteRlcSm\<close> answers every opportunity with a packet of zeros of the size granted and reports a
  full queue; it keeps no state. A grant of no bytes aborts the simulation.
\<close>

definition sm_ReportBufferStatus :: "rlc_base \<Rightarrow> ReportBufferStatusParameters" where
  "sm_ReportBufferStatus b =
     \<lparr>rbs_rnti = rlc_rnti b, rbs_lcid = rlc_lcid b, rbs_txQueueSize = 80000,
      rbs_txQueueHolDelay = 10, rbs_retxQueueSize = 0, rbs_retxQueueHolDelay = 0,
      rbs_statusPduSize = 0\<rparr>"

definition sm_DoInitialize :: "rlc_base \<Rightarrow> rlc_action list" where
  "sm_DoInitialize b = [ReportBufferStatus (sm_ReportBufferStatus b)]"

definition sm_DoNotifyTxOpportunity ::
    "TxOpportunityParameters \<Rightarrow> rlc_base \<Rightarrow> rlc_action list option" where
  "sm_DoNotifyTxOpportunity txOpParams b =
     (if txo_bytes txOpParams > 0 then
        Some [TransmitPdu (answer_params b txOpParams (replicate (txo_bytes txOpParams) 0)),
              ReportBufferStatus (sm_ReportBufferStatus b)]
      else None)"

section \<open>The contract of a queueing entity\<close>

text \<open>
  The entities TM, UM and AM accept SDUs from PDCP while they fit the maximum buffer size and
  answer opportunities of the MAC. \<open>qsize\<close> is the 32-bit counter of the entity, \<open>qpending\<close> the
  queued data, \<open>qsubmit\<close> the operation called by PDCP and \<open>qopp\<close> the one called by the MAC. A PDU exceeds the grant it
  answers by at most \<open>qslack\<close> bytes.
\<close>

definition total_size :: "bytes list \<Rightarrow> nat" where
  "total_size ps = sum_list (map length ps)"

lemma total_size_simps [simp]:
  "total_size [] = 0" "total_size (p # ps) = length p + total_size ps" "total_size (ps @ qs) = total_size ps + total_size qs"
  by (simp_all add: total_size_def)

datatype rlc_event = Submit time_ns bytes | Opportunity time_ns TxOpportunityParameters

text \<open>A run of submissions and opportunities on an entity given by its two operations.\<close>

fun rlc_run ::
    "(time_ns \<Rightarrow> bytes \<Rightarrow> 's \<Rightarrow> ('s \<times> rlc_action list) option) \<Rightarrow>
     (time_ns \<Rightarrow> TxOpportunityParameters \<Rightarrow> 's \<Rightarrow> ('s \<times> rlc_action list) option) \<Rightarrow>
     rlc_event list \<Rightarrow> 's \<Rightarrow> ('s \<times> rlc_action list list) option" where
  "rlc_run sub opp [] s = Some (s, [])"
| "rlc_run sub opp (Submit now p # es) s =
     (case sub now p s of
        None \<Rightarrow> None
      | Some (s', as) \<Rightarrow> map_option (\<lambda>(s'', ass). (s'', as # ass)) (rlc_run sub opp es s'))"
| "rlc_run sub opp (Opportunity now o' # es) s =
     (case opp now o' s of
        None \<Rightarrow> None
      | Some (s', as) \<Rightarrow> map_option (\<lambda>(s'', ass). (s'', as # ass)) (rlc_run sub opp es s'))"

text \<open>The SDU submitted and the grant of an event satisfy the given conditions.\<close>

fun rlc_event_ok ::
    "(bytes \<Rightarrow> bool) \<Rightarrow> (TxOpportunityParameters \<Rightarrow> bool) \<Rightarrow> rlc_event \<Rightarrow> bool" where
  "rlc_event_ok sdu grant (Submit now p) = sdu p"
| "rlc_event_ok sdu grant (Opportunity now o') = grant o'"

text \<open>The bytes granted by an event.\<close>

fun granted :: "rlc_event \<Rightarrow> nat" where
  "granted (Submit now p) = 0"
| "granted (Opportunity now o') = txo_bytes o'"

locale rlc_queue =
  fixes qinv :: "'s \<Rightarrow> bool"
    and qpending :: "'s \<Rightarrow> bytes list"
    and qsize :: "'s \<Rightarrow> u32"
    and qmax :: "'s \<Rightarrow> u32"
    and qsubmit :: "time_ns \<Rightarrow> bytes \<Rightarrow> 's \<Rightarrow> ('s \<times> rlc_action list) option"
    and qopp :: "time_ns \<Rightarrow> TxOpportunityParameters \<Rightarrow> 's \<Rightarrow> ('s \<times> rlc_action list) option"
    and qsdu_ok :: "bytes \<Rightarrow> bool"
    and qgrant_ok :: "TxOpportunityParameters \<Rightarrow> bool"
    and qslack :: nat
  assumes size_exact: "qinv s \<Longrightarrow> unat (qsize s) = total_size (qpending s)"
    and size_bound: "qinv s \<Longrightarrow> qsize s \<le> qmax s"
    and submit_law: "qinv s \<Longrightarrow> qsdu_ok p \<Longrightarrow>
          \<exists>s' as. qsubmit now p s = Some (s', as) \<and> qinv s' \<and> qmax s' = qmax s \<and>
            transmitted as = [] \<and>
            qpending s' = (if total_size (qpending s) + length p \<le> unat (qmax s)
                           then qpending s @ [p] else qpending s)"
    and opp_law: "qinv s \<Longrightarrow> qgrant_ok o' \<Longrightarrow>
          \<exists>s' as. qopp now o' s = Some (s', as) \<and> qinv s' \<and> qmax s' = qmax s \<and>
            (\<forall>q\<in>set (transmitted as). length q \<le> txo_bytes o' + qslack)"
begin

text \<open>
  Every legal run succeeds, keeps the accounting exact and bounded, and no PDU is larger than
  the grant it answers by more than the slack.
\<close>

lemma run_law:
  assumes "qinv s" and "list_all (rlc_event_ok qsdu_ok qgrant_ok) es"
  shows "\<exists>s' ass. rlc_run qsubmit qopp es s = Some (s', ass) \<and> qinv s' \<and> qmax s' = qmax s \<and>
    list_all2 (\<lambda>e as. \<forall>q\<in>set (transmitted as). length q \<le> granted e + qslack) es ass"
  using assms
proof (induction es arbitrary: s)
  case (Cons e es)
  show ?case
  proof (cases e)
    case (Submit now p)
    with Cons.prems submit_law [of s p now] obtain s1 as where
      1: "qsubmit now p s = Some (s1, as)" "qinv s1" "qmax s1 = qmax s" "transmitted as = []"
      by auto
    with Cons.IH [OF 1(2)] Cons.prems(2) Submit show ?thesis
      by auto
  next
    case (Opportunity now o')
    with Cons.prems opp_law [of s o' now] obtain s1 as where
      1: "qopp now o' s = Some (s1, as)" "qinv s1" "qmax s1 = qmax s"
        "\<forall>q\<in>set (transmitted as). length q \<le> txo_bytes o' + qslack"
      by auto
    with Cons.IH [OF 1(2)] Cons.prems(2) Opportunity show ?thesis
      by auto
  qed
qed auto

lemma run_accounting:
  assumes "qinv s" "list_all (rlc_event_ok qsdu_ok qgrant_ok) es" "rlc_run qsubmit qopp es s = Some (s', ass)"
  shows "unat (qsize s') = total_size (qpending s') \<and> qsize s' \<le> qmax s"
proof -
  have s': "qinv s'" "qmax s' = qmax s"
    using run_law [OF assms(1,2)] assms(3) by auto
  show ?thesis
    using size_exact [OF s'(1)] size_bound [OF s'(1)] s'(2) by simp
qed

end

section \<open>The transmission buffer\<close>

text \<open>An element of \<^verbatim>\<open>std::vector<TxPdu>\<close>: the PDU from PDCP and its arrival time.\<close>

record tx_pdu =
  m_pdu :: bytes
  m_waitingSince :: time_ns

abbreviation pdus :: "'a tx_pdu_scheme list \<Rightarrow> bytes list" where
  "pdus buf \<equiv> map m_pdu buf"

text \<open>The head-of-line delay reported for a buffer, in milliseconds, stored in 16 bits.\<close>

definition hol_delay :: "time_ns \<Rightarrow> 'a tx_pdu_scheme list \<Rightarrow> u16" where
  "hol_delay now buf =
     word_of_int (GetMilliSeconds (case buf of [] \<Rightarrow> 0 | x # _ \<Rightarrow> now - m_waitingSince x))"

text \<open>The 32-bit counter agrees with the natural-number size while it does not wrap.\<close>

lemma unat_add_GetSize:
  assumes "unat w + length p < 2 ^ 32"
  shows "unat (w + GetSize p) = unat w + length p"
  using assms by (simp add: GetSize_def unat_word_ariths unat_of_nat)

lemma unat_sub_GetSize:
  assumes "length p \<le> unat w"
  shows "unat (w - GetSize p) = unat w - length p"
proof -
  have "unat w < 2 ^ 32"
    using unsigned_less [of w] by simp
  then have len: "unat (GetSize p) = length p"
    using assms by (simp add: GetSize_def unat_of_nat)
  then show ?thesis
    using assms by (simp add: unat_sub word_le_nat_alt)
qed

text \<open>A submitted SDU is far below the range of the counter.\<close>

definition sdu_ok :: "bytes \<Rightarrow> bool" where
  "sdu_ok p \<longleftrightarrow> length p < 2 ^ 31"

lemma queue_accepts:
  assumes "unat sz = total_size ps" "sz \<le> mx" "unat mx \<le> 2 ^ 31" "sdu_ok p"
  shows "unat (sz + GetSize p) = total_size ps + length p"
    and "sz + GetSize p \<le> mx \<longleftrightarrow> total_size ps + length p \<le> unat mx"
proof -
  have "unat sz + length p < 2 ^ 32"
    using assms by (simp add: sdu_ok_def word_le_nat_alt)
  then show "unat (sz + GetSize p) = total_size ps + length p"
    by (simp add: unat_add_GetSize assms(1))
  then show "sz + GetSize p \<le> mx \<longleftrightarrow> total_size ps + length p \<le> unat mx"
    by (simp add: word_le_nat_alt)
qed

end
