(* ===== verification/RlcTm.thy ===== *)
theory RlcTm
  imports RlcSap
begin

text \<open>
  The transparent mode \<^verbatim>\<open>LteRlcTm\<close> of \<^verbatim>\<open>src/lte/model/lte-rlc-tm.cc\<close>: SDUs are queued and
  sent unchanged, one per opportunity.
\<close>

section \<open>State\<close>

record rlc_tm =
  tm_base :: rlc_base
  tm_maxTxBufferSize :: u32
  tm_txBufferSize :: u32
  tm_txBuffer :: "tx_pdu list"
  tm_rbsTimer :: "time_ns option"

text \<open>The constructor followed by the attribute's default value.\<close>

definition tm_init :: rlc_tm where
  "tm_init = \<lparr>tm_base = rlc_base_init, tm_maxTxBufferSize = 2 * 1024 * 1024, tm_txBufferSize = 0,
     tm_txBuffer = [], tm_rbsTimer = None\<rparr>"

section \<open>Operations\<close>

definition tm_DoReportBufferStatus :: "time_ns \<Rightarrow> rlc_tm \<Rightarrow> ReportBufferStatusParameters" where
  "tm_DoReportBufferStatus now s =
     \<lparr>rbs_rnti = rlc_rnti (tm_base s), rbs_lcid = rlc_lcid (tm_base s),
      rbs_txQueueSize = (if tm_txBuffer s \<noteq> [] then tm_txBufferSize s else 0),
      rbs_txQueueHolDelay = hol_delay now (tm_txBuffer s),
      rbs_retxQueueSize = 0, rbs_retxQueueHolDelay = 0, rbs_statusPduSize = 0\<rparr>"

definition tm_DoTransmitPdcpPdu :: "time_ns \<Rightarrow> bytes \<Rightarrow> rlc_tm \<Rightarrow> rlc_tm \<times> rlc_action list" where
  "tm_DoTransmitPdcpPdu now p s =
     (let s1 = (if tm_txBufferSize s + GetSize p \<le> tm_maxTxBufferSize s then
                  s\<lparr>tm_txBuffer := tm_txBuffer s @ [\<lparr>m_pdu = p, m_waitingSince = now\<rparr>],
                    tm_txBufferSize := tm_txBufferSize s + GetSize p\<rparr>
                else s)
      in (s1\<lparr>tm_rbsTimer := None\<rparr>, [ReportBufferStatus (tm_DoReportBufferStatus now s1)]))"

definition tm_DoNotifyTxOpportunity ::
    "time_ns \<Rightarrow> TxOpportunityParameters \<Rightarrow> rlc_tm \<Rightarrow> rlc_tm \<times> rlc_action list" where
  "tm_DoNotifyTxOpportunity now txOpParams s =
     (case tm_txBuffer s of
        [] \<Rightarrow> (s, [])
      | x # xs \<Rightarrow>
          (let packet = m_pdu x in
           if txo_bytes txOpParams < length packet then (s, [])
           else
             (let s1 = s\<lparr>tm_txBufferSize := tm_txBufferSize s - GetSize packet, tm_txBuffer := xs\<rparr>;
                  s2 = (if tm_txBuffer s1 \<noteq> [] then s1\<lparr>tm_rbsTimer := Some (now + MilliSeconds 10)\<rparr>
                        else s1)
              in (s2, [TransmitPdu (answer_params (tm_base s) txOpParams packet)]))))"

definition tm_DoReceivePdu :: "bytes \<Rightarrow> rlc_tm \<Rightarrow> rlc_tm \<times> rlc_action list" where
  "tm_DoReceivePdu p s = (s, [ReceivePdcpPdu p])"

text \<open>The handler of the timer runs when it has expired, so it is no longer pending.\<close>

definition tm_ExpireRbsTimer :: "time_ns \<Rightarrow> rlc_tm \<Rightarrow> rlc_tm \<times> rlc_action list" where
  "tm_ExpireRbsTimer now s =
     (let s0 = s\<lparr>tm_rbsTimer := None\<rparr> in
      if tm_txBuffer s0 \<noteq> [] then
        (s0\<lparr>tm_rbsTimer := Some (now + MilliSeconds 10)\<rparr>,
         [ReportBufferStatus (tm_DoReportBufferStatus now s0)])
      else (s0, []))"

definition tm_DoDispose :: "rlc_tm \<Rightarrow> rlc_tm" where
  "tm_DoDispose s = s\<lparr>tm_rbsTimer := None, tm_txBuffer := []\<rparr>"

section \<open>The queue contract\<close>

definition tm_inv :: "rlc_tm \<Rightarrow> bool" where
  "tm_inv s \<longleftrightarrow> unat (tm_txBufferSize s) = total_size (pdus (tm_txBuffer s)) \<and>
     tm_txBufferSize s \<le> tm_maxTxBufferSize s \<and> unat (tm_maxTxBufferSize s) \<le> 2 ^ 31"

lemma tm_inv_sizes:
  "tm_inv s \<Longrightarrow> unat (tm_txBufferSize s) = total_size (pdus (tm_txBuffer s))"
  "tm_inv s \<Longrightarrow> tm_txBufferSize s \<le> tm_maxTxBufferSize s"
  by (simp_all add: tm_inv_def)

lemma tm_inv_init: "tm_inv tm_init"
  by (simp add: tm_inv_def tm_init_def)

lemma tm_submit_inv:
  assumes "tm_inv s" and "sdu_ok p"
  shows "tm_inv (fst (tm_DoTransmitPdcpPdu now p s)) \<and>
     pdus (tm_txBuffer (fst (tm_DoTransmitPdcpPdu now p s))) =
       (if total_size (pdus (tm_txBuffer s)) + length p \<le> unat (tm_maxTxBufferSize s)
        then pdus (tm_txBuffer s) @ [p] else pdus (tm_txBuffer s))"
  using assms queue_accepts [of "tm_txBufferSize s" "pdus (tm_txBuffer s)" "tm_maxTxBufferSize s" p]
  by (auto simp: tm_inv_def tm_DoTransmitPdcpPdu_def Let_def)

lemma tm_opp_inv:
  assumes "tm_inv s"
  shows "tm_inv (fst (tm_DoNotifyTxOpportunity now o' s))"
proof (cases "tm_txBuffer s")
  case Nil
  with assms show ?thesis
    by (simp add: tm_DoNotifyTxOpportunity_def)
next
  case (Cons x xs)
  with assms have "unat (tm_txBufferSize s - GetSize (m_pdu x)) = total_size (pdus xs)"
    by (simp add: tm_inv_def unat_sub_GetSize)
  with Cons assms show ?thesis
    by (auto simp: tm_inv_def tm_DoNotifyTxOpportunity_def Let_def word_le_nat_alt)
qed

lemma tm_opp_fits:
  "q \<in> set (transmitted (snd (tm_DoNotifyTxOpportunity now o' s))) \<Longrightarrow> length q \<le> txo_bytes o'"
  by (auto simp: tm_DoNotifyTxOpportunity_def Let_def split: list.splits if_splits)

lemma tm_silent [simp]:
  "transmitted (snd (tm_DoTransmitPdcpPdu now p s)) = []"
  "tm_maxTxBufferSize (fst (tm_DoTransmitPdcpPdu now p s)) = tm_maxTxBufferSize s"
  "tm_maxTxBufferSize (fst (tm_DoNotifyTxOpportunity now o' s)) = tm_maxTxBufferSize s"
  by (auto simp: tm_DoTransmitPdcpPdu_def tm_DoNotifyTxOpportunity_def Let_def split: list.splits)

interpretation tm: rlc_queue tm_inv "\<lambda>s. pdus (tm_txBuffer s)" tm_txBufferSize tm_maxTxBufferSize
    "\<lambda>now p s. Some (tm_DoTransmitPdcpPdu now p s)" "\<lambda>now o' s. Some (tm_DoNotifyTxOpportunity now o' s)"
    sdu_ok "\<lambda>_. True" 0
proof unfold_locales
  fix s :: rlc_tm and now p
  assume "tm_inv s" "sdu_ok p"
  then show "\<exists>s' as. Some (tm_DoTransmitPdcpPdu now p s) = Some (s', as) \<and> tm_inv s' \<and>
      tm_maxTxBufferSize s' = tm_maxTxBufferSize s \<and> transmitted as = [] \<and>
      pdus (tm_txBuffer s') =
        (if total_size (pdus (tm_txBuffer s)) + length p \<le> unat (tm_maxTxBufferSize s)
         then pdus (tm_txBuffer s) @ [p] else pdus (tm_txBuffer s))"
    using tm_submit_inv [of s p now]
    by (intro exI [of _ "fst (tm_DoTransmitPdcpPdu now p s)"]
        exI [of _ "snd (tm_DoTransmitPdcpPdu now p s)"]) simp
next
  fix s :: rlc_tm and now o'
  assume "tm_inv s"
  then show "\<exists>s' as. Some (tm_DoNotifyTxOpportunity now o' s) = Some (s', as) \<and> tm_inv s' \<and>
      tm_maxTxBufferSize s' = tm_maxTxBufferSize s \<and>
      (\<forall>q\<in>set (transmitted as). length q \<le> txo_bytes o' + 0)"
    using tm_opp_inv [of s now o'] tm_opp_fits
    by (intro exI [of _ "fst (tm_DoNotifyTxOpportunity now o' s)"]
        exI [of _ "snd (tm_DoNotifyTxOpportunity now o' s)"]) simp
qed (auto simp: tm_inv_sizes)

end
