(* ===== verification/HeaderCodec.thy ===== *)
theory HeaderCodec
  imports LteBase
begin

text \<open>
  The contract between \<^verbatim>\<open>ns3::Header\<close> subclasses and \<^verbatim>\<open>ns3::Packet\<close>
  (\<^verbatim>\<open>src/network/model/packet.cc\<close>). A packet calls \<^verbatim>\<open>GetSerializedSize\<close>, \<^verbatim>\<open>Serialize\<close> and
  \<^verbatim>\<open>Deserialize\<close> of a header; the RLC and PDCP entities call \<^verbatim>\<open>AddHeader\<close>, \<^verbatim>\<open>PeekHeader\<close> and
  \<^verbatim>\<open>RemoveHeader\<close> of the packet. The locale states what a header promises; every header class
  of the development interprets it, and the entities use the facts of the interpretation.
\<close>

section \<open>The packet operations\<close>

text \<open>
  \<^verbatim>\<open>AddHeader\<close> reserves \<^verbatim>\<open>GetSerializedSize()\<close> bytes at the start and lets the header write
  them. Writing a different number of bytes would leave stale bytes or overwrite the payload:
  that is \<open>None\<close>.
\<close>

definition AddHeader :: "('h \<Rightarrow> nat) \<Rightarrow> ('h \<Rightarrow> bytes option) \<Rightarrow> 'h \<Rightarrow> bytes \<Rightarrow> bytes option" where
  "AddHeader hsize ser h p =
     (case ser h of None \<Rightarrow> None
      | Some b \<Rightarrow> if length b = hsize h then Some (b @ p) else None)"

text \<open>
  \<^verbatim>\<open>PeekHeader\<close> and \<^verbatim>\<open>RemoveHeader\<close> deserialise into a default-constructed header; the second
  also removes the number of bytes that \<^verbatim>\<open>Deserialize\<close> returned.
\<close>

definition PeekHeader :: "(bytes \<Rightarrow> ('h \<times> nat) option) \<Rightarrow> bytes \<Rightarrow> 'h option" where
  "PeekHeader des p = map_option fst (des p)"

definition RemoveHeader :: "(bytes \<Rightarrow> ('h \<times> nat) option) \<Rightarrow> bytes \<Rightarrow> ('h \<times> bytes) option" where
  "RemoveHeader des p =
     (case des p of None \<Rightarrow> None | Some (h, n) \<Rightarrow> Some (h, RemoveAtStart n p))"

section \<open>What a header class promises\<close>

text \<open>
  \<open>view\<close> projects a header to the fields that travel on the wire, \<open>hwf\<close> is the well-formedness
  that the entity establishes before it serialises a header.
\<close>

locale header_codec =
  fixes hsize :: "'h \<Rightarrow> nat"
    and ser :: "'h \<Rightarrow> bytes option"
    and des :: "bytes \<Rightarrow> ('h \<times> nat) option"
    and hwf :: "'h \<Rightarrow> bool"
    and view :: "'h \<Rightarrow> 'v"
  assumes ser_size: "hwf h \<Longrightarrow> \<exists>b. ser h = Some b \<and> length b = hsize h"
    and des_ser: "hwf h \<Longrightarrow> ser h = Some b \<Longrightarrow>
          \<exists>h'. des (b @ p) = Some (h', hsize h) \<and> view h' = view h"
begin

lemma AddHeader_Some: "hwf h \<Longrightarrow> \<exists>b. AddHeader hsize ser h p = Some (b @ p) \<and> length b = hsize h"
  using ser_size [of h] by (auto simp: AddHeader_def)

lemma AddHeader_length:
  "hwf h \<Longrightarrow> AddHeader hsize ser h p = Some q \<Longrightarrow> length q = hsize h + length p"
  using AddHeader_Some [of h p] by auto

lemma RemoveHeader_AddHeader:
  assumes "hwf h" and "AddHeader hsize ser h p = Some q"
  shows "\<exists>h'. RemoveHeader des q = Some (h', p) \<and> view h' = view h"
proof -
  obtain b where b: "ser h = Some b" "length b = hsize h"
    using ser_size [OF assms(1)] by blast
  obtain h' where h': "des (b @ p) = Some (h', hsize h)" "view h' = view h"
    using des_ser [OF assms(1) b(1)] by blast
  from assms(2) b have "q = b @ p"
    by (simp add: AddHeader_def)
  moreover have "RemoveAtStart (hsize h) (b @ p) = p"
    using b(2) by (simp add: RemoveAtStart_def)
  ultimately show ?thesis
    using h' by (simp add: RemoveHeader_def)
qed

lemma PeekHeader_AddHeader:
  assumes "hwf h" and "AddHeader hsize ser h p = Some q"
  shows "\<exists>h'. PeekHeader des q = Some h' \<and> view h' = view h"
proof -
  obtain h' where "RemoveHeader des q = Some (h', p)" "view h' = view h"
    using RemoveHeader_AddHeader [OF assms] by blast
  then show ?thesis
    by (auto simp: RemoveHeader_def PeekHeader_def split: option.splits)
qed

end

text \<open>Peeking and removing agree on the header, for any deserialiser.\<close>

lemma PeekHeader_RemoveHeader:
  "RemoveHeader des p = Some (h, q) \<Longrightarrow> PeekHeader des p = Some h"
  by (auto simp: RemoveHeader_def PeekHeader_def split: option.splits)

end
