(* ===== verification/SeqNum10.thy ===== *)
theory SeqNum10
  imports LteBase
begin

text \<open>
  \<^verbatim>\<open>SequenceNumber10\<close> of \<^verbatim>\<open>src/lte/model/lte-rlc-sequence-number.h\<close>: the 10-bit RLC sequence
  number with a modulus base. The C++ operators compute in \<^verbatim>\<open>int\<close>, with the truncating \<^verbatim>\<open>%\<close>
  of C++ (\<open>smod\<close> here), and store into \<^verbatim>\<open>uint16_t\<close>, so that a negative remainder
  becomes a value above 64511. The section on the abstract view shows that the comparisons
  nevertheless order sequence numbers by their distance from the base modulo 1024.
\<close>

section \<open>The class\<close>

record sn10 =
  m_value :: u16
  m_modulusBase :: u16

text \<open>The default constructor and the explicit constructor.\<close>

definition sn_default :: sn10 where
  "sn_default = \<lparr>m_value = 0, m_modulusBase = 0\<rparr>"

definition sn_make :: "u16 \<Rightarrow> sn10" where
  "sn_make v = \<lparr>m_value = v mod 1024, m_modulusBase = 0\<rparr>"

text \<open>Assignment from a number keeps the base.\<close>

definition sn_assign :: "sn10 \<Rightarrow> u16 \<Rightarrow> sn10" where
  "sn_assign s v = s\<lparr>m_value := v mod 1024\<rparr>"

definition sn_GetValue :: "sn10 \<Rightarrow> u16" where
  "sn_GetValue s = m_value s"

text \<open>The two overloads of \<^verbatim>\<open>SetModulusBase\<close>.\<close>

definition sn_SetModulusBase :: "sn10 \<Rightarrow> sn10 \<Rightarrow> sn10" where
  "sn_SetModulusBase s b = s\<lparr>m_modulusBase := m_value b\<rparr>"

definition sn_SetModulusBase16 :: "sn10 \<Rightarrow> u16 \<Rightarrow> sn10" where
  "sn_SetModulusBase16 s b = s\<lparr>m_modulusBase := b\<rparr>"

text \<open>Postfix increment: the returned value and the object afterwards.\<close>

definition sn_postinc :: "sn10 \<Rightarrow> sn10 \<times> sn10" where
  "sn_postinc s =
     (sn_SetModulusBase16 (sn_make (m_value s)) (m_modulusBase s),
      s\<lparr>m_value := ucast ((ucast (m_value s) + 1 :: u32) mod 1024)\<rparr>)"

abbreviation sn_inc :: "sn10 \<Rightarrow> sn10" where
  "sn_inc s \<equiv> snd (sn_postinc s)"

text \<open>Addition and subtraction of a delta, in \<^verbatim>\<open>int\<close>.\<close>

definition sn_plus :: "sn10 \<Rightarrow> u16 \<Rightarrow> sn10" where
  "sn_plus s delta =
     sn_SetModulusBase16 (sn_make (word_of_int ((uint (m_value s) + uint delta) smod 1024)))
       (m_modulusBase s)"

definition sn_minus :: "sn10 \<Rightarrow> u16 \<Rightarrow> sn10" where
  "sn_minus s delta =
     sn_SetModulusBase16 (sn_make (word_of_int ((uint (m_value s) - uint delta) smod 1024)))
       (m_modulusBase s)"

text \<open>The difference of two sequence numbers is not reduced modulo 1024.\<close>

definition sn_diff :: "sn10 \<Rightarrow> sn10 \<Rightarrow> u16" where
  "sn_diff a b = m_value a - m_value b"

text \<open>The comparisons; the others are derived from \<^verbatim>\<open>operator>\<close> as in the source.\<close>

definition sn_key :: "sn10 \<Rightarrow> u16" where
  "sn_key s = word_of_int ((uint (m_value s) - uint (m_modulusBase s)) smod 1024)"

definition sn_gt :: "sn10 \<Rightarrow> sn10 \<Rightarrow> bool" where
  "sn_gt a b = (let v1 = sn_key a; v2 = sn_key b in v2 < v1)"

definition sn_eq :: "sn10 \<Rightarrow> sn10 \<Rightarrow> bool" where
  "sn_eq a b = (m_value a = m_value b)"

definition sn_neq :: "sn10 \<Rightarrow> sn10 \<Rightarrow> bool" where
  "sn_neq a b = (m_value a \<noteq> m_value b)"

definition sn_le :: "sn10 \<Rightarrow> sn10 \<Rightarrow> bool" where
  "sn_le a b = (\<not> sn_gt a b)"

definition sn_ge :: "sn10 \<Rightarrow> sn10 \<Rightarrow> bool" where
  "sn_ge a b = (sn_gt a b \<or> sn_eq a b)"

definition sn_lt :: "sn10 \<Rightarrow> sn10 \<Rightarrow> bool" where
  "sn_lt a b = (\<not> sn_gt a b \<and> m_value a \<noteq> m_value b)"

section \<open>The abstract view: distance from the base\<close>

text \<open>A sequence number is well formed when its value and its base fit ten bits.\<close>

definition sn_wf :: "sn10 \<Rightarrow> bool" where
  "sn_wf s \<longleftrightarrow> m_value s < 1024 \<and> m_modulusBase s < 1024"

definition sn_val :: "sn10 \<Rightarrow> nat" where
  "sn_val s = unat (m_value s)"

definition sn_base :: "sn10 \<Rightarrow> nat" where
  "sn_base s = unat (m_modulusBase s)"

text \<open>The distance of the value from the base, going upwards modulo 1024.\<close>

definition sn_off :: "sn10 \<Rightarrow> nat" where
  "sn_off s = (sn_val s + 1024 - sn_base s) mod 1024"

lemma sn_wf_nat: "sn_wf s \<longleftrightarrow> sn_val s < 1024 \<and> sn_base s < 1024"
  by (simp add: sn_wf_def sn_val_def sn_base_def word_less_nat_alt)

lemma sn_off_less [simp]: "sn_off s < 1024"
  by (simp add: sn_off_def)

lemma sn_eqI: "sn_val a = sn_val b \<Longrightarrow> sn_base a = sn_base b \<Longrightarrow> a = (b :: sn10)"
  by (simp add: sn_val_def sn_base_def word_unat_eq_iff)

lemma sn_val_base_simps [simp]:
  "sn_val (sn_SetModulusBase s b) = sn_val s"
  "sn_base (sn_SetModulusBase s b) = sn_val b"
  "sn_val (sn_SetModulusBase16 s w) = sn_val s"
  "sn_base (sn_SetModulusBase16 s w) = unat w"
  "sn_val (sn_make w) = unat w mod 1024"
  "sn_base (sn_make w) = 0"
  "sn_val (sn_assign s w) = unat w mod 1024"
  "sn_base (sn_assign s w) = sn_base s"
  "sn_val sn_default = 0"
  "sn_base sn_default = 0"
  by (simp_all add: sn_val_def sn_base_def sn_SetModulusBase_def sn_SetModulusBase16_def
      sn_make_def sn_assign_def sn_default_def unat_mod)

lemma u16_of_int_mod:
  "unat (word_of_int k :: u16) mod 1024 = nat (k mod 1024)"
proof -
  have "int (unat (word_of_int k :: u16) mod 1024) = (k mod 65536) mod 1024"
    by (simp add: unsigned_of_int of_nat_mod take_bit_eq_mod)
  also have "\<dots> = k mod 1024"
    by (simp add: mod_mod_cancel)
  finally show ?thesis
    by (metis nat_int)
qed

lemma int_unat_word_of_int: "int (unat (word_of_int k :: u16)) = k mod 65536"
  by (simp add: unsigned_of_int take_bit_eq_mod)

lemma smod_mod_1024: "(k smod 1024) mod 1024 = k mod (1024 :: int)"
  by (simp flip: minus_sdiv_mult_eq_smod) (simp add: mod_diff_right_eq [symmetric])

lemma smod_small: "0 \<le> k \<Longrightarrow> k < 1024 \<Longrightarrow> k smod 1024 = (k :: int)"
  by (cases "k = 0") (simp_all add: smod_int_alt_def)

lemma smod_small_neg: "- 1024 < k \<Longrightarrow> k < 0 \<Longrightarrow> k smod 1024 = (k :: int)"
  by (simp add: smod_int_alt_def)

lemma uint_m_value: "uint (m_value s) = int (sn_val s)"
  by (simp add: sn_val_def)

lemma uint_m_modulusBase: "uint (m_modulusBase s) = int (sn_base s)"
  by (simp add: sn_base_def)

subsection \<open>Arithmetic\<close>

lemma sn_val_plus [simp]: "sn_val (sn_plus s d) = (sn_val s + unat d) mod 1024"
proof -
  obtain n where d: "uint d = int n" "unat d = n"
    by (metis of_nat_unat)
  have "sn_val (sn_plus s d) = nat ((int (sn_val s) + int n) mod 1024)"
    by (simp add: sn_plus_def u16_of_int_mod smod_mod_1024 uint_m_value d)
  also have "\<dots> = (sn_val s + n) mod 1024"
    by (simp add: nat_mod_distrib nat_add_distrib)
  finally show ?thesis
    by (simp add: d)
qed

lemma sn_base_plus [simp]: "sn_base (sn_plus s d) = sn_base s"
  unfolding sn_plus_def by (simp add: sn_base_def [of s])

lemma sn_val_minus [simp]:
  "sn_val (sn_minus s d) = nat ((int (sn_val s) - uint d) mod 1024)"
  by (simp add: sn_minus_def u16_of_int_mod smod_mod_1024 uint_m_value)

lemma sn_base_minus [simp]: "sn_base (sn_minus s d) = sn_base s"
  unfolding sn_minus_def by (simp add: sn_base_def [of s])

lemma sn_val_postinc_ret [simp]: "sn_val (fst (sn_postinc s)) = sn_val s mod 1024"
  unfolding sn_postinc_def by (simp add: sn_val_def [of s])

lemma sn_base_postinc_ret [simp]: "sn_base (fst (sn_postinc s)) = sn_base s"
  unfolding sn_postinc_def by (simp add: sn_base_def [of s])

lemma sn_val_lt_2p: "sn_val s < 65536"
  using unsigned_less [of "m_value s"] by (simp add: sn_val_def)

lemma sn_val_inc [simp]: "sn_val (sn_inc s) = (sn_val s + 1) mod 1024"
proof -
  have "unat (ucast (m_value s) + 1 :: u32) = sn_val s + 1"
    using sn_val_lt_2p [of s]
    by (simp add: unat_word_ariths unsigned_ucast_eq take_bit_eq_mod sn_val_def)
  then have "unat ((ucast (m_value s) + 1 :: u32) mod 1024) = (sn_val s + 1) mod 1024"
    by (simp add: unat_mod)
  moreover have "(sn_val s + 1) mod 1024 < 65536"
    by (rule less_le_trans [OF mod_less_divisor]) auto
  ultimately show ?thesis
    by (simp add: sn_postinc_def sn_val_def [of "_\<lparr>m_value := _\<rparr>"] unsigned_ucast_eq
        take_bit_eq_mod)
qed

lemma sn_base_inc [simp]: "sn_base (sn_inc s) = sn_base s"
  by (simp add: sn_postinc_def sn_base_def)

lemma sn_wf_simps [simp]:
  "sn_wf sn_default"
  "sn_wf (sn_make w)"
  "sn_base s < 1024 \<Longrightarrow> sn_wf (sn_assign s w)"
  "sn_wf s \<Longrightarrow> sn_wf (sn_plus s d)"
  "sn_wf s \<Longrightarrow> sn_wf (sn_minus s d)"
  "sn_wf s \<Longrightarrow> sn_wf (sn_inc s)"
  "sn_wf s \<Longrightarrow> sn_wf (fst (sn_postinc s))"
  "sn_wf s \<Longrightarrow> sn_wf b \<Longrightarrow> sn_wf (sn_SetModulusBase s b)"
  by (simp_all add: sn_wf_nat nat_less_iff)

subsection \<open>Comparisons\<close>

lemma unat_sn_key:
  assumes "sn_wf s"
  shows "unat (sn_key s) =
    (if sn_base s \<le> sn_val s then sn_val s - sn_base s else 65536 - (sn_base s - sn_val s))"
proof -
  let ?v = "int (sn_val s)" and ?b = "int (sn_base s)"
  have lt: "?v < 1024" "?b < 1024" "0 \<le> ?v" "0 \<le> ?b"
    using assms by (simp_all add: sn_wf_nat)
  have key: "sn_key s = word_of_int ((?v - ?b) smod 1024)"
    by (simp add: sn_key_def uint_m_value uint_m_modulusBase)
  show ?thesis
  proof (cases "sn_base s \<le> sn_val s")
    case True
    have "(?v - ?b) smod 1024 = ?v - ?b"
      using True lt by (intro smod_small) auto
    then have "int (unat (sn_key s)) = (?v - ?b) mod 65536"
      by (simp only: key int_unat_word_of_int)
    also have "\<dots> = int (sn_val s - sn_base s)"
      using True lt by simp
    finally show ?thesis
      using True by (simp only: of_nat_eq_iff if_True)
  next
    case False
    then have "(?v - ?b) smod 1024 = ?v - ?b"
      using lt by (intro smod_small_neg) auto
    then have "int (unat (sn_key s)) = (?v - ?b) mod 65536"
      by (simp only: key int_unat_word_of_int)
    also have "\<dots> = (?v - ?b + 65536) mod 65536"
      by simp
    also have "\<dots> = ?v - ?b + 65536"
      using False lt by (intro mod_pos_pos_trivial) auto
    also have "\<dots> = int (65536 - (sn_base s - sn_val s))"
      using False lt by simp
    finally show ?thesis
      using False by (simp only: of_nat_eq_iff if_False)
  qed
qed

lemma sn_off_cases:
  "sn_wf s \<Longrightarrow>
   sn_off s = (if sn_base s \<le> sn_val s then sn_val s - sn_base s
               else 1024 - (sn_base s - sn_val s))"
  by (auto simp: sn_off_def sn_wf_nat mod_if)

lemma sn_gt_iff_off:
  assumes "sn_wf a" "sn_wf b" "sn_base a = sn_base b"
  shows "sn_gt a b \<longleftrightarrow> sn_off b < sn_off a"
  using assms
  by (auto simp: sn_gt_def Let_def word_less_nat_alt unat_sn_key sn_off_cases sn_wf_nat)

lemma sn_off_inj:
  "sn_wf a \<Longrightarrow> sn_wf b \<Longrightarrow> sn_base a = sn_base b \<Longrightarrow> sn_off a = sn_off b \<longleftrightarrow> sn_val a = sn_val b"
  by (auto simp: sn_off_cases sn_wf_nat split: if_splits)

lemma sn_eq_iff_val: "sn_eq a b \<longleftrightarrow> sn_val a = sn_val b"
  by (simp add: sn_eq_def sn_val_def word_unat_eq_iff)

lemma sn_neq_iff_val: "sn_neq a b \<longleftrightarrow> sn_val a \<noteq> sn_val b"
  by (simp add: sn_neq_def sn_val_def word_unat_eq_iff)

lemma sn_le_iff_off:
  "sn_wf a \<Longrightarrow> sn_wf b \<Longrightarrow> sn_base a = sn_base b \<Longrightarrow> sn_le a b \<longleftrightarrow> sn_off a \<le> sn_off b"
  by (auto simp: sn_le_def sn_gt_iff_off)

lemma sn_lt_iff_off:
  assumes "sn_wf a" "sn_wf b" "sn_base a = sn_base b"
  shows "sn_lt a b \<longleftrightarrow> sn_off a < sn_off b"
proof -
  have "m_value a = m_value b \<longleftrightarrow> sn_off a = sn_off b"
    using sn_off_inj [OF assms] by (simp add: sn_val_def word_unat_eq_iff)
  then show ?thesis
    using assms by (auto simp: sn_lt_def sn_gt_iff_off)
qed

lemma sn_ge_iff_off:
  assumes "sn_wf a" "sn_wf b" "sn_base a = sn_base b"
  shows "sn_ge a b \<longleftrightarrow> sn_off b \<le> sn_off a"
  using sn_off_inj [OF assms] assms
  by (auto simp: sn_ge_def sn_gt_iff_off sn_eq_iff_val)

lemmas sn_cmp = sn_gt_iff_off sn_le_iff_off sn_lt_iff_off sn_ge_iff_off

end
