(* ===== verification/RlcHeader.thy ===== *)
theory RlcHeader
  imports HeaderCodec SeqNum10
begin

text \<open>
  \<^verbatim>\<open>LteRlcHeader\<close> of \<^verbatim>\<open>src/lte/model/lte-rlc-header.cc\<close>: the header of an unacknowledged-mode
  data PDU, a fixed part of two bytes (framing info, first extension bit, sequence number) and
  pairs of an extension bit and an 11-bit length indicator, packed one and a half bytes each.
\<close>

section \<open>Constants of the header file\<close>

definition FIRST_BYTE :: u8 where "FIRST_BYTE = 0x00"
definition NO_FIRST_BYTE :: u8 where "NO_FIRST_BYTE = 0x02"
definition LAST_BYTE :: u8 where "LAST_BYTE = 0x00"
definition NO_LAST_BYTE :: u8 where "NO_LAST_BYTE = 0x01"
definition DATA_FIELD_FOLLOWS :: u8 where "DATA_FIELD_FOLLOWS = 0"
definition E_LI_FIELDS_FOLLOWS :: u8 where "E_LI_FIELDS_FOLLOWS = 1"

lemmas framing_defs = FIRST_BYTE_def NO_FIRST_BYTE_def LAST_BYTE_def NO_LAST_BYTE_def
lemmas ext_defs = DATA_FIELD_FOLLOWS_def E_LI_FIELDS_FOLLOWS_def

section \<open>The class\<close>

record um_header =
  uh_headerLength :: u16
  uh_framingInfo :: u8
  uh_sequenceNumber :: sn10
  uh_extensionBits :: "u8 list"
  uh_lengthIndicators :: "u16 list"

definition um_header_init :: um_header where
  "um_header_init = \<lparr>uh_headerLength = 0, uh_framingInfo = 0xff,
     uh_sequenceNumber = sn_make 0xfffa, uh_extensionBits = [], uh_lengthIndicators = []\<rparr>"

definition um_SetFramingInfo :: "u8 \<Rightarrow> um_header \<Rightarrow> um_header" where
  "um_SetFramingInfo fi h = h\<lparr>uh_framingInfo := fi AND 0x03\<rparr>"

definition um_SetSequenceNumber :: "sn10 \<Rightarrow> um_header \<Rightarrow> um_header" where
  "um_SetSequenceNumber sn h = h\<lparr>uh_sequenceNumber := sn\<rparr>"

definition um_PushExtensionBit :: "u8 \<Rightarrow> um_header \<Rightarrow> um_header" where
  "um_PushExtensionBit e h =
     (let es = uh_extensionBits h @ [e];
          len = (if length es = 1 then 2
                 else if length es mod 2 = 1 then uh_headerLength h + 1
                 else uh_headerLength h + 2)
      in h\<lparr>uh_extensionBits := es, uh_headerLength := len\<rparr>)"

definition um_PushLengthIndicator :: "u16 \<Rightarrow> um_header \<Rightarrow> um_header" where
  "um_PushLengthIndicator li h = h\<lparr>uh_lengthIndicators := uh_lengthIndicators h @ [li]\<rparr>"

text \<open>\<^verbatim>\<open>front()\<close> and \<^verbatim>\<open>pop_front()\<close> of an empty list are undefined: \<open>None\<close>.\<close>

definition um_PopExtensionBit :: "um_header \<Rightarrow> (u8 \<times> um_header) option" where
  "um_PopExtensionBit h =
     (case uh_extensionBits h of [] \<Rightarrow> None | e # es \<Rightarrow> Some (e, h\<lparr>uh_extensionBits := es\<rparr>))"

definition um_PopLengthIndicator :: "um_header \<Rightarrow> (u16 \<times> um_header) option" where
  "um_PopLengthIndicator h =
     (case uh_lengthIndicators h of [] \<Rightarrow> None
      | l # ls \<Rightarrow> Some (l, h\<lparr>uh_lengthIndicators := ls\<rparr>))"

definition um_GetSerializedSize :: "um_header \<Rightarrow> nat" where
  "um_GetSerializedSize h = unat (uh_headerLength h)"

text \<open>
  The bytes of a pair of length indicators as \<^verbatim>\<open>Serialize\<close> writes them (the third byte only
  when there is an even one, the last byte of an odd one padded), and their fields as
  \<^verbatim>\<open>Deserialize\<close> reads them.
\<close>

definition li_byte1 :: "u8 \<Rightarrow> u16 \<Rightarrow> u8" where
  "li_byte1 oddE oddLi = (push_bit 7 oddE AND 0x80) OR ucast (drop_bit 4 oddLi AND 0x7F)"

definition li_byte2 :: "u16 \<Rightarrow> u8 \<Rightarrow> u16 \<Rightarrow> u8" where
  "li_byte2 oddLi evenE evenLi =
     ucast (push_bit 4 oddLi AND 0xF0) OR (push_bit 3 evenE AND 0x08)
       OR ucast (drop_bit 8 evenLi AND 0x07)"

definition li_byte2_last :: "u16 \<Rightarrow> u8" where
  "li_byte2_last oddLi = ucast (push_bit 4 oddLi AND 0xF0)"

definition li_byte3 :: "u16 \<Rightarrow> u8" where
  "li_byte3 evenLi = ucast (evenLi AND 0xFF)"

definition rd_oddE :: "u8 \<Rightarrow> u8" where
  "rd_oddE byte1 = drop_bit 7 (byte1 AND 0x80)"

definition rd_oddLi :: "u8 \<Rightarrow> u8 \<Rightarrow> u16" where
  "rd_oddLi byte1 byte2 =
     push_bit 4 (ucast (byte1 AND 0x7F)) OR ucast (drop_bit 4 (byte2 AND 0xF0))"

definition rd_evenE :: "u8 \<Rightarrow> u8" where
  "rd_evenE byte2 = drop_bit 3 (byte2 AND 0x08)"

definition rd_evenLi :: "u8 \<Rightarrow> u8 \<Rightarrow> u16" where
  "rd_evenLi byte2 byte3 = push_bit 8 (ucast (byte2 AND 0x07)) OR ucast (byte3 AND 0xFF)"

text \<open>The loop of \<^verbatim>\<open>Serialize\<close> over the remaining extension bits and length indicators.\<close>

fun um_write_li :: "u8 list \<Rightarrow> u16 list \<Rightarrow> bytes" where
  "um_write_li (oddE # evenE # es) (oddLi # evenLi # ls) =
     [li_byte1 oddE oddLi, li_byte2 oddLi evenE evenLi, li_byte3 evenLi] @ um_write_li es ls"
| "um_write_li (oddE # es) (oddLi # ls) = [li_byte1 oddE oddLi, li_byte2_last oddLi]"
| "um_write_li _ _ = []"

text \<open>The fixed part: the first byte written, and the fields read.\<close>

definition um_byte1 :: "u8 \<Rightarrow> u8 \<Rightarrow> u16 \<Rightarrow> u8" where
  "um_byte1 fi e sn =
     (push_bit 3 fi AND 0x18) OR (push_bit 2 e AND 0x04) OR ucast (drop_bit 8 sn AND 0x03)"

definition um_byte2 :: "u16 \<Rightarrow> u8" where
  "um_byte2 sn = ucast (sn AND 0xFF)"

definition rd_fi :: "u8 \<Rightarrow> u8" where
  "rd_fi byte1 = drop_bit 3 (byte1 AND 0x18)"

definition rd_e :: "u8 \<Rightarrow> u8" where
  "rd_e byte1 = drop_bit 2 (byte1 AND 0x04)"

definition rd_sn :: "u8 \<Rightarrow> u8 \<Rightarrow> u16" where
  "rd_sn byte1 byte2 = push_bit 8 (ucast (byte1 AND 0x03)) OR ucast byte2"

definition um_Serialize :: "um_header \<Rightarrow> bytes option" where
  "um_Serialize h =
     (case uh_extensionBits h of
        [] \<Rightarrow> None
      | e # es \<Rightarrow>
          (let sn = sn_GetValue (uh_sequenceNumber h) in
           Some ([um_byte1 (uh_framingInfo h) e sn, um_byte2 sn]
                 @ um_write_li es (uh_lengthIndicators h))))"

text \<open>The loop of \<^verbatim>\<open>Deserialize\<close>: the bits and indicators read, and the bytes consumed.\<close>

fun um_read_li :: "bytes \<Rightarrow> (u8 list \<times> u16 list \<times> nat) option" where
  "um_read_li (byte1 # byte2 # rest) =
     (let oddE = rd_oddE byte1; oddLi = rd_oddLi byte1 byte2
      in if oddE = E_LI_FIELDS_FOLLOWS then
           (case rest of
              [] \<Rightarrow> None
            | byte3 # rest' \<Rightarrow>
                (let evenE = rd_evenE byte2; evenLi = rd_evenLi byte2 byte3
                 in if evenE = E_LI_FIELDS_FOLLOWS then
                      map_option (\<lambda>(es, ls, n). (oddE # evenE # es, oddLi # evenLi # ls, n + 3))
                        (um_read_li rest')
                    else Some ([oddE, evenE], [oddLi, evenLi], 3)))
         else Some ([oddE], [oddLi], 2))"
| "um_read_li _ = None"

text \<open>\<^verbatim>\<open>Deserialize\<close> of a header object: the new object and the value returned.\<close>

definition um_Deserialize :: "um_header \<Rightarrow> bytes \<Rightarrow> (um_header \<times> nat) option" where
  "um_Deserialize h bs =
     (case bs of
        byte1 # byte2 # rest \<Rightarrow>
          (let e = rd_e byte1;
               h1 = h\<lparr>uh_headerLength := 2,
                      uh_framingInfo := rd_fi byte1,
                      uh_sequenceNumber := sn_assign (uh_sequenceNumber h) (rd_sn byte1 byte2),
                      uh_extensionBits := uh_extensionBits h @ [e]\<rparr>
           in if e = DATA_FIELD_FOLLOWS then Some (h1, um_GetSerializedSize h1)
              else (case um_read_li rest of
                      None \<Rightarrow> None
                    | Some (es, ls, n) \<Rightarrow>
                        (let h2 = h1\<lparr>uh_extensionBits := uh_extensionBits h1 @ es,
                                     uh_lengthIndicators := uh_lengthIndicators h1 @ ls,
                                     uh_headerLength := uh_headerLength h1 + word_of_nat n\<rparr>
                         in Some (h2, um_GetSerializedSize h2))))
      | _ \<Rightarrow> None)"

abbreviation um_des :: "bytes \<Rightarrow> (um_header \<times> nat) option" where
  "um_des \<equiv> um_Deserialize um_header_init"

section \<open>Well-formed headers\<close>

text \<open>
  The extension bits of a header with n length indicators are n ones followed by a zero; the
  length counts one byte for the even ones and two for the odd ones, and fits the 16 bits of
  \<^verbatim>\<open>m_headerLength\<close>.
\<close>

definition ext_pattern :: "nat \<Rightarrow> u8 list" where
  "ext_pattern n = replicate n E_LI_FIELDS_FOLLOWS @ [DATA_FIELD_FOLLOWS]"

definition li_size :: "nat \<Rightarrow> nat" where
  "li_size n = n + (n + 1) div 2"

definition um_hwf :: "um_header \<Rightarrow> bool" where
  "um_hwf h \<longleftrightarrow>
     uh_extensionBits h = ext_pattern (length (uh_lengthIndicators h)) \<and>
     unat (uh_headerLength h) = 2 + li_size (length (uh_lengthIndicators h)) \<and>
     (\<forall>l\<in>set (uh_lengthIndicators h). l < 2048) \<and>
     uh_framingInfo h < 4 \<and> m_value (uh_sequenceNumber h) < 1024"

definition um_view :: "um_header \<Rightarrow> u16 \<times> u8 \<times> u16 \<times> u8 list \<times> u16 list" where
  "um_view h = (uh_headerLength h, uh_framingInfo h, m_value (uh_sequenceNumber h),
     uh_extensionBits h, uh_lengthIndicators h)"

lemma ext_pattern_0 [simp]: "ext_pattern 0 = [DATA_FIELD_FOLLOWS]"
  by (simp add: ext_pattern_def)

lemma ext_pattern_Suc [simp]: "ext_pattern (Suc n) = E_LI_FIELDS_FOLLOWS # ext_pattern n"
  by (simp add: ext_pattern_def)

lemma ext_pattern_neq_Nil [simp]: "ext_pattern n \<noteq> []"
  by (simp add: ext_pattern_def)

lemma length_ext_pattern [simp]: "length (ext_pattern n) = Suc n"
  by (simp add: ext_pattern_def)

lemma ext_pattern_append_1 [simp]:
  "replicate n E_LI_FIELDS_FOLLOWS @ DATA_FIELD_FOLLOWS # [] = ext_pattern n"
  by (simp add: ext_pattern_def)

lemma li_size_0 [simp]: "li_size 0 = 0"
  by (simp add: li_size_def)

lemma li_size_1 [simp]: "li_size (Suc 0) = 2"
  by (simp add: li_size_def)

lemma li_size_Suc_Suc [simp]: "li_size (Suc (Suc n)) = li_size n + 3"
  by (simp add: li_size_def)

section \<open>Bit-level facts of the packing\<close>

lemmas li_defs = li_byte1_def li_byte2_def li_byte2_last_def li_byte3_def
  rd_oddE_def rd_oddLi_def rd_evenE_def rd_evenLi_def

lemma rd_oddE [simp]: "e < 2 \<Longrightarrow> rd_oddE (li_byte1 e l) = e"
  by (drule u8_lt_2) (simp add: li_defs word_bits_eq bit_simps)

lemma rd_oddLi [simp]: "l < 2048 \<Longrightarrow> rd_oddLi (li_byte1 e l) (li_byte2 l e' l') = l"
  by (drule u16_lt_2048) (simp add: li_defs word_bits_eq bit_simps)

lemma rd_oddLi_last [simp]: "l < 2048 \<Longrightarrow> rd_oddLi (li_byte1 e l) (li_byte2_last l) = l"
  by (drule u16_lt_2048) (simp add: li_defs word_bits_eq bit_simps)

lemma rd_evenE [simp]: "e' < 2 \<Longrightarrow> rd_evenE (li_byte2 l e' l') = e'"
  by (drule u8_lt_2) (simp add: li_defs word_bits_eq bit_simps)

lemma rd_evenLi [simp]: "l' < 2048 \<Longrightarrow> rd_evenLi (li_byte2 l e' l') (li_byte3 l') = l'"
  by (drule u16_lt_2048) (simp add: li_defs word_bits_eq bit_simps)

lemmas um_fixed_defs = um_byte1_def um_byte2_def rd_fi_def rd_e_def rd_sn_def

lemma rd_fi [simp]: "fi < 4 \<Longrightarrow> rd_fi (um_byte1 fi e sn) = fi"
  by (drule u8_lt_4) (simp add: um_fixed_defs word_bits_eq bit_simps)

lemma rd_e [simp]: "e < 2 \<Longrightarrow> rd_e (um_byte1 fi e sn) = e"
  by (drule u8_lt_2) (simp add: um_fixed_defs word_bits_eq bit_simps)

lemma rd_sn [simp]: "sn < 1024 \<Longrightarrow> rd_sn (um_byte1 fi e sn) (um_byte2 sn) = sn"
  by (drule u16_lt_1024) (simp add: um_fixed_defs word_bits_eq bit_simps)

lemma ext_bits_lt_2 [simp]: "E_LI_FIELDS_FOLLOWS < 2" "DATA_FIELD_FOLLOWS < 2"
  by (simp_all add: ext_defs)

lemma ext_bits_distinct [simp]:
  "E_LI_FIELDS_FOLLOWS \<noteq> DATA_FIELD_FOLLOWS" "DATA_FIELD_FOLLOWS \<noteq> E_LI_FIELDS_FOLLOWS"
  by (simp_all add: ext_defs)

text \<open>The 16-bit length, as long as it does not wrap.\<close>

lemma u16_len_add:
  fixes w :: u16
  shows "unat w + k < 2 ^ 16 \<Longrightarrow> unat (w + word_of_nat k) = unat w + k"
  by (simp add: unat_word_ariths unat_of_nat)

lemma u16_len_1_2 [simp]:
  fixes w :: u16
  shows "unat w = n \<Longrightarrow> n + 1 < 2 ^ 16 \<Longrightarrow> unat (w + 1) = n + 1"
    and "unat w = n \<Longrightarrow> n + 2 < 2 ^ 16 \<Longrightarrow> unat (w + 2) = n + 2"
  using u16_len_add [of w 1] u16_len_add [of w 2] by simp_all

lemma u16_len_eq:
  fixes w :: u16
  shows "unat w = n \<Longrightarrow> w = word_of_nat n"
  by auto

section \<open>Round trip\<close>

lemma length_um_write_li:
  "length es = length ls \<Longrightarrow> length (um_write_li es ls) = li_size (length ls)"
  by (induction es ls rule: um_write_li.induct) (auto simp: neq_Nil_conv)

lemma um_read_write_li:
  assumes "\<forall>l\<in>set ls. l < 2048" and "length ls = Suc n"
  shows "um_read_li (um_write_li (ext_pattern n) ls @ p) = Some (ext_pattern n, ls, li_size (Suc n))"
  using assms
proof (induction n arbitrary: ls rule: less_induct)
  case (less n)
  obtain l ls' where ls: "ls = l # ls'" and l: "l < 2048"
    using less.prems by (cases ls) auto
  show ?case
  proof (cases ls')
    case Nil
    with less.prems ls have "n = 0"
      by simp
    with ls Nil l show ?thesis
      by simp
  next
    case (Cons l' ls'')
    with less.prems ls obtain m where n: "n = Suc m" and m: "length ls'' = m" and l': "l' < 2048"
      by (cases n) auto
    show ?thesis
    proof (cases ls'')
      case Nil
      with m n ls Cons l l' show ?thesis
        by simp
    next
      case (Cons l2 ls3)
      with m obtain k where k: "m = Suc k"
        by (cases m) auto
      have "um_read_li (um_write_li (ext_pattern k) ls'' @ p)
          = Some (ext_pattern k, ls'', li_size (Suc k))"
        using less.IH [of k ls''] less.prems ls \<open>ls' = l' # ls''\<close> m n k by simp
      with ls \<open>ls' = l' # ls''\<close> n k l l' show ?thesis
        by simp
    qed
  qed
qed

lemma um_Serialize_size:
  "um_hwf h \<Longrightarrow> \<exists>b. um_Serialize h = Some b \<and> length b = um_GetSerializedSize h"
  by (cases "uh_lengthIndicators h")
     (auto simp: um_hwf_def um_Serialize_def um_GetSerializedSize_def Let_def length_um_write_li)

lemma um_Deserialize_Serialize:
  assumes wf: "um_hwf h" and ser: "um_Serialize h = Some b"
  shows "\<exists>h'. um_des (b @ p) = Some (h', um_GetSerializedSize h) \<and> um_view h' = um_view h"
proof (cases "uh_lengthIndicators h")
  case Nil
  with wf ser show ?thesis
    by (auto simp: um_hwf_def um_Serialize_def um_Deserialize_def Let_def
        um_view_def um_GetSerializedSize_def um_header_init_def sn_assign_def sn_GetValue_def
        sn_make_def u16_lt_1024_mod dest!: u16_len_eq)
next
  case (Cons l ls)
  define n where "n = length ls"
  have ls: "\<forall>l\<in>set (uh_lengthIndicators h). l < 2048" "length (uh_lengthIndicators h) = Suc n"
    and e: "uh_extensionBits h = E_LI_FIELDS_FOLLOWS # ext_pattern n"
    using wf Cons by (simp_all add: um_hwf_def n_def)
  have len: "uh_headerLength h = 2 + word_of_nat (li_size (Suc n))"
    using wf ls(2) by (auto simp: um_hwf_def dest!: u16_len_eq)
  from wf ser e um_read_write_li [OF ls, of p] ls(2) show ?thesis
    by (auto simp: um_hwf_def um_Serialize_def um_Deserialize_def Let_def
        um_view_def um_GetSerializedSize_def um_header_init_def sn_assign_def sn_GetValue_def
        sn_make_def u16_lt_1024_mod simp flip: len)
qed

interpretation um_codec: header_codec um_GetSerializedSize um_Serialize um_des um_hwf um_view
  by unfold_locales (auto intro: um_Serialize_size um_Deserialize_Serialize)

section \<open>Headers built by pushing\<close>

text \<open>
  Pushing keeps the length in step with the number of extension bits: the entity pushes one
  extension bit for every length indicator and one more at the end.
\<close>

definition um_open :: "um_header \<Rightarrow> bool" where
  "um_open h \<longleftrightarrow>
     uh_extensionBits h = replicate (length (uh_lengthIndicators h)) E_LI_FIELDS_FOLLOWS \<and>
     unat (uh_headerLength h) = (case length (uh_lengthIndicators h) of 0 \<Rightarrow> 0 | Suc n \<Rightarrow> 2 + li_size n) \<and>
     (\<forall>l\<in>set (uh_lengthIndicators h). l < 2048)"

lemma li_size_Suc: "li_size (Suc n) = li_size n + (if even n then 2 else 1)"
  by (auto simp: li_size_def elim: evenE oddE)

lemma li_size_mono: "m \<le> n \<Longrightarrow> li_size m \<le> li_size n"
  by (simp add: li_size_def add_mono div_le_mono)

lemma um_open_init: "um_open um_header_init"
  by (simp add: um_open_def um_header_init_def)

lemma um_push_more:
  assumes "um_open h" and "li < 2048" and "2 + li_size (length (uh_lengthIndicators h)) < 2 ^ 16"
  shows "um_open (um_PushLengthIndicator li (um_PushExtensionBit E_LI_FIELDS_FOLLOWS h))"
  using assms
  by (auto simp: um_open_def um_PushLengthIndicator_def um_PushExtensionBit_def Let_def li_size_Suc
      replicate_append_same split: nat.splits elim: evenE oddE)

lemma um_push_last:
  assumes "um_open h" and "m_value sn < 1024" and "2 + li_size (length (uh_lengthIndicators h)) < 2 ^ 16"
  shows "um_hwf (um_SetFramingInfo fi
    (um_SetSequenceNumber sn (um_PushExtensionBit DATA_FIELD_FOLLOWS h)))"
proof -
  have "fi AND 3 < (4 :: u8)"
    using word_and_le1 [of fi 3] by (rule le_less_trans) simp
  then show ?thesis
    using assms
    by (auto simp: um_open_def um_hwf_def um_SetFramingInfo_def um_SetSequenceNumber_def
        um_PushExtensionBit_def Let_def li_size_Suc split: nat.splits elim: evenE oddE)
qed

end
