(* ===== verification/RlcReas.thy ===== *)
theory RlcReas
  imports RlcHeader
begin

text \<open>
  Reassembly of RLC SDUs in \<^verbatim>\<open>LteRlcUm::ReassembleAndDeliver\<close>
  (\<^verbatim>\<open>src/lte/model/lte-rlc-um.cc\<close>): the members it works on, the loops that split a data field
  and that deliver SDUs, and the state machine over the framing info of a PDU. The members are
  the same in \<^verbatim>\<open>LteRlcAm\<close>, whose state machine (theory RlcAmReas) differs.
\<close>

section \<open>The members\<close>

datatype reas_state = NONE | WAITING_S0_FULL | WAITING_SI_SF

text \<open>\<open>None\<close> in \<open>m_keepS0\<close> is the null pointer.\<close>

record reas =
  m_reassemblingState :: reas_state
  m_keepS0 :: "bytes option"
  m_sdusBuffer :: "bytes list"
  m_expectedSeqNumber :: sn10

definition reas_init :: reas where
  "reas_init = \<lparr>m_reassemblingState = WAITING_S0_FULL, m_keepS0 = None, m_sdusBuffer = [],
     m_expectedSeqNumber = sn_make 0\<rparr>"

section \<open>The loops\<close>

text \<open>
  The \<^verbatim>\<open>do\<close> loop that splits the data field: a fragment for every length indicator and the rest
  of the packet at the end. A length indicator beyond the packet is logged and yields an empty
  fragment. Running out of extension bits or length indicators is \<open>None\<close>.
\<close>

fun um_split :: "u8 list \<Rightarrow> u16 list \<Rightarrow> bytes \<Rightarrow> bytes list option" where
  "um_split [] _ _ = None"
| "um_split (e # es) ls p =
     (if e = 0 then Some [p]
      else (case ls of
              [] \<Rightarrow> None
            | l # ls' \<Rightarrow>
                (let data_field = CreateFragment0 (unat l) p;
                     p' = RemoveAtStart (unat l) p
                 in if e = 1 then map_option ((#) data_field) (um_split es ls' p')
                    else Some [data_field])))"

text \<open>
  \<^verbatim>\<open>while (!m_sdusBuffer.empty())\<close> and \<^verbatim>\<open>while (m_sdusBuffer.size() > 1)\<close>: what is delivered and
  what stays in the buffer. Then \<^verbatim>\<open>m_keepS0 = m_sdusBuffer.front()\<close> with the pop.
\<close>

fun deliver_all :: "bytes list \<Rightarrow> bytes list \<times> bytes list" where
  "deliver_all [] = ([], [])"
| "deliver_all (x # xs) = (let (d, r) = deliver_all xs in (x # d, r))"

fun deliver_while_more :: "bytes list \<Rightarrow> bytes list \<times> bytes list" where
  "deliver_while_more (x # y # xs) = (let (d, r) = deliver_while_more (y # xs) in (x # d, r))"
| "deliver_while_more xs = ([], xs)"

definition KeepS0 :: "reas \<Rightarrow> reas option" where
  "KeepS0 r = (case m_sdusBuffer r of [] \<Rightarrow> None
     | x # xs \<Rightarrow> Some (r\<lparr>m_keepS0 := Some x, m_sdusBuffer := xs\<rparr>))"

definition PopSdu :: "reas \<Rightarrow> (bytes \<times> reas) option" where
  "PopSdu r = (case m_sdusBuffer r of [] \<Rightarrow> None
     | x # xs \<Rightarrow> Some (x, r\<lparr>m_sdusBuffer := xs\<rparr>))"

definition DeliverAll :: "reas \<Rightarrow> reas \<times> bytes list" where
  "DeliverAll r = (let (d, rest) = deliver_all (m_sdusBuffer r) in (r\<lparr>m_sdusBuffer := rest\<rparr>, d))"

text \<open>\<open>DeliverKeep\<close>: deliver while more than one SDU is left, then keep the last one as S0.\<close>

definition DeliverKeep :: "reas \<Rightarrow> (reas \<times> bytes list) option" where
  "DeliverKeep r =
     (let (d, rest) = deliver_while_more (m_sdusBuffer r)
      in map_option (\<lambda>r'. (r', d)) (KeepS0 (r\<lparr>m_sdusBuffer := rest\<rparr>)))"

text \<open>\<open>AppendS0\<close>: \<^verbatim>\<open>m_keepS0->AddAtEnd(m_sdusBuffer.front())\<close> and the pop.\<close>

definition AppendS0 :: "reas \<Rightarrow> (bytes \<times> reas) option" where
  "AppendS0 r =
     (case m_keepS0 r of None \<Rightarrow> None
      | Some s \<Rightarrow> (case PopSdu r of None \<Rightarrow> None
          | Some (x, r') \<Rightarrow> Some (s @ x, r'\<lparr>m_keepS0 := Some (s @ x)\<rparr>)))"

section \<open>The state machine\<close>

text \<open>The PDU had the expected sequence number; state \<^verbatim>\<open>WAITING_S0_FULL\<close>.\<close>

definition um_noloss_S0_FULL :: "u8 \<Rightarrow> reas \<Rightarrow> (reas \<times> bytes list) option" where
  "um_noloss_S0_FULL framingInfo r =
     (if framingInfo = FIRST_BYTE OR LAST_BYTE then
        Some (DeliverAll (r\<lparr>m_reassemblingState := WAITING_S0_FULL\<rparr>))
      else if framingInfo = FIRST_BYTE OR NO_LAST_BYTE then
        DeliverKeep (r\<lparr>m_reassemblingState := WAITING_SI_SF\<rparr>)
      else if framingInfo = NO_FIRST_BYTE OR LAST_BYTE then
        (case PopSdu (r\<lparr>m_reassemblingState := WAITING_S0_FULL\<rparr>) of
           None \<Rightarrow> None
         | Some (_, r') \<Rightarrow> Some (DeliverAll r'))
      else if framingInfo = NO_FIRST_BYTE OR NO_LAST_BYTE then
        (case PopSdu (r\<lparr>m_reassemblingState :=
                 (if length (m_sdusBuffer r) = 1 then WAITING_S0_FULL else WAITING_SI_SF)\<rparr>) of
           None \<Rightarrow> None
         | Some (_, r') \<Rightarrow>
             if m_sdusBuffer r' \<noteq> [] then DeliverKeep r' else Some (r', []))
      else Some (r, []))"

text \<open>
  The PDU had the expected sequence number; state \<^verbatim>\<open>WAITING_SI_SF\<close>. A PDU that starts with a
  first byte is the impossible transition: it is only logged, and the SDUs just split off stay in
  \<open>m_sdusBuffer\<close>.
\<close>

definition um_noloss_SI_SF :: "u8 \<Rightarrow> reas \<Rightarrow> (reas \<times> bytes list) option" where
  "um_noloss_SI_SF framingInfo r =
     (if framingInfo = NO_FIRST_BYTE OR LAST_BYTE then
        (case AppendS0 (r\<lparr>m_reassemblingState := WAITING_S0_FULL\<rparr>) of
           None \<Rightarrow> None
         | Some (sdu, r') \<Rightarrow> (let (r'', d) = DeliverAll r' in Some (r'', sdu # d)))
      else if framingInfo = NO_FIRST_BYTE OR NO_LAST_BYTE then
        (let r1 = r\<lparr>m_reassemblingState := WAITING_SI_SF\<rparr>
         in if length (m_sdusBuffer r1) = 1 then
              map_option (\<lambda>(_, r'). (r', [])) (AppendS0 r1)
            else (case AppendS0 r1 of
                    None \<Rightarrow> None
                  | Some (sdu, r') \<Rightarrow> map_option (\<lambda>(r'', d). (r'', sdu # d)) (DeliverKeep r')))
      else Some (r, []))"

text \<open>The PDU had another sequence number than the expected one.\<close>

definition um_loss_S0_FULL :: "u8 \<Rightarrow> reas \<Rightarrow> (reas \<times> bytes list) option" where
  "um_loss_S0_FULL framingInfo r =
     (if framingInfo = FIRST_BYTE OR LAST_BYTE then
        Some (DeliverAll (r\<lparr>m_reassemblingState := WAITING_S0_FULL\<rparr>))
      else if framingInfo = FIRST_BYTE OR NO_LAST_BYTE then
        DeliverKeep (r\<lparr>m_reassemblingState := WAITING_SI_SF\<rparr>)
      else if framingInfo = NO_FIRST_BYTE OR LAST_BYTE then
        (case PopSdu (r\<lparr>m_reassemblingState := WAITING_S0_FULL\<rparr>) of
           None \<Rightarrow> None
         | Some (_, r') \<Rightarrow> Some (DeliverAll r'))
      else if framingInfo = NO_FIRST_BYTE OR NO_LAST_BYTE then
        (case PopSdu (r\<lparr>m_reassemblingState :=
                 (if length (m_sdusBuffer r) = 1 then WAITING_S0_FULL else WAITING_SI_SF)\<rparr>) of
           None \<Rightarrow> None
         | Some (_, r') \<Rightarrow>
             if m_sdusBuffer r' \<noteq> [] then DeliverKeep r' else Some (r', []))
      else Some (r, []))"

definition um_loss_SI_SF :: "u8 \<Rightarrow> reas \<Rightarrow> (reas \<times> bytes list) option" where
  "um_loss_SI_SF framingInfo r =
     (if framingInfo = FIRST_BYTE OR LAST_BYTE then
        Some (DeliverAll (r\<lparr>m_reassemblingState := WAITING_S0_FULL, m_keepS0 := None\<rparr>))
      else if framingInfo = FIRST_BYTE OR NO_LAST_BYTE then
        DeliverKeep (r\<lparr>m_reassemblingState := WAITING_SI_SF, m_keepS0 := None\<rparr>)
      else if framingInfo = NO_FIRST_BYTE OR LAST_BYTE then
        (case PopSdu (r\<lparr>m_reassemblingState := WAITING_S0_FULL, m_keepS0 := None\<rparr>) of
           None \<Rightarrow> None
         | Some (_, r') \<Rightarrow> Some (DeliverAll r'))
      else if framingInfo = NO_FIRST_BYTE OR NO_LAST_BYTE then
        (case PopSdu (r\<lparr>m_reassemblingState :=
                   (if length (m_sdusBuffer r) = 1 then WAITING_S0_FULL else WAITING_SI_SF),
                 m_keepS0 := None\<rparr>) of
           None \<Rightarrow> None
         | Some (_, r') \<Rightarrow>
             if m_sdusBuffer r' \<noteq> [] then DeliverKeep r' else Some (r', []))
      else Some (r, []))"

text \<open>The whole of \<^verbatim>\<open>ReassembleAndDeliver\<close>: the new members and the SDUs delivered, in order.\<close>

definition um_ReassembleAndDeliver :: "reas \<Rightarrow> bytes \<Rightarrow> (reas \<times> bytes list) option" where
  "um_ReassembleAndDeliver r packet =
     (case RemoveHeader um_des packet of
        None \<Rightarrow> None
      | Some (rlcHeader, p) \<Rightarrow>
          (let framingInfo = uh_framingInfo rlcHeader;
               currSeqNumber = uh_sequenceNumber rlcHeader;
               expectedSnLost = sn_neq currSeqNumber (m_expectedSeqNumber r);
               r1 = r\<lparr>m_expectedSeqNumber :=
                       (if expectedSnLost then sn_plus currSeqNumber 1
                        else sn_inc (m_expectedSeqNumber r))\<rparr>
           in (case um_split (uh_extensionBits rlcHeader) (uh_lengthIndicators rlcHeader) p of
                 None \<Rightarrow> None
               | Some sdus \<Rightarrow>
                   (let r2 = r1\<lparr>m_sdusBuffer := m_sdusBuffer r1 @ sdus\<rparr>
                    in if \<not> expectedSnLost then
                         (case m_reassemblingState r2 of
                            WAITING_S0_FULL \<Rightarrow> um_noloss_S0_FULL framingInfo r2
                          | WAITING_SI_SF \<Rightarrow> um_noloss_SI_SF framingInfo r2
                          | NONE \<Rightarrow> Some (r2, []))
                       else
                         (case m_reassemblingState r2 of
                            WAITING_S0_FULL \<Rightarrow> um_loss_S0_FULL framingInfo r2
                          | WAITING_SI_SF \<Rightarrow> um_loss_SI_SF framingInfo r2
                          | NONE \<Rightarrow> Some (r2, []))))))"

section \<open>Facts about the loops\<close>

lemma deliver_all_eq [simp]: "deliver_all xs = (xs, [])"
  by (induction xs) auto

lemma deliver_while_more_eq [simp]:
  "xs \<noteq> [] \<Longrightarrow> deliver_while_more xs = (butlast xs, [last xs])"
  by (induction xs rule: deliver_while_more.induct) auto

lemma DeliverAll_eq [simp]: "DeliverAll r = (r\<lparr>m_sdusBuffer := []\<rparr>, m_sdusBuffer r)"
  by (simp add: DeliverAll_def)

lemma DeliverKeep_eq [simp]:
  "m_sdusBuffer r \<noteq> [] \<Longrightarrow>
   DeliverKeep r =
     Some (r\<lparr>m_sdusBuffer := [], m_keepS0 := Some (last (m_sdusBuffer r))\<rparr>, butlast (m_sdusBuffer r))"
  by (simp add: DeliverKeep_def KeepS0_def)

lemma PopSdu_eq [simp]:
  "m_sdusBuffer r = x # xs \<Longrightarrow> PopSdu r = Some (x, r\<lparr>m_sdusBuffer := xs\<rparr>)"
  by (simp add: PopSdu_def)

lemma AppendS0_eq [simp]:
  "m_keepS0 r = Some s \<Longrightarrow> m_sdusBuffer r = x # xs \<Longrightarrow>
   AppendS0 r = Some (s @ x, r\<lparr>m_sdusBuffer := xs, m_keepS0 := Some (s @ x)\<rparr>)"
  by (simp add: AppendS0_def)

lemma um_split_neq_Nil: "um_split es ls p = Some fs \<Longrightarrow> fs \<noteq> []"
  by (induction es ls p arbitrary: fs rule: um_split.induct)
     (auto simp: Let_def split: if_splits list.splits)

text \<open>The length indicators of a header cut a concatenation of fields back into the fields.\<close>

lemma um_split_concat:
  assumes "\<forall>f\<in>set fs. length f < 2 ^ 16"
  shows "um_split (ext_pattern (length fs)) (map (\<lambda>f. word_of_nat (length f)) fs) (concat fs @ q)
    = Some (fs @ [q])"
  using assms
proof (induction fs)
  case (Cons f fs)
  then have "unat (word_of_nat (length f) :: u16) = length f"
    by (simp add: unat_of_nat)
  with Cons show ?case
    by (simp add: ext_defs)
qed (simp add: ext_defs)

end
