(* ===== verification/RlcReasSpec.thy ===== *)
theory RlcReasSpec
  imports RlcReas "HOL-Library.Sublist"
begin

text \<open>
  What reassembly promises. A PDU carries a non-empty list of fields of consecutive SDUs; its
  framing info says whether the first field continues an SDU begun earlier and whether the last
  field is continued by the next PDU. The abstract reassembler keeps the beginning of the SDU
  in progress; \<^verbatim>\<open>ReassembleAndDeliver\<close> refines it, and under losses it delivers a subsequence of
  the SDUs.
\<close>

section \<open>The abstract reassembler\<close>

record pdu_fields =
  pf_noFirst :: bool
  pf_noLast :: bool
  pf_fields :: "bytes list"

text \<open>The fields with the kept beginning put in front of the first one.\<close>

definition join :: "bytes option \<Rightarrow> bytes list \<Rightarrow> bytes list" where
  "join kept fs = (case kept of None \<Rightarrow> fs
     | Some s \<Rightarrow> (case fs of [] \<Rightarrow> [] | f # fs' \<Rightarrow> (s @ f) # fs'))"

text \<open>The SDUs completed by a PDU and the beginning kept for the next one.\<close>

definition reas_spec :: "bytes option \<Rightarrow> pdu_fields \<Rightarrow> bytes option \<times> bytes list" where
  "reas_spec kept u =
     (let all = join kept (pf_fields u)
      in if pf_noLast u then (Some (last all), butlast all) else (None, all))"

text \<open>A PDU fits the SDU in progress.\<close>

definition pdu_fits :: "bytes option \<Rightarrow> pdu_fields \<Rightarrow> bool" where
  "pdu_fits kept u \<longleftrightarrow> pf_fields u \<noteq> [] \<and> (pf_noFirst u \<longleftrightarrow> kept \<noteq> None)"

text \<open>The framing info of a PDU.\<close>

definition framing_of :: "bool \<Rightarrow> bool \<Rightarrow> u8" where
  "framing_of nf nl = (if nf then NO_FIRST_BYTE else FIRST_BYTE) OR (if nl then NO_LAST_BYTE else LAST_BYTE)"

lemma framing_values [simp]:
  "FIRST_BYTE OR LAST_BYTE = 0" "FIRST_BYTE OR NO_LAST_BYTE = 1"
  "NO_FIRST_BYTE OR LAST_BYTE = 2" "NO_FIRST_BYTE OR NO_LAST_BYTE = 3"
  by (simp_all add: framing_defs)

lemma framing_of_simps [simp]:
  "framing_of False False = 0" "framing_of False True = 1"
  "framing_of True False = 2" "framing_of True True = 3"
  by (simp_all add: framing_of_def)

section \<open>Relation of the members to the abstract state\<close>

definition reas_rel :: "bytes option \<Rightarrow> reas \<Rightarrow> bool" where
  "reas_rel kept r \<longleftrightarrow> m_sdusBuffer r = [] \<and>
     (case kept of None \<Rightarrow> m_reassemblingState r = WAITING_S0_FULL
      | Some s \<Rightarrow> m_reassemblingState r = WAITING_SI_SF \<and> m_keepS0 r = Some s)"

text \<open>What a received packet contains.\<close>

definition um_contents :: "bytes \<Rightarrow> sn10 \<Rightarrow> pdu_fields \<Rightarrow> bool" where
  "um_contents packet sn u \<longleftrightarrow>
     (\<exists>h p. RemoveHeader um_des packet = Some (h, p) \<and> m_value (uh_sequenceNumber h) = m_value sn \<and>
        uh_framingInfo h = framing_of (pf_noFirst u) (pf_noLast u) \<and>
        um_split (uh_extensionBits h) (uh_lengthIndicators h) p = Some (pf_fields u))"

lemma reas_rel_init [simp]: "reas_rel None reas_init"
  by (simp add: reas_rel_def reas_init_def)

lemmas um_fsm_defs = um_noloss_S0_FULL_def um_noloss_SI_SF_def um_loss_S0_FULL_def
  um_loss_SI_SF_def

text \<open>A PDU with the expected sequence number that fits: the SDUs of the specification.\<close>

lemma um_reassemble_in_sequence:
  assumes rel: "reas_rel kept r" and fits: "pdu_fits kept u"
    and c: "um_contents packet (m_expectedSeqNumber r) u"
  shows "\<exists>r'. um_ReassembleAndDeliver r packet = Some (r', snd (reas_spec kept u)) \<and>
     reas_rel (fst (reas_spec kept u)) r' \<and>
     m_expectedSeqNumber r' = sn_inc (m_expectedSeqNumber r)"
proof -
  obtain f fs where fs: "pf_fields u = f # fs"
    using fits by (auto simp: pdu_fits_def neq_Nil_conv)
  from c obtain h p where h: "RemoveHeader um_des packet = Some (h, p)"
    "m_value (uh_sequenceNumber h) = m_value (m_expectedSeqNumber r)"
    "uh_framingInfo h = framing_of (pf_noFirst u) (pf_noLast u)"
    "um_split (uh_extensionBits h) (uh_lengthIndicators h) p = Some (f # fs)"
    by (auto simp: um_contents_def fs)
  show ?thesis
    using rel fits fs h
    by (cases kept; cases "pf_noLast u"; cases fs rule: rev_cases)
       (auto simp: um_ReassembleAndDeliver_def reas_rel_def pdu_fits_def reas_spec_def join_def
         sn_neq_def Let_def um_fsm_defs)
qed

section \<open>Any PDU: the members stay well formed\<close>

definition reas_wf :: "reas \<Rightarrow> bool" where
  "reas_wf r \<longleftrightarrow> m_reassemblingState r \<noteq> NONE \<and>
     (m_reassemblingState r = WAITING_SI_SF \<longrightarrow> m_keepS0 r \<noteq> None)"

lemma reas_wf_init [simp]: "reas_wf reas_init"
  by (simp add: reas_wf_def reas_init_def)

lemma reas_rel_wf: "reas_rel kept r \<Longrightarrow> reas_wf r"
  by (cases kept) (auto simp: reas_rel_def reas_wf_def)

abbreviation keeps_expected :: "reas \<Rightarrow> reas \<Rightarrow> bool" where
  "keeps_expected r r' \<equiv> m_expectedSeqNumber r' = m_expectedSeqNumber r"

lemma um_fsm_total:
  assumes "reas_wf r" and "m_sdusBuffer r \<noteq> []"
  shows "m_reassemblingState r = WAITING_S0_FULL \<Longrightarrow>
           \<exists>r' d. um_noloss_S0_FULL fi r = Some (r', d) \<and> reas_wf r' \<and> keeps_expected r r'"
    and "m_reassemblingState r = WAITING_SI_SF \<Longrightarrow>
           \<exists>r' d. um_noloss_SI_SF fi r = Some (r', d) \<and> reas_wf r' \<and> keeps_expected r r'"
    and "m_reassemblingState r = WAITING_S0_FULL \<Longrightarrow>
           \<exists>r' d. um_loss_S0_FULL fi r = Some (r', d) \<and> reas_wf r' \<and> keeps_expected r r'"
    and "m_reassemblingState r = WAITING_SI_SF \<Longrightarrow>
           \<exists>r' d. um_loss_SI_SF fi r = Some (r', d) \<and> reas_wf r' \<and> keeps_expected r r'"
  using assms
  by (auto simp: neq_Nil_conv reas_wf_def um_fsm_defs Let_def split: list.splits)

text \<open>A packet whose header can be read.\<close>

definition um_readable :: "bytes \<Rightarrow> u16 \<Rightarrow> bool" where
  "um_readable packet sn \<longleftrightarrow>
     (\<exists>h p fs. RemoveHeader um_des packet = Some (h, p) \<and> m_value (uh_sequenceNumber h) = sn \<and>
        um_split (uh_extensionBits h) (uh_lengthIndicators h) p = Some fs)"

lemma um_contents_readable: "um_contents packet sn u \<Longrightarrow> um_readable packet (m_value sn)"
  by (auto simp: um_contents_def um_readable_def)

text \<open>The members when the state machine runs.\<close>

definition reas_next :: "reas \<Rightarrow> sn10 \<Rightarrow> bytes list \<Rightarrow> reas" where
  "reas_next r sn fs = r\<lparr>
     m_expectedSeqNumber := (if sn_neq sn (m_expectedSeqNumber r) then sn_plus sn 1
       else sn_inc (m_expectedSeqNumber r)),
     m_sdusBuffer := m_sdusBuffer r @ fs\<rparr>"

lemma reas_next_simps [simp]:
  "m_sdusBuffer (reas_next r sn fs) = m_sdusBuffer r @ fs"
  "m_reassemblingState (reas_next r sn fs) = m_reassemblingState r"
  "m_keepS0 (reas_next r sn fs) = m_keepS0 r"
  "sn_val (m_expectedSeqNumber (reas_next r sn fs)) = (sn_val sn + 1) mod 1024"
  "reas_wf r \<Longrightarrow> reas_wf (reas_next r sn fs)"
  by (simp_all add: reas_next_def sn_neq_iff_val reas_wf_def)

lemma um_ReassembleAndDeliver_eq:
  assumes "RemoveHeader um_des packet = Some (h, p)"
    and "um_split (uh_extensionBits h) (uh_lengthIndicators h) p = Some fs"
  shows "um_ReassembleAndDeliver r packet =
    (let sn = uh_sequenceNumber h; r' = reas_next r sn fs in
     if \<not> sn_neq sn (m_expectedSeqNumber r) then
       (case m_reassemblingState r of
          WAITING_S0_FULL \<Rightarrow> um_noloss_S0_FULL (uh_framingInfo h) r'
        | WAITING_SI_SF \<Rightarrow> um_noloss_SI_SF (uh_framingInfo h) r'
        | NONE \<Rightarrow> Some (r', []))
     else (case m_reassemblingState r of
          WAITING_S0_FULL \<Rightarrow> um_loss_S0_FULL (uh_framingInfo h) r'
        | WAITING_SI_SF \<Rightarrow> um_loss_SI_SF (uh_framingInfo h) r'
        | NONE \<Rightarrow> Some (r', [])))"
  unfolding reas_next_def using assms by (simp add: um_ReassembleAndDeliver_def Let_def)

lemma um_ReassembleAndDeliver_total:
  assumes "reas_wf r" and "um_readable packet sn"
  shows "\<exists>r' d. um_ReassembleAndDeliver r packet = Some (r', d) \<and> reas_wf r' \<and>
     sn_val (m_expectedSeqNumber r') = (unat sn + 1) mod 1024"
proof -
  obtain h p fs where h: "RemoveHeader um_des packet = Some (h, p)"
      "m_value (uh_sequenceNumber h) = sn"
      "um_split (uh_extensionBits h) (uh_lengthIndicators h) p = Some fs"
    using assms(2) by (auto simp: um_readable_def)
  define r2 where "r2 = reas_next r (uh_sequenceNumber h) fs"
  have wf: "reas_wf r2" "m_sdusBuffer r2 \<noteq> []"
    and e: "sn_val (m_expectedSeqNumber r2) = (unat sn + 1) mod 1024"
    using assms(1) um_split_neq_Nil [OF h(3)] h(2) by (simp_all add: r2_def) (simp add: sn_val_def)
  show ?thesis
    using um_fsm_total [OF wf, of "uh_framingInfo h"] e assms(1)
    by (cases "m_reassemblingState r")
       (auto simp: um_ReassembleAndDeliver_eq [OF h(1,3)] Let_def r2_def reas_wf_def)
qed

section \<open>Losses: a subsequence of the SDUs\<close>

text \<open>
  After a loss the continuation of an SDU whose beginning is missing is dropped.
\<close>

definition reas_resync :: "pdu_fields \<Rightarrow> bytes option \<times> bytes list" where
  "reas_resync u =
     (let all = (if pf_noFirst u then tl (pf_fields u) else pf_fields u)
      in if pf_noLast u \<and> all \<noteq> [] then (Some (last all), butlast all) else (None, all))"

definition resyncs :: "(reas \<times> bytes list) option \<Rightarrow> pdu_fields \<Rightarrow> bool" where
  "resyncs res u \<longleftrightarrow>
     (\<exists>r'. res = Some (r', snd (reas_resync u)) \<and> reas_rel (fst (reas_resync u)) r')"

lemma um_fsm_resync:
  assumes "m_sdusBuffer r = pf_fields u" and "pf_fields u \<noteq> []"
    and "fi = framing_of (pf_noFirst u) (pf_noLast u)"
  shows "m_reassemblingState r = WAITING_S0_FULL \<Longrightarrow> resyncs (um_noloss_S0_FULL fi r) u"
    and "m_reassemblingState r = WAITING_S0_FULL \<Longrightarrow> resyncs (um_loss_S0_FULL fi r) u"
    and "resyncs (um_loss_SI_SF fi r) u"
  using assms
  by (cases "pf_noLast u"; cases "pf_noFirst u"; cases "tl (pf_fields u)";
      auto simp: neq_Nil_conv resyncs_def reas_resync_def reas_rel_def um_fsm_defs)+

lemma um_reassemble_resync:
  assumes rel: "reas_rel kept r" and ne: "pf_fields u \<noteq> []" and c: "um_contents packet sn u"
    and lost: "sn_val sn \<noteq> sn_val (m_expectedSeqNumber r) \<or> kept = None \<and> pf_noFirst u"
  shows "resyncs (um_ReassembleAndDeliver r packet) u"
proof -
  from c obtain h p where h: "RemoveHeader um_des packet = Some (h, p)"
    "m_value (uh_sequenceNumber h) = m_value sn"
    "uh_framingInfo h = framing_of (pf_noFirst u) (pf_noLast u)"
    "um_split (uh_extensionBits h) (uh_lengthIndicators h) p = Some (pf_fields u)"
    by (auto simp: um_contents_def)
  define r2 where "r2 = reas_next r (uh_sequenceNumber h) (pf_fields u)"
  have r2: "m_sdusBuffer r2 = pf_fields u" "m_reassemblingState r2 = m_reassemblingState r"
    using rel by (simp_all add: r2_def reas_rel_def)
  have st: "m_reassemblingState r = (if kept = None then WAITING_S0_FULL else WAITING_SI_SF)"
    using rel by (auto simp: reas_rel_def)
  have neq: "sn_neq (uh_sequenceNumber h) (m_expectedSeqNumber r) \<or> kept = None"
    using lost h(2) by (auto simp: sn_neq_def sn_val_def)
  show ?thesis
    using um_fsm_resync [OF r2(1) ne h(3)] st neq
    by (auto simp: um_ReassembleAndDeliver_eq [OF h(1,4)] Let_def r2(2) r2_def [symmetric]
        split: if_splits)
qed

section \<open>Streams of PDUs\<close>

text \<open>
  The receiver handles the PDUs that arrive, in order; \<open>None\<close> is a PDU that was lost.
\<close>

fun um_rx_stream :: "reas \<Rightarrow> bytes option list \<Rightarrow> (reas \<times> bytes list) option" where
  "um_rx_stream r [] = Some (r, [])"
| "um_rx_stream r (None # ps) = um_rx_stream r ps"
| "um_rx_stream r (Some packet # ps) =
     (case um_ReassembleAndDeliver r packet of
        None \<Rightarrow> None
      | Some (r', d) \<Rightarrow> map_option (\<lambda>(r'', d'). (r'', d @ d')) (um_rx_stream r' ps))"

text \<open>The SDUs that a sequence of PDUs completes.\<close>

fun spec_stream :: "bytes option \<Rightarrow> pdu_fields list \<Rightarrow> bytes option \<times> bytes list" where
  "spec_stream kept [] = (kept, [])"
| "spec_stream kept (u # us) =
     (let (k, d) = reas_spec kept u; (k', d') = spec_stream k us in (k', d @ d'))"

fun fits_stream :: "bytes option \<Rightarrow> pdu_fields list \<Rightarrow> bool" where
  "fits_stream kept [] = True"
| "fits_stream kept (u # us) = (pdu_fits kept u \<and> fits_stream (fst (reas_spec kept u)) us)"

text \<open>The PDUs that arrive carry the contents with consecutive sequence numbers from n.\<close>

fun on_air :: "nat \<Rightarrow> pdu_fields list \<Rightarrow> bytes option list \<Rightarrow> bool" where
  "on_air n (u # us) (p # ps) =
     ((case p of None \<Rightarrow> True | Some b \<Rightarrow> um_contents b (sn_make (word_of_nat n)) u) \<and>
      on_air ((n + 1) mod 1024) us ps)"
| "on_air n us ps = (us = [] \<and> ps = [])"

text \<open>Fewer than 1024 PDUs are lost in a row; m were lost just before.\<close>

fun gaps_ok :: "nat \<Rightarrow> bytes option list \<Rightarrow> bool" where
  "gaps_ok m [] = True"
| "gaps_ok m (None # ps) = (m + 1 < 1024 \<and> gaps_ok (m + 1) ps)"
| "gaps_ok m (Some _ # ps) = gaps_ok 0 ps"

lemma resync_spec:
  "pdu_fits kept u \<Longrightarrow>
   subseq (snd (reas_resync u)) (snd (reas_spec kept u)) \<and>
   (fst (reas_resync u) = fst (reas_spec kept u) \<or> fst (reas_resync u) = None)"
  by (cases "pf_noFirst u"; cases "pf_fields u"; cases "tl (pf_fields u)")
     (auto simp: pdu_fits_def reas_resync_def reas_spec_def join_def Let_def)

lemma unat_u16_small [simp]: "n < 1024 \<Longrightarrow> unat (word_of_nat n :: u16) = n"
  by (simp add: unat_of_nat)

lemma um_contents_val: "um_contents p sn u \<Longrightarrow> sn_val sn = sn_val sn' \<Longrightarrow> um_contents p sn' u"
  by (simp add: um_contents_def sn_val_def word_unat_eq_iff)

text \<open>One received PDU, whether or not PDUs were lost before it.\<close>

lemma um_rx_one:
  assumes rel: "reas_rel kr r" and fits: "pdu_fits kept u" and n: "n < 1024" and m: "m < 1024"
    and c: "um_contents p (sn_make (word_of_nat n)) u"
    and e: "sn_val (m_expectedSeqNumber r) = (n + 1024 - m) mod 1024"
    and kr: "m = 0 \<longrightarrow> kr = kept \<or> kr = None"
  shows "\<exists>r' d kr'. um_ReassembleAndDeliver r p = Some (r', d) \<and> reas_rel kr' r' \<and>
     subseq d (snd (reas_spec kept u)) \<and> (m = 0 \<and> kr = kept \<longrightarrow> d = snd (reas_spec kept u)
        \<and> kr' = fst (reas_spec kept u)) \<and>
     (kr' = fst (reas_spec kept u) \<or> kr' = None) \<and>
     sn_val (m_expectedSeqNumber r') = (n + 1) mod 1024"
proof (cases "m = 0 \<and> kr = kept")
  case True
  then have "sn_val (sn_make (word_of_nat n)) = sn_val (m_expectedSeqNumber r)"
    using n e by simp
  from um_contents_val [OF c this] um_reassemble_in_sequence [OF rel, of u p] True fits e n
  show ?thesis
    by force
next
  case False
  have "sn_val (sn_make (word_of_nat n)) \<noteq> sn_val (m_expectedSeqNumber r)
      \<or> kr = None \<and> pf_noFirst u"
  proof (cases "m = 0")
    case True
    with False kr fits show ?thesis
      by (auto simp: pdu_fits_def)
  next
    case False
    then show ?thesis
      using n m e by (cases "m \<le> n") (auto simp: mod_if)
  qed
  moreover have "pf_fields u \<noteq> []"
    using fits by (simp add: pdu_fits_def)
  ultimately have "resyncs (um_ReassembleAndDeliver r p) u"
    using um_reassemble_resync [OF rel _ c] by blast
  moreover have "\<exists>r' d. um_ReassembleAndDeliver r p = Some (r', d) \<and>
      sn_val (m_expectedSeqNumber r') = (n + 1) mod 1024"
    using um_ReassembleAndDeliver_total [OF reas_rel_wf [OF rel] um_contents_readable [OF c]] n
    by (auto simp flip: sn_val_def)
  ultimately show ?thesis
    using resync_spec [OF fits] False by (auto simp: resyncs_def)
qed

lemma um_rx_stream_lossy:
  assumes "reas_rel kr r" and "fits_stream kept us" and "n < 1024" and "m < 1024"
    and "on_air n us ps" and "gaps_ok m ps"
    and "sn_val (m_expectedSeqNumber r) = (n + 1024 - m) mod 1024"
    and "m = 0 \<longrightarrow> kr = kept \<or> kr = None"
  shows "\<exists>r' d. um_rx_stream r ps = Some (r', d) \<and> subseq d (snd (spec_stream kept us)) \<and>
    reas_wf r'"
  using assms
proof (induction n us ps arbitrary: kr kept r m rule: on_air.induct)
  case (1 n u us p ps)
  show ?case
  proof (cases p)
    case None
    have "n + 1024 - m = n + 1 + 1024 - (m + 1)"
      by simp
    then have "(n + 1024 - m) mod 1024 = ((n + 1) mod 1024 + 1024 - (m + 1)) mod 1024"
      using "1.prems"(3) None "1.prems"(6) by (cases "n = 1023") (auto simp: mod_if)
    with "1.IH" [of kr r "fst (reas_spec kept u)" "m + 1"] "1.prems" None
    obtain r' d where "um_rx_stream r ps = Some (r', d)" "reas_wf r'"
      "subseq d (snd (spec_stream (fst (reas_spec kept u)) us))"
      by auto
    then show ?thesis
      using None by (auto simp: case_prod_beta Let_def intro: list_emb_append2)
  next
    case (Some b)
    with um_rx_one [of kr r kept u n m b] "1.prems"
    obtain r1 d1 kr1 where r1: "um_ReassembleAndDeliver r b = Some (r1, d1)" "reas_rel kr1 r1"
      "subseq d1 (snd (reas_spec kept u))" "kr1 = fst (reas_spec kept u) \<or> kr1 = None"
      "sn_val (m_expectedSeqNumber r1) = (n + 1) mod 1024"
      by auto
    from "1.IH" [of kr1 r1 "fst (reas_spec kept u)" 0] "1.prems" Some r1
    obtain r' d where "um_rx_stream r1 ps = Some (r', d)" "reas_wf r'"
      "subseq d (snd (spec_stream (fst (reas_spec kept u)) us))"
      by auto
    with r1 show ?thesis
      by (auto simp: Some case_prod_beta Let_def intro: list_emb_append_mono)
  qed
qed (auto dest: reas_rel_wf)

lemma um_rx_stream_lossless:
  assumes "reas_rel kept r" and "fits_stream kept us" and "n < 1024"
    and "on_air n us (map Some ps)" and "sn_val (m_expectedSeqNumber r) = n"
  shows "\<exists>r'. um_rx_stream r (map Some ps) = Some (r', snd (spec_stream kept us)) \<and>
    reas_rel (fst (spec_stream kept us)) r'"
  using assms
proof (induction us arbitrary: kept r n ps)
  case Nil
  then show ?case
    by (cases ps) auto
next
  case (Cons u us)
  then obtain p ps' where ps: "ps = p # ps'"
    by (cases ps) auto
  from um_rx_one [of kept r kept u n 0 p] Cons.prems ps
  obtain r1 where r1: "um_ReassembleAndDeliver r p = Some (r1, snd (reas_spec kept u))"
    "reas_rel (fst (reas_spec kept u)) r1" "sn_val (m_expectedSeqNumber r1) = (n + 1) mod 1024"
    by auto
  from Cons.IH [of "fst (reas_spec kept u)" r1 "(n + 1) mod 1024" ps'] Cons.prems ps r1
  show ?case
    by (auto simp: case_prod_beta Let_def)
qed

end
