(* ===== verification/RlcUmTx.thy ===== *)
theory RlcUmTx
  imports RlcSap RlcReasSpec
begin

text \<open>
  The unacknowledged mode \<^verbatim>\<open>LteRlcUm\<close> of \<^verbatim>\<open>src/lte/model/lte-rlc-um.cc\<close>, transmitting side:
  queueing of SDUs, segmentation and concatenation into PDUs at the size granted by the MAC, and
  the buffer status reports. The receiving side of the same class is in theory RlcUmRx.
\<close>

section \<open>State\<close>

text \<open>The values of \<^verbatim>\<open>LteRlcSduStatusTag\<close>, a packet tag of the queued SDUs and segments.\<close>

datatype sdu_status = FULL_SDU | FIRST_SEGMENT | MIDDLE_SEGMENT | LAST_SEGMENT | ANY_SEGMENT

record tagged_pdu = tx_pdu + m_sduStatus :: sdu_status

record rlc_um =
  um_base :: rlc_base
  um_maxTxBufferSize :: u32
  um_txBufferSize :: u32
  um_txBuffer :: "tagged_pdu list"
  um_rxBuffer :: "(u16 \<times> bytes) list"
  um_reas :: reas
  um_sequenceNumber :: sn10
  um_vrUr :: sn10
  um_vrUx :: sn10
  um_vrUh :: sn10
  um_windowSize :: u16
  um_reorderingTimerValue :: time_ns
  um_reorderingTimer :: "time_ns option"
  um_rbsTimer :: "time_ns option"
  um_enablePdcpDiscarding :: bool
  um_discardTimerMs :: u32

text \<open>The constructor and the default values of the attributes.\<close>

definition um_init :: rlc_um where
  "um_init = \<lparr>um_base = rlc_base_init, um_maxTxBufferSize = 10 * 1024, um_txBufferSize = 0,
     um_txBuffer = [], um_rxBuffer = [], um_reas = reas_init, um_sequenceNumber = sn_make 0,
     um_vrUr = sn_make 0, um_vrUx = sn_make 0, um_vrUh = sn_make 0, um_windowSize = 512,
     um_reorderingTimerValue = MilliSeconds 100, um_reorderingTimer = None, um_rbsTimer = None,
     um_enablePdcpDiscarding = True, um_discardTimerMs = 0\<rparr>"

definition um_DoDispose :: "rlc_um \<Rightarrow> rlc_um" where
  "um_DoDispose s = s\<lparr>um_reorderingTimer := None, um_rbsTimer := None\<rparr>"

section \<open>Submission and reports\<close>

definition um_DoReportBufferStatus :: "time_ns \<Rightarrow> rlc_um \<Rightarrow> ReportBufferStatusParameters" where
  "um_DoReportBufferStatus now s =
     \<lparr>rbs_rnti = rlc_rnti (um_base s), rbs_lcid = rlc_lcid (um_base s),
      rbs_txQueueSize =
        (if um_txBuffer s \<noteq> [] then um_txBufferSize s + 2 * word_of_nat (length (um_txBuffer s)) else 0),
      rbs_txQueueHolDelay = hol_delay now (um_txBuffer s),
      rbs_retxQueueSize = 0, rbs_retxQueueHolDelay = 0, rbs_statusPduSize = 0\<rparr>"

text \<open>
  The head-of-line delay is compared with the discard timer when PDCP discarding is enabled. The
  outcome is passed to the drop trace only: the packet is stored all the same.
\<close>

definition um_hol_expired :: "time_ns \<Rightarrow> rlc_um \<Rightarrow> bool" where
  "um_hol_expired now s =
     (let discardTimerMs = (if um_discardTimerMs s > 0 then um_discardTimerMs s
                            else ucast (rlc_packetDelayBudgetMs (um_base s)));
          headOfLineDelayInMs = (case um_txBuffer s of [] \<Rightarrow> 0
            | x # _ \<Rightarrow> (word_of_int (GetMilliSeconds (now - m_waitingSince x)) :: u32))
      in discardTimerMs < headOfLineDelayInMs)"

definition um_DoTransmitPdcpPdu :: "time_ns \<Rightarrow> bytes \<Rightarrow> rlc_um \<Rightarrow> rlc_um \<times> rlc_action list" where
  "um_DoTransmitPdcpPdu now p s =
     (let (s1, as1) =
        (if um_txBufferSize s + GetSize p \<le> um_maxTxBufferSize s then
           (s\<lparr>um_txBuffer := um_txBuffer s @
                [\<lparr>m_pdu = p, m_waitingSince = now, m_sduStatus = FULL_SDU\<rparr>],
              um_txBufferSize := um_txBufferSize s + GetSize p\<rparr>,
            if um_enablePdcpDiscarding s \<and> um_hol_expired now s then [TxDrop p] else [])
         else (s, [TxDrop p]))
      in (s1\<lparr>um_rbsTimer := None\<rparr>, as1 @ [ReportBufferStatus (um_DoReportBufferStatus now s1)]))"

section \<open>Segmentation and concatenation\<close>

text \<open>The new tags of the segment taken and of the segment given back.\<close>

definition split_status :: "sdu_status \<Rightarrow> bool \<Rightarrow> sdu_status \<times> sdu_status" where
  "split_status oldTag wholeTaken =
     (let (newTag, oldTag') =
        (if oldTag = FULL_SDU then (FIRST_SEGMENT, LAST_SEGMENT)
         else if oldTag = LAST_SEGMENT then (MIDDLE_SEGMENT, oldTag)
         else (oldTag, oldTag))
      in if wholeTaken then
           (if newTag = FIRST_SEGMENT then (FULL_SDU, oldTag')
            else if newTag = MIDDLE_SEGMENT then (LAST_SEGMENT, oldTag')
            else (newTag, oldTag'))
         else (newTag, oldTag'))"

text \<open>
  The \<^verbatim>\<open>while\<close> loop. The arguments are the local variables and the members it changes:
  \<^verbatim>\<open>firstSegment\<close> (with its tag and time), \<^verbatim>\<open>m_txBuffer\<close>, \<^verbatim>\<open>m_txBufferSize\<close>,
  \<^verbatim>\<open>nextSegmentSize\<close>, \<^verbatim>\<open>nextSegmentId\<close>, \<^verbatim>\<open>rlcHeader\<close> and \<^verbatim>\<open>dataField\<close>. Only the third branch
  leaves a first segment for another iteration, and it has removed it from the buffer.
\<close>

type_synonym data_field = "(bytes \<times> sdu_status) list"

fun um_seg_loop :: "tagged_pdu \<Rightarrow> tagged_pdu list \<Rightarrow> u32 \<Rightarrow> nat \<Rightarrow> nat \<Rightarrow> um_header \<Rightarrow> data_field \<Rightarrow>
    tagged_pdu list \<times> u32 \<times> um_header \<times> data_field" where
  "um_seg_loop firstSegment txBuffer txBufferSize nextSegmentSize nextSegmentId rlcHeader dataField =
     (if length (m_pdu firstSegment) > 0 \<and> nextSegmentSize > 0 then
        (if length (m_pdu firstSegment) > nextSegmentSize \<or> length (m_pdu firstSegment) > 2047 then
           (let currSegmentSize = min (length (m_pdu firstSegment)) nextSegmentSize;
                newSegment = CreateFragment0 currSegmentSize (m_pdu firstSegment);
                rest = RemoveAtStart currSegmentSize (m_pdu firstSegment);
                (newTag, oldTag) = split_status (m_sduStatus firstSegment) (rest = []);
                (buf', sz') =
                  (if length rest > 0 then
                     (firstSegment\<lparr>m_pdu := rest, m_sduStatus := oldTag\<rparr> # txBuffer,
                      txBufferSize + GetSize rest)
                   else (txBuffer, txBufferSize))
            in (buf', sz', um_PushExtensionBit DATA_FIELD_FOLLOWS rlcHeader,
                dataField @ [(newSegment, newTag)]))
         else if nextSegmentSize - length (m_pdu firstSegment) \<le> 2 \<or> txBuffer = [] then
           (txBuffer, txBufferSize, um_PushExtensionBit DATA_FIELD_FOLLOWS rlcHeader,
            dataField @ [(m_pdu firstSegment, m_sduStatus firstSegment)])
         else
           (case txBuffer of
              [] \<Rightarrow> (txBuffer, txBufferSize, rlcHeader, dataField)
            | x # xs \<Rightarrow>
                um_seg_loop x xs (txBufferSize - GetSize (m_pdu x))
                  (nextSegmentSize -
                     ((if nextSegmentId mod 2 \<noteq> 0 then 2 else 1) + length (m_pdu firstSegment)))
                  (nextSegmentId + 1)
                  (um_PushLengthIndicator (word_of_nat (length (m_pdu firstSegment)))
                     (um_PushExtensionBit E_LI_FIELDS_FOLLOWS rlcHeader))
                  (dataField @ [(m_pdu firstSegment, m_sduStatus firstSegment)])))
      else (txBuffer, txBufferSize, rlcHeader, dataField))"

declare um_seg_loop.simps [simp del]

text \<open>The framing info from the tags of the first and of the last element of the data field.\<close>

definition framing_from_tags :: "data_field \<Rightarrow> u8" where
  "framing_from_tags dataField =
     (if snd (hd dataField) = FULL_SDU \<or> snd (hd dataField) = FIRST_SEGMENT
      then FIRST_BYTE else NO_FIRST_BYTE) OR
     (if snd (last dataField) = FULL_SDU \<or> snd (last dataField) = LAST_SEGMENT
      then LAST_BYTE else NO_LAST_BYTE)"

text \<open>
  \<^verbatim>\<open>DoNotifyTxOpportunity\<close>. An empty data field makes the code dereference the end iterator:
  \<open>None\<close>.
\<close>

definition um_DoNotifyTxOpportunity ::
    "time_ns \<Rightarrow> TxOpportunityParameters \<Rightarrow> rlc_um \<Rightarrow> (rlc_um \<times> rlc_action list) option" where
  "um_DoNotifyTxOpportunity now txOpParams s =
     (if txo_bytes txOpParams \<le> 2 then Some (s, [])
      else case um_txBuffer s of
        [] \<Rightarrow> Some (s, [])
      | x # xs \<Rightarrow>
          (let (buf', sz', hdr, dataField) =
             um_seg_loop x xs (um_txBufferSize s - GetSize (m_pdu x)) (txo_bytes txOpParams - 2) 1
               um_header_init []
           in if dataField = [] then None
              else
                (let (sn, sn') = sn_postinc (um_sequenceNumber s);
                     rlcHeader = um_SetFramingInfo (framing_from_tags dataField)
                                   (um_SetSequenceNumber sn hdr);
                     s1 = s\<lparr>um_txBuffer := buf', um_txBufferSize := sz', um_sequenceNumber := sn'\<rparr>;
                     s2 = (if um_txBuffer s1 \<noteq> []
                           then s1\<lparr>um_rbsTimer := Some (now + MilliSeconds 10)\<rparr> else s1)
                 in (case AddHeader um_GetSerializedSize um_Serialize rlcHeader
                            (concat (map fst dataField)) of
                       None \<Rightarrow> None
                     | Some packet \<Rightarrow>
                         Some (s2, [TransmitPdu (answer_params (um_base s) txOpParams packet)])))))"

definition um_ExpireRbsTimer :: "time_ns \<Rightarrow> rlc_um \<Rightarrow> rlc_um \<times> rlc_action list" where
  "um_ExpireRbsTimer now s =
     (let s0 = s\<lparr>um_rbsTimer := None\<rparr> in
      if um_txBuffer s0 \<noteq> [] then
        (s0\<lparr>um_rbsTimer := Some (now + MilliSeconds 10)\<rparr>,
         [ReportBufferStatus (um_DoReportBufferStatus now s0)])
      else (s0, []))"

definition um_DoNotifyHarqDeliveryFailure :: "rlc_um \<Rightarrow> rlc_um" where
  "um_DoNotifyHarqDeliveryFailure s = s"

section \<open>The header under construction\<close>

text \<open>
  The header before the last extension bit has a length indicator for every field of the data
  field; the sizes of the header and of the data field account for the bytes granted.
\<close>

definition lis_of :: "bytes list \<Rightarrow> u16 list" where
  "lis_of fs = map (\<lambda>f. word_of_nat (length f)) fs"

lemma lis_of_simps [simp]:
  "lis_of [] = []" "lis_of (fs @ gs) = lis_of fs @ lis_of gs" "length (lis_of fs) = length fs"
  "lis_of (f # fs) = word_of_nat (length f) # lis_of fs"
  by (simp_all add: lis_of_def)

definition hdr_for :: "bytes list \<Rightarrow> um_header \<Rightarrow> bool" where
  "hdr_for fs h \<longleftrightarrow> um_open h \<and> uh_lengthIndicators h = lis_of fs \<and> (\<forall>f\<in>set fs. length f \<le> 2047)"

lemma hdr_for_init [simp]: "hdr_for [] um_header_init"
  by (simp add: hdr_for_def um_open_init) (simp add: um_header_init_def)

lemma hdr_for_push:
  assumes "hdr_for fs h" and "length f \<le> 2047" and "2 + li_size (length fs) < 2 ^ 16"
  shows "hdr_for (fs @ [f]) (um_PushLengthIndicator (word_of_nat (length f))
    (um_PushExtensionBit E_LI_FIELDS_FOLLOWS h))"
proof -
  have "(word_of_nat (length f) :: u16) < 2048"
    using assms(2) by (simp add: word_less_nat_alt unat_of_nat)
  then show ?thesis
    using assms um_push_more [of h "word_of_nat (length f)"]
    by (auto simp: hdr_for_def um_PushLengthIndicator_def um_PushExtensionBit_def Let_def)
qed

section \<open>The loop: sizes\<close>

text \<open>
  What the loop leaves: the data field has at least one more element, the header one extension
  bit more than length indicators, and the granted bytes are not exceeded. A header with c fixed
  bytes stays within its 16-bit length when the queue has few SDUs or the grant is small.
\<close>

lemma um_seg_loop_sizes:
  assumes "um_seg_loop x buf sz n i h df = (buf', sz', h', df')"
    and "hdr_for (map fst df) h" and "i = Suc (length df)"
    and "0 < length (m_pdu x)" and "\<forall>y\<in>set buf. 0 < length (m_pdu y)" and "0 < n"
    and "unat sz = total_size (pdus buf)" and "unat sz + length (m_pdu x) < 2 ^ 32"
    and "2 \<le> c" and "c + li_size (length df + length buf) < 2 ^ 16 \<or> c + li_size (length df) + n < 2 ^ 16"
  shows "\<exists>h0. h' = um_PushExtensionBit DATA_FIELD_FOLLOWS h0 \<and> hdr_for (map fst (butlast df')) h0 \<and>
    df' \<noteq> [] \<and> c + li_size (length df' - 1) < 2 ^ 16 \<and>
    total_size (map fst df') + li_size (length df' - 1) \<le> total_size (map fst df) + n + li_size (length df) \<and>
    unat sz' = total_size (pdus buf') \<and> unat sz' \<le> unat sz + length (m_pdu x)"
  using assms
proof (induction x buf sz n i h df rule: um_seg_loop.induct)
  case (1 x buf sz n i h df)
  let ?len = "length (m_pdu x)"
  consider (split) "?len > n \<or> ?len > 2047" | (last) "?len \<le> n" "?len \<le> 2047" "n - ?len \<le> 2 \<or> buf = []"
    | (more) y ys where "?len \<le> n" "?len \<le> 2047" "\<not> n - ?len \<le> 2" "buf = y # ys"
    by (metis linorder_not_less list.exhaust)
  then show ?case
  proof cases
    case split
    with "1.prems" li_size_mono [of "length df" "length df + length buf"] show ?thesis
      by (auto simp: um_seg_loop.simps [of x] Let_def min_def unat_add_GetSize
          split: prod.splits if_splits)
  next
    case last
    with "1.prems" li_size_mono [of "length df" "length df + length buf"] show ?thesis
      by (auto simp: um_seg_loop.simps [of x] Let_def)
  next
    case more
    have hdr: "hdr_for (map fst df @ [m_pdu x]) (um_PushLengthIndicator (word_of_nat ?len)
        (um_PushExtensionBit E_LI_FIELDS_FOLLOWS h))"
      using "1.prems"(2,9,10) more li_size_mono [of "length df" "length df + length buf"]
      by (intro hdr_for_push) auto
    define k :: nat where "k = (if i mod 2 \<noteq> 0 then 2 else 1)"
    have k: "li_size (Suc (length df)) = li_size (length df) + k"
      using "1.prems"(3) by (simp add: li_size_Suc k_def) presburger
    have run: "um_seg_loop y ys (sz - GetSize (m_pdu y)) (n - (k + ?len)) (i + 1)
        (um_PushLengthIndicator (word_of_nat ?len) (um_PushExtensionBit E_LI_FIELDS_FOLLOWS h))
        (df @ [(m_pdu x, m_sduStatus x)]) = (buf', sz', h', df')"
      using "1.prems" more by (simp add: um_seg_loop.simps [of x] k_def)
    have sz: "unat (sz - GetSize (m_pdu y)) = total_size (pdus ys)"
      "total_size (pdus ys) + length (m_pdu y) < 2 ^ 32"
      using "1.prems"(7,8) more by (simp_all add: unat_sub_GetSize)
    have room: "c + li_size (length (df @ [(m_pdu x, m_sduStatus x)]) + length ys) < 2 ^ 16 \<or>
        c + li_size (length (df @ [(m_pdu x, m_sduStatus x)])) + (n - (k + ?len)) < 2 ^ 16"
      using "1.prems"(10) k more(1,3,4) by (auto simp: k_def)
    have "0 < n - (k + ?len)"
      using more by (auto simp: k_def)
    then show ?thesis
      using "1.IH" [OF _ _ _ more(4)] run more "1.prems" hdr sz k room by (fastforce simp: k_def)
  qed
qed

section \<open>The loop: contents\<close>

text \<open>
  The transmission buffer when the bytes \<open>kept\<close> of its first SDU have been sent: only the first
  element can be a last segment, all others are full SDUs, and no element is empty.
\<close>

definition um_tx_ok :: "bytes option \<Rightarrow> tagged_pdu list \<Rightarrow> bool" where
  "um_tx_ok kept buf \<longleftrightarrow>
     (case buf of [] \<Rightarrow> kept = None
      | x # xs \<Rightarrow> m_sduStatus x = (if kept = None then FULL_SDU else LAST_SEGMENT) \<and>
          (\<forall>y\<in>set xs. m_sduStatus y = FULL_SDU)) \<and>
     (\<forall>y\<in>set buf. 0 < length (m_pdu y))"

definition field_unit :: "data_field \<Rightarrow> pdu_fields" where
  "field_unit df = \<lparr>
     pf_noFirst = (snd (hd df) \<noteq> FULL_SDU \<and> snd (hd df) \<noteq> FIRST_SEGMENT),
     pf_noLast = (snd (last df) \<noteq> FULL_SDU \<and> snd (last df) \<noteq> LAST_SEGMENT),
     pf_fields = map fst df\<rparr>"

lemma framing_from_tags_of:
  "framing_from_tags df = framing_of (pf_noFirst (field_unit df)) (pf_noLast (field_unit df))"
  by (simp add: framing_from_tags_def framing_of_def field_unit_def)

lemma reas_spec_Cons:
  "df \<noteq> [] \<Longrightarrow>
   reas_spec kept (field_unit (f # df)) =
     (fst (reas_spec None (field_unit df)),
      join kept [fst f] @ snd (reas_spec None (field_unit df)))"
  by (cases kept) (auto simp: reas_spec_def field_unit_def join_def Let_def)

lemma um_tx_ok_Cons_None:
  "um_tx_ok kept (x # y # ys) \<Longrightarrow> um_tx_ok None (y # ys)"
  by (auto simp: um_tx_ok_def)

lemma um_seg_loop_contents:
  assumes "um_seg_loop x buf sz n i h df = (buf', sz', h', df')"
    and "um_tx_ok kept (x # buf)" and "0 < n"
  shows "\<exists>new. df' = df @ new \<and> new \<noteq> [] \<and> pdu_fits kept (field_unit new) \<and>
    um_tx_ok (fst (reas_spec kept (field_unit new))) buf' \<and>
    snd (reas_spec kept (field_unit new)) @ join (fst (reas_spec kept (field_unit new))) (pdus buf')
      = join kept (pdus (x # buf))"
  using assms
proof (induction x buf sz n i h df arbitrary: kept rule: um_seg_loop.induct)
  case (1 x buf sz n i h df)
  let ?len = "length (m_pdu x)"
  consider (split) "?len > n \<or> ?len > 2047" | (last) "?len \<le> n" "?len \<le> 2047" "n - ?len \<le> 2 \<or> buf = []"
    | (more) y ys where "?len \<le> n" "?len \<le> 2047" "\<not> n - ?len \<le> 2" "buf = y # ys"
    by (metis linorder_not_less list.exhaust)
  then show ?case
  proof cases
    case split
    define m where "m = min ?len n"
    define whole where "whole \<longleftrightarrow> drop m (m_pdu x) = []"
    have m: "m \<le> ?len" "take m (m_pdu x) @ drop m (m_pdu x) = m_pdu x" "0 < ?len"
      using "1.prems"(2) by (simp_all add: m_def um_tx_ok_def)
    define new where "new = (take m (m_pdu x), fst (split_status (m_sduStatus x) whole))"
    have "df' = df @ [new]" and
      buf': "buf' = (if whole then buf
         else x\<lparr>m_pdu := drop m (m_pdu x), m_sduStatus := LAST_SEGMENT\<rparr> # buf)"
      using "1.prems" split m(1,3)
      by (auto simp: um_seg_loop.simps [of x] Let_def CreateFragment0_def RemoveAtStart_def new_def
          whole_def um_tx_ok_def split_status_def simp flip: m_def split: prod.splits if_splits)
    moreover have "whole \<Longrightarrow> take m (m_pdu x) = m_pdu x"
      using m(2) by (simp add: whole_def)
    ultimately show ?thesis
      using "1.prems"(2) m(2)
      by (intro exI [of _ "[new]"], cases kept; cases whole)
         (auto simp: field_unit_def pdu_fits_def reas_spec_def join_def um_tx_ok_def new_def
           split_status_def whole_def Let_def split: list.splits)
  next
    case last
    with "1.prems" show ?thesis
      by (intro exI [of _ "[(m_pdu x, m_sduStatus x)]"], cases kept)
         (auto simp: um_seg_loop.simps [of x] field_unit_def pdu_fits_def reas_spec_def join_def
           um_tx_ok_def Let_def split: list.splits)
  next
    case more
    let ?k = "if i mod 2 \<noteq> 0 then 2 else 1"
    let ?f = "(m_pdu x, m_sduStatus x)"
    have x: "0 < ?len" "um_tx_ok None (y # ys)"
      using "1.prems"(2) more by (auto simp: um_tx_ok_def)
    have run: "um_seg_loop y ys (sz - GetSize (m_pdu y)) (n - (?k + ?len)) (i + 1)
        (um_PushLengthIndicator (word_of_nat ?len) (um_PushExtensionBit E_LI_FIELDS_FOLLOWS h))
        (df @ [?f]) = (buf', sz', h', df')"
      using "1.prems" more x(1) by (simp add: um_seg_loop.simps [of x])
    have "0 < n - (?k + ?len)"
      using more by auto
    then obtain new where new: "df' = (df @ [?f]) @ new" "new \<noteq> []" "pdu_fits None (field_unit new)"
      "um_tx_ok (fst (reas_spec None (field_unit new))) buf'"
      "snd (reas_spec None (field_unit new)) @
         join (fst (reas_spec None (field_unit new))) (pdus buf') = join None (pdus (y # ys))"
      using "1.IH" [OF _ _ _ more(4) run x(2)] more x(1) by auto
    have "pdu_fits kept (field_unit (?f # new))"
      using "1.prems"(2) by (auto simp: pdu_fits_def field_unit_def um_tx_ok_def split: if_splits)
    then show ?thesis
      using new more
      by (intro exI [of _ "?f # new"]) (auto simp: reas_spec_Cons join_def split: option.splits)
  qed
qed

section \<open>An opportunity\<close>

definition um_sizes_ok :: "rlc_um \<Rightarrow> bool" where
  "um_sizes_ok s \<longleftrightarrow> unat (um_txBufferSize s) = total_size (pdus (um_txBuffer s)) \<and>
     um_txBufferSize s \<le> um_maxTxBufferSize s \<and> unat (um_maxTxBufferSize s) \<le> 2 ^ 31 \<and>
     sn_wf (um_sequenceNumber s)"

lemma um_split_fields:
  assumes "hdr_for (map fst (butlast df)) h0" and "df \<noteq> []"
  shows "um_split (uh_extensionBits (um_PushExtensionBit DATA_FIELD_FOLLOWS h0))
      (uh_lengthIndicators h0) (concat (map fst df)) = Some (map fst df)"
proof -
  let ?fs = "map fst (butlast df)"
  have df: "map fst df = ?fs @ [fst (last df)]"
    using assms(2) by (cases df rule: rev_cases) simp_all
  have "\<forall>f\<in>set ?fs. length f < 2 ^ 16"
    using assms(1) by (force simp: hdr_for_def)
  from um_split_concat [OF this, of "fst (last df)"] show ?thesis
    using assms(1) unfolding df
    by (simp add: hdr_for_def um_open_def um_PushExtensionBit_def Let_def lis_of_def)
qed

lemma um_PushExtensionBit_lis [simp]:
  "uh_lengthIndicators (um_PushExtensionBit e h) = uh_lengthIndicators h"
  by (simp add: um_PushExtensionBit_def Let_def)

lemma um_Set_simps [simp]:
  "uh_extensionBits (um_SetFramingInfo fi h) = uh_extensionBits h"
  "uh_lengthIndicators (um_SetFramingInfo fi h) = uh_lengthIndicators h"
  "uh_headerLength (um_SetFramingInfo fi h) = uh_headerLength h"
  "uh_sequenceNumber (um_SetFramingInfo fi h) = uh_sequenceNumber h"
  "uh_extensionBits (um_SetSequenceNumber sn h) = uh_extensionBits h"
  "uh_lengthIndicators (um_SetSequenceNumber sn h) = uh_lengthIndicators h"
  "uh_headerLength (um_SetSequenceNumber sn h) = uh_headerLength h"
  "uh_sequenceNumber (um_SetSequenceNumber sn h) = sn"
  by (simp_all add: um_SetFramingInfo_def um_SetSequenceNumber_def)

lemma framing_of_mask [simp]: "framing_of nf nl AND 3 = framing_of nf nl"
  by (cases nf; cases nl) simp_all

text \<open>The packet built from a data field and its header.\<close>

lemma um_build_packet:
  assumes h0: "hdr_for (map fst (butlast df)) h0" and df: "df \<noteq> []" and sn: "sn_wf sn"
    and room: "2 + li_size (length df - 1) < 2 ^ 16"
  defines "h \<equiv> um_SetFramingInfo (framing_from_tags df)
                 (um_SetSequenceNumber sn (um_PushExtensionBit DATA_FIELD_FOLLOWS h0))"
  shows "\<exists>packet. AddHeader um_GetSerializedSize um_Serialize h (concat (map fst df)) = Some packet \<and>
    length packet = 2 + li_size (length df - 1) + total_size (map fst df) \<and>
    um_contents packet sn (field_unit df)"
proof -
  have wf: "um_hwf h"
    using um_push_last [of h0 sn] h0 sn room by (simp add: h_def hdr_for_def sn_wf_def)
  then obtain packet where p: "AddHeader um_GetSerializedSize um_Serialize h (concat (map fst df)) = Some packet"
    using um_codec.AddHeader_Some by blast
  have len: "length packet = 2 + li_size (length df - 1) + total_size (map fst df)"
  proof -
    have "um_GetSerializedSize h = 2 + li_size (length df - 1)"
      using wf h0 by (simp add: um_hwf_def um_GetSerializedSize_def h_def hdr_for_def)
    then show ?thesis
      using um_codec.AddHeader_length [OF wf p]
      by (simp add: total_size_def length_concat comp_def)
  qed
  from um_codec.RemoveHeader_AddHeader [OF wf p]
  obtain h' where h': "RemoveHeader um_des packet = Some (h', concat (map fst df))"
    "um_view h' = um_view h"
    by blast
  have "um_contents packet sn (field_unit df)"
    unfolding um_contents_def
  proof (intro exI conjI)
    show "RemoveHeader um_des packet = Some (h', concat (map fst df))"
      by (rule h'(1))
    show "m_value (uh_sequenceNumber h') = m_value sn"
      "uh_framingInfo h' = framing_of (pf_noFirst (field_unit df)) (pf_noLast (field_unit df))"
      using h'(2) by (simp_all add: um_view_def h_def framing_from_tags_of um_SetFramingInfo_def)
    show "um_split (uh_extensionBits h') (uh_lengthIndicators h') (concat (map fst df))
        = Some (pf_fields (field_unit df))"
      using h'(2) um_split_fields [OF h0 df]
      by (simp add: um_view_def h_def field_unit_def)
  qed
  with p len show ?thesis
    by blast
qed

text \<open>
  The 16-bit length of the header does not wrap when the grant is below 64 KB or when few SDUs are
  queued. Larger grants do not occur in LTE: a transport block has at most 9422 bytes.
\<close>

definition um_room :: "TxOpportunityParameters \<Rightarrow> rlc_um \<Rightarrow> bool" where
  "um_room o' s \<longleftrightarrow> txo_bytes o' < 2 ^ 16 \<or> length (um_txBuffer s) \<le> 43689"

text \<open>
  An opportunity of more than two bytes with data pending sends one PDU that fits, carries the
  next sequence number and continues the SDU in progress; the bytes of the SDUs completed by the
  PDU and those still to be sent are together the bytes that were pending.
\<close>

definition um_sends ::
    "bytes option \<Rightarrow> rlc_um \<Rightarrow> TxOpportunityParameters \<Rightarrow> rlc_um \<Rightarrow> bytes \<Rightarrow> pdu_fields \<Rightarrow> bool" where
  "um_sends kept s o' s' packet u \<longleftrightarrow>
     um_contents packet (um_sequenceNumber s) u \<and> pdu_fits kept u \<and>
     length packet \<le> txo_bytes o' \<and>
     um_sequenceNumber s' = sn_inc (um_sequenceNumber s) \<and>
     um_tx_ok (fst (reas_spec kept u)) (um_txBuffer s') \<and> um_sizes_ok s' \<and>
     snd (reas_spec kept u) @ join (fst (reas_spec kept u)) (pdus (um_txBuffer s'))
       = join kept (pdus (um_txBuffer s)) \<and>
     s' = s\<lparr>um_txBuffer := um_txBuffer s', um_txBufferSize := um_txBufferSize s',
       um_rbsTimer := um_rbsTimer s', um_sequenceNumber := sn_inc (um_sequenceNumber s)\<rparr>"

lemma um_contents_postinc:
  "sn_wf sn \<Longrightarrow> um_contents p (fst (sn_postinc sn)) u = um_contents p sn u"
  by (metis um_contents_val sn_val_postinc_ret sn_wf_nat mod_less)

lemma um_opportunity_sends:
  assumes sz: "um_sizes_ok s" and ok: "um_tx_ok kept (um_txBuffer s)"
    and ne: "um_txBuffer s \<noteq> []" and b: "2 < txo_bytes o'" and room: "um_room o' s"
  shows "\<exists>s' packet u.
    um_DoNotifyTxOpportunity now o' s = Some (s', [TransmitPdu (answer_params (um_base s) o' packet)]) \<and>
    um_sends kept s o' s' packet u"
proof -
  obtain x xs where buf: "um_txBuffer s = x # xs"
    using ne by (cases "um_txBuffer s") auto
  obtain buf' sz' h' df where run: "um_seg_loop x xs (um_txBufferSize s - GetSize (m_pdu x))
      (txo_bytes o' - 2) 1 um_header_init [] = (buf', sz', h', df)"
    by (metis prod_cases4)
  have pos: "0 < length (m_pdu x)" "\<forall>y\<in>set xs. 0 < length (m_pdu y)"
    using ok buf by (auto simp: um_tx_ok_def)
  have szx: "unat (um_txBufferSize s - GetSize (m_pdu x)) = total_size (pdus xs)"
    "total_size (pdus xs) + length (m_pdu x) = unat (um_txBufferSize s)"
    using sz buf by (simp_all add: um_sizes_ok_def unat_sub_GetSize)
  have "unat (um_txBufferSize s) < 2 ^ 32"
    using unsigned_less [of "um_txBufferSize s"] by simp
  moreover have "2 + li_size (length ([] :: data_field) + length xs) < 2 ^ 16 \<or>
      2 + li_size (length ([] :: data_field)) + (txo_bytes o' - 2) < 2 ^ 16"
    using room b buf li_size_mono [of "length xs" 43688] by (auto simp: um_room_def li_size_def)
  ultimately obtain h0 where h0: "h' = um_PushExtensionBit DATA_FIELD_FOLLOWS h0"
    "hdr_for (map fst (butlast df)) h0" "df \<noteq> []"
    "total_size (map fst df) + li_size (length df - 1) \<le> txo_bytes o' - 2"
    "unat sz' = total_size (pdus buf')" "unat sz' \<le> unat (um_txBufferSize s)"
    "2 + li_size (length df - 1) < 2 ^ 16"
    using um_seg_loop_sizes [OF run _ _ pos, of 2] szx b by auto
  from um_seg_loop_contents [OF run, of kept] ok buf b
  have c: "pdu_fits kept (field_unit df)" "um_tx_ok (fst (reas_spec kept (field_unit df))) buf'"
    "snd (reas_spec kept (field_unit df)) @ join (fst (reas_spec kept (field_unit df))) (pdus buf')
      = join kept (pdus (um_txBuffer s))"
    by auto
  have sn: "sn_wf (fst (sn_postinc (um_sequenceNumber s)))" "sn_wf (um_sequenceNumber s)"
    using sz by (simp_all add: um_sizes_ok_def)
  from um_build_packet [OF h0(2,3) sn(1) h0(7)] obtain packet where packet:
    "AddHeader um_GetSerializedSize um_Serialize (um_SetFramingInfo (framing_from_tags df)
       (um_SetSequenceNumber (fst (sn_postinc (um_sequenceNumber s))) h')) (concat (map fst df)) = Some packet"
    "length packet = 2 + li_size (length df - 1) + total_size (map fst df)"
    "um_contents packet (um_sequenceNumber s) (field_unit df)"
    by (auto simp: h0(1) um_contents_postinc [OF sn(2)])
  define s' where "s' = s\<lparr>um_txBuffer := buf', um_txBufferSize := sz',
    um_sequenceNumber := sn_inc (um_sequenceNumber s),
    um_rbsTimer := (if buf' \<noteq> [] then Some (now + MilliSeconds 10) else um_rbsTimer s)\<rparr>"
  have "um_DoNotifyTxOpportunity now o' s
      = Some (s', [TransmitPdu (answer_params (um_base s) o' packet)])"
    using b buf run h0(3) packet(1)
    by (simp add: um_DoNotifyTxOpportunity_def Let_def s'_def case_prod_beta)
  moreover have "um_sends kept s o' s' packet (field_unit df)"
    using c packet h0 sz b
    by (simp add: um_sends_def s'_def um_sizes_ok_def word_le_nat_alt)
  ultimately show ?thesis
    by blast
qed

lemma um_opportunity_idle:
  "um_txBuffer s = [] \<or> txo_bytes o' \<le> 2 \<Longrightarrow> um_DoNotifyTxOpportunity now o' s = Some (s, [])"
  by (auto simp: um_DoNotifyTxOpportunity_def)

section \<open>The queue contract\<close>

definition um_qinv :: "rlc_um \<Rightarrow> bool" where
  "um_qinv s \<longleftrightarrow> um_sizes_ok s \<and> (\<exists>kept. um_tx_ok kept (um_txBuffer s))"

definition um_grant_ok :: "TxOpportunityParameters \<Rightarrow> bool" where
  "um_grant_ok o' \<longleftrightarrow> txo_bytes o' < 2 ^ 16"

definition um_sdu_ok :: "bytes \<Rightarrow> bool" where
  "um_sdu_ok p \<longleftrightarrow> sdu_ok p \<and> p \<noteq> []"

lemma um_sizes_ok_init: "um_sizes_ok um_init"
  by (simp add: um_sizes_ok_def um_init_def)

lemma um_tx_ok_Nil [simp]: "um_tx_ok None []"
  by (simp add: um_tx_ok_def)

lemma um_tx_ok_append:
  "um_tx_ok kept buf \<Longrightarrow> p \<noteq> [] \<Longrightarrow>
   um_tx_ok kept (buf @ [\<lparr>m_pdu = p, m_waitingSince = t, m_sduStatus = FULL_SDU\<rparr>])"
  by (auto simp: um_tx_ok_def split: list.splits)

definition um_accepts :: "bytes \<Rightarrow> rlc_um \<Rightarrow> bool" where
  "um_accepts p s \<longleftrightarrow> total_size (pdus (um_txBuffer s)) + length p \<le> unat (um_maxTxBufferSize s)"

lemma um_submit_eq:
  fixes now :: time_ns
  assumes "um_sizes_ok s" and "sdu_ok p"
  defines "s' \<equiv> fst (um_DoTransmitPdcpPdu now p s)"
  shows "um_sizes_ok s'"
    and "um_txBuffer s' = (if um_accepts p s then um_txBuffer s @
      [\<lparr>m_pdu = p, m_waitingSince = now, m_sduStatus = FULL_SDU\<rparr>] else um_txBuffer s)"
    and "s' = s\<lparr>um_txBuffer := um_txBuffer s', um_txBufferSize := um_txBufferSize s', um_rbsTimer := None\<rparr>"
proof -
  note acc = queue_accepts [of "um_txBufferSize s" "pdus (um_txBuffer s)" "um_maxTxBufferSize s" p]
  have acc': "um_txBufferSize s + GetSize p \<le> um_maxTxBufferSize s \<longleftrightarrow> um_accepts p s"
    "unat (um_txBufferSize s + GetSize p) = total_size (pdus (um_txBuffer s)) + length p"
    using acc assms(1,2) by (simp_all add: um_sizes_ok_def um_accepts_def)
  show "um_sizes_ok s'"
    "um_txBuffer s' = (if um_accepts p s then um_txBuffer s @
      [\<lparr>m_pdu = p, m_waitingSince = now, m_sduStatus = FULL_SDU\<rparr>] else um_txBuffer s)"
    "s' = s\<lparr>um_txBuffer := um_txBuffer s', um_txBufferSize := um_txBufferSize s', um_rbsTimer := None\<rparr>"
    using assms(1) acc'
    by (auto simp: s'_def um_DoTransmitPdcpPdu_def Let_def um_sizes_ok_def)
qed

lemma um_submit_qinv:
  "um_qinv s \<Longrightarrow> um_sdu_ok p \<Longrightarrow> um_qinv (fst (um_DoTransmitPdcpPdu now p s))"
  using um_submit_eq [of s p now] um_tx_ok_append
  by (fastforce simp: um_qinv_def um_sdu_ok_def)

lemma um_opp_law:
  assumes "um_qinv s" and room: "um_room o' s"
  shows "\<exists>s' as. um_DoNotifyTxOpportunity now o' s = Some (s', as) \<and> um_qinv s' \<and>
    um_maxTxBufferSize s' = um_maxTxBufferSize s \<and> (\<forall>q\<in>set (transmitted as). length q \<le> txo_bytes o')"
proof (cases "um_txBuffer s = [] \<or> txo_bytes o' \<le> 2")
  case True
  then show ?thesis
    using assms um_opportunity_idle [OF True, of now] by simp
next
  case False
  obtain kept where k: "um_sizes_ok s" "um_tx_ok kept (um_txBuffer s)"
    using assms by (auto simp: um_qinv_def)
  from um_opportunity_sends [OF k, of o' now] False room obtain s' packet u where
    snd: "um_DoNotifyTxOpportunity now o' s = Some (s', [TransmitPdu (answer_params (um_base s) o' packet)])"
      "um_sends kept s o' s' packet u"
    by auto
  moreover have "um_maxTxBufferSize s' = um_maxTxBufferSize s"
    using snd(1) by (auto simp: um_DoNotifyTxOpportunity_def Let_def
        split: if_splits list.splits prod.splits option.splits)
  ultimately show ?thesis
    by (auto simp: um_qinv_def um_sends_def)
qed

interpretation um: rlc_queue um_qinv "\<lambda>s. pdus (um_txBuffer s)" um_txBufferSize um_maxTxBufferSize
    "\<lambda>now p s. Some (um_DoTransmitPdcpPdu now p s)" um_DoNotifyTxOpportunity um_sdu_ok um_grant_ok 0
proof unfold_locales
  fix s :: rlc_um and now p
  assume q: "um_qinv s" "um_sdu_ok p"
  have "transmitted (snd (um_DoTransmitPdcpPdu now p s)) = []"
    "um_maxTxBufferSize (fst (um_DoTransmitPdcpPdu now p s)) = um_maxTxBufferSize s"
    by (auto simp: um_DoTransmitPdcpPdu_def Let_def)
  then show "\<exists>s' as. Some (um_DoTransmitPdcpPdu now p s) = Some (s', as) \<and> um_qinv s' \<and>
      um_maxTxBufferSize s' = um_maxTxBufferSize s \<and> transmitted as = [] \<and>
      pdus (um_txBuffer s') =
        (if total_size (pdus (um_txBuffer s)) + length p \<le> unat (um_maxTxBufferSize s)
         then pdus (um_txBuffer s) @ [p] else pdus (um_txBuffer s))"
    using um_submit_eq [of s p now] um_submit_qinv [of s p now] q
    by (intro exI [of _ "fst (um_DoTransmitPdcpPdu now p s)"]
        exI [of _ "snd (um_DoTransmitPdcpPdu now p s)"])
       (simp add: um_qinv_def um_sdu_ok_def um_accepts_def)
qed (use um_opp_law in \<open>auto simp: um_qinv_def um_sizes_ok_def um_grant_ok_def um_room_def\<close>)

section \<open>Progress\<close>

text \<open>The loop moves at least one byte out of the buffer.\<close>

lemma um_seg_loop_moves:
  assumes "um_seg_loop x buf sz n i h df = (buf', sz', h', df')"
    and "0 < length (m_pdu x)" and "\<forall>y\<in>set buf. 0 < length (m_pdu y)" and "0 < n"
  shows "total_size (pdus buf') < length (m_pdu x) + total_size (pdus buf)"
  using assms
proof (induction x buf sz n i h df rule: um_seg_loop.induct)
  case (1 x buf sz n i h df)
  let ?len = "length (m_pdu x)"
  consider (split) "?len > n \<or> ?len > 2047" | (last) "?len \<le> n" "?len \<le> 2047" "n - ?len \<le> 2 \<or> buf = []"
    | (more) y ys where "?len \<le> n" "?len \<le> 2047" "\<not> n - ?len \<le> 2" "buf = y # ys"
    by (metis linorder_not_less list.exhaust)
  then show ?case
  proof cases
    case split
    with "1.prems" show ?thesis
      by (auto simp: um_seg_loop.simps [of x] Let_def split: prod.splits if_splits)
  next
    case last
    with "1.prems" show ?thesis
      by (auto simp: um_seg_loop.simps [of x] Let_def)
  next
    case more
    then have "(if i mod 2 \<noteq> 0 then 2 else 1) + ?len < n"
      by auto
    then have "total_size (pdus buf') < length (m_pdu y) + total_size (pdus ys)"
      using "1.IH" [OF _ _ _ more(4)] "1.prems" more by (auto simp: um_seg_loop.simps [of x])
    with more(4) show ?thesis
      by simp
  qed
qed

text \<open>It leaves no more elements than there were.\<close>

lemma um_seg_loop_length:
  "um_seg_loop x buf sz n i h df = (buf', sz', h', df') \<Longrightarrow> length buf' \<le> Suc (length buf)"
proof (induction x buf sz n i h df rule: um_seg_loop.induct)
  case (1 x buf sz n i h df)
  show ?case
    using "1.IH" "1.prems"
    by (subst (asm) (2) um_seg_loop.simps)
       (fastforce simp: Let_def split: if_splits prod.splits list.splits)
qed

lemma um_opportunity_progress:
  assumes q: "um_qinv s" and ne: "um_txBuffer s \<noteq> []" and b: "2 < txo_bytes o'" and room: "um_room o' s"
  shows "\<exists>s' as. um_DoNotifyTxOpportunity now o' s = Some (s', as) \<and> um_qinv s' \<and>
    length (um_txBuffer s') \<le> length (um_txBuffer s) \<and>
    total_size (pdus (um_txBuffer s')) < total_size (pdus (um_txBuffer s))"
proof -
  obtain x xs where buf: "um_txBuffer s = x # xs"
    using ne by (cases "um_txBuffer s") auto
  obtain s' as where s': "um_DoNotifyTxOpportunity now o' s = Some (s', as)" "um_qinv s'"
    using um_opp_law [OF q room] by blast
  obtain buf' sz' h' df where run: "um_seg_loop x xs (um_txBufferSize s - GetSize (m_pdu x))
      (txo_bytes o' - 2) 1 um_header_init [] = (buf', sz', h', df)"
    by (metis prod_cases4)
  have "um_txBuffer s' = buf'"
    using s'(1) b buf run
    by (auto simp: um_DoNotifyTxOpportunity_def Let_def case_prod_beta split: if_splits option.splits)
  moreover have "\<forall>y\<in>set (x # xs). 0 < length (m_pdu y)"
    using q buf by (auto simp: um_qinv_def um_tx_ok_def)
  ultimately show ?thesis
    using s' um_seg_loop_moves [OF run] um_seg_loop_length [OF run] b buf by (intro exI [of _ s'] exI [of _ as]) simp
qed

text \<open>The opportunities os, one after the other.\<close>

fun um_serve :: "time_ns \<Rightarrow> TxOpportunityParameters list \<Rightarrow> rlc_um \<Rightarrow> rlc_um option" where
  "um_serve now [] s = Some s"
| "um_serve now (o' # os) s =
     Option.bind (um_DoNotifyTxOpportunity now o' s) (\<lambda>(s', as). um_serve now os s')"

lemma um_serve_drains:
  assumes "um_qinv s" "\<forall>o'\<in>set os. 2 < txo_bytes o' \<and> um_room o' s" "total_size (pdus (um_txBuffer s)) \<le> length os"
  shows "\<exists>s'. um_serve now os s = Some s' \<and> um_txBuffer s' = []"
  using assms
proof (induction os arbitrary: s)
  case Nil
  then have "um_txBuffer s = []"
    by (cases "um_txBuffer s") (auto simp: um_qinv_def um_tx_ok_def)
  then show ?case
    by simp
next
  case (Cons o' os)
  show ?case
  proof (cases "um_txBuffer s = []")
    case True
    with Cons.IH [of s] Cons.prems show ?thesis
      by (simp add: um_opportunity_idle)
  next
    case False
    with um_opportunity_progress [OF Cons.prems(1) False, of o' now] Cons.prems obtain s' as where
      s': "um_DoNotifyTxOpportunity now o' s = Some (s', as)" "um_qinv s'"
        "total_size (pdus (um_txBuffer s')) \<le> length os" "length (um_txBuffer s') \<le> length (um_txBuffer s)"
      by fastforce
    then have "\<forall>o'\<in>set os. 2 < txo_bytes o' \<and> um_room o' s'"
      using Cons.prems(2) by (auto simp: um_room_def)
    with Cons.IH [of s'] s' show ?thesis
      by simp
  qed
qed

end
