(* ===== verification/StdMap.thy ===== *)
theory StdMap
  imports LteBase
begin

text \<open>
  \<^verbatim>\<open>std::map\<close> as an association list in ascending key order, which is the order of its
  iterators: lookup is \<open>map_of\<close>, \<open>smap_put\<close> is \<^verbatim>\<open>m[k] = v\<close> and \<open>smap_erase\<close> is \<^verbatim>\<open>erase\<close>.
\<close>

definition smap_wf :: "('k::linorder \<times> 'v) list \<Rightarrow> bool" where
  "smap_wf m \<longleftrightarrow> sorted_wrt (<) (map fst m)"

fun smap_put :: "'k::linorder \<Rightarrow> 'v \<Rightarrow> ('k \<times> 'v) list \<Rightarrow> ('k \<times> 'v) list" where
  "smap_put k v [] = [(k, v)]"
| "smap_put k v ((k', v') # m) =
     (if k < k' then (k, v) # (k', v') # m
      else if k = k' then (k, v) # m
      else (k', v') # smap_put k v m)"

definition smap_erase :: "'k \<Rightarrow> ('k \<times> 'v) list \<Rightarrow> ('k \<times> 'v) list" where
  "smap_erase k m = filter (\<lambda>(k', _). k' \<noteq> k) m"

text \<open>\<^verbatim>\<open>count(k) > 0\<close>.\<close>

definition smap_has :: "('k \<times> 'v) list \<Rightarrow> 'k \<Rightarrow> bool" where
  "smap_has m k \<longleftrightarrow> map_of m k \<noteq> None"

lemma smap_wf_Nil [simp]: "smap_wf []"
  by (simp add: smap_wf_def)

lemma smap_wf_Cons [simp]:
  "smap_wf ((k, v) # m) \<longleftrightarrow> (\<forall>x\<in>set m. k < fst x) \<and> smap_wf m"
  by (simp add: smap_wf_def)

lemma set_smap_put_fst [simp]: "fst ` set (smap_put k v m) = insert k (fst ` set m)"
  by (induction k v m rule: smap_put.induct) auto

lemma smap_wf_put [simp]: "smap_wf m \<Longrightarrow> smap_wf (smap_put k v m)"
proof (induction k v m rule: smap_put.induct)
  case (2 k v k' v' m)
  have "\<forall>x\<in>set m. k' < fst x \<Longrightarrow> k' < k \<Longrightarrow> \<forall>x\<in>set (smap_put k v m). k' < fst x"
    using set_smap_put_fst [of k v m] by (metis (no_types, opaque_lifting) image_iff insert_iff)
  with 2 show ?case
    by (auto simp: not_less order.order_iff_strict dest: less_trans)
qed simp

lemma map_of_smap_put [simp]: "map_of (smap_put k v m) = (map_of m)(k \<mapsto> v)"
  by (induction k v m rule: smap_put.induct) (auto simp: fun_eq_iff)

lemma set_smap_put: "set (smap_put k v m) \<subseteq> insert (k, v) (set m)"
  by (induction k v m rule: smap_put.induct) auto

lemma set_smap_erase: "set (smap_erase k m) = {x \<in> set m. fst x \<noteq> k}"
  by (auto simp: smap_erase_def)

lemma smap_wf_erase [simp]: "smap_wf m \<Longrightarrow> smap_wf (smap_erase k m)"
  by (induction m) (auto simp: smap_erase_def)

lemma map_of_smap_erase [simp]: "map_of (smap_erase k m) = (map_of m)(k := None)"
  by (induction m) (auto simp: smap_erase_def fun_eq_iff)

lemma smap_has_simps [simp]:
  "\<not> smap_has [] k"
  "smap_has (smap_put k v m) k' \<longleftrightarrow> k' = k \<or> smap_has m k'"
  "smap_has (smap_erase k m) k' \<longleftrightarrow> k' \<noteq> k \<and> smap_has m k'"
  by (auto simp: smap_has_def)

lemma smap_has_iff: "smap_has m k \<longleftrightarrow> k \<in> fst ` set m"
  by (auto simp: smap_has_def map_of_eq_None_iff)

lemma smap_put_erase_single [simp]: "smap_erase k [(k, v)] = []"
  by (simp add: smap_erase_def)

end
