(* ===== verification/RlcUmRx.thy ===== *)
theory RlcUmRx
  imports RlcUmTx StdMap
begin

text \<open>
  The receiving side of \<^verbatim>\<open>LteRlcUm\<close> (\<^verbatim>\<open>src/lte/model/lte-rlc-um.cc\<close>): the reordering window
  and its state variables, the reception buffer, the reordering timer, and the calls to
  \<^verbatim>\<open>ReassembleAndDeliver\<close>. The SDUs handed to PDCP are returned as a list, in order.
\<close>

section \<open>Operations\<close>

text \<open>
  \<^verbatim>\<open>IsInsideReorderingWindow\<close> sets the modulus base of \<^verbatim>\<open>m_vrUh\<close>, a side effect; its argument is
  a copy.
\<close>

definition um_window_low :: "rlc_um \<Rightarrow> sn10" where
  "um_window_low s = sn_minus (um_vrUh s) (um_windowSize s)"

definition um_IsInsideReorderingWindow :: "sn10 \<Rightarrow> rlc_um \<Rightarrow> bool \<times> rlc_um" where
  "um_IsInsideReorderingWindow seqNumber s =
     (let s1 = s\<lparr>um_vrUh := sn_SetModulusBase (um_vrUh s) (um_window_low s)\<rparr>;
          seqNumber1 = sn_SetModulusBase seqNumber (um_window_low s1)
      in (sn_le (um_window_low s1) seqNumber1 \<and> sn_lt seqNumber1 (um_vrUh s1), s1))"

text \<open>
  \<^verbatim>\<open>ReassembleOutsideWindow\<close>: the loop runs over the buffer from its first element in key order,
  erases each element it has reassembled, and ends at the first one inside the window.
\<close>

fun um_outside_loop :: "(u16 \<times> bytes) list \<Rightarrow> rlc_um \<Rightarrow> (rlc_um \<times> bytes list) option" where
  "um_outside_loop [] s = Some (s\<lparr>um_rxBuffer := []\<rparr>, [])"
| "um_outside_loop ((k, packet) # m) s =
     (let (inside, s1) = um_IsInsideReorderingWindow (sn_make k) s in
      if inside then Some (s1\<lparr>um_rxBuffer := (k, packet) # m\<rparr>, [])
      else (case um_ReassembleAndDeliver (um_reas s1) packet of
              None \<Rightarrow> None
            | Some (r', d) \<Rightarrow>
                map_option (\<lambda>(s', d'). (s', d @ d'))
                  (um_outside_loop m (s1\<lparr>um_reas := r', um_rxBuffer := m\<rparr>))))"

definition um_ReassembleOutsideWindow :: "rlc_um \<Rightarrow> (rlc_um \<times> bytes list) option" where
  "um_ReassembleOutsideWindow s = um_outside_loop (um_rxBuffer s) s"

text \<open>
  \<^verbatim>\<open>ReassembleSnInterval\<close>: the loop ends when the running number is no longer below the upper
  one; \<open>None\<close> also stands for a loop that does not end.
\<close>

partial_function (option) um_ReassembleSnInterval ::
    "sn10 \<Rightarrow> sn10 \<Rightarrow> rlc_um \<Rightarrow> (rlc_um \<times> bytes list) option" where
  "um_ReassembleSnInterval reassembleSn highSeqNumber s =
     (if sn_lt reassembleSn highSeqNumber then
        (case map_of (um_rxBuffer s) (m_value reassembleSn) of
           None \<Rightarrow> um_ReassembleSnInterval (sn_inc reassembleSn) highSeqNumber s
         | Some packet \<Rightarrow>
             (case um_ReassembleAndDeliver (um_reas s) packet of
                None \<Rightarrow> None
              | Some (r', d) \<Rightarrow>
                  Option.bind
                    (um_ReassembleSnInterval (sn_inc reassembleSn) highSeqNumber
                       (s\<lparr>um_reas := r',
                          um_rxBuffer := smap_erase (m_value reassembleSn) (um_rxBuffer s)\<rparr>))
                    (\<lambda>(s', d'). Some (s', d @ d'))))
      else Some (s, []))"

text \<open>
  The search for the first missing sequence number in \<^verbatim>\<open>DoReceivePdu\<close> runs over \<^verbatim>\<open>uint16_t\<close>
  values: it is not reduced modulo 1024.
\<close>

partial_function (option) um_next_missing16 :: "(u16 \<times> bytes) list \<Rightarrow> u16 \<Rightarrow> u16 option" where
  "um_next_missing16 m newVrUr =
     (if smap_has m newVrUr then um_next_missing16 m (newVrUr + 1) else Some newVrUr)"

text \<open>The search in \<^verbatim>\<open>ExpireReorderingTimer\<close> runs over sequence numbers.\<close>

partial_function (option) um_next_missing :: "(u16 \<times> bytes) list \<Rightarrow> sn10 \<Rightarrow> sn10 option" where
  "um_next_missing m newVrUr =
     (if smap_has m (m_value newVrUr) then um_next_missing m (sn_inc newVrUr) else Some newVrUr)"

text \<open>
  \<^verbatim>\<open>DoReceivePdu\<close> in the parts of section 5.1.2.2 of TS 36.322 that its comments name. First the
  decision to discard.
\<close>

definition um_rx_bases :: "rlc_um \<Rightarrow> rlc_um" where
  "um_rx_bases s = s\<lparr>um_vrUr := sn_SetModulusBase (um_vrUr s) (um_window_low s),
     um_vrUh := sn_SetModulusBase (um_vrUh s) (um_window_low s)\<rparr>"

definition um_rx_discards :: "sn10 \<Rightarrow> rlc_um \<Rightarrow> bool" where
  "um_rx_discards seqNumber s \<longleftrightarrow>
     (sn_lt (um_vrUr s) seqNumber \<and> sn_lt seqNumber (um_vrUh s) \<and>
        smap_has (um_rxBuffer s) (sn_GetValue seqNumber)) \<or>
     (sn_le (um_window_low s) seqNumber \<and> sn_lt seqNumber (um_vrUr s))"

text \<open>5.1.2.2.3, first item: the PDU is outside the window.\<close>

definition um_rx_outside :: "sn10 \<Rightarrow> rlc_um \<Rightarrow> (rlc_um \<times> bytes list) option" where
  "um_rx_outside seqNumber s =
     (let (inside, s1) = um_IsInsideReorderingWindow seqNumber s in
      if \<not> inside then
        (case um_ReassembleOutsideWindow (s1\<lparr>um_vrUh := sn_plus seqNumber 1\<rparr>) of
           None \<Rightarrow> None
         | Some (s2, d) \<Rightarrow>
             (let (inside', s3) = um_IsInsideReorderingWindow (um_vrUr s2) s2
              in Some (if \<not> inside' then s3\<lparr>um_vrUr := um_window_low s3\<rparr> else s3, d)))
      else Some (s1, []))"

text \<open>Second item: the buffer contains the PDU with number VR(UR).\<close>

definition um_rx_advance :: "rlc_um \<Rightarrow> (rlc_um \<times> bytes list) option" where
  "um_rx_advance s =
     (if smap_has (um_rxBuffer s) (sn_GetValue (um_vrUr s)) then
        (case um_next_missing16 (um_rxBuffer s) (sn_GetValue (um_vrUr s) + 1) of
           None \<Rightarrow> None
         | Some newVrUr \<Rightarrow>
             (let oldVrUr = um_vrUr s; s1 = s\<lparr>um_vrUr := sn_assign (um_vrUr s) newVrUr\<rparr>
              in um_ReassembleSnInterval oldVrUr (um_vrUr s1) s1))
      else Some (s, []))"

text \<open>
  The bases are set again and t-Reordering is stopped and started. The window test here sets the
  base that has just been set, so its effect on the state is left out.
\<close>

definition um_rx_rebase :: "rlc_um \<Rightarrow> rlc_um" where
  "um_rx_rebase s = s\<lparr>um_vrUr := sn_SetModulusBase (um_vrUr s) (um_window_low s),
     um_vrUx := sn_SetModulusBase (um_vrUx s) (um_window_low s),
     um_vrUh := sn_SetModulusBase (um_vrUh s) (um_window_low s)\<rparr>"

definition um_rx_stop_timer :: "rlc_um \<Rightarrow> rlc_um" where
  "um_rx_stop_timer s =
     (if um_reorderingTimer s \<noteq> None \<and>
         (sn_le (um_vrUx s) (um_vrUr s) \<or>
          (\<not> fst (um_IsInsideReorderingWindow (um_vrUx s) s) \<and> sn_neq (um_vrUx s) (um_vrUh s)))
      then s\<lparr>um_reorderingTimer := None\<rparr> else s)"

definition um_rx_start_timer :: "time_ns \<Rightarrow> rlc_um \<Rightarrow> rlc_um" where
  "um_rx_start_timer now s =
     (if um_reorderingTimer s = None \<and> sn_gt (um_vrUh s) (um_vrUr s) then
        s\<lparr>um_reorderingTimer := Some (now + um_reorderingTimerValue s), um_vrUx := um_vrUh s\<rparr>
      else s)"

definition um_DoReceivePdu :: "time_ns \<Rightarrow> bytes \<Rightarrow> rlc_um \<Rightarrow> (rlc_um \<times> rlc_action list) option" where
  "um_DoReceivePdu now p s =
     (case PeekHeader um_des p of
        None \<Rightarrow> None
      | Some rlcHeader \<Rightarrow>
          (let s1 = um_rx_bases s;
               seqNumber = sn_SetModulusBase (uh_sequenceNumber rlcHeader) (um_window_low s)
           in if um_rx_discards seqNumber s1 then Some (s1, [])
              else
                (case um_rx_outside seqNumber
                    (s1\<lparr>um_rxBuffer := smap_put (sn_GetValue seqNumber) p (um_rxBuffer s1)\<rparr>) of
                   None \<Rightarrow> None
                 | Some (s2, d1) \<Rightarrow>
                     (case um_rx_advance s2 of
                        None \<Rightarrow> None
                      | Some (s3, d2) \<Rightarrow>
                          Some (um_rx_start_timer now (um_rx_stop_timer (um_rx_rebase s3)),
                                map ReceivePdcpPdu (d1 @ d2))))))"

definition um_ExpireReorderingTimer :: "time_ns \<Rightarrow> rlc_um \<Rightarrow> (rlc_um \<times> rlc_action list) option" where
  "um_ExpireReorderingTimer now s =
     (let s0 = s\<lparr>um_reorderingTimer := None\<rparr> in
      (case um_next_missing (um_rxBuffer s0) (um_vrUx s0) of
         None \<Rightarrow> None
       | Some newVrUr \<Rightarrow>
           (case um_ReassembleSnInterval (um_vrUr s0) newVrUr (s0\<lparr>um_vrUr := newVrUr\<rparr>) of
              None \<Rightarrow> None
            | Some (s1, d) \<Rightarrow>
                Some (if sn_gt (um_vrUh s1) (um_vrUr s1)
                      then s1\<lparr>um_reorderingTimer := Some (now + um_reorderingTimerValue s1),
                              um_vrUx := um_vrUh s1\<rparr>
                      else s1, map ReceivePdcpPdu d))))"

section \<open>The window as distances\<close>

text \<open>
  With the window size of 512, \<open>wdist s v\<close> is the distance of the value v above the lower edge of
  the window; the window is where it is below 512.
\<close>

definition wdist :: "rlc_um \<Rightarrow> nat \<Rightarrow> nat" where
  "wdist s v = (v + 1536 - sn_val (um_vrUh s)) mod 1024"

definition um_vars_wf :: "rlc_um \<Rightarrow> bool" where
  "um_vars_wf s \<longleftrightarrow> um_windowSize s = 512 \<and> sn_wf (um_vrUr s) \<and> sn_wf (um_vrUx s) \<and> sn_wf (um_vrUh s)"

lemma um_window_low_wf [simp]: "sn_wf (um_vrUh s) \<Longrightarrow> sn_wf (um_window_low s)"
  by (simp add: um_window_low_def)

lemma um_window_low_val:
  "um_vars_wf s \<Longrightarrow> sn_val (um_window_low s) = (sn_val (um_vrUh s) + 512) mod 1024"
proof -
  assume "um_vars_wf s"
  then have "sn_val (um_window_low s) = nat ((int (sn_val (um_vrUh s)) - 512) mod 1024)"
    by (simp add: um_window_low_def um_vars_wf_def)
  also have "(int (sn_val (um_vrUh s)) - 512) mod 1024
      = (int (sn_val (um_vrUh s)) - 512 + 1024) mod 1024"
    by (simp only: mod_add_self2)
  also have "\<dots> = int (sn_val (um_vrUh s) + 512) mod 1024"
    by (simp add: add.commute)
  finally show ?thesis
    by (simp add: nat_mod_distrib nat_add_distrib)
qed

lemma um_window_low_base [simp]: "sn_base (um_window_low s) = sn_base (um_vrUh s)"
  by (simp add: um_window_low_def)

lemma um_window_low_cong:
  "sn_val (um_vrUh s) = sn_val (um_vrUh t) \<Longrightarrow> um_windowSize s = um_windowSize t \<Longrightarrow>
   sn_val (um_window_low s) = sn_val (um_window_low t)"
  by (simp add: um_window_low_def)

lemma off_wdist:
  assumes wf: "um_vars_wf s" and x: "sn_val x < 1024" "sn_base x = sn_val (um_window_low s)"
  shows "sn_off x = wdist s (sn_val x)"
proof (cases "sn_val (um_vrUh s) < 512")
  case True
  then have "sn_val x + 1536 - sn_val (um_vrUh s) = sn_val x + 512 - sn_val (um_vrUh s) + 1024"
    by simp
  then have "wdist s (sn_val x) = (sn_val x + 512 - sn_val (um_vrUh s)) mod 1024"
    unfolding wdist_def by (simp only: mod_add_self2)
  with True show ?thesis
    unfolding sn_off_def x(2) um_window_low_val [OF wf] by (simp add: add.commute)
next
  case False
  moreover have "sn_val (um_vrUh s) < 1024"
    using wf by (simp add: um_vars_wf_def sn_wf_nat)
  ultimately have "(sn_val (um_vrUh s) + 512) mod 1024 = sn_val (um_vrUh s) - 512"
    by (simp add: mod_if)
  with False show ?thesis
    unfolding sn_off_def wdist_def x(2) um_window_low_val [OF wf] by (simp add: add.commute)
qed

lemma wdist_vrUh: "um_vars_wf s \<Longrightarrow> wdist s (sn_val (um_vrUh s)) = 512"
  by (simp add: wdist_def)

lemma wdist_low:
  assumes "um_vars_wf s"
  shows "wdist s (sn_val (um_window_low s)) = 0"
  using off_wdist [of s "sn_SetModulusBase (um_window_low s) (um_window_low s)"] assms
  by (simp add: um_window_low_val sn_off_def)

lemma wdist_inj:
  assumes "um_vars_wf s" "v < 1024" "w < 1024"
  shows "wdist s v = wdist s w \<longleftrightarrow> v = w"
proof -
  have "sn_val (um_vrUh s) < 1024"
    using assms(1) by (simp add: um_vars_wf_def sn_wf_nat)
  then show ?thesis
    using mod_1024_cancel [of v "1536 - sn_val (um_vrUh s)" w] assms(2,3)
    by (auto simp: wdist_def)
qed

lemma wdist_less [simp]: "wdist s v < 1024"
  by (simp add: wdist_def)

lemma um_IsInside_snd:
  "snd (um_IsInsideReorderingWindow x s) =
     s\<lparr>um_vrUh := sn_SetModulusBase (um_vrUh s) (um_window_low s)\<rparr>"
  by (simp add: um_IsInsideReorderingWindow_def Let_def)

lemma um_IsInside_fst:
  assumes wf: "um_vars_wf s" and x: "sn_val x < 1024"
  shows "fst (um_IsInsideReorderingWindow x s) \<longleftrightarrow> wdist s (sn_val x) < 512"
proof -
  define s1 where "s1 = s\<lparr>um_vrUh := sn_SetModulusBase (um_vrUh s) (um_window_low s)\<rparr>"
  define y where "y = sn_SetModulusBase x (um_window_low s1)"
  have s1: "um_vars_wf s1" "sn_val (um_window_low s1) = sn_val (um_window_low s)"
    "sn_base (um_vrUh s1) = sn_val (um_window_low s)" "wdist s1 = wdist s"
    using wf by (auto simp: s1_def um_vars_wf_def wdist_def fun_eq_iff um_window_low_def)
  have y: "sn_wf y" "sn_base y = sn_val (um_window_low s1)" "sn_val y = sn_val x"
    using wf x s1(2) by (auto simp: y_def sn_wf_nat um_window_low_val)
  have low: "sn_wf (um_window_low s1)" "sn_wf (um_vrUh s1)"
    using s1(1) by (simp_all add: um_vars_wf_def)
  have "sn_off (um_window_low s1) = 0" "sn_off (um_vrUh s1) = 512" "sn_off y = wdist s (sn_val x)"
    using off_wdist [OF s1(1), of "um_window_low s1"] off_wdist [OF s1(1), of "um_vrUh s1"]
      off_wdist [OF s1(1), of y] low s1 y x wdist_low [OF s1(1)] wdist_vrUh [OF s1(1)]
    by (simp_all add: sn_wf_nat)
  then show ?thesis
    using low y s1 unfolding um_IsInsideReorderingWindow_def Let_def s1_def [symmetric] y_def [symmetric]
    by (simp add: sn_cmp)
qed

section \<open>The loops end\<close>

definition um_buffer_ok :: "(u16 \<times> bytes) list \<Rightarrow> bool" where
  "um_buffer_ok m \<longleftrightarrow> smap_wf m \<and> (\<forall>(k, p)\<in>set m. k < 1024 \<and> um_readable p k)"

text \<open>The invariant of the receiving side.\<close>

definition um_rx_inv :: "rlc_um \<Rightarrow> bool" where
  "um_rx_inv s \<longleftrightarrow> um_vars_wf s \<and> um_buffer_ok (um_rxBuffer s) \<and> reas_wf (um_reas s)"

lemma um_rx_inv_init: "um_rx_inv um_init"
  by (simp add: um_rx_inv_def um_init_def um_vars_wf_def um_buffer_ok_def)

lemma um_buffer_ok_Cons:
  "um_buffer_ok ((k, p) # m) \<Longrightarrow> um_buffer_ok m \<and> k < 1024 \<and> um_readable p k"
  by (simp add: um_buffer_ok_def)

lemma um_buffer_ok_erase: "um_buffer_ok m \<Longrightarrow> um_buffer_ok (smap_erase k m)"
  by (auto simp: um_buffer_ok_def set_smap_erase)

lemma um_buffer_ok_put:
  "um_buffer_ok m \<Longrightarrow> k < 1024 \<Longrightarrow> um_readable p k \<Longrightarrow> um_buffer_ok (smap_put k p m)"
  using set_smap_put [of k p m] by (fastforce simp: um_buffer_ok_def)

lemma um_vars_wf_rebase [simp]:
  "um_vars_wf s \<Longrightarrow> um_vars_wf (s\<lparr>um_vrUh := sn_SetModulusBase (um_vrUh s) (um_window_low s)\<rparr>)"
  by (simp add: um_vars_wf_def)

lemma um_IsInside_inv:
  assumes "um_IsInsideReorderingWindow x s = (b, s')" and "um_rx_inv s"
  shows "um_rx_inv s'" "um_rxBuffer s' = um_rxBuffer s" "um_reas s' = um_reas s"
    "um_vars_wf s'" "um_vrUr s' = um_vrUr s"
  using assms um_IsInside_snd [of x s] by (auto simp: um_rx_inv_def)

lemma um_outside_loop_total:
  assumes "um_buffer_ok m" and "um_vars_wf s" and "reas_wf (um_reas s)"
  shows "\<exists>s' d. um_outside_loop m s = Some (s', d) \<and> um_rx_inv s'"
  using assms
proof (induction m arbitrary: s)
  case Nil
  then show ?case
    by (simp add: um_rx_inv_def um_vars_wf_def um_buffer_ok_def)
next
  case (Cons kp m)
  obtain k p where kp: "kp = (k, p)"
    by force
  obtain b s1 where s1: "um_IsInsideReorderingWindow (sn_make k) s = (b, s1)"
    by force
  then have s1': "s1 = s\<lparr>um_vrUh := sn_SetModulusBase (um_vrUh s) (um_window_low s)\<rparr>"
    using um_IsInside_snd [of "sn_make k" s] by simp
  have ok: "um_buffer_ok m" "um_readable p k"
    using Cons.prems(1) um_buffer_ok_Cons kp by blast+
  show ?case
  proof (cases b)
    case True
    with s1 s1' Cons.prems kp show ?thesis
      by (auto simp: um_rx_inv_def um_vars_wf_def)
  next
    case False
    from um_ReassembleAndDeliver_total [OF Cons.prems(3) ok(2)] obtain r' d where
      r': "um_ReassembleAndDeliver (um_reas s) p = Some (r', d)" "reas_wf r'"
      by blast
    have "um_vars_wf (s1\<lparr>um_reas := r', um_rxBuffer := m\<rparr>)"
      using Cons.prems(2) s1' by (simp add: um_vars_wf_def)
    from Cons.IH [OF ok(1) this] r' obtain s' d' where
      "um_outside_loop m (s1\<lparr>um_reas := r', um_rxBuffer := m\<rparr>) = Some (s', d')" "um_rx_inv s'"
      by auto
    moreover have "um_reas s1 = um_reas s"
      by (simp add: s1')
    ultimately show ?thesis
      using False s1 r'(1) kp by simp
  qed
qed

text \<open>
  The running number of \<^verbatim>\<open>ReassembleSnInterval\<close> takes every value modulo 1024 and so meets the
  upper one, whatever the bases are: the loop always ends.
\<close>

definition sn_gap :: "sn10 \<Rightarrow> sn10 \<Rightarrow> nat" where
  "sn_gap a b = (sn_val b + 1024 - sn_val a) mod 1024"

lemma sn_gap_inc:
  assumes "sn_wf a" "sn_wf b" "sn_val a \<noteq> sn_val b"
  shows "sn_gap (sn_inc a) b < sn_gap a b"
proof (cases "sn_val a = 1023")
  case True
  with assms show ?thesis
    by (simp add: sn_gap_def sn_wf_nat)
next
  case False
  with assms show ?thesis
    by (auto simp: sn_gap_def sn_wf_nat mod_if)
qed

lemma um_ReassembleSnInterval_total:
  assumes "sn_wf a" "sn_wf b" "um_rx_inv s"
  shows "\<exists>s' d. um_ReassembleSnInterval a b s = Some (s', d) \<and> um_rx_inv s'"
  using assms
proof (induction "sn_gap a b" arbitrary: a s rule: less_induct)
  case less
  show ?case
  proof (cases "sn_lt a b")
    case False
    then show ?thesis
      using less.prems by (subst um_ReassembleSnInterval.simps) simp
  next
    case True
    then have "sn_val a \<noteq> sn_val b"
      by (simp add: sn_lt_def sn_val_def word_unat_eq_iff)
    note IH = less.hyps [OF sn_gap_inc [OF less.prems(1,2) this]]
    have wf: "sn_wf (sn_inc a)"
      using less.prems by simp
    show ?thesis
    proof (cases "map_of (um_rxBuffer s) (m_value a)")
      case None
      with True IH [OF wf less.prems(2,3)] show ?thesis
        by (subst um_ReassembleSnInterval.simps) simp
    next
      case (Some p)
      then have "um_readable p (m_value a)"
        using less.prems(3) map_of_SomeD by (fastforce simp: um_rx_inv_def um_buffer_ok_def)
      moreover have "reas_wf (um_reas s)"
        using less.prems(3) by (simp add: um_rx_inv_def)
      ultimately obtain r' d where r': "um_ReassembleAndDeliver (um_reas s) p = Some (r', d)" "reas_wf r'"
        using um_ReassembleAndDeliver_total by blast
      then have "um_rx_inv (s\<lparr>um_reas := r', um_rxBuffer := smap_erase (m_value a) (um_rxBuffer s)\<rparr>)"
        using less.prems(3) by (simp add: um_rx_inv_def um_buffer_ok_erase um_vars_wf_def)
      from IH [OF wf less.prems(2) this] obtain s' d' where
        "um_ReassembleSnInterval (sn_inc a) b
           (s\<lparr>um_reas := r', um_rxBuffer := smap_erase (m_value a) (um_rxBuffer s)\<rparr>) = Some (s', d')"
        "um_rx_inv s'"
        by blast
      with True Some r'(1) show ?thesis
        by (subst um_ReassembleSnInterval.simps) simp
    qed
  qed
qed

lemma um_next_missing16_total:
  assumes "\<forall>k\<in>fst ` set m. k < 1024"
  shows "\<exists>n. um_next_missing16 m k = Some n \<and> \<not> smap_has m n \<and> (unat k \<le> 1024 \<longrightarrow> unat n \<le> 1024)"
proof (induction "1024 - unat k" arbitrary: k rule: less_induct)
  case less
  show ?case
  proof (cases "smap_has m k")
    case False
    then show ?thesis
      by (subst um_next_missing16.simps) simp
  next
    case True
    then have "unat k < 1024"
      using assms by (auto simp: smap_has_iff word_less_nat_alt)
    moreover from this have "unat (k + 1) = unat k + 1"
      by (simp add: unat_word_ariths)
    ultimately show ?thesis
      using less [of "k + 1"] True by (subst um_next_missing16.simps) simp
  qed
qed

lemma um_next_missing_total:
  assumes "sn_wf n" "j < 1024" "\<not> smap_has m (word_of_nat j)"
  shows "\<exists>n'. um_next_missing m n = Some n' \<and> sn_wf n' \<and> \<not> smap_has m (m_value n') \<and>
    sn_base n' = sn_base n"
  using assms(1)
proof (induction "sn_gap n (sn_make (word_of_nat j))" arbitrary: n rule: less_induct)
  case less
  show ?case
  proof (cases "smap_has m (m_value n)")
    case False
    then show ?thesis
      using less.prems by (subst um_next_missing.simps) simp
  next
    case True
    then have "m_value n \<noteq> word_of_nat j"
      using assms(3) by auto
    then have "sn_val n \<noteq> sn_val (sn_make (word_of_nat j))"
      using assms(2) by (simp add: word_unat_eq_iff) (simp add: sn_val_def)
    from less.hyps [OF sn_gap_inc [OF less.prems _ this]] less.prems True show ?thesis
      by (subst um_next_missing.simps) simp
  qed
qed

section \<open>Reception is total\<close>

lemma um_readable_PeekHeader:
  assumes "um_readable p k"
  obtains h where "PeekHeader um_des p = Some h" "m_value (uh_sequenceNumber h) = k"
  using assms PeekHeader_RemoveHeader by (fastforce simp: um_readable_def)

lemma um_rx_bases_inv [simp]:
  "um_rx_inv s \<Longrightarrow> um_rx_inv (um_rx_bases s)"
  "um_rx_inv s \<Longrightarrow> um_rx_inv (um_rx_rebase s)"
  by (simp_all add: um_rx_inv_def um_rx_bases_def um_rx_rebase_def um_vars_wf_def)

lemma um_rx_timer_inv:
  "um_rx_inv s \<Longrightarrow> um_rx_inv (um_rx_stop_timer s)"
  "um_rx_inv s \<Longrightarrow> um_rx_inv (um_rx_start_timer now s)"
  by (auto simp: um_rx_inv_def um_rx_stop_timer_def um_rx_start_timer_def um_vars_wf_def)

lemma um_rx_outside_total:
  assumes "um_rx_inv s" and "sn_wf x"
  shows "\<exists>s' d. um_rx_outside x s = Some (s', d) \<and> um_rx_inv s'"
proof -
  obtain b s1 where s1: "um_IsInsideReorderingWindow x s = (b, s1)"
    by force
  note i1 = um_IsInside_inv [OF s1 assms(1)]
  show ?thesis
  proof (cases b)
    case True
    with s1 i1 show ?thesis
      by (simp add: um_rx_outside_def)
  next
    case False
    have "um_vars_wf (s1\<lparr>um_vrUh := sn_plus x 1\<rparr>)"
      using i1(4) assms(2) by (simp add: um_vars_wf_def)
    then obtain s2 d where s2: "um_ReassembleOutsideWindow (s1\<lparr>um_vrUh := sn_plus x 1\<rparr>) = Some (s2, d)"
      "um_rx_inv s2"
      using um_outside_loop_total [of "um_rxBuffer s1" "s1\<lparr>um_vrUh := sn_plus x 1\<rparr>"] i1(1)
      by (auto simp: um_ReassembleOutsideWindow_def um_rx_inv_def)
    obtain b' s3 where s3: "um_IsInsideReorderingWindow (um_vrUr s2) s2 = (b', s3)"
      by force
    note i3 = um_IsInside_inv [OF s3 s2(2)]
    then have "um_rx_inv (s3\<lparr>um_vrUr := um_window_low s3\<rparr>)"
      by (simp add: um_rx_inv_def um_vars_wf_def)
    with False s1 s2 s3 i3 show ?thesis
      by (auto simp: um_rx_outside_def Let_def)
  qed
qed

lemma um_rx_advance_total:
  assumes "um_rx_inv s"
  shows "\<exists>s' d. um_rx_advance s = Some (s', d) \<and> um_rx_inv s'"
proof (cases "smap_has (um_rxBuffer s) (sn_GetValue (um_vrUr s))")
  case True
  have "\<forall>k\<in>fst ` set (um_rxBuffer s). k < 1024"
    using assms by (auto simp: um_rx_inv_def um_buffer_ok_def)
  then obtain n where n: "um_next_missing16 (um_rxBuffer s) (sn_GetValue (um_vrUr s) + 1) = Some n"
    using um_next_missing16_total by blast
  let ?s1 = "s\<lparr>um_vrUr := sn_assign (um_vrUr s) n\<rparr>"
  have "um_rx_inv ?s1" "sn_wf (um_vrUr s)" "sn_wf (um_vrUr ?s1)"
    using assms by (simp_all add: um_rx_inv_def um_vars_wf_def sn_wf_nat)
  from um_ReassembleSnInterval_total [OF this(2,3,1)] n True show ?thesis
    by (simp add: um_rx_advance_def)
qed (use assms in \<open>simp add: um_rx_advance_def\<close>)

lemma um_DoReceivePdu_total:
  assumes inv: "um_rx_inv s" and p: "um_readable p k" and k: "k < 1024"
  shows "\<exists>s' as. um_DoReceivePdu now p s = Some (s', as) \<and> um_rx_inv s'"
proof -
  obtain h where h: "PeekHeader um_des p = Some h" "m_value (uh_sequenceNumber h) = k"
    using um_readable_PeekHeader [OF p] .
  define x where "x = sn_SetModulusBase (uh_sequenceNumber h) (um_window_low s)"
  have "sn_val (um_window_low s) < 1024"
    using inv by (simp add: um_rx_inv_def um_window_low_val)
  then have x: "sn_wf x" "sn_GetValue x = k"
    using k h(2) by (simp_all add: x_def sn_wf_nat sn_GetValue_def sn_SetModulusBase_def sn_val_def
        word_less_nat_alt)  (simp add: sn_base_def sn_val_def)
  let ?s1 = "um_rx_bases s"
  have "um_rx_inv (?s1\<lparr>um_rxBuffer := smap_put k p (um_rxBuffer ?s1)\<rparr>)"
    using um_rx_bases_inv(1) [OF inv] k p by (simp add: um_rx_inv_def um_buffer_ok_put um_vars_wf_def)
  from um_rx_outside_total [OF this x(1)] obtain s2 d where s2:
    "um_rx_outside x (?s1\<lparr>um_rxBuffer := smap_put k p (um_rxBuffer ?s1)\<rparr>) = Some (s2, d)" "um_rx_inv s2"
    by blast
  from um_rx_advance_total [OF s2(2)] obtain s3 d' where s3:
    "um_rx_advance s2 = Some (s3, d')" "um_rx_inv s3"
    by blast
  show ?thesis
    using h(1) s2 s3 x inv
    by (simp add: um_DoReceivePdu_def Let_def um_rx_timer_inv flip: x_def)
qed

lemma um_ExpireReorderingTimer_total:
  assumes inv: "um_rx_inv s" and j: "j < 1024" "\<not> smap_has (um_rxBuffer s) (word_of_nat j)"
  shows "\<exists>s' as. um_ExpireReorderingTimer now s = Some (s', as) \<and> um_rx_inv s'"
proof -
  have wf: "sn_wf (um_vrUx s)" "sn_wf (um_vrUr s)"
    using inv by (simp_all add: um_rx_inv_def um_vars_wf_def)
  from um_next_missing_total [OF wf(1) j] obtain n where n:
    "um_next_missing (um_rxBuffer s) (um_vrUx s) = Some n" "sn_wf n"
    by blast
  have "um_rx_inv (s\<lparr>um_reorderingTimer := None, um_vrUr := n\<rparr>)"
    using inv n(2) by (simp add: um_rx_inv_def um_vars_wf_def)
  from um_ReassembleSnInterval_total [OF wf(2) n(2) this] obtain s1 d where
    "um_ReassembleSnInterval (um_vrUr s) n (s\<lparr>um_reorderingTimer := None, um_vrUr := n\<rparr>) = Some (s1, d)"
    "um_rx_inv s1"
    by blast
  then show ?thesis
    using n(1) by (auto simp: um_ExpireReorderingTimer_def Let_def um_rx_inv_def um_vars_wf_def)
qed

section \<open>Reception in order\<close>

text \<open>
  The receiver waits for number n with nothing buffered; \<open>kept\<close> is the SDU in progress.
\<close>

definition um_rx_waiting :: "bytes option \<Rightarrow> nat \<Rightarrow> rlc_um \<Rightarrow> bool" where
  "um_rx_waiting kept n s \<longleftrightarrow> um_vars_wf s \<and> um_rxBuffer s = [] \<and> sn_val (um_vrUr s) = n \<and>
     sn_val (um_vrUh s) = n \<and> sn_val (m_expectedSeqNumber (um_reas s)) = n \<and>
     um_reorderingTimer s = None \<and> reas_rel kept (um_reas s)"

lemma um_rx_waiting_init: "um_rx_waiting None 0 um_init"
  by (simp add: um_rx_waiting_def um_init_def um_vars_wf_def) (simp add: reas_init_def)

lemma um_interval_one:
  assumes "sn_wf a" "sn_wf b" "sn_base a = sn_base b" "sn_val b = (sn_val a + 1) mod 1024"
    and "sn_off a < sn_off b" "map_of (um_rxBuffer s) (m_value a) = Some p"
    and "um_ReassembleAndDeliver (um_reas s) p = Some (r', d)"
  shows "um_ReassembleSnInterval a b s =
    Some (s\<lparr>um_reas := r', um_rxBuffer := smap_erase (m_value a) (um_rxBuffer s)\<rparr>, d)"
proof -
  have 1: "sn_lt a b"
    using assms by (simp add: sn_cmp)
  have "m_value (sn_inc a) = m_value b"
    using assms(4) sn_val_inc [of a] by (simp only: sn_val_def word_unat_eq_iff)
  then have 2: "\<not> sn_lt (sn_inc a) b"
    by (simp add: sn_lt_def)
  have 3: "um_ReassembleSnInterval (sn_inc a) b t = Some (t, [])" for t
    using 2 by (subst um_ReassembleSnInterval.simps) simp
  show ?thesis
    using 1 assms(6,7) by (subst um_ReassembleSnInterval.simps) (simp add: 3)
qed

lemma mod_1024_succ_dist: "n < 1024 \<Longrightarrow> (Suc n mod 1024 + 1536 - n) mod 1024 = 513"
  by (cases "n = 1023") (simp_all add: mod_if)

lemma mod_1024_pred_dist: "n < 1024 \<Longrightarrow> (n + 1536 - Suc n mod 1024) mod 1024 = 511"
  by (cases "n = 1023") (simp_all add: mod_if)

lemma u16_succ_neq [simp]: "(k :: u16) + 1 \<noteq> k"
  by simp

text \<open>A PDU with the awaited number reaches the buffer and moves the upper edge by one.\<close>

lemma um_rx_outside_next:
  assumes wf: "um_vars_wf s" "sn_wf x" and n: "sn_val x = n" "sn_val (um_vrUh s) = n" "sn_val (um_vrUr s) = n"
    and rx: "um_rxBuffer s = [(sn_GetValue x, p)]"
  shows "\<exists>vrUh'. um_rx_outside x s = Some (s\<lparr>um_vrUh := vrUh'\<rparr>, []) \<and>
    sn_wf vrUh' \<and> sn_val vrUh' = (n + 1) mod 1024"
proof -
  have n1024: "n < 1024"
    using wf(2) n(1) by (simp add: sn_wf_nat)
  let ?s1 = "s\<lparr>um_vrUh := sn_plus x 1\<rparr>"
  have wf1: "um_vars_wf ?s1"
    using wf by (simp add: um_vars_wf_def)
  define s2 where "s2 = ?s1\<lparr>um_vrUh := sn_SetModulusBase (sn_plus x 1) (um_window_low ?s1)\<rparr>"
  have wf2: "um_vars_wf s2"
    using um_vars_wf_rebase [OF wf1] by (simp add: s2_def)
  have 1: "um_IsInsideReorderingWindow x s = (False, s\<lparr>um_vrUh := sn_SetModulusBase (um_vrUh s) (um_window_low s)\<rparr>)"
    using um_IsInside_fst [OF wf(1), of x] n n1024
    by (intro prod_eqI) (simp_all add: um_IsInside_snd wdist_def)
  have "fst (um_IsInsideReorderingWindow (sn_make (sn_GetValue x)) ?s1)"
    using um_IsInside_fst [OF wf1, of "sn_make (sn_GetValue x)"] n n1024
    by (simp add: wdist_def mod_1024_pred_dist sn_GetValue_def sn_val_def [symmetric])
  then have 2: "um_IsInsideReorderingWindow (sn_make (sn_GetValue x)) ?s1 = (True, s2)"
    by (intro prod_eqI) (simp_all add: um_IsInside_snd s2_def)
  have "fst (um_IsInsideReorderingWindow (um_vrUr s2) s2)"
    using um_IsInside_fst [OF wf2, of "um_vrUr s2"] n n1024
    by (simp add: s2_def wdist_def mod_1024_pred_dist)
  then have 3: "um_IsInsideReorderingWindow (um_vrUr s2) s2 =
      (True, s2\<lparr>um_vrUh := sn_SetModulusBase (um_vrUh s2) (um_window_low s2)\<rparr>)"
    by (intro prod_eqI) (simp_all add: um_IsInside_snd)
  have "um_rx_outside x s = Some (s2\<lparr>um_vrUh := sn_SetModulusBase (um_vrUh s2) (um_window_low s2)\<rparr>, [])"
  proof -
    have rx2: "s2\<lparr>um_rxBuffer := [(sn_GetValue x, p)]\<rparr> = s2"
      using rx by (simp add: s2_def flip: rx)
    have "um_ReassembleOutsideWindow ?s1 = Some (s2, [])"
      using 2 rx by (simp add: um_ReassembleOutsideWindow_def rx2)
    then show ?thesis
      using 3 by (simp add: um_rx_outside_def 1)
  qed
  moreover have "sn_wf (um_vrUh s2)" "sn_wf (um_window_low s2)"
    using wf2 by (simp_all add: um_vars_wf_def)
  ultimately show ?thesis
    using n(1) by (intro exI [of _ "sn_SetModulusBase (um_vrUh s2) (um_window_low s2)"])
      (auto simp: s2_def)
qed

text \<open>
  A PDU in sequence is reassembled at once and the receiver waits for the next number. The
  argument holds across the wrap of the sequence number at 1024.
\<close>

lemma um_receive_in_order:
  assumes w: "um_rx_waiting kept n s" and fits: "pdu_fits kept u"
    and c: "um_contents p (sn_make (word_of_nat n)) u"
  shows "\<exists>s'. um_DoReceivePdu now p s = Some (s', map ReceivePdcpPdu (snd (reas_spec kept u))) \<and>
    um_rx_waiting (fst (reas_spec kept u)) ((n + 1) mod 1024) s'"
proof -
  have wf: "um_vars_wf s" and rel: "reas_rel kept (um_reas s)"
    and v: "sn_val (um_vrUr s) = n" "sn_val (um_vrUh s) = n" "um_rxBuffer s = []"
      "um_reorderingTimer s = None" "sn_val (m_expectedSeqNumber (um_reas s)) = n"
    using w by (simp_all add: um_rx_waiting_def)
  have n: "n < 1024"
    using wf v(1) by (simp add: um_vars_wf_def sn_wf_nat)
  obtain h q where h: "RemoveHeader um_des p = Some (h, q)"
      "m_value (uh_sequenceNumber h) = m_value (sn_make (word_of_nat n))"
    using c by (auto simp: um_contents_def)
  define low where "low = um_window_low s"
  have low: "sn_val low < 1024"
    using wf by (simp add: low_def um_window_low_val)
  define x where "x = sn_SetModulusBase (uh_sequenceNumber h) low"
  have x: "sn_val x = n" "sn_base x = sn_val low" "sn_wf x"
    using h(2) n low by (simp_all add: x_def sn_wf_nat) (simp_all add: sn_val_def sn_make_def unat_mod)
  define s1 where "s1 = (um_rx_bases s)\<lparr>um_rxBuffer := [(sn_GetValue x, p)]\<rparr>"
  have s1: "um_vars_wf s1" "sn_val (um_vrUh s1) = n" "sn_val (um_vrUr s1) = n"
    "um_rxBuffer s1 = [(sn_GetValue x, p)]" "sn_base (um_vrUr s1) = sn_val low" "um_reas s1 = um_reas s"
    "um_reorderingTimer s1 = None"
    using wf v low by (simp_all add: s1_def um_rx_bases_def um_vars_wf_def sn_wf_nat low_def)
  from um_rx_outside_next [OF s1(1) x(3,1) s1(2,3,4)] obtain vrUh' where
    vrUh': "um_rx_outside x s1 = Some (s1\<lparr>um_vrUh := vrUh'\<rparr>, [])" "sn_wf vrUh'"
      "sn_val vrUh' = (n + 1) mod 1024"
    by blast
  define s2 where "s2 = s1\<lparr>um_vrUh := vrUh'\<rparr>"
  have eqv: "sn_GetValue x = sn_GetValue (um_vrUr s2)"
    using x(1) s1(3) by (simp add: s2_def sn_GetValue_def sn_val_def word_unat_eq_iff)
  define new where "new = sn_assign (um_vrUr s2) (sn_GetValue (um_vrUr s2) + 1)"
  have "unat (sn_GetValue (um_vrUr s2) + 1) = n + 1"
    using s1(3) n by (simp add: s2_def sn_GetValue_def sn_val_def unat_word_ariths)
  then have new: "sn_val new = (n + 1) mod 1024" "sn_base new = sn_val low" "sn_wf new"
    using s1(5) low by (simp_all add: new_def s2_def sn_wf_nat)
  have nm: "um_next_missing16 (um_rxBuffer s2) (sn_GetValue (um_vrUr s2) + 1)
      = Some (sn_GetValue (um_vrUr s2) + 1)"
    using eqv s1(4) by (subst um_next_missing16.simps) (simp add: s2_def smap_has_def)
  have off: "sn_off (um_vrUr s2) = 512" "sn_off new = 513"
    using off_wdist [OF wf, of "um_vrUr s2"] off_wdist [OF wf, of new] new s1 n v
    by (simp_all add: s2_def low_def wdist_def mod_1024_succ_dist)
  have exp: "um_contents p (m_expectedSeqNumber (um_reas s)) u"
    using um_contents_val [OF c] n v(5) by simp
  obtain r' where r': "um_ReassembleAndDeliver (um_reas s) p = Some (r', snd (reas_spec kept u))"
    "reas_rel (fst (reas_spec kept u)) r'" "sn_val (m_expectedSeqNumber r') = (n + 1) mod 1024"
    using um_reassemble_in_sequence [OF rel fits exp] v(5) by auto
  define s3 where "s3 = s2\<lparr>um_vrUr := new, um_reas := r', um_rxBuffer := []\<rparr>"
  have vr: "sn_wf (um_vrUr s2)" "sn_base (um_vrUr s2) = sn_base new" "sn_val (um_vrUr s2) = n"
    "map_of (um_rxBuffer s2) (m_value (um_vrUr s2)) = Some p" "um_reas s2 = um_reas s"
    "smap_erase (m_value (um_vrUr s2)) (um_rxBuffer s2) = []"
    using s1 new eqv by (simp_all add: s2_def um_vars_wf_def sn_GetValue_def smap_erase_def)
  have adv: "um_rx_advance s2 = Some (s3, snd (reas_spec kept u))"
    using um_interval_one [of "um_vrUr s2" new "s2\<lparr>um_vrUr := new\<rparr>" p r' "snd (reas_spec kept u)"]
      vr new off r'(1) nm
    by (simp add: um_rx_advance_def smap_has_def sn_GetValue_def s3_def flip: new_def)
       (simp add: new_def sn_GetValue_def)
  have fin: "um_rx_start_timer now (um_rx_stop_timer (um_rx_rebase s3)) = um_rx_rebase s3"
  proof -
    have "m_value (um_vrUh s3) = m_value (um_vrUr s3)"
      using new(1) vrUh'(3) by (simp add: s3_def s2_def sn_val_def word_unat_eq_iff)
    then have "\<not> sn_gt (um_vrUh (um_rx_rebase s3)) (um_vrUr (um_rx_rebase s3))"
      by (simp add: um_rx_rebase_def sn_gt_def sn_key_def sn_SetModulusBase_def)
    moreover have "um_reorderingTimer (um_rx_rebase s3) = None"
      using s1(7) by (simp add: um_rx_rebase_def s3_def s2_def)
    ultimately show ?thesis
      by (simp add: um_rx_stop_timer_def um_rx_start_timer_def)
  qed
  have nd: "\<not> um_rx_discards x (um_rx_bases s)"
    using x(1) v(1) by (simp add: um_rx_discards_def um_rx_bases_def sn_lt_def sn_val_def
        word_unat_eq_iff sn_SetModulusBase_def)
  have "um_rxBuffer (um_rx_bases s) = []"
    using v(3) by (simp add: um_rx_bases_def)
  then have "um_DoReceivePdu now p s = Some (um_rx_rebase s3, map ReceivePdcpPdu (snd (reas_spec kept u)))"
    using nd vrUh'(1) adv fin PeekHeader_RemoveHeader [OF h(1)]
    by (simp add: um_DoReceivePdu_def Let_def flip: low_def x_def s1_def s2_def)
  moreover have "um_rx_waiting (fst (reas_spec kept u)) ((n + 1) mod 1024) (um_rx_rebase s3)"
    using s1(1,7) vrUh' new r' by (simp add: um_rx_waiting_def um_rx_rebase_def s3_def s2_def um_vars_wf_def)
  ultimately show ?thesis
    by blast
qed

end
