(* ===== verification/Pdcp.thy ===== *)
theory Pdcp
  imports HeaderCodec
begin

text \<open>
  The PDCP layer: \<^verbatim>\<open>LtePdcpHeader\<close> of \<^verbatim>\<open>src/lte/model/lte-pdcp-header.cc\<close> and \<^verbatim>\<open>LtePdcp\<close> of
  \<^verbatim>\<open>src/lte/model/lte-pdcp.cc\<close>. An SDU gets a two-byte header with a 12-bit sequence number and
  goes to RLC; the receiver removes the header and records the next expected number.
\<close>

section \<open>The header\<close>

record pdcp_header =
  ph_dcBit :: u8
  ph_sequenceNumber :: u16

definition pdcp_header_init :: pdcp_header where
  "pdcp_header_init = \<lparr>ph_dcBit = 0xff, ph_sequenceNumber = 0xfffa\<rparr>"

definition PDCP_DATA_PDU :: u8 where "PDCP_DATA_PDU = 1"

definition pdcp_SetDcBit :: "u8 \<Rightarrow> pdcp_header \<Rightarrow> pdcp_header" where
  "pdcp_SetDcBit d h = h\<lparr>ph_dcBit := d AND 0x01\<rparr>"

definition pdcp_SetSequenceNumber :: "u16 \<Rightarrow> pdcp_header \<Rightarrow> pdcp_header" where
  "pdcp_SetSequenceNumber sn h = h\<lparr>ph_sequenceNumber := sn AND 0x0FFF\<rparr>"

definition pdcp_GetSerializedSize :: "pdcp_header \<Rightarrow> nat" where
  "pdcp_GetSerializedSize h = 2"

definition pdcp_byte1 :: "u8 \<Rightarrow> u16 \<Rightarrow> u8" where
  "pdcp_byte1 d sn = push_bit 7 d OR ucast (drop_bit 8 (sn AND 0x0F00))"

definition pdcp_byte2 :: "u16 \<Rightarrow> u8" where
  "pdcp_byte2 sn = ucast (sn AND 0x00FF)"

definition pdcp_Serialize :: "pdcp_header \<Rightarrow> bytes option" where
  "pdcp_Serialize h =
     Some [pdcp_byte1 (ph_dcBit h) (ph_sequenceNumber h), pdcp_byte2 (ph_sequenceNumber h)]"

text \<open>The bit is read with a comparison, not with a shift.\<close>

definition pdcp_rd_dc :: "u8 \<Rightarrow> u8" where
  "pdcp_rd_dc byte1 = (if byte1 AND 0x80 > 7 then 1 else 0)"

definition pdcp_rd_sn :: "u8 \<Rightarrow> u8 \<Rightarrow> u16" where
  "pdcp_rd_sn byte1 byte2 = push_bit 8 (ucast (byte1 AND 0x0F)) OR ucast byte2"

definition pdcp_Deserialize :: "pdcp_header \<Rightarrow> bytes \<Rightarrow> (pdcp_header \<times> nat) option" where
  "pdcp_Deserialize h bs =
     (case bs of
        byte1 # byte2 # _ \<Rightarrow>
          (let h' = h\<lparr>ph_dcBit := pdcp_rd_dc byte1, ph_sequenceNumber := pdcp_rd_sn byte1 byte2\<rparr>
           in Some (h', pdcp_GetSerializedSize h'))
      | _ \<Rightarrow> None)"

abbreviation pdcp_des :: "bytes \<Rightarrow> (pdcp_header \<times> nat) option" where
  "pdcp_des \<equiv> pdcp_Deserialize pdcp_header_init"

definition pdcp_hwf :: "pdcp_header \<Rightarrow> bool" where
  "pdcp_hwf h \<longleftrightarrow> ph_dcBit h < 2 \<and> ph_sequenceNumber h < 4096"

lemma pdcp_rd_dc_shift: "pdcp_rd_dc b = drop_bit 7 (b AND 0x80)"
proof (cases "bit b 7")
  case True
  then have "b AND 0x80 = 0x80" "drop_bit 7 (b AND 0x80) = 1"
    by (simp_all add: word_bits_eq bit_simps)
  then show ?thesis
    by (simp add: pdcp_rd_dc_def)
next
  case False
  then have "b AND 0x80 = 0"
    by (simp add: word_bits_eq bit_simps)
  then show ?thesis
    by (simp add: pdcp_rd_dc_def)
qed

lemma pdcp_rd_dc_byte1 [simp]: "d < 2 \<Longrightarrow> pdcp_rd_dc (pdcp_byte1 d sn) = d"
  by (drule u8_lt_2) (simp add: pdcp_rd_dc_shift pdcp_byte1_def word_bits_eq bit_simps)

lemma pdcp_rd_sn_bytes [simp]:
  "sn < 4096 \<Longrightarrow> pdcp_rd_sn (pdcp_byte1 d sn) (pdcp_byte2 sn) = sn"
  by (drule u16_lt_4096)
     (simp add: pdcp_rd_sn_def pdcp_byte1_def pdcp_byte2_def word_bits_eq bit_simps)

interpretation pdcp_codec: header_codec pdcp_GetSerializedSize pdcp_Serialize pdcp_des pdcp_hwf
    "\<lambda>h. h"
  by unfold_locales
     (auto simp: pdcp_Serialize_def pdcp_Deserialize_def pdcp_GetSerializedSize_def pdcp_hwf_def
       pdcp_header_init_def Let_def)

section \<open>The entity\<close>

record pdcp =
  pd_rnti :: u16
  pd_lcid :: u8
  pd_txSequenceNumber :: u16
  pd_rxSequenceNumber :: u16

record pdcp_status =
  st_txSn :: u16
  st_rxSn :: u16

definition m_maxPdcpSn :: u16 where "m_maxPdcpSn = 4095"

definition pdcp_init :: pdcp where
  "pdcp_init = \<lparr>pd_rnti = 0, pd_lcid = 0, pd_txSequenceNumber = 0, pd_rxSequenceNumber = 0\<rparr>"

definition pdcp_SetRnti :: "u16 \<Rightarrow> pdcp \<Rightarrow> pdcp" where
  "pdcp_SetRnti rnti s = s\<lparr>pd_rnti := rnti\<rparr>"

definition pdcp_SetLcId :: "u8 \<Rightarrow> pdcp \<Rightarrow> pdcp" where
  "pdcp_SetLcId lcId s = s\<lparr>pd_lcid := lcId\<rparr>"

definition pdcp_GetStatus :: "pdcp \<Rightarrow> pdcp_status" where
  "pdcp_GetStatus s = \<lparr>st_txSn = pd_txSequenceNumber s, st_rxSn = pd_rxSequenceNumber s\<rparr>"

definition pdcp_SetStatus :: "pdcp_status \<Rightarrow> pdcp \<Rightarrow> pdcp" where
  "pdcp_SetStatus st s = s\<lparr>pd_txSequenceNumber := st_txSn st, pd_rxSequenceNumber := st_rxSn st\<rparr>"

text \<open>The next sequence number, computed in 16 bits as in the two operations.\<close>

definition next_pdcp_sn :: "u16 \<Rightarrow> u16" where
  "next_pdcp_sn sn = (let sn' = sn + 1 in if sn' > m_maxPdcpSn then 0 else sn')"

text \<open>
  \<^verbatim>\<open>DoTransmitPdcpSdu\<close>: the new state and the call \<^verbatim>\<open>TransmitPdcpPdu\<close> to RLC as RNTI, LCID
  and PDU.
\<close>

definition DoTransmitPdcpSdu :: "bytes \<Rightarrow> pdcp \<Rightarrow> (pdcp \<times> (u16 \<times> u8 \<times> bytes)) option" where
  "DoTransmitPdcpSdu p s =
     (let h1 = pdcp_SetSequenceNumber (pd_txSequenceNumber s) pdcp_header_init;
          s1 = s\<lparr>pd_txSequenceNumber := next_pdcp_sn (pd_txSequenceNumber s)\<rparr>;
          h2 = pdcp_SetDcBit PDCP_DATA_PDU h1
      in (case AddHeader pdcp_GetSerializedSize pdcp_Serialize h2 p of
            None \<Rightarrow> None
          | Some q \<Rightarrow> Some (s1, (pd_rnti s1, pd_lcid s1, q))))"

text \<open>\<^verbatim>\<open>DoReceivePdu\<close>: the new state and the call \<^verbatim>\<open>ReceivePdcpSdu\<close> to the layer above.\<close>

definition pdcp_DoReceivePdu :: "bytes \<Rightarrow> pdcp \<Rightarrow> (pdcp \<times> (u16 \<times> u8 \<times> bytes)) option" where
  "pdcp_DoReceivePdu p s =
     (case RemoveHeader pdcp_des p of
        None \<Rightarrow> None
      | Some (h, q) \<Rightarrow>
          (let s1 = s\<lparr>pd_rxSequenceNumber := next_pdcp_sn (ph_sequenceNumber h)\<rparr>
           in Some (s1, (pd_rnti s1, pd_lcid s1, q))))"

section \<open>Properties\<close>

definition pdcp_inv :: "pdcp \<Rightarrow> bool" where
  "pdcp_inv s \<longleftrightarrow> pd_txSequenceNumber s \<le> m_maxPdcpSn \<and> pd_rxSequenceNumber s \<le> m_maxPdcpSn"

lemma unat_next_pdcp_sn:
  "sn \<le> m_maxPdcpSn \<Longrightarrow> unat (next_pdcp_sn sn) = (unat sn + 1) mod 4096"
proof -
  assume "sn \<le> m_maxPdcpSn"
  then have "unat sn \<le> 4095"
    by (simp add: m_maxPdcpSn_def word_le_nat_alt)
  moreover from this have "unat (sn + 1) = unat sn + 1"
    by (simp add: unat_word_ariths)
  ultimately show ?thesis
    by (auto simp: next_pdcp_sn_def m_maxPdcpSn_def Let_def word_less_nat_alt mod_if)
qed

lemma next_pdcp_sn_le [simp]: "next_pdcp_sn sn \<le> m_maxPdcpSn"
  by (auto simp: next_pdcp_sn_def Let_def)

definition pdcp_data_header :: "u16 \<Rightarrow> pdcp_header" where
  "pdcp_data_header sn =
     pdcp_SetDcBit PDCP_DATA_PDU (pdcp_SetSequenceNumber sn pdcp_header_init)"

lemma pdcp_mask_id: "sn \<le> m_maxPdcpSn \<Longrightarrow> sn AND 0x0FFF = sn"
proof -
  assume "sn \<le> m_maxPdcpSn"
  then have "sn < 4096"
    by (simp add: m_maxPdcpSn_def word_le_nat_alt word_less_nat_alt)
  from u16_lt_4096 [OF this] show ?thesis
    by (simp add: word_bits_eq bit_simps)
qed

lemma pdcp_mask_less: "(sn :: u16) AND 0x0FFF < 4096"
  using word_and_le1 [of sn "0x0FFF"] by (rule le_less_trans) simp

lemma pdcp_data_header_hwf [simp]: "pdcp_hwf (pdcp_data_header sn)"
  by (simp add: pdcp_hwf_def pdcp_data_header_def pdcp_SetDcBit_def pdcp_SetSequenceNumber_def
      PDCP_DATA_PDU_def pdcp_mask_less)

lemma pdcp_transmit_eq:
  "DoTransmitPdcpSdu p s =
     map_option (\<lambda>q. (s\<lparr>pd_txSequenceNumber := next_pdcp_sn (pd_txSequenceNumber s)\<rparr>,
                      (pd_rnti s, pd_lcid s, q)))
       (AddHeader pdcp_GetSerializedSize pdcp_Serialize (pdcp_data_header (pd_txSequenceNumber s)) p)"
  by (simp add: DoTransmitPdcpSdu_def pdcp_data_header_def Let_def split: option.splits)

text \<open>Transmission never fails and adds two bytes.\<close>

lemma pdcp_transmit_total:
  "\<exists>s' q. DoTransmitPdcpSdu p s = Some (s', (pd_rnti s, pd_lcid s, q)) \<and> length q = length p + 2 \<and>
     pd_txSequenceNumber s' = next_pdcp_sn (pd_txSequenceNumber s) \<and>
     pd_rxSequenceNumber s' = pd_rxSequenceNumber s"
proof -
  obtain b where "AddHeader pdcp_GetSerializedSize pdcp_Serialize
      (pdcp_data_header (pd_txSequenceNumber s)) p = Some (b @ p)" "length b = 2"
    using pdcp_codec.AddHeader_Some [OF pdcp_data_header_hwf, of "pd_txSequenceNumber s" p]
    by (auto simp: pdcp_GetSerializedSize_def)
  then show ?thesis
    by (simp add: pdcp_transmit_eq)
qed

lemma pdcp_transmit_receive:
  assumes "DoTransmitPdcpSdu p s = Some (s', (rn, lc, q))"
    and "pd_txSequenceNumber s \<le> m_maxPdcpSn"
  shows "\<exists>t'. pdcp_DoReceivePdu q t = Some (t', (pd_rnti t, pd_lcid t, p)) \<and>
    pd_rxSequenceNumber t' = pd_txSequenceNumber s' \<and>
    pd_txSequenceNumber t' = pd_txSequenceNumber t"
proof -
  from assms(1) have q: "AddHeader pdcp_GetSerializedSize pdcp_Serialize
      (pdcp_data_header (pd_txSequenceNumber s)) p = Some q"
    "pd_txSequenceNumber s' = next_pdcp_sn (pd_txSequenceNumber s)"
    by (auto simp: pdcp_transmit_eq)
  from pdcp_codec.RemoveHeader_AddHeader [OF pdcp_data_header_hwf q(1)]
  have "RemoveHeader pdcp_des q = Some (pdcp_data_header (pd_txSequenceNumber s), p)"
    by simp
  moreover have "ph_sequenceNumber (pdcp_data_header (pd_txSequenceNumber s))
      = pd_txSequenceNumber s"
    using pdcp_mask_id [OF assms(2)]
    by (simp add: pdcp_data_header_def pdcp_SetDcBit_def pdcp_SetSequenceNumber_def)
  ultimately show ?thesis
    using q(2) by (simp add: pdcp_DoReceivePdu_def Let_def)
qed

lemma pdcp_inv_preserved:
  "pdcp_inv s \<Longrightarrow> DoTransmitPdcpSdu p s = Some (s', out) \<Longrightarrow> pdcp_inv s'"
  "pdcp_inv s \<Longrightarrow> pdcp_DoReceivePdu p s = Some (s', out') \<Longrightarrow> pdcp_inv s'"
  by (auto simp: pdcp_inv_def pdcp_transmit_eq pdcp_DoReceivePdu_def Let_def split: option.splits)

end
