(* ===== verification/RlcUmLink.thy ===== *)
theory RlcUmLink
  imports RlcUmRx Pdcp
begin

text \<open>
  The user plane end to end: a transmitting \<^verbatim>\<open>LteRlcUm\<close> and a receiving one whose PDUs arrive at
  once and in order, and PDCP entities on both ends. The MAC is represented by the opportunities
  it grants, of any size and at any time.
\<close>

section \<open>Two RLC entities\<close>

fun um_rx_all :: "time_ns \<Rightarrow> bytes list \<Rightarrow> rlc_um \<Rightarrow> (rlc_um \<times> bytes list) option" where
  "um_rx_all now [] r = Some (r, [])"
| "um_rx_all now (p # ps) r =
     (case um_DoReceivePdu now p r of
        None \<Rightarrow> None
      | Some (r', as) \<Rightarrow> map_option (\<lambda>(r'', d). (r'', delivered as @ d)) (um_rx_all now ps r'))"

text \<open>
  A run of the link: the entities afterwards, the SDUs the transmitter stored and the SDUs the
  receiver delivered.
\<close>

fun um_link :: "rlc_event list \<Rightarrow> rlc_um \<Rightarrow> rlc_um \<Rightarrow> (rlc_um \<times> rlc_um \<times> bytes list \<times> bytes list) option" where
  "um_link [] s r = Some (s, r, [], [])"
| "um_link (Submit now p # es) s r =
     (let accepted = (if um_txBufferSize s + GetSize p \<le> um_maxTxBufferSize s then [p] else [])
      in map_option (\<lambda>(s', r', acc, d). (s', r', accepted @ acc, d))
           (um_link es (fst (um_DoTransmitPdcpPdu now p s)) r))"
| "um_link (Opportunity now o' # es) s r =
     (case um_DoNotifyTxOpportunity now o' s of
        None \<Rightarrow> None
      | Some (s', as) \<Rightarrow>
          (case um_rx_all now (transmitted as) r of
             None \<Rightarrow> None
           | Some (r', d) \<Rightarrow>
               map_option (\<lambda>(s'', r'', acc, d'). (s'', r'', acc, d @ d')) (um_link es s' r')))"

definition um_in_step :: "bytes option \<Rightarrow> rlc_um \<Rightarrow> rlc_um \<Rightarrow> bool" where
  "um_in_step kept s r \<longleftrightarrow> um_sizes_ok s \<and> um_tx_ok kept (um_txBuffer s) \<and>
     um_rx_waiting kept (sn_val (um_sequenceNumber s)) r"

text \<open>
  The events of a transmitter with a buffer of m bytes. A buffer of at most 43689 bytes never holds
  so many SDUs that the header length could wrap, whatever the grant.
\<close>

fun um_event_ok :: "u32 \<Rightarrow> rlc_event \<Rightarrow> bool" where
  "um_event_ok m (Submit now p) = um_sdu_ok p"
| "um_event_ok m (Opportunity now o') = (txo_bytes o' < 2 ^ 16 \<or> unat m \<le> 43689)"

lemma um_room_in_step:
  assumes "um_in_step kept s r" "um_event_ok (um_maxTxBufferSize s) (Opportunity now o')"
  shows "um_room o' s"
proof -
  have "length ps \<le> total_size ps" if "\<forall>p\<in>set ps. 0 < length p" for ps :: "bytes list"
    using that by (induction ps) (fastforce simp: Suc_le_eq neq_Nil_conv)+
  from this [of "pdus (um_txBuffer s)"] have "length (um_txBuffer s) \<le> unat (um_maxTxBufferSize s)"
    using assms(1) by (auto simp: um_in_step_def um_sizes_ok_def um_tx_ok_def word_le_nat_alt)
  then show ?thesis
    using assms(2) by (auto simp: um_room_def)
qed

lemma um_in_step_init: "um_in_step None um_init um_init"
  using um_rx_waiting_init by (simp add: um_in_step_def um_sizes_ok_init) (simp add: um_init_def)

lemma um_link_submit:
  fixes now :: time_ns
  assumes rel: "um_in_step kept s r" and p: "um_sdu_ok p"
  defines "s' \<equiv> fst (um_DoTransmitPdcpPdu now p s)"
    and "accepted \<equiv> (if um_txBufferSize s + GetSize p \<le> um_maxTxBufferSize s then [p] else [])"
  shows "um_in_step kept s' r" "um_maxTxBufferSize s' = um_maxTxBufferSize s"
    and "join kept (pdus (um_txBuffer s')) = join kept (pdus (um_txBuffer s)) @ accepted"
proof -
  have p': "sdu_ok p" "p \<noteq> []" and sz: "um_sizes_ok s" and ok: "um_tx_ok kept (um_txBuffer s)"
    using p rel by (simp_all add: um_sdu_ok_def um_in_step_def)
  note eq = um_submit_eq [OF sz p'(1), of now, folded s'_def]
  have acc: "accepted = (if um_accepts p s then [p] else [])"
    using queue_accepts(2) [of "um_txBufferSize s" "pdus (um_txBuffer s)" "um_maxTxBufferSize s" p] sz p'
    by (simp add: accepted_def um_accepts_def um_sizes_ok_def)
  have "um_tx_ok kept (um_txBuffer s')"
    using ok um_tx_ok_append [OF ok p'(2)] by (simp add: eq(2))
  moreover have "um_sequenceNumber s' = um_sequenceNumber s"
    by (subst eq(3)) simp
  ultimately show "um_in_step kept s' r"
    using rel eq(1) by (simp add: um_in_step_def)
  show "um_maxTxBufferSize s' = um_maxTxBufferSize s"
    by (subst eq(3)) simp
  show "join kept (pdus (um_txBuffer s')) = join kept (pdus (um_txBuffer s)) @ accepted"
    using ok by (auto simp: eq(2) acc join_def um_tx_ok_def split: option.splits list.splits)
qed

lemma um_link_opportunity:
  assumes rel: "um_in_step kept s r" and room: "um_event_ok (um_maxTxBufferSize s) (Opportunity now o')"
  shows "\<exists>s' as r' d kept'. um_DoNotifyTxOpportunity now o' s = Some (s', as) \<and>
    um_maxTxBufferSize s' = um_maxTxBufferSize s \<and>
    um_rx_all now (transmitted as) r = Some (r', d) \<and> um_in_step kept' s' r' \<and>
    d @ join kept' (pdus (um_txBuffer s')) = join kept (pdus (um_txBuffer s))"
proof (cases "um_txBuffer s = [] \<or> txo_bytes o' \<le> 2")
  case True
  then show ?thesis
    using rel um_opportunity_idle [OF True, of now] by auto
next
  case False
  have sz: "um_sizes_ok s" and ok: "um_tx_ok kept (um_txBuffer s)"
    and w: "um_rx_waiting kept (sn_val (um_sequenceNumber s)) r"
    using rel by (simp_all add: um_in_step_def)
  from um_opportunity_sends [OF sz ok, of o' now] False um_room_in_step [OF rel room] obtain s' packet u where
    snd: "um_DoNotifyTxOpportunity now o' s = Some (s', [TransmitPdu (answer_params (um_base s) o' packet)])"
      "um_sends kept s o' s' packet u"
    by auto
  have n: "sn_val (um_sequenceNumber s) < 1024"
    using sz by (simp add: um_sizes_ok_def sn_wf_nat)
  have "um_contents packet (sn_make (word_of_nat (sn_val (um_sequenceNumber s)))) u"
    using snd(2) um_contents_val n by (auto simp: um_sends_def)
  moreover have "pdu_fits kept u"
    using snd(2) by (simp add: um_sends_def)
  ultimately obtain r' where r': "um_DoReceivePdu now packet r
      = Some (r', map ReceivePdcpPdu (snd (reas_spec kept u)))"
    "um_rx_waiting (fst (reas_spec kept u)) ((sn_val (um_sequenceNumber s) + 1) mod 1024) r'"
    using um_receive_in_order [OF w] by blast
  have "sn_val (um_sequenceNumber s') = (sn_val (um_sequenceNumber s) + 1) mod 1024"
    using snd(2) by (simp add: um_sends_def)
  with r'(2) snd(2) have "um_in_step (fst (reas_spec kept u)) s' r'"
    by (simp add: um_in_step_def um_sends_def)
  moreover have "um_maxTxBufferSize s' = um_maxTxBufferSize s"
    using snd(1)
    by (auto simp: um_DoNotifyTxOpportunity_def Let_def split: if_splits list.splits prod.splits option.splits)
  ultimately show ?thesis
    using snd r'(1) by (auto simp: um_sends_def)
qed

lemma um_link_run:
  assumes "um_in_step kept s r" and "list_all (um_event_ok (um_maxTxBufferSize s)) es"
  shows "\<exists>s' r' acc d kept'. um_link es s r = Some (s', r', acc, d) \<and> um_in_step kept' s' r' \<and>
    d @ join kept' (pdus (um_txBuffer s')) = join kept (pdus (um_txBuffer s)) @ acc"
  using assms
proof (induction es s r arbitrary: kept rule: um_link.induct)
  case (1 s r)
  then show ?case
    by auto
next
  case (2 now p es s r)
  then have p: "um_sdu_ok p"
    by simp
  note sub = um_link_submit [OF "2.prems"(1) p, of now]
  from "2.IH" [OF refl sub(1)] "2.prems"(2) sub(2) obtain s' r' acc d kept' where
    "um_link es (fst (um_DoTransmitPdcpPdu now p s)) r = Some (s', r', acc, d)"
    "um_in_step kept' s' r'"
    "d @ join kept' (pdus (um_txBuffer s')) =
       join kept (pdus (um_txBuffer (fst (um_DoTransmitPdcpPdu now p s)))) @ acc"
    by auto
  with sub(3) show ?case
    by (auto simp: Let_def)
next
  case (3 now o' es s r)
  from um_link_opportunity [OF "3.prems"(1), of now o'] "3.prems"(2) obtain s1 as r1 d1 kept1 where
    o: "um_DoNotifyTxOpportunity now o' s = Some (s1, as)"
      "um_rx_all now (transmitted as) r = Some (r1, d1)" "um_in_step kept1 s1 r1"
      "d1 @ join kept1 (pdus (um_txBuffer s1)) = join kept (pdus (um_txBuffer s))"
      "um_maxTxBufferSize s1 = um_maxTxBufferSize s"
    by auto
  from "3.IH" [OF o(1) refl o(2) refl o(3)] "3.prems"(2) o(5) obtain s' r' acc d kept' where
    ih: "um_link es s1 r1 = Some (s', r', acc, d)" "um_in_step kept' s' r'"
      "d @ join kept' (pdus (um_txBuffer s')) = join kept1 (pdus (um_txBuffer s1)) @ acc"
    by auto
  have "(d1 @ d) @ join kept' (pdus (um_txBuffer s')) = join kept (pdus (um_txBuffer s)) @ acc"
    using ih(3) by (simp flip: o(4))
  moreover have "um_link (Opportunity now o' # es) s r = Some (s', r', acc, d1 @ d)"
    using o(1,2) ih(1) by simp
  ultimately show ?case
    using ih(2) by blast
qed

section \<open>PDCP on both ends\<close>

text \<open>
  The sending stack hands an SDU to PDCP and its PDU to RLC; the receiving stack hands every SDU
  that RLC delivers to PDCP.
\<close>

datatype stack_event = Sdu time_ns bytes | Grant time_ns TxOpportunityParameters

record lte_stack =
  sk_pdcp :: pdcp
  sk_um :: rlc_um

definition stack_init :: lte_stack where
  "stack_init = \<lparr>sk_pdcp = pdcp_init, sk_um = um_init\<rparr>"

fun pdcp_receive_all :: "bytes list \<Rightarrow> pdcp \<Rightarrow> (pdcp \<times> bytes list) option" where
  "pdcp_receive_all [] t = Some (t, [])"
| "pdcp_receive_all (p # ps) t =
     (case pdcp_DoReceivePdu p t of
        None \<Rightarrow> None
      | Some (t', (_, _, q)) \<Rightarrow> map_option (\<lambda>(t'', qs). (t'', q # qs)) (pdcp_receive_all ps t'))"

text \<open>The RLC events that the events of the sending stack cause.\<close>

fun stack_events :: "stack_event list \<Rightarrow> pdcp \<Rightarrow> (pdcp \<times> rlc_event list) option" where
  "stack_events [] t = Some (t, [])"
| "stack_events (Sdu now p # es) t =
     (case DoTransmitPdcpSdu p t of
        None \<Rightarrow> None
      | Some (t', (_, _, q)) \<Rightarrow> map_option (\<lambda>(t'', es'). (t'', Submit now q # es')) (stack_events es t'))"
| "stack_events (Grant now o' # es) t =
     map_option (\<lambda>(t', es'). (t', Opportunity now o' # es')) (stack_events es t)"

text \<open>Everything that is sent, RLC included, and the SDUs delivered above PDCP.\<close>

definition stack_link :: "stack_event list \<Rightarrow> lte_stack \<Rightarrow> lte_stack \<Rightarrow>
    (lte_stack \<times> lte_stack \<times> bytes list \<times> bytes list) option" where
  "stack_link es s r =
     (case stack_events es (sk_pdcp s) of
        None \<Rightarrow> None
      | Some (t, es') \<Rightarrow>
          (case um_link es' (sk_um s) (sk_um r) of
             None \<Rightarrow> None
           | Some (um_s, um_r, acc, d) \<Rightarrow>
               (case pdcp_receive_all d (sk_pdcp r) of
                  None \<Rightarrow> None
                | Some (t', out) \<Rightarrow>
                    Some (\<lparr>sk_pdcp = t, sk_um = um_s\<rparr>, \<lparr>sk_pdcp = t', sk_um = um_r\<rparr>, acc, out))))"

text \<open>A PDCP PDU carries the SDU, whatever its sequence number.\<close>

definition pdcp_carries :: "bytes \<Rightarrow> bytes \<Rightarrow> bool" where
  "pdcp_carries q p \<longleftrightarrow> (\<forall>t. \<exists>t'. pdcp_DoReceivePdu q t = Some (t', (pd_rnti t, pd_lcid t, p)))"

fun stack_sdus :: "stack_event list \<Rightarrow> bytes list" where
  "stack_sdus [] = []"
| "stack_sdus (Sdu now p # es) = p # stack_sdus es"
| "stack_sdus (Grant now o' # es) = stack_sdus es"

fun submitted :: "rlc_event list \<Rightarrow> bytes list" where
  "submitted [] = []"
| "submitted (Submit now p # es) = p # submitted es"
| "submitted (Opportunity now o' # es) = submitted es"

lemma stack_events_total:
  assumes "pd_txSequenceNumber t \<le> m_maxPdcpSn" and "\<forall>p\<in>set (stack_sdus es). length p < 2 ^ 31 - 2"
  shows "\<exists>t' es'. stack_events es t = Some (t', es') \<and> list_all (um_event_ok (10 * 1024)) es' \<and>
    list_all2 pdcp_carries (submitted es') (stack_sdus es)"
  using assms
proof (induction es t rule: stack_events.induct)
  case (2 now p es t)
  obtain t' q where q: "DoTransmitPdcpSdu p t = Some (t', (pd_rnti t, pd_lcid t, q))"
    "length q = length p + 2" "pd_txSequenceNumber t' = next_pdcp_sn (pd_txSequenceNumber t)"
    using pdcp_transmit_total [of p t] by blast
  have "pdcp_carries q p"
    using pdcp_transmit_receive [OF q(1)] "2.prems"(1) by (force simp: pdcp_carries_def)
  moreover have "um_sdu_ok q"
    using q(2) "2.prems"(2) by (auto simp: um_sdu_ok_def sdu_ok_def)
  ultimately show ?case
    using "2.IH" [OF q(1) refl refl] "2.prems"(2) q(1,3) by auto
qed auto

lemma pdcp_receive_all_carries:
  "list_all2 pdcp_carries qs ps \<Longrightarrow> \<exists>t'. pdcp_receive_all qs t = Some (t', ps)"
proof (induction qs arbitrary: ps t)
  case (Cons q qs)
  then obtain p ps' where ps: "ps = p # ps'" "pdcp_carries q p" "list_all2 pdcp_carries qs ps'"
    by (auto simp: list_all2_Cons1)
  then obtain t1 where "pdcp_DoReceivePdu q t = Some (t1, (pd_rnti t, pd_lcid t, p))"
    by (auto simp: pdcp_carries_def)
  with Cons.IH [OF ps(3), of t1] ps(1) show ?case
    by auto
qed auto

lemma um_link_accepted: "um_link es s r = Some (s', r', acc, d) \<Longrightarrow> subseq acc (submitted es)"
proof (induction es s r arbitrary: acc d rule: um_link.induct)
  case (2 now p es s r)
  then show ?case
    by (auto simp: Let_def split: if_splits)
next
  case (3 now o' es s r)
  then show ?case
    by (fastforce split: option.splits)
qed auto

lemma subseq_list_all2:
  assumes "subseq xs' xs" and "list_all2 P xs ys"
  shows "\<exists>ys'. subseq ys' ys \<and> list_all2 P xs' ys'"
  using assms
proof (induction arbitrary: ys rule: list_emb.induct)
  case (list_emb_Nil xs)
  then show ?case
    by (intro exI [of _ "[]"]) auto
next
  case (list_emb_Cons xs' xs x)
  then show ?case
    by (metis list_all2_Cons1 list_emb.list_emb_Cons)
next
  case (list_emb_Cons2 x y xs' xs)
  then obtain z zs where ys: "ys = z # zs" "P y z" "list_all2 P xs zs"
    by (auto simp: list_all2_Cons1)
  with list_emb_Cons2 obtain zs' where "subseq zs' zs" "list_all2 P xs' zs'"
    by blast
  with ys list_emb_Cons2(1) show ?case
    by (intro exI [of _ "z # zs'"]) auto
qed

lemma stack_link_delivers:
  assumes "\<forall>p\<in>set (stack_sdus es). length p < 2 ^ 31 - 2"
  shows "\<exists>s' r' acc out. stack_link es stack_init stack_init = Some (s', r', acc, out) \<and>
    subseq out (stack_sdus es) \<and>
    (length acc = length (stack_sdus es) \<and> um_txBuffer (sk_um s') = [] \<longrightarrow> out = stack_sdus es)"
proof -
  have "pd_txSequenceNumber pdcp_init \<le> m_maxPdcpSn"
    by (simp add: pdcp_init_def m_maxPdcpSn_def)
  from stack_events_total [OF this assms] obtain t es' where
    ev: "stack_events es pdcp_init = Some (t, es')" "list_all (um_event_ok (10 * 1024)) es'"
      "list_all2 pdcp_carries (submitted es') (stack_sdus es)"
    by blast
  have "um_maxTxBufferSize um_init = 10 * 1024"
    by (simp add: um_init_def)
  with um_link_run [OF um_in_step_init, of es'] ev(2) obtain s' r' acc d kept where
    link: "um_link es' um_init um_init = Some (s', r', acc, d)" "um_in_step kept s' r'"
      "d @ join kept (pdus (um_txBuffer s')) = acc"
    by (auto simp: um_init_def join_def)
  have acc: "subseq acc (submitted es')"
    by (rule um_link_accepted [OF link(1)])
  have "subseq d acc"
    using link(3) by (metis list_emb_append_mono list_emb_Nil append_Nil2 subseq_order.refl)
  then have "subseq d (submitted es')"
    using acc by (rule subseq_order.trans)
  from subseq_list_all2 [OF this ev(3)] obtain out where
    out: "subseq out (stack_sdus es)" "list_all2 pdcp_carries d out"
    by blast
  from pdcp_receive_all_carries [OF out(2)] obtain t' where
    t': "pdcp_receive_all d pdcp_init = Some (t', out)"
    by blast
  have "out = stack_sdus es" if "length acc = length (stack_sdus es)" "um_txBuffer s' = []"
  proof -
    have "kept = None"
      using link(2) that(2) by (simp add: um_in_step_def um_tx_ok_def)
    then have "length d = length (stack_sdus es)"
      using link(3) that by (simp add: join_def)
    then have "length out = length (stack_sdus es)"
      using out(2) by (simp add: list_all2_lengthD)
    then show ?thesis
      using out(1) by (metis subseq_same_length)
  qed
  then show ?thesis
    using ev(1) link(1) t' out(1) by (simp add: stack_link_def stack_init_def)
qed

end
