(* ===== verification/RlcAmHeader.thy ===== *)
theory RlcAmHeader
  imports RlcHeader
begin

text \<open>
  \<^verbatim>\<open>LteRlcAmHeader\<close> of \<^verbatim>\<open>src/lte/model/lte-rlc-am-header.cc\<close>: the header of an
  acknowledged-mode data PDU (four fixed bytes and packed length indicators) and of a STATUS PDU
  (an acknowledged sequence number and a list of negatively acknowledged ones, packed in ten bits
  and two extension bits each).
\<close>

section \<open>Constants of the header file\<close>

definition CONTROL_PDU :: u8 where "CONTROL_PDU = 0"
definition DATA_PDU :: u8 where "DATA_PDU = 1"
definition STATUS_PDU :: u8 where "STATUS_PDU = 0"
definition RF_PDU :: u8 where "RF_PDU = 0"
definition RF_SEGMENT :: u8 where "RF_SEGMENT = 1"
definition STATUS_REPORT_NOT_REQUESTED :: u8 where "STATUS_REPORT_NOT_REQUESTED = 0"
definition STATUS_REPORT_IS_REQUESTED :: u8 where "STATUS_REPORT_IS_REQUESTED = 1"
definition NO_LAST_PDU_SEGMENT :: u8 where "NO_LAST_PDU_SEGMENT = 0"
definition LAST_PDU_SEGMENT :: u8 where "LAST_PDU_SEGMENT = 1"

lemmas am_const_defs = CONTROL_PDU_def DATA_PDU_def STATUS_PDU_def RF_PDU_def RF_SEGMENT_def
  STATUS_REPORT_NOT_REQUESTED_def STATUS_REPORT_IS_REQUESTED_def NO_LAST_PDU_SEGMENT_def
  LAST_PDU_SEGMENT_def

section \<open>The class\<close>

record am_header =
  ah_headerLength :: u16
  ah_dataControlBit :: u8
  ah_resegmentationFlag :: u8
  ah_pollingBit :: u8
  ah_framingInfo :: u8
  ah_sequenceNumber :: sn10
  ah_lastSegmentFlag :: u8
  ah_segmentOffset :: u16
  ah_lastOffset :: u16
  ah_extensionBits :: "u8 list"
  ah_lengthIndicators :: "u16 list"
  ah_controlPduType :: u8
  ah_ackSn :: sn10
  ah_nackSnList :: "int list"

text \<open>
  The constructor does not initialise \<^verbatim>\<open>m_lastSegmentFlag\<close>; zero stands for its indeterminate
  value, which is written before any read of it.
\<close>

definition am_header_init :: am_header where
  "am_header_init = \<lparr>ah_headerLength = 0, ah_dataControlBit = 0xff, ah_resegmentationFlag = 0xff,
     ah_pollingBit = 0xff, ah_framingInfo = 0xff, ah_sequenceNumber = sn_make 0xfffa,
     ah_lastSegmentFlag = 0, ah_segmentOffset = 0xffff, ah_lastOffset = 0xffff,
     ah_extensionBits = [], ah_lengthIndicators = [], ah_controlPduType = 0xff,
     ah_ackSn = sn_make 0xffff, ah_nackSnList = []\<rparr>"

definition am_SetDataPdu :: "am_header \<Rightarrow> am_header" where
  "am_SetDataPdu h = h\<lparr>ah_headerLength := 4, ah_dataControlBit := DATA_PDU\<rparr>"

definition am_SetControlPdu :: "u8 \<Rightarrow> am_header \<Rightarrow> am_header" where
  "am_SetControlPdu t h =
     h\<lparr>ah_headerLength := 2, ah_dataControlBit := CONTROL_PDU, ah_controlPduType := t\<rparr>"

definition am_IsDataPdu :: "am_header \<Rightarrow> bool" where
  "am_IsDataPdu h = (ah_dataControlBit h = DATA_PDU)"

definition am_IsControlPdu :: "am_header \<Rightarrow> bool" where
  "am_IsControlPdu h = (ah_dataControlBit h = CONTROL_PDU)"

definition am_SetFramingInfo :: "u8 \<Rightarrow> am_header \<Rightarrow> am_header" where
  "am_SetFramingInfo fi h = h\<lparr>ah_framingInfo := fi AND 0x03\<rparr>"

definition am_SetSequenceNumber :: "sn10 \<Rightarrow> am_header \<Rightarrow> am_header" where
  "am_SetSequenceNumber sn h = h\<lparr>ah_sequenceNumber := sn\<rparr>"

definition am_PushExtensionBit :: "u8 \<Rightarrow> am_header \<Rightarrow> am_header" where
  "am_PushExtensionBit e h =
     (let es = ah_extensionBits h @ [e];
          len = (if length es > 1 then
                   (if length es mod 2 = 1 then ah_headerLength h + 1 else ah_headerLength h + 2)
                 else ah_headerLength h)
      in h\<lparr>ah_extensionBits := es, ah_headerLength := len\<rparr>)"

definition am_PushLengthIndicator :: "u16 \<Rightarrow> am_header \<Rightarrow> am_header" where
  "am_PushLengthIndicator li h = h\<lparr>ah_lengthIndicators := ah_lengthIndicators h @ [li]\<rparr>"

definition am_PopExtensionBit :: "am_header \<Rightarrow> (u8 \<times> am_header) option" where
  "am_PopExtensionBit h =
     (case ah_extensionBits h of [] \<Rightarrow> None | e # es \<Rightarrow> Some (e, h\<lparr>ah_extensionBits := es\<rparr>))"

definition am_PopLengthIndicator :: "am_header \<Rightarrow> (u16 \<times> am_header) option" where
  "am_PopLengthIndicator h =
     (case ah_lengthIndicators h of [] \<Rightarrow> None
      | l # ls \<Rightarrow> Some (l, h\<lparr>ah_lengthIndicators := ls\<rparr>))"

definition am_SetResegmentationFlag :: "u8 \<Rightarrow> am_header \<Rightarrow> am_header" where
  "am_SetResegmentationFlag f h = h\<lparr>ah_resegmentationFlag := f AND 0x01\<rparr>"

definition am_SetPollingBit :: "u8 \<Rightarrow> am_header \<Rightarrow> am_header" where
  "am_SetPollingBit p h = h\<lparr>ah_pollingBit := p AND 0x01\<rparr>"

definition am_SetLastSegmentFlag :: "u8 \<Rightarrow> am_header \<Rightarrow> am_header" where
  "am_SetLastSegmentFlag f h = h\<lparr>ah_lastSegmentFlag := f AND 0x01\<rparr>"

definition am_SetSegmentOffset :: "u16 \<Rightarrow> am_header \<Rightarrow> am_header" where
  "am_SetSegmentOffset so h = h\<lparr>ah_segmentOffset := so AND 0x7FFF\<rparr>"

definition am_SetAckSn :: "sn10 \<Rightarrow> am_header \<Rightarrow> am_header" where
  "am_SetAckSn sn h = h\<lparr>ah_ackSn := sn\<rparr>"

text \<open>
  \<^verbatim>\<open>OneMoreNackWouldFitIn\<close> takes a 16-bit size; the comparisons are in \<^verbatim>\<open>int\<close>.
\<close>

definition am_OneMoreNackWouldFitIn :: "u16 \<Rightarrow> am_header \<Rightarrow> bool" where
  "am_OneMoreNackWouldFitIn bytes h =
     (if length (ah_nackSnList h) mod 2 = 0 then uint (ah_headerLength h) < uint bytes
      else uint (ah_headerLength h) < uint bytes - 1)"

definition am_PushNack :: "int \<Rightarrow> am_header \<Rightarrow> am_header" where
  "am_PushNack nack h =
     (let ns = ah_nackSnList h @ [nack]
      in h\<lparr>ah_nackSnList := ns,
           ah_headerLength := (if length ns mod 2 = 0 then ah_headerLength h + 1
                               else ah_headerLength h + 2)\<rparr>)"

definition am_IsNackPresent :: "sn10 \<Rightarrow> am_header \<Rightarrow> bool" where
  "am_IsNackPresent nack h = list_ex (\<lambda>n. n = uint (sn_GetValue nack)) (ah_nackSnList h)"

definition am_PopNack :: "am_header \<Rightarrow> int \<times> am_header" where
  "am_PopNack h =
     (case ah_nackSnList h of [] \<Rightarrow> (- 1, h) | n # ns \<Rightarrow> (n, h\<lparr>ah_nackSnList := ns\<rparr>))"

definition am_GetSerializedSize :: "am_header \<Rightarrow> nat" where
  "am_GetSerializedSize h = unat (ah_headerLength h)"

section \<open>Serialize\<close>

text \<open>The bytes of the fixed part of a data PDU.\<close>

definition am_byte1 :: "u8 \<Rightarrow> u8 \<Rightarrow> u8 \<Rightarrow> u8 \<Rightarrow> u16 \<Rightarrow> u8" where
  "am_byte1 rf p fi e sn =
     (push_bit 7 DATA_PDU AND 0x80) OR (push_bit 6 rf AND 0x40) OR (push_bit 5 p AND 0x20)
       OR (push_bit 3 fi AND 0x18) OR (push_bit 2 e AND 0x04) OR ucast (drop_bit 8 sn AND 0x03)"

definition am_byte3 :: "u8 \<Rightarrow> u16 \<Rightarrow> u8" where
  "am_byte3 lsf so = (push_bit 7 lsf AND 0x80) OR ucast (drop_bit 8 so AND 0x7F)"

definition am_byte4 :: "u16 \<Rightarrow> u8" where
  "am_byte4 so = ucast (so AND 0xFF)"

text \<open>
  The loop over the extension bits of a data PDU is the same code as in \<^verbatim>\<open>LteRlcHeader\<close>.
\<close>

definition am_write_li :: "u8 list \<Rightarrow> u16 list \<Rightarrow> bytes" where
  "am_write_li = um_write_li"

text \<open>The bytes of a STATUS PDU; only the low ten bits of a NACK are written.\<close>

abbreviation nack_bits :: "int \<Rightarrow> u16" where
  "nack_bits n \<equiv> word_of_int n"

definition st_byte1 :: "u8 \<Rightarrow> u16 \<Rightarrow> u8" where
  "st_byte1 t ack =
     (push_bit 7 CONTROL_PDU AND 0x80) OR (push_bit 4 t AND 0x70) OR ucast (drop_bit 6 ack AND 0x0F)"

definition st_byte2_none :: "u16 \<Rightarrow> u8" where
  "st_byte2_none ack = ucast (push_bit 2 ack AND 0xFC)"

definition st_byte2 :: "u16 \<Rightarrow> int \<Rightarrow> u8" where
  "st_byte2 ack nack =
     ucast (push_bit 2 ack AND 0xFC) OR 0x02 OR ucast (drop_bit 9 (nack_bits nack) AND 0x01)"

definition nack_mid :: "int \<Rightarrow> u8" where
  "nack_mid oddNack = ucast (drop_bit 1 (nack_bits oddNack) AND 0xFF)"

definition nack_more :: "int \<Rightarrow> int \<Rightarrow> u8" where
  "nack_more oddNack evenNack =
     ucast (push_bit 7 (nack_bits oddNack) AND 0x80) OR 0x40
       OR ucast (drop_bit 5 (nack_bits evenNack) AND 0x1F)"

definition nack_last_odd :: "int \<Rightarrow> u8" where
  "nack_last_odd oddNack = ucast (push_bit 7 (nack_bits oddNack) AND 0x80)"

definition nack_even_more :: "int \<Rightarrow> int \<Rightarrow> u8" where
  "nack_even_more evenNack oddNack =
     ucast (push_bit 3 (nack_bits evenNack) AND 0xF8) OR 0x04
       OR ucast (drop_bit 9 (nack_bits oddNack) AND 0x01)"

definition nack_last_even :: "int \<Rightarrow> u8" where
  "nack_last_even evenNack = ucast (push_bit 3 (nack_bits evenNack) AND 0xF8)"

fun am_write_nacks :: "int list \<Rightarrow> bytes" where
  "am_write_nacks [] = []"
| "am_write_nacks [oddNack] = [nack_mid oddNack, nack_last_odd oddNack]"
| "am_write_nacks [oddNack, evenNack] =
     [nack_mid oddNack, nack_more oddNack evenNack, nack_last_even evenNack]"
| "am_write_nacks (oddNack # evenNack # oddNack' # ns) =
     [nack_mid oddNack, nack_more oddNack evenNack, nack_even_more evenNack oddNack']
       @ am_write_nacks (oddNack' # ns)"

definition am_Serialize :: "am_header \<Rightarrow> bytes option" where
  "am_Serialize h =
     (if ah_dataControlBit h = DATA_PDU then
        (case ah_extensionBits h of
           [] \<Rightarrow> None
         | e # es \<Rightarrow>
             (let sn = sn_GetValue (ah_sequenceNumber h) in
              Some ([am_byte1 (ah_resegmentationFlag h) (ah_pollingBit h) (ah_framingInfo h) e sn,
                     um_byte2 sn,
                     am_byte3 (ah_lastSegmentFlag h) (ah_segmentOffset h),
                     am_byte4 (ah_segmentOffset h)]
                    @ am_write_li es (ah_lengthIndicators h))))
      else
        (let ack = sn_GetValue (ah_ackSn h) in
         Some (st_byte1 (ah_controlPduType h) ack #
           (case ah_nackSnList h of
              [] \<Rightarrow> [st_byte2_none ack]
            | n # ns \<Rightarrow> st_byte2 ack n # am_write_nacks (n # ns)))))"

section \<open>Deserialize\<close>

definition rd_dc :: "u8 \<Rightarrow> u8" where "rd_dc byte1 = drop_bit 7 (byte1 AND 0x80)"
definition rd_rf :: "u8 \<Rightarrow> u8" where "rd_rf byte1 = drop_bit 6 (byte1 AND 0x40)"
definition rd_p :: "u8 \<Rightarrow> u8" where "rd_p byte1 = drop_bit 5 (byte1 AND 0x20)"
definition rd_lsf :: "u8 \<Rightarrow> u8" where "rd_lsf byte3 = drop_bit 7 (byte3 AND 0x80)"

text \<open>The segment offset is read without shifting its high byte.\<close>

definition rd_so :: "u8 \<Rightarrow> u8 \<Rightarrow> u16" where
  "rd_so byte3 byte4 = ucast (byte3 AND 0x7F) OR ucast byte4"

definition rd_cpt :: "u8 \<Rightarrow> u8" where "rd_cpt byte1 = drop_bit 4 (byte1 AND 0x70)"

definition rd_ack :: "u8 \<Rightarrow> u8 \<Rightarrow> u16" where
  "rd_ack byte1 byte2 = push_bit 6 (ucast (byte1 AND 0x0F)) OR ucast (drop_bit 2 (byte2 AND 0xFC))"

definition rd_e1 :: "u8 \<Rightarrow> u8" where "rd_e1 byte2 = drop_bit 1 (byte2 AND 0x02)"
definition rd_e1_odd :: "u8 \<Rightarrow> u8" where "rd_e1_odd byte4 = drop_bit 6 (byte4 AND 0x40)"
definition rd_e1_even :: "u8 \<Rightarrow> u8" where "rd_e1_even nextByte = drop_bit 2 (nextByte AND 0x04)"

definition rd_nack_odd :: "u8 \<Rightarrow> u8 \<Rightarrow> u8 \<Rightarrow> u16" where
  "rd_nack_odd byte2 byte3 byte4 =
     push_bit 9 (ucast (byte2 AND 0x01)) OR push_bit 1 (ucast byte3) OR
     ucast (drop_bit 7 (byte4 AND 0x80))"

definition rd_nack_even :: "u8 \<Rightarrow> u8 \<Rightarrow> u16" where
  "rd_nack_even byte nextByte =
     push_bit 5 (ucast (byte AND 0x1F)) OR ucast (drop_bit 3 (nextByte AND 0xF8))"

text \<open>
  The loop that reads further NACKs, entered when the extension bit of \<^verbatim>\<open>byte\<close> is set: the NACKs
  and what it adds to the header length.
\<close>

fun am_read_nacks :: "u8 \<Rightarrow> bytes \<Rightarrow> (int list \<times> nat) option" where
  "am_read_nacks byte (nextByte # rest) =
     (let n1 = uint (rd_nack_even byte nextByte) in
      if rd_e1_even nextByte = 1 then
        (case rest of
           nextByte' # finalByte # rest' \<Rightarrow>
             (let n2 = uint (rd_nack_odd nextByte nextByte' finalByte) in
              if rd_e1_odd finalByte = 1 then
                map_option (\<lambda>(ns, len). (n1 # n2 # ns, len + 3)) (am_read_nacks finalByte rest')
              else Some ([n1, n2], 3))
         | _ \<Rightarrow> None)
      else Some ([n1], 1))"
| "am_read_nacks byte [] = None"

definition am_Deserialize :: "am_header \<Rightarrow> bytes \<Rightarrow> (am_header \<times> nat) option" where
  "am_Deserialize h bs =
     (case bs of
        [] \<Rightarrow> None
      | byte1 # rest0 \<Rightarrow>
          (let h0 = h\<lparr>ah_headerLength := 1, ah_dataControlBit := rd_dc byte1\<rparr> in
           if ah_dataControlBit h0 = DATA_PDU then
             (case rest0 of
                byte2 # byte3 # byte4 # rest \<Rightarrow>
                  (let e = rd_e byte1;
                       h1 = h0\<lparr>ah_headerLength := ah_headerLength h0 + 3,
                               ah_resegmentationFlag := rd_rf byte1,
                               ah_pollingBit := rd_p byte1,
                               ah_framingInfo := rd_fi byte1,
                               ah_sequenceNumber :=
                                 sn_assign (ah_sequenceNumber h0) (rd_sn byte1 byte2),
                               ah_lastSegmentFlag := rd_lsf byte3,
                               ah_segmentOffset := rd_so byte3 byte4,
                               ah_extensionBits := ah_extensionBits h0 @ [e]\<rparr>
                   in if e = DATA_FIELD_FOLLOWS then Some (h1, am_GetSerializedSize h1)
                      else (case um_read_li rest of
                              None \<Rightarrow> None
                            | Some (es, ls, n) \<Rightarrow>
                                (let h2 = h1\<lparr>ah_extensionBits := ah_extensionBits h1 @ es,
                                             ah_lengthIndicators := ah_lengthIndicators h1 @ ls,
                                             ah_headerLength := ah_headerLength h1 + word_of_nat n\<rparr>;
                                     h3 = (if ah_resegmentationFlag h2 = RF_SEGMENT then
                                             h2\<lparr>ah_lastOffset :=
                                                  word_of_int (uint (ah_segmentOffset h2)
                                                    + int (length bs) - uint (ah_headerLength h2))\<rparr>
                                           else h2)
                                 in Some (h3, am_GetSerializedSize h3))))
              | _ \<Rightarrow> None)
           else
             (case rest0 of
                [] \<Rightarrow> None
              | byte2 # rest \<Rightarrow>
                  (let h1 = h0\<lparr>ah_controlPduType := rd_cpt byte1,
                               ah_ackSn := sn_assign (ah_ackSn h0) (rd_ack byte1 byte2)\<rparr>
                   in if rd_e1 byte2 = 1 then
                        (case rest of
                           byte3 # byte4 # rest' \<Rightarrow>
                             (let n1 = uint (rd_nack_odd byte2 byte3 byte4);
                                  h2 = h1\<lparr>ah_headerLength := 4,
                                          ah_nackSnList := ah_nackSnList h1 @ [n1]\<rparr>
                              in if rd_e1_odd byte4 = 1 then
                                   (case am_read_nacks byte4 rest' of
                                      None \<Rightarrow> None
                                    | Some (ns, len) \<Rightarrow>
                                        (let h3 = h2\<lparr>ah_nackSnList := ah_nackSnList h2 @ ns,
                                                     ah_headerLength := ah_headerLength h2 + word_of_nat len\<rparr>
                                         in Some (h3, am_GetSerializedSize h3)))
                                 else Some (h2, am_GetSerializedSize h2))
                         | _ \<Rightarrow> None)
                      else (let h2 = h1\<lparr>ah_headerLength := ah_headerLength h1 + 1\<rparr>
                            in Some (h2, am_GetSerializedSize h2))))))"

abbreviation am_des :: "bytes \<Rightarrow> (am_header \<times> nat) option" where
  "am_des \<equiv> am_Deserialize am_header_init"

section \<open>Bit-level facts of the packing\<close>

lemmas am_fixed_defs = am_byte1_def am_byte3_def am_byte4_def um_byte2_def
  rd_dc_def rd_rf_def rd_p_def rd_fi_def rd_e_def rd_sn_def rd_lsf_def rd_so_def am_const_defs

lemma rd_dc_data [simp]: "rd_dc (am_byte1 rf p fi e sn) = DATA_PDU"
  by (simp add: am_fixed_defs word_bits_eq bit_simps)

lemma rd_rf [simp]: "rf < 2 \<Longrightarrow> rd_rf (am_byte1 rf p fi e sn) = rf"
  by (drule u8_lt_2) (simp add: am_fixed_defs word_bits_eq bit_simps)

lemma rd_p [simp]: "p < 2 \<Longrightarrow> rd_p (am_byte1 rf p fi e sn) = p"
  by (drule u8_lt_2) (simp add: am_fixed_defs word_bits_eq bit_simps)

lemma am_rd_fi [simp]: "fi < 4 \<Longrightarrow> rd_fi (am_byte1 rf p fi e sn) = fi"
  by (drule u8_lt_4) (simp add: am_fixed_defs word_bits_eq bit_simps)

lemma am_rd_e [simp]: "e < 2 \<Longrightarrow> rd_e (am_byte1 rf p fi e sn) = e"
  by (drule u8_lt_2) (simp add: am_fixed_defs word_bits_eq bit_simps)

lemma am_rd_sn [simp]: "sn < 1024 \<Longrightarrow> rd_sn (am_byte1 rf p fi e sn) (um_byte2 sn) = sn"
  by (drule u16_lt_1024) (simp add: am_fixed_defs word_bits_eq bit_simps)

lemma rd_lsf [simp]: "f < 2 \<Longrightarrow> rd_lsf (am_byte3 f so) = f"
  by (drule u8_lt_2) (simp add: am_fixed_defs word_bits_eq bit_simps)

lemma rd_so_small [simp]: "so < 256 \<Longrightarrow> rd_so (am_byte3 f so) (am_byte4 so) = so"
  by (drule u16_lt_256) (simp add: am_fixed_defs word_bits_eq bit_simps)

text \<open>What is read back of a segment offset always fits eight bits.\<close>

lemma rd_so_less: "rd_so b3 b4 < 256"
proof -
  have "unat (rd_so b3 b4) = unat (take_bit 8 (rd_so b3 b4))"
    by (rule arg_cong [where f = unat]) (simp add: rd_so_def word_bits_eq bit_simps)
  then have "unat (rd_so b3 b4) = unat (rd_so b3 b4) mod 256"
    by (simp add: unsigned_take_bit_eq take_bit_eq_mod unat_mod)
  then have "unat (rd_so b3 b4) < 256"
    using mod_less_divisor [of 256 "unat (rd_so b3 b4)"] by simp
  then show ?thesis
    by (simp add: word_less_nat_alt)
qed

lemmas st_defs = st_byte1_def st_byte2_none_def st_byte2_def nack_mid_def nack_more_def
  nack_last_odd_def nack_even_more_def nack_last_even_def rd_dc_def rd_cpt_def rd_ack_def
  rd_e1_def rd_e1_odd_def rd_e1_even_def rd_nack_odd_def rd_nack_even_def am_const_defs

lemma rd_dc_control [simp]: "rd_dc (st_byte1 t ack) = CONTROL_PDU"
  by (simp add: st_defs word_bits_eq bit_simps)

lemma rd_cpt [simp]: "t < 8 \<Longrightarrow> rd_cpt (st_byte1 t ack) = t"
  by (drule u8_lt_8) (simp add: st_defs word_bits_eq bit_simps)

lemma rd_ack [simp]:
  "ack < 1024 \<Longrightarrow> rd_ack (st_byte1 t ack) (st_byte2 ack n) = ack"
  "ack < 1024 \<Longrightarrow> rd_ack (st_byte1 t ack) (st_byte2_none ack) = ack"
  by (drule u16_lt_1024, simp add: st_defs word_bits_eq bit_simps)+

lemma rd_e1 [simp]: "rd_e1 (st_byte2 ack n) = 1" "rd_e1 (st_byte2_none ack) = 0"
  by (simp_all add: st_defs word_bits_eq bit_simps)

lemma rd_e1_odd [simp]: "rd_e1_odd (nack_more n n') = 1" "rd_e1_odd (nack_last_odd n) = 0"
  by (simp_all add: st_defs word_bits_eq bit_simps)

lemma rd_e1_even [simp]:
  "rd_e1_even (nack_even_more n n') = 1" "rd_e1_even (nack_last_even n) = 0"
  by (simp_all add: st_defs word_bits_eq bit_simps)

text \<open>A NACK is well formed when it is a sequence number.\<close>

abbreviation nack_ok :: "int \<Rightarrow> bool" where
  "nack_ok n \<equiv> 0 \<le> n \<and> n < 1024"

lemma nack_bits_lt: "nack_ok n \<Longrightarrow> nack_bits n < 1024"
  by (simp add: word_less_def uint_word_of_int_eq take_bit_eq_mod)

lemma uint_nack_bits: "nack_ok n \<Longrightarrow> uint (nack_bits n) = n"
  by (simp add: uint_word_of_int_eq take_bit_eq_mod)

lemma nack_odd_aux:
  fixes w v x y :: u16
  assumes "w < 1024"
  shows "push_bit 9 (ucast ((ucast (push_bit 2 a AND 0xFC) OR 0x02
            OR ucast (drop_bit 9 w AND 0x01)) AND (0x01 :: u8)))
          OR push_bit 1 (ucast (ucast (drop_bit 1 w AND 0xFF) :: u8))
          OR ucast (drop_bit 7 ((ucast (push_bit 7 w AND 0x80) OR 0x40
            OR ucast (drop_bit 5 v AND 0x1F)) AND (0x80 :: u8))) = w"
    and "push_bit 9 (ucast ((ucast (push_bit 2 a AND 0xFC) OR 0x02
            OR ucast (drop_bit 9 w AND 0x01)) AND (0x01 :: u8)))
          OR push_bit 1 (ucast (ucast (drop_bit 1 w AND 0xFF) :: u8))
          OR ucast (drop_bit 7 (ucast (push_bit 7 w AND 0x80) AND (0x80 :: u8))) = w"
    and "push_bit 9 (ucast ((ucast (push_bit 3 v AND 0xF8) OR 0x04
            OR ucast (drop_bit 9 w AND 0x01)) AND (0x01 :: u8)))
          OR push_bit 1 (ucast (ucast (drop_bit 1 w AND 0xFF) :: u8))
          OR ucast (drop_bit 7 ((ucast (push_bit 7 w AND 0x80) OR 0x40
            OR ucast (drop_bit 5 x AND 0x1F)) AND (0x80 :: u8))) = w"
    and "push_bit 9 (ucast ((ucast (push_bit 3 v AND 0xF8) OR 0x04
            OR ucast (drop_bit 9 w AND 0x01)) AND (0x01 :: u8)))
          OR push_bit 1 (ucast (ucast (drop_bit 1 w AND 0xFF) :: u8))
          OR ucast (drop_bit 7 (ucast (push_bit 7 w AND 0x80) AND (0x80 :: u8))) = w"
  using u16_lt_1024 [OF assms] by (simp_all add: word_bits_eq bit_simps u16_bit_mult_2 numeral_2_eq_2 [symmetric])

lemma nack_even_aux:
  fixes w v :: u16
  assumes "w < 1024"
  shows "push_bit 5 (ucast ((ucast (push_bit 7 v AND 0x80) OR 0x40
            OR ucast (drop_bit 5 w AND 0x1F)) AND (0x1F :: u8)))
          OR ucast (drop_bit 3 ((ucast (push_bit 3 w AND 0xF8) OR 0x04
            OR ucast (drop_bit 9 x AND 0x01)) AND (0xF8 :: u8))) = w"
    and "push_bit 5 (ucast ((ucast (push_bit 7 v AND 0x80) OR 0x40
            OR ucast (drop_bit 5 w AND 0x1F)) AND (0x1F :: u8)))
          OR ucast (drop_bit 3 (ucast (push_bit 3 w AND 0xF8) AND (0xF8 :: u8))) = w"
  using u16_lt_1024 [OF assms] by (simp_all add: word_bits_eq bit_simps u16_bit_mult_2 numeral_2_eq_2 [symmetric])

lemma rd_nack_odd [simp]:
  "nack_ok n \<Longrightarrow> rd_nack_odd (st_byte2 a n) (nack_mid n) (nack_more n n') = nack_bits n"
  "nack_ok n \<Longrightarrow> rd_nack_odd (st_byte2 a n) (nack_mid n) (nack_last_odd n) = nack_bits n"
  "nack_ok n \<Longrightarrow> rd_nack_odd (nack_even_more n'' n) (nack_mid n) (nack_more n n') = nack_bits n"
  "nack_ok n \<Longrightarrow> rd_nack_odd (nack_even_more n'' n) (nack_mid n) (nack_last_odd n) = nack_bits n"
  by (simp_all only: st_defs nack_odd_aux nack_bits_lt)

lemma rd_nack_even [simp]:
  "nack_ok n \<Longrightarrow> rd_nack_even (nack_more n' n) (nack_even_more n n'') = nack_bits n"
  "nack_ok n \<Longrightarrow> rd_nack_even (nack_more n' n) (nack_last_even n) = nack_bits n"
  by (simp_all only: st_defs nack_even_aux nack_bits_lt)

section \<open>Well-formed headers and the round trip\<close>

datatype am_wire =
    WireData u16 u8 u8 u8 u16 u8 u16 "u8 list" "u16 list"
  | WireStatus u16 u8 u16 "int list"

definition am_view :: "am_header \<Rightarrow> am_wire" where
  "am_view h =
     (if ah_dataControlBit h = DATA_PDU then
        WireData (ah_headerLength h) (ah_resegmentationFlag h) (ah_pollingBit h)
          (ah_framingInfo h) (m_value (ah_sequenceNumber h)) (ah_lastSegmentFlag h)
          (ah_segmentOffset h) (ah_extensionBits h) (ah_lengthIndicators h)
      else WireStatus (ah_headerLength h) (ah_controlPduType h) (m_value (ah_ackSn h))
          (ah_nackSnList h))"

definition am_data_hwf :: "am_header \<Rightarrow> bool" where
  "am_data_hwf h \<longleftrightarrow>
     ah_dataControlBit h = DATA_PDU \<and>
     ah_extensionBits h = ext_pattern (length (ah_lengthIndicators h)) \<and>
     unat (ah_headerLength h) = 4 + li_size (length (ah_lengthIndicators h)) \<and>
     (\<forall>l\<in>set (ah_lengthIndicators h). l < 2048) \<and>
     ah_resegmentationFlag h < 2 \<and> ah_pollingBit h < 2 \<and> ah_framingInfo h < 4 \<and>
     m_value (ah_sequenceNumber h) < 1024 \<and> ah_lastSegmentFlag h < 2"

definition am_status_hwf :: "am_header \<Rightarrow> bool" where
  "am_status_hwf h \<longleftrightarrow>
     ah_dataControlBit h = CONTROL_PDU \<and> ah_controlPduType h < 8 \<and>
     m_value (ah_ackSn h) < 1024 \<and> (\<forall>n\<in>set (ah_nackSnList h). nack_ok n) \<and>
     unat (ah_headerLength h) = 2 + li_size (length (ah_nackSnList h))"

text \<open>A segment offset survives only when it is below 256.\<close>

definition am_hwf :: "am_header \<Rightarrow> bool" where
  "am_hwf h \<longleftrightarrow> am_data_hwf h \<and> ah_segmentOffset h < 256 \<or> am_status_hwf h"

lemma control_neq_data [simp]: "CONTROL_PDU \<noteq> DATA_PDU" "DATA_PDU \<noteq> CONTROL_PDU"
  by (simp_all add: am_const_defs)

text \<open>What follows the third and fourth byte of the NACK list.\<close>

fun nack_tail :: "int list \<Rightarrow> bytes" where
  "nack_tail [] = []"
| "nack_tail [n] = [nack_last_even n]"
| "nack_tail [n, n'] = [nack_even_more n n', nack_mid n', nack_last_odd n']"
| "nack_tail (n # n' # n'' # ns) =
     [nack_even_more n n', nack_mid n', nack_more n' n''] @ nack_tail (n'' # ns)"

lemma am_write_nacks_tail:
  "am_write_nacks (n # n' # ns) = [nack_mid n, nack_more n n'] @ nack_tail (n' # ns)"
proof (induction ns arbitrary: n n' rule: induct_list012)
  case (3 m m' ns)
  then show ?case
    by simp
qed simp_all

lemma length_nack_tail: "length (nack_tail (n # ns)) = li_size (length ns + 2) - 2"
  by (induction "n # ns" arbitrary: n ns rule: nack_tail.induct) (auto simp: numeral_2_eq_2)

lemma length_am_write_nacks: "length (am_write_nacks ns) = li_size (length ns)"
proof (cases ns rule: am_write_nacks.cases)
  case (4 n n' n'' ns')
  then show ?thesis
    by (simp only: am_write_nacks_tail) (simp add: length_nack_tail)
qed simp_all

lemma am_read_nack_tail:
  assumes "\<forall>m\<in>set (n # ns). nack_ok m"
  shows "am_read_nacks (nack_more n' n) (nack_tail (n # ns) @ p)
    = Some (n # ns, length (nack_tail (n # ns)))"
  using assms
proof (induction "n # ns" arbitrary: n ns n' rule: nack_tail.induct)
  case (4 n m m' ns)
  then show ?case
    by (simp add: uint_nack_bits Let_def)
qed (simp_all add: uint_nack_bits Let_def)

lemma am_Serialize_size:
  assumes "am_hwf h"
  shows "\<exists>b. am_Serialize h = Some b \<and> length b = am_GetSerializedSize h"
proof (cases "am_data_hwf h")
  case True
  then show ?thesis
    by (cases "ah_lengthIndicators h")
       (auto simp: am_data_hwf_def am_Serialize_def am_GetSerializedSize_def am_write_li_def
         Let_def length_um_write_li)
next
  case False
  then have "am_status_hwf h"
    using assms by (simp add: am_hwf_def)
  then show ?thesis
    by (cases "ah_nackSnList h")
       (auto simp: am_status_hwf_def am_Serialize_def am_GetSerializedSize_def Let_def
         length_am_write_nacks)
qed

lemma am_view_result:
  "case_option False (\<lambda>(h', k). am_view h' = v \<and> k = n) x \<Longrightarrow>
   \<exists>h'. x = Some (h', n) \<and> am_view h' = v"
  by (auto split: option.splits)

lemma am_Deserialize_Serialize_data:
  assumes wf: "am_data_hwf h" and ser: "am_Serialize h = Some b"
  shows "\<exists>h'. am_des (b @ p) = Some (h', am_GetSerializedSize h) \<and>
    am_view h' = am_view (h\<lparr>ah_segmentOffset :=
      rd_so (am_byte3 (ah_lastSegmentFlag h) (ah_segmentOffset h))
        (am_byte4 (ah_segmentOffset h))\<rparr>)"
proof (cases "ah_lengthIndicators h")
  case Nil
  with wf ser show ?thesis
    by (intro am_view_result) (auto simp: am_data_hwf_def am_Serialize_def am_Deserialize_def am_write_li_def Let_def
        am_view_def am_GetSerializedSize_def am_header_init_def sn_assign_def sn_GetValue_def
        sn_make_def dest!: u16_len_eq)
next
  case (Cons l ls)
  define n where "n = length ls"
  have ls: "\<forall>l\<in>set (ah_lengthIndicators h). l < 2048" "length (ah_lengthIndicators h) = Suc n"
    and e: "ah_extensionBits h = E_LI_FIELDS_FOLLOWS # ext_pattern n"
    using wf Cons by (simp_all add: am_data_hwf_def n_def)
  have len: "ah_headerLength h = 4 + word_of_nat (li_size (Suc n))"
    using wf ls(2) by (auto simp: am_data_hwf_def dest!: u16_len_eq)
  from wf ser e um_read_write_li [OF ls, of p] ls(2) show ?thesis
    by (intro am_view_result) (auto simp: am_data_hwf_def am_Serialize_def am_Deserialize_def am_write_li_def Let_def
        am_view_def am_GetSerializedSize_def am_header_init_def sn_assign_def sn_GetValue_def
        sn_make_def simp flip: len)
qed

lemma am_Deserialize_Serialize_status:
  assumes wf: "am_status_hwf h" and ser: "am_Serialize h = Some b"
  shows "\<exists>h'. am_des (b @ p) = Some (h', am_GetSerializedSize h) \<and> am_view h' = am_view h"
proof -
  note defs = am_status_hwf_def am_Serialize_def am_Deserialize_def Let_def am_view_def
    am_GetSerializedSize_def am_header_init_def sn_assign_def sn_GetValue_def sn_make_def
  consider "ah_nackSnList h = []" | n where "ah_nackSnList h = [n]"
    | n n' ns where "ah_nackSnList h = n # n' # ns"
    by (metis neq_Nil_conv)
  then show ?thesis
  proof cases
    case 1
    with wf ser show ?thesis
      by (intro am_view_result) (auto simp: defs dest!: u16_len_eq)
  next
    case 2
    with wf ser show ?thesis
      by (intro am_view_result) (auto simp: defs uint_nack_bits dest!: u16_len_eq)
  next
    case 3
    with wf have ok: "\<forall>m\<in>set (n' # ns). nack_ok m" "nack_ok n"
      by (simp_all add: am_status_hwf_def)
    have len: "length (nack_tail (n' # ns)) + 4 = 2 + li_size (Suc (Suc (length ns)))"
      by (simp add: length_nack_tail)
    have hl: "ah_headerLength h = 5 + word_of_nat (li_size (length ns))"
      using wf 3 by (auto simp: am_status_hwf_def dest!: u16_len_eq)
    from wf ser 3 ok am_read_nack_tail [OF ok(1), of n p] len show ?thesis
      by (intro am_view_result) (auto simp: defs uint_nack_bits am_write_nacks_tail simp flip: hl)
  qed
qed

lemma am_Deserialize_Serialize:
  assumes "am_hwf h" and ser: "am_Serialize h = Some b"
  shows "\<exists>h'. am_des (b @ p) = Some (h', am_GetSerializedSize h) \<and> am_view h' = am_view h"
proof (cases "am_status_hwf h")
  case True
  then show ?thesis
    using am_Deserialize_Serialize_status [OF _ ser] by blast
next
  case False
  then have "am_data_hwf h" "ah_segmentOffset h < 256"
    using assms(1) by (simp_all add: am_hwf_def)
  then show ?thesis
    using am_Deserialize_Serialize_data [OF _ ser, of p] by simp
qed

interpretation am_codec: header_codec am_GetSerializedSize am_Serialize am_des am_hwf am_view
  by unfold_locales (auto intro: am_Serialize_size am_Deserialize_Serialize)

section \<open>Headers built by pushing\<close>

text \<open>A data header under construction, and a STATUS header under construction.\<close>

definition am_open :: "am_header \<Rightarrow> bool" where
  "am_open h \<longleftrightarrow>
     ah_dataControlBit h = DATA_PDU \<and>
     ah_extensionBits h = replicate (length (ah_lengthIndicators h)) E_LI_FIELDS_FOLLOWS \<and>
     unat (ah_headerLength h) = 4 + (case length (ah_lengthIndicators h) of 0 \<Rightarrow> 0 | Suc n \<Rightarrow> li_size n) \<and>
     (\<forall>l\<in>set (ah_lengthIndicators h). l < 2048)"

lemma am_open_init: "am_open (am_SetDataPdu am_header_init)"
  by (simp add: am_open_def am_SetDataPdu_def am_header_init_def)

lemma am_push_more:
  assumes "am_open h" and "li < 2048" and "4 + li_size (length (ah_lengthIndicators h)) < 2 ^ 16"
  shows "am_open (am_PushLengthIndicator li (am_PushExtensionBit E_LI_FIELDS_FOLLOWS h))"
  using assms
  by (auto simp: am_open_def am_PushLengthIndicator_def am_PushExtensionBit_def Let_def li_size_Suc
      replicate_append_same split: nat.splits elim: evenE oddE)

lemma am_status_init:
  "t < 8 \<Longrightarrow> am_status_hwf (am_SetAckSn sn0 (am_SetControlPdu t am_header_init)) \<longleftrightarrow>
     m_value sn0 < 1024"
  by (simp add: am_status_hwf_def am_SetControlPdu_def am_SetAckSn_def am_header_init_def)

lemma am_push_nack:
  "am_status_hwf h \<Longrightarrow> nack_ok n \<Longrightarrow> 2 + li_size (Suc (length (ah_nackSnList h))) < 2 ^ 16 \<Longrightarrow>
   am_status_hwf (am_PushNack n h)"
  by (auto simp: am_status_hwf_def am_PushNack_def Let_def li_size_Suc)

end
