(* ===== verification/RlcAmReas.thy ===== *)
theory RlcAmReas
  imports RlcAmHeader RlcReasSpec
begin

text \<open>
  \<^verbatim>\<open>LteRlcAm::ReassembleAndDeliver\<close> of \<^verbatim>\<open>src/lte/model/lte-rlc-am.cc\<close>: the members and the
  loops are those of theory RlcReas, the header is \<^verbatim>\<open>LteRlcAmHeader\<close> and the state machine
  differs from the one of \<^verbatim>\<open>LteRlcUm\<close> in one state. In acknowledged mode PDUs are reassembled in
  sequence only, where both agree with the abstract reassembler.
\<close>

section \<open>The state machine\<close>

text \<open>
  The PDU had the expected sequence number; state \<^verbatim>\<open>WAITING_S0_FULL\<close>. Unlike in
  \<^verbatim>\<open>LteRlcUm\<close>, a PDU that starts in the middle of an SDU is the impossible transition here: it is
  only logged, and its SDUs stay in \<open>m_sdusBuffer\<close>.
\<close>

definition am_noloss_S0_FULL :: "u8 \<Rightarrow> reas \<Rightarrow> (reas \<times> bytes list) option" where
  "am_noloss_S0_FULL framingInfo r =
     (if framingInfo = FIRST_BYTE OR LAST_BYTE then
        Some (DeliverAll (r\<lparr>m_reassemblingState := WAITING_S0_FULL\<rparr>))
      else if framingInfo = FIRST_BYTE OR NO_LAST_BYTE then
        DeliverKeep (r\<lparr>m_reassemblingState := WAITING_SI_SF\<rparr>)
      else Some (r, []))"

text \<open>
  The PDU had the expected sequence number; state \<^verbatim>\<open>WAITING_SI_SF\<close>. A PDU that starts with a
  first byte is the impossible transition: it is only logged, and the SDUs just split off stay in
  \<open>m_sdusBuffer\<close>.
\<close>

definition am_noloss_SI_SF :: "u8 \<Rightarrow> reas \<Rightarrow> (reas \<times> bytes list) option" where
  "am_noloss_SI_SF framingInfo r =
     (if framingInfo = NO_FIRST_BYTE OR LAST_BYTE then
        (case AppendS0 (r\<lparr>m_reassemblingState := WAITING_S0_FULL\<rparr>) of
           None \<Rightarrow> None
         | Some (sdu, r') \<Rightarrow> (let (r'', d) = DeliverAll r' in Some (r'', sdu # d)))
      else if framingInfo = NO_FIRST_BYTE OR NO_LAST_BYTE then
        (let r1 = r\<lparr>m_reassemblingState := WAITING_SI_SF\<rparr>
         in if length (m_sdusBuffer r1) = 1 then
              map_option (\<lambda>(_, r'). (r', [])) (AppendS0 r1)
            else (case AppendS0 r1 of
                    None \<Rightarrow> None
                  | Some (sdu, r') \<Rightarrow> map_option (\<lambda>(r'', d). (r'', sdu # d)) (DeliverKeep r')))
      else Some (r, []))"

text \<open>The PDU had another sequence number than the expected one.\<close>

definition am_loss_S0_FULL :: "u8 \<Rightarrow> reas \<Rightarrow> (reas \<times> bytes list) option" where
  "am_loss_S0_FULL framingInfo r =
     (if framingInfo = FIRST_BYTE OR LAST_BYTE then
        Some (DeliverAll (r\<lparr>m_reassemblingState := WAITING_S0_FULL\<rparr>))
      else if framingInfo = FIRST_BYTE OR NO_LAST_BYTE then
        DeliverKeep (r\<lparr>m_reassemblingState := WAITING_SI_SF\<rparr>)
      else if framingInfo = NO_FIRST_BYTE OR LAST_BYTE then
        (case PopSdu (r\<lparr>m_reassemblingState := WAITING_S0_FULL\<rparr>) of
           None \<Rightarrow> None
         | Some (_, r') \<Rightarrow> Some (DeliverAll r'))
      else if framingInfo = NO_FIRST_BYTE OR NO_LAST_BYTE then
        (case PopSdu (r\<lparr>m_reassemblingState :=
                 (if length (m_sdusBuffer r) = 1 then WAITING_S0_FULL else WAITING_SI_SF)\<rparr>) of
           None \<Rightarrow> None
         | Some (_, r') \<Rightarrow>
             if m_sdusBuffer r' \<noteq> [] then DeliverKeep r' else Some (r', []))
      else Some (r, []))"

definition am_loss_SI_SF :: "u8 \<Rightarrow> reas \<Rightarrow> (reas \<times> bytes list) option" where
  "am_loss_SI_SF framingInfo r =
     (if framingInfo = FIRST_BYTE OR LAST_BYTE then
        Some (DeliverAll (r\<lparr>m_reassemblingState := WAITING_S0_FULL, m_keepS0 := None\<rparr>))
      else if framingInfo = FIRST_BYTE OR NO_LAST_BYTE then
        DeliverKeep (r\<lparr>m_reassemblingState := WAITING_SI_SF, m_keepS0 := None\<rparr>)
      else if framingInfo = NO_FIRST_BYTE OR LAST_BYTE then
        (case PopSdu (r\<lparr>m_reassemblingState := WAITING_S0_FULL, m_keepS0 := None\<rparr>) of
           None \<Rightarrow> None
         | Some (_, r') \<Rightarrow> Some (DeliverAll r'))
      else if framingInfo = NO_FIRST_BYTE OR NO_LAST_BYTE then
        (case PopSdu (r\<lparr>m_reassemblingState :=
                   (if length (m_sdusBuffer r) = 1 then WAITING_S0_FULL else WAITING_SI_SF),
                 m_keepS0 := None\<rparr>) of
           None \<Rightarrow> None
         | Some (_, r') \<Rightarrow>
             if m_sdusBuffer r' \<noteq> [] then DeliverKeep r' else Some (r', []))
      else Some (r, []))"

text \<open>The whole of \<^verbatim>\<open>ReassembleAndDeliver\<close>: the new members and the SDUs delivered, in order.\<close>

definition am_ReassembleAndDeliver :: "reas \<Rightarrow> bytes \<Rightarrow> (reas \<times> bytes list) option" where
  "am_ReassembleAndDeliver r packet =
     (case RemoveHeader am_des packet of
        None \<Rightarrow> None
      | Some (rlcHeader, p) \<Rightarrow>
          (let framingInfo = ah_framingInfo rlcHeader;
               currSeqNumber = ah_sequenceNumber rlcHeader;
               expectedSnLost = sn_neq currSeqNumber (m_expectedSeqNumber r);
               r1 = r\<lparr>m_expectedSeqNumber :=
                       (if expectedSnLost then sn_plus currSeqNumber 1
                        else sn_plus (m_expectedSeqNumber r) 1)\<rparr>
           in (case um_split (ah_extensionBits rlcHeader) (ah_lengthIndicators rlcHeader) p of
                 None \<Rightarrow> None
               | Some sdus \<Rightarrow>
                   (let r2 = r1\<lparr>m_sdusBuffer := m_sdusBuffer r1 @ sdus\<rparr>
                    in if \<not> expectedSnLost then
                         (case m_reassemblingState r2 of
                            WAITING_S0_FULL \<Rightarrow> am_noloss_S0_FULL framingInfo r2
                          | WAITING_SI_SF \<Rightarrow> am_noloss_SI_SF framingInfo r2
                          | NONE \<Rightarrow> Some (r2, []))
                       else
                         (case m_reassemblingState r2 of
                            WAITING_S0_FULL \<Rightarrow> am_loss_S0_FULL framingInfo r2
                          | WAITING_SI_SF \<Rightarrow> am_loss_SI_SF framingInfo r2
                          | NONE \<Rightarrow> Some (r2, []))))))"

section \<open>Refinement of the abstract reassembler\<close>

definition am_contents :: "bytes \<Rightarrow> sn10 \<Rightarrow> pdu_fields \<Rightarrow> bool" where
  "am_contents packet sn u \<longleftrightarrow>
     (\<exists>h p. RemoveHeader am_des packet = Some (h, p) \<and> m_value (ah_sequenceNumber h) = m_value sn \<and>
        am_IsDataPdu h \<and>
        ah_framingInfo h = framing_of (pf_noFirst u) (pf_noLast u) \<and>
        um_split (ah_extensionBits h) (ah_lengthIndicators h) p = Some (pf_fields u))"

lemmas am_fsm_defs = am_noloss_S0_FULL_def am_noloss_SI_SF_def am_loss_S0_FULL_def
  am_loss_SI_SF_def

lemma am_reassemble_in_sequence:
  assumes rel: "reas_rel kept r" and fits: "pdu_fits kept u"
    and c: "am_contents packet (m_expectedSeqNumber r) u"
  shows "\<exists>r'. am_ReassembleAndDeliver r packet = Some (r', snd (reas_spec kept u)) \<and>
     reas_rel (fst (reas_spec kept u)) r' \<and>
     m_expectedSeqNumber r' = sn_plus (m_expectedSeqNumber r) 1"
proof -
  obtain f fs where fs: "pf_fields u = f # fs"
    using fits by (auto simp: pdu_fits_def neq_Nil_conv)
  from c obtain h p where h: "RemoveHeader am_des packet = Some (h, p)"
    "m_value (ah_sequenceNumber h) = m_value (m_expectedSeqNumber r)"
    "ah_framingInfo h = framing_of (pf_noFirst u) (pf_noLast u)"
    "um_split (ah_extensionBits h) (ah_lengthIndicators h) p = Some (f # fs)"
    by (auto simp: am_contents_def fs)
  show ?thesis
    using rel fits fs h
    by (cases kept; cases "pf_noLast u"; cases fs rule: rev_cases)
       (auto simp: am_ReassembleAndDeliver_def reas_rel_def pdu_fits_def reas_spec_def join_def
         sn_neq_def Let_def am_fsm_defs)
qed

text \<open>
  On a PDU in sequence the two state machines agree, except in the state
  \<^verbatim>\<open>WAITING_S0_FULL\<close> with a PDU that continues an SDU, where UM discards the first field and AM
  keeps all fields for the next PDU.
\<close>

lemma am_um_fsm_agree:
  "am_noloss_SI_SF fi r = um_noloss_SI_SF fi r"
  "am_loss_S0_FULL fi r = um_loss_S0_FULL fi r"
  "am_loss_SI_SF fi r = um_loss_SI_SF fi r"
  "fi = 0 \<or> fi = 1 \<Longrightarrow> am_noloss_S0_FULL fi r = um_noloss_S0_FULL fi r"
  "fi = 2 \<or> fi = 3 \<Longrightarrow> am_noloss_S0_FULL fi r = Some (r, [])"
  by (auto simp: am_fsm_defs um_fsm_defs)

end
