(* ===== verification/RlcAmTx.thy ===== *)
theory RlcAmTx
  imports RlcAmReas RlcUmTx StdMap
begin

text \<open>
  The acknowledged mode \<^verbatim>\<open>LteRlcAm\<close> of \<^verbatim>\<open>src/lte/model/lte-rlc-am.cc\<close>: its state, and the
  operations called by PDCP and on a transmission opportunity of the MAC: a STATUS PDU, a
  retransmission, or a new data PDU, in this order of priority. Reception is in theory RlcAmRx.
  An assertion of the code that fails is \<open>None\<close>; that the bases of two numbers compared agree,
  which \<^verbatim>\<open>operator>\<close> asserts, is part of the invariants.
\<close>

section \<open>State\<close>

text \<open>An element of \<^verbatim>\<open>m_txedBuffer\<close> and \<^verbatim>\<open>m_retxBuffer\<close>; \<open>None\<close> is the null packet pointer.\<close>

record retx_pdu =
  rp_pdu :: "bytes option"
  rp_retxCount :: u16
  rp_waitingSince :: time_ns

definition retx_none :: retx_pdu where
  "retx_none = \<lparr>rp_pdu = None, rp_retxCount = 0, rp_waitingSince = 0\<rparr>"

record pdu_buffer =
  pb_byteSegments :: "bytes list"
  pb_pduComplete :: bool

text \<open>
  The two vectors have 1024 elements and are indexed with the value of a sequence number, which
  is below 1024: \<open>at\<close> never throws.
\<close>

record rlc_am =
  am_base :: rlc_base
  am_txonBuffer :: "tagged_pdu list"
  am_txedBuffer :: "retx_pdu list"
  am_retxBuffer :: "retx_pdu list"
  am_maxTxBufferSize :: u32
  am_txonBufferSize :: u32
  am_retxBufferSize :: u32
  am_txedBufferSize :: u32
  am_statusPduRequested :: bool
  am_statusPduBufferSize :: u32
  am_rxonBuffer :: "(u16 \<times> pdu_buffer) list"
  am_reas :: reas
  am_vtA :: sn10
  am_vtMs :: sn10
  am_vtS :: sn10
  am_pollSn :: sn10
  am_vrR :: sn10
  am_vrMr :: sn10
  am_vrX :: sn10
  am_vrMs :: sn10
  am_vrH :: sn10
  am_pduWithoutPoll :: u32
  am_byteWithoutPoll :: u32
  am_windowSize :: u16
  am_pollRetransmitTimer :: "time_ns option"
  am_pollRetransmitTimerValue :: time_ns
  am_reorderingTimer :: "time_ns option"
  am_reorderingTimerValue :: time_ns
  am_statusProhibitTimer :: "time_ns option"
  am_statusProhibitTimerValue :: time_ns
  am_rbsTimer :: "time_ns option"
  am_rbsTimerValue :: time_ns
  am_maxRetxThreshold :: u16
  am_pollPdu :: u16
  am_pollByte :: u16
  am_txOpportunityForRetxAlwaysBigEnough :: bool
  am_pollRetransmitTimerJustExpired :: bool

text \<open>The constructor and the default values of the attributes.\<close>

definition am_init :: rlc_am where
  "am_init = \<lparr>am_base = rlc_base_init, am_txonBuffer = [],
     am_txedBuffer = replicate 1024 retx_none, am_retxBuffer = replicate 1024 retx_none,
     am_maxTxBufferSize = 10 * 1024, am_txonBufferSize = 0, am_retxBufferSize = 0,
     am_txedBufferSize = 0, am_statusPduRequested = False, am_statusPduBufferSize = 0,
     am_rxonBuffer = [], am_reas = reas_init,
     am_vtA = sn_make 0, am_vtMs = sn_plus (sn_make 0) 512, am_vtS = sn_make 0,
     am_pollSn = sn_make 0, am_vrR = sn_make 0, am_vrMr = sn_plus (sn_make 0) 512,
     am_vrX = sn_make 0, am_vrMs = sn_make 0, am_vrH = sn_make 0,
     am_pduWithoutPoll = 0, am_byteWithoutPoll = 0, am_windowSize = 512,
     am_pollRetransmitTimer = None, am_pollRetransmitTimerValue = MilliSeconds 20,
     am_reorderingTimer = None, am_reorderingTimerValue = MilliSeconds 10,
     am_statusProhibitTimer = None, am_statusProhibitTimerValue = MilliSeconds 10,
     am_rbsTimer = None, am_rbsTimerValue = MilliSeconds 20,
     am_maxRetxThreshold = 5, am_pollPdu = 1, am_pollByte = 50,
     am_txOpportunityForRetxAlwaysBigEnough = False, am_pollRetransmitTimerJustExpired = False\<rparr>"

definition am_DoDispose :: "rlc_am \<Rightarrow> rlc_am" where
  "am_DoDispose s = s\<lparr>am_pollRetransmitTimer := None, am_reorderingTimer := None,
     am_statusProhibitTimer := None, am_rbsTimer := None, am_maxTxBufferSize := 0,
     am_txonBuffer := [], am_txonBufferSize := 0, am_txedBuffer := [], am_txedBufferSize := 0,
     am_retxBuffer := [], am_retxBufferSize := 0, am_rxonBuffer := [],
     am_reas := (am_reas s)\<lparr>m_sdusBuffer := [], m_keepS0 := None\<rparr>\<rparr>"

abbreviation at_sn :: "retx_pdu list \<Rightarrow> sn10 \<Rightarrow> retx_pdu" where
  "at_sn buf sn \<equiv> buf ! unat (sn_GetValue sn)"

abbreviation set_sn :: "retx_pdu list \<Rightarrow> sn10 \<Rightarrow> retx_pdu \<Rightarrow> retx_pdu list" where
  "set_sn buf sn x \<equiv> buf[unat (sn_GetValue sn) := x]"

section \<open>Reports and submission\<close>

text \<open>
  \<^verbatim>\<open>DoReportBufferStatus\<close> sends nothing when all three sizes are zero. The front of an empty
  transmission buffer with a positive size would be undefined: \<open>None\<close>.
\<close>

definition am_DoReportBufferStatus :: "time_ns \<Rightarrow> rlc_am \<Rightarrow> rlc_action list option" where
  "am_DoReportBufferStatus now s =
     (if am_txonBufferSize s > 0 \<and> am_txonBuffer s = [] then None
      else
        (let txonQueueHolDelay = (if am_txonBufferSize s > 0
                                  then now - m_waitingSince (hd (am_txonBuffer s)) else 0);
             retxQueueHolDelay =
               (if am_retxBufferSize s > 0 then
                  now - (if rp_pdu (at_sn (am_retxBuffer s) (am_vtA s)) \<noteq> None
                         then rp_waitingSince (at_sn (am_retxBuffer s) (am_vtA s))
                         else rp_waitingSince (at_sn (am_txedBuffer s) (am_vtA s)))
                else 0);
             r = \<lparr>rbs_rnti = rlc_rnti (am_base s), rbs_lcid = rlc_lcid (am_base s),
                  rbs_txQueueSize = am_txonBufferSize s,
                  rbs_txQueueHolDelay = word_of_int (GetMilliSeconds txonQueueHolDelay),
                  rbs_retxQueueSize = am_retxBufferSize s + am_txedBufferSize s,
                  rbs_retxQueueHolDelay = word_of_int (GetMilliSeconds retxQueueHolDelay),
                  rbs_statusPduSize =
                    (if am_statusPduRequested s \<and> am_statusProhibitTimer s = None
                     then ucast (am_statusPduBufferSize s) else 0)\<rparr>
         in Some (if rbs_txQueueSize r \<noteq> 0 \<or> rbs_retxQueueSize r \<noteq> 0 \<or> rbs_statusPduSize r \<noteq> 0
                  then [ReportBufferStatus r] else [])))"

definition am_DoTransmitPdcpPdu ::
    "time_ns \<Rightarrow> bytes \<Rightarrow> rlc_am \<Rightarrow> (rlc_am \<times> rlc_action list) option" where
  "am_DoTransmitPdcpPdu now p s =
     (let (s1, as1) =
        (if am_txonBufferSize s + GetSize p \<le> am_maxTxBufferSize s \<or> am_maxTxBufferSize s = 0 then
           (s\<lparr>am_txonBuffer := am_txonBuffer s @
                [\<lparr>m_pdu = p, m_waitingSince = now, m_sduStatus = FULL_SDU\<rparr>],
              am_txonBufferSize := am_txonBufferSize s + GetSize p\<rparr>, [])
         else (s, [TxDrop p]))
      in map_option (\<lambda>as. (s1\<lparr>am_rbsTimer := Some (now + am_rbsTimerValue s1)\<rparr>, as1 @ as))
           (am_DoReportBufferStatus now s1))"

section \<open>The STATUS PDU\<close>

text \<open>
  The loop over the numbers from VR(R) to VR(MS): a number that has not been received completely
  is added as a NACK, until no further one fits. The result is the header and the number at the
  end of the loop. \<^verbatim>\<open>OneMoreNackWouldFitIn\<close> takes the grant as a 16-bit value. A grant below
  \<^verbatim>\<open>m_statusPduBufferSize\<close> fails an assertion, as does an ACK_SN above VR(MS).
\<close>

definition am_received :: "(u16 \<times> pdu_buffer) list \<Rightarrow> sn10 \<Rightarrow> bool" where
  "am_received rx sn = (case map_of rx (sn_GetValue sn) of None \<Rightarrow> False | Some b \<Rightarrow> pb_pduComplete b)"

partial_function (option) am_nack_loop ::
    "nat \<Rightarrow> (u16 \<times> pdu_buffer) list \<Rightarrow> sn10 \<Rightarrow> sn10 \<Rightarrow> am_header \<Rightarrow> (am_header \<times> sn10) option" where
  "am_nack_loop bytes rx vrMs sn h =
     (if sn_lt sn vrMs then
        (if \<not> am_OneMoreNackWouldFitIn (word_of_nat bytes) h then Some (h, sn)
         else am_nack_loop bytes rx vrMs (sn_inc sn)
                (if \<not> am_received rx sn then am_PushNack (uint (sn_GetValue sn)) h else h))
      else Some (h, sn))"

partial_function (option) am_ack_search ::
    "(u16 \<times> pdu_buffer) list \<Rightarrow> sn10 \<Rightarrow> sn10 \<Rightarrow> sn10 option" where
  "am_ack_search rx vrMs sn =
     (if sn_lt sn vrMs \<and> am_received rx sn then am_ack_search rx vrMs (sn_inc sn) else Some sn)"

definition am_send_status ::
    "time_ns \<Rightarrow> TxOpportunityParameters \<Rightarrow> rlc_am \<Rightarrow> (rlc_am \<times> rlc_action list) option" where
  "am_send_status now txOpParams s =
     (if txo_bytes txOpParams < unat (am_statusPduBufferSize s) then None
      else
        (case am_nack_loop (txo_bytes txOpParams) (am_rxonBuffer s) (am_vrMs s) (am_vrR s)
             (am_SetControlPdu STATUS_PDU am_header_init) of
           None \<Rightarrow> None
         | Some (h, sn) \<Rightarrow>
             (case am_ack_search (am_rxonBuffer s) (am_vrMs s) sn of
                None \<Rightarrow> None
              | Some sn' \<Rightarrow>
                  (if \<not> sn_le sn' (am_vrMs s) then None
                   else case AddHeader am_GetSerializedSize am_Serialize (am_SetAckSn sn' h) [] of
                     None \<Rightarrow> None
                   | Some packet \<Rightarrow>
                       Some (s\<lparr>am_statusPduRequested := False, am_statusPduBufferSize := 0,
                               am_statusProhibitTimer := Some (now + am_statusProhibitTimerValue s)\<rparr>,
                             [TransmitPdu (answer_params (am_base s) txOpParams packet)])))))"

section \<open>Retransmission\<close>

text \<open>The first number from VT(A) to VT(S) with a PDU in the retransmission buffer, if any.\<close>

partial_function (option) am_find_retx :: "retx_pdu list \<Rightarrow> sn10 \<Rightarrow> sn10 \<Rightarrow> sn10 option option" where
  "am_find_retx retx sn vtS =
     (if sn_lt sn vtS then
        (if rp_pdu (at_sn retx sn) \<noteq> None then Some (Some sn)
         else am_find_retx retx (sn_inc sn) vtS)
      else Some None)"

text \<open>
  The polling decision of section 5.2.2.1: the poll bit is set, the counters are reset, POLL_SN
  becomes VT(S) - 1 and t-PollRetransmit is started or restarted.
\<close>

definition am_set_poll :: "time_ns \<Rightarrow> am_header \<Rightarrow> rlc_am \<Rightarrow> am_header \<times> rlc_am" where
  "am_set_poll now h s =
     (am_SetPollingBit STATUS_REPORT_IS_REQUESTED h,
      s\<lparr>am_pollRetransmitTimerJustExpired := False, am_pduWithoutPoll := 0, am_byteWithoutPoll := 0,
        am_pollSn := sn_minus (am_vtS s) 1,
        am_pollRetransmitTimer := Some (now + am_pollRetransmitTimerValue s)\<rparr>)"

definition am_retx_polls :: "bytes \<Rightarrow> am_header \<Rightarrow> rlc_am \<Rightarrow> bool" where
  "am_retx_polls p h s \<longleftrightarrow>
     (am_txonBuffer s = [] \<and>
      am_retxBufferSize s = GetSize p + word_of_nat (am_GetSerializedSize h)) \<or>
     sn_ge (am_vtS s) (am_vtMs s) \<or> am_pollRetransmitTimerJustExpired s"

text \<open>The PDU moves back to the buffer of transmitted PDUs.\<close>

definition am_retx_to_txed :: "time_ns \<Rightarrow> sn10 \<Rightarrow> rlc_am \<Rightarrow> rlc_am" where
  "am_retx_to_txed now sn s =
     (let x = at_sn (am_retxBuffer s) sn;
          x' = x\<lparr>rp_retxCount := rp_retxCount x + 1, rp_waitingSince := now\<rparr>;
          sz = GetSize (the (rp_pdu x))
      in s\<lparr>am_txedBuffer := set_sn (am_txedBuffer s) sn x',
           am_txedBufferSize := am_txedBufferSize s + sz,
           am_retxBufferSize := am_retxBufferSize s - sz,
           am_retxBuffer := set_sn (am_retxBuffer s) sn retx_none\<rparr>)"

definition am_retransmit ::
    "time_ns \<Rightarrow> TxOpportunityParameters \<Rightarrow> sn10 \<Rightarrow> bytes \<Rightarrow> rlc_am \<Rightarrow> (rlc_am \<times> rlc_action list) option" where
  "am_retransmit now txOpParams sn packet s =
     (if length packet \<le> txo_bytes txOpParams \<or> am_txOpportunityForRetxAlwaysBigEnough s then
        (case RemoveHeader am_des packet of
           None \<Rightarrow> None
         | Some (h, p) \<Rightarrow>
             (let h0 = am_SetPollingBit STATUS_REPORT_NOT_REQUESTED h;
                  (h1, s1) = (if am_retx_polls p h0 s then am_set_poll now h0 s else (h0, s))
              in (case AddHeader am_GetSerializedSize am_Serialize h1 p of
                    None \<Rightarrow> None
                  | Some packet' \<Rightarrow>
                      Some (am_retx_to_txed now sn s1,
                            [TransmitPdu (answer_params (am_base s) txOpParams packet')]))))
      else Some (s, []))"

section \<open>A new data PDU\<close>

text \<open>
  The \<^verbatim>\<open>while\<close> loop that builds the data field, on \<^verbatim>\<open>m_txonBuffer\<close> and
  \<^verbatim>\<open>m_txonBufferSize\<close>.
\<close>

fun am_seg_loop :: "tagged_pdu \<Rightarrow> tagged_pdu list \<Rightarrow> u32 \<Rightarrow> nat \<Rightarrow> nat \<Rightarrow> am_header \<Rightarrow> data_field \<Rightarrow>
    tagged_pdu list \<times> u32 \<times> am_header \<times> data_field" where
  "am_seg_loop firstSegment txonBuffer txonBufferSize nextSegmentSize nextSegmentId rlcAmHeader dataField =
     (if length (m_pdu firstSegment) > 0 \<and> nextSegmentSize > 0 then
        (if length (m_pdu firstSegment) > nextSegmentSize \<or> length (m_pdu firstSegment) > 2047 then
           (let currSegmentSize = min (length (m_pdu firstSegment)) nextSegmentSize;
                newSegment = CreateFragment0 currSegmentSize (m_pdu firstSegment);
                rest = RemoveAtStart currSegmentSize (m_pdu firstSegment);
                (newTag, oldTag) = split_status (m_sduStatus firstSegment) (rest = []);
                (buf', sz') =
                  (if length rest > 0 then
                     (firstSegment\<lparr>m_pdu := rest, m_sduStatus := oldTag\<rparr> # txonBuffer,
                      txonBufferSize + GetSize rest)
                   else (txonBuffer, txonBufferSize))
            in (buf', sz', am_PushExtensionBit DATA_FIELD_FOLLOWS rlcAmHeader,
                dataField @ [(newSegment, newTag)]))
         else if nextSegmentSize - length (m_pdu firstSegment) \<le> 2 \<or> txonBuffer = [] then
           (txonBuffer, txonBufferSize, am_PushExtensionBit DATA_FIELD_FOLLOWS rlcAmHeader,
            dataField @ [(m_pdu firstSegment, m_sduStatus firstSegment)])
         else
           (case txonBuffer of
              [] \<Rightarrow> (txonBuffer, txonBufferSize, rlcAmHeader, dataField)
            | x # xs \<Rightarrow>
                am_seg_loop x xs (txonBufferSize - GetSize (m_pdu x))
                  (nextSegmentSize -
                     ((if nextSegmentId mod 2 \<noteq> 0 then 2 else 1) + length (m_pdu firstSegment)))
                  (nextSegmentId + 1)
                  (am_PushLengthIndicator (word_of_nat (length (m_pdu firstSegment)))
                     (am_PushExtensionBit E_LI_FIELDS_FOLLOWS rlcAmHeader))
                  (dataField @ [(m_pdu firstSegment, m_sduStatus firstSegment)])))
      else (txonBuffer, txonBufferSize, rlcAmHeader, dataField))"

declare am_seg_loop.simps [simp del]

text \<open>The header of the PDU before the polling decision.\<close>

definition am_data_header :: "sn10 \<Rightarrow> data_field \<Rightarrow> am_header \<Rightarrow> am_header" where
  "am_data_header sn dataField h =
     am_SetPollingBit STATUS_REPORT_NOT_REQUESTED
       (am_SetFramingInfo (framing_from_tags dataField)
         (am_SetSegmentOffset 0
           (am_SetLastSegmentFlag LAST_PDU_SEGMENT
             (am_SetResegmentationFlag RF_PDU (am_SetSequenceNumber sn h)))))"

definition am_new_polls :: "rlc_am \<Rightarrow> bool" where
  "am_new_polls s \<longleftrightarrow>
     am_pduWithoutPoll s \<ge> ucast (am_pollPdu s) \<or> am_byteWithoutPoll s \<ge> ucast (am_pollByte s) \<or>
     (am_txonBuffer s = [] \<and> am_retxBufferSize s = 0) \<or>
     sn_ge (am_vtS s) (am_vtMs s) \<or> am_pollRetransmitTimerJustExpired s"

text \<open>The PDU is stored in the buffer of transmitted PDUs.\<close>

definition am_store_txed :: "time_ns \<Rightarrow> sn10 \<Rightarrow> bytes \<Rightarrow> rlc_am \<Rightarrow> rlc_am" where
  "am_store_txed now sn packet s =
     s\<lparr>am_txedBufferSize := am_txedBufferSize s + GetSize packet,
       am_txedBuffer := set_sn (am_txedBuffer s) sn
         \<lparr>rp_pdu = Some packet, rp_retxCount = 0, rp_waitingSince = now\<rparr>\<rparr>"

text \<open>The number of the new PDU is asserted to lie in the transmitting window.\<close>

definition am_send_new ::
    "time_ns \<Rightarrow> TxOpportunityParameters \<Rightarrow> rlc_am \<Rightarrow> (rlc_am \<times> rlc_action list) option" where
  "am_send_new now txOpParams s =
     (case am_txonBuffer s of
        [] \<Rightarrow> Some (s, [])
      | x # xs \<Rightarrow>
          (let (buf', sz', h, dataField) =
             am_seg_loop x xs (am_txonBufferSize s - GetSize (m_pdu x)) (txo_bytes txOpParams - 4) 1
               (am_SetDataPdu am_header_init) []
           in if dataField = [] then None
              else
                (let (sn, vtS') = sn_postinc (am_vtS s) in
                 if \<not> (sn_lt sn (am_vtMs s) \<and> sn_ge sn (am_vtA s)) then None
                 else
                (let h0 = am_data_header sn dataField h;
                     data = concat (map fst dataField);
                     s1 = s\<lparr>am_txonBuffer := buf', am_txonBufferSize := sz', am_vtS := vtS',
                            am_pduWithoutPoll := am_pduWithoutPoll s + 1,
                            am_byteWithoutPoll := am_byteWithoutPoll s + GetSize data\<rparr>;
                     (h1, s2) = (if am_new_polls s1 then am_set_poll now h0 s1 else (h0, s1))
                 in (case AddHeader am_GetSerializedSize am_Serialize h1 data of
                       None \<Rightarrow> None
                     | Some packet \<Rightarrow>
                         Some (am_store_txed now sn packet s2,
                               [TransmitPdu (answer_params (am_base s) txOpParams packet)]))))))"

text \<open>
  \<^verbatim>\<open>DoNotifyTxOpportunity\<close>. Assertions fail on an opportunity of less than four bytes, or less than
  seven for a new PDU; when VT(A) < VT(S) does not hold or no PDU is found although the size of
  the retransmission buffer is positive; and when VT(S) is above VT(MS).
\<close>

definition am_DoNotifyTxOpportunity ::
    "time_ns \<Rightarrow> TxOpportunityParameters \<Rightarrow> rlc_am \<Rightarrow> (rlc_am \<times> rlc_action list) option" where
  "am_DoNotifyTxOpportunity now txOpParams s =
     (if txo_bytes txOpParams < 4 then None
      else if am_statusPduRequested s \<and> am_statusProhibitTimer s = None then
        am_send_status now txOpParams s
      else if am_retxBufferSize s > 0 then
        (if \<not> sn_lt (am_vtA s) (am_vtS s) then None
         else case am_find_retx (am_retxBuffer s) (am_vtA s) (am_vtS s) of
           None \<Rightarrow> None
         | Some None \<Rightarrow> None
         | Some (Some sn) \<Rightarrow>
             (case rp_pdu (at_sn (am_retxBuffer s) sn) of
                None \<Rightarrow> None
              | Some packet \<Rightarrow> am_retransmit now txOpParams sn packet s))
      else if am_txonBufferSize s > 0 then
        (if txo_bytes txOpParams < 7 \<or> \<not> sn_le (am_vtS s) (am_vtMs s) then None
         else if sn_eq (am_vtS s) (am_vtMs s) then Some (s, [])
         else am_send_new now txOpParams s)
      else Some (s, []))"

section \<open>Timers\<close>

text \<open>
  \<^verbatim>\<open>ExpirePollRetransmitTimer\<close>: when nothing is left to send or the window is stalled, all
  transmitted PDUs are considered for retransmission. VT(S) is asserted not to be above VT(MS).
\<close>

definition am_txed_to_retx :: "sn10 \<Rightarrow> rlc_am \<Rightarrow> rlc_am" where
  "am_txed_to_retx sn s =
     (let x = at_sn (am_txedBuffer s) sn in
      (case rp_pdu x of
         None \<Rightarrow> s
       | Some p \<Rightarrow>
           s\<lparr>am_retxBuffer := set_sn (am_retxBuffer s) sn x,
             am_retxBufferSize := am_retxBufferSize s + GetSize p,
             am_txedBufferSize := am_txedBufferSize s - GetSize p,
             am_txedBuffer := set_sn (am_txedBuffer s) sn retx_none\<rparr>))"

partial_function (option) am_move_all :: "sn10 \<Rightarrow> rlc_am \<Rightarrow> rlc_am option" where
  "am_move_all sn s =
     (if sn_lt sn (am_vtS s) then am_move_all (sn_inc sn) (am_txed_to_retx sn s) else Some s)"

definition am_ExpirePollRetransmitTimer :: "time_ns \<Rightarrow> rlc_am \<Rightarrow> (rlc_am \<times> rlc_action list) option" where
  "am_ExpirePollRetransmitTimer now s =
     (let s0 = s\<lparr>am_pollRetransmitTimer := None, am_pollRetransmitTimerJustExpired := True\<rparr> in
      if \<not> sn_le (am_vtS s0) (am_vtMs s0) then None
      else (case (if (am_txonBufferSize s0 = 0 \<and> am_retxBufferSize s0 = 0) \<or> sn_eq (am_vtS s0) (am_vtMs s0)
             then am_move_all (am_vtA s0) s0 else Some s0) of
         None \<Rightarrow> None
       | Some s1 \<Rightarrow> map_option (\<lambda>as. (s1, as)) (am_DoReportBufferStatus now s1)))"

definition am_ExpireStatusProhibitTimer :: "rlc_am \<Rightarrow> rlc_am" where
  "am_ExpireStatusProhibitTimer s = s\<lparr>am_statusProhibitTimer := None\<rparr>"

definition am_ExpireRbsTimer :: "time_ns \<Rightarrow> rlc_am \<Rightarrow> (rlc_am \<times> rlc_action list) option" where
  "am_ExpireRbsTimer now s =
     (let s0 = s\<lparr>am_rbsTimer := None\<rparr> in
      if am_txonBufferSize s0 + am_txedBufferSize s0 + am_retxBufferSize s0 > 0 then
        map_option (\<lambda>as. (s0\<lparr>am_rbsTimer := Some (now + am_rbsTimerValue s0)\<rparr>, as))
          (am_DoReportBufferStatus now s0)
      else Some (s0, []))"

definition am_DoNotifyHarqDeliveryFailure :: "rlc_am \<Rightarrow> rlc_am" where
  "am_DoNotifyHarqDeliveryFailure s = s"

end
