(* ===== verification/RlcAmRx.thy ===== *)
theory RlcAmRx
  imports RlcAmTx
begin

text \<open>
  The acknowledged mode \<^verbatim>\<open>LteRlcAm\<close> of \<^verbatim>\<open>src/lte/model/lte-rlc-am.cc\<close>: what it does with a PDU
  received. A data PDU goes through the receiving window and the reception buffer to reassembly; a
  STATUS PDU acknowledges transmitted PDUs or moves them to the retransmission buffer.
\<close>

section \<open>Data PDUs\<close>

text \<open>\<^verbatim>\<open>IsInsideReceivingWindow\<close> sets the bases of \<^verbatim>\<open>m_vrR\<close> and \<^verbatim>\<open>m_vrMr\<close>.\<close>

definition am_IsInsideReceivingWindow :: "sn10 \<Rightarrow> rlc_am \<Rightarrow> bool \<times> rlc_am" where
  "am_IsInsideReceivingWindow seqNumber s =
     (let s1 = s\<lparr>am_vrR := sn_SetModulusBase (am_vrR s) (am_vrR s)\<rparr>;
          s2 = s1\<lparr>am_vrMr := sn_SetModulusBase (am_vrMr s1) (am_vrR s1)\<rparr>;
          seqNumber1 = sn_SetModulusBase seqNumber (am_vrR s2)
      in (sn_le (am_vrR s2) seqNumber1 \<and> sn_lt seqNumber1 (am_vrMr s2), s2))"

text \<open>
  The loop that advances VR(MS). It ends because some number is missing from the buffer; an
  assertion guards against a buffer with all 1024 numbers.
\<close>

partial_function (option) am_next_incomplete :: "(u16 \<times> pdu_buffer) list \<Rightarrow> sn10 \<Rightarrow> sn10 option" where
  "am_next_incomplete rx sn =
     (if am_received rx sn then am_next_incomplete rx (sn_inc sn) else Some sn)"

text \<open>
  The loop that reassembles from VR(R). A complete PDU is asserted to have exactly one segment;
  otherwise \<open>None\<close>.
\<close>

definition am_rx_step :: "rlc_am \<Rightarrow> rlc_am" where
  "am_rx_step s =
     (let rx = smap_erase (sn_GetValue (am_vrR s)) (am_rxonBuffer s);
          r1 = sn_inc (am_vrR s);
          r2 = sn_SetModulusBase r1 r1
      in s\<lparr>am_rxonBuffer := rx, am_vrR := r2,
           am_vrX := sn_SetModulusBase (am_vrX s) r2,
           am_vrMs := sn_SetModulusBase (am_vrMs s) r2,
           am_vrH := sn_SetModulusBase (am_vrH s) r2\<rparr>)"

partial_function (option) am_reassemble_loop :: "rlc_am \<Rightarrow> (rlc_am \<times> bytes list) option" where
  "am_reassemble_loop s =
     (case map_of (am_rxonBuffer s) (sn_GetValue (am_vrR s)) of
        None \<Rightarrow> Some (s, [])
      | Some b \<Rightarrow>
          if \<not> pb_pduComplete b then Some (s, [])
          else (case pb_byteSegments b of
                  [packet] \<Rightarrow>
                    (case am_ReassembleAndDeliver (am_reas s) packet of
                       None \<Rightarrow> None
                     | Some (r', d) \<Rightarrow>
                         Option.bind (am_reassemble_loop (am_rx_step (s\<lparr>am_reas := r'\<rparr>)))
                           (\<lambda>(s', d'). Some (s', d @ d')))
                | _ \<Rightarrow> None))"

text \<open>A STATUS PDU is requested by the poll bit; the report to the MAC may follow at once.\<close>

definition am_rx_poll :: "time_ns \<Rightarrow> am_header \<Rightarrow> rlc_am \<Rightarrow> (rlc_am \<times> rlc_action list) option" where
  "am_rx_poll now h s =
     (if ah_pollingBit h = STATUS_REPORT_IS_REQUESTED then
        (let s1 = s\<lparr>am_statusPduRequested := True, am_statusPduBufferSize := 4\<rparr>
         in if am_statusProhibitTimer s1 = None
            then map_option (\<lambda>as. (s1, as)) (am_DoReportBufferStatus now s1)
            else Some (s1, []))
      else Some (s, []))"

text \<open>
  5.1.3.2.2: a PDU inside the window goes to the buffer unless its number is there already. The
  element created by \<^verbatim>\<open>operator[]\<close> has an empty list of segments, to which the packet is added;
  one that is there is asserted to have one segment.
\<close>

definition am_rx_place_ok :: "sn10 \<Rightarrow> rlc_am \<Rightarrow> bool" where
  "am_rx_place_ok seqNumber s =
     (case map_of (am_rxonBuffer s) (sn_GetValue seqNumber) of
        None \<Rightarrow> True | Some b \<Rightarrow> length (pb_byteSegments b) = 1)"

definition am_rx_place :: "sn10 \<Rightarrow> bytes \<Rightarrow> rlc_am \<Rightarrow> rlc_am" where
  "am_rx_place seqNumber p s =
     (if smap_has (am_rxonBuffer s) (sn_GetValue seqNumber) then s
      else s\<lparr>am_rxonBuffer := smap_put (sn_GetValue seqNumber)
               \<lparr>pb_byteSegments = [p], pb_pduComplete = True\<rparr> (am_rxonBuffer s)\<rparr>)"

text \<open>5.1.3.2.3: VR(H) and VR(MS).\<close>

definition am_rx_vrH :: "sn10 \<Rightarrow> rlc_am \<Rightarrow> rlc_am" where
  "am_rx_vrH seqNumber s =
     (if sn_ge seqNumber (am_vrH s) then s\<lparr>am_vrH := sn_plus seqNumber 1\<rparr> else s)"

definition am_rx_vrMs :: "rlc_am \<Rightarrow> rlc_am option" where
  "am_rx_vrMs s =
     map_option (\<lambda>sn. s\<lparr>am_vrMs := sn\<rparr>) (am_next_incomplete (am_rxonBuffer s) (am_vrMs s))"

text \<open>5.1.3.2.3: reassembly when the number is VR(R).\<close>

definition am_rx_deliver :: "sn10 \<Rightarrow> rlc_am \<Rightarrow> (rlc_am \<times> bytes list) option" where
  "am_rx_deliver seqNumber s =
     (if sn_eq seqNumber (am_vrR s) \<and> am_received (am_rxonBuffer s) seqNumber then
        (case am_reassemble_loop s of
           None \<Rightarrow> None
         | Some (s1, d) \<Rightarrow> Some (s1\<lparr>am_vrMr := sn_plus (am_vrR s1) (am_windowSize s1)\<rparr>, d))
      else Some (s, []))"

definition am_rx_stop_timer :: "rlc_am \<Rightarrow> rlc_am" where
  "am_rx_stop_timer s =
     (if am_reorderingTimer s = None then s
      else if sn_eq (am_vrX s) (am_vrR s) then s\<lparr>am_reorderingTimer := None\<rparr>
      else (let (inside, s1) = am_IsInsideReceivingWindow (am_vrX s) s
            in if \<not> inside \<and> sn_neq (am_vrX s1) (am_vrMr s1)
               then s1\<lparr>am_reorderingTimer := None\<rparr> else s1))"

definition am_rx_start_timer :: "time_ns \<Rightarrow> rlc_am \<Rightarrow> rlc_am" where
  "am_rx_start_timer now s =
     (if am_reorderingTimer s = None \<and> sn_gt (am_vrH s) (am_vrR s) then
        s\<lparr>am_reorderingTimer := Some (now + am_reorderingTimerValue s), am_vrX := am_vrH s\<rparr>
      else s)"

definition am_receive_data ::
    "time_ns \<Rightarrow> am_header \<Rightarrow> bytes \<Rightarrow> rlc_am \<Rightarrow> (rlc_am \<times> rlc_action list) option" where
  "am_receive_data now h p s =
     (let seqNumber = sn_SetModulusBase (ah_sequenceNumber h) (am_vrR s) in
      if ah_resegmentationFlag h \<noteq> RF_SEGMENT \<and> ah_resegmentationFlag h \<noteq> RF_PDU then None
      else
        (case am_rx_poll now h s of
           None \<Rightarrow> None
         | Some (s1, as) \<Rightarrow>
             (let (inside, s2) = am_IsInsideReceivingWindow seqNumber s1 in
              if \<not> inside then Some (s2, as)
              else if \<not> am_rx_place_ok seqNumber s2 then None
              else
                (case am_rx_vrMs (am_rx_vrH seqNumber (am_rx_place seqNumber p s2)) of
                   None \<Rightarrow> None
                 | Some s3 \<Rightarrow>
                     (case am_rx_deliver seqNumber s3 of
                        None \<Rightarrow> None
                      | Some (s4, d) \<Rightarrow>
                          Some (am_rx_start_timer now (am_rx_stop_timer s4),
                                as @ map ReceivePdcpPdu d))))))"

section \<open>STATUS PDUs\<close>

text \<open>One number of the loop: a NACK moves the PDU to the retransmission buffer, an ACK drops it.\<close>

definition am_nacked :: "sn10 \<Rightarrow> rlc_am \<Rightarrow> rlc_am" where
  "am_nacked sn s = am_txed_to_retx sn s"

definition am_acked :: "sn10 \<Rightarrow> rlc_am \<Rightarrow> rlc_am" where
  "am_acked sn s =
     (let s1 =
        (case rp_pdu (at_sn (am_txedBuffer s) sn) of
           None \<Rightarrow> s
         | Some p \<Rightarrow>
             s\<lparr>am_txedBufferSize := am_txedBufferSize s - GetSize p,
               am_txedBuffer := set_sn (am_txedBuffer s) sn
                 ((at_sn (am_txedBuffer s) sn)\<lparr>rp_pdu := None, rp_waitingSince := 0\<rparr>)\<rparr>)
      in (case rp_pdu (at_sn (am_retxBuffer s1) sn) of
            None \<Rightarrow> s1
          | Some p \<Rightarrow>
              s1\<lparr>am_retxBufferSize := am_retxBufferSize s1 - GetSize p,
                 am_retxBuffer := set_sn (am_retxBuffer s1) sn retx_none\<rparr>))"

definition am_advance_vtA :: "rlc_am \<Rightarrow> rlc_am" where
  "am_advance_vtA s =
     (let a = sn_inc (am_vtA s);
          ms = sn_plus a (am_windowSize s);
          a' = sn_SetModulusBase a a
      in s\<lparr>am_vtA := a', am_vtMs := sn_SetModulusBase ms a', am_vtS := sn_SetModulusBase (am_vtS s) a'\<rparr>)"

text \<open>
  What is asserted of the slot of the number: after a NACK a PDU waits for retransmission; a PDU
  acknowledged as transmitted is not in the retransmission buffer as well.
\<close>

definition am_report_asserted :: "bool \<Rightarrow> sn10 \<Rightarrow> rlc_am \<Rightarrow> bool" where
  "am_report_asserted nack sn s =
     (if nack then rp_pdu (at_sn (am_retxBuffer (am_nacked sn s)) sn) \<noteq> None
      else rp_pdu (at_sn (am_txedBuffer s) sn) = None \<or> rp_pdu (at_sn (am_retxBuffer s) sn) = None)"

partial_function (option) am_status_loop ::
    "am_header \<Rightarrow> sn10 \<Rightarrow> sn10 \<Rightarrow> bool \<Rightarrow> rlc_am \<Rightarrow> rlc_am option" where
  "am_status_loop h ackSn sn incrementVtA s =
     (if sn_lt sn ackSn \<and> sn_lt sn (am_vtS s) then
        (let s0 = (if am_pollRetransmitTimer s \<noteq> None \<and> sn_GetValue sn = sn_GetValue (am_pollSn s)
                   then s\<lparr>am_pollRetransmitTimer := None\<rparr> else s);
             nack = am_IsNackPresent sn h;
             s1 = (if nack then am_nacked sn s0 else am_acked sn s0);
             inc = (incrementVtA \<and> \<not> nack)
         in if \<not> am_report_asserted nack sn s0 then None
            else if inc then
              (let s2 = am_advance_vtA s1
               in am_status_loop h (sn_SetModulusBase ackSn (am_vtA s2))
                    (sn_inc (sn_SetModulusBase sn (am_vtA s2))) inc s2)
            else am_status_loop h ackSn (sn_inc sn) inc s1)
      else Some s)"

definition am_receive_status :: "am_header \<Rightarrow> rlc_am \<Rightarrow> rlc_am option" where
  "am_receive_status h s =
     (let s0 = s\<lparr>am_vtA := sn_SetModulusBase (am_vtA s) (am_vtA s)\<rparr>;
          s1 = s0\<lparr>am_vtS := sn_SetModulusBase (am_vtS s0) (am_vtA s0),
                  am_vtMs := sn_SetModulusBase (am_vtMs s0) (am_vtA s0)\<rparr>
      in am_status_loop h (sn_SetModulusBase (ah_ackSn h) (am_vtA s1)) (am_vtA s1) True s1)"

section \<open>The handlers\<close>

definition am_DoReceivePdu :: "time_ns \<Rightarrow> bytes \<Rightarrow> rlc_am \<Rightarrow> (rlc_am \<times> rlc_action list) option" where
  "am_DoReceivePdu now p s =
     (case PeekHeader am_des p of
        None \<Rightarrow> None
      | Some h \<Rightarrow>
          if am_IsDataPdu h then am_receive_data now h p s
          else if am_IsControlPdu h then map_option (\<lambda>s'. (s', [])) (am_receive_status h s)
          else Some (s, []))"

definition am_ExpireReorderingTimer :: "time_ns \<Rightarrow> rlc_am \<Rightarrow> rlc_am option" where
  "am_ExpireReorderingTimer now s =
     (case am_next_incomplete (am_rxonBuffer s) (am_vrX s) of
        None \<Rightarrow> None
      | Some sn \<Rightarrow>
          (let s1 = s\<lparr>am_reorderingTimer := None, am_vrMs := sn\<rparr>;
               s2 = (if sn_gt (am_vrH s1) (am_vrMs s1)
                     then s1\<lparr>am_reorderingTimer := Some (now + am_reorderingTimerValue s1),
                             am_vrX := am_vrH s1\<rparr>
                     else s1)
           in Some (s2\<lparr>am_statusPduRequested := True\<rparr>)))"

end
