(* ===== verification/RlcAmWindow.thy ===== *)
theory RlcAmWindow
  imports RlcAmRx
begin

text \<open>
  The transmitting side of \<^verbatim>\<open>LteRlcAm\<close>: what the operations of
  theories RlcAmTx and RlcAmRx keep invariant. The
  transmitting window, the two buffers of sent PDUs and their size counters stay consistent, so
  that every operation succeeds and every PDU fits the grant it answers.
\<close>

section \<open>The loop is the one of UM\<close>

text \<open>A header under construction and the header the loop of UM builds in its place.\<close>

definition hdr_sim :: "um_header \<Rightarrow> am_header \<Rightarrow> bool" where
  "hdr_sim h g \<longleftrightarrow> uh_extensionBits h = ah_extensionBits g \<and>
     uh_lengthIndicators h = ah_lengthIndicators g \<and> ah_dataControlBit g = DATA_PDU \<and>
     ah_headerLength g = (if uh_extensionBits h = [] then 4 else uh_headerLength h + 2)"

lemma hdr_sim_init [simp]: "hdr_sim um_header_init (am_SetDataPdu am_header_init)"
  by (simp add: hdr_sim_def um_header_init_def am_header_init_def am_SetDataPdu_def)

lemma hdr_sim_push [simp]:
  "hdr_sim h g \<Longrightarrow> hdr_sim (um_PushExtensionBit e h) (am_PushExtensionBit e g)"
  "hdr_sim h g \<Longrightarrow> hdr_sim (um_PushLengthIndicator l h) (am_PushLengthIndicator l g)"
  by (auto simp: hdr_sim_def um_PushExtensionBit_def am_PushExtensionBit_def Let_def
      um_PushLengthIndicator_def am_PushLengthIndicator_def)

lemma am_seg_loop_um:
  assumes "hdr_sim h g" and "um_seg_loop x buf sz n i h df = (buf', sz', h', df')"
  shows "\<exists>g'. am_seg_loop x buf sz n i g df = (buf', sz', g', df') \<and> hdr_sim h' g'"
  using assms
proof (induction x buf sz n i h df arbitrary: g rule: um_seg_loop.induct)
  case (1 x buf sz n i h df)
  let ?len = "length (m_pdu x)"
  consider (stop) "\<not> (0 < ?len \<and> 0 < n)" | (split) "0 < ?len" "0 < n" "?len > n \<or> ?len > 2047"
    | (last) "0 < ?len" "0 < n" "?len \<le> n" "?len \<le> 2047" "n - ?len \<le> 2 \<or> buf = []"
    | (more) y ys where "0 < ?len" "0 < n" "?len \<le> n" "?len \<le> 2047" "\<not> n - ?len \<le> 2" "buf = y # ys"
    by (metis linorder_not_less list.exhaust)
  then show ?case
  proof cases
    case stop
    with "1.prems" show ?thesis
      by (auto simp: um_seg_loop.simps [of x] am_seg_loop.simps [of x])
  next
    case split
    with "1.prems" show ?thesis
      by (auto simp: um_seg_loop.simps [of x] am_seg_loop.simps [of x] Let_def split: prod.splits)
  next
    case last
    with "1.prems" show ?thesis
      by (auto simp: um_seg_loop.simps [of x] am_seg_loop.simps [of x])
  next
    case more
    let ?push = "\<lambda>h. um_PushLengthIndicator (word_of_nat ?len) (um_PushExtensionBit E_LI_FIELDS_FOLLOWS h)"
    have "um_seg_loop y ys (sz - GetSize (m_pdu y))
        (n - ((if i mod 2 \<noteq> 0 then 2 else 1) + ?len)) (i + 1) (?push h)
        (df @ [(m_pdu x, m_sduStatus x)]) = (buf', sz', h', df')"
      using "1.prems"(2) more by (simp add: um_seg_loop.simps [of x])
    with "1.IH" [OF _ _ _ more(6) hdr_sim_push(2) [OF hdr_sim_push(1) [OF "1.prems"(1)]]] more
    show ?thesis
      by (auto simp: am_seg_loop.simps [of x])
  qed
qed

section \<open>Data PDUs\<close>

text \<open>A well-formed data PDU with sequence number sn that carries the fields u.\<close>

definition am_pdu :: "bytes \<Rightarrow> sn10 \<Rightarrow> pdu_fields \<Rightarrow> bool" where
  "am_pdu p sn u \<longleftrightarrow>
     (\<exists>h q. RemoveHeader am_des p = Some (h, q) \<and> am_data_hwf h \<and> ah_segmentOffset h < 256 \<and>
        ah_resegmentationFlag h = RF_PDU \<and> length p = am_GetSerializedSize h + length q \<and>
        m_value (ah_sequenceNumber h) = m_value sn \<and>
        ah_framingInfo h = framing_of (pf_noFirst u) (pf_noLast u) \<and>
        um_split (ah_extensionBits h) (ah_lengthIndicators h) q = Some (pf_fields u))"

lemma am_pdu_contents: "am_pdu p sn u \<Longrightarrow> am_contents p sn u"
  by (auto simp: am_pdu_def am_contents_def am_data_hwf_def am_IsDataPdu_def)

lemma am_view_data:
  assumes "am_view h' = am_view h" and "am_data_hwf h"
  shows "am_data_hwf h' \<and> ah_segmentOffset h' = ah_segmentOffset h \<and>
    ah_resegmentationFlag h' = ah_resegmentationFlag h \<and> am_GetSerializedSize h' = am_GetSerializedSize h \<and>
    m_value (ah_sequenceNumber h') = m_value (ah_sequenceNumber h) \<and>
    ah_framingInfo h' = ah_framingInfo h \<and> ah_extensionBits h' = ah_extensionBits h \<and>
    ah_lengthIndicators h' = ah_lengthIndicators h \<and> ah_pollingBit h' = ah_pollingBit h"
  using assms by (auto simp: am_view_def am_data_hwf_def am_GetSerializedSize_def split: if_splits)

lemma am_pdu_AddHeader:
  assumes wf: "am_data_hwf h" "ah_segmentOffset h < 256" "ah_resegmentationFlag h = RF_PDU"
    and sn: "m_value (ah_sequenceNumber h) = m_value sn"
    and fi: "ah_framingInfo h = framing_of (pf_noFirst u) (pf_noLast u)"
    and sp: "um_split (ah_extensionBits h) (ah_lengthIndicators h) q = Some (pf_fields u)"
  shows "\<exists>p. AddHeader am_GetSerializedSize am_Serialize h q = Some p \<and> am_pdu p sn u \<and>
    length p = am_GetSerializedSize h + length q"
proof -
  have hwf: "am_hwf h"
    using wf by (simp add: am_hwf_def)
  then obtain p where p: "AddHeader am_GetSerializedSize am_Serialize h q = Some p"
    using am_codec.AddHeader_Some by blast
  note len = am_codec.AddHeader_length [OF hwf p]
  from am_codec.RemoveHeader_AddHeader [OF hwf p] obtain h' where
    h': "RemoveHeader am_des p = Some (h', q)" "am_view h' = am_view h"
    by blast
  have "am_pdu p sn u"
    unfolding am_pdu_def using h'(1) am_view_data [OF h'(2) wf(1)] wf sn fi sp len
    by (intro exI [of _ h'] exI [of _ q]) simp
  with p len show ?thesis
    by blast
qed

text \<open>Setting the poll bit does not change the contents.\<close>

lemma am_poll_header:
  assumes "am_data_hwf h"
  shows "am_data_hwf (am_SetPollingBit b h) \<and> am_GetSerializedSize (am_SetPollingBit b h) = am_GetSerializedSize h \<and>
    ah_segmentOffset (am_SetPollingBit b h) = ah_segmentOffset h \<and>
    ah_resegmentationFlag (am_SetPollingBit b h) = ah_resegmentationFlag h \<and>
    ah_sequenceNumber (am_SetPollingBit b h) = ah_sequenceNumber h \<and>
    ah_framingInfo (am_SetPollingBit b h) = ah_framingInfo h \<and>
    ah_extensionBits (am_SetPollingBit b h) = ah_extensionBits h \<and>
    ah_lengthIndicators (am_SetPollingBit b h) = ah_lengthIndicators h"
proof -
  have "b AND 1 < (2 :: u8)"
    using word_and_le1 [of b 1] by (rule le_less_trans) simp
  then show ?thesis
    using assms by (simp add: am_SetPollingBit_def am_data_hwf_def am_GetSerializedSize_def)
qed

lemma am_set_poll_fst [simp]: "fst (am_set_poll now h s) = am_SetPollingBit STATUS_REPORT_IS_REQUESTED h"
  by (simp add: am_set_poll_def)

text \<open>The new PDU built from a data field.\<close>

lemma am_build_packet:
  assumes g: "hdr_sim (um_PushExtensionBit DATA_FIELD_FOLLOWS h0) g"
    and h0: "hdr_for (map fst (butlast df)) h0" and df: "df \<noteq> []" and sn: "sn_wf sn"
    and room: "4 + li_size (length df - 1) < 2 ^ 16"
  defines "k \<equiv> am_data_header sn df g"
  shows "am_data_hwf k" "am_GetSerializedSize k = 4 + li_size (length df - 1)"
    and "\<exists>p. AddHeader am_GetSerializedSize am_Serialize (am_SetPollingBit b k) (concat (map fst df)) = Some p \<and>
      am_pdu p sn (field_unit df) \<and> length p = 4 + li_size (length df - 1) + total_size (map fst df)"
proof -
  have "um_hwf (um_SetFramingInfo fi (um_SetSequenceNumber sn (um_PushExtensionBit DATA_FIELD_FOLLOWS h0)))" for fi
    using um_push_last [of h0 sn] h0 sn room by (simp add: hdr_for_def sn_wf_def)
  then have len: "unat (uh_headerLength (um_PushExtensionBit DATA_FIELD_FOLLOWS h0) + 2) = 4 + li_size (length df - 1)"
    and ext: "uh_extensionBits (um_PushExtensionBit DATA_FIELD_FOLLOWS h0)
      = ext_pattern (length (uh_lengthIndicators h0))"
    and lis: "\<forall>l\<in>set (uh_lengthIndicators h0). l < 2048" "length (uh_lengthIndicators h0) = length df - 1"
    using h0 room by (auto simp: um_hwf_def hdr_for_def)
  have fi: "framing_of nf nl < 4" for nf nl
    by (cases nf; cases nl) simp_all
  show k: "am_data_hwf k" "am_GetSerializedSize k = 4 + li_size (length df - 1)"
    using g len ext lis sn fi
    by (simp_all add: k_def am_data_header_def am_data_hwf_def hdr_sim_def am_SetPollingBit_def
        am_SetFramingInfo_def am_SetSegmentOffset_def am_SetLastSegmentFlag_def am_GetSerializedSize_def
        am_SetResegmentationFlag_def am_SetSequenceNumber_def am_const_defs framing_from_tags_of
        sn_wf_def)
  let ?k = "am_SetPollingBit b k"
  have f: "ah_framingInfo k = framing_of (pf_noFirst (field_unit df)) (pf_noLast (field_unit df))"
    "ah_segmentOffset k = 0" "ah_resegmentationFlag k = RF_PDU" "ah_sequenceNumber k = sn"
    "ah_extensionBits k = uh_extensionBits (um_PushExtensionBit DATA_FIELD_FOLLOWS h0)"
    "ah_lengthIndicators k = uh_lengthIndicators h0"
    using g by (simp_all add: k_def am_data_header_def hdr_sim_def am_SetPollingBit_def
        am_SetFramingInfo_def am_SetSegmentOffset_def am_SetLastSegmentFlag_def
        am_SetResegmentationFlag_def am_SetSequenceNumber_def am_const_defs framing_from_tags_of)
  have "um_split (ah_extensionBits ?k) (ah_lengthIndicators ?k) (concat (map fst df))
      = Some (pf_fields (field_unit df))"
    using um_split_fields [OF h0 df] am_poll_header [OF k(1), of b] f by (simp add: field_unit_def)
  with am_pdu_AddHeader [of ?k sn "field_unit df" "concat (map fst df)"] am_poll_header [OF k(1), of b] f k(2)
  show "\<exists>p. AddHeader am_GetSerializedSize am_Serialize ?k (concat (map fst df)) = Some p \<and>
      am_pdu p sn (field_unit df) \<and> length p = 4 + li_size (length df - 1) + total_size (map fst df)"
    by (auto simp: total_size_def length_concat comp_def)
qed

section \<open>The buffers of sent PDUs\<close>

definition plen :: "retx_pdu \<Rightarrow> nat" where
  "plen x = (case rp_pdu x of None \<Rightarrow> 0 | Some p \<Rightarrow> length p)"

definition am_sum :: "retx_pdu list \<Rightarrow> nat" where
  "am_sum buf = sum_list (map plen buf)"

lemma plen_simps [simp]:
  "plen retx_none = 0" "rp_pdu x = None \<Longrightarrow> plen x = 0" "rp_pdu x = Some p \<Longrightarrow> plen x = length p"
  by (simp_all add: plen_def retx_none_def)

lemma am_sum_update:
  "i < length buf \<Longrightarrow> am_sum (buf[i := x]) = am_sum buf + plen x - plen (buf ! i)"
  by (simp add: am_sum_def map_update sum_list_update)

lemma plen_le_am_sum: "i < length buf \<Longrightarrow> plen (buf ! i) \<le> am_sum buf"
  unfolding am_sum_def by (intro elem_le_sum_list [of i "map plen buf", simplified]) simp

lemma am_sum_pos: "0 < am_sum buf \<Longrightarrow> \<exists>i<length buf. rp_pdu (buf ! i) \<noteq> None"
proof (rule ccontr)
  assume "0 < am_sum buf" "\<not> (\<exists>i<length buf. rp_pdu (buf ! i) \<noteq> None)"
  then have "\<forall>x\<in>set (map plen buf). x = 0"
    by (auto simp: in_set_conv_nth)
  then have "sum_list (map plen buf) = 0"
    by (simp only: sum_list_eq_0_iff)
  with \<open>0 < am_sum buf\<close> show False
    by (simp add: am_sum_def)
qed

definition max_pdu :: nat where
  "max_pdu = 2 ^ 20"

lemma am_sum_bound:
  assumes "length buf = 1024" "\<forall>i<1024. plen (buf ! i) \<le> max_pdu"
  shows "am_sum buf \<le> 2 ^ 30"
proof -
  have "\<forall>x\<in>set (map plen buf). x \<le> max_pdu"
    using assms by (auto simp: in_set_conv_nth)
  then have "am_sum buf \<le> length (map plen buf) * max_pdu"
    unfolding am_sum_def by (induction buf) (auto simp: algebra_simps)
  with assms(1) show ?thesis
    by (simp add: max_pdu_def)
qed

text \<open>
  Slot i of the two buffers: at most one of them holds a PDU; a PDU is well formed, carries
  number i, and i lies in the window that starts at a and has w numbers.
\<close>

definition slot_pdu_ok :: "nat \<Rightarrow> bytes \<Rightarrow> bool" where
  "slot_pdu_ok i p \<longleftrightarrow> 0 < length p \<and> length p \<le> max_pdu \<and>
     (\<exists>u. am_pdu p (sn_make (word_of_nat i)) u)"

definition slot_ok :: "retx_pdu list \<Rightarrow> retx_pdu list \<Rightarrow> nat \<Rightarrow> nat \<Rightarrow> nat \<Rightarrow> bool" where
  "slot_ok txed retx a w i \<longleftrightarrow>
     (rp_pdu (txed ! i) \<noteq> None \<or> rp_pdu (retx ! i) \<noteq> None \<longrightarrow> (i + 1024 - a) mod 1024 < w) \<and>
     (rp_pdu (txed ! i) = None \<or> rp_pdu (retx ! i) = None) \<and>
     (\<forall>p. rp_pdu (txed ! i) = Some p \<or> rp_pdu (retx ! i) = Some p \<longrightarrow> slot_pdu_ok i p)"

definition bufs_ok :: "retx_pdu list \<Rightarrow> retx_pdu list \<Rightarrow> nat \<Rightarrow> nat \<Rightarrow> bool" where
  "bufs_ok txed retx a w \<longleftrightarrow> length txed = 1024 \<and> length retx = 1024 \<and>
     (\<forall>i<1024. slot_ok txed retx a w i)"

lemma bufs_plen:
  assumes "bufs_ok txed retx a w"
  shows "i < 1024 \<Longrightarrow> plen (txed ! i) \<le> max_pdu" "i < 1024 \<Longrightarrow> plen (retx ! i) \<le> max_pdu"
  using assms by (auto simp: bufs_ok_def slot_ok_def slot_pdu_ok_def plen_def split: option.splits)

lemma bufs_sums:
  assumes "bufs_ok txed retx a w"
  shows "am_sum txed \<le> 2 ^ 30" "am_sum retx \<le> 2 ^ 30"
proof -
  have "length txed = 1024" "length retx = 1024"
    using assms by (simp_all add: bufs_ok_def)
  then show "am_sum txed \<le> 2 ^ 30" "am_sum retx \<le> 2 ^ 30"
    using bufs_plen [OF assms] by (auto intro!: am_sum_bound simp del: numeral_power_eq_of_nat_cancel_iff power_numeral)
qed

text \<open>Moving a PDU between the buffers, dropping one, storing a new one.\<close>

lemma bufs_move:
  assumes "bufs_ok txed retx a w" "i < 1024" "rp_pdu (retx ! i) = Some p" "rp_pdu x = Some p"
  shows "bufs_ok (txed[i := x]) (retx[i := retx_none]) a w"
  using assms by (auto simp: bufs_ok_def slot_ok_def nth_list_update retx_none_def)

lemma bufs_move':
  assumes "bufs_ok txed retx a w" "i < 1024" "rp_pdu (txed ! i) = Some p" "rp_pdu x = Some p"
  shows "bufs_ok (txed[i := retx_none]) (retx[i := x]) a w"
  using assms by (auto simp: bufs_ok_def slot_ok_def nth_list_update retx_none_def)

lemma bufs_drop:
  assumes "bufs_ok txed retx a w" "rp_pdu x = None"
  shows "bufs_ok (txed[i := x]) retx a w" "bufs_ok txed (retx[i := x]) a w"
  using assms by (cases "i < 1024"; auto simp: bufs_ok_def slot_ok_def nth_list_update)+

lemma bufs_new:
  assumes "bufs_ok txed retx a w" "i < 1024" "(i + 1024 - a) mod 1024 = w" "rp_pdu x = Some p"
    and "slot_pdu_ok i p"
  shows "bufs_ok (txed[i := x]) retx a (Suc w)" "rp_pdu (txed ! i) = None"
  using assms by (auto simp: bufs_ok_def slot_ok_def nth_list_update less_Suc_eq)

lemma bufs_advance:
  assumes "bufs_ok txed retx a (Suc w)" "a < 1024" "rp_pdu (txed ! a) = None" "rp_pdu (retx ! a) = None"
  shows "bufs_ok txed retx ((a + 1) mod 1024) w"
proof -
  have "(i + 1024 - (a + 1) mod 1024) mod 1024 < w"
    if "i < 1024" "(i + 1024 - a) mod 1024 < Suc w" "i \<noteq> a" for i
    using that assms(2) by (cases "a = 1023"; cases "a < i") (auto simp: mod_if split: if_splits)
  then have "slot_ok txed retx ((a + 1) mod 1024) w i" if "i < 1024" for i
    using assms that by (cases "i = a") (simp_all add: bufs_ok_def slot_ok_def)
  with assms(1) show ?thesis
    by (simp add: bufs_ok_def)
qed

section \<open>The invariant of the transmitting side\<close>

text \<open>
  VT(A), VT(S) and VT(MS) are measured from VT(A); the window has 512 numbers.
\<close>

definition am_window_ok :: "rlc_am \<Rightarrow> bool" where
  "am_window_ok s \<longleftrightarrow> am_windowSize s = 512 \<and>
     sn_wf (am_vtA s) \<and> sn_wf (am_vtS s) \<and> sn_wf (am_vtMs s) \<and>
     sn_base (am_vtA s) = sn_val (am_vtA s) \<and> sn_base (am_vtS s) = sn_val (am_vtA s) \<and>
     sn_base (am_vtMs s) = sn_val (am_vtA s) \<and>
     sn_val (am_vtMs s) = (sn_val (am_vtA s) + 512) mod 1024 \<and> sn_off (am_vtS s) \<le> 512"

definition am_tx_inv :: "rlc_am \<Rightarrow> bool" where
  "am_tx_inv s \<longleftrightarrow> am_window_ok s \<and>
     bufs_ok (am_txedBuffer s) (am_retxBuffer s) (sn_val (am_vtA s)) (sn_off (am_vtS s)) \<and>
     unat (am_txedBufferSize s) = am_sum (am_txedBuffer s) \<and>
     unat (am_retxBufferSize s) = am_sum (am_retxBuffer s)"

lemma am_sum_replicate [simp]: "am_sum (replicate n retx_none) = 0"
  by (simp add: am_sum_def sum_list_replicate)

lemma am_tx_inv_init: "am_tx_inv am_init"
  by (simp add: am_tx_inv_def am_init_def am_window_ok_def bufs_ok_def slot_ok_def sn_off_def)
     (simp add: retx_none_def)

text \<open>The invariant reads only these members.\<close>

lemma am_tx_inv_cong:
  assumes "am_vtA t = am_vtA s" "am_vtS t = am_vtS s" "am_vtMs t = am_vtMs s"
    "am_windowSize t = am_windowSize s" "am_txedBuffer t = am_txedBuffer s"
    "am_retxBuffer t = am_retxBuffer s" "am_txedBufferSize t = am_txedBufferSize s"
    "am_retxBufferSize t = am_retxBufferSize s"
  shows "am_tx_inv t = am_tx_inv s"
  using assms by (simp add: am_tx_inv_def am_window_ok_def)

lemma unat_sn_GetValue [simp]: "unat (sn_GetValue sn) = sn_val sn"
  by (simp add: sn_GetValue_def sn_val_def)

lemma size_add:
  assumes "unat w = am_sum buf" "am_sum buf \<le> 2 ^ 30" "length p \<le> max_pdu"
  shows "unat (w + GetSize p) = am_sum buf + length p"
  using assms by (simp add: unat_add_GetSize max_pdu_def)

lemma size_sub:
  assumes "unat w = am_sum buf" "i < length buf" "rp_pdu (buf ! i) = Some p"
  shows "unat (w - GetSize p) = am_sum buf - length p"
  using assms plen_le_am_sum [of i buf] by (simp add: unat_sub_GetSize)

lemma am_tx_inv_retx_to_txed:
  assumes inv: "am_tx_inv s" and sn: "sn_val sn < 1024" and p: "rp_pdu (at_sn (am_retxBuffer s) sn) = Some p"
  shows "am_tx_inv (am_retx_to_txed now sn s)"
proof -
  let ?i = "sn_val sn"
  note b = inv [unfolded am_tx_inv_def]
  have bufs: "bufs_ok (am_txedBuffer s) (am_retxBuffer s) (sn_val (am_vtA s)) (sn_off (am_vtS s))"
    and len: "length (am_txedBuffer s) = 1024" "length (am_retxBuffer s) = 1024"
    using b by (simp_all add: bufs_ok_def)
  have ok: "rp_pdu (am_txedBuffer s ! ?i) = None" "length p \<le> max_pdu"
    using bufs sn p by (auto simp: bufs_ok_def slot_ok_def slot_pdu_ok_def)
  have r: "rp_pdu (am_retxBuffer s ! ?i) = Some p"
    using p by simp
  have szs: "unat (am_txedBufferSize s + GetSize p) = am_sum (am_txedBuffer s) + length p"
    "unat (am_retxBufferSize s - GetSize p) = am_sum (am_retxBuffer s) - length p"
    using size_add [OF _ bufs_sums(1) [OF bufs] ok(2)] size_sub [OF _ _ r] b sn len by simp_all
  show ?thesis
    using b bufs_move [OF bufs sn r, of "(am_retxBuffer s ! ?i)
        \<lparr>rp_retxCount := rp_retxCount (am_retxBuffer s ! ?i) + 1, rp_waitingSince := now\<rparr>"] r szs ok len sn
    by (simp add: am_retx_to_txed_def Let_def am_tx_inv_def am_window_ok_def am_sum_update)
qed

lemma am_tx_inv_txed_to_retx:
  assumes inv: "am_tx_inv s" and sn: "sn_val sn < 1024"
  shows "am_tx_inv (am_txed_to_retx sn s)"
proof (cases "rp_pdu (at_sn (am_txedBuffer s) sn)")
  case None
  then show ?thesis
    using inv by (simp add: am_txed_to_retx_def)
next
  case (Some p)
  let ?i = "sn_val sn"
  note b = inv [unfolded am_tx_inv_def]
  have bufs: "bufs_ok (am_txedBuffer s) (am_retxBuffer s) (sn_val (am_vtA s)) (sn_off (am_vtS s))"
    and len: "length (am_txedBuffer s) = 1024" "length (am_retxBuffer s) = 1024"
    using b by (simp_all add: bufs_ok_def)
  have r: "rp_pdu (am_txedBuffer s ! ?i) = Some p"
    using Some by simp
  have ok: "rp_pdu (am_retxBuffer s ! ?i) = None" "length p \<le> max_pdu"
    using bufs sn r by (auto simp: bufs_ok_def slot_ok_def slot_pdu_ok_def)
  have szs: "unat (am_retxBufferSize s + GetSize p) = am_sum (am_retxBuffer s) + length p"
    "unat (am_txedBufferSize s - GetSize p) = am_sum (am_txedBuffer s) - length p"
    using size_add [OF _ bufs_sums(2) [OF bufs] ok(2)] size_sub [OF _ _ r] b sn len by simp_all
  show ?thesis
    using b bufs_move' [OF bufs sn r, of "am_txedBuffer s ! ?i"] r szs ok len sn
    by (simp add: am_txed_to_retx_def Let_def am_tx_inv_def am_window_ok_def am_sum_update)
qed

text \<open>The new PDU goes to the slot of VT(S), which is free, and VT(S) moves on.\<close>

lemma am_window_new:
  assumes "am_window_ok s" and "sn_off (am_vtS s) < 512"
  shows "sn_off (sn_inc (am_vtS s)) = Suc (sn_off (am_vtS s))"
  using assms
  by (cases "sn_val (am_vtS s) = 1023"; cases "sn_val (am_vtA s) \<le> sn_val (am_vtS s)")
     (auto simp: am_window_ok_def sn_off_cases sn_wf_nat)

lemma am_tx_inv_new:
  assumes inv: "am_tx_inv s" and w: "sn_off (am_vtS s) < 512"
    and p: "slot_pdu_ok (sn_val (am_vtS s)) p"
  shows "am_tx_inv (am_store_txed now (fst (sn_postinc (am_vtS s))) p (s\<lparr>am_vtS := sn_inc (am_vtS s)\<rparr>))"
proof -
  let ?i = "sn_val (am_vtS s)"
  note b = inv [unfolded am_tx_inv_def]
  have wf: "am_window_ok s"
    and bufs: "bufs_ok (am_txedBuffer s) (am_retxBuffer s) (sn_val (am_vtA s)) (sn_off (am_vtS s))"
    and len: "length (am_txedBuffer s) = 1024" "length (am_retxBuffer s) = 1024"
    using b by (simp_all add: bufs_ok_def)
  have i: "?i < 1024" "(?i + 1024 - sn_val (am_vtA s)) mod 1024 = sn_off (am_vtS s)"
    using wf by (simp_all add: am_window_ok_def sn_wf_nat sn_off_def)
  let ?x = "\<lparr>rp_pdu = Some p, rp_retxCount = 0, rp_waitingSince = now\<rparr>"
  note new = bufs_new [OF bufs i, of ?x p]
  have "unat (am_txedBufferSize s + GetSize p) = am_sum (am_txedBuffer s) + length p"
    using size_add [OF _ bufs_sums(1) [OF bufs]] b p by (simp add: slot_pdu_ok_def)
  moreover have "am_window_ok (s\<lparr>am_vtS := sn_inc (am_vtS s)\<rparr>)"
    using wf w am_window_new [OF wf w] by (simp add: am_window_ok_def)
  ultimately show ?thesis
    using b new p am_window_new [OF wf w] i(1) len
    by (simp add: am_store_txed_def am_tx_inv_def am_window_ok_def am_sum_update)
qed

section \<open>Finding a PDU to retransmit\<close>

lemma sn_off_inc:
  assumes "sn_wf a" "sn_wf b" "sn_base a = sn_base b" "sn_off a < sn_off b"
  shows "sn_off (sn_inc a) = Suc (sn_off a)"
  using assms
  by (cases "sn_val a = 1023"; cases "sn_base a \<le> sn_val a"; cases "sn_base b \<le> sn_val b")
     (auto simp: sn_off_cases sn_wf_nat)

text \<open>
  When the slots below the running number are empty and some slot of the window is not, the
  search finds a slot that holds a PDU.
\<close>

lemma am_find_retx_finds:
  assumes "sn_wf sn" "sn_wf e" "sn_base sn = sn_base e" "sn_off sn \<le> sn_off e"
    and "\<forall>i<1024. (i + 1024 - sn_base e) mod 1024 < sn_off sn \<longrightarrow> rp_pdu (retx ! i) = None"
    and "j < 1024" "rp_pdu (retx ! j) \<noteq> None" "(j + 1024 - sn_base e) mod 1024 < sn_off e"
  shows "\<exists>sn'. am_find_retx retx sn e = Some (Some sn') \<and> sn_wf sn' \<and>
    rp_pdu (retx ! sn_val sn') \<noteq> None"
  using assms
proof (induction "sn_off e - sn_off sn" arbitrary: sn)
  case 0
  then show ?case
    by (metis diff_is_0_eq leD le_antisym)
next
  case (Suc n)
  then have lt: "sn_off sn < sn_off e" and sn: "sn_lt sn e"
    by (simp_all add: sn_cmp)
  show ?case
  proof (cases "rp_pdu (retx ! sn_val sn)")
    case (Some p)
    with sn Suc.prems show ?thesis
      by (subst am_find_retx.simps) simp
  next
    case None
    note off = sn_off_inc [OF Suc.prems(1,2,3) lt]
    have "rp_pdu (retx ! i) = None" if i: "i < 1024" "(i + 1024 - sn_base e) mod 1024 < Suc (sn_off sn)" for i
    proof (cases "(i + 1024 - sn_base e) mod 1024 < sn_off sn")
      case True
      then show ?thesis
        using i Suc.prems(5) by blast
    next
      case False
      then have "(i + 1024 - sn_base e) mod 1024 = (sn_val sn + 1024 - sn_base e) mod 1024"
        using i(2) Suc.prems(3) by (simp only: sn_off_def)
      moreover have "sn_base e \<le> 1024"
        using Suc.prems(2) by (simp add: sn_wf_nat)
      ultimately have "(i + (1024 - sn_base e)) mod 1024 = (sn_val sn + (1024 - sn_base e)) mod 1024"
        by (simp only: Nat.add_diff_assoc)
      then have "i = sn_val sn"
        by (rule mod_1024_cancel) (use i(1) Suc.prems(1) in \<open>simp_all add: sn_wf_nat\<close>)
      then show ?thesis
        using None by simp
    qed
    then have "\<exists>sn'. am_find_retx retx (sn_inc sn) e = Some (Some sn') \<and> sn_wf sn' \<and>
        rp_pdu (retx ! sn_val sn') \<noteq> None"
      using Suc lt off by (intro Suc.hyps(1)) auto
    then show ?thesis
      using sn None by (subst am_find_retx.simps) simp
  qed
qed

lemma am_find_retx_inv:
  assumes inv: "am_tx_inv s" and pos: "am_retxBufferSize s > 0"
  shows "\<exists>sn p. am_find_retx (am_retxBuffer s) (am_vtA s) (am_vtS s) = Some (Some sn) \<and>
    sn_val sn < 1024 \<and> rp_pdu (at_sn (am_retxBuffer s) sn) = Some p"
proof -
  have "0 < am_sum (am_retxBuffer s)"
    using inv pos by (simp add: am_tx_inv_def word_less_nat_alt)
  then obtain j where j: "j < 1024" "rp_pdu (am_retxBuffer s ! j) \<noteq> None"
    using am_sum_pos [of "am_retxBuffer s"] inv by (auto simp: am_tx_inv_def bufs_ok_def)
  then have "(j + 1024 - sn_val (am_vtA s)) mod 1024 < sn_off (am_vtS s)"
    using inv by (auto simp: am_tx_inv_def bufs_ok_def slot_ok_def)
  moreover have "sn_off (am_vtA s) = 0"
    using inv by (simp add: am_tx_inv_def am_window_ok_def sn_off_def)
  ultimately show ?thesis
    using am_find_retx_finds [of "am_vtA s" "am_vtS s" "am_retxBuffer s" j] j inv
    by (fastforce simp: am_tx_inv_def am_window_ok_def sn_wf_nat)
qed

section \<open>A STATUS PDU received\<close>

lemma am_tx_inv_acked:
  assumes inv: "am_tx_inv s" and sn: "sn_val sn < 1024"
  shows "am_tx_inv (am_acked sn s) \<and> rp_pdu (am_txedBuffer (am_acked sn s) ! sn_val sn) = None \<and>
    rp_pdu (am_retxBuffer (am_acked sn s) ! sn_val sn) = None \<and>
    am_vtA (am_acked sn s) = am_vtA s \<and> am_vtS (am_acked sn s) = am_vtS s"
proof -
  let ?i = "sn_val sn"
  note b = inv [unfolded am_tx_inv_def]
  have bufs: "bufs_ok (am_txedBuffer s) (am_retxBuffer s) (sn_val (am_vtA s)) (sn_off (am_vtS s))"
    and len: "length (am_txedBuffer s) = 1024" "length (am_retxBuffer s) = 1024"
    using b by (simp_all add: bufs_ok_def)
  have both: "rp_pdu (am_txedBuffer s ! ?i) = None \<or> rp_pdu (am_retxBuffer s ! ?i) = None"
    using bufs sn by (simp add: bufs_ok_def slot_ok_def)
  let ?x = "(am_txedBuffer s ! ?i)\<lparr>rp_pdu := None, rp_waitingSince := 0\<rparr>"
  consider (none) "rp_pdu (am_txedBuffer s ! ?i) = None" "rp_pdu (am_retxBuffer s ! ?i) = None"
    | (txed) p where "rp_pdu (am_txedBuffer s ! ?i) = Some p" "rp_pdu (am_retxBuffer s ! ?i) = None"
    | (retx) p where "rp_pdu (am_txedBuffer s ! ?i) = None" "rp_pdu (am_retxBuffer s ! ?i) = Some p"
    using both by auto
  then show ?thesis
  proof cases
    case none
    then show ?thesis
      using inv by (simp add: am_acked_def)
  next
    case txed
    have "unat (am_txedBufferSize s - GetSize p) = am_sum (am_txedBuffer s) - length p"
      using size_sub [OF _ _ txed(1)] b sn len by simp
    then show ?thesis
      using b txed len sn bufs_drop(1) [OF bufs, of ?x ?i]
      by (simp add: am_acked_def Let_def am_tx_inv_def am_window_ok_def am_sum_update)
  next
    case retx
    have "unat (am_retxBufferSize s - GetSize p) = am_sum (am_retxBuffer s) - length p"
      using size_sub [OF _ _ retx(2)] b sn len by simp
    then show ?thesis
      using b retx len sn bufs_drop(2) [OF bufs, of retx_none ?i]
      by (simp add: am_acked_def Let_def am_tx_inv_def am_window_ok_def am_sum_update)
        (simp add: retx_none_def)
  qed
qed

lemma am_tx_inv_advance:
  assumes inv: "am_tx_inv s" and w: "0 < sn_off (am_vtS s)"
    and e: "rp_pdu (am_txedBuffer s ! sn_val (am_vtA s)) = None"
      "rp_pdu (am_retxBuffer s ! sn_val (am_vtA s)) = None"
  shows "am_tx_inv (am_advance_vtA s) \<and>
    sn_off (am_vtS (am_advance_vtA s)) = sn_off (am_vtS s) - 1 \<and>
    sn_val (am_vtA (am_advance_vtA s)) = (sn_val (am_vtA s) + 1) mod 1024"
proof -
  note b = inv [unfolded am_tx_inv_def]
  let ?a = "sn_val (am_vtA s)"
  have wf: "am_window_ok s" and a: "?a < 1024"
    using b by (simp_all add: am_window_ok_def sn_wf_nat)
  have w': "sn_off (am_vtS s) = Suc (sn_off (am_vtS s) - 1)"
    using w by simp
  have bufs: "bufs_ok (am_txedBuffer s) (am_retxBuffer s) ((?a + 1) mod 1024) (sn_off (am_vtS s) - 1)"
    using bufs_advance [of "am_txedBuffer s" "am_retxBuffer s" ?a "sn_off (am_vtS s) - 1"] b a e w' by simp
  let ?t = "am_advance_vtA s"
  have v: "sn_val (am_vtA ?t) = (?a + 1) mod 1024" "sn_base (am_vtA ?t) = (?a + 1) mod 1024"
    "sn_val (am_vtS ?t) = sn_val (am_vtS s)" "sn_base (am_vtS ?t) = (?a + 1) mod 1024"
    "sn_val (am_vtMs ?t) = ((?a + 1) mod 1024 + 512) mod 1024" "sn_base (am_vtMs ?t) = (?a + 1) mod 1024"
    "sn_wf (am_vtA ?t)" "sn_wf (am_vtS ?t)" "sn_wf (am_vtMs ?t)"
    using wf by (simp_all add: am_advance_vtA_def Let_def am_window_ok_def)
  have off: "sn_off (am_vtS ?t) = sn_off (am_vtS s) - 1"
    using wf w v a
    by (cases "?a = 1023"; cases "?a \<le> sn_val (am_vtS s)")
       (auto simp: sn_off_cases am_window_ok_def sn_wf_nat)
  moreover have "sn_off (am_vtS s) - 1 \<le> 512"
    using wf unfolding am_window_ok_def by linarith
  moreover have "am_windowSize ?t = 512"
    using wf by (simp add: am_window_ok_def am_advance_vtA_def Let_def)
  ultimately have "am_window_ok ?t"
    using v by (simp only: am_window_ok_def)
  with b bufs off v show ?thesis
    by (simp add: am_tx_inv_def) (simp add: am_advance_vtA_def Let_def)
qed

end
