(* ===== verification/RlcAmStatus.thy ===== *)
theory RlcAmStatus
  imports RlcAmWindow
begin

text \<open>
  STATUS PDUs of \<^verbatim>\<open>LteRlcAm\<close>. Sending side: the effect of a STATUS PDU received on the window and
  on the buffers of sent PDUs. Receiving side: the STATUS PDU built from the reception buffer.
\<close>

section \<open>Runs of sequence numbers\<close>

text \<open>The m numbers from v upwards.\<close>

definition sn_run :: "nat \<Rightarrow> nat \<Rightarrow> nat list" where
  "sn_run v m = map (\<lambda>k. (v + k) mod 1024) [0..<m]"

lemma sn_run_0 [simp]: "sn_run v 0 = []"
  by (simp add: sn_run_def)

lemma sn_run_Suc: "v < 1024 \<Longrightarrow> sn_run v (Suc m) = v # sn_run ((v + 1) mod 1024) m"
  by (simp add: sn_run_def upt_conv_Cons map_Suc_upt [symmetric] mod_simps del: upt_Suc)

lemma sn_run_bound: "i \<in> set (sn_run v m) \<Longrightarrow> i < 1024"
  by (auto simp: sn_run_def)

lemma length_sn_run [simp]: "length (sn_run v m) = m"
  by (simp add: sn_run_def)

lemma sn_run_fresh:
  assumes "v < 1024" "m \<le> 1023"
  shows "v \<notin> set (sn_run ((v + 1) mod 1024) m)"
proof
  assume "v \<in> set (sn_run ((v + 1) mod 1024) m)"
  then obtain k where k: "k < m" "(v + 1 + k) mod 1024 = v"
    by (auto simp: sn_run_def mod_simps)
  then have "(1 + k + v) mod 1024 = (0 + v) mod 1024"
    using assms(1) by (simp add: ac_simps)
  then have "1 + k = 0"
    by (rule mod_1024_cancel) (use k(1) assms(2) in auto)
  then show False
    by simp
qed

section \<open>A STATUS PDU received\<close>

definition nack_in :: "am_header \<Rightarrow> nat \<Rightarrow> bool" where
  "nack_in h v = list_ex (\<lambda>n. n = int v) (ah_nackSnList h)"

lemma am_IsNackPresent_val [simp]: "am_IsNackPresent sn h = nack_in h (sn_val sn)"
  by (simp add: am_IsNackPresent_def nack_in_def sn_GetValue_def sn_val_def)

text \<open>The PDUs in slot i of the two buffers, and what the report makes of them.\<close>

definition am_slot :: "rlc_am \<Rightarrow> nat \<Rightarrow> bytes option \<times> bytes option" where
  "am_slot s i = (rp_pdu (am_txedBuffer s ! i), rp_pdu (am_retxBuffer s ! i))"

definition reported :: "am_header \<Rightarrow> nat \<Rightarrow> bytes option \<times> bytes option \<Rightarrow> bytes option \<times> bytes option" where
  "reported h i x =
     (if nack_in h i then (None, if fst x = None then snd x else fst x) else (None, None))"

text \<open>The members that a report does not touch.\<close>

definition am_tx_rest :: "rlc_am \<Rightarrow> rlc_am \<Rightarrow> bool" where
  "am_tx_rest s t \<longleftrightarrow> am_base t = am_base s \<and> am_txonBuffer t = am_txonBuffer s \<and>
     am_txonBufferSize t = am_txonBufferSize s \<and> am_maxTxBufferSize t = am_maxTxBufferSize s \<and>
     am_txOpportunityForRetxAlwaysBigEnough t = am_txOpportunityForRetxAlwaysBigEnough s \<and>
     am_rxonBuffer t = am_rxonBuffer s \<and> am_reas t = am_reas s \<and> am_vrR t = am_vrR s \<and>
     am_vrMr t = am_vrMr s \<and> am_vrX t = am_vrX s \<and> am_vrMs t = am_vrMs s \<and> am_vrH t = am_vrH s \<and>
     am_windowSize t = am_windowSize s \<and> am_reorderingTimer t = am_reorderingTimer s \<and>
     am_statusPduBufferSize t = am_statusPduBufferSize s"

lemma am_tx_rest_refl [simp]: "am_tx_rest s s"
  by (simp add: am_tx_rest_def)

lemma am_tx_rest_trans: "am_tx_rest s t \<Longrightarrow> am_tx_rest t u \<Longrightarrow> am_tx_rest s u"
  by (simp add: am_tx_rest_def)

lemma am_tx_rest_steps:
  "am_tx_rest s (am_acked sn s)" "am_tx_rest s (am_txed_to_retx sn s)" "am_tx_rest s (am_advance_vtA s)"
  "am_tx_rest s (s\<lparr>am_pollRetransmitTimer := t\<rparr>)"
  by (simp_all add: am_tx_rest_def am_acked_def am_txed_to_retx_def am_advance_vtA_def Let_def
      split: option.splits)

text \<open>One number of the loop.\<close>

definition am_report_one :: "am_header \<Rightarrow> sn10 \<Rightarrow> rlc_am \<Rightarrow> rlc_am" where
  "am_report_one h sn s =
     (let s0 = (if am_pollRetransmitTimer s \<noteq> None \<and> sn_GetValue sn = sn_GetValue (am_pollSn s)
                then s\<lparr>am_pollRetransmitTimer := None\<rparr> else s)
      in if nack_in h (sn_val sn) then am_nacked sn s0 else am_acked sn s0)"

lemma am_slot_acked:
  assumes "am_tx_inv s" "i < 1024" "sn_val sn < 1024"
  shows "am_slot (am_acked sn s) i = (if i = sn_val sn then (None, None) else am_slot s i)"
  using am_tx_inv_acked [OF assms(1,3)] assms
  by (auto simp: am_slot_def am_acked_def Let_def split: option.splits)

lemma am_slot_nacked:
  assumes "am_tx_inv s" "i < 1024" "sn_val sn < 1024"
  shows "am_slot (am_nacked sn s) i =
    (if i = sn_val sn then (None, if fst (am_slot s i) = None then snd (am_slot s i) else fst (am_slot s i))
     else am_slot s i)"
  using assms
  by (auto simp: am_slot_def am_nacked_def am_txed_to_retx_def Let_def am_tx_inv_def bufs_ok_def
      nth_list_update split: option.splits) (auto simp: retx_none_def)

lemma am_report_one:
  assumes inv: "am_tx_inv s" and sn: "sn_val sn < 1024"
  shows "am_tx_inv (am_report_one h sn s)"
    and "am_vtA (am_report_one h sn s) = am_vtA s" "am_vtS (am_report_one h sn s) = am_vtS s"
    and "am_tx_rest s (am_report_one h sn s)"
    and "i < 1024 \<Longrightarrow> am_slot (am_report_one h sn s) i =
      (if i = sn_val sn then reported h i (am_slot s i) else am_slot s i)"
proof -
  define s0 where "s0 = (if am_pollRetransmitTimer s \<noteq> None \<and> sn_GetValue sn = sn_GetValue (am_pollSn s)
                then s\<lparr>am_pollRetransmitTimer := None\<rparr> else s)"
  have s0: "am_tx_inv s0" "am_vtA s0 = am_vtA s" "am_vtS s0 = am_vtS s" "am_tx_rest s s0"
    "am_slot s0 = am_slot s"
    using inv by (auto simp: s0_def am_tx_rest_def fun_eq_iff am_slot_def cong: am_tx_inv_cong)
  have one: "am_report_one h sn s = (if nack_in h (sn_val sn) then am_nacked sn s0 else am_acked sn s0)"
    by (simp add: am_report_one_def s0_def Let_def)
  have ack: "am_tx_inv (am_acked sn s0)" "am_vtA (am_acked sn s0) = am_vtA s" "am_vtS (am_acked sn s0) = am_vtS s"
    using am_tx_inv_acked [OF s0(1) sn] s0 by simp_all
  have nack: "am_tx_inv (am_nacked sn s0)" "am_vtA (am_nacked sn s0) = am_vtA s" "am_vtS (am_nacked sn s0) = am_vtS s"
    using am_tx_inv_txed_to_retx [OF s0(1) sn] s0
    by (simp_all add: am_nacked_def am_txed_to_retx_def Let_def split: option.splits)
  show "am_tx_inv (am_report_one h sn s)" "am_vtA (am_report_one h sn s) = am_vtA s"
    "am_vtS (am_report_one h sn s) = am_vtS s"
    using ack nack by (simp_all add: one)
  show "am_tx_rest s (am_report_one h sn s)"
    using am_tx_rest_trans [OF s0(4)] am_tx_rest_steps by (simp add: one am_nacked_def)
  show "i < 1024 \<Longrightarrow> am_slot (am_report_one h sn s) i =
      (if i = sn_val sn then reported h i (am_slot s i) else am_slot s i)"
    using am_slot_acked [OF s0(1) _ sn] am_slot_nacked [OF s0(1) _ sn]
    by (auto simp: one reported_def s0(5))
qed

text \<open>The assertion fails exactly on a NACK of a number of which no PDU is held any more.\<close>

lemma am_report_asserted:
  assumes "am_tx_inv s" "sn_val sn < 1024"
  shows "am_report_asserted nack sn s \<longleftrightarrow> \<not> (nack \<and> am_slot s (sn_val sn) = (None, None))"
proof -
  have "rp_pdu (am_txedBuffer s ! sn_val sn) = None \<or> rp_pdu (am_retxBuffer s ! sn_val sn) = None"
    using assms by (simp add: am_tx_inv_def bufs_ok_def slot_ok_def)
  moreover have "rp_pdu (am_retxBuffer (am_nacked sn s) ! sn_val sn) = None \<longleftrightarrow> am_slot s (sn_val sn) = (None, None)"
    using am_slot_nacked [OF assms(1) assms(2,2)] by (auto simp: am_slot_def split: if_splits)
  ultimately show ?thesis
    by (simp add: am_report_asserted_def)
qed

lemma am_status_loop_step:
  assumes "am_tx_inv s" "sn_val sn < 1024"
  shows "am_status_loop h ackSn sn inc s =
     (if sn_lt sn ackSn \<and> sn_lt sn (am_vtS s) then
        (let s1 = am_report_one h sn s in
         if nack_in h (sn_val sn) \<and> am_slot s (sn_val sn) = (None, None) then None
         else if inc \<and> \<not> nack_in h (sn_val sn) then
           (let s2 = am_advance_vtA s1
            in am_status_loop h (sn_SetModulusBase ackSn (am_vtA s2))
                 (sn_inc (sn_SetModulusBase sn (am_vtA s2))) True s2)
         else am_status_loop h ackSn (sn_inc sn) False s1)
      else Some s)"
proof -
  define s0 where "s0 = (if am_pollRetransmitTimer s \<noteq> None \<and> sn_GetValue sn = sn_GetValue (am_pollSn s)
                then s\<lparr>am_pollRetransmitTimer := None\<rparr> else s)"
  have "am_tx_inv s0" "am_slot s0 = am_slot s"
    using assms(1) by (auto simp: s0_def fun_eq_iff am_slot_def cong: am_tx_inv_cong)
  then have *: "am_report_asserted (nack_in h (sn_val sn)) sn s0 \<longleftrightarrow>
      \<not> (nack_in h (sn_val sn) \<and> am_slot s (sn_val sn) = (None, None))"
    using am_report_asserted [of s0 sn "nack_in h (sn_val sn)"] assms(2) by simp
  have one: "am_report_one h sn s = (if nack_in h (sn_val sn) then am_nacked sn s0 else am_acked sn s0)"
    by (simp only: am_report_one_def Let_def s0_def)
  show ?thesis
    unfolding am_status_loop.simps [of h ackSn sn inc s] Let_def s0_def [symmetric] am_IsNackPresent_val * one
    by (cases "nack_in h (sn_val sn)"; cases inc) simp_all
qed

text \<open>How far VT(A) advances.\<close>

definition acked_prefix :: "am_header \<Rightarrow> bool \<Rightarrow> nat list \<Rightarrow> nat" where
  "acked_prefix h inc vs = (if inc then length (takeWhile (\<lambda>v. \<not> nack_in h v) vs) else 0)"

text \<open>The effect of a report on the numbers vs.\<close>

definition reported_on :: "am_header \<Rightarrow> nat list \<Rightarrow> rlc_am \<Rightarrow> rlc_am \<Rightarrow> bool" where
  "reported_on h vs s t \<longleftrightarrow>
     (\<forall>i<1024. am_slot t i = (if i \<in> set vs then reported h i (am_slot s i) else am_slot s i))"

lemma am_slot_advance [simp]: "am_slot (am_advance_vtA s) = am_slot s"
  by (simp add: am_slot_def am_advance_vtA_def Let_def fun_eq_iff)

lemma sn_rebase_off:
  assumes "sn_wf x" "sn_wf b" "sn_val b = (sn_base x + 1) mod 1024" "0 < sn_off x"
  shows "sn_off (sn_SetModulusBase x b) = sn_off x - 1"
  using assms
  by (cases "sn_base x = 1023"; cases "sn_base x \<le> sn_val x")
     (auto simp: sn_off_cases [OF assms(1)] sn_off_cases sn_wf_nat)

text \<open>
  The loop ends. Started at the number \<open>sn\<close>, it covers the numbers up to the smaller of
  ACK_SN and VT(S).
\<close>

definition status_ok :: "sn10 \<Rightarrow> sn10 \<Rightarrow> bool \<Rightarrow> rlc_am \<Rightarrow> bool" where
  "status_ok ack sn inc s \<longleftrightarrow> am_tx_inv s \<and> sn_wf ack \<and> sn_wf sn \<and>
     sn_base ack = sn_val (am_vtA s) \<and> sn_base sn = sn_val (am_vtA s) \<and>
     sn_off sn \<le> sn_off (am_vtS s) \<and> (inc \<longrightarrow> sn_val sn = sn_val (am_vtA s))"

abbreviation status_span :: "sn10 \<Rightarrow> sn10 \<Rightarrow> rlc_am \<Rightarrow> nat" where
  "status_span ack sn s \<equiv> min (sn_off ack) (sn_off (am_vtS s)) - sn_off sn"

lemma status_ok_wf:
  assumes "status_ok ack sn inc s"
  shows "am_tx_inv s" "sn_wf ack" "sn_wf sn" "sn_wf (am_vtS s)" "sn_wf (am_vtA s)"
    "sn_base (am_vtS s) = sn_val (am_vtA s)" "sn_off (am_vtS s) \<le> 512"
    "sn_lt sn ack \<longleftrightarrow> sn_off sn < sn_off ack" "sn_lt sn (am_vtS s) \<longleftrightarrow> sn_off sn < sn_off (am_vtS s)"
  using assms by (auto simp: status_ok_def am_tx_inv_def am_window_ok_def sn_cmp)

text \<open>A step of the loop keeps its invariant and makes the span smaller.\<close>

lemma status_step_stay:
  assumes ok: "status_ok ack sn inc s" and lt: "sn_off sn < sn_off (am_vtS s)"
  shows "status_ok ack (sn_inc sn) False (am_report_one h sn s)"
    and "sn_off (sn_inc sn) = Suc (sn_off sn)"
proof -
  note wf = status_ok_wf [OF ok]
  have sn: "sn_val sn < 1024"
    using wf(3) by (simp add: sn_wf_nat)
  show "sn_off (sn_inc sn) = Suc (sn_off sn)"
    using sn_off_inc [OF wf(3,4)] lt wf(6) ok by (simp add: status_ok_def)
  then show "status_ok ack (sn_inc sn) False (am_report_one h sn s)"
    using am_report_one(1-3) [OF wf(1) sn, where h = h] ok lt by (simp add: status_ok_def)
qed

lemma status_step_advance:
  assumes ok: "status_ok ack sn True s" and lt: "0 < sn_off (am_vtS s)" "0 < sn_off ack"
    and n: "\<not> nack_in h (sn_val sn)"
  defines "s2 \<equiv> am_advance_vtA (am_report_one h sn s)"
  shows "status_ok (sn_SetModulusBase ack (am_vtA s2)) (sn_inc (sn_SetModulusBase sn (am_vtA s2))) True s2"
    and "sn_off (sn_SetModulusBase ack (am_vtA s2)) = sn_off ack - 1"
    and "sn_off (am_vtS s2) = sn_off (am_vtS s) - 1"
    and "sn_off (sn_inc (sn_SetModulusBase sn (am_vtA s2))) = 0"
    and "sn_val (am_vtA s2) = (sn_val (am_vtA s) + 1) mod 1024" "am_tx_rest s s2"
    and "am_slot s2 = am_slot (am_report_one h sn s)" "sn_val (am_vtS s2) = sn_val (am_vtS s)"
proof -
  note wf = status_ok_wf [OF ok]
  have sn: "sn_val sn < 1024" "sn_val sn = sn_val (am_vtA s)"
    using wf(3) ok by (simp_all add: sn_wf_nat status_ok_def)
  note one = am_report_one [OF wf(1) sn(1), where h = h]
  have "am_slot (am_report_one h sn s) (sn_val sn) = (None, None)"
    using one(5) [of "sn_val sn"] sn n by (simp add: reported_def)
  then have adv: "am_tx_inv s2" "sn_off (am_vtS s2) = sn_off (am_vtS s) - 1"
    "sn_val (am_vtA s2) = (sn_val (am_vtA s) + 1) mod 1024"
    using am_tx_inv_advance [OF one(1)] one(2,3) lt(1) sn(2) by (simp_all add: am_slot_def s2_def)
  have a: "sn_wf (am_vtA s2)"
    using adv(1) by (simp add: am_tx_inv_def am_window_ok_def)
  show "sn_off (sn_SetModulusBase ack (am_vtA s2)) = sn_off ack - 1"
    using sn_rebase_off [OF wf(2) a] adv(3) lt(2) ok by (simp add: status_ok_def)
  show off: "sn_off (sn_inc (sn_SetModulusBase sn (am_vtA s2))) = 0"
    using adv(3) sn(2) by (simp add: sn_off_def)
  show "status_ok (sn_SetModulusBase ack (am_vtA s2)) (sn_inc (sn_SetModulusBase sn (am_vtA s2))) True s2"
    using adv a wf(2,3) off sn(2) by (simp add: status_ok_def)
  show "am_tx_rest s s2"
    using am_tx_rest_trans [OF one(4)] am_tx_rest_steps(3) by (simp add: s2_def)
  show "sn_val (am_vtS s2) = sn_val (am_vtS s)"
    by (simp add: s2_def am_advance_vtA_def Let_def one(3))
  show "sn_off (am_vtS s2) = sn_off (am_vtS s) - 1" "sn_val (am_vtA s2) = (sn_val (am_vtA s) + 1) mod 1024"
    by (rule adv)+
qed (simp add: s2_def)

lemma reported_on_step:
  assumes "am_tx_inv s" "v < 1024" "sn_val sn = v" "m \<le> 1023"
    and "reported_on h (sn_run ((v + 1) mod 1024) m) s' t"
    and "am_slot s' = am_slot (am_report_one h sn s)"
  shows "reported_on h (sn_run v (Suc m)) s t"
  using assms am_report_one(5) [where s = s and sn = sn and h = h] sn_run_fresh [of v m]
  by (auto simp: reported_on_def sn_run_Suc)

definition status_result :: "am_header \<Rightarrow> bool \<Rightarrow> nat list \<Rightarrow> rlc_am \<Rightarrow> rlc_am \<Rightarrow> bool" where
  "status_result h inc vs s t \<longleftrightarrow> am_tx_inv t \<and> am_tx_rest s t \<and> reported_on h vs s t \<and>
     sn_val (am_vtA t) = (sn_val (am_vtA s) + acked_prefix h inc vs) mod 1024 \<and>
     sn_val (am_vtS t) = sn_val (am_vtS s)"

text \<open>Every NACK is for a PDU that is still held.\<close>

definition nacks_held :: "am_header \<Rightarrow> nat list \<Rightarrow> rlc_am \<Rightarrow> bool" where
  "nacks_held h vs s \<longleftrightarrow> (\<forall>v\<in>set vs. nack_in h v \<longrightarrow> am_slot s v \<noteq> (None, None))"

lemma nacks_held_step:
  assumes "am_tx_inv s" "sn_val sn = v" "v < 1024" "m \<le> 1023" "am_slot s' = am_slot (am_report_one h sn s)"
  shows "nacks_held h (sn_run v (Suc m)) s \<longleftrightarrow>
    \<not> (nack_in h v \<and> am_slot s v = (None, None)) \<and> nacks_held h (sn_run ((v + 1) mod 1024) m) s'"
proof -
  have "am_slot s' i = am_slot s i" if "i \<in> set (sn_run ((v + 1) mod 1024) m)" for i
    using am_report_one(5) [OF assms(1), of sn i h] sn_run_fresh [OF assms(3,4)] sn_run_bound [OF that] that assms(2,3,5)
    by auto
  then show ?thesis
    using assms(3) by (auto simp: nacks_held_def sn_run_Suc)
qed

lemma am_status_loop_total:
  assumes "status_ok ack sn inc s"
  shows "if nacks_held h (sn_run (sn_val sn) (status_span ack sn s)) s
    then \<exists>t. am_status_loop h ack sn inc s = Some t \<and>
      status_result h inc (sn_run (sn_val sn) (status_span ack sn s)) s t
    else am_status_loop h ack sn inc s = None"
  using assms
proof (induction "status_span ack sn s" arbitrary: ack sn inc s)
  case 0
  note wf = status_ok_wf [OF 0(2)]
  have "\<not> (sn_lt sn ack \<and> sn_lt sn (am_vtS s))"
    using 0(1) wf(8,9) by auto
  moreover have "sn_val sn < 1024"
    using wf(3) by (simp add: sn_wf_nat)
  ultimately have "am_status_loop h ack sn inc s = Some s"
    using wf(1) by (simp only: am_status_loop_step if_False)
  moreover have "sn_val (am_vtA s) < 1024"
    using wf(5) by (simp add: sn_wf_nat)
  ultimately show ?case
    using 0(1) wf(1) by (simp add: status_result_def reported_on_def acked_prefix_def nacks_held_def flip: 0(1))
next
  case (Suc m)
  note wf = status_ok_wf [OF Suc(3)]
  let ?v = "sn_val sn"
  have lt: "sn_lt sn ack \<and> sn_lt sn (am_vtS s)" "sn_off sn < sn_off ack" "sn_off sn < sn_off (am_vtS s)"
    using Suc(2) wf(8,9) by auto
  have v: "?v < 1024" "m \<le> 1023" "sn_val (am_vtA s) < 1024"
    using wf(3,5,7) Suc(2) by (auto simp: sn_wf_nat)
  note run = sn_run_Suc [OF v(1), of m] and held = nacks_held_step [OF wf(1) refl v(1,2)]
  note step = am_status_loop_step [OF wf(1) v(1)]
  consider (gone) "nack_in h ?v \<and> am_slot s ?v = (None, None)"
    | (stay) "\<not> (nack_in h ?v \<and> am_slot s ?v = (None, None))" "\<not> (inc \<and> \<not> nack_in h ?v)"
    | (advance) "inc \<and> \<not> nack_in h ?v"
    by blast
  then show ?case
  proof cases
    case gone
    then have "\<not> nacks_held h (sn_run ?v (Suc m)) s"
      using held [OF refl, of h] by simp
    with gone lt(1) show ?thesis
      by (simp add: step Let_def flip: Suc(2))
  next
    case stay
    note False = stay(2)
    note stay' = status_step_stay(1) [OF Suc(3) lt(3), of h] status_step_stay(2) [OF Suc(3) lt(3)]
    note one = am_report_one [OF wf(1) v(1), where h = h]
    have "m = status_span ack (sn_inc sn) (am_report_one h sn s)"
      using Suc(2) stay'(2) one(3) by simp
    from Suc(1) [OF this stay'(1)] have
      ih: "if nacks_held h (sn_run ((?v + 1) mod 1024) m) (am_report_one h sn s)
        then \<exists>t. am_status_loop h ack (sn_inc sn) False (am_report_one h sn s) = Some t \<and>
          status_result h False (sn_run ((?v + 1) mod 1024) m) (am_report_one h sn s) t
        else am_status_loop h ack (sn_inc sn) False (am_report_one h sn s) = None"
      using \<open>m = _\<close> by auto
    have eq: "am_status_loop h ack sn inc s = am_status_loop h ack (sn_inc sn) False (am_report_one h sn s)"
      using lt(1) False stay(1) by (auto simp: step Let_def)
    have "acked_prefix h inc (sn_run ?v (Suc m)) = 0"
      using False by (auto simp: acked_prefix_def run)
    then have "status_result h inc (sn_run ?v (Suc m)) s t"
      if "status_result h False (sn_run ((?v + 1) mod 1024) m) (am_report_one h sn s) t" for t
      using that one(2-4) reported_on_step [OF wf(1) v(1) refl v(2), of h "am_report_one h sn s" t] am_tx_rest_trans [OF one(4)]
      by (simp add: status_result_def acked_prefix_def)
    then show ?thesis
      using ih held [OF refl, of h] stay(1) unfolding eq Suc(2) [symmetric] by (auto split: if_splits)
  next
    case advance
    then have ok: "status_ok ack sn True s" and n: "\<not> nack_in h ?v"
      using Suc(3) by simp_all
    have a: "?v = sn_val (am_vtA s)" "sn_off sn = 0"
      using ok by (auto simp: status_ok_def sn_off_def)
    have pos: "0 < sn_off (am_vtS s)" "0 < sn_off ack"
      using lt by simp_all
    note adv = status_step_advance [OF ok pos n]
    let ?s2 = "am_advance_vtA (am_report_one h sn s)"
    let ?ack = "sn_SetModulusBase ack (am_vtA ?s2)" and ?sn = "sn_inc (sn_SetModulusBase sn (am_vtA ?s2))"
    have m: "m = status_span ?ack ?sn ?s2"
      using Suc(2) adv(2-4) a(2) by simp
    from Suc(1) [OF m adv(1)] m have
      ih: "if nacks_held h (sn_run ((?v + 1) mod 1024) m) ?s2
        then \<exists>t. am_status_loop h ?ack ?sn True ?s2 = Some t \<and>
          status_result h True (sn_run ((?v + 1) mod 1024) m) ?s2 t
        else am_status_loop h ?ack ?sn True ?s2 = None"
      by auto
    have eq: "am_status_loop h ack sn inc s = am_status_loop h ?ack ?sn True ?s2"
      using lt(1) advance by (auto simp: step Let_def)
    have "acked_prefix h inc (sn_run ?v (Suc m)) = Suc (acked_prefix h True (sn_run ((?v + 1) mod 1024) m))"
      using advance by (simp add: acked_prefix_def run)
    then have "status_result h inc (sn_run ?v (Suc m)) s t"
      if "status_result h True (sn_run ((?v + 1) mod 1024) m) ?s2 t" for t
      using that adv(5-8) reported_on_step [OF wf(1) v(1) refl v(2), of h ?s2 t] am_tx_rest_trans [OF adv(6)]
      by (simp add: status_result_def mod_simps)
    then show ?thesis
      using ih held [OF adv(7)] n unfolding eq Suc(2) [symmetric] by (auto split: if_splits)
  qed
qed

text \<open>
  The handler. The span counts from VT(A): ACK_SN is read modulo 1024 above VT(A).
\<close>

definition report_span :: "am_header \<Rightarrow> rlc_am \<Rightarrow> nat" where
  "report_span h s = min ((sn_val (ah_ackSn h) + 1024 - sn_val (am_vtA s)) mod 1024) (sn_off (am_vtS s))"

lemma am_receive_status_total:
  assumes inv: "am_tx_inv s" and ack: "sn_val (ah_ackSn h) < 1024"
  shows "if nacks_held h (sn_run (sn_val (am_vtA s)) (report_span h s)) s
    then \<exists>t. am_receive_status h s = Some t \<and>
      status_result h True (sn_run (sn_val (am_vtA s)) (report_span h s)) s t
    else am_receive_status h s = None"
proof -
  let ?b = "\<lambda>x. sn_SetModulusBase x (am_vtA s)"
  note w = inv [unfolded am_tx_inv_def am_window_ok_def]
  have id: "?b (am_vtA s) = am_vtA s" "?b (am_vtS s) = am_vtS s" "?b (am_vtMs s) = am_vtMs s"
    using w by (auto intro!: sn_eqI)
  then have s1: "s\<lparr>am_vtA := ?b (am_vtA s), am_vtS := ?b (am_vtS s), am_vtMs := ?b (am_vtMs s)\<rparr> = s"
    by simp
  have eq: "am_receive_status h s = am_status_loop h (?b (ah_ackSn h)) (am_vtA s) True s"
    unfolding am_receive_status_def Let_def using id s1 by simp
  have "status_ok (?b (ah_ackSn h)) (am_vtA s) True s"
    using inv ack w by (simp add: status_ok_def sn_off_def sn_wf_nat)
  moreover have "status_span (?b (ah_ackSn h)) (am_vtA s) s = report_span h s"
    using w by (simp add: report_span_def sn_off_def)
  ultimately show ?thesis
    using am_status_loop_total [where h = h] unfolding eq by metis
qed

section \<open>The STATUS PDU built\<close>

lemma sn_run_add: "sn_run v (m + n) = sn_run v m @ sn_run ((v + m) mod 1024) n"
proof -
  have "map (\<lambda>k. (v + k) mod 1024) [m..<m + n] = map (\<lambda>k. (v + k) mod 1024) (map (\<lambda>k. k + m) [0..<n])"
    by (simp add: map_add_upt add.commute)
  then show ?thesis
    by (simp add: sn_run_def upt_add_eq_append [of 0, simplified] mod_simps ac_simps)
qed

definition rcvd :: "(u16 \<times> pdu_buffer) list \<Rightarrow> nat \<Rightarrow> bool" where
  "rcvd rx v = (case map_of rx (word_of_nat v) of None \<Rightarrow> False | Some b \<Rightarrow> pb_pduComplete b)"

lemma am_received_val [simp]: "am_received rx sn = rcvd rx (sn_val sn)"
  by (simp add: am_received_def rcvd_def sn_GetValue_def sn_val_def)

lemma uint_sn_GetValue [simp]: "uint (sn_GetValue sn) = int (sn_val sn)"
  by (simp add: sn_GetValue_def sn_val_def)

text \<open>The numbers that are reported as missing.\<close>

definition missing :: "(u16 \<times> pdu_buffer) list \<Rightarrow> nat list \<Rightarrow> int list" where
  "missing rx vs = map int (filter (\<lambda>v. \<not> rcvd rx v) vs)"

lemma missing_simps [simp]:
  "missing rx [] = []" "missing rx (vs @ ws) = missing rx vs @ missing rx ws"
  "missing rx (v # vs) = (if rcvd rx v then missing rx vs else int v # missing rx vs)"
  by (simp_all add: missing_def)

text \<open>One more NACK that is said to fit exceeds the grant by at most one byte.\<close>

lemma am_nack_fits:
  assumes "am_OneMoreNackWouldFitIn (word_of_nat n) h"
  shows "am_status_hwf (am_PushNack v h) \<Longrightarrow> am_status_hwf h \<Longrightarrow> unat (ah_headerLength (am_PushNack v h)) \<le> n + 1"
    and "unat (ah_headerLength h) \<le> n + 1"
proof -
  have "uint (word_of_nat n :: u16) \<le> int n"
    by (simp add: unsigned_of_nat take_bit_eq_mod)
  moreover have "uint (ah_headerLength h) = int (unat (ah_headerLength h))"
    by simp
  moreover have "(length (ah_nackSnList h) mod 2 = 0 \<longrightarrow> uint (ah_headerLength h) < uint (word_of_nat n :: u16)) \<and>
      (length (ah_nackSnList h) mod 2 \<noteq> 0 \<longrightarrow> uint (ah_headerLength h) < uint (word_of_nat n :: u16) - 1)"
    using assms by (simp only: am_OneMoreNackWouldFitIn_def split: if_splits) simp_all
  ultimately have *: "length (ah_nackSnList h) mod 2 = 0 \<Longrightarrow> unat (ah_headerLength h) < n"
    "length (ah_nackSnList h) mod 2 \<noteq> 0 \<Longrightarrow> unat (ah_headerLength h) + 1 < n"
    by linarith+
  then show "unat (ah_headerLength h) \<le> n + 1"
    by linarith
  show "unat (ah_headerLength (am_PushNack v h)) \<le> n + 1" if "am_status_hwf (am_PushNack v h)" "am_status_hwf h"
    using that * by (auto simp: am_status_hwf_def am_PushNack_def Let_def li_size_Suc mod2_eq_if split: if_splits)
qed

lemma am_nack_loop_total:
  assumes "sn_wf sn" "sn_wf e" "sn_base sn = sn_base e" "sn_off sn \<le> sn_off e"
    and "am_status_hwf h" "unat (ah_headerLength h) \<le> n + 1" "length (ah_nackSnList h) \<le> sn_off sn"
  shows "\<exists>h' sn' k. am_nack_loop n rx e sn h = Some (h', sn') \<and> sn_wf sn' \<and> sn_base sn' = sn_base e \<and>
    sn_off sn' = sn_off sn + k \<and> sn_off sn' \<le> sn_off e \<and> sn_val sn' = (sn_val sn + k) mod 1024 \<and>
    ah_nackSnList h' = ah_nackSnList h @ missing rx (sn_run (sn_val sn) k) \<and>
    am_status_hwf h' \<and> unat (ah_headerLength h') \<le> n + 1"
  using assms
proof (induction "sn_off e - sn_off sn" arbitrary: sn h)
  case 0
  then have "\<not> sn_lt sn e"
    by (simp add: sn_cmp)
  with 0 show ?case
    by (subst am_nack_loop.simps) (simp add: sn_wf_nat)
next
  case (Suc m)
  then have lt: "sn_lt sn e" "sn_off sn < sn_off e"
    by (simp_all add: sn_cmp)
  have v: "sn_val sn < 1024"
    using Suc.prems(1) by (simp add: sn_wf_nat)
  note off = sn_off_inc [OF Suc.prems(1-3) lt(2)]
  show ?case
  proof (cases "am_OneMoreNackWouldFitIn (word_of_nat n) h")
    case False
    with lt(1) Suc.prems v show ?thesis
      by (subst am_nack_loop.simps) simp
  next
    case True
    define h1 where "h1 = (if \<not> rcvd rx (sn_val sn) then am_PushNack (int (sn_val sn)) h else h)"
    have "2 + li_size (Suc (length (ah_nackSnList h))) < 2 ^ 16"
      using li_size_mono [of "Suc (length (ah_nackSnList h))" 1024] Suc.prems(7) sn_off_less [of sn]
      by (simp add: li_size_def)
    then have "am_status_hwf (am_PushNack (int (sn_val sn)) h)"
      using am_push_nack [OF Suc.prems(5), of "int (sn_val sn)"] v by simp
    then have h1: "am_status_hwf h1" "unat (ah_headerLength h1) \<le> n + 1"
      "ah_nackSnList h1 = ah_nackSnList h @ missing rx [sn_val sn]"
      using am_nack_fits [OF True] Suc.prems(5) by (auto simp: h1_def) (simp add: am_PushNack_def Let_def)
    then have h1': "length (ah_nackSnList h1) \<le> sn_off (sn_inc sn)"
      using Suc.prems(7) off by (simp add: missing_def)
    have run: "am_nack_loop n rx e sn h = am_nack_loop n rx e (sn_inc sn) h1"
      using lt(1) True by (subst am_nack_loop.simps) (simp add: h1_def)
    have "m = sn_off e - sn_off (sn_inc sn)" "sn_off (sn_inc sn) \<le> sn_off e"
      using Suc(2) lt(2) off by simp_all
    from Suc(1) [OF this(1) _ Suc.prems(2) _ this(2) h1(1,2) h1'] Suc.prems(1,3) obtain h' sn' k where
      *: "am_nack_loop n rx e (sn_inc sn) h1 = Some (h', sn')" "sn_wf sn'" "sn_base sn' = sn_base e"
        "sn_off sn' = sn_off (sn_inc sn) + k" "sn_off sn' \<le> sn_off e" "sn_val sn' = (sn_val (sn_inc sn) + k) mod 1024"
        "ah_nackSnList h' = ah_nackSnList h1 @ missing rx (sn_run (sn_val (sn_inc sn)) k)"
        "am_status_hwf h'" "unat (ah_headerLength h') \<le> n + 1"
      by auto
    show ?thesis
      using * off h1(3) v
      by (intro exI [of _ h'] exI [of _ sn'] exI [of _ "Suc k"]) (simp add: run sn_run_Suc mod_simps)
  qed
qed

lemma am_ack_search_total:
  assumes "sn_wf sn" "sn_wf e" "sn_base sn = sn_base e" "sn_off sn \<le> sn_off e"
  shows "\<exists>sn' k. am_ack_search rx e sn = Some sn' \<and> sn_wf sn' \<and> sn_base sn' = sn_base e \<and>
    sn_off sn' = sn_off sn + k \<and> sn_off sn' \<le> sn_off e \<and> sn_val sn' = (sn_val sn + k) mod 1024 \<and>
    missing rx (sn_run (sn_val sn) k) = [] \<and> (sn_off sn' = sn_off e \<or> \<not> rcvd rx (sn_val sn'))"
  using assms
proof (induction "sn_off e - sn_off sn" arbitrary: sn)
  case 0
  then have "\<not> sn_lt sn e"
    by (simp add: sn_cmp)
  with 0 show ?case
    by (subst am_ack_search.simps) (simp add: sn_wf_nat)
next
  case (Suc m)
  then have lt: "sn_lt sn e" "sn_off sn < sn_off e"
    by (simp_all add: sn_cmp)
  have v: "sn_val sn < 1024"
    using Suc.prems(1) by (simp add: sn_wf_nat)
  note off = sn_off_inc [OF Suc.prems(1-3) lt(2)]
  show ?case
  proof (cases "rcvd rx (sn_val sn)")
    case False
    with Suc.prems v show ?thesis
      by (subst am_ack_search.simps) simp
  next
    case True
    then have run: "am_ack_search rx e sn = am_ack_search rx e (sn_inc sn)"
      using lt(1) by (subst am_ack_search.simps) simp
    have "m = sn_off e - sn_off (sn_inc sn)" "sn_off (sn_inc sn) \<le> sn_off e"
      using Suc(2) lt(2) off by simp_all
    from Suc(1) [OF this(1) _ Suc.prems(2) _ this(2)] Suc.prems(1,3) obtain sn' k where
      *: "am_ack_search rx e (sn_inc sn) = Some sn'" "sn_wf sn'" "sn_base sn' = sn_base e"
        "sn_off sn' = sn_off (sn_inc sn) + k" "sn_off sn' \<le> sn_off e" "sn_val sn' = (sn_val (sn_inc sn) + k) mod 1024"
        "missing rx (sn_run (sn_val (sn_inc sn)) k) = []" "sn_off sn' = sn_off e \<or> \<not> rcvd rx (sn_val sn')"
      by auto
    show ?thesis
      using * off v True
      by (intro exI [of _ sn'] exI [of _ "Suc k"]) (simp add: run sn_run_Suc mod_simps)
  qed
qed

text \<open>The D/C bit read back is one of the two values.\<close>

lemma rd_dc_cases: "rd_dc b = DATA_PDU \<or> rd_dc b = CONTROL_PDU"
  by (simp add: rd_dc_def am_const_defs word_bits_eq bit_simps)

lemma am_des_control:
  assumes "am_des p = Some (h, n)"
  shows "am_IsControlPdu h \<longleftrightarrow> \<not> am_IsDataPdu h"
proof -
  have "ah_dataControlBit h = DATA_PDU \<or> (\<exists>b. ah_dataControlBit h = rd_dc b)"
    using assms by (auto simp: am_Deserialize_def Let_def split: list.splits if_splits option.splits prod.splits)
  then show ?thesis
    by (metis rd_dc_cases control_neq_data am_IsControlPdu_def am_IsDataPdu_def)
qed

text \<open>
  The STATUS PDU reports on the numbers from VR(R) up to its ACK_SN, which is VR(MS) or a
  missing number: its NACKs are the missing ones among them. It needs one byte more
  than the grant at most.
\<close>

definition status_report :: "(u16 \<times> pdu_buffer) list \<Rightarrow> sn10 \<Rightarrow> sn10 \<Rightarrow> nat \<Rightarrow> bytes \<Rightarrow> bool" where
  "status_report rx vrR vrMs k packet \<longleftrightarrow>
     (\<exists>h. am_des packet = Some (h, length packet) \<and> am_IsControlPdu h \<and>
        ah_nackSnList h = missing rx (sn_run (sn_val vrR) k) \<and>
        sn_val (ah_ackSn h) = (sn_val vrR + k) mod 1024 \<and>
        (k = sn_off vrMs - sn_off vrR \<or> \<not> rcvd rx (sn_val (ah_ackSn h))))"

lemma am_send_status_total:
  assumes "sn_wf (am_vrR s)" "sn_wf (am_vrMs s)" "sn_base (am_vrR s) = sn_base (am_vrMs s)"
    and le: "sn_off (am_vrR s) \<le> sn_off (am_vrMs s)" and fit: "unat (am_statusPduBufferSize s) \<le> txo_bytes o'"
    and b: "1 \<le> txo_bytes o'"
  shows "\<exists>k packet. am_send_status now o' s =
      Some (s\<lparr>am_statusPduRequested := False, am_statusPduBufferSize := 0,
              am_statusProhibitTimer := Some (now + am_statusProhibitTimerValue s)\<rparr>,
            [TransmitPdu (answer_params (am_base s) o' packet)]) \<and>
    k \<le> sn_off (am_vrMs s) - sn_off (am_vrR s) \<and>
    status_report (am_rxonBuffer s) (am_vrR s) (am_vrMs s) k packet \<and> length packet \<le> txo_bytes o' + 1"
proof -
  let ?h0 = "am_SetControlPdu STATUS_PDU am_header_init"
  have h0: "am_status_hwf ?h0" "unat (ah_headerLength ?h0) \<le> txo_bytes o' + 1" "ah_nackSnList ?h0 = []"
    using b by (simp_all add: am_status_hwf_def am_SetControlPdu_def am_header_init_def STATUS_PDU_def sn_make_def)
  obtain h sn k where 1: "am_nack_loop (txo_bytes o') (am_rxonBuffer s) (am_vrMs s) (am_vrR s) ?h0 = Some (h, sn)"
    "sn_wf sn" "sn_base sn = sn_base (am_vrMs s)" "sn_off sn = sn_off (am_vrR s) + k" "sn_off sn \<le> sn_off (am_vrMs s)"
    "sn_val sn = (sn_val (am_vrR s) + k) mod 1024"
    "ah_nackSnList h = missing (am_rxonBuffer s) (sn_run (sn_val (am_vrR s)) k)"
    "am_status_hwf h" "unat (ah_headerLength h) \<le> txo_bytes o' + 1"
    using am_nack_loop_total [OF assms(1-4) h0(1,2), of "am_rxonBuffer s"] h0(3) by auto
  obtain sn' j where 2: "am_ack_search (am_rxonBuffer s) (am_vrMs s) sn = Some sn'" "sn_wf sn'"
    "sn_off sn' = sn_off sn + j" "sn_off sn' \<le> sn_off (am_vrMs s)" "sn_val sn' = (sn_val sn + j) mod 1024"
    "missing (am_rxonBuffer s) (sn_run (sn_val sn) j) = []"
    "sn_off sn' = sn_off (am_vrMs s) \<or> \<not> rcvd (am_rxonBuffer s) (sn_val sn')" "sn_base sn' = sn_base (am_vrMs s)"
    using am_ack_search_total [OF 1(2) assms(2) 1(3,5), of "am_rxonBuffer s"] by blast
  let ?h = "am_SetAckSn sn' h"
  have wf: "am_hwf ?h" "am_GetSerializedSize ?h = unat (ah_headerLength h)"
    using 1(8) 2(2) by (simp_all add: am_hwf_def am_status_hwf_def am_SetAckSn_def am_GetSerializedSize_def sn_wf_def)
  then obtain packet where p: "AddHeader am_GetSerializedSize am_Serialize ?h [] = Some packet"
    using am_codec.AddHeader_Some by blast
  then have ser: "am_Serialize ?h = Some packet" and len: "length packet = unat (ah_headerLength h)"
    using am_codec.AddHeader_length [OF wf(1) p] wf(2) by (auto simp: AddHeader_def split: option.splits if_splits)
  obtain h' where h': "am_des packet = Some (h', length packet)" "am_view h' = am_view ?h"
    using am_Deserialize_Serialize [OF wf(1) ser, of "[]"] wf(2) len by auto
  have view: "am_IsControlPdu h'" "ah_nackSnList h' = ah_nackSnList h" "m_value (ah_ackSn h') = m_value sn'"
    using h'(2) 1(8) am_des_control [OF h'(1)]
    by (auto simp: am_view_def am_SetAckSn_def am_status_hwf_def am_IsDataPdu_def split: if_splits)
  have "status_report (am_rxonBuffer s) (am_vrR s) (am_vrMs s) (k + j) packet"
    unfolding status_report_def
    using h'(1) view 1(4,6,7) 2(3,5-7)
    by (intro exI [of _ h']) (auto simp: sn_run_add sn_val_def [of "ah_ackSn h'"] mod_simps add.assoc simp flip: sn_val_def)
  moreover have "k + j \<le> sn_off (am_vrMs s) - sn_off (am_vrR s)"
    using 1(4) 2(3,4) by linarith
  moreover have le: "sn_le sn' (am_vrMs s)"
    using 2(2,4,8) assms(2) by (simp add: sn_cmp)
  ultimately show ?thesis
    using 1(1) 2(1) p len 1(9) fit le
    by (intro exI [of _ "k + j"] exI [of _ packet]) (simp add: am_send_status_def)
qed

end
