(* ===== verification/RlcAmQueue.thy ===== *)
theory RlcAmQueue
  imports RlcAmStatus
begin

text \<open>
  The operations of \<^verbatim>\<open>LteRlcAm\<close> called by PDCP and by the MAC keep the invariant of the
  transmitting side, answer every opportunity within the grant (one byte more for a STATUS PDU),
  and satisfy the contract of a queueing entity.
\<close>

section \<open>A new data PDU\<close>

text \<open>The upper end of the window.\<close>

lemma am_window_top:
  assumes "am_tx_inv s"
  shows "sn_off (am_vtMs s) = 512"
proof -
  have "sn_wf (am_vtMs s)" "sn_wf (am_vtA s)" "sn_base (am_vtMs s) = sn_val (am_vtA s)"
    "sn_val (am_vtMs s) = (sn_val (am_vtA s) + 512) mod 1024"
    using assms by (simp_all add: am_tx_inv_def am_window_ok_def)
  then show ?thesis
    by (cases "sn_val (am_vtA s) < 512") (auto simp: sn_off_cases sn_wf_nat le_mod_geq)
qed

definition am_sizes_ok :: "rlc_am \<Rightarrow> bool" where
  "am_sizes_ok s \<longleftrightarrow> unat (am_txonBufferSize s) = total_size (pdus (am_txonBuffer s)) \<and>
     am_txonBufferSize s \<le> am_maxTxBufferSize s \<and> unat (am_maxTxBufferSize s) \<le> 2 ^ 31 \<and>
     am_maxTxBufferSize s \<noteq> 0"

text \<open>
  What sending a new PDU with the fields u achieves: it carries the number VT(S), is kept for
  retransmission, and continues the SDU of which the bytes \<open>kept\<close> have been sent.
\<close>

definition am_sends ::
    "bytes option \<Rightarrow> rlc_am \<Rightarrow> TxOpportunityParameters \<Rightarrow> rlc_am \<Rightarrow> bytes \<Rightarrow> pdu_fields \<Rightarrow> bool" where
  "am_sends kept s o' s' packet u \<longleftrightarrow>
     am_pdu packet (am_vtS s) u \<and> pdu_fits kept u \<and> length packet \<le> txo_bytes o' \<and>
     am_vtS s' = sn_inc (am_vtS s) \<and> am_vtA s' = am_vtA s \<and>
     am_slot s' (sn_val (am_vtS s)) = (Some packet, None) \<and>
     (\<forall>i. i \<noteq> sn_val (am_vtS s) \<longrightarrow> am_slot s' i = am_slot s i) \<and>
     um_tx_ok (fst (reas_spec kept u)) (am_txonBuffer s') \<and>
     snd (reas_spec kept u) @ join (fst (reas_spec kept u)) (pdus (am_txonBuffer s'))
       = join kept (pdus (am_txonBuffer s)) \<and>
     am_tx_inv s' \<and> am_sizes_ok s' \<and> am_maxTxBufferSize s' = am_maxTxBufferSize s \<and>
     am_txOpportunityForRetxAlwaysBigEnough s' = am_txOpportunityForRetxAlwaysBigEnough s"

lemma am_pdu_val: "m_value sn = m_value sn' \<Longrightarrow> am_pdu p sn u = am_pdu p sn' u"
  by (simp add: am_pdu_def)

lemma am_poll_idle [simp]:
  "am_SetPollingBit STATUS_REPORT_NOT_REQUESTED (am_data_header sn df h) = am_data_header sn df h"
  by (simp add: am_data_header_def am_SetPollingBit_def)

text \<open>The header and the members after a polling decision c.\<close>

lemma am_polled [simp]:
  "am_vtA (snd (if c then am_set_poll now h s else (h, s))) = am_vtA s"
  "am_vtS (snd (if c then am_set_poll now h s else (h, s))) = am_vtS s"
  "am_vtMs (snd (if c then am_set_poll now h s else (h, s))) = am_vtMs s"
  "am_windowSize (snd (if c then am_set_poll now h s else (h, s))) = am_windowSize s"
  "am_txedBuffer (snd (if c then am_set_poll now h s else (h, s))) = am_txedBuffer s"
  "am_retxBuffer (snd (if c then am_set_poll now h s else (h, s))) = am_retxBuffer s"
  "am_txedBufferSize (snd (if c then am_set_poll now h s else (h, s))) = am_txedBufferSize s"
  "am_retxBufferSize (snd (if c then am_set_poll now h s else (h, s))) = am_retxBufferSize s"
  "am_txonBuffer (snd (if c then am_set_poll now h s else (h, s))) = am_txonBuffer s"
  "am_txonBufferSize (snd (if c then am_set_poll now h s else (h, s))) = am_txonBufferSize s"
  "am_maxTxBufferSize (snd (if c then am_set_poll now h s else (h, s))) = am_maxTxBufferSize s"
  "am_txOpportunityForRetxAlwaysBigEnough (snd (if c then am_set_poll now h s else (h, s)))
     = am_txOpportunityForRetxAlwaysBigEnough s"
  by (simp_all add: am_set_poll_def)

lemma am_polled_header:
  "fst (if c then am_set_poll now h s else (h, s))
    = (if c then am_SetPollingBit STATUS_REPORT_IS_REQUESTED h else h)"
  by simp

lemma am_tx_inv_polled [simp]:
  "am_tx_inv (snd (if c then am_set_poll now h s else (h, s))) = am_tx_inv s"
  by (rule am_tx_inv_cong) (rule am_polled)+

lemma am_store_txed_members [simp]:
  "am_vtA (am_store_txed now sn p s) = am_vtA s" "am_vtS (am_store_txed now sn p s) = am_vtS s"
  "am_vtMs (am_store_txed now sn p s) = am_vtMs s" "am_windowSize (am_store_txed now sn p s) = am_windowSize s"
  "am_txonBuffer (am_store_txed now sn p s) = am_txonBuffer s"
  "am_txonBufferSize (am_store_txed now sn p s) = am_txonBufferSize s"
  "am_maxTxBufferSize (am_store_txed now sn p s) = am_maxTxBufferSize s"
  "am_retxBuffer (am_store_txed now sn p s) = am_retxBuffer s"
  "am_retxBufferSize (am_store_txed now sn p s) = am_retxBufferSize s"
  "am_txOpportunityForRetxAlwaysBigEnough (am_store_txed now sn p s) = am_txOpportunityForRetxAlwaysBigEnough s"
  by (simp_all add: am_store_txed_def)

lemma am_store_txed_cong:
  assumes "am_vtA t = am_vtA s" "am_vtS t = am_vtS s" "am_vtMs t = am_vtMs s"
    "am_windowSize t = am_windowSize s" "am_txedBuffer t = am_txedBuffer s"
    "am_retxBuffer t = am_retxBuffer s" "am_txedBufferSize t = am_txedBufferSize s"
    "am_retxBufferSize t = am_retxBufferSize s"
  shows "am_tx_inv (am_store_txed now sn p t) = am_tx_inv (am_store_txed now sn p s)"
  by (rule am_tx_inv_cong) (simp_all add: am_store_txed_def assms)

lemma am_send_new_sends:
  assumes inv: "am_tx_inv s" and sz: "am_sizes_ok s" and ok: "um_tx_ok kept (am_txonBuffer s)"
    and ne: "am_txonBuffer s \<noteq> []" and b: "4 < txo_bytes o'" "txo_bytes o' < 2 ^ 16"
    and w: "sn_off (am_vtS s) < 512"
  shows "\<exists>s' packet u. am_send_new now o' s = Some (s', [TransmitPdu (answer_params (am_base s) o' packet)]) \<and>
    am_sends kept s o' s' packet u"
proof -
  obtain x xs where buf: "am_txonBuffer s = x # xs"
    using ne by (cases "am_txonBuffer s") auto
  let ?sz = "am_txonBufferSize s - GetSize (m_pdu x)" and ?n = "txo_bytes o' - 4"
  obtain buf' sz' h' df where run: "um_seg_loop x xs ?sz ?n 1 um_header_init [] = (buf', sz', h', df)"
    by (metis prod_cases4)
  from am_seg_loop_um [OF hdr_sim_init run] obtain g where
    g: "am_seg_loop x xs ?sz ?n 1 (am_SetDataPdu am_header_init) [] = (buf', sz', g, df)" "hdr_sim h' g"
    by blast
  have pos: "0 < length (m_pdu x)" "\<forall>y\<in>set xs. 0 < length (m_pdu y)"
    using ok buf by (auto simp: um_tx_ok_def)
  have szx: "unat ?sz = total_size (pdus xs)" "total_size (pdus xs) + length (m_pdu x) = unat (am_txonBufferSize s)"
    using sz buf by (simp_all add: am_sizes_ok_def unat_sub_GetSize)
  have "unat (am_txonBufferSize s) < 2 ^ 32"
    using unsigned_less [of "am_txonBufferSize s"] by simp
  with um_seg_loop_sizes [OF run _ _ pos, of 4] szx b
  obtain h0 where h0: "h' = um_PushExtensionBit DATA_FIELD_FOLLOWS h0"
    "hdr_for (map fst (butlast df)) h0" "df \<noteq> []"
    "total_size (map fst df) + li_size (length df - 1) \<le> txo_bytes o' - 4"
    "unat sz' = total_size (pdus buf')" "unat sz' \<le> unat (am_txonBufferSize s)"
    "4 + li_size (length df - 1) < 2 ^ 16"
    by auto
  from um_seg_loop_contents [OF run, of kept] ok buf b
  have c: "pdu_fits kept (field_unit df)" "um_tx_ok (fst (reas_spec kept (field_unit df))) buf'"
    "snd (reas_spec kept (field_unit df)) @ join (fst (reas_spec kept (field_unit df))) (pdus buf')
      = join kept (pdus (am_txonBuffer s))"
    by auto
  let ?vtS = "am_vtS s"
  let ?sn = "fst (sn_postinc ?vtS)"
  have wf: "sn_wf ?vtS" "sn_wf ?sn" "sn_val ?sn = sn_val ?vtS"
    using inv by (simp_all add: am_tx_inv_def am_window_ok_def sn_wf_nat)
  let ?h = "am_data_header ?sn df g"
  define s1 where "s1 = s\<lparr>am_txonBuffer := buf', am_txonBufferSize := sz', am_vtS := sn_inc ?vtS,
     am_pduWithoutPoll := am_pduWithoutPoll s + 1,
     am_byteWithoutPoll := am_byteWithoutPoll s + GetSize (concat (map fst df))\<rparr>"
  define bit where "bit = (if am_new_polls s1 then STATUS_REPORT_IS_REQUESTED else STATUS_REPORT_NOT_REQUESTED)"
  define s2 where "s2 = snd (if am_new_polls s1 then am_set_poll now ?h s1 else (?h, s1))"
  have win: "sn_lt ?sn (am_vtMs s) \<and> sn_ge ?sn (am_vtA s)"
  proof -
    have a: "sn_wf (am_vtMs s)" "sn_wf (am_vtA s)" "sn_base ?vtS = sn_val (am_vtA s)"
      "sn_base (am_vtMs s) = sn_val (am_vtA s)" "sn_base (am_vtA s) = sn_val (am_vtA s)"
      "sn_off (am_vtMs s) = 512"
      using inv am_window_top [OF inv] by (simp_all add: am_tx_inv_def am_window_ok_def)
    moreover have "sn_base ?sn = sn_base ?vtS" "sn_off ?sn = sn_off ?vtS"
      using wf by (simp_all add: sn_off_def sn_wf_nat)
    ultimately show ?thesis
      using w wf(2) by (simp add: sn_cmp sn_off_def [of "am_vtA s"])
  qed
  from am_build_packet(3) [OF _ h0(2,3) wf(2) h0(7), of g bit] g(2) h0(1) obtain packet where
    p: "AddHeader am_GetSerializedSize am_Serialize (am_SetPollingBit bit ?h) (concat (map fst df)) = Some packet"
      "am_pdu packet ?sn (field_unit df)"
      "length packet = 4 + li_size (length df - 1) + total_size (map fst df)"
    by auto
  have send: "am_send_new now o' s = Some (am_store_txed now ?sn packet s2,
      [TransmitPdu (answer_params (am_base s) o' packet)])"
    using buf g(1) h0(3) p(1) win
    by (cases "am_new_polls s1") (simp_all add: am_send_new_def Let_def case_prod_beta bit_def s2_def flip: s1_def)
  have pdu: "am_pdu packet ?vtS (field_unit df)"
    using p(2) wf(3) am_pdu_val [of ?sn ?vtS] by (simp add: sn_val_def word_unat_eq_iff)
  have slot: "slot_pdu_ok (sn_val ?vtS) packet"
    using p(3) h0(4) b max_pdu_def pdu wf(1) am_pdu_val [of "sn_make (word_of_nat (sn_val ?vtS))" ?vtS]
    by (auto simp: slot_pdu_ok_def sn_val_def sn_make_def sn_wf_def)
  have slot_free: "rp_pdu (am_retxBuffer s ! sn_val ?vtS) = None"
    using inv wf(1) by (auto simp: am_tx_inv_def am_window_ok_def bufs_ok_def slot_ok_def sn_wf_nat sn_off_def)
  have "am_tx_inv (am_store_txed now ?sn packet s2)"
    using am_tx_inv_new [OF inv w slot, of now] am_store_txed_cong [of s2 "s\<lparr>am_vtS := sn_inc ?vtS\<rparr>"]
    by (simp add: s2_def s1_def)
  moreover have "am_sizes_ok (am_store_txed now ?sn packet s2)"
    using sz h0(5,6) by (simp add: am_sizes_ok_def s2_def s1_def word_le_nat_alt)
  moreover have "am_slot (am_store_txed now ?sn packet s2) (sn_val ?vtS) = (Some packet, None)"
    using inv wf slot_free by (simp add: am_slot_def am_store_txed_def s2_def s1_def am_tx_inv_def bufs_ok_def sn_wf_nat)
  moreover have "\<forall>i. i \<noteq> sn_val ?vtS \<longrightarrow> am_slot (am_store_txed now ?sn packet s2) i = am_slot s i"
    using wf(3) by (simp add: am_slot_def am_store_txed_def s2_def s1_def)
  ultimately have "am_sends kept s o' (am_store_txed now ?sn packet s2) packet (field_unit df)"
    using c pdu p(3) h0(4) b by (simp add: am_sends_def s2_def s1_def)
  with send show ?thesis
    by blast
qed

section \<open>A retransmission\<close>

text \<open>The PDU sent again has the size and the contents of the stored one; it may ask for a report.\<close>

lemma am_pdu_repoll:
  assumes "am_pdu p sn u"
  shows "\<exists>h q. RemoveHeader am_des p = Some (h, q) \<and>
    (\<forall>b. \<exists>p'. AddHeader am_GetSerializedSize am_Serialize (am_SetPollingBit b h) q = Some p' \<and>
       length p' = length p \<and> (\<forall>v. am_pdu p sn v \<longrightarrow> am_pdu p' sn v))"
proof -
  obtain h q where h: "RemoveHeader am_des p = Some (h, q)"
    using assms by (auto simp: am_pdu_def)
  have all: "\<exists>p'. AddHeader am_GetSerializedSize am_Serialize (am_SetPollingBit b h) q = Some p' \<and>
      am_pdu p' sn v \<and> length p' = length p" if "am_pdu p sn v" for b v
  proof -
    have "am_data_hwf h" "ah_segmentOffset h < 256"
      "ah_resegmentationFlag h = RF_PDU" "length p = am_GetSerializedSize h + length q"
      "m_value (ah_sequenceNumber h) = m_value sn"
      "ah_framingInfo h = framing_of (pf_noFirst v) (pf_noLast v)"
      "um_split (ah_extensionBits h) (ah_lengthIndicators h) q = Some (pf_fields v)"
      using that h by (auto simp: am_pdu_def)
    then show ?thesis
      using am_pdu_AddHeader [of "am_SetPollingBit b h" sn v q] am_poll_header [of h b] by simp
  qed
  have "\<exists>p'. AddHeader am_GetSerializedSize am_Serialize (am_SetPollingBit b h) q = Some p' \<and>
       length p' = length p \<and> (\<forall>v. am_pdu p sn v \<longrightarrow> am_pdu p' sn v)" for b
    using all [OF assms, of b] all [of _ b] by fastforce
  with h show ?thesis
    by blast
qed

lemma am_SetPollingBit_twice [simp]: "am_SetPollingBit b (am_SetPollingBit c h) = am_SetPollingBit b h"
  by (simp add: am_SetPollingBit_def)

lemma am_retx_to_txed_members [simp]:
  "am_txonBuffer (am_retx_to_txed now sn s) = am_txonBuffer s"
  "am_txonBufferSize (am_retx_to_txed now sn s) = am_txonBufferSize s"
  "am_maxTxBufferSize (am_retx_to_txed now sn s) = am_maxTxBufferSize s"
  "am_vtA (am_retx_to_txed now sn s) = am_vtA s" "am_vtS (am_retx_to_txed now sn s) = am_vtS s"
  "am_txOpportunityForRetxAlwaysBigEnough (am_retx_to_txed now sn s) = am_txOpportunityForRetxAlwaysBigEnough s"
  by (simp_all add: am_retx_to_txed_def Let_def)

lemma am_retransmit_sends:
  assumes inv: "am_tx_inv s" and sn: "sn_val sn < 1024" and p: "rp_pdu (at_sn (am_retxBuffer s) sn) = Some p"
    and u: "am_pdu p sn u" and fit: "length p \<le> txo_bytes o'"
  shows "\<exists>s' p'. am_retransmit now o' sn p s = Some (s', [TransmitPdu (answer_params (am_base s) o' p')]) \<and>
    (\<forall>v. am_pdu p sn v \<longrightarrow> am_pdu p' sn v) \<and> length p' = length p \<and> am_tx_inv s' \<and>
    am_slot s' (sn_val sn) = (Some p, None) \<and> (\<forall>i. i \<noteq> sn_val sn \<longrightarrow> am_slot s' i = am_slot s i) \<and>
    am_txonBuffer s' = am_txonBuffer s \<and> am_txonBufferSize s' = am_txonBufferSize s \<and>
    am_maxTxBufferSize s' = am_maxTxBufferSize s \<and> am_vtA s' = am_vtA s \<and> am_vtS s' = am_vtS s \<and>
    am_txOpportunityForRetxAlwaysBigEnough s' = am_txOpportunityForRetxAlwaysBigEnough s"
proof -
  obtain h q where h: "RemoveHeader am_des p = Some (h, q)"
    "\<And>b. \<exists>p'. AddHeader am_GetSerializedSize am_Serialize (am_SetPollingBit b h) q = Some p' \<and>
       length p' = length p \<and> (\<forall>v. am_pdu p sn v \<longrightarrow> am_pdu p' sn v)"
    using am_pdu_repoll [OF u] by blast
  let ?h0 = "am_SetPollingBit STATUS_REPORT_NOT_REQUESTED h"
  define c where "c \<longleftrightarrow> am_retx_polls q ?h0 s"
  define bit where "bit = (if c then STATUS_REPORT_IS_REQUESTED else STATUS_REPORT_NOT_REQUESTED)"
  define s1 where "s1 = snd (if c then am_set_poll now ?h0 s else (?h0, s))"
  obtain p' where p': "AddHeader am_GetSerializedSize am_Serialize (am_SetPollingBit bit h) q = Some p'"
    "\<forall>v. am_pdu p sn v \<longrightarrow> am_pdu p' sn v" "length p' = length p"
    using h(2) by blast
  have eq: "am_retransmit now o' sn p s = Some (am_retx_to_txed now sn s1,
      [TransmitPdu (answer_params (am_base s) o' p')])"
    using fit h(1) p'(1) by (cases c) (simp_all add: am_retransmit_def Let_def case_prod_beta bit_def s1_def flip: c_def)
  have "am_tx_inv s1" "rp_pdu (at_sn (am_retxBuffer s1) sn) = Some p"
    using inv p by (simp_all add: s1_def)
  note inv' = am_tx_inv_retx_to_txed [OF this(1) sn this(2), of now]
  have "am_slot (am_retx_to_txed now sn s1) (sn_val sn) = (Some p, None)"
    using inv sn p by (simp add: am_slot_def am_retx_to_txed_def Let_def s1_def am_tx_inv_def bufs_ok_def retx_none_def)
  moreover have "\<forall>i. i \<noteq> sn_val sn \<longrightarrow> am_slot (am_retx_to_txed now sn s1) i = am_slot s i"
    by (simp add: am_slot_def am_retx_to_txed_def Let_def s1_def)
  ultimately show ?thesis
    using eq inv' p'(2,3) by (intro exI [of _ "am_retx_to_txed now sn s1"] exI [of _ p']) (simp add: s1_def)
qed

section \<open>An opportunity\<close>

text \<open>The numbers of the receiving side that a STATUS PDU reads.\<close>

definition am_report_ok :: "rlc_am \<Rightarrow> bool" where
  "am_report_ok s \<longleftrightarrow> sn_wf (am_vrR s) \<and> sn_wf (am_vrMs s) \<and> sn_base (am_vrR s) = sn_base (am_vrMs s) \<and>
     sn_off (am_vrR s) \<le> sn_off (am_vrMs s)"

definition am_qinv :: "rlc_am \<Rightarrow> bool" where
  "am_qinv s \<longleftrightarrow> am_tx_inv s \<and> am_sizes_ok s \<and> (\<exists>kept. um_tx_ok kept (am_txonBuffer s)) \<and>
     am_report_ok s \<and> \<not> am_txOpportunityForRetxAlwaysBigEnough s \<and> unat (am_statusPduBufferSize s) \<le> 4"

text \<open>
  A grant that no assertion on its size refuses: seven bytes are enough in every state. The upper
  bound keeps the header length in 16 bits; a transport block of LTE has at most 9422 bytes.
\<close>

definition am_grant_ok :: "TxOpportunityParameters \<Rightarrow> bool" where
  "am_grant_ok o' \<longleftrightarrow> 7 \<le> txo_bytes o' \<and> txo_bytes o' < 2 ^ 16"

text \<open>The grants that fail an assertion in the state s.\<close>

definition am_too_small :: "TxOpportunityParameters \<Rightarrow> rlc_am \<Rightarrow> bool" where
  "am_too_small o' s \<longleftrightarrow> txo_bytes o' < 4 \<or>
     (if am_statusPduRequested s \<and> am_statusProhibitTimer s = None
      then txo_bytes o' < unat (am_statusPduBufferSize s)
      else am_retxBufferSize s = 0 \<and> am_txonBuffer s \<noteq> [] \<and> txo_bytes o' < 7)"

lemma am_grant_fits: "am_grant_ok o' \<Longrightarrow> am_qinv s \<Longrightarrow> \<not> am_too_small o' s"
  by (auto simp: am_grant_ok_def am_qinv_def am_too_small_def)

lemma am_qinv_init: "am_qinv am_init"
  using am_tx_inv_init
  by (simp add: am_qinv_def am_sizes_ok_def am_report_ok_def)
     (simp add: am_init_def exI [of _ None])

text \<open>Which of the four answers an opportunity gets.\<close>

datatype am_answer = Nothing | Status | Retransmission sn10 bytes | NewPdu

definition am_answers :: "TxOpportunityParameters \<Rightarrow> rlc_am \<Rightarrow> am_answer" where
  "am_answers o' s =
     (if am_statusPduRequested s \<and> am_statusProhibitTimer s = None then Status
      else if am_retxBufferSize s > 0 then
        (case am_find_retx (am_retxBuffer s) (am_vtA s) (am_vtS s) of
           Some (Some sn) \<Rightarrow>
             (case rp_pdu (at_sn (am_retxBuffer s) sn) of
                Some p \<Rightarrow> if length p \<le> txo_bytes o' then Retransmission sn p else Nothing
              | None \<Rightarrow> Nothing)
         | _ \<Rightarrow> Nothing)
      else if am_txonBuffer s \<noteq> [] \<and> sn_off (am_vtS s) < 512 then NewPdu
      else Nothing)"

lemma am_find_retx_slot:
  assumes inv: "am_tx_inv s" and pos: "am_retxBufferSize s > 0"
  obtains sn p u where "am_find_retx (am_retxBuffer s) (am_vtA s) (am_vtS s) = Some (Some sn)"
    "sn_val sn < 1024" "rp_pdu (at_sn (am_retxBuffer s) sn) = Some p" "am_pdu p sn u"
proof -
  from am_find_retx_inv [OF assms] obtain sn p where
    *: "am_find_retx (am_retxBuffer s) (am_vtA s) (am_vtS s) = Some (Some sn)" "sn_val sn < 1024"
      "rp_pdu (at_sn (am_retxBuffer s) sn) = Some p"
    by blast
  then have "slot_pdu_ok (sn_val sn) p"
    using inv by (auto simp: am_tx_inv_def bufs_ok_def slot_ok_def)
  then obtain u where "am_pdu p (sn_make (word_of_nat (sn_val sn))) u"
    by (auto simp: slot_pdu_ok_def)
  then have "am_pdu p sn u"
    using am_pdu_val [of "sn_make (word_of_nat (sn_val sn))" sn p u] *(2)
    by (simp add: sn_make_def sn_val_def)
  with that * show thesis
    by blast
qed

lemma am_pending_iff:
  assumes "am_sizes_ok s" "um_tx_ok kept (am_txonBuffer s)"
  shows "am_txonBufferSize s > 0 \<longleftrightarrow> am_txonBuffer s \<noteq> []"
  using assms by (cases "am_txonBuffer s") (auto simp: am_sizes_ok_def um_tx_ok_def word_greater_zero_iff unat_eq_zero)

lemma am_window_full:
  assumes "am_tx_inv s"
  shows "sn_eq (am_vtS s) (am_vtMs s) \<longleftrightarrow> \<not> sn_off (am_vtS s) < 512"
proof -
  have w: "sn_wf (am_vtS s)" "sn_wf (am_vtMs s)" "sn_base (am_vtS s) = sn_base (am_vtMs s)"
    "sn_off (am_vtS s) \<le> 512" "sn_wf (am_vtA s)" "sn_base (am_vtMs s) = sn_val (am_vtA s)"
    "sn_val (am_vtMs s) = (sn_val (am_vtA s) + 512) mod 1024"
    using assms by (simp_all add: am_tx_inv_def am_window_ok_def)
  show ?thesis
    using sn_off_inj [OF w(1-3)] w(4) am_window_top [OF assms] by (auto simp: sn_eq_iff_val)
qed

lemma am_vtS_below:
  assumes "am_tx_inv s"
  shows "sn_le (am_vtS s) (am_vtMs s)"
proof -
  have "sn_wf (am_vtS s)" "sn_wf (am_vtMs s)" "sn_base (am_vtS s) = sn_base (am_vtMs s)" "sn_off (am_vtS s) \<le> 512"
    using assms by (simp_all add: am_tx_inv_def am_window_ok_def)
  then show ?thesis
    using am_window_top [OF assms] by (simp add: sn_cmp)
qed

text \<open>What each answer does.\<close>

definition am_answered ::
    "bytes option \<Rightarrow> time_ns \<Rightarrow> TxOpportunityParameters \<Rightarrow> rlc_am \<Rightarrow> am_answer \<Rightarrow> rlc_am \<Rightarrow> rlc_action list \<Rightarrow> bool" where
  "am_answered kept now o' s a s' as \<longleftrightarrow>
     (case a of
        Nothing \<Rightarrow> s' = s \<and> as = []
      | Status \<Rightarrow> s' = s\<lparr>am_statusPduRequested := False, am_statusPduBufferSize := 0,
            am_statusProhibitTimer := Some (now + am_statusProhibitTimerValue s)\<rparr> \<and>
          (\<exists>k packet. as = [TransmitPdu (answer_params (am_base s) o' packet)] \<and>
             k \<le> sn_off (am_vrMs s) - sn_off (am_vrR s) \<and>
             status_report (am_rxonBuffer s) (am_vrR s) (am_vrMs s) k packet \<and>
             length packet \<le> txo_bytes o' + 1)
      | Retransmission sn p \<Rightarrow>
          (\<exists>p'. as = [TransmitPdu (answer_params (am_base s) o' p')] \<and> sn_val sn < 1024 \<and>
             am_slot s (sn_val sn) = (None, Some p) \<and> am_slot s' (sn_val sn) = (Some p, None) \<and>
             (\<forall>i. i \<noteq> sn_val sn \<longrightarrow> am_slot s' i = am_slot s i) \<and>
             (\<exists>u. am_pdu p sn u) \<and> (\<forall>u. am_pdu p sn u \<longrightarrow> am_pdu p' sn u) \<and>
             length p' = length p \<and> length p \<le> txo_bytes o' \<and>
             am_txonBuffer s' = am_txonBuffer s \<and> am_vtA s' = am_vtA s \<and> am_vtS s' = am_vtS s)
      | NewPdu \<Rightarrow>
          (\<exists>u p. as = [TransmitPdu (answer_params (am_base s) o' p)] \<and> am_sends kept s o' s' p u))"

lemma am_report_ok_cong:
  "am_vrR t = am_vrR s \<Longrightarrow> am_vrMs t = am_vrMs s \<Longrightarrow> am_report_ok t = am_report_ok s"
  by (simp add: am_report_ok_def)

lemma am_rx_members [simp]:
  "am_vrR (am_retx_to_txed now sn s) = am_vrR s" "am_vrMs (am_retx_to_txed now sn s) = am_vrMs s"
  "am_vrR (am_store_txed now sn p s) = am_vrR s" "am_vrMs (am_store_txed now sn p s) = am_vrMs s"
  "am_vrR (snd (am_set_poll now h s)) = am_vrR s" "am_vrMs (snd (am_set_poll now h s)) = am_vrMs s"
  "am_statusPduBufferSize (am_retx_to_txed now sn s) = am_statusPduBufferSize s"
  "am_statusPduBufferSize (am_store_txed now sn p s) = am_statusPduBufferSize s"
  "am_statusPduBufferSize (snd (am_set_poll now h s)) = am_statusPduBufferSize s"
  by (simp_all add: am_retx_to_txed_def am_store_txed_def am_set_poll_def Let_def)

lemma am_send_rx:
  "am_send_new now o' s = Some (s', as) \<Longrightarrow> am_vrR s' = am_vrR s \<and> am_vrMs s' = am_vrMs s \<and>
     am_statusPduBufferSize s' = am_statusPduBufferSize s"
  "am_retransmit now o' sn p s = Some (s', as) \<Longrightarrow> am_vrR s' = am_vrR s \<and> am_vrMs s' = am_vrMs s \<and>
     am_statusPduBufferSize s' = am_statusPduBufferSize s"
  by (auto simp: am_send_new_def am_retransmit_def Let_def case_prod_beta
      split: list.splits prod.splits if_splits option.splits)

lemma am_opportunity:
  assumes q: "am_qinv s" and g: "\<not> am_too_small o' s" "txo_bytes o' < 2 ^ 16" and ok: "um_tx_ok kept (am_txonBuffer s)"
  shows "\<exists>s' as. am_DoNotifyTxOpportunity now o' s = Some (s', as) \<and>
    am_answered kept now o' s (am_answers o' s) s' as \<and> am_qinv s' \<and>
    am_maxTxBufferSize s' = am_maxTxBufferSize s"
proof -
  have inv: "am_tx_inv s" and sz: "am_sizes_ok s" and rep: "am_report_ok s"
    and big: "\<not> am_txOpportunityForRetxAlwaysBigEnough s"
    using q by (simp_all add: am_qinv_def)
  note pend = am_pending_iff [OF sz ok] and full = am_window_full [OF inv]
  let ?status = "am_statusPduRequested s \<and> am_statusProhibitTimer s = None"
  have below: "sn_le (am_vtS s) (am_vtMs s)"
    by (rule am_vtS_below [OF inv])
  have four: "4 \<le> txo_bytes o'"
    using g(1) by (simp add: am_too_small_def)
  then consider (status) "4 \<le> txo_bytes o'" ?status
    | (retx) "4 \<le> txo_bytes o'" "\<not> ?status" "am_retxBufferSize s > 0"
    | (new) "4 \<le> txo_bytes o'" "\<not> ?status" "\<not> am_retxBufferSize s > 0"
    by linarith
  then show ?thesis
  proof cases
    case status
    have False: "\<not> txo_bytes o' < unat (am_statusPduBufferSize s)"
      using g(1) status(2) by (simp add: am_too_small_def)
    show ?thesis
    proof -
      let ?t = "s\<lparr>am_statusPduRequested := False, am_statusPduBufferSize := 0,
              am_statusProhibitTimer := Some (now + am_statusProhibitTimerValue s)\<rparr>"
      obtain k packet where st: "am_send_status now o' s = Some (?t, [TransmitPdu (answer_params (am_base s) o' packet)])"
        "k \<le> sn_off (am_vrMs s) - sn_off (am_vrR s)"
        "status_report (am_rxonBuffer s) (am_vrR s) (am_vrMs s) k packet" "length packet \<le> txo_bytes o' + 1"
        using am_send_status_total [of s o' now] rep False status(1) by (auto simp: am_report_ok_def)
      have "am_qinv ?t"
        using q am_tx_inv_cong [of ?t s] by (simp add: am_qinv_def am_sizes_ok_def am_report_ok_def)
      then show ?thesis
        using status False st by (auto simp: am_DoNotifyTxOpportunity_def am_answers_def am_answered_def)
    qed
  next
    case retx
    from am_find_retx_slot [OF inv retx(3)] obtain sn p u where
      f: "am_find_retx (am_retxBuffer s) (am_vtA s) (am_vtS s) = Some (Some sn)" "sn_val sn < 1024"
        "rp_pdu (at_sn (am_retxBuffer s) sn) = Some p" "am_pdu p sn u" .
    have lt: "sn_lt (am_vtA s) (am_vtS s)"
      using f(1) by (subst (asm) am_find_retx.simps) (auto split: if_splits)
    show ?thesis
    proof (cases "length p \<le> txo_bytes o'")
      case False
      with retx f big q lt show ?thesis
        by (auto simp: am_DoNotifyTxOpportunity_def am_answers_def am_answered_def am_retransmit_def)
    next
      case True
      from am_retransmit_sends [OF inv f(2-4) True, of now] obtain s' p' where
        r: "am_retransmit now o' sn p s = Some (s', [TransmitPdu (answer_params (am_base s) o' p')])"
          "\<forall>v. am_pdu p sn v \<longrightarrow> am_pdu p' sn v" "length p' = length p" "am_tx_inv s'"
          "am_slot s' (sn_val sn) = (Some p, None)"
          "am_txonBuffer s' = am_txonBuffer s" "am_txonBufferSize s' = am_txonBufferSize s"
          "am_maxTxBufferSize s' = am_maxTxBufferSize s" "am_vtA s' = am_vtA s" "am_vtS s' = am_vtS s"
          "\<forall>i. i \<noteq> sn_val sn \<longrightarrow> am_slot s' i = am_slot s i"
          "am_txOpportunityForRetxAlwaysBigEnough s' = am_txOpportunityForRetxAlwaysBigEnough s"
        by auto
      have "am_qinv s'"
        using q r(4,6-12) am_send_rx(2) [OF r(1)] by (simp add: am_qinv_def am_sizes_ok_def am_report_ok_def)
      moreover have "am_slot s (sn_val sn) = (None, Some p)"
        using inv f(2,3) by (auto simp: am_slot_def am_tx_inv_def bufs_ok_def slot_ok_def)
      ultimately show ?thesis
        using retx f True r lt
        by (intro exI [of _ s'] exI [of _ "[TransmitPdu (answer_params (am_base s) o' p')]"])
           (auto simp: am_DoNotifyTxOpportunity_def am_answers_def am_answered_def)
    qed
  next
    case new
    show ?thesis
    proof (cases "am_txonBuffer s \<noteq> [] \<and> sn_off (am_vtS s) < 512")
      case False
      with new pend full q g(1) below show ?thesis
        by (auto simp: am_DoNotifyTxOpportunity_def am_answers_def am_answered_def am_too_small_def word_greater_zero_iff)
    next
      case True
      then have "4 < txo_bytes o'"
        using g(1) new by (auto simp: am_too_small_def word_greater_zero_iff)
      with True am_send_new_sends [OF inv sz ok, of o' now] g(2) obtain s' packet u where
        n: "am_send_new now o' s = Some (s', [TransmitPdu (answer_params (am_base s) o' packet)])"
          "am_sends kept s o' s' packet u"
        by auto
      have "am_qinv s'"
        using n(2) q am_send_rx(1) [OF n(1)] by (auto simp: am_qinv_def am_sends_def am_report_ok_def)
      with n True new pend full g(1) below show ?thesis
        by (intro exI [of _ s'] exI [of _ "[TransmitPdu (answer_params (am_base s) o' packet)]"])
           (auto simp: am_DoNotifyTxOpportunity_def am_answers_def am_answered_def am_sends_def am_too_small_def
             word_greater_zero_iff)
    qed
  qed
qed

text \<open>A grant that is too small fails.\<close>

lemma am_opportunity_aborts:
  assumes q: "am_qinv s" and small: "am_too_small o' s"
  shows "am_DoNotifyTxOpportunity now o' s = None"
proof -
  obtain kept where "am_sizes_ok s" "um_tx_ok kept (am_txonBuffer s)"
    using q by (auto simp: am_qinv_def)
  then show ?thesis
    using small am_pending_iff [of s kept]
    by (auto simp: am_too_small_def am_DoNotifyTxOpportunity_def am_send_status_def split: if_splits)
qed

section \<open>The queue contract\<close>

definition am_accepts :: "bytes \<Rightarrow> rlc_am \<Rightarrow> bool" where
  "am_accepts p s \<longleftrightarrow> total_size (pdus (am_txonBuffer s)) + length p \<le> unat (am_maxTxBufferSize s)"

lemma am_report_some:
  assumes "am_sizes_ok s" "um_tx_ok kept (am_txonBuffer s)"
  shows "\<exists>as. am_DoReportBufferStatus now s = Some as \<and> transmitted as = []"
  using am_pending_iff [OF assms] by (auto simp: am_DoReportBufferStatus_def Let_def)

lemma am_submit_law:
  assumes q: "am_qinv s" and p: "um_sdu_ok p"
  shows "\<exists>s' as. am_DoTransmitPdcpPdu now p s = Some (s', as) \<and> am_qinv s' \<and>
    am_maxTxBufferSize s' = am_maxTxBufferSize s \<and> transmitted as = [] \<and>
    am_txonBuffer s' = (if am_accepts p s then am_txonBuffer s @
      [\<lparr>m_pdu = p, m_waitingSince = now, m_sduStatus = FULL_SDU\<rparr>] else am_txonBuffer s)"
proof -
  obtain kept where inv: "am_tx_inv s" "am_sizes_ok s" "am_report_ok s" "um_tx_ok kept (am_txonBuffer s)"
    "\<not> am_txOpportunityForRetxAlwaysBigEnough s" "unat (am_statusPduBufferSize s) \<le> 4"
    using q by (auto simp: am_qinv_def)
  have acc: "am_txonBufferSize s + GetSize p \<le> am_maxTxBufferSize s \<longleftrightarrow> am_accepts p s"
    "unat (am_txonBufferSize s + GetSize p) = total_size (pdus (am_txonBuffer s)) + length p"
    using queue_accepts [of "am_txonBufferSize s" "pdus (am_txonBuffer s)" "am_maxTxBufferSize s" p] inv(2) p
    by (simp_all add: am_sizes_ok_def am_accepts_def um_sdu_ok_def)
  have mx: "am_maxTxBufferSize s \<noteq> 0"
    using inv(2) by (simp add: am_sizes_ok_def)
  let ?x = "\<lparr>m_pdu = p, m_waitingSince = now, m_sduStatus = FULL_SDU\<rparr>"
  define s1 where "s1 = (if am_accepts p s then s\<lparr>am_txonBuffer := am_txonBuffer s @ [?x],
      am_txonBufferSize := am_txonBufferSize s + GetSize p\<rparr> else s)"
  have ok: "am_sizes_ok s1" "um_tx_ok kept (am_txonBuffer s1)"
    using inv acc p um_tx_ok_append [OF inv(4), of p now]
    by (auto simp: s1_def am_sizes_ok_def um_sdu_ok_def)
  let ?s' = "s1\<lparr>am_rbsTimer := Some (now + am_rbsTimerValue s1)\<rparr>"
  obtain as where as: "am_DoReportBufferStatus now s1 = Some as" "transmitted as = []"
    using am_report_some [OF ok] by blast
  have "am_DoTransmitPdcpPdu now p s = Some (?s', (if am_accepts p s then [] else [TxDrop p]) @ as)"
    using acc mx as by (cases "am_accepts p s") (simp_all add: am_DoTransmitPdcpPdu_def s1_def Let_def)
  moreover have "am_tx_inv ?s'"
    using am_tx_inv_cong [of ?s' s] inv(1) by (simp add: s1_def)
  ultimately show ?thesis
    using inv ok as by (auto simp: am_qinv_def am_sizes_ok_def s1_def am_report_ok_def)
qed

lemma am_answered_fits:
  "am_answered kept now o' s a s' as \<Longrightarrow> q \<in> set (transmitted as) \<Longrightarrow> length q \<le> txo_bytes o' + 1"
  by (auto simp: am_answered_def am_sends_def split: am_answer.splits)

interpretation am: rlc_queue am_qinv "\<lambda>s. pdus (am_txonBuffer s)" am_txonBufferSize am_maxTxBufferSize
    am_DoTransmitPdcpPdu am_DoNotifyTxOpportunity um_sdu_ok am_grant_ok 1
proof unfold_locales
  fix s :: rlc_am and now p
  assume "am_qinv s" "um_sdu_ok p"
  from am_submit_law [OF this, of now] show "\<exists>s' as. am_DoTransmitPdcpPdu now p s = Some (s', as) \<and> am_qinv s' \<and>
      am_maxTxBufferSize s' = am_maxTxBufferSize s \<and> transmitted as = [] \<and>
      pdus (am_txonBuffer s') =
        (if total_size (pdus (am_txonBuffer s)) + length p \<le> unat (am_maxTxBufferSize s)
         then pdus (am_txonBuffer s) @ [p] else pdus (am_txonBuffer s))"
    by (auto simp: am_accepts_def)
next
  fix s :: rlc_am and now o'
  assume q: "am_qinv s" "am_grant_ok o'"
  then obtain kept where "um_tx_ok kept (am_txonBuffer s)"
    by (auto simp: am_qinv_def)
  from am_opportunity [OF q(1) am_grant_fits [OF q(2,1)] _ this, of now] q(2) am_answered_fits am_grant_ok_def
  show "\<exists>s' as. am_DoNotifyTxOpportunity now o' s = Some (s', as) \<and> am_qinv s' \<and>
      am_maxTxBufferSize s' = am_maxTxBufferSize s \<and>
      (\<forall>q\<in>set (transmitted as). length q \<le> txo_bytes o' + 1)"
    by blast
qed (auto simp: am_qinv_def am_sizes_ok_def)

end
