(* ===== verification/RlcAmRecv.thy ===== *)
theory RlcAmRecv
  imports RlcAmQueue
begin

text \<open>
  The receiving side of \<^verbatim>\<open>LteRlcAm\<close>. PDUs are numbered without bound here; the receiver sees
  their numbers modulo 1024. Whatever the order of arrival and however often a PDU arrives, as long
  as each is within 512 numbers of VR(R), the receiver delivers the SDUs of
  the PDUs up to the first missing one, in order and once.
\<close>

section \<open>The stream of PDUs\<close>

text \<open>The beginning of an SDU kept before PDU n, and the SDUs that PDU n completes.\<close>

definition kept_at :: "pdu_fields list \<Rightarrow> nat \<Rightarrow> bytes option" where
  "kept_at us n = fst (spec_stream None (take n us))"

definition sdus_at :: "pdu_fields list \<Rightarrow> nat \<Rightarrow> bytes list" where
  "sdus_at us n = snd (reas_spec (kept_at us n) (us ! n))"

definition sdus_between :: "pdu_fields list \<Rightarrow> nat \<Rightarrow> nat \<Rightarrow> bytes list" where
  "sdus_between us a b = concat (map (sdus_at us) [a..<b])"

lemma spec_stream_append:
  "spec_stream kept (us @ vs) =
     (let (k, d) = spec_stream kept us; (k', d') = spec_stream k vs in (k', d @ d'))"
  by (induction us arbitrary: kept) (simp_all add: case_prod_beta Let_def)

lemma fits_stream_append:
  "fits_stream kept (us @ vs) \<longleftrightarrow> fits_stream kept us \<and> fits_stream (fst (spec_stream kept us)) vs"
  by (induction us arbitrary: kept) (auto simp: case_prod_beta Let_def)

lemma spec_stream_step:
  assumes "n < length us"
  shows "kept_at us (Suc n) = fst (reas_spec (kept_at us n) (us ! n))"
    and "snd (spec_stream None (take (Suc n) us)) = snd (spec_stream None (take n us)) @ sdus_at us n"
  using assms by (simp_all add: kept_at_def sdus_at_def take_Suc_conv_app_nth spec_stream_append
      case_prod_beta Let_def)

lemma kept_at_0 [simp]: "kept_at us 0 = None"
  by (simp add: kept_at_def)

lemma fits_at:
  assumes "fits_stream None us" "n < length us"
  shows "pdu_fits (kept_at us n) (us ! n)"
proof -
  have "us = take n us @ us ! n # drop (Suc n) us"
    using assms(2) by (simp add: id_take_nth_drop)
  then have "fits_stream None (take n us @ us ! n # drop (Suc n) us)"
    using assms(1) by simp
  then show ?thesis
    by (simp add: fits_stream_append kept_at_def)
qed

lemma sdus_between_simps [simp]:
  "sdus_between us a a = []"
  "a < b \<Longrightarrow> sdus_between us a b = sdus_at us a @ sdus_between us (Suc a) b"
  by (simp_all add: sdus_between_def upt_conv_Cons)

lemma sdus_between_trans:
  "a \<le> b \<Longrightarrow> b \<le> c \<Longrightarrow> sdus_between us a b @ sdus_between us b c = sdus_between us a c"
  using upt_add_eq_append [of a b "c - b"] by (simp add: sdus_between_def flip: concat_append map_append)

lemma sdus_between_spec:
  "n \<le> length us \<Longrightarrow> sdus_between us 0 n = snd (spec_stream None (take n us))"
proof (induction n)
  case (Suc n)
  then show ?case
    using sdus_between_trans [of 0 n "Suc n" us] by (simp add: spec_stream_step)
qed (simp add: sdus_between_def)

section \<open>Numbers without bound\<close>

text \<open>A sequence number variable that stands for n while VR(R) stands for r.\<close>

definition abs_sn :: "sn10 \<Rightarrow> nat \<Rightarrow> nat \<Rightarrow> bool" where
  "abs_sn sn r n \<longleftrightarrow> sn_val sn = n mod 1024 \<and> sn_base sn = r mod 1024 \<and> r \<le> n \<and> n \<le> r + 512"

lemma abs_sn_wf: "abs_sn sn r n \<Longrightarrow> sn_wf sn"
  by (simp add: abs_sn_def sn_wf_nat)

lemma mod_off:
  assumes "r \<le> n" "n < r + 1024"
  shows "(n mod 1024 + 1024 - r mod 1024) mod 1024 = n - (r :: nat)"
proof -
  obtain d where d: "n = r + d" "d < 1024"
    using assms le_Suc_ex by fastforce
  define r0 where "r0 = r mod 1024"
  have "n mod 1024 = (r0 + d) mod 1024" "r0 < 1024"
    by (simp_all add: d(1) r0_def mod_simps)
  moreover have "((r0 + d) mod 1024 + 1024 - r0) mod 1024 = d"
    using d(2) \<open>r0 < 1024\<close> by (cases "r0 + d < 1024") (simp_all add: le_mod_geq)
  ultimately show ?thesis
    by (simp add: d(1) r0_def)
qed

lemma abs_off: "abs_sn sn r n \<Longrightarrow> sn_off sn = n - r"
  by (simp add: abs_sn_def sn_off_def mod_off)

lemma abs_cmp:
  assumes "abs_sn a r m" "abs_sn b r n"
  shows "sn_lt a b \<longleftrightarrow> m < n" "sn_le a b \<longleftrightarrow> m \<le> n" "sn_gt a b \<longleftrightarrow> n < m" "sn_ge a b \<longleftrightarrow> n \<le> m"
proof -
  have "sn_wf a" "sn_wf b" "sn_base a = sn_base b" "r \<le> m" "r \<le> n"
    using assms abs_sn_wf by (auto simp: abs_sn_def)
  then show "sn_lt a b \<longleftrightarrow> m < n" "sn_le a b \<longleftrightarrow> m \<le> n" "sn_gt a b \<longleftrightarrow> n < m" "sn_ge a b \<longleftrightarrow> n \<le> m"
    using abs_off [OF assms(1)] abs_off [OF assms(2)] by (auto simp: sn_cmp)
qed

lemma abs_eq:
  assumes "abs_sn a r m" "abs_sn b r n"
  shows "sn_eq a b \<longleftrightarrow> m = n"
proof -
  have "sn_eq a b \<longleftrightarrow> sn_off a = sn_off b"
    using assms abs_sn_wf sn_off_inj [of a b] by (auto simp: sn_eq_iff_val abs_sn_def)
  also have "\<dots> \<longleftrightarrow> m = n"
    using abs_off [OF assms(1)] abs_off [OF assms(2)] assms by (auto simp: abs_sn_def)
  finally show ?thesis .
qed

lemma abs_inc: "abs_sn a r n \<Longrightarrow> n < r + 512 \<Longrightarrow> abs_sn (sn_inc a) r (Suc n)"
  by (simp add: abs_sn_def mod_simps)

lemma abs_plus: "abs_sn a r n \<Longrightarrow> n + unat d \<le> r + 512 \<Longrightarrow> abs_sn (sn_plus a d) r (n + unat d)"
  by (simp add: abs_sn_def mod_simps)

lemma abs_self: "abs_sn a r r \<Longrightarrow> sn_SetModulusBase a a = a"
  by (auto intro!: sn_eqI simp: abs_sn_def)

lemma abs_rebase: "abs_sn a r n \<Longrightarrow> abs_sn b r r \<Longrightarrow> sn_SetModulusBase a b = a"
  by (auto intro!: sn_eqI simp: abs_sn_def)

section \<open>The receiver and the stream\<close>

text \<open>
  G is the set of PDUs that have been received, R the first one not delivered.
\<close>

definition am_rx_buf :: "pdu_fields list \<Rightarrow> nat set \<Rightarrow> nat \<Rightarrow> (u16 \<times> pdu_buffer) list \<Rightarrow> bool" where
  "am_rx_buf us G R rx \<longleftrightarrow>
     (\<forall>n. R \<le> n \<and> n < R + 1024 \<longrightarrow>
        (case map_of rx (word_of_nat (n mod 1024)) of
           None \<Rightarrow> n \<notin> G
         | Some b \<Rightarrow> n \<in> G \<and> (\<exists>p. b = \<lparr>pb_byteSegments = [p], pb_pduComplete = True\<rparr> \<and>
             am_contents p (sn_make (word_of_nat (n mod 1024))) (us ! n))))"

definition am_rx_core :: "pdu_fields list \<Rightarrow> nat set \<Rightarrow> nat \<Rightarrow> nat \<Rightarrow> nat \<Rightarrow> nat \<Rightarrow> rlc_am \<Rightarrow> bool" where
  "am_rx_core us G R H M X s \<longleftrightarrow>
     am_windowSize s = 512 \<and> abs_sn (am_vrR s) R R \<and> abs_sn (am_vrH s) R H \<and> abs_sn (am_vrMs s) R M \<and>
     M \<le> H \<and> sn_val (am_vrX s) = X mod 1024 \<and> sn_base (am_vrX s) = R mod 1024 \<and>
     {..<R} \<subseteq> G \<and> (\<forall>n\<in>G. n < H) \<and> H \<le> length us \<and> am_rx_buf us G R (am_rxonBuffer s) \<and>
     reas_rel (kept_at us R) (am_reas s) \<and> sn_val (m_expectedSeqNumber (am_reas s)) = R mod 1024"

definition am_rx_rel :: "pdu_fields list \<Rightarrow> nat set \<Rightarrow> nat \<Rightarrow> rlc_am \<Rightarrow> bool" where
  "am_rx_rel us G R s \<longleftrightarrow> R \<notin> G \<and>
     (\<exists>H M X. am_rx_core us G R H M X s \<and> abs_sn (am_vrMr s) R (R + 512) \<and> M \<notin> G \<and>
        (am_reorderingTimer s \<noteq> None \<longrightarrow> R < X \<and> X \<le> H))"

text \<open>
  The members of the transmitting side, which receiving does not change; the size announced for a
  STATUS PDU may become four.
\<close>

definition am_tx_same :: "rlc_am \<Rightarrow> rlc_am \<Rightarrow> bool" where
  "am_tx_same s t \<longleftrightarrow> am_base t = am_base s \<and> am_txonBuffer t = am_txonBuffer s \<and>
     am_txedBuffer t = am_txedBuffer s \<and> am_retxBuffer t = am_retxBuffer s \<and>
     am_maxTxBufferSize t = am_maxTxBufferSize s \<and> am_txonBufferSize t = am_txonBufferSize s \<and>
     am_retxBufferSize t = am_retxBufferSize s \<and> am_txedBufferSize t = am_txedBufferSize s \<and>
     am_vtA t = am_vtA s \<and> am_vtMs t = am_vtMs s \<and> am_vtS t = am_vtS s \<and>
     am_windowSize t = am_windowSize s \<and>
     am_txOpportunityForRetxAlwaysBigEnough t = am_txOpportunityForRetxAlwaysBigEnough s \<and>
     (am_statusPduBufferSize t = am_statusPduBufferSize s \<or> am_statusPduBufferSize t = 4)"

lemma am_tx_same_refl [simp]: "am_tx_same s s"
  by (simp add: am_tx_same_def)

lemma am_tx_same_trans: "am_tx_same s t \<Longrightarrow> am_tx_same t u \<Longrightarrow> am_tx_same s u"
  by (auto simp: am_tx_same_def)

lemma am_rx_rel_init: "am_rx_rel us {} 0 am_init"
  unfolding am_rx_rel_def
  by (intro conjI exI [of _ 0])
     (simp_all add: am_rx_core_def am_init_def abs_sn_def am_rx_buf_def, simp add: reas_init_def)

lemma am_rx_buf_rcvd:
  "am_rx_buf us G R rx \<Longrightarrow> R \<le> n \<Longrightarrow> n < R + 1024 \<Longrightarrow> rcvd rx (n mod 1024) \<longleftrightarrow> n \<in> G"
  unfolding am_rx_buf_def rcvd_def by (drule spec [of _ n]) (auto split: option.splits)

lemma am_next_incomplete_total:
  assumes "am_rx_buf us G R rx" "\<forall>k\<in>G. k < H" "H \<le> R + 512" "abs_sn sn R n" "n \<le> H"
  shows "\<exists>sn' m. am_next_incomplete rx sn = Some sn' \<and> abs_sn sn' R m \<and> n \<le> m \<and> m \<le> H \<and> m \<notin> G"
  using assms(4,5)
proof (induction "H - n" arbitrary: n sn)
  case (0 n sn)
  have "n \<notin> G"
    using 0 assms(2) by auto
  moreover have "rcvd rx (sn_val sn) \<longleftrightarrow> n \<in> G"
    using am_rx_buf_rcvd [OF assms(1), of n] 0(2) by (simp add: abs_sn_def)
  ultimately show ?case
    using 0 by (subst am_next_incomplete.simps) auto
next
  case (Suc d)
  have r: "rcvd rx (sn_val sn) \<longleftrightarrow> n \<in> G"
    using am_rx_buf_rcvd [OF assms(1), of n] Suc(3) by (simp add: abs_sn_def)
  show ?case
  proof (cases "n \<in> G")
    case True
    then have lt: "n < H"
      using assms(2) by blast
    have "\<exists>sn' m. am_next_incomplete rx (sn_inc sn) = Some sn' \<and> abs_sn sn' R m \<and> Suc n \<le> m \<and> m \<le> H \<and> m \<notin> G"
      using Suc(2) lt assms(3) abs_inc [OF Suc(3)] by (intro Suc(1)) auto
    then show ?thesis
      using r True by (subst am_next_incomplete.simps) (force dest: Suc_leD)
  next
    case False
    then show ?thesis
      using r Suc by (subst am_next_incomplete.simps) auto
  qed
qed

section \<open>Reassembly from VR(R)\<close>

lemma am_rx_buf_step:
  assumes "am_rx_buf us G R rx" "\<forall>n\<in>G. n < R + 1024"
  shows "am_rx_buf us G (Suc R) (smap_erase (word_of_nat (R mod 1024)) rx)"
  unfolding am_rx_buf_def
proof (intro allI impI)
  fix n
  assume n: "Suc R \<le> n \<and> n < Suc R + 1024"
  show "case map_of (smap_erase (word_of_nat (R mod 1024)) rx) (word_of_nat (n mod 1024)) of
          None \<Rightarrow> n \<notin> G
        | Some b \<Rightarrow> n \<in> G \<and> (\<exists>p. b = \<lparr>pb_byteSegments = [p], pb_pduComplete = True\<rparr> \<and>
            am_contents p (sn_make (word_of_nat (n mod 1024))) (us ! n))"
  proof (cases "n = R + 1024")
    case True
    then have "n mod 1024 = R mod 1024"
      by simp
    with True assms(2) show ?thesis
      by auto
  next
    case False
    then have "n mod 1024 \<noteq> R mod 1024"
      using n mod_off [of R n] by auto
    then have "(word_of_nat (n mod 1024) :: u16) \<noteq> word_of_nat (R mod 1024)"
      by (metis mod_less_divisor unat_u16_small zero_less_numeral)
    with assms(1) n False show ?thesis
      by (simp add: am_rx_buf_def)
  qed
qed

lemma sn_GetValue_word: "sn_val sn = v \<Longrightarrow> sn_GetValue sn = word_of_nat v"
  by (auto simp: sn_val_def sn_GetValue_def)

lemma am_contents_val: "am_contents p sn u \<Longrightarrow> sn_val sn = sn_val sn' \<Longrightarrow> am_contents p sn' u"
  by (simp add: am_contents_def sn_val_def word_unat_eq_iff)

lemma abs_next: "abs_sn a R n \<Longrightarrow> R < n \<Longrightarrow> abs_sn b (Suc R) (Suc R) \<Longrightarrow>
    abs_sn (sn_SetModulusBase a b) (Suc R) n"
  by (simp add: abs_sn_def)

lemma am_rx_core_step:
  assumes core: "am_rx_core us G R H M X s" and R: "R \<in> G" and M: "M \<notin> G"
    and r': "reas_rel (kept_at us (Suc R)) r'" "sn_val (m_expectedSeqNumber r') = Suc R mod 1024"
  shows "am_rx_core us G (Suc R) H M X (am_rx_step (s\<lparr>am_reas := r'\<rparr>))"
proof -
  note c = core [unfolded am_rx_core_def]
  have lt: "R < H" "R < M" "H \<le> R + 512"
    using c R M by (auto simp: abs_sn_def le_less)
  define r2 where "r2 = sn_SetModulusBase (sn_inc (am_vrR s)) (sn_inc (am_vrR s))"
  have r2: "abs_sn r2 (Suc R) (Suc R)"
    using c by (simp add: r2_def abs_sn_def mod_simps)
  have key: "sn_GetValue (am_vrR s) = word_of_nat (R mod 1024)"
    using c by (intro sn_GetValue_word) (simp add: abs_sn_def)
  have "am_rx_buf us G (Suc R) (smap_erase (word_of_nat (R mod 1024)) (am_rxonBuffer s))"
    using c lt(3) by (intro am_rx_buf_step) fastforce+
  then show ?thesis
    using c r2 lt R r' key abs_next [OF _ _ r2]
    by (simp add: am_rx_core_def am_rx_step_def Let_def flip: r2_def)
       (auto simp: abs_sn_def less_Suc_eq)
qed

lemma am_reassemble_loop_total:
  assumes "am_rx_core us G R H M X s" "M \<notin> G" "fits_stream None us"
  shows "\<exists>s' R'. am_reassemble_loop s = Some (s', sdus_between us R R') \<and> am_rx_core us G R' H M X s' \<and>
    R' \<notin> G \<and> R \<le> R' \<and> am_tx_same s s' \<and> am_reorderingTimer s' = am_reorderingTimer s \<and>
    am_vrMr s' = am_vrMr s"
  using assms(1)
proof (induction "H - R" arbitrary: R s rule: less_induct)
  case less
  note c = less.prems [unfolded am_rx_core_def]
  have buf: "am_rx_buf us G R (am_rxonBuffer s)"
    using c by simp
  have key: "sn_GetValue (am_vrR s) = word_of_nat (R mod 1024)"
    using c by (intro sn_GetValue_word) (simp add: abs_sn_def)
  show ?case
  proof (cases "R \<in> G")
    case False
    then have "map_of (am_rxonBuffer s) (word_of_nat (R mod 1024)) = None"
      using spec [OF buf [unfolded am_rx_buf_def], of R] by (auto split: option.splits)
    then have "am_reassemble_loop s = Some (s, sdus_between us R R)"
      using key by (subst am_reassemble_loop.simps) simp
    then show ?thesis
      using less.prems False by (intro exI [of _ s] exI [of _ R]) simp
  next
    case True
    then obtain p where p: "map_of (am_rxonBuffer s) (word_of_nat (R mod 1024))
        = Some \<lparr>pb_byteSegments = [p], pb_pduComplete = True\<rparr>"
      "am_contents p (sn_make (word_of_nat (R mod 1024))) (us ! R)"
      using spec [OF buf [unfolded am_rx_buf_def], of R] by (auto split: option.splits)
    have len: "R < length us" "R < H"
      using c True by auto
    have "am_contents p (m_expectedSeqNumber (am_reas s)) (us ! R)"
      using p(2) c by (auto intro: am_contents_val)
    from am_reassemble_in_sequence [OF _ fits_at [OF assms(3) len(1)] this] c obtain r' where
      r': "am_ReassembleAndDeliver (am_reas s) p = Some (r', sdus_at us R)"
        "reas_rel (kept_at us (Suc R)) r'" "sn_val (m_expectedSeqNumber r') = Suc R mod 1024"
      by (auto simp: sdus_at_def spec_stream_step(1) [OF len(1)] mod_simps)
    let ?s = "am_rx_step (s\<lparr>am_reas := r'\<rparr>)"
    note core = am_rx_core_step [OF less.prems True assms(2) r'(2,3)]
    have same: "am_tx_same s ?s" "am_reorderingTimer ?s = am_reorderingTimer s" "am_vrMr ?s = am_vrMr s"
      by (simp_all add: am_tx_same_def am_rx_step_def Let_def)
    have "H - Suc R < H - R"
      using len(2) by simp
    from less.hyps [OF this core] obtain s' R' where
      l: "am_reassemble_loop ?s = Some (s', sdus_between us (Suc R) R')" "am_rx_core us G R' H M X s'"
        "R' \<notin> G" "Suc R \<le> R'" "am_tx_same ?s s'" "am_reorderingTimer s' = am_reorderingTimer ?s"
        "am_vrMr s' = am_vrMr ?s"
      by blast
    have "am_reassemble_loop s = Some (s', sdus_at us R @ sdus_between us (Suc R) R')"
      using p(1) key r'(1) l(1) by (subst am_reassemble_loop.simps) simp
    then show ?thesis
      using l same am_tx_same_trans [OF same(1) l(5)]
      by (intro exI [of _ s'] exI [of _ R']) simp
  qed
qed

section \<open>A data PDU received\<close>

text \<open>The queue contract only depends on the members of the transmitting side.\<close>

lemma am_qinv_same:
  assumes "am_tx_same s t" "am_qinv s" "am_report_ok t"
  shows "am_qinv t"
proof -
  have "am_tx_inv t = am_tx_inv s"
    using assms(1) by (intro am_tx_inv_cong) (simp_all add: am_tx_same_def)
  then show ?thesis
    using assms by (auto simp: am_qinv_def am_tx_same_def am_sizes_ok_def)
qed

lemma am_rx_core_report: "am_rx_core us G R H M X s \<Longrightarrow> am_report_ok s"
  using abs_off [of "am_vrR s" R R] abs_off [of "am_vrMs s" R M]
  by (auto simp: am_rx_core_def am_report_ok_def dest: abs_sn_wf) (simp add: abs_sn_def)

lemma am_rx_rel_report: "am_rx_rel us G R s \<Longrightarrow> am_report_ok s"
  unfolding am_rx_rel_def using am_rx_core_report by blast

text \<open>The window test changes nothing, because the bases are set already.\<close>

lemma am_IsInside_abs:
  assumes core: "am_rx_core us G R H M X s" and mr: "abs_sn (am_vrMr s) R (R + 512)" and sn: "sn_wf sn"
  shows "am_IsInsideReceivingWindow sn s
    = ((sn_val sn + 1024 - R mod 1024) mod 1024 < 512, s)"
proof -
  have r: "abs_sn (am_vrR s) R R"
    using core by (simp add: am_rx_core_def)
  let ?sn = "sn_SetModulusBase sn (am_vrR s)"
  have same: "s\<lparr>am_vrR := sn_SetModulusBase (am_vrR s) (am_vrR s)\<rparr> = s"
    "s\<lparr>am_vrMr := sn_SetModulusBase (am_vrMr s) (am_vrR s)\<rparr> = s"
    using abs_self [OF r] abs_rebase [OF mr r] by simp_all
  have w: "sn_wf (am_vrR s)" "sn_wf (am_vrMr s)"
    using abs_sn_wf [OF r] abs_sn_wf [OF mr] by simp_all
  then have wf: "sn_wf ?sn" "sn_base ?sn = sn_base (am_vrMr s)" "sn_base (am_vrR s) = sn_base ?sn"
    "sn_wf (am_vrR s)" "sn_wf (am_vrMr s)"
    using sn r mr by (simp_all add: abs_sn_def)
  have "sn_off ?sn = (sn_val sn + 1024 - R mod 1024) mod 1024"
    using r by (simp add: sn_off_def abs_sn_def)
  then show ?thesis
    using same abs_self [OF r] abs_rebase [OF mr r] sn_le_iff_off [OF wf(4,1,3)] sn_lt_iff_off [OF wf(1,5,2)] abs_off [OF r] abs_off [OF mr]
    by (simp add: am_IsInsideReceivingWindow_def Let_def)
qed

lemma am_rx_place_core:
  assumes core: "am_rx_core us G R H M X s" and n: "R \<le> n" "n < R + 512" "n < length us"
    and sn: "abs_sn sn R n" and c: "am_contents p sn (us ! n)" and v: "\<forall>k\<in>G. k < H"
  shows "am_rx_core us (insert n G) R (max H (Suc n)) M X (am_rx_vrH sn (am_rx_place sn p s))"
    and "am_tx_same s (am_rx_vrH sn (am_rx_place sn p s))"
    and "am_reorderingTimer (am_rx_vrH sn (am_rx_place sn p s)) = am_reorderingTimer s"
    and "am_vrMr (am_rx_vrH sn (am_rx_place sn p s)) = am_vrMr s"
proof -
  note d = core [unfolded am_rx_core_def]
  let ?k = "word_of_nat (n mod 1024) :: u16" and ?t = "am_rx_place sn p s"
  have key: "sn_GetValue sn = ?k"
    using sn by (intro sn_GetValue_word) (simp add: abs_sn_def)
  have val: "sn_val sn = n mod 1024"
    using sn by (simp add: abs_sn_def)
  have buf: "am_rx_buf us (insert n G) R (am_rxonBuffer ?t)"
    unfolding am_rx_buf_def
  proof (intro allI impI)
    fix m
    assume m: "R \<le> m \<and> m < R + 1024"
    have old: "case map_of (am_rxonBuffer s) (word_of_nat (m mod 1024)) of None \<Rightarrow> m \<notin> G
        | Some b \<Rightarrow> m \<in> G \<and> (\<exists>p. b = \<lparr>pb_byteSegments = [p], pb_pduComplete = True\<rparr> \<and>
             am_contents p (sn_make (word_of_nat (m mod 1024))) (us ! m))"
      using d m by (simp add: am_rx_buf_def)
    show "case map_of (am_rxonBuffer ?t) (word_of_nat (m mod 1024)) of None \<Rightarrow> m \<notin> insert n G
        | Some b \<Rightarrow> m \<in> insert n G \<and> (\<exists>p. b = \<lparr>pb_byteSegments = [p], pb_pduComplete = True\<rparr> \<and>
             am_contents p (sn_make (word_of_nat (m mod 1024))) (us ! m))"
    proof (cases "m = n")
      case True
      then show ?thesis
        using old am_contents_val [OF c, of "sn_make (word_of_nat (n mod 1024))"] key val
        by (auto simp: am_rx_place_def smap_has_def split: option.splits)
    next
      case False
      then have "m mod 1024 \<noteq> n mod 1024"
        using m n mod_off [of R m] mod_off [of R n] by auto
      then have "(word_of_nat (m mod 1024) :: u16) \<noteq> ?k"
        by (metis mod_less_divisor unat_u16_small zero_less_numeral)
      then show ?thesis
        using old False key by (auto simp: am_rx_place_def split: option.splits)
    qed
  qed
  have mem: "am_windowSize ?t = am_windowSize s" "am_vrR ?t = am_vrR s" "am_vrH ?t = am_vrH s"
    "am_vrMs ?t = am_vrMs s" "am_vrX ?t = am_vrX s" "am_reas ?t = am_reas s" "am_vrMr ?t = am_vrMr s"
    "am_reorderingTimer ?t = am_reorderingTimer s" "am_tx_same s ?t"
    by (simp_all add: am_rx_place_def am_tx_same_def)
  have h: "abs_sn (am_vrH s) R H"
    using d by simp
  have vrH: "abs_sn (am_vrH (am_rx_vrH sn ?t)) R (max H (Suc n))"
    using abs_cmp(4) [OF sn h] abs_plus [OF sn, of 1] n(2) h
    by (cases "H \<le> n") (auto simp: am_rx_vrH_def mem max_absorb1 max_absorb2 not_le Suc_le_eq)
  show "am_rx_core us (insert n G) R (max H (Suc n)) M X (am_rx_vrH sn ?t)"
    using d buf vrH mem n(3) v
    unfolding am_rx_core_def by (auto simp: am_rx_vrH_def less_max_iff_disj max_def split: if_splits)
  show "am_tx_same s (am_rx_vrH sn ?t)" "am_reorderingTimer (am_rx_vrH sn ?t) = am_reorderingTimer s"
    "am_vrMr (am_rx_vrH sn ?t) = am_vrMr s"
    using mem by (simp_all add: am_rx_vrH_def am_tx_same_def)
qed

text \<open>VR(MS), delivery and the timer.\<close>

lemma am_rx_vrMs_core:
  assumes core: "am_rx_core us G R H M X s"
  shows "\<exists>t M'. am_rx_vrMs s = Some t \<and> am_rx_core us G R H M' X t \<and> M' \<notin> G \<and>
    am_tx_same s t \<and> am_reorderingTimer t = am_reorderingTimer s \<and> am_vrMr t = am_vrMr s"
proof -
  note d = core [unfolded am_rx_core_def]
  have "\<forall>k\<in>G. k < H" "H \<le> R + 512"
    using d by (auto simp: abs_sn_def)
  with am_next_incomplete_total [of us G R "am_rxonBuffer s" H "am_vrMs s" M] d obtain sn m where
    m: "am_next_incomplete (am_rxonBuffer s) (am_vrMs s) = Some sn" "abs_sn sn R m" "M \<le> m" "m \<le> H" "m \<notin> G"
    by auto
  have "am_rx_core us G R H m X (s\<lparr>am_vrMs := sn\<rparr>)"
    using d m by (simp add: am_rx_core_def)
  then show ?thesis
    using m(1,5) by (intro exI [of _ "s\<lparr>am_vrMs := sn\<rparr>"] exI [of _ m]) (simp add: am_rx_vrMs_def am_tx_same_def)
qed

lemma am_rx_deliver_core:
  assumes core: "am_rx_core us G R H M X s" and M: "M \<notin> G" and fits: "fits_stream None us"
    and mr: "abs_sn (am_vrMr s) R (R + 512)" and sn: "abs_sn sn R n" and n: "n \<in> G" and old: "R \<in> G \<longrightarrow> n = R"
  shows "\<exists>t R'. am_rx_deliver sn s = Some (t, sdus_between us R R') \<and> am_rx_core us G R' H M X t \<and>
    R' \<notin> G \<and> R \<le> R' \<and> am_tx_same s t \<and> am_reorderingTimer t = am_reorderingTimer s \<and>
    abs_sn (am_vrMr t) R' (R' + 512)"
proof -
  note d = core [unfolded am_rx_core_def]
  have r: "abs_sn (am_vrR s) R R" and buf: "am_rx_buf us G R (am_rxonBuffer s)"
    using d by simp_all
  have eq: "sn_eq sn (am_vrR s) \<longleftrightarrow> n = R"
    by (rule abs_eq [OF sn r])
  have rc: "am_received (am_rxonBuffer s) sn"
    using am_rx_buf_rcvd [OF buf, of n] sn n by (simp add: abs_sn_def)
  show ?thesis
  proof (cases "n = R")
    case True
    from am_reassemble_loop_total [OF core M fits] obtain t R' where
      t: "am_reassemble_loop s = Some (t, sdus_between us R R')" "am_rx_core us G R' H M X t" "R' \<notin> G" "R \<le> R'"
        "am_tx_same s t" "am_reorderingTimer t = am_reorderingTimer s"
      by blast
    let ?t = "t\<lparr>am_vrMr := sn_plus (am_vrR t) (am_windowSize t)\<rparr>"
    have "am_rx_core us G R' H M X ?t" "am_tx_same s ?t"
      using t(2,5) by (simp_all add: am_rx_core_def am_tx_same_def)
    moreover have "abs_sn (am_vrMr ?t) R' (R' + 512)"
      using t(2) by (simp add: am_rx_core_def abs_sn_def mod_simps)
    ultimately show ?thesis
      using t eq rc True by (intro exI [of _ ?t] exI [of _ R']) (simp add: am_rx_deliver_def)
  next
    case False
    then show ?thesis
      using core eq mr old by (intro exI [of _ s] exI [of _ R]) (simp add: am_rx_deliver_def)
  qed
qed

lemma am_rx_timers_rel:
  assumes core: "am_rx_core us G R' H M X s" and mr: "abs_sn (am_vrMr s) R' (R' + 512)"
    and M: "M \<notin> G" and R': "R' \<notin> G" and tm: "am_reorderingTimer s \<noteq> None \<longrightarrow> R' < X + 512 \<and> X \<le> H"
  shows "am_rx_rel us G R' (am_rx_start_timer now (am_rx_stop_timer s))"
    and "am_tx_same s (am_rx_start_timer now (am_rx_stop_timer s))"
proof -
  note d = core [unfolded am_rx_core_def]
  have r: "abs_sn (am_vrR s) R' R'" and h: "abs_sn (am_vrH s) R' H"
    using d by simp_all
  have x: "sn_wf (am_vrX s)"
    using d by (simp add: sn_wf_nat)
  have H: "H \<le> R' + 512"
    using h by (simp add: abs_sn_def)
  define t where "t = am_rx_stop_timer s"
  have t: "am_rx_core us G R' H M X t" "am_vrMr t = am_vrMr s" "am_tx_same s t"
    "am_reorderingTimer t \<noteq> None \<longrightarrow> R' < X \<and> X \<le> H"
  proof -
    have stop: "t = s \<or> t = s\<lparr>am_reorderingTimer := None\<rparr>"
      using am_IsInside_abs [OF core mr x] by (auto simp: t_def am_rx_stop_timer_def Let_def)
    then show "am_rx_core us G R' H M X t" "am_vrMr t = am_vrMr s" "am_tx_same s t"
      using core by (auto simp: am_rx_core_def am_tx_same_def)
    show "am_reorderingTimer t \<noteq> None \<longrightarrow> R' < X \<and> X \<le> H"
    proof
      assume run: "am_reorderingTimer t \<noteq> None"
      then have run': "am_reorderingTimer s \<noteq> None" "R' < X + 512" "X \<le> H"
        using stop tm by auto
      have "R' < X"
      proof (rule ccontr)
        assume "\<not> R' < X"
        then have off: "(R' mod 1024 + 1024 - X mod 1024) mod 1024 = R' - X"
          using run'(2) by (intro mod_off) auto
        show False
        proof (cases "X = R'")
          case True
          then have "sn_eq (am_vrX s) (am_vrR s)"
            using d r by (simp add: sn_eq_iff_val abs_sn_def)
          then show False
            using run run' by (simp add: t_def am_rx_stop_timer_def)
        next
          case False
          define e where "e = R' - X"
          have e: "R' = X + e" "0 < e" "e < 512"
            using False run' \<open>\<not> R' < X\<close> by (auto simp: e_def)
          have "((X + 1024) mod 1024 + 1024 - R' mod 1024) mod 1024 = X + 1024 - R'"
            using e by (intro mod_off) auto
          then have "\<not> (sn_val (am_vrX s) + 1024 - R' mod 1024) mod 1024 < 512"
            using d e by simp
          moreover have "sn_val (am_vrX s) \<noteq> sn_val (am_vrMr s)"
          proof
            assume "sn_val (am_vrX s) = sn_val (am_vrMr s)"
            then have "(0 + X) mod 1024 = (e + 512 + X) mod 1024"
              using d mr e(1) by (simp add: abs_sn_def ac_simps)
            then have "0 = e + 512"
              by (rule mod_1024_cancel) (use e in auto)
            then show False by simp
          qed
          moreover have "\<not> sn_eq (am_vrX s) (am_vrR s)"
            using d r off False \<open>\<not> R' < X\<close> by (auto simp: sn_eq_iff_val abs_sn_def)
          ultimately show False
            using run run' am_IsInside_abs [OF core mr x]
            by (auto simp: t_def am_rx_stop_timer_def Let_def sn_neq_iff_val)
        qed
      qed
      then show "R' < X \<and> X \<le> H"
        using run' by simp
    qed
  qed
  have gt: "sn_gt (am_vrH t) (am_vrR t) \<longleftrightarrow> R' < H"
    using t(1) abs_cmp(3) [of "am_vrH t" R' H "am_vrR t" R'] by (simp add: am_rx_core_def)
  show "am_tx_same s (am_rx_start_timer now (am_rx_stop_timer s))"
    using t(3) by (simp add: am_rx_start_timer_def am_tx_same_def flip: t_def)
  show "am_rx_rel us G R' (am_rx_start_timer now (am_rx_stop_timer s))"
  proof (cases "am_reorderingTimer t = None \<and> R' < H")
    case True
    let ?u = "t\<lparr>am_reorderingTimer := Some (now + am_reorderingTimerValue t), am_vrX := am_vrH t\<rparr>"
    have "am_rx_core us G R' H M H ?u"
      using t(1) by (simp add: am_rx_core_def abs_sn_def)
    with True gt t(2) mr M R' show ?thesis
      unfolding am_rx_rel_def
      by (simp add: am_rx_start_timer_def flip: t_def) (fastforce simp: t(2))
  next
    case False
    with gt t mr M R' show ?thesis
      unfolding am_rx_rel_def by (auto simp: am_rx_start_timer_def simp flip: t_def)
  qed
qed

lemma am_rx_core_cong:
  assumes "am_windowSize t = am_windowSize s" "am_vrR t = am_vrR s" "am_vrH t = am_vrH s"
    "am_vrMs t = am_vrMs s" "am_vrX t = am_vrX s" "am_rxonBuffer t = am_rxonBuffer s" "am_reas t = am_reas s"
  shows "am_rx_core us G R H M X t = am_rx_core us G R H M X s"
  using assms by (simp add: am_rx_core_def)

text \<open>The poll bit sets a request and may cause a report.\<close>

lemma am_rx_poll_some:
  assumes q: "am_qinv s" and core: "am_rx_core us G R H M X s"
  shows "\<exists>t as. am_rx_poll now h s = Some (t, as) \<and> delivered as = [] \<and> transmitted as = [] \<and> am_tx_same s t \<and>
    am_rx_core us G R H M X t \<and> am_vrMr t = am_vrMr s \<and> am_reorderingTimer t = am_reorderingTimer s"
proof (cases "ah_pollingBit h = STATUS_REPORT_IS_REQUESTED")
  case False
  then show ?thesis
    using core by (simp add: am_rx_poll_def)
next
  case True
  let ?t = "s\<lparr>am_statusPduRequested := True, am_statusPduBufferSize := 4\<rparr>"
  obtain kept where "am_sizes_ok s" "um_tx_ok kept (am_txonBuffer s)"
    using q by (auto simp: am_qinv_def)
  then obtain as where as: "am_DoReportBufferStatus now ?t = Some as" "transmitted as = []" "delivered as = []"
    using am_pending_iff [of s kept] by (auto simp: am_DoReportBufferStatus_def Let_def)
  have same: "am_tx_same s ?t" "am_rx_core us G R H M X ?t"
    using core by (simp_all add: am_tx_same_def am_rx_core_def)
  show ?thesis
  proof (cases "am_statusProhibitTimer s = None")
    case True
    then show ?thesis
      using \<open>ah_pollingBit h = _\<close> same as by (intro exI [of _ ?t] exI [of _ as]) (simp add: am_rx_poll_def Let_def)
  next
    case False
    then show ?thesis
      using \<open>ah_pollingBit h = _\<close> same by (intro exI [of _ ?t] exI [of _ "[]"]) (auto simp: am_rx_poll_def Let_def)
  qed
qed

text \<open>
  PDU n arrives while the first PDU not delivered is R: a PDU already delivered changes nothing, another one
  is stored, and the SDUs that are complete now are delivered.
\<close>

lemma am_receive_pdu:
  assumes q: "am_qinv s" and rel: "am_rx_rel us G R s" and fits: "fits_stream None us"
    and n: "n < length us" "n < R + 512" "R \<le> n + 512"
    and p: "am_pdu p (sn_make (word_of_nat (n mod 1024))) (us ! n)"
  shows "\<exists>t as R'. am_DoReceivePdu now p s = Some (t, as) \<and> delivered as = sdus_between us R R' \<and>
    transmitted as = [] \<and> R \<le> R' \<and> am_rx_rel us (insert n G) R' t \<and> am_qinv t \<and> am_tx_same s t"
proof -
  obtain H M X where core: "am_rx_core us G R H M X s" and mr: "abs_sn (am_vrMr s) R (R + 512)"
    and M: "M \<notin> G" and R: "R \<notin> G" and tm: "am_reorderingTimer s \<noteq> None \<longrightarrow> R < X \<and> X \<le> H"
    using rel by (auto simp: am_rx_rel_def)
  obtain h pl where h: "RemoveHeader am_des p = Some (h, pl)" "am_IsDataPdu h"
    "ah_resegmentationFlag h = RF_PDU" "sn_val (ah_sequenceNumber h) = n mod 1024"
    using p by (auto simp: am_pdu_def am_data_hwf_def am_IsDataPdu_def sn_make_def sn_val_def word_unat_eq_iff)
  then have peek: "PeekHeader am_des p = Some h"
    by (auto simp: RemoveHeader_def PeekHeader_def split: option.splits if_splits)
  let ?sn = "sn_SetModulusBase (ah_sequenceNumber h) (am_vrR s)"
  have sn: "sn_val ?sn = n mod 1024" "sn_base ?sn = R mod 1024"
    using h(4) core by (simp_all add: am_rx_core_def abs_sn_def)
  then have wf: "sn_wf ?sn"
    by (simp add: sn_wf_nat)
  from am_rx_poll_some [OF q core] obtain s1 as where
    s1: "am_rx_poll now h s = Some (s1, as)" "delivered as = []" "transmitted as = []" "am_tx_same s s1"
      "am_rx_core us G R H M X s1" "am_vrMr s1 = am_vrMr s" "am_reorderingTimer s1 = am_reorderingTimer s"
    by blast
  have mr1: "abs_sn (am_vrMr s1) R (R + 512)"
    using mr s1(6) by simp
  note inside = am_IsInside_abs [OF s1(5) mr1 wf]
  have run: "am_DoReceivePdu now p s = am_receive_data now h p s"
    using peek h(2) by (simp add: am_DoReceivePdu_def)
  show ?thesis
  proof (cases "n < R")
    case True
    have "((n + 1024) mod 1024 + 1024 - R mod 1024) mod 1024 = n + 1024 - R"
      using True n(3) by (intro mod_off) auto
    moreover have "\<not> n + 1024 - R < 512"
      using True n(3) by linarith
    ultimately have "am_receive_data now h p s = Some (s1, as)"
      using s1(1) inside sn True n(3) h(3) by (simp add: am_receive_data_def Let_def)
    moreover have "insert n G = G"
      using True core by (auto simp: am_rx_core_def)
    moreover have "am_rx_rel us G R s1"
      unfolding am_rx_rel_def using s1 mr1 M R tm by auto
    ultimately show ?thesis
      using run s1 am_qinv_same [OF s1(4) q] am_rx_core_report [OF s1(5)]
      by (intro exI [of _ s1] exI [of _ as] exI [of _ R]) simp
  next
    case False
    then have "(n mod 1024 + 1024 - R mod 1024) mod 1024 = n - R"
      using n(2) by (intro mod_off) auto
    then have ins: "am_IsInsideReceivingWindow ?sn s1 = (True, s1)"
      using inside sn n(2) False by simp
    have abs: "abs_sn ?sn R n"
      using sn False n(2) by (simp add: abs_sn_def)
    have ok: "am_rx_place_ok ?sn s1"
    proof -
      have "am_rx_buf us G R (am_rxonBuffer s1)" "sn_GetValue ?sn = word_of_nat (n mod 1024)"
        using s1(5) abs by (simp_all add: am_rx_core_def abs_sn_def sn_GetValue_word)
      then show ?thesis
        using False n(2) unfolding am_rx_buf_def am_rx_place_ok_def
        by (auto split: option.splits dest!: spec [of _ n])
    qed
    have c: "am_contents p ?sn (us ! n)"
      using am_contents_val [OF am_pdu_contents [OF p], of ?sn] sn by simp
    have "\<forall>k\<in>G. k < H"
      using core by (simp add: am_rx_core_def)
    note place = am_rx_place_core [OF s1(5) _ n(2,1) abs c this]
    define s2 where "s2 = am_rx_vrH ?sn (am_rx_place ?sn p s1)"
    have s2: "am_rx_core us (insert n G) R (max H (Suc n)) M X s2" "am_tx_same s1 s2"
      "am_reorderingTimer s2 = am_reorderingTimer s" "am_vrMr s2 = am_vrMr s"
      using place False s1(6,7) by (simp_all add: s2_def)
    from am_rx_vrMs_core [OF s2(1)] obtain s3 M' where
      s3: "am_rx_vrMs s2 = Some s3" "am_rx_core us (insert n G) R (max H (Suc n)) M' X s3" "M' \<notin> insert n G"
        "am_tx_same s2 s3" "am_reorderingTimer s3 = am_reorderingTimer s" "am_vrMr s3 = am_vrMr s"
      using s2(3,4) by auto
    have "abs_sn (am_vrMr s3) R (R + 512)"
      using mr s3(6) by simp
    from am_rx_deliver_core [OF s3(2,3) fits this abs] R obtain s4 R' where
      s4: "am_rx_deliver ?sn s3 = Some (s4, sdus_between us R R')"
        "am_rx_core us (insert n G) R' (max H (Suc n)) M' X s4" "R' \<notin> insert n G" "R \<le> R'" "am_tx_same s3 s4"
        "am_reorderingTimer s4 = am_reorderingTimer s3" "abs_sn (am_vrMr s4) R' (R' + 512)"
      by auto
    have "R' \<le> max H (Suc n)" "max H (Suc n) \<le> R + 512"
      using s4(2) s3(2) by (auto simp: am_rx_core_def abs_sn_def)
    then have tm': "am_reorderingTimer s4 \<noteq> None \<longrightarrow> R' < X + 512 \<and> X \<le> max H (Suc n)"
      using tm s4(6) s3(5) by auto
    define t where "t = am_rx_start_timer now (am_rx_stop_timer s4)"
    note fin = am_rx_timers_rel [OF s4(2,7) s3(3) s4(3) tm', of now, folded t_def]
    have same: "am_tx_same s t"
      using s1(4) s2(2) s3(4) s4(5) fin(2) am_tx_same_trans by blast
    have "am_receive_data now h p s = Some (t, as @ map ReceivePdcpPdu (sdus_between us R R'))"
      using h(3) s1(1) ins ok s3(1) s4(1) by (simp add: am_receive_data_def Let_def t_def flip: s2_def)
    then show ?thesis
      using run s1(2,3) s4(4) fin(1) same am_qinv_same [OF same q] am_rx_rel_report [OF fin(1)]
      by (intro exI [of _ t] exI [of _ "as @ map ReceivePdcpPdu (sdus_between us R R')"] exI [of _ R']) simp
  qed
qed

section \<open>A stream of arrivals\<close>

text \<open>The first number that has not arrived.\<close>

definition first_missing :: "nat list \<Rightarrow> nat" where
  "first_missing ns = hd (filter (\<lambda>n. n \<notin> set ns) [0..<Suc (length ns)])"

lemma first_missing_unique:
  assumes "R \<notin> set ns" "{..<R} \<subseteq> set ns"
  shows "first_missing ns = R"
proof -
  have "card {..<R} \<le> length ns"
    using card_mono [OF _ assms(2)] card_length [of ns] by simp
  then have "[0..<Suc (length ns)] = [0..<R] @ R # [Suc R..<Suc (length ns)]"
    using upt_add_eq_append [of 0 R "Suc (length ns) - R"] by (simp add: upt_conv_Cons del: upt_Suc)
  moreover have "filter (\<lambda>n. n \<notin> set ns) [0..<R] = []"
    using assms(2) by (auto simp: filter_empty_conv)
  ultimately show ?thesis
    using assms(1) by (simp add: first_missing_def)
qed

text \<open>Every PDU is close to the first missing one when it arrives; ms have arrived before.\<close>

fun arrivals_ok :: "nat list \<Rightarrow> nat list \<Rightarrow> bool" where
  "arrivals_ok ms [] = True"
| "arrivals_ok ms (n # ns) =
     (n < first_missing ms + 512 \<and> first_missing ms \<le> n + 512 \<and> arrivals_ok (n # ms) ns)"

fun am_rx_all :: "time_ns \<Rightarrow> bytes list \<Rightarrow> rlc_am \<Rightarrow> (rlc_am \<times> bytes list) option" where
  "am_rx_all now [] s = Some (s, [])"
| "am_rx_all now (p # ps) s =
     (case am_DoReceivePdu now p s of
        None \<Rightarrow> None
      | Some (s', as) \<Rightarrow> map_option (\<lambda>(s'', d). (s'', delivered as @ d)) (am_rx_all now ps s'))"

lemma am_rx_rel_missing: "am_rx_rel us (set ms) R s \<Longrightarrow> R = first_missing ms"
  by (auto simp: am_rx_rel_def am_rx_core_def intro!: first_missing_unique [symmetric])

lemma am_rx_all_stream:
  assumes "am_qinv s" "am_rx_rel us (set ms) R s" "fits_stream None us" "arrivals_ok ms ns"
    and "list_all2 (\<lambda>n p. n < length us \<and> am_pdu p (sn_make (word_of_nat (n mod 1024))) (us ! n)) ns ps"
  shows "\<exists>t R'. am_rx_all now ps s = Some (t, sdus_between us R R') \<and> R \<le> R' \<and> am_qinv t \<and>
    am_rx_rel us (set (rev ns @ ms)) R' t"
  using assms(5,1,2,4)
proof (induction ns ps arbitrary: s ms R rule: list_all2_induct)
  case Nil
  then show ?case
    by (intro exI [of _ s] exI [of _ R]) simp
next
  case (Cons n ns p ps)
  have R: "R = first_missing ms"
    using am_rx_rel_missing Cons.prems(2) by blast
  have n: "n < length us" "n < R + 512" "R \<le> n + 512"
    "am_pdu p (sn_make (word_of_nat (n mod 1024))) (us ! n)"
    using Cons.hyps Cons.prems(3) R by auto
  from am_receive_pdu [OF Cons.prems(1,2) assms(3) n, of now] obtain s' as R1 where
    1: "am_DoReceivePdu now p s = Some (s', as)" "delivered as = sdus_between us R R1" "R \<le> R1"
      "am_rx_rel us (set (n # ms)) R1 s'" "am_qinv s'"
    by auto
  from Cons.IH [OF 1(5,4)] Cons.prems(3) obtain t R' where
    2: "am_rx_all now ps s' = Some (t, sdus_between us R1 R')" "R1 \<le> R'" "am_qinv t"
      "am_rx_rel us (set (rev ns @ n # ms)) R' t"
    by auto
  show ?case
    using 1 2 sdus_between_trans [OF 1(3) 2(2), of us]
    by (intro exI [of _ t] exI [of _ R']) simp
qed

end
