(* ===== verification/RlcAmTimers.thy ===== *)
theory RlcAmTimers
  imports RlcAmRecv
begin

text \<open>
  The timers of \<^verbatim>\<open>LteRlcAm\<close>: none of the handlers fails, and all keep the invariants of both
  sides. On expiry of t-PollRetransmit, when nothing else is to be sent or the window is full, every
  PDU that is not acknowledged is scheduled for retransmission.
\<close>

section \<open>t-PollRetransmit\<close>

lemma am_txed_to_retx_nacked: "am_txed_to_retx = am_nacked"
  by (simp add: fun_eq_iff am_nacked_def)

lemma am_move_all_total:
  assumes "am_tx_inv s" "sn_wf sn" "sn_base sn = sn_val (am_vtA s)" "sn_off sn \<le> sn_off (am_vtS s)"
  shows "\<exists>t. am_move_all sn s = Some t \<and> am_tx_inv t \<and> am_tx_rest s t \<and>
    am_vtA t = am_vtA s \<and> am_vtS t = am_vtS s \<and>
    (\<forall>i<1024. am_slot t i =
      (if i \<in> set (sn_run (sn_val sn) (sn_off (am_vtS s) - sn_off sn))
       then (None, if fst (am_slot s i) = None then snd (am_slot s i) else fst (am_slot s i))
       else am_slot s i))"
  using assms
proof (induction "sn_off (am_vtS s) - sn_off sn" arbitrary: sn s)
  case 0
  have wf: "sn_wf (am_vtS s)" "sn_base (am_vtS s) = sn_val (am_vtA s)"
    using 0(2) by (simp_all add: am_tx_inv_def am_window_ok_def)
  then have "\<not> sn_lt sn (am_vtS s)"
    using 0 by (simp add: sn_cmp)
  then show ?case
    using 0 by (subst am_move_all.simps) simp
next
  case (Suc m)
  have wf: "sn_wf (am_vtS s)" "sn_base (am_vtS s) = sn_val (am_vtA s)" "sn_off (am_vtS s) \<le> 512"
    using Suc(3) by (simp_all add: am_tx_inv_def am_window_ok_def)
  then have lt: "sn_lt sn (am_vtS s)" "sn_off sn < sn_off (am_vtS s)"
    using Suc by (simp_all add: sn_cmp)
  have v: "sn_val sn < 1024"
    using Suc(4) by (simp add: sn_wf_nat)
  let ?s = "am_txed_to_retx sn s"
  have one: "am_tx_inv ?s" "am_vtA ?s = am_vtA s" "am_vtS ?s = am_vtS s" "am_tx_rest s ?s"
    using am_tx_inv_txed_to_retx [OF Suc(3) v] am_tx_rest_steps(2)
    by (simp_all add: am_txed_to_retx_def Let_def split: option.splits)
  have off: "sn_off (sn_inc sn) = Suc (sn_off sn)"
    using sn_off_inc [OF Suc(4) wf(1)] Suc(5) wf(2) lt(2) by simp
  have "m = sn_off (am_vtS ?s) - sn_off (sn_inc sn)"
    using Suc(2) one(3) off by simp
  from Suc(1) [OF this one(1)] obtain t where
    t: "am_move_all (sn_inc sn) ?s = Some t" "am_tx_inv t" "am_tx_rest ?s t" "am_vtA t = am_vtA ?s" "am_vtS t = am_vtS ?s"
      "\<forall>i<1024. am_slot t i = (if i \<in> set (sn_run (sn_val (sn_inc sn)) m)
        then (None, if fst (am_slot ?s i) = None then snd (am_slot ?s i) else fst (am_slot ?s i))
        else am_slot ?s i)"
    using Suc(4,5) lt(2) off one \<open>m = _\<close> by auto
  have run: "sn_run (sn_val sn) (Suc m) = sn_val sn # sn_run (sn_val (sn_inc sn)) m"
    using sn_run_Suc [OF v] by simp
  have "m \<le> 1023"
    using Suc(2) wf(3) by linarith
  then have fresh: "sn_val sn \<notin> set (sn_run (sn_val (sn_inc sn)) m)"
    using sn_run_fresh [OF v] by simp
  have slots: "am_slot t i = (if i \<in> set (sn_run (sn_val sn) (Suc m))
        then (None, if fst (am_slot s i) = None then snd (am_slot s i) else fst (am_slot s i))
        else am_slot s i)" if "i < 1024" for i
    using t(6) that am_slot_nacked [OF Suc(3) that v] fresh
    by (auto simp: run am_txed_to_retx_nacked)
  have "am_move_all sn s = Some t"
    using t(1) lt(1) by (subst am_move_all.simps) simp
  then show ?case
    using t(2-5) one slots am_tx_rest_trans [OF one(4) t(3)] by (simp flip: Suc(2))
qed

text \<open>Whether the timer moves the PDUs.\<close>

definition am_poll_moves :: "rlc_am \<Rightarrow> bool" where
  "am_poll_moves s \<longleftrightarrow> (am_txonBuffer s = [] \<and> am_retxBufferSize s = 0) \<or> sn_off (am_vtS s) = 512"

lemma am_qinv_rest:
  assumes "am_tx_rest s t" "am_tx_inv t" "am_qinv s"
  shows "am_qinv t"
  using assms by (simp add: am_qinv_def am_tx_rest_def am_sizes_ok_def am_report_ok_def)

lemma am_report_shape:
  assumes "am_qinv s" "am_txonBuffer t = am_txonBuffer s" "am_txonBufferSize t = am_txonBufferSize s"
  shows "\<exists>as. am_DoReportBufferStatus now t = Some as \<and> transmitted as = [] \<and> delivered as = []"
proof -
  obtain kept where "am_sizes_ok s" "um_tx_ok kept (am_txonBuffer s)"
    using assms(1) by (auto simp: am_qinv_def)
  then show ?thesis
    using am_pending_iff [of s kept] assms(2,3) by (auto simp: am_DoReportBufferStatus_def Let_def)
qed

lemma am_ExpirePollRetransmitTimer_total:
  assumes q: "am_qinv s"
  shows "\<exists>t as. am_ExpirePollRetransmitTimer now s = Some (t, as) \<and> am_qinv t \<and> am_tx_rest s t \<and>
    am_vtA t = am_vtA s \<and> am_vtS t = am_vtS s \<and> transmitted as = [] \<and> delivered as = [] \<and>
    (\<forall>i<1024. am_slot t i =
      (if am_poll_moves s \<and> (i + 1024 - sn_val (am_vtA s)) mod 1024 < sn_off (am_vtS s)
       then (None, if fst (am_slot s i) = None then snd (am_slot s i) else fst (am_slot s i))
       else am_slot s i))"
proof -
  obtain kept where inv: "am_tx_inv s" "am_sizes_ok s" "um_tx_ok kept (am_txonBuffer s)"
    using q by (auto simp: am_qinv_def)
  let ?s0 = "s\<lparr>am_pollRetransmitTimer := None, am_pollRetransmitTimerJustExpired := True\<rparr>"
  have s0: "am_tx_inv ?s0" "am_tx_rest s ?s0" "am_slot ?s0 = am_slot s"
    using inv(1) am_tx_inv_cong [of ?s0 s] by (simp_all add: am_tx_rest_def am_slot_def fun_eq_iff)
  have w: "sn_wf (am_vtA s)" "sn_base (am_vtA s) = sn_val (am_vtA s)" "sn_off (am_vtS s) \<le> 512"
    using inv(1) by (simp_all add: am_tx_inv_def am_window_ok_def)
  have pend: "am_txonBufferSize s = 0 \<longleftrightarrow> am_txonBuffer s = []"
    using am_pending_iff [OF inv(2,3)] by (simp add: word_greater_zero_iff)
  have full: "sn_eq (am_vtS s) (am_vtMs s) \<longleftrightarrow> sn_off (am_vtS s) = 512"
    using am_window_full [OF inv(1)] w(3) by auto
  have moves: "(am_txonBufferSize s = 0 \<and> am_retxBufferSize s = 0) \<or> sn_eq (am_vtS s) (am_vtMs s) \<longleftrightarrow> am_poll_moves s"
    by (simp add: am_poll_moves_def pend full)
  have mem: "i \<in> set (sn_run (sn_val (am_vtA s)) m) \<longleftrightarrow> (i + 1024 - sn_val (am_vtA s)) mod 1024 < m"
    if i: "i < 1024" and m: "m \<le> 512" for i m
  proof -
    define a where "a = sn_val (am_vtA s)"
    have a: "a < 1024"
      using w(1) by (simp add: a_def sn_wf_nat)
    have "(a + (i + 1024 - a) mod 1024) mod 1024 = i"
      using i a by (cases "a \<le> i") (auto simp: le_mod_geq mod_if)
    moreover have "((a + k) mod 1024 + 1024 - a) mod 1024 = k" if "k < m" for k
      using mod_off [of a "a + k"] that m a by simp
    ultimately show ?thesis
      unfolding a_def [symmetric] sn_run_def by force
  qed
  obtain t where t: "(if am_poll_moves s then am_move_all (am_vtA ?s0) ?s0 else Some ?s0) = Some t"
    "am_tx_inv t" "am_tx_rest ?s0 t" "am_vtA t = am_vtA s" "am_vtS t = am_vtS s"
    "\<forall>i<1024. am_slot t i =
      (if am_poll_moves s \<and> (i + 1024 - sn_val (am_vtA s)) mod 1024 < sn_off (am_vtS s)
       then (None, if fst (am_slot s i) = None then snd (am_slot s i) else fst (am_slot s i))
       else am_slot s i)"
  proof (cases "am_poll_moves s")
    case False
    then show ?thesis
      using that [of ?s0] s0 by simp
  next
    case True
    have "sn_off (am_vtA s) = 0"
      using w(2) by (simp add: sn_off_def)
    with am_move_all_total [OF s0(1), of "am_vtA s"] w obtain t where
      "am_move_all (am_vtA s) ?s0 = Some t" "am_tx_inv t" "am_tx_rest ?s0 t" "am_vtA t = am_vtA s" "am_vtS t = am_vtS s"
      "\<forall>i<1024. am_slot t i = (if i \<in> set (sn_run (sn_val (am_vtA s)) (sn_off (am_vtS s)))
        then (None, if fst (am_slot s i) = None then snd (am_slot s i) else fst (am_slot s i))
        else am_slot s i)"
      by (auto simp: s0(3))
    with that [of t] True mem [OF _ w(3)] show ?thesis
      by simp
  qed
  have rest: "am_tx_rest s t"
    using am_tx_rest_trans [OF s0(2) t(3)] .
  obtain as where as: "am_DoReportBufferStatus now t = Some as" "transmitted as = []" "delivered as = []"
    using am_report_shape [OF q] rest by (auto simp: am_tx_rest_def)
  have "am_ExpirePollRetransmitTimer now s = Some (t, as)"
    unfolding am_ExpirePollRetransmitTimer_def Let_def using t(1) moves as(1) am_vtS_below [OF inv(1)] by simp
  then show ?thesis
    using rest t as am_qinv_rest [OF rest t(2) q] by (intro exI [of _ t] exI [of _ as]) simp
qed

section \<open>The other timers\<close>

lemma am_ExpireRbsTimer_total:
  assumes q: "am_qinv s"
  shows "\<exists>x as. am_ExpireRbsTimer now s = Some (s\<lparr>am_rbsTimer := x\<rparr>, as) \<and> am_qinv (s\<lparr>am_rbsTimer := x\<rparr>) \<and>
    transmitted as = [] \<and> delivered as = []"
proof -
  have "am_qinv (s\<lparr>am_rbsTimer := x\<rparr>)" for x
    using q by (intro am_qinv_rest [OF _ _ q]) (simp_all add: am_tx_rest_def am_qinv_def, simp cong: am_tx_inv_cong)
  moreover obtain as where "am_DoReportBufferStatus now (s\<lparr>am_rbsTimer := None\<rparr>) = Some as"
    "transmitted as = []" "delivered as = []"
    using am_report_shape [OF q, of "s\<lparr>am_rbsTimer := None\<rparr>"] by auto
  ultimately show ?thesis
    by (cases "am_txonBufferSize s + am_txedBufferSize s + am_retxBufferSize s > 0")
       (auto simp: am_ExpireRbsTimer_def Let_def)
qed

text \<open>t-Reordering: VR(MS) moves to the first missing number from VR(X) on.\<close>

lemma am_ExpireReorderingTimer_total:
  assumes q: "am_qinv s" and rel: "am_rx_rel us G R s" and run: "am_reorderingTimer s \<noteq> None"
  shows "\<exists>t. am_ExpireReorderingTimer now s = Some t \<and> am_rx_rel us G R t \<and> am_qinv t \<and> am_tx_same s t \<and>
    am_statusPduRequested t"
proof -
  obtain H M X where core: "am_rx_core us G R H M X s" and mr: "abs_sn (am_vrMr s) R (R + 512)"
    and M: "M \<notin> G" and R: "R \<notin> G" and X: "R < X" "X \<le> H"
    using rel run by (auto simp: am_rx_rel_def)
  note d = core [unfolded am_rx_core_def]
  have h: "abs_sn (am_vrH s) R H" "H \<le> R + 512"
    using d by (auto simp: abs_sn_def)
  then have x: "abs_sn (am_vrX s) R X"
    using d X by (auto simp: abs_sn_def)
  from am_next_incomplete_total [of us G R "am_rxonBuffer s" H "am_vrX s" X] d h(2) x X obtain sn m where
    m: "am_next_incomplete (am_rxonBuffer s) (am_vrX s) = Some sn" "abs_sn sn R m" "X \<le> m" "m \<le> H" "m \<notin> G"
    by auto
  define t where "t = (if sn_gt (am_vrH s) sn
     then s\<lparr>am_vrMs := sn, am_statusPduRequested := True,
       am_reorderingTimer := Some (now + am_reorderingTimerValue s), am_vrX := am_vrH s\<rparr>
     else s\<lparr>am_vrMs := sn, am_statusPduRequested := True, am_reorderingTimer := None\<rparr>)"
  have t: "am_ExpireReorderingTimer now s = Some t"
    using m(1) by (simp add: am_ExpireReorderingTimer_def Let_def t_def)
  have gt: "sn_gt (am_vrH s) sn \<longleftrightarrow> m < H"
    using abs_cmp(3) [OF h(1) m(2)] .
  have "am_rx_core us G R H m (if m < H then H else X) t"
    using d m gt h(1) by (simp add: am_rx_core_def t_def abs_sn_def)
  moreover have "am_vrMr t = am_vrMr s" "am_reorderingTimer t \<noteq> None \<longrightarrow> m < H"
    using gt by (simp_all add: t_def)
  ultimately have rel': "am_rx_rel us G R t"
    unfolding am_rx_rel_def using R mr m(3,5) X(1) by fastforce
  have same: "am_tx_same s t" "am_statusPduRequested t"
    by (simp_all add: t_def am_tx_same_def)
  then show ?thesis
    using t rel' am_qinv_same [OF same(1) q] am_rx_rel_report [OF rel'] by blast
qed

end
