(* ===== verification/RlcAmLink.thy ===== *)
theory RlcAmLink
  imports RlcAmTimers
begin

text \<open>
  Two \<^verbatim>\<open>LteRlcAm\<close> entities joined by two lossy channels that keep the order of the PDUs in
  flight. Data flows in both directions, STATUS PDUs share the channels with data PDUs, and
  submissions, opportunities of any size, losses, arrivals and timers interleave freely. What is
  delivered on one side is always a prefix of what was accepted on the other side.
\<close>

section \<open>The link\<close>

record am_link =
  lk_near :: rlc_am
  lk_far :: rlc_am
  lk_out :: "bytes list"
  lk_inn :: "bytes list"
  lk_acc :: "bytes list"
  lk_accF :: "bytes list"
  lk_dlv :: "bytes list"
  lk_dlvF :: "bytes list"

definition am_link_init :: am_link where
  "am_link_init = \<lparr>lk_near = am_init, lk_far = am_init, lk_out = [], lk_inn = [],
     lk_acc = [], lk_accF = [], lk_dlv = [], lk_dlvF = []\<rparr>"

text \<open>The link seen from the other side.\<close>

definition am_flip :: "am_link \<Rightarrow> am_link" where
  "am_flip l = \<lparr>lk_near = lk_far l, lk_far = lk_near l, lk_out = lk_inn l, lk_inn = lk_out l,
     lk_acc = lk_accF l, lk_accF = lk_acc l, lk_dlv = lk_dlvF l, lk_dlvF = lk_dlv l\<rparr>"

text \<open>The events on one side; a timer event is the expiry of a timer that runs.\<close>

datatype am_event =
    AmSubmit time_ns bytes
  | AmOpp time_ns TxOpportunityParameters
  | AmLose
  | AmDeliver time_ns
  | AmPollTimer time_ns
  | AmRbsTimer time_ns
  | AmReorderTimer time_ns
  | AmProhibitTimer

datatype link_event = Near am_event | Far am_event

definition am_stored :: "bytes \<Rightarrow> rlc_am \<Rightarrow> bytes list" where
  "am_stored p s =
     (if am_txonBufferSize s + GetSize p \<le> am_maxTxBufferSize s \<or> am_maxTxBufferSize s = 0 then [p] else [])"

text \<open>The entity after an event and its calls, recorded in the link.\<close>

definition am_act :: "am_link \<Rightarrow> (rlc_am \<times> rlc_action list) option \<Rightarrow> am_link option" where
  "am_act l r = map_option (\<lambda>(s', as). l\<lparr>lk_near := s', lk_out := lk_out l @ transmitted as,
     lk_dlv := lk_dlv l @ delivered as\<rparr>) r"

fun am_near :: "am_event \<Rightarrow> am_link \<Rightarrow> am_link option" where
  "am_near (AmSubmit now p) l =
     am_act (l\<lparr>lk_acc := lk_acc l @ am_stored p (lk_near l)\<rparr>) (am_DoTransmitPdcpPdu now p (lk_near l))"
| "am_near (AmOpp now o') l = am_act l (am_DoNotifyTxOpportunity now o' (lk_near l))"
| "am_near AmLose l = Some (l\<lparr>lk_out := tl (lk_out l)\<rparr>)"
| "am_near (AmDeliver now) l =
     (case lk_inn l of
        [] \<Rightarrow> Some l
      | p # ps \<Rightarrow> am_act (l\<lparr>lk_inn := ps\<rparr>) (am_DoReceivePdu now p (lk_near l)))"
| "am_near (AmPollTimer now) l =
     (if am_pollRetransmitTimer (lk_near l) = None then Some l
      else am_act l (am_ExpirePollRetransmitTimer now (lk_near l)))"
| "am_near (AmRbsTimer now) l =
     (if am_rbsTimer (lk_near l) = None then Some l else am_act l (am_ExpireRbsTimer now (lk_near l)))"
| "am_near (AmReorderTimer now) l =
     (if am_reorderingTimer (lk_near l) = None then Some l
      else am_act l (map_option (\<lambda>s. (s, [])) (am_ExpireReorderingTimer now (lk_near l))))"
| "am_near AmProhibitTimer l = Some (l\<lparr>lk_near := am_ExpireStatusProhibitTimer (lk_near l)\<rparr>)"

fun am_link_step :: "link_event \<Rightarrow> am_link \<Rightarrow> am_link option" where
  "am_link_step (Near e) l = am_near e l"
| "am_link_step (Far e) l = map_option am_flip (am_near e (am_flip l))"

fun am_link_run :: "link_event list \<Rightarrow> am_link \<Rightarrow> am_link option" where
  "am_link_run [] l = Some l"
| "am_link_run (e # es) l = Option.bind (am_link_step e l) (am_link_run es)"

fun am_event_ok :: "am_event \<Rightarrow> bool" where
  "am_event_ok (AmSubmit now p) = um_sdu_ok p"
| "am_event_ok (AmOpp now o') = am_grant_ok o'"
| "am_event_ok _ = True"

fun link_event_ok :: "link_event \<Rightarrow> bool" where
  "link_event_ok (Near e) = am_event_ok e"
| "link_event_ok (Far e) = am_event_ok e"

section \<open>The PDUs in flight\<close>

definition is_data :: "bytes \<Rightarrow> bool" where
  "is_data p = (case PeekHeader am_des p of None \<Rightarrow> False | Some h \<Rightarrow> am_IsDataPdu h)"

text \<open>
  A data PDU in flight is PDU n; z PDUs had been sent when it was. Then z is at most n + 512, and no
  later PDU can arrive before it.
\<close>

definition data_at :: "pdu_fields list \<Rightarrow> nat \<Rightarrow> bytes \<Rightarrow> nat \<Rightarrow> nat \<Rightarrow> bool" where
  "data_at us R p n z \<longleftrightarrow> am_pdu p (sn_make (word_of_nat (n mod 1024))) (us ! n) \<and>
     n < z \<and> z \<le> n + 512 \<and> n < R + 512 \<and> z \<le> length us"

fun fwd_ok :: "pdu_fields list \<Rightarrow> nat \<Rightarrow> nat \<Rightarrow> bytes list \<Rightarrow> bool" where
  "fwd_ok us R z [] = True"
| "fwd_ok us R z (p # ps) =
     (if is_data p then \<exists>n z'. data_at us R p n z' \<and> z \<le> z' \<and> fwd_ok us R z' ps else fwd_ok us R z ps)"

text \<open>
  A STATUS PDU in flight was sent when r was the first PDU missing and reports on the numbers below k. B
  is the set of PDUs that had been received then. Reports arrive in the order in which they
  were sent, so that these sets grow along the channel; A is the set known from the last report.
\<close>

definition status_at :: "nat \<Rightarrow> nat set \<Rightarrow> bytes \<Rightarrow> nat \<Rightarrow> nat \<Rightarrow> bool" where
  "status_at N B p r k \<longleftrightarrow>
     (\<exists>h. PeekHeader am_des p = Some h \<and> am_IsControlPdu h \<and> \<not> am_IsDataPdu h \<and>
        sn_val (ah_ackSn h) = k mod 1024 \<and> r \<le> k \<and> k \<le> N \<and> {..<r} \<subseteq> B \<and>
        (r < k \<longrightarrow> nack_in h (r mod 1024)) \<and>
        (\<forall>v. r \<le> v \<and> v < k \<longrightarrow> (nack_in h (v mod 1024) \<longleftrightarrow> v \<notin> B)) \<and>
        (\<forall>v. v < r \<and> k \<le> v + 1024 \<longrightarrow> \<not> nack_in h (v mod 1024)))"

fun bwd_ok :: "nat \<Rightarrow> nat set \<Rightarrow> nat \<Rightarrow> nat \<Rightarrow> nat set \<Rightarrow> bytes list \<Rightarrow> bool" where
  "bwd_ok N G R a A [] = True"
| "bwd_ok N G R a A (p # ps) =
     (if is_data p then bwd_ok N G R a A ps
      else \<exists>r k B. status_at N B p r k \<and> A \<subseteq> B \<and> B \<subseteq> G \<and> a \<le> r \<and> r \<le> R \<and> bwd_ok N G R r B ps)"

lemma fwd_ok_weaken: "fwd_ok us R z ps \<Longrightarrow> y \<le> z \<Longrightarrow> fwd_ok us R y ps"
proof (induction us R z ps rule: fwd_ok.induct)
  case (2 us R z p ps)
  then show ?case
    by (auto split: if_splits) (meson le_trans)
qed simp

lemma data_at_mono: "data_at us R p n z \<Longrightarrow> R \<le> R' \<Longrightarrow> data_at (us @ vs) R' p n z"
  by (auto simp: data_at_def nth_append)

lemma fwd_ok_mono: "fwd_ok us R z ps \<Longrightarrow> R \<le> R' \<Longrightarrow> fwd_ok (us @ vs) R' z ps"
  by (induction us R z ps rule: fwd_ok.induct) (auto intro: data_at_mono split: if_splits)

lemma fwd_ok_append_data:
  assumes "fwd_ok us R z ps" "data_at us R p n (length us)" "z \<le> length us"
  shows "fwd_ok us R z (ps @ [p])"
  using assms
proof (induction us R z ps rule: fwd_ok.induct)
  case (2 us R z q ps)
  then show ?case
    by (fastforce simp: data_at_def split: if_splits)
qed auto

lemma fwd_ok_append_other: "fwd_ok us R z ps \<Longrightarrow> \<not> is_data p \<Longrightarrow> fwd_ok us R z (ps @ [p])"
  by (induction us R z ps rule: fwd_ok.induct) (auto split: if_splits)

lemma fwd_ok_tl: "fwd_ok us R z ps \<Longrightarrow> fwd_ok us R z (tl ps)"
  by (cases ps) (auto split: if_splits intro: fwd_ok_weaken)

lemma status_at_mono: "status_at N B p r k \<Longrightarrow> N \<le> N' \<Longrightarrow> status_at N' B p r k"
  unfolding status_at_def by (elim exE, rule exI) (auto 4 3)

lemma bwd_ok_mono:
  "bwd_ok N G R a A ps \<Longrightarrow> N \<le> N' \<Longrightarrow> G \<subseteq> G' \<Longrightarrow> R \<le> R' \<Longrightarrow> bwd_ok N' G' R' a A ps"
proof (induction N G R a A ps rule: bwd_ok.induct)
  case (2 N G R a A p ps)
  then show ?case
    by (auto split: if_splits) (meson le_trans status_at_mono subset_trans)
qed simp

lemma bwd_ok_weaken: "bwd_ok N G R a A ps \<Longrightarrow> b \<le> a \<Longrightarrow> B \<subseteq> A \<Longrightarrow> bwd_ok N G R b B ps"
  by (induction N G R a A ps rule: bwd_ok.induct) (simp, simp split: if_splits, meson le_trans subset_trans)

lemma bwd_ok_append_status:
  assumes "bwd_ok N G R a A ps" "status_at N G p R k" "a \<le> R" "A \<subseteq> G" "\<not> is_data p"
  shows "bwd_ok N G R a A (ps @ [p])"
  using assms
  by (induction N G R a A ps rule: bwd_ok.induct) (force, simp split: if_splits, meson)

lemma bwd_ok_append_data: "bwd_ok N G R a A ps \<Longrightarrow> is_data p \<Longrightarrow> bwd_ok N G R a A (ps @ [p])"
  by (induction N G R a A ps rule: bwd_ok.induct) (simp, simp split: if_splits, meson)

lemma bwd_ok_tl: "bwd_ok N G R a A ps \<Longrightarrow> bwd_ok N G R a A (tl ps)"
  by (cases ps) (auto split: if_splits intro: bwd_ok_weaken)

section \<open>One direction\<close>

text \<open>
  The sender x has built the PDUs us so far, of which a have been acknowledged; acc is what it accepted.
\<close>

definition am_tx_rel :: "pdu_fields list \<Rightarrow> nat \<Rightarrow> rlc_am \<Rightarrow> bytes list \<Rightarrow> bool" where
  "am_tx_rel us a x acc \<longleftrightarrow> am_qinv x \<and> fits_stream None us \<and>
     um_tx_ok (kept_at us (length us)) (am_txonBuffer x) \<and>
     snd (spec_stream None us) @ join (kept_at us (length us)) (pdus (am_txonBuffer x)) = acc \<and>
     sn_val (am_vtA x) = a mod 1024 \<and> sn_val (am_vtS x) = length us mod 1024 \<and>
     a \<le> length us \<and> length us \<le> a + 512 \<and>
     (\<forall>n p. a \<le> n \<and> n < length us \<and>
        (fst (am_slot x (n mod 1024)) = Some p \<or> snd (am_slot x (n mod 1024)) = Some p) \<longrightarrow>
        am_pdu p (sn_make (word_of_nat (n mod 1024))) (us ! n))"

text \<open>
  The direction from x to y. What x does not know y to have, it still holds; x knows at most what y
  has; PDUs in flight are as described above; dlv is what y delivered.
\<close>

definition am_dir ::
    "pdu_fields list \<Rightarrow> nat set \<Rightarrow> nat set \<Rightarrow> nat \<Rightarrow> nat \<Rightarrow> nat \<Rightarrow> rlc_am \<Rightarrow> rlc_am \<Rightarrow> bytes list \<Rightarrow> bytes list \<Rightarrow>
     bytes list \<Rightarrow> bytes list \<Rightarrow> bool" where
  "am_dir us G A R a z x y out back acc dlv \<longleftrightarrow>
     am_tx_rel us a x acc \<and> am_rx_rel us G R y \<and> a \<le> R \<and> dlv = sdus_between us 0 R \<and>
     fwd_ok us R z out \<and> (\<forall>g\<in>G. g < z) \<and> z \<le> length us \<and> bwd_ok (length us) G R a A back \<and>
     A \<subseteq> G \<and> (\<forall>n < length us. n \<notin> A \<longrightarrow> am_slot x (n mod 1024) \<noteq> (None, None))"

lemma am_tx_rel_off:
  assumes "am_tx_rel us a x acc"
  shows "sn_off (am_vtS x) = length us - a"
proof -
  have "sn_base (am_vtS x) = sn_val (am_vtA x)"
    using assms by (simp add: am_tx_rel_def am_qinv_def am_tx_inv_def am_window_ok_def)
  then show ?thesis
    using assms mod_off [of a "length us"] by (simp add: am_tx_rel_def sn_off_def)
qed

lemma am_tx_rel_cong:
  assumes "am_tx_rel us a x acc" "am_qinv x'" "am_txonBuffer x' = am_txonBuffer x"
    "am_vtA x' = am_vtA x" "am_vtS x' = am_vtS x" "\<And>i. am_slot x' i = am_slot x i"
  shows "am_tx_rel us a x' acc"
  using assms by (simp add: am_tx_rel_def)

lemma am_dir_R:
  assumes "am_dir us G A R a z x y out back acc dlv"
  shows "R \<le> length us" "R \<le> z" "{..<R} \<subseteq> G" "R \<notin> G"
proof -
  show sub: "{..<R} \<subseteq> G" "R \<notin> G"
    using assms by (auto simp: am_dir_def am_rx_rel_def am_rx_core_def)
  show "R \<le> z"
    using sub assms by (cases R) (auto simp: am_dir_def Suc_le_eq)
  then show "R \<le> length us"
    using assms by (simp add: am_dir_def)
qed

lemma am_dir_tx_cong:
  assumes "am_dir us G A R a z x y out back acc dlv" "am_qinv x'" "am_txonBuffer x' = am_txonBuffer x"
    "am_vtA x' = am_vtA x" "am_vtS x' = am_vtS x" "\<And>i. am_slot x' i = am_slot x i"
  shows "am_dir us G A R a z x' y out back acc dlv"
  using assms am_tx_rel_cong [of us a x acc x'] by (simp add: am_dir_def)

lemma am_dir_tx_same:
  assumes "am_dir us G A R a z x y out back acc dlv" "am_tx_same x x'" "am_qinv x'"
  shows "am_dir us G A R a z x' y out back acc dlv"
  by (rule am_dir_tx_cong [OF assms(1,3)]) (use assms(2) in \<open>simp_all add: am_tx_same_def am_slot_def\<close>)

text \<open>The members of the receiving side.\<close>

definition am_rx_same :: "rlc_am \<Rightarrow> rlc_am \<Rightarrow> bool" where
  "am_rx_same s t \<longleftrightarrow> am_windowSize t = am_windowSize s \<and> am_vrR t = am_vrR s \<and> am_vrMr t = am_vrMr s \<and>
     am_vrX t = am_vrX s \<and> am_vrMs t = am_vrMs s \<and> am_vrH t = am_vrH s \<and>
     am_rxonBuffer t = am_rxonBuffer s \<and> am_reas t = am_reas s \<and> am_reorderingTimer t = am_reorderingTimer s"

lemma am_rx_rel_same: "am_rx_same s t \<Longrightarrow> am_rx_rel us G R t = am_rx_rel us G R s"
  by (simp add: am_rx_same_def am_rx_rel_def am_rx_core_def)

lemma am_tx_rest_rx_same: "am_tx_rest s t \<Longrightarrow> am_rx_same s t"
  by (simp add: am_tx_rest_def am_rx_same_def)

lemma am_dir_rx_same:
  "am_dir us G A R a z x y out back acc dlv \<Longrightarrow> am_rx_same y y' \<Longrightarrow> am_dir us G A R a z x y' out back acc dlv"
  by (simp add: am_dir_def am_rx_rel_same)

lemma am_dir_init: "am_dir [] {} {} 0 0 0 am_init am_init [] [] [] []"
  using am_rx_rel_init [of "[]"] am_qinv_init
  by (simp add: am_dir_def am_tx_rel_def join_def) (simp add: am_init_def)

lemma am_dir_lose:
  "am_dir us G A R a z x y out back acc dlv \<Longrightarrow> am_dir us G A R a z x y (tl out) back acc dlv"
  "am_dir us G A R a z x y out back acc dlv \<Longrightarrow> am_dir us G A R a z x y out (tl back) acc dlv"
  by (simp_all add: am_dir_def fwd_ok_tl bwd_ok_tl)

section \<open>The sender submits\<close>

lemma one_report:
  "(if c then None else Some (if d then [ReportBufferStatus r] else [])) = Some as \<Longrightarrow>
   delivered as = [] \<and> transmitted as = []"
  by (auto split: if_splits)

lemma am_report_silent:
  "am_DoReportBufferStatus now s = Some as \<Longrightarrow> delivered as = [] \<and> transmitted as = []"
  unfolding am_DoReportBufferStatus_def Let_def by (rule one_report)

lemma am_submit_shape:
  assumes "am_DoTransmitPdcpPdu now p s = Some (s', as)"
  shows "am_vtA s' = am_vtA s \<and> am_vtS s' = am_vtS s \<and> am_slot s' i = am_slot s i \<and> am_rx_same s s' \<and>
    delivered as = []"
proof (cases "am_txonBufferSize s + GetSize p \<le> am_maxTxBufferSize s \<or> am_maxTxBufferSize s = 0")
  case True
  with assms show ?thesis
    by (auto simp: am_DoTransmitPdcpPdu_def am_slot_def am_rx_same_def dest: am_report_silent)
next
  case False
  with assms show ?thesis
    by (auto simp: am_DoTransmitPdcpPdu_def am_slot_def am_rx_same_def dest: am_report_silent)
qed

lemma join_append:
  "um_tx_ok kept buf \<Longrightarrow> join kept (pdus buf @ ps) = join kept (pdus buf) @ ps"
  by (cases buf) (auto simp: join_def um_tx_ok_def split: option.splits)

lemma am_dir_submit:
  assumes dir: "am_dir us G A R a z x y out back acc dlv" and p: "um_sdu_ok p"
  shows "\<exists>x' as. am_DoTransmitPdcpPdu now p x = Some (x', as) \<and> transmitted as = [] \<and> delivered as = [] \<and>
    am_rx_same x x' \<and> am_dir us G A R a z x' y out back (acc @ am_stored p x) dlv"
proof -
  have q: "am_qinv x" and tx: "am_tx_rel us a x acc"
    using dir by (simp_all add: am_dir_def am_tx_rel_def)
  from am_submit_law [OF q p, of now] obtain x' as where
    s: "am_DoTransmitPdcpPdu now p x = Some (x', as)" "am_qinv x'" "transmitted as = []"
      "am_txonBuffer x' = (if am_accepts p x then am_txonBuffer x @
        [\<lparr>m_pdu = p, m_waitingSince = now, m_sduStatus = FULL_SDU\<rparr>] else am_txonBuffer x)"
    by auto
  note mem = am_submit_shape [OF s(1)]
  have acc: "am_stored p x = (if am_accepts p x then [p] else [])"
    using queue_accepts [of "am_txonBufferSize x" "pdus (am_txonBuffer x)" "am_maxTxBufferSize x" p] q p
    by (auto simp: am_stored_def am_accepts_def am_qinv_def am_sizes_ok_def um_sdu_ok_def)
  have ok: "um_tx_ok (kept_at us (length us)) (am_txonBuffer x)"
    using tx by (simp add: am_tx_rel_def)
  have "um_tx_ok (kept_at us (length us)) (am_txonBuffer x')"
    using um_tx_ok_append [OF ok, of p now] ok p s(4) by (simp add: um_sdu_ok_def)
  moreover have "join (kept_at us (length us)) (pdus (am_txonBuffer x'))
      = join (kept_at us (length us)) (pdus (am_txonBuffer x)) @ am_stored p x"
    using join_append [OF ok, of "[p]"] s(4) acc by simp
  ultimately have "am_tx_rel us a x' (acc @ am_stored p x)"
    using tx s(2) mem by (simp add: am_tx_rel_def flip: append_assoc)
  then have "am_dir us G A R a z x' y out back (acc @ am_stored p x) dlv"
    using dir mem by (simp add: am_dir_def)
  then show ?thesis
    using s(1,3) mem by blast
qed

section \<open>The sender answers an opportunity\<close>

lemma mod_inj_window:
  assumes "a \<le> m" "m \<le> a + 512" "a \<le> n" "n \<le> a + 512" "m mod 1024 = n mod (1024 :: nat)"
  shows "m = n"
  using mod_off [of a m] mod_off [of a n] assms by simp

lemma mod_in_window:
  fixes a i :: nat
  assumes "i < 1024"
  shows "(a + (i + 1024 - a mod 1024) mod 1024) mod 1024 = i"
proof -
  define a0 where "a0 = a mod 1024"
  have "a0 < 1024"
    by (simp add: a0_def)
  then have "(a0 + (i + 1024 - a0) mod 1024) mod 1024 = i"
    using assms by (cases "a0 \<le> i") (auto simp: le_mod_geq mod_if)
  moreover have "(a + k) mod 1024 = (a0 + k) mod 1024" for k
    by (simp add: a0_def mod_simps)
  ultimately show ?thesis
    by (simp flip: a0_def)
qed

lemma am_pdu_sn:
  assumes "sn_val sn = n mod 1024"
  shows "am_pdu p (sn_make (word_of_nat (n mod 1024))) u = am_pdu p sn u"
proof (rule am_pdu_val)
  have "unat (word_of_nat (n mod 1024) :: u16) = n mod 1024"
    by simp
  then show "m_value (sn_make (word_of_nat (n mod 1024))) = m_value sn"
    using assms by (simp add: sn_make_def sn_val_def word_unat_eq_iff unat_mod)
qed

lemma am_pdu_is_data: "am_pdu p sn u \<Longrightarrow> is_data p"
  by (auto simp: am_pdu_def is_data_def am_data_hwf_def am_IsDataPdu_def dest!: PeekHeader_RemoveHeader)

lemma status_report_not_data: "status_report rx r ms k p \<Longrightarrow> \<not> is_data p"
  by (auto simp: status_report_def is_data_def PeekHeader_def am_IsControlPdu_def am_IsDataPdu_def)

text \<open>A retransmission: the PDU goes on air again.\<close>

lemma am_dir_retx:
  assumes dir: "am_dir us G A R a z x y out back acc dlv"
    and sn: "sn_val sn < 1024" and sl: "am_slot x (sn_val sn) = (None, Some p)"
      "am_slot x' (sn_val sn) = (Some p, None)" "\<forall>i. i \<noteq> sn_val sn \<longrightarrow> am_slot x' i = am_slot x i"
    and p': "\<forall>u. am_pdu p sn u \<longrightarrow> am_pdu p' sn u"
    and x': "am_qinv x'" "am_txonBuffer x' = am_txonBuffer x" "am_vtA x' = am_vtA x" "am_vtS x' = am_vtS x"
  shows "am_dir us G A R a z x' y (out @ [p']) back acc dlv"
proof -
  have tx: "am_tx_rel us a x acc"
    using dir by (simp add: am_dir_def)
  note off = am_tx_rel_off [OF tx]
  have "slot_ok (am_txedBuffer x) (am_retxBuffer x) (sn_val (am_vtA x)) (sn_off (am_vtS x)) (sn_val sn)"
    using tx sn unfolding am_tx_rel_def am_qinv_def am_tx_inv_def bufs_ok_def by blast
  then have w: "(sn_val sn + 1024 - a mod 1024) mod 1024 < length us - a"
    using sl(1) tx off by (auto simp: slot_ok_def am_slot_def am_tx_rel_def)
  define n where "n = a + (sn_val sn + 1024 - a mod 1024) mod 1024"
  have n: "a \<le> n" "n < length us" "n mod 1024 = sn_val sn"
    using w mod_in_window [OF sn] by (auto simp: n_def)
  have "am_pdu p (sn_make (word_of_nat (n mod 1024))) (us ! n)"
    using tx n sl(1) unfolding am_tx_rel_def by (metis snd_conv)
  then have "am_pdu p sn (us ! n)"
    using am_pdu_sn [of sn n] n(3) by simp
  then have pdu: "am_pdu p' sn (us ! n)"
    using p' by blast
  then have "am_pdu p' (sn_make (word_of_nat (n mod 1024))) (us ! n)"
    using am_pdu_sn [of sn n] n(3) by simp
  then have d: "data_at us R p' n (length us)"
    using n tx dir by (auto simp: data_at_def am_tx_rel_def am_dir_def)
  have "am_tx_rel us a x' acc"
    unfolding am_tx_rel_def
  proof (intro conjI allI impI)
    fix m q
    assume m: "a \<le> m \<and> m < length us \<and>
      (fst (am_slot x' (m mod 1024)) = Some q \<or> snd (am_slot x' (m mod 1024)) = Some q)"
    then have "fst (am_slot x (m mod 1024)) = Some q \<or> snd (am_slot x (m mod 1024)) = Some q"
      using sl by (cases "m mod 1024 = sn_val sn") auto
    then show "am_pdu q (sn_make (word_of_nat (m mod 1024))) (us ! m)"
      using tx m by (auto simp: am_tx_rel_def)
  qed (use tx x' in \<open>simp_all add: am_tx_rel_def\<close>)
  moreover have "am_slot x' (m mod 1024) \<noteq> (None, None)" if "m < length us" "m \<notin> A" for m
    using that dir sl(2,3) by (cases "m mod 1024 = sn_val sn") (simp_all add: am_dir_def)
  ultimately show ?thesis
    using dir fwd_ok_append_data [of us R z out p' n] d by (simp add: am_dir_def)
qed

text \<open>A new PDU.\<close>

lemma am_rx_rel_more:
  assumes "am_rx_rel us G R y"
  shows "am_rx_rel (us @ vs) G R y"
proof -
  have kept: "kept_at (us @ vs) R = kept_at us R" if "R \<le> length us"
    using that by (simp add: kept_at_def)
  have "am_rx_core (us @ vs) G R H M X y" if c: "am_rx_core us G R H M X y" for H M X
  proof -
    have le: "R \<le> length us" "\<forall>n\<in>G. n < length us"
      using c by (auto simp: am_rx_core_def abs_sn_def)
    have "am_rx_buf (us @ vs) G R (am_rxonBuffer y)"
      using c le(2) unfolding am_rx_core_def am_rx_buf_def
      by (auto simp: nth_append split: option.splits)
    then show ?thesis
      using c kept [OF le(1)] by (simp add: am_rx_core_def)
  qed
  then show ?thesis
    using assms unfolding am_rx_rel_def by blast
qed

lemma sdus_between_more: "n \<le> length us \<Longrightarrow> sdus_between (us @ vs) 0 n = sdus_between us 0 n"
  by (simp add: sdus_between_spec)

lemma am_dir_new:
  assumes dir: "am_dir us G A R a z x y out back acc dlv" and send: "am_sends (kept_at us (length us)) x o' x' p u"
    and q: "am_qinv x'" and room: "sn_off (am_vtS x) < 512"
  shows "am_dir (us @ [u]) G A R a z x' y (out @ [p]) back acc dlv"
proof -
  have tx: "am_tx_rel us a x acc"
    using dir by (simp add: am_dir_def)
  note off = am_tx_rel_off [OF tx] and R = am_dir_R [OF dir]
  let ?N = "length us" and ?us = "us @ [u]"
  have N: "?N < a + 512" "a \<le> ?N" "sn_val (am_vtS x) = ?N mod 1024"
    using off room tx by (auto simp: am_tx_rel_def)
  note s = send [unfolded am_sends_def]
  have kept: "kept_at ?us (Suc ?N) = fst (reas_spec (kept_at us ?N) u)" "kept_at us ?N = fst (spec_stream None us)"
    by (simp_all add: kept_at_def spec_stream_append case_prod_beta Let_def)
  have pdu: "am_pdu p (sn_make (word_of_nat (?N mod 1024))) u"
    using s am_pdu_sn [OF N(3)] by simp
  have "data_at ?us R p ?N (Suc ?N)"
    using pdu N dir by (simp add: data_at_def am_dir_def)
  then have fwd: "fwd_ok ?us R z (out @ [p])"
    using dir fwd_ok_append_data [of ?us R z out p ?N] fwd_ok_mono [of us R z out R "[u]"]
    by (simp add: am_dir_def)
  have "am_tx_rel ?us a x' acc"
    unfolding am_tx_rel_def
  proof (intro conjI allI impI)
    show "fits_stream None ?us"
      using tx s kept(2) by (simp add: fits_stream_append am_tx_rel_def)
    show "snd (spec_stream None ?us) @ join (kept_at ?us (length ?us)) (pdus (am_txonBuffer x')) = acc"
      using tx s kept by (simp add: spec_stream_append case_prod_beta Let_def am_tx_rel_def)
    fix m q
    assume m: "a \<le> m \<and> m < length ?us \<and>
      (fst (am_slot x' (m mod 1024)) = Some q \<or> snd (am_slot x' (m mod 1024)) = Some q)"
    show "am_pdu q (sn_make (word_of_nat (m mod 1024))) (?us ! m)"
    proof (cases "m = ?N")
      case True
      then show ?thesis
        using m s pdu N(3) by auto
    next
      case False
      then have "m mod 1024 \<noteq> ?N mod 1024"
        using m N mod_inj_window [of a m ?N] by auto
      then show ?thesis
        using m s N(3) tx False by (auto simp: am_tx_rel_def nth_append)
    qed
  qed (use tx s q N kept in \<open>simp_all add: am_tx_rel_def mod_simps\<close>)
  moreover have "am_slot x' (m mod 1024) \<noteq> (None, None)" if "m < length ?us" "m \<notin> A" for m
  proof (cases "m mod 1024 = ?N mod 1024")
    case True
    then show ?thesis
      using s N(3) by simp
  next
    case False
    then have "m \<noteq> ?N"
      by blast
    then show ?thesis
      using False s N(3) that dir by (simp add: am_dir_def)
  qed
  moreover have "bwd_ok (length ?us) G R a A back"
    using dir bwd_ok_mono [of ?N G R a A "back" "length ?us" G R] by (simp add: am_dir_def)
  ultimately show ?thesis
    using dir fwd R sdus_between_more [of R us "[u]"] am_rx_rel_more [of us G R y "[u]"]
    by (simp add: am_dir_def)
qed

text \<open>An opportunity on the sending side; the receiving side of the same entity is not touched.\<close>

lemma am_send_rx_same:
  "am_send_new now o' s = Some (s', as) \<Longrightarrow> am_rx_same s s'"
  "am_retransmit now o' sn p s = Some (s', as) \<Longrightarrow> am_rx_same s s'"
  by (auto simp: am_send_new_def am_retransmit_def Let_def case_prod_beta am_rx_same_def am_store_txed_def
      am_retx_to_txed_def am_set_poll_def split: list.splits prod.splits if_splits option.splits)

lemma am_opp_rx_same:
  assumes "am_DoNotifyTxOpportunity now o' s = Some (s', as)"
  shows "am_rx_same s s'"
proof -
  have "am_rx_same s s'" if "am_send_status now o' s = Some (s', as)"
    using that by (auto simp: am_send_status_def am_rx_same_def split: if_splits option.splits prod.splits)
  then show ?thesis
    using assms am_send_rx_same
    by (auto simp: am_DoNotifyTxOpportunity_def am_rx_same_def split: if_splits option.splits)
qed

lemma am_dir_opp:
  assumes dir: "am_dir us G A R a z x y out back acc dlv" and g: "am_grant_ok o'"
  shows "\<exists>x' as us' . am_DoNotifyTxOpportunity now o' x = Some (x', as) \<and> delivered as = [] \<and> am_rx_same x x' \<and>
    am_dir us' G A R a z x' y (out @ transmitted as) back acc dlv"
proof -
  have tx: "am_tx_rel us a x acc" and q: "am_qinv x" and ok: "um_tx_ok (kept_at us (length us)) (am_txonBuffer x)"
    using dir by (simp_all add: am_dir_def am_tx_rel_def)
  from am_opportunity [OF q am_grant_fits [OF g q] _ ok, of now] g [unfolded am_grant_ok_def] obtain x' as where
    s: "am_DoNotifyTxOpportunity now o' x = Some (x', as)" "am_qinv x'"
      "am_answered (kept_at us (length us)) now o' x (am_answers o' x) x' as"
    by blast
  note rx = am_opp_rx_same [OF s(1)]
  show ?thesis
  proof (cases "am_answers o' x")
    case Nothing
    then show ?thesis
      using s dir rx by (intro exI [of _ x'] exI [of _ as] exI [of _ us]) (simp add: am_answered_def)
  next
    case Status
    with s(3) obtain k packet where st: "as = [TransmitPdu (answer_params (am_base x) o' packet)]"
      "status_report (am_rxonBuffer x) (am_vrR x) (am_vrMs x) k packet"
      "x' = x\<lparr>am_statusPduRequested := False, am_statusPduBufferSize := 0,
            am_statusProhibitTimer := Some (now + am_statusProhibitTimerValue x)\<rparr>"
      by (auto simp: am_answered_def)
    have "am_dir us G A R a z x' y out back acc dlv"
      by (rule am_dir_tx_cong [OF dir s(2)]) (simp_all add: st(3) am_slot_def)
    then have "am_dir us G A R a z x' y (out @ [packet]) back acc dlv"
      using fwd_ok_append_other status_report_not_data [OF st(2)] by (simp add: am_dir_def)
    then show ?thesis
      using s(1) rx st(1) by (intro exI [of _ x'] exI [of _ as] exI [of _ us]) simp
  next
    case (Retransmission sn p)
    with s(3) obtain p' where r: "as = [TransmitPdu (answer_params (am_base x) o' p')]" "sn_val sn < 1024"
      "am_slot x (sn_val sn) = (None, Some p)" "am_slot x' (sn_val sn) = (Some p, None)"
      "\<forall>i. i \<noteq> sn_val sn \<longrightarrow> am_slot x' i = am_slot x i" "\<forall>u. am_pdu p sn u \<longrightarrow> am_pdu p' sn u"
      "am_txonBuffer x' = am_txonBuffer x" "am_vtA x' = am_vtA x" "am_vtS x' = am_vtS x"
      by (auto simp: am_answered_def)
    from am_dir_retx [OF dir r(2-6) s(2) r(7-9)] show ?thesis
      using s(1) rx r(1) by (intro exI [of _ x'] exI [of _ as] exI [of _ us]) simp
  next
    case NewPdu
    with s(3) obtain u p where n: "as = [TransmitPdu (answer_params (am_base x) o' p)]"
      "am_sends (kept_at us (length us)) x o' x' p u"
      by (auto simp: am_answered_def)
    have "sn_off (am_vtS x) < 512"
      using NewPdu by (auto simp: am_answers_def split: if_splits option.splits)
    from am_dir_new [OF dir n(2) s(2) this] show ?thesis
      using s(1) rx n(1) by (intro exI [of _ x'] exI [of _ as] exI [of _ "us @ [u]"]) simp
  qed
qed

section \<open>The sender receives a STATUS PDU\<close>

lemma sn_run_upt: "sn_run (a mod 1024) m = map (\<lambda>v. v mod 1024) [a..<a + m]"
proof -
  have "map (\<lambda>v. v mod 1024) [a..<a + m] = map (\<lambda>v. v mod 1024) (map (\<lambda>k. k + a) [0..<m])"
    by (simp add: map_add_upt add.commute)
  then show ?thesis
    by (simp add: sn_run_def mod_simps ac_simps)
qed

text \<open>VT(A) advances exactly to the first PDU that was missing when the report was sent.\<close>

lemma status_prefix:
  assumes "a \<le> r" "r \<le> k" and nacked: "r < k \<longrightarrow> nack_in h (r mod 1024)"
    and acked: "\<forall>v. a \<le> v \<and> v < r \<longrightarrow> \<not> nack_in h (v mod 1024)"
  shows "acked_prefix h True (map (\<lambda>v. v mod 1024) [a..<k]) = r - a"
proof -
  have "[a..<k] = [a..<r] @ [r..<k]"
    using upt_add_eq_append [of a r "k - r"] assms(1,2) by simp
  moreover have "takeWhile (\<lambda>v. \<not> nack_in h v) (map (\<lambda>v. v mod 1024) [r..<k]) = []"
    using nacked by (cases "r < k") (simp_all add: upt_conv_Cons)
  moreover have "takeWhile (\<lambda>v. \<not> nack_in h v) (map (\<lambda>v. v mod 1024) [a..<r] @ ws)
      = map (\<lambda>v. v mod 1024) [a..<r] @ takeWhile (\<lambda>v. \<not> nack_in h v) ws" for ws
    by (rule takeWhile_append2) (use acked in auto)
  ultimately show ?thesis
    by (simp add: acked_prefix_def)
qed

lemma am_dir_status:
  assumes dir: "am_dir us G A R a z x y out (p # ps) acc dlv" and p: "\<not> is_data p"
  shows "\<exists>x' a' A'. am_DoReceivePdu now p x = Some (x', []) \<and> am_rx_same x x' \<and> am_qinv x' \<and>
    am_dir us G A' R a' z x' y out ps acc dlv"
proof -
  have tx: "am_tx_rel us a x acc" and q: "am_qinv x"
    using dir by (simp_all add: am_dir_def am_tx_rel_def)
  note t0 = tx [unfolded am_tx_rel_def]
  let ?N = "length us"
  obtain r k B where st: "status_at ?N B p r k" "a \<le> r" "r \<le> R" "bwd_ok ?N G R r B ps" "A \<subseteq> B" "B \<subseteq> G"
    using dir p by (auto simp: am_dir_def)
  then obtain h where h: "PeekHeader am_des p = Some h" "am_IsControlPdu h" "\<not> am_IsDataPdu h"
    "sn_val (ah_ackSn h) = k mod 1024" "r \<le> k" "k \<le> ?N" "r < k \<longrightarrow> nack_in h (r mod 1024)"
    "\<forall>v. r \<le> v \<and> v < k \<longrightarrow> (nack_in h (v mod 1024) \<longleftrightarrow> v \<notin> B)"
    "\<forall>v. v < r \<and> k \<le> v + 1024 \<longrightarrow> \<not> nack_in h (v mod 1024)"
    unfolding status_at_def by blast
  have rB: "{..<r} \<subseteq> B"
    using st(1) by (auto simp: status_at_def)
  have N: "a \<le> ?N" "?N \<le> a + 512" and a: "sn_val (am_vtA x) = a mod 1024"
    using t0 by simp_all
  have span: "report_span h x = k - a"
    using mod_off [of a k] h(4-6) st(2) N am_tx_rel_off [OF tx] a
    by (simp add: report_span_def min_absorb1 diff_le_mono)
  have run: "sn_run (sn_val (am_vtA x)) (report_span h x) = map (\<lambda>v. v mod 1024) [a..<k]"
    using sn_run_upt [of a "k - a"] span a h(5) st(2) by simp
  have ack: "sn_val (ah_ackSn h) < 1024"
    by (simp add: h(4))
  have "am_tx_inv x"
    using q by (simp add: am_qinv_def)
  have held: "nacks_held h (map (\<lambda>v. v mod 1024) [a..<k]) x"
    unfolding nacks_held_def
  proof (intro ballI impI)
    fix w
    assume "w \<in> set (map (\<lambda>v. v mod 1024) [a..<k])" "nack_in h w"
    then obtain v where v: "a \<le> v" "v < k" "w = v mod 1024" "nack_in h (v mod 1024)"
      by auto
    have "k \<le> v + 1024"
      using v(1) N h(6) by linarith
    then have "r \<le> v"
      using h(9) v(4) by (meson not_le)
    then have "v \<notin> A" "v < ?N"
      using h(6,8) v(2,4) st(5) by auto
    then show "am_slot x w \<noteq> (None, None)"
      using dir v(3) by (simp add: am_dir_def)
  qed
  with am_receive_status_total [OF \<open>am_tx_inv x\<close> ack] obtain t where
    t: "am_receive_status h x = Some t" "status_result h True (map (\<lambda>v. v mod 1024) [a..<k]) x t"
    unfolding run by auto
  note res = t(2) [unfolded status_result_def]
  have rest: "am_tx_rest x t" and inv: "am_tx_inv t"
    using res by simp_all
  have pre: "acked_prefix h True (map (\<lambda>v. v mod 1024) [a..<k]) = r - a"
    using h(5-9) st(2) N by (intro status_prefix) auto
  have mem: "n mod 1024 \<in> set (map (\<lambda>v. v mod 1024) [a..<k]) \<longleftrightarrow> n < k" if "a \<le> n" "n \<le> ?N" for n
  proof
    assume "n mod 1024 \<in> set (map (\<lambda>v. v mod 1024) [a..<k])"
    then obtain v where v: "a \<le> v" "v < k" "v mod 1024 = n mod 1024"
      by auto
    have "v \<le> a + 512" "n \<le> a + 512"
      using v(2) that(2) N(2) h(6) by linarith+
    from mod_inj_window [OF v(1) this(1) that(1) this(2) v(3)] v(2) show "n < k"
      by simp
  qed (use that(1) in auto)
  have slot: "am_slot t (n mod 1024) =
      (if n < k then reported h (n mod 1024) (am_slot x (n mod 1024)) else am_slot x (n mod 1024))"
    if "a \<le> n" "n \<le> ?N" for n
    using res mem [OF that] by (simp add: reported_on_def del: set_map)
  have qt: "am_qinv t"
    by (rule am_qinv_rest [OF rest inv q])
  have "sn_val (am_vtA t) = (a mod 1024 + (r - a)) mod 1024"
    using res unfolding pre a by blast
  then have vtA: "sn_val (am_vtA t) = r mod 1024"
    unfolding mod_add_left_eq le_add_diff_inverse [OF st(2)] .
  have "am_tx_rel us r t acc"
    unfolding am_tx_rel_def
  proof (intro conjI allI impI)
    show "sn_val (am_vtA t) = r mod 1024"
      using vtA .
    fix n q'
    assume n: "r \<le> n \<and> n < ?N \<and> (fst (am_slot t (n mod 1024)) = Some q' \<or> snd (am_slot t (n mod 1024)) = Some q')"
    then have "fst (am_slot x (n mod 1024)) = Some q' \<or> snd (am_slot x (n mod 1024)) = Some q'"
      using slot [of n] st(2) by (auto simp: reported_def split: if_splits)
    then show "am_pdu q' (sn_make (word_of_nat (n mod 1024))) (us ! n)"
      using t0 n st(2) le_trans by blast
  qed (use t0 res qt rest st h(5,6) N in \<open>auto simp: am_tx_rest_def\<close>)
  moreover have "am_slot t (n mod 1024) \<noteq> (None, None)" if n: "n < ?N" "n \<notin> B" for n
  proof -
    have "r \<le> n"
      using n rB by (meson lessThan_iff not_le subsetD)
    moreover have "am_slot x (n mod 1024) \<noteq> (None, None)"
      using dir n st(5) by (auto simp: am_dir_def)
    ultimately show ?thesis
      using slot [of n] h(8) n st(2,3) by (cases "am_slot x (n mod 1024)") (auto simp: reported_def)
  qed
  ultimately have "am_dir us G B R r z t y out ps acc dlv"
    using dir st(3,4,6) by (simp add: am_dir_def)
  moreover have "am_DoReceivePdu now p x = Some (t, [])"
    using h(1-3) t(1) by (simp add: am_DoReceivePdu_def)
  ultimately show ?thesis
    using am_tx_rest_rx_same [OF rest] qt by blast
qed

section \<open>The receiver\<close>

lemma am_dir_data:
  assumes dir: "am_dir us G A R a z x y (p # ps) back acc dlv" and p: "is_data p" and q: "am_qinv y"
  shows "\<exists>y' as G' R' z'. am_DoReceivePdu now p y = Some (y', as) \<and> transmitted as = [] \<and> am_tx_same y y' \<and>
    am_qinv y' \<and> am_dir us G' A R' a z' x y' ps back acc (dlv @ delivered as)"
proof -
  obtain n z' where d: "data_at us R p n z'" "z \<le> z'" "fwd_ok us R z' ps"
    using dir p by (auto simp: am_dir_def)
  note dd = d(1) [unfolded data_at_def]
  have rel: "am_rx_rel us G R y" and fits: "fits_stream None us"
    using dir by (simp_all add: am_dir_def am_tx_rel_def)
  have n: "n < length us" "n < R + 512" "R \<le> n + 512"
    using dd am_dir_R(2) [OF dir] d(2) by linarith+
  from am_receive_pdu [OF q rel fits n, of p now] dd obtain t as R' where
    t: "am_DoReceivePdu now p y = Some (t, as)" "delivered as = sdus_between us R R'" "transmitted as = []"
      "R \<le> R'" "am_rx_rel us (insert n G) R' t" "am_qinv t" "am_tx_same y t"
    by auto
  have "am_dir us (insert n G) A R' a z' x t ps back acc (dlv @ delivered as)"
    using dir t(2,4,5) d(2,3) dd fwd_ok_mono [of us R z' ps R' "[]"] sdus_between_trans [of 0 R R' us]
      bwd_ok_mono [of "length us" G R a A "back" "length us" "insert n G" R']
    by (auto simp: am_dir_def)
  then show ?thesis
    using t by blast
qed

text \<open>PDUs in flight that concern the other direction only.\<close>

lemma am_dir_skip:
  "am_dir us G A R a z x y (p # ps) back acc dlv \<Longrightarrow> \<not> is_data p \<Longrightarrow> am_dir us G A R a z x y ps back acc dlv"
  "am_dir us G A R a z x y out (p # ps) acc dlv \<Longrightarrow> is_data p \<Longrightarrow> am_dir us G A R a z x y out ps acc dlv"
  by (simp_all add: am_dir_def)

text \<open>A report describes what the receiver has.\<close>

lemma missing_set: "int v \<in> set (missing rx vs) \<longleftrightarrow> v \<in> set vs \<and> \<not> rcvd rx v"
  by (auto simp: missing_def)

lemma status_report_at:
  assumes rel: "am_rx_rel us G R y"
    and st: "status_report (am_rxonBuffer y) (am_vrR y) (am_vrMs y) k p"
    and k: "k \<le> sn_off (am_vrMs y) - sn_off (am_vrR y)"
  shows "status_at (length us) G p R (R + k)"
proof -
  obtain H M X where core: "am_rx_core us G R H M X y" and R: "R \<notin> G"
    using rel by (auto simp: am_rx_rel_def)
  note c = core [unfolded am_rx_core_def]
  have r: "abs_sn (am_vrR y) R R" "abs_sn (am_vrMs y) R M" and buf: "am_rx_buf us G R (am_rxonBuffer y)"
    using c by simp_all
  have k': "k \<le> M - R" "k \<le> 512" "R + k \<le> length us"
  proof -
    have "R \<le> M" "M \<le> R + 512" "M \<le> length us"
      using r(2) c by (simp_all add: abs_sn_def)
    then show "k \<le> M - R" "k \<le> 512" "R + k \<le> length us"
      using k abs_off [OF r(1)] abs_off [OF r(2)] by linarith+
  qed
  have vR: "sn_val (am_vrR y) = R mod 1024"
    using r(1) by (simp add: abs_sn_def)
  obtain h where h: "am_des p = Some (h, length p)" "am_IsControlPdu h"
    "ah_nackSnList h = missing (am_rxonBuffer y) (map (\<lambda>v. v mod 1024) [R..<R + k])"
    "sn_val (ah_ackSn h) = (R + k) mod 1024"
    using st unfolding status_report_def vR sn_run_upt mod_add_left_eq by blast
  have nack: "nack_in h v \<longleftrightarrow> v \<in> (\<lambda>v. v mod 1024) ` {R..<R + k} \<and> \<not> rcvd (am_rxonBuffer y) v" for v
    using missing_set [of v "am_rxonBuffer y" "map (\<lambda>v. v mod 1024) [R..<R + k]"]
    by (simp add: nack_in_def list_ex_iff h(3))
  have rc: "rcvd (am_rxonBuffer y) (v mod 1024) \<longleftrightarrow> v \<in> G" if "R \<le> v" "v < R + 1024" for v
    using am_rx_buf_rcvd [OF buf that] .
  show ?thesis
    unfolding status_at_def
  proof (intro exI [of _ h] conjI allI impI)
    show "PeekHeader am_des p = Some h" "am_IsControlPdu h" "\<not> am_IsDataPdu h"
      "sn_val (ah_ackSn h) = (R + k) mod 1024" "R \<le> R + k" "R + k \<le> length us" "{..<R} \<subseteq> G"
      using h k' c by (simp_all add: PeekHeader_def am_IsControlPdu_def am_IsDataPdu_def)
  next
    assume "R < R + k"
    then show "nack_in h (R mod 1024)"
      using rc [of R] R by (auto simp: nack)
  next
    fix v
    assume "R \<le> v \<and> v < R + k"
    then show "nack_in h (v mod 1024) \<longleftrightarrow> v \<notin> G"
      using rc [of v] k'(2) by (auto simp: nack)
  next
    fix v
    assume v: "v < R \<and> R + k \<le> v + 1024"
    show "\<not> nack_in h (v mod 1024)"
    proof
      assume "nack_in h (v mod 1024)"
      then obtain m where m: "R \<le> m" "m < R + k" "m mod 1024 = v mod 1024"
        by (auto simp: nack)
      have "m < v + 1024" "v \<le> m"
        using m v by auto
      from mod_off [OF this(2,1)] m(3) have "m = v"
        using \<open>v \<le> m\<close> by simp
      then show False
        using m v by simp
    qed
  qed
qed

lemma am_dir_report:
  assumes dir: "am_dir us G A R a z x y out back acc dlv" and q: "am_qinv y" and g: "am_grant_ok o'"
    and run: "am_DoNotifyTxOpportunity now o' y = Some (y', as)"
  shows "am_dir us G A R a z x y' out (back @ transmitted as) acc dlv"
proof -
  obtain kept where ok: "um_tx_ok kept (am_txonBuffer y)"
    using q by (auto simp: am_qinv_def)
  have ans: "am_answered kept now o' y (am_answers o' y) y' as"
    using am_opportunity [OF q am_grant_fits [OF g q] _ ok, of now] run g by (auto simp: am_grant_ok_def)
  have dir': "am_dir us G A R a z x y' out back acc dlv"
    by (rule am_dir_rx_same [OF dir am_opp_rx_same [OF run]])
  show ?thesis
  proof (cases "am_answers o' y")
    case Nothing
    then show ?thesis
      using ans dir' by (simp add: am_answered_def)
  next
    case Status
    then obtain k packet where st: "as = [TransmitPdu (answer_params (am_base y) o' packet)]"
      "k \<le> sn_off (am_vrMs y) - sn_off (am_vrR y)"
      "status_report (am_rxonBuffer y) (am_vrR y) (am_vrMs y) k packet"
      using ans by (auto simp: am_answered_def)
    have rel: "am_rx_rel us G R y" "a \<le> R" "A \<subseteq> G"
      using dir by (simp_all add: am_dir_def)
    show ?thesis
      using dir' bwd_ok_append_status [OF _ status_report_at [OF rel(1) st(3,2)] rel(2,3) status_report_not_data [OF st(3)]] st(1)
      by (simp add: am_dir_def)
  next
    case (Retransmission sn p)
    then obtain p' u where "as = [TransmitPdu (answer_params (am_base y) o' p')]" "am_pdu p' sn u"
      using ans by (auto simp: am_answered_def)
    then show ?thesis
      using dir' bwd_ok_append_data am_pdu_is_data by (simp add: am_dir_def)
  next
    case NewPdu
    then obtain u p where "as = [TransmitPdu (answer_params (am_base y) o' p)]" "am_pdu p (am_vtS y) u"
      using ans by (auto simp: am_answered_def am_sends_def)
    then show ?thesis
      using dir' bwd_ok_append_data am_pdu_is_data by (simp add: am_dir_def)
  qed
qed

section \<open>Timers\<close>

lemma am_dir_poll:
  assumes dir: "am_dir us G A R a z x y out back acc dlv"
  shows "\<exists>x' as. am_ExpirePollRetransmitTimer now x = Some (x', as) \<and> transmitted as = [] \<and> delivered as = [] \<and>
    am_rx_same x x' \<and> am_qinv x' \<and> am_dir us G A R a z x' y out back acc dlv"
proof -
  have tx: "am_tx_rel us a x acc" and q: "am_qinv x"
    using dir by (simp_all add: am_dir_def am_tx_rel_def)
  from am_ExpirePollRetransmitTimer_total [OF q, of now] obtain t as where
    t: "am_ExpirePollRetransmitTimer now x = Some (t, as)" "am_qinv t" "am_tx_rest x t" "am_vtA t = am_vtA x"
      "am_vtS t = am_vtS x" "transmitted as = []" "delivered as = []"
      "\<forall>i<1024. am_slot t i = (if am_poll_moves x \<and> (i + 1024 - sn_val (am_vtA x)) mod 1024 < sn_off (am_vtS x)
        then (None, if fst (am_slot x i) = None then snd (am_slot x i) else fst (am_slot x i)) else am_slot x i)"
    by blast
  have slot: "am_slot t (n mod 1024) = am_slot x (n mod 1024) \<or> am_slot t (n mod 1024) =
      (None, if fst (am_slot x (n mod 1024)) = None then snd (am_slot x (n mod 1024)) else fst (am_slot x (n mod 1024)))" for n
    using t(8) by simp
  have "am_tx_rel us a t acc"
    unfolding am_tx_rel_def
  proof (intro conjI allI impI)
    fix n p
    assume n: "a \<le> n \<and> n < length us \<and> (fst (am_slot t (n mod 1024)) = Some p \<or> snd (am_slot t (n mod 1024)) = Some p)"
    then have "fst (am_slot x (n mod 1024)) = Some p \<or> snd (am_slot x (n mod 1024)) = Some p"
      using slot [of n] by (auto split: if_splits)
    then show "am_pdu p (sn_make (word_of_nat (n mod 1024))) (us ! n)"
      using tx n unfolding am_tx_rel_def by blast
  qed (use tx t(2-5) in \<open>simp_all add: am_tx_rel_def am_tx_rest_def\<close>)
  moreover have "am_slot t (n mod 1024) \<noteq> (None, None)" if n: "n < length us" "n \<notin> A" for n
  proof -
    have "am_slot x (n mod 1024) \<noteq> (None, None)"
      using dir n by (simp add: am_dir_def)
    then show ?thesis
      using slot [of n] by (auto simp: prod_eq_iff split: if_splits)
  qed
  ultimately show ?thesis
    using t am_tx_rest_rx_same [OF t(3)] dir by (simp add: am_dir_def)
qed

lemma am_dir_reorder:
  assumes dir: "am_dir us G A R a z x y out back acc dlv" and q: "am_qinv y" and run: "am_reorderingTimer y \<noteq> None"
  shows "\<exists>y'. am_ExpireReorderingTimer now y = Some y' \<and> am_tx_same y y' \<and> am_qinv y' \<and>
    am_dir us G A R a z x y' out back acc dlv"
  using am_ExpireReorderingTimer_total [OF q _ run, of us G R now] dir by (auto simp: am_dir_def)

lemma am_quiet:
  assumes "am_qinv s" "am_tx_same s t" "am_rx_same s t"
  shows "am_qinv t"
proof -
  have "am_report_ok s"
    using assms(1) by (simp add: am_qinv_def)
  then have "am_report_ok t"
    using assms(3) by (simp add: am_report_ok_def am_rx_same_def)
  then show ?thesis
    by (rule am_qinv_same [OF assms(2,1)])
qed

section \<open>Both directions\<close>

definition am_joined ::
    "rlc_am \<Rightarrow> rlc_am \<Rightarrow> bytes list \<Rightarrow> bytes list \<Rightarrow> bytes list \<Rightarrow> bytes list \<Rightarrow> bool" where
  "am_joined x y out back acc dlv \<longleftrightarrow> (\<exists>us G A R a z. am_dir us G A R a z x y out back acc dlv)"

definition link_inv :: "am_link \<Rightarrow> bool" where
  "link_inv l \<longleftrightarrow> am_joined (lk_near l) (lk_far l) (lk_out l) (lk_inn l) (lk_acc l) (lk_dlvF l) \<and>
     am_joined (lk_far l) (lk_near l) (lk_inn l) (lk_out l) (lk_accF l) (lk_dlv l)"

lemma am_joinedI: "am_dir us G A R a z x y out back acc dlv \<Longrightarrow> am_joined x y out back acc dlv"
  unfolding am_joined_def by blast

lemma link_inv_init: "link_inv am_link_init"
  using am_joinedI [OF am_dir_init] by (simp add: link_inv_def am_link_init_def)

lemma link_inv_flip [simp]: "link_inv (am_flip l) = link_inv l"
  by (auto simp: link_inv_def am_flip_def)

lemma am_near_inv:
  assumes inv: "link_inv l" and ok: "am_event_ok e"
  shows "\<exists>l'. am_near e l = Some l' \<and> link_inv l'"
proof -
  obtain us G A R a z where tx: "am_dir us G A R a z (lk_near l) (lk_far l) (lk_out l) (lk_inn l) (lk_acc l) (lk_dlvF l)"
    using inv unfolding link_inv_def am_joined_def by blast
  obtain us' G' A' R' a' z' where
    rx: "am_dir us' G' A' R' a' z' (lk_far l) (lk_near l) (lk_inn l) (lk_out l) (lk_accF l) (lk_dlv l)"
    using inv unfolding link_inv_def am_joined_def by blast
  have q: "am_qinv (lk_near l)"
    using tx by (simp add: am_dir_def am_tx_rel_def)
  show ?thesis
  proof (cases e)
    case (AmSubmit now p)
    with ok am_dir_submit [OF tx, of p now] am_dir_rx_same [OF rx] show ?thesis
      by (fastforce simp: am_act_def link_inv_def intro: am_joinedI)
  next
    case (AmOpp now o')
    with ok obtain x' as us1 where 1: "am_DoNotifyTxOpportunity now o' (lk_near l) = Some (x', as)" "delivered as = []"
      "am_dir us1 G A R a z x' (lk_far l) (lk_out l @ transmitted as) (lk_inn l) (lk_acc l) (lk_dlvF l)"
      using am_dir_opp [OF tx, of o' now] by auto
    with am_dir_report [OF rx q _ 1(1)] ok AmOpp show ?thesis
      by (auto simp: am_act_def link_inv_def intro: am_joinedI)
  next
    case AmLose
    then show ?thesis
      using am_joinedI [OF am_dir_lose(1) [OF tx]] am_joinedI [OF am_dir_lose(2) [OF rx]] by (simp add: link_inv_def)
  next
    case (AmDeliver now)
    show ?thesis
    proof (cases "lk_inn l")
      case Nil
      then show ?thesis
        using AmDeliver inv by simp
    next
      case (Cons p ps)
      show ?thesis
      proof (cases "is_data p")
        case True
        obtain y' as G1 R1 z1 where 1: "am_DoReceivePdu now p (lk_near l) = Some (y', as)" "transmitted as = []"
          "am_tx_same (lk_near l) y'" "am_qinv y'"
          "am_dir us' G1 A' R1 a' z1 (lk_far l) y' ps (lk_out l) (lk_accF l) (lk_dlv l @ delivered as)"
          using am_dir_data [OF rx [unfolded Cons] True q] by blast
        have "am_dir us G A R a z y' (lk_far l) (lk_out l) ps (lk_acc l) (lk_dlvF l)"
          using am_dir_tx_same [OF am_dir_skip(2) [OF tx [unfolded Cons] True] 1(3,4)] .
        then show ?thesis
          using AmDeliver Cons 1 by (auto simp: am_act_def link_inv_def intro: am_joinedI)
      next
        case False
        obtain x' a1 A1 where 1: "am_DoReceivePdu now p (lk_near l) = Some (x', [])" "am_rx_same (lk_near l) x'"
          "am_dir us G A1 R a1 z x' (lk_far l) (lk_out l) ps (lk_acc l) (lk_dlvF l)"
          using am_dir_status [OF tx [unfolded Cons] False] by blast
        have "am_dir us' G' A' R' a' z' (lk_far l) x' ps (lk_out l) (lk_accF l) (lk_dlv l)"
          using am_dir_rx_same [OF am_dir_skip(1) [OF rx [unfolded Cons] False] 1(2)] .
        then show ?thesis
          using AmDeliver Cons 1 by (auto simp: am_act_def link_inv_def intro: am_joinedI)
      qed
    qed
  next
    case (AmPollTimer now)
    with am_dir_poll [OF tx, of now] am_dir_rx_same [OF rx] inv show ?thesis
      by (cases "am_pollRetransmitTimer (lk_near l)") (fastforce simp: am_act_def link_inv_def intro: am_joinedI)+
  next
    case (AmRbsTimer now)
    obtain x as where 1: "am_ExpireRbsTimer now (lk_near l) = Some ((lk_near l)\<lparr>am_rbsTimer := x\<rparr>, as)"
      "am_qinv ((lk_near l)\<lparr>am_rbsTimer := x\<rparr>)" "transmitted as = []" "delivered as = []"
      using am_ExpireRbsTimer_total [OF q, of now] by blast
    let ?x = "(lk_near l)\<lparr>am_rbsTimer := x\<rparr>"
    have same: "am_tx_same (lk_near l) ?x" "am_rx_same (lk_near l) ?x"
      by (simp_all add: am_tx_same_def am_rx_same_def)
    show ?thesis
      using AmRbsTimer 1 inv am_joinedI [OF am_dir_tx_same [OF tx same(1) 1(2)]] am_joinedI [OF am_dir_rx_same [OF rx same(2)]]
      by (cases "am_rbsTimer (lk_near l)") (simp_all add: am_act_def link_inv_def)
  next
    case (AmReorderTimer now)
    show ?thesis
    proof (cases "am_reorderingTimer (lk_near l)")
      case None
      then show ?thesis
        using AmReorderTimer inv by simp
    next
      case (Some w)
      then obtain y' where 1: "am_ExpireReorderingTimer now (lk_near l) = Some y'" "am_tx_same (lk_near l) y'"
        "am_qinv y'" "am_dir us' G' A' R' a' z' (lk_far l) y' (lk_inn l) (lk_out l) (lk_accF l) (lk_dlv l)"
        using am_dir_reorder [OF rx q, of now] by auto
      show ?thesis
        using AmReorderTimer Some 1 am_dir_tx_same [OF tx 1(2,3)] by (auto simp: am_act_def link_inv_def intro: am_joinedI)
    qed
  next
    case AmProhibitTimer
    let ?x = "am_ExpireStatusProhibitTimer (lk_near l)"
    have same: "am_tx_same (lk_near l) ?x" "am_rx_same (lk_near l) ?x"
      by (simp_all add: am_ExpireStatusProhibitTimer_def am_tx_same_def am_rx_same_def)
    show ?thesis
      using AmProhibitTimer am_joinedI [OF am_dir_tx_same [OF tx same(1) am_quiet [OF q same]]]
        am_joinedI [OF am_dir_rx_same [OF rx same(2)]] by (simp add: link_inv_def)
  qed
qed

lemma am_link_step_inv:
  assumes "link_inv l" "link_event_ok e"
  shows "\<exists>l'. am_link_step e l = Some l' \<and> link_inv l'"
proof (cases e)
  case (Near e')
  then show ?thesis
    using am_near_inv [OF assms(1)] assms(2) by simp
next
  case (Far e')
  then show ?thesis
    using am_near_inv [of "am_flip l" e'] assms by auto
qed

lemma am_link_run_inv:
  "link_inv l \<Longrightarrow> list_all link_event_ok es \<Longrightarrow> \<exists>l'. am_link_run es l = Some l' \<and> link_inv l'"
proof (induction es arbitrary: l)
  case (Cons e es)
  then show ?case
    using am_link_step_inv [of l e] by fastforce
qed simp

text \<open>What is delivered is a prefix of what was accepted on the other side.\<close>

lemma am_dir_prefix:
  assumes dir: "am_dir us G A R a z x y out back acc dlv"
  shows "prefix dlv acc"
proof -
  note R = am_dir_R [OF dir]
  have "dlv = snd (spec_stream None (take R us))"
    using dir sdus_between_spec [OF R(1)] by (simp add: am_dir_def)
  moreover have "prefix (snd (spec_stream None (take R us))) (snd (spec_stream None us))"
    using spec_stream_append [of None "take R us" "drop R us"]
    by (simp add: case_prod_beta Let_def prefix_def)
  moreover have "prefix (snd (spec_stream None us)) acc"
    using dir by (auto simp: am_dir_def am_tx_rel_def prefix_def)
  ultimately show ?thesis
    using prefix_order.trans by blast
qed

text \<open>When the sender knows that all is acknowledged and has nothing left, all has been delivered.\<close>

lemma am_dir_complete:
  assumes dir: "am_dir us G A R a z x y out back acc dlv" and e: "am_txonBuffer x = []" "sn_eq (am_vtA x) (am_vtS x)"
  shows "dlv = acc"
proof -
  note R = am_dir_R [OF dir]
  have tx: "am_tx_rel us a x acc" "a \<le> R"
    using dir by (simp_all add: am_dir_def)
  have v: "sn_val (am_vtA x) = a mod 1024" "sn_val (am_vtS x) = length us mod 1024" "a \<le> length us" "length us \<le> a + 512"
    using tx(1) by (simp_all add: am_tx_rel_def)
  then have "a = length us"
    using e(2) mod_inj_window [of a a "length us"] by (simp add: sn_eq_iff_val)
  then have "R = length us"
    using tx(2) R(1) by simp
  moreover have "kept_at us (length us) = None"
    using tx(1) e(1) by (simp add: am_tx_rel_def um_tx_ok_def)
  ultimately show ?thesis
    using dir e(1) sdus_between_spec [of R us] by (auto simp: am_dir_def am_tx_rel_def join_def)
qed

end
