(* ===== verification/RlcProps.thy ===== *)
theory RlcProps
  imports RlcTm RlcUmLink RlcAmLink
begin

text \<open>
  What the RLC and PDCP entities promise, each with an instance at a concrete state.
\<close>

definition ex_grant :: "nat \<Rightarrow> TxOpportunityParameters" where
  "ex_grant n = \<lparr>txo_bytes = n, txo_layer = 0, txo_harqId = 0, txo_componentCarrierId = 0\<rparr>"

lemmas ex_sdu = um_sdu_ok_def sdu_ok_def

section \<open>Sequence numbers and headers\<close>

text \<open>The invariant of the type SequenceNumber10: whatever 16-bit value or number is assigned, added or
  subtracted, the value and the modulus base stay below 1024.\<close>

theorem sn_stays_in_range:
  assumes "sn_wf s" "sn_wf b"
  shows "sn_wf (sn_make w) \<and> sn_wf (sn_assign s w) \<and> sn_wf (sn_plus s d) \<and> sn_wf (sn_minus s d) \<and> sn_wf (sn_inc s) \<and>
    sn_wf (fst (sn_postinc s)) \<and> sn_wf (sn_SetModulusBase s b)"
  using assms by (simp add: sn_wf_nat)

theorem sn_stays_in_range_witness: "sn_wf (sn_plus (sn_make 1023) 65535) \<and> sn_wf (sn_minus (sn_make 3) 7)"
  using sn_stays_in_range [of "sn_make 1023" "sn_make 0" 0 65535] sn_stays_in_range [of "sn_make 3" "sn_make 0" 0 7]
  by simp

text \<open>C27: The comparison operators of SequenceNumber10, which subtract in 16 bits and reduce modulo
  1024, order the numbers by their distance above the modulus base; this is a total order on the
  numbers with one base, also across the wrap.\<close>

theorem sn_compare_is_window_order:
  assumes "sn_wf a" "sn_wf b" "sn_base a = sn_base b"
  shows "(sn_gt a b \<longleftrightarrow> (sn_val a + 1024 - sn_base a) mod 1024 > (sn_val b + 1024 - sn_base a) mod 1024) \<and>
    (sn_lt a b \<longleftrightarrow> sn_gt b a) \<and> (sn_le a b \<longleftrightarrow> \<not> sn_gt a b) \<and> (sn_ge a b \<longleftrightarrow> \<not> sn_gt b a) \<and>
    (sn_eq a b \<or> sn_lt a b \<or> sn_gt a b)"
  using assms sn_off_inj [OF assms]
  by (auto simp: sn_cmp sn_off_def [symmetric] sn_eq_iff_val) (simp_all add: sn_off_def)

theorem sn_compare_is_window_order_witness:
  "sn_lt (sn_SetModulusBase (sn_make 1020) (sn_make 1000)) (sn_SetModulusBase (sn_make 4) (sn_make 1000))"
  using sn_compare_is_window_order
    [of "sn_SetModulusBase (sn_make 4) (sn_make 1000)" "sn_SetModulusBase (sn_make 1020) (sn_make 1000)"]
    sn_compare_is_window_order
    [of "sn_SetModulusBase (sn_make 1020) (sn_make 1000)" "sn_SetModulusBase (sn_make 4) (sn_make 1000)"]
  by (simp add: sn_wf_nat)

text \<open>The UM data header round trip: the header that Serialize writes, whatever the number of
  length indicators, followed by any data, is read back by Deserialize with all its fields, and
  the data is left.\<close>

theorem um_header_roundtrip:
  assumes "um_hwf h"
  shows "\<exists>q h'. AddHeader um_GetSerializedSize um_Serialize h p = Some q \<and>
    length q = um_GetSerializedSize h + length p \<and>
    RemoveHeader um_des q = Some (h', p) \<and> um_view h' = um_view h"
  using um_codec.AddHeader_Some [OF assms, of p] um_codec.RemoveHeader_AddHeader [OF assms, of p]
  by force

definition ex_um_header :: um_header where
  "ex_um_header = um_SetFramingInfo 1 (um_SetSequenceNumber (sn_make 1000)
     (um_PushExtensionBit DATA_FIELD_FOLLOWS (um_PushLengthIndicator 20
        (um_PushExtensionBit E_LI_FIELDS_FOLLOWS um_header_init))))"

theorem um_header_roundtrip_witness:
  "\<exists>q h'. AddHeader um_GetSerializedSize um_Serialize ex_um_header [1, 2] = Some q \<and>
    length q = um_GetSerializedSize ex_um_header + 2 \<and>
    RemoveHeader um_des q = Some (h', [1, 2]) \<and> um_view h' = um_view ex_um_header"
proof -
  have "um_hwf ex_um_header"
    by (simp add: um_hwf_def ex_um_header_def um_SetFramingInfo_def um_SetSequenceNumber_def
        um_PushExtensionBit_def um_PushLengthIndicator_def um_header_init_def sn_make_def ext_defs)
  from um_header_roundtrip [OF this, of "[1, 2]"] show ?thesis
    by simp
qed

text \<open>C26: The AM header round trip, for data PDUs with any length indicators and segment
  offsets below 256, and for STATUS PDUs with any list of NACKs, with ten bit fields packed
  alternately at odd and even positions, as long as the length of the header fits the 16 bits of
  m_headerLength: up to 43686 length indicators and 43688 NACKs (the predicates am_data_hwf and
  am_status_hwf ask that this member is the true length).\<close>

theorem am_header_roundtrip:
  assumes "am_data_hwf h \<and> ah_segmentOffset h < 256 \<or> am_status_hwf h"
  shows "\<exists>q h'. AddHeader am_GetSerializedSize am_Serialize h p = Some q \<and>
    length q = am_GetSerializedSize h + length p \<and>
    RemoveHeader am_des q = Some (h', p) \<and> am_view h' = am_view h"
proof -
  have "am_hwf h"
    using assms by (auto simp: am_hwf_def)
  then show ?thesis
    using am_codec.AddHeader_Some [of h p] am_codec.RemoveHeader_AddHeader [of h p] by force
qed

definition ex_status :: "sn10 \<Rightarrow> int list \<Rightarrow> am_header" where
  "ex_status ack nacks = am_SetAckSn ack (fold am_PushNack nacks (am_SetControlPdu STATUS_PDU am_header_init))"

lemma ex_status_hwf:
  assumes ack: "m_value ack < 1024" and ns: "list_all (\<lambda>n. 0 \<le> n \<and> n < 1024) nacks" and len: "length nacks \<le> 1024"
  shows "am_status_hwf (ex_status ack nacks)"
proof -
  have push: "am_status_hwf (fold am_PushNack ms h)"
    if "am_status_hwf h" "list_all (\<lambda>n. 0 \<le> n \<and> n < 1024) ms" "length (ah_nackSnList h) + length ms \<le> 1024" for ms h
    using that
  proof (induction ms arbitrary: h)
    case (Cons m ms)
    have "2 + li_size (Suc (length (ah_nackSnList h))) < 2 ^ 16"
      using li_size_mono [of "Suc (length (ah_nackSnList h))" 1024] Cons.prems(3) by (simp add: li_size_def)
    then have "am_status_hwf (am_PushNack m h)"
      using Cons.prems by (simp add: am_push_nack)
    then show ?case
      using Cons by (simp add: am_PushNack_def Let_def)
  qed simp
  moreover have "am_status_hwf (am_SetControlPdu STATUS_PDU am_header_init)"
    by (simp add: am_status_hwf_def am_SetControlPdu_def am_header_init_def STATUS_PDU_def sn_make_def)
  moreover have "ah_nackSnList (am_SetControlPdu STATUS_PDU am_header_init) = []"
    by (simp add: am_SetControlPdu_def am_header_init_def)
  ultimately have "am_status_hwf (fold am_PushNack nacks (am_SetControlPdu STATUS_PDU am_header_init))"
    using push [OF _ ns] len by simp
  with ack show ?thesis
    by (simp add: ex_status_def am_SetAckSn_def am_status_hwf_def)
qed

theorem am_header_roundtrip_witness:
  "\<exists>q h'. AddHeader am_GetSerializedSize am_Serialize (ex_status (sn_make 7) [3, 5, 1023]) [] = Some q \<and>
    length q = am_GetSerializedSize (ex_status (sn_make 7) [3, 5, 1023]) \<and>
    RemoveHeader am_des q = Some (h', []) \<and> am_view h' = am_view (ex_status (sn_make 7) [3, 5, 1023])"
proof -
  have "am_status_hwf (ex_status (sn_make 7) [3, 5, 1023])"
    by (rule ex_status_hwf) (simp_all add: sn_make_def)
  from am_header_roundtrip [OF disjI2 [OF this], of "[]"] show ?thesis
    by (simp only: list.size add_0_right)
qed

text \<open>The segment offset of an AM PDU segment does not survive the round trip: Deserialize forgets
  to shift the upper bits, so what is read back is always below 256, whatever was written.\<close>

theorem am_segment_offset_lost:
  "(\<forall>b3 b4. rd_so b3 b4 < 256) \<and> rd_so (am_byte3 1 0x1234) (am_byte4 0x1234) = 0x36"
proof
  show "\<forall>b3 b4. rd_so b3 b4 < 256"
    using rd_so_less by blast
  show "rd_so (am_byte3 1 0x1234) (am_byte4 0x1234) = 0x36"
    by code_simp
qed

text \<open>PDCP: a PDU built by the transmitter with sequence number N is read by the receiver as the
  SDU given, and the receiver then expects the number the transmitter uses next, N + 1 modulo
  4096; both stay valid 12-bit numbers.\<close>

theorem pdcp_sdu_roundtrip:
  assumes "pd_txSequenceNumber s \<le> m_maxPdcpSn"
  shows "\<exists>s' t' q. DoTransmitPdcpSdu p s = Some (s', (pd_rnti s, pd_lcid s, q)) \<and> length q = length p + 2 \<and>
    pdcp_DoReceivePdu q t = Some (t', (pd_rnti t, pd_lcid t, p)) \<and>
    unat (pd_txSequenceNumber s') = (unat (pd_txSequenceNumber s) + 1) mod 4096 \<and>
    pd_rxSequenceNumber t' = pd_txSequenceNumber s'"
proof -
  from pdcp_transmit_total [of p s] obtain s' q where
    s': "DoTransmitPdcpSdu p s = Some (s', (pd_rnti s, pd_lcid s, q))" "length q = length p + 2"
      "pd_txSequenceNumber s' = next_pdcp_sn (pd_txSequenceNumber s)"
    by blast
  with pdcp_transmit_receive [OF s'(1) assms, of t] unat_next_pdcp_sn [OF assms] show ?thesis
    by auto
qed

theorem pdcp_sdu_roundtrip_witness:
  "\<exists>s' t' q. DoTransmitPdcpSdu [1, 2, 3] (pdcp_init\<lparr>pd_txSequenceNumber := 4095\<rparr>) = Some (s', (0, 0, q)) \<and>
    pdcp_DoReceivePdu q pdcp_init = Some (t', (0, 0, [1, 2, 3])) \<and> unat (pd_txSequenceNumber s') = 0"
  using pdcp_sdu_roundtrip [of "pdcp_init\<lparr>pd_txSequenceNumber := 4095\<rparr>" "[1, 2, 3]" pdcp_init]
  by (auto simp: pdcp_init_def m_maxPdcpSn_def)

section \<open>Unacknowledged mode\<close>

text \<open>The UM queue: for every run of submissions and
  opportunities the operations succeed, the 32-bit size counter is exactly the number of bytes
  queued and stays within the configured maximum, and every UM PDU fits the grant it answers.\<close>

theorem um_queue_run:
  assumes "um_qinv s" and "list_all (rlc_event_ok um_sdu_ok um_grant_ok) es"
  shows "\<exists>s' ass. rlc_run (\<lambda>now p s. Some (um_DoTransmitPdcpPdu now p s)) um_DoNotifyTxOpportunity es s = Some (s', ass) \<and>
    unat (um_txBufferSize s') = total_size (pdus (um_txBuffer s')) \<and> um_txBufferSize s' \<le> um_maxTxBufferSize s \<and>
    list_all2 (\<lambda>e as. \<forall>q\<in>set (transmitted as). length q \<le> granted e) es ass"
proof -
  from um.run_law [OF assms] obtain s' ass where
    run: "rlc_run (\<lambda>now p s. Some (um_DoTransmitPdcpPdu now p s)) um_DoNotifyTxOpportunity es s = Some (s', ass)"
      "list_all2 (\<lambda>e as. \<forall>q\<in>set (transmitted as). length q \<le> granted e) es ass"
    by auto
  with um.run_accounting [OF assms run(1)] show ?thesis
    by blast
qed

lemma um_qinv_init: "um_qinv um_init"
  using um_sizes_ok_init by (auto simp: um_qinv_def um_init_def intro: exI [of _ None])

theorem um_queue_run_witness:
  "\<exists>s' ass. rlc_run (\<lambda>now p s. Some (um_DoTransmitPdcpPdu now p s)) um_DoNotifyTxOpportunity
      [Submit 0 [1, 2, 3], Submit 1 [4, 5], Opportunity 2 (ex_grant 7)] um_init = Some (s', ass) \<and>
    unat (um_txBufferSize s') = total_size (pdus (um_txBuffer s'))"
  using um_queue_run [OF um_qinv_init, of "[Submit 0 [1, 2, 3], Submit 1 [4, 5], Opportunity 2 (ex_grant 7)]"]
  by (auto simp: ex_sdu um_grant_ok_def ex_grant_def)

text \<open>C14: Progress of UM: with at least as many opportunities of more than two bytes as bytes are
  queued, everything queued is sent. Grants are below 64 KB, or at most 43689 SDUs are queued: beyond
  both, the 16-bit length of the header can wrap.\<close>

theorem um_queue_drains:
  assumes "um_qinv s" and "\<forall>o'\<in>set os. 2 < txo_bytes o' \<and> (txo_bytes o' < 2 ^ 16 \<or> length (um_txBuffer s) \<le> 43689)" and "total_size (pdus (um_txBuffer s)) \<le> length os"
  shows "\<exists>s'. um_serve now os s = Some s' \<and> um_txBuffer s' = []"
  using um_serve_drains [of s os now] assms by (auto simp: um_room_def)

theorem um_queue_drains_witness:
  "\<exists>s'. um_serve 5 (replicate 3 (ex_grant 3)) (fst (um_DoTransmitPdcpPdu 0 [1, 2, 3] um_init)) = Some s' \<and>
     um_txBuffer s' = []"
proof (rule um_queue_drains)
  show "um_qinv (fst (um_DoTransmitPdcpPdu 0 [1, 2, 3] um_init))"
    by (rule um_submit_qinv [OF um_qinv_init]) (simp add: ex_sdu)
  show "total_size (pdus (um_txBuffer (fst (um_DoTransmitPdcpPdu 0 [1, 2, 3] um_init))))
      \<le> length (replicate 3 (ex_grant 3))"
    by (simp add: um_DoTransmitPdcpPdu_def um_init_def)
qed (simp add: ex_grant_def)

text \<open>C13: The receiving UM entity survives any well-formed PDU in any order: from a state with valid
  window variables, an ordered reception buffer of readable PDUs and a consistent reassembly state,
  every PDU is processed, all loops of the handler end, and these conditions hold again.\<close>

theorem um_receive_keeps_invariant:
  assumes "um_rx_inv s" and "um_readable p k" and "k < 1024"
  shows "\<exists>s' as. um_DoReceivePdu now p s = Some (s', as) \<and> um_rx_inv s'"
  by (rule um_DoReceivePdu_total [OF assms])

definition ex_pdu :: "u8 \<Rightarrow> u16 \<Rightarrow> bytes \<Rightarrow> bytes" where
  "ex_pdu fi sn p = [um_byte1 fi 0 sn, um_byte2 sn] @ p"

lemma ex_pdu_contents:
  assumes "n = word_of_nat k" "k < 1024" "fi = framing_of False nl"
  shows "um_contents (ex_pdu fi n p) (sn_make (word_of_nat k)) \<lparr>pf_noFirst = False, pf_noLast = nl, pf_fields = [p]\<rparr>"
  using assms by (cases nl)
    (auto simp: um_contents_def ex_pdu_def RemoveHeader_def um_Deserialize_def Let_def
      um_header_init_def sn_assign_def sn_make_def word_less_nat_alt RemoveAtStart_def ext_defs
      um_GetSerializedSize_def unat_of_nat)

theorem um_receive_keeps_invariant_witness:
  "\<exists>s' as. um_DoReceivePdu 3 (ex_pdu 0 700 [9]) um_init = Some (s', as) \<and> um_rx_inv s'"
proof -
  have "um_contents (ex_pdu 0 700 [9]) (sn_make 700) \<lparr>pf_noFirst = False, pf_noLast = False, pf_fields = [[9]]\<rparr>"
    using ex_pdu_contents [of 700 700 0 False "[9]"] by simp
  then have "um_readable (ex_pdu 0 700 [9]) 700"
    using um_contents_readable by (fastforce simp: sn_make_def)
  from um_receive_keeps_invariant [OF um_rx_inv_init this] show ?thesis
    by simp
qed

section \<open>Acknowledged mode\<close>

text \<open>C25: AM segmentation is UM segmentation: started with empty headers, the loop of the AM entity
  cuts the same data field from the same queue as that of the UM entity, leaves the same queue,
  and the header has the same extension bits and length indicators, two bytes longer.\<close>

theorem am_segmentation_is_um:
  "case um_seg_loop x buf sz n 1 um_header_init [] of (buf', sz', h, df) \<Rightarrow>
   case am_seg_loop x buf sz n 1 (am_SetDataPdu am_header_init) [] of (buf'', sz'', g, df') \<Rightarrow>
     buf'' = buf' \<and> sz'' = sz' \<and> df' = df \<and> ah_extensionBits g = uh_extensionBits h \<and>
     ah_lengthIndicators g = uh_lengthIndicators h \<and>
     ah_headerLength g = (if uh_extensionBits h = [] then 4 else uh_headerLength h + 2)"
proof -
  obtain buf' sz' h df where u: "um_seg_loop x buf sz n 1 um_header_init [] = (buf', sz', h, df)"
    by (metis prod_cases4)
  from am_seg_loop_um [OF hdr_sim_init u] obtain g where
    g: "am_seg_loop x buf sz n 1 (am_SetDataPdu am_header_init) [] = (buf', sz', g, df)" "hdr_sim h g"
    by blast
  then show ?thesis
    by (simp add: u g(1) hdr_sim_def del: One_nat_def)
qed



text \<open>C11: An opportunity below 64 KB given to the AM entity fails an assertion exactly when it is too
  small: below four bytes, below m_statusPduBufferSize when a STATUS PDU is due, or below seven when a
  new PDU would be sent. Otherwise it is answered as specified, in this order: the STATUS PDU when
  one is requested and not prohibited; the first PDU waiting for retransmission if it fits, unchanged
  but for the poll bit, moved back to the transmitted buffer; else a new PDU if the window is open.
  The invariant of the queue and the window is kept.\<close>

theorem am_opportunity_answered:
  assumes "am_qinv s" and "txo_bytes o' < 2 ^ 16" and "um_tx_ok kept (am_txonBuffer s)"
  shows "if txo_bytes o' < 4 \<or>
      (if am_statusPduRequested s \<and> am_statusProhibitTimer s = None
       then txo_bytes o' < unat (am_statusPduBufferSize s)
       else am_retxBufferSize s = 0 \<and> am_txonBuffer s \<noteq> [] \<and> txo_bytes o' < 7)
    then am_DoNotifyTxOpportunity now o' s = None
    else \<exists>s' as. am_DoNotifyTxOpportunity now o' s = Some (s', as) \<and>
      am_answered kept now o' s (am_answers o' s) s' as \<and> am_qinv s'"
proof (cases "am_too_small o' s")
  case True
  then show ?thesis
    using am_opportunity_aborts [OF assms(1) True] by (simp add: am_too_small_def)
next
  case False
  then show ?thesis
    using am_opportunity [OF assms(1) False assms(2,3), of now] unfolding am_too_small_def by auto
qed

theorem am_opportunity_answered_witness:
  "\<exists>s' as. am_DoNotifyTxOpportunity 4 (ex_grant 10) (am_init\<lparr>am_statusPduRequested := True\<rparr>) = Some (s', as) \<and>
    am_answered None 4 (ex_grant 10) (am_init\<lparr>am_statusPduRequested := True\<rparr>) Status s' as \<and> am_qinv s'"
proof -
  let ?s = "am_init\<lparr>am_statusPduRequested := True\<rparr>"
  have "am_tx_inv ?s = am_tx_inv am_init"
    by (rule am_tx_inv_cong) simp_all
  then have "am_qinv ?s"
    using am_qinv_init by (simp add: am_qinv_def am_sizes_ok_def am_report_ok_def)
  moreover have "am_answers (ex_grant 10) ?s = Status"
    by (simp add: am_answers_def ex_grant_def am_init_def)
  moreover have "txo_bytes (ex_grant 10) = 10" "um_tx_ok None (am_txonBuffer ?s)"
    by (simp_all add: ex_grant_def, simp add: am_init_def)
  moreover have "am_statusProhibitTimer ?s = None" "am_statusPduBufferSize ?s = 0"
    by (simp_all add: am_init_def)
  ultimately show ?thesis
    using am_opportunity_answered [of ?s "ex_grant 10" None 4] by simp
qed

text \<open>C10: The STATUS PDU built by a receiver is truthful: it reads back as a control PDU whose NACKs are
  exactly the missing numbers from VR(R) up to its ACK_SN; it reports on everything up to VR(MS) or
  stops at a number that is not received; it exceeds the grant by at most one byte; the request is
  cleared and t-StatusProhibit runs.\<close>

theorem am_status_is_truthful:
  assumes "am_report_ok s" and "unat (am_statusPduBufferSize s) \<le> txo_bytes o'" and "1 \<le> txo_bytes o'"
  shows "\<exists>s' k packet. am_send_status now o' s = Some (s', [TransmitPdu (answer_params (am_base s) o' packet)]) \<and>
    status_report (am_rxonBuffer s) (am_vrR s) (am_vrMs s) k packet \<and> length packet \<le> txo_bytes o' + 1 \<and>
    \<not> am_statusPduRequested s' \<and> am_statusProhibitTimer s' = Some (now + am_statusProhibitTimerValue s)"
  using am_send_status_total [of s o' now] assms by (force simp: am_report_ok_def)

theorem am_status_is_truthful_witness:
  "\<exists>s' k packet. am_send_status 8 (ex_grant 6) (am_init\<lparr>am_vrMs := sn_make 2\<rparr>)
      = Some (s', [TransmitPdu (answer_params rlc_base_init (ex_grant 6) packet)]) \<and>
    status_report [] (sn_make 0) (sn_make 2) k packet \<and> length packet \<le> 7"
  using am_status_is_truthful [of "am_init\<lparr>am_vrMs := sn_make 2\<rparr>" "ex_grant 6" 8]
  by (auto simp: am_report_ok_def am_init_def ex_grant_def sn_off_def)

text \<open>The bound of one byte over the grant is reached: OneMoreNackWouldFitIn has its two cases
  swapped. With two NACKs the header has five bytes and the third makes it seven; asked for six
  bytes it answers yes. With one NACK it refuses a second one that would fit.\<close>

theorem am_one_more_nack_too_large:
  "(let h = ex_status (sn_make 0) [1, 2] in ah_headerLength h = 5 \<and> am_OneMoreNackWouldFitIn 6 h \<and>
     ah_headerLength (am_PushNack 3 h) = 7) \<and>
   (let h = ex_status (sn_make 0) [1] in \<not> am_OneMoreNackWouldFitIn 5 h \<and> ah_headerLength (am_PushNack 2 h) = 5)"
  by code_simp

text \<open>C9: The effect of a STATUS PDU on the sender. If a number from VT(A) to the smaller of ACK_SN and
  VT(S) is NACKed whose PDU an earlier STATUS PDU acknowledged, an assertion fails. Otherwise the
  handler ends; of those PDUs the ones NACKed wait for retransmission and the others are dropped
  from both buffers; all other slots keep their PDUs; VT(A) advances over the acknowledged prefix;
  the size counters stay exact.\<close>

theorem am_status_effect:
  assumes "am_tx_inv s" and "sn_val (ah_ackSn h) < 1024"
  shows "let vs = sn_run (sn_val (am_vtA s)) (report_span h s) in
    if \<exists>v\<in>set vs. nack_in h v \<and> am_slot s v = (None, None) then am_receive_status h s = None
    else \<exists>t. am_receive_status h s = Some t \<and> am_tx_inv t \<and> sn_val (am_vtS t) = sn_val (am_vtS s) \<and>
       (\<forall>i<1024. am_slot t i = (if i \<in> set vs then reported h i (am_slot s i) else am_slot s i)) \<and>
       sn_val (am_vtA t) = (sn_val (am_vtA s) + length (takeWhile (\<lambda>v. \<not> nack_in h v) vs)) mod 1024"
  using am_receive_status_total [OF assms] unfolding Let_def nacks_held_def
  by (auto simp: status_result_def reported_on_def acked_prefix_def split: if_splits)

text \<open>C30: A STATUS PDU that is older than the window acknowledges everything: with an ACK_SN one below
  VT(A) and no NACK, the sender drops every PDU in flight and sets VT(A) to VT(S), because ACK_SN is
  read modulo 1024 above VT(A) and its position in the window is not checked.\<close>

theorem am_stale_status_acks_all:
  assumes "am_tx_inv s" and "sn_val (ah_ackSn h) = (sn_val (am_vtA s) + 1023) mod 1024" and "ah_nackSnList h = []"
  shows "\<exists>t. am_receive_status h s = Some t \<and> sn_val (am_vtA t) = sn_val (am_vtS t) \<and>
    (\<forall>i \<in> set (sn_run (sn_val (am_vtA s)) (sn_off (am_vtS s))). am_slot t i = (None, None))"
proof -
  have w: "sn_wf (am_vtA s)" "sn_wf (am_vtS s)" "sn_off (am_vtS s) \<le> 512" "sn_base (am_vtS s) = sn_val (am_vtA s)"
    using assms(1) by (simp_all add: am_tx_inv_def am_window_ok_def)
  have no: "\<not> nack_in h v" for v
    by (simp add: nack_in_def assms(3))
  then have held: "nacks_held h vs s" for vs
    by (simp add: nacks_held_def)
  have span: "report_span h s = sn_off (am_vtS s)"
    using w assms(2) mod_off [of "sn_val (am_vtA s)" "sn_val (am_vtA s) + 1023"]
    by (simp add: report_span_def sn_wf_nat)
  have all: "takeWhile (\<lambda>v. True) vs = vs" for vs :: "nat list"
    by (induction vs) simp_all
  have "(sn_val (am_vtA s) + sn_off (am_vtS s)) mod 1024 = sn_val (am_vtS s)"
    using w by (auto simp: sn_off_cases sn_wf_nat)
  with am_receive_status_total [OF assms(1), of h] assms(2) show ?thesis
    by (auto simp: held status_result_def reported_on_def acked_prefix_def span no all reported_def sn_run_bound)
qed

text \<open>An entity that has sent one PDU.\<close>

lemma am_sent_one:
  defines "s \<equiv> fst (the (am_DoTransmitPdcpPdu 0 [7, 8, 9] am_init))"
  shows "\<exists>s' as. am_DoNotifyTxOpportunity 1 (ex_grant 20) s = Some (s', as) \<and> am_qinv s' \<and>
    sn_val (am_vtA s') = 0 \<and> sn_val (am_vtS s') = 1 \<and> am_slot s' 0 \<noteq> (None, None)"
proof -
  obtain s1 as where s1: "am_DoTransmitPdcpPdu 0 [7, 8, 9] am_init = Some (s1, as)" "am_qinv s1"
    "am_txonBuffer s1 = (if am_accepts [7, 8, 9] am_init then am_txonBuffer am_init @
      [\<lparr>m_pdu = [7, 8, 9], m_waitingSince = 0, m_sduStatus = FULL_SDU\<rparr>] else am_txonBuffer am_init)"
    using am_submit_law [OF am_qinv_init, of "[7, 8, 9]" 0] by (auto simp: ex_sdu)
  have acc: "am_txonBuffer s1 = [\<lparr>m_pdu = [7, 8, 9], m_waitingSince = 0, m_sduStatus = FULL_SDU\<rparr>]"
    using s1(3) by (simp add: am_accepts_def am_init_def)
  have same: "\<not> am_statusPduRequested s1 \<and> am_retxBufferSize s1 = 0 \<and> am_vtS s1 = sn_make 0 \<and> am_vtA s1 = sn_make 0"
    using s1(1) by (auto simp: am_DoTransmitPdcpPdu_def Let_def case_prod_beta)
      (auto simp: am_init_def split: if_splits)
  have "am_answers (ex_grant 20) s1 = NewPdu"
    using same acc by (simp add: am_answers_def ex_grant_def sn_off_def)
  moreover have "um_tx_ok None (am_txonBuffer s1)"
    by (simp add: acc um_tx_ok_def)
  ultimately obtain s' as' u p where
    "am_DoNotifyTxOpportunity 1 (ex_grant 20) s1 = Some (s', as')" "am_qinv s'" "am_sends None s1 (ex_grant 20) s' p u"
    using am_opportunity [OF s1(2) am_grant_fits [OF _ s1(2)], of "ex_grant 20" None 1]
    by (auto simp: am_answered_def am_grant_ok_def ex_grant_def)
  with same s1(1) show ?thesis
    by (intro exI [of _ s'] exI [of _ as']) (simp add: s_def am_sends_def)
qed

text \<open>Its only PDU is NACKed.\<close>

theorem am_status_effect_witness:
  "\<exists>s' as t. am_DoNotifyTxOpportunity 1 (ex_grant 20) (fst (the (am_DoTransmitPdcpPdu 0 [7, 8, 9] am_init))) = Some (s', as) \<and>
    am_slot s' 0 \<noteq> (None, None) \<and> am_receive_status (ex_status (sn_make 1) [0]) s' = Some t \<and>
    fst (am_slot t 0) = None \<and> snd (am_slot t 0) \<noteq> None"
proof -
  obtain s' as where s': "am_DoNotifyTxOpportunity 1 (ex_grant 20) (fst (the (am_DoTransmitPdcpPdu 0 [7, 8, 9] am_init)))
      = Some (s', as)" "am_qinv s'" "sn_val (am_vtA s') = 0" "sn_val (am_vtS s') = 1" "am_slot s' 0 \<noteq> (None, None)"
    using am_sent_one by blast
  let ?h = "ex_status (sn_make 1) [0]"
  have s: "am_tx_inv s'" "sn_off (am_vtS s') = 1" "sn_val (ah_ackSn ?h) = 1" "nack_in ?h 0"
    using s'(2-4)
    by (auto simp: am_qinv_def am_tx_inv_def am_window_ok_def sn_off_def ex_status_def am_SetAckSn_def
        nack_in_def am_PushNack_def Let_def)
  then have "sn_run (sn_val (am_vtA s')) (report_span ?h s') = [0]"
    using s'(3) by (simp add: report_span_def sn_run_Suc [of 0 0, simplified])
  with am_status_effect [of s' ?h] s s'(5) obtain t where "am_receive_status ?h s' = Some t"
    "am_slot t 0 = reported ?h 0 (am_slot s' 0)"
    by (auto simp: Let_def)
  with s s' show ?thesis
    by (cases "am_slot s' 0") (auto simp: reported_def)
qed

theorem am_stale_status_acks_all_witness:
  "\<exists>s' as t. am_DoNotifyTxOpportunity 1 (ex_grant 20) (fst (the (am_DoTransmitPdcpPdu 0 [7, 8, 9] am_init))) = Some (s', as) \<and>
    am_slot s' 0 \<noteq> (None, None) \<and> am_receive_status (ex_status (sn_make 1023) []) s' = Some t \<and>
    am_slot t 0 = (None, None)"
proof -
  obtain s' as where s': "am_DoNotifyTxOpportunity 1 (ex_grant 20) (fst (the (am_DoTransmitPdcpPdu 0 [7, 8, 9] am_init)))
      = Some (s', as)" "am_qinv s'" "sn_val (am_vtA s') = 0" "sn_val (am_vtS s') = 1" "am_slot s' 0 \<noteq> (None, None)"
    using am_sent_one by blast
  have "am_tx_inv s'" "sn_off (am_vtS s') = 1"
    using s'(2-4) by (auto simp: am_qinv_def am_tx_inv_def am_window_ok_def sn_off_def)
  with am_stale_status_acks_all [of s' "ex_status (sn_make 1023) []"] s' show ?thesis
    by (auto simp: ex_status_def am_SetAckSn_def am_SetControlPdu_def am_header_init_def sn_run_Suc)
qed

text \<open>C24: t-PollRetransmit: its expiry always terminates and keeps the invariant; when nothing waits to
  be sent, or the window is stalled, every PDU in flight is considered for retransmission, and
  otherwise no PDU moves; nothing is lost.\<close>

theorem am_poll_timer_effect:
  assumes "am_qinv s"
  shows "\<exists>t as. am_ExpirePollRetransmitTimer now s = Some (t, as) \<and> am_qinv t \<and>
    am_vtA t = am_vtA s \<and> am_vtS t = am_vtS s \<and> transmitted as = [] \<and>
    (\<forall>i<1024. am_slot t i =
      (if ((am_txonBuffer s = [] \<and> am_retxBufferSize s = 0) \<or> sn_off (am_vtS s) = 512) \<and>
         (i + 1024 - sn_val (am_vtA s)) mod 1024 < sn_off (am_vtS s)
       then (None, if fst (am_slot s i) = None then snd (am_slot s i) else fst (am_slot s i))
       else am_slot s i))"
  using am_ExpirePollRetransmitTimer_total [OF assms, of now] unfolding am_poll_moves_def by blast

theorem am_poll_timer_effect_witness:
  "\<exists>t as. am_ExpirePollRetransmitTimer 9 am_init = Some (t, as) \<and> am_qinv t \<and> transmitted as = []"
  using am_poll_timer_effect [OF am_qinv_init, of 9] by blast

text \<open>C8: The AM receiver puts the stream in order: when data PDUs arrive in any order and any number of
  times, each within 512 numbers of the first one missing, it delivers exactly the SDUs that the
  PDUs before the first missing one carry, in order and once, also across the wrap of the numbers.\<close>

theorem am_receiver_in_order:
  assumes "fits_stream None us" and "arrivals_ok [] ns"
    and "list_all2 (\<lambda>n p. n < length us \<and> am_pdu p (sn_make (word_of_nat (n mod 1024))) (us ! n)) ns ps"
  shows "\<exists>t. am_rx_all now ps am_init = Some (t, snd (spec_stream None (take (first_missing ns) us)))"
proof -
  from am_rx_all_stream [OF am_qinv_init, of us "[]" 0] am_rx_rel_init assms obtain t R where
    t: "am_rx_all now ps am_init = Some (t, sdus_between us 0 R)" "am_rx_rel us (set (rev ns)) R t"
    by fastforce
  have R: "R \<notin> set ns" "{..<R} \<subseteq> set ns"
    using t(2) by (auto simp: am_rx_rel_def am_rx_core_def)
  then have "R \<le> length us"
    using assms(3) by (force simp: list_all2_conv_all_nth in_set_conv_nth subset_eq not_less [symmetric])
  with t(1) first_missing_unique [OF R] show ?thesis
    by (simp add: sdus_between_spec)
qed

definition ex_unit :: "bool \<Rightarrow> bool \<Rightarrow> bytes \<Rightarrow> pdu_fields" where
  "ex_unit nf nl p = \<lparr>pf_noFirst = nf, pf_noLast = nl, pf_fields = [p]\<rparr>"

lemma ex_am_pdu:
  assumes "n < 1024"
  shows "\<exists>p. am_pdu p (sn_make (word_of_nat n)) (ex_unit nf nl d)"
proof -
  let ?h = "\<lparr>ah_headerLength = 4, ah_dataControlBit = DATA_PDU, ah_resegmentationFlag = RF_PDU,
    ah_pollingBit = 0, ah_framingInfo = framing_of nf nl, ah_sequenceNumber = sn_make (word_of_nat n),
    ah_lastSegmentFlag = 1, ah_segmentOffset = 0, ah_lastOffset = 0, ah_extensionBits = [DATA_FIELD_FOLLOWS],
    ah_lengthIndicators = [], ah_controlPduType = ah_controlPduType am_header_init,
    ah_ackSn = ah_ackSn am_header_init, ah_nackSnList = []\<rparr>"
  have "framing_of nf nl < 4"
    by (cases nf; cases nl) simp_all
  then have "\<exists>p. AddHeader am_GetSerializedSize am_Serialize ?h d = Some p \<and>
      am_pdu p (sn_make (word_of_nat n)) (ex_unit nf nl d) \<and> length p = am_GetSerializedSize ?h + length d"
    using assms
    by (intro am_pdu_AddHeader)
       (simp_all add: am_data_hwf_def am_const_defs ex_unit_def sn_make_def word_less_nat_alt unat_of_nat ext_defs)
  then show ?thesis
    by blast
qed

theorem am_receiver_in_order_witness:
  "\<exists>p0 p1 p2 t. am_pdu p1 (sn_make 1) (ex_unit True False [8]) \<and>
     am_rx_all 0 [p1, p0, p1, p2] am_init = Some (t, [[7, 8], [9]])"
proof -
  let ?us = "[ex_unit False True [7], ex_unit True False [8], ex_unit False False [9]]"
  obtain p0 p1 p2 where p: "am_pdu p0 (sn_make 0) (?us ! 0)" "am_pdu p1 (sn_make 1) (?us ! 1)"
    "am_pdu p2 (sn_make 2) (?us ! 2)"
    using ex_am_pdu [of 0] ex_am_pdu [of 1] ex_am_pdu [of 2] by fastforce
  have "first_missing [1, 0, 1, 2] = 3"
    by code_simp
  moreover have "arrivals_ok [] [1, 0, 1, 2]"
    by code_simp
  ultimately show ?thesis
    using am_receiver_in_order [of ?us "[1, 0, 1, 2]" "[p1, p0, p1, p2]" 0] p
    by (auto simp: ex_unit_def pdu_fits_def reas_spec_def join_def)
qed

section \<open>Divergences shown\<close>

text \<open>An SDU that the head-of-line check reports as dropped is queued all the same.\<close>

lemma um_expired_sdu_still_queued:
  assumes "um_enablePdcpDiscarding s" "um_hol_expired now s" "um_txBufferSize s + GetSize p \<le> um_maxTxBufferSize s"
  shows "TxDrop p \<in> set (snd (um_DoTransmitPdcpPdu now p s)) \<and>
    pdus (um_txBuffer (fst (um_DoTransmitPdcpPdu now p s))) = pdus (um_txBuffer s) @ [p]"
  using assms by (simp add: um_DoTransmitPdcpPdu_def)

text \<open>The search for the next number not received, in 16 bits, passes 1023 without wrapping.\<close>

lemma um_next_missing16_passes_1023: "um_next_missing16 [(0, q), (1023, p)] 1023 = Some 1024"
  by (simp add: um_next_missing16.simps [of _ 1023] um_next_missing16.simps [of _ 1024] smap_has_def)

end
