(* ===== verification/ByteIO.thy ===== *)
theory ByteIO
  imports LteBase "HOL-Library.Monad_Syntax"
begin

text \<open>
  The reads and writes of \<^verbatim>\<open>Buffer::Iterator\<close> (\<^verbatim>\<open>src/network/model/buffer.h\<close> and
  \<^verbatim>\<open>buffer.cc\<close>) that the headers of the core network use. A write yields the bytes written, a
  read takes the bytes from the iterator on and yields the value and the bytes behind it; reading
  past the end is \<open>None\<close>. The locale \<open>ie_codec\<close> is the contract of a pair of a writing and a
  reading function, with the loop that reads such elements up to the end of the packet.
\<close>

section \<open>Writes\<close>

definition WriteHtonU16 :: "u16 \<Rightarrow> bytes" where
  "WriteHtonU16 x = [ucast (drop_bit 8 x), ucast x]"

definition WriteHtonU32 :: "u32 \<Rightarrow> bytes" where
  "WriteHtonU32 x =
     [ucast (drop_bit 24 x), ucast (drop_bit 16 x), ucast (drop_bit 8 x), ucast x]"

definition WriteHtonU64 :: "u64 \<Rightarrow> bytes" where
  "WriteHtonU64 x =
     [ucast (drop_bit 56 x), ucast (drop_bit 48 x), ucast (drop_bit 40 x), ucast (drop_bit 32 x),
      ucast (drop_bit 24 x), ucast (drop_bit 16 x), ucast (drop_bit 8 x), ucast x]"

text \<open>\<^verbatim>\<open>WriteU16\<close> writes the low byte first.\<close>

definition WriteU16 :: "u16 \<Rightarrow> bytes" where
  "WriteU16 x = [ucast x, ucast (drop_bit 8 x)]"

section \<open>Reads\<close>

fun ReadU8 :: "bytes \<Rightarrow> (u8 \<times> bytes) option" where
  "ReadU8 (a # bs) = Some (a, bs)"
| "ReadU8 [] = None"

text \<open>\<^verbatim>\<open>retval <<= 8; retval |= byte\<close>.\<close>

definition shift_in :: "'a::len word \<Rightarrow> u8 \<Rightarrow> 'a word" where
  "shift_in r b = push_bit 8 r OR ucast b"

fun ReadNtohU16 :: "bytes \<Rightarrow> (u16 \<times> bytes) option" where
  "ReadNtohU16 (a # b # bs) = Some (shift_in (shift_in 0 a) b, bs)"
| "ReadNtohU16 _ = None"

fun ReadNtohU32 :: "bytes \<Rightarrow> (u32 \<times> bytes) option" where
  "ReadNtohU32 (a # b # c # d # bs) =
     Some (shift_in (shift_in (shift_in (shift_in 0 a) b) c) d, bs)"
| "ReadNtohU32 _ = None"

fun ReadNtohU64 :: "bytes \<Rightarrow> (u64 \<times> bytes) option" where
  "ReadNtohU64 (a # b # c # d # e # f # g # h # bs) =
     Some (shift_in (shift_in (shift_in (shift_in (shift_in (shift_in (shift_in (shift_in
       0 a) b) c) d) e) f) g) h, bs)"
| "ReadNtohU64 _ = None"

text \<open>\<^verbatim>\<open>ReadU16\<close> reads the low byte first.\<close>

fun ReadU16 :: "bytes \<Rightarrow> (u16 \<times> bytes) option" where
  "ReadU16 (a # b # bs) = Some (shift_in (ucast b) a, bs)"
| "ReadU16 _ = None"

text \<open>\<^verbatim>\<open>Next(n)\<close> skips n bytes.\<close>

definition Next :: "nat \<Rightarrow> bytes \<Rightarrow> bytes option" where
  "Next n bs = (if n \<le> length bs then Some (drop n bs) else None)"

section \<open>Reading what was written\<close>

named_theorems io_simps \<open>lengths of writes and reads of writes\<close>

lemma length_writes [io_simps]:
  "length (WriteHtonU16 x) = 2" "length (WriteHtonU32 y) = 4" "length (WriteHtonU64 z) = 8"
  "length (WriteU16 x) = 2"
  by (simp_all add: WriteHtonU16_def WriteHtonU32_def WriteHtonU64_def WriteU16_def)

text \<open>Shifting in the next lower byte of a word that was read down to bit k + 8.\<close>

lemma shift_in_step:
  "k' = k + 8 \<Longrightarrow> shift_in (drop_bit k' (x :: 'a::len word)) (ucast (drop_bit k x)) = drop_bit k x"
  by (rule bit_word_eqI) (auto simp: shift_in_def bit_simps add.commute add.left_commute)

lemma shift_in_top:
  "LENGTH('a) = k + 8 \<Longrightarrow> shift_in 0 (ucast (drop_bit k (x :: 'a::len word))) = drop_bit k x"
  by (rule bit_word_eqI) (auto simp: shift_in_def bit_simps dest: bit_imp_le_length)

lemma shift_in_last: "shift_in (drop_bit 8 (x :: 'a::len word)) (ucast x) = x"
  using shift_in_step [of 8 0 x] by simp

lemma ReadNtohU16_Write [io_simps]: "ReadNtohU16 (WriteHtonU16 x @ bs) = Some (x, bs)"
  by (simp add: WriteHtonU16_def shift_in_top shift_in_last)

lemma ReadNtohU32_Write [io_simps]: "ReadNtohU32 (WriteHtonU32 x @ bs) = Some (x, bs)"
  by (simp add: WriteHtonU32_def shift_in_top shift_in_step shift_in_last)

lemma ReadNtohU64_Write [io_simps]: "ReadNtohU64 (WriteHtonU64 x @ bs) = Some (x, bs)"
  by (simp add: WriteHtonU64_def shift_in_top shift_in_step shift_in_last)

lemma ReadU16_Write [io_simps]: "ReadU16 (WriteU16 x @ bs) = Some (x, bs)"
  by (simp add: WriteU16_def, rule bit_word_eqI)
     (auto simp: shift_in_def bit_simps dest: bit_imp_le_length)

lemma Next_append [io_simps]: "length a = n \<Longrightarrow> Next n (a @ bs) = Some bs"
  by (simp add: Next_def)

text \<open>A 16-bit value written low byte first is read back with its bytes exchanged.\<close>

lemma ReadNtohU16_WriteU16:
  "ReadNtohU16 (WriteU16 x @ bs) = Some (push_bit 8 x OR drop_bit 8 x, bs)"
  by (simp add: WriteU16_def, rule bit_word_eqI)
     (auto simp: shift_in_def bit_simps dest: bit_imp_le_length)

section \<open>Elements\<close>

text \<open>
  The loop \<^verbatim>\<open>while (i.GetRemainingSize() > 0)\<close> over elements that \<open>rd\<close> reads. It ends because
  reading an element either consumes bytes or fails.
\<close>

partial_function (option) read_all :: "(bytes \<Rightarrow> ('a \<times> bytes) option) \<Rightarrow> bytes \<Rightarrow> 'a list option"
where
  "read_all rd bs =
     (if bs = [] then Some []
      else do { (x, bs') \<leftarrow> rd bs; xs \<leftarrow> read_all rd bs'; Some (x # xs) })"

lemma read_all_code [code]:
  "read_all rd bs =
     (if bs = [] then Some []
      else (case rd bs of
              None \<Rightarrow> None
            | Some (x, bs') \<Rightarrow> map_option (\<lambda>xs. x # xs) (read_all rd bs')))"
  by (subst read_all.simps) (auto simp: map_option_bind split: option.splits Option.bind_split)

text \<open>
  The contract of an element: \<open>ok\<close> is the condition under which the fields survive, \<open>sz\<close> the
  number of bytes.
\<close>

locale ie_codec =
  fixes wr :: "'a \<Rightarrow> bytes"
    and rd :: "bytes \<Rightarrow> ('a \<times> bytes) option"
    and ok :: "'a \<Rightarrow> bool"
    and sz :: "'a \<Rightarrow> nat"
  assumes rd_wr: "ok x \<Longrightarrow> rd (wr x @ bs) = Some (x, bs)"
    and wr_size: "length (wr x) = sz x"
    and sz_pos: "0 < sz x"
begin

lemma wr_not_Nil [simp]: "wr x \<noteq> []"
  using wr_size [of x] sz_pos [of x] by auto

lemma read_all_wr: "list_all ok xs \<Longrightarrow> read_all rd (concat (map wr xs)) = Some xs"
proof (induction xs)
  case Nil
  then show ?case
    by (simp add: read_all.simps)
next
  case (Cons x xs)
  have "rd (wr x @ concat (map wr xs)) = Some (x, concat (map wr xs))"
    using Cons.prems by (simp add: rd_wr)
  then show ?case
    using Cons by (simp add: read_all.simps [of rd "wr x @ concat (map wr xs)"])
qed

lemma length_concat_wr: "length (concat (map wr xs)) = sum_list (map sz xs)"
  by (induction xs) (simp_all add: wr_size)

end

text \<open>The plain reads and writes are the first elements.\<close>

interpretation io_u8: ie_codec "\<lambda>x. [x]" ReadU8 "\<lambda>_. True" "\<lambda>_. 1"
  by unfold_locales auto

interpretation io_u16: ie_codec WriteHtonU16 ReadNtohU16 "\<lambda>_. True" "\<lambda>_. 2"
  by unfold_locales (auto simp: io_simps)

interpretation io_u32: ie_codec WriteHtonU32 ReadNtohU32 "\<lambda>_. True" "\<lambda>_. 4"
  by unfold_locales (auto simp: io_simps)

interpretation io_u64: ie_codec WriteHtonU64 ReadNtohU64 "\<lambda>_. True" "\<lambda>_. 8"
  by unfold_locales (auto simp: io_simps)

end
