(* ===== verification/IpHeaders.thy ===== *)
theory IpHeaders
  imports HeaderCodec ByteIO
begin

text \<open>
  The internet headers that the core network looks into: \<^verbatim>\<open>Ipv4Header\<close>, \<^verbatim>\<open>Ipv6Header\<close>,
  \<^verbatim>\<open>UdpHeader\<close> and the fixed part of \<^verbatim>\<open>TcpHeader\<close> (\<^verbatim>\<open>src/internet/model\<close>), with checksums
  disabled, which is the default of ns-3. The first three are header codecs.
\<close>

section \<open>Addresses and masks\<close>

type_synonym ipv4 = u32

text \<open>\<^verbatim>\<open>Ipv6Address\<close> and \<^verbatim>\<open>Ipv6Prefix\<close> are arrays of 16 bytes.\<close>

type_synonym ipv6 = bytes

definition Ipv4Address_UNINITIALIZED :: ipv4 where
  "Ipv4Address_UNINITIALIZED = 0x66666666"

definition Ipv6_zero :: ipv6 where
  "Ipv6_zero = replicate 16 0"

definition Ipv4Mask_IsMatch :: "u32 \<Rightarrow> ipv4 \<Rightarrow> ipv4 \<Rightarrow> bool" where
  "Ipv4Mask_IsMatch m a b \<longleftrightarrow> a AND m = b AND m"

text \<open>The loop over the bytes of the two addresses and of the prefix.\<close>

fun Ipv6Prefix_IsMatch :: "bytes \<Rightarrow> ipv6 \<Rightarrow> ipv6 \<Rightarrow> bool" where
  "Ipv6Prefix_IsMatch (m # ms) (a # as) (b # bs) =
     (if a AND m \<noteq> b AND m then False else Ipv6Prefix_IsMatch ms as bs)"
| "Ipv6Prefix_IsMatch _ _ _ = True"

lemma Ipv4Mask_zero [simp]: "Ipv4Mask_IsMatch 0 a b"
  by (simp add: Ipv4Mask_IsMatch_def)

lemma Ipv6Prefix_zero [simp]: "Ipv6Prefix_IsMatch (replicate n 0) a b"
proof (induction n arbitrary: a b)
  case (Suc n a b)
  then show ?case
    by (cases a; cases b) simp_all
qed simp

section \<open>IPv4\<close>

record ipv4_header =
  ip_payloadSize :: u16
  ip_identification :: u16
  ip_tos :: u8
  ip_ttl :: u8
  ip_protocol :: u8
  ip_flags :: u8
  ip_fragmentOffset :: u16
  ip_checksum :: u16
  ip_headerSize :: u16
  ip_source :: ipv4
  ip_destination :: ipv4

definition DONT_FRAGMENT :: u8 where "DONT_FRAGMENT = 1"
definition MORE_FRAGMENTS :: u8 where "MORE_FRAGMENTS = 2"

definition ipv4_init :: ipv4_header where
  "ipv4_init = \<lparr>ip_payloadSize = 0, ip_identification = 0, ip_tos = 0, ip_ttl = 0,
     ip_protocol = 0, ip_flags = 0, ip_fragmentOffset = 0, ip_checksum = 0, ip_headerSize = 20,
     ip_source = Ipv4Address_UNINITIALIZED, ip_destination = Ipv4Address_UNINITIALIZED\<rparr>"

definition ip_IsLastFragment :: "ipv4_header \<Rightarrow> bool" where
  "ip_IsLastFragment h \<longleftrightarrow> \<not> (ip_flags h AND MORE_FRAGMENTS \<noteq> 0)"

definition ipv4_GetSerializedSize :: "ipv4_header \<Rightarrow> nat" where
  "ipv4_GetSerializedSize h = unat (ip_headerSize h)"

text \<open>The byte with the flags and the high bits of the offset, in units of 8 bytes.\<close>

definition ipv4_flagsFrag :: "u8 \<Rightarrow> u16 \<Rightarrow> u8" where
  "ipv4_flagsFrag flags off =
     (let f = ucast (drop_bit 8 (drop_bit 3 off) AND 0x1f);
          f = (if flags AND DONT_FRAGMENT \<noteq> 0 then f OR 0x40 else f)
      in if flags AND MORE_FRAGMENTS \<noteq> 0 then f OR 0x20 else f)"

definition ipv4_Serialize :: "ipv4_header \<Rightarrow> bytes" where
  "ipv4_Serialize h =
     [0x45, ip_tos h] @ WriteHtonU16 (ip_payloadSize h + 20)
     @ WriteHtonU16 (ip_identification h)
     @ [ipv4_flagsFrag (ip_flags h) (ip_fragmentOffset h),
        ucast (drop_bit 3 (ip_fragmentOffset h) AND 0xff),
        ip_ttl h, ip_protocol h]
     @ WriteHtonU16 0 @ WriteHtonU32 (ip_source h) @ WriteHtonU32 (ip_destination h)"

definition ipv4_readFlags :: "u8 \<Rightarrow> u8" where
  "ipv4_readFlags flags =
     (if flags AND 0x40 \<noteq> 0 then DONT_FRAGMENT else 0)
     OR (if flags AND 0x20 \<noteq> 0 then MORE_FRAGMENTS else 0)"

definition ipv4_readOffset :: "u8 \<Rightarrow> u8 \<Rightarrow> u16" where
  "ipv4_readOffset b1 b2 = push_bit 3 (push_bit 8 (ucast (b1 AND 0x1f)) OR ucast b2)"

text \<open>\<^verbatim>\<open>Deserialize\<close> leaves the header untouched and consumes nothing when the version is not 4.\<close>

definition ipv4_Deserialize :: "bytes \<Rightarrow> (ipv4_header \<times> nat) option" where
  "ipv4_Deserialize bs = do {
     (verIhl, i) \<leftarrow> ReadU8 bs;
     let headerSize = (ucast (verIhl AND 0x0f) * 4 :: u16);
     if drop_bit 4 verIhl \<noteq> 4 then Some (ipv4_init, 0)
     else do {
       (tos, i) \<leftarrow> ReadU8 i;
       (sz, i) \<leftarrow> ReadNtohU16 i;
       (ident, i) \<leftarrow> ReadNtohU16 i;
       (flags, i) \<leftarrow> ReadU8 i;
       (frag, i) \<leftarrow> ReadU8 i;
       (ttl, i) \<leftarrow> ReadU8 i;
       (protocol, i) \<leftarrow> ReadU8 i;
       (checksum, i) \<leftarrow> ReadU16 i;
       (src, i) \<leftarrow> ReadNtohU32 i;
       (dst, i) \<leftarrow> ReadNtohU32 i;
       let h = \<lparr>ip_payloadSize = sz - headerSize, ip_identification = ident, ip_tos = tos,
                ip_ttl = ttl, ip_protocol = protocol, ip_flags = ipv4_readFlags flags,
                ip_fragmentOffset = ipv4_readOffset flags frag, ip_checksum = checksum,
                ip_headerSize = headerSize, ip_source = src, ip_destination = dst\<rparr>;
       Some (h, ipv4_GetSerializedSize h) } }"

definition ipv4_hwf :: "ipv4_header \<Rightarrow> bool" where
  "ipv4_hwf h \<longleftrightarrow> ip_headerSize h = 20 \<and> ip_flags h < 4 \<and> ip_fragmentOffset h AND 7 = 0"

definition ipv4_view ::
  "ipv4_header \<Rightarrow> u16 \<times> u16 \<times> u8 \<times> u8 \<times> u8 \<times> u8 \<times> u16 \<times> ipv4 \<times> ipv4" where
  "ipv4_view h = (ip_payloadSize h, ip_identification h, ip_tos h, ip_ttl h, ip_protocol h,
     ip_flags h, ip_fragmentOffset h, ip_source h, ip_destination h)"

lemma ipv4_offset_roundtrip:
  "off AND 7 = 0 \<Longrightarrow>
     ipv4_readOffset (ipv4_flagsFrag fl off) (ucast (drop_bit 3 off AND 0xff)) = off"
  by (simp add: ipv4_readOffset_def ipv4_flagsFrag_def Let_def u16_eq_iff bit_simps)

lemma ipv4_flags_roundtrip:
  "fl < 4 \<Longrightarrow> ipv4_readFlags (ipv4_flagsFrag fl off) = fl"
  using u8_lt_4 [of fl]
  by (simp add: ipv4_readFlags_def ipv4_flagsFrag_def Let_def u8_eq_iff bit_simps
      DONT_FRAGMENT_def MORE_FRAGMENTS_def)

lemma length_ipv4_Serialize: "length (ipv4_Serialize h) = 20"
  by (simp add: ipv4_Serialize_def io_simps)

lemma ipv4_des_ser:
  assumes "ipv4_hwf h"
  shows "\<exists>h'. ipv4_Deserialize (ipv4_Serialize h @ p) = Some (h', 20) \<and> ipv4_view h' = ipv4_view h"
proof -
  have "(5 :: u16) * 4 = 20" "(69::u8) AND 0x0f = 5" "drop_bit 4 (69::u8) = 4"
    by code_simp+
  moreover have "ReadU16 (WriteHtonU16 0 @ bs) = Some (0, bs)" for bs
    by (simp add: WriteHtonU16_def shift_in_def)
  ultimately show ?thesis
    using assms
    by (simp add: ipv4_Serialize_def ipv4_Deserialize_def io_simps Let_def ipv4_hwf_def
        ipv4_view_def ipv4_offset_roundtrip ipv4_flags_roundtrip ipv4_GetSerializedSize_def)
qed

interpretation ip4: header_codec ipv4_GetSerializedSize "\<lambda>h. Some (ipv4_Serialize h)"
  ipv4_Deserialize ipv4_hwf ipv4_view
proof
  fix h b p
  assume h: "ipv4_hwf h"
  then have "ipv4_GetSerializedSize h = 20"
    by (simp add: ipv4_hwf_def ipv4_GetSerializedSize_def)
  then show "\<exists>b. Some (ipv4_Serialize h) = Some b \<and> length b = ipv4_GetSerializedSize h"
    and "Some (ipv4_Serialize h) = Some b \<Longrightarrow>
      \<exists>h'. ipv4_Deserialize (b @ p) = Some (h', ipv4_GetSerializedSize h) \<and>
        ipv4_view h' = ipv4_view h"
    using ipv4_des_ser [OF h, of p] by (auto simp: length_ipv4_Serialize)
qed

section \<open>UDP\<close>

record udp_header =
  udp_sourcePort :: u16
  udp_destinationPort :: u16
  udp_payloadSize :: u16
  udp_forcedPayloadSize :: u16
  udp_checksum :: u16

definition udp_init :: udp_header where
  "udp_init = \<lparr>udp_sourcePort = 0xfffd, udp_destinationPort = 0xfffd, udp_payloadSize = 0,
     udp_forcedPayloadSize = 0, udp_checksum = 0\<rparr>"

text \<open>
  The length field is the size of the buffer the header is written into, the header included,
  unless another one is forced. \<open>n\<close> is that size.
\<close>

definition udp_Serialize :: "nat \<Rightarrow> udp_header \<Rightarrow> bytes" where
  "udp_Serialize n h =
     WriteHtonU16 (udp_sourcePort h) @ WriteHtonU16 (udp_destinationPort h)
     @ WriteHtonU16 (if udp_forcedPayloadSize h = 0 then word_of_nat n
                     else udp_forcedPayloadSize h)
     @ WriteU16 (udp_checksum h)"

definition udp_Deserialize :: "bytes \<Rightarrow> (udp_header \<times> nat) option" where
  "udp_Deserialize bs = do {
     (sp, i) \<leftarrow> ReadNtohU16 bs;
     (dp, i) \<leftarrow> ReadNtohU16 i;
     (len, i) \<leftarrow> ReadNtohU16 i;
     (checksum, i) \<leftarrow> ReadU16 i;
     Some (udp_init\<lparr>udp_sourcePort := sp, udp_destinationPort := dp, udp_payloadSize := len - 8,
           udp_checksum := checksum\<rparr>, 8) }"

definition udp_view :: "udp_header \<Rightarrow> u16 \<times> u16 \<times> u16" where
  "udp_view h = (udp_sourcePort h, udp_destinationPort h, udp_checksum h)"

interpretation udp: header_codec "\<lambda>_. 8" "\<lambda>h. Some (udp_Serialize n h)" udp_Deserialize
  "\<lambda>_. True" udp_view for n
  by unfold_locales
     (auto simp: udp_Serialize_def udp_Deserialize_def io_simps udp_view_def Let_def)

section \<open>TCP, without options\<close>

record tcp_header =
  tcp_sourcePort :: u16
  tcp_destinationPort :: u16
  tcp_sequenceNumber :: u32
  tcp_ackNumber :: u32
  tcp_length :: u8
  tcp_flags :: u8
  tcp_windowSize :: u16
  tcp_urgentPointer :: u16

text \<open>
  The fixed part of \<^verbatim>\<open>TcpHeader::Deserialize\<close>. The classifier only takes the ports of the
  header and drops the packet copy, so the options behind it are not modelled.
\<close>

definition tcp_Deserialize :: "bytes \<Rightarrow> (tcp_header \<times> nat) option" where
  "tcp_Deserialize bs = do {
     (sp, i) \<leftarrow> ReadNtohU16 bs;
     (dp, i) \<leftarrow> ReadNtohU16 i;
     (sn, i) \<leftarrow> ReadNtohU32 i;
     (ack, i) \<leftarrow> ReadNtohU32 i;
     (field, i) \<leftarrow> ReadNtohU16 i;
     (win, i) \<leftarrow> ReadNtohU16 i;
     i \<leftarrow> Next 2 i;
     (urg, i) \<leftarrow> ReadNtohU16 i;
     Some (\<lparr>tcp_sourcePort = sp, tcp_destinationPort = dp, tcp_sequenceNumber = sn,
           tcp_ackNumber = ack, tcp_length = ucast (drop_bit 12 field),
           tcp_flags = ucast (field AND 0xFF), tcp_windowSize = win, tcp_urgentPointer = urg\<rparr>,
           20) }"

section \<open>IPv6\<close>

record ipv6_header =
  ip6_trafficClass :: u8
  ip6_flowLabel :: u32
  ip6_payloadLength :: u16
  ip6_nextHeader :: u8
  ip6_hopLimit :: u8
  ip6_source :: ipv6
  ip6_destination :: ipv6

definition ipv6_init :: ipv6_header where
  "ipv6_init = \<lparr>ip6_trafficClass = 0, ip6_flowLabel = 1, ip6_payloadLength = 0,
     ip6_nextHeader = 0, ip6_hopLimit = 0, ip6_source = Ipv6_zero, ip6_destination = Ipv6_zero\<rparr>"

definition ipv6_word :: "u8 \<Rightarrow> u32 \<Rightarrow> u32" where
  "ipv6_word tc fl = 0x60000000 OR push_bit 20 (ucast tc) OR fl"

definition ipv6_Serialize :: "ipv6_header \<Rightarrow> bytes" where
  "ipv6_Serialize h =
     WriteHtonU32 (ipv6_word (ip6_trafficClass h) (ip6_flowLabel h))
     @ WriteHtonU16 (ip6_payloadLength h)
     @ [ip6_nextHeader h, ip6_hopLimit h] @ ip6_source h @ ip6_destination h"

text \<open>\<^verbatim>\<open>ReadFrom(i, ad)\<close> reads the 16 bytes of an address.\<close>

definition ReadIpv6 :: "bytes \<Rightarrow> (ipv6 \<times> bytes) option" where
  "ReadIpv6 bs = (if 16 \<le> length bs then Some (take 16 bs, drop 16 bs) else None)"

definition ipv6_Deserialize :: "bytes \<Rightarrow> (ipv6_header \<times> nat) option" where
  "ipv6_Deserialize bs = do {
     (w, i) \<leftarrow> ReadNtohU32 bs;
     if drop_bit 28 w \<noteq> 6 then Some (ipv6_init, 0)
     else do {
       (len, i) \<leftarrow> ReadNtohU16 i;
       (nh, i) \<leftarrow> ReadU8 i;
       (hl, i) \<leftarrow> ReadU8 i;
       (src, i) \<leftarrow> ReadIpv6 i;
       (dst, i) \<leftarrow> ReadIpv6 i;
       Some (\<lparr>ip6_trafficClass = ucast (drop_bit 20 w AND 0xff), ip6_flowLabel = w AND 0xfffff,
             ip6_payloadLength = len, ip6_nextHeader = nh, ip6_hopLimit = hl, ip6_source = src,
             ip6_destination = dst\<rparr>, 40) } }"

definition ipv6_hwf :: "ipv6_header \<Rightarrow> bool" where
  "ipv6_hwf h \<longleftrightarrow> ip6_flowLabel h AND 0xfffff = ip6_flowLabel h \<and>
     length (ip6_source h) = 16 \<and> length (ip6_destination h) = 16"

lemma masks_u32: "(0xfffff :: u32) = mask 20" "(0xff :: u32) = mask 8"
  by (simp_all add: mask_eq_exp_minus_1)

lemma bit_version_6: "bit (0x60000000 :: u32) n \<longleftrightarrow> n = 29 \<or> n = 30"
proof -
  have "(0x60000000 :: u32) = push_bit 29 1 OR push_bit 30 1"
    by simp
  moreover have "bit (push_bit 29 1 OR push_bit 30 (1 :: u32)) n \<longleftrightarrow> n = 29 \<or> n = 30"
    by (simp only: bit_or_iff bit_push_bit_iff bit_1_iff possible_bit_word) auto
  ultimately show ?thesis
    by simp
qed

lemma bit_u32_6: "bit (6 :: u32) n \<longleftrightarrow> n = 1 \<or> n = 2"
proof -
  have "(6 :: u32) = push_bit 1 1 OR push_bit 2 1"
    by simp
  moreover have "bit (push_bit 1 1 OR push_bit 2 (1 :: u32)) n \<longleftrightarrow> n = 1 \<or> n = 2"
    by (simp only: bit_or_iff bit_push_bit_iff bit_1_iff possible_bit_word) auto
  ultimately show ?thesis
    by simp
qed

lemma ipv6_word_read:
  assumes "fl AND 0xfffff = fl"
  shows "drop_bit 28 (ipv6_word tc fl) = 6"
    and "ucast (drop_bit 20 (ipv6_word tc fl) AND 0xff) = tc"
    and "ipv6_word tc fl AND 0xfffff = fl"
proof -
  have "bit (fl AND mask 20) n = bit fl n" for n
    using assms by (simp add: masks_u32)
  then have hi: "bit fl n \<Longrightarrow> n < 20" for n
    by (simp add: bit_simps) blast
  have tc: "bit tc n \<Longrightarrow> n < 8" for n
    by (auto dest: bit_imp_le_length)
  define v :: u32 where "v = 0x60000000"
  have v: "bit v n \<longleftrightarrow> n = 29 \<or> n = 30" for n
    unfolding v_def by (rule bit_version_6)
  have w: "bit (ipv6_word tc fl) n \<longleftrightarrow>
      n = 29 \<or> n = 30 \<or> 20 \<le> n \<and> n < 28 \<and> bit tc (n - 20) \<or> bit fl n" for n
    unfolding ipv6_word_def v_def [symmetric] by (auto simp: bit_simps v dest: tc)
  show "drop_bit 28 (ipv6_word tc fl) = 6"
  proof (rule bit_word_eqI)
    fix n
    show "bit (drop_bit 28 (ipv6_word tc fl)) n = bit (6 :: u32) n"
      unfolding bit_u32_6 by (auto simp: bit_simps w dest: hi tc)
  qed
  show "ucast (drop_bit 20 (ipv6_word tc fl) AND 0xff) = tc"
    unfolding masks_u32 by (intro bit_word_eqI) (auto simp: bit_simps w dest: hi tc)
  show "ipv6_word tc fl AND 0xfffff = fl"
    unfolding masks_u32 by (intro bit_word_eqI) (auto simp: bit_simps w dest: hi tc)
qed

lemma ReadIpv6_append [io_simps]: "length a = 16 \<Longrightarrow> ReadIpv6 (a @ bs) = Some (a, bs)"
  by (simp add: ReadIpv6_def)

interpretation ip6: header_codec "\<lambda>_. 40" "\<lambda>h. Some (ipv6_Serialize h)" ipv6_Deserialize
  ipv6_hwf "\<lambda>h. h"
  by unfold_locales
     (auto simp: ipv6_hwf_def ipv6_Serialize_def ipv6_Deserialize_def io_simps ipv6_word_read)

end
