(* ===== verification/EpcTft.thy ===== *)
theory EpcTft
  imports IpHeaders StdMap
begin

text \<open>
  \<^verbatim>\<open>EpcTft\<close> and \<^verbatim>\<open>EpcTftClassifier\<close> (\<^verbatim>\<open>src/lte/model/epc-tft.cc\<close>,
  \<^verbatim>\<open>epc-tft-classifier.cc\<close>): packet filters, traffic flow templates, and the classifier that
  maps an IP packet to the identifier of the bearer that carries it. The PGW and the NAS of a UE
  hold one classifier each.
\<close>

section \<open>Packet filters\<close>

text \<open>\<^verbatim>\<open>enum Direction\<close>, a bit set.\<close>

type_synonym direction = u8

definition DOWNLINK :: direction where "DOWNLINK = 1"
definition UPLINK :: direction where "UPLINK = 2"
definition BIDIRECTIONAL :: direction where "BIDIRECTIONAL = 3"

lemmas direction_defs = DOWNLINK_def UPLINK_def BIDIRECTIONAL_def

record packet_filter =
  pf_precedence :: u8
  pf_direction :: direction
  pf_remoteAddress :: ipv4
  pf_remoteMask :: u32
  pf_localAddress :: ipv4
  pf_localMask :: u32
  pf_remoteIpv6Address :: ipv6
  pf_remoteIpv6Prefix :: bytes
  pf_localIpv6Address :: ipv6
  pf_localIpv6Prefix :: bytes
  pf_remotePortStart :: u16
  pf_remotePortEnd :: u16
  pf_localPortStart :: u16
  pf_localPortEnd :: u16
  pf_typeOfService :: u8
  pf_typeOfServiceMask :: u8

text \<open>The default filter: every address, every port, every type of service.\<close>

definition PacketFilter_init :: packet_filter where
  "PacketFilter_init = \<lparr>pf_precedence = 255, pf_direction = BIDIRECTIONAL,
     pf_remoteAddress = Ipv4Address_UNINITIALIZED, pf_remoteMask = 0,
     pf_localAddress = Ipv4Address_UNINITIALIZED, pf_localMask = 0,
     pf_remoteIpv6Address = Ipv6_zero, pf_remoteIpv6Prefix = Ipv6_zero,
     pf_localIpv6Address = Ipv6_zero, pf_localIpv6Prefix = Ipv6_zero,
     pf_remotePortStart = 0, pf_remotePortEnd = 65535,
     pf_localPortStart = 0, pf_localPortEnd = 65535,
     pf_typeOfService = 0, pf_typeOfServiceMask = 0\<rparr>"

definition pf_Matches4 ::
  "packet_filter \<Rightarrow> direction \<Rightarrow> ipv4 \<Rightarrow> ipv4 \<Rightarrow> u16 \<Rightarrow> u16 \<Rightarrow> u8 \<Rightarrow> bool" where
  "pf_Matches4 f d ra la rp lp tos =
     (if d AND pf_direction f \<noteq> 0 then
        if Ipv4Mask_IsMatch (pf_remoteMask f) (pf_remoteAddress f) ra then
          if Ipv4Mask_IsMatch (pf_localMask f) (pf_localAddress f) la then
            if pf_remotePortStart f \<le> rp \<and> rp \<le> pf_remotePortEnd f then
              if pf_localPortStart f \<le> lp \<and> lp \<le> pf_localPortEnd f then
                tos AND pf_typeOfServiceMask f = pf_typeOfService f AND pf_typeOfServiceMask f
              else False
            else False
          else False
        else False
      else False)"

definition pf_Matches6 ::
  "packet_filter \<Rightarrow> direction \<Rightarrow> ipv6 \<Rightarrow> ipv6 \<Rightarrow> u16 \<Rightarrow> u16 \<Rightarrow> u8 \<Rightarrow> bool" where
  "pf_Matches6 f d ra la rp lp tos =
     (if d AND pf_direction f \<noteq> 0 then
        if Ipv6Prefix_IsMatch (pf_remoteIpv6Prefix f) (pf_remoteIpv6Address f) ra then
          if Ipv6Prefix_IsMatch (pf_localIpv6Prefix f) (pf_localIpv6Address f) la then
            if pf_remotePortStart f \<le> rp \<and> rp \<le> pf_remotePortEnd f then
              if pf_localPortStart f \<le> lp \<and> lp \<le> pf_localPortEnd f then
                tos AND pf_typeOfServiceMask f = pf_typeOfService f AND pf_typeOfServiceMask f
              else False
            else False
          else False
        else False
      else False)"

section \<open>Traffic flow templates\<close>

record tft =
  m_filters :: "packet_filter list"
  m_numFilters :: u8

definition tft_init :: tft where
  "tft_init = \<lparr>m_filters = [], m_numFilters = 0\<rparr>"

text \<open>The loop that looks for the first filter of a higher precedence value, and the insertion.\<close>

fun insert_filter :: "packet_filter \<Rightarrow> packet_filter list \<Rightarrow> packet_filter list" where
  "insert_filter f [] = [f]"
| "insert_filter f (g # gs) =
     (if pf_precedence g \<le> pf_precedence f then g # insert_filter f gs else f # g # gs)"

definition tft_Add :: "packet_filter \<Rightarrow> tft \<Rightarrow> (u8 \<times> tft) option" where
  "tft_Add f t =
     (if m_numFilters t \<ge> 16 then None
      else (let n = m_numFilters t + 1
            in Some (n - 1, \<lparr>m_filters = insert_filter f (m_filters t), m_numFilters = n\<rparr>)))"

definition tft_Default :: "tft option" where
  "tft_Default = map_option snd (tft_Add PacketFilter_init tft_init)"

fun filters_Match4 ::
  "packet_filter list \<Rightarrow> direction \<Rightarrow> ipv4 \<Rightarrow> ipv4 \<Rightarrow> u16 \<Rightarrow> u16 \<Rightarrow> u8 \<Rightarrow> bool" where
  "filters_Match4 [] d ra la rp lp tos = False"
| "filters_Match4 (f # fs) d ra la rp lp tos =
     (if pf_Matches4 f d ra la rp lp tos then True else filters_Match4 fs d ra la rp lp tos)"

fun filters_Match6 ::
  "packet_filter list \<Rightarrow> direction \<Rightarrow> ipv6 \<Rightarrow> ipv6 \<Rightarrow> u16 \<Rightarrow> u16 \<Rightarrow> u8 \<Rightarrow> bool" where
  "filters_Match6 [] d ra la rp lp tos = False"
| "filters_Match6 (f # fs) d ra la rp lp tos =
     (if pf_Matches6 f d ra la rp lp tos then True else filters_Match6 fs d ra la rp lp tos)"

definition tft_Matches4 ::
  "tft \<Rightarrow> direction \<Rightarrow> ipv4 \<Rightarrow> ipv4 \<Rightarrow> u16 \<Rightarrow> u16 \<Rightarrow> u8 \<Rightarrow> bool" where
  "tft_Matches4 t = filters_Match4 (m_filters t)"

definition tft_Matches6 ::
  "tft \<Rightarrow> direction \<Rightarrow> ipv6 \<Rightarrow> ipv6 \<Rightarrow> u16 \<Rightarrow> u16 \<Rightarrow> u8 \<Rightarrow> bool" where
  "tft_Matches6 t = filters_Match6 (m_filters t)"

section \<open>Lemmas on templates\<close>

text \<open>A template is well formed: at most 16 filters in ascending order of precedence.\<close>

definition tft_inv :: "tft \<Rightarrow> bool" where
  "tft_inv t \<longleftrightarrow> sorted (map pf_precedence (m_filters t)) \<and>
     unat (m_numFilters t) = length (m_filters t) \<and> length (m_filters t) \<le> 16"

lemma set_insert_filter [simp]: "set (insert_filter f fs) = insert f (set fs)"
  by (induction fs) auto

lemma length_insert_filter [simp]: "length (insert_filter f fs) = Suc (length fs)"
  by (induction fs) auto

lemma sorted_insert_filter:
  "sorted (map pf_precedence fs) \<Longrightarrow> sorted (map pf_precedence (insert_filter f fs))"
  by (induction fs) (auto simp: not_le)

lemma insert_filter_last:
  "\<forall>g\<in>set fs. pf_precedence g \<le> pf_precedence f \<Longrightarrow> insert_filter f fs = fs @ [f]"
  by (induction fs) auto

lemma tft_inv_init [simp]: "tft_inv tft_init"
  by (simp add: tft_inv_def tft_init_def)

lemma tft_Add_Some:
  assumes "tft_inv t" and "length (m_filters t) < 16"
  shows "\<exists>t'. tft_Add f t = Some (m_numFilters t, t') \<and> tft_inv t' \<and>
     m_filters t' = insert_filter f (m_filters t)"
proof -
  have n: "unat (m_numFilters t) < 16"
    using assms by (simp add: tft_inv_def)
  then have "unat (m_numFilters t + 1) = unat (m_numFilters t) + 1"
    by (simp add: unatSuc word_unat_eq_iff unat_word_ariths)
  with assms n show ?thesis
    by (auto simp: tft_Add_def tft_inv_def Let_def sorted_insert_filter word_le_nat_alt)
qed

lemma tft_Add_full: "tft_inv t \<Longrightarrow> tft_Add f t = None \<longleftrightarrow> length (m_filters t) = 16"
  by (auto simp: tft_Add_def tft_inv_def Let_def word_le_nat_alt)

lemma tft_Add_inv: "tft_inv t \<Longrightarrow> tft_Add f t = Some (n, t') \<Longrightarrow> tft_inv t'"
  using tft_Add_Some [of t f] tft_Add_full [of t f] by (fastforce simp: tft_inv_def)

lemma filters_Match4_iff:
  "filters_Match4 fs d ra la rp lp tos \<longleftrightarrow> (\<exists>f\<in>set fs. pf_Matches4 f d ra la rp lp tos)"
  by (induction fs) auto

lemma filters_Match6_iff:
  "filters_Match6 fs d ra la rp lp tos \<longleftrightarrow> (\<exists>f\<in>set fs. pf_Matches6 f d ra la rp lp tos)"
  by (induction fs) auto

text \<open>The default template carries every downlink and every uplink packet.\<close>

lemma default_filter_matches:
  "d = DOWNLINK \<or> d = UPLINK \<Longrightarrow> pf_Matches4 PacketFilter_init d ra la rp lp tos"
  "d = DOWNLINK \<or> d = UPLINK \<Longrightarrow> pf_Matches6 PacketFilter_init d ra6 la6 rp lp tos"
proof -
  have "rp \<le> (65535 :: u16)" for rp
  proof -
    have "unat rp < 2 ^ LENGTH(16)"
      by (rule unsigned_less)
    then show ?thesis
      by (simp add: word_le_nat_alt)
  qed
  then show "d = DOWNLINK \<or> d = UPLINK \<Longrightarrow> pf_Matches4 PacketFilter_init d ra la rp lp tos"
    "d = DOWNLINK \<or> d = UPLINK \<Longrightarrow> pf_Matches6 PacketFilter_init d ra6 la6 rp lp tos"
    by (auto simp: pf_Matches4_def pf_Matches6_def PacketFilter_init_def direction_defs
        Ipv6_zero_def)
qed

section \<open>The classifier\<close>

text \<open>
  \<open>m_tftMap\<close> holds the templates by identifier; \<open>m_classifiedIpv4Fragments\<close> the ports (local,
  remote) of the first fragment of an IPv4 packet by source, destination, protocol and
  identification.
\<close>

type_synonym fragment_key = "u32 \<times> u32 \<times> u8 \<times> u16"

record classifier =
  m_tftMap :: "(u32 \<times> tft) list"
  m_classifiedIpv4Fragments :: "fragment_key \<Rightarrow> (u16 \<times> u16) option"

definition classifier_init :: classifier where
  "classifier_init = \<lparr>m_tftMap = [], m_classifiedIpv4Fragments = (\<lambda>_. None)\<rparr>"

lemma length_smap_put_le: "length (smap_put k v m) \<le> Suc (length m)"
  by (induction m) auto

lemma length_smap_put_new: "map_of m k = None \<Longrightarrow> length (smap_put k v m) = Suc (length m)"
  by (induction m) (auto split: if_splits)

text \<open>
  The entry that \<open>Add\<close> makes, and \<open>Add\<close> with its assertion: a UE has at most 16 templates.
\<close>

definition classifier_put :: "tft \<Rightarrow> u32 \<Rightarrow> classifier \<Rightarrow> classifier" where
  "classifier_put t i c = c\<lparr>m_tftMap := smap_put i t (m_tftMap c)\<rparr>"

definition classifier_Add :: "tft \<Rightarrow> u32 \<Rightarrow> classifier \<Rightarrow> classifier option" where
  "classifier_Add t i c =
     (let c' = classifier_put t i c
      in if length (m_tftMap c') \<le> 16 then Some c' else None)"

definition classifier_Delete :: "u32 \<Rightarrow> classifier \<Rightarrow> classifier" where
  "classifier_Delete i c = c\<lparr>m_tftMap := smap_erase i (m_tftMap c)\<rparr>"

definition IPV4_PROT :: u16 where "IPV4_PROT = 0x0800"
definition IPV6_PROT :: u16 where "IPV6_PROT = 0x86DD"
definition UDP_PROT :: u8 where "UDP_PROT = 17"
definition TCP_PROT :: u8 where "TCP_PROT = 6"

lemmas prot_defs = IPV4_PROT_def IPV6_PROT_def UDP_PROT_def TCP_PROT_def

text \<open>What the search looks at: remote and local address, remote and local port, type of service.\<close>

type_synonym 'a flow = "'a \<times> 'a \<times> u16 \<times> u16 \<times> u8"

text \<open>The ports in the order (local, remote): the UE is the source of an uplink packet.\<close>

definition local_remote :: "direction \<Rightarrow> u16 \<Rightarrow> u16 \<Rightarrow> u16 \<times> u16" where
  "local_remote d src dst = (if d = UPLINK then (src, dst) else (dst, src))"

definition fragment_key :: "ipv4_header \<Rightarrow> fragment_key" where
  "fragment_key h = (ip_source h, ip_destination h, ip_protocol h, ip_identification h)"

text \<open>The ports of a transport header, if the protocol has one and the payload is long enough.\<close>

definition ports_of :: "u8 \<Rightarrow> bool \<Rightarrow> bool \<Rightarrow> direction \<Rightarrow> bytes \<Rightarrow> (u16 \<times> u16) option option" where
  "ports_of protocol udp_fits tcp_fits d p =
     (if protocol = UDP_PROT \<and> udp_fits then
        (case RemoveHeader udp_Deserialize p of None \<Rightarrow> None
         | Some (u, _) \<Rightarrow> Some (Some (local_remote d (udp_sourcePort u) (udp_destinationPort u))))
      else if protocol = TCP_PROT \<and> tcp_fits then
        (case RemoveHeader tcp_Deserialize p of None \<Rightarrow> None
         | Some (t, _) \<Rightarrow> Some (Some (local_remote d (tcp_sourcePort t) (tcp_destinationPort t))))
      else Some None)"

text \<open>
  The IPv4 branch up to the search: the first fragment gives the ports and leaves them for the
  others, a later fragment looks them up, the last one clears them.
\<close>

definition classify_ports4 ::
  "ipv4_header \<Rightarrow> bytes \<Rightarrow> direction \<Rightarrow> classifier \<Rightarrow> ((u16 \<times> u16) \<times> classifier) option" where
  "classify_ports4 h payload d c =
     (let frags = m_classifiedIpv4Fragments c; key = fragment_key h in
      if ip_fragmentOffset h = 0 then
        (case ports_of (ip_protocol h) (ip_payloadSize h \<ge> 8) (ip_payloadSize h \<ge> 20) d payload of
           None \<Rightarrow> None
         | Some None \<Rightarrow> Some ((0, 0), c)
         | Some (Some ports) \<Rightarrow>
             Some (ports,
               if \<not> ip_IsLastFragment h
               then c\<lparr>m_classifiedIpv4Fragments := frags(key \<mapsto> ports)\<rparr> else c))
      else
        (case frags key of
           None \<Rightarrow> Some ((0, 0), c)
         | Some ports \<Rightarrow>
             Some (ports,
               if ip_IsLastFragment h
               then c\<lparr>m_classifiedIpv4Fragments := frags(key := None)\<rparr> else c)))"

definition flow4 ::
  "bytes \<Rightarrow> direction \<Rightarrow> classifier \<Rightarrow> (ipv4 flow \<times> classifier) option" where
  "flow4 p d c =
     (case RemoveHeader ipv4_Deserialize p of
        None \<Rightarrow> None
      | Some (h, payload) \<Rightarrow>
          (case classify_ports4 h payload d c of
             None \<Rightarrow> None
           | Some ((lp, rp), c') \<Rightarrow>
               (let (la, ra) = (if d = UPLINK then (ip_source h, ip_destination h)
                                else (ip_destination h, ip_source h))
                in Some ((ra, la, rp, lp, ip_tos h), c'))))"

definition flow6 :: "bytes \<Rightarrow> direction \<Rightarrow> ipv6 flow option" where
  "flow6 p d =
     (case RemoveHeader ipv6_Deserialize p of
        None \<Rightarrow> None
      | Some (h, payload) \<Rightarrow>
          (case ports_of (ip6_nextHeader h) True True d payload of
             None \<Rightarrow> None
           | Some ports \<Rightarrow>
               (let (lp, rp) = (case ports of None \<Rightarrow> (0, 0) | Some q \<Rightarrow> q);
                    (la, ra) = (if d = UPLINK then (ip6_source h, ip6_destination h)
                                else (ip6_destination h, ip6_source h))
                in Some (ra, la, rp, lp, ip6_trafficClass h))))"

text \<open>The search in the order of a reverse iterator; 0 stands for no match.\<close>

fun search_tft :: "(tft \<Rightarrow> bool) \<Rightarrow> (u32 \<times> tft) list \<Rightarrow> u32" where
  "search_tft matches [] = 0"
| "search_tft matches ((i, t) # m) = (if matches t then i else search_tft matches m)"

definition flow_matches4 :: "direction \<Rightarrow> ipv4 flow \<Rightarrow> tft \<Rightarrow> bool" where
  "flow_matches4 d fl t = (case fl of (ra, la, rp, lp, tos) \<Rightarrow> tft_Matches4 t d ra la rp lp tos)"

definition flow_matches6 :: "direction \<Rightarrow> ipv6 flow \<Rightarrow> tft \<Rightarrow> bool" where
  "flow_matches6 d fl t = (case fl of (ra, la, rp, lp, tos) \<Rightarrow> tft_Matches6 t d ra la rp lp tos)"

text \<open>
  Both branches assert that a direction other than \<^verbatim>\<open>UPLINK\<close> is \<^verbatim>\<open>DOWNLINK\<close>; an unknown protocol
  aborts.
\<close>

definition Classify :: "bytes \<Rightarrow> direction \<Rightarrow> u16 \<Rightarrow> classifier \<Rightarrow> (u32 \<times> classifier) option" where
  "Classify p d protocolNumber c =
     (if d \<noteq> UPLINK \<and> d \<noteq> DOWNLINK then None
      else if protocolNumber = IPV4_PROT then
        (case flow4 p d c of
           None \<Rightarrow> None
         | Some (fl, c') \<Rightarrow> Some (search_tft (flow_matches4 d fl) (rev (m_tftMap c')), c'))
      else if protocolNumber = IPV6_PROT then
        (case flow6 p d of
           None \<Rightarrow> None
         | Some fl \<Rightarrow> Some (search_tft (flow_matches6 d fl) (rev (m_tftMap c)), c))
      else None)"

section \<open>The search is the greatest matching identifier\<close>

lemma search_tft_append:
  "search_tft P (xs @ ys) =
     (if \<exists>(i, t)\<in>set xs. P t then search_tft P xs else search_tft P ys)"
  by (induction P xs rule: search_tft.induct) auto

text \<open>
  The abstract specification: the greatest identifier of a template that carries the flow,
  and 0 when no template does.
\<close>

definition is_best_tft :: "(tft \<Rightarrow> bool) \<Rightarrow> (u32 \<times> tft) list \<Rightarrow> u32 \<Rightarrow> bool" where
  "is_best_tft P m i \<longleftrightarrow>
     (if \<exists>j t. map_of m j = Some t \<and> P t
      then (\<exists>t. map_of m i = Some t \<and> P t) \<and> (\<forall>j t. map_of m j = Some t \<longrightarrow> P t \<longrightarrow> j \<le> i)
      else i = 0)"

lemma search_tft_best: "smap_wf m \<Longrightarrow> is_best_tft P m (search_tft P (rev m))"
proof (induction m)
  case Nil
  then show ?case
    by (simp add: is_best_tft_def)
next
  case (Cons x m)
  obtain k v where x: "x = (k, v)"
    by (cases x)
  have wf: "smap_wf m" and lt: "\<And>j t. map_of m j = Some t \<Longrightarrow> k < j"
    using Cons.prems unfolding x by (auto dest!: map_of_SomeD)
  have ex: "(\<exists>(i, t)\<in>set (rev m). P t) \<longleftrightarrow> (\<exists>j t. map_of m j = Some t \<and> P t)"
    using wf by (auto simp: smap_wf_def strict_sorted_iff dest: map_of_SomeD
        intro: map_of_is_SomeI)
  have k: "map_of m k = None"
    using lt by (metis less_irrefl not_None_eq)
  show ?case
  proof (cases "\<exists>j t. map_of m j = Some t \<and> P t")
    case True
    then have "search_tft P (rev (x # m)) = search_tft P (rev m)"
      using ex by (simp add: search_tft_append)
    with Cons.IH [OF wf] True lt k show ?thesis
      unfolding x is_best_tft_def by (auto split: if_splits) (fastforce simp: less_imp_le)+
  next
    case False
    then have "search_tft P (rev (x # m)) = (if P v then k else 0)"
      using ex Cons.IH [OF wf] by (auto simp: search_tft_append x is_best_tft_def)
    with False k show ?thesis
      unfolding x is_best_tft_def by (auto split: if_splits)
  qed
qed

end
