(* ===== verification/GtpcIes.thy ===== *)
theory GtpcIes
  imports HeaderCodec EpcTft
begin

text \<open>
  \<^verbatim>\<open>GtpcHeader\<close> and \<^verbatim>\<open>GtpcIes\<close> of \<^verbatim>\<open>src/lte/model/epc-gtpc-header.cc\<close>: the header of the
  control plane messages of the core network and the information elements they are made of. Every
  element interprets \<open>ie_codec\<close>. The type, length and instance fields of an element are only
  checked by assertions; the sizes that the reading functions return are ignored by their callers.
\<close>

section \<open>Data\<close>

text \<open>
  The values of \<^verbatim>\<open>InterfaceType_t\<close> and \<^verbatim>\<open>Cause_t\<close> are cast from what was received, so they
  are bytes.
\<close>

definition S1U_ENB_GTPU :: u8 where "S1U_ENB_GTPU = 0"
definition S5_SGW_GTPU :: u8 where "S5_SGW_GTPU = 4"
definition S5_PGW_GTPU :: u8 where "S5_PGW_GTPU = 5"
definition S5_SGW_GTPC :: u8 where "S5_SGW_GTPC = 6"
definition S5_PGW_GTPC :: u8 where "S5_PGW_GTPC = 7"
definition S11_MME_GTPC :: u8 where "S11_MME_GTPC = 10"

lemmas interface_defs = S1U_ENB_GTPU_def S5_SGW_GTPU_def S5_PGW_GTPU_def S5_SGW_GTPC_def
  S5_PGW_GTPC_def S11_MME_GTPC_def

definition CAUSE_RESERVED :: u8 where "CAUSE_RESERVED = 0"
definition REQUEST_ACCEPTED :: u8 where "REQUEST_ACCEPTED = 16"

record fteid =
  ft_interfaceType :: u8
  ft_addr :: ipv4
  ft_teid :: u32

text \<open>
  \<^verbatim>\<open>EpsBearer\<close>: the class of service and the bit rates. The allocation and retention priority
  is neither transmitted nor copied by the copy constructor, so it is left out.
\<close>

record eps_bearer =
  eb_qci :: u8
  eb_gbrDl :: u64
  eb_gbrUl :: u64
  eb_mbrDl :: u64
  eb_mbrUl :: u64

section \<open>The message header\<close>

record gtpc_header =
  gh_teidFlag :: bool
  gh_messageType :: u8
  gh_messageLength :: u16
  gh_teid :: u32
  gh_sequenceNumber :: u32

definition gtpc_init :: gtpc_header where
  "gtpc_init = \<lparr>gh_teidFlag = False, gh_messageType = 0, gh_messageLength = 4, gh_teid = 0,
     gh_sequenceNumber = 0\<rparr>"

definition gtpc_GetSerializedSize :: "gtpc_header \<Rightarrow> nat" where
  "gtpc_GetSerializedSize h = (if gh_teidFlag h then 12 else 8)"

definition gtpc_SetMessageType :: "u8 \<Rightarrow> gtpc_header \<Rightarrow> gtpc_header" where
  "gtpc_SetMessageType t h = h\<lparr>gh_messageType := t\<rparr>"

definition gtpc_SetTeid :: "u32 \<Rightarrow> gtpc_header \<Rightarrow> gtpc_header" where
  "gtpc_SetTeid t h = h\<lparr>gh_teidFlag := True, gh_teid := t, gh_messageLength := 8\<rparr>"

definition gtpc_SetIesLength :: "u16 \<Rightarrow> gtpc_header \<Rightarrow> gtpc_header" where
  "gtpc_SetIesLength n h = h\<lparr>gh_messageLength := n + (if gh_teidFlag h then 8 else 4)\<rparr>"

text \<open>\<^verbatim>\<open>ComputeMessageLength\<close>, with the size of the elements that \<^verbatim>\<open>GetMessageSize\<close> returns.\<close>

definition gtpc_ComputeMessageLength :: "nat \<Rightarrow> gtpc_header \<Rightarrow> gtpc_header" where
  "gtpc_ComputeMessageLength n = gtpc_SetIesLength (word_of_nat n)"

text \<open>
  \<^verbatim>\<open>PreSerialize\<close> writes the TEID whether or not the flag is set.
\<close>

definition gtpc_PreSerialize :: "gtpc_header \<Rightarrow> bytes" where
  "gtpc_PreSerialize h =
     [push_bit 5 2 OR push_bit 3 1, gh_messageType h] @ WriteHtonU16 (gh_messageLength h)
     @ WriteHtonU32 (gh_teid h)
     @ [ucast (drop_bit 16 (gh_sequenceNumber h AND 0x00ff0000)),
        ucast (drop_bit 8 (gh_sequenceNumber h AND 0x0000ff00)),
        ucast (gh_sequenceNumber h AND 0x000000ff), 0]"

text \<open>
  \<^verbatim>\<open>PreDeserialize\<close>: a version other than 2 and a missing TEID are fatal errors. C++ leaves the
  order of the three reads of the sequence number open; the model takes the written order. Every
  message is sent with sequence number 0, for which the order makes no difference.
\<close>

definition gtpc_PreDeserialize :: "bytes \<Rightarrow> (gtpc_header \<times> bytes) option" where
  "gtpc_PreDeserialize bs = do {
     (firstByte, i) \<leftarrow> ReadU8 bs;
     if drop_bit 5 firstByte AND 0x07 \<noteq> 2 then None
     else if drop_bit 3 firstByte AND 0x01 \<noteq> 1 then None
     else do {
       (messageType, i) \<leftarrow> ReadU8 i;
       (len, i) \<leftarrow> ReadNtohU16 i;
       (teid, i) \<leftarrow> ReadNtohU32 i;
       (s2, i) \<leftarrow> ReadU8 i;
       (s1, i) \<leftarrow> ReadU8 i;
       (s0, i) \<leftarrow> ReadU8 i;
       (_, i) \<leftarrow> ReadU8 i;
       Some (\<lparr>gh_teidFlag = True, gh_messageType = messageType, gh_messageLength = len,
             gh_teid = teid,
             gh_sequenceNumber =
               push_bit 16 (ucast s2) OR push_bit 8 (ucast s1) OR ucast s0\<rparr>, i) } }"

definition gtpc_Deserialize :: "bytes \<Rightarrow> (gtpc_header \<times> nat) option" where
  "gtpc_Deserialize bs =
     map_option (\<lambda>(h, _). (h, gtpc_GetSerializedSize h)) (gtpc_PreDeserialize bs)"

definition gtpc_hwf :: "gtpc_header \<Rightarrow> bool" where
  "gtpc_hwf h \<longleftrightarrow> gh_teidFlag h \<and> gh_sequenceNumber h AND 0xffffff = gh_sequenceNumber h"

lemma sequence_number_read:
  assumes "(s :: u32) AND 0xffffff = s"
  shows "push_bit 16 (ucast (ucast (drop_bit 16 (s AND 0x00ff0000)) :: u8))
     OR push_bit 8 (ucast (ucast (drop_bit 8 (s AND 0x0000ff00)) :: u8))
     OR ucast (ucast (s AND 0x000000ff) :: u8) = s" (is "?l = s")
proof -
  have m: "(0xffffff :: u32) = mask 24" "(0xff0000 :: u32) = push_bit 16 (mask 8)"
    "(0xff00 :: u32) = push_bit 8 (mask 8)" "(0xff :: u32) = mask 8"
    by (simp_all add: mask_eq_exp_minus_1 push_bit_eq_mult)
  have "bit (s AND mask 24) n = bit s n" for n
    using assms by (simp add: m)
  then have s: "bit s n \<Longrightarrow> n < 24" for n
    by (simp add: bit_simps) blast
  show ?thesis
    unfolding m
  proof (rule bit_word_eqI)
    fix n
    show "bit (push_bit 16 (ucast (ucast (drop_bit 16 (s AND push_bit 16 (mask 8))) :: u8) :: u32)
        OR push_bit 8 (ucast (ucast (drop_bit 8 (s AND push_bit 8 (mask 8))) :: u8))
        OR ucast (ucast (s AND mask 8) :: u8)) n = bit s n"
      by (cases "n < 16"; cases "n < 8") (auto simp: bit_simps dest: s)
  qed
qed

lemma gtpc_PreDeserialize_ser [io_simps]:
  assumes "gtpc_hwf h"
  shows "gtpc_PreDeserialize (gtpc_PreSerialize h @ bs) = Some (h, bs)"
proof -
  have "drop_bit 5 (push_bit 5 2 OR push_bit 3 (1 :: u8)) AND 0x07 = 2"
    "drop_bit 3 (push_bit 5 2 OR push_bit 3 (1 :: u8)) AND 0x01 = 1"
    by code_simp+
  then show ?thesis
    using assms sequence_number_read [of "gh_sequenceNumber h"]
    by (simp add: gtpc_PreSerialize_def gtpc_PreDeserialize_def io_simps gtpc_hwf_def
        del: push_bit_numeral)
qed

lemma length_gtpc_PreSerialize [io_simps]: "length (gtpc_PreSerialize h) = 12"
  by (simp add: gtpc_PreSerialize_def io_simps)

section \<open>Information elements\<close>

subsection \<open>IMSI\<close>

definition SerializeImsi :: "u64 \<Rightarrow> bytes" where
  "SerializeImsi imsi = [1] @ WriteHtonU16 8 @ [0] @ WriteHtonU64 imsi"

definition DeserializeImsi :: "bytes \<Rightarrow> (u64 \<times> bytes) option" where
  "DeserializeImsi bs = do {
     (_, i) \<leftarrow> ReadU8 bs; (_, i) \<leftarrow> ReadNtohU16 i; (_, i) \<leftarrow> ReadU8 i; ReadNtohU64 i }"

interpretation imsi_ie: ie_codec SerializeImsi DeserializeImsi "\<lambda>_. True" "\<lambda>_. 12"
  by unfold_locales (simp_all add: SerializeImsi_def DeserializeImsi_def io_simps)

subsection \<open>Cause\<close>

definition SerializeCause :: "u8 \<Rightarrow> bytes" where
  "SerializeCause c = [2] @ WriteHtonU16 2 @ [0, c, 0]"

definition DeserializeCause :: "bytes \<Rightarrow> (u8 \<times> bytes) option" where
  "DeserializeCause bs = do {
     (_, i) \<leftarrow> ReadU8 bs; (_, i) \<leftarrow> ReadNtohU16 i; (_, i) \<leftarrow> ReadU8 i;
     (c, i) \<leftarrow> ReadU8 i; (_, i) \<leftarrow> ReadU8 i; Some (c, i) }"

interpretation cause_ie: ie_codec SerializeCause DeserializeCause "\<lambda>_. True" "\<lambda>_. 6"
  by unfold_locales (simp_all add: SerializeCause_def DeserializeCause_def io_simps)

subsection \<open>EPS bearer identity\<close>

definition SerializeEbi :: "u8 \<Rightarrow> bytes" where
  "SerializeEbi e = [73] @ WriteHtonU16 1 @ [0, e AND 0x0f]"

definition DeserializeEbi :: "bytes \<Rightarrow> (u8 \<times> bytes) option" where
  "DeserializeEbi bs = do {
     (_, i) \<leftarrow> ReadU8 bs; (_, i) \<leftarrow> ReadNtohU16 i; (_, i) \<leftarrow> ReadU8 i;
     (e, i) \<leftarrow> ReadU8 i; Some (e AND 0x0f, i) }"

definition ebi_ok :: "u8 \<Rightarrow> bool" where
  "ebi_ok e \<longleftrightarrow> e AND 0x0f = e"

interpretation ebi_ie: ie_codec SerializeEbi DeserializeEbi ebi_ok "\<lambda>_. 5"
  by unfold_locales (simp_all add: SerializeEbi_def DeserializeEbi_def io_simps ebi_ok_def)

subsection \<open>Bearer quality of service\<close>

definition WriteHtonU40 :: "u64 \<Rightarrow> bytes" where
  "WriteHtonU40 x = [ucast (drop_bit 32 x AND 0xff), ucast (drop_bit 24 x AND 0xff),
     ucast (drop_bit 16 x AND 0xff), ucast (drop_bit 8 x AND 0xff), ucast (x AND 0xff)]"

fun ReadNtohU40 :: "bytes \<Rightarrow> (u64 \<times> bytes) option" where
  "ReadNtohU40 (a # b # c # d # e # bs) =
     Some (shift_in (shift_in (shift_in (shift_in (shift_in 0 a) b) c) d) e, bs)"
| "ReadNtohU40 _ = None"

definition rate_ok :: "u64 \<Rightarrow> bool" where
  "rate_ok x \<longleftrightarrow> drop_bit 40 x = 0"

lemma ucast_mask_u8: "(ucast (x AND 0xff) :: u8) = ucast (x :: u64)"
proof -
  have "(0xff :: u64) = mask 8"
    by (simp add: mask_eq_exp_minus_1)
  moreover have "(ucast (x AND mask 8) :: u8) = ucast x"
    by (rule bit_word_eqI) (auto simp: bit_simps)
  ultimately show ?thesis
    by (simp only:)
qed

lemma ReadNtohU40_Write [io_simps]:
  "rate_ok x \<Longrightarrow> ReadNtohU40 (WriteHtonU40 x @ bs) = Some (x, bs)"
  using shift_in_step [of 40 32 x]
  by (simp add: WriteHtonU40_def ucast_mask_u8 rate_ok_def shift_in_step shift_in_last)

lemma length_WriteHtonU40 [io_simps]: "length (WriteHtonU40 x) = 5"
  by (simp add: WriteHtonU40_def)

definition SerializeBearerQos :: "eps_bearer \<Rightarrow> bytes" where
  "SerializeBearerQos q =
     [80] @ WriteHtonU16 22 @ [0, 0, eb_qci q] @ WriteHtonU40 (eb_mbrUl q)
     @ WriteHtonU40 (eb_mbrDl q) @ WriteHtonU40 (eb_gbrUl q) @ WriteHtonU40 (eb_gbrDl q)"

definition DeserializeBearerQos :: "bytes \<Rightarrow> (eps_bearer \<times> bytes) option" where
  "DeserializeBearerQos bs = do {
     (_, i) \<leftarrow> ReadU8 bs; (_, i) \<leftarrow> ReadNtohU16 i; (_, i) \<leftarrow> ReadU8 i; (_, i) \<leftarrow> ReadU8 i;
     (qci, i) \<leftarrow> ReadU8 i;
     (mbrUl, i) \<leftarrow> ReadNtohU40 i;
     (mbrDl, i) \<leftarrow> ReadNtohU40 i;
     (gbrUl, i) \<leftarrow> ReadNtohU40 i;
     (gbrDl, i) \<leftarrow> ReadNtohU40 i;
     Some (\<lparr>eb_qci = qci, eb_gbrDl = gbrDl, eb_gbrUl = gbrUl, eb_mbrDl = mbrDl,
           eb_mbrUl = mbrUl\<rparr>, i) }"

definition qos_ok :: "eps_bearer \<Rightarrow> bool" where
  "qos_ok q \<longleftrightarrow> rate_ok (eb_gbrDl q) \<and> rate_ok (eb_gbrUl q) \<and> rate_ok (eb_mbrDl q) \<and>
     rate_ok (eb_mbrUl q)"

interpretation qos_ie: ie_codec SerializeBearerQos DeserializeBearerQos qos_ok "\<lambda>_. 26"
  by unfold_locales
     (simp_all add: SerializeBearerQos_def DeserializeBearerQos_def io_simps qos_ok_def)

subsection \<open>Bearer traffic flow template\<close>

definition SerializePacketFilter :: "packet_filter \<Rightarrow> bytes" where
  "SerializePacketFilter f =
     [push_bit 4 (pf_direction f) AND 0x30, pf_precedence f, 31]
     @ [0x10] @ WriteHtonU32 (pf_remoteAddress f) @ WriteHtonU32 (pf_remoteMask f)
     @ [0x11] @ WriteHtonU32 (pf_localAddress f) @ WriteHtonU32 (pf_localMask f)
     @ [0x41] @ WriteHtonU16 (pf_localPortStart f) @ WriteHtonU16 (pf_localPortEnd f)
     @ [0x51] @ WriteHtonU16 (pf_remotePortStart f) @ WriteHtonU16 (pf_remotePortEnd f)
     @ [0x70, pf_typeOfService f, pf_typeOfServiceMask f]"

definition DeserializePacketFilter :: "bytes \<Rightarrow> (packet_filter \<times> bytes) option" where
  "DeserializePacketFilter bs = do {
     (d, i) \<leftarrow> ReadU8 bs;
     (prec, i) \<leftarrow> ReadU8 i;
     (_, i) \<leftarrow> ReadU8 i;
     (_, i) \<leftarrow> ReadU8 i;
     (ra, i) \<leftarrow> ReadNtohU32 i;
     (rm, i) \<leftarrow> ReadNtohU32 i;
     (_, i) \<leftarrow> ReadU8 i;
     (la, i) \<leftarrow> ReadNtohU32 i;
     (lm, i) \<leftarrow> ReadNtohU32 i;
     (_, i) \<leftarrow> ReadU8 i;
     (lps, i) \<leftarrow> ReadNtohU16 i;
     (lpe, i) \<leftarrow> ReadNtohU16 i;
     (_, i) \<leftarrow> ReadU8 i;
     (rps, i) \<leftarrow> ReadNtohU16 i;
     (rpe, i) \<leftarrow> ReadNtohU16 i;
     (_, i) \<leftarrow> ReadU8 i;
     (tos, i) \<leftarrow> ReadU8 i;
     (tosm, i) \<leftarrow> ReadU8 i;
     Some (PacketFilter_init\<lparr>pf_precedence := prec, pf_direction := drop_bit 4 (d AND 0x30),
       pf_remoteAddress := ra, pf_remoteMask := rm, pf_localAddress := la, pf_localMask := lm,
       pf_remotePortStart := rps, pf_remotePortEnd := rpe, pf_localPortStart := lps,
       pf_localPortEnd := lpe, pf_typeOfService := tos, pf_typeOfServiceMask := tosm\<rparr>, i) }"

text \<open>A filter that survives: a direction of two bits and no IPv6 condition.\<close>

definition filter_ok :: "packet_filter \<Rightarrow> bool" where
  "filter_ok f \<longleftrightarrow> pf_direction f < 4 \<and>
     pf_remoteIpv6Address f = Ipv6_zero \<and> pf_remoteIpv6Prefix f = Ipv6_zero \<and>
     pf_localIpv6Address f = Ipv6_zero \<and> pf_localIpv6Prefix f = Ipv6_zero"

lemma direction_read:
  "d < 4 \<Longrightarrow> drop_bit 4 (push_bit 4 d) AND 3 = (d :: u8)" "d < 4 \<Longrightarrow> d AND 3 = (d :: u8)"
  using u8_lt_4 [of d] by (simp_all add: u8_eq_iff bit_simps)

interpretation filter_ie: ie_codec SerializePacketFilter DeserializePacketFilter filter_ok
  "\<lambda>_. 34"
proof
  fix f bs
  assume "filter_ok f"
  then show "DeserializePacketFilter (SerializePacketFilter f @ bs) = Some (f, bs)"
    using direction_read [of "pf_direction f"]
    by (cases f) (simp add: SerializePacketFilter_def DeserializePacketFilter_def io_simps
      filter_ok_def PacketFilter_init_def)
qed (simp_all add: SerializePacketFilter_def io_simps)

definition SerializeBearerTft :: "packet_filter list \<Rightarrow> bytes" where
  "SerializeBearerTft fs =
     [84] @ WriteHtonU16 (word_of_nat (1 + length fs * 34))
     @ [0, 0x20 + (word_of_nat (length fs) AND 0x0f)]
     @ concat (map SerializePacketFilter fs)"

text \<open>The loop over the filters: each is added to the template when it has been read.\<close>

fun read_filters :: "nat \<Rightarrow> tft \<Rightarrow> bytes \<Rightarrow> (tft \<times> bytes) option" where
  "read_filters 0 t i = Some (t, i)"
| "read_filters (Suc n) t i = do {
     (f, i') \<leftarrow> DeserializePacketFilter i;
     (_, t') \<leftarrow> tft_Add f t;
     read_filters n t' i' }"

definition DeserializeBearerTft :: "bytes \<Rightarrow> (tft \<times> bytes) option" where
  "DeserializeBearerTft bs = do {
     (_, i) \<leftarrow> ReadU8 bs; (_, i) \<leftarrow> ReadNtohU16 i; (_, i) \<leftarrow> ReadU8 i;
     (n, i) \<leftarrow> ReadU8 i;
     read_filters (unat (n AND 0x0f)) tft_init i }"

definition GetSerializedSizeBearerTft :: "packet_filter list \<Rightarrow> nat" where
  "GetSerializedSizeBearerTft fs = 5 + length fs * 34"

definition tft_ok :: "tft \<Rightarrow> bool" where
  "tft_ok t \<longleftrightarrow> tft_inv t \<and> length (m_filters t) < 16 \<and> list_all filter_ok (m_filters t)"

text \<open>Adding the filters of a sorted list one by one gives the list back.\<close>

lemma read_filters_ser:
  assumes "tft_inv t" "list_all filter_ok fs" "length (m_filters t) + length fs \<le> 16"
    and "sorted (map pf_precedence (m_filters t @ fs))"
  shows "\<exists>t'. read_filters (length fs) t (concat (map SerializePacketFilter fs) @ bs) = Some (t', bs) \<and>
     tft_inv t' \<and> m_filters t' = m_filters t @ fs"
  using assms
proof (induction fs arbitrary: t)
  case (Cons f fs)
  have "length (m_filters t) < 16"
    using Cons.prems(3) by simp
  then obtain t' where t': "tft_Add f t = Some (m_numFilters t, t')" "tft_inv t'"
      "m_filters t' = insert_filter f (m_filters t)"
    using tft_Add_Some [OF Cons.prems(1)] by blast
  moreover have "insert_filter f (m_filters t) = m_filters t @ [f]"
    using Cons.prems(4) by (intro insert_filter_last) (auto simp: sorted_append)
  ultimately obtain t'' where "read_filters (length fs) t' (concat (map SerializePacketFilter fs) @ bs)
      = Some (t'', bs)" "tft_inv t''" "m_filters t'' = m_filters t' @ fs"
    using Cons.IH [of t'] Cons.prems(2-4) by auto
  with t' Cons.prems(2) \<open>insert_filter f (m_filters t) = m_filters t @ [f]\<close> show ?case
    by (simp add: filter_ie.rd_wr)
qed simp

lemma filter_count_read:
  assumes "n < 16"
  shows "unat ((0x20 + (word_of_nat n AND 0x0f) :: u8) AND 0x0f) = n"
proof -
  have "\<forall>n<16. unat ((0x20 + (word_of_nat n AND 0x0f) :: u8) AND 0x0f) = n"
    by code_simp
  with assms show ?thesis
    by blast
qed

interpretation tft_ie: ie_codec "\<lambda>t. SerializeBearerTft (m_filters t)" DeserializeBearerTft
  tft_ok "\<lambda>t. GetSerializedSizeBearerTft (m_filters t)"
proof
  fix t bs
  assume t: "tft_ok t"
  then obtain t' where "read_filters (length (m_filters t)) tft_init
      (concat (map SerializePacketFilter (m_filters t)) @ bs) = Some (t', bs)"
      "tft_inv t'" "m_filters t' = m_filters t"
    using read_filters_ser [OF tft_inv_init, of "m_filters t" bs]
    by (auto simp: tft_ok_def tft_inv_def tft_init_def)
  moreover from this t have "t' = t"
    by (auto simp: tft_ok_def tft_inv_def word_unat_eq_iff intro!: tft.equality)
  ultimately show "DeserializeBearerTft (SerializeBearerTft (m_filters t) @ bs) = Some (t, bs)"
    using t by (simp add: SerializeBearerTft_def DeserializeBearerTft_def io_simps
      filter_count_read tft_ok_def)
qed (simp_all add: SerializeBearerTft_def io_simps GetSerializedSizeBearerTft_def
    filter_ie.length_concat_wr sum_list_triv)

text \<open>
  A template of 16 filters, which \<^verbatim>\<open>EpcTft::Add\<close> accepts, is written with a filter count of 0.
\<close>

lemma full_template_lost:
  assumes "length fs = 16"
  shows "DeserializeBearerTft (SerializeBearerTft fs @ bs)
     = Some (tft_init, concat (map SerializePacketFilter fs) @ bs)"
proof -
  have "unat ((0x20 + (word_of_nat 16 AND 0x0f) :: u8) AND 0x0f) = 0"
    by code_simp
  with assms show ?thesis
    by (simp add: SerializeBearerTft_def DeserializeBearerTft_def io_simps)
qed

subsection \<open>User location\<close>

definition SerializeUliEcgi :: "u32 \<Rightarrow> bytes" where
  "SerializeUliEcgi u = [86] @ WriteHtonU16 8 @ [0, 0x10, 0, 0, 0] @ WriteHtonU32 u"

definition DeserializeUliEcgi :: "bytes \<Rightarrow> (u32 \<times> bytes) option" where
  "DeserializeUliEcgi bs = do {
     (_, i) \<leftarrow> ReadU8 bs; (_, i) \<leftarrow> ReadNtohU16 i; (_, i) \<leftarrow> ReadU8 i;
     i \<leftarrow> Next 4 i;
     (u, i) \<leftarrow> ReadNtohU32 i;
     Some (u AND 0x0fffffff, i) }"

definition ecgi_ok :: "u32 \<Rightarrow> bool" where
  "ecgi_ok u \<longleftrightarrow> u AND 0x0fffffff = u"

interpretation ecgi_ie: ie_codec SerializeUliEcgi DeserializeUliEcgi ecgi_ok "\<lambda>_. 12"
  by unfold_locales
     (simp_all add: SerializeUliEcgi_def DeserializeUliEcgi_def io_simps ecgi_ok_def Next_def)

subsection \<open>Fully qualified tunnel endpoint identifier\<close>

definition SerializeFteid :: "fteid \<Rightarrow> bytes" where
  "SerializeFteid f =
     [87] @ WriteHtonU16 9 @ [0, 0x80 OR (ft_interfaceType f AND 0x1f)]
     @ WriteHtonU32 (ft_teid f) @ WriteHtonU32 (ft_addr f)"

definition DeserializeFteid :: "bytes \<Rightarrow> (fteid \<times> bytes) option" where
  "DeserializeFteid bs = do {
     (_, i) \<leftarrow> ReadU8 bs; (_, i) \<leftarrow> ReadNtohU16 i; (_, i) \<leftarrow> ReadU8 i;
     (flags, i) \<leftarrow> ReadU8 i;
     (teid, i) \<leftarrow> ReadNtohU32 i;
     (a, i) \<leftarrow> ReadNtohU32 i;
     Some (\<lparr>ft_interfaceType = flags AND 0x1f, ft_addr = a, ft_teid = teid\<rparr>, i) }"

definition fteid_ok :: "fteid \<Rightarrow> bool" where
  "fteid_ok f \<longleftrightarrow> ft_interfaceType f AND 0x1f = ft_interfaceType f"

lemma interface_read: "(0x80 OR t :: u8) AND 0x1f = t AND 0x1f"
  by (simp add: u8_eq_iff bit_simps)

interpretation fteid_ie: ie_codec SerializeFteid DeserializeFteid fteid_ok "\<lambda>_. 13"
  by unfold_locales
     (simp_all add: SerializeFteid_def DeserializeFteid_def io_simps fteid_ok_def interface_read)

subsection \<open>Bearer context header\<close>

text \<open>The length is written with \<^verbatim>\<open>WriteU16\<close>, low byte first, and read high byte first.\<close>

definition SerializeBearerContextHeader :: "nat \<Rightarrow> bytes" where
  "SerializeBearerContextHeader n = [93] @ WriteU16 (word_of_nat n) @ [0]"

definition DeserializeBearerContextHeader :: "bytes \<Rightarrow> (u16 \<times> bytes) option" where
  "DeserializeBearerContextHeader bs = do {
     (_, i) \<leftarrow> ReadU8 bs; (len, i) \<leftarrow> ReadNtohU16 i; (_, i) \<leftarrow> ReadU8 i; Some (len, i) }"

lemma bearer_context_header_read [io_simps]:
  "DeserializeBearerContextHeader (SerializeBearerContextHeader n @ bs) =
     Some (push_bit 8 (word_of_nat n) OR drop_bit 8 (word_of_nat n), bs)"
  by (simp add: SerializeBearerContextHeader_def DeserializeBearerContextHeader_def
      ReadNtohU16_WriteU16)

lemma length_bearer_context_header [io_simps]: "length (SerializeBearerContextHeader n) = 4"
  by (simp add: SerializeBearerContextHeader_def io_simps)

text \<open>The receiver of a context with one default filter is told 20992 bytes instead of 82.\<close>

lemma bearer_context_length_swapped:
  "map_option fst (DeserializeBearerContextHeader (SerializeBearerContextHeader 82)) = Some 20992"
  by code_simp

end
