(* ===== verification/GtpcMessages.thy ===== *)
theory GtpcMessages
  imports GtpcIes
begin

text \<open>
  The messages of the GTP-C protocol (\<^verbatim>\<open>src/lte/model/epc-gtpc-header.cc\<close>): create session
  request and response, modify bearer request and response, delete bearer command, request and
  response. A message is sent as the only content of a packet, so \<^verbatim>\<open>Deserialize\<close> reads its
  variable part up to the end of the packet. Every message interprets \<open>gtpc_message\<close>.

  A member that no constructor initialises has an indeterminate value; it is an argument of the
  definition that makes a new message.
\<close>

section \<open>The contract of a message\<close>

locale gtpc_message =
  fixes ser :: "'m \<Rightarrow> bytes"
    and des :: "bytes \<Rightarrow> ('m \<times> nat) option"
    and hwf :: "'m \<Rightarrow> bool"
    and hdr :: "'m \<Rightarrow> gtpc_header"
    and sz :: "'m \<Rightarrow> nat"
  assumes ser_size: "hwf m \<Longrightarrow> length (ser m) = sz m"
    and des_ser: "hwf m \<Longrightarrow> des (ser m) = Some (m, sz m)"
    and ser_header: "hwf m \<Longrightarrow> \<exists>i. gtpc_PreDeserialize (ser m) = Some (hdr m, i)"
begin

text \<open>What the sender puts on the socket, what the receiver peeks at and what it removes.\<close>

lemma AddHeader_empty: "hwf m \<Longrightarrow> AddHeader sz (\<lambda>m. Some (ser m)) m [] = Some (ser m)"
  by (simp add: AddHeader_def ser_size)

lemma Peek_gtpc: "hwf m \<Longrightarrow> PeekHeader gtpc_Deserialize (ser m) = Some (hdr m)"
  using ser_header [of m] by (auto simp: PeekHeader_def gtpc_Deserialize_def)

lemma RemoveHeader_ser: "hwf m \<Longrightarrow> RemoveHeader des (ser m) = Some (m, [])"
  by (simp add: RemoveHeader_def des_ser RemoveAtStart_def ser_size)

end

section \<open>Message types\<close>

definition MSG_CreateSessionRequest :: u8 where "MSG_CreateSessionRequest = 32"
definition MSG_CreateSessionResponse :: u8 where "MSG_CreateSessionResponse = 33"
definition MSG_ModifyBearerRequest :: u8 where "MSG_ModifyBearerRequest = 34"
definition MSG_ModifyBearerResponse :: u8 where "MSG_ModifyBearerResponse = 35"
definition MSG_DeleteBearerCommand :: u8 where "MSG_DeleteBearerCommand = 66"
definition MSG_DeleteBearerRequest :: u8 where "MSG_DeleteBearerRequest = 99"
definition MSG_DeleteBearerResponse :: u8 where "MSG_DeleteBearerResponse = 100"

lemmas msg_defs = MSG_CreateSessionRequest_def MSG_CreateSessionResponse_def
  MSG_ModifyBearerRequest_def MSG_ModifyBearerResponse_def MSG_DeleteBearerCommand_def
  MSG_DeleteBearerRequest_def MSG_DeleteBearerResponse_def

text \<open>What every message constructor does to the header: its type and sequence number 0.\<close>

definition gtpc_new :: "u8 \<Rightarrow> gtpc_header" where
  "gtpc_new t = (gtpc_SetMessageType t gtpc_init)\<lparr>gh_sequenceNumber := 0\<rparr>"

text \<open>
  The end of every sending handler: \<^verbatim>\<open>SetTeid\<close>, then \<^verbatim>\<open>ComputeMessageLength\<close>. Such a header
  is well formed.
\<close>

definition gtpc_finish :: "u32 \<Rightarrow> nat \<Rightarrow> gtpc_header \<Rightarrow> gtpc_header" where
  "gtpc_finish teid n h = gtpc_ComputeMessageLength n (gtpc_SetTeid teid h)"

lemmas finish_defs = gtpc_finish_def gtpc_ComputeMessageLength_def gtpc_SetTeid_def
  gtpc_SetIesLength_def gtpc_new_def gtpc_init_def gtpc_SetMessageType_def

lemma gtpc_finish_new [simp]:
  "gtpc_hwf (gtpc_finish teid n (gtpc_new t))"
  "gh_teid (gtpc_finish teid n (gtpc_new t)) = teid"
  "gh_messageType (gtpc_finish teid n (gtpc_new t)) = t"
  by (simp_all add: finish_defs gtpc_hwf_def)

lemma gtpc_hwf_size [simp]: "gtpc_hwf h \<Longrightarrow> gtpc_GetSerializedSize h = 12"
  by (simp add: gtpc_hwf_def gtpc_GetSerializedSize_def)

section \<open>Bearer contexts\<close>

text \<open>
  \<^verbatim>\<open>BearerContextToBeCreated\<close> and \<^verbatim>\<open>BearerContextCreated\<close> have the same members and are
  written and read by the same statements; \<^verbatim>\<open>BearerContextToBeModified\<close> has two members.
\<close>

record bearer_context =
  bc_fteid :: fteid
  bc_epsBearerId :: u8
  bc_tft :: tft
  bc_bearerLevelQos :: eps_bearer

record bearer_modify =
  bm_fteid :: fteid
  bm_epsBearerId :: u8

definition bearer_context_size :: "bearer_context \<Rightarrow> nat" where
  "bearer_context_size b = 4 + 5 + GetSerializedSizeBearerTft (m_filters (bc_tft b)) + 13 + 26"

definition SerializeBearerContext :: "bearer_context \<Rightarrow> bytes" where
  "SerializeBearerContext b =
     (let fs = m_filters (bc_tft b) in
      SerializeBearerContextHeader (5 + GetSerializedSizeBearerTft fs + 13 + 26)
      @ SerializeEbi (bc_epsBearerId b) @ SerializeBearerTft fs
      @ SerializeFteid (bc_fteid b) @ SerializeBearerQos (bc_bearerLevelQos b))"

definition DeserializeBearerContext :: "bytes \<Rightarrow> (bearer_context \<times> bytes) option" where
  "DeserializeBearerContext bs = do {
     (_, i) \<leftarrow> DeserializeBearerContextHeader bs;
     (e, i) \<leftarrow> DeserializeEbi i;
     (t, i) \<leftarrow> DeserializeBearerTft i;
     (f, i) \<leftarrow> DeserializeFteid i;
     (q, i) \<leftarrow> DeserializeBearerQos i;
     Some (\<lparr>bc_fteid = f, bc_epsBearerId = e, bc_tft = t, bc_bearerLevelQos = q\<rparr>, i) }"

definition bearer_context_ok :: "bearer_context \<Rightarrow> bool" where
  "bearer_context_ok b \<longleftrightarrow> ebi_ok (bc_epsBearerId b) \<and> tft_ok (bc_tft b) \<and>
     fteid_ok (bc_fteid b) \<and> qos_ok (bc_bearerLevelQos b)"

lemmas ie_roundtrips = imsi_ie.rd_wr cause_ie.rd_wr ebi_ie.rd_wr qos_ie.rd_wr tft_ie.rd_wr
  ecgi_ie.rd_wr fteid_ie.rd_wr

lemmas ie_sizes = imsi_ie.wr_size cause_ie.wr_size ebi_ie.wr_size qos_ie.wr_size
  tft_ie.wr_size ecgi_ie.wr_size fteid_ie.wr_size

interpretation context_ie: ie_codec SerializeBearerContext DeserializeBearerContext
  bearer_context_ok bearer_context_size
  by unfold_locales
     (simp_all add: SerializeBearerContext_def DeserializeBearerContext_def bearer_context_ok_def
        bearer_context_size_def Let_def io_simps ie_roundtrips ie_sizes)

definition SerializeBearerModify :: "bearer_modify \<Rightarrow> bytes" where
  "SerializeBearerModify b =
     SerializeBearerContextHeader (5 + 13) @ SerializeEbi (bm_epsBearerId b)
     @ SerializeFteid (bm_fteid b)"

definition DeserializeBearerModify :: "bytes \<Rightarrow> (bearer_modify \<times> bytes) option" where
  "DeserializeBearerModify bs = do {
     (_, i) \<leftarrow> DeserializeBearerContextHeader bs;
     (e, i) \<leftarrow> DeserializeEbi i;
     (f, i) \<leftarrow> DeserializeFteid i;
     Some (\<lparr>bm_fteid = f, bm_epsBearerId = e\<rparr>, i) }"

definition bearer_modify_ok :: "bearer_modify \<Rightarrow> bool" where
  "bearer_modify_ok b \<longleftrightarrow> ebi_ok (bm_epsBearerId b) \<and> fteid_ok (bm_fteid b)"

interpretation modify_ie: ie_codec SerializeBearerModify DeserializeBearerModify
  bearer_modify_ok "\<lambda>_. 22"
  by unfold_locales
     (simp_all add: SerializeBearerModify_def DeserializeBearerModify_def bearer_modify_ok_def
        io_simps ie_roundtrips ie_sizes)

text \<open>The bearer context of a delete bearer command holds the bearer identity only.\<close>

definition SerializeBearerRef :: "u8 \<Rightarrow> bytes" where
  "SerializeBearerRef e = SerializeBearerContextHeader 5 @ SerializeEbi e"

definition DeserializeBearerRef :: "bytes \<Rightarrow> (u8 \<times> bytes) option" where
  "DeserializeBearerRef bs = do {
     (_, i) \<leftarrow> DeserializeBearerContextHeader bs; DeserializeEbi i }"

interpretation ref_ie: ie_codec SerializeBearerRef DeserializeBearerRef ebi_ok "\<lambda>_. 9"
  by unfold_locales
     (simp_all add: SerializeBearerRef_def DeserializeBearerRef_def io_simps ie_roundtrips
        ie_sizes)

section \<open>Create session request\<close>

record create_session_request =
  csq_header :: gtpc_header
  csq_imsi :: u64
  csq_uliEcgi :: u32
  csq_senderCpFteid :: fteid
  csq_bearerContexts :: "bearer_context list"

text \<open>The sender F-TEID is indeterminate until it is set.\<close>

definition csq_new :: "fteid \<Rightarrow> create_session_request" where
  "csq_new g = \<lparr>csq_header = gtpc_new MSG_CreateSessionRequest, csq_imsi = 0, csq_uliEcgi = 0, csq_senderCpFteid = g, csq_bearerContexts = []\<rparr>"

definition csq_GetMessageSize :: "create_session_request \<Rightarrow> nat" where
  "csq_GetMessageSize m = 12 + 12 + 13 + sum_list (map bearer_context_size (csq_bearerContexts m))"

definition csq_GetSerializedSize :: "create_session_request \<Rightarrow> nat" where
  "csq_GetSerializedSize m = gtpc_GetSerializedSize (csq_header m) + csq_GetMessageSize m"

definition csq_Serialize :: "create_session_request \<Rightarrow> bytes" where
  "csq_Serialize m =
     gtpc_PreSerialize (csq_header m)
     @ SerializeImsi (csq_imsi m)
     @ SerializeUliEcgi (csq_uliEcgi m)
     @ SerializeFteid (csq_senderCpFteid m)
     @ concat (map SerializeBearerContext (csq_bearerContexts m))"

definition csq_Deserialize :: "bytes \<Rightarrow> (create_session_request \<times> nat) option" where
  "csq_Deserialize bs = do {
     (h, i) \<leftarrow> gtpc_PreDeserialize bs;
     (x0, i) \<leftarrow> DeserializeImsi i;
     (x1, i) \<leftarrow> DeserializeUliEcgi i;
     (x2, i) \<leftarrow> DeserializeFteid i;
     xs \<leftarrow> read_all DeserializeBearerContext i;
     let m = \<lparr>csq_header = h, csq_imsi = x0, csq_uliEcgi = x1, csq_senderCpFteid = x2, csq_bearerContexts = xs\<rparr>;
     Some (m, csq_GetSerializedSize m) }"

definition csq_hwf :: "create_session_request \<Rightarrow> bool" where
  "csq_hwf m \<longleftrightarrow> gtpc_hwf (csq_header m) \<and> ecgi_ok (csq_uliEcgi m) \<and> fteid_ok (csq_senderCpFteid m) \<and>
     list_all bearer_context_ok (csq_bearerContexts m)"

interpretation csq_msg: gtpc_message csq_Serialize csq_Deserialize csq_hwf csq_header
  csq_GetSerializedSize
  by unfold_locales
     (auto simp: csq_Serialize_def csq_Deserialize_def csq_hwf_def csq_GetSerializedSize_def
        csq_GetMessageSize_def io_simps ie_roundtrips ie_sizes
        context_ie.read_all_wr context_ie.length_concat_wr sum_list_triv)

section \<open>Create session response\<close>

record create_session_response =
  csp_header :: gtpc_header
  csp_cause :: u8
  csp_senderCpFteid :: fteid
  csp_bearerContexts :: "bearer_context list"

definition csp_new :: "fteid \<Rightarrow> create_session_response" where
  "csp_new g = \<lparr>csp_header = gtpc_new MSG_CreateSessionResponse, csp_cause = CAUSE_RESERVED, csp_senderCpFteid = g, csp_bearerContexts = []\<rparr>"

definition csp_GetMessageSize :: "create_session_response \<Rightarrow> nat" where
  "csp_GetMessageSize m = 6 + 13 + sum_list (map bearer_context_size (csp_bearerContexts m))"

definition csp_GetSerializedSize :: "create_session_response \<Rightarrow> nat" where
  "csp_GetSerializedSize m = gtpc_GetSerializedSize (csp_header m) + csp_GetMessageSize m"

definition csp_Serialize :: "create_session_response \<Rightarrow> bytes" where
  "csp_Serialize m =
     gtpc_PreSerialize (csp_header m)
     @ SerializeCause (csp_cause m)
     @ SerializeFteid (csp_senderCpFteid m)
     @ concat (map SerializeBearerContext (csp_bearerContexts m))"

definition csp_Deserialize :: "bytes \<Rightarrow> (create_session_response \<times> nat) option" where
  "csp_Deserialize bs = do {
     (h, i) \<leftarrow> gtpc_PreDeserialize bs;
     (x0, i) \<leftarrow> DeserializeCause i;
     (x1, i) \<leftarrow> DeserializeFteid i;
     xs \<leftarrow> read_all DeserializeBearerContext i;
     let m = \<lparr>csp_header = h, csp_cause = x0, csp_senderCpFteid = x1, csp_bearerContexts = xs\<rparr>;
     Some (m, csp_GetSerializedSize m) }"

definition csp_hwf :: "create_session_response \<Rightarrow> bool" where
  "csp_hwf m \<longleftrightarrow> gtpc_hwf (csp_header m) \<and> fteid_ok (csp_senderCpFteid m) \<and>
     list_all bearer_context_ok (csp_bearerContexts m)"

interpretation csp_msg: gtpc_message csp_Serialize csp_Deserialize csp_hwf csp_header
  csp_GetSerializedSize
  by unfold_locales
     (auto simp: csp_Serialize_def csp_Deserialize_def csp_hwf_def csp_GetSerializedSize_def
        csp_GetMessageSize_def io_simps ie_roundtrips ie_sizes
        context_ie.read_all_wr context_ie.length_concat_wr sum_list_triv)

section \<open>Modify bearer request\<close>

record modify_bearer_request =
  mbq_header :: gtpc_header
  mbq_imsi :: u64
  mbq_uliEcgi :: u32
  mbq_bearerContexts :: "bearer_modify list"

definition mbq_new :: "modify_bearer_request" where
  "mbq_new = \<lparr>mbq_header = gtpc_new MSG_ModifyBearerRequest, mbq_imsi = 0, mbq_uliEcgi = 0, mbq_bearerContexts = []\<rparr>"

definition mbq_GetMessageSize :: "modify_bearer_request \<Rightarrow> nat" where
  "mbq_GetMessageSize m = 12 + 12 + length (mbq_bearerContexts m) * 22"

definition mbq_GetSerializedSize :: "modify_bearer_request \<Rightarrow> nat" where
  "mbq_GetSerializedSize m = gtpc_GetSerializedSize (mbq_header m) + mbq_GetMessageSize m"

definition mbq_Serialize :: "modify_bearer_request \<Rightarrow> bytes" where
  "mbq_Serialize m =
     gtpc_PreSerialize (mbq_header m)
     @ SerializeImsi (mbq_imsi m)
     @ SerializeUliEcgi (mbq_uliEcgi m)
     @ concat (map SerializeBearerModify (mbq_bearerContexts m))"

definition mbq_Deserialize :: "bytes \<Rightarrow> (modify_bearer_request \<times> nat) option" where
  "mbq_Deserialize bs = do {
     (h, i) \<leftarrow> gtpc_PreDeserialize bs;
     (x0, i) \<leftarrow> DeserializeImsi i;
     (x1, i) \<leftarrow> DeserializeUliEcgi i;
     xs \<leftarrow> read_all DeserializeBearerModify i;
     let m = \<lparr>mbq_header = h, mbq_imsi = x0, mbq_uliEcgi = x1, mbq_bearerContexts = xs\<rparr>;
     Some (m, mbq_GetSerializedSize m) }"

definition mbq_hwf :: "modify_bearer_request \<Rightarrow> bool" where
  "mbq_hwf m \<longleftrightarrow> gtpc_hwf (mbq_header m) \<and> ecgi_ok (mbq_uliEcgi m) \<and>
     list_all bearer_modify_ok (mbq_bearerContexts m)"

interpretation mbq_msg: gtpc_message mbq_Serialize mbq_Deserialize mbq_hwf mbq_header
  mbq_GetSerializedSize
  by unfold_locales
     (auto simp: mbq_Serialize_def mbq_Deserialize_def mbq_hwf_def mbq_GetSerializedSize_def
        mbq_GetMessageSize_def io_simps ie_roundtrips ie_sizes
        modify_ie.read_all_wr modify_ie.length_concat_wr sum_list_triv)

section \<open>Modify bearer response\<close>

record modify_bearer_response =
  mbp_header :: gtpc_header
  mbp_cause :: u8

definition mbp_new :: "modify_bearer_response" where
  "mbp_new = \<lparr>mbp_header = gtpc_new MSG_ModifyBearerResponse, mbp_cause = CAUSE_RESERVED\<rparr>"

definition mbp_GetMessageSize :: "modify_bearer_response \<Rightarrow> nat" where
  "mbp_GetMessageSize m = 6"

definition mbp_GetSerializedSize :: "modify_bearer_response \<Rightarrow> nat" where
  "mbp_GetSerializedSize m = gtpc_GetSerializedSize (mbp_header m) + mbp_GetMessageSize m"

definition mbp_Serialize :: "modify_bearer_response \<Rightarrow> bytes" where
  "mbp_Serialize m =
     gtpc_PreSerialize (mbp_header m)
     @ SerializeCause (mbp_cause m)"

definition mbp_Deserialize :: "bytes \<Rightarrow> (modify_bearer_response \<times> nat) option" where
  "mbp_Deserialize bs = do {
     (h, i) \<leftarrow> gtpc_PreDeserialize bs;
     (x0, i) \<leftarrow> DeserializeCause i;
     let m = \<lparr>mbp_header = h, mbp_cause = x0\<rparr>;
     Some (m, mbp_GetSerializedSize m) }"

definition mbp_hwf :: "modify_bearer_response \<Rightarrow> bool" where
  "mbp_hwf m \<longleftrightarrow> gtpc_hwf (mbp_header m)"

interpretation mbp_msg: gtpc_message mbp_Serialize mbp_Deserialize mbp_hwf mbp_header
  mbp_GetSerializedSize
  by unfold_locales
     (auto simp: mbp_Serialize_def mbp_Deserialize_def mbp_hwf_def mbp_GetSerializedSize_def
        mbp_GetMessageSize_def io_simps ie_roundtrips ie_sizes
        cause_ie.rd_wr [where bs = "[]", simplified])

section \<open>Delete bearer command\<close>

record delete_bearer_command =
  dbc_header :: gtpc_header
  dbc_bearerContexts :: "u8 list"

definition dbc_new :: "delete_bearer_command" where
  "dbc_new = \<lparr>dbc_header = gtpc_new MSG_DeleteBearerCommand, dbc_bearerContexts = []\<rparr>"

definition dbc_GetMessageSize :: "delete_bearer_command \<Rightarrow> nat" where
  "dbc_GetMessageSize m = length (dbc_bearerContexts m) * 9"

definition dbc_GetSerializedSize :: "delete_bearer_command \<Rightarrow> nat" where
  "dbc_GetSerializedSize m = gtpc_GetSerializedSize (dbc_header m) + dbc_GetMessageSize m"

definition dbc_Serialize :: "delete_bearer_command \<Rightarrow> bytes" where
  "dbc_Serialize m =
     gtpc_PreSerialize (dbc_header m)
     @ concat (map SerializeBearerRef (dbc_bearerContexts m))"

definition dbc_Deserialize :: "bytes \<Rightarrow> (delete_bearer_command \<times> nat) option" where
  "dbc_Deserialize bs = do {
     (h, i) \<leftarrow> gtpc_PreDeserialize bs;
     xs \<leftarrow> read_all DeserializeBearerRef i;
     let m = \<lparr>dbc_header = h, dbc_bearerContexts = xs\<rparr>;
     Some (m, dbc_GetSerializedSize m) }"

definition dbc_hwf :: "delete_bearer_command \<Rightarrow> bool" where
  "dbc_hwf m \<longleftrightarrow> gtpc_hwf (dbc_header m) \<and>
     list_all ebi_ok (dbc_bearerContexts m)"

interpretation dbc_msg: gtpc_message dbc_Serialize dbc_Deserialize dbc_hwf dbc_header
  dbc_GetSerializedSize
  by unfold_locales
     (auto simp: dbc_Serialize_def dbc_Deserialize_def dbc_hwf_def dbc_GetSerializedSize_def
        dbc_GetMessageSize_def io_simps ie_roundtrips ie_sizes
        ref_ie.read_all_wr ref_ie.length_concat_wr sum_list_triv)

section \<open>Delete bearer request\<close>

record delete_bearer_request =
  dbq_header :: gtpc_header
  dbq_epsBearerIds :: "u8 list"

definition dbq_new :: "delete_bearer_request" where
  "dbq_new = \<lparr>dbq_header = gtpc_new MSG_DeleteBearerRequest, dbq_epsBearerIds = []\<rparr>"

definition dbq_GetMessageSize :: "delete_bearer_request \<Rightarrow> nat" where
  "dbq_GetMessageSize m = length (dbq_epsBearerIds m) * 5"

definition dbq_GetSerializedSize :: "delete_bearer_request \<Rightarrow> nat" where
  "dbq_GetSerializedSize m = gtpc_GetSerializedSize (dbq_header m) + dbq_GetMessageSize m"

definition dbq_Serialize :: "delete_bearer_request \<Rightarrow> bytes" where
  "dbq_Serialize m =
     gtpc_PreSerialize (dbq_header m)
     @ concat (map SerializeEbi (dbq_epsBearerIds m))"

definition dbq_Deserialize :: "bytes \<Rightarrow> (delete_bearer_request \<times> nat) option" where
  "dbq_Deserialize bs = do {
     (h, i) \<leftarrow> gtpc_PreDeserialize bs;
     xs \<leftarrow> read_all DeserializeEbi i;
     let m = \<lparr>dbq_header = h, dbq_epsBearerIds = xs\<rparr>;
     Some (m, dbq_GetSerializedSize m) }"

definition dbq_hwf :: "delete_bearer_request \<Rightarrow> bool" where
  "dbq_hwf m \<longleftrightarrow> gtpc_hwf (dbq_header m) \<and>
     list_all ebi_ok (dbq_epsBearerIds m)"

interpretation dbq_msg: gtpc_message dbq_Serialize dbq_Deserialize dbq_hwf dbq_header
  dbq_GetSerializedSize
  by unfold_locales
     (auto simp: dbq_Serialize_def dbq_Deserialize_def dbq_hwf_def dbq_GetSerializedSize_def
        dbq_GetMessageSize_def io_simps ie_roundtrips ie_sizes
        ebi_ie.read_all_wr ebi_ie.length_concat_wr sum_list_triv)

section \<open>Delete bearer response\<close>

record delete_bearer_response =
  dbp_header :: gtpc_header
  dbp_cause :: u8
  dbp_epsBearerIds :: "u8 list"

text \<open>No constructor and no sender sets the cause.\<close>

definition dbp_new :: "u8 \<Rightarrow> delete_bearer_response" where
  "dbp_new c = \<lparr>dbp_header = gtpc_new MSG_DeleteBearerResponse, dbp_cause = c, dbp_epsBearerIds = []\<rparr>"

definition dbp_GetMessageSize :: "delete_bearer_response \<Rightarrow> nat" where
  "dbp_GetMessageSize m = 6 + length (dbp_epsBearerIds m) * 5"

definition dbp_GetSerializedSize :: "delete_bearer_response \<Rightarrow> nat" where
  "dbp_GetSerializedSize m = gtpc_GetSerializedSize (dbp_header m) + dbp_GetMessageSize m"

definition dbp_Serialize :: "delete_bearer_response \<Rightarrow> bytes" where
  "dbp_Serialize m =
     gtpc_PreSerialize (dbp_header m)
     @ SerializeCause (dbp_cause m)
     @ concat (map SerializeEbi (dbp_epsBearerIds m))"

definition dbp_Deserialize :: "bytes \<Rightarrow> (delete_bearer_response \<times> nat) option" where
  "dbp_Deserialize bs = do {
     (h, i) \<leftarrow> gtpc_PreDeserialize bs;
     (x0, i) \<leftarrow> DeserializeCause i;
     xs \<leftarrow> read_all DeserializeEbi i;
     let m = \<lparr>dbp_header = h, dbp_cause = x0, dbp_epsBearerIds = xs\<rparr>;
     Some (m, dbp_GetSerializedSize m) }"

definition dbp_hwf :: "delete_bearer_response \<Rightarrow> bool" where
  "dbp_hwf m \<longleftrightarrow> gtpc_hwf (dbp_header m) \<and>
     list_all ebi_ok (dbp_epsBearerIds m)"

interpretation dbp_msg: gtpc_message dbp_Serialize dbp_Deserialize dbp_hwf dbp_header
  dbp_GetSerializedSize
  by unfold_locales
     (auto simp: dbp_Serialize_def dbp_Deserialize_def dbp_hwf_def dbp_GetSerializedSize_def
        dbp_GetMessageSize_def io_simps ie_roundtrips ie_sizes
        ebi_ie.read_all_wr ebi_ie.length_concat_wr sum_list_triv)

end
