(* ===== verification/GtpuHeader.thy ===== *)
theory GtpuHeader
  imports HeaderCodec ByteIO
begin

text \<open>
  \<^verbatim>\<open>GtpuHeader\<close> of \<^verbatim>\<open>src/lte/model/epc-gtpu-header.cc\<close>: the header of the user plane tunnels
  between eNB, SGW and PGW, and the encapsulation that the three applications perform when they
  send a packet into a tunnel.
\<close>

record gtpu_header =
  gu_version :: u8
  gu_protocolType :: bool
  gu_extensionHeaderFlag :: bool
  gu_sequenceNumberFlag :: bool
  gu_nPduNumberFlag :: bool
  gu_messageType :: u8
  gu_length :: u16
  gu_teid :: u32
  gu_sequenceNumber :: u16
  gu_nPduNumber :: u8
  gu_nextExtensionType :: u8

definition gtpu_init :: gtpu_header where
  "gtpu_init = \<lparr>gu_version = 1, gu_protocolType = True, gu_extensionHeaderFlag = False,
     gu_sequenceNumberFlag = True, gu_nPduNumberFlag = True, gu_messageType = 255,
     gu_length = 0, gu_teid = 0, gu_sequenceNumber = 0, gu_nPduNumber = 0,
     gu_nextExtensionType = 0\<rparr>"

definition gtpu_GetSerializedSize :: "gtpu_header \<Rightarrow> nat" where
  "gtpu_GetSerializedSize h = 12"

definition gtpu_SetVersion :: "u8 \<Rightarrow> gtpu_header \<Rightarrow> gtpu_header" where
  "gtpu_SetVersion v h = h\<lparr>gu_version := v AND 0x7\<rparr>"

definition gtpu_SetTeid :: "u32 \<Rightarrow> gtpu_header \<Rightarrow> gtpu_header" where
  "gtpu_SetTeid t h = h\<lparr>gu_teid := t\<rparr>"

definition gtpu_SetLength :: "u16 \<Rightarrow> gtpu_header \<Rightarrow> gtpu_header" where
  "gtpu_SetLength n h = h\<lparr>gu_length := n\<rparr>"

definition flag_bit :: "nat \<Rightarrow> bool \<Rightarrow> u8" where
  "flag_bit n b = push_bit n (of_bool b)"

definition gtpu_firstByte :: "gtpu_header \<Rightarrow> u8" where
  "gtpu_firstByte h =
     (push_bit 5 (gu_version h) OR flag_bit 4 (gu_protocolType h) OR flag_bit 3 True)
     OR (flag_bit 2 (gu_extensionHeaderFlag h) OR flag_bit 1 (gu_sequenceNumberFlag h)
         OR flag_bit 0 (gu_nPduNumberFlag h))"

definition gtpu_Serialize :: "gtpu_header \<Rightarrow> bytes" where
  "gtpu_Serialize h =
     [gtpu_firstByte h, gu_messageType h] @ WriteHtonU16 (gu_length h)
     @ WriteHtonU32 (gu_teid h) @ WriteHtonU16 (gu_sequenceNumber h)
     @ [gu_nPduNumber h, gu_nextExtensionType h]"

definition gtpu_Deserialize :: "bytes \<Rightarrow> (gtpu_header \<times> nat) option" where
  "gtpu_Deserialize bs = do {
     (firstByte, i) \<leftarrow> ReadU8 bs;
     (messageType, i) \<leftarrow> ReadU8 i;
     (len, i) \<leftarrow> ReadNtohU16 i;
     (teid, i) \<leftarrow> ReadNtohU32 i;
     (sn, i) \<leftarrow> ReadNtohU16 i;
     (npdu, i) \<leftarrow> ReadU8 i;
     (ext, i) \<leftarrow> ReadU8 i;
     let h = \<lparr>gu_version = drop_bit 5 firstByte AND 0x7,
              gu_protocolType = (drop_bit 4 firstByte AND 1 \<noteq> 0),
              gu_extensionHeaderFlag = (drop_bit 2 firstByte AND 1 \<noteq> 0),
              gu_sequenceNumberFlag = (drop_bit 1 firstByte AND 1 \<noteq> 0),
              gu_nPduNumberFlag = (firstByte AND 1 \<noteq> 0),
              gu_messageType = messageType, gu_length = len, gu_teid = teid,
              gu_sequenceNumber = sn, gu_nPduNumber = npdu, gu_nextExtensionType = ext\<rparr>;
     Some (h, gtpu_GetSerializedSize h) }"

text \<open>The version is a three-bit field.\<close>

definition gtpu_hwf :: "gtpu_header \<Rightarrow> bool" where
  "gtpu_hwf h \<longleftrightarrow> gu_version h < 8"

lemma gtpu_SetVersion_hwf: "gtpu_hwf (gtpu_SetVersion v h)"
  using word_and_le2 [of 7 v] word_and_le1 [of v 7]
  by (simp add: gtpu_hwf_def gtpu_SetVersion_def word_le_nat_alt word_less_nat_alt and.commute)

lemma bit_flag_bit: "bit (flag_bit k b) n \<longleftrightarrow> k < 8 \<and> n = k \<and> b"
  by (cases b) (auto simp: flag_bit_def bit_simps)

lemma gtpu_firstByte_read:
  assumes "gu_version h < 8"
  shows "drop_bit 5 (gtpu_firstByte h) AND 0x7 = gu_version h"
    "drop_bit 4 (gtpu_firstByte h) AND 1 \<noteq> 0 \<longleftrightarrow> gu_protocolType h"
    "drop_bit 2 (gtpu_firstByte h) AND 1 \<noteq> 0 \<longleftrightarrow> gu_extensionHeaderFlag h"
    "drop_bit 1 (gtpu_firstByte h) AND 1 \<noteq> 0 \<longleftrightarrow> gu_sequenceNumberFlag h"
    "gtpu_firstByte h AND 1 \<noteq> 0 \<longleftrightarrow> gu_nPduNumberFlag h"
  using u8_lt_8 [OF assms]
  by (simp_all add: u8_eq_iff bit_simps gtpu_firstByte_def bit_flag_bit)

lemma length_gtpu_Serialize [io_simps]: "length (gtpu_Serialize h) = 12"
  by (simp add: gtpu_Serialize_def io_simps)

interpretation gtpu: header_codec gtpu_GetSerializedSize "\<lambda>h. Some (gtpu_Serialize h)"
  gtpu_Deserialize gtpu_hwf "\<lambda>h. h"
  by unfold_locales
     (auto simp: gtpu_GetSerializedSize_def gtpu_Serialize_def gtpu_Deserialize_def io_simps
        gtpu_hwf_def gtpu_firstByte_read [simplified])

section \<open>Encapsulation\<close>

text \<open>
  The body shared by \<^verbatim>\<open>SendToS5uSocket\<close> and \<^verbatim>\<open>SendToS1uSocket\<close> of the three applications: a
  default header with the TEID and the length of the packet plus the optional header fields.
\<close>

definition gtpu_for :: "u32 \<Rightarrow> bytes \<Rightarrow> gtpu_header" where
  "gtpu_for teid p =
     (let h = gtpu_SetTeid teid gtpu_init
      in gtpu_SetLength (ucast (GetSize p + of_nat (gtpu_GetSerializedSize h) - 8)) h)"

definition gtpu_encap :: "u32 \<Rightarrow> bytes \<Rightarrow> bytes option" where
  "gtpu_encap teid p = AddHeader gtpu_GetSerializedSize (\<lambda>h. Some (gtpu_Serialize h)) (gtpu_for teid p) p"

text \<open>The receiving side: remove the header and take its TEID.\<close>

definition gtpu_decap :: "bytes \<Rightarrow> (u32 \<times> bytes) option" where
  "gtpu_decap q =
     (case RemoveHeader gtpu_Deserialize q of None \<Rightarrow> None | Some (h, p) \<Rightarrow> Some (gu_teid h, p))"

lemma gtpu_for_hwf: "gtpu_hwf (gtpu_for teid p)" and gtpu_for_teid: "gu_teid (gtpu_for teid p) = teid"
  by (simp_all add: gtpu_for_def gtpu_SetLength_def gtpu_SetTeid_def gtpu_init_def gtpu_hwf_def
      Let_def)

lemma gtpu_encap_Some: "\<exists>q. gtpu_encap teid p = Some q \<and> gtpu_decap q = Some (teid, p)"
proof -
  obtain b where b: "gtpu_encap teid p = Some (b @ p)"
    using gtpu.AddHeader_Some [OF gtpu_for_hwf] unfolding gtpu_encap_def by blast
  then have "RemoveHeader gtpu_Deserialize (b @ p) = Some (gtpu_for teid p, p)"
    using gtpu.RemoveHeader_AddHeader [OF gtpu_for_hwf] unfolding gtpu_encap_def by blast
  with b show ?thesis
    by (simp add: gtpu_decap_def gtpu_for_teid)
qed

lemma gtpu_encap_decap: "gtpu_encap teid p = Some q \<Longrightarrow> gtpu_decap q = Some (teid, p)"
  using gtpu_encap_Some [of teid p] by auto

end
