(* ===== verification/EpcNet.thy ===== *)
theory EpcNet
  imports GtpcMessages GtpuHeader
begin

text \<open>
  What the applications of the core network exchange: datagrams on the S1-U, S5 and S11
  interfaces, which are IP and UDP sockets outside of the applications, and direct calls of the
  S1-AP and S1 service access points.
\<close>

text \<open>An assertion of the code: it ends the run when its condition does not hold.\<close>

definition asserted :: "bool \<Rightarrow> unit option" where
  "asserted b = (if b then Some () else None)"

lemma asserted_simps [simp]:
  "asserted True = Some ()" "asserted False = None"
  "asserted b = Some x \<longleftrightarrow> b" "asserted b = None \<longleftrightarrow> \<not> b"
  by (simp_all add: asserted_def)

section \<open>Datagrams\<close>

datatype interface = S1u | S5u | S5c | S11

definition gtpuUdpPort :: u16 where "gtpuUdpPort = 2152"
definition gtpcUdpPort :: u16 where "gtpcUdpPort = 2123"

text \<open>\<^verbatim>\<open>Socket::SendTo\<close>: the socket, the destination address and port, the payload.\<close>

datatype datagram = SendTo interface ipv4 u16 bytes

text \<open>A GTP-C message in a packet of its own; a GTP-U tunnel packet.\<close>

definition gtpc_packet :: "('m \<Rightarrow> nat) \<Rightarrow> ('m \<Rightarrow> bytes) \<Rightarrow> 'm \<Rightarrow> bytes option" where
  "gtpc_packet sz ser m = AddHeader sz (\<lambda>m. Some (ser m)) m []"

definition send_gtpc :: "interface \<Rightarrow> ipv4 \<Rightarrow> bytes \<Rightarrow> datagram" where
  "send_gtpc ifc addr p = SendTo ifc addr gtpcUdpPort p"

definition send_gtpu :: "interface \<Rightarrow> ipv4 \<Rightarrow> u32 \<Rightarrow> bytes \<Rightarrow> datagram option" where
  "send_gtpu ifc addr teid p = map_option (SendTo ifc addr gtpuUdpPort) (gtpu_encap teid p)"

text \<open>The type of a received GTP-C message, by which every application dispatches.\<close>

definition gtpc_type :: "bytes \<Rightarrow> u8 option" where
  "gtpc_type p = map_option gh_messageType (PeekHeader gtpc_Deserialize p)"

context gtpc_message
begin

lemma gtpc_packet_Some: "hwf m \<Longrightarrow> gtpc_packet sz ser m = Some (ser m)"
  by (simp add: gtpc_packet_def AddHeader_empty)

lemma gtpc_type_ser: "hwf m \<Longrightarrow> gtpc_type (ser m) = Some (gh_messageType (hdr m))"
  by (simp add: gtpc_type_def Peek_gtpc)

lemmas wire = gtpc_packet_Some gtpc_type_ser RemoveHeader_ser Peek_gtpc

end

text \<open>The first byte of an IP packet tells its version; an empty packet has no first byte.\<close>

definition ip_version :: "bytes \<Rightarrow> u8 option" where
  "ip_version p = map_option (\<lambda>(b, _). drop_bit 4 b AND 0x0f) (ReadU8 p)"

section \<open>Calls between eNB, MME and RRC\<close>

text \<open>\<^verbatim>\<open>ErabToBeSetupItem\<close> and \<^verbatim>\<open>ErabSwitchedInDownlinkItem\<close>.\<close>

record erab_setup =
  es_erabId :: u8
  es_qos :: eps_bearer
  es_transportLayerAddress :: ipv4
  es_sgwTeid :: u32

record erab_switched =
  ew_erabId :: u16
  ew_enbTransportLayerAddress :: ipv4
  ew_enbTeid :: u32

text \<open>\<^verbatim>\<open>BearerToBeSwitched\<close> and \<^verbatim>\<open>PathSwitchRequestParameters\<close> of the S1 SAP.\<close>

record path_switch =
  ps_rnti :: u16
  ps_cellId :: u16
  ps_mmeUeS1Id :: u32
  ps_bearers :: "(u8 \<times> u32) list"

text \<open>Calls of the MME by an eNB, of an eNB by the MME, and of the RRC by the eNB.\<close>

datatype mme_call =
    InitialUeMessage u64 u16 u64 u16
  | PathSwitchRequest u64 u64 u16 "erab_switched list"
  | ErabReleaseIndication u64 u16 "u8 list"

datatype enb_call =
    InitialContextSetupRequest u64 u16 "erab_setup list"
  | PathSwitchRequestAcknowledge u64 u64 u16

datatype rrc_call =
    DataRadioBearerSetup u16 eps_bearer u8 u32
  | RrcInitialContextSetup u16
  | RrcPathSwitchAck u16

end
