(* ===== verification/EpcPgw.thy ===== *)
theory EpcPgw
  imports EpcNet
begin

text \<open>
  \<^verbatim>\<open>EpcPgwApplication\<close> of \<^verbatim>\<open>src/lte/model/epc-pgw-application.cc\<close>: the gateway to the
  internet. The three maps of the class share the objects of class \<^verbatim>\<open>UeInfo\<close>, which the model
  keeps in a store; a reference is an index of it.
\<close>

section \<open>The context of a UE\<close>

record pgw_ue =
  pu_ueAddr :: ipv4
  pu_ueAddr6 :: ipv6
  pu_sgwAddr :: ipv4
  pu_tftClassifier :: classifier
  pu_teidByBearerId :: "u8 \<Rightarrow> u32 option"

definition pgw_ue_init :: pgw_ue where
  "pgw_ue_init = \<lparr>pu_ueAddr = Ipv4Address_UNINITIALIZED, pu_ueAddr6 = Ipv6_zero,
     pu_sgwAddr = Ipv4Address_UNINITIALIZED, pu_tftClassifier = classifier_init,
     pu_teidByBearerId = (\<lambda>_. None)\<rparr>"

definition pu_AddBearer :: "u8 \<Rightarrow> u32 \<Rightarrow> tft \<Rightarrow> pgw_ue \<Rightarrow> pgw_ue option" where
  "pu_AddBearer bid teid t u =
     (case classifier_Add t teid (pu_tftClassifier u) of
        None \<Rightarrow> None
      | Some c \<Rightarrow>
          Some (u\<lparr>pu_teidByBearerId := (pu_teidByBearerId u)(bid \<mapsto> teid),
                  pu_tftClassifier := c\<rparr>))"

text \<open>The iterator of an unknown bearer is dereferenced without a check.\<close>

definition pu_RemoveBearer :: "u8 \<Rightarrow> pgw_ue \<Rightarrow> pgw_ue option" where
  "pu_RemoveBearer bid u =
     (case pu_teidByBearerId u bid of
        None \<Rightarrow> None
      | Some teid \<Rightarrow>
          Some (u\<lparr>pu_tftClassifier := classifier_Delete teid (pu_tftClassifier u),
                  pu_teidByBearerId := (pu_teidByBearerId u)(bid := None)\<rparr>))"

definition pu_Classify :: "bytes \<Rightarrow> u16 \<Rightarrow> pgw_ue \<Rightarrow> (u32 \<times> pgw_ue) option" where
  "pu_Classify p protocolNumber u =
     (case Classify p DOWNLINK protocolNumber (pu_tftClassifier u) of
        None \<Rightarrow> None
      | Some (teid, c) \<Rightarrow> Some (teid, u\<lparr>pu_tftClassifier := c\<rparr>))"

definition pu_SetSgwAddr :: "ipv4 \<Rightarrow> pgw_ue \<Rightarrow> pgw_ue" where
  "pu_SetSgwAddr a u = u\<lparr>pu_sgwAddr := a\<rparr>"

text \<open>What a list of bearers adds to the context of a UE that has room for their templates.\<close>

definition pu_put :: "bearer_context \<Rightarrow> pgw_ue \<Rightarrow> pgw_ue" where
  "pu_put b u =
     u\<lparr>pu_teidByBearerId := (pu_teidByBearerId u)(bc_epsBearerId b \<mapsto> ft_teid (bc_fteid b)),
       pu_tftClassifier := classifier_put (bc_tft b) (ft_teid (bc_fteid b)) (pu_tftClassifier u)\<rparr>"

section \<open>The application\<close>

record pgw =
  pg_s5Addr :: ipv4
  pg_sgwS5Addr :: ipv4
  pg_store :: "pgw_ue list"
  pg_ueInfoByAddr :: "ipv4 \<Rightarrow> nat option"
  pg_ueInfoByAddr6 :: "ipv6 \<Rightarrow> nat option"
  pg_ueInfoByImsi :: "u64 \<Rightarrow> nat option"

definition pgw_init :: "ipv4 \<Rightarrow> pgw" where
  "pgw_init a = \<lparr>pg_s5Addr = a, pg_sgwS5Addr = Ipv4Address_UNINITIALIZED, pg_store = [],
     pg_ueInfoByAddr = (\<lambda>_. None), pg_ueInfoByAddr6 = (\<lambda>_. None),
     pg_ueInfoByImsi = (\<lambda>_. None)\<rparr>"

definition pg_deref :: "pgw \<Rightarrow> nat \<Rightarrow> pgw_ue option" where
  "pg_deref s r = (if r < length (pg_store s) then Some (pg_store s ! r) else None)"

definition pg_set :: "nat \<Rightarrow> pgw_ue \<Rightarrow> pgw \<Rightarrow> pgw" where
  "pg_set r u s = s\<lparr>pg_store := (pg_store s)[r := u]\<rparr>"

text \<open>What the application does besides changing its state.\<close>

datatype pgw_action = PgwSend datagram | TunReceive bytes u16

definition pgw_AddSgw :: "ipv4 \<Rightarrow> pgw \<Rightarrow> pgw" where
  "pgw_AddSgw a s = s\<lparr>pg_sgwS5Addr := a\<rparr>"

definition pgw_AddUe :: "u64 \<Rightarrow> pgw \<Rightarrow> pgw" where
  "pgw_AddUe imsi s =
     s\<lparr>pg_store := pg_store s @ [pgw_ue_init],
       pg_ueInfoByImsi := (pg_ueInfoByImsi s)(imsi \<mapsto> length (pg_store s))\<rparr>"

definition pgw_SetUeAddress :: "u64 \<Rightarrow> ipv4 \<Rightarrow> pgw \<Rightarrow> pgw option" where
  "pgw_SetUeAddress imsi a s = do {
     r \<leftarrow> pg_ueInfoByImsi s imsi;
     u \<leftarrow> pg_deref s r;
     Some ((pg_set r (u\<lparr>pu_ueAddr := a\<rparr>) s)
             \<lparr>pg_ueInfoByAddr := (pg_ueInfoByAddr s)(a \<mapsto> r)\<rparr>) }"

definition pgw_SetUeAddress6 :: "u64 \<Rightarrow> ipv6 \<Rightarrow> pgw \<Rightarrow> pgw option" where
  "pgw_SetUeAddress6 imsi a s = do {
     r \<leftarrow> pg_ueInfoByImsi s imsi;
     u \<leftarrow> pg_deref s r;
     Some ((pg_set r (u\<lparr>pu_ueAddr6 := a\<rparr>) s)
             \<lparr>pg_ueInfoByAddr6 := (pg_ueInfoByAddr6 s)(a \<mapsto> r)\<rparr>) }"

section \<open>User plane\<close>

definition pgw_SendToS5uSocket :: "bytes \<Rightarrow> ipv4 \<Rightarrow> u32 \<Rightarrow> pgw_action option" where
  "pgw_SendToS5uSocket p sgwAddr teid = map_option PgwSend (send_gtpu S5u sgwAddr teid p)"

text \<open>A packet for the UE that r refers to: classify it and send it into the tunnel.\<close>

definition pgw_downlink :: "bytes \<Rightarrow> u16 \<Rightarrow> nat \<Rightarrow> pgw \<Rightarrow> (pgw \<times> pgw_action list) option" where
  "pgw_downlink p protocolNumber r s = do {
     u \<leftarrow> pg_deref s r;
     (teid, u') \<leftarrow> pu_Classify p protocolNumber u;
     let s' = pg_set r u' s;
     if teid = 0 then Some (s', [])
     else do {
       a \<leftarrow> pgw_SendToS5uSocket p (pu_sgwAddr u) teid;
       Some (s', [a]) } }"

definition pgw_RecvFromTunDevice ::
  "bytes \<Rightarrow> u16 \<Rightarrow> pgw \<Rightarrow> (pgw \<times> pgw_action list) option" where
  "pgw_RecvFromTunDevice p protocolNumber s =
     (if protocolNumber = IPV4_PROT then
        (case PeekHeader ipv4_Deserialize p of
           None \<Rightarrow> None
         | Some h \<Rightarrow>
             (case pg_ueInfoByAddr s (ip_destination h) of
                None \<Rightarrow> Some (s, [])
              | Some r \<Rightarrow> pgw_downlink p protocolNumber r s))
      else if protocolNumber = IPV6_PROT then
        (case PeekHeader ipv6_Deserialize p of
           None \<Rightarrow> None
         | Some h \<Rightarrow>
             (case pg_ueInfoByAddr6 s (ip6_destination h) of
                None \<Rightarrow> Some (s, [])
              | Some r \<Rightarrow> pgw_downlink p protocolNumber r s))
      else None)"

definition pgw_SendToTunDevice :: "bytes \<Rightarrow> u32 \<Rightarrow> pgw_action list option" where
  "pgw_SendToTunDevice p teid =
     (case ip_version p of
        None \<Rightarrow> None
      | Some v \<Rightarrow> if v = 4 then Some [TunReceive p IPV4_PROT]
                  else if v = 6 then Some [TunReceive p IPV6_PROT]
                  else None)"

definition pgw_RecvFromS5uSocket :: "bytes \<Rightarrow> pgw \<Rightarrow> (pgw \<times> pgw_action list) option" where
  "pgw_RecvFromS5uSocket q s = do {
     (teid, p) \<leftarrow> gtpu_decap q;
     acts \<leftarrow> pgw_SendToTunDevice p teid;
     Some (s, acts) }"

section \<open>Control plane\<close>

text \<open>The loop over the bearer contexts to be created.\<close>

fun pu_AddBearers :: "bearer_context list \<Rightarrow> pgw_ue \<Rightarrow> pgw_ue option" where
  "pu_AddBearers [] u = Some u"
| "pu_AddBearers (b # bs) u =
     (case pu_AddBearer (bc_epsBearerId b) (ft_teid (bc_fteid b)) (bc_tft b) u of
        None \<Rightarrow> None
      | Some u' \<Rightarrow> pu_AddBearers bs u')"

lemma pu_AddBearers_put: "pu_AddBearers bs u = Some u' \<Longrightarrow> u' = fold pu_put bs u"
  by (induction bs u rule: pu_AddBearers.induct)
     (auto simp: pu_AddBearer_def classifier_Add_def pu_put_def Let_def split: option.splits if_splits)

lemma pu_AddBearers_Some:
  "length (m_tftMap (pu_tftClassifier u)) + length bs \<le> 16 \<Longrightarrow>
     pu_AddBearers bs u = Some (fold pu_put bs u)"
proof (induction bs u rule: pu_AddBearers.induct)
  case (2 b bs u)
  have "length (m_tftMap (classifier_put (bc_tft b) (ft_teid (bc_fteid b)) (pu_tftClassifier u))) \<le>
      Suc (length (m_tftMap (pu_tftClassifier u)))"
    by (simp add: classifier_put_def length_smap_put_le)
  then show ?case
    using 2 by (simp add: pu_AddBearer_def classifier_Add_def pu_put_def Let_def)
qed simp

text \<open>
  The templates of earlier sessions stay: a UE for which the PGW holds 16 templates cannot attach
  again, because the new TEID makes a 17th.
\<close>

lemma pu_AddBearers_full:
  assumes "length (m_tftMap (pu_tftClassifier u)) = 16"
    and "map_of (m_tftMap (pu_tftClassifier u)) (ft_teid (bc_fteid b)) = None"
  shows "pu_AddBearers (b # bs) u = None"
  using assms
  by (simp add: pu_AddBearer_def classifier_Add_def classifier_put_def length_smap_put_new)

definition pgw_context_out :: "ipv4 \<Rightarrow> bearer_context \<Rightarrow> bearer_context" where
  "pgw_context_out a b =
     b\<lparr>bc_fteid := \<lparr>ft_interfaceType = S5_PGW_GTPU, ft_addr = a, ft_teid = ft_teid (bc_fteid b)\<rparr>\<rparr>"

definition pgw_DoRecvCreateSessionRequest ::
  "bytes \<Rightarrow> pgw \<Rightarrow> (pgw \<times> pgw_action list) option" where
  "pgw_DoRecvCreateSessionRequest p s = do {
     (msg, _) \<leftarrow> RemoveHeader csq_Deserialize p;
     r \<leftarrow> pg_ueInfoByImsi s (csq_imsi msg);
     u \<leftarrow> pg_deref s r;
     let u = pu_SetSgwAddr (pg_sgwS5Addr s) u;
     let sgwS5c = csq_senderCpFteid msg;
     _ \<leftarrow> asserted (ft_interfaceType sgwS5c = S5_SGW_GTPC);
     let pgwS5c = \<lparr>ft_interfaceType = S5_PGW_GTPC, ft_addr = pg_s5Addr s, ft_teid = ft_teid sgwS5c\<rparr>;
     u \<leftarrow> pu_AddBearers (csq_bearerContexts msg) u;
     let out = (csp_new pgwS5c)\<lparr>csp_cause := REQUEST_ACCEPTED,
           csp_bearerContexts := map (pgw_context_out (pg_s5Addr s)) (csq_bearerContexts msg)\<rparr>;
     let out = out\<lparr>csp_header :=
           gtpc_finish (ft_teid sgwS5c) (csp_GetMessageSize out) (csp_header out)\<rparr>;
     q \<leftarrow> gtpc_packet csp_GetSerializedSize csp_Serialize out;
     Some (pg_set r u s, [PgwSend (send_gtpc S5c (ft_addr sgwS5c) q)]) }"

text \<open>The bearer contexts of the request are only logged.\<close>

definition pgw_DoRecvModifyBearerRequest ::
  "bytes \<Rightarrow> pgw \<Rightarrow> (pgw \<times> pgw_action list) option" where
  "pgw_DoRecvModifyBearerRequest p s = do {
     (msg, _) \<leftarrow> RemoveHeader mbq_Deserialize p;
     r \<leftarrow> pg_ueInfoByImsi s (mbq_imsi msg);
     u \<leftarrow> pg_deref s r;
     let out = mbp_new\<lparr>mbp_cause := REQUEST_ACCEPTED\<rparr>;
     let out = out\<lparr>mbp_header :=
           gtpc_finish (ucast (mbq_imsi msg)) (mbp_GetMessageSize out) (mbp_header out)\<rparr>;
     q \<leftarrow> gtpc_packet mbp_GetSerializedSize mbp_Serialize out;
     Some (pg_set r (pu_SetSgwAddr (pg_sgwS5Addr s) u) s,
           [PgwSend (send_gtpc S5c (pg_sgwS5Addr s) q)]) }"

definition pgw_DoRecvDeleteBearerCommand ::
  "bytes \<Rightarrow> pgw \<Rightarrow> (pgw \<times> pgw_action list) option" where
  "pgw_DoRecvDeleteBearerCommand p s = do {
     (msg, _) \<leftarrow> RemoveHeader dbc_Deserialize p;
     let out = dbq_new\<lparr>dbq_epsBearerIds := dbc_bearerContexts msg\<rparr>;
     let out = out\<lparr>dbq_header :=
           gtpc_finish (gh_teid (dbc_header msg)) (dbq_GetMessageSize out) (dbq_header out)\<rparr>;
     q \<leftarrow> gtpc_packet dbq_GetSerializedSize dbq_Serialize out;
     Some (s, [PgwSend (send_gtpc S5c (pg_sgwS5Addr s) q)]) }"

fun pu_RemoveBearers :: "u8 list \<Rightarrow> pgw_ue \<Rightarrow> pgw_ue option" where
  "pu_RemoveBearers [] u = Some u"
| "pu_RemoveBearers (e # es) u =
     (case pu_RemoveBearer e u of None \<Rightarrow> None | Some u' \<Rightarrow> pu_RemoveBearers es u')"

text \<open>The TEID of the header is taken for the IMSI.\<close>

definition pgw_DoRecvDeleteBearerResponse ::
  "bytes \<Rightarrow> pgw \<Rightarrow> (pgw \<times> pgw_action list) option" where
  "pgw_DoRecvDeleteBearerResponse p s = do {
     (msg, _) \<leftarrow> RemoveHeader dbp_Deserialize p;
     r \<leftarrow> pg_ueInfoByImsi s (ucast (gh_teid (dbp_header msg)));
     u \<leftarrow> pg_deref s r;
     u' \<leftarrow> pu_RemoveBearers (dbp_epsBearerIds msg) u;
     Some (pg_set r u' s, []) }"

definition pgw_RecvFromS5cSocket :: "bytes \<Rightarrow> pgw \<Rightarrow> (pgw \<times> pgw_action list) option" where
  "pgw_RecvFromS5cSocket p s =
     (case gtpc_type p of
        None \<Rightarrow> None
      | Some t \<Rightarrow>
          if t = MSG_CreateSessionRequest then pgw_DoRecvCreateSessionRequest p s
          else if t = MSG_ModifyBearerRequest then pgw_DoRecvModifyBearerRequest p s
          else if t = MSG_DeleteBearerCommand then pgw_DoRecvDeleteBearerCommand p s
          else if t = MSG_DeleteBearerResponse then pgw_DoRecvDeleteBearerResponse p s
          else None)"

end
