(* ===== verification/EpcSgw.thy ===== *)
theory EpcSgw
  imports EpcNet
begin

text \<open>
  \<^verbatim>\<open>EpcSgwApplication\<close> of \<^verbatim>\<open>src/lte/model/epc-sgw-application.cc\<close>: the serving gateway. It
  gives every bearer a TEID, which both tunnels of the bearer use, and remembers the eNB behind
  each TEID.
\<close>

record sgw_enb =
  se_enbAddr :: ipv4
  se_sgwAddr :: ipv4

record sgw =
  sg_s5Addr :: ipv4
  sg_mmeS11Addr :: ipv4
  sg_pgwAddr :: ipv4
  sg_enbInfoByCellId :: "u16 \<Rightarrow> sgw_enb option"
  sg_mmeS11FteidBySgwS5cTeid :: "u32 \<Rightarrow> fteid option"
  sg_enbByTeid :: "u32 \<Rightarrow> ipv4 option"
  sg_teidCount :: u32

definition sgw_init :: "ipv4 \<Rightarrow> sgw" where
  "sgw_init a = \<lparr>sg_s5Addr = a, sg_mmeS11Addr = Ipv4Address_UNINITIALIZED,
     sg_pgwAddr = Ipv4Address_UNINITIALIZED, sg_enbInfoByCellId = (\<lambda>_. None),
     sg_mmeS11FteidBySgwS5cTeid = (\<lambda>_. None), sg_enbByTeid = (\<lambda>_. None), sg_teidCount = 0\<rparr>"

definition sgw_AddMme :: "ipv4 \<Rightarrow> sgw \<Rightarrow> sgw" where
  "sgw_AddMme a s = s\<lparr>sg_mmeS11Addr := a\<rparr>"

definition sgw_AddPgw :: "ipv4 \<Rightarrow> sgw \<Rightarrow> sgw" where
  "sgw_AddPgw a s = s\<lparr>sg_pgwAddr := a\<rparr>"

definition sgw_AddEnb :: "u16 \<Rightarrow> ipv4 \<Rightarrow> ipv4 \<Rightarrow> sgw \<Rightarrow> sgw" where
  "sgw_AddEnb cellId enbAddr sgwAddr s =
     s\<lparr>sg_enbInfoByCellId :=
         (sg_enbInfoByCellId s)(cellId \<mapsto> \<lparr>se_enbAddr = enbAddr, se_sgwAddr = sgwAddr\<rparr>)\<rparr>"

section \<open>User plane\<close>

text \<open>\<^verbatim>\<open>operator[]\<close> of the map creates an entry with the default address for an unknown TEID.\<close>

definition sgw_RecvFromS5uSocket :: "bytes \<Rightarrow> sgw \<Rightarrow> (sgw \<times> datagram list) option" where
  "sgw_RecvFromS5uSocket q s = do {
     (teid, p) \<leftarrow> gtpu_decap q;
     let (enbAddr, s') =
       (case sg_enbByTeid s teid of
          Some a \<Rightarrow> (a, s)
        | None \<Rightarrow> (Ipv4Address_UNINITIALIZED,
                   s\<lparr>sg_enbByTeid := (sg_enbByTeid s)(teid \<mapsto> Ipv4Address_UNINITIALIZED)\<rparr>));
     d \<leftarrow> send_gtpu S1u enbAddr teid p;
     Some (s', [d]) }"

definition sgw_RecvFromS1uSocket :: "bytes \<Rightarrow> sgw \<Rightarrow> (sgw \<times> datagram list) option" where
  "sgw_RecvFromS1uSocket q s = do {
     (teid, p) \<leftarrow> gtpu_decap q;
     d \<leftarrow> send_gtpu S5u (sg_pgwAddr s) teid p;
     Some (s, [d]) }"

section \<open>Messages from the MME\<close>

text \<open>The loop over the bearer contexts: a fresh TEID each, until the counter is exhausted.\<close>

fun sgw_create_bearers ::
  "sgw_enb \<Rightarrow> bearer_context list \<Rightarrow> sgw \<Rightarrow> (bearer_context list \<times> sgw) option" where
  "sgw_create_bearers e [] s = Some ([], s)"
| "sgw_create_bearers e (b # bs) s =
     (if sg_teidCount s = 0xFFFFFFFF then None
      else (let teid = sg_teidCount s + 1;
                s' = s\<lparr>sg_teidCount := teid,
                       sg_enbByTeid := (sg_enbByTeid s)(teid \<mapsto> se_enbAddr e)\<rparr>;
                b' = b\<lparr>bc_fteid := \<lparr>ft_interfaceType = S5_SGW_GTPU, ft_addr = se_sgwAddr e,
                                   ft_teid = teid\<rparr>\<rparr>
            in map_option (\<lambda>(out, s''). (b' # out, s'')) (sgw_create_bearers e bs s')))"

text \<open>The cell identity is truncated to 16 bits, the IMSI to 32 bits for the S5-C TEID.\<close>

definition sgw_DoRecvCreateSessionRequest :: "bytes \<Rightarrow> sgw \<Rightarrow> (sgw \<times> datagram list) option" where
  "sgw_DoRecvCreateSessionRequest p s = do {
     (msg, _) \<leftarrow> RemoveHeader csq_Deserialize p;
     let imsi = csq_imsi msg;
     let cellId = (ucast (csq_uliEcgi msg) :: u16);
     e \<leftarrow> sg_enbInfoByCellId s cellId;
     _ \<leftarrow> asserted (ft_interfaceType (csq_senderCpFteid msg) = S11_MME_GTPC);
     let sgwS5c = \<lparr>ft_interfaceType = S5_SGW_GTPC, ft_addr = sg_s5Addr s, ft_teid = ucast imsi\<rparr>;
     let s = s\<lparr>sg_mmeS11FteidBySgwS5cTeid :=
           (sg_mmeS11FteidBySgwS5cTeid s)(ft_teid sgwS5c \<mapsto> csq_senderCpFteid msg)\<rparr>;
     (ctxs, s) \<leftarrow> sgw_create_bearers e (csq_bearerContexts msg) s;
     let out = (csq_new sgwS5c)\<lparr>csq_imsi := imsi, csq_uliEcgi := ucast cellId,
           csq_bearerContexts := ctxs\<rparr>;
     let out = out\<lparr>csq_header := gtpc_finish 0 (csq_GetMessageSize out) (csq_header out)\<rparr>;
     q \<leftarrow> gtpc_packet csq_GetSerializedSize csq_Serialize out;
     Some (s, [send_gtpc S5c (sg_pgwAddr s) q]) }"

text \<open>
  A TEID is redirected to the eNB address in the message. The list of contexts for the PGW is
  built and not put into the message.
\<close>

fun sgw_modify_bearers :: "bearer_modify list \<Rightarrow> sgw \<Rightarrow> sgw option" where
  "sgw_modify_bearers [] s = Some s"
| "sgw_modify_bearers (b # bs) s =
     (if ft_interfaceType (bm_fteid b) = S1U_ENB_GTPU then
        (let teid = ft_teid (bm_fteid b) in
         case sg_enbByTeid s teid of
           None \<Rightarrow> None
         | Some _ \<Rightarrow>
             sgw_modify_bearers bs
               (s\<lparr>sg_enbByTeid := (sg_enbByTeid s)(teid \<mapsto> ft_addr (bm_fteid b))\<rparr>))
      else None)"

definition sgw_DoRecvModifyBearerRequest :: "bytes \<Rightarrow> sgw \<Rightarrow> (sgw \<times> datagram list) option" where
  "sgw_DoRecvModifyBearerRequest p s = do {
     (msg, _) \<leftarrow> RemoveHeader mbq_Deserialize p;
     let imsi = mbq_imsi msg;
     let cellId = (ucast (mbq_uliEcgi msg) :: u16);
     _ \<leftarrow> sg_enbInfoByCellId s cellId;
     s \<leftarrow> sgw_modify_bearers (mbq_bearerContexts msg) s;
     let out = mbq_new\<lparr>mbq_imsi := imsi, mbq_uliEcgi := ucast cellId\<rparr>;
     let out = out\<lparr>mbq_header :=
           gtpc_finish (ucast imsi) (mbq_GetMessageSize out) (mbq_header out)\<rparr>;
     q \<leftarrow> gtpc_packet mbq_GetSerializedSize mbq_Serialize out;
     Some (s, [send_gtpc S5c (sg_pgwAddr s) q]) }"

definition sgw_DoRecvDeleteBearerCommand :: "bytes \<Rightarrow> sgw \<Rightarrow> (sgw \<times> datagram list) option" where
  "sgw_DoRecvDeleteBearerCommand p s = do {
     (msg, _) \<leftarrow> RemoveHeader dbc_Deserialize p;
     let out = dbc_new\<lparr>dbc_bearerContexts := dbc_bearerContexts msg\<rparr>;
     let out = out\<lparr>dbc_header :=
           gtpc_finish (gh_teid (dbc_header msg)) (dbc_GetMessageSize out) (dbc_header out)\<rparr>;
     q \<leftarrow> gtpc_packet dbc_GetSerializedSize dbc_Serialize out;
     Some (s, [send_gtpc S5c (sg_pgwAddr s) q]) }"

text \<open>\<open>c\<close> is the indeterminate cause of the new message.\<close>

definition sgw_DoRecvDeleteBearerResponse ::
  "u8 \<Rightarrow> bytes \<Rightarrow> sgw \<Rightarrow> (sgw \<times> datagram list) option" where
  "sgw_DoRecvDeleteBearerResponse c p s = do {
     (msg, _) \<leftarrow> RemoveHeader dbp_Deserialize p;
     let out = (dbp_new c)\<lparr>dbp_epsBearerIds := dbp_epsBearerIds msg\<rparr>;
     let out = out\<lparr>dbp_header :=
           gtpc_finish (gh_teid (dbp_header msg)) (dbp_GetMessageSize out) (dbp_header out)\<rparr>;
     q \<leftarrow> gtpc_packet dbp_GetSerializedSize dbp_Serialize out;
     Some (s, [send_gtpc S5c (sg_pgwAddr s) q]) }"

section \<open>Messages from the PGW\<close>

text \<open>
  The contexts with the S5 address of the SGW are computed, and the received ones are sent on.
  For an unknown TEID \<^verbatim>\<open>operator[]\<close> inserts a zero F-TEID with the default address. \<open>g\<close> is the
  indeterminate sender F-TEID of the new message.
\<close>

definition fteid_zero :: fteid where
  "fteid_zero = \<lparr>ft_interfaceType = 0, ft_addr = Ipv4Address_UNINITIALIZED, ft_teid = 0\<rparr>"

definition sgw_DoRecvCreateSessionResponse ::
  "fteid \<Rightarrow> bytes \<Rightarrow> sgw \<Rightarrow> (sgw \<times> datagram list) option" where
  "sgw_DoRecvCreateSessionResponse g p s = do {
     (msg, _) \<leftarrow> RemoveHeader csp_Deserialize p;
     _ \<leftarrow> asserted (ft_interfaceType (csp_senderCpFteid msg) = S5_PGW_GTPC);
     let teid = gh_teid (csp_header msg);
     let (mmeS11, s) =
       (case sg_mmeS11FteidBySgwS5cTeid s teid of
          Some f \<Rightarrow> (f, s)
        | None \<Rightarrow> (fteid_zero,
            s\<lparr>sg_mmeS11FteidBySgwS5cTeid := (sg_mmeS11FteidBySgwS5cTeid s)(teid \<mapsto> fteid_zero)\<rparr>));
     let out = (csp_new g)\<lparr>csp_cause := REQUEST_ACCEPTED,
           csp_bearerContexts := csp_bearerContexts msg\<rparr>;
     let out = out\<lparr>csp_header :=
           gtpc_finish (ft_teid mmeS11) (csp_GetMessageSize out) (csp_header out)\<rparr>;
     q \<leftarrow> gtpc_packet csp_GetSerializedSize csp_Serialize out;
     Some (s, [send_gtpc S11 (ft_addr mmeS11) q]) }"

definition sgw_DoRecvModifyBearerResponse :: "bytes \<Rightarrow> sgw \<Rightarrow> (sgw \<times> datagram list) option" where
  "sgw_DoRecvModifyBearerResponse p s = do {
     (msg, _) \<leftarrow> RemoveHeader mbp_Deserialize p;
     let out = mbp_new\<lparr>mbp_cause := REQUEST_ACCEPTED\<rparr>;
     let out = out\<lparr>mbp_header :=
           gtpc_finish (gh_teid (mbp_header msg)) (mbp_GetMessageSize out) (mbp_header out)\<rparr>;
     q \<leftarrow> gtpc_packet mbp_GetSerializedSize mbp_Serialize out;
     Some (s, [send_gtpc S11 (sg_mmeS11Addr s) q]) }"

definition sgw_DoRecvDeleteBearerRequest :: "bytes \<Rightarrow> sgw \<Rightarrow> (sgw \<times> datagram list) option" where
  "sgw_DoRecvDeleteBearerRequest p s = do {
     (msg, _) \<leftarrow> RemoveHeader dbq_Deserialize p;
     let out = dbq_new\<lparr>dbq_epsBearerIds := dbq_epsBearerIds msg\<rparr>;
     let out = out\<lparr>dbq_header :=
           gtpc_finish (gh_teid (dbq_header msg)) (dbq_GetMessageSize out) (dbq_header out)\<rparr>;
     q \<leftarrow> gtpc_packet dbq_GetSerializedSize dbq_Serialize out;
     Some (s, [send_gtpc S11 (sg_mmeS11Addr s) q]) }"

section \<open>Dispatch\<close>

definition sgw_RecvFromS11Socket :: "u8 \<Rightarrow> bytes \<Rightarrow> sgw \<Rightarrow> (sgw \<times> datagram list) option" where
  "sgw_RecvFromS11Socket c p s =
     (case gtpc_type p of
        None \<Rightarrow> None
      | Some t \<Rightarrow>
          if t = MSG_CreateSessionRequest then sgw_DoRecvCreateSessionRequest p s
          else if t = MSG_ModifyBearerRequest then sgw_DoRecvModifyBearerRequest p s
          else if t = MSG_DeleteBearerCommand then sgw_DoRecvDeleteBearerCommand p s
          else if t = MSG_DeleteBearerResponse then sgw_DoRecvDeleteBearerResponse c p s
          else None)"

definition sgw_RecvFromS5cSocket :: "fteid \<Rightarrow> bytes \<Rightarrow> sgw \<Rightarrow> (sgw \<times> datagram list) option" where
  "sgw_RecvFromS5cSocket g p s =
     (case gtpc_type p of
        None \<Rightarrow> None
      | Some t \<Rightarrow>
          if t = MSG_CreateSessionResponse then sgw_DoRecvCreateSessionResponse g p s
          else if t = MSG_ModifyBearerResponse then sgw_DoRecvModifyBearerResponse p s
          else if t = MSG_DeleteBearerRequest then sgw_DoRecvDeleteBearerRequest p s
          else None)"

end
