(* ===== verification/EpcMme.thy ===== *)
theory EpcMme
  imports EpcNet
begin

text \<open>
  \<^verbatim>\<open>EpcMmeApplication\<close> of \<^verbatim>\<open>src/lte/model/epc-mme-application.cc\<close>: the mobility management
  entity. It holds the bearers of each UE, starts the session of a UE, switches its path and
  releases bearers.
\<close>

record mme_bearer =
  mb_tft :: tft
  mb_bearer :: eps_bearer
  mb_bearerId :: u8

text \<open>\<^verbatim>\<open>Create<UeInfo>()\<close> zero-initialises the members that \<^verbatim>\<open>AddUe\<close> does not set.\<close>

record mme_ue =
  mu_imsi :: u64
  mu_mmeUeS1Id :: u64
  mu_enbUeS1Id :: u16
  mu_cellId :: u16
  mu_bearerCounter :: u16
  mu_bearersToBeActivated :: "mme_bearer list"

text \<open>The S1-AP access point of an eNB is a reference to its application.\<close>

record mme_enb =
  me_gci :: u16
  me_s1uAddr :: ipv4
  me_s1apSapEnb :: nat

record mme =
  mm_ueInfo :: "u64 \<Rightarrow> mme_ue option"
  mm_enbInfo :: "u16 \<Rightarrow> mme_enb option"
  mm_mmeS11Addr :: ipv4
  mm_sgwS11Addr :: ipv4

datatype mme_action = MmeSend datagram | CallEnb nat enb_call

definition mme_init :: mme where
  "mme_init = \<lparr>mm_ueInfo = (\<lambda>_. None), mm_enbInfo = (\<lambda>_. None),
     mm_mmeS11Addr = Ipv4Address_UNINITIALIZED, mm_sgwS11Addr = Ipv4Address_UNINITIALIZED\<rparr>"

definition mm_set :: "u64 \<Rightarrow> mme_ue \<Rightarrow> mme \<Rightarrow> mme" where
  "mm_set imsi u s = s\<lparr>mm_ueInfo := (mm_ueInfo s)(imsi \<mapsto> u)\<rparr>"

definition mme_AddSgw :: "ipv4 \<Rightarrow> ipv4 \<Rightarrow> mme \<Rightarrow> mme" where
  "mme_AddSgw sgwS11Addr mmeS11Addr s =
     s\<lparr>mm_sgwS11Addr := sgwS11Addr, mm_mmeS11Addr := mmeS11Addr\<rparr>"

definition mme_AddEnb :: "u16 \<Rightarrow> ipv4 \<Rightarrow> nat \<Rightarrow> mme \<Rightarrow> mme" where
  "mme_AddEnb gci a sap s =
     s\<lparr>mm_enbInfo :=
         (mm_enbInfo s)(gci \<mapsto> \<lparr>me_gci = gci, me_s1uAddr = a, me_s1apSapEnb = sap\<rparr>)\<rparr>"

definition mme_AddUe :: "u64 \<Rightarrow> mme \<Rightarrow> mme" where
  "mme_AddUe imsi s =
     mm_set imsi \<lparr>mu_imsi = imsi, mu_mmeUeS1Id = imsi, mu_enbUeS1Id = 0, mu_cellId = 0,
                  mu_bearerCounter = 0, mu_bearersToBeActivated = []\<rparr> s"

text \<open>
  The identity of the new bearer is the low byte of the 16-bit counter; a UE with 11 bearers gets
  no more.
\<close>

definition mme_AddBearer :: "u64 \<Rightarrow> tft \<Rightarrow> eps_bearer \<Rightarrow> mme \<Rightarrow> (u8 \<times> mme) option" where
  "mme_AddBearer imsi t q s = do {
     u \<leftarrow> mm_ueInfo s imsi;
     if mu_bearerCounter u < 11 then do {
       let n = mu_bearerCounter u + 1;
       let b = \<lparr>mb_tft = t, mb_bearer = q, mb_bearerId = ucast n\<rparr>;
       Some (mb_bearerId b,
         mm_set imsi (u\<lparr>mu_bearerCounter := n,
                        mu_bearersToBeActivated := mu_bearersToBeActivated u @ [b]\<rparr>) s) }
     else None }"

section \<open>Calls of an eNB\<close>

text \<open>\<open>g\<close> is the indeterminate F-TEID of the bearer contexts that the MME makes.\<close>

definition mme_context :: "fteid \<Rightarrow> mme_bearer \<Rightarrow> bearer_context" where
  "mme_context g b = \<lparr>bc_fteid = g, bc_epsBearerId = mb_bearerId b, bc_tft = mb_tft b,
     bc_bearerLevelQos = mb_bearer b\<rparr>"

definition mme_DoInitialUeMessage ::
  "fteid \<Rightarrow> u64 \<Rightarrow> u16 \<Rightarrow> u64 \<Rightarrow> u16 \<Rightarrow> mme \<Rightarrow> (mme \<times> mme_action list) option" where
  "mme_DoInitialUeMessage g mmeUeS1Id enbUeS1Id imsi gci s = do {
     u \<leftarrow> mm_ueInfo s imsi;
     let s = mm_set imsi (u\<lparr>mu_cellId := gci\<rparr>) s;
     let mmeS11 = \<lparr>ft_interfaceType = S11_MME_GTPC, ft_addr = mm_mmeS11Addr s,
                   ft_teid = ucast imsi\<rparr>;
     let msg = (csq_new mmeS11)\<lparr>csq_imsi := imsi, csq_uliEcgi := ucast gci,
           csq_bearerContexts := map (mme_context g) (mu_bearersToBeActivated u)\<rparr>;
     let msg = msg\<lparr>csq_header := gtpc_finish 0 (csq_GetMessageSize msg) (csq_header msg)\<rparr>;
     q \<leftarrow> gtpc_packet csq_GetSerializedSize csq_Serialize msg;
     Some (s, [MmeSend (send_gtpc S11 (mm_sgwS11Addr s) q)]) }"

text \<open>The identity of an E-RAB is truncated to the byte of the bearer context.\<close>

definition mme_modify_context :: "erab_switched \<Rightarrow> bearer_modify" where
  "mme_modify_context e =
     \<lparr>bm_fteid = \<lparr>ft_interfaceType = S1U_ENB_GTPU, ft_addr = ew_enbTransportLayerAddress e,
                  ft_teid = ew_enbTeid e\<rparr>,
      bm_epsBearerId = ucast (ew_erabId e)\<rparr>"

definition mme_DoPathSwitchRequest ::
  "u64 \<Rightarrow> u64 \<Rightarrow> u16 \<Rightarrow> erab_switched list \<Rightarrow> mme \<Rightarrow> (mme \<times> mme_action list) option" where
  "mme_DoPathSwitchRequest enbUeS1Id mmeUeS1Id gci erabs s = do {
     let imsi = mmeUeS1Id;
     u \<leftarrow> mm_ueInfo s imsi;
     let s = mm_set imsi (u\<lparr>mu_cellId := gci, mu_enbUeS1Id := ucast enbUeS1Id\<rparr>) s;
     let msg = mbq_new\<lparr>mbq_imsi := imsi, mbq_uliEcgi := ucast gci,
           mbq_bearerContexts := map mme_modify_context erabs\<rparr>;
     let msg = msg\<lparr>mbq_header :=
           gtpc_finish (ucast imsi) (mbq_GetMessageSize msg) (mbq_header msg)\<rparr>;
     q \<leftarrow> gtpc_packet mbq_GetSerializedSize mbq_Serialize msg;
     Some (s, [MmeSend (send_gtpc S11 (mm_sgwS11Addr s) q)]) }"

definition mme_DoErabReleaseIndication ::
  "u64 \<Rightarrow> u16 \<Rightarrow> u8 list \<Rightarrow> mme \<Rightarrow> (mme \<times> mme_action list) option" where
  "mme_DoErabReleaseIndication mmeUeS1Id enbUeS1Id erabs s = do {
     let imsi = mmeUeS1Id;
     let msg = dbc_new\<lparr>dbc_bearerContexts := erabs\<rparr>;
     let msg = msg\<lparr>dbc_header :=
           gtpc_finish (ucast imsi) (dbc_GetMessageSize msg) (dbc_header msg)\<rparr>;
     q \<leftarrow> gtpc_packet dbc_GetSerializedSize dbc_Serialize msg;
     Some (s, [MmeSend (send_gtpc S11 (mm_sgwS11Addr s) q)]) }"

definition mme_recv_s1ap :: "fteid \<Rightarrow> mme_call \<Rightarrow> mme \<Rightarrow> (mme \<times> mme_action list) option" where
  "mme_recv_s1ap g c s =
     (case c of
        InitialUeMessage a b imsi gci \<Rightarrow> mme_DoInitialUeMessage g a b imsi gci s
      | PathSwitchRequest a b gci erabs \<Rightarrow> mme_DoPathSwitchRequest a b gci erabs s
      | ErabReleaseIndication a b erabs \<Rightarrow> mme_DoErabReleaseIndication a b erabs s)"

section \<open>Messages from the SGW\<close>

text \<open>Remove the first bearer with the identity, and count one bearer less.\<close>

fun remove_first :: "u8 \<Rightarrow> mme_bearer list \<Rightarrow> mme_bearer list option" where
  "remove_first e [] = None"
| "remove_first e (b # bs) =
     (if mb_bearerId b = e then Some bs else map_option (\<lambda>bs'. b # bs') (remove_first e bs))"

definition mme_RemoveBearer :: "u8 \<Rightarrow> mme_ue \<Rightarrow> mme_ue" where
  "mme_RemoveBearer e u =
     (case remove_first e (mu_bearersToBeActivated u) of
        None \<Rightarrow> u
      | Some bs \<Rightarrow> u\<lparr>mu_bearersToBeActivated := bs, mu_bearerCounter := mu_bearerCounter u - 1\<rparr>)"

definition mme_erab :: "bearer_context \<Rightarrow> erab_setup" where
  "mme_erab b = \<lparr>es_erabId = bc_epsBearerId b, es_qos = bc_bearerLevelQos b,
     es_transportLayerAddress = ft_addr (bc_fteid b), es_sgwTeid = ft_teid (bc_fteid b)\<rparr>"

definition mme_DoRecvCreateSessionResponse ::
  "gtpc_header \<Rightarrow> bytes \<Rightarrow> mme \<Rightarrow> (mme \<times> mme_action list) option" where
  "mme_DoRecvCreateSessionResponse h p s = do {
     u \<leftarrow> mm_ueInfo s (ucast (gh_teid h));
     e \<leftarrow> mm_enbInfo s (mu_cellId u);
     (msg, _) \<leftarrow> RemoveHeader csp_Deserialize p;
     Some (s, [CallEnb (me_s1apSapEnb e)
       (InitialContextSetupRequest (mu_mmeUeS1Id u) (mu_enbUeS1Id u)
         (map mme_erab (csp_bearerContexts msg)))]) }"

definition mme_DoRecvModifyBearerResponse ::
  "gtpc_header \<Rightarrow> bytes \<Rightarrow> mme \<Rightarrow> (mme \<times> mme_action list) option" where
  "mme_DoRecvModifyBearerResponse h p s = do {
     (msg, _) \<leftarrow> RemoveHeader mbp_Deserialize p;
     _ \<leftarrow> asserted (mbp_cause msg = REQUEST_ACCEPTED);
     u \<leftarrow> mm_ueInfo s (ucast (gh_teid h));
     e \<leftarrow> mm_enbInfo s (mu_cellId u);
     Some (s, [CallEnb (me_s1apSapEnb e)
       (PathSwitchRequestAcknowledge (ucast (mu_enbUeS1Id u)) (mu_mmeUeS1Id u) (mu_cellId u))]) }"

text \<open>
  The bearers are removed only while no cell is recorded for the UE. \<open>c\<close> is the indeterminate
  cause of the new message.
\<close>

definition mme_DoRecvDeleteBearerRequest ::
  "u8 \<Rightarrow> gtpc_header \<Rightarrow> bytes \<Rightarrow> mme \<Rightarrow> (mme \<times> mme_action list) option" where
  "mme_DoRecvDeleteBearerRequest c h p s = do {
     let imsi = (ucast (gh_teid h) :: u64);
     u \<leftarrow> mm_ueInfo s imsi;
     (msg, _) \<leftarrow> RemoveHeader dbq_Deserialize p;
     let u' = (if mu_cellId u = 0 then fold mme_RemoveBearer (dbq_epsBearerIds msg) u else u);
     let out = (dbp_new c)\<lparr>dbp_epsBearerIds := dbq_epsBearerIds msg\<rparr>;
     let out = out\<lparr>dbp_header :=
           gtpc_finish (ucast imsi) (dbp_GetMessageSize out) (dbp_header out)\<rparr>;
     q \<leftarrow> gtpc_packet dbp_GetSerializedSize dbp_Serialize out;
     Some (mm_set imsi u' s, [MmeSend (send_gtpc S11 (mm_sgwS11Addr s) q)]) }"

definition mme_RecvFromS11Socket :: "u8 \<Rightarrow> bytes \<Rightarrow> mme \<Rightarrow> (mme \<times> mme_action list) option" where
  "mme_RecvFromS11Socket c p s =
     (case PeekHeader gtpc_Deserialize p of
        None \<Rightarrow> None
      | Some h \<Rightarrow>
          (let t = gh_messageType h in
           if t = MSG_CreateSessionResponse then mme_DoRecvCreateSessionResponse h p s
           else if t = MSG_ModifyBearerResponse then mme_DoRecvModifyBearerResponse h p s
           else if t = MSG_DeleteBearerRequest then mme_DoRecvDeleteBearerRequest c h p s
           else None))"

end
