(* ===== verification/EpcEnb.thy ===== *)
theory EpcEnb
  imports EpcNet
begin

text \<open>
  \<^verbatim>\<open>EpcEnbApplication\<close> of \<^verbatim>\<open>src/lte/model/epc-enb-application.cc\<close>: the core network side of an
  eNB. It relates the radio bearers, pairs of an RNTI and a bearer identity, with TEIDs and moves
  packets between the S1-U tunnel and the sockets of the radio stack.
\<close>

type_synonym flow_id = "u16 \<times> u8"

record enb =
  en_cellId :: u16
  en_enbS1uAddress :: ipv4
  en_sgwS1uAddress :: ipv4
  en_imsiRnti :: "u64 \<Rightarrow> u16 option"
  en_rbidTeid :: "u16 \<Rightarrow> (u8 \<times> u32) list option"
  en_teidRbid :: "u32 \<Rightarrow> flow_id option"

text \<open>A packet for the radio stack carries a tag with the RNTI and the bearer identity.\<close>

datatype enb_action =
    EnbSend datagram
  | CallMme mme_call
  | CallRrc rrc_call
  | LteSend u16 bytes flow_id

definition enb_init :: "u16 \<Rightarrow> enb" where
  "enb_init c = \<lparr>en_cellId = c, en_enbS1uAddress = Ipv4Address_UNINITIALIZED,
     en_sgwS1uAddress = Ipv4Address_UNINITIALIZED, en_imsiRnti = (\<lambda>_. None),
     en_rbidTeid = (\<lambda>_. None), en_teidRbid = (\<lambda>_. None)\<rparr>"

definition enb_AddS1Interface :: "ipv4 \<Rightarrow> ipv4 \<Rightarrow> enb \<Rightarrow> enb" where
  "enb_AddS1Interface enbAddr sgwAddr s =
     s\<lparr>en_enbS1uAddress := enbAddr, en_sgwS1uAddress := sgwAddr\<rparr>"

text \<open>\<^verbatim>\<open>m_rbidTeidMap[rnti][bid] = teid; m_teidRbidMap[teid] = rbid\<close>.\<close>

definition enb_bind :: "u16 \<Rightarrow> u8 \<Rightarrow> u32 \<Rightarrow> enb \<Rightarrow> enb" where
  "enb_bind rnti bid teid s =
     (let m = (case en_rbidTeid s rnti of None \<Rightarrow> [] | Some m \<Rightarrow> m)
      in s\<lparr>en_rbidTeid := (en_rbidTeid s)(rnti \<mapsto> smap_put bid teid m),
           en_teidRbid := (en_teidRbid s)(teid \<mapsto> (rnti, bid))\<rparr>)"

section \<open>Calls of the RRC\<close>

definition enb_DoInitialUeMessage :: "u64 \<Rightarrow> u16 \<Rightarrow> enb \<Rightarrow> enb \<times> enb_action list" where
  "enb_DoInitialUeMessage imsi rnti s =
     (s\<lparr>en_imsiRnti := (en_imsiRnti s)(imsi \<mapsto> rnti)\<rparr>,
      [CallMme (InitialUeMessage imsi rnti imsi (en_cellId s))])"

definition enb_erab_switched :: "ipv4 \<Rightarrow> u8 \<times> u32 \<Rightarrow> erab_switched" where
  "enb_erab_switched a b =
     \<lparr>ew_erabId = ucast (fst b), ew_enbTransportLayerAddress = a, ew_enbTeid = snd b\<rparr>"

definition enb_DoPathSwitchRequest :: "path_switch \<Rightarrow> enb \<Rightarrow> enb \<times> enb_action list" where
  "enb_DoPathSwitchRequest ps s =
     (let imsi = (ucast (ps_mmeUeS1Id ps) :: u64);
          s1 = s\<lparr>en_imsiRnti := (en_imsiRnti s)(imsi \<mapsto> ps_rnti ps)\<rparr>;
          s2 = fold (\<lambda>(bid, teid). enb_bind (ps_rnti ps) bid teid) (ps_bearers ps) s1
      in (s2, [CallMme (PathSwitchRequest (ucast (ps_rnti ps)) (ucast (ps_mmeUeS1Id ps))
                 (ps_cellId ps) (map (enb_erab_switched (en_enbS1uAddress s)) (ps_bearers ps)))]))"

definition enb_DoUeContextRelease :: "u16 \<Rightarrow> enb \<Rightarrow> enb" where
  "enb_DoUeContextRelease rnti s =
     (case en_rbidTeid s rnti of
        None \<Rightarrow> s
      | Some m \<Rightarrow>
          s\<lparr>en_teidRbid := fold (\<lambda>(_, teid) f. f(teid := None)) m (en_teidRbid s),
            en_rbidTeid := (en_rbidTeid s)(rnti := None)\<rparr>)"

definition enb_DoReleaseIndication :: "u64 \<Rightarrow> u16 \<Rightarrow> u8 \<Rightarrow> enb \<Rightarrow> enb \<times> enb_action list" where
  "enb_DoReleaseIndication imsi rnti bid s =
     (s, [CallMme (ErabReleaseIndication imsi rnti [bid])])"

section \<open>Calls of the MME\<close>

fun enb_setup_bearers :: "u16 \<Rightarrow> erab_setup list \<Rightarrow> enb \<Rightarrow> enb \<times> enb_action list" where
  "enb_setup_bearers rnti [] s = (s, [])"
| "enb_setup_bearers rnti (e # es) s =
     (let a = CallRrc (DataRadioBearerSetup rnti (es_qos e) (es_erabId e) (es_sgwTeid e));
          (s', as') = enb_setup_bearers rnti es (enb_bind rnti (es_erabId e) (es_sgwTeid e) s)
      in (s', a # as'))"

definition enb_DoInitialContextSetupRequest ::
  "u64 \<Rightarrow> u16 \<Rightarrow> erab_setup list \<Rightarrow> enb \<Rightarrow> (enb \<times> enb_action list) option" where
  "enb_DoInitialContextSetupRequest mmeUeS1Id enbUeS1Id erabs s = do {
     let imsi = mmeUeS1Id;
     rnti \<leftarrow> en_imsiRnti s imsi;
     let (s', acts) = enb_setup_bearers rnti erabs s;
     Some (s', acts @ [CallRrc (RrcInitialContextSetup rnti)]) }"

definition enb_DoPathSwitchRequestAcknowledge ::
  "u64 \<Rightarrow> u64 \<Rightarrow> u16 \<Rightarrow> enb \<Rightarrow> (enb \<times> enb_action list) option" where
  "enb_DoPathSwitchRequestAcknowledge enbUeS1Id mmeUeS1Id gci s = do {
     let imsi = mmeUeS1Id;
     rnti \<leftarrow> en_imsiRnti s imsi;
     Some (s, [CallRrc (RrcPathSwitchAck rnti)]) }"

definition enb_recv_s1ap :: "enb_call \<Rightarrow> enb \<Rightarrow> (enb \<times> enb_action list) option" where
  "enb_recv_s1ap c s =
     (case c of
        InitialContextSetupRequest a b erabs \<Rightarrow> enb_DoInitialContextSetupRequest a b erabs s
      | PathSwitchRequestAcknowledge a b gci \<Rightarrow> enb_DoPathSwitchRequestAcknowledge a b gci s)"

section \<open>User plane\<close>

definition enb_SendToS1uSocket :: "bytes \<Rightarrow> u32 \<Rightarrow> enb \<Rightarrow> enb_action option" where
  "enb_SendToS1uSocket p teid s =
     map_option EnbSend (send_gtpu S1u (en_sgwS1uAddress s) teid p)"

text \<open>
  Uplink: without a context of the RNTI the packet is discarded; a bearer that the context does
  not hold is only excluded by an assertion.
\<close>

definition enb_RecvFromLteSocket ::
  "bytes \<Rightarrow> flow_id \<Rightarrow> enb \<Rightarrow> (enb \<times> enb_action list) option" where
  "enb_RecvFromLteSocket p tag s =
     (case tag of (rnti, bid) \<Rightarrow>
        (case en_rbidTeid s rnti of
           None \<Rightarrow> Some (s, [])
         | Some m \<Rightarrow>
             (case map_of m bid of
                None \<Rightarrow> None
              | Some teid \<Rightarrow> map_option (\<lambda>a. (s, [a])) (enb_SendToS1uSocket p teid s))))"

definition enb_SendToLteSocket :: "bytes \<Rightarrow> u16 \<Rightarrow> u8 \<Rightarrow> enb_action option" where
  "enb_SendToLteSocket p rnti bid =
     (case ip_version p of
        None \<Rightarrow> None
      | Some v \<Rightarrow> if v = 4 then Some (LteSend IPV4_PROT p (rnti, bid))
                  else if v = 6 then Some (LteSend IPV6_PROT p (rnti, bid))
                  else None)"

definition enb_RecvFromS1uSocket :: "bytes \<Rightarrow> enb \<Rightarrow> (enb \<times> enb_action list) option" where
  "enb_RecvFromS1uSocket q s = do {
     (teid, p) \<leftarrow> gtpu_decap q;
     (case en_teidRbid s teid of
        None \<Rightarrow> Some (s, [])
      | Some (rnti, bid) \<Rightarrow> map_option (\<lambda>a. (s, [a])) (enb_SendToLteSocket p rnti bid)) }"

end
