(* ===== verification/EpcSystem.thy ===== *)
theory EpcSystem
  imports EpcPgw EpcSgw EpcMme EpcEnb
begin

text \<open>
  The core network as a system: one MME, SGW and PGW, any number of eNBs, the datagrams in flight
  between them, and the steps of the environment (the helper that configures the network, the RRC
  of the eNBs, the internet). A datagram in flight may be delivered in any order or be lost.
\<close>

section \<open>Nodes and routing\<close>

datatype node = NMme | NSgw | NPgw | NEnb nat

text \<open>
  Routing is outside of the applications: \<open>net n i a\<close> is the node that receives what \<open>n\<close> sends on
  interface \<open>i\<close> to address \<open>a\<close>. It respects the ends of the interfaces.
\<close>

type_synonym routing = "node \<Rightarrow> interface \<Rightarrow> ipv4 \<Rightarrow> node option"

definition net_ok :: "routing \<Rightarrow> bool" where
  "net_ok net \<longleftrightarrow> (\<forall>a n.
     (net NSgw S5u a = Some n \<longrightarrow> n = NPgw) \<and> (net NPgw S5u a = Some n \<longrightarrow> n = NSgw) \<and>
     (net NSgw S5c a = Some n \<longrightarrow> n = NPgw) \<and> (net NPgw S5c a = Some n \<longrightarrow> n = NSgw) \<and>
     (net NSgw S11 a = Some n \<longrightarrow> n = NMme) \<and> (net NMme S11 a = Some n \<longrightarrow> n = NSgw) \<and>
     (net NSgw S1u a = Some n \<longrightarrow> (\<exists>k. n = NEnb k)) \<and>
     (\<forall>k. net (NEnb k) S1u a = Some n \<longrightarrow> n = NSgw))"

type_synonym flight = "(node \<times> interface \<times> bytes) list"

definition route :: "routing \<Rightarrow> node \<Rightarrow> datagram \<Rightarrow> flight" where
  "route net n d =
     (case d of SendTo i a port p \<Rightarrow>
        (case net n i a of None \<Rightarrow> [] | Some m \<Rightarrow> [(m, i, p)]))"

section \<open>The system\<close>

record epc =
  ep_mme :: mme
  ep_sgw :: sgw
  ep_pgw :: pgw
  ep_enb :: "nat \<Rightarrow> enb option"
  ep_flight :: flight

text \<open>What leaves the core network: packets for the radio stack and the internet, RRC calls.\<close>

datatype epc_out =
    Radio nat u16 bytes flow_id
  | Rrc nat rrc_call
  | Internet bytes u16

definition epc_send :: "routing \<Rightarrow> node \<Rightarrow> datagram list \<Rightarrow> epc \<Rightarrow> epc" where
  "epc_send net n ds s = s\<lparr>ep_flight := ep_flight s @ concat (map (route net n) ds)\<rparr>"

text \<open>
  The effects of an eNB that was called by the MME; it does not call the MME back.
\<close>

fun enb_effects :: "routing \<Rightarrow> nat \<Rightarrow> enb_action list \<Rightarrow> epc \<Rightarrow> (epc \<times> epc_out list) option" where
  "enb_effects net k [] s = Some (s, [])"
| "enb_effects net k (EnbSend d # as) s = enb_effects net k as (epc_send net (NEnb k) [d] s)"
| "enb_effects net k (CallRrc c # as) s =
     map_option (\<lambda>(s', os). (s', Rrc k c # os)) (enb_effects net k as s)"
| "enb_effects net k (LteSend n p f # as) s =
     map_option (\<lambda>(s', os). (s', Radio k n p f # os)) (enb_effects net k as s)"
| "enb_effects net k (CallMme c # as) s = None"

fun mme_effects :: "routing \<Rightarrow> mme_action list \<Rightarrow> epc \<Rightarrow> (epc \<times> epc_out list) option" where
  "mme_effects net [] s = Some (s, [])"
| "mme_effects net (MmeSend d # as) s = mme_effects net as (epc_send net NMme [d] s)"
| "mme_effects net (CallEnb k c # as) s = do {
     e \<leftarrow> ep_enb s k;
     (e', acts) \<leftarrow> enb_recv_s1ap c e;
     (s1, os1) \<leftarrow> enb_effects net k acts (s\<lparr>ep_enb := (ep_enb s)(k \<mapsto> e')\<rparr>);
     (s2, os2) \<leftarrow> mme_effects net as s1;
     Some (s2, os1 @ os2) }"

text \<open>The calls of the MME by an eNB run to completion before the eNB goes on.\<close>

fun enb_calls :: "routing \<Rightarrow> fteid \<Rightarrow> enb_action list \<Rightarrow> epc \<Rightarrow> (epc \<times> epc_out list) option" where
  "enb_calls net g [] s = Some (s, [])"
| "enb_calls net g (CallMme c # as) s = do {
     (m, acts) \<leftarrow> mme_recv_s1ap g c (ep_mme s);
     (s1, os1) \<leftarrow> mme_effects net acts (s\<lparr>ep_mme := m\<rparr>);
     (s2, os2) \<leftarrow> enb_calls net g as s1;
     Some (s2, os1 @ os2) }"
| "enb_calls net g (_ # as) s = None"

fun pgw_effects :: "routing \<Rightarrow> pgw_action list \<Rightarrow> epc \<Rightarrow> epc \<times> epc_out list" where
  "pgw_effects net [] s = (s, [])"
| "pgw_effects net (PgwSend d # as) s = pgw_effects net as (epc_send net NPgw [d] s)"
| "pgw_effects net (TunReceive p n # as) s =
     (let (s', os) = pgw_effects net as s in (s', Internet p n # os))"

text \<open>
  Delivery of a datagram: the socket callback of the receiving application. \<open>g\<close> and \<open>c\<close> are the
  indeterminate values of uninitialised members.
\<close>

definition epc_deliver ::
  "routing \<Rightarrow> fteid \<Rightarrow> u8 \<Rightarrow> node \<Rightarrow> interface \<Rightarrow> bytes \<Rightarrow> epc \<Rightarrow> (epc \<times> epc_out list) option" where
  "epc_deliver net g c n i p s =
     (case (n, i) of
        (NSgw, S11) \<Rightarrow> map_option (\<lambda>(t, ds). (epc_send net NSgw ds (s\<lparr>ep_sgw := t\<rparr>), []))
                        (sgw_RecvFromS11Socket c p (ep_sgw s))
      | (NSgw, S5c) \<Rightarrow> map_option (\<lambda>(t, ds). (epc_send net NSgw ds (s\<lparr>ep_sgw := t\<rparr>), []))
                        (sgw_RecvFromS5cSocket g p (ep_sgw s))
      | (NSgw, S5u) \<Rightarrow> map_option (\<lambda>(t, ds). (epc_send net NSgw ds (s\<lparr>ep_sgw := t\<rparr>), []))
                        (sgw_RecvFromS5uSocket p (ep_sgw s))
      | (NSgw, S1u) \<Rightarrow> map_option (\<lambda>(t, ds). (epc_send net NSgw ds (s\<lparr>ep_sgw := t\<rparr>), []))
                        (sgw_RecvFromS1uSocket p (ep_sgw s))
      | (NPgw, S5c) \<Rightarrow> map_option (\<lambda>(t, as). pgw_effects net as (s\<lparr>ep_pgw := t\<rparr>))
                        (pgw_RecvFromS5cSocket p (ep_pgw s))
      | (NPgw, S5u) \<Rightarrow> map_option (\<lambda>(t, as). pgw_effects net as (s\<lparr>ep_pgw := t\<rparr>))
                        (pgw_RecvFromS5uSocket p (ep_pgw s))
      | (NMme, S11) \<Rightarrow> Option.bind (mme_RecvFromS11Socket c p (ep_mme s))
                        (\<lambda>(t, as). mme_effects net as (s\<lparr>ep_mme := t\<rparr>))
      | (NEnb k, S1u) \<Rightarrow> do {
          e \<leftarrow> ep_enb s k;
          (e', as) \<leftarrow> enb_RecvFromS1uSocket p e;
          enb_effects net k as (s\<lparr>ep_enb := (ep_enb s)(k \<mapsto> e')\<rparr>) }
      | _ \<Rightarrow> None)"

text \<open>Deliver everything that is in flight, first in, first out, at most \<open>n\<close> datagrams.\<close>

fun epc_run :: "routing \<Rightarrow> fteid \<Rightarrow> u8 \<Rightarrow> nat \<Rightarrow> epc \<Rightarrow> (epc \<times> epc_out list) option" where
  "epc_run net g c 0 s = (if ep_flight s = [] then Some (s, []) else None)"
| "epc_run net g c (Suc n) s =
     (case ep_flight s of
        [] \<Rightarrow> Some (s, [])
      | (m, i, p) # fl \<Rightarrow> do {
          (s1, os1) \<leftarrow> epc_deliver net g c m i p (s\<lparr>ep_flight := fl\<rparr>);
          (s2, os2) \<leftarrow> epc_run net g c n s1;
          Some (s2, os1 @ os2) })"

section \<open>Steps of the environment\<close>

definition epc_attach :: "routing \<Rightarrow> fteid \<Rightarrow> nat \<Rightarrow> u64 \<Rightarrow> u16 \<Rightarrow> epc \<Rightarrow> (epc \<times> epc_out list) option"
where
  "epc_attach net g k imsi rnti s = do {
     e \<leftarrow> ep_enb s k;
     let (e', acts) = enb_DoInitialUeMessage imsi rnti e;
     enb_calls net g acts (s\<lparr>ep_enb := (ep_enb s)(k \<mapsto> e')\<rparr>) }"

definition epc_path_switch :: "routing \<Rightarrow> fteid \<Rightarrow> nat \<Rightarrow> path_switch \<Rightarrow> epc \<Rightarrow> (epc \<times> epc_out list) option"
where
  "epc_path_switch net g k ps s = do {
     e \<leftarrow> ep_enb s k;
     let (e', acts) = enb_DoPathSwitchRequest ps e;
     enb_calls net g acts (s\<lparr>ep_enb := (ep_enb s)(k \<mapsto> e')\<rparr>) }"

definition epc_release_bearer ::
  "routing \<Rightarrow> fteid \<Rightarrow> nat \<Rightarrow> u64 \<Rightarrow> u16 \<Rightarrow> u8 \<Rightarrow> epc \<Rightarrow> (epc \<times> epc_out list) option" where
  "epc_release_bearer net g k imsi rnti bid s = do {
     e \<leftarrow> ep_enb s k;
     let (e', acts) = enb_DoReleaseIndication imsi rnti bid e;
     enb_calls net g acts (s\<lparr>ep_enb := (ep_enb s)(k \<mapsto> e')\<rparr>) }"

definition epc_downlink :: "routing \<Rightarrow> bytes \<Rightarrow> u16 \<Rightarrow> epc \<Rightarrow> (epc \<times> epc_out list) option" where
  "epc_downlink net p n s = do {
     (t, acts) \<leftarrow> pgw_RecvFromTunDevice p n (ep_pgw s);
     Some (pgw_effects net acts (s\<lparr>ep_pgw := t\<rparr>)) }"

definition epc_uplink ::
  "routing \<Rightarrow> nat \<Rightarrow> bytes \<Rightarrow> flow_id \<Rightarrow> epc \<Rightarrow> (epc \<times> epc_out list) option" where
  "epc_uplink net k p tag s = do {
     e \<leftarrow> ep_enb s k;
     (e', acts) \<leftarrow> enb_RecvFromLteSocket p tag e;
     enb_effects net k acts (s\<lparr>ep_enb := (ep_enb s)(k \<mapsto> e')\<rparr>) }"

end
