(* ===== verification/EpcWire.thy ===== *)
theory EpcWire
  imports EpcSystem
begin

text \<open>
  The handlers of the control plane on well-formed messages: what each of them sends for the
  message it was called with. The bytes of the messages disappear here, by the facts of the
  interpretations of \<open>gtpc_message\<close>; the proofs about the system use the lemmas of this theory.
\<close>

section \<open>Indeterminate F-TEIDs\<close>

text \<open>
  The sender of a message may leave an F-TEID indeterminate. Only the low five bits of its
  interface type are written, so the message is the same as one with a well-formed F-TEID.
\<close>

definition fteid_norm :: "fteid \<Rightarrow> fteid" where
  "fteid_norm f = f\<lparr>ft_interfaceType := ft_interfaceType f AND 0x1f\<rparr>"

lemma fteid_norm_ok [simp]: "fteid_ok (fteid_norm f)"
  by (simp add: fteid_ok_def fteid_norm_def and.assoc)

lemma SerializeFteid_norm [simp]: "SerializeFteid (fteid_norm f) = SerializeFteid f"
  by (simp add: SerializeFteid_def fteid_norm_def and.assoc)

lemma interface_types_ok [simp]:
  "fteid_ok \<lparr>ft_interfaceType = S1U_ENB_GTPU, ft_addr = a, ft_teid = t\<rparr>"
  "fteid_ok \<lparr>ft_interfaceType = S5_SGW_GTPU, ft_addr = a, ft_teid = t\<rparr>"
  "fteid_ok \<lparr>ft_interfaceType = S5_PGW_GTPU, ft_addr = a, ft_teid = t\<rparr>"
  "fteid_ok \<lparr>ft_interfaceType = S5_SGW_GTPC, ft_addr = a, ft_teid = t\<rparr>"
  "fteid_ok \<lparr>ft_interfaceType = S5_PGW_GTPC, ft_addr = a, ft_teid = t\<rparr>"
  "fteid_ok \<lparr>ft_interfaceType = S11_MME_GTPC, ft_addr = a, ft_teid = t\<rparr>"
  by (simp_all add: fteid_ok_def interface_defs)

lemma ecgi_ok_u16 [simp]: "ecgi_ok (ucast (c :: u16))"
proof -
  have "(0x0fffffff :: u32) = mask 28"
    by (simp add: mask_eq_exp_minus_1)
  moreover have "ucast c AND mask 28 = (ucast c :: u32)"
    by (rule bit_word_eqI) (auto simp: bit_simps dest: bit_imp_le_length)
  ultimately show ?thesis
    by (simp add: ecgi_ok_def)
qed

lemma ucast_u16_u32_u16 [simp]: "(ucast (ucast (c :: u16) :: u32) :: u16) = c"
  by (rule bit_word_eqI) (auto simp: bit_simps)

lemma context_norm:
  "SerializeBearerContext (b\<lparr>bc_fteid := fteid_norm f\<rparr>) = SerializeBearerContext (b\<lparr>bc_fteid := f\<rparr>)"
  by (simp add: SerializeBearerContext_def)

section \<open>The MME starts a session\<close>

definition mme_bearer_ok :: "mme_bearer \<Rightarrow> bool" where
  "mme_bearer_ok b \<longleftrightarrow> ebi_ok (mb_bearerId b) \<and> tft_ok (mb_tft b) \<and> qos_ok (mb_bearer b)"

text \<open>The create session request of the MME, with the indeterminate F-TEIDs made well formed.\<close>

definition mme_request :: "fteid \<Rightarrow> u64 \<Rightarrow> u16 \<Rightarrow> ipv4 \<Rightarrow> mme_bearer list \<Rightarrow> create_session_request" where
  "mme_request g imsi gci a bs =
     (let msg = (csq_new \<lparr>ft_interfaceType = S11_MME_GTPC, ft_addr = a, ft_teid = ucast imsi\<rparr>)
                  \<lparr>csq_imsi := imsi, csq_uliEcgi := ucast gci,
                   csq_bearerContexts := map (mme_context g) bs\<rparr>
      in msg\<lparr>csq_header := gtpc_finish 0 (csq_GetMessageSize msg) (csq_header msg)\<rparr>)"

lemma SerializeBearerContext_mme:
  "SerializeBearerContext (mme_context (fteid_norm g) b) = SerializeBearerContext (mme_context g b)"
  by (simp add: SerializeBearerContext_def mme_context_def)

lemma bearer_context_size_mme:
  "bearer_context_size (mme_context g b) = bearer_context_size (mme_context g' b)"
  by (simp add: bearer_context_size_def mme_context_def)

lemma mme_request_norm:
  "csq_Serialize (mme_request (fteid_norm g) imsi gci a bs) = csq_Serialize (mme_request g imsi gci a bs)"
  "csq_GetSerializedSize (mme_request (fteid_norm g) imsi gci a bs) =
     csq_GetSerializedSize (mme_request g imsi gci a bs)"
  using bearer_context_size_mme [of "fteid_norm g" _ g]
  by (simp_all add: mme_request_def Let_def csq_Serialize_def csq_GetSerializedSize_def
      csq_GetMessageSize_def csq_new_def comp_def SerializeBearerContext_mme)

lemma mme_request_fields [simp]:
  "csq_imsi (mme_request g imsi gci a bs) = imsi"
  "csq_uliEcgi (mme_request g imsi gci a bs) = ucast gci"
  "csq_bearerContexts (mme_request g imsi gci a bs) = map (mme_context g) bs"
  "csq_senderCpFteid (mme_request g imsi gci a bs) =
     \<lparr>ft_interfaceType = S11_MME_GTPC, ft_addr = a, ft_teid = ucast imsi\<rparr>"
  "gh_messageType (csq_header (mme_request g imsi gci a bs)) = MSG_CreateSessionRequest"
  by (simp_all add: mme_request_def Let_def csq_new_def)

lemma mme_request_hwf:
  assumes "fteid_ok g" "list_all mme_bearer_ok bs"
  shows "csq_hwf (mme_request g imsi gci a bs)"
  using assms
  by (auto simp: mme_request_def Let_def csq_hwf_def csq_new_def list_all_iff mme_context_def
      bearer_context_ok_def mme_bearer_ok_def)

lemma mme_request_packet:
  assumes "list_all mme_bearer_ok bs"
  shows "gtpc_packet csq_GetSerializedSize csq_Serialize (mme_request g imsi gci a bs) =
     Some (csq_Serialize (mme_request (fteid_norm g) imsi gci a bs))"
  using csq_msg.gtpc_packet_Some [OF mme_request_hwf [OF fteid_norm_ok assms]]
  by (simp add: mme_request_norm gtpc_packet_def AddHeader_def)

lemma mme_initial_wire:
  assumes "mm_ueInfo s imsi = Some u" and "list_all mme_bearer_ok (mu_bearersToBeActivated u)"
  shows "mme_DoInitialUeMessage g x y imsi gci s =
     Some (mm_set imsi (u\<lparr>mu_cellId := gci\<rparr>) s,
       [MmeSend (send_gtpc S11 (mm_sgwS11Addr s)
         (csq_Serialize (mme_request (fteid_norm g) imsi gci (mm_mmeS11Addr s)
           (mu_bearersToBeActivated u))))])"
proof -
  have "mm_mmeS11Addr (mm_set imsi v s) = mm_mmeS11Addr s"
    "mm_sgwS11Addr (mm_set imsi v s) = mm_sgwS11Addr s" for v
    by (simp_all add: mm_set_def)
  with assms mme_request_packet [OF assms(2), of g imsi gci "mm_mmeS11Addr s"] show ?thesis
    by (simp add: mme_DoInitialUeMessage_def mme_request_def Let_def)
qed

section \<open>The SGW allocates the TEIDs\<close>

text \<open>The contexts that the SGW sends on: the TEIDs from n + 1 on.\<close>

fun sgw_contexts :: "sgw_enb \<Rightarrow> u32 \<Rightarrow> bearer_context list \<Rightarrow> bearer_context list" where
  "sgw_contexts e n [] = []"
| "sgw_contexts e n (b # bs) =
     b\<lparr>bc_fteid := \<lparr>ft_interfaceType = S5_SGW_GTPU, ft_addr = se_sgwAddr e, ft_teid = n + 1\<rparr>\<rparr>
     # sgw_contexts e (n + 1) bs"

fun sgw_teids :: "ipv4 \<Rightarrow> u32 \<Rightarrow> bearer_context list \<Rightarrow> (u32 \<Rightarrow> ipv4 option) \<Rightarrow> u32 \<Rightarrow> ipv4 option" where
  "sgw_teids a n [] m = m"
| "sgw_teids a n (b # bs) m = sgw_teids a (n + 1) bs (m(n + 1 \<mapsto> a))"

lemma sgw_create_bearers_eq:
  assumes "unat (sg_teidCount s) + length bs < 2 ^ 32"
  shows "sgw_create_bearers e bs s =
     Some (sgw_contexts e (sg_teidCount s) bs,
       s\<lparr>sg_teidCount := sg_teidCount s + word_of_nat (length bs),
         sg_enbByTeid := sgw_teids (se_enbAddr e) (sg_teidCount s) bs (sg_enbByTeid s)\<rparr>)"
  using assms
proof (induction bs arbitrary: s)
  case (Cons b bs)
  have "unat (sg_teidCount s) \<noteq> 2 ^ 32 - 1"
    using Cons.prems by simp
  then have "sg_teidCount s \<noteq> 0xFFFFFFFF"
    by auto
  moreover have "unat (sg_teidCount s + 1) = unat (sg_teidCount s) + 1"
    using Cons.prems by (simp add: unat_word_ariths)
  ultimately show ?case
    using Cons by (simp add: Let_def add.assoc fun_upd_def)
qed simp

lemma sgw_contexts_ok:
  "list_all bearer_context_ok bs \<Longrightarrow> list_all bearer_context_ok (sgw_contexts e n bs)"
  by (induction bs arbitrary: n) (auto simp: bearer_context_ok_def)

definition sgw_request :: "u64 \<Rightarrow> u16 \<Rightarrow> ipv4 \<Rightarrow> bearer_context list \<Rightarrow> create_session_request" where
  "sgw_request imsi cellId a ctxs =
     (let out = (csq_new \<lparr>ft_interfaceType = S5_SGW_GTPC, ft_addr = a, ft_teid = ucast imsi\<rparr>)
                  \<lparr>csq_imsi := imsi, csq_uliEcgi := ucast cellId, csq_bearerContexts := ctxs\<rparr>
      in out\<lparr>csq_header := gtpc_finish 0 (csq_GetMessageSize out) (csq_header out)\<rparr>)"

lemma sgw_request_fields [simp]:
  "csq_imsi (sgw_request imsi c a ctxs) = imsi"
  "csq_bearerContexts (sgw_request imsi c a ctxs) = ctxs"
  "csq_senderCpFteid (sgw_request imsi c a ctxs) =
     \<lparr>ft_interfaceType = S5_SGW_GTPC, ft_addr = a, ft_teid = ucast imsi\<rparr>"
  "gh_messageType (csq_header (sgw_request imsi c a ctxs)) = MSG_CreateSessionRequest"
  by (simp_all add: sgw_request_def Let_def csq_new_def)

lemma sgw_request_hwf: "list_all bearer_context_ok ctxs \<Longrightarrow> csq_hwf (sgw_request imsi c a ctxs)"
  by (simp add: sgw_request_def Let_def csq_hwf_def csq_new_def)

text \<open>The state of the SGW after the request.\<close>

definition sgw_after_create :: "create_session_request \<Rightarrow> sgw_enb \<Rightarrow> sgw \<Rightarrow> sgw" where
  "sgw_after_create msg e s =
     s\<lparr>sg_mmeS11FteidBySgwS5cTeid :=
         (sg_mmeS11FteidBySgwS5cTeid s)(ucast (csq_imsi msg) \<mapsto> csq_senderCpFteid msg),
       sg_teidCount := sg_teidCount s + word_of_nat (length (csq_bearerContexts msg)),
       sg_enbByTeid := sgw_teids (se_enbAddr e) (sg_teidCount s) (csq_bearerContexts msg)
         (sg_enbByTeid s)\<rparr>"

lemma sgw_create_wire:
  assumes "csq_hwf msg" "gh_messageType (csq_header msg) = MSG_CreateSessionRequest"
    and "sg_enbInfoByCellId s (ucast (csq_uliEcgi msg)) = Some e"
    and "unat (sg_teidCount s) + length (csq_bearerContexts msg) < 2 ^ 32"
    and "ft_interfaceType (csq_senderCpFteid msg) = S11_MME_GTPC"
  shows "sgw_RecvFromS11Socket c (csq_Serialize msg) s =
     Some (sgw_after_create msg e s,
       [send_gtpc S5c (sg_pgwAddr s)
         (csq_Serialize (sgw_request (csq_imsi msg) (ucast (csq_uliEcgi msg)) (sg_s5Addr s)
           (sgw_contexts e (sg_teidCount s) (csq_bearerContexts msg))))])"
proof -
  let ?t = "s\<lparr>sg_mmeS11FteidBySgwS5cTeid :=
         (sg_mmeS11FteidBySgwS5cTeid s)(ucast (csq_imsi msg) \<mapsto> csq_senderCpFteid msg)\<rparr>"
  let ?ctxs = "sgw_contexts e (sg_teidCount s) (csq_bearerContexts msg)"
  have "list_all bearer_context_ok ?ctxs"
    using assms(1) by (intro sgw_contexts_ok) (simp add: csq_hwf_def)
  then have "csq_hwf (sgw_request (csq_imsi msg) (ucast (csq_uliEcgi msg)) (sg_s5Addr s) ?ctxs)"
    by (rule sgw_request_hwf)
  from csq_msg.gtpc_packet_Some [OF this] sgw_create_bearers_eq [of ?t "csq_bearerContexts msg" e]
    assms csq_msg.wire [OF assms(1)]
  show ?thesis
    by (simp add: sgw_RecvFromS11Socket_def sgw_DoRecvCreateSessionRequest_def sgw_request_def
        Let_def sgw_after_create_def)
qed

section \<open>The PGW enters the bearers\<close>

definition pgw_response :: "ipv4 \<Rightarrow> u32 \<Rightarrow> bearer_context list \<Rightarrow> create_session_response" where
  "pgw_response a teid ctxs =
     (let out = (csp_new \<lparr>ft_interfaceType = S5_PGW_GTPC, ft_addr = a, ft_teid = teid\<rparr>)
                  \<lparr>csp_cause := REQUEST_ACCEPTED, csp_bearerContexts := map (pgw_context_out a) ctxs\<rparr>
      in out\<lparr>csp_header := gtpc_finish teid (csp_GetMessageSize out) (csp_header out)\<rparr>)"

lemma pgw_response_fields [simp]:
  "gh_teid (csp_header (pgw_response a teid ctxs)) = teid"
  "gh_messageType (csp_header (pgw_response a teid ctxs)) = MSG_CreateSessionResponse"
  "csp_bearerContexts (pgw_response a teid ctxs) = map (pgw_context_out a) ctxs"
  "csp_senderCpFteid (pgw_response a teid ctxs) =
     \<lparr>ft_interfaceType = S5_PGW_GTPC, ft_addr = a, ft_teid = teid\<rparr>"
  by (simp_all add: pgw_response_def Let_def csp_new_def)

lemma pgw_context_out_ok: "bearer_context_ok b \<Longrightarrow> bearer_context_ok (pgw_context_out a b)"
  by (simp add: bearer_context_ok_def pgw_context_out_def)

lemma pgw_response_hwf:
  "list_all bearer_context_ok ctxs \<Longrightarrow> csp_hwf (pgw_response a teid ctxs)"
  by (auto simp: pgw_response_def Let_def csp_hwf_def csp_new_def list_all_iff pgw_context_out_ok)

definition pgw_after_create :: "create_session_request \<Rightarrow> nat \<Rightarrow> pgw_ue \<Rightarrow> pgw \<Rightarrow> pgw" where
  "pgw_after_create msg r u s =
     pg_set r (fold pu_put (csq_bearerContexts msg) (pu_SetSgwAddr (pg_sgwS5Addr s) u)) s"

lemma pgw_create_wire_bearers:
  assumes "csq_hwf msg" "gh_messageType (csq_header msg) = MSG_CreateSessionRequest"
    and "pg_ueInfoByImsi s (csq_imsi msg) = Some r" "pg_deref s r = Some u"
    and "ft_interfaceType (csq_senderCpFteid msg) = S5_SGW_GTPC"
  shows "pgw_RecvFromS5cSocket (csq_Serialize msg) s =
     map_option (\<lambda>u'. (pg_set r u' s,
       [PgwSend (send_gtpc S5c (ft_addr (csq_senderCpFteid msg))
         (csp_Serialize (pgw_response (pg_s5Addr s) (ft_teid (csq_senderCpFteid msg))
           (csq_bearerContexts msg))))]))
       (pu_AddBearers (csq_bearerContexts msg) (pu_SetSgwAddr (pg_sgwS5Addr s) u))"
proof -
  have "list_all bearer_context_ok (csq_bearerContexts msg)"
    using assms(1) by (simp add: csq_hwf_def)
  from csp_msg.gtpc_packet_Some [OF pgw_response_hwf [OF this]] assms csq_msg.wire [OF assms(1)]
  show ?thesis
    by (simp add: pgw_RecvFromS5cSocket_def pgw_DoRecvCreateSessionRequest_def pgw_response_def
        Let_def split: option.splits Option.bind_splits)
qed

lemma pgw_create_wire:
  assumes "csq_hwf msg" "gh_messageType (csq_header msg) = MSG_CreateSessionRequest"
    and "pg_ueInfoByImsi s (csq_imsi msg) = Some r" "pg_deref s r = Some u"
    and "ft_interfaceType (csq_senderCpFteid msg) = S5_SGW_GTPC"
    and "length (m_tftMap (pu_tftClassifier u)) + length (csq_bearerContexts msg) \<le> 16"
  shows "pgw_RecvFromS5cSocket (csq_Serialize msg) s =
     Some (pgw_after_create msg r u s,
       [PgwSend (send_gtpc S5c (ft_addr (csq_senderCpFteid msg))
         (csp_Serialize (pgw_response (pg_s5Addr s) (ft_teid (csq_senderCpFteid msg))
           (csq_bearerContexts msg))))])"
proof -
  have "pu_AddBearers (csq_bearerContexts msg) (pu_SetSgwAddr (pg_sgwS5Addr s) u) =
      Some (fold pu_put (csq_bearerContexts msg) (pu_SetSgwAddr (pg_sgwS5Addr s) u))"
    using assms(6) by (intro pu_AddBearers_Some) (simp add: pu_SetSgwAddr_def)
  then show ?thesis
    by (simp add: pgw_create_wire_bearers [OF assms(1-5)] pgw_after_create_def)
qed

section \<open>The SGW passes the response on\<close>

definition sgw_response :: "fteid \<Rightarrow> u32 \<Rightarrow> bearer_context list \<Rightarrow> create_session_response" where
  "sgw_response g teid ctxs =
     (let out = (csp_new g)\<lparr>csp_cause := REQUEST_ACCEPTED, csp_bearerContexts := ctxs\<rparr>
      in out\<lparr>csp_header := gtpc_finish teid (csp_GetMessageSize out) (csp_header out)\<rparr>)"

lemma sgw_response_fields [simp]:
  "gh_teid (csp_header (sgw_response g teid ctxs)) = teid"
  "gh_messageType (csp_header (sgw_response g teid ctxs)) = MSG_CreateSessionResponse"
  "csp_bearerContexts (sgw_response g teid ctxs) = ctxs"
  by (simp_all add: sgw_response_def Let_def csp_new_def)

lemma sgw_response_hwf:
  "fteid_ok g \<Longrightarrow> list_all bearer_context_ok ctxs \<Longrightarrow> csp_hwf (sgw_response g teid ctxs)"
  by (simp add: sgw_response_def Let_def csp_hwf_def csp_new_def)

lemma sgw_response_packet:
  assumes "list_all bearer_context_ok ctxs"
  shows "gtpc_packet csp_GetSerializedSize csp_Serialize (sgw_response g teid ctxs) =
     Some (csp_Serialize (sgw_response (fteid_norm g) teid ctxs))"
proof -
  have "csp_Serialize (sgw_response (fteid_norm g) teid ctxs) = csp_Serialize (sgw_response g teid ctxs)"
    "csp_GetSerializedSize (sgw_response (fteid_norm g) teid ctxs) =
       csp_GetSerializedSize (sgw_response g teid ctxs)"
    by (simp_all add: sgw_response_def Let_def csp_Serialize_def csp_GetSerializedSize_def
        csp_GetMessageSize_def csp_new_def)
  with csp_msg.ser_size [OF sgw_response_hwf [OF fteid_norm_ok [of g] assms], of teid]
  show ?thesis
    by (simp add: gtpc_packet_def AddHeader_def)
qed

lemma sgw_response_wire:
  assumes "csp_hwf msg" "gh_messageType (csp_header msg) = MSG_CreateSessionResponse"
    and "sg_mmeS11FteidBySgwS5cTeid s (gh_teid (csp_header msg)) = Some f"
    and "ft_interfaceType (csp_senderCpFteid msg) = S5_PGW_GTPC"
  shows "sgw_RecvFromS5cSocket g (csp_Serialize msg) s =
     Some (s, [send_gtpc S11 (ft_addr f)
       (csp_Serialize (sgw_response (fteid_norm g) (ft_teid f) (csp_bearerContexts msg)))])"
proof -
  have "list_all bearer_context_ok (csp_bearerContexts msg)"
    using assms(1) by (simp add: csp_hwf_def)
  from sgw_response_packet [OF this] assms csp_msg.wire [OF assms(1)] show ?thesis
    by (simp add: sgw_RecvFromS5cSocket_def sgw_DoRecvCreateSessionResponse_def sgw_response_def
        Let_def)
qed

section \<open>The MME calls the eNB\<close>

lemma mme_response_wire:
  assumes "csp_hwf msg" "gh_messageType (csp_header msg) = MSG_CreateSessionResponse"
    and "mm_ueInfo s (ucast (gh_teid (csp_header msg))) = Some u"
    and "mm_enbInfo s (mu_cellId u) = Some e"
  shows "mme_RecvFromS11Socket c (csp_Serialize msg) s =
     Some (s, [CallEnb (me_s1apSapEnb e)
       (InitialContextSetupRequest (mu_mmeUeS1Id u) (mu_enbUeS1Id u)
         (map mme_erab (csp_bearerContexts msg)))])"
  using assms csp_msg.wire [OF assms(1)]
  by (simp add: mme_RecvFromS11Socket_def mme_DoRecvCreateSessionResponse_def Let_def)

section \<open>The eNB binds the bearers\<close>

fun enb_bindings :: "u16 \<Rightarrow> erab_setup list \<Rightarrow> enb \<Rightarrow> enb" where
  "enb_bindings rnti [] s = s"
| "enb_bindings rnti (e # es) s = enb_bindings rnti es (enb_bind rnti (es_erabId e) (es_sgwTeid e) s)"

definition drb_setup :: "u16 \<Rightarrow> erab_setup \<Rightarrow> rrc_call" where
  "drb_setup rnti e = DataRadioBearerSetup rnti (es_qos e) (es_erabId e) (es_sgwTeid e)"

lemma enb_setup_bearers_eq:
  "enb_setup_bearers rnti es s =
     (enb_bindings rnti es s, map (\<lambda>e. CallRrc (drb_setup rnti e)) es)"
  by (induction es arbitrary: s) (auto simp: Let_def drb_setup_def)

lemma enb_initial_context_setup:
  assumes "en_imsiRnti s imsi = Some rnti"
  shows "enb_recv_s1ap (InitialContextSetupRequest imsi x es) s =
     Some (enb_bindings rnti es s,
       map (\<lambda>e. CallRrc (drb_setup rnti e)) es @ [CallRrc (RrcInitialContextSetup rnti)])"
  using assms
  by (simp add: enb_recv_s1ap_def enb_DoInitialContextSetupRequest_def enb_setup_bearers_eq Let_def)

lemma enb_effects_rrc:
  "enb_effects net k (map CallRrc cs) s = Some (s, map (Rrc k) cs)"
  by (induction cs) simp_all

end
