(* ===== verification/EpcSession.thy ===== *)
theory EpcSession
  imports EpcWire
begin

text \<open>
  The session of a UE: what the exchange of messages that starts with the initial UE message
  leaves in the four applications, and the way of a packet through the tunnels.
\<close>

section \<open>Updates by a list\<close>

lemma fold_upd_notin:
  "i \<notin> f ` set xs \<Longrightarrow> fold (\<lambda>x m. m(f x \<mapsto> v x)) xs m i = m i"
  by (induction xs arbitrary: m) auto

lemma fold_upd_in:
  "distinct (map f xs) \<Longrightarrow> x \<in> set xs \<Longrightarrow> fold (\<lambda>x m. m(f x \<mapsto> v x)) xs m (f x) = Some (v x)"
proof (induction xs arbitrary: m)
  case (Cons y ys)
  have "f y \<notin> f ` set ys"
    using Cons.prems(1) by auto
  then have y: "fold (\<lambda>x m. m(f x \<mapsto> v x)) ys (m(f y \<mapsto> v y)) (f y) = Some (v y)"
    by (subst fold_upd_notin) simp_all
  show ?case
  proof (cases "x = y")
    case True
    with y show ?thesis
      by (simp del: fun_upd_apply)
  next
    case False
    with Cons.IH [of "m(f y \<mapsto> v y)"] Cons.prems show ?thesis
      by (simp del: fun_upd_apply)
  qed
qed simp

section \<open>The TEIDs of a session\<close>

lemma length_sgw_contexts [simp]: "length (sgw_contexts e n bs) = length bs"
  by (induction bs arbitrary: n) auto

lemma sgw_contexts_nth:
  "j < length bs \<Longrightarrow> sgw_contexts e n bs ! j =
     (bs ! j)\<lparr>bc_fteid := \<lparr>ft_interfaceType = S5_SGW_GTPU, ft_addr = se_sgwAddr e,
                          ft_teid = n + word_of_nat (Suc j)\<rparr>\<rparr>"
proof (induction bs arbitrary: n j)
  case (Cons b bs)
  then show ?case
    by (cases j) (auto simp: add.assoc)
qed simp

lemma teid_eq_iff:
  assumes "unat (n :: u32) + l < 2 ^ 32" "i < l" "j < l"
  shows "n + word_of_nat (Suc i) = n + word_of_nat (Suc j) \<longleftrightarrow> i = j"
proof -
  have "(word_of_nat (Suc i) :: u32) = word_of_nat (Suc j) \<longleftrightarrow> Suc i = Suc j"
    using assms by (simp add: word_of_nat_eq_iff take_bit_nat_eq_self del: of_nat_Suc)
  then show ?thesis
    by (simp del: of_nat_Suc)
qed

lemma teid_unat:
  assumes "unat (n :: u32) + l < 2 ^ 32" "j < l"
  shows "unat (n + word_of_nat (Suc j)) = unat n + Suc j"
proof -
  have "unat (word_of_nat (Suc j) :: u32) = Suc j"
    using assms by (simp add: unsigned_of_nat take_bit_nat_eq_self del: of_nat_Suc)
  then show ?thesis
    using assms by (simp add: unat_word_ariths del: of_nat_Suc)
qed

definition ctx_teid :: "bearer_context \<Rightarrow> u32" where
  "ctx_teid b = ft_teid (bc_fteid b)"

lemma sgw_contexts_distinct:
  assumes "unat n + length bs < 2 ^ 32"
  shows "distinct (map ctx_teid (sgw_contexts e n bs))"
  using teid_eq_iff [OF assms]
  by (auto simp: distinct_conv_nth sgw_contexts_nth ctx_teid_def simp del: of_nat_Suc)

lemma sgw_teids_eq:
  "sgw_teids a n bs m = fold (\<lambda>b m. m(ctx_teid b \<mapsto> a)) (sgw_contexts e n bs) m"
  by (induction bs arbitrary: n m) (simp_all add: ctx_teid_def)

lemma sgw_teids_in:
  assumes "unat n + length bs < 2 ^ 32" "j < length bs"
  shows "sgw_teids a n bs m (n + word_of_nat (Suc j)) = Some a"
proof -
  fix e
  have "ctx_teid (sgw_contexts e n bs ! j) = n + word_of_nat (Suc j)"
    using assms(2) by (simp add: sgw_contexts_nth ctx_teid_def)
  moreover have "sgw_contexts e n bs ! j \<in> set (sgw_contexts e n bs)"
    using assms(2) by simp
  ultimately show ?thesis
    using fold_upd_in [OF sgw_contexts_distinct [OF assms(1)], of _ e "\<lambda>_. a"]
      sgw_teids_eq [of a n bs m e] by metis
qed

text \<open>The TEIDs that existed before are not touched.\<close>

lemma sgw_teids_old:
  assumes "unat n + length bs < 2 ^ 32" "t \<le> n"
  shows "sgw_teids a n bs m t = m t"
proof -
  fix e
  have "t \<noteq> ctx_teid b" if b: "b \<in> set (sgw_contexts e n bs)" for b
  proof -
    obtain j where "j < length bs" "b = sgw_contexts e n bs ! j"
      using b by (auto simp: in_set_conv_nth)
    then have "ctx_teid b = n + word_of_nat (Suc j)" "j < length bs"
      by (simp_all add: sgw_contexts_nth ctx_teid_def)
    then show ?thesis
      using teid_unat [OF assms(1), of j] assms(2) by (auto simp: word_le_nat_alt)
  qed
  then show ?thesis
    unfolding sgw_teids_eq [of a n bs m e] by (intro fold_upd_notin) auto
qed

section \<open>What the bearers leave in the PGW and the eNB\<close>

lemma pu_put_fields [simp]:
  "pu_sgwAddr (fold pu_put bs u) = pu_sgwAddr u"
  "pu_teidByBearerId (fold pu_put bs u) =
     fold (\<lambda>b m. m(bc_epsBearerId b \<mapsto> ctx_teid b)) bs (pu_teidByBearerId u)"
  "map_of (m_tftMap (pu_tftClassifier (fold pu_put bs u))) =
     fold (\<lambda>b m. m(ctx_teid b \<mapsto> bc_tft b)) bs (map_of (m_tftMap (pu_tftClassifier u)))"
  by (induction bs arbitrary: u) (simp_all add: pu_put_def classifier_put_def ctx_teid_def)

lemma enb_bindings_teidRbid:
  "en_teidRbid (enb_bindings rnti es s) =
     fold (\<lambda>e m. m(es_sgwTeid e \<mapsto> (rnti, es_erabId e))) es (en_teidRbid s)"
  by (induction es arbitrary: s) (simp_all add: enb_bind_def Let_def)

text \<open>The TEID of a bearer of an RNTI.\<close>

definition enb_teid :: "enb \<Rightarrow> u16 \<Rightarrow> u8 \<Rightarrow> u32 option" where
  "enb_teid s rnti bid = Option.bind (en_rbidTeid s rnti) (\<lambda>m. map_of m bid)"

lemma enb_teid_bind:
  "enb_teid (enb_bind rnti bid teid s) =
     (\<lambda>r b. if r = rnti \<and> b = bid then Some teid else enb_teid s r b)"
  by (auto simp: enb_teid_def enb_bind_def Let_def fun_eq_iff split: option.splits)

lemma enb_bindings_teid:
  "enb_teid (enb_bindings rnti es s) rnti =
     fold (\<lambda>e m. m(es_erabId e \<mapsto> es_sgwTeid e)) es (enb_teid s rnti)"
proof (induction es arbitrary: s)
  case (Cons e es)
  have "enb_teid (enb_bind rnti (es_erabId e) (es_sgwTeid e) s) rnti =
      (enb_teid s rnti)(es_erabId e \<mapsto> es_sgwTeid e)"
    by (auto simp: enb_teid_bind fun_eq_iff)
  with Cons show ?case
    by simp
qed simp

lemma enb_bindings_fields [simp]:
  "en_sgwS1uAddress (enb_bindings rnti es s) = en_sgwS1uAddress s"
  "en_imsiRnti (enb_bindings rnti es s) = en_imsiRnti s"
  "en_enbS1uAddress (enb_bindings rnti es s) = en_enbS1uAddress s"
  by (induction es arbitrary: s) (simp_all add: enb_bind_def Let_def)

section \<open>The path of a bearer\<close>

text \<open>
  A UE with the reference \<open>r\<close> in the PGW has a bearer \<open>bid\<close> with the TEID \<open>teid\<close> whose path leads
  through the eNB \<open>k\<close>, where the UE has the RNTI \<open>rnti\<close>: every node on the path maps the TEID to
  the next one, in both directions.
\<close>

definition bearer_path ::
  "routing \<Rightarrow> epc \<Rightarrow> nat \<Rightarrow> nat \<Rightarrow> u16 \<Rightarrow> u8 \<Rightarrow> u32 \<Rightarrow> bool" where
  "bearer_path net s r k rnti bid teid \<longleftrightarrow> teid \<noteq> 0 \<and>
     (\<exists>u. pg_deref (ep_pgw s) r = Some u \<and> pu_teidByBearerId u bid = Some teid \<and>
        net NPgw S5u (pu_sgwAddr u) = Some NSgw) \<and>
     (\<exists>a. sg_enbByTeid (ep_sgw s) teid = Some a \<and> net NSgw S1u a = Some (NEnb k)) \<and>
     net NSgw S5u (sg_pgwAddr (ep_sgw s)) = Some NPgw \<and>
     (\<exists>e. ep_enb s k = Some e \<and> en_teidRbid e teid = Some (rnti, bid) \<and>
        enb_teid e rnti bid = Some teid \<and> net (NEnb k) S1u (en_sgwS1uAddress e) = Some NSgw)"

lemma send_gtpu_Some:
  "\<exists>q. send_gtpu i a teid p = Some (SendTo i a gtpuUdpPort q) \<and> gtpu_decap q = Some (teid, p)"
  using gtpu_encap_Some [of teid p] by (auto simp: send_gtpu_def)

definition ip_proto :: "bytes \<Rightarrow> u16 option" where
  "ip_proto p = (case ip_version p of None \<Rightarrow> None
     | Some v \<Rightarrow> if v = 4 then Some IPV4_PROT else if v = 6 then Some IPV6_PROT else None)"

text \<open>The SGW and the eNB pass a packet that the PGW has sent into the tunnel.\<close>

lemma downlink_through_tunnel:
  assumes "bearer_path net s r k rnti bid teid" and "gtpu_decap q = Some (teid, p)"
    and "ip_proto p = Some n" and "ep_flight s = [(NSgw, S5u, q)]"
  shows "\<exists>s'. epc_run net g c 2 s = Some (s', [Radio k n p (rnti, bid)]) \<and>
     ep_flight s' = [] \<and> ep_pgw s' = ep_pgw s"
proof -
  from assms(1) obtain a e where
    a: "sg_enbByTeid (ep_sgw s) teid = Some a" "net NSgw S1u a = Some (NEnb k)" and
    e: "ep_enb s k = Some e" "en_teidRbid e teid = Some (rnti, bid)"
    by (auto simp: bearer_path_def)
  obtain q' where q': "send_gtpu S1u a teid p = Some (SendTo S1u a gtpuUdpPort q')"
    "gtpu_decap q' = Some (teid, p)"
    using send_gtpu_Some by blast
  let ?s1 = "s\<lparr>ep_flight := [(NEnb k, S1u, q')]\<rparr>"
  have 1: "epc_deliver net g c NSgw S5u q (s\<lparr>ep_flight := []\<rparr>) = Some (?s1, [])"
    using a assms(2) q'(1)
    by (simp add: epc_deliver_def sgw_RecvFromS5uSocket_def epc_send_def route_def a(2))
  have "enb_SendToLteSocket p rnti bid = Some (LteSend n p (rnti, bid))"
    using assms(3) by (auto simp: enb_SendToLteSocket_def ip_proto_def split: option.splits if_splits)
  then have 2: "epc_deliver net g c (NEnb k) S1u q' (s\<lparr>ep_flight := []\<rparr>) =
      Some (s\<lparr>ep_flight := [], ep_enb := (ep_enb s)(k \<mapsto> e)\<rparr>, [Radio k n p (rnti, bid)])"
    using e q'(2) by (simp add: epc_deliver_def enb_RecvFromS1uSocket_def)
  show ?thesis
    using 1 2 assms(4) by (simp add: eval_nat_numeral)
qed

lemma uplink_through_tunnel:
  assumes "bearer_path net s r k rnti bid teid" and "ip_proto p = Some n" and "ep_flight s = []"
  shows "\<exists>s1 s2. epc_uplink net k p (rnti, bid) s = Some (s1, []) \<and>
     epc_run net g c 2 s1 = Some (s2, [Internet p n]) \<and> ep_flight s2 = []"
proof -
  from assms(1) obtain e m where
    e: "ep_enb s k = Some e" "en_rbidTeid e rnti = Some m" "map_of m bid = Some teid"
      "net (NEnb k) S1u (en_sgwS1uAddress e) = Some NSgw" and
    pgw: "net NSgw S5u (sg_pgwAddr (ep_sgw s)) = Some NPgw"
    by (auto simp: bearer_path_def enb_teid_def split: Option.bind_splits)
  obtain q where q: "send_gtpu S1u (en_sgwS1uAddress e) teid p =
      Some (SendTo S1u (en_sgwS1uAddress e) gtpuUdpPort q)" "gtpu_decap q = Some (teid, p)"
    using send_gtpu_Some by blast
  obtain q' where q': "send_gtpu S5u (sg_pgwAddr (ep_sgw s)) teid p =
      Some (SendTo S5u (sg_pgwAddr (ep_sgw s)) gtpuUdpPort q')" "gtpu_decap q' = Some (teid, p)"
    using send_gtpu_Some by blast
  let ?s = "s\<lparr>ep_enb := (ep_enb s)(k \<mapsto> e)\<rparr>"
  have 0: "epc_uplink net k p (rnti, bid) s = Some (?s\<lparr>ep_flight := [(NSgw, S1u, q)]\<rparr>, [])"
    using e q(1) assms(3)
    by (simp add: epc_uplink_def enb_RecvFromLteSocket_def enb_SendToS1uSocket_def
        epc_send_def route_def e(4))
  have 1: "epc_deliver net g c NSgw S1u q (?s\<lparr>ep_flight := []\<rparr>) =
      Some (?s\<lparr>ep_flight := [(NPgw, S5u, q')]\<rparr>, [])"
    using q(2) q'(1)
    by (simp add: epc_deliver_def sgw_RecvFromS1uSocket_def epc_send_def route_def pgw)
  have "pgw_SendToTunDevice p teid = Some [TunReceive p n]"
    using assms(2) by (auto simp: pgw_SendToTunDevice_def ip_proto_def split: option.splits if_splits)
  then have 2: "epc_deliver net g c NPgw S5u q' (?s\<lparr>ep_flight := []\<rparr>) =
      Some (?s\<lparr>ep_flight := []\<rparr>, [Internet p n])"
    using q'(2) by (simp add: epc_deliver_def pgw_RecvFromS5uSocket_def)
  show ?thesis
    using 0 1 2 by (simp add: eval_nat_numeral)
qed

section \<open>The exchange that sets up a session\<close>

text \<open>
  A network in which the UE \<open>imsi\<close> can attach at the eNB \<open>k\<close>: the applications know each other's
  addresses, as the helper configures them, the UE is known to MME and PGW and has bearers with
  distinct identities, the SGW has TEIDs left, and with the templates of the new bearers the PGW
  holds at most 16 for the UE.
\<close>

definition attach_ready ::
  "routing \<Rightarrow> epc \<Rightarrow> nat \<Rightarrow> u64 \<Rightarrow> nat \<Rightarrow> mme_ue \<Rightarrow> pgw_ue \<Rightarrow> sgw_enb \<Rightarrow> enb \<Rightarrow> bool" where
  "attach_ready net s k imsi r mu u se e \<longleftrightarrow>
     ep_flight s = [] \<and> ucast (ucast imsi :: u32) = imsi \<and>
     mm_ueInfo (ep_mme s) imsi = Some mu \<and> mu_mmeUeS1Id mu = imsi \<and>
     list_all mme_bearer_ok (mu_bearersToBeActivated mu) \<and>
     distinct (map mb_bearerId (mu_bearersToBeActivated mu)) \<and>
     ep_enb s k = Some e \<and>
     (\<exists>i. mm_enbInfo (ep_mme s) (en_cellId e) = Some i \<and> me_s1apSapEnb i = k) \<and>
     sg_enbInfoByCellId (ep_sgw s) (en_cellId e) = Some se \<and>
     pg_ueInfoByImsi (ep_pgw s) imsi = Some r \<and> pg_deref (ep_pgw s) r = Some u \<and>
     unat (sg_teidCount (ep_sgw s)) + length (mu_bearersToBeActivated mu) < 2 ^ 32 \<and>
     length (m_tftMap (pu_tftClassifier u)) + length (mu_bearersToBeActivated mu) \<le> 16 \<and>
     net NMme S11 (mm_sgwS11Addr (ep_mme s)) = Some NSgw \<and>
     net NSgw S11 (mm_mmeS11Addr (ep_mme s)) = Some NMme \<and>
     net NSgw S5c (sg_pgwAddr (ep_sgw s)) = Some NPgw \<and>
     net NPgw S5c (sg_s5Addr (ep_sgw s)) = Some NSgw \<and>
     net NSgw S5u (sg_pgwAddr (ep_sgw s)) = Some NPgw \<and>
     net NPgw S5u (pg_sgwS5Addr (ep_pgw s)) = Some NSgw \<and>
     net NSgw S1u (se_enbAddr se) = Some (NEnb k) \<and>
     net (NEnb k) S1u (en_sgwS1uAddress e) = Some NSgw"

text \<open>The TEID of the j-th bearer of a session, and what the eNB is told about the bearers.\<close>

definition session_teid :: "epc \<Rightarrow> nat \<Rightarrow> u32" where
  "session_teid s j = sg_teidCount (ep_sgw s) + word_of_nat (Suc j)"

definition session_contexts :: "fteid \<Rightarrow> epc \<Rightarrow> mme_ue \<Rightarrow> sgw_enb \<Rightarrow> bearer_context list" where
  "session_contexts g s mu se =
     sgw_contexts se (sg_teidCount (ep_sgw s)) (map (mme_context g) (mu_bearersToBeActivated mu))"

definition session_erabs :: "fteid \<Rightarrow> epc \<Rightarrow> mme_ue \<Rightarrow> sgw_enb \<Rightarrow> erab_setup list" where
  "session_erabs g s mu se =
     map (\<lambda>b. mme_erab (pgw_context_out (pg_s5Addr (ep_pgw s)) b)) (session_contexts g s mu se)"

lemma length_session_contexts [simp]:
  "length (session_contexts g s mu se) = length (mu_bearersToBeActivated mu)"
  by (simp add: session_contexts_def)

lemma session_contexts_nth:
  assumes "j < length (mu_bearersToBeActivated mu)"
  shows "bc_epsBearerId (session_contexts g s mu se ! j) = mb_bearerId (mu_bearersToBeActivated mu ! j)"
    "bc_tft (session_contexts g s mu se ! j) = mb_tft (mu_bearersToBeActivated mu ! j)"
    "bc_bearerLevelQos (session_contexts g s mu se ! j) = mb_bearer (mu_bearersToBeActivated mu ! j)"
    "ctx_teid (session_contexts g s mu se ! j) = session_teid s j"
  using assms
  by (simp_all add: session_contexts_def sgw_contexts_nth ctx_teid_def mme_context_def
      session_teid_def)

text \<open>The four applications and the calls of the RRC when the exchange is over.\<close>

definition session_state ::
  "fteid \<Rightarrow> epc \<Rightarrow> nat \<Rightarrow> u64 \<Rightarrow> u16 \<Rightarrow> nat \<Rightarrow> mme_ue \<Rightarrow> pgw_ue \<Rightarrow> sgw_enb \<Rightarrow> enb \<Rightarrow> epc" where
  "session_state g s k imsi rnti r mu u se e =
     s\<lparr>ep_mme := mm_set imsi (mu\<lparr>mu_cellId := en_cellId e\<rparr>) (ep_mme s),
       ep_sgw := sgw_after_create (mme_request g imsi (en_cellId e) (mm_mmeS11Addr (ep_mme s))
         (mu_bearersToBeActivated mu)) se (ep_sgw s),
       ep_pgw := pg_set r (fold pu_put (session_contexts g s mu se)
         (pu_SetSgwAddr (pg_sgwS5Addr (ep_pgw s)) u)) (ep_pgw s),
       ep_enb := (ep_enb s)(k \<mapsto> enb_bindings rnti (session_erabs g s mu se)
         (e\<lparr>en_imsiRnti := (en_imsiRnti e)(imsi \<mapsto> rnti)\<rparr>))\<rparr>"

lemma mme_effects_call:
  assumes "ep_enb s k = Some e" "enb_recv_s1ap c e = Some (e', map CallRrc cs)"
  shows "mme_effects net [CallEnb k c] s =
     Some (s\<lparr>ep_enb := (ep_enb s)(k \<mapsto> e')\<rparr>, map (Rrc k) cs)"
  using assms by (simp add: enb_effects_rrc)

text \<open>An exchange of four datagrams, one in flight at a time.\<close>

lemma epc_run_4:
  assumes "epc_deliver net g c m1 i1 p1 (s1\<lparr>ep_flight := []\<rparr>) = Some (s2, [])"
    and "epc_deliver net g c m2 i2 p2 (s2\<lparr>ep_flight := []\<rparr>) = Some (s3, [])"
    and "epc_deliver net g c m3 i3 p3 (s3\<lparr>ep_flight := []\<rparr>) = Some (s4, [])"
    and "epc_deliver net g c m4 i4 p4 (s4\<lparr>ep_flight := []\<rparr>) = Some (s5, os)"
    and "ep_flight s1 = [(m1, i1, p1)]" "ep_flight s2 = [(m2, i2, p2)]"
    and "ep_flight s3 = [(m3, i3, p3)]" "ep_flight s4 = [(m4, i4, p4)]" "ep_flight s5 = []"
  shows "epc_run net g c 4 s1 = Some (s5, os)"
  using assms by (simp add: eval_nat_numeral)

lemma attach_run:
  assumes ready: "attach_ready net s k imsi r mu u se e"
  shows "\<exists>s1. epc_attach net g k imsi rnti s = Some (s1, []) \<and>
     epc_run net g' c 4 s1 =
       Some (session_state (fteid_norm g) s k imsi rnti r mu u se e,
         map (Rrc k \<circ> drb_setup rnti) (session_erabs (fteid_norm g) s mu se) @
         [Rrc k (RrcInitialContextSetup rnti)])"
proof -
  let ?g = "fteid_norm g"
  let ?bs = "mu_bearersToBeActivated mu"
  let ?m0 = "mme_request ?g imsi (en_cellId e) (mm_mmeS11Addr (ep_mme s)) ?bs"
  let ?ctxs = "session_contexts ?g s mu se"
  let ?m1 = "sgw_request imsi (en_cellId e) (sg_s5Addr (ep_sgw s)) ?ctxs"
  let ?m2 = "pgw_response (pg_s5Addr (ep_pgw s)) (ucast imsi) ?ctxs"
  let ?m3 = "sgw_response (fteid_norm g') (ucast imsi) (map (pgw_context_out (pg_s5Addr (ep_pgw s))) ?ctxs)"
  note r = ready [unfolded attach_ready_def]
  have bs: "list_all mme_bearer_ok ?bs"
    using r by simp
  have m0: "csq_hwf ?m0"
    by (rule mme_request_hwf [OF fteid_norm_ok bs])
  have ctxs: "list_all bearer_context_ok ?ctxs"
    using m0 sgw_contexts_ok unfolding session_contexts_def csq_hwf_def by simp
  have m1: "csq_hwf ?m1"
    by (rule sgw_request_hwf [OF ctxs])
  have m2: "csp_hwf ?m2"
    by (rule pgw_response_hwf [OF ctxs])
  have m3: "csp_hwf ?m3"
    using m2 by (intro sgw_response_hwf) (auto simp: csp_hwf_def)
  let ?e1 = "e\<lparr>en_imsiRnti := (en_imsiRnti e)(imsi \<mapsto> rnti)\<rparr>"
  let ?mu = "mu\<lparr>mu_cellId := en_cellId e\<rparr>"
  let ?s1 = "s\<lparr>ep_enb := (ep_enb s)(k \<mapsto> ?e1), ep_mme := mm_set imsi ?mu (ep_mme s),
      ep_flight := [(NSgw, S11, csq_Serialize ?m0)]\<rparr>"
  let ?s2 = "?s1\<lparr>ep_sgw := sgw_after_create ?m0 se (ep_sgw s),
      ep_flight := [(NPgw, S5c, csq_Serialize ?m1)]\<rparr>"
  let ?s3 = "?s2\<lparr>ep_pgw := pgw_after_create ?m1 r u (ep_pgw s),
      ep_flight := [(NSgw, S5c, csp_Serialize ?m2)]\<rparr>"
  let ?s4 = "?s3\<lparr>ep_flight := [(NMme, S11, csp_Serialize ?m3)]\<rparr>"
  have 0: "epc_attach net g k imsi rnti s = Some (?s1, [])"
    using r mme_initial_wire [OF _ bs, of "ep_mme s" imsi g imsi rnti "en_cellId e"]
    by (simp add: epc_attach_def enb_DoInitialUeMessage_def mme_recv_s1ap_def Let_def
        epc_send_def route_def send_gtpc_def)
  have 1: "epc_deliver net g' c NSgw S11 (csq_Serialize ?m0) (?s1\<lparr>ep_flight := []\<rparr>) = Some (?s2, [])"
    using r sgw_create_wire [OF m0 _ _ , of "ep_sgw s" se c]
    by (simp add: epc_deliver_def epc_send_def route_def send_gtpc_def session_contexts_def)
  have 2: "epc_deliver net g' c NPgw S5c (csq_Serialize ?m1) (?s2\<lparr>ep_flight := []\<rparr>) = Some (?s3, [])"
    using r pgw_create_wire [OF m1, of "ep_pgw s" r u]
    by (simp add: epc_deliver_def epc_send_def route_def send_gtpc_def)
  have 3: "epc_deliver net g' c NSgw S5c (csp_Serialize ?m2) (?s3\<lparr>ep_flight := []\<rparr>) = Some (?s4, [])"
    using r sgw_response_wire [OF m2, of "sgw_after_create ?m0 se (ep_sgw s)"
        "\<lparr>ft_interfaceType = S11_MME_GTPC, ft_addr = mm_mmeS11Addr (ep_mme s), ft_teid = ucast imsi\<rparr>" g']
    by (simp add: epc_deliver_def epc_send_def route_def send_gtpc_def sgw_after_create_def)
  have 4: "epc_deliver net g' c NMme S11 (csp_Serialize ?m3) (?s4\<lparr>ep_flight := []\<rparr>) =
      Some (session_state ?g s k imsi rnti r mu u se e,
        map (Rrc k \<circ> drb_setup rnti) (session_erabs ?g s mu se) @
         [Rrc k (RrcInitialContextSetup rnti)])"
  proof -
    obtain i where i: "mm_enbInfo (ep_mme s) (en_cellId e) = Some i" "me_s1apSapEnb i = k"
      using r by blast
    have erabs: "map mme_erab (csp_bearerContexts ?m3) = session_erabs ?g s mu se"
      by (simp add: session_erabs_def comp_def)
    have mme: "mme_RecvFromS11Socket c (csp_Serialize ?m3) (mm_set imsi ?mu (ep_mme s)) =
        Some (mm_set imsi ?mu (ep_mme s), [CallEnb k
          (InitialContextSetupRequest imsi (mu_enbUeS1Id mu) (session_erabs ?g s mu se))])"
      using r i erabs mme_response_wire [OF m3, of "mm_set imsi ?mu (ep_mme s)" ?mu i c]
      by (simp add: mm_set_def)
    have enb: "enb_recv_s1ap
        (InitialContextSetupRequest imsi (mu_enbUeS1Id mu) (session_erabs ?g s mu se)) ?e1 =
        Some (enb_bindings rnti (session_erabs ?g s mu se) ?e1,
          map CallRrc (map (drb_setup rnti) (session_erabs ?g s mu se) @
            [RrcInitialContextSetup rnti]))"
      using enb_initial_context_setup [of ?e1 imsi rnti] by (simp add: comp_def)
    have "epc_deliver net g' c NMme S11 (csp_Serialize ?m3) (?s4\<lparr>ep_flight := []\<rparr>) =
        mme_effects net [CallEnb k (InitialContextSetupRequest imsi (mu_enbUeS1Id mu)
          (session_erabs ?g s mu se))]
          ((?s4\<lparr>ep_flight := []\<rparr>)\<lparr>ep_mme := mm_set imsi ?mu (ep_mme s)\<rparr>)"
      using mme by (simp add: epc_deliver_def del: mme_effects.simps)
    also have "\<dots> = Some ((?s4\<lparr>ep_flight := [], ep_mme := mm_set imsi ?mu (ep_mme s)\<rparr>)
          \<lparr>ep_enb := (ep_enb ?s4)(k \<mapsto> enb_bindings rnti (session_erabs ?g s mu se) ?e1)\<rparr>,
        map (Rrc k) (map (drb_setup rnti) (session_erabs ?g s mu se) @
          [RrcInitialContextSetup rnti]))"
      by (subst mme_effects_call [OF _ enb]) simp_all
    also have "(?s4\<lparr>ep_flight := [], ep_mme := mm_set imsi ?mu (ep_mme s)\<rparr>)
          \<lparr>ep_enb := (ep_enb ?s4)(k \<mapsto> enb_bindings rnti (session_erabs ?g s mu se) ?e1)\<rparr> =
        session_state ?g s k imsi rnti r mu u se e"
      using r by (simp add: session_state_def pgw_after_create_def)
    finally show ?thesis
      by (simp del: fun_upd_apply)
  qed
  show ?thesis
    using r by (intro exI [of _ ?s1] conjI 0 epc_run_4 [OF 1 2 3 4]) (simp_all add: session_state_def)
qed

section \<open>The paths of a session\<close>

lemma session_contexts_distinct:
  assumes "attach_ready net s k imsi r mu u se e"
  shows "distinct (map ctx_teid (session_contexts g s mu se))"
    "distinct (map bc_epsBearerId (session_contexts g s mu se))"
proof -
  show "distinct (map ctx_teid (session_contexts g s mu se))"
    using assms by (auto simp: session_contexts_def attach_ready_def intro: sgw_contexts_distinct)
  have "map bc_epsBearerId (session_contexts g s mu se) = map mb_bearerId (mu_bearersToBeActivated mu)"
    by (rule nth_equalityI) (auto simp: session_contexts_nth)
  then show "distinct (map bc_epsBearerId (session_contexts g s mu se))"
    using assms by (simp add: attach_ready_def)
qed

lemma session_pgw:
  assumes ready: "attach_ready net s k imsi r mu u se e"
    and j: "j < length (mu_bearersToBeActivated mu)"
  shows "\<exists>u'. pg_deref (ep_pgw (session_state g s k imsi rnti r mu u se e)) r = Some u' \<and>
     pu_sgwAddr u' = pg_sgwS5Addr (ep_pgw s) \<and>
     pu_teidByBearerId u' (mb_bearerId (mu_bearersToBeActivated mu ! j)) = Some (session_teid s j) \<and>
     map_of (m_tftMap (pu_tftClassifier u')) (session_teid s j) =
       Some (mb_tft (mu_bearersToBeActivated mu ! j))"
proof -
  let ?ctxs = "session_contexts g s mu se"
  let ?u = "pu_SetSgwAddr (pg_sgwS5Addr (ep_pgw s)) u"
  have c: "?ctxs ! j \<in> set ?ctxs"
    using j by simp
  note d = session_contexts_distinct [OF ready, of g]
  have "pu_teidByBearerId (fold pu_put ?ctxs ?u) (bc_epsBearerId (?ctxs ! j)) =
      Some (ctx_teid (?ctxs ! j))"
    unfolding pu_put_fields by (rule fold_upd_in [OF d(2) c])
  moreover have "map_of (m_tftMap (pu_tftClassifier (fold pu_put ?ctxs ?u))) (ctx_teid (?ctxs ! j)) =
      Some (bc_tft (?ctxs ! j))"
    unfolding pu_put_fields by (rule fold_upd_in [OF d(1) c])
  moreover have "pg_deref (ep_pgw (session_state g s k imsi rnti r mu u se e)) r =
      Some (fold pu_put ?ctxs ?u)"
    using ready by (auto simp: session_state_def pg_deref_def pg_set_def attach_ready_def
        split: if_splits)
  ultimately show ?thesis
    using session_contexts_nth [OF j] by (simp add: pu_SetSgwAddr_def del: pu_put_fields(2,3))
qed

lemma session_enb:
  assumes ready: "attach_ready net s k imsi r mu u se e"
    and j: "j < length (mu_bearersToBeActivated mu)"
  shows "en_teidRbid (enb_bindings rnti (session_erabs g s mu se) e') (session_teid s j) =
      Some (rnti, mb_bearerId (mu_bearersToBeActivated mu ! j)) \<and>
    enb_teid (enb_bindings rnti (session_erabs g s mu se) e') rnti
      (mb_bearerId (mu_bearersToBeActivated mu ! j)) = Some (session_teid s j)"
proof -
  let ?es = "session_erabs g s mu se"
  have len: "length ?es = length (mu_bearersToBeActivated mu)"
    by (simp add: session_erabs_def)
  have f: "map es_sgwTeid ?es = map ctx_teid (session_contexts g s mu se)"
    "map es_erabId ?es = map bc_epsBearerId (session_contexts g s mu se)"
    by (simp_all add: session_erabs_def mme_erab_def pgw_context_out_def ctx_teid_def)
  have m: "?es ! j \<in> set ?es"
    using j len by simp
  have "es_sgwTeid (?es ! j) = session_teid s j"
    "es_erabId (?es ! j) = mb_bearerId (mu_bearersToBeActivated mu ! j)"
    using j f [THEN arg_cong [where f = "\<lambda>l. l ! j"]] len session_contexts_nth [OF j]
    by simp_all
  then show ?thesis
    using session_contexts_distinct [OF ready, of g] f
      fold_upd_in [of es_sgwTeid ?es "?es ! j" "\<lambda>e. (rnti, es_erabId e)" "en_teidRbid e'"]
      fold_upd_in [of es_erabId ?es "?es ! j" es_sgwTeid "enb_teid e' rnti"] m
    by (simp add: enb_bindings_teidRbid enb_bindings_teid)
qed

lemma session_bearer_path:
  assumes ready: "attach_ready net s k imsi r mu u se e"
    and j: "j < length (mu_bearersToBeActivated mu)"
  shows "bearer_path net (session_state g s k imsi rnti r mu u se e) r k rnti
     (mb_bearerId (mu_bearersToBeActivated mu ! j)) (session_teid s j)"
proof -
  let ?fin = "session_state g s k imsi rnti r mu u se e"
  note rd = ready [unfolded attach_ready_def]
  have n: "unat (sg_teidCount (ep_sgw s)) + length (mu_bearersToBeActivated mu) < 2 ^ 32"
    using rd by blast
  have "unat (session_teid s j) = unat (sg_teidCount (ep_sgw s)) + Suc j"
    unfolding session_teid_def by (rule teid_unat [OF n j])
  then have "session_teid s j \<noteq> 0"
    by auto
  moreover obtain u' where "pg_deref (ep_pgw ?fin) r = Some u'"
      "pu_sgwAddr u' = pg_sgwS5Addr (ep_pgw s)"
      "pu_teidByBearerId u' (mb_bearerId (mu_bearersToBeActivated mu ! j)) = Some (session_teid s j)"
    using session_pgw [OF ready j] by blast
  moreover have "sg_enbByTeid (ep_sgw ?fin) (session_teid s j) = Some (se_enbAddr se)"
    using sgw_teids_in [of "sg_teidCount (ep_sgw s)"
        "map (mme_context g) (mu_bearersToBeActivated mu)" j] n j
    by (simp add: session_state_def sgw_after_create_def session_teid_def)
  moreover have "sg_pgwAddr (ep_sgw ?fin) = sg_pgwAddr (ep_sgw s)"
    by (simp add: session_state_def sgw_after_create_def)
  moreover have "ep_enb ?fin k = Some (enb_bindings rnti (session_erabs g s mu se)
      (e\<lparr>en_imsiRnti := (en_imsiRnti e)(imsi \<mapsto> rnti)\<rparr>))"
    by (simp add: session_state_def)
  ultimately show ?thesis
    using rd session_enb [OF ready j] by (auto simp: bearer_path_def)
qed

lemma session_drb:
  assumes "j < length (mu_bearersToBeActivated mu)"
  shows "drb_setup rnti (session_erabs g s mu se ! j) =
    DataRadioBearerSetup rnti (mb_bearer (mu_bearersToBeActivated mu ! j))
      (mb_bearerId (mu_bearersToBeActivated mu ! j)) (session_teid s j)"
  using assms session_contexts_nth [OF assms, of g s se]
  by (simp add: session_erabs_def drb_setup_def mme_erab_def pgw_context_out_def ctx_teid_def)

lemma session_drbs:
  "map (Rrc k \<circ> drb_setup rnti) (session_erabs g s mu se) =
    map (\<lambda>j. Rrc k (DataRadioBearerSetup rnti (mb_bearer (mu_bearersToBeActivated mu ! j))
      (mb_bearerId (mu_bearersToBeActivated mu ! j)) (session_teid s j)))
      [0..<length (mu_bearersToBeActivated mu)]"
proof -
  have "length (session_erabs g s mu se) = length (mu_bearersToBeActivated mu)"
    by (simp add: session_erabs_def)
  then show ?thesis
    by (intro nth_equalityI) (simp_all add: session_drb)
qed

section \<open>Packets of a session\<close>

text \<open>The object of the UE in the PGW when the session is set up.\<close>

definition session_ue :: "fteid \<Rightarrow> epc \<Rightarrow> mme_ue \<Rightarrow> pgw_ue \<Rightarrow> sgw_enb \<Rightarrow> pgw_ue" where
  "session_ue g s mu u se =
     fold pu_put (session_contexts g s mu se) (pu_SetSgwAddr (pg_sgwS5Addr (ep_pgw s)) u)"

lemma session_state_deref:
  assumes "attach_ready net s k imsi r mu u se e"
  shows "pg_deref (ep_pgw (session_state g s k imsi rnti r mu u se e)) r =
    Some (session_ue g s mu u se)"
  using assms by (auto simp: session_state_def session_ue_def pg_deref_def pg_set_def attach_ready_def
      split: if_splits)

lemma fold_upd_dom: "fold (\<lambda>x m. m(f x \<mapsto> v x)) xs m i = Some y \<Longrightarrow>
    m i = Some y \<or> (\<exists>x\<in>set xs. i = f x \<and> y = v x)"
proof (induction xs arbitrary: m)
  case (Cons x xs)
  then have "(m(f x \<mapsto> v x)) i = Some y \<or> (\<exists>x\<in>set xs. i = f x \<and> y = v x)"
    by (simp del: fun_upd_apply)
  then show ?case
    by (auto split: if_splits)
qed simp

lemma smap_wf_AddBearers:
  "smap_wf (m_tftMap (pu_tftClassifier u)) \<Longrightarrow>
     smap_wf (m_tftMap (pu_tftClassifier (fold pu_put bs u)))"
  by (induction bs arbitrary: u)
     (simp_all add: pu_put_def classifier_put_def)

lemma AddBearers_fragments:
  "m_classifiedIpv4Fragments (pu_tftClassifier (fold pu_put bs u)) =
     m_classifiedIpv4Fragments (pu_tftClassifier u)"
  by (induction bs arbitrary: u)
     (simp_all add: pu_put_def classifier_put_def)

text \<open>With an empty classifier before, it has exactly the templates of the session.\<close>

lemma session_ue_tfts:
  assumes "m_tftMap (pu_tftClassifier u) = []"
    and "map_of (m_tftMap (pu_tftClassifier (session_ue g s mu u se))) t = Some f"
  shows "\<exists>j<length (mu_bearersToBeActivated mu). t = session_teid s j \<and>
    f = mb_tft (mu_bearersToBeActivated mu ! j)"
proof -
  let ?cs = "session_contexts g s mu se"
  obtain b where "b \<in> set ?cs" "t = ctx_teid b" "f = bc_tft b"
    using assms fold_upd_dom [of ctx_teid bc_tft ?cs Map.empty t f]
    by (auto simp: session_ue_def pu_SetSgwAddr_def)
  then obtain j where "j < length ?cs" "t = ctx_teid (?cs ! j)" "f = bc_tft (?cs ! j)"
    by (auto simp: in_set_conv_nth)
  then show ?thesis
    using session_contexts_nth [of j mu g s se] by auto
qed

lemma session_teid_less:
  assumes "attach_ready net s k imsi r mu u se e"
    and "i < length (mu_bearersToBeActivated mu)" "j < length (mu_bearersToBeActivated mu)"
  shows "session_teid s i \<le> session_teid s j \<longleftrightarrow> i \<le> j"
  using teid_unat [of "sg_teidCount (ep_sgw s)" "length (mu_bearersToBeActivated mu)"] assms
  by (simp add: session_teid_def word_le_nat_alt attach_ready_def)

text \<open>The flow of a packet depends on the recorded fragments only.\<close>

lemma classify_ports4_tftMap:
  assumes "classify_ports4 h q d c = Some (ports, c')"
    and "m_classifiedIpv4Fragments c2 = m_classifiedIpv4Fragments c"
  shows "\<exists>c2'. classify_ports4 h q d c2 = Some (ports, c2') \<and> m_tftMap c2' = m_tftMap c2"
proof (cases "ip_fragmentOffset h = 0")
  case True
  then show ?thesis
    using assms unfolding classify_ports4_def Let_def if_P [OF True]
    by (cases "ports_of (ip_protocol h) (ip_payloadSize h \<ge> 8) (ip_payloadSize h \<ge> 20) d q")
       (simp_all split: option.splits)
next
  case False
  then show ?thesis
    using assms unfolding classify_ports4_def Let_def if_not_P [OF False]
    by (simp split: option.splits)
qed

lemma flow4_tftMap:
  assumes "flow4 p d c = Some (fl, c')"
    and "m_classifiedIpv4Fragments c2 = m_classifiedIpv4Fragments c"
  shows "\<exists>c2'. flow4 p d c2 = Some (fl, c2') \<and> m_tftMap c2' = m_tftMap c2"
proof -
  obtain h q ports where q: "RemoveHeader ipv4_Deserialize p = Some (h, q)"
    "classify_ports4 h q d c = Some (ports, c')"
    using assms(1) by (auto simp: flow4_def split: option.splits prod.splits)
  from classify_ports4_tftMap [OF q(2) assms(2)] show ?thesis
    using assms(1) q by (auto simp: flow4_def split: prod.splits)
qed

text \<open>The packet goes to the last bearer of the session whose template carries it.\<close>

lemma session_classify:
  assumes ready: "attach_ready net s k imsi r mu u se e"
    and empty: "m_tftMap (pu_tftClassifier u) = []"
    and fl: "flow4 p DOWNLINK (pu_tftClassifier u) = Some (fl, c)"
    and j: "j < length (mu_bearersToBeActivated mu)"
      "flow_matches4 DOWNLINK fl (mb_tft (mu_bearersToBeActivated mu ! j))"
    and last: "\<forall>i<length (mu_bearersToBeActivated mu). j < i \<longrightarrow>
      \<not> flow_matches4 DOWNLINK fl (mb_tft (mu_bearersToBeActivated mu ! i))"
  shows "\<exists>c'. Classify p DOWNLINK IPV4_PROT (pu_tftClassifier (session_ue g s mu u se)) =
    Some (session_teid s j, c')"
proof -
  let ?c = "pu_tftClassifier (session_ue g s mu u se)"
  let ?P = "flow_matches4 DOWNLINK fl"
  have wf: "smap_wf (m_tftMap ?c)"
    using smap_wf_AddBearers empty by (simp add: session_ue_def pu_SetSgwAddr_def)
  obtain c' where c': "flow4 p DOWNLINK ?c = Some (fl, c')" "m_tftMap c' = m_tftMap ?c"
    using flow4_tftMap [OF fl, of ?c]
    by (auto simp: session_ue_def AddBearers_fragments pu_SetSgwAddr_def)
  have at: "map_of (m_tftMap ?c) (session_teid s j) = Some (mb_tft (mu_bearersToBeActivated mu ! j))"
    using session_pgw [OF ready j(1), of g] session_state_deref [OF ready] by auto
  have "i \<le> session_teid s j" if m: "map_of (m_tftMap ?c) i = Some f" "?P f" for i f
  proof -
    obtain l where "l < length (mu_bearersToBeActivated mu)" "i = session_teid s l"
      "f = mb_tft (mu_bearersToBeActivated mu ! l)"
      using session_ue_tfts [OF empty m(1)] by blast
    then show ?thesis
      using last m(2) session_teid_less [OF ready _ j(1), of l] by (auto simp: not_less)
  qed
  moreover have "session_teid s j \<le> search_tft ?P (rev (m_tftMap ?c)) \<and>
      (\<exists>f. map_of (m_tftMap ?c) (search_tft ?P (rev (m_tftMap ?c))) = Some f \<and> ?P f)"
    using search_tft_best [OF wf, of ?P] at j(2) unfolding is_best_tft_def by (metis (no_types))
  ultimately have "search_tft ?P (rev (m_tftMap ?c)) = session_teid s j"
    by (meson antisym)
  with c' show ?thesis
    by (simp add: Classify_def)
qed

text \<open>The PGW sends a classified packet into the tunnel of its bearer.\<close>

definition addressed_to :: "pgw \<Rightarrow> u16 \<Rightarrow> bytes \<Rightarrow> nat \<Rightarrow> bool" where
  "addressed_to s n p r \<longleftrightarrow>
     n = IPV4_PROT \<and> (\<exists>h. PeekHeader ipv4_Deserialize p = Some h \<and>
        pg_ueInfoByAddr s (ip_destination h) = Some r) \<or>
     n = IPV6_PROT \<and> (\<exists>h. PeekHeader ipv6_Deserialize p = Some h \<and>
        pg_ueInfoByAddr6 s (ip6_destination h) = Some r)"

lemma downlink_delivery:
  assumes path: "bearer_path net s r k rnti bid teid" and "ep_flight s = []"
    and "addressed_to (ep_pgw s) n p r" "ip_proto p = Some n"
    and "pg_deref (ep_pgw s) r = Some u"
    and "Classify p DOWNLINK n (pu_tftClassifier u) = Some (teid, c)"
  shows "\<exists>s1 s2. epc_downlink net p n s = Some (s1, []) \<and>
    epc_run net g c' 2 s1 = Some (s2, [Radio k n p (rnti, bid)]) \<and> ep_flight s2 = []"
proof -
  obtain q where q: "send_gtpu S5u (pu_sgwAddr u) teid p =
      Some (SendTo S5u (pu_sgwAddr u) gtpuUdpPort q)" "gtpu_decap q = Some (teid, p)"
    using send_gtpu_Some by blast
  let ?u = "u\<lparr>pu_tftClassifier := c\<rparr>"
  let ?s = "s\<lparr>ep_pgw := pg_set r ?u (ep_pgw s), ep_flight := [(NSgw, S5u, q)]\<rparr>"
  have path': "net NPgw S5u (pu_sgwAddr u) = Some NSgw" "teid \<noteq> 0"
    using path assms(5) by (auto simp: bearer_path_def)
  have "IPV6_PROT \<noteq> IPV4_PROT"
    by (simp add: prot_defs)
  then have "epc_downlink net p n s = Some (?s, [])"
    using assms(2,3,5,6) q(1) path'
    by (auto simp: epc_downlink_def pgw_RecvFromTunDevice_def addressed_to_def pgw_downlink_def
        pu_Classify_def Let_def pgw_SendToS5uSocket_def epc_send_def route_def)
  moreover have "bearer_path net ?s r k rnti bid teid"
    using path assms(5) by (auto simp: bearer_path_def pg_deref_def pg_set_def split: if_splits)
  ultimately show ?thesis
    using downlink_through_tunnel [of net ?s r k rnti bid teid q p n g c'] q(2) assms(4) by auto
qed

end
