(* ===== verification/EpcSwitch.thy ===== *)
theory EpcSwitch
  imports EpcSession
begin

text \<open>
  The path switch of a handover: the target eNB announces the bearers of a UE, and the SGW
  redirects their TEIDs to it.
\<close>

section \<open>The handlers on well-formed messages\<close>

definition switch_message :: "u64 \<Rightarrow> u16 \<Rightarrow> bearer_modify list \<Rightarrow> modify_bearer_request" where
  "switch_message imsi gci bs =
     (let msg = mbq_new\<lparr>mbq_imsi := imsi, mbq_uliEcgi := ucast gci, mbq_bearerContexts := bs\<rparr>
      in msg\<lparr>mbq_header := gtpc_finish (ucast imsi) (mbq_GetMessageSize msg) (mbq_header msg)\<rparr>)"

lemma switch_message_fields [simp]:
  "mbq_imsi (switch_message imsi gci bs) = imsi"
  "mbq_uliEcgi (switch_message imsi gci bs) = ucast gci"
  "mbq_bearerContexts (switch_message imsi gci bs) = bs"
  "gh_messageType (mbq_header (switch_message imsi gci bs)) = MSG_ModifyBearerRequest"
  by (simp_all add: switch_message_def Let_def mbq_new_def)

lemma switch_message_hwf: "list_all bearer_modify_ok bs \<Longrightarrow> mbq_hwf (switch_message imsi gci bs)"
  by (simp add: switch_message_def Let_def mbq_hwf_def mbq_new_def)

definition switch_response :: "u32 \<Rightarrow> modify_bearer_response" where
  "switch_response teid =
     (let out = mbp_new\<lparr>mbp_cause := REQUEST_ACCEPTED\<rparr>
      in out\<lparr>mbp_header := gtpc_finish teid (mbp_GetMessageSize out) (mbp_header out)\<rparr>)"

lemma switch_response_fields [simp]:
  "gh_teid (mbp_header (switch_response t)) = t"
  "gh_messageType (mbp_header (switch_response t)) = MSG_ModifyBearerResponse"
  "mbp_hwf (switch_response t)"
  "mbp_cause (switch_response t) = REQUEST_ACCEPTED"
  by (simp_all add: switch_response_def Let_def mbp_new_def mbp_hwf_def)

lemma mme_switch_wire:
  assumes "mm_ueInfo s imsi = Some u" "list_all bearer_modify_ok (map mme_modify_context erabs)"
  shows "mme_DoPathSwitchRequest x imsi gci erabs s =
     Some (mm_set imsi (u\<lparr>mu_cellId := gci, mu_enbUeS1Id := ucast x\<rparr>) s,
       [MmeSend (send_gtpc S11 (mm_sgwS11Addr s)
         (mbq_Serialize (switch_message imsi gci (map mme_modify_context erabs))))])"
  using assms mbq_msg.gtpc_packet_Some [OF switch_message_hwf [OF assms(2)], of imsi gci]
  by (simp add: mme_DoPathSwitchRequest_def switch_message_def Let_def mm_set_def)

lemma sgw_modify_bearers_eq:
  assumes "\<forall>b\<in>set bs. sg_enbByTeid s (ft_teid (bm_fteid b)) \<noteq> None"
    and "\<forall>b\<in>set bs. ft_interfaceType (bm_fteid b) = S1U_ENB_GTPU"
  shows "sgw_modify_bearers bs s = Some (s\<lparr>sg_enbByTeid :=
     fold (\<lambda>b m. m(ft_teid (bm_fteid b) \<mapsto> ft_addr (bm_fteid b))) bs (sg_enbByTeid s)\<rparr>)"
  using assms by (induction bs arbitrary: s) (auto simp: Let_def split: option.splits)

lemma sgw_switch_wire:
  assumes "mbq_hwf (switch_message imsi gci bs)"
    and "\<forall>b\<in>set bs. sg_enbByTeid s (ft_teid (bm_fteid b)) \<noteq> None"
    and "sg_enbInfoByCellId s gci \<noteq> None"
    and "\<forall>b\<in>set bs. ft_interfaceType (bm_fteid b) = S1U_ENB_GTPU"
  shows "sgw_RecvFromS11Socket c (mbq_Serialize (switch_message imsi gci bs)) s =
     Some (s\<lparr>sg_enbByTeid :=
         fold (\<lambda>b m. m(ft_teid (bm_fteid b) \<mapsto> ft_addr (bm_fteid b))) bs (sg_enbByTeid s)\<rparr>,
       [send_gtpc S5c (sg_pgwAddr s) (mbq_Serialize (switch_message imsi gci []))])"
  using mbq_msg.wire [OF assms(1)] assms(3) sgw_modify_bearers_eq [OF assms(2,4)]
    mbq_msg.gtpc_packet_Some [OF switch_message_hwf [of "[]"], of imsi gci]
  by (auto simp: sgw_RecvFromS11Socket_def sgw_DoRecvModifyBearerRequest_def msg_defs
      Let_def switch_message_def mbq_new_def)

lemma pgw_switch_wire:
  assumes "pg_ueInfoByImsi s imsi = Some r" "pg_deref s r = Some u"
  shows "pgw_RecvFromS5cSocket (mbq_Serialize (switch_message imsi gci [])) s =
     Some (pg_set r (pu_SetSgwAddr (pg_sgwS5Addr s) u) s,
       [PgwSend (send_gtpc S5c (pg_sgwS5Addr s) (mbp_Serialize (switch_response (ucast imsi))))])"
  using assms mbq_msg.wire [OF switch_message_hwf [of "[]"]]
    mbp_msg.gtpc_packet_Some [OF switch_response_fields(3), of "ucast imsi"]
  by (simp add: pgw_RecvFromS5cSocket_def pgw_DoRecvModifyBearerRequest_def msg_defs Let_def
      switch_response_def)

lemma sgw_switch_response_wire:
  "sgw_RecvFromS5cSocket g (mbp_Serialize (switch_response t)) s =
     Some (s, [send_gtpc S11 (sg_mmeS11Addr s) (mbp_Serialize (switch_response t))])"
  using mbp_msg.wire [OF switch_response_fields(3), of t]
  by (simp add: sgw_RecvFromS5cSocket_def sgw_DoRecvModifyBearerResponse_def msg_defs Let_def)
     (simp add: switch_response_def Let_def)

lemma mme_switch_response_wire:
  assumes "mm_ueInfo s (ucast t) = Some u" "mm_enbInfo s (mu_cellId u) = Some e"
  shows "mme_RecvFromS11Socket c (mbp_Serialize (switch_response t)) s =
     Some (s, [CallEnb (me_s1apSapEnb e)
       (PathSwitchRequestAcknowledge (ucast (mu_enbUeS1Id u)) (mu_mmeUeS1Id u) (mu_cellId u))])"
  using assms mbp_msg.wire [OF switch_response_fields(3), of t]
  by (simp add: mme_RecvFromS11Socket_def mme_DoRecvModifyBearerResponse_def msg_defs Let_def)

section \<open>The exchange\<close>

definition switch_ready ::
  "routing \<Rightarrow> epc \<Rightarrow> nat \<Rightarrow> path_switch \<Rightarrow> nat \<Rightarrow> mme_ue \<Rightarrow> pgw_ue \<Rightarrow> enb \<Rightarrow> bool" where
  "switch_ready net s k ps r mu u e \<longleftrightarrow>
     ep_flight s = [] \<and>
     mm_ueInfo (ep_mme s) (ucast (ps_mmeUeS1Id ps)) = Some mu \<and>
     mu_mmeUeS1Id mu = ucast (ps_mmeUeS1Id ps) \<and>
     ep_enb s k = Some e \<and>
     (\<exists>i. mm_enbInfo (ep_mme s) (ps_cellId ps) = Some i \<and> me_s1apSapEnb i = k) \<and>
     sg_enbInfoByCellId (ep_sgw s) (ps_cellId ps) \<noteq> None \<and>
     pg_ueInfoByImsi (ep_pgw s) (ucast (ps_mmeUeS1Id ps)) = Some r \<and>
     pg_deref (ep_pgw s) r = Some u \<and>
     (\<forall>(bid, teid)\<in>set (ps_bearers ps). ebi_ok bid \<and> sg_enbByTeid (ep_sgw s) teid \<noteq> None) \<and>
     distinct (map fst (ps_bearers ps)) \<and> distinct (map snd (ps_bearers ps)) \<and>
     net NMme S11 (mm_sgwS11Addr (ep_mme s)) = Some NSgw \<and>
     net NSgw S11 (sg_mmeS11Addr (ep_sgw s)) = Some NMme \<and>
     net NSgw S5c (sg_pgwAddr (ep_sgw s)) = Some NPgw \<and>
     net NPgw S5c (pg_sgwS5Addr (ep_pgw s)) = Some NSgw \<and>
     net NPgw S5u (pg_sgwS5Addr (ep_pgw s)) = Some NSgw \<and>
     net NSgw S1u (en_enbS1uAddress e) = Some (NEnb k) \<and>
     net (NEnb k) S1u (en_sgwS1uAddress e) = Some NSgw"

definition switch_enb :: "path_switch \<Rightarrow> enb \<Rightarrow> enb" where
  "switch_enb ps e = fold (\<lambda>(bid, teid). enb_bind (ps_rnti ps) bid teid) (ps_bearers ps)
     (e\<lparr>en_imsiRnti := (en_imsiRnti e)(ucast (ps_mmeUeS1Id ps) \<mapsto> ps_rnti ps)\<rparr>)"

definition switch_contexts :: "path_switch \<Rightarrow> enb \<Rightarrow> bearer_modify list" where
  "switch_contexts ps e =
     map mme_modify_context (map (enb_erab_switched (en_enbS1uAddress e)) (ps_bearers ps))"

definition switch_state :: "epc \<Rightarrow> nat \<Rightarrow> path_switch \<Rightarrow> nat \<Rightarrow> mme_ue \<Rightarrow> pgw_ue \<Rightarrow> enb \<Rightarrow> epc" where
  "switch_state s k ps r mu u e =
     s\<lparr>ep_mme := mm_set (ucast (ps_mmeUeS1Id ps))
         (mu\<lparr>mu_cellId := ps_cellId ps, mu_enbUeS1Id := ps_rnti ps\<rparr>) (ep_mme s),
       ep_sgw := (ep_sgw s)\<lparr>sg_enbByTeid :=
         fold (\<lambda>b m. m(ft_teid (bm_fteid b) \<mapsto> ft_addr (bm_fteid b))) (switch_contexts ps e)
           (sg_enbByTeid (ep_sgw s))\<rparr>,
       ep_pgw := pg_set r (pu_SetSgwAddr (pg_sgwS5Addr (ep_pgw s)) u) (ep_pgw s),
       ep_enb := (ep_enb s)(k \<mapsto> switch_enb ps e)\<rparr>"

lemma bid_u16 [simp]: "(ucast (ucast (b :: u8) :: u16) :: u8) = b"
  by (rule bit_word_eqI) (auto simp: bit_simps)

lemma rnti_u64 [simp]: "(ucast (ucast (b :: u16) :: u64) :: u16) = b"
  by (rule bit_word_eqI) (auto simp: bit_simps)

lemma imsi_u64 [simp]: "(ucast (ucast (b :: u32) :: u64) :: u32) = b"
  by (rule bit_word_eqI) (auto simp: bit_simps)

lemma switch_contexts_map:
  "switch_contexts ps e = map (\<lambda>b. \<lparr>bm_fteid = \<lparr>ft_interfaceType = S1U_ENB_GTPU,
     ft_addr = en_enbS1uAddress e, ft_teid = snd b\<rparr>, bm_epsBearerId = fst b\<rparr>) (ps_bearers ps)"
  by (simp add: switch_contexts_def mme_modify_context_def enb_erab_switched_def comp_def)

lemma switch_enb_imsiRnti [simp]:
  "en_imsiRnti (switch_enb ps e) (ucast (ps_mmeUeS1Id ps)) = Some (ps_rnti ps)"
proof -
  have "en_imsiRnti (fold (\<lambda>(bid, teid). enb_bind rnti bid teid) bs t) = en_imsiRnti t" for rnti bs t
    by (induction bs arbitrary: t) (auto simp: enb_bind_def Let_def)
  then show ?thesis
    by (simp add: switch_enb_def)
qed

lemma switch_run:
  assumes ready: "switch_ready net s k ps r mu u e"
  shows "\<exists>s1. epc_path_switch net g k ps s = Some (s1, []) \<and>
     epc_run net g' c 4 s1 =
       Some (switch_state s k ps r mu u e, [Rrc k (RrcPathSwitchAck (ps_rnti ps))])"
proof -
  let ?imsi = "ucast (ps_mmeUeS1Id ps) :: u64"
  let ?bs = "switch_contexts ps e"
  let ?mu = "mu\<lparr>mu_cellId := ps_cellId ps, mu_enbUeS1Id := ps_rnti ps\<rparr>"
  let ?sgw = "(ep_sgw s)\<lparr>sg_enbByTeid :=
         fold (\<lambda>b m. m(ft_teid (bm_fteid b) \<mapsto> ft_addr (bm_fteid b))) ?bs (sg_enbByTeid (ep_sgw s))\<rparr>"
  let ?pgw = "pg_set r (pu_SetSgwAddr (pg_sgwS5Addr (ep_pgw s)) u) (ep_pgw s)"
  let ?p0 = "mbq_Serialize (switch_message ?imsi (ps_cellId ps) ?bs)"
  let ?p1 = "mbq_Serialize (switch_message ?imsi (ps_cellId ps) [])"
  let ?p2 = "mbp_Serialize (switch_response (ps_mmeUeS1Id ps))"
  note r = ready [unfolded switch_ready_def]
  have bs: "list_all bearer_modify_ok ?bs"
    using r by (auto simp: switch_contexts_map list_all_iff bearer_modify_ok_def)
  let ?s1 = "s\<lparr>ep_enb := (ep_enb s)(k \<mapsto> switch_enb ps e), ep_mme := mm_set ?imsi ?mu (ep_mme s),
      ep_flight := [(NSgw, S11, ?p0)]\<rparr>"
  let ?s2 = "?s1\<lparr>ep_sgw := ?sgw, ep_flight := [(NPgw, S5c, ?p1)]\<rparr>"
  let ?s3 = "?s2\<lparr>ep_pgw := ?pgw, ep_flight := [(NSgw, S5c, ?p2)]\<rparr>"
  let ?s4 = "?s3\<lparr>ep_flight := [(NMme, S11, ?p2)]\<rparr>"
  let ?fin = "switch_state s k ps r mu u e"
  let ?outs = "[Rrc k (RrcPathSwitchAck (ps_rnti ps))]"
  have 0: "epc_path_switch net g k ps s = Some (?s1, [])"
    using r mme_switch_wire [of "ep_mme s" ?imsi mu
        "map (enb_erab_switched (en_enbS1uAddress e)) (ps_bearers ps)" "ucast (ps_rnti ps)" "ps_cellId ps"]
      bs [unfolded switch_contexts_def]
    by (simp add: epc_path_switch_def enb_DoPathSwitchRequest_def mme_recv_s1ap_def Let_def
        epc_send_def route_def send_gtpc_def switch_enb_def switch_contexts_def del: map_map)
  have 1: "epc_deliver net g' c NSgw S11 ?p0 (?s1\<lparr>ep_flight := []\<rparr>) = Some (?s2, [])"
  proof -
    have "\<forall>b\<in>set ?bs. sg_enbByTeid (ep_sgw s) (ft_teid (bm_fteid b)) \<noteq> None"
      using r by (auto simp: switch_contexts_map)
    moreover have "\<forall>b\<in>set ?bs. ft_interfaceType (bm_fteid b) = S1U_ENB_GTPU"
      by (auto simp: switch_contexts_map)
    ultimately show ?thesis
      using sgw_switch_wire [OF switch_message_hwf [OF bs], where gci = "ps_cellId ps" and c = c and imsi = ?imsi] r
      by (simp add: epc_deliver_def epc_send_def route_def send_gtpc_def)
  qed
  have 2: "epc_deliver net g' c NPgw S5c ?p1 (?s2\<lparr>ep_flight := []\<rparr>) = Some (?s3, [])"
    using r pgw_switch_wire [of "ep_pgw s" ?imsi r u "ps_cellId ps"]
    by (simp add: epc_deliver_def epc_send_def route_def send_gtpc_def)
  have 3: "epc_deliver net g' c NSgw S5c ?p2 (?s3\<lparr>ep_flight := []\<rparr>) = Some (?s4, [])"
    using r sgw_switch_response_wire [of g' "ps_mmeUeS1Id ps" ?sgw]
    by (simp add: epc_deliver_def epc_send_def route_def send_gtpc_def)
  have 4: "epc_deliver net g' c NMme S11 ?p2 (?s4\<lparr>ep_flight := []\<rparr>) = Some (?fin, ?outs)"
  proof -
    obtain i where i: "mm_enbInfo (ep_mme s) (ps_cellId ps) = Some i" "me_s1apSapEnb i = k"
      using r by blast
    have mme: "mme_RecvFromS11Socket c ?p2 (mm_set ?imsi ?mu (ep_mme s)) =
        Some (mm_set ?imsi ?mu (ep_mme s), [CallEnb k
          (PathSwitchRequestAcknowledge (ucast (ps_rnti ps)) ?imsi (ps_cellId ps))])"
      using r i mme_switch_response_wire [of "mm_set ?imsi ?mu (ep_mme s)" "ps_mmeUeS1Id ps" ?mu i c]
      by (simp add: mm_set_def)
    have enb: "enb_recv_s1ap (PathSwitchRequestAcknowledge (ucast (ps_rnti ps)) ?imsi (ps_cellId ps))
        (switch_enb ps e) = Some (switch_enb ps e, map CallRrc [RrcPathSwitchAck (ps_rnti ps)])"
      by (simp add: enb_recv_s1ap_def enb_DoPathSwitchRequestAcknowledge_def)
    have "epc_deliver net g' c NMme S11 ?p2 (?s4\<lparr>ep_flight := []\<rparr>) =
        mme_effects net [CallEnb k
          (PathSwitchRequestAcknowledge (ucast (ps_rnti ps)) ?imsi (ps_cellId ps))]
          ((?s4\<lparr>ep_flight := []\<rparr>)\<lparr>ep_mme := mm_set ?imsi ?mu (ep_mme s)\<rparr>)"
      using mme by (simp add: epc_deliver_def del: mme_effects.simps)
    also have "\<dots> = Some ((?s4\<lparr>ep_flight := [], ep_mme := mm_set ?imsi ?mu (ep_mme s)\<rparr>)
          \<lparr>ep_enb := (ep_enb ?s4)(k \<mapsto> switch_enb ps e)\<rparr>, ?outs)"
      by (subst mme_effects_call [OF _ enb]) simp_all
    also have "(?s4\<lparr>ep_flight := [], ep_mme := mm_set ?imsi ?mu (ep_mme s)\<rparr>)
          \<lparr>ep_enb := (ep_enb ?s4)(k \<mapsto> switch_enb ps e)\<rparr> = ?fin"
      using r by (simp add: switch_state_def)
    finally show ?thesis
      by (simp del: fun_upd_apply)
  qed
  show ?thesis
    using r by (intro exI [of _ ?s1] conjI 0 epc_run_4 [OF 1 2 3 4]) (simp_all add: switch_state_def)
qed

section \<open>The paths after the switch\<close>

lemma switch_enb_bindings:
  assumes "(bid, teid) \<in> set (ps_bearers ps)"
    and "distinct (map fst (ps_bearers ps))" "distinct (map snd (ps_bearers ps))"
  shows "en_teidRbid (switch_enb ps e) teid = Some (ps_rnti ps, bid)"
    "enb_teid (switch_enb ps e) (ps_rnti ps) bid = Some teid"
    "en_sgwS1uAddress (switch_enb ps e) = en_sgwS1uAddress e"
proof -
  let ?f = "\<lambda>(bid, teid). enb_bind (ps_rnti ps) bid teid"
  have rbid: "en_teidRbid (fold ?f bs t) =
      fold (\<lambda>b m. m(snd b \<mapsto> (ps_rnti ps, fst b))) bs (en_teidRbid t)" for bs t
    by (induction bs arbitrary: t) (auto simp: enb_bind_def Let_def)
  have teid: "enb_teid (fold ?f bs t) (ps_rnti ps) =
      fold (\<lambda>b m. m(fst b \<mapsto> snd b)) bs (enb_teid t (ps_rnti ps))" for bs t
  proof (induction bs arbitrary: t)
    case (Cons b bs)
    have "enb_teid (enb_bind (ps_rnti ps) (fst b) (snd b) t) (ps_rnti ps) =
        (enb_teid t (ps_rnti ps))(fst b \<mapsto> snd b)"
      by (auto simp: enb_teid_bind fun_eq_iff)
    with Cons show ?case
      by (simp add: split_beta)
  qed simp
  have addr: "en_sgwS1uAddress (fold ?f bs t) = en_sgwS1uAddress t" for bs t
    by (induction bs arbitrary: t) (auto simp: enb_bind_def Let_def)
  show "en_teidRbid (switch_enb ps e) teid = Some (ps_rnti ps, bid)"
    using fold_upd_in [OF assms(3,1), of "\<lambda>b. (ps_rnti ps, fst b)"]
    by (simp add: switch_enb_def rbid)
  show "enb_teid (switch_enb ps e) (ps_rnti ps) bid = Some teid"
    using fold_upd_in [OF assms(2,1), of snd] by (simp add: switch_enb_def teid)
  show "en_sgwS1uAddress (switch_enb ps e) = en_sgwS1uAddress e"
    by (simp add: switch_enb_def addr)
qed

lemma switch_sgw:
  assumes "(bid, teid) \<in> set (ps_bearers ps)" "distinct (map snd (ps_bearers ps))"
  shows "sg_enbByTeid (ep_sgw (switch_state s k ps r mu u e)) teid = Some (en_enbS1uAddress e)"
proof -
  have "distinct (map (\<lambda>b. ft_teid (bm_fteid b)) (switch_contexts ps e))"
    using assms(2) by (simp add: switch_contexts_map comp_def)
  moreover have "\<exists>b\<in>set (switch_contexts ps e). ft_teid (bm_fteid b) = teid \<and>
      ft_addr (bm_fteid b) = en_enbS1uAddress e"
    using assms(1) by (force simp: switch_contexts_map)
  ultimately show ?thesis
    using fold_upd_in [of "\<lambda>b. ft_teid (bm_fteid b)" "switch_contexts ps e" _
        "\<lambda>b. ft_addr (bm_fteid b)" "sg_enbByTeid (ep_sgw s)"]
    by (auto simp: switch_state_def)
qed

text \<open>The TEIDs of all other bearers lead where they led before.\<close>

lemma switch_sgw_other:
  assumes "teid \<notin> snd ` set (ps_bearers ps)"
  shows "sg_enbByTeid (ep_sgw (switch_state s k ps r mu u e)) teid = sg_enbByTeid (ep_sgw s) teid"
  using assms by (force simp: switch_state_def switch_contexts_map intro!: fold_upd_notin)

lemma switch_bearer_path:
  assumes ready: "switch_ready net s k ps r mu u e"
    and b: "(bid, teid) \<in> set (ps_bearers ps)"
    and u: "pu_teidByBearerId u bid = Some teid" "teid \<noteq> 0"
    and pgw: "net NSgw S5u (sg_pgwAddr (ep_sgw s)) = Some NPgw"
  shows "bearer_path net (switch_state s k ps r mu u e) r k (ps_rnti ps) bid teid"
proof -
  let ?fin = "switch_state s k ps r mu u e"
  note rd = ready [unfolded switch_ready_def]
  have d: "distinct (map fst (ps_bearers ps))" "distinct (map snd (ps_bearers ps))"
    using rd by blast+
  have "pg_deref (ep_pgw ?fin) r = Some (pu_SetSgwAddr (pg_sgwS5Addr (ep_pgw s)) u)"
    using rd by (auto simp: switch_state_def pg_deref_def pg_set_def split: if_splits)
  moreover have "ep_enb ?fin k = Some (switch_enb ps e)"
      "sg_pgwAddr (ep_sgw ?fin) = sg_pgwAddr (ep_sgw s)"
    by (simp_all add: switch_state_def)
  ultimately show ?thesis
    using rd u pgw switch_sgw [OF b d(2), of s k r mu u e] switch_enb_bindings [OF b d, of e]
    by (auto simp: bearer_path_def pu_SetSgwAddr_def)
qed

end
