(* ===== verification/EpcUeNas.thy ===== *)
theory EpcUeNas
  imports EpcNet
begin

text \<open>
  \<^verbatim>\<open>EpcUeNas\<close> of \<^verbatim>\<open>src/lte/model/epc-ue-nas.cc\<close>: the non access stratum of a UE. It activates
  the bearers when the connection is up, numbers them and maps uplink packets to them.
\<close>

section \<open>The class\<close>

datatype nas_state = NasOff | NasAttaching | NasIdleRegistered | NasConnectingToEpc | NasActive

record bearer_to_activate =
  ba_bearer :: eps_bearer
  ba_tft :: tft

record nas =
  na_state :: nas_state
  na_imsi :: u64
  na_csgId :: u32
  na_tftClassifier :: classifier
  na_bidCounter :: u8
  na_toBeActivated :: "bearer_to_activate list"
  na_forReconnection :: "bearer_to_activate list"

definition nas_init :: nas where
  "nas_init = \<lparr>na_state = NasOff, na_imsi = 0, na_csgId = 0, na_tftClassifier = classifier_init,
     na_bidCounter = 0, na_toBeActivated = [], na_forReconnection = []\<rparr>"

text \<open>Calls of the access stratum, of the device above, and the connection that is rescheduled.\<close>

datatype nas_action =
    AsSetCsgWhiteList u32
  | AsStartCellSelection u32
  | AsForceCampedOnEnb u16 u32
  | AsConnect
  | AsDisconnect
  | AsSendData bytes u8
  | ForwardUp bytes
  | ScheduleNowConnect

definition nas_SetImsi :: "u64 \<Rightarrow> nas \<Rightarrow> nas" where
  "nas_SetImsi i s = s\<lparr>na_imsi := i\<rparr>"

definition nas_SetCsgId :: "u32 \<Rightarrow> nas \<Rightarrow> nas \<times> nas_action list" where
  "nas_SetCsgId c s = (s\<lparr>na_csgId := c\<rparr>, [AsSetCsgWhiteList c])"

definition nas_StartCellSelection :: "u32 \<Rightarrow> nas \<Rightarrow> nas \<times> nas_action list" where
  "nas_StartCellSelection e s = (s, [AsStartCellSelection e])"

definition nas_Connect :: "nas \<Rightarrow> nas \<times> nas_action list" where
  "nas_Connect s = (s, [AsConnect])"

definition nas_ConnectTo :: "u16 \<Rightarrow> u32 \<Rightarrow> nas \<Rightarrow> nas \<times> nas_action list" where
  "nas_ConnectTo cellId e s = (s, [AsForceCampedOnEnb cellId e, AsConnect])"

text \<open>
  The 8-bit bearer counter and the template of the new bearer; the assertions on the number of
  bearers and of templates are failures.
\<close>

definition nas_DoActivateEpsBearer :: "bearer_to_activate \<Rightarrow> nas \<Rightarrow> nas option" where
  "nas_DoActivateEpsBearer b s =
     (if na_bidCounter s < 11 then
        (let bid = na_bidCounter s + 1
         in case classifier_Add (ba_tft b) (ucast bid) (na_tftClassifier s) of
              None \<Rightarrow> None
            | Some c \<Rightarrow> Some (s\<lparr>na_bidCounter := bid, na_tftClassifier := c\<rparr>))
      else None)"

text \<open>Entering \<^verbatim>\<open>ACTIVE\<close> activates and removes the bearers of the list one by one.\<close>

fun nas_activate_list :: "bearer_to_activate list \<Rightarrow> nas \<Rightarrow> nas option" where
  "nas_activate_list [] s = Some (s\<lparr>na_toBeActivated := []\<rparr>)"
| "nas_activate_list (b # bs) s =
     (case nas_DoActivateEpsBearer b s of
        None \<Rightarrow> None
      | Some s' \<Rightarrow> nas_activate_list bs (s'\<lparr>na_toBeActivated := bs\<rparr>))"

definition nas_SwitchToState :: "nas_state \<Rightarrow> nas \<Rightarrow> nas option" where
  "nas_SwitchToState st s =
     (let s = s\<lparr>na_state := st\<rparr>
      in if st = NasActive then nas_activate_list (na_toBeActivated s) s else Some s)"

definition nas_Disconnect :: "nas \<Rightarrow> (nas \<times> nas_action list) option" where
  "nas_Disconnect s = map_option (\<lambda>s'. (s', [AsDisconnect])) (nas_SwitchToState NasOff s)"

definition nas_ActivateEpsBearer :: "bearer_to_activate \<Rightarrow> nas \<Rightarrow> nas option" where
  "nas_ActivateEpsBearer b s =
     (if na_state s = NasActive then None
      else Some (s\<lparr>na_toBeActivated := na_toBeActivated s @ [b],
                   na_forReconnection := na_forReconnection s @ [b]\<rparr>))"

text \<open>
  \<^verbatim>\<open>Send\<close>: the low byte of the identifier that the classifier returns is the bearer, and the other
  bytes are asserted to be 0; the bearer 0 is no match.
\<close>

definition nas_Send :: "bytes \<Rightarrow> u16 \<Rightarrow> nas \<Rightarrow> (bool \<times> nas \<times> nas_action list) option" where
  "nas_Send p protocolNumber s =
     (if na_state s = NasActive then
        (case Classify p UPLINK protocolNumber (na_tftClassifier s) of
           None \<Rightarrow> None
         | Some (i, c) \<Rightarrow>
             if i AND 0xFFFFFF00 \<noteq> 0 then None
             else (let bid = (ucast (i AND 0x000000FF) :: u8); s' = s\<lparr>na_tftClassifier := c\<rparr>
              in if bid = 0 then Some (False, s', []) else Some (True, s', [AsSendData p bid])))
      else Some (False, s, []))"

definition nas_DoNotifyConnectionSuccessful :: "nas \<Rightarrow> nas option" where
  "nas_DoNotifyConnectionSuccessful s = nas_SwitchToState NasActive s"

definition nas_DoNotifyConnectionFailed :: "nas \<Rightarrow> nas \<times> nas_action list" where
  "nas_DoNotifyConnectionFailed s = (s, [ScheduleNowConnect])"

definition nas_DoRecvData :: "bytes \<Rightarrow> nas \<Rightarrow> nas \<times> nas_action list" where
  "nas_DoRecvData p s = (s, [ForwardUp p])"

text \<open>The loop that deletes the templates from the last bearer down to the first.\<close>

fun delete_tfts :: "nat \<Rightarrow> classifier \<Rightarrow> classifier" where
  "delete_tfts 0 c = c"
| "delete_tfts (Suc n) c = delete_tfts n (classifier_Delete (word_of_nat (Suc n)) c)"

definition nas_DoNotifyConnectionReleased :: "nas \<Rightarrow> (nas \<times> nas_action list) option" where
  "nas_DoNotifyConnectionReleased s =
     nas_Disconnect (s\<lparr>na_tftClassifier := delete_tfts (unat (na_bidCounter s)) (na_tftClassifier s),
                       na_bidCounter := 0,
                       na_toBeActivated := na_forReconnection s\<rparr>)"

section \<open>The numbering of the bearers\<close>

text \<open>The operations of the class that change its state, as one step function.\<close>

datatype nas_op =
    NasSetImsi u64
  | NasSetCsgId u32
  | NasActivate bearer_to_activate
  | NasConnectionSuccessful
  | NasConnectionReleased
  | NasDisconnect
  | NasSend bytes u16

definition nas_step :: "nas_op \<Rightarrow> nas \<Rightarrow> nas option" where
  "nas_step a s =
     (case a of
        NasSetImsi i \<Rightarrow> Some (nas_SetImsi i s)
      | NasSetCsgId c \<Rightarrow> Some (fst (nas_SetCsgId c s))
      | NasActivate b \<Rightarrow> nas_ActivateEpsBearer b s
      | NasConnectionSuccessful \<Rightarrow> nas_DoNotifyConnectionSuccessful s
      | NasConnectionReleased \<Rightarrow> map_option fst (nas_DoNotifyConnectionReleased s)
      | NasDisconnect \<Rightarrow> map_option fst (nas_Disconnect s)
      | NasSend p n \<Rightarrow> map_option (\<lambda>(_, s', _). s') (nas_Send p n s))"

fun nas_run :: "nas_op list \<Rightarrow> nas \<Rightarrow> nas option" where
  "nas_run [] s = Some s"
| "nas_run (a # as) s = (case nas_step a s of None \<Rightarrow> None | Some s' \<Rightarrow> nas_run as s')"

text \<open>
  The templates of the classifier are those of the bearers activated so far, in the order in
  which they were requested and numbered from 1; the bearers still to be activated are the rest.
\<close>

definition bearer_table :: "bearer_to_activate list \<Rightarrow> u32 \<Rightarrow> tft option" where
  "bearer_table bs i =
     (if 0 < i \<and> unat i \<le> length bs then Some (ba_tft (bs ! (unat i - 1))) else None)"

definition nas_inv :: "nas \<Rightarrow> bool" where
  "nas_inv s \<longleftrightarrow>
     smap_wf (m_tftMap (na_tftClassifier s)) \<and>
     unat (na_bidCounter s) \<le> length (na_forReconnection s) \<and>
     map_of (m_tftMap (na_tftClassifier s)) =
       bearer_table (take (unat (na_bidCounter s)) (na_forReconnection s)) \<and>
     na_toBeActivated s = drop (unat (na_bidCounter s)) (na_forReconnection s) \<and>
     unat (na_bidCounter s) \<le> 11 \<and> length (m_tftMap (na_tftClassifier s)) \<le> unat (na_bidCounter s) \<and>
     (na_state s = NasActive \<longrightarrow> na_toBeActivated s = [])"

lemma word_eq_of_nat_iff: "n < 2 ^ 32 \<Longrightarrow> (i :: u32) = word_of_nat n \<longleftrightarrow> unat i = n"
  by (simp add: word_unat_eq_iff unsigned_of_nat take_bit_nat_eq_self)

lemma unat_u8_u32: "unat (ucast (x :: u8) :: u32) = unat x"
proof -
  have "unat x < 2 ^ LENGTH(8)"
    by (rule unsigned_less)
  then show ?thesis
    by (simp add: unsigned_ucast_eq take_bit_nat_eq_self)
qed

lemma bearer_table_Nil [simp]: "bearer_table [] = Map.empty"
  by (auto simp: bearer_table_def fun_eq_iff word_greater_zero_iff unat_gt_0)

lemma bearer_table_snoc:
  assumes "length bs < 255"
  shows "bearer_table (bs @ [b]) = (bearer_table bs)(word_of_nat (Suc (length bs)) \<mapsto> ba_tft b)"
proof
  fix i :: u32
  have eq: "i = word_of_nat (Suc (length bs)) \<longleftrightarrow> unat i = Suc (length bs)"
    using assms word_eq_of_nat_iff [of "Suc (length bs)" i] by simp
  show "bearer_table (bs @ [b]) i =
      ((bearer_table bs)(word_of_nat (Suc (length bs)) \<mapsto> ba_tft b)) i"
  proof (cases "unat i = Suc (length bs)")
    case True
    then show ?thesis
      using eq by (simp add: bearer_table_def word_greater_zero_iff unat_eq_zero [symmetric]
          del: unat_eq_zero)
  next
    case False
    then have "i \<noteq> word_of_nat (Suc (length bs))"
      using eq by simp
    with False show ?thesis
      using unat_gt_0 [of i] by (auto simp: bearer_table_def nth_append word_greater_zero_iff)
  qed
qed

text \<open>
  Activating a list of bearers numbers them on from the counter; it fails exactly when they are
  too many.
\<close>

lemma activate_bearer:
  assumes "smap_wf (m_tftMap (na_tftClassifier s))"
    and "map_of (m_tftMap (na_tftClassifier s)) = bearer_table pre"
    and "unat (na_bidCounter s) = length pre" and "length pre < 11"
    and "length (m_tftMap (na_tftClassifier s)) \<le> length pre"
  shows "\<exists>c n. nas_DoActivateEpsBearer b s = Some (s\<lparr>na_bidCounter := n, na_tftClassifier := c\<rparr>) \<and>
     smap_wf (m_tftMap c) \<and> map_of (m_tftMap c) = bearer_table (pre @ [b]) \<and>
     unat n = length (pre @ [b]) \<and> length (m_tftMap c) \<le> length (pre @ [b])"
proof -
  let ?n = "na_bidCounter s + 1"
  let ?c = "classifier_put (ba_tft b) (ucast ?n) (na_tftClassifier s)"
  have n: "unat ?n = Suc (length pre)"
    using assms(3,4) by (simp add: unat_word_ariths)
  then have "(ucast ?n :: u32) = word_of_nat (Suc (length pre))"
    using assms(4) word_eq_of_nat_iff [of "Suc (length pre)" "ucast ?n"]
    by (simp add: unat_u8_u32 del: of_nat_Suc)
  then have "map_of (m_tftMap ?c) = bearer_table (pre @ [b])"
    using assms(2,4) bearer_table_snoc [of pre b] by (simp add: classifier_put_def)
  moreover have "smap_wf (m_tftMap ?c)"
    using assms(1) by (simp add: classifier_put_def)
  moreover have l: "length (m_tftMap ?c) \<le> length (pre @ [b])"
    using length_smap_put_le [of "ucast ?n" "ba_tft b" "m_tftMap (na_tftClassifier s)"] assms(5)
    by (simp add: classifier_put_def)
  moreover have "na_bidCounter s < 11"
    using assms(3,4) by (simp add: word_less_nat_alt)
  then have "nas_DoActivateEpsBearer b s = Some (s\<lparr>na_bidCounter := ?n, na_tftClassifier := ?c\<rparr>)"
    using l assms(4) by (simp add: nas_DoActivateEpsBearer_def classifier_Add_def Let_def)
  ultimately show ?thesis
    using n by (intro exI [of _ ?c] exI [of _ ?n]) simp
qed

lemma activate_bearers:
  assumes "smap_wf (m_tftMap (na_tftClassifier s))"
    and "map_of (m_tftMap (na_tftClassifier s)) = bearer_table pre"
    and "unat (na_bidCounter s) = length pre" and "length pre \<le> 11"
    and "length (m_tftMap (na_tftClassifier s)) \<le> length pre"
  shows "if length pre + length bs \<le> 11
     then \<exists>c n. nas_activate_list bs s =
         Some (s\<lparr>na_tftClassifier := c, na_bidCounter := n, na_toBeActivated := []\<rparr>) \<and>
       smap_wf (m_tftMap c) \<and> map_of (m_tftMap c) = bearer_table (pre @ bs) \<and>
       unat n = length pre + length bs \<and> length (m_tftMap c) \<le> unat n
     else nas_activate_list bs s = None"
  using assms
proof (induction bs arbitrary: s pre)
  case Nil
  then show ?case
    by simp (intro exI [of _ "na_tftClassifier s"] exI [of _ "na_bidCounter s"], simp)
next
  case (Cons b bs)
  show ?case
  proof (cases "length pre < 11")
    case False
    then have "\<not> na_bidCounter s < 11"
      using Cons.prems(3) by (simp add: word_less_nat_alt)
    with False show ?thesis
      by (simp add: nas_DoActivateEpsBearer_def)
  next
    case True
    obtain c n where b: "nas_DoActivateEpsBearer b s = Some (s\<lparr>na_bidCounter := n, na_tftClassifier := c\<rparr>)"
      "smap_wf (m_tftMap c)" "map_of (m_tftMap c) = bearer_table (pre @ [b])"
      "unat n = length (pre @ [b])" "length (m_tftMap c) \<le> length (pre @ [b])"
      using activate_bearer [OF Cons.prems(1,2,3) True Cons.prems(5)] by blast
    from Cons.IH [of "s\<lparr>na_bidCounter := n, na_tftClassifier := c, na_toBeActivated := bs\<rparr>" "pre @ [b]"]
      b True show ?thesis
      by (auto split: if_splits)
  qed
qed

lemma delete_tfts_map:
  assumes "n \<le> 255" and "smap_wf (m_tftMap c)"
  shows "smap_wf (m_tftMap (delete_tfts n c)) \<and>
     map_of (m_tftMap (delete_tfts n c)) =
       (\<lambda>i. if i \<noteq> 0 \<and> unat i \<le> n then None else map_of (m_tftMap c) i)"
  using assms
proof (induction n arbitrary: c)
  case 0
  then show ?case
    by (auto simp: fun_eq_iff unat_eq_zero)
next
  case (Suc n)
  let ?c = "classifier_Delete (word_of_nat (Suc n)) c"
  have eq: "i = word_of_nat (Suc n) \<longleftrightarrow> unat i = Suc n" for i :: u32
    using Suc.prems(1) word_eq_of_nat_iff [of "Suc n" i] by simp
  have c: "map_of (m_tftMap ?c) = (map_of (m_tftMap c))(word_of_nat (Suc n) := None)"
    "smap_wf (m_tftMap ?c)"
    using Suc.prems(2) by (simp_all add: classifier_Delete_def)
  have "map_of (m_tftMap (delete_tfts (Suc n) c)) i =
      (if i \<noteq> 0 \<and> unat i \<le> Suc n then None else map_of (m_tftMap c) i)" for i
    using Suc.IH [OF _ c(2)] Suc.prems(1) c(1) eq [of i]
    by (cases "unat i = Suc n") (auto simp: fun_upd_apply)
  with Suc.IH [OF _ c(2)] Suc.prems(1) show ?case
    by auto
qed

lemma release_clears:
  assumes "n \<le> 255" "smap_wf (m_tftMap c)" "map_of (m_tftMap c) = bearer_table bs" "length bs \<le> n"
  shows "smap_wf (m_tftMap (delete_tfts n c)) \<and> map_of (m_tftMap (delete_tfts n c)) = Map.empty"
  using delete_tfts_map [OF assms(1,2)] assms(3,4)
  by (auto simp: fun_eq_iff bearer_table_def word_greater_zero_iff)

lemma Classify_tftMap: "Classify p d n c = Some (i, c') \<Longrightarrow> m_tftMap c' = m_tftMap c"
  by (auto simp: Classify_def flow4_def classify_ports4_def Let_def
      split: if_splits option.splits prod.splits)

text \<open>
  Every operation keeps the numbering; the connection of a UE fails exactly when more than 11
  bearers have been requested.
\<close>

lemma nas_activate_inv:
  assumes "nas_inv s"
  shows "if length (na_forReconnection s) \<le> 11
     then \<exists>s'. nas_DoNotifyConnectionSuccessful s = Some s' \<and> nas_inv s' \<and>
       na_state s' = NasActive \<and> na_forReconnection s' = na_forReconnection s
     else nas_DoNotifyConnectionSuccessful s = None"
proof -
  let ?n = "unat (na_bidCounter s)" and ?l = "na_forReconnection s"
  let ?s = "s\<lparr>na_state := NasActive\<rparr>"
  have eq: "nas_DoNotifyConnectionSuccessful s = nas_activate_list (drop ?n ?l) ?s"
    using assms by (simp add: nas_DoNotifyConnectionSuccessful_def nas_SwitchToState_def nas_inv_def)
  have "length (take ?n ?l) + length (drop ?n ?l) = length ?l"
    using assms by (simp add: nas_inv_def)
  with activate_bearers [of ?s "take ?n ?l" "drop ?n ?l"] assms show ?thesis
    unfolding eq by (auto simp: nas_inv_def)
qed

lemma nas_Disconnect_Some: "nas_Disconnect s = Some (s\<lparr>na_state := NasOff\<rparr>, [AsDisconnect])"
  by (simp add: nas_Disconnect_def nas_SwitchToState_def)

lemma nas_release_inv:
  assumes "nas_inv s"
  shows "\<exists>s'. nas_DoNotifyConnectionReleased s = Some (s', [AsDisconnect]) \<and> nas_inv s' \<and>
     na_forReconnection s' = na_forReconnection s"
proof -
  let ?c = "delete_tfts (unat (na_bidCounter s)) (na_tftClassifier s)"
  have "unat (na_bidCounter s) < 2 ^ LENGTH(8)"
    by (rule unsigned_less)
  then have "smap_wf (m_tftMap ?c) \<and> map_of (m_tftMap ?c) = Map.empty"
    using assms by (intro release_clears) (auto simp: nas_inv_def)
  then show ?thesis
    by (simp add: nas_inv_def nas_DoNotifyConnectionReleased_def nas_Disconnect_Some)
qed

lemma nas_step_inv:
  assumes "nas_inv s" "nas_step a s = Some s'"
  shows "nas_inv s'"
proof (cases a)
  case NasConnectionSuccessful
  with assms nas_activate_inv [OF assms(1)] show ?thesis
    by (auto simp: nas_step_def split: if_splits)
next
  case NasConnectionReleased
  with assms nas_release_inv [OF assms(1)] show ?thesis
    by (auto simp: nas_step_def)
next
  case (NasSend p n)
  with assms show ?thesis
    by (auto simp: nas_step_def nas_Send_def nas_inv_def Let_def
        split: if_splits option.splits dest!: Classify_tftMap)
qed (use assms in \<open>auto simp: nas_step_def nas_SetImsi_def nas_SetCsgId_def nas_inv_def
      nas_ActivateEpsBearer_def nas_Disconnect_Some split: if_splits\<close>)

lemma nas_run_inv: "nas_run as s = Some s' \<Longrightarrow> nas_inv s \<Longrightarrow> nas_inv s'"
  by (induction as s rule: nas_run.induct) (auto split: option.splits dest: nas_step_inv)

lemma nas_inv_init: "nas_inv nas_init"
  by (simp add: nas_inv_def nas_init_def classifier_init_def)

text \<open>What the NAS sends goes out on one of the bearers of the UE.\<close>

lemma nas_Send_bearer:
  assumes inv: "nas_inv s" and sent: "nas_Send p n s = Some (True, s', as)"
  shows "\<exists>j<length (na_forReconnection s). as = [AsSendData p (word_of_nat (Suc j))]"
proof -
  let ?m = "m_tftMap (na_tftClassifier s)"
  obtain i c where act: "na_state s = NasActive" and
    cl: "Classify p UPLINK n (na_tftClassifier s) = Some (i, c)" and
    bid: "(ucast (i AND 0xFF) :: u8) \<noteq> 0" and as: "as = [AsSendData p (ucast (i AND 0xFF))]"
    using sent by (auto simp: nas_Send_def Let_def split: if_splits option.splits prod.splits)
  obtain P where i: "i = search_tft P (rev ?m)"
    using cl Classify_tftMap [OF cl]
    by (auto simp: Classify_def split: if_splits option.splits prod.splits)
  have "i \<noteq> 0"
    using bid by auto
  then obtain t where "map_of ?m i = Some t"
    using search_tft_best [of ?m P] inv unfolding i is_best_tft_def nas_inv_def by metis
  then have "bearer_table (take (unat (na_bidCounter s)) (na_forReconnection s)) i = Some t"
    using inv by (simp add: nas_inv_def)
  then have l: "unat i \<le> length (na_forReconnection s)"
    by (simp add: bearer_table_def split: if_splits)
  moreover have "(ucast (i AND 0xFF) :: u8) = word_of_nat (unat i)"
    by (simp add: u8_eq_iff bit_simps)
  moreover have "unat i \<noteq> 0"
    using \<open>i \<noteq> 0\<close> by (simp add: unat_eq_zero)
  ultimately show ?thesis
    using as l by (intro exI [of _ "unat i - 1"]) (simp del: of_nat_Suc)
qed

end
