(* ===== verification/EpcIsolation.thy ===== *)
theory EpcIsolation
  imports EpcSwitch EpcUeNas
begin

text \<open>
  Isolation of the UEs: whatever order the datagrams are delivered in, a packet addressed to a UE
  only reaches the radio bearers of that UE. The proof is an invariant of the step relation of
  the whole core network.
\<close>

section \<open>Definitions\<close>

text \<open>
  Two histories are kept beside the state: the UE for which the SGW allocated a TEID (\<open>ow\<close>), and
  the UE to which the RRC of an eNB gave an RNTI (\<open>rn\<close>). The applications do not see them.
\<close>

type_synonym owner = "u32 \<Rightarrow> u64 option"
type_synonym rntis = "u16 \<Rightarrow> u64 option"

definition small_imsi :: "u64 \<Rightarrow> bool" where
  "small_imsi i \<longleftrightarrow> ucast (ucast i :: u32) = i"

text \<open>The UE that a packet from the internet is addressed to.\<close>

definition addressed :: "pgw \<Rightarrow> bytes \<Rightarrow> u64 \<Rightarrow> bool" where
  "addressed s p i \<longleftrightarrow>
     (\<exists>h r. PeekHeader ipv4_Deserialize p = Some h \<and>
        pg_ueInfoByAddr s (ip_destination h) = Some r \<and> pg_ueInfoByImsi s i = Some r) \<or>
     (\<exists>h r. PeekHeader ipv6_Deserialize p = Some h \<and>
        pg_ueInfoByAddr6 s (ip6_destination h) = Some r \<and> pg_ueInfoByImsi s i = Some r)"

section \<open>What may be in flight\<close>

text \<open>Messages that do not carry TEIDs to the tables of PGW and eNB.\<close>

definition plain_up :: "bytes \<Rightarrow> bool" where
  "plain_up p \<longleftrightarrow>
     (\<exists>m. mbq_hwf m \<and> gh_messageType (mbq_header m) = MSG_ModifyBearerRequest \<and> p = mbq_Serialize m) \<or>
     (\<exists>m. dbc_hwf m \<and> gh_messageType (dbc_header m) = MSG_DeleteBearerCommand \<and> p = dbc_Serialize m) \<or>
     (\<exists>m. dbp_hwf m \<and> gh_messageType (dbp_header m) = MSG_DeleteBearerResponse \<and> p = dbp_Serialize m)"

definition plain_down :: "bytes \<Rightarrow> bool" where
  "plain_down p \<longleftrightarrow>
     (\<exists>m. mbp_hwf m \<and> gh_messageType (mbp_header m) = MSG_ModifyBearerResponse \<and> p = mbp_Serialize m) \<or>
     (\<exists>m. dbq_hwf m \<and> gh_messageType (dbq_header m) = MSG_DeleteBearerRequest \<and> p = dbq_Serialize m)"

definition csq_ok :: "create_session_request \<Rightarrow> bool" where
  "csq_ok m \<longleftrightarrow> csq_hwf m \<and> gh_messageType (csq_header m) = MSG_CreateSessionRequest \<and>
     small_imsi (csq_imsi m) \<and> ft_teid (csq_senderCpFteid m) = ucast (csq_imsi m)"

definition csp_ok :: "owner \<Rightarrow> create_session_response \<Rightarrow> bool" where
  "csp_ok ow m \<longleftrightarrow> csp_hwf m \<and> gh_messageType (csp_header m) = MSG_CreateSessionResponse \<and>
     (\<forall>b\<in>set (csp_bearerContexts m). ow (ctx_teid b) = Some (ucast (gh_teid (csp_header m))))"

definition tunnel_ok :: "owner \<Rightarrow> (bytes \<Rightarrow> u64 \<Rightarrow> bool) \<Rightarrow> bytes \<Rightarrow> bool" where
  "tunnel_ok ow adr q \<longleftrightarrow>
     (\<exists>teid p i. gtpu_decap q = Some (teid, p) \<and> ow teid = Some i \<and> adr p i)"

text \<open>
  \<open>known\<close> are the S5-C TEIDs that the SGW has recorded; \<open>adr\<close> tells to which UE a packet is addressed.
\<close>

definition request_ok :: "owner \<Rightarrow> u32 set \<Rightarrow> create_session_request \<Rightarrow> bool" where
  "request_ok ow known m \<longleftrightarrow> csq_ok m \<and> ucast (csq_imsi m) \<in> known \<and>
     (\<forall>b\<in>set (csq_bearerContexts m). ow (ctx_teid b) = Some (csq_imsi m))"

fun msg_ok ::
  "owner \<Rightarrow> u32 set \<Rightarrow> (bytes \<Rightarrow> u64 \<Rightarrow> bool) \<Rightarrow> node \<times> interface \<times> bytes \<Rightarrow> bool" where
  "msg_ok ow known adr (NSgw, S11, p) = ((\<exists>m. csq_ok m \<and> p = csq_Serialize m) \<or> plain_up p)"
| "msg_ok ow known adr (NPgw, S5c, p) =
     ((\<exists>m. request_ok ow known m \<and> p = csq_Serialize m) \<or> plain_up p)"
| "msg_ok ow known adr (NSgw, S5c, p) =
     ((\<exists>m. csp_ok ow m \<and> gh_teid (csp_header m) \<in> known \<and> p = csp_Serialize m) \<or> plain_down p)"
| "msg_ok ow known adr (NMme, S11, p) = ((\<exists>m. csp_ok ow m \<and> p = csp_Serialize m) \<or> plain_down p)"
| "msg_ok ow known adr (NSgw, S5u, p) = tunnel_ok ow adr p"
| "msg_ok ow known adr (NEnb k, S1u, p) = tunnel_ok ow adr p"
| "msg_ok ow known adr _ = True"

lemma ok_mono:
  assumes "ow \<subseteq>\<^sub>m ow'"
  shows "ow t = Some i \<Longrightarrow> ow' t = Some i"
    and "csp_ok ow m \<Longrightarrow> csp_ok ow' m"
    and "request_ok ow known r \<Longrightarrow> known \<subseteq> known' \<Longrightarrow> request_ok ow' known' r"
    and "tunnel_ok ow adr q \<Longrightarrow> (\<And>p i. adr p i \<Longrightarrow> adr' p i) \<Longrightarrow> tunnel_ok ow' adr' q"
proof -
  have ow: "ow t = Some i \<Longrightarrow> ow' t = Some i" for t i
    using assms by (metis domI map_le_def)
  then show "ow t = Some i \<Longrightarrow> ow' t = Some i" .
  show "csp_ok ow m \<Longrightarrow> csp_ok ow' m"
    using ow unfolding csp_ok_def by blast
  show "request_ok ow known r \<Longrightarrow> known \<subseteq> known' \<Longrightarrow> request_ok ow' known' r"
    using ow unfolding request_ok_def by blast
  show "tunnel_ok ow adr q \<Longrightarrow> (\<And>p i. adr p i \<Longrightarrow> adr' p i) \<Longrightarrow> tunnel_ok ow' adr' q"
    using ow unfolding tunnel_ok_def by blast
qed

lemma msg_ok_mono:
  assumes "msg_ok ow known adr x" "ow \<subseteq>\<^sub>m ow'" "known \<subseteq> known'" "\<And>p i. adr p i \<Longrightarrow> adr' p i"
  shows "msg_ok ow' known' adr' x"
proof -
  obtain n i p where x: "x = (n, i, p)"
    by (cases x)
  show ?thesis
    using assms(1,3) ok_mono(2-) [OF assms(2)] assms(4) unfolding x
    by (cases n; cases i; simp) blast+
qed

section \<open>The invariant\<close>

definition sgw_inv :: "owner \<Rightarrow> sgw \<Rightarrow> bool" where
  "sgw_inv ow s \<longleftrightarrow>
     (\<forall>t i. ow t = Some i \<longrightarrow> t \<le> sg_teidCount s) \<and>
     (\<forall>t f. sg_mmeS11FteidBySgwS5cTeid s t = Some f \<longrightarrow> ft_teid f = t)"

text \<open>The TEIDs for which the object of a UE has a template.\<close>

definition ue_teids :: "pgw_ue \<Rightarrow> u32 set" where
  "ue_teids u = dom (map_of (m_tftMap (pu_tftClassifier u)))"

definition pgw_inv :: "owner \<Rightarrow> pgw \<Rightarrow> bool" where
  "pgw_inv ow s \<longleftrightarrow>
     (\<forall>i r. pg_ueInfoByImsi s i = Some r \<longrightarrow> r < length (pg_store s) \<and>
        (\<forall>t\<in>ue_teids (pg_store s ! r). ow t = Some i)) \<and>
     (\<forall>i j r. pg_ueInfoByImsi s i = Some r \<longrightarrow> pg_ueInfoByImsi s j = Some r \<longrightarrow> i = j) \<and>
     (\<forall>a r. pg_ueInfoByAddr s a = Some r \<longrightarrow> (\<exists>i. pg_ueInfoByImsi s i = Some r)) \<and>
     (\<forall>a r. pg_ueInfoByAddr6 s a = Some r \<longrightarrow> (\<exists>i. pg_ueInfoByImsi s i = Some r))"

definition mme_inv :: "mme \<Rightarrow> bool" where
  "mme_inv s \<longleftrightarrow> (\<forall>i u. mm_ueInfo s i = Some u \<longrightarrow> small_imsi i \<and> mu_mmeUeS1Id u = i \<and>
     list_all mme_bearer_ok (mu_bearersToBeActivated u))"

definition enb_inv :: "owner \<Rightarrow> rntis \<Rightarrow> enb \<Rightarrow> bool" where
  "enb_inv ow rn e \<longleftrightarrow>
     (\<forall>t r b. en_teidRbid e t = Some (r, b) \<longrightarrow> (\<exists>i. ow t = Some i \<and> rn r = Some i)) \<and>
     (\<forall>i r. en_imsiRnti e i = Some r \<longrightarrow> rn r = Some i)"

abbreviation known_teids :: "sgw \<Rightarrow> u32 set" where
  "known_teids s \<equiv> dom (sg_mmeS11FteidBySgwS5cTeid s)"

definition epc_inv :: "owner \<Rightarrow> (nat \<Rightarrow> rntis) \<Rightarrow> epc \<Rightarrow> bool" where
  "epc_inv ow rn s \<longleftrightarrow>
     sgw_inv ow (ep_sgw s) \<and> pgw_inv ow (ep_pgw s) \<and> mme_inv (ep_mme s) \<and>
     (\<forall>k e. ep_enb s k = Some e \<longrightarrow> enb_inv ow (rn k) e) \<and>
     (\<forall>x\<in>set (ep_flight s). msg_ok ow (known_teids (ep_sgw s)) (addressed (ep_pgw s)) x)"

section \<open>The handlers on plain messages\<close>

definition dbc_message :: "u32 \<Rightarrow> u8 list \<Rightarrow> delete_bearer_command" where
  "dbc_message teid es =
     (let m = dbc_new\<lparr>dbc_bearerContexts := es\<rparr>
      in m\<lparr>dbc_header := gtpc_finish teid (dbc_GetMessageSize m) (dbc_header m)\<rparr>)"

definition dbq_message :: "u32 \<Rightarrow> u8 list \<Rightarrow> delete_bearer_request" where
  "dbq_message teid es =
     (let m = dbq_new\<lparr>dbq_epsBearerIds := es\<rparr>
      in m\<lparr>dbq_header := gtpc_finish teid (dbq_GetMessageSize m) (dbq_header m)\<rparr>)"

definition dbp_message :: "u8 \<Rightarrow> u32 \<Rightarrow> u8 list \<Rightarrow> delete_bearer_response" where
  "dbp_message c teid es =
     (let m = (dbp_new c)\<lparr>dbp_epsBearerIds := es\<rparr>
      in m\<lparr>dbp_header := gtpc_finish teid (dbp_GetMessageSize m) (dbp_header m)\<rparr>)"

lemma delete_messages_hwf:
  "list_all ebi_ok es \<Longrightarrow> dbc_hwf (dbc_message t es)"
  "list_all ebi_ok es \<Longrightarrow> dbq_hwf (dbq_message t es)"
  "list_all ebi_ok es \<Longrightarrow> dbp_hwf (dbp_message c t es)"
  by (simp_all add: dbc_message_def dbq_message_def dbp_message_def Let_def dbc_hwf_def
      dbq_hwf_def dbp_hwf_def dbc_new_def dbq_new_def dbp_new_def)

lemma delete_messages_type [simp]:
  "gh_messageType (dbc_header (dbc_message t es)) = MSG_DeleteBearerCommand"
  "gh_messageType (dbq_header (dbq_message t es)) = MSG_DeleteBearerRequest"
  "gh_messageType (dbp_header (dbp_message c t es)) = MSG_DeleteBearerResponse"
  by (simp_all add: dbc_message_def dbq_message_def dbp_message_def Let_def dbc_new_def
      dbq_new_def dbp_new_def)

lemma plain_up_intros:
  "list_all bearer_modify_ok bs \<Longrightarrow> plain_up (mbq_Serialize (switch_message i gci bs))"
  "list_all ebi_ok es \<Longrightarrow> plain_up (dbc_Serialize (dbc_message t es))"
  "list_all ebi_ok es \<Longrightarrow> plain_up (dbp_Serialize (dbp_message c t es))"
  unfolding plain_up_def using switch_message_hwf delete_messages_hwf
  by (metis switch_message_fields(4), metis delete_messages_type(1), metis delete_messages_type(3))

lemma plain_down_intros:
  "plain_down (mbp_Serialize (switch_response t))"
  "list_all ebi_ok es \<Longrightarrow> plain_down (dbq_Serialize (dbq_message t es))"
  unfolding plain_down_def using delete_messages_hwf switch_response_fields
  by (metis, metis delete_messages_type(2))

lemma sgw_modify_bearers_frame:
  "sgw_modify_bearers bs s = Some t \<Longrightarrow> \<exists>f. t = s\<lparr>sg_enbByTeid := f\<rparr>"
proof (induction bs arbitrary: s)
  case Nil
  then show ?case
    by (intro exI [of _ "sg_enbByTeid s"]) simp
next
  case (Cons b bs)
  then show ?case
    by (fastforce simp: Let_def split: option.splits if_splits)
qed

lemma sgw_recv_plain_up:
  assumes "plain_up p" "sgw_RecvFromS11Socket c p s = Some (t, ds)"
  shows "(\<exists>f. t = s\<lparr>sg_enbByTeid := f\<rparr>) \<and>
    (\<exists>a q. ds = [SendTo S5c a gtpcUdpPort q] \<and> plain_up q)"
  using assms(1) [unfolded plain_up_def]
proof (elim disjE exE conjE)
  fix m
  assume m: "mbq_hwf m" "gh_messageType (mbq_header m) = MSG_ModifyBearerRequest" "p = mbq_Serialize m"
  let ?q = "mbq_Serialize (switch_message (mbq_imsi m) (ucast (mbq_uliEcgi m)) [])"
  have "sgw_DoRecvModifyBearerRequest p s = Some (t, ds)"
    using assms(2) mbq_msg.wire [OF m(1)] m(2,3) by (simp add: sgw_RecvFromS11Socket_def msg_defs)
  then obtain s' where "sgw_modify_bearers (mbq_bearerContexts m) s = Some s'" "t = s'"
    "ds = [send_gtpc S5c (sg_pgwAddr s') ?q]"
    using mbq_msg.wire [OF m(1)] m(3) mbq_msg.gtpc_packet_Some [OF switch_message_hwf [of "[]"]]
    by (auto simp: sgw_DoRecvModifyBearerRequest_def switch_message_def Let_def mbq_new_def
        split: Option.bind_splits)
  then show ?thesis
    using sgw_modify_bearers_frame [of "mbq_bearerContexts m" s s'] plain_up_intros(1) [of "[]"]
    by (auto simp: send_gtpc_def)
next
  fix m
  assume m: "dbc_hwf m" "gh_messageType (dbc_header m) = MSG_DeleteBearerCommand" "p = dbc_Serialize m"
  let ?m = "dbc_message (gh_teid (dbc_header m)) (dbc_bearerContexts m)"
  have es: "list_all ebi_ok (dbc_bearerContexts m)"
    using m(1) by (simp add: dbc_hwf_def)
  have "t = s \<and> ds = [send_gtpc S5c (sg_pgwAddr s) (dbc_Serialize ?m)]"
    using assms(2) dbc_msg.wire [OF m(1)] m(2,3)
      dbc_msg.gtpc_packet_Some [OF delete_messages_hwf(1) [OF es]]
    by (auto simp: sgw_RecvFromS11Socket_def msg_defs sgw_DoRecvDeleteBearerCommand_def Let_def
        dbc_message_def)
  then show ?thesis
    using plain_up_intros(2) [OF es] by (force simp: send_gtpc_def intro: exI [of _ "sg_enbByTeid s"])
next
  fix m
  assume m: "dbp_hwf m" "gh_messageType (dbp_header m) = MSG_DeleteBearerResponse" "p = dbp_Serialize m"
  let ?m = "dbp_message c (gh_teid (dbp_header m)) (dbp_epsBearerIds m)"
  have es: "list_all ebi_ok (dbp_epsBearerIds m)"
    using m(1) by (simp add: dbp_hwf_def)
  have "t = s \<and> ds = [send_gtpc S5c (sg_pgwAddr s) (dbp_Serialize ?m)]"
    using assms(2) dbp_msg.wire [OF m(1)] m(2,3)
      dbp_msg.gtpc_packet_Some [OF delete_messages_hwf(3) [OF es, of c]]
    by (auto simp: sgw_RecvFromS11Socket_def msg_defs sgw_DoRecvDeleteBearerResponse_def Let_def
        dbp_message_def)
  then show ?thesis
    using plain_up_intros(3) [OF es] by (force simp: send_gtpc_def intro: exI [of _ "sg_enbByTeid s"])
qed

lemma sgw_recv_plain_down:
  assumes "plain_down p" "sgw_RecvFromS5cSocket g p s = Some (t, ds)"
  shows "t = s \<and> (\<exists>a q. ds = [SendTo S11 a gtpcUdpPort q] \<and> plain_down q)"
  using assms(1) [unfolded plain_down_def]
proof (elim disjE exE conjE)
  fix m
  assume m: "mbp_hwf m" "gh_messageType (mbp_header m) = MSG_ModifyBearerResponse" "p = mbp_Serialize m"
  have "t = s \<and> ds = [send_gtpc S11 (sg_mmeS11Addr s)
      (mbp_Serialize (switch_response (gh_teid (mbp_header m))))]"
    using assms(2) mbp_msg.wire [OF m(1)] m(2,3)
      mbp_msg.gtpc_packet_Some [OF switch_response_fields(3)]
    by (auto simp: sgw_RecvFromS5cSocket_def msg_defs sgw_DoRecvModifyBearerResponse_def Let_def
        switch_response_def)
  then show ?thesis
    using plain_down_intros(1) by (auto simp: send_gtpc_def)
next
  fix m
  assume m: "dbq_hwf m" "gh_messageType (dbq_header m) = MSG_DeleteBearerRequest" "p = dbq_Serialize m"
  let ?m = "dbq_message (gh_teid (dbq_header m)) (dbq_epsBearerIds m)"
  have es: "list_all ebi_ok (dbq_epsBearerIds m)"
    using m(1) by (simp add: dbq_hwf_def)
  have "t = s \<and> ds = [send_gtpc S11 (sg_mmeS11Addr s) (dbq_Serialize ?m)]"
    using assms(2) dbq_msg.wire [OF m(1)] m(2,3)
      dbq_msg.gtpc_packet_Some [OF delete_messages_hwf(2) [OF es]]
    by (auto simp: sgw_RecvFromS5cSocket_def msg_defs sgw_DoRecvDeleteBearerRequest_def Let_def
        dbq_message_def)
  then show ?thesis
    using plain_down_intros(2) [OF es] by (auto simp: send_gtpc_def)
qed

text \<open>The PGW keeps its maps and loses templates at most.\<close>

definition pgw_shrinks :: "pgw \<Rightarrow> pgw \<Rightarrow> bool" where
  "pgw_shrinks s t \<longleftrightarrow>
     pg_ueInfoByImsi t = pg_ueInfoByImsi s \<and> pg_ueInfoByAddr t = pg_ueInfoByAddr s \<and>
     pg_ueInfoByAddr6 t = pg_ueInfoByAddr6 s \<and> length (pg_store t) = length (pg_store s) \<and>
     (\<forall>r<length (pg_store s). ue_teids (pg_store t ! r) \<subseteq> ue_teids (pg_store s ! r))"

lemma pgw_shrinks_refl [simp]: "pgw_shrinks s s"
  by (simp add: pgw_shrinks_def)

lemma pgw_shrinks_set:
  assumes "pg_deref s r = Some u" "ue_teids u' \<subseteq> ue_teids u"
  shows "pgw_shrinks s (pg_set r u' s)"
  using assms by (auto simp: pgw_shrinks_def pg_set_def pg_deref_def nth_list_update split: if_splits)

lemma pu_RemoveBearers_shrinks: "pu_RemoveBearers es u = Some u' \<Longrightarrow> ue_teids u' \<subseteq> ue_teids u"
proof (induction es arbitrary: u)
  case (Cons e es)
  then obtain v where v: "pu_RemoveBearer e u = Some v" "pu_RemoveBearers es v = Some u'"
    by (auto split: option.splits)
  then have "ue_teids v \<subseteq> ue_teids u"
    by (auto simp: pu_RemoveBearer_def ue_teids_def classifier_Delete_def split: option.splits if_splits)
  with Cons.IH [OF v(2)] show ?case
    by simp
qed simp

lemma pgw_recv_plain_up:
  assumes "plain_up p" "pgw_RecvFromS5cSocket p s = Some (t, as)"
  shows "pgw_shrinks s t \<and> (as = [] \<or> (\<exists>a q. as = [PgwSend (SendTo S5c a gtpcUdpPort q)] \<and> plain_down q))"
  using assms(1) [unfolded plain_up_def]
proof (elim disjE exE conjE)
  fix m
  assume m: "mbq_hwf m" "gh_messageType (mbq_header m) = MSG_ModifyBearerRequest" "p = mbq_Serialize m"
  obtain r u where "pg_deref s r = Some u" "t = pg_set r (pu_SetSgwAddr (pg_sgwS5Addr s) u) s"
    "as = [PgwSend (send_gtpc S5c (pg_sgwS5Addr s) (mbp_Serialize (switch_response (ucast (mbq_imsi m)))))]"
    using assms(2) mbq_msg.wire [OF m(1)] m(2,3)
      mbp_msg.gtpc_packet_Some [OF switch_response_fields(3)]
    by (auto simp: pgw_RecvFromS5cSocket_def msg_defs pgw_DoRecvModifyBearerRequest_def Let_def
        switch_response_def split: Option.bind_splits)
  then show ?thesis
    using plain_down_intros(1) pgw_shrinks_set [of s r u "pu_SetSgwAddr (pg_sgwS5Addr s) u"]
    by (auto simp: send_gtpc_def pu_SetSgwAddr_def ue_teids_def)
next
  fix m
  assume m: "dbc_hwf m" "gh_messageType (dbc_header m) = MSG_DeleteBearerCommand" "p = dbc_Serialize m"
  let ?m = "dbq_message (gh_teid (dbc_header m)) (dbc_bearerContexts m)"
  have es: "list_all ebi_ok (dbc_bearerContexts m)"
    using m(1) by (simp add: dbc_hwf_def)
  have "t = s \<and> as = [PgwSend (send_gtpc S5c (pg_sgwS5Addr s) (dbq_Serialize ?m))]"
    using assms(2) dbc_msg.wire [OF m(1)] m(2,3)
      dbq_msg.gtpc_packet_Some [OF delete_messages_hwf(2) [OF es]]
    by (auto simp: pgw_RecvFromS5cSocket_def msg_defs pgw_DoRecvDeleteBearerCommand_def Let_def
        dbq_message_def)
  then show ?thesis
    using plain_down_intros(2) [OF es] by (auto simp: send_gtpc_def)
next
  fix m
  assume m: "dbp_hwf m" "gh_messageType (dbp_header m) = MSG_DeleteBearerResponse" "p = dbp_Serialize m"
  obtain r u u' where "pg_deref s r = Some u" "pu_RemoveBearers (dbp_epsBearerIds m) u = Some u'"
    "t = pg_set r u' s" "as = []"
    using assms(2) dbp_msg.wire [OF m(1)] m(2,3)
    by (auto simp: pgw_RecvFromS5cSocket_def msg_defs pgw_DoRecvDeleteBearerResponse_def Let_def
        split: Option.bind_splits)
  then show ?thesis
    using pgw_shrinks_set pu_RemoveBearers_shrinks by auto
qed

section \<open>Keeping the invariant\<close>

lemma enb_inv_mono:
  assumes "enb_inv ow rn e" "ow \<subseteq>\<^sub>m ow'" "rn \<subseteq>\<^sub>m rn'"
  shows "enb_inv ow' rn' e"
proof -
  have "ow t = Some i \<Longrightarrow> ow' t = Some i" "rn r = Some i \<Longrightarrow> rn' r = Some i" for t r i
    using assms(2,3) by (metis domI map_le_def)+
  with assms(1) show ?thesis
    unfolding enb_inv_def by blast
qed

lemma pgw_inv_mono: "pgw_inv ow s \<Longrightarrow> ow \<subseteq>\<^sub>m ow' \<Longrightarrow> pgw_inv ow' s"
  using ok_mono(1) [of ow ow'] unfolding pgw_inv_def by blast

text \<open>The invariant of a state that differs from another one in some parts.\<close>

lemma epc_inv_update:
  assumes "epc_inv ow rn s" and ow: "ow \<subseteq>\<^sub>m ow'" and rn: "\<And>k. rn k \<subseteq>\<^sub>m rn' k"
    and "sgw_inv ow' (ep_sgw s')" and known: "known_teids (ep_sgw s) \<subseteq> known_teids (ep_sgw s')"
    and "pgw_inv ow' (ep_pgw s')"
    and adr: "\<And>p i. addressed (ep_pgw s) p i \<Longrightarrow> addressed (ep_pgw s') p i"
    and "mme_inv (ep_mme s')"
    and enb: "\<And>k e. ep_enb s' k = Some e \<Longrightarrow> ep_enb s k = Some e \<or> enb_inv ow' (rn' k) e"
    and fl: "\<And>x. x \<in> set (ep_flight s') \<Longrightarrow> x \<in> set (ep_flight s) \<or>
      msg_ok ow' (known_teids (ep_sgw s')) (addressed (ep_pgw s')) x"
  shows "epc_inv ow' rn' s'"
proof -
  have "enb_inv ow' (rn' k) e" if e: "ep_enb s' k = Some e" for k e
    using enb [OF e] enb_inv_mono [OF _ ow rn] assms(1) unfolding epc_inv_def by blast
  moreover have "msg_ok ow' (known_teids (ep_sgw s')) (addressed (ep_pgw s')) x"
    if x: "x \<in> set (ep_flight s')" for x
  proof (cases "x \<in> set (ep_flight s)")
    case True
    then have "msg_ok ow (known_teids (ep_sgw s)) (addressed (ep_pgw s)) x"
      using assms(1) by (simp add: epc_inv_def)
    then show ?thesis
      by (rule msg_ok_mono [OF _ ow known]) (rule adr)
  next
    case False
    with fl [OF x] show ?thesis
      by blast
  qed
  ultimately show ?thesis
    using assms(4,6,8) unfolding epc_inv_def by blast
qed

lemma epc_inv_send:
  assumes "epc_inv ow rn s"
    and "\<And>x. x \<in> set (route net n d) \<Longrightarrow> msg_ok ow (known_teids (ep_sgw s)) (addressed (ep_pgw s)) x"
  shows "epc_inv ow rn (epc_send net n [d] s)"
  using assms by (auto simp: epc_inv_def epc_send_def)

text \<open>Routing respects the ends of the interfaces.\<close>

lemma route_ends:
  assumes "net_ok net"
  shows "x \<in> set (route net NSgw (SendTo S5c a port p)) \<Longrightarrow> x = (NPgw, S5c, p)"
    "x \<in> set (route net NSgw (SendTo S11 a port p)) \<Longrightarrow> x = (NMme, S11, p)"
    "x \<in> set (route net NSgw (SendTo S5u a port p)) \<Longrightarrow> x = (NPgw, S5u, p)"
    "x \<in> set (route net NSgw (SendTo S1u a port p)) \<Longrightarrow> \<exists>k. x = (NEnb k, S1u, p)"
    "x \<in> set (route net NPgw (SendTo S5c a port p)) \<Longrightarrow> x = (NSgw, S5c, p)"
    "x \<in> set (route net NPgw (SendTo S5u a port p)) \<Longrightarrow> x = (NSgw, S5u, p)"
    "x \<in> set (route net NMme (SendTo S11 a port p)) \<Longrightarrow> x = (NSgw, S11, p)"
    "x \<in> set (route net (NEnb k) (SendTo S1u a port p)) \<Longrightarrow> x = (NSgw, S1u, p)"
  using assms unfolding net_ok_def route_def by (simp_all split: option.splits) metis+

section \<open>The TEIDs that a request allocates\<close>

definition new_owner :: "bytes \<Rightarrow> sgw \<Rightarrow> sgw \<Rightarrow> owner \<Rightarrow> owner" where
  "new_owner p s s' ow =
     (\<lambda>t. if sg_teidCount s < t \<and> t \<le> sg_teidCount s'
          then map_option (\<lambda>(m, _). csq_imsi m) (RemoveHeader csq_Deserialize p) else ow t)"

lemma new_owner_same: "sg_teidCount s' = sg_teidCount s \<Longrightarrow> new_owner p s s' ow = ow"
  by (auto simp: new_owner_def fun_eq_iff)

lemma new_owner_ext: "sgw_inv ow s \<Longrightarrow> ow \<subseteq>\<^sub>m new_owner p s s' ow"
  by (auto simp: map_le_def new_owner_def sgw_inv_def dom_def leD)

lemma sgw_create_bearers_bound:
  "sgw_create_bearers e bs s = Some r \<Longrightarrow> unat (sg_teidCount s) + length bs < 2 ^ 32"
proof (induction bs arbitrary: s r)
  case Nil
  have "unat (sg_teidCount s) < 2 ^ LENGTH(32)"
    by (rule unsigned_less)
  then show ?case
    by simp
next
  case (Cons b bs)
  then have "sg_teidCount s \<noteq> 0xFFFFFFFF"
    by (simp split: if_splits)
  moreover have "sg_teidCount s + 1 = 0 \<longleftrightarrow> sg_teidCount s = - 1"
    by (simp add: eq_neg_iff_add_eq_0)
  moreover have "(- 1 :: u32) = 0xFFFFFFFF"
    by code_simp
  ultimately have "unat (sg_teidCount s + 1) = Suc (unat (sg_teidCount s))"
    by (metis unatSuc add.commute)
  moreover obtain r' where "sgw_create_bearers e bs (s\<lparr>sg_teidCount := sg_teidCount s + 1,
      sg_enbByTeid := (sg_enbByTeid s)(sg_teidCount s + 1 \<mapsto> se_enbAddr e)\<rparr>) = Some r'"
    using Cons.prems by (auto simp: Let_def split: if_splits)
  ultimately show ?case
    using Cons.IH by fastforce
qed

lemma sgw_recv_create:
  assumes "csq_ok m" "sgw_RecvFromS11Socket c (csq_Serialize m) s = Some (t, ds)"
  shows "\<exists>e. t = sgw_after_create m e s \<and>
    unat (sg_teidCount s) + length (csq_bearerContexts m) < 2 ^ 32 \<and>
    ds = [SendTo S5c (sg_pgwAddr s) gtpcUdpPort
      (csq_Serialize (sgw_request (csq_imsi m) (ucast (csq_uliEcgi m)) (sg_s5Addr s)
        (sgw_contexts e (sg_teidCount s) (csq_bearerContexts m))))]"
proof -
  have m: "csq_hwf m" "gh_messageType (csq_header m) = MSG_CreateSessionRequest"
    using assms(1) by (simp_all add: csq_ok_def)
  have "sgw_DoRecvCreateSessionRequest (csq_Serialize m) s = Some (t, ds)"
    using assms(2) csq_msg.wire [OF m(1)] m(2) by (simp add: sgw_RecvFromS11Socket_def msg_defs)
  then obtain e s1 r where e: "sg_enbInfoByCellId s (ucast (csq_uliEcgi m)) = Some e"
    "sgw_create_bearers e (csq_bearerContexts m) s1 = Some r" "sg_teidCount s1 = sg_teidCount s"
    "ft_interfaceType (csq_senderCpFteid m) = S11_MME_GTPC"
    using csq_msg.wire [OF m(1)]
    by (auto simp: sgw_DoRecvCreateSessionRequest_def Let_def split: Option.bind_splits prod.splits)
  then have "unat (sg_teidCount s) + length (csq_bearerContexts m) < 2 ^ 32"
    using sgw_create_bearers_bound [OF e(2)] by simp
  with sgw_create_wire [OF m e(1) this e(4), of c] assms(2) show ?thesis
    by (auto simp: send_gtpc_def)
qed

lemma sgw_after_create_inv:
  assumes inv: "sgw_inv ow s" and m: "csq_ok m"
    and n: "unat (sg_teidCount s) + length (csq_bearerContexts m) < 2 ^ 32"
  shows "sgw_inv (new_owner (csq_Serialize m) s (sgw_after_create m e s) ow) (sgw_after_create m e s)"
    and "known_teids (sgw_after_create m e s) = insert (ucast (csq_imsi m)) (known_teids s)"
    and "\<forall>b\<in>set (sgw_contexts e (sg_teidCount s) (csq_bearerContexts m)).
      new_owner (csq_Serialize m) s (sgw_after_create m e s) ow (ctx_teid b) = Some (csq_imsi m)"
proof -
  let ?t = "sgw_after_create m e s"
  let ?l = "length (csq_bearerContexts m)"
  have count: "unat (sg_teidCount ?t) = unat (sg_teidCount s) + ?l"
    using n by (simp add: sgw_after_create_def unat_word_ariths unsigned_of_nat take_bit_nat_eq_self)
  have "t \<le> sg_teidCount ?t" if "t \<le> sg_teidCount s" for t
    using that count by (simp add: word_le_nat_alt)
  then show "sgw_inv (new_owner (csq_Serialize m) s ?t ow) ?t"
    using inv m by (auto simp: sgw_inv_def new_owner_def sgw_after_create_def csq_ok_def split: if_splits)
  show "known_teids ?t = insert (ucast (csq_imsi m)) (known_teids s)"
    by (auto simp: sgw_after_create_def)
  have "RemoveHeader csq_Deserialize (csq_Serialize m) = Some (m, [])"
    using m csq_msg.RemoveHeader_ser by (simp add: csq_ok_def)
  then show "\<forall>b\<in>set (sgw_contexts e (sg_teidCount s) (csq_bearerContexts m)).
      new_owner (csq_Serialize m) s ?t ow (ctx_teid b) = Some (csq_imsi m)"
    using teid_unat [OF n] count
    by (auto simp: in_set_conv_nth sgw_contexts_nth ctx_teid_def new_owner_def word_le_nat_alt
        word_less_nat_alt simp del: of_nat_Suc)
qed

section \<open>The SGW\<close>

lemma sgw_inv_enbByTeid [simp]: "sgw_inv ow (s\<lparr>sg_enbByTeid := f\<rparr>) = sgw_inv ow s"
  by (simp add: sgw_inv_def)

lemma deliver_sgw_s11:
  assumes net: "net_ok net" and inv: "epc_inv ow rn s"
    and p: "(\<exists>m. csq_ok m \<and> p = csq_Serialize m) \<or> plain_up p"
    and recv: "sgw_RecvFromS11Socket c p (ep_sgw s) = Some (t, ds)"
  shows "epc_inv (new_owner p (ep_sgw s) t ow) rn (epc_send net NSgw ds (s\<lparr>ep_sgw := t\<rparr>))"
  using p
proof (elim disjE exE conjE)
  fix m
  assume m: "csq_ok m" "p = csq_Serialize m"
  let ?ow = "new_owner p (ep_sgw s) t ow"
  obtain e where t: "t = sgw_after_create m e (ep_sgw s)"
    "unat (sg_teidCount (ep_sgw s)) + length (csq_bearerContexts m) < 2 ^ 32" and
    ds: "ds = [SendTo S5c (sg_pgwAddr (ep_sgw s)) gtpcUdpPort
      (csq_Serialize (sgw_request (csq_imsi m) (ucast (csq_uliEcgi m)) (sg_s5Addr (ep_sgw s))
        (sgw_contexts e (sg_teidCount (ep_sgw s)) (csq_bearerContexts m))))]"
    using sgw_recv_create [OF m(1)] recv m(2) by blast
  have sg: "sgw_inv ow (ep_sgw s)"
    using inv by (simp add: epc_inv_def)
  note after = sgw_after_create_inv [OF sg m(1) t(2), of e, folded t(1) m(2)]
  have "list_all bearer_context_ok (csq_bearerContexts m)"
    using m(1) by (simp add: csq_ok_def csq_hwf_def)
  then have req: "request_ok ?ow (known_teids t) (sgw_request (csq_imsi m) (ucast (csq_uliEcgi m))
      (sg_s5Addr (ep_sgw s)) (sgw_contexts e (sg_teidCount (ep_sgw s)) (csq_bearerContexts m)))"
    using after(2,3) m(1) by (simp add: request_ok_def csq_ok_def sgw_request_hwf sgw_contexts_ok)
  have "epc_inv ?ow rn (s\<lparr>ep_sgw := t\<rparr>)"
    using inv after new_owner_ext [OF sg] pgw_inv_mono
    by (intro epc_inv_update [OF inv]) (auto simp: epc_inv_def)
  then show ?thesis
    unfolding ds using route_ends(1) [OF net] req by (intro epc_inv_send) (auto dest!: route_ends(1) [OF net])
next
  assume "plain_up p"
  then obtain f a q where t: "t = (ep_sgw s)\<lparr>sg_enbByTeid := f\<rparr>" and
    ds: "ds = [SendTo S5c a gtpcUdpPort q]" "plain_up q"
    using sgw_recv_plain_up [OF _ recv] by blast
  have "new_owner p (ep_sgw s) t ow = ow"
    by (rule new_owner_same) (simp add: t)
  moreover have "epc_inv ow rn (s\<lparr>ep_sgw := t\<rparr>)"
    using inv by (simp add: epc_inv_def t)
  ultimately show ?thesis
    unfolding ds(1) using ds(2) by (auto intro!: epc_inv_send dest!: route_ends(1) [OF net])
qed

lemma deliver_sgw_s5c:
  assumes net: "net_ok net" and inv: "epc_inv ow rn s"
    and p: "(\<exists>m. csp_ok ow m \<and> gh_teid (csp_header m) \<in> known_teids (ep_sgw s) \<and>
      p = csp_Serialize m) \<or> plain_down p"
    and recv: "sgw_RecvFromS5cSocket g p (ep_sgw s) = Some (t, ds)"
  shows "epc_inv ow rn (epc_send net NSgw ds (s\<lparr>ep_sgw := t\<rparr>))"
  using p
proof (elim disjE exE conjE)
  fix m
  assume m: "csp_ok ow m" "gh_teid (csp_header m) \<in> known_teids (ep_sgw s)" "p = csp_Serialize m"
  obtain f where f: "sg_mmeS11FteidBySgwS5cTeid (ep_sgw s) (gh_teid (csp_header m)) = Some f"
    using m(2) by blast
  then have "ft_teid f = gh_teid (csp_header m)"
    using inv by (simp add: epc_inv_def sgw_inv_def)
  moreover have "list_all bearer_context_ok (csp_bearerContexts m)"
    using m(1) by (simp add: csp_ok_def csp_hwf_def)
  ultimately have ok: "csp_ok ow (sgw_response (fteid_norm g) (ft_teid f) (csp_bearerContexts m))"
    using m(1) by (simp add: csp_ok_def sgw_response_hwf)
  have w: "csp_hwf m" "gh_messageType (csp_header m) = MSG_CreateSessionResponse"
    using m(1) by (simp_all add: csp_ok_def)
  have "ft_interfaceType (csp_senderCpFteid m) = S5_PGW_GTPC"
    using recv [unfolded m(3)] csp_msg.wire [OF w(1)] w(2)
    by (auto simp: sgw_RecvFromS5cSocket_def msg_defs sgw_DoRecvCreateSessionResponse_def
        split: Option.bind_splits)
  from sgw_response_wire [OF w f this, of g] have "t = ep_sgw s"
    "ds = [SendTo S11 (ft_addr f) gtpcUdpPort
      (csp_Serialize (sgw_response (fteid_norm g) (ft_teid f) (csp_bearerContexts m)))]"
    using recv m(3) by (auto simp: send_gtpc_def)
  then show ?thesis
    using ok inv by (auto intro!: epc_inv_send dest!: route_ends(2) [OF net])
next
  assume "plain_down p"
  then obtain a q where "t = ep_sgw s" "ds = [SendTo S11 a gtpcUdpPort q]" "plain_down q"
    using sgw_recv_plain_down [OF _ recv] by blast
  then show ?thesis
    using inv by (auto intro!: epc_inv_send dest!: route_ends(2) [OF net])
qed

lemma deliver_sgw_s5u:
  assumes net: "net_ok net" and inv: "epc_inv ow rn s"
    and p: "tunnel_ok ow (addressed (ep_pgw s)) q"
    and recv: "sgw_RecvFromS5uSocket q (ep_sgw s) = Some (t, ds)"
  shows "epc_inv ow rn (epc_send net NSgw ds (s\<lparr>ep_sgw := t\<rparr>))"
proof -
  obtain teid p i where q: "gtpu_decap q = Some (teid, p)" "ow teid = Some i" "addressed (ep_pgw s) p i"
    using p by (auto simp: tunnel_ok_def)
  obtain f a where t: "t = (ep_sgw s)\<lparr>sg_enbByTeid := f\<rparr>" and
    d: "map_option (\<lambda>d. [d]) (send_gtpu S1u a teid p) = Some ds"
  proof (cases "sg_enbByTeid (ep_sgw s) teid")
    case None
    with recv q(1) show thesis
      by (intro that [of _ Ipv4Address_UNINITIALIZED])
         (auto simp: sgw_RecvFromS5uSocket_def split: Option.bind_splits)
  next
    case (Some a)
    with recv q(1) show thesis
      by (intro that [of "sg_enbByTeid (ep_sgw s)" a])
         (auto simp: sgw_RecvFromS5uSocket_def split: Option.bind_splits)
  qed
  obtain q' where q': "send_gtpu S1u a teid p = Some (SendTo S1u a gtpuUdpPort q')"
      "gtpu_decap q' = Some (teid, p)"
    using send_gtpu_Some by blast
  then have "tunnel_ok ow (addressed (ep_pgw s)) q'"
    using q by (auto simp: tunnel_ok_def)
  moreover have "epc_inv ow rn (s\<lparr>ep_sgw := t\<rparr>)"
    using inv by (simp add: epc_inv_def t)
  moreover have "ds = [SendTo S1u a gtpuUdpPort q']"
    using d q'(1) by simp
  ultimately show ?thesis
    by (auto intro!: epc_inv_send dest!: route_ends(4) [OF net])
qed

lemma deliver_sgw_s1u:
  assumes net: "net_ok net" and inv: "epc_inv ow rn s"
    and recv: "sgw_RecvFromS1uSocket q (ep_sgw s) = Some (t, ds)"
  shows "epc_inv ow rn (epc_send net NSgw ds (s\<lparr>ep_sgw := t\<rparr>))"
proof -
  have "t = ep_sgw s" "\<exists>a p. ds = [SendTo S5u a gtpuUdpPort p]"
    using recv by (auto simp: sgw_RecvFromS1uSocket_def send_gtpu_def split: Option.bind_splits)
  then show ?thesis
    using inv by (auto intro!: epc_inv_send dest!: route_ends(3) [OF net])
qed

section \<open>The PGW\<close>

definition same_maps :: "pgw \<Rightarrow> pgw \<Rightarrow> bool" where
  "same_maps s t \<longleftrightarrow> pg_ueInfoByImsi t = pg_ueInfoByImsi s \<and>
     pg_ueInfoByAddr t = pg_ueInfoByAddr s \<and> pg_ueInfoByAddr6 t = pg_ueInfoByAddr6 s"

lemma same_maps_set [simp]: "same_maps s (pg_set r u s)"
  by (simp add: same_maps_def pg_set_def)

lemma same_maps_refl [simp]: "same_maps s s"
  by (simp add: same_maps_def)

lemma addressed_same_maps: "same_maps s t \<Longrightarrow> addressed t = addressed s"
  by (simp add: addressed_def same_maps_def fun_eq_iff)

text \<open>Changing the object of a UE keeps the invariant when its templates are those of the UE.\<close>

lemma pgw_inv_set:
  assumes "pgw_inv ow s" "pg_ueInfoByImsi s i = Some r" "pg_deref s r = Some u"
    and "\<And>t. t \<in> ue_teids u' \<Longrightarrow> t \<in> ue_teids u \<or> ow t = Some i"
  shows "pgw_inv ow (pg_set r u' s)"
proof -
  have r: "pg_store s ! r = u" "r < length (pg_store s)"
    using assms(3) by (auto simp: pg_deref_def split: if_splits)
  then have "ow t = Some i" if "t \<in> ue_teids u'" for t
    using assms(1,2) assms(4) [OF that] unfolding pgw_inv_def by blast
  moreover have "j = i" if "pg_ueInfoByImsi s j = Some r" for j
    using assms(1,2) that unfolding pgw_inv_def by blast
  ultimately show ?thesis
    using assms(1) r by (auto simp: pgw_inv_def pg_set_def nth_list_update)
qed

lemma epc_inv_pgw:
  assumes "epc_inv ow rn s" "pgw_inv ow t" "same_maps (ep_pgw s) t"
  shows "epc_inv ow rn (s\<lparr>ep_pgw := t\<rparr>)"
  using assms addressed_same_maps [OF assms(3)] by (simp add: epc_inv_def)

lemma pgw_shrinks_inv: "pgw_shrinks s t \<Longrightarrow> pgw_inv ow s \<Longrightarrow> pgw_inv ow t"
  unfolding pgw_shrinks_def pgw_inv_def by (intro conjI allI impI ballI; (elim conjE)?; simp?) blast+

lemma pgw_shrinks_maps: "pgw_shrinks s t \<Longrightarrow> same_maps s t"
  by (simp add: pgw_shrinks_def same_maps_def)

lemma ue_teids_AddBearers:
  "ue_teids (fold pu_put bs u) = ue_teids u \<union> ctx_teid ` set bs"
  by (induction bs arbitrary: u)
     (auto simp: pu_put_def classifier_put_def ue_teids_def ctx_teid_def simp del: pu_put_fields)

lemma pgw_recv_create:
  assumes "csq_ok m" "pgw_RecvFromS5cSocket (csq_Serialize m) s = Some (t, as)"
  shows "\<exists>r u a. pg_ueInfoByImsi s (csq_imsi m) = Some r \<and> pg_deref s r = Some u \<and>
    t = pgw_after_create m r u s \<and> as = [PgwSend (SendTo S5c a gtpcUdpPort
      (csp_Serialize (pgw_response (pg_s5Addr s) (ucast (csq_imsi m)) (csq_bearerContexts m))))]"
proof -
  have m: "csq_hwf m" "gh_messageType (csq_header m) = MSG_CreateSessionRequest"
    "ft_teid (csq_senderCpFteid m) = ucast (csq_imsi m)"
    using assms(1) by (simp_all add: csq_ok_def)
  have "pgw_DoRecvCreateSessionRequest (csq_Serialize m) s = Some (t, as)"
    using assms(2) csq_msg.wire [OF m(1)] m(2) by (simp add: pgw_RecvFromS5cSocket_def msg_defs)
  then obtain r u where "pg_ueInfoByImsi s (csq_imsi m) = Some r" "pg_deref s r = Some u"
    "ft_interfaceType (csq_senderCpFteid m) = S5_SGW_GTPC"
    using csq_msg.wire [OF m(1)]
    by (auto simp: pgw_DoRecvCreateSessionRequest_def Let_def split: Option.bind_splits)
  note r = this
  obtain u' where "pu_AddBearers (csq_bearerContexts m) (pu_SetSgwAddr (pg_sgwS5Addr s) u) = Some u'"
    using pgw_create_wire_bearers [OF m(1,2) r] assms(2)
    by (cases "pu_AddBearers (csq_bearerContexts m) (pu_SetSgwAddr (pg_sgwS5Addr s) u)") simp_all
  with pgw_create_wire_bearers [OF m(1,2) r] assms(2) m(3) r pu_AddBearers_put [OF this]
  show ?thesis
    by (simp add: send_gtpc_def pgw_after_create_def)
qed

lemma deliver_pgw_s5c:
  assumes net: "net_ok net" and inv: "epc_inv ow rn s"
    and p: "(\<exists>m. request_ok ow (known_teids (ep_sgw s)) m \<and> p = csq_Serialize m) \<or> plain_up p"
    and recv: "pgw_RecvFromS5cSocket p (ep_pgw s) = Some (t, as)"
    and eff: "pgw_effects net as (s\<lparr>ep_pgw := t\<rparr>) = (s', os)"
  shows "epc_inv ow rn s' \<and> os = []"
  using p
proof (elim disjE exE conjE)
  fix m
  assume m: "request_ok ow (known_teids (ep_sgw s)) m" "p = csq_Serialize m"
  then have ok: "csq_ok m"
    by (simp add: request_ok_def)
  obtain r u a where r: "pg_ueInfoByImsi (ep_pgw s) (csq_imsi m) = Some r" "pg_deref (ep_pgw s) r = Some u"
    and t: "t = pgw_after_create m r u (ep_pgw s)" and
    as: "as = [PgwSend (SendTo S5c a gtpcUdpPort (csp_Serialize (pgw_response (pg_s5Addr (ep_pgw s))
      (ucast (csq_imsi m)) (csq_bearerContexts m))))]"
    using pgw_recv_create [OF ok] recv m(2) by blast
  have "ue_teids (pu_SetSgwAddr x u) = ue_teids u" for x
    by (simp add: ue_teids_def pu_SetSgwAddr_def)
  moreover have "pgw_inv ow (ep_pgw s)"
    using inv by (simp add: epc_inv_def)
  ultimately have "pgw_inv ow t"
    unfolding t pgw_after_create_def using m(1)
    by (intro pgw_inv_set [OF _ r]) (auto simp: ue_teids_AddBearers request_ok_def)
  then have 1: "epc_inv ow rn (s\<lparr>ep_pgw := t\<rparr>)"
    using inv t by (intro epc_inv_pgw) (simp_all add: pgw_after_create_def)
  have "list_all bearer_context_ok (csq_bearerContexts m)" "small_imsi (csq_imsi m)"
    using ok by (simp_all add: csq_ok_def csq_hwf_def)
  then have "csp_ok ow (pgw_response (pg_s5Addr (ep_pgw s)) (ucast (csq_imsi m)) (csq_bearerContexts m))"
    using m(1) by (simp add: csp_ok_def pgw_response_hwf request_ok_def small_imsi_def
        pgw_context_out_def ctx_teid_def)
  moreover have "ucast (csq_imsi m) \<in> known_teids (ep_sgw s)"
    using m(1) by (simp add: request_ok_def)
  ultimately have "epc_inv ow rn (epc_send net NPgw [SendTo S5c a gtpcUdpPort (csp_Serialize
      (pgw_response (pg_s5Addr (ep_pgw s)) (ucast (csq_imsi m)) (csq_bearerContexts m)))] (s\<lparr>ep_pgw := t\<rparr>))"
    by (intro epc_inv_send [OF 1]) (force dest!: route_ends(5) [OF net])
  with eff as show ?thesis
    by auto
next
  assume "plain_up p"
  then have t: "pgw_shrinks (ep_pgw s) t" and
    as: "as = [] \<or> (\<exists>a q. as = [PgwSend (SendTo S5c a gtpcUdpPort q)] \<and> plain_down q)"
    using pgw_recv_plain_up [OF _ recv] by blast+
  have 1: "epc_inv ow rn (s\<lparr>ep_pgw := t\<rparr>)"
    using inv pgw_shrinks_inv [OF t] pgw_shrinks_maps [OF t]
    by (intro epc_inv_pgw) (auto simp: epc_inv_def)
  from as show ?thesis
  proof (elim disjE exE conjE)
    fix a q
    assume "as = [PgwSend (SendTo S5c a gtpcUdpPort q)]" "plain_down q"
    moreover from this have "epc_inv ow rn (epc_send net NPgw [SendTo S5c a gtpcUdpPort q] (s\<lparr>ep_pgw := t\<rparr>))"
      by (intro epc_inv_send [OF 1]) (auto dest!: route_ends(5) [OF net])
    ultimately show ?thesis
      using eff by auto
  qed (use 1 eff in auto)
qed

lemma search_tft_in: "search_tft P m \<noteq> 0 \<Longrightarrow> search_tft P m \<in> fst ` set m"
  by (induction P m rule: search_tft.induct) (auto split: if_splits)

lemma Classify_in:
  assumes "Classify p d n c = Some (t, c')" "t \<noteq> 0"
  shows "t \<in> dom (map_of (m_tftMap c))"
proof -
  have "\<exists>P. t = search_tft P (rev (m_tftMap c))"
    using assms(1) Classify_tftMap [OF assms(1)]
    by (auto simp: Classify_def split: if_splits option.splits prod.splits)
  then show ?thesis
    using search_tft_in [of _ "rev (m_tftMap c)"] assms(2) by (auto simp: dom_map_of_conv_image_fst)
qed

lemma downlink_inv:
  assumes net: "net_ok net" and inv: "epc_inv ow rn s"
    and dl: "pgw_downlink p n r (ep_pgw s) = Some (t, as)"
    and adr: "\<And>i. pg_ueInfoByImsi (ep_pgw s) i = Some r \<Longrightarrow> addressed (ep_pgw s) p i"
    and r: "\<exists>i. pg_ueInfoByImsi (ep_pgw s) i = Some r"
    and eff: "pgw_effects net as (s\<lparr>ep_pgw := t\<rparr>) = (s', os)"
  shows "epc_inv ow rn s' \<and> os = []"
proof -
  obtain i where i: "pg_ueInfoByImsi (ep_pgw s) i = Some r"
    using r by blast
  obtain u teid c where u: "pg_deref (ep_pgw s) r = Some u"
    "Classify p DOWNLINK n (pu_tftClassifier u) = Some (teid, c)"
    "t = pg_set r (u\<lparr>pu_tftClassifier := c\<rparr>) (ep_pgw s)" and
    as: "as = [] \<or> teid \<noteq> 0 \<and> (\<exists>d. send_gtpu S5u (pu_sgwAddr u) teid p = Some d \<and> as = [PgwSend d])"
    using dl by (auto simp: pgw_downlink_def pu_Classify_def Let_def pgw_SendToS5uSocket_def
        split: Option.bind_splits option.splits if_splits)
  have pg: "pgw_inv ow (ep_pgw s)"
    using inv by (simp add: epc_inv_def)
  have "ue_teids (u\<lparr>pu_tftClassifier := c\<rparr>) = ue_teids u"
    using Classify_tftMap [OF u(2)] by (simp add: ue_teids_def)
  then have 1: "epc_inv ow rn (s\<lparr>ep_pgw := t\<rparr>)"
    using pgw_inv_set [OF pg i u(1)] inv u(3) by (intro epc_inv_pgw) auto
  from as show ?thesis
  proof (elim disjE exE conjE)
    fix d
    assume d: "teid \<noteq> 0" "send_gtpu S5u (pu_sgwAddr u) teid p = Some d" "as = [PgwSend d]"
    have "teid \<in> ue_teids u"
      using Classify_in [OF u(2) d(1)] by (simp add: ue_teids_def)
    moreover have "pg_store (ep_pgw s) ! r = u"
      using u(1) by (auto simp: pg_deref_def split: if_splits)
    ultimately have "ow teid = Some i"
      using pg i unfolding pgw_inv_def by blast
    moreover have "addressed t = addressed (ep_pgw s)"
      unfolding u(3) by (rule addressed_same_maps) simp
    moreover obtain q where q: "send_gtpu S5u (pu_sgwAddr u) teid p =
        Some (SendTo S5u (pu_sgwAddr u) gtpuUdpPort q)" "gtpu_decap q = Some (teid, p)"
      using send_gtpu_Some by blast
    ultimately have "tunnel_ok ow (addressed t) q"
      using adr [OF i] by (auto simp: tunnel_ok_def)
    then have "epc_inv ow rn (epc_send net NPgw [d] (s\<lparr>ep_pgw := t\<rparr>))"
      using d(2) q(1) by (intro epc_inv_send [OF 1]) (auto dest!: route_ends(6) [OF net])
    then show ?thesis
      using d(3) eff by simp
  qed (use 1 eff in auto)
qed

section \<open>The MME and the eNBs\<close>

lemma enb_inv_bind:
  assumes "enb_inv ow rn e" "ow teid = Some i" "rn rnti = Some i"
  shows "enb_inv ow rn (enb_bind rnti bid teid e)"
  using assms by (auto simp: enb_inv_def enb_bind_def Let_def)

lemma enb_inv_bindings:
  assumes "enb_inv ow rn e" "rn rnti = Some i" "\<forall>b\<in>set es. ow (es_sgwTeid b) = Some i"
  shows "enb_inv ow rn (enb_bindings rnti es e)"
  using assms by (induction es arbitrary: e) (auto intro: enb_inv_bind)

lemma enb_recv_inv:
  assumes "enb_inv ow rn e" "enb_recv_s1ap c e = Some (e', acts)"
    and "\<And>i x es. c = InitialContextSetupRequest i x es \<Longrightarrow> \<forall>b\<in>set es. ow (es_sgwTeid b) = Some i"
  shows "enb_inv ow rn e' \<and> (\<exists>cs. acts = map CallRrc cs)"
proof (cases c)
  case (InitialContextSetupRequest i x es)
  then obtain rnti where r: "en_imsiRnti e i = Some rnti"
    using assms(2) by (auto simp: enb_recv_s1ap_def enb_DoInitialContextSetupRequest_def
        split: Option.bind_splits)
  then have "rn rnti = Some i"
    using assms(1) by (simp add: enb_inv_def)
  moreover have "e' = enb_bindings rnti es e" "acts = map CallRrc (map (drb_setup rnti) es @
      [RrcInitialContextSetup rnti])"
    using enb_initial_context_setup [OF r, of x es] assms(2) InitialContextSetupRequest
    by (simp_all add: comp_def)
  ultimately show ?thesis
    using enb_inv_bindings [OF assms(1)] assms(3) [OF InitialContextSetupRequest] by blast
next
  case (PathSwitchRequestAcknowledge a b g)
  then obtain r where "e' = e" "acts = map CallRrc [RrcPathSwitchAck r]"
    using assms(2) by (auto simp: enb_recv_s1ap_def enb_DoPathSwitchRequestAcknowledge_def
        split: Option.bind_splits)
  with assms(1) show ?thesis
    by blast
qed

definition quiet :: "epc_out list \<Rightarrow> bool" where
  "quiet os \<longleftrightarrow> (\<forall>k n p f. Radio k n p f \<notin> set os)"

lemma quiet_Nil [simp]: "quiet []"
  by (simp add: quiet_def)

lemma epc_inv_enb:
  assumes "epc_inv ow rn s" "enb_inv ow (rn k) e"
  shows "epc_inv ow rn (s\<lparr>ep_enb := (ep_enb s)(k \<mapsto> e)\<rparr>)"
  using assms by (simp add: epc_inv_def)

lemma call_enb_inv:
  assumes inv: "epc_inv ow rn s" and eff: "mme_effects net [CallEnb k c] s = Some (s', os)"
    and c: "\<And>i x es. c = InitialContextSetupRequest i x es \<Longrightarrow> \<forall>b\<in>set es. ow (es_sgwTeid b) = Some i"
  shows "epc_inv ow rn s' \<and> quiet os"
proof -
  obtain e e' acts where e: "ep_enb s k = Some e" "enb_recv_s1ap c e = Some (e', acts)"
    using eff by (auto split: Option.bind_splits)
  have "enb_inv ow (rn k) e"
    using inv e(1) by (simp add: epc_inv_def)
  then have "enb_inv ow (rn k) e' \<and> (\<exists>cs. acts = map CallRrc cs)"
    by (rule enb_recv_inv [OF _ e(2)]) (rule c)
  then obtain cs where "enb_inv ow (rn k) e'" "acts = map CallRrc cs"
    by blast
  moreover from this(2) have "s' = s\<lparr>ep_enb := (ep_enb s)(k \<mapsto> e')\<rparr>" "os = map (Rrc k) cs"
    using eff mme_effects_call [OF e(1), of c e' cs net] e(2) by auto
  ultimately show ?thesis
    using epc_inv_enb [OF inv] by (auto simp: quiet_def)
qed

lemma remove_first_subset: "remove_first e bs = Some cs \<Longrightarrow> set cs \<subseteq> set bs"
  by (induction bs arbitrary: cs) (auto split: if_splits)

lemma RemoveBearer_ok:
  assumes "list_all mme_bearer_ok (mu_bearersToBeActivated u)"
  shows "list_all mme_bearer_ok (mu_bearersToBeActivated (mme_RemoveBearer e u)) \<and>
    mu_mmeUeS1Id (mme_RemoveBearer e u) = mu_mmeUeS1Id u"
  using assms remove_first_subset [of e "mu_bearersToBeActivated u"]
  by (auto simp: mme_RemoveBearer_def list_all_iff split: option.splits)

lemma RemoveBearers_ok:
  assumes "list_all mme_bearer_ok (mu_bearersToBeActivated u)"
  shows "list_all mme_bearer_ok (mu_bearersToBeActivated (fold mme_RemoveBearer es u)) \<and>
    mu_mmeUeS1Id (fold mme_RemoveBearer es u) = mu_mmeUeS1Id u"
  using assms by (induction es arbitrary: u) (use RemoveBearer_ok in auto)

lemma mme_inv_set:
  assumes "mme_inv s" "small_imsi i" "mu_mmeUeS1Id u = i"
    and "list_all mme_bearer_ok (mu_bearersToBeActivated u)"
  shows "mme_inv (mm_set i u s)"
  using assms by (simp add: mme_inv_def mm_set_def)

lemma mme_recv_plain_down:
  assumes "plain_down p" "mme_RecvFromS11Socket c p s = Some (t, as)" "mme_inv s"
  shows "mme_inv t \<and> ((\<exists>a q. as = [MmeSend (SendTo S11 a gtpcUdpPort q)] \<and> plain_up q) \<or>
    (\<exists>k x y z. as = [CallEnb k (PathSwitchRequestAcknowledge x y z)]))"
  using assms(1) [unfolded plain_down_def]
proof (elim disjE exE conjE)
  fix m
  assume m: "mbp_hwf m" "gh_messageType (mbp_header m) = MSG_ModifyBearerResponse" "p = mbp_Serialize m"
  have "t = s \<and> (\<exists>k x y z. as = [CallEnb k (PathSwitchRequestAcknowledge x y z)])"
    using assms(2) mbp_msg.wire [OF m(1)] m(2,3)
    by (auto simp: mme_RecvFromS11Socket_def msg_defs mme_DoRecvModifyBearerResponse_def Let_def
        split: Option.bind_splits)
  with assms(3) show ?thesis
    by blast
next
  fix m
  assume m: "dbq_hwf m" "gh_messageType (dbq_header m) = MSG_DeleteBearerRequest" "p = dbq_Serialize m"
  let ?m = "dbp_message c (gh_teid (dbq_header m)) (dbq_epsBearerIds m)"
  let ?i = "ucast (gh_teid (dbq_header m)) :: u64"
  have es: "list_all ebi_ok (dbq_epsBearerIds m)"
    using m(1) by (simp add: dbq_hwf_def)
  obtain u where u: "mm_ueInfo s ?i = Some u"
    "t = mm_set ?i (if mu_cellId u = 0 then fold mme_RemoveBearer (dbq_epsBearerIds m) u else u) s"
    "as = [MmeSend (send_gtpc S11 (mm_sgwS11Addr s) (dbp_Serialize ?m))]"
    using assms(2) dbq_msg.wire [OF m(1)] m(2,3)
      dbp_msg.gtpc_packet_Some [OF delete_messages_hwf(3) [OF es, of c]]
    by (auto simp: mme_RecvFromS11Socket_def msg_defs mme_DoRecvDeleteBearerRequest_def Let_def
        dbp_message_def split: Option.bind_splits)
  have "small_imsi ?i" "mu_mmeUeS1Id u = ?i" "list_all mme_bearer_ok (mu_bearersToBeActivated u)"
    using assms(3) u(1) unfolding mme_inv_def by blast+
  then have "mme_inv t"
    unfolding u(2) using RemoveBearers_ok [of u] by (intro mme_inv_set [OF assms(3)]) auto
  then show ?thesis
    using u(3) plain_up_intros(3) [OF es] by (auto simp: send_gtpc_def)
qed

lemma mme_recv_response:
  assumes m: "csp_ok ow m" and "mme_RecvFromS11Socket c (csp_Serialize m) s = Some (t, as)" "mme_inv s"
  shows "t = s \<and> (\<exists>k x. as = [CallEnb k (InitialContextSetupRequest
    (ucast (gh_teid (csp_header m))) x (map mme_erab (csp_bearerContexts m)))])"
proof -
  have h: "csp_hwf m" "gh_messageType (csp_header m) = MSG_CreateSessionResponse"
    using m by (simp_all add: csp_ok_def)
  have "mme_DoRecvCreateSessionResponse (csp_header m) (csp_Serialize m) s = Some (t, as)"
    using assms(2) csp_msg.wire [OF h(1)] h(2) by (simp add: mme_RecvFromS11Socket_def msg_defs Let_def)
  then obtain u e where u: "mm_ueInfo s (ucast (gh_teid (csp_header m))) = Some u"
    "mm_enbInfo s (mu_cellId u) = Some e"
    by (auto simp: mme_DoRecvCreateSessionResponse_def split: Option.bind_splits)
  moreover from this(1) have "mu_mmeUeS1Id u = ucast (gh_teid (csp_header m))"
    using assms(3) by (simp add: mme_inv_def)
  ultimately show ?thesis
    using mme_response_wire [OF h u, of c] assms(2) by simp
qed

lemma deliver_mme:
  assumes net: "net_ok net" and inv: "epc_inv ow rn s"
    and p: "(\<exists>m. csp_ok ow m \<and> p = csp_Serialize m) \<or> plain_down p"
    and recv: "mme_RecvFromS11Socket c p (ep_mme s) = Some (t, as)"
    and eff: "mme_effects net as (s\<lparr>ep_mme := t\<rparr>) = Some (s', os)"
  shows "epc_inv ow rn s' \<and> quiet os"
proof -
  have mi: "mme_inv (ep_mme s)"
    using inv by (simp add: epc_inv_def)
  from p show ?thesis
  proof (elim disjE exE conjE)
    fix m
    assume m: "csp_ok ow m" "p = csp_Serialize m"
    then obtain k x where t: "t = ep_mme s" "as = [CallEnb k (InitialContextSetupRequest
        (ucast (gh_teid (csp_header m))) x (map mme_erab (csp_bearerContexts m)))]"
      using mme_recv_response [OF m(1) _ mi] recv by blast
    show ?thesis
      using eff m(1) inv unfolding t
      by (intro call_enb_inv [of ow rn s net k]) (auto simp: csp_ok_def mme_erab_def ctx_teid_def)
  next
    assume "plain_down p"
    from mme_recv_plain_down [OF this recv mi] have "mme_inv t" and
      as: "(\<exists>a q. as = [MmeSend (SendTo S11 a gtpcUdpPort q)] \<and> plain_up q) \<or>
        (\<exists>k x y z. as = [CallEnb k (PathSwitchRequestAcknowledge x y z)])"
      by blast+
    then have 1: "epc_inv ow rn (s\<lparr>ep_mme := t\<rparr>)"
      using inv by (simp add: epc_inv_def)
    from as show ?thesis
    proof (elim disjE exE conjE)
      fix a q
      assume a: "as = [MmeSend (SendTo S11 a gtpcUdpPort q)]" "plain_up q"
      then have "epc_inv ow rn (epc_send net NMme [SendTo S11 a gtpcUdpPort q] (s\<lparr>ep_mme := t\<rparr>))"
        by (intro epc_inv_send [OF 1]) (auto dest!: route_ends(7) [OF net])
      then show ?thesis
        using eff a(1) by auto
    next
      fix k x y z
      assume "as = [CallEnb k (PathSwitchRequestAcknowledge x y z)]"
      then show ?thesis
        using eff by (intro call_enb_inv [OF 1]) auto
    qed
  qed
qed

text \<open>What the radio stack of an eNB is given for an RNTI is addressed to the UE with that RNTI.\<close>

definition radio_ok :: "(nat \<Rightarrow> rntis) \<Rightarrow> (bytes \<Rightarrow> u64 \<Rightarrow> bool) \<Rightarrow> epc_out list \<Rightarrow> bool" where
  "radio_ok rn adr os \<longleftrightarrow>
     (\<forall>k n p rnti bid. Radio k n p (rnti, bid) \<in> set os \<longrightarrow> (\<exists>i. rn k rnti = Some i \<and> adr p i))"

lemma quiet_radio_ok: "quiet os \<Longrightarrow> radio_ok rn adr os"
  by (simp add: quiet_def radio_ok_def)

lemma deliver_enb:
  assumes inv: "epc_inv ow rn s" and q: "tunnel_ok ow (addressed (ep_pgw s)) q"
    and e: "ep_enb s k = Some e" and recv: "enb_RecvFromS1uSocket q e = Some (e', as)"
    and eff: "enb_effects net k as (s\<lparr>ep_enb := (ep_enb s)(k \<mapsto> e')\<rparr>) = Some (s', os)"
  shows "epc_inv ow rn s' \<and> radio_ok rn (addressed (ep_pgw s)) os"
proof -
  obtain teid p i where q: "gtpu_decap q = Some (teid, p)" "ow teid = Some i" "addressed (ep_pgw s) p i"
    using q by (auto simp: tunnel_ok_def)
  have ei: "enb_inv ow (rn k) e"
    using inv e by (simp add: epc_inv_def)
  have "e' = e \<and> (as = [] \<or> (\<exists>n rnti bid. en_teidRbid e teid = Some (rnti, bid) \<and>
      as = [LteSend n p (rnti, bid)]))"
    using recv q(1)
    by (auto simp: enb_RecvFromS1uSocket_def enb_SendToLteSocket_def split: option.splits if_splits)
  moreover have "epc_inv ow rn (s\<lparr>ep_enb := (ep_enb s)(k \<mapsto> e)\<rparr>)"
    by (rule epc_inv_enb [where k = k, OF inv ei])
  moreover have "rn k rnti = Some i" if "en_teidRbid e teid = Some (rnti, bid)" for rnti bid
    using ei that q(2) unfolding enb_inv_def by fastforce
  ultimately show ?thesis
    using eff q(3) by (auto simp: radio_ok_def)
qed

lemma deliver_inv:
  assumes net: "net_ok net" and inv: "epc_inv ow rn s"
    and p: "msg_ok ow (known_teids (ep_sgw s)) (addressed (ep_pgw s)) (n, i, p)"
    and del: "epc_deliver net g c n i p s = Some (s', os)"
  shows "epc_inv (if n = NSgw \<and> i = S11 then new_owner p (ep_sgw s) (ep_sgw s') ow else ow) rn s' \<and>
    radio_ok rn (addressed (ep_pgw s)) os"
proof -
  have nil: "radio_ok rn (addressed (ep_pgw s)) []"
    by (simp add: radio_ok_def)
  consider "n = NSgw" "i = S11" | "n = NSgw" "i = S5c" | "n = NSgw" "i = S5u" | "n = NSgw" "i = S1u"
    | "n = NPgw" "i = S5c" | "n = NPgw" "i = S5u" | "n = NMme" "i = S11" | k where "n = NEnb k" "i = S1u"
    using del by (cases n; cases i) (auto simp: epc_deliver_def)
  then show ?thesis
  proof cases
    case 1
    then obtain t ds where t: "sgw_RecvFromS11Socket c p (ep_sgw s) = Some (t, ds)"
      "s' = epc_send net NSgw ds (s\<lparr>ep_sgw := t\<rparr>)" "os = []"
      using del by (auto simp: epc_deliver_def)
    moreover have "ep_sgw s' = t"
      by (simp add: t(2) epc_send_def)
    ultimately show ?thesis
      using deliver_sgw_s11 [OF net inv _ t(1)] p 1 nil by simp
  next
    case 2
    then obtain t ds where "sgw_RecvFromS5cSocket g p (ep_sgw s) = Some (t, ds)"
      "s' = epc_send net NSgw ds (s\<lparr>ep_sgw := t\<rparr>)" "os = []"
      using del by (auto simp: epc_deliver_def)
    with deliver_sgw_s5c [OF net inv _ this(1)] p nil show ?thesis
      unfolding 2 by simp
  next
    case 3
    then obtain t ds where "sgw_RecvFromS5uSocket p (ep_sgw s) = Some (t, ds)"
      "s' = epc_send net NSgw ds (s\<lparr>ep_sgw := t\<rparr>)" "os = []"
      using del by (auto simp: epc_deliver_def)
    with deliver_sgw_s5u [OF net inv _ this(1)] p nil show ?thesis
      unfolding 3 by simp
  next
    case 4
    then show ?thesis
      using deliver_sgw_s1u [OF net inv] del nil by (auto simp: epc_deliver_def)
  next
    case 5
    then show ?thesis
      using deliver_pgw_s5c [OF net inv] p del nil by (fastforce simp: epc_deliver_def)
  next
    case 6
    then obtain t p' n' where "s' = s" "os = [Internet p' n']"
      using del by (auto simp: epc_deliver_def pgw_RecvFromS5uSocket_def pgw_SendToTunDevice_def
          split: Option.bind_splits option.splits if_splits)
    then show ?thesis
      using inv 6 by (simp add: radio_ok_def)
  next
    case 7
    then obtain t as where "mme_RecvFromS11Socket c p (ep_mme s) = Some (t, as)"
      "mme_effects net as (s\<lparr>ep_mme := t\<rparr>) = Some (s', os)"
      using del by (auto simp: epc_deliver_def split: Option.bind_splits)
    with deliver_mme [OF net inv _ this] p show ?thesis
      unfolding 7 by (simp add: quiet_radio_ok)
  next
    case 8
    then show ?thesis
      using deliver_enb [OF inv] p del by (auto simp: epc_deliver_def split: Option.bind_splits)
  qed
qed

section \<open>Steps of the environment\<close>

lemma enb_call_mme:
  assumes "enb_calls net g [CallMme c] s = Some (s', os)"
    and "mme_recv_s1ap g c (ep_mme s) = Some (m, [MmeSend d])"
  shows "s' = epc_send net NMme [d] (s\<lparr>ep_mme := m\<rparr>) \<and> os = []"
  using assms by simp

lemma small_imsi_u32 [simp]: "small_imsi (ucast (i :: u32))"
  by (simp add: small_imsi_def)

lemma attach_inv:
  assumes net: "net_ok net" and inv: "epc_inv ow rn s"
    and att: "epc_attach net g k imsi rnti s = Some (s', os)"
    and rnti: "rn k rnti = None \<or> rn k rnti = Some imsi"
  shows "epc_inv ow (rn(k := (rn k)(rnti \<mapsto> imsi))) s' \<and> os = []"
proof -
  let ?rn = "rn(k := (rn k)(rnti \<mapsto> imsi))"
  have rn: "rn j \<subseteq>\<^sub>m ?rn j" for j
    using rnti by (auto simp: map_le_def)
  obtain e where e: "ep_enb s k = Some e"
    using att by (auto simp: epc_attach_def split: Option.bind_splits)
  let ?e = "e\<lparr>en_imsiRnti := (en_imsiRnti e)(imsi \<mapsto> rnti)\<rparr>"
  let ?s = "s\<lparr>ep_enb := (ep_enb s)(k \<mapsto> ?e)\<rparr>"
  have calls: "enb_calls net g [CallMme (InitialUeMessage imsi rnti imsi (en_cellId e))] ?s = Some (s', os)"
    using att e by (simp add: epc_attach_def enb_DoInitialUeMessage_def Let_def)
  obtain u where u: "mm_ueInfo (ep_mme s) imsi = Some u"
    using calls by (auto simp: mme_recv_s1ap_def mme_DoInitialUeMessage_def split: Option.bind_splits)
  then have ok: "small_imsi imsi" "mu_mmeUeS1Id u = imsi" "list_all mme_bearer_ok (mu_bearersToBeActivated u)"
    using inv unfolding epc_inv_def mme_inv_def by blast+
  let ?m = "mme_request (fteid_norm g) imsi (en_cellId e) (mm_mmeS11Addr (ep_mme s)) (mu_bearersToBeActivated u)"
  let ?mme = "mm_set imsi (u\<lparr>mu_cellId := en_cellId e\<rparr>) (ep_mme s)"
  have s': "s' = epc_send net NMme [send_gtpc S11 (mm_sgwS11Addr (ep_mme s)) (csq_Serialize ?m)]
      (?s\<lparr>ep_mme := ?mme\<rparr>) \<and> os = []"
    using enb_call_mme [OF calls] mme_initial_wire [OF u ok(3), of g imsi rnti "en_cellId e"]
    by (simp add: mme_recv_s1ap_def)
  have "csq_ok ?m"
    using ok by (simp add: csq_ok_def mme_request_hwf)
  moreover have "enb_inv ow (?rn k) e"
    using enb_inv_mono [OF _ map_le_refl rn [of k]] inv e by (simp add: epc_inv_def)
  then have "enb_inv ow (?rn k) ?e"
    by (simp add: enb_inv_def)
  moreover have "mme_inv ?mme"
    using ok inv by (intro mme_inv_set) (simp_all add: epc_inv_def)
  ultimately have "epc_inv ow ?rn (?s\<lparr>ep_mme := ?mme\<rparr>)"
    using inv by (intro epc_inv_update [OF inv map_le_refl rn]) (simp_all add: epc_inv_def split: if_splits)
  with s' \<open>csq_ok ?m\<close> show ?thesis
    by (auto simp: send_gtpc_def intro!: epc_inv_send dest!: route_ends(7) [OF net])
qed

lemma path_switch_inv:
  assumes net: "net_ok net" and inv: "epc_inv ow rn s"
    and sw: "epc_path_switch net g k ps s = Some (s', os)"
    and rnti: "rn k (ps_rnti ps) = None \<or> rn k (ps_rnti ps) = Some (ucast (ps_mmeUeS1Id ps))"
    and bs: "\<forall>(bid, teid)\<in>set (ps_bearers ps). ebi_ok bid \<and> ow teid = Some (ucast (ps_mmeUeS1Id ps))"
  shows "epc_inv ow (rn(k := (rn k)(ps_rnti ps \<mapsto> ucast (ps_mmeUeS1Id ps)))) s' \<and> os = []"
proof -
  let ?i = "ucast (ps_mmeUeS1Id ps) :: u64"
  let ?rn = "rn(k := (rn k)(ps_rnti ps \<mapsto> ?i))"
  have rn: "rn j \<subseteq>\<^sub>m ?rn j" for j
    using rnti by (auto simp: map_le_def)
  obtain e where e: "ep_enb s k = Some e"
    using sw by (auto simp: epc_path_switch_def split: Option.bind_splits)
  let ?e = "switch_enb ps e"
  let ?s = "s\<lparr>ep_enb := (ep_enb s)(k \<mapsto> ?e)\<rparr>"
  let ?es = "map (enb_erab_switched (en_enbS1uAddress e)) (ps_bearers ps)"
  have calls: "enb_calls net g [CallMme (PathSwitchRequest (ucast (ps_rnti ps)) ?i (ps_cellId ps) ?es)] ?s =
      Some (s', os)"
    using sw e by (simp add: epc_path_switch_def enb_DoPathSwitchRequest_def Let_def switch_enb_def)
  obtain u where u: "mm_ueInfo (ep_mme s) ?i = Some u"
    using calls by (auto simp: mme_recv_s1ap_def mme_DoPathSwitchRequest_def split: Option.bind_splits)
  then have ok: "mu_mmeUeS1Id u = ?i" "list_all mme_bearer_ok (mu_bearersToBeActivated u)"
    using inv unfolding epc_inv_def mme_inv_def by blast+
  have mods: "list_all bearer_modify_ok (map mme_modify_context ?es)"
    using bs by (auto simp: list_all_iff bearer_modify_ok_def mme_modify_context_def enb_erab_switched_def)
  let ?mme = "mm_set ?i (u\<lparr>mu_cellId := ps_cellId ps, mu_enbUeS1Id := ucast (ucast (ps_rnti ps) :: u64)\<rparr>) (ep_mme s)"
  let ?q = "mbq_Serialize (switch_message ?i (ps_cellId ps) (map mme_modify_context ?es))"
  have s': "s' = epc_send net NMme [send_gtpc S11 (mm_sgwS11Addr (ep_mme s)) ?q] (?s\<lparr>ep_mme := ?mme\<rparr>) \<and>
      os = []"
    using enb_call_mme [OF calls] mme_switch_wire [OF u mods, of "ucast (ps_rnti ps)" "ps_cellId ps"]
    by (simp add: mme_recv_s1ap_def)
  have "enb_inv ow (?rn k) (e\<lparr>en_imsiRnti := (en_imsiRnti e)(?i \<mapsto> ps_rnti ps)\<rparr>)"
    using enb_inv_mono [OF _ map_le_refl rn [of k], of ow e] inv e by (simp add: epc_inv_def enb_inv_def)
  then have "enb_inv ow (?rn k) (fold (\<lambda>(bid, teid). enb_bind (ps_rnti ps) bid teid) bs
      (e\<lparr>en_imsiRnti := (en_imsiRnti e)(?i \<mapsto> ps_rnti ps)\<rparr>))"
    if "\<forall>(bid, teid)\<in>set bs. ow teid = Some ?i" for bs
    using that by (induction bs arbitrary: e rule: rev_induct) (auto intro!: enb_inv_bind)
  then have "enb_inv ow (?rn k) ?e"
    using bs by (auto simp: switch_enb_def)
  moreover have "mme_inv ?mme"
    using ok inv by (intro mme_inv_set) (simp_all add: epc_inv_def)
  ultimately have "epc_inv ow ?rn (?s\<lparr>ep_mme := ?mme\<rparr>)"
    using inv by (intro epc_inv_update [OF inv map_le_refl rn]) (simp_all add: epc_inv_def split: if_splits)
  with s' plain_up_intros(1) [OF mods] show ?thesis
    by (auto simp: send_gtpc_def intro!: epc_inv_send dest!: route_ends(7) [OF net])
qed

lemma context_release_inv:
  assumes inv: "epc_inv ow rn s" and e: "ep_enb s k = Some e"
  shows "epc_inv ow rn (s\<lparr>ep_enb := (ep_enb s)(k \<mapsto> enb_DoUeContextRelease rnti e)\<rparr>)"
proof (rule epc_inv_enb [OF inv])
  have sub: "fold (\<lambda>(_, teid) f. f(teid := None)) m f t = Some x \<Longrightarrow> f t = Some x"
    for m :: "(u8 \<times> u32) list" and f :: "u32 \<Rightarrow> flow_id option" and t x
  proof (induction m arbitrary: f)
    case (Cons b m)
    then have "(f(snd b := None)) t = Some x"
      by (simp add: split_beta del: fun_upd_apply)
    then show ?case
      by (simp split: if_splits)
  qed simp
  have "enb_inv ow (rn k) e"
    using inv e by (simp add: epc_inv_def)
  then show "enb_inv ow (rn k) (enb_DoUeContextRelease rnti e)"
    by (auto simp: enb_DoUeContextRelease_def enb_inv_def dest!: sub split: option.splits)
qed

lemma release_bearer_inv:
  assumes net: "net_ok net" and inv: "epc_inv ow rn s" and bid: "ebi_ok bid"
    and rel: "epc_release_bearer net g k imsi rnti bid s = Some (s', os)"
  shows "epc_inv ow rn s' \<and> os = []"
proof -
  obtain e where e: "ep_enb s k = Some e"
    using rel by (auto simp: epc_release_bearer_def split: Option.bind_splits)
  let ?s = "s\<lparr>ep_enb := (ep_enb s)(k \<mapsto> e)\<rparr>"
  let ?m = "dbc_message (ucast imsi) [bid]"
  have "enb_calls net g [CallMme (ErabReleaseIndication imsi rnti [bid])] ?s = Some (s', os)"
    using rel e by (simp add: epc_release_bearer_def enb_DoReleaseIndication_def Let_def)
  moreover have "mme_recv_s1ap g (ErabReleaseIndication imsi rnti [bid]) (ep_mme s) = Some (ep_mme s,
      [MmeSend (send_gtpc S11 (mm_sgwS11Addr (ep_mme s)) (dbc_Serialize ?m))])"
    using dbc_msg.gtpc_packet_Some [OF delete_messages_hwf(1), of "[bid]" "ucast imsi"] bid
    by (simp add: mme_recv_s1ap_def mme_DoErabReleaseIndication_def Let_def dbc_message_def)
  ultimately have s': "s' = epc_send net NMme [send_gtpc S11 (mm_sgwS11Addr (ep_mme s)) (dbc_Serialize ?m)] ?s \<and>
      os = []"
    by simp
  have "epc_inv ow rn ?s"
    using inv e by (intro epc_inv_enb) (simp_all add: epc_inv_def)
  moreover have "plain_up (dbc_Serialize ?m)"
    using bid by (intro plain_up_intros(2)) simp
  ultimately show ?thesis
    using s' by (auto simp: send_gtpc_def intro!: epc_inv_send dest!: route_ends(7) [OF net])
qed

lemma pgw_tun_cases:
  assumes "pgw_RecvFromTunDevice p n s = Some (t, as)"
  shows "t = s \<and> as = [] \<or> (\<exists>r. pgw_downlink p n r s = Some (t, as) \<and> addressed_to s n p r)"
proof -
  have "n = IPV4_PROT \<or> n = IPV6_PROT"
    using assms by (auto simp: pgw_RecvFromTunDevice_def split: if_splits)
  then show ?thesis
  proof
    assume n: "n = IPV4_PROT"
    then show ?thesis
      using assms by (cases "PeekHeader ipv4_Deserialize p")
        (auto simp: pgw_RecvFromTunDevice_def addressed_to_def split: option.splits)
  next
    assume n: "n = IPV6_PROT"
    then have "n \<noteq> IPV4_PROT"
      by (simp add: prot_defs)
    then show ?thesis
      using assms n by (cases "PeekHeader ipv6_Deserialize p")
        (auto simp: pgw_RecvFromTunDevice_def addressed_to_def split: option.splits)
  qed
qed

lemma epc_downlink_inv:
  assumes net: "net_ok net" and inv: "epc_inv ow rn s" and dl: "epc_downlink net p n s = Some (s', os)"
  shows "epc_inv ow rn s' \<and> os = []"
proof -
  obtain t as where t: "pgw_RecvFromTunDevice p n (ep_pgw s) = Some (t, as)"
    "pgw_effects net as (s\<lparr>ep_pgw := t\<rparr>) = (s', os)"
    using dl by (auto simp: epc_downlink_def split: Option.bind_splits)
  have pg: "pgw_inv ow (ep_pgw s)"
    using inv by (simp add: epc_inv_def)
  consider "t = ep_pgw s" "as = []"
    | r where "pgw_downlink p n r (ep_pgw s) = Some (t, as)" "addressed_to (ep_pgw s) n p r"
    using t(1) pgw_tun_cases by blast
  then show ?thesis
  proof cases
    case 1
    then show ?thesis
      using t(2) inv by simp
  next
    case (2 r)
    have "\<exists>i. pg_ueInfoByImsi (ep_pgw s) i = Some r"
      using 2(2) pg unfolding addressed_to_def pgw_inv_def by blast
    moreover have "addressed (ep_pgw s) p i" if "pg_ueInfoByImsi (ep_pgw s) i = Some r" for i
      using 2(2) that unfolding addressed_to_def addressed_def by blast
    ultimately show ?thesis
      using downlink_inv [OF net inv 2(1) _ _ t(2)] by blast
  qed
qed

lemma epc_uplink_inv:
  assumes net: "net_ok net" and inv: "epc_inv ow rn s" and ul: "epc_uplink net k p tag s = Some (s', os)"
  shows "epc_inv ow rn s' \<and> os = []"
proof -
  obtain e e' as where e: "ep_enb s k = Some e" "enb_RecvFromLteSocket p tag e = Some (e', as)"
    "enb_effects net k as (s\<lparr>ep_enb := (ep_enb s)(k \<mapsto> e')\<rparr>) = Some (s', os)"
    using ul by (auto simp: epc_uplink_def split: Option.bind_splits)
  have "e' = e \<and> (as = [] \<or> (\<exists>a q. as = [EnbSend (SendTo S1u a gtpuUdpPort q)]))"
    using e(2) by (auto simp: enb_RecvFromLteSocket_def enb_SendToS1uSocket_def send_gtpu_def
        split: prod.splits option.splits)
  moreover have "epc_inv ow rn (s\<lparr>ep_enb := (ep_enb s)(k \<mapsto> e)\<rparr>)"
    using inv e(1) by (intro epc_inv_enb) (simp_all add: epc_inv_def)
  ultimately show ?thesis
    using e(3) by (auto intro!: epc_inv_send dest!: route_ends(8) [OF net])
qed

section \<open>Configuration\<close>

text \<open>The calls by which the helper configures the applications.\<close>

datatype epc_config =
    CfgMmeSgw ipv4 ipv4
  | CfgMmeEnb u16 ipv4 nat
  | CfgMmeUe u64
  | CfgMmeBearer u64 tft eps_bearer
  | CfgSgwMme ipv4
  | CfgSgwPgw ipv4
  | CfgSgwEnb u16 ipv4 ipv4
  | CfgPgwSgw ipv4
  | CfgPgwUe u64
  | CfgPgwAddress u64 ipv4
  | CfgPgwAddress6 u64 ipv6
  | CfgEnb nat u16 ipv4 ipv4

definition epc_configure :: "epc_config \<Rightarrow> epc \<Rightarrow> epc option" where
  "epc_configure c s =
     (case c of
        CfgMmeSgw a b \<Rightarrow> Some (s\<lparr>ep_mme := mme_AddSgw a b (ep_mme s)\<rparr>)
      | CfgMmeEnb gci a k \<Rightarrow> Some (s\<lparr>ep_mme := mme_AddEnb gci a k (ep_mme s)\<rparr>)
      | CfgMmeUe i \<Rightarrow> Some (s\<lparr>ep_mme := mme_AddUe i (ep_mme s)\<rparr>)
      | CfgMmeBearer i t q \<Rightarrow>
          map_option (\<lambda>(_, m). s\<lparr>ep_mme := m\<rparr>) (mme_AddBearer i t q (ep_mme s))
      | CfgSgwMme a \<Rightarrow> Some (s\<lparr>ep_sgw := sgw_AddMme a (ep_sgw s)\<rparr>)
      | CfgSgwPgw a \<Rightarrow> Some (s\<lparr>ep_sgw := sgw_AddPgw a (ep_sgw s)\<rparr>)
      | CfgSgwEnb gci a b \<Rightarrow> Some (s\<lparr>ep_sgw := sgw_AddEnb gci a b (ep_sgw s)\<rparr>)
      | CfgPgwSgw a \<Rightarrow> Some (s\<lparr>ep_pgw := pgw_AddSgw a (ep_pgw s)\<rparr>)
      | CfgPgwUe i \<Rightarrow> Some (s\<lparr>ep_pgw := pgw_AddUe i (ep_pgw s)\<rparr>)
      | CfgPgwAddress i a \<Rightarrow> map_option (\<lambda>p. s\<lparr>ep_pgw := p\<rparr>) (pgw_SetUeAddress i a (ep_pgw s))
      | CfgPgwAddress6 i a \<Rightarrow> map_option (\<lambda>p. s\<lparr>ep_pgw := p\<rparr>) (pgw_SetUeAddress6 i a (ep_pgw s))
      | CfgEnb k c a b \<Rightarrow>
          Some (s\<lparr>ep_enb := (ep_enb s)(k \<mapsto> enb_AddS1Interface a b (enb_init c))\<rparr>))"

text \<open>
  A configuration in which everything fits into its field on the wire and no IMSI, address or eNB is
  configured twice.
\<close>

fun config_ok :: "epc_config \<Rightarrow> epc \<Rightarrow> bool" where
  "config_ok (CfgMmeUe i) s = small_imsi i"
| "config_ok (CfgMmeBearer i t q) s = (tft_ok t \<and> qos_ok q \<and>
     (\<forall>u. mm_ueInfo (ep_mme s) i = Some u \<longrightarrow> ebi_ok (ucast (mu_bearerCounter u + 1))))"
| "config_ok (CfgPgwUe i) s = (pg_ueInfoByImsi (ep_pgw s) i = None)"
| "config_ok (CfgPgwAddress i a) s = (pg_ueInfoByAddr (ep_pgw s) a = None)"
| "config_ok (CfgPgwAddress6 i a) s = (pg_ueInfoByAddr6 (ep_pgw s) a = None)"
| "config_ok (CfgEnb k c a b) s = (ep_enb s k = None)"
| "config_ok _ s = True"

lemma epc_inv_mme: "epc_inv ow rn s \<Longrightarrow> mme_inv m \<Longrightarrow> epc_inv ow rn (s\<lparr>ep_mme := m\<rparr>)"
  by (simp add: epc_inv_def)

lemma epc_inv_sgw:
  "epc_inv ow rn s \<Longrightarrow> sg_teidCount g = sg_teidCount (ep_sgw s) \<Longrightarrow>
     sg_mmeS11FteidBySgwS5cTeid g = sg_mmeS11FteidBySgwS5cTeid (ep_sgw s) \<Longrightarrow>
     epc_inv ow rn (s\<lparr>ep_sgw := g\<rparr>)"
  by (simp add: epc_inv_def sgw_inv_def)

lemma epc_inv_pgw_ext:
  assumes "epc_inv ow rn s" "pgw_inv ow t" "\<And>p i. addressed (ep_pgw s) p i \<Longrightarrow> addressed t p i"
  shows "epc_inv ow rn (s\<lparr>ep_pgw := t\<rparr>)"
  using assms(1) by (intro epc_inv_update [OF assms(1)]) (auto simp: epc_inv_def assms)

lemma pgw_AddUe_inv:
  assumes "pgw_inv ow s" "pg_ueInfoByImsi s i = None"
  shows "pgw_inv ow (pgw_AddUe i s) \<and> (addressed s p j \<longrightarrow> addressed (pgw_AddUe i s) p j)"
proof -
  have "ue_teids pgw_ue_init = {}"
    by (simp add: ue_teids_def pgw_ue_init_def classifier_init_def)
  then have "pgw_inv ow (pgw_AddUe i s)"
    using assms unfolding pgw_inv_def pgw_AddUe_def
    by (intro conjI allI impI) (auto simp: nth_append less_Suc_eq split: if_splits; metis less_irrefl option.distinct(1))+
  moreover have "addressed s p j \<longrightarrow> addressed (pgw_AddUe i s) p j"
    using assms(2) by (auto simp: addressed_def pgw_AddUe_def)
  ultimately show ?thesis
    by blast
qed

lemma pgw_SetUeAddress_inv:
  assumes "pgw_inv ow s" "pgw_SetUeAddress i a s = Some t" "pg_ueInfoByAddr s a = None"
  shows "pgw_inv ow t \<and> (addressed s p j \<longrightarrow> addressed t p j)"
proof -
  obtain r u where r: "pg_ueInfoByImsi s i = Some r" "pg_deref s r = Some u" and
    t: "t = (pg_set r (u\<lparr>pu_ueAddr := a\<rparr>) s)\<lparr>pg_ueInfoByAddr := (pg_ueInfoByAddr s)(a \<mapsto> r)\<rparr>"
    using assms(2) by (auto simp: pgw_SetUeAddress_def split: Option.bind_splits)
  have "pgw_inv ow (pg_set r (u\<lparr>pu_ueAddr := a\<rparr>) s)"
    by (rule pgw_inv_set [OF assms(1) r]) (simp add: ue_teids_def)
  then have "pgw_inv ow t"
    using r(1) by (auto simp: t pgw_inv_def pg_set_def)
  moreover have "addressed s p j \<longrightarrow> addressed t p j"
    using assms(3) by (auto simp: addressed_def t pg_set_def)
  ultimately show ?thesis
    by blast
qed

lemma pgw_SetUeAddress6_inv:
  assumes "pgw_inv ow s" "pgw_SetUeAddress6 i a s = Some t" "pg_ueInfoByAddr6 s a = None"
  shows "pgw_inv ow t \<and> (addressed s p j \<longrightarrow> addressed t p j)"
proof -
  obtain r u where r: "pg_ueInfoByImsi s i = Some r" "pg_deref s r = Some u" and
    t: "t = (pg_set r (u\<lparr>pu_ueAddr6 := a\<rparr>) s)\<lparr>pg_ueInfoByAddr6 := (pg_ueInfoByAddr6 s)(a \<mapsto> r)\<rparr>"
    using assms(2) by (auto simp: pgw_SetUeAddress6_def split: Option.bind_splits)
  have "pgw_inv ow (pg_set r (u\<lparr>pu_ueAddr6 := a\<rparr>) s)"
    by (rule pgw_inv_set [OF assms(1) r]) (simp add: ue_teids_def)
  then have "pgw_inv ow t"
    using r(1) by (auto simp: t pgw_inv_def pg_set_def)
  moreover have "addressed s p j \<longrightarrow> addressed t p j"
    using assms(3) by (auto simp: addressed_def t pg_set_def)
  ultimately show ?thesis
    by blast
qed

lemma mme_AddBearer_inv:
  assumes "mme_inv s" "mme_AddBearer i t q s = Some (b, m)" "tft_ok t" "qos_ok q"
    and "\<And>u. mm_ueInfo s i = Some u \<Longrightarrow> ebi_ok (ucast (mu_bearerCounter u + 1))"
  shows "mme_inv m"
proof -
  obtain u where u: "mm_ueInfo s i = Some u" "m = mm_set i (u\<lparr>mu_bearerCounter := mu_bearerCounter u + 1,
      mu_bearersToBeActivated := mu_bearersToBeActivated u @
        [\<lparr>mb_tft = t, mb_bearer = q, mb_bearerId = ucast (mu_bearerCounter u + 1)\<rparr>]\<rparr>) s"
    using assms(2) by (auto simp: mme_AddBearer_def Let_def split: Option.bind_splits if_splits)
  have "small_imsi i" "mu_mmeUeS1Id u = i" "list_all mme_bearer_ok (mu_bearersToBeActivated u)"
    using assms(1) u(1) unfolding mme_inv_def by blast+
  then show ?thesis
    unfolding u(2) using assms(1,3,4) assms(5) [OF u(1)]
    by (intro mme_inv_set) (simp_all add: mme_bearer_ok_def)
qed

lemma configure_inv:
  assumes inv: "epc_inv ow rn s" and c: "epc_configure c s = Some s'" "config_ok c s"
  shows "epc_inv ow rn s'"
proof -
  have p: "sgw_inv ow (ep_sgw s)" "pgw_inv ow (ep_pgw s)" "mme_inv (ep_mme s)"
    using inv by (simp_all add: epc_inv_def)
  show ?thesis
  proof (cases c)
    case (CfgMmeSgw a b)
    with c p show ?thesis
      by (auto simp: epc_configure_def mme_AddSgw_def mme_inv_def intro!: epc_inv_mme [OF inv])
  next
    case (CfgMmeEnb g a k)
    with c p show ?thesis
      by (auto simp: epc_configure_def mme_AddEnb_def mme_inv_def intro!: epc_inv_mme [OF inv])
  next
    case (CfgMmeUe i)
    with c p show ?thesis
      by (auto simp: epc_configure_def mme_AddUe_def intro!: epc_inv_mme [OF inv] mme_inv_set)
  next
    case (CfgMmeBearer i t q)
    with c p show ?thesis
      by (auto simp: epc_configure_def intro!: epc_inv_mme [OF inv] elim!: mme_AddBearer_inv)
  next
    case (CfgSgwMme a)
    with c show ?thesis
      by (auto simp: epc_configure_def sgw_AddMme_def intro!: epc_inv_sgw [OF inv])
  next
    case (CfgSgwPgw a)
    with c show ?thesis
      by (auto simp: epc_configure_def sgw_AddPgw_def intro!: epc_inv_sgw [OF inv])
  next
    case (CfgSgwEnb g a b)
    with c show ?thesis
      by (auto simp: epc_configure_def sgw_AddEnb_def intro!: epc_inv_sgw [OF inv])
  next
    case (CfgPgwSgw a)
    with c p show ?thesis
      by (auto simp: epc_configure_def pgw_AddSgw_def pgw_inv_def addressed_def
          intro!: epc_inv_pgw_ext [OF inv])
  next
    case (CfgPgwUe i)
    with c pgw_AddUe_inv [OF p(2), of i] show ?thesis
      by (auto simp: epc_configure_def intro!: epc_inv_pgw_ext [OF inv])
  next
    case (CfgPgwAddress i a)
    with c pgw_SetUeAddress_inv [OF p(2), of i a] show ?thesis
      by (auto simp: epc_configure_def intro!: epc_inv_pgw_ext [OF inv])
  next
    case (CfgPgwAddress6 i a)
    with c pgw_SetUeAddress6_inv [OF p(2), of i a] show ?thesis
      by (auto simp: epc_configure_def intro!: epc_inv_pgw_ext [OF inv])
  next
    case (CfgEnb k g a b)
    with c show ?thesis
      by (auto simp: epc_configure_def enb_inv_def enb_AddS1Interface_def enb_init_def
          intro!: epc_inv_enb [OF inv])
  qed
qed

section \<open>The system as a step relation\<close>

record world =
  wo_epc :: epc
  wo_owner :: owner
  wo_rnti :: "nat \<Rightarrow> rntis"

text \<open>
  The RRC of an eNB does not give the RNTI of a UE to another UE, and announces in a path switch
  request the TEIDs that were allocated for the UE. Everything else is arbitrary: which datagram is
  delivered next or lost, which values uninitialised members have, when the RRC and the internet act.
\<close>

inductive epc_step :: "routing \<Rightarrow> world \<Rightarrow> epc_out list \<Rightarrow> world \<Rightarrow> bool" for net where
  deliver: "ep_flight (wo_epc w) = pre @ (n, i, p) # post \<Longrightarrow>
     epc_deliver net g c n i p ((wo_epc w)\<lparr>ep_flight := pre @ post\<rparr>) = Some (s', os) \<Longrightarrow>
     epc_step net w os (w\<lparr>wo_epc := s', wo_owner :=
       (if n = NSgw \<and> i = S11 then new_owner p (ep_sgw (wo_epc w)) (ep_sgw s') (wo_owner w)
        else wo_owner w)\<rparr>)"
| lose: "ep_flight (wo_epc w) = pre @ x # post \<Longrightarrow>
     epc_step net w [] (w\<lparr>wo_epc := (wo_epc w)\<lparr>ep_flight := pre @ post\<rparr>\<rparr>)"
| attach: "epc_attach net g k imsi rnti (wo_epc w) = Some (s', os) \<Longrightarrow>
     wo_rnti w k rnti \<in> {None, Some imsi} \<Longrightarrow>
     epc_step net w os (w\<lparr>wo_epc := s',
       wo_rnti := (wo_rnti w)(k := (wo_rnti w k)(rnti \<mapsto> imsi))\<rparr>)"
| path_switch: "epc_path_switch net g k ps (wo_epc w) = Some (s', os) \<Longrightarrow>
     imsi = ucast (ps_mmeUeS1Id ps) \<Longrightarrow> wo_rnti w k (ps_rnti ps) \<in> {None, Some imsi} \<Longrightarrow>
     \<forall>(bid, teid)\<in>set (ps_bearers ps). ebi_ok bid \<and> wo_owner w teid = Some imsi \<Longrightarrow>
     epc_step net w os (w\<lparr>wo_epc := s',
       wo_rnti := (wo_rnti w)(k := (wo_rnti w k)(ps_rnti ps \<mapsto> imsi))\<rparr>)"
| context_release: "ep_enb (wo_epc w) k = Some e \<Longrightarrow>
     epc_step net w [] (w\<lparr>wo_epc := (wo_epc w)\<lparr>ep_enb :=
       (ep_enb (wo_epc w))(k \<mapsto> enb_DoUeContextRelease rnti e)\<rparr>\<rparr>)"
| bearer_release: "epc_release_bearer net g k imsi rnti bid (wo_epc w) = Some (s', os) \<Longrightarrow>
     ebi_ok bid \<Longrightarrow> epc_step net w os (w\<lparr>wo_epc := s'\<rparr>)"
| downlink: "epc_downlink net p n (wo_epc w) = Some (s', os) \<Longrightarrow> epc_step net w os (w\<lparr>wo_epc := s'\<rparr>)"
| uplink: "epc_uplink net k p tag (wo_epc w) = Some (s', os) \<Longrightarrow> epc_step net w os (w\<lparr>wo_epc := s'\<rparr>)"
| configure: "epc_configure c (wo_epc w) = Some s' \<Longrightarrow> config_ok c (wo_epc w) \<Longrightarrow>
     epc_step net w [] (w\<lparr>wo_epc := s'\<rparr>)"

definition world_init :: "ipv4 \<Rightarrow> ipv4 \<Rightarrow> world" where
  "world_init sgw pgw = \<lparr>wo_epc = \<lparr>ep_mme = mme_init, ep_sgw = sgw_init sgw, ep_pgw = pgw_init pgw,
     ep_enb = Map.empty, ep_flight = []\<rparr>, wo_owner = Map.empty, wo_rnti = (\<lambda>_. Map.empty)\<rparr>"

inductive epc_reach :: "routing \<Rightarrow> world \<Rightarrow> bool" for net where
  reach_init: "epc_reach net (world_init a b)"
| reach_step: "epc_reach net w \<Longrightarrow> epc_step net w os w' \<Longrightarrow> epc_reach net w'"

abbreviation world_inv :: "world \<Rightarrow> bool" where
  "world_inv w \<equiv> epc_inv (wo_owner w) (wo_rnti w) (wo_epc w)"

lemma world_inv_init: "world_inv (world_init a b)"
  by (simp add: epc_inv_def world_init_def sgw_inv_def sgw_init_def pgw_inv_def pgw_init_def
      mme_inv_def mme_init_def)

lemma epc_step_inv:
  assumes net: "net_ok net" and "epc_step net w os w'" and inv: "world_inv w"
  shows "world_inv w' \<and> radio_ok (wo_rnti w) (addressed (ep_pgw (wo_epc w))) os"
  using assms(2)
proof cases
  case (deliver pre n i p post g c s')
  have "epc_inv (wo_owner w) (wo_rnti w) ((wo_epc w)\<lparr>ep_flight := pre @ post\<rparr>)"
    using inv deliver(2) by (simp add: epc_inv_def)
  moreover have "msg_ok (wo_owner w) (known_teids (ep_sgw (wo_epc w))) (addressed (ep_pgw (wo_epc w))) (n, i, p)"
    using inv deliver(2) by (simp add: epc_inv_def)
  ultimately show ?thesis
    using deliver_inv [OF net _ _ deliver(3), of "wo_owner w" "wo_rnti w"] deliver(1)
    by (cases "n = NSgw \<and> i = S11") auto
next
  case (lose pre x post)
  then show ?thesis
    using inv by (simp add: epc_inv_def radio_ok_def)
next
  case (attach g k imsi rnti s')
  then show ?thesis
    using attach_inv [OF net inv, of g k imsi rnti s' os] by (auto simp: radio_ok_def)
next
  case (path_switch g k ps s' imsi)
  then show ?thesis
    using path_switch_inv [OF net inv, of g k ps s' os] by (auto simp: radio_ok_def)
next
  case (context_release k e rnti)
  then show ?thesis
    using context_release_inv [OF inv] by (simp add: radio_ok_def)
next
  case (bearer_release g k imsi rnti bid s')
  then show ?thesis
    using release_bearer_inv [OF net inv, of bid g k imsi rnti s' os] by (simp add: radio_ok_def)
next
  case (downlink p n s')
  then show ?thesis
    using epc_downlink_inv [OF net inv, of p n s' os] by (simp add: radio_ok_def)
next
  case (uplink k p tag s')
  then show ?thesis
    using epc_uplink_inv [OF net inv, of k p tag s' os] by (simp add: radio_ok_def)
next
  case (configure c s')
  then show ?thesis
    using configure_inv [OF inv] by (simp add: radio_ok_def)
qed

lemma epc_reach_inv: "epc_reach net w \<Longrightarrow> net_ok net \<Longrightarrow> world_inv w"
  by (induction rule: epc_reach.induct) (auto simp: world_inv_init dest: epc_step_inv)

section \<open>Runs are sequences of steps\<close>

lemma epc_run_reach:
  assumes "epc_run net g c n (wo_epc w) = Some (s', os)" "epc_reach net w"
  shows "\<exists>w'. epc_reach net w' \<and> wo_epc w' = s' \<and> wo_rnti w' = wo_rnti w \<and>
    (\<forall>x\<in>set os. \<exists>w1 os1 w2. epc_reach net w1 \<and> epc_step net w1 os1 w2 \<and> x \<in> set os1 \<and>
      wo_rnti w1 = wo_rnti w)"
  using assms
proof (induction n arbitrary: w os)
  case 0
  then show ?case
    by (auto split: if_splits)
next
  case (Suc n)
  show ?case
  proof (cases "ep_flight (wo_epc w)")
    case Nil
    with Suc.prems show ?thesis
      by auto
  next
    case (Cons x fl)
    obtain m i p where x: "x = (m, i, p)"
      by (cases x)
    obtain s1 os1 os2 where 1: "epc_deliver net g c m i p ((wo_epc w)\<lparr>ep_flight := fl\<rparr>) = Some (s1, os1)"
      "epc_run net g c n s1 = Some (s', os2)" "os = os1 @ os2"
      using Suc.prems(1) Cons x by (auto split: Option.bind_splits)
    obtain w1 where w1: "epc_step net w os1 w1" "wo_epc w1 = s1" "wo_rnti w1 = wo_rnti w"
      using epc_step.deliver [of w "[]" m i p fl net g c s1 os1] Cons x 1(1) by fastforce
    have "epc_reach net w1"
      by (rule reach_step [OF Suc.prems(2) w1(1)])
    from Suc.IH [of w1 os2, unfolded w1(2,3), OF 1(2) this] show ?thesis
      using 1(3) w1(1) Suc.prems(2) by (metis UnE set_append)
  qed
qed

text \<open>A configuration call by call.\<close>

fun epc_configured :: "epc_config list \<Rightarrow> epc \<Rightarrow> epc \<Rightarrow> bool" where
  "epc_configured [] s t = (t = s)"
| "epc_configured (c # cs) s t =
     (config_ok c s \<and> (case epc_configure c s of None \<Rightarrow> False | Some s1 \<Rightarrow> epc_configured cs s1 t))"

lemma epc_configured_reach:
  "epc_configured cs (wo_epc w) t \<Longrightarrow> epc_reach net w \<Longrightarrow> epc_reach net (w\<lparr>wo_epc := t\<rparr>)"
proof (induction cs arbitrary: w)
  case (Cons c cs)
  then obtain s1 where s1: "config_ok c (wo_epc w)" "epc_configure c (wo_epc w) = Some s1"
    "epc_configured cs s1 t"
    by (auto split: option.splits)
  have "epc_reach net (w\<lparr>wo_epc := s1\<rparr>)"
    by (rule reach_step [OF Cons.prems(2) epc_step.configure [OF s1(2,1)]])
  with Cons.IH [of "w\<lparr>wo_epc := s1\<rparr>"] s1(3) show ?case
    by simp
qed simp

end
