(* ===== verification/EpcProps.thy ===== *)
theory EpcProps
  imports EpcIsolation
begin

text \<open>
  The properties of the core network, each with a witness on a network of two eNBs and a UE with
  one bearer that has the default template.
\<close>

section \<open>A concrete network\<close>

definition ex_net :: routing where
  "ex_net n i a =
     (case (n, i) of
        (NMme, S11) \<Rightarrow> if a = 2 then Some NSgw else None
      | (NSgw, S11) \<Rightarrow> if a = 1 then Some NMme else None
      | (NSgw, S5c) \<Rightarrow> if a = 4 then Some NPgw else None
      | (NSgw, S5u) \<Rightarrow> if a = 4 then Some NPgw else None
      | (NPgw, S5c) \<Rightarrow> if a = 3 then Some NSgw else None
      | (NPgw, S5u) \<Rightarrow> if a = 3 then Some NSgw else None
      | (NSgw, S1u) \<Rightarrow> if a = 6 then Some (NEnb 0) else if a = 7 then Some (NEnb 1) else None
      | (NEnb k, S1u) \<Rightarrow> if a = 5 then Some NSgw else None
      | _ \<Rightarrow> None)"

definition ex_tft :: tft where
  "ex_tft = \<lparr>m_filters = [PacketFilter_init], m_numFilters = 1\<rparr>"

definition ex_qos :: eps_bearer where
  "ex_qos = \<lparr>eb_qci = 9, eb_gbrDl = 0, eb_gbrUl = 0, eb_mbrDl = 0, eb_mbrUl = 0\<rparr>"

definition ex_mu :: mme_ue where
  "ex_mu = \<lparr>mu_imsi = 1, mu_mmeUeS1Id = 1, mu_enbUeS1Id = 0, mu_cellId = 0, mu_bearerCounter = 1,
     mu_bearersToBeActivated = [\<lparr>mb_tft = ex_tft, mb_bearer = ex_qos, mb_bearerId = 1\<rparr>]\<rparr>"

definition ex_mme :: mme where
  "ex_mme = mm_set 1 ex_mu (mme_AddEnb 12 7 1 (mme_AddEnb 11 6 0 (mme_AddSgw 2 1 mme_init)))"

definition ex_sgw :: sgw where
  "ex_sgw = sgw_AddEnb 12 7 5 (sgw_AddEnb 11 6 5 (sgw_AddPgw 4 (sgw_AddMme 1 (sgw_init 3))))"

text \<open>The UE has the IP address 100.\<close>

definition ex_pgw_ue :: pgw_ue where
  "ex_pgw_ue = pgw_ue_init\<lparr>pu_ueAddr := 100\<rparr>"

definition ex_pgw :: pgw where
  "ex_pgw = \<lparr>pg_s5Addr = 4, pg_sgwS5Addr = 3, pg_store = [ex_pgw_ue],
     pg_ueInfoByAddr = [100 \<mapsto> 0], pg_ueInfoByAddr6 = Map.empty, pg_ueInfoByImsi = [1 \<mapsto> 0]\<rparr>"

definition ex_enb :: "u16 \<Rightarrow> ipv4 \<Rightarrow> enb" where
  "ex_enb c a = enb_AddS1Interface a 5 (enb_init c)"

definition ex_epc :: epc where
  "ex_epc = \<lparr>ep_mme = ex_mme, ep_sgw = ex_sgw, ep_pgw = ex_pgw,
     ep_enb = [0 \<mapsto> ex_enb 11 6, 1 \<mapsto> ex_enb 12 7], ep_flight = []\<rparr>"

definition ex_se :: sgw_enb where
  "ex_se = \<lparr>se_enbAddr = 6, se_sgwAddr = 5\<rparr>"

text \<open>The network is what the configuration calls of the helper make of the initial states.\<close>

lemma ex_pgw_configured:
  "pgw_SetUeAddress 1 100 (pgw_AddUe 1 (pgw_AddSgw 3 (pgw_init 4))) = Some ex_pgw"
  by (simp add: pgw_SetUeAddress_def pgw_AddUe_def pgw_AddSgw_def pgw_init_def pg_deref_def
      pg_set_def ex_pgw_def ex_pgw_ue_def)

lemma ex_mme_configured:
  "mme_AddBearer 1 ex_tft ex_qos
     (mme_AddUe 1 (mme_AddEnb 12 7 1 (mme_AddEnb 11 6 0 (mme_AddSgw 2 1 mme_init)))) = Some (1, ex_mme)"
  by (simp add: mme_AddBearer_def mme_AddUe_def mm_set_def ex_mme_def ex_mu_def mme_AddEnb_def
      mme_AddSgw_def mme_init_def)

lemmas ex_defs = ex_net_def ex_mu_def ex_mme_def ex_sgw_def ex_pgw_def ex_enb_def ex_epc_def
  ex_se_def ex_pgw_ue_def mm_set_def mme_AddEnb_def mme_AddSgw_def mme_init_def sgw_AddEnb_def
  sgw_AddPgw_def sgw_AddMme_def sgw_init_def enb_AddS1Interface_def enb_init_def pg_deref_def

lemma ex_tft_ok: "tft_ok ex_tft"
  by (simp add: tft_ok_def tft_inv_def ex_tft_def filter_ok_def PacketFilter_init_def
      BIDIRECTIONAL_def)

lemma ex_attach_ready: "attach_ready ex_net ex_epc 0 1 0 ex_mu ex_pgw_ue ex_se (ex_enb 11 6)"
  using ex_tft_ok
  by (simp add: attach_ready_def ex_defs mme_bearer_ok_def ebi_ok_def qos_ok_def rate_ok_def ex_qos_def
      pgw_ue_init_def classifier_init_def)

lemma ex_mu_bearers:
  "mu_bearersToBeActivated ex_mu = [\<lparr>mb_tft = ex_tft, mb_bearer = ex_qos, mb_bearerId = 1\<rparr>]"
  by (simp add: ex_mu_def)

lemma ex_session_teid: "session_teid ex_epc 0 = 1"
  by (simp add: session_teid_def ex_defs)

text \<open>An ICMP packet for the UE.\<close>

definition ex_header :: ipv4_header where
  "ex_header = \<lparr>ip_payloadSize = 3, ip_identification = 0, ip_tos = 0, ip_ttl = 64, ip_protocol = 1,
     ip_flags = 0, ip_fragmentOffset = 0, ip_checksum = 0, ip_headerSize = 20, ip_source = 200,
     ip_destination = 100\<rparr>"

definition ex_packet :: bytes where
  "ex_packet = ipv4_Serialize ex_header @ [1, 2, 3]"

lemma ex_packet_header:
  "PeekHeader ipv4_Deserialize ex_packet = Some ex_header" "ip_version ex_packet = Some 4"
  by code_simp+


lemma ex_packet_flow:
  "\<exists>fl c. flow4 ex_packet d (pu_tftClassifier ex_pgw_ue) = Some (fl, c)"
proof -
  have "map_option (\<lambda>(h, q). (ip_fragmentOffset h, ip_protocol h)) (RemoveHeader ipv4_Deserialize ex_packet) =
      Some (0, 1)"
    by code_simp
  then show ?thesis
    by (auto simp: flow4_def classify_ports4_def ports_of_def prot_defs)
qed

lemma ex_tft_carries: "d = DOWNLINK \<or> d = UPLINK \<Longrightarrow> flow_matches4 d fl ex_tft"
  by (cases fl) (auto simp: flow_matches4_def tft_Matches4_def ex_tft_def default_filter_matches)




lemma ex_nas_run:
  "\<exists>s. nas_run [NasActivate \<lparr>ba_bearer = ex_qos, ba_tft = ex_tft\<rparr>, NasConnectionSuccessful,
      NasConnectionReleased, NasConnectionSuccessful] nas_init = Some s \<and>
    na_forReconnection s = [\<lparr>ba_bearer = ex_qos, ba_tft = ex_tft\<rparr>] \<and> na_bidCounter s = 1"
  unfolding nas_run.simps nas_step_def nas_op.case nas_ActivateEpsBearer_def nas_init_def
  by (simp add: nas_DoNotifyConnectionSuccessful_def nas_SwitchToState_def Let_def
      nas_DoActivateEpsBearer_def nas_DoNotifyConnectionReleased_def nas_Disconnect_def
      classifier_Add_def classifier_put_def classifier_init_def
      del: unsigned_numeral delete_tfts.simps)
     (simp add: classifier_Delete_def)

text \<open>The state after the attach of the UE at the first eNB, and its handover to the second.\<close>

definition ex_attached :: epc where
  "ex_attached = session_state fteid_zero ex_epc 0 1 17 0 ex_mu ex_pgw_ue ex_se (ex_enb 11 6)"

definition ex_switch :: path_switch where
  "ex_switch = \<lparr>ps_rnti = 23, ps_cellId = 12, ps_mmeUeS1Id = 1, ps_bearers = [(1, 1)]\<rparr>"

lemma ex_attached_pgw: "pu_teidByBearerId (session_ue fteid_zero ex_epc ex_mu ex_pgw_ue ex_se) 1 = Some 1"
  using session_pgw [OF ex_attach_ready, of 0 fteid_zero 17] session_state_deref [OF ex_attach_ready]
  by (simp add: ex_mu_bearers ex_session_teid)

lemma ex_switch_ready:
  "switch_ready ex_net ex_attached 1 ex_switch 0 (ex_mu\<lparr>mu_cellId := 11\<rparr>)
     (session_ue fteid_zero ex_epc ex_mu ex_pgw_ue ex_se) (ex_enb 12 7)"
  "ex_net NSgw S5u (sg_pgwAddr (ep_sgw ex_attached)) = Some NPgw"
proof -
  have "pg_deref (ep_pgw ex_attached) 0 = Some (session_ue fteid_zero ex_epc ex_mu ex_pgw_ue ex_se)"
    unfolding ex_attached_def by (rule session_state_deref [OF ex_attach_ready])
  then show "switch_ready ex_net ex_attached 1 ex_switch 0 (ex_mu\<lparr>mu_cellId := 11\<rparr>)
     (session_ue fteid_zero ex_epc ex_mu ex_pgw_ue ex_se) (ex_enb 12 7)"
    by (simp add: switch_ready_def ex_switch_def ex_attached_def session_state_def ex_defs ebi_ok_def
        sgw_after_create_def pg_set_def)
  show "ex_net NSgw S5u (sg_pgwAddr (ep_sgw ex_attached)) = Some NPgw"
    by (simp add: ex_attached_def session_state_def sgw_after_create_def ex_defs)
qed

text \<open>The network is reachable, and so is a state in which a packet arrives.\<close>

lemma ex_net_ok: "net_ok ex_net"
  by (auto simp: net_ok_def ex_net_def split: if_splits)

lemma ex_epc_reach: "epc_reach ex_net ((world_init 3 4)\<lparr>wo_epc := ex_epc\<rparr>)"
proof (rule epc_configured_reach [OF _ reach_init])
  show "epc_configured [CfgMmeSgw 2 1, CfgMmeEnb 11 6 0, CfgMmeEnb 12 7 1, CfgMmeUe 1,
      CfgMmeBearer 1 ex_tft ex_qos, CfgSgwMme 1, CfgSgwPgw 4, CfgSgwEnb 11 6 5, CfgSgwEnb 12 7 5,
      CfgPgwSgw 3, CfgPgwUe 1, CfgPgwAddress 1 100, CfgEnb 0 11 6 5, CfgEnb 1 12 7 5]
      (wo_epc (world_init 3 4)) ex_epc"
    using ex_tft_ok
    by (simp add: epc_configure_def world_init_def mme_AddUe_def mme_AddBearer_def Let_def ebi_ok_def
        qos_ok_def rate_ok_def ex_qos_def pgw_init_def pgw_AddSgw_def pgw_AddUe_def pgw_SetUeAddress_def
        pg_set_def small_imsi_def ex_defs)
qed

lemma fteid_norm_zero [simp]: "fteid_norm fteid_zero = fteid_zero"
  by (simp add: fteid_norm_def fteid_zero_def)

lemma ex_downlink:
  "\<exists>s3 s4. epc_downlink ex_net ex_packet IPV4_PROT ex_attached = Some (s3, []) \<and>
     epc_run ex_net fteid_zero 0 2 s3 = Some (s4, [Radio 0 IPV4_PROT ex_packet (17, 1)])"
proof -
  obtain fl c where fl: "flow4 ex_packet DOWNLINK (pu_tftClassifier ex_pgw_ue) = Some (fl, c)"
    using ex_packet_flow by blast
  have "m_tftMap (pu_tftClassifier ex_pgw_ue) = []"
    by (simp add: ex_pgw_ue_def pgw_ue_init_def classifier_init_def)
  then obtain c' where cl: "Classify ex_packet DOWNLINK IPV4_PROT
      (pu_tftClassifier (session_ue fteid_zero ex_epc ex_mu ex_pgw_ue ex_se)) = Some (session_teid ex_epc 0, c')"
    using session_classify [OF ex_attach_ready _ fl, of 0] by (auto simp: ex_mu_bearers ex_tft_carries)
  have path: "bearer_path ex_net ex_attached 0 0 17 1 (session_teid ex_epc 0)"
    using session_bearer_path [OF ex_attach_ready, of 0 fteid_zero 17]
    by (simp add: ex_attached_def ex_mu_bearers)
  have "pg_deref (ep_pgw ex_attached) 0 = Some (session_ue fteid_zero ex_epc ex_mu ex_pgw_ue ex_se)"
    unfolding ex_attached_def by (rule session_state_deref [OF ex_attach_ready])
  moreover have "addressed_to (ep_pgw ex_attached) IPV4_PROT ex_packet 0"
    using ex_packet_header(1)
    by (simp add: addressed_to_def ex_attached_def session_state_def pg_set_def ex_header_def ex_epc_def ex_pgw_def)
  moreover have "ep_flight ex_attached = []"
    by (simp add: ex_attached_def session_state_def ex_epc_def)
  ultimately show ?thesis
    using downlink_delivery [OF path _ _ _ _ cl] ex_packet_header(2) by (simp add: ip_proto_def) blast
qed

lemma ex_traffic:
  "\<exists>w os w'. epc_reach ex_net w \<and> epc_step ex_net w os w' \<and>
    Radio 0 IPV4_PROT ex_packet (17, 1) \<in> set os"
proof -
  let ?w = "(world_init 3 4)\<lparr>wo_epc := ex_epc\<rparr>"
  obtain s1 os where s1: "epc_attach ex_net fteid_zero 0 1 17 ex_epc = Some (s1, [])"
    "epc_run ex_net fteid_zero 0 4 s1 = Some (ex_attached, os)"
    using attach_run [OF ex_attach_ready, of fteid_zero 17 fteid_zero 0]
    by (auto simp: ex_attached_def fteid_norm_zero)
  let ?w1 = "?w\<lparr>wo_epc := s1, wo_rnti := (\<lambda>_. Map.empty)(0 := [17 \<mapsto> 1])\<rparr>"
  have "epc_step ex_net ?w [] ?w1"
    using epc_step.attach [of ex_net fteid_zero 0 1 17 ?w s1 "[]"] s1(1) by (simp add: world_init_def)
  then have "epc_reach ex_net ?w1"
    by (rule reach_step [OF ex_epc_reach])
  moreover have "epc_run ex_net fteid_zero 0 4 (wo_epc ?w1) = Some (ex_attached, os)"
    using s1(2) by simp
  ultimately obtain w2 where w2: "epc_reach ex_net w2" "wo_epc w2 = ex_attached"
    using epc_run_reach by blast
  obtain s3 s4 where s3: "epc_downlink ex_net ex_packet IPV4_PROT ex_attached = Some (s3, [])"
    "epc_run ex_net fteid_zero 0 2 s3 = Some (s4, [Radio 0 IPV4_PROT ex_packet (17, 1)])"
    using ex_downlink by blast
  have "epc_reach ex_net (w2\<lparr>wo_epc := s3\<rparr>)"
    using reach_step [OF w2(1) epc_step.downlink [of ex_net ex_packet IPV4_PROT w2 s3 "[]"]] s3(1) w2(2)
    by simp
  moreover have "epc_run ex_net fteid_zero 0 2 (wo_epc (w2\<lparr>wo_epc := s3\<rparr>)) =
      Some (s4, [Radio 0 IPV4_PROT ex_packet (17, 1)])"
    using s3(2) by simp
  ultimately show ?thesis
    using epc_run_reach by (metis list.set_intros(1))
qed

section \<open>Sessions\<close>

text \<open>C5: Attach. When the RRC of an eNB passes the initial message of a known UE to the core
  network, the applications are connected as the helper connects them, the UE has bearers with
  distinct identities, and with the new templates the PGW has at most 16 for the UE (it asserts
  this, and templates of earlier attaches stay), then the exchange over MME, SGW and PGW and back takes four messages, none of them fails,
  and at the end every bearer of the UE has a path: PGW, SGW and eNB map its TEID in both
  directions, the PGW has entered its template under the TEID, and the RRC has been told to set up
  a data radio bearer for each.\<close>

theorem attach_establishes_bearers:
  assumes "attach_ready net s k imsi r mu u se e"
  shows "\<exists>s1 s2 u'. epc_attach net g k imsi rnti s = Some (s1, []) \<and>
    epc_run net g' c 4 s1 = Some (s2,
      map (\<lambda>j. Rrc k (DataRadioBearerSetup rnti (mb_bearer (mu_bearersToBeActivated mu ! j))
        (mb_bearerId (mu_bearersToBeActivated mu ! j)) (session_teid s j)))
        [0..<length (mu_bearersToBeActivated mu)] @ [Rrc k (RrcInitialContextSetup rnti)]) \<and>
    ep_flight s2 = [] \<and> pg_deref (ep_pgw s2) r = Some u' \<and>
    (\<forall>j<length (mu_bearersToBeActivated mu).
      bearer_path net s2 r k rnti (mb_bearerId (mu_bearersToBeActivated mu ! j)) (session_teid s j) \<and>
      map_of (m_tftMap (pu_tftClassifier u')) (session_teid s j) =
        Some (mb_tft (mu_bearersToBeActivated mu ! j)))"
proof -
  let ?s2 = "session_state (fteid_norm g) s k imsi rnti r mu u se e"
  obtain s1 where s1: "epc_attach net g k imsi rnti s = Some (s1, [])"
    "epc_run net g' c 4 s1 = Some (?s2, map (Rrc k \<circ> drb_setup rnti)
      (session_erabs (fteid_norm g) s mu se) @ [Rrc k (RrcInitialContextSetup rnti)])"
    using attach_run [OF assms] by blast
  note u' = session_state_deref [OF assms]
  show ?thesis
  proof (intro exI conjI allI impI)
    show "epc_run net g' c 4 s1 = Some (?s2, map (\<lambda>j. Rrc k (DataRadioBearerSetup rnti
        (mb_bearer (mu_bearersToBeActivated mu ! j)) (mb_bearerId (mu_bearersToBeActivated mu ! j))
        (session_teid s j))) [0..<length (mu_bearersToBeActivated mu)] @
        [Rrc k (RrcInitialContextSetup rnti)])"
      using s1(2) by (simp only: session_drbs)
    show "pg_deref (ep_pgw ?s2) r = Some (session_ue (fteid_norm g) s mu u se)"
      by (rule u')
    show "ep_flight ?s2 = []"
      using assms by (simp add: session_state_def attach_ready_def)
    fix j
    assume j: "j < length (mu_bearersToBeActivated mu)"
    show "bearer_path net ?s2 r k rnti (mb_bearerId (mu_bearersToBeActivated mu ! j)) (session_teid s j)"
      by (rule session_bearer_path [OF assms j])
    show "map_of (m_tftMap (pu_tftClassifier (session_ue (fteid_norm g) s mu u se))) (session_teid s j) =
        Some (mb_tft (mu_bearersToBeActivated mu ! j))"
      using session_pgw [OF assms j, of "fteid_norm g" rnti] u' [of "fteid_norm g" rnti] by simp
  qed (rule s1(1))
qed

theorem attach_establishes_bearers_witness:
  "\<exists>s1 s2. epc_attach ex_net fteid_zero 0 1 17 ex_epc = Some (s1, []) \<and>
    epc_run ex_net fteid_zero 0 4 s1 = Some (s2,
      [Rrc 0 (DataRadioBearerSetup 17 ex_qos 1 1), Rrc 0 (RrcInitialContextSetup 17)]) \<and>
    bearer_path ex_net s2 0 0 17 1 1"
  using attach_establishes_bearers [OF ex_attach_ready, of fteid_zero 17 fteid_zero 0]
  by (auto simp: ex_mu_bearers ex_session_teid)





text \<open>C15: Path switch. When the target eNB of a handover announces the bearers of a UE, the exchange
  over SGW and PGW takes four messages, none of them fails, the RRC gets its acknowledgement, and
  every announced bearer that the PGW knows has its path through the new eNB, under the new RNTI;
  the TEIDs of all other bearers lead where they led before.\<close>

theorem path_switch_redirects:
  assumes ready: "switch_ready net s k ps r mu u e"
    and pgw: "net NSgw S5u (sg_pgwAddr (ep_sgw s)) = Some NPgw"
  shows "\<exists>s1 s2. epc_path_switch net g k ps s = Some (s1, []) \<and>
    epc_run net g' c 4 s1 = Some (s2, [Rrc k (RrcPathSwitchAck (ps_rnti ps))]) \<and>
    (\<forall>(bid, teid)\<in>set (ps_bearers ps). pu_teidByBearerId u bid = Some teid \<and> teid \<noteq> 0 \<longrightarrow>
      bearer_path net s2 r k (ps_rnti ps) bid teid) \<and>
    (\<forall>teid. teid \<notin> snd ` set (ps_bearers ps) \<longrightarrow>
      sg_enbByTeid (ep_sgw s2) teid = sg_enbByTeid (ep_sgw s) teid)"
proof -
  obtain s1 where "epc_path_switch net g k ps s = Some (s1, [])"
    "epc_run net g' c 4 s1 =
      Some (switch_state s k ps r mu u e, [Rrc k (RrcPathSwitchAck (ps_rnti ps))])"
    using switch_run [OF ready] by blast
  then show ?thesis
    using switch_bearer_path [OF ready _ _ _ pgw] switch_sgw_other by blast
qed

theorem path_switch_redirects_witness:
  "\<exists>s1 s2. epc_path_switch ex_net fteid_zero 1 ex_switch ex_attached = Some (s1, []) \<and>
    epc_run ex_net fteid_zero 0 4 s1 = Some (s2, [Rrc 1 (RrcPathSwitchAck 23)]) \<and>
    bearer_path ex_net s2 0 1 23 1 1"
  using path_switch_redirects [OF ex_switch_ready, of fteid_zero fteid_zero 0]
  by (auto simp: ex_switch_def ex_attached_pgw)

section \<open>Isolation\<close>

text \<open>C3: Isolation of the UEs. In every state that the core network can reach by any interleaving of
  attaches, path switches, releases, traffic in both directions and configuration calls, with
  datagrams delivered in any order or lost: whenever an eNB gives a packet to its radio stack for an
  RNTI, the packet is addressed to the UE to which the RRC gave that RNTI.\<close>

theorem packets_reach_only_their_ue:
  assumes "net_ok net" and "epc_reach net w" and "epc_step net w os w'"
    and "Radio k n p (rnti, bid) \<in> set os"
  shows "\<exists>i. wo_rnti w k rnti = Some i \<and> addressed (ep_pgw (wo_epc w)) p i"
  using epc_step_inv [OF assms(1,3) epc_reach_inv [OF assms(2,1)]] assms(4)
  unfolding radio_ok_def by blast

theorem packets_reach_only_their_ue_witness:
  "\<exists>w os w' i. epc_reach ex_net w \<and> epc_step ex_net w os w' \<and>
    Radio 0 IPV4_PROT ex_packet (17, 1) \<in> set os \<and>
    wo_rnti w 0 17 = Some i \<and> addressed (ep_pgw (wo_epc w)) ex_packet i"
proof -
  obtain w os w' where w: "epc_reach ex_net w" "epc_step ex_net w os w'"
    "Radio 0 IPV4_PROT ex_packet (17, 1) \<in> set os"
    using ex_traffic by blast
  from packets_reach_only_their_ue [OF ex_net_ok w] w show ?thesis
    by blast
qed

section \<open>Classification and numbering of bearers\<close>

text \<open>C16: The classifier implements its specification, for IPv4 and IPv6 packets, uplink and downlink
  (the code asserts that the direction is one of the two): for a packet whose headers can be read it
  returns the greatest identifier of a template with a filter that carries the flow of the packet in
  the given direction, or 0 when there is none, and it leaves the templates unchanged. It fails
  exactly on another direction or protocol and on a packet whose headers cannot be read.\<close>

theorem classify_is_best:
  assumes "smap_wf (m_tftMap c)"
  shows "case Classify p d n c of
      Some (i, c') \<Rightarrow> d \<in> {UPLINK, DOWNLINK} \<and> m_tftMap c' = m_tftMap c \<and>
        (n = IPV4_PROT \<and> (\<exists>fl. flow4 p d c = Some (fl, c') \<and>
           is_best_tft (\<lambda>t. \<exists>f\<in>set (m_filters t).
             case fl of (ra, la, rp, lp, tos) \<Rightarrow> pf_Matches4 f d ra la rp lp tos) (m_tftMap c) i) \<or>
         n = IPV6_PROT \<and> c' = c \<and> (\<exists>fl. flow6 p d = Some fl \<and>
           is_best_tft (\<lambda>t. \<exists>f\<in>set (m_filters t).
             case fl of (ra, la, rp, lp, tos) \<Rightarrow> pf_Matches6 f d ra la rp lp tos) (m_tftMap c) i))
    | None \<Rightarrow> d \<notin> {UPLINK, DOWNLINK} \<or> n \<notin> {IPV4_PROT, IPV6_PROT} \<or>
        n = IPV4_PROT \<and> flow4 p d c = None \<or> n = IPV6_PROT \<and> flow6 p d = None"
proof -
  have 4: "flow_matches4 d fl = (\<lambda>t. \<exists>f\<in>set (m_filters t). case fl of (ra, la, rp, lp, tos) \<Rightarrow>
      pf_Matches4 f d ra la rp lp tos)" for fl
    by (auto simp: flow_matches4_def tft_Matches4_def filters_Match4_iff fun_eq_iff split: prod.splits)
  have 6: "flow_matches6 d fl = (\<lambda>t. \<exists>f\<in>set (m_filters t). case fl of (ra, la, rp, lp, tos) \<Rightarrow>
      pf_Matches6 f d ra la rp lp tos)" for fl
    by (auto simp: flow_matches6_def tft_Matches6_def filters_Match6_iff fun_eq_iff split: prod.splits)
  have m: "m_tftMap c' = m_tftMap c" if "flow4 p d c = Some (fl, c')" for fl c'
    using flow4_tftMap [OF that refl] that by auto
  note best = search_tft_best [OF assms]
  have ne: "IPV4_PROT \<noteq> IPV6_PROT" "IPV6_PROT \<noteq> IPV4_PROT"
    by (simp_all add: prot_defs)
  consider "d \<notin> {UPLINK, DOWNLINK}" | "n \<notin> {IPV4_PROT, IPV6_PROT}"
    | "d \<in> {UPLINK, DOWNLINK}" "n = IPV4_PROT" | "d \<in> {UPLINK, DOWNLINK}" "n = IPV6_PROT"
    by blast
  then show ?thesis
  proof cases
    case d: 3
    show ?thesis
    proof (cases "flow4 p d c")
      case (Some x)
      obtain fl c' where x: "flow4 p d c = Some (fl, c')"
        using Some by (cases x) simp
      with d have "Classify p d n c = Some (search_tft (flow_matches4 d fl) (rev (m_tftMap c)), c')"
        using m [OF x] by (simp add: Classify_def)
      then show ?thesis
        using best [of "flow_matches4 d fl"] d m [OF x] x unfolding 4 by simp
    qed (use d in \<open>simp add: Classify_def\<close>)
  next
    case d: 4
    show ?thesis
    proof (cases "flow6 p d")
      case (Some fl)
      with d ne have "Classify p d n c = Some (search_tft (flow_matches6 d fl) (rev (m_tftMap c)), c)"
        by (simp add: Classify_def)
      then show ?thesis
        using best [of "flow_matches6 d fl"] d ne Some unfolding 6 by simp
    qed (use d ne in \<open>simp add: Classify_def\<close>)
  qed (auto simp: Classify_def)
qed

theorem classify_is_best_witness:
  "\<exists>i c'. Classify ex_packet DOWNLINK IPV4_PROT (classifier_put ex_tft 1 classifier_init) = Some (i, c') \<and>
    m_tftMap c' = [(1, ex_tft)]"
proof -
  let ?c = "classifier_put ex_tft 1 classifier_init"
  have c: "m_classifiedIpv4Fragments ?c = m_classifiedIpv4Fragments (pu_tftClassifier ex_pgw_ue)"
    by (simp add: ex_pgw_ue_def pgw_ue_init_def classifier_put_def)
  obtain fl d where "flow4 ex_packet DOWNLINK (pu_tftClassifier ex_pgw_ue) = Some (fl, d)"
    using ex_packet_flow by blast
  then obtain c' where c': "flow4 ex_packet DOWNLINK ?c = Some (fl, c')"
    using flow4_tftMap [OF _ c] by blast
  have m: "m_tftMap ?c = [(1, ex_tft)]"
    by (simp add: classifier_put_def classifier_init_def)
  then have "smap_wf (m_tftMap ?c)"
    by simp
  from classify_is_best [OF this, where p = ex_packet and d = DOWNLINK and n = IPV4_PROT] m c'
  show ?thesis
    by (auto simp: prot_defs split: option.splits)
qed

text \<open>C17: The NAS numbers the bearers of a UE from 1 in the order in which they were requested: over
  any sequence of operations that ends, also over releases and reconnections, the classifier holds
  exactly the templates of the bearers activated so far under their numbers, the others wait in
  their order, and the next connection activates all of them if at most 11 were requested and runs
  into the assertion of the bearer counter if there are more.\<close>

theorem nas_numbers_bearers:
  assumes "nas_run ops nas_init = Some s"
  shows "map_of (m_tftMap (na_tftClassifier s)) =
      bearer_table (take (unat (na_bidCounter s)) (na_forReconnection s)) \<and>
    na_toBeActivated s = drop (unat (na_bidCounter s)) (na_forReconnection s) \<and>
    (na_state s = NasActive \<longrightarrow> unat (na_bidCounter s) = length (na_forReconnection s)) \<and>
    (if length (na_forReconnection s) \<le> 11
     then \<exists>s'. nas_step NasConnectionSuccessful s = Some s' \<and> na_state s' = NasActive \<and>
       map_of (m_tftMap (na_tftClassifier s')) = bearer_table (na_forReconnection s)
     else nas_step NasConnectionSuccessful s = None)"
proof -
  have inv: "nas_inv s"
    using nas_run_inv [OF assms nas_inv_init] .
  have "nas_inv s' \<Longrightarrow> na_state s' = NasActive \<Longrightarrow>
      map_of (m_tftMap (na_tftClassifier s')) = bearer_table (na_forReconnection s')" for s'
    by (auto simp: nas_inv_def)
  with nas_activate_inv [OF inv] have "if length (na_forReconnection s) \<le> 11
     then \<exists>s'. nas_step NasConnectionSuccessful s = Some s' \<and> na_state s' = NasActive \<and>
       map_of (m_tftMap (na_tftClassifier s')) = bearer_table (na_forReconnection s)
     else nas_step NasConnectionSuccessful s = None"
    by (auto simp: nas_step_def split: if_splits)
  then show ?thesis
    using inv by (auto simp: nas_inv_def)
qed

theorem nas_numbers_bearers_witness:
  "\<exists>s. nas_run [NasActivate \<lparr>ba_bearer = ex_qos, ba_tft = ex_tft\<rparr>, NasConnectionSuccessful,
      NasConnectionReleased, NasConnectionSuccessful] nas_init = Some s \<and>
    map_of (m_tftMap (na_tftClassifier s)) = bearer_table [\<lparr>ba_bearer = ex_qos, ba_tft = ex_tft\<rparr>]"
proof -
  obtain s where s: "nas_run [NasActivate \<lparr>ba_bearer = ex_qos, ba_tft = ex_tft\<rparr>, NasConnectionSuccessful,
      NasConnectionReleased, NasConnectionSuccessful] nas_init = Some s"
    "na_forReconnection s = [\<lparr>ba_bearer = ex_qos, ba_tft = ex_tft\<rparr>]" "na_bidCounter s = 1"
    using ex_nas_run by blast
  have "map_of (m_tftMap (na_tftClassifier s)) = bearer_table [\<lparr>ba_bearer = ex_qos, ba_tft = ex_tft\<rparr>]"
    using nas_numbers_bearers [OF s(1)] by (simp add: s(2,3))
  with s(1) show ?thesis
    by blast
qed

section \<open>Messages on the wire\<close>

text \<open>C22: Every GTP-C message that is well formed is read back by its receiver as it was written,
  and the packet is used up.\<close>

theorem gtpc_messages_roundtrip:
  "(csq_hwf m1 \<longrightarrow> RemoveHeader csq_Deserialize (csq_Serialize m1) = Some (m1, [])) \<and>
   (csp_hwf m2 \<longrightarrow> RemoveHeader csp_Deserialize (csp_Serialize m2) = Some (m2, [])) \<and>
   (mbq_hwf m3 \<longrightarrow> RemoveHeader mbq_Deserialize (mbq_Serialize m3) = Some (m3, [])) \<and>
   (mbp_hwf m4 \<longrightarrow> RemoveHeader mbp_Deserialize (mbp_Serialize m4) = Some (m4, [])) \<and>
   (dbc_hwf m5 \<longrightarrow> RemoveHeader dbc_Deserialize (dbc_Serialize m5) = Some (m5, [])) \<and>
   (dbq_hwf m6 \<longrightarrow> RemoveHeader dbq_Deserialize (dbq_Serialize m6) = Some (m6, [])) \<and>
   (dbp_hwf m7 \<longrightarrow> RemoveHeader dbp_Deserialize (dbp_Serialize m7) = Some (m7, []))"
  by (simp add: csq_msg.RemoveHeader_ser csp_msg.RemoveHeader_ser mbq_msg.RemoveHeader_ser
      mbp_msg.RemoveHeader_ser dbc_msg.RemoveHeader_ser dbq_msg.RemoveHeader_ser
      dbp_msg.RemoveHeader_ser)

theorem gtpc_messages_roundtrip_witness:
  "\<exists>m. mu_bearersToBeActivated ex_mu \<noteq> [] \<and>
     length (csq_bearerContexts m) = length (mu_bearersToBeActivated ex_mu) \<and>
     RemoveHeader csq_Deserialize (csq_Serialize m) = Some (m, []) \<and>
     RemoveHeader mbp_Deserialize (mbp_Serialize (switch_response 7)) = Some (switch_response 7, [])"
proof -
  let ?m = "mme_request fteid_zero 1 11 1 (mu_bearersToBeActivated ex_mu)"
  have "list_all mme_bearer_ok (mu_bearersToBeActivated ex_mu)"
    using ex_attach_ready by (simp add: attach_ready_def)
  then have "csq_hwf ?m"
    by (intro mme_request_hwf) (simp_all add: fteid_ok_def fteid_zero_def)
  then show ?thesis
    using gtpc_messages_roundtrip [of ?m _ _ "switch_response 7"]
    by (intro exI [of _ ?m]) (simp add: ex_mu_bearers)
qed

end
