(* ===== verification/EpcX2Header.thy ===== *)
theory EpcX2Header
  imports HeaderCodec ByteIO GtpcIes
begin

text \<open>
  The headers of \<^verbatim>\<open>src/lte/model/epc-x2-header.cc\<close> that the eNBs exchange over X2 during a handover,
  with the elements of \<^verbatim>\<open>epc-x2-sap.h\<close> that they carry. Every element interprets \<open>ie_codec\<close>, every
  header \<open>header_codec\<close>; the views tell which fields survive the wire.
\<close>

section \<open>Loops over vectors\<close>

text \<open>
  \<^verbatim>\<open>for (int j = 0; j < (int) sz; j++)\<close> over a vector of size sz: the size is converted to a 32-bit
  \<^verbatim>\<open>int\<close>. The reading loops push a given number of elements to a vector.
\<close>

definition loop_items :: "'a list \<Rightarrow> 'a list" where
  "loop_items xs = take (nat (sint (of_nat (length xs) :: u32))) xs"

fun read_n :: "nat \<Rightarrow> (bytes \<Rightarrow> ('a \<times> bytes) option) \<Rightarrow> bytes \<Rightarrow> ('a list \<times> bytes) option" where
  "read_n 0 rd i = Some ([], i)"
| "read_n (Suc n) rd i = do { (x, i) \<leftarrow> rd i; (xs, i) \<leftarrow> read_n n rd i; Some (x # xs, i) }"

definition write_items :: "('a \<Rightarrow> bytes) \<Rightarrow> 'a list \<Rightarrow> bytes" where
  "write_items wr xs = concat (map wr (loop_items xs))"

text \<open>A vector behind a 16-bit count.\<close>

definition write_list16 :: "('a \<Rightarrow> bytes) \<Rightarrow> 'a list \<Rightarrow> bytes" where
  "write_list16 wr xs = WriteHtonU16 (of_nat (length xs)) @ write_items wr xs"

definition read_list16 :: "(bytes \<Rightarrow> ('a \<times> bytes) option) \<Rightarrow> bytes \<Rightarrow> ('a list \<times> bytes) option" where
  "read_list16 rd i = do { (sz, i) \<leftarrow> ReadNtohU16 i; read_n (unat sz) rd i }"

text \<open>A vector behind a 32-bit count, which is read into an \<^verbatim>\<open>int\<close>.\<close>

definition write_list32 :: "('a \<Rightarrow> bytes) \<Rightarrow> 'a list \<Rightarrow> bytes" where
  "write_list32 wr xs = WriteHtonU32 (of_nat (length xs)) @ write_items wr xs"

definition read_list32 :: "(bytes \<Rightarrow> ('a \<times> bytes) option) \<Rightarrow> bytes \<Rightarrow> ('a list \<times> bytes) option" where
  "read_list32 rd i = do { (sz, i) \<leftarrow> ReadNtohU32 i; read_n (nat (sint sz)) rd i }"

lemma sint_of_nat_32: "n < 2 ^ 31 \<Longrightarrow> sint (of_nat n :: u32) = int n"
  by (simp add: signed_of_nat signed_take_bit_int_eq_self)

lemma loop_items_all: "length xs < 2 ^ 31 \<Longrightarrow> loop_items xs = xs"
  by (simp add: loop_items_def sint_of_nat_32)

lemma list_all_True [simp]: "list_all (\<lambda>_. True) xs"
  by (simp add: list_all_iff)

context ie_codec
begin

lemma read_n_wr: "list_all ok xs \<Longrightarrow> read_n (length xs) rd (concat (map wr xs) @ bs) = Some (xs, bs)"
  by (induction xs) (simp_all add: rd_wr)

lemma read_list16_wr:
  "list_all ok xs \<Longrightarrow> length xs < 2 ^ 16 \<Longrightarrow> read_list16 rd (write_list16 wr xs @ bs) = Some (xs, bs)"
  by (simp add: read_list16_def write_list16_def write_items_def loop_items_all io_simps read_n_wr
      unat_of_nat)

lemma read_list32_wr:
  "list_all ok xs \<Longrightarrow> length xs < 2 ^ 31 \<Longrightarrow> read_list32 rd (write_list32 wr xs @ bs) = Some (xs, bs)"
  by (simp add: read_list32_def write_list32_def write_items_def loop_items_all io_simps read_n_wr
      sint_of_nat_32)

lemma length_write_list:
  "length (write_list16 wr xs) = 2 + sum_list (map sz (loop_items xs))"
  "length (write_list32 wr xs) = 4 + sum_list (map sz (loop_items xs))"
  by (simp_all add: write_list16_def write_list32_def write_items_def io_simps length_concat_wr)

end

text \<open>A \<^verbatim>\<open>bool\<close> in a byte.\<close>

definition write_bool :: "bool \<Rightarrow> bytes" where
  "write_bool b = [of_bool b]"

definition read_bool :: "bytes \<Rightarrow> (bool \<times> bytes) option" where
  "read_bool i = do { (b, i) \<leftarrow> ReadU8 i; Some (b \<noteq> 0, i) }"

interpretation io_bool: ie_codec write_bool read_bool "\<lambda>_. True" "\<lambda>_. 1"
  by unfold_locales (auto simp: write_bool_def read_bool_def)

section \<open>The common header\<close>

definition X2_InitiatingMessage :: u8 where "X2_InitiatingMessage = 0"
definition X2_SuccessfulOutcome :: u8 where "X2_SuccessfulOutcome = 1"
definition X2_UnsuccessfulOutcome :: u8 where "X2_UnsuccessfulOutcome = 2"

definition X2_HandoverPreparation :: u8 where "X2_HandoverPreparation = 0"
definition X2_HandoverCancel :: u8 where "X2_HandoverCancel = 1"
definition X2_LoadIndication :: u8 where "X2_LoadIndication = 2"
definition X2_SnStatusTransfer :: u8 where "X2_SnStatusTransfer = 4"
definition X2_UeContextRelease :: u8 where "X2_UeContextRelease = 5"
definition X2_ResourceStatusReporting :: u8 where "X2_ResourceStatusReporting = 10"

record x2_header =
  x2h_messageType :: u8
  x2h_procedureCode :: u8
  x2h_lengthOfIes :: u32
  x2h_numberOfIes :: u32

definition x2h_init :: x2_header where
  "x2h_init = \<lparr>x2h_messageType = 0xfa, x2h_procedureCode = 0xfa, x2h_lengthOfIes = 0xfa,
     x2h_numberOfIes = 0xfa\<rparr>"

definition x2h_GetSerializedSize :: "x2_header \<Rightarrow> nat" where
  "x2h_GetSerializedSize h = 7"

definition x2h_Serialize :: "x2_header \<Rightarrow> bytes" where
  "x2h_Serialize h =
     [x2h_messageType h, x2h_procedureCode h, 0x00, ucast (x2h_lengthOfIes h + 3)]
     @ WriteHtonU16 0 @ [ucast (x2h_numberOfIes h)]"

text \<open>\<^verbatim>\<open>i.ReadU8() - 3\<close> is an \<^verbatim>\<open>int\<close> that is converted to 32 bits.\<close>

definition x2h_Deserialize :: "bytes \<Rightarrow> (x2_header \<times> nat) option" where
  "x2h_Deserialize bs = do {
     (messageType, i) \<leftarrow> ReadU8 bs;
     (procedureCode, i) \<leftarrow> ReadU8 i;
     (_, i) \<leftarrow> ReadU8 i;
     (len, i) \<leftarrow> ReadU8 i;
     (_, i) \<leftarrow> ReadNtohU16 i;
     (ies, i) \<leftarrow> ReadU8 i;
     let h = \<lparr>x2h_messageType = messageType, x2h_procedureCode = procedureCode,
              x2h_lengthOfIes = ucast len - 3, x2h_numberOfIes = ucast ies\<rparr>;
     Some (h, x2h_GetSerializedSize h) }"

definition x2h_SetMessageType :: "u8 \<Rightarrow> x2_header \<Rightarrow> x2_header" where
  "x2h_SetMessageType t h = h\<lparr>x2h_messageType := t\<rparr>"

definition x2h_SetProcedureCode :: "u8 \<Rightarrow> x2_header \<Rightarrow> x2_header" where
  "x2h_SetProcedureCode t h = h\<lparr>x2h_procedureCode := t\<rparr>"

definition x2h_SetLengthOfIes :: "u32 \<Rightarrow> x2_header \<Rightarrow> x2_header" where
  "x2h_SetLengthOfIes n h = h\<lparr>x2h_lengthOfIes := n\<rparr>"

definition x2h_SetNumberOfIes :: "u32 \<Rightarrow> x2_header \<Rightarrow> x2_header" where
  "x2h_SetNumberOfIes n h = h\<lparr>x2h_numberOfIes := n\<rparr>"

text \<open>The message type and procedure code survive whatever the two counts hold.\<close>

definition x2h_view :: "x2_header \<Rightarrow> u8 \<times> u8" where
  "x2h_view h = (x2h_messageType h, x2h_procedureCode h)"

interpretation x2h: header_codec x2h_GetSerializedSize "\<lambda>h. Some (x2h_Serialize h)" x2h_Deserialize
  "\<lambda>_. True" x2h_view
  by unfold_locales
     (auto simp: x2h_GetSerializedSize_def x2h_Serialize_def x2h_Deserialize_def x2h_view_def io_simps)

end
