(* ===== verification/EpcX2Messages.thy ===== *)
theory EpcX2Messages
  imports EpcX2Header
begin

text \<open>
  The message headers of \<^verbatim>\<open>src/lte/model/epc-x2-header.cc\<close>. A header keeps its length in
  \<^verbatim>\<open>m_headerLength\<close>: the constructor starts with the fixed part, the setters add the variable part,
  and \<^verbatim>\<open>Deserialize\<close> computes it again from what it reads.
\<close>

section \<open>Handover request\<close>

text \<open>\<^verbatim>\<open>AllocationRetentionPriority\<close> and \<^verbatim>\<open>EpcX2Sap::ErabToBeSetupItem\<close>.\<close>

record arp_info =
  arp_priorityLevel :: u8
  arp_preemptionCapability :: bool
  arp_preemptionVulnerability :: bool

definition arp_init :: arp_info where
  "arp_init = \<lparr>arp_priorityLevel = 0, arp_preemptionCapability = False,
     arp_preemptionVulnerability = False\<rparr>"

record x2_erab =
  xe_erabId :: u16
  xe_qos :: eps_bearer
  xe_arp :: arp_info
  xe_dlForwarding :: bool
  xe_transportLayerAddress :: ipv4
  xe_gtpTeid :: u32

text \<open>
  Copying an item copies its \<^verbatim>\<open>EpsBearer\<close> with the copy constructor of \<^verbatim>\<open>eps-bearer.cc\<close>, which takes
  over the QCI and the rates and leaves the allocation and retention priority of the copy as
  constructed.
\<close>

definition erab_copy :: "x2_erab \<Rightarrow> x2_erab" where
  "erab_copy e = e\<lparr>xe_arp := arp_init\<rparr>"

definition erab_write :: "x2_erab \<Rightarrow> bytes" where
  "erab_write e =
     WriteHtonU16 (xe_erabId e) @ WriteHtonU16 (ucast (eb_qci (xe_qos e)))
     @ WriteHtonU64 (eb_gbrDl (xe_qos e)) @ WriteHtonU64 (eb_gbrUl (xe_qos e))
     @ WriteHtonU64 (eb_mbrDl (xe_qos e)) @ WriteHtonU64 (eb_mbrUl (xe_qos e))
     @ [arp_priorityLevel (xe_arp e)] @ write_bool (arp_preemptionCapability (xe_arp e))
     @ write_bool (arp_preemptionVulnerability (xe_arp e)) @ write_bool (xe_dlForwarding e)
     @ WriteHtonU32 (xe_transportLayerAddress e) @ WriteHtonU32 (xe_gtpTeid e)"

text \<open>The item that was read is copied into the vector.\<close>

definition erab_read :: "bytes \<Rightarrow> (x2_erab \<times> bytes) option" where
  "erab_read i = do {
     (erabId, i) \<leftarrow> ReadNtohU16 i;
     (qci, i) \<leftarrow> ReadNtohU16 i;
     (gbrDl, i) \<leftarrow> ReadNtohU64 i;
     (gbrUl, i) \<leftarrow> ReadNtohU64 i;
     (mbrDl, i) \<leftarrow> ReadNtohU64 i;
     (mbrUl, i) \<leftarrow> ReadNtohU64 i;
     (prio, i) \<leftarrow> ReadU8 i;
     (cap, i) \<leftarrow> read_bool i;
     (vul, i) \<leftarrow> read_bool i;
     (fwd, i) \<leftarrow> read_bool i;
     (addr, i) \<leftarrow> ReadNtohU32 i;
     (teid, i) \<leftarrow> ReadNtohU32 i;
     let e = \<lparr>xe_erabId = erabId,
              xe_qos = \<lparr>eb_qci = ucast qci, eb_gbrDl = gbrDl, eb_gbrUl = gbrUl, eb_mbrDl = mbrDl,
                        eb_mbrUl = mbrUl\<rparr>,
              xe_arp = \<lparr>arp_priorityLevel = prio, arp_preemptionCapability = cap,
                        arp_preemptionVulnerability = vul\<rparr>,
              xe_dlForwarding = fwd, xe_transportLayerAddress = addr, xe_gtpTeid = teid\<rparr>;
     Some (erab_copy e, i) }"

record x2_ho_request =
  x2q_numberOfIes :: u32
  x2q_headerLength :: u32
  x2q_oldEnbUeX2apId :: u16
  x2q_cause :: u16
  x2q_targetCellId :: u16
  x2q_mmeUeS1apId :: u32
  x2q_ambrDl :: u64
  x2q_ambrUl :: u64
  x2q_bearers :: "x2_erab list"

text \<open>The constructor leaves the two aggregate bit rates indeterminate.\<close>

definition x2q_init :: "u64 \<Rightarrow> u64 \<Rightarrow> x2_ho_request" where
  "x2q_init dl ul = \<lparr>x2q_numberOfIes = 1 + 1 + 1 + 1,
     x2q_headerLength = 6 + 5 + 12 + (3 + 4 + 8 + 8 + 4), x2q_oldEnbUeX2apId = 0xfffa,
     x2q_cause = 0xfffa, x2q_targetCellId = 0xfffa, x2q_mmeUeS1apId = 0xfffffffa,
     x2q_ambrDl = dl, x2q_ambrUl = ul, x2q_bearers = []\<rparr>"

definition x2q_SetBearers :: "x2_erab list \<Rightarrow> x2_ho_request \<Rightarrow> x2_ho_request" where
  "x2q_SetBearers bearers h =
     h\<lparr>x2q_headerLength := x2q_headerLength h + 48 * of_nat (length bearers),
       x2q_bearers := map erab_copy bearers\<rparr>"

definition x2q_GetSerializedSize :: "x2_ho_request \<Rightarrow> nat" where
  "x2q_GetSerializedSize h = unat (x2q_headerLength h)"

definition x2q_Serialize :: "x2_ho_request \<Rightarrow> bytes" where
  "x2q_Serialize h =
     WriteHtonU16 10 @ [0, 2] @ WriteHtonU16 (x2q_oldEnbUeX2apId h)
     @ WriteHtonU16 5 @ [push_bit 6 1, 1] @ [ucast (x2q_cause h)]
     @ WriteHtonU16 11 @ [0, 8] @ WriteHtonU32 0x123456
     @ WriteHtonU32 (push_bit 4 (ucast (x2q_targetCellId h)))
     @ WriteHtonU16 14 @ [0] @ WriteHtonU32 (x2q_mmeUeS1apId h)
     @ WriteHtonU64 (x2q_ambrDl h) @ WriteHtonU64 (x2q_ambrUl h)
     @ write_list32 erab_write (x2q_bearers h)"

definition x2q_Deserialize :: "bytes \<Rightarrow> (x2_ho_request \<times> nat) option" where
  "x2q_Deserialize bs = do {
     (_, i) \<leftarrow> ReadNtohU16 bs; (_, i) \<leftarrow> ReadU8 i; (_, i) \<leftarrow> ReadU8 i;
     (old, i) \<leftarrow> ReadNtohU16 i;
     (_, i) \<leftarrow> ReadNtohU16 i; (_, i) \<leftarrow> ReadU8 i; (_, i) \<leftarrow> ReadU8 i;
     (cause, i) \<leftarrow> ReadU8 i;
     (_, i) \<leftarrow> ReadNtohU16 i; (_, i) \<leftarrow> ReadU8 i; (_, i) \<leftarrow> ReadU8 i;
     (_, i) \<leftarrow> ReadNtohU32 i;
     (target, i) \<leftarrow> ReadNtohU32 i;
     (_, i) \<leftarrow> ReadNtohU16 i; (_, i) \<leftarrow> ReadU8 i;
     (mme, i) \<leftarrow> ReadNtohU32 i;
     (dl, i) \<leftarrow> ReadNtohU64 i;
     (ul, i) \<leftarrow> ReadNtohU64 i;
     (bearers, i) \<leftarrow> read_list32 erab_read i;
     let h = \<lparr>x2q_numberOfIes = 1 + 1 + 1 + 1,
              x2q_headerLength = 6 + 5 + 12 + 27 + 48 * of_nat (length bearers),
              x2q_oldEnbUeX2apId = old, x2q_cause = ucast cause,
              x2q_targetCellId = ucast (drop_bit 4 target), x2q_mmeUeS1apId = mme,
              x2q_ambrDl = dl, x2q_ambrUl = ul, x2q_bearers = bearers\<rparr>;
     Some (h, x2q_GetSerializedSize h) }"

text \<open>The cause travels in one byte.\<close>

definition x2q_view :: "x2_ho_request \<Rightarrow> x2_ho_request" where
  "x2q_view h = h\<lparr>x2q_cause := x2q_cause h AND 0xff\<rparr>"

definition x2q_hwf :: "x2_ho_request \<Rightarrow> bool" where
  "x2q_hwf h \<longleftrightarrow> x2q_numberOfIes h = 4 \<and> length (x2q_bearers h) < 2 ^ 26 \<and>
     x2q_headerLength h = 50 + 48 * of_nat (length (x2q_bearers h)) \<and>
     list_all (\<lambda>e. xe_arp e = arp_init) (x2q_bearers h)"

lemma qci_through_16 [simp]: "(ucast (ucast (q :: u8) :: u16) :: u8) = q"
  by (rule bit_word_eqI) (auto simp: bit_simps)

interpretation erab: ie_codec erab_write erab_read "\<lambda>e. xe_arp e = arp_init" "\<lambda>_. 48"
  by unfold_locales
     (auto simp: erab_write_def erab_read_def erab_copy_def io_simps io_bool.rd_wr io_bool.wr_size
        arp_init_def)

lemma cell_shifted: "ucast (drop_bit 4 (push_bit 4 (ucast (c :: u16)) :: u32)) = c"
  by (rule bit_word_eqI) (auto simp: bit_simps dest: bit_imp_le_length)

lemma cause_byte: "ucast (ucast (c :: u16) :: u8) = c AND 0xff"
proof -
  have "(0xff :: u16) = mask 8"
    by (simp add: mask_eq_exp_minus_1)
  then have "c AND 0xff = take_bit 8 c"
    by (simp add: take_bit_eq_mask)
  then show ?thesis
    by (simp, intro bit_word_eqI) (auto simp: bit_simps)
qed

lemma header_words:
  "n < 2 ^ 26 \<Longrightarrow> unat (50 + 48 * of_nat n :: u32) = 50 + 48 * n"
  using unat_of_nat [of "50 + 48 * n", where 'a = 32] by simp

interpretation x2q: header_codec x2q_GetSerializedSize "\<lambda>h. Some (x2q_Serialize h)"
  x2q_Deserialize x2q_hwf x2q_view
proof (unfold_locales, goal_cases)
  case (1 h)
  then show ?case
    by (simp add: x2q_hwf_def x2q_GetSerializedSize_def x2q_Serialize_def header_words io_simps
        erab.length_write_list loop_items_all sum_list_triv)
next
  case (2 h b p)
  then show ?case
    by (auto simp: x2q_hwf_def x2q_GetSerializedSize_def x2q_Serialize_def x2q_Deserialize_def
        x2q_view_def io_simps erab.read_list32_wr cell_shifted cause_byte)
qed

section \<open>Handover request acknowledge\<close>

record x2_admitted =
  xa_erabId :: u16
  xa_ulGtpTeid :: u32
  xa_dlGtpTeid :: u32

record x2_notadmitted =
  xn_erabId :: u16
  xn_cause :: u16

definition admitted_write :: "x2_admitted \<Rightarrow> bytes" where
  "admitted_write e = WriteHtonU16 (xa_erabId e) @ WriteHtonU32 (xa_ulGtpTeid e)
     @ WriteHtonU32 (xa_dlGtpTeid e)"

definition admitted_read :: "bytes \<Rightarrow> (x2_admitted \<times> bytes) option" where
  "admitted_read i = do {
     (erabId, i) \<leftarrow> ReadNtohU16 i;
     (ul, i) \<leftarrow> ReadNtohU32 i;
     (dl, i) \<leftarrow> ReadNtohU32 i;
     Some (\<lparr>xa_erabId = erabId, xa_ulGtpTeid = ul, xa_dlGtpTeid = dl\<rparr>, i) }"

definition notadmitted_write :: "x2_notadmitted \<Rightarrow> bytes" where
  "notadmitted_write e = WriteHtonU16 (xn_erabId e) @ WriteHtonU16 (xn_cause e)"

definition notadmitted_read :: "bytes \<Rightarrow> (x2_notadmitted \<times> bytes) option" where
  "notadmitted_read i = do {
     (erabId, i) \<leftarrow> ReadNtohU16 i;
     (cause, i) \<leftarrow> ReadNtohU16 i;
     Some (\<lparr>xn_erabId = erabId, xn_cause = cause\<rparr>, i) }"

record x2_ho_ack =
  x2a_numberOfIes :: u32
  x2a_headerLength :: u32
  x2a_oldEnbUeX2apId :: u16
  x2a_newEnbUeX2apId :: u16
  x2a_admitted :: "x2_admitted list"
  x2a_notAdmitted :: "x2_notadmitted list"

definition x2a_init :: x2_ho_ack where
  "x2a_init = \<lparr>x2a_numberOfIes = 1 + 1 + 1 + 1, x2a_headerLength = 2 + 2 + 4 + 4,
     x2a_oldEnbUeX2apId = 0xfffa, x2a_newEnbUeX2apId = 0xfffa, x2a_admitted = [],
     x2a_notAdmitted = []\<rparr>"

definition x2a_SetAdmittedBearers :: "x2_admitted list \<Rightarrow> x2_ho_ack \<Rightarrow> x2_ho_ack" where
  "x2a_SetAdmittedBearers bearers h =
     h\<lparr>x2a_headerLength := x2a_headerLength h + 10 * of_nat (length bearers),
       x2a_admitted := bearers\<rparr>"

definition x2a_SetNotAdmittedBearers :: "x2_notadmitted list \<Rightarrow> x2_ho_ack \<Rightarrow> x2_ho_ack" where
  "x2a_SetNotAdmittedBearers bearers h =
     h\<lparr>x2a_headerLength := x2a_headerLength h + 4 * of_nat (length bearers),
       x2a_notAdmitted := bearers\<rparr>"

definition x2a_GetSerializedSize :: "x2_ho_ack \<Rightarrow> nat" where
  "x2a_GetSerializedSize h = unat (x2a_headerLength h)"

definition x2a_Serialize :: "x2_ho_ack \<Rightarrow> bytes" where
  "x2a_Serialize h =
     WriteHtonU16 (x2a_oldEnbUeX2apId h) @ WriteHtonU16 (x2a_newEnbUeX2apId h)
     @ write_list32 admitted_write (x2a_admitted h)
     @ write_list32 notadmitted_write (x2a_notAdmitted h)"

definition x2a_Deserialize :: "bytes \<Rightarrow> (x2_ho_ack \<times> nat) option" where
  "x2a_Deserialize bs = do {
     (old, i) \<leftarrow> ReadNtohU16 bs;
     (new, i) \<leftarrow> ReadNtohU16 i;
     (adm, i) \<leftarrow> read_list32 admitted_read i;
     (nadm, i) \<leftarrow> read_list32 notadmitted_read i;
     let h = \<lparr>x2a_numberOfIes = 2 + 1 + 1,
              x2a_headerLength = 4 + 4 + 10 * of_nat (length adm) + 4 + 4 * of_nat (length nadm),
              x2a_oldEnbUeX2apId = old, x2a_newEnbUeX2apId = new, x2a_admitted = adm,
              x2a_notAdmitted = nadm\<rparr>;
     Some (h, x2a_GetSerializedSize h) }"

definition x2a_hwf :: "x2_ho_ack \<Rightarrow> bool" where
  "x2a_hwf h \<longleftrightarrow> x2a_numberOfIes h = 4 \<and> length (x2a_admitted h) < 2 ^ 26 \<and>
     length (x2a_notAdmitted h) < 2 ^ 26 \<and>
     x2a_headerLength h = 12 + 10 * of_nat (length (x2a_admitted h))
       + 4 * of_nat (length (x2a_notAdmitted h))"

interpretation admitted: ie_codec admitted_write admitted_read "\<lambda>_. True" "\<lambda>_. 10"
  by unfold_locales (auto simp: admitted_write_def admitted_read_def io_simps)

interpretation notadmitted: ie_codec notadmitted_write notadmitted_read "\<lambda>_. True" "\<lambda>_. 4"
  by unfold_locales (auto simp: notadmitted_write_def notadmitted_read_def io_simps)

lemma ack_words:
  "n < 2 ^ 26 \<Longrightarrow> m < 2 ^ 26 \<Longrightarrow>
     unat (12 + 10 * of_nat n + 4 * of_nat m :: u32) = 12 + 10 * n + 4 * m"
  using unat_of_nat [of "12 + 10 * n + 4 * m", where 'a = 32] by simp

interpretation x2a: header_codec x2a_GetSerializedSize "\<lambda>h. Some (x2a_Serialize h)"
  x2a_Deserialize x2a_hwf "\<lambda>h. h"
proof (unfold_locales, goal_cases)
  case (1 h)
  then show ?case
    by (simp add: x2a_hwf_def x2a_GetSerializedSize_def x2a_Serialize_def ack_words io_simps
        admitted.length_write_list notadmitted.length_write_list loop_items_all
        sum_list_triv)
next
  case (2 h b p)
  then show ?case
    by (auto simp: x2a_hwf_def x2a_GetSerializedSize_def x2a_Serialize_def x2a_Deserialize_def
        io_simps admitted.read_list32_wr notadmitted.read_list32_wr list_all_iff)
qed

section \<open>Handover preparation failure, handover cancel, UE context release\<close>

record x2_ho_failure =
  x2f_numberOfIes :: u32
  x2f_headerLength :: u32
  x2f_oldEnbUeX2apId :: u16
  x2f_cause :: u16
  x2f_criticalityDiagnostics :: u16

definition x2f_init :: x2_ho_failure where
  "x2f_init = \<lparr>x2f_numberOfIes = 1 + 1 + 1, x2f_headerLength = 2 + 2 + 2,
     x2f_oldEnbUeX2apId = 0xfffa, x2f_cause = 0xfffa, x2f_criticalityDiagnostics = 0xfffa\<rparr>"

definition x2f_GetSerializedSize :: "x2_ho_failure \<Rightarrow> nat" where
  "x2f_GetSerializedSize h = unat (x2f_headerLength h)"

definition x2f_Serialize :: "x2_ho_failure \<Rightarrow> bytes" where
  "x2f_Serialize h = WriteHtonU16 (x2f_oldEnbUeX2apId h) @ WriteHtonU16 (x2f_cause h)
     @ WriteHtonU16 (x2f_criticalityDiagnostics h)"

definition x2f_Deserialize :: "bytes \<Rightarrow> (x2_ho_failure \<times> nat) option" where
  "x2f_Deserialize bs = do {
     (old, i) \<leftarrow> ReadNtohU16 bs;
     (cause, i) \<leftarrow> ReadNtohU16 i;
     (diag, i) \<leftarrow> ReadNtohU16 i;
     let h = \<lparr>x2f_numberOfIes = 3, x2f_headerLength = 6, x2f_oldEnbUeX2apId = old,
              x2f_cause = cause, x2f_criticalityDiagnostics = diag\<rparr>;
     Some (h, x2f_GetSerializedSize h) }"

definition x2f_hwf :: "x2_ho_failure \<Rightarrow> bool" where
  "x2f_hwf h \<longleftrightarrow> x2f_numberOfIes h = 3 \<and> x2f_headerLength h = 6"

interpretation x2f: header_codec x2f_GetSerializedSize "\<lambda>h. Some (x2f_Serialize h)"
  x2f_Deserialize x2f_hwf "\<lambda>h. h"
  by unfold_locales
     (auto simp: x2f_hwf_def x2f_GetSerializedSize_def x2f_Serialize_def x2f_Deserialize_def io_simps)

record x2_ho_cancel =
  x2c_numberOfIes :: u32
  x2c_headerLength :: u32
  x2c_oldEnbUeX2apId :: u16
  x2c_newEnbUeX2apId :: u16
  x2c_cause :: u16

definition x2c_init :: x2_ho_cancel where
  "x2c_init = \<lparr>x2c_numberOfIes = 3, x2c_headerLength = 6, x2c_oldEnbUeX2apId = 0xfffa,
     x2c_newEnbUeX2apId = 0xfffa, x2c_cause = 0xfffa\<rparr>"

definition x2c_GetSerializedSize :: "x2_ho_cancel \<Rightarrow> nat" where
  "x2c_GetSerializedSize h = unat (x2c_headerLength h)"

definition x2c_Serialize :: "x2_ho_cancel \<Rightarrow> bytes" where
  "x2c_Serialize h = WriteHtonU16 (x2c_oldEnbUeX2apId h) @ WriteHtonU16 (x2c_newEnbUeX2apId h)
     @ WriteHtonU16 (x2c_cause h)"

definition x2c_Deserialize :: "bytes \<Rightarrow> (x2_ho_cancel \<times> nat) option" where
  "x2c_Deserialize bs = do {
     (old, i) \<leftarrow> ReadNtohU16 bs;
     (new, i) \<leftarrow> ReadNtohU16 i;
     (cause, i) \<leftarrow> ReadNtohU16 i;
     let h = \<lparr>x2c_numberOfIes = 3, x2c_headerLength = 6, x2c_oldEnbUeX2apId = old,
              x2c_newEnbUeX2apId = new, x2c_cause = cause\<rparr>;
     Some (h, x2c_GetSerializedSize h) }"

definition x2c_hwf :: "x2_ho_cancel \<Rightarrow> bool" where
  "x2c_hwf h \<longleftrightarrow> x2c_numberOfIes h = 3 \<and> x2c_headerLength h = 6"

interpretation x2c: header_codec x2c_GetSerializedSize "\<lambda>h. Some (x2c_Serialize h)"
  x2c_Deserialize x2c_hwf "\<lambda>h. h"
  by unfold_locales
     (auto simp: x2c_hwf_def x2c_GetSerializedSize_def x2c_Serialize_def x2c_Deserialize_def io_simps)

record x2_ue_release =
  x2u_numberOfIes :: u32
  x2u_headerLength :: u32
  x2u_oldEnbUeX2apId :: u16
  x2u_newEnbUeX2apId :: u16

definition x2u_init :: x2_ue_release where
  "x2u_init = \<lparr>x2u_numberOfIes = 1 + 1, x2u_headerLength = 2 + 2, x2u_oldEnbUeX2apId = 0xfffa,
     x2u_newEnbUeX2apId = 0xfffa\<rparr>"

definition x2u_GetSerializedSize :: "x2_ue_release \<Rightarrow> nat" where
  "x2u_GetSerializedSize h = unat (x2u_headerLength h)"

definition x2u_Serialize :: "x2_ue_release \<Rightarrow> bytes" where
  "x2u_Serialize h = WriteHtonU16 (x2u_oldEnbUeX2apId h) @ WriteHtonU16 (x2u_newEnbUeX2apId h)"

definition x2u_Deserialize :: "bytes \<Rightarrow> (x2_ue_release \<times> nat) option" where
  "x2u_Deserialize bs = do {
     (old, i) \<leftarrow> ReadNtohU16 bs;
     (new, i) \<leftarrow> ReadNtohU16 i;
     let h = \<lparr>x2u_numberOfIes = 2, x2u_headerLength = 4, x2u_oldEnbUeX2apId = old,
              x2u_newEnbUeX2apId = new\<rparr>;
     Some (h, x2u_GetSerializedSize h) }"

definition x2u_hwf :: "x2_ue_release \<Rightarrow> bool" where
  "x2u_hwf h \<longleftrightarrow> x2u_numberOfIes h = 2 \<and> x2u_headerLength h = 4"

interpretation x2u: header_codec x2u_GetSerializedSize "\<lambda>h. Some (x2u_Serialize h)"
  x2u_Deserialize x2u_hwf "\<lambda>h. h"
  by unfold_locales
     (auto simp: x2u_hwf_def x2u_GetSerializedSize_def x2u_Serialize_def x2u_Deserialize_def io_simps)

end
