(* ===== verification/EpcX2Reports.thy ===== *)
theory EpcX2Reports
  imports EpcX2Messages
begin

text \<open>
  The remaining message headers of \<^verbatim>\<open>src/lte/model/epc-x2-header.cc\<close>: SN status transfer, resource
  status update and load information. Resource status updates keep the contract of a header. The
  other two do not: an SN status transfer computes another length when it is read than when it is
  written, and load information reserves two bytes that it never writes.
\<close>

section \<open>SN status transfer\<close>

definition x2_maxPdcpSn :: nat where "x2_maxPdcpSn = 4096"

text \<open>The \<^verbatim>\<open>std::bitset\<close> is the list of its bits.\<close>

record x2_status_item =
  xs_erabId :: u16
  xs_receiveStatus :: "bool list"
  xs_ulPdcpSn :: u16
  xs_ulHfn :: u32
  xs_dlPdcpSn :: u16
  xs_dlHfn :: u32

text \<open>
  \<^verbatim>\<open>item.receiveStatusOfUlPdcpSdus[64 * k + m] << m\<close> promotes the bit to a 32-bit \<^verbatim>\<open>int\<close>. Shifting
  such a value by 32 or more positions has no defined result: the argument \<open>shl\<close> stands for it.
\<close>

definition x2_shift :: "(u32 \<Rightarrow> nat \<Rightarrow> u32) \<Rightarrow> bool \<Rightarrow> nat \<Rightarrow> u32" where
  "x2_shift shl b m = (if m < 32 then push_bit m (of_bool b) else shl (of_bool b) m)"

text \<open>\<^verbatim>\<open>statusValue |= ...\<close> converts the \<^verbatim>\<open>int\<close> to 64 bits with its sign.\<close>

definition x2_statusValue :: "(u32 \<Rightarrow> nat \<Rightarrow> u32) \<Rightarrow> bool list \<Rightarrow> u64" where
  "x2_statusValue shl bits =
     fold (\<lambda>m v. v OR scast (x2_shift shl (bits ! m) m)) [0..<64] 0"

definition status_word :: "x2_status_item \<Rightarrow> nat \<Rightarrow> bool list" where
  "status_word e k = take 64 (drop (64 * k) (xs_receiveStatus e))"

definition status_write :: "(u32 \<Rightarrow> nat \<Rightarrow> u32) \<Rightarrow> x2_status_item \<Rightarrow> bytes" where
  "status_write shl e =
     WriteHtonU16 (xs_erabId e)
     @ concat (map (\<lambda>k. WriteHtonU64 (x2_statusValue shl (status_word e k)))
                 [0..<x2_maxPdcpSn div 64])
     @ WriteHtonU16 (xs_ulPdcpSn e) @ WriteHtonU32 (xs_ulHfn e)
     @ WriteHtonU16 (xs_dlPdcpSn e) @ WriteHtonU32 (xs_dlHfn e)"

definition status_read :: "bytes \<Rightarrow> (x2_status_item \<times> bytes) option" where
  "status_read i = do {
     (erabId, i) \<leftarrow> ReadNtohU16 i;
     (words, i) \<leftarrow> read_n (x2_maxPdcpSn div 64) ReadNtohU64 i;
     (ulSn, i) \<leftarrow> ReadNtohU16 i;
     (ulHfn, i) \<leftarrow> ReadNtohU32 i;
     (dlSn, i) \<leftarrow> ReadNtohU16 i;
     (dlHfn, i) \<leftarrow> ReadNtohU32 i;
     Some (\<lparr>xs_erabId = erabId,
            xs_receiveStatus = concat (map (\<lambda>w. map (\<lambda>m. drop_bit m w AND 1 \<noteq> 0) [0..<64]) words),
            xs_ulPdcpSn = ulSn, xs_ulHfn = ulHfn, xs_dlPdcpSn = dlSn, xs_dlHfn = dlHfn\<rparr>, i) }"

record x2_sn_status =
  x2s_numberOfIes :: u32
  x2s_headerLength :: u32
  x2s_oldEnbUeX2apId :: u16
  x2s_newEnbUeX2apId :: u16
  x2s_erabs :: "x2_status_item list"

definition x2s_init :: x2_sn_status where
  "x2s_init = \<lparr>x2s_numberOfIes = 3, x2s_headerLength = 6, x2s_oldEnbUeX2apId = 0xfffa,
     x2s_newEnbUeX2apId = 0xfffa, x2s_erabs = []\<rparr>"

definition x2s_SetErabs :: "x2_status_item list \<Rightarrow> x2_sn_status \<Rightarrow> x2_sn_status" where
  "x2s_SetErabs erabs h =
     h\<lparr>x2s_headerLength := x2s_headerLength h
         + of_nat (length erabs) * (14 + of_nat (x2_maxPdcpSn div 8)),
       x2s_erabs := erabs\<rparr>"

definition x2s_GetSerializedSize :: "x2_sn_status \<Rightarrow> nat" where
  "x2s_GetSerializedSize h = unat (x2s_headerLength h)"

definition x2s_Serialize :: "(u32 \<Rightarrow> nat \<Rightarrow> u32) \<Rightarrow> x2_sn_status \<Rightarrow> bytes" where
  "x2s_Serialize shl h =
     WriteHtonU16 (x2s_oldEnbUeX2apId h) @ WriteHtonU16 (x2s_newEnbUeX2apId h)
     @ write_list16 (status_write shl) (x2s_erabs h)"

text \<open>Here the length of an item is computed with the number of words and not the number of bytes.\<close>

definition x2s_Deserialize :: "bytes \<Rightarrow> (x2_sn_status \<times> nat) option" where
  "x2s_Deserialize bs = do {
     (old, i) \<leftarrow> ReadNtohU16 bs;
     (new, i) \<leftarrow> ReadNtohU16 i;
     (erabs, i) \<leftarrow> read_list16 status_read i;
     let h = \<lparr>x2s_numberOfIes = 3,
              x2s_headerLength = 6 + of_nat (length erabs) * (14 + of_nat (x2_maxPdcpSn div 64)),
              x2s_oldEnbUeX2apId = old, x2s_newEnbUeX2apId = new, x2s_erabs = erabs\<rparr>;
     Some (h, x2s_GetSerializedSize h) }"

text \<open>What the receiver makes of the status bits that are written from \<open>bits\<close>.\<close>

definition status_bits :: "(u32 \<Rightarrow> nat \<Rightarrow> u32) \<Rightarrow> x2_status_item \<Rightarrow> bool list" where
  "status_bits shl e =
     concat (map (\<lambda>k. map (bit (x2_statusValue shl (status_word e k))) [0..<64])
               [0..<x2_maxPdcpSn div 64])"

definition status_seen :: "(u32 \<Rightarrow> nat \<Rightarrow> u32) \<Rightarrow> x2_status_item \<Rightarrow> x2_status_item" where
  "status_seen shl e = e\<lparr>xs_receiveStatus := status_bits shl e\<rparr>"

lemma bits_read: "(\<lambda>m. drop_bit m (w :: u64) AND 1 \<noteq> 0) = bit w"
  by (auto simp: fun_eq_iff and_one_eq odd_iff_mod_2_eq_one bit_iff_odd_drop_bit)

lemma status_read_write: "status_read (status_write shl e @ bs) = Some (status_seen shl e, bs)"
proof -
  define ws where "ws = map (\<lambda>k. x2_statusValue shl (status_word e k)) [0..<x2_maxPdcpSn div 64]"
  have ws: "concat (map (\<lambda>k. WriteHtonU64 (x2_statusValue shl (status_word e k)))
              [0..<x2_maxPdcpSn div 64]) = concat (map WriteHtonU64 ws)"
    by (simp add: ws_def comp_def)
  have len: "x2_maxPdcpSn div 64 = length ws"
    by (simp add: ws_def)
  have bits: "status_bits shl e = concat (map (\<lambda>w. map (bit w) [0..<64]) ws)"
    by (simp add: status_bits_def ws_def comp_def)
  show ?thesis
    unfolding status_write_def ws unfolding status_read_def bits_read len
    by (simp add: io_simps io_u64.read_n_wr) (simp add: status_seen_def bits)
qed

lemma length_status_write: "length (status_write shl e) = 526"
  by (simp add: status_write_def io_simps length_concat comp_def x2_maxPdcpSn_def sum_list_triv)

lemma status_list:
  "read_n (length es) status_read (concat (map (status_write shl) es) @ bs) = Some (map (status_seen shl) es, bs)"
  "length (concat (map (status_write shl) es)) = 526 * length es"
  by (induction es) (simp_all add: status_read_write length_status_write)

definition x2s_hwf :: "x2_sn_status \<Rightarrow> bool" where
  "x2s_hwf h \<longleftrightarrow> x2s_numberOfIes h = 3 \<and> length (x2s_erabs h) < 2 ^ 16 \<and>
     x2s_headerLength h = 6 + of_nat (length (x2s_erabs h)) * 526"

lemma status_words:
  "n < 2 ^ 16 \<Longrightarrow> unat (6 + of_nat n * 526 :: u32) = 6 + n * 526"
  "n < 2 ^ 16 \<Longrightarrow> unat (6 + of_nat n * 78 :: u32) = 6 + n * 78"
  using unat_of_nat [of "6 + n * 526", where 'a = 32] unat_of_nat [of "6 + n * 78", where 'a = 32]
  by simp_all

lemma x2s_Serialize_size:
  "x2s_hwf h \<Longrightarrow> length (x2s_Serialize shl h) = x2s_GetSerializedSize h"
  by (simp add: x2s_hwf_def x2s_Serialize_def x2s_GetSerializedSize_def write_list16_def
      write_items_def loop_items_all io_simps status_list status_words)

text \<open>The fields arrive, and the length that \<^verbatim>\<open>Deserialize\<close> returns is 448 bytes per item too small.\<close>

lemma x2s_Deserialize_Serialize:
  assumes "x2s_hwf h"
  shows "x2s_Deserialize (x2s_Serialize shl h @ p) =
    Some (h\<lparr>x2s_headerLength := 6 + of_nat (length (x2s_erabs h)) * 78,
            x2s_erabs := map (status_seen shl) (x2s_erabs h)\<rparr>, 6 + length (x2s_erabs h) * 78)"
proof -
  have "read_list16 status_read (write_list16 (status_write shl) (x2s_erabs h) @ p)
    = Some (map (status_seen shl) (x2s_erabs h), p)"
    using assms
    by (simp add: read_list16_def write_list16_def write_items_def loop_items_all io_simps
        unat_of_nat x2s_hwf_def status_list)
  with assms show ?thesis
    by (simp add: x2s_Serialize_def x2s_Deserialize_def io_simps x2s_hwf_def status_words
        x2s_GetSerializedSize_def x2_maxPdcpSn_def)
qed

lemma concat_replicate_replicate:
  "concat (replicate n (replicate m x)) = replicate (n * m) x"
  by (induction n) (simp_all add: replicate_add)

text \<open>A status without received SDUs arrives unchanged where a zero stays zero however it is shifted.\<close>

lemma status_seen_empty:
  assumes "\<And>m. shl 0 m = 0" and "xs_receiveStatus e = replicate x2_maxPdcpSn False"
  shows "status_seen shl e = e"
proof -
  have word: "status_word e k = replicate 64 False" if "k < 64" for k
    using that assms(2) by (simp add: status_word_def x2_maxPdcpSn_def)
  have zero: "fold (\<lambda>m v. v OR scast (x2_shift shl (replicate 64 False ! m) m)) ms 0 = (0 :: u64)"
    if "set ms \<subseteq> {..<64}" for ms
    using that by (induction ms) (auto simp: x2_shift_def assms(1))
  have val: "x2_statusValue shl (replicate 64 False) = 0"
    unfolding x2_statusValue_def by (rule zero) auto
  have bits: "map (bit (0 :: u64)) [0..<64] = replicate 64 False"
    by (rule nth_equalityI) auto
  have "status_bits shl e = concat (map (\<lambda>k. map (bit (0 :: u64)) [0..<64]) [0..<64])"
    unfolding status_bits_def
    by (intro arg_cong [where f = concat] map_cong) (auto simp: word val x2_maxPdcpSn_def)
  also have "\<dots> = replicate x2_maxPdcpSn False"
    unfolding bits by (simp add: map_replicate_const concat_replicate_replicate x2_maxPdcpSn_def)
  finally show ?thesis
    using assms(2) by (simp add: status_seen_def)
qed

section \<open>Resource status update\<close>

text \<open>The load indicators are values of an enumeration that are read from a byte.\<close>

record x2_measurement =
  xm_sourceCellId :: u16
  xm_dlHardwareLoad :: u8
  xm_ulHardwareLoad :: u8
  xm_dlS1TnlLoad :: u8
  xm_ulS1TnlLoad :: u8
  xm_dlGbrPrbUsage :: u16
  xm_ulGbrPrbUsage :: u16
  xm_dlNonGbrPrbUsage :: u16
  xm_ulNonGbrPrbUsage :: u16
  xm_dlTotalPrbUsage :: u16
  xm_ulTotalPrbUsage :: u16
  xm_dlCapacityClass :: u16
  xm_dlCapacity :: u16
  xm_ulCapacityClass :: u16
  xm_ulCapacity :: u16

definition measurement_write :: "x2_measurement \<Rightarrow> bytes" where
  "measurement_write m =
     WriteHtonU16 (xm_sourceCellId m)
     @ [xm_dlHardwareLoad m, xm_ulHardwareLoad m, xm_dlS1TnlLoad m, xm_ulS1TnlLoad m]
     @ WriteHtonU16 (xm_dlGbrPrbUsage m) @ WriteHtonU16 (xm_ulGbrPrbUsage m)
     @ WriteHtonU16 (xm_dlNonGbrPrbUsage m) @ WriteHtonU16 (xm_ulNonGbrPrbUsage m)
     @ WriteHtonU16 (xm_dlTotalPrbUsage m) @ WriteHtonU16 (xm_ulTotalPrbUsage m)
     @ WriteHtonU16 (xm_dlCapacityClass m) @ WriteHtonU16 (xm_dlCapacity m)
     @ WriteHtonU16 (xm_ulCapacityClass m) @ WriteHtonU16 (xm_ulCapacity m)"

definition measurement_read :: "bytes \<Rightarrow> (x2_measurement \<times> bytes) option" where
  "measurement_read i = do {
     (cell, i) \<leftarrow> ReadNtohU16 i;
     (dlHw, i) \<leftarrow> ReadU8 i;
     (ulHw, i) \<leftarrow> ReadU8 i;
     (dlTnl, i) \<leftarrow> ReadU8 i;
     (ulTnl, i) \<leftarrow> ReadU8 i;
     (dlGbr, i) \<leftarrow> ReadNtohU16 i;
     (ulGbr, i) \<leftarrow> ReadNtohU16 i;
     (dlNon, i) \<leftarrow> ReadNtohU16 i;
     (ulNon, i) \<leftarrow> ReadNtohU16 i;
     (dlTot, i) \<leftarrow> ReadNtohU16 i;
     (ulTot, i) \<leftarrow> ReadNtohU16 i;
     (dlClass, i) \<leftarrow> ReadNtohU16 i;
     (dlCap, i) \<leftarrow> ReadNtohU16 i;
     (ulClass, i) \<leftarrow> ReadNtohU16 i;
     (ulCap, i) \<leftarrow> ReadNtohU16 i;
     Some (\<lparr>xm_sourceCellId = cell, xm_dlHardwareLoad = dlHw, xm_ulHardwareLoad = ulHw,
            xm_dlS1TnlLoad = dlTnl, xm_ulS1TnlLoad = ulTnl, xm_dlGbrPrbUsage = dlGbr,
            xm_ulGbrPrbUsage = ulGbr, xm_dlNonGbrPrbUsage = dlNon, xm_ulNonGbrPrbUsage = ulNon,
            xm_dlTotalPrbUsage = dlTot, xm_ulTotalPrbUsage = ulTot, xm_dlCapacityClass = dlClass,
            xm_dlCapacity = dlCap, xm_ulCapacityClass = ulClass, xm_ulCapacity = ulCap\<rparr>, i) }"

interpretation measurement: ie_codec measurement_write measurement_read "\<lambda>_. True" "\<lambda>_. 26"
  by unfold_locales (auto simp: measurement_write_def measurement_read_def io_simps)

record x2_resource_status =
  x2m_numberOfIes :: u32
  x2m_headerLength :: u32
  x2m_enb1MeasurementId :: u16
  x2m_enb2MeasurementId :: u16
  x2m_results :: "x2_measurement list"

definition x2m_init :: x2_resource_status where
  "x2m_init = \<lparr>x2m_numberOfIes = 3, x2m_headerLength = 6, x2m_enb1MeasurementId = 0xfffa,
     x2m_enb2MeasurementId = 0xfffa, x2m_results = []\<rparr>"

definition x2m_SetResults :: "x2_measurement list \<Rightarrow> x2_resource_status \<Rightarrow> x2_resource_status" where
  "x2m_SetResults rs h =
     h\<lparr>x2m_results := rs, x2m_headerLength := x2m_headerLength h + of_nat (length rs) * 26\<rparr>"

definition x2m_GetSerializedSize :: "x2_resource_status \<Rightarrow> nat" where
  "x2m_GetSerializedSize h = unat (x2m_headerLength h)"

definition x2m_Serialize :: "x2_resource_status \<Rightarrow> bytes" where
  "x2m_Serialize h =
     WriteHtonU16 (x2m_enb1MeasurementId h) @ WriteHtonU16 (x2m_enb2MeasurementId h)
     @ write_list16 measurement_write (x2m_results h)"

definition x2m_Deserialize :: "bytes \<Rightarrow> (x2_resource_status \<times> nat) option" where
  "x2m_Deserialize bs = do {
     (enb1, i) \<leftarrow> ReadNtohU16 bs;
     (enb2, i) \<leftarrow> ReadNtohU16 i;
     (rs, i) \<leftarrow> read_list16 measurement_read i;
     let h = \<lparr>x2m_numberOfIes = 3, x2m_headerLength = 6 + of_nat (length rs) * 26,
              x2m_enb1MeasurementId = enb1, x2m_enb2MeasurementId = enb2, x2m_results = rs\<rparr>;
     Some (h, x2m_GetSerializedSize h) }"

definition x2m_hwf :: "x2_resource_status \<Rightarrow> bool" where
  "x2m_hwf h \<longleftrightarrow> x2m_numberOfIes h = 3 \<and> length (x2m_results h) < 2 ^ 16 \<and>
     x2m_headerLength h = 6 + of_nat (length (x2m_results h)) * 26"

lemma measurement_words: "n < 2 ^ 16 \<Longrightarrow> unat (6 + of_nat n * 26 :: u32) = 6 + n * 26"
  using unat_of_nat [of "6 + n * 26", where 'a = 32] by simp

interpretation x2m: header_codec x2m_GetSerializedSize "\<lambda>h. Some (x2m_Serialize h)"
  x2m_Deserialize x2m_hwf "\<lambda>h. h"
proof (unfold_locales, goal_cases)
  case (1 h)
  then show ?case
    by (simp add: x2m_hwf_def x2m_GetSerializedSize_def x2m_Serialize_def measurement_words io_simps
        measurement.length_write_list loop_items_all sum_list_triv)
next
  case (2 h b p)
  then show ?case
    by (auto simp: x2m_hwf_def x2m_GetSerializedSize_def x2m_Serialize_def x2m_Deserialize_def
        io_simps measurement.read_list16_wr)
qed

section \<open>Load information\<close>

record x2_high_interference =
  xo_targetCellId :: u16
  xo_indications :: "bool list"

text \<open>\<^verbatim>\<open>CellInformationItem\<close> with the members of its \<^verbatim>\<open>RelativeNarrowbandTxBand\<close>.\<close>

record x2_cell_info =
  xl_sourceCellId :: u16
  xl_overload :: "u8 list"
  xl_high :: "x2_high_interference list"
  xl_rntpPerPrb :: "bool list"
  xl_rntpThreshold :: u16
  xl_antennaPorts :: u16
  xl_pB :: u16
  xl_pdcchInterferenceImpact :: u16

definition high_write :: "x2_high_interference \<Rightarrow> bytes" where
  "high_write h = WriteHtonU16 (xo_targetCellId h) @ write_list16 write_bool (xo_indications h)"

definition high_read :: "bytes \<Rightarrow> (x2_high_interference \<times> bytes) option" where
  "high_read i = do {
     (cell, i) \<leftarrow> ReadNtohU16 i;
     (ind, i) \<leftarrow> read_list16 read_bool i;
     Some (\<lparr>xo_targetCellId = cell, xo_indications = ind\<rparr>, i) }"

definition cell_write :: "x2_cell_info \<Rightarrow> bytes" where
  "cell_write c =
     WriteHtonU16 (xl_sourceCellId c) @ write_list16 (\<lambda>x. [x]) (xl_overload c)
     @ write_list16 high_write (xl_high c) @ write_list16 write_bool (xl_rntpPerPrb c)
     @ WriteHtonU16 (xl_rntpThreshold c) @ WriteHtonU16 (xl_antennaPorts c)
     @ WriteHtonU16 (xl_pB c) @ WriteHtonU16 (xl_pdcchInterferenceImpact c)"

definition cell_read :: "bytes \<Rightarrow> (x2_cell_info \<times> bytes) option" where
  "cell_read i = do {
     (cell, i) \<leftarrow> ReadNtohU16 i;
     (over, i) \<leftarrow> read_list16 ReadU8 i;
     (high, i) \<leftarrow> read_list16 high_read i;
     (rntp, i) \<leftarrow> read_list16 read_bool i;
     (thr, i) \<leftarrow> ReadNtohU16 i;
     (ports, i) \<leftarrow> ReadNtohU16 i;
     (pB, i) \<leftarrow> ReadNtohU16 i;
     (impact, i) \<leftarrow> ReadNtohU16 i;
     Some (\<lparr>xl_sourceCellId = cell, xl_overload = over, xl_high = high, xl_rntpPerPrb = rntp,
            xl_rntpThreshold = thr, xl_antennaPorts = ports, xl_pB = pB,
            xl_pdcchInterferenceImpact = impact\<rparr>, i) }"

text \<open>The lengths that the setter and \<^verbatim>\<open>Deserialize\<close> add up, in the 32 bits of \<^verbatim>\<open>m_headerLength\<close>.\<close>

definition high_len :: "x2_high_interference \<Rightarrow> u32" where
  "high_len h = 2 + 2 + of_nat (length (xo_indications h))"

definition cell_len :: "x2_cell_info \<Rightarrow> u32" where
  "cell_len c = 2 + (2 + of_nat (length (xl_overload c)))
     + (2 + sum_list (map high_len (loop_items (xl_high c))))
     + (2 + of_nat (length (xl_rntpPerPrb c)) + 8)"

record x2_load_info =
  x2l_numberOfIes :: u32
  x2l_headerLength :: u32
  x2l_cells :: "x2_cell_info list"

definition x2l_init :: x2_load_info where
  "x2l_init = \<lparr>x2l_numberOfIes = 1, x2l_headerLength = 6, x2l_cells = []\<rparr>"

text \<open>The setter adds two bytes for the number of cells, which the constructor has counted already.\<close>

definition x2l_SetCellInformationList :: "x2_cell_info list \<Rightarrow> x2_load_info \<Rightarrow> x2_load_info" where
  "x2l_SetCellInformationList cs h =
     h\<lparr>x2l_cells := cs,
       x2l_headerLength := x2l_headerLength h + 2 + sum_list (map cell_len (loop_items cs))\<rparr>"

definition x2l_GetSerializedSize :: "x2_load_info \<Rightarrow> nat" where
  "x2l_GetSerializedSize h = unat (x2l_headerLength h)"

definition x2l_Serialize :: "x2_load_info \<Rightarrow> bytes" where
  "x2l_Serialize h = WriteHtonU16 6 @ [push_bit 6 1, 4] @ write_list16 cell_write (x2l_cells h)"

definition x2l_Deserialize :: "bytes \<Rightarrow> (x2_load_info \<times> nat) option" where
  "x2l_Deserialize bs = do {
     (_, i) \<leftarrow> ReadNtohU16 bs; (_, i) \<leftarrow> ReadU8 i; (_, i) \<leftarrow> ReadU8 i;
     (cs, i) \<leftarrow> read_list16 cell_read i;
     let h = \<lparr>x2l_numberOfIes = 1, x2l_headerLength = 6 + sum_list (map cell_len cs),
              x2l_cells = cs\<rparr>;
     Some (h, x2l_GetSerializedSize h) }"

text \<open>The bytes that an element writes, and the counts that fit their fields.\<close>

definition high_size :: "x2_high_interference \<Rightarrow> nat" where
  "high_size h = 4 + length (loop_items (xo_indications h))"

definition high_ok :: "x2_high_interference \<Rightarrow> bool" where
  "high_ok h \<longleftrightarrow> length (xo_indications h) < 2 ^ 16"

definition cell_size :: "x2_cell_info \<Rightarrow> nat" where
  "cell_size c = 16 + length (loop_items (xl_overload c))
     + sum_list (map high_size (loop_items (xl_high c))) + length (loop_items (xl_rntpPerPrb c))"

definition cell_ok :: "x2_cell_info \<Rightarrow> bool" where
  "cell_ok c \<longleftrightarrow> length (xl_overload c) < 2 ^ 16 \<and> length (xl_high c) < 2 ^ 16 \<and>
     list_all high_ok (xl_high c) \<and> length (xl_rntpPerPrb c) < 2 ^ 16"

interpretation high: ie_codec high_write high_read high_ok high_size
  by unfold_locales
     (auto simp: high_ok_def high_size_def high_write_def high_read_def io_simps
        io_bool.read_list16_wr io_bool.length_write_list sum_list_triv)

interpretation cell: ie_codec cell_write cell_read cell_ok cell_size
  by unfold_locales
     (auto simp: cell_ok_def cell_size_def cell_write_def cell_read_def io_simps
        io_bool.read_list16_wr io_bool.length_write_list io_u8.read_list16_wr io_u8.length_write_list
        high.read_list16_wr high.length_write_list sum_list_triv)

lemma high_len_size: "high_ok h \<Longrightarrow> high_len h = of_nat (high_size h)"
  by (simp add: high_ok_def high_len_def high_size_def loop_items_all)

lemma cell_len_size:
  assumes "cell_ok c"
  shows "cell_len c = of_nat (cell_size c)"
proof -
  have "sum_list (map high_len hs) = of_nat (sum_list (map high_size hs))" if "list_all high_ok hs" for hs
    using that by (induction hs) (simp_all add: high_len_size)
  with assms show ?thesis
    by (simp add: cell_ok_def cell_len_def cell_size_def loop_items_all)
qed

lemma cells_len_size:
  "list_all cell_ok cs \<Longrightarrow> sum_list (map cell_len cs) = of_nat (sum_list (map cell_size cs))"
  by (induction cs) (simp_all add: cell_len_size)

definition x2l_hwf :: "x2_load_info \<Rightarrow> bool" where
  "x2l_hwf h \<longleftrightarrow> x2l_numberOfIes h = 1 \<and> length (x2l_cells h) < 2 ^ 16 \<and>
     list_all cell_ok (x2l_cells h) \<and> 8 + sum_list (map cell_size (x2l_cells h)) < 2 ^ 32 \<and>
     x2l_headerLength h = 6 + 2 + sum_list (map cell_len (x2l_cells h))"

lemma load_words:
  assumes "list_all cell_ok cs" and "8 + sum_list (map cell_size cs) < 2 ^ 32"
  shows "unat (6 + 2 + sum_list (map cell_len cs)) = 8 + sum_list (map cell_size cs)"
    and "unat (6 + sum_list (map cell_len cs)) = 6 + sum_list (map cell_size cs)"
  using assms unat_of_nat [of "8 + sum_list (map cell_size cs)", where 'a = 32]
    unat_of_nat [of "6 + sum_list (map cell_size cs)", where 'a = 32]
  by (simp_all add: cells_len_size)

text \<open>
  \<^verbatim>\<open>GetSerializedSize\<close> is two more than what is written and what \<^verbatim>\<open>Deserialize\<close> takes off again.
\<close>

lemma x2l_Serialize_size:
  "x2l_hwf h \<Longrightarrow> x2l_GetSerializedSize h = length (x2l_Serialize h) + 2"
  unfolding x2l_hwf_def x2l_GetSerializedSize_def
  by (simp add: load_words [simplified] x2l_Serialize_def io_simps cell.length_write_list
      loop_items_all)

lemma x2l_Deserialize_Serialize:
  "x2l_hwf h \<Longrightarrow> x2l_Deserialize (x2l_Serialize h @ p) =
     Some (h\<lparr>x2l_headerLength := 6 + sum_list (map cell_len (x2l_cells h))\<rparr>,
           length (x2l_Serialize h))"
  unfolding x2l_hwf_def x2l_GetSerializedSize_def
  by (simp add: load_words [simplified] x2l_Serialize_def x2l_Deserialize_def io_simps
      cell.length_write_list cell.read_list16_wr loop_items_all x2l_GetSerializedSize_def)

end
