(* ===== verification/EpcX2.thy ===== *)
theory EpcX2
  imports EpcX2Reports GtpuHeader
begin

text \<open>
  \<^verbatim>\<open>EpcX2\<close> of \<^verbatim>\<open>src/lte/model/epc-x2.cc\<close>: the X2 entity of an eNB, its interfaces to other eNBs, the
  primitives of its service access point and the reception of datagrams. The parameters of a
  primitive are the same structure on both sides (\<^verbatim>\<open>epc-x2-sap.h\<close>).
\<close>

section \<open>Parameters of the primitives\<close>

record ho_request_params =
  hq_oldEnbUeX2apId :: u16
  hq_cause :: u16
  hq_sourceCellId :: u16
  hq_targetCellId :: u16
  hq_mmeUeS1apId :: u32
  hq_ambrDl :: u64
  hq_ambrUl :: u64
  hq_bearers :: "x2_erab list"
  hq_rrcContext :: "bytes option"

record ho_ack_params =
  hk_oldEnbUeX2apId :: u16
  hk_newEnbUeX2apId :: u16
  hk_sourceCellId :: u16
  hk_targetCellId :: u16
  hk_admitted :: "x2_admitted list"
  hk_notAdmitted :: "x2_notadmitted list"
  hk_rrcContext :: "bytes option"

record ho_failure_params =
  hf_oldEnbUeX2apId :: u16
  hf_sourceCellId :: u16
  hf_targetCellId :: u16
  hf_cause :: u16
  hf_criticalityDiagnostics :: u16

record sn_status_params =
  hs_oldEnbUeX2apId :: u16
  hs_newEnbUeX2apId :: u16
  hs_sourceCellId :: u16
  hs_targetCellId :: u16
  hs_erabs :: "x2_status_item list"

record ue_release_params =
  hu_oldEnbUeX2apId :: u16
  hu_newEnbUeX2apId :: u16
  hu_sourceCellId :: u16
  hu_targetCellId :: u16

record load_info_params =
  hl_targetCellId :: u16
  hl_cells :: "x2_cell_info list"

record resource_status_params =
  hm_targetCellId :: u16
  hm_enb1MeasurementId :: u16
  hm_enb2MeasurementId :: u16
  hm_results :: "x2_measurement list"

record ue_data_params =
  hd_sourceCellId :: u16
  hd_targetCellId :: u16
  hd_gtpTeid :: u32
  hd_ueData :: bytes

record ho_cancel_params =
  hc_oldEnbUeX2apId :: u16
  hc_newEnbUeX2apId :: u16
  hc_sourceCellId :: u16
  hc_targetCellId :: u16
  hc_cause :: u16

text \<open>A call of a primitive \<^verbatim>\<open>Send...\<close> of the provider or \<^verbatim>\<open>Recv...\<close> of the user.\<close>

datatype x2_message =
    XHandoverRequest ho_request_params
  | XHandoverRequestAck ho_ack_params
  | XHandoverPreparationFailure ho_failure_params
  | XSnStatusTransfer sn_status_params
  | XUeContextRelease ue_release_params
  | XLoadInformation load_info_params
  | XResourceStatusUpdate resource_status_params
  | XUeData ue_data_params
  | XHandoverCancel ho_cancel_params

section \<open>The entity\<close>

text \<open>A socket is numbered in the order of creation; it is bound to an address and has a callback.\<close>

datatype x2_callback = RecvFromX2cSocket_callback | RecvFromX2uSocket_callback

record x2_socket =
  so_addr :: ipv4
  so_port :: u16
  so_recv :: x2_callback

text \<open>\<^verbatim>\<open>X2IfaceInfo\<close> and \<^verbatim>\<open>X2CellInfo\<close>.\<close>

record x2_iface =
  xf_remoteIpAddr :: ipv4
  xf_localCtrlPlaneSocket :: nat
  xf_localUserPlaneSocket :: nat

record x2_cells =
  xc_localCellIds :: "u16 list"
  xc_remoteCellIds :: "u16 list"

record x2 =
  x2_sockets :: "x2_socket list"
  x2_interfaceSockets :: "u16 \<Rightarrow> x2_iface option"
  x2_interfaceCellIds :: "nat \<Rightarrow> x2_cells option"

definition x2cUdpPort :: u16 where "x2cUdpPort = 4444"
definition x2uUdpPort :: u16 where "x2uUdpPort = 2152"

definition x2_init :: x2 where
  "x2_init = \<lparr>x2_sockets = [], x2_interfaceSockets = (\<lambda>_. None), x2_interfaceCellIds = (\<lambda>_. None)\<rparr>"

text \<open>
  The interface is entered for every cell of the remote eNB, with the addresses and sockets, and for
  both sockets, with the cells. Reading the first cell of an empty list throws.
\<close>

definition x2_AddX2Interface :: "u16 \<Rightarrow> ipv4 \<Rightarrow> u16 list \<Rightarrow> ipv4 \<Rightarrow> x2 \<Rightarrow> x2 option" where
  "x2_AddX2Interface localCellId localX2Address remoteCellIds remoteX2Address s =
     (if remoteCellIds = [] then None
      else
        let c = length (x2_sockets s);
            u = Suc c;
            f = \<lparr>xf_remoteIpAddr = remoteX2Address, xf_localCtrlPlaneSocket = c,
                 xf_localUserPlaneSocket = u\<rparr>;
            cells = \<lparr>xc_localCellIds = [localCellId], xc_remoteCellIds = remoteCellIds\<rparr>
        in Some (s\<lparr>x2_sockets := x2_sockets s @
             [\<lparr>so_addr = localX2Address, so_port = x2cUdpPort, so_recv = RecvFromX2cSocket_callback\<rparr>,
              \<lparr>so_addr = localX2Address, so_port = x2uUdpPort, so_recv = RecvFromX2uSocket_callback\<rparr>],
           x2_interfaceSockets := fold (\<lambda>cell m. m(cell \<mapsto> f)) remoteCellIds (x2_interfaceSockets s),
           x2_interfaceCellIds := (x2_interfaceCellIds s)(c \<mapsto> cells, u \<mapsto> cells)\<rparr>))"

section \<open>Sending\<close>

text \<open>\<^verbatim>\<open>Socket::SendTo\<close>: the local socket, the destination address and port, the packet.\<close>

datatype x2_datagram = X2SendTo nat ipv4 u16 bytes | X2Refused

text \<open>
  What the C++ program leaves open: the result of an \<^verbatim>\<open>int\<close> shifted too far, the bytes that load
  information reserves and does not write, the members of a structure that are never set.
\<close>

record x2_env =
  xv_shl :: "u32 \<Rightarrow> nat \<Rightarrow> u32"
  xv_stale :: bytes
  xv_sourceCellId :: u16
  xv_targetCellId :: u16

text \<open>
  The part that all \<^verbatim>\<open>DoSend...\<close> functions share: look up the interface of a cell (a missing entry is a
  null pointer), add the common header with the length and number of the elements of the message
  header, send the packet through the control plane socket.
\<close>

definition x2_header_for :: "u8 \<Rightarrow> u8 \<Rightarrow> u32 \<Rightarrow> u32 \<Rightarrow> x2_header" where
  "x2_header_for messageType procedureCode lengthOfIes numberOfIes =
     x2h_SetNumberOfIes numberOfIes (x2h_SetLengthOfIes lengthOfIes
       (x2h_SetProcedureCode procedureCode (x2h_SetMessageType messageType x2h_init)))"

text \<open>
  \<^verbatim>\<open>Socket::SendTo\<close>: a UDP socket refuses a packet of more than 65507 bytes; it returns -1, which the
  X2 entity does not look at, and nothing is sent.
\<close>

definition MAX_IPV4_UDP_DATAGRAM_SIZE :: nat where "MAX_IPV4_UDP_DATAGRAM_SIZE = 65507"

definition udp_SendTo :: "nat \<Rightarrow> ipv4 \<Rightarrow> u16 \<Rightarrow> bytes \<Rightarrow> x2_datagram" where
  "udp_SendTo sock a port q =
     (if MAX_IPV4_UDP_DATAGRAM_SIZE < length q then X2Refused else X2SendTo sock a port q)"

definition x2_send_ctrl :: "u16 \<Rightarrow> x2_header \<Rightarrow> bytes option \<Rightarrow> x2 \<Rightarrow> x2_datagram option" where
  "x2_send_ctrl cell h packet s = do {
     f \<leftarrow> x2_interfaceSockets s cell;
     p \<leftarrow> packet;
     q \<leftarrow> AddHeader x2h_GetSerializedSize (\<lambda>h. Some (x2h_Serialize h)) h p;
     Some (udp_SendTo (xf_localCtrlPlaneSocket f) (xf_remoteIpAddr f) x2cUdpPort q) }"

text \<open>\<^verbatim>\<open>(params.rrcContext) ? (params.rrcContext) : (Create<Packet>())\<close>.\<close>

definition rrc_packet :: "bytes option \<Rightarrow> bytes" where
  "rrc_packet c = (case c of None \<Rightarrow> [] | Some p \<Rightarrow> p)"

text \<open>The bit rates that the constructor leaves indeterminate are set before the header is used.\<close>

definition x2q_of :: "ho_request_params \<Rightarrow> x2_ho_request" where
  "x2q_of p = x2q_SetBearers (hq_bearers p)
     ((x2q_init 0 0)\<lparr>x2q_oldEnbUeX2apId := hq_oldEnbUeX2apId p, x2q_cause := hq_cause p,
        x2q_targetCellId := hq_targetCellId p, x2q_mmeUeS1apId := hq_mmeUeS1apId p,
        x2q_ambrDl := hq_ambrDl p, x2q_ambrUl := hq_ambrUl p\<rparr>)"

definition DoSendHandoverRequest :: "ho_request_params \<Rightarrow> x2 \<Rightarrow> x2_datagram option" where
  "DoSendHandoverRequest p s =
     (let h = x2q_of p
      in x2_send_ctrl (hq_targetCellId p)
           (x2_header_for X2_InitiatingMessage X2_HandoverPreparation (x2q_headerLength h)
              (x2q_numberOfIes h))
           (AddHeader x2q_GetSerializedSize (\<lambda>h. Some (x2q_Serialize h)) h
              (rrc_packet (hq_rrcContext p))) s)"

definition x2a_of :: "ho_ack_params \<Rightarrow> x2_ho_ack" where
  "x2a_of p = x2a_SetNotAdmittedBearers (hk_notAdmitted p) (x2a_SetAdmittedBearers (hk_admitted p)
     (x2a_init\<lparr>x2a_oldEnbUeX2apId := hk_oldEnbUeX2apId p,
        x2a_newEnbUeX2apId := hk_newEnbUeX2apId p\<rparr>))"

definition DoSendHandoverRequestAck :: "ho_ack_params \<Rightarrow> x2 \<Rightarrow> x2_datagram option" where
  "DoSendHandoverRequestAck p s =
     (let h = x2a_of p
      in x2_send_ctrl (hk_sourceCellId p)
           (x2_header_for X2_SuccessfulOutcome X2_HandoverPreparation (x2a_headerLength h)
              (x2a_numberOfIes h))
           (AddHeader x2a_GetSerializedSize (\<lambda>h. Some (x2a_Serialize h)) h
              (rrc_packet (hk_rrcContext p))) s)"

definition x2f_of :: "ho_failure_params \<Rightarrow> x2_ho_failure" where
  "x2f_of p = x2f_init\<lparr>x2f_oldEnbUeX2apId := hf_oldEnbUeX2apId p, x2f_cause := hf_cause p,
     x2f_criticalityDiagnostics := hf_criticalityDiagnostics p\<rparr>"

definition DoSendHandoverPreparationFailure :: "ho_failure_params \<Rightarrow> x2 \<Rightarrow> x2_datagram option" where
  "DoSendHandoverPreparationFailure p s =
     (let h = x2f_of p
      in x2_send_ctrl (hf_sourceCellId p)
           (x2_header_for X2_UnsuccessfulOutcome X2_HandoverPreparation (x2f_headerLength h)
              (x2f_numberOfIes h))
           (AddHeader x2f_GetSerializedSize (\<lambda>h. Some (x2f_Serialize h)) h []) s)"

definition x2s_of :: "sn_status_params \<Rightarrow> x2_sn_status" where
  "x2s_of p = x2s_SetErabs (hs_erabs p)
     (x2s_init\<lparr>x2s_oldEnbUeX2apId := hs_oldEnbUeX2apId p,
        x2s_newEnbUeX2apId := hs_newEnbUeX2apId p\<rparr>)"

definition DoSendSnStatusTransfer :: "x2_env \<Rightarrow> sn_status_params \<Rightarrow> x2 \<Rightarrow> x2_datagram option" where
  "DoSendSnStatusTransfer v p s =
     (let h = x2s_of p
      in x2_send_ctrl (hs_targetCellId p)
           (x2_header_for X2_InitiatingMessage X2_SnStatusTransfer (x2s_headerLength h)
              (x2s_numberOfIes h))
           (AddHeader x2s_GetSerializedSize (\<lambda>h. Some (x2s_Serialize (xv_shl v) h)) h []) s)"

definition x2u_of :: "ue_release_params \<Rightarrow> x2_ue_release" where
  "x2u_of p = x2u_init\<lparr>x2u_oldEnbUeX2apId := hu_oldEnbUeX2apId p,
     x2u_newEnbUeX2apId := hu_newEnbUeX2apId p\<rparr>"

definition DoSendUeContextRelease :: "ue_release_params \<Rightarrow> x2 \<Rightarrow> x2_datagram option" where
  "DoSendUeContextRelease p s =
     (let h = x2u_of p
      in x2_send_ctrl (hu_sourceCellId p)
           (x2_header_for X2_InitiatingMessage X2_UeContextRelease (x2u_headerLength h)
              (x2u_numberOfIes h))
           (AddHeader x2u_GetSerializedSize (\<lambda>h. Some (x2u_Serialize h)) h []) s)"

text \<open>
  \<^verbatim>\<open>AddHeader\<close> reserves as many bytes as the header claims and lets it write from the start: what the
  header does not write is left as found.
\<close>

definition AddHeaderStale :: "bytes \<Rightarrow> ('h \<Rightarrow> nat) \<Rightarrow> ('h \<Rightarrow> bytes) \<Rightarrow> 'h \<Rightarrow> bytes \<Rightarrow> bytes option" where
  "AddHeaderStale stale hsize ser h p =
     (if length (ser h) + length stale = hsize h then Some (ser h @ stale @ p) else None)"

definition DoSendLoadInformation :: "x2_env \<Rightarrow> load_info_params \<Rightarrow> x2 \<Rightarrow> x2_datagram option" where
  "DoSendLoadInformation v p s =
     (let h = x2l_SetCellInformationList (hl_cells p) x2l_init
      in x2_send_ctrl (hl_targetCellId p)
           (x2_header_for X2_InitiatingMessage X2_LoadIndication (x2l_headerLength h)
              (x2l_numberOfIes h))
           (AddHeaderStale (xv_stale v) x2l_GetSerializedSize x2l_Serialize h []) s)"

definition x2m_of :: "resource_status_params \<Rightarrow> x2_resource_status" where
  "x2m_of p = x2m_SetResults (hm_results p)
     (x2m_init\<lparr>x2m_enb1MeasurementId := hm_enb1MeasurementId p,
        x2m_enb2MeasurementId := hm_enb2MeasurementId p\<rparr>)"

definition DoSendResourceStatusUpdate :: "resource_status_params \<Rightarrow> x2 \<Rightarrow> x2_datagram option" where
  "DoSendResourceStatusUpdate p s =
     (let h = x2m_of p
      in x2_send_ctrl (hm_targetCellId p)
           (x2_header_for X2_InitiatingMessage X2_ResourceStatusReporting (x2m_headerLength h)
              (x2m_numberOfIes h))
           (AddHeader x2m_GetSerializedSize (\<lambda>h. Some (x2m_Serialize h)) h []) s)"

definition DoSendUeData :: "ue_data_params \<Rightarrow> x2 \<Rightarrow> x2_datagram option" where
  "DoSendUeData p s = do {
     f \<leftarrow> x2_interfaceSockets s (hd_targetCellId p);
     q \<leftarrow> gtpu_encap (hd_gtpTeid p) (hd_ueData p);
     Some (udp_SendTo (xf_localUserPlaneSocket f) (xf_remoteIpAddr f) x2uUdpPort q) }"

definition x2c_of :: "ho_cancel_params \<Rightarrow> x2_ho_cancel" where
  "x2c_of p = x2c_init\<lparr>x2c_oldEnbUeX2apId := hc_oldEnbUeX2apId p,
     x2c_newEnbUeX2apId := hc_newEnbUeX2apId p, x2c_cause := hc_cause p\<rparr>"

definition DoSendHandoverCancel :: "ho_cancel_params \<Rightarrow> x2 \<Rightarrow> x2_datagram option" where
  "DoSendHandoverCancel p s =
     (let h = x2c_of p
      in x2_send_ctrl (hc_targetCellId p)
           (x2_header_for X2_SuccessfulOutcome X2_HandoverCancel (x2c_headerLength h)
              (x2c_numberOfIes h))
           (AddHeader x2c_GetSerializedSize (\<lambda>h. Some (x2c_Serialize h)) h []) s)"

text \<open>The service access point: one primitive for each message.\<close>

fun x2_send :: "x2_env \<Rightarrow> x2_message \<Rightarrow> x2 \<Rightarrow> x2_datagram option" where
  "x2_send v (XHandoverRequest p) s = DoSendHandoverRequest p s"
| "x2_send v (XHandoverRequestAck p) s = DoSendHandoverRequestAck p s"
| "x2_send v (XHandoverPreparationFailure p) s = DoSendHandoverPreparationFailure p s"
| "x2_send v (XSnStatusTransfer p) s = DoSendSnStatusTransfer v p s"
| "x2_send v (XUeContextRelease p) s = DoSendUeContextRelease p s"
| "x2_send v (XLoadInformation p) s = DoSendLoadInformation v p s"
| "x2_send v (XResourceStatusUpdate p) s = DoSendResourceStatusUpdate p s"
| "x2_send v (XUeData p) s = DoSendUeData p s"
| "x2_send v (XHandoverCancel p) s = DoSendHandoverCancel p s"

section \<open>Receiving\<close>

text \<open>\<^verbatim>\<open>at(0)\<close> throws on an empty vector.\<close>

fun at0 :: "'a list \<Rightarrow> 'a option" where
  "at0 [] = None"
| "at0 (x # xs) = Some x"

definition x2_local0 :: "x2_cells option \<Rightarrow> u16 option" where
  "x2_local0 c = do { i \<leftarrow> c; at0 (xc_localCellIds i) }"

definition x2_remote0 :: "x2_cells option \<Rightarrow> u16 option" where
  "x2_remote0 c = do { i \<leftarrow> c; at0 (xc_remoteCellIds i) }"

definition recv_HandoverRequest :: "x2_cells option \<Rightarrow> bytes \<Rightarrow> x2_message option" where
  "recv_HandoverRequest cellsInfo packet = do {
     (h, packet) \<leftarrow> RemoveHeader x2q_Deserialize packet;
     source \<leftarrow> x2_remote0 cellsInfo;
     Some (XHandoverRequest \<lparr>hq_oldEnbUeX2apId = x2q_oldEnbUeX2apId h, hq_cause = x2q_cause h,
       hq_sourceCellId = source, hq_targetCellId = x2q_targetCellId h,
       hq_mmeUeS1apId = x2q_mmeUeS1apId h, hq_ambrDl = x2q_ambrDl h, hq_ambrUl = x2q_ambrUl h,
       hq_bearers = map erab_copy (x2q_bearers h), hq_rrcContext = Some packet\<rparr>) }"

definition recv_HandoverRequestAck :: "x2_cells option \<Rightarrow> bytes \<Rightarrow> x2_message option" where
  "recv_HandoverRequestAck cellsInfo packet = do {
     (h, packet) \<leftarrow> RemoveHeader x2a_Deserialize packet;
     source \<leftarrow> x2_local0 cellsInfo;
     target \<leftarrow> x2_remote0 cellsInfo;
     Some (XHandoverRequestAck \<lparr>hk_oldEnbUeX2apId = x2a_oldEnbUeX2apId h,
       hk_newEnbUeX2apId = x2a_newEnbUeX2apId h, hk_sourceCellId = source,
       hk_targetCellId = target, hk_admitted = x2a_admitted h,
       hk_notAdmitted = x2a_notAdmitted h, hk_rrcContext = Some packet\<rparr>) }"

definition recv_HandoverPreparationFailure :: "x2_cells option \<Rightarrow> bytes \<Rightarrow> x2_message option" where
  "recv_HandoverPreparationFailure cellsInfo packet = do {
     (h, packet) \<leftarrow> RemoveHeader x2f_Deserialize packet;
     source \<leftarrow> x2_local0 cellsInfo;
     target \<leftarrow> x2_remote0 cellsInfo;
     Some (XHandoverPreparationFailure \<lparr>hf_oldEnbUeX2apId = x2f_oldEnbUeX2apId h,
       hf_sourceCellId = source, hf_targetCellId = target, hf_cause = x2f_cause h,
       hf_criticalityDiagnostics = x2f_criticalityDiagnostics h\<rparr>) }"

definition recv_LoadInformation :: "bytes \<Rightarrow> x2_message option" where
  "recv_LoadInformation packet = do {
     (h, packet) \<leftarrow> RemoveHeader x2l_Deserialize packet;
     Some (XLoadInformation \<lparr>hl_targetCellId = 0xffff, hl_cells = x2l_cells h\<rparr>) }"

definition recv_SnStatusTransfer :: "x2_cells option \<Rightarrow> bytes \<Rightarrow> x2_message option" where
  "recv_SnStatusTransfer cellsInfo packet = do {
     (h, packet) \<leftarrow> RemoveHeader x2s_Deserialize packet;
     source \<leftarrow> x2_remote0 cellsInfo;
     target \<leftarrow> x2_local0 cellsInfo;
     Some (XSnStatusTransfer \<lparr>hs_oldEnbUeX2apId = x2s_oldEnbUeX2apId h,
       hs_newEnbUeX2apId = x2s_newEnbUeX2apId h, hs_sourceCellId = source,
       hs_targetCellId = target, hs_erabs = x2s_erabs h\<rparr>) }"

definition recv_UeContextRelease :: "x2_env \<Rightarrow> bytes \<Rightarrow> x2_message option" where
  "recv_UeContextRelease v packet = do {
     (h, packet) \<leftarrow> RemoveHeader x2u_Deserialize packet;
     Some (XUeContextRelease \<lparr>hu_oldEnbUeX2apId = x2u_oldEnbUeX2apId h,
       hu_newEnbUeX2apId = x2u_newEnbUeX2apId h, hu_sourceCellId = xv_sourceCellId v,
       hu_targetCellId = xv_targetCellId v\<rparr>) }"

definition recv_ResourceStatusUpdate :: "bytes \<Rightarrow> x2_message option" where
  "recv_ResourceStatusUpdate packet = do {
     (h, packet) \<leftarrow> RemoveHeader x2m_Deserialize packet;
     Some (XResourceStatusUpdate \<lparr>hm_targetCellId = 0,
       hm_enb1MeasurementId = x2m_enb1MeasurementId h,
       hm_enb2MeasurementId = x2m_enb2MeasurementId h, hm_results = x2m_results h\<rparr>) }"

definition recv_HandoverCancel :: "x2_cells option \<Rightarrow> bytes \<Rightarrow> x2_message option" where
  "recv_HandoverCancel cellsInfo packet = do {
     (h, packet) \<leftarrow> RemoveHeader x2c_Deserialize packet;
     source \<leftarrow> x2_local0 cellsInfo;
     target \<leftarrow> x2_remote0 cellsInfo;
     Some (XHandoverCancel \<lparr>hc_oldEnbUeX2apId = x2c_oldEnbUeX2apId h,
       hc_newEnbUeX2apId = x2c_newEnbUeX2apId h, hc_sourceCellId = source,
       hc_targetCellId = target, hc_cause = x2c_cause h\<rparr>) }"

text \<open>
  The calls of the user that a datagram causes: at most one. A procedure or message type that is not
  supported passes without effect. The entry of an unknown socket is a null pointer.
\<close>

definition one_call :: "x2_message option \<Rightarrow> x2_message list option" where
  "one_call m = map_option (\<lambda>x. [x]) m"

definition RecvFromX2cSocket :: "x2_env \<Rightarrow> nat \<Rightarrow> bytes \<Rightarrow> x2 \<Rightarrow> x2_message list option" where
  "RecvFromX2cSocket v sock packet s = do {
     let cellsInfo = x2_interfaceCellIds s sock;
     (h, packet) \<leftarrow> RemoveHeader x2h_Deserialize packet;
     let messageType = x2h_messageType h;
     let procedureCode = x2h_procedureCode h;
     if procedureCode = X2_HandoverPreparation then
       (if messageType = X2_InitiatingMessage then one_call (recv_HandoverRequest cellsInfo packet)
        else if messageType = X2_SuccessfulOutcome
        then one_call (recv_HandoverRequestAck cellsInfo packet)
        else one_call (recv_HandoverPreparationFailure cellsInfo packet))
     else if procedureCode = X2_LoadIndication then
       (if messageType = X2_InitiatingMessage then one_call (recv_LoadInformation packet) else Some [])
     else if procedureCode = X2_SnStatusTransfer then
       (if messageType = X2_InitiatingMessage then one_call (recv_SnStatusTransfer cellsInfo packet)
        else Some [])
     else if procedureCode = X2_UeContextRelease then
       (if messageType = X2_InitiatingMessage then one_call (recv_UeContextRelease v packet)
        else Some [])
     else if procedureCode = X2_ResourceStatusReporting then
       (if messageType = X2_InitiatingMessage then one_call (recv_ResourceStatusUpdate packet)
        else Some [])
     else if procedureCode = X2_HandoverCancel then
       (if messageType = X2_SuccessfulOutcome then one_call (recv_HandoverCancel cellsInfo packet)
        else Some [])
     else Some [] }"

definition RecvFromX2uSocket :: "nat \<Rightarrow> bytes \<Rightarrow> x2 \<Rightarrow> x2_message list option" where
  "RecvFromX2uSocket sock packet s = do {
     let cellsInfo = x2_interfaceCellIds s sock;
     (teid, packet) \<leftarrow> gtpu_decap packet;
     source \<leftarrow> x2_remote0 cellsInfo;
     target \<leftarrow> x2_local0 cellsInfo;
     Some [XUeData \<lparr>hd_sourceCellId = source, hd_targetCellId = target, hd_gtpTeid = teid,
                    hd_ueData = packet\<rparr>] }"

end
