(* ===== verification/EpcX2Link.thy ===== *)
theory EpcX2Link
  imports EpcX2
begin

text \<open>
  Two X2 entities and the datagrams between them: what the user of the receiving entity is told of a
  message that the sending entity was given. The interfaces are those that \<^verbatim>\<open>AddX2Interface\<close> sets up,
  for an eNB with any number of neighbours.
\<close>

section \<open>Configuration and delivery\<close>

text \<open>The arguments of the calls of \<^verbatim>\<open>AddX2Interface\<close>: local cell, local address, remote cells and address.\<close>

type_synonym x2_neighbour = "u16 \<times> ipv4 \<times> u16 list \<times> ipv4"

definition nb_addr :: "x2_neighbour \<Rightarrow> ipv4" where
  "nb_addr n = fst (snd n)"

definition nb_remotes :: "x2_neighbour \<Rightarrow> u16 list" where
  "nb_remotes n = fst (snd (snd n))"

lemma nb_simps [simp]:
  "nb_addr (cell, addr, remotes, peer) = addr" "nb_remotes (cell, addr, remotes, peer) = remotes"
  by (simp_all add: nb_addr_def nb_remotes_def)

fun x2_configure :: "x2_neighbour list \<Rightarrow> x2 \<Rightarrow> x2 option" where
  "x2_configure [] s = Some s"
| "x2_configure ((cell, addr, remotes, peer) # ns) s =
     do { s' \<leftarrow> x2_AddX2Interface cell addr remotes peer s; x2_configure ns s' }"

text \<open>
  UDP hands a datagram to the socket that is bound to its destination; with none it is dropped. Of a
  refused packet nothing arrives.
\<close>

definition x2_bound :: "x2 \<Rightarrow> ipv4 \<Rightarrow> u16 \<Rightarrow> nat option" where
  "x2_bound s a p = find (\<lambda>i. so_addr (x2_sockets s ! i) = a \<and> so_port (x2_sockets s ! i) = p)
     [0..<length (x2_sockets s)]"

definition x2_arrive :: "x2_env \<Rightarrow> x2_datagram \<Rightarrow> x2 \<Rightarrow> x2_message list option" where
  "x2_arrive v d s =
     (case d of X2Refused \<Rightarrow> Some [] | X2SendTo _ a p packet \<Rightarrow>
        (case x2_bound s a p of
           None \<Rightarrow> Some []
         | Some i \<Rightarrow> (case so_recv (x2_sockets s ! i) of
               RecvFromX2cSocket_callback \<Rightarrow> RecvFromX2cSocket v i packet s
             | RecvFromX2uSocket_callback \<Rightarrow> RecvFromX2uSocket i packet s)))"

section \<open>What the interfaces hold\<close>

definition x2_sends_to :: "x2 \<Rightarrow> u16 \<Rightarrow> ipv4 \<Rightarrow> bool" where
  "x2_sends_to s cell peer \<longleftrightarrow>
     (\<exists>f. x2_interfaceSockets s cell = Some f \<and> xf_remoteIpAddr f = peer)"

definition x2_listens :: "x2 \<Rightarrow> ipv4 \<Rightarrow> u16 \<Rightarrow> u16 list \<Rightarrow> bool" where
  "x2_listens s addr cell remotes \<longleftrightarrow>
     (\<exists>i j. x2_bound s addr x2cUdpPort = Some i \<and>
        so_recv (x2_sockets s ! i) = RecvFromX2cSocket_callback \<and>
        x2_bound s addr x2uUdpPort = Some j \<and>
        so_recv (x2_sockets s ! j) = RecvFromX2uSocket_callback \<and>
        x2_interfaceCellIds s i = Some \<lparr>xc_localCellIds = [cell], xc_remoteCellIds = remotes\<rparr> \<and>
        x2_interfaceCellIds s j = Some \<lparr>xc_localCellIds = [cell], xc_remoteCellIds = remotes\<rparr>)"

lemma fold_upd:
  "fold (\<lambda>c m. m(c \<mapsto> f)) cs m c' = (if c' \<in> set cs then Some f else m c')"
  by (induction cs arbitrary: m) auto

lemma find_append: "find P (xs @ ys) = (case find P xs of None \<Rightarrow> find P ys | Some x \<Rightarrow> Some x)"
  by (induction xs) auto

lemma x2_bound_less: "x2_bound s a p = Some i \<Longrightarrow> i < length (x2_sockets s)"
  by (auto simp: x2_bound_def find_Some_iff)

text \<open>Sockets that are created later do not take over an address.\<close>

lemma x2_bound_append:
  "x2_bound (s\<lparr>x2_sockets := x2_sockets s @ xs\<rparr>) a p =
     (case x2_bound s a p of
        Some i \<Rightarrow> Some i
      | None \<Rightarrow> find (\<lambda>i. so_addr (xs ! (i - length (x2_sockets s))) = a \<and>
            so_port (xs ! (i - length (x2_sockets s))) = p)
          [length (x2_sockets s)..<length (x2_sockets s) + length xs])"
proof -
  let ?n = "length (x2_sockets s)"
  let ?P = "\<lambda>i. so_addr ((x2_sockets s @ xs) ! i) = a \<and> so_port ((x2_sockets s @ xs) ! i) = p"
  have "[0..<?n + length xs] = [0..<?n] @ [?n..<?n + length xs]"
    using upt_add_eq_append [of 0 ?n "length xs"] by simp
  moreover have "find ?P [0..<?n] = x2_bound s a p"
    unfolding x2_bound_def by (rule find_cong) (auto simp: nth_append)
  moreover have "find ?P [?n..<?n + length xs] =
      find (\<lambda>i. so_addr (xs ! (i - ?n)) = a \<and> so_port (xs ! (i - ?n)) = p) [?n..<?n + length xs]"
    by (rule find_cong) (auto simp: nth_append)
  ultimately show ?thesis
    by (simp add: x2_bound_def find_append split: option.split)
qed

definition x2_added :: "x2_neighbour \<Rightarrow> x2 \<Rightarrow> x2 \<Rightarrow> bool" where
  "x2_added n s s' \<longleftrightarrow>
     (case n of (cell, addr, remotes, peer) \<Rightarrow> x2_AddX2Interface cell addr remotes peer s = Some s')"

lemma x2_added_sends:
  assumes "x2_added (cell, addr, remotes, peer) s s'"
  shows "c \<in> set remotes \<Longrightarrow> x2_sends_to s' c peer"
    and "c \<notin> set remotes \<Longrightarrow> x2_sends_to s' c p = x2_sends_to s c p"
  using assms
  by (auto simp: x2_added_def x2_AddX2Interface_def x2_sends_to_def Let_def fold_upd
      split: if_splits)

lemma x2_added_bound:
  assumes "x2_added (cell, addr, remotes, peer) s s'"
  shows "x2_bound s a p = Some i \<Longrightarrow>
      x2_bound s' a p = Some i \<and> x2_sockets s' ! i = x2_sockets s ! i"
    and "x2_bound s a p = None \<Longrightarrow> a \<noteq> addr \<Longrightarrow> x2_bound s' a p = None"
    and "i < length (x2_sockets s) \<Longrightarrow> x2_interfaceCellIds s' i = x2_interfaceCellIds s i"
proof -
  define xs where "xs =
    [\<lparr>so_addr = addr, so_port = x2cUdpPort, so_recv = RecvFromX2cSocket_callback\<rparr>,
     \<lparr>so_addr = addr, so_port = x2uUdpPort, so_recv = RecvFromX2uSocket_callback\<rparr>]"
  have s': "x2_sockets s' = x2_sockets s @ xs"
    and cells: "i < length (x2_sockets s) \<Longrightarrow> x2_interfaceCellIds s' i = x2_interfaceCellIds s i" for i
    using assms
    by (auto simp: x2_added_def x2_AddX2Interface_def Let_def xs_def split: if_splits)
  have eq: "x2_bound s' a p = x2_bound (s\<lparr>x2_sockets := x2_sockets s @ xs\<rparr>) a p"
    by (simp add: x2_bound_def s')
  show "x2_bound s a p = Some i \<Longrightarrow>
      x2_bound s' a p = Some i \<and> x2_sockets s' ! i = x2_sockets s ! i"
    using x2_bound_less [of s a p i] by (simp add: eq x2_bound_append s' nth_append)
  show "x2_bound s a p = None \<Longrightarrow> a \<noteq> addr \<Longrightarrow> x2_bound s' a p = None"
    by (simp add: eq x2_bound_append xs_def)
  show "i < length (x2_sockets s) \<Longrightarrow> x2_interfaceCellIds s' i = x2_interfaceCellIds s i"
    by (rule cells)
qed

lemma x2_added_listens:
  assumes "x2_added (cell, addr, remotes, peer) s s'" and "\<And>p. x2_bound s addr p = None"
  shows "x2_listens s' addr cell remotes"
proof -
  let ?n = "length (x2_sockets s)"
  define xs where "xs =
    [\<lparr>so_addr = addr, so_port = x2cUdpPort, so_recv = RecvFromX2cSocket_callback\<rparr>,
     \<lparr>so_addr = addr, so_port = x2uUdpPort, so_recv = RecvFromX2uSocket_callback\<rparr>]"
  have s': "x2_sockets s' = x2_sockets s @ xs"
    and cells: "x2_interfaceCellIds s' ?n = Some \<lparr>xc_localCellIds = [cell], xc_remoteCellIds = remotes\<rparr>"
      "x2_interfaceCellIds s' (Suc ?n) = Some \<lparr>xc_localCellIds = [cell], xc_remoteCellIds = remotes\<rparr>"
    using assms(1)
    by (auto simp: x2_added_def x2_AddX2Interface_def Let_def xs_def split: if_splits)
  have eq: "x2_bound s' a p = x2_bound (s\<lparr>x2_sockets := x2_sockets s @ xs\<rparr>) a p" for a p
    by (simp add: x2_bound_def s')
  have "x2_bound s' addr x2cUdpPort = Some ?n" "x2_bound s' addr x2uUdpPort = Some (Suc ?n)"
    by (simp_all add: eq x2_bound_append assms(2) xs_def x2cUdpPort_def
        x2uUdpPort_def)
  with cells show ?thesis
    unfolding x2_listens_def s'
    by (intro exI [of _ ?n] exI [of _ "Suc ?n"]) (simp add: nth_append xs_def)
qed

lemma x2_added_keeps_listening:
  assumes "x2_added n s s'" and "x2_listens s addr cell remotes"
  shows "x2_listens s' addr cell remotes"
proof -
  obtain c a r p where n: "n = (c, a, r, p)"
    by (cases n) auto
  from assms(2) obtain i j where ij: "x2_bound s addr x2cUdpPort = Some i"
      "so_recv (x2_sockets s ! i) = RecvFromX2cSocket_callback" "x2_bound s addr x2uUdpPort = Some j"
      "so_recv (x2_sockets s ! j) = RecvFromX2uSocket_callback"
      "x2_interfaceCellIds s i = Some \<lparr>xc_localCellIds = [cell], xc_remoteCellIds = remotes\<rparr>"
      "x2_interfaceCellIds s j = Some \<lparr>xc_localCellIds = [cell], xc_remoteCellIds = remotes\<rparr>"
    by (auto simp: x2_listens_def)
  note b = x2_added_bound [OF assms(1) [unfolded n]]
  show ?thesis
    unfolding x2_listens_def
    using ij b(1) [OF ij(1)] b(1) [OF ij(3)] b(3) [OF x2_bound_less [OF ij(1)]]
      b(3) [OF x2_bound_less [OF ij(3)]]
    by (intro exI [of _ i] exI [of _ j]) simp
qed

lemma x2_configure_Cons:
  "x2_configure (n # ns) s = Some t \<longleftrightarrow> (\<exists>s'. x2_added n s s' \<and> x2_configure ns s' = Some t)"
  by (cases n) (auto simp: x2_added_def split: Option.bind_splits)

text \<open>The sender: an interface stays as long as no other one is set up for the same cell.\<close>

lemma x2_configure_sends_keep:
  assumes "x2_configure ns s = Some t" and "c \<notin> set (concat (map nb_remotes ns))"
    and "x2_sends_to s c p"
  shows "x2_sends_to t c p"
  using assms
proof (induction ns arbitrary: s)
  case Nil
  then show ?case by simp
next
  case (Cons n ns)
  obtain s' where s': "x2_added n s s'" "x2_configure ns s' = Some t"
    using Cons.prems(1) by (auto simp: x2_configure_Cons)
  obtain cell a r q where n: "n = (cell, a, r, q)"
    by (cases n) auto
  have "x2_sends_to s' c p"
    using x2_added_sends(2) [OF s'(1) [unfolded n], of c p] Cons.prems n by simp
  then show ?case
    using Cons.IH [OF s'(2)] Cons.prems(2) by simp
qed

lemma x2_configure_sends:
  assumes "x2_configure ns s = Some t" and "distinct (concat (map nb_remotes ns))"
    and "(cell, addr, remotes, peer) \<in> set ns" and "c \<in> set remotes"
  shows "x2_sends_to t c peer"
  using assms
proof (induction ns arbitrary: s)
  case Nil
  then show ?case by simp
next
  case (Cons n ns)
  obtain s' where s': "x2_added n s s'" "x2_configure ns s' = Some t"
    using Cons.prems(1) by (auto simp: x2_configure_Cons)
  show ?case
  proof (cases "n = (cell, addr, remotes, peer)")
    case True
    have "x2_sends_to s' c peer"
      using x2_added_sends(1) [OF s'(1) [unfolded True] Cons.prems(4)] .
    moreover have "c \<notin> set (concat (map nb_remotes ns))"
      using Cons.prems(2,4) True by auto
    ultimately show ?thesis
      using x2_configure_sends_keep [OF s'(2)] by blast
  next
    case False
    then show ?thesis
      using Cons.IH [OF s'(2)] Cons.prems by simp
  qed
qed

text \<open>The receiver: the addresses of its interfaces differ.\<close>

lemma x2_configure_listens_keep:
  "x2_configure ns s = Some t \<Longrightarrow> x2_listens s addr cell remotes \<Longrightarrow> x2_listens t addr cell remotes"
proof (induction ns arbitrary: s)
  case Nil
  then show ?case by simp
next
  case (Cons n ns)
  then show ?case
    using x2_added_keeps_listening [of n s] by (auto simp: x2_configure_Cons)
qed

lemma x2_configure_listens:
  assumes "x2_configure ns s = Some t" and "distinct (map nb_addr ns)"
    and "(cell, addr, remotes, peer) \<in> set ns"
    and "\<And>a p. a \<in> set (map nb_addr ns) \<Longrightarrow> x2_bound s a p = None"
  shows "x2_listens t addr cell remotes"
  using assms
proof (induction ns arbitrary: s)
  case Nil
  then show ?case by simp
next
  case (Cons n ns)
  obtain s' where s': "x2_added n s s'" "x2_configure ns s' = Some t"
    using Cons.prems(1) by (auto simp: x2_configure_Cons)
  show ?case
  proof (cases "n = (cell, addr, remotes, peer)")
    case True
    have "x2_listens s' addr cell remotes"
      using s'(1) Cons.prems(4) by (intro x2_added_listens) (auto simp: True)
    then show ?thesis
      using x2_configure_listens_keep [OF s'(2)] by blast
  next
    case False
    obtain c a r q where n: "n = (c, a, r, q)"
      by (cases n) auto
    have "x2_bound s' b p = None" if "b \<in> set (map nb_addr ns)" for b p
      using that Cons.prems(2,4) x2_added_bound(2) [OF s'(1) [unfolded n], of b p] n by auto
    then show ?thesis
      using Cons.IH [OF s'(2)] Cons.prems False by auto
  qed
qed

section \<open>Messages from user to user\<close>

text \<open>The cell by which the interface of a message is looked up.\<close>

fun x2_lookup_cell :: "x2_message \<Rightarrow> u16" where
  "x2_lookup_cell (XHandoverRequest p) = hq_targetCellId p"
| "x2_lookup_cell (XHandoverRequestAck p) = hk_sourceCellId p"
| "x2_lookup_cell (XHandoverPreparationFailure p) = hf_sourceCellId p"
| "x2_lookup_cell (XSnStatusTransfer p) = hs_targetCellId p"
| "x2_lookup_cell (XUeContextRelease p) = hu_sourceCellId p"
| "x2_lookup_cell (XLoadInformation p) = hl_targetCellId p"
| "x2_lookup_cell (XResourceStatusUpdate p) = hm_targetCellId p"
| "x2_lookup_cell (XUeData p) = hd_targetCellId p"
| "x2_lookup_cell (XHandoverCancel p) = hc_targetCellId p"

text \<open>The counts that fit their fields.\<close>

fun x2_fits :: "x2_env \<Rightarrow> x2_message \<Rightarrow> bool" where
  "x2_fits v (XHandoverRequest p) \<longleftrightarrow> length (hq_bearers p) < 2 ^ 26"
| "x2_fits v (XHandoverRequestAck p) \<longleftrightarrow>
     length (hk_admitted p) < 2 ^ 26 \<and> length (hk_notAdmitted p) < 2 ^ 26"
| "x2_fits v (XSnStatusTransfer p) \<longleftrightarrow> length (hs_erabs p) < 2 ^ 16"
| "x2_fits v (XLoadInformation p) \<longleftrightarrow>
     length (hl_cells p) < 2 ^ 16 \<and> list_all cell_ok (hl_cells p) \<and>
     8 + sum_list (map cell_size (hl_cells p)) < 2 ^ 32 \<and> length (xv_stale v) = 2"
| "x2_fits v (XResourceStatusUpdate p) \<longleftrightarrow> length (hm_results p) < 2 ^ 16"
| "x2_fits v _ \<longleftrightarrow> True"

text \<open>What the receiving user sees at an interface with the given local and remote cells.\<close>

fun x2_seen :: "x2_env \<Rightarrow> u16 \<Rightarrow> u16 \<Rightarrow> x2_message \<Rightarrow> x2_message" where
  "x2_seen v loc rem (XHandoverRequest p) = XHandoverRequest (p
     \<lparr>hq_cause := hq_cause p AND 0xff, hq_sourceCellId := rem,
      hq_bearers := map erab_copy (hq_bearers p),
      hq_rrcContext := Some (rrc_packet (hq_rrcContext p))\<rparr>)"
| "x2_seen v loc rem (XHandoverRequestAck p) = XHandoverRequestAck (p
     \<lparr>hk_sourceCellId := loc, hk_targetCellId := rem,
      hk_rrcContext := Some (rrc_packet (hk_rrcContext p))\<rparr>)"
| "x2_seen v loc rem (XHandoverPreparationFailure p) = XHandoverPreparationFailure (p
     \<lparr>hf_sourceCellId := loc, hf_targetCellId := rem\<rparr>)"
| "x2_seen v loc rem (XSnStatusTransfer p) = XSnStatusTransfer (p
     \<lparr>hs_sourceCellId := rem, hs_targetCellId := loc,
      hs_erabs := map (status_seen (xv_shl v)) (hs_erabs p)\<rparr>)"
| "x2_seen v loc rem (XUeContextRelease p) = XUeContextRelease (p
     \<lparr>hu_sourceCellId := xv_sourceCellId v, hu_targetCellId := xv_targetCellId v\<rparr>)"
| "x2_seen v loc rem (XLoadInformation p) = XLoadInformation (p\<lparr>hl_targetCellId := 0xffff\<rparr>)"
| "x2_seen v loc rem (XResourceStatusUpdate p) = XResourceStatusUpdate (p\<lparr>hm_targetCellId := 0\<rparr>)"
| "x2_seen v loc rem (XUeData p) = XUeData (p\<lparr>hd_sourceCellId := rem, hd_targetCellId := loc\<rparr>)"
| "x2_seen v loc rem (XHandoverCancel p) = XHandoverCancel (p
     \<lparr>hc_sourceCellId := loc, hc_targetCellId := rem\<rparr>)"

text \<open>
  The bytes of the UDP packet that carries a message: the common header of 7 bytes or the GTP-U header
  of 12, the header of the message and what follows it.
\<close>

fun x2_wire_bytes :: "x2_message \<Rightarrow> nat" where
  "x2_wire_bytes (XHandoverRequest p) =
     57 + 48 * length (hq_bearers p) + length (rrc_packet (hq_rrcContext p))"
| "x2_wire_bytes (XHandoverRequestAck p) =
     19 + 10 * length (hk_admitted p) + 4 * length (hk_notAdmitted p) + length (rrc_packet (hk_rrcContext p))"
| "x2_wire_bytes (XHandoverPreparationFailure p) = 13"
| "x2_wire_bytes (XSnStatusTransfer p) = 13 + 526 * length (hs_erabs p)"
| "x2_wire_bytes (XUeContextRelease p) = 11"
| "x2_wire_bytes (XLoadInformation p) = 15 + sum_list (map cell_size (hl_cells p))"
| "x2_wire_bytes (XResourceStatusUpdate p) = 13 + 26 * length (hm_results p)"
| "x2_wire_bytes (XUeData p) = 12 + length (hd_ueData p)"
| "x2_wire_bytes (XHandoverCancel p) = 13"

text \<open>A packet with the common header is dispatched by its procedure and message type.\<close>

lemmas x2_codes = X2_HandoverPreparation_def X2_LoadIndication_def X2_SnStatusTransfer_def
  X2_UeContextRelease_def X2_ResourceStatusReporting_def X2_HandoverCancel_def
  X2_InitiatingMessage_def X2_SuccessfulOutcome_def X2_UnsuccessfulOutcome_def

lemma x2_send_ctrl_Some:
  assumes "x2_sends_to s cell peer"
  shows "\<exists>i q. x2_send_ctrl cell h (Some p) s = Some (udp_SendTo i peer x2cUdpPort q) \<and>
    length q = 7 + length p \<and> (\<exists>h'. RemoveHeader x2h_Deserialize q = Some (h', p) \<and> x2h_view h' = x2h_view h)"
proof -
  obtain f where f: "x2_interfaceSockets s cell = Some f" "xf_remoteIpAddr f = peer"
    using assms by (auto simp: x2_sends_to_def)
  obtain b where b: "AddHeader x2h_GetSerializedSize (\<lambda>h. Some (x2h_Serialize h)) h p = Some (b @ p)"
    "length b = 7"
    using x2h.AddHeader_Some [of h p] by (auto simp: x2h_GetSerializedSize_def)
  have "\<exists>h'. RemoveHeader x2h_Deserialize (b @ p) = Some (h', p) \<and> x2h_view h' = x2h_view h"
    using x2h.RemoveHeader_AddHeader [OF TrueI b(1)] .
  with f b show ?thesis
    by (intro exI [of _ "xf_localCtrlPlaneSocket f"] exI [of _ "b @ p"]) (simp add: x2_send_ctrl_def)
qed

lemma x2_arrive_ctrl:
  assumes "x2_listens s addr loc remotes"
  shows "\<exists>sock. x2_arrive v (X2SendTo i addr x2cUdpPort q) s = RecvFromX2cSocket v sock q s \<and>
    x2_interfaceCellIds s sock = Some \<lparr>xc_localCellIds = [loc], xc_remoteCellIds = remotes\<rparr>"
  using assms by (auto simp: x2_listens_def x2_arrive_def)

text \<open>
  A control plane message from sender to receiver: it suffices that the packet with the message
  header is read back by the branch for its codes.
\<close>

definition x2_branch :: "x2_env \<Rightarrow> x2_cells option \<Rightarrow> u8 \<Rightarrow> u8 \<Rightarrow> bytes \<Rightarrow> x2_message list option" where
  "x2_branch v cells t c p =
     (if c = X2_HandoverPreparation then
        (if t = X2_InitiatingMessage then one_call (recv_HandoverRequest cells p)
         else if t = X2_SuccessfulOutcome then one_call (recv_HandoverRequestAck cells p)
         else one_call (recv_HandoverPreparationFailure cells p))
      else if c = X2_LoadIndication then
        (if t = X2_InitiatingMessage then one_call (recv_LoadInformation p) else Some [])
      else if c = X2_SnStatusTransfer then
        (if t = X2_InitiatingMessage then one_call (recv_SnStatusTransfer cells p) else Some [])
      else if c = X2_UeContextRelease then
        (if t = X2_InitiatingMessage then one_call (recv_UeContextRelease v p) else Some [])
      else if c = X2_ResourceStatusReporting then
        (if t = X2_InitiatingMessage then one_call (recv_ResourceStatusUpdate p) else Some [])
      else if c = X2_HandoverCancel then
        (if t = X2_SuccessfulOutcome then one_call (recv_HandoverCancel cells p) else Some [])
      else Some [])"

lemma x2_ctrl_transfer:
  assumes "x2_sends_to s cell addr" and "x2_listens s' addr loc remotes"
    and "packet = Some p"
    and "x2_branch v (Some \<lparr>xc_localCellIds = [loc], xc_remoteCellIds = remotes\<rparr>) t c p = r"
  shows "\<exists>d. x2_send_ctrl cell (x2_header_for t c l n) packet s = Some d \<and>
    x2_arrive v d s' = (if 7 + length p \<le> 65507 then r else Some [])"
proof -
  obtain i q h' where q: "x2_send_ctrl cell (x2_header_for t c l n) (Some p) s
      = Some (udp_SendTo i addr x2cUdpPort q)" "length q = 7 + length p"
    "RemoveHeader x2h_Deserialize q = Some (h', p)"
    "x2h_view h' = x2h_view (x2_header_for t c l n)"
    using x2_send_ctrl_Some [OF assms(1)] by blast
  obtain sock where sock: "x2_arrive v (X2SendTo i addr x2cUdpPort q) s' = RecvFromX2cSocket v sock q s'"
    "x2_interfaceCellIds s' sock = Some \<lparr>xc_localCellIds = [loc], xc_remoteCellIds = remotes\<rparr>"
    using x2_arrive_ctrl [OF assms(2)] by blast
  have "x2h_messageType h' = t" "x2h_procedureCode h' = c"
    using q(4) by (auto simp: x2h_view_def x2_header_for_def x2h_SetNumberOfIes_def
        x2h_SetLengthOfIes_def x2h_SetProcedureCode_def x2h_SetMessageType_def)
  then have "RecvFromX2cSocket v sock q s' = r"
    using assms(4) sock(2)
    by (simp add: RecvFromX2cSocket_def q(3) Let_def x2_branch_def cong: if_cong)
  moreover have "x2_arrive v X2Refused s' = Some []"
    by (simp add: x2_arrive_def)
  ultimately show ?thesis
    using q(1,2) sock(1) assms(3) by (simp add: udp_SendTo_def MAX_IPV4_UDP_DATAGRAM_SIZE_def)
qed

text \<open>A header is added to a packet and taken off again.\<close>

context header_codec
begin

lemma there_and_back:
  assumes "hwf h"
  obtains q h' where "AddHeader hsize ser h p = Some q" and "RemoveHeader des q = Some (h', p)"
    and "view h' = view h"
  using AddHeader_Some [OF assms, of p] RemoveHeader_AddHeader [OF assms] by blast

end

lemmas x2_of_defs = x2q_of_def x2q_SetBearers_def x2q_init_def x2a_of_def x2a_SetAdmittedBearers_def
  x2a_SetNotAdmittedBearers_def x2a_init_def x2f_of_def x2f_init_def x2s_of_def x2s_SetErabs_def
  x2s_init_def x2u_of_def x2u_init_def x2l_SetCellInformationList_def x2l_init_def x2m_of_def
  x2m_SetResults_def x2m_init_def x2c_of_def x2c_init_def

lemma x2_of_wf:
  "length (hq_bearers q) < 2 ^ 26 \<Longrightarrow> x2q_hwf (x2q_of q)"
  "length (hk_admitted a) < 2 ^ 26 \<Longrightarrow> length (hk_notAdmitted a) < 2 ^ 26 \<Longrightarrow> x2a_hwf (x2a_of a)"
  "x2f_hwf (x2f_of f)"
  "length (hs_erabs e) < 2 ^ 16 \<Longrightarrow> x2s_hwf (x2s_of e)"
  "x2u_hwf (x2u_of u)"
  "length (hm_results m) < 2 ^ 16 \<Longrightarrow> x2m_hwf (x2m_of m)"
  "x2c_hwf (x2c_of c)"
  by (simp_all add: x2_of_defs x2q_hwf_def x2a_hwf_def x2f_hwf_def x2s_hwf_def x2u_hwf_def
      x2m_hwf_def x2c_hwf_def list_all_iff erab_copy_def x2_maxPdcpSn_def)

lemma x2l_of_wf:
  "length cs < 2 ^ 16 \<Longrightarrow> list_all cell_ok cs \<Longrightarrow> 8 + sum_list (map cell_size cs) < 2 ^ 32 \<Longrightarrow>
     x2l_hwf (x2l_SetCellInformationList cs x2l_init)"
  by (simp add: x2_of_defs x2l_hwf_def loop_items_all)

lemma erab_copy_copy: "erab_copy (erab_copy e) = erab_copy e"
  by (simp add: erab_copy_def)

lemma x2q_cause_read:
  "RemoveHeader x2q_Deserialize q = Some (h, p) \<Longrightarrow> x2q_cause h AND 0xff = x2q_cause h"
proof -
  have "ucast (c :: u8) AND (0xff :: u16) = ucast c" for c
    using cause_byte [of "ucast c"] by simp
  then show "RemoveHeader x2q_Deserialize q = Some (h, p) \<Longrightarrow> x2q_cause h AND 0xff = x2q_cause h"
    by (auto simp: RemoveHeader_def x2q_Deserialize_def Let_def split: Option.bind_splits option.splits)
qed

text \<open>Each message on its own.\<close>

lemma x2_transfer_request:
  assumes "x2_sends_to s (hq_targetCellId p) addr" and "x2_listens s' addr loc (rem # rems)"
    and "length (hq_bearers p) < 2 ^ 26"
  shows "\<exists>d. DoSendHandoverRequest p s = Some d \<and>
    x2_arrive v d s' = Some (if x2_wire_bytes (XHandoverRequest p) \<le> 65507 then [x2_seen v loc rem (XHandoverRequest p)] else [])"
proof -
  obtain q h' where q: "AddHeader x2q_GetSerializedSize (\<lambda>h. Some (x2q_Serialize h)) (x2q_of p)
      (rrc_packet (hq_rrcContext p)) = Some q"
    "RemoveHeader x2q_Deserialize q = Some (h', rrc_packet (hq_rrcContext p))"
    "x2q_view h' = x2q_view (x2q_of p)"
    by (rule x2q.there_and_back [OF x2_of_wf(1) [OF assms(3)]])
  have "h' = x2q_view (x2q_of p)"
    using q(3) x2q_cause_read [OF q(2)] by (cases h') (simp add: x2q_view_def)
  then have "x2_branch v (Some \<lparr>xc_localCellIds = [loc], xc_remoteCellIds = rem # rems\<rparr>)
      X2_InitiatingMessage X2_HandoverPreparation q
    = Some [x2_seen v loc rem (XHandoverRequest p)]"
    by (simp add: x2_branch_def recv_HandoverRequest_def q(2) x2_remote0_def one_call_def x2q_view_def
        x2_of_defs erab_copy_copy comp_def)
  moreover have "length q = x2_wire_bytes (XHandoverRequest p) - 7"
    using x2q.AddHeader_length [OF x2_of_wf(1) [OF assms(3)] q(1)] assms(3)
    by (simp add: x2q_GetSerializedSize_def x2_of_defs header_words)
  ultimately show ?thesis
    using x2_ctrl_transfer [OF assms(1,2) q(1), of v] by (auto simp: DoSendHandoverRequest_def Let_def)
qed

lemma x2_transfer_ack:
  assumes "x2_sends_to s (hk_sourceCellId p) addr" and "x2_listens s' addr loc (rem # rems)"
    and "length (hk_admitted p) < 2 ^ 26" and "length (hk_notAdmitted p) < 2 ^ 26"
  shows "\<exists>d. DoSendHandoverRequestAck p s = Some d \<and>
    x2_arrive v d s' = Some (if x2_wire_bytes (XHandoverRequestAck p) \<le> 65507 then [x2_seen v loc rem (XHandoverRequestAck p)] else [])"
proof -
  obtain q h' where q: "AddHeader x2a_GetSerializedSize (\<lambda>h. Some (x2a_Serialize h)) (x2a_of p)
      (rrc_packet (hk_rrcContext p)) = Some q"
    "RemoveHeader x2a_Deserialize q = Some (h', rrc_packet (hk_rrcContext p))" "h' = x2a_of p"
    by (rule x2a.there_and_back [OF x2_of_wf(2) [OF assms(3,4)]])
  have "x2_branch v (Some \<lparr>xc_localCellIds = [loc], xc_remoteCellIds = rem # rems\<rparr>)
      X2_SuccessfulOutcome X2_HandoverPreparation q
    = Some [x2_seen v loc rem (XHandoverRequestAck p)]"
    using q(3)
    by (simp add: x2_branch_def recv_HandoverRequestAck_def q(2) x2_remote0_def x2_local0_def
        one_call_def x2_of_defs x2_codes)
  moreover have "length q = x2_wire_bytes (XHandoverRequestAck p) - 7"
    using x2a.AddHeader_length [OF x2_of_wf(2) [OF assms(3,4)] q(1)] assms(3,4)
    by (simp add: x2a_GetSerializedSize_def x2_of_defs ack_words)
  ultimately show ?thesis
    using x2_ctrl_transfer [OF assms(1,2) q(1), of v] by (auto simp: DoSendHandoverRequestAck_def Let_def)
qed

lemma x2_transfer_failure:
  assumes "x2_sends_to s (hf_sourceCellId p) addr" and "x2_listens s' addr loc (rem # rems)"
  shows "\<exists>d. DoSendHandoverPreparationFailure p s = Some d \<and>
    x2_arrive v d s' = Some (if x2_wire_bytes (XHandoverPreparationFailure p) \<le> 65507 then [x2_seen v loc rem (XHandoverPreparationFailure p)] else [])"
proof -
  obtain q h' where q: "AddHeader x2f_GetSerializedSize (\<lambda>h. Some (x2f_Serialize h)) (x2f_of p) []
      = Some q"
    "RemoveHeader x2f_Deserialize q = Some (h', [])" "h' = x2f_of p"
    by (rule x2f.there_and_back [OF x2_of_wf(3)])
  have "x2_branch v (Some \<lparr>xc_localCellIds = [loc], xc_remoteCellIds = rem # rems\<rparr>)
      X2_UnsuccessfulOutcome X2_HandoverPreparation q
    = Some [x2_seen v loc rem (XHandoverPreparationFailure p)]"
    using q(3)
    by (simp add: x2_branch_def recv_HandoverPreparationFailure_def q(2) x2_remote0_def x2_local0_def
        one_call_def x2_of_defs x2_codes)
  moreover have "length q = x2_wire_bytes (XHandoverPreparationFailure p) - 7"
    using x2f.AddHeader_length [OF x2_of_wf(3) q(1)]
    by (simp add: x2f_GetSerializedSize_def x2_of_defs )
  ultimately show ?thesis
    using x2_ctrl_transfer [OF assms(1,2) q(1), of v] by (auto simp: DoSendHandoverPreparationFailure_def Let_def)
qed

text \<open>What the receiver does not take off the packet of an SN status transfer it does not look at.\<close>

lemma x2_transfer_sn_status:
  assumes "x2_sends_to s (hs_targetCellId p) addr" and "x2_listens s' addr loc (rem # rems)"
    and "length (hs_erabs p) < 2 ^ 16"
  shows "\<exists>d. DoSendSnStatusTransfer v p s = Some d \<and>
    x2_arrive v d s' = Some (if x2_wire_bytes (XSnStatusTransfer p) \<le> 65507 then [x2_seen v loc rem (XSnStatusTransfer p)] else [])"
proof -
  note wf = x2_of_wf(4) [OF assms(3)]
  let ?q = "x2s_Serialize (xv_shl v) (x2s_of p)"
  have q: "AddHeader x2s_GetSerializedSize (\<lambda>h. Some (x2s_Serialize (xv_shl v) h)) (x2s_of p) []
      = Some ?q"
    by (simp add: AddHeader_def x2s_Serialize_size [OF wf])
  have "x2_branch v (Some \<lparr>xc_localCellIds = [loc], xc_remoteCellIds = rem # rems\<rparr>)
      X2_InitiatingMessage X2_SnStatusTransfer ?q
    = Some [x2_seen v loc rem (XSnStatusTransfer p)]"
    using x2s_Deserialize_Serialize [OF wf, of "xv_shl v" "[]"]
    by (simp add: x2_branch_def recv_SnStatusTransfer_def RemoveHeader_def x2_remote0_def
        x2_local0_def one_call_def x2_of_defs x2_codes)
  moreover have "length ?q = x2_wire_bytes (XSnStatusTransfer p) - 7"
    using x2s_Serialize_size [OF wf, of "xv_shl v"] assms(3)
    by (simp add: x2s_GetSerializedSize_def x2_of_defs x2_maxPdcpSn_def status_words)
  ultimately show ?thesis
    using x2_ctrl_transfer [OF assms(1,2) q, of v] by (auto simp: DoSendSnStatusTransfer_def Let_def)
qed

lemma x2_transfer_release:
  assumes "x2_sends_to s (hu_sourceCellId p) addr" and "x2_listens s' addr loc (rem # rems)"
  shows "\<exists>d. DoSendUeContextRelease p s = Some d \<and>
    x2_arrive v d s' = Some (if x2_wire_bytes (XUeContextRelease p) \<le> 65507 then [x2_seen v loc rem (XUeContextRelease p)] else [])"
proof -
  obtain q h' where q: "AddHeader x2u_GetSerializedSize (\<lambda>h. Some (x2u_Serialize h)) (x2u_of p) []
      = Some q"
    "RemoveHeader x2u_Deserialize q = Some (h', [])" "h' = x2u_of p"
    by (rule x2u.there_and_back [OF x2_of_wf(5)])
  have "x2_branch v (Some \<lparr>xc_localCellIds = [loc], xc_remoteCellIds = rem # rems\<rparr>)
      X2_InitiatingMessage X2_UeContextRelease q
    = Some [x2_seen v loc rem (XUeContextRelease p)]"
    using q(3)
    by (simp add: x2_branch_def recv_UeContextRelease_def q(2) one_call_def x2_of_defs x2_codes)
  moreover have "length q = x2_wire_bytes (XUeContextRelease p) - 7"
    using x2u.AddHeader_length [OF x2_of_wf(5) q(1)]
    by (simp add: x2u_GetSerializedSize_def x2_of_defs )
  ultimately show ?thesis
    using x2_ctrl_transfer [OF assms(1,2) q(1), of v] by (auto simp: DoSendUeContextRelease_def Let_def)
qed

text \<open>The two bytes behind the load information stay in the packet and are dropped with it.\<close>

lemma x2_transfer_load:
  assumes "x2_sends_to s (hl_targetCellId p) addr" and "x2_listens s' addr loc (rem # rems)"
    and "x2_fits v (XLoadInformation p)"
  shows "\<exists>d. DoSendLoadInformation v p s = Some d \<and>
    x2_arrive v d s' = Some (if x2_wire_bytes (XLoadInformation p) \<le> 65507 then [x2_seen v loc rem (XLoadInformation p)] else [])"
proof -
  let ?h = "x2l_SetCellInformationList (hl_cells p) x2l_init"
  have wf: "x2l_hwf ?h"
    using assms(3) by (intro x2l_of_wf) auto
  let ?q = "x2l_Serialize ?h @ xv_stale v"
  have q: "AddHeaderStale (xv_stale v) x2l_GetSerializedSize x2l_Serialize ?h [] = Some ?q"
    using assms(3) by (simp add: AddHeaderStale_def x2l_Serialize_size [OF wf])
  have "x2_branch v (Some \<lparr>xc_localCellIds = [loc], xc_remoteCellIds = rem # rems\<rparr>)
      X2_InitiatingMessage X2_LoadIndication ?q
    = Some [x2_seen v loc rem (XLoadInformation p)]"
    using x2l_Deserialize_Serialize [OF wf, of "xv_stale v"]
    by (simp add: x2_branch_def recv_LoadInformation_def RemoveHeader_def one_call_def x2_of_defs
        x2_codes)
  moreover have "length ?q = x2_wire_bytes (XLoadInformation p) - 7"
  proof -
    have "8 + sum_list (map cell_size (hl_cells p)) < 2 ^ 32"
      using assms(3) by simp
    then show ?thesis
      using x2l_Serialize_size [OF wf] assms(3) load_words(1) [of "hl_cells p"]
      by (simp add: x2l_GetSerializedSize_def x2_of_defs loop_items_all)
  qed
  ultimately show ?thesis
    using x2_ctrl_transfer [OF assms(1,2) q, of v] by (auto simp: DoSendLoadInformation_def Let_def)
qed

lemma x2_transfer_resource_status:
  assumes "x2_sends_to s (hm_targetCellId p) addr" and "x2_listens s' addr loc (rem # rems)"
    and "length (hm_results p) < 2 ^ 16"
  shows "\<exists>d. DoSendResourceStatusUpdate p s = Some d \<and>
    x2_arrive v d s' = Some (if x2_wire_bytes (XResourceStatusUpdate p) \<le> 65507 then [x2_seen v loc rem (XResourceStatusUpdate p)] else [])"
proof -
  obtain q h' where q: "AddHeader x2m_GetSerializedSize (\<lambda>h. Some (x2m_Serialize h)) (x2m_of p) []
      = Some q"
    "RemoveHeader x2m_Deserialize q = Some (h', [])" "h' = x2m_of p"
    by (rule x2m.there_and_back [OF x2_of_wf(6) [OF assms(3)]])
  have "x2_branch v (Some \<lparr>xc_localCellIds = [loc], xc_remoteCellIds = rem # rems\<rparr>)
      X2_InitiatingMessage X2_ResourceStatusReporting q
    = Some [x2_seen v loc rem (XResourceStatusUpdate p)]"
    using q(3)
    by (simp add: x2_branch_def recv_ResourceStatusUpdate_def q(2) one_call_def x2_of_defs x2_codes)
  moreover have "length q = x2_wire_bytes (XResourceStatusUpdate p) - 7"
    using x2m.AddHeader_length [OF x2_of_wf(6) [OF assms(3)] q(1)] assms(3)
    by (simp add: x2m_GetSerializedSize_def x2_of_defs measurement_words)
  ultimately show ?thesis
    using x2_ctrl_transfer [OF assms(1,2) q(1), of v] by (auto simp: DoSendResourceStatusUpdate_def Let_def)
qed

lemma x2_transfer_cancel:
  assumes "x2_sends_to s (hc_targetCellId p) addr" and "x2_listens s' addr loc (rem # rems)"
  shows "\<exists>d. DoSendHandoverCancel p s = Some d \<and>
    x2_arrive v d s' = Some (if x2_wire_bytes (XHandoverCancel p) \<le> 65507 then [x2_seen v loc rem (XHandoverCancel p)] else [])"
proof -
  obtain q h' where q: "AddHeader x2c_GetSerializedSize (\<lambda>h. Some (x2c_Serialize h)) (x2c_of p) []
      = Some q"
    "RemoveHeader x2c_Deserialize q = Some (h', [])" "h' = x2c_of p"
    by (rule x2c.there_and_back [OF x2_of_wf(7)])
  have "x2_branch v (Some \<lparr>xc_localCellIds = [loc], xc_remoteCellIds = rem # rems\<rparr>)
      X2_SuccessfulOutcome X2_HandoverCancel q
    = Some [x2_seen v loc rem (XHandoverCancel p)]"
    using q(3)
    by (simp add: x2_branch_def recv_HandoverCancel_def q(2) x2_remote0_def x2_local0_def
        one_call_def x2_of_defs x2_codes)
  moreover have "length q = x2_wire_bytes (XHandoverCancel p) - 7"
    using x2c.AddHeader_length [OF x2_of_wf(7) q(1)]
    by (simp add: x2c_GetSerializedSize_def x2_of_defs )
  ultimately show ?thesis
    using x2_ctrl_transfer [OF assms(1,2) q(1), of v] by (auto simp: DoSendHandoverCancel_def Let_def)
qed

lemma x2_transfer_data:
  assumes "x2_sends_to s (hd_targetCellId p) addr" and "x2_listens s' addr loc (rem # rems)"
  shows "\<exists>d. DoSendUeData p s = Some d \<and> x2_arrive v d s' = Some (if x2_wire_bytes (XUeData p) \<le> 65507 then [x2_seen v loc rem (XUeData p)] else [])"
proof -
  obtain q where "gtpu_encap (hd_gtpTeid p) (hd_ueData p) = Some q"
    "gtpu_decap q = Some (hd_gtpTeid p, hd_ueData p)"
    using gtpu_encap_Some by blast
  moreover from this(1) have "length q = 12 + length (hd_ueData p)"
    using gtpu.AddHeader_length [OF gtpu_for_hwf] by (simp add: gtpu_encap_def gtpu_GetSerializedSize_def)
  ultimately show ?thesis
    using assms
    by (auto simp: udp_SendTo_def MAX_IPV4_UDP_DATAGRAM_SIZE_def x2_sends_to_def x2_listens_def DoSendUeData_def x2_arrive_def
        RecvFromX2uSocket_def x2_remote0_def x2_local0_def)
qed

lemma x2_transfer:
  assumes "x2_sends_to s (x2_lookup_cell m) addr" and "x2_listens s' addr loc (rem # rems)"
    and "x2_fits v m"
  shows "\<exists>d. x2_send v m s = Some d \<and> x2_arrive v d s' = Some (if x2_wire_bytes m \<le> 65507 then [x2_seen v loc rem m] else [])"
proof (cases m)
  case (XHandoverRequest p)
  with assms show ?thesis
    using x2_transfer_request [where p = p and s = s and s' = s' and v = v]
    by (fastforce simp del: x2_seen.simps x2_wire_bytes.simps if_split)
next
  case (XHandoverRequestAck p)
  with assms show ?thesis
    using x2_transfer_ack [where p = p and s = s and s' = s' and v = v]
    by (fastforce simp del: x2_seen.simps x2_wire_bytes.simps if_split)
next
  case (XHandoverPreparationFailure p)
  with assms show ?thesis
    using x2_transfer_failure [where p = p and s = s and s' = s' and v = v]
    by (fastforce simp del: x2_seen.simps x2_wire_bytes.simps if_split)
next
  case (XSnStatusTransfer p)
  with assms show ?thesis
    using x2_transfer_sn_status [where p = p and s = s and s' = s' and v = v]
    by (fastforce simp del: x2_seen.simps x2_wire_bytes.simps if_split)
next
  case (XUeContextRelease p)
  with assms show ?thesis
    using x2_transfer_release [where p = p and s = s and s' = s' and v = v]
    by (fastforce simp del: x2_seen.simps x2_wire_bytes.simps if_split)
next
  case (XLoadInformation p)
  with assms show ?thesis
    using x2_transfer_load [where p = p and s = s and s' = s' and v = v]
    by (fastforce simp del: x2_seen.simps x2_wire_bytes.simps if_split)
next
  case (XResourceStatusUpdate p)
  with assms show ?thesis
    using x2_transfer_resource_status [where p = p and s = s and s' = s' and v = v]
    by (fastforce simp del: x2_seen.simps x2_wire_bytes.simps if_split)
next
  case (XUeData p)
  with assms show ?thesis
    using x2_transfer_data [where p = p and s = s and s' = s' and v = v]
    by (fastforce simp del: x2_seen.simps x2_wire_bytes.simps if_split)
next
  case (XHandoverCancel p)
  with assms show ?thesis
    using x2_transfer_cancel [where p = p and s = s and s' = s' and v = v]
    by (fastforce simp del: x2_seen.simps x2_wire_bytes.simps if_split)
qed

text \<open>The interfaces of a configuration have at least one remote cell.\<close>

lemma x2_configure_remotes:
  "x2_configure ns s = Some t \<Longrightarrow> (cell, addr, remotes, peer) \<in> set ns \<Longrightarrow> remotes \<noteq> []"
proof (induction ns arbitrary: s)
  case Nil
  then show ?case by simp
next
  case (Cons n ns)
  then show ?case
    by (auto simp: x2_configure_Cons x2_added_def x2_AddX2Interface_def split: if_splits)
qed

end
