(* ===== verification/X2Props.thy ===== *)
theory X2Props
  imports EpcX2Link
begin

text \<open>The property of the X2 entities: what one eNB hands over, the entity of its neighbour passes on.\<close>

text \<open>C18: eNB A was configured with the neighbours as and eNB B with bs, by any number of calls of AddX2Interface; one
  interface of A leads to the address on which one interface of B listens, no remote cell of A is listed twice and
  the addresses of B differ. Then each of the nine X2 messages that A's user sends for a cell behind that interface is
  put into one datagram if the packet has at most 65507 bytes, which x2_wire_bytes counts (a longer one is refused by
  the UDP socket and lost without an error), and B's entity tells its user exactly that message and nothing else, for any contents whose
  counts fit their fields: the X2AP ids, bearers, TEIDs, RRC containers, cells and data arrive unchanged, while the
  cell ids are those of the interface, the cause keeps its lower byte, the allocation and retention priority of a
  bearer is reset, and the bitmap of an SN status is what is left of it after the shifts (x2_seen).\<close>

theorem x2_messages_delivered:
  assumes "x2_configure as x2_init = Some A" and "x2_configure bs x2_init = Some B"
    and "(ca, aa, ra, ab) \<in> set as" and "(cb, ab, rb, aa) \<in> set bs"
    and "distinct (concat (map nb_remotes as))" and "distinct (map nb_addr bs)"
    and "x2_lookup_cell m \<in> set ra" and "x2_fits v m"
  shows "\<exists>d. x2_send v m A = Some d \<and> x2_arrive v d B =
    Some (if x2_wire_bytes m \<le> 65507 then [x2_seen v cb (hd rb) m] else [])"
proof -
  have "x2_sends_to A (x2_lookup_cell m) ab"
    by (rule x2_configure_sends [OF assms(1,5,3,7)])
  moreover have "x2_listens B ab cb rb"
    by (rule x2_configure_listens [OF assms(2,6,4)]) (simp add: x2_bound_def x2_init_def)
  moreover obtain r rs where "rb = r # rs"
    using x2_configure_remotes [OF assms(2,4)] by (cases rb) auto
  ultimately show ?thesis
    using x2_transfer assms(8) by simp
qed

text \<open>
  An instance: eNB 1 has a neighbour with cell 2 and one with cells 3 and 4; eNB 3/4 names cell 1. A handover request
  for cell 4 carries one bearer with an allocation and retention priority.
\<close>

definition x2_demo_erab :: x2_erab where
  "x2_demo_erab = \<lparr>xe_erabId = 1,
     xe_qos = \<lparr>eb_qci = 9, eb_gbrDl = 0, eb_gbrUl = 0, eb_mbrDl = 5, eb_mbrUl = 7\<rparr>,
     xe_arp = \<lparr>arp_priorityLevel = 3, arp_preemptionCapability = True, arp_preemptionVulnerability = False\<rparr>,
     xe_dlForwarding = False, xe_transportLayerAddress = 0x0a000001, xe_gtpTeid = 77\<rparr>"

definition x2_demo_request :: ho_request_params where
  "x2_demo_request = \<lparr>hq_oldEnbUeX2apId = 5, hq_cause = 0x102, hq_sourceCellId = 1, hq_targetCellId = 4,
     hq_mmeUeS1apId = 8, hq_ambrDl = 100, hq_ambrUl = 100, hq_bearers = [x2_demo_erab],
     hq_rrcContext = Some [1, 2, 3]\<rparr>"

definition x2_demo_env :: x2_env where
  "x2_demo_env = \<lparr>xv_shl = (\<lambda>_ _. 0), xv_stale = [0, 0], xv_sourceCellId = 0, xv_targetCellId = 0\<rparr>"

theorem x2_messages_delivered_witness:
  "\<exists>d. x2_send x2_demo_env (XHandoverRequest x2_demo_request)
      (the (x2_configure [(1, 11, [2], 12), (1, 21, [3, 4], 22)] x2_init)) = Some d \<and>
    x2_arrive x2_demo_env d (the (x2_configure [(3, 22, [1], 21)] x2_init)) =
      Some [XHandoverRequest (x2_demo_request\<lparr>hq_cause := 2, hq_sourceCellId := 1,
        hq_bearers := [x2_demo_erab\<lparr>xe_arp := arp_init\<rparr>]\<rparr>)]"
proof -
  have "\<exists>d. x2_send x2_demo_env (XHandoverRequest x2_demo_request)
      (the (x2_configure [(1, 11, [2], 12), (1, 21, [3, 4], 22)] x2_init)) = Some d \<and>
    x2_arrive x2_demo_env d (the (x2_configure [(3, 22, [1], 21)] x2_init)) =
      Some (if x2_wire_bytes (XHandoverRequest x2_demo_request) \<le> 65507
        then [x2_seen x2_demo_env 3 (hd [1]) (XHandoverRequest x2_demo_request)] else [])"
    by (rule x2_messages_delivered
        [where as = "[(1, 11, [2], 12), (1, 21, [3, 4], 22)]" and bs = "[(3, 22, [1], 21)]"
          and ca = 1 and aa = 21 and ra = "[3, 4]" and ab = 22])
       (simp_all add: x2_AddX2Interface_def Let_def x2_demo_request_def)
  then show ?thesis
    by (simp add: x2_demo_request_def rrc_packet_def erab_copy_def)
qed

end
