(* ===== verification/EnbRrcBase.thy ===== *)
theory EnbRrcBase
  imports EpcX2 EpcNet
begin

text \<open>
  The data of the eNB RRC (\<^verbatim>\<open>src/lte/model/lte-enb-rrc.h\<close>, \<^verbatim>\<open>lte-rrc-sap.h\<close>,
  \<^verbatim>\<open>lte-radio-bearer-info.h\<close>): the messages it exchanges with UEs and other eNBs, the context of a
  UE with its state machine, the state of the entity and the calls it makes. Members of a message
  that the code leaves unset are \<open>None\<close>. Not part of the messages are the measurement configuration,
  which is the same for all UEs of an eNB, and members that are constants.
\<close>

section \<open>Messages\<close>

datatype ue_state =
    INITIAL_RANDOM_ACCESS | CONNECTION_SETUP | CONNECTION_REJECTED | ATTACH_REQUEST
  | CONNECTED_NORMALLY | CONNECTION_RECONFIGURATION | CONNECTION_REESTABLISHMENT
  | HANDOVER_PREPARATION | HANDOVER_JOINING | HANDOVER_PATH_SWITCH | HANDOVER_LEAVING

datatype rlc_type = LteRlcSm | LteRlcUm | LteRlcAm
datatype rlc_direction = RlcConfig_AM | RlcConfig_UM_BI_DIRECTIONAL

record lc_config =
  lcc_priority :: u8
  lcc_prioritizedBitRateKbps :: u16
  lcc_bucketSizeDurationMs :: u16
  lcc_logicalChannelGroup :: u8

text \<open>\<^verbatim>\<open>PhysicalConfigDedicated\<close>: the SRS index, the transmission mode and \<^verbatim>\<open>pa\<close>.\<close>

record phys_config =
  pc_srsConfigIndex :: u16
  pc_transmissionMode :: u8
  pc_pa :: u8

record drb_to_add =
  da_epsBearerIdentity :: u8
  da_drbIdentity :: u8
  da_rlcConfig :: rlc_direction
  da_logicalChannelIdentity :: u8
  da_logicalChannelConfig :: lc_config

record rr_dedicated =
  rd_srbToAddMod :: "(u8 \<times> lc_config) list"
  rd_drbToAddMod :: "drb_to_add list"
  rd_drbToRelease :: "u8 list"
  rd_physical :: phys_config

record rach_config =
  ra_numberOfRaPreambles :: u8
  ra_preambleTransMax :: u8
  ra_raResponseWindowSize :: u8
  ra_connEstFailCount :: u8

record mobility_info =
  mo_targetPhysCellId :: u16
  mo_dlCarrierFreq :: u32
  mo_ulCarrierFreq :: u32
  mo_dlBandwidth :: u16
  mo_ulBandwidth :: u16
  mo_newUeIdentity :: "u16 option"
  mo_rachDedicated :: "(u8 \<times> u8) option"
  mo_rachCommon :: "(u8 \<times> u8 \<times> u8) option"
  mo_connEstFailCount :: u8

record scell_to_add =
  sc_sCellIndex :: u32
  sc_physCellId :: u16
  sc_dlCarrierFreq :: u32
  sc_ulCarrierFreq :: u32
  sc_dlBandwidth :: u16
  sc_ulBandwidth :: u16
  sc_referenceSignalPower :: "8 word"
  sc_transmissionMode :: u8
  sc_srsConfigIndex :: u16

record rrc_reconf =
  rc_transactionIdentifier :: "u8 option"
  rc_haveMeasConfig :: bool
  rc_mobility :: "mobility_info option"
  rc_dedicated :: "rr_dedicated option"
  rc_haveNonCriticalExtension :: bool
  rc_sCellToAddMod :: "scell_to_add list"
  rc_sCellToRelease :: "u8 list"

text \<open>\<^verbatim>\<open>HandoverPreparationInfo\<close>.\<close>

record ho_prep_info =
  hp_sourceUeIdentity :: u16
  hp_sourceDlCarrierFreq :: u32
  hp_sourceRadioResourceConfig :: rr_dedicated
  hp_dlBandwidth :: u16
  hp_cellIdentity :: u16
  hp_csgIndication :: bool
  hp_csgIdentity :: u32
  hp_rachConfig :: rach_config
  hp_ulCarrierFreq :: u32
  hp_ulBandwidth :: u16

text \<open>\<^verbatim>\<open>MeasResults\<close>: the serving cell, the neighbours with the values that were measured.\<close>

record meas_eutra =
  me_physCellId :: u16
  me_rsrp :: "u8 option"
  me_rsrq :: "u8 option"

record meas_results =
  ms_measId :: u8
  ms_pcellRsrp :: u8
  ms_pcellRsrq :: u8
  ms_haveNeighCells :: bool
  ms_neighCells :: "meas_eutra list"
  ms_servFreqs :: "u16 list option"

section \<open>UE contexts\<close>

text \<open>\<^verbatim>\<open>LteDataRadioBearerInfo\<close>; the RLC and PDCP instances are entities of their own.\<close>

record drb_info =
  db_epsBearer :: eps_bearer
  db_epsBearerIdentity :: u8
  db_drbIdentity :: u8
  db_logicalChannelIdentity :: u8
  db_gtpTeid :: u32
  db_transportLayerAddress :: ipv4
  db_rlc :: rlc_type
  db_havePdcp :: bool
  db_rlcConfig :: rlc_direction
  db_logicalChannelConfig :: lc_config

text \<open>The timers of a UE context: whether the event is pending.\<close>

datatype ue_timer =
    ConnectionRequestTimeout | ConnectionSetupTimeout | ConnectionRejectedTimeout
  | HandoverJoiningTimeout | HandoverLeavingTimeout

text \<open>\<^verbatim>\<open>UeManager\<close>. The map of the bearers is the list of its entries in the order of the identities.\<close>

record ue_manager =
  um_lastAllocatedDrbid :: u8
  um_drbMap :: "(u8 \<times> drb_info) list"
  um_imsi :: u64
  um_componentCarrierId :: u8
  um_lastRrcTransactionIdentifier :: u8
  um_physicalConfig :: phys_config
  um_state :: ue_state
  um_pendingReconfiguration :: bool
  um_sourceX2apId :: u16
  um_sourceCellId :: u16
  um_targetX2apId :: u16
  um_targetCellId :: u16
  um_drbsToBeStarted :: "u8 list"
  um_needPhyMacConfiguration :: bool
  um_caSupportConfigured :: bool
  um_pendingStart :: bool
  um_packetBuffer :: "(u8 \<times> bytes) list"
  um_pending :: "ue_timer \<Rightarrow> bool"

section \<open>The entity\<close>

text \<open>The configuration of a component carrier and of its MAC and PHY.\<close>

record carrier =
  ca_cellId :: u16
  ca_dlEarfcn :: u32
  ca_ulEarfcn :: u32
  ca_dlBandwidth :: u16
  ca_ulBandwidth :: u16
  ca_csgIndication :: bool
  ca_csgIdentity :: u32
  ca_rach :: rach_config

record lc_info =
  li_rnti :: u16
  li_lcId :: u8
  li_lcGroup :: u8
  li_qci :: u8
  li_resourceType :: u8
  li_mbrUl :: u64
  li_mbrDl :: u64
  li_gbrUl :: u64
  li_gbrDl :: u64

text \<open>What the entity calls at other entities, in the order of the calls.\<close>

datatype rrc_action =
    CmacAddUe u8 u16
  | CmacRemoveUe u8 u16
  | CmacAddLc u8 lc_info
  | CmacReleaseLc u8 u16 u8
  | CmacUeUpdateConfigurationReq u8 u16 u8
  | CmacAllocateNcRaPreamble u8 u16
  | CphyAddUe u8 u16
  | CphyRemoveUe u8 u16
  | CphySetTransmissionMode u8 u16 u8
  | CphySetSrsConfigurationIndex u8 u16 u16
  | CphySetPa u8 u16 u8
  | SapSetupUe u16
  | SapRemoveUe u16
  | SendRrcConnectionSetup u16 u8 rr_dedicated
  | SendRrcConnectionReject u16 u8
  | SendRrcConnectionReconfiguration u16 rrc_reconf
  | SendRrcConnectionReestablishment u16 u8 rr_dedicated
  | SendRrcConnectionRelease u16 u8
  | S1InitialUeMessage u64 u16
  | S1PathSwitchRequest path_switch
  | S1UeContextRelease u16
  | S1SendReleaseIndication u64 u16 u8
  | X2Send x2_message
  | TransmitPdcpSdu u16 u8 bytes
  | InitializeBearer u16 u8
  | ForwardUp u16 u8 bytes
  | HandoverReportUeMeas u16 meas_results
  | CcmReportUeMeas u16 meas_results
  | AnrReportUeMeas meas_results
  | FfrReportUeMeas u16 u16 meas_results
  | FfrRecvLoadInformation load_info_params

datatype bearer_to_rlc = RLC_SM_ALWAYS | RLC_UM_ALWAYS | RLC_AM_ALWAYS | PER_BASED

text \<open>The context that the component carrier manager keeps for a UE.\<close>

record ccm_ue =
  cu_ueAttached :: "u8 \<Rightarrow> bool"
  cu_rlcLcInstantiated :: "u8 \<Rightarrow> lc_info option"
  cu_enabledComponentCarrier :: u8
  cu_ueState :: ue_state

text \<open>
  The maps of the ideal RRC protocol: the messages whose encoding is an identifier. They are static
  variables of the program that all eNBs share. An operation finds them in its state and leaves them
  there; the reachable states of an eNB allow any change of them by others between two operations.
\<close>

record ideal_rrc =
  ir_prepInfoMap :: "u32 \<Rightarrow> ho_prep_info option"
  ir_prepInfoCounter :: u32
  ir_commandMap :: "u32 \<Rightarrow> rrc_reconf option"
  ir_commandCounter :: u32

record enb_rrc =
  er_ueMap :: "u16 \<Rightarrow> ue_manager option"
  er_lastAllocatedRnti :: u16
  er_x2uTeidInfo :: "u32 \<Rightarrow> (u16 \<times> u8) option"
  er_srsPeriodicityId :: u16
  er_srsSet :: "u16 list"
  er_lastSrsIndex :: u16
  er_carriers :: "(u8 \<times> carrier) list"
  er_numberOfComponentCarriers :: u16
  er_referenceSignalPower :: "8 word"
  er_defaultTransmissionMode :: u8
  er_bearerToRlc :: bearer_to_rlc
  er_admitHandoverRequest :: bool
  er_admitRrcConnectionRequest :: bool
  er_haveS1 :: bool
  er_haveHandoverAlgorithm :: bool
  er_haveAnr :: bool
  er_numberOfFfr :: nat
  er_handoverMeasIds :: "u8 list"
  er_componentCarrierMeasIds :: "u8 list"
  er_anrMeasIds :: "u8 list"
  er_ffrMeasIds :: "u8 list"
  er_ccm :: "u16 \<Rightarrow> ccm_ue option"
  er_ideal :: ideal_rrc
  er_x2Cells :: "u16 list"
  er_out :: "rrc_action list"

text \<open>
  An operation takes the state to the next one; \<open>None\<close> is a fatal error or a dereferenced null pointer
  or end iterator. Calls are appended to \<^verbatim>\<open>er_out\<close>.
\<close>

definition emit :: "rrc_action \<Rightarrow> enb_rrc \<Rightarrow> enb_rrc" where
  "emit a s = s\<lparr>er_out := er_out s @ [a]\<rparr>"

definition emits :: "rrc_action list \<Rightarrow> enb_rrc \<Rightarrow> enb_rrc" where
  "emits as s = s\<lparr>er_out := er_out s @ as\<rparr>"

text \<open>
  A call of the X2 entity: it asserts that it has an interface to the cell that the message goes to.
  \<^verbatim>\<open>er_x2Cells\<close> are the cells of the interfaces, which are those of other eNBs.
\<close>

fun x2_dest :: "x2_message \<Rightarrow> u16" where
  "x2_dest (XHandoverRequest p) = hq_targetCellId p"
| "x2_dest (XHandoverRequestAck p) = hk_sourceCellId p"
| "x2_dest (XHandoverPreparationFailure p) = hf_sourceCellId p"
| "x2_dest (XSnStatusTransfer p) = hs_targetCellId p"
| "x2_dest (XUeContextRelease p) = hu_sourceCellId p"
| "x2_dest (XLoadInformation p) = hl_targetCellId p"
| "x2_dest (XResourceStatusUpdate p) = hm_targetCellId p"
| "x2_dest (XUeData p) = hd_targetCellId p"
| "x2_dest (XHandoverCancel p) = hc_targetCellId p"

definition x2_emit :: "x2_message \<Rightarrow> enb_rrc \<Rightarrow> enb_rrc option" where
  "x2_emit m s = (if x2_dest m \<in> set (er_x2Cells s) then Some (emit (X2Send m) s) else None)"

lemma x2_emit_Some [simp]:
  "x2_emit m s = Some s' \<longleftrightarrow> x2_dest m \<in> set (er_x2Cells s) \<and> s' = emit (X2Send m) s"
  by (auto simp: x2_emit_def)

text \<open>\<^verbatim>\<open>HasUeManager\<close>, \<^verbatim>\<open>GetUeManager\<close> and updates of a context.\<close>

definition HasUeManager :: "u16 \<Rightarrow> enb_rrc \<Rightarrow> bool" where
  "HasUeManager rnti s \<longleftrightarrow> er_ueMap s rnti \<noteq> None"

definition GetUeManager :: "u16 \<Rightarrow> enb_rrc \<Rightarrow> ue_manager option" where
  "GetUeManager rnti s = er_ueMap s rnti"

definition upd_ue :: "u16 \<Rightarrow> (ue_manager \<Rightarrow> ue_manager) \<Rightarrow> enb_rrc \<Rightarrow> enb_rrc option" where
  "upd_ue rnti f s =
     (case er_ueMap s rnti of None \<Rightarrow> None
      | Some u \<Rightarrow> Some (s\<lparr>er_ueMap := (er_ueMap s)(rnti \<mapsto> f u)\<rparr>))"

text \<open>Scheduling and cancelling the timer of a context.\<close>

definition um_schedule :: "ue_timer \<Rightarrow> ue_manager \<Rightarrow> ue_manager" where
  "um_schedule t u = u\<lparr>um_pending := (um_pending u)(t := True)\<rparr>"

definition um_cancel :: "ue_timer \<Rightarrow> ue_manager \<Rightarrow> ue_manager" where
  "um_cancel t u = u\<lparr>um_pending := (um_pending u)(t := False)\<rparr>"

text \<open>A loop over the component carriers; \<^verbatim>\<open>at\<close> throws behind the last one.\<close>

definition carrier_ids :: "enb_rrc \<Rightarrow> u8 list" where
  "carrier_ids s = map of_nat [0..<unat (er_numberOfComponentCarriers s)]"

definition carrier_at :: "u8 \<Rightarrow> enb_rrc \<Rightarrow> carrier option" where
  "carrier_at cc s = map_of (er_carriers s) cc"

fun fold_option :: "('a \<Rightarrow> 's \<Rightarrow> 's option) \<Rightarrow> 'a list \<Rightarrow> 's \<Rightarrow> 's option" where
  "fold_option f [] s = Some s"
| "fold_option f (x # xs) s = do { s' \<leftarrow> f x s; fold_option f xs s' }"

text \<open>
  What the UE contexts of the eNB RRC rest on: the requirements of a QCI (\<^verbatim>\<open>eps-bearer.cc\<close>), the
  allocation of SRS configuration indices and of RNTIs (\<^verbatim>\<open>lte-enb-rrc.cc\<close>), the component carrier
  manager that uses the primary carrier only (\<^verbatim>\<open>no-op-component-carrier-manager.cc\<close>), and the
  encoding of inter-node messages by the ideal RRC protocol (\<^verbatim>\<open>lte-rrc-protocol-ideal.cc\<close>).
\<close>

section \<open>Requirements of a QCI\<close>

text \<open>
  The table of Release 11: resource type, priority, packet delay budget, and the k of the packet
  error loss rate \<open>10 ^ -k\<close>. A QCI that is not in the table throws.
\<close>

definition GetRequirementsRel11 :: "(u8 \<times> u8 \<times> u8 \<times> u16 \<times> nat) list" where
  "GetRequirementsRel11 =
     [(1, 1, 2, 100, 2), (2, 1, 4, 150, 3), (3, 1, 3, 50, 3), (4, 1, 5, 300, 6), (5, 0, 1, 100, 6),
      (6, 0, 6, 300, 6), (7, 0, 7, 100, 3), (8, 0, 8, 300, 6), (9, 0, 9, 300, 6)]"

definition GetResourceType :: "eps_bearer \<Rightarrow> u8 option" where
  "GetResourceType b = map_option fst (map_of GetRequirementsRel11 (eb_qci b))"

definition GetPacketErrorLossExponent :: "eps_bearer \<Rightarrow> nat option" where
  "GetPacketErrorLossExponent b =
     map_option (\<lambda>r. snd (snd (snd r))) (map_of GetRequirementsRel11 (eb_qci b))"

definition GetRlcType :: "enb_rrc \<Rightarrow> eps_bearer \<Rightarrow> rlc_type option" where
  "GetRlcType s b =
     (case er_bearerToRlc s of
        RLC_SM_ALWAYS \<Rightarrow> Some LteRlcSm
      | RLC_UM_ALWAYS \<Rightarrow> Some LteRlcUm
      | RLC_AM_ALWAYS \<Rightarrow> Some LteRlcAm
      | PER_BASED \<Rightarrow>
          map_option (\<lambda>k. if (10 :: nat) ^ k < 10 ^ 5 then LteRlcUm else LteRlcAm)
            (GetPacketErrorLossExponent b))"

definition GetLogicalChannelGroup :: "eps_bearer \<Rightarrow> u8 option" where
  "GetLogicalChannelGroup b = map_option (\<lambda>t. if 0 < t then 1 else 2) (GetResourceType b)"

definition GetLogicalChannelPriority :: "eps_bearer \<Rightarrow> u8" where
  "GetLogicalChannelPriority b = eb_qci b"

section \<open>SRS configuration indices\<close>

definition g_srsPeriodicity :: "nat list" where
  "g_srsPeriodicity = [0, 2, 5, 10, 20, 40, 80, 160, 320]"

definition g_srsCiLow :: "nat list" where
  "g_srsCiLow = [0, 0, 2, 7, 17, 37, 77, 157, 317]"

definition g_srsCiHigh :: "nat list" where
  "g_srsCiHigh = [0, 1, 6, 16, 36, 76, 156, 316, 636]"

definition srs_entry :: "nat list \<Rightarrow> enb_rrc \<Rightarrow> nat option" where
  "srs_entry t s =
     (let i = unat (er_srsPeriodicityId s) in if i < length t then Some (t ! i) else None)"

definition SetSrsPeriodicity :: "u32 \<Rightarrow> enb_rrc \<Rightarrow> enb_rrc option" where
  "SetSrsPeriodicity p s =
     (case find (\<lambda>i. g_srsPeriodicity ! i = unat p) [1..<9] of
        None \<Rightarrow> None
      | Some i \<Rightarrow> Some (s\<lparr>er_srsPeriodicityId := of_nat i\<rparr>))"

definition IsMaxSrsReached :: "enb_rrc \<Rightarrow> bool option" where
  "IsMaxSrsReached s = map_option (\<lambda>p. p \<le> length (er_srsSet s)) (srs_entry g_srsPeriodicity s)"

text \<open>The set is the list of its elements in ascending order.\<close>

definition srs_insert :: "u16 \<Rightarrow> u16 list \<Rightarrow> u16 list" where
  "srs_insert i is = (if i \<in> set is then is else insort i is)"

definition srs_take :: "u16 \<Rightarrow> enb_rrc \<Rightarrow> enb_rrc" where
  "srs_take i s = s\<lparr>er_lastSrsIndex := i, er_srsSet := srs_insert i (er_srsSet s)\<rparr>"

definition GetNewSrsConfigurationIndex :: "enb_rrc \<Rightarrow> (u16 \<times> enb_rrc) option" where
  "GetNewSrsConfigurationIndex s = do {
     period \<leftarrow> srs_entry g_srsPeriodicity s;
     low \<leftarrow> srs_entry g_srsCiLow s;
     high \<leftarrow> srs_entry g_srsCiHigh s;
     if period \<le> length (er_srsSet s) then None
     else
       let s' = (if er_srsSet s = [] then srs_take (of_nat low) s
                 else if unat (last (er_srsSet s)) < high then srs_take (last (er_srsSet s) + 1) s
                 else (case find (\<lambda>i. (of_nat i :: u16) \<notin> set (er_srsSet s)) [low..<high] of
                         None \<Rightarrow> s
                       | Some i \<Rightarrow> srs_take (of_nat i) s))
       in Some (er_lastSrsIndex s', s') }"

definition RemoveSrsConfigurationIndex :: "u16 \<Rightarrow> enb_rrc \<Rightarrow> enb_rrc option" where
  "RemoveSrsConfigurationIndex i s =
     (if i \<in> set (er_srsSet s) then Some (s\<lparr>er_srsSet := remove1 i (er_srsSet s)\<rparr>) else None)"

section \<open>RNTIs\<close>

text \<open>
  The search loop of \<^verbatim>\<open>AddUe\<close>: \<^verbatim>\<open>m_lastAllocatedRnti - 1\<close> is an \<^verbatim>\<open>int\<close>, so that for 0 the loop only
  ends when it has found an identity.
\<close>

partial_function (option) rnti_search :: "(u16 \<Rightarrow> bool) \<Rightarrow> u16 \<Rightarrow> u16 \<Rightarrow> (bool \<times> u16) option" where
  "rnti_search used prev rnti =
     (if uint rnti = uint prev - 1 then Some (False, rnti)
      else if rnti \<noteq> 0 \<and> \<not> used rnti then Some (True, rnti)
      else rnti_search used prev (rnti + 1))"

declare rnti_search.simps [code]

section \<open>The component carrier manager\<close>

definition ccm_AddUe :: "u16 \<Rightarrow> ue_state \<Rightarrow> enb_rrc \<Rightarrow> enb_rrc" where
  "ccm_AddUe rnti st s =
     s\<lparr>er_ccm := (er_ccm s)(rnti \<mapsto>
        (case er_ccm s rnti of
           None \<Rightarrow> \<lparr>cu_ueAttached = (\<lambda>_. False), cu_rlcLcInstantiated = (\<lambda>_. None),
                    cu_enabledComponentCarrier = 1, cu_ueState = st\<rparr>
         | Some i \<Rightarrow> i\<lparr>cu_ueState := st\<rparr>))\<rparr>"

definition ccm_upd :: "u16 \<Rightarrow> (ccm_ue \<Rightarrow> ccm_ue) \<Rightarrow> enb_rrc \<Rightarrow> enb_rrc option" where
  "ccm_upd rnti f s =
     (case er_ccm s rnti of None \<Rightarrow> None
      | Some i \<Rightarrow> Some (s\<lparr>er_ccm := (er_ccm s)(rnti \<mapsto> f i)\<rparr>))"

text \<open>\<^verbatim>\<open>emplace\<close> leaves an entry that exists.\<close>

definition lc_emplace :: "lc_info \<Rightarrow> ccm_ue \<Rightarrow> ccm_ue" where
  "lc_emplace lc i =
     (if cu_rlcLcInstantiated i (li_lcId lc) \<noteq> None then i
      else i\<lparr>cu_rlcLcInstantiated := (cu_rlcLcInstantiated i)(li_lcId lc \<mapsto> lc)\<rparr>)"

definition attach :: "u8 \<Rightarrow> ccm_ue \<Rightarrow> ccm_ue" where
  "attach lcid i = i\<lparr>cu_ueAttached := (cu_ueAttached i)(lcid := True)\<rparr>"

definition ccm_AddLc :: "lc_info \<Rightarrow> enb_rrc \<Rightarrow> enb_rrc option" where
  "ccm_AddLc lc s = ccm_upd (li_rnti lc) (lc_emplace lc) s"

definition ccm_RemoveUe :: "u16 \<Rightarrow> enb_rrc \<Rightarrow> enb_rrc option" where
  "ccm_RemoveUe rnti s =
     (if er_ccm s rnti = None then None else Some (s\<lparr>er_ccm := (er_ccm s)(rnti := None)\<rparr>))"

definition ccm_ConfigureSignalBearer :: "lc_info \<Rightarrow> enb_rrc \<Rightarrow> enb_rrc option" where
  "ccm_ConfigureSignalBearer lc s = ccm_upd (li_rnti lc) (attach (li_lcId lc)) s"

definition ccm_lc_info :: "eps_bearer \<Rightarrow> u8 \<Rightarrow> u16 \<Rightarrow> u8 \<Rightarrow> u8 \<Rightarrow> lc_info" where
  "ccm_lc_info b resourceType rnti lcid lcGroup =
     \<lparr>li_rnti = rnti, li_lcId = lcid, li_lcGroup = lcGroup, li_qci = eb_qci b,
      li_resourceType = resourceType, li_mbrUl = eb_mbrUl b, li_mbrDl = eb_mbrDl b,
      li_gbrUl = eb_gbrUl b, li_gbrDl = eb_gbrDl b\<rparr>"

text \<open>
  The channel is configured on every carrier, with its rates on the first one. The number of carriers
  is that of the RRC.
\<close>

definition ccm_SetupDataRadioBearer ::
    "eps_bearer \<Rightarrow> u16 \<Rightarrow> u8 \<Rightarrow> u8 \<Rightarrow> enb_rrc \<Rightarrow> ((u8 \<times> lc_info) list \<times> enb_rrc) option" where
  "ccm_SetupDataRadioBearer b rnti lcid lcGroup s = do {
     resourceType \<leftarrow> GetResourceType b;
     let lc = ccm_lc_info b resourceType rnti lcid lcGroup;
     let other = lc\<lparr>li_resourceType := 0, li_mbrUl := 0, li_mbrDl := 0, li_gbrUl := 0, li_gbrDl := 0\<rparr>;
     let res = map (\<lambda>cc. (cc, if cc = 0 then lc else other)) (carrier_ids s);
     s \<leftarrow> ccm_upd rnti (\<lambda>i. let i = i\<lparr>cu_enabledComponentCarrier :=
                                        ucast (er_numberOfComponentCarriers s)\<rparr>
                       in if cu_rlcLcInstantiated i lcid \<noteq> None then i
                          else lc_emplace lc (if cu_ueAttached i lcid then i else attach lcid i)) s;
     Some (res, s) }"

text \<open>
  The entry of the second map is looked up by the RNTI, which is converted to the 8-bit type of the
  keys. Erasing the end iterator is undefined.
\<close>

definition ccm_ReleaseDataRadioBearer :: "u16 \<Rightarrow> u8 \<Rightarrow> enb_rrc \<Rightarrow> (u8 list \<times> enb_rrc) option" where
  "ccm_ReleaseDataRadioBearer rnti lcid s =
     (case er_ccm s rnti of
        None \<Rightarrow> None
      | Some i \<Rightarrow>
          if cu_ueAttached i lcid \<and> cu_rlcLcInstantiated i (ucast rnti) \<noteq> None
          then Some (map of_nat [0..<unat (cu_enabledComponentCarrier i)],
                 s\<lparr>er_ccm := (er_ccm s)(rnti \<mapsto>
                     i\<lparr>cu_ueAttached := (cu_ueAttached i)(lcid := False),
                       cu_rlcLcInstantiated := (cu_rlcLcInstantiated i)(ucast rnti := None)\<rparr>)\<rparr>)
          else None)"

section \<open>Inter-node messages of the ideal protocol\<close>

definition WriteU32 :: "u32 \<Rightarrow> bytes" where
  "WriteU32 x = [ucast x, ucast (drop_bit 8 x), ucast (drop_bit 16 x), ucast (drop_bit 24 x)]"

fun ReadU32 :: "bytes \<Rightarrow> (u32 \<times> bytes) option" where
  "ReadU32 (a # b # c # d # bs) =
     Some (shift_in (shift_in (shift_in (ucast d) c) b) a, bs)"
| "ReadU32 _ = None"

lemma ReadU32_Write: "ReadU32 (WriteU32 x @ bs) = Some (x, bs)"
proof -
  have "ucast (ucast (drop_bit 24 x) :: u8) = drop_bit 24 x"
    by (rule bit_word_eqI) (auto simp: bit_simps dest: bit_imp_le_length)
  then show ?thesis
    by (simp add: WriteU32_def shift_in_step shift_in_last)
qed

definition EncodeHandoverPreparationInformation :: "ho_prep_info \<Rightarrow> ideal_rrc \<Rightarrow> bytes \<times> ideal_rrc" where
  "EncodeHandoverPreparationInformation msg g =
     (let msgId = ir_prepInfoCounter g + 1
      in (WriteU32 msgId,
          g\<lparr>ir_prepInfoCounter := msgId,
            ir_prepInfoMap := (if ir_prepInfoMap g msgId \<noteq> None then ir_prepInfoMap g
                               else (ir_prepInfoMap g)(msgId \<mapsto> msg))\<rparr>))"

definition DecodeHandoverPreparationInformation ::
    "bytes \<Rightarrow> ideal_rrc \<Rightarrow> (ho_prep_info \<times> ideal_rrc) option" where
  "DecodeHandoverPreparationInformation p g = do {
     (msgId, _) \<leftarrow> ReadU32 p;
     msg \<leftarrow> ir_prepInfoMap g msgId;
     Some (msg, g\<lparr>ir_prepInfoMap := (ir_prepInfoMap g)(msgId := None)\<rparr>) }"

definition EncodeHandoverCommand :: "rrc_reconf \<Rightarrow> ideal_rrc \<Rightarrow> bytes \<times> ideal_rrc" where
  "EncodeHandoverCommand msg g =
     (let msgId = ir_commandCounter g + 1
      in (WriteU32 msgId,
          g\<lparr>ir_commandCounter := msgId,
            ir_commandMap := (if ir_commandMap g msgId \<noteq> None then ir_commandMap g
                              else (ir_commandMap g)(msgId \<mapsto> msg))\<rparr>))"

definition DecodeHandoverCommand :: "bytes \<Rightarrow> ideal_rrc \<Rightarrow> (rrc_reconf \<times> ideal_rrc) option" where
  "DecodeHandoverCommand p g = do {
     (msgId, _) \<leftarrow> ReadU32 p;
     msg \<leftarrow> ir_commandMap g msgId;
     Some (msg, g\<lparr>ir_commandMap := (ir_commandMap g)(msgId := None)\<rparr>) }"

text \<open>A command is decoded to what was encoded, as long as its identifier was not in use.\<close>

lemma DecodeHandoverCommand_Encode:
  assumes "ir_commandMap g (ir_commandCounter g + 1) = None"
    and "EncodeHandoverCommand msg g = (p, g')"
  shows "\<exists>g''. DecodeHandoverCommand p g' = Some (msg, g'')"
proof -
  have p: "p = WriteU32 (ir_commandCounter g + 1) @ []"
    using assms(2) by (simp add: EncodeHandoverCommand_def Let_def)
  show ?thesis
    unfolding DecodeHandoverCommand_def p ReadU32_Write
    using assms by (auto simp: EncodeHandoverCommand_def Let_def)
qed

end
