(* ===== verification/EnbRrcUe.thy ===== *)
theory EnbRrcUe
  imports EnbRrcBase StdMap
begin

text \<open>
  \<^verbatim>\<open>UeManager\<close> of \<^verbatim>\<open>src/lte/model/lte-enb-rrc.cc\<close>, with \<^verbatim>\<open>LteEnbRrc::AddUe\<close> which creates the
  contexts: bearers, connection set-up, reconfiguration and the source and target sides of a
  handover. Every operation takes the RNTI of its context.
\<close>

section \<open>Identities\<close>

definition Drbid2Lcid :: "u8 \<Rightarrow> u8" where "Drbid2Lcid drbid = drbid + 2"
definition Lcid2Bid :: "u8 \<Rightarrow> u8" where "Lcid2Bid lcid = lcid - 2"
definition Bid2Lcid :: "u8 \<Rightarrow> u8" where "Bid2Lcid bid = bid + 2"
definition Drbid2Bid :: "u8 \<Rightarrow> u8" where "Drbid2Bid drbid = drbid"
definition Bid2Drbid :: "u8 \<Rightarrow> u8" where "Bid2Drbid bid = bid"

definition GetNewRrcTransactionIdentifier :: "ue_manager \<Rightarrow> u8 \<times> ue_manager" where
  "GetNewRrcTransactionIdentifier u =
     (let n = (um_lastRrcTransactionIdentifier u + 1) mod 4
      in (n, u\<lparr>um_lastRrcTransactionIdentifier := n\<rparr>))"

text \<open>\<^verbatim>\<open>ComponentCarrierToCellId\<close>, \<^verbatim>\<open>HasCellId\<close> and \<^verbatim>\<open>CellToComponentCarrierId\<close>.\<close>

definition ComponentCarrierToCellId :: "u8 \<Rightarrow> enb_rrc \<Rightarrow> u16 option" where
  "ComponentCarrierToCellId cc s = map_option ca_cellId (carrier_at cc s)"

definition HasCellId :: "u16 \<Rightarrow> enb_rrc \<Rightarrow> bool" where
  "HasCellId cell s \<longleftrightarrow> list_ex (\<lambda>(_, c). ca_cellId c = cell) (er_carriers s)"

definition CellToComponentCarrierId :: "u16 \<Rightarrow> enb_rrc \<Rightarrow> u8 option" where
  "CellToComponentCarrierId cell s =
     map_option fst (find (\<lambda>(_, c). ca_cellId c = cell) (er_carriers s))"

section \<open>Bearers of a context\<close>

text \<open>The free identity after the last one allocated; with none left the program stops.\<close>

definition drbid_candidates :: "u8 \<Rightarrow> u8 list" where
  "drbid_candidates prev = map (\<lambda>k. of_nat ((unat prev + 1 + k) mod 32)) [0..<31]"

definition AddDataRadioBearerInfo :: "drb_info \<Rightarrow> ue_manager \<Rightarrow> (u8 \<times> ue_manager) option" where
  "AddDataRadioBearerInfo drb u =
     (case find (\<lambda>i. i \<noteq> 0 \<and> \<not> smap_has (um_drbMap u) i)
        (drbid_candidates (um_lastAllocatedDrbid u)) of
        None \<Rightarrow> None
      | Some drbid \<Rightarrow> Some (drbid,
          u\<lparr>um_drbMap := smap_put drbid (drb\<lparr>db_drbIdentity := drbid\<rparr>) (um_drbMap u),
            um_lastAllocatedDrbid := drbid\<rparr>))"

definition GetDataRadioBearerInfo :: "u8 \<Rightarrow> ue_manager \<Rightarrow> drb_info option" where
  "GetDataRadioBearerInfo drbid u = map_of (um_drbMap u) drbid"

definition RemoveDataRadioBearerInfo :: "u8 \<Rightarrow> ue_manager \<Rightarrow> ue_manager option" where
  "RemoveDataRadioBearerInfo drbid u =
     (if smap_has (um_drbMap u) drbid then Some (u\<lparr>um_drbMap := smap_erase drbid (um_drbMap u)\<rparr>)
      else None)"

section \<open>Building messages\<close>

definition srb1_config :: lc_config where
  "srb1_config = \<lparr>lcc_priority = 1, lcc_prioritizedBitRateKbps = 100, lcc_bucketSizeDurationMs = 100,
     lcc_logicalChannelGroup = 0\<rparr>"

definition drb_entry :: "drb_info \<Rightarrow> drb_to_add" where
  "drb_entry d = \<lparr>da_epsBearerIdentity = db_epsBearerIdentity d, da_drbIdentity = db_drbIdentity d,
     da_rlcConfig = db_rlcConfig d, da_logicalChannelIdentity = db_logicalChannelIdentity d,
     da_logicalChannelConfig = db_logicalChannelConfig d\<rparr>"

definition BuildRadioResourceConfigDedicated :: "ue_manager \<Rightarrow> rr_dedicated" where
  "BuildRadioResourceConfigDedicated u =
     \<lparr>rd_srbToAddMod = [(1, srb1_config)], rd_drbToAddMod = map (drb_entry \<circ> snd) (um_drbMap u),
      rd_drbToRelease = [], rd_physical = um_physicalConfig u\<rparr>"

definition BuildNonCriticalExtensionConfigurationCa :: "ue_manager \<Rightarrow> enb_rrc \<Rightarrow> scell_to_add list" where
  "BuildNonCriticalExtensionConfigurationCa u s =
     map (\<lambda>(cc, c).
            \<lparr>sc_sCellIndex = (if cc < um_componentCarrierId u then ucast (cc + 1) else ucast cc),
             sc_physCellId = ca_cellId c, sc_dlCarrierFreq = ca_dlEarfcn c,
             sc_ulCarrierFreq = ca_ulEarfcn c, sc_dlBandwidth = ca_dlBandwidth c,
             sc_ulBandwidth = ca_ulBandwidth c,
             sc_referenceSignalPower = er_referenceSignalPower s,
             sc_transmissionMode = er_defaultTransmissionMode s,
             sc_srsConfigIndex = pc_srsConfigIndex (um_physicalConfig u)\<rparr>)
       (filter (\<lambda>(cc, _). cc \<noteq> um_componentCarrierId u) (er_carriers s))"

definition BuildRrcConnectionReconfiguration :: "u16 \<Rightarrow> enb_rrc \<Rightarrow> (rrc_reconf \<times> enb_rrc) option" where
  "BuildRrcConnectionReconfiguration rnti s = do {
     u \<leftarrow> GetUeManager rnti s;
     let (n, u) = GetNewRrcTransactionIdentifier u;
     let ca = (\<not> um_caSupportConfigured u \<and> 1 < er_numberOfComponentCarriers s);
     let u = (if ca then u\<lparr>um_caSupportConfigured := True\<rparr> else u);
     s \<leftarrow> upd_ue rnti (\<lambda>_. u) s;
     Some (\<lparr>rc_transactionIdentifier = Some n, rc_haveMeasConfig = True, rc_mobility = None,
            rc_dedicated = Some (BuildRadioResourceConfigDedicated u),
            rc_haveNonCriticalExtension = ca,
            rc_sCellToAddMod = (if ca then BuildNonCriticalExtensionConfigurationCa u s else []),
            rc_sCellToRelease = []\<rparr>, s) }"

definition GetRrcConnectionReconfigurationForHandover ::
    "u16 \<Rightarrow> u8 \<Rightarrow> enb_rrc \<Rightarrow> (rrc_reconf \<times> enb_rrc) option" where
  "GetRrcConnectionReconfigurationForHandover rnti cc s = do {
     (m, s) \<leftarrow> BuildRrcConnectionReconfiguration rnti s;
     c \<leftarrow> carrier_at cc s;
     u \<leftarrow> GetUeManager rnti s;
     let mo = \<lparr>mo_targetPhysCellId = ca_cellId c, mo_dlCarrierFreq = ca_dlEarfcn c,
               mo_ulCarrierFreq = ca_ulEarfcn c, mo_dlBandwidth = ca_dlBandwidth c,
               mo_ulBandwidth = ca_ulBandwidth c, mo_newUeIdentity = None,
               mo_rachDedicated = None, mo_rachCommon = None, mo_connEstFailCount = 0\<rparr>;
     let ca = (um_caSupportConfigured u \<and> 1 < er_numberOfComponentCarriers s);
     Some (m\<lparr>rc_mobility := Some mo, rc_haveNonCriticalExtension := ca,
             rc_sCellToRelease :=
               (if ca then rc_sCellToRelease m @
                  map (\<lambda>(cc, _). cc + 1)
                    (filter (\<lambda>(cc, _). cc < um_componentCarrierId u) (er_carriers s))
                else rc_sCellToRelease m)\<rparr>, s) }"

text \<open>The random access part of a handover command.\<close>

definition set_rach :: "u16 \<Rightarrow> u8 \<times> u8 \<Rightarrow> rach_config \<Rightarrow> rrc_reconf \<Rightarrow> rrc_reconf" where
  "set_rach rnti preamble rc m =
     m\<lparr>rc_mobility := map_option (\<lambda>mo. mo\<lparr>mo_newUeIdentity := Some rnti,
         mo_rachDedicated := Some preamble,
         mo_rachCommon := Some (ra_numberOfRaPreambles rc, ra_preambleTransMax rc,
           ra_raResponseWindowSize rc)\<rparr>) (rc_mobility m)\<rparr>"

definition set_connEstFailCount :: "rach_config \<Rightarrow> rrc_reconf \<Rightarrow> rrc_reconf" where
  "set_connEstFailCount rc m =
     m\<lparr>rc_mobility := map_option (\<lambda>mo. mo\<lparr>mo_connEstFailCount := ra_connEstFailCount rc\<rparr>)
         (rc_mobility m)\<rparr>"

section \<open>Starting bearers, reconfiguration, change of state\<close>

definition RecordDataRadioBearersToBeStarted :: "ue_manager \<Rightarrow> ue_manager" where
  "RecordDataRadioBearersToBeStarted u =
     u\<lparr>um_drbsToBeStarted := um_drbsToBeStarted u @ map fst (um_drbMap u)\<rparr>"

text \<open>Initialising a bearer that has been erased meanwhile dereferences the end iterator.\<close>

definition StartDataRadioBearers :: "u16 \<Rightarrow> enb_rrc \<Rightarrow> enb_rrc option" where
  "StartDataRadioBearers rnti s = do {
     u \<leftarrow> GetUeManager rnti s;
     if list_all (\<lambda>i. smap_has (um_drbMap u) i) (um_drbsToBeStarted u)
     then upd_ue rnti (\<lambda>u. u\<lparr>um_drbsToBeStarted := []\<rparr>)
            (emits (map (InitializeBearer rnti) (um_drbsToBeStarted u)) s)
     else None }"

text \<open>
  \<^verbatim>\<open>SwitchToState\<close> to a state in which nothing else happens; the initial states cannot be entered.
\<close>

definition enter_state :: "u16 \<Rightarrow> ue_state \<Rightarrow> enb_rrc \<Rightarrow> enb_rrc option" where
  "enter_state rnti new s =
     (if new = INITIAL_RANDOM_ACCESS \<or> new = HANDOVER_JOINING then None
      else upd_ue rnti (\<lambda>u. u\<lparr>um_state := new\<rparr>) s)"

definition ScheduleRrcConnectionReconfiguration :: "u16 \<Rightarrow> enb_rrc \<Rightarrow> enb_rrc option" where
  "ScheduleRrcConnectionReconfiguration rnti s = do {
     u \<leftarrow> GetUeManager rnti s;
     if um_state u \<in> {INITIAL_RANDOM_ACCESS, CONNECTION_SETUP, ATTACH_REQUEST,
          CONNECTION_RECONFIGURATION, CONNECTION_REESTABLISHMENT, HANDOVER_PREPARATION,
          HANDOVER_JOINING, HANDOVER_LEAVING}
     then upd_ue rnti (\<lambda>u. u\<lparr>um_pendingReconfiguration := True\<rparr>) s
     else if um_state u = CONNECTED_NORMALLY then do {
       s \<leftarrow> upd_ue rnti (\<lambda>u. u\<lparr>um_pendingReconfiguration := False\<rparr>) s;
       (m, s) \<leftarrow> BuildRrcConnectionReconfiguration rnti s;
       let s = emit (SendRrcConnectionReconfiguration rnti m) s;
       s \<leftarrow> upd_ue rnti RecordDataRadioBearersToBeStarted s;
       enter_state rnti CONNECTION_RECONFIGURATION s }
     else None }"

definition SwitchToState :: "u16 \<Rightarrow> ue_state \<Rightarrow> enb_rrc \<Rightarrow> enb_rrc option" where
  "SwitchToState rnti new s = do {
     s \<leftarrow> enter_state rnti new s;
     if new = CONNECTED_NORMALLY then do {
       u \<leftarrow> GetUeManager rnti s;
       s \<leftarrow> (if um_pendingReconfiguration u then ScheduleRrcConnectionReconfiguration rnti s
             else Some s);
       u \<leftarrow> GetUeManager rnti s;
       if um_pendingStart u \<and> um_caSupportConfigured u then StartDataRadioBearers rnti s else Some s }
     else Some s }"

section \<open>Creating a context\<close>

text \<open>The two signalling bearers: their channels exist on the primary carrier of the UE.\<close>

definition srb0_lc :: "u16 \<Rightarrow> lc_info" where
  "srb0_lc rnti = \<lparr>li_rnti = rnti, li_lcId = 0, li_lcGroup = 0, li_qci = 0, li_resourceType = 0,
     li_mbrUl = 0, li_mbrDl = 0, li_gbrUl = 0, li_gbrDl = 0\<rparr>"

definition srb1_lc :: "u16 \<Rightarrow> lc_info" where
  "srb1_lc rnti = \<lparr>li_rnti = rnti, li_lcId = 1, li_lcGroup = 0, li_qci = 1, li_resourceType = 1,
     li_mbrUl = 1000000, li_mbrDl = 1000000, li_gbrUl = 10000, li_gbrDl = 10000\<rparr>"

definition setup_srb :: "lc_info \<Rightarrow> u8 \<Rightarrow> enb_rrc \<Rightarrow> enb_rrc option" where
  "setup_srb lc cc s = do {
     s \<leftarrow> ccm_ConfigureSignalBearer lc s;
     s \<leftarrow> (if cc \<in> set (carrier_ids s) then Some (emit (CmacAddLc cc lc) s) else None);
     ccm_AddLc lc s }"

definition DoInitialize :: "u16 \<Rightarrow> enb_rrc \<Rightarrow> enb_rrc option" where
  "DoInitialize rnti s = do {
     u \<leftarrow> GetUeManager rnti s;
     (srs, s) \<leftarrow> GetNewSrsConfigurationIndex s;
     let pc = \<lparr>pc_srsConfigIndex = srs, pc_transmissionMode = er_defaultTransmissionMode s, pc_pa = 4\<rparr>;
     s \<leftarrow> upd_ue rnti (\<lambda>u. u\<lparr>um_physicalConfig := pc\<rparr>) s;
     let s = emits (concat (map (\<lambda>i. [CmacAddUe i rnti, CphyAddUe i rnti]) (carrier_ids s))) s;
     s \<leftarrow> setup_srb (srb0_lc rnti) (um_componentCarrierId u) s;
     s \<leftarrow> setup_srb (srb1_lc rnti) (um_componentCarrierId u) s;
     let s = emit (SapSetupUe rnti) s;
     let s = emits (concat (map (\<lambda>i.
         [CmacUeUpdateConfigurationReq i rnti (pc_transmissionMode pc),
          CphySetTransmissionMode i rnti (pc_transmissionMode pc),
          CphySetSrsConfigurationIndex i rnti srs]) (carrier_ids s))) s;
     s \<leftarrow> (if um_state u = INITIAL_RANDOM_ACCESS
           then upd_ue rnti (um_schedule ConnectionRequestTimeout) s
           else if um_state u = HANDOVER_JOINING
           then upd_ue rnti (um_schedule HandoverJoiningTimeout) s
           else None);
     upd_ue rnti (\<lambda>u. u\<lparr>um_caSupportConfigured := False\<rparr>) s }"

text \<open>The constructor; the target of a handover and the physical configuration are not set yet.\<close>

definition new_ue_manager :: "u16 \<times> u16 \<times> phys_config \<Rightarrow> ue_state \<Rightarrow> u8 \<Rightarrow> ue_manager" where
  "new_ue_manager v st cc =
     \<lparr>um_lastAllocatedDrbid = 0, um_drbMap = [], um_imsi = 0, um_componentCarrierId = cc,
      um_lastRrcTransactionIdentifier = 0, um_physicalConfig = snd (snd v), um_state = st,
      um_pendingReconfiguration = False, um_sourceX2apId = 0, um_sourceCellId = 0,
      um_targetX2apId = fst v, um_targetCellId = fst (snd v), um_drbsToBeStarted = [],
      um_needPhyMacConfiguration = False, um_caSupportConfigured = False, um_pendingStart = False,
      um_packetBuffer = [], um_pending = (\<lambda>_. False)\<rparr>"

text \<open>
  What the program leaves open: the members above, the preamble that the MAC gives to a UE, the
  counters of the PDCP entities, and members of messages that are not set.
\<close>

record rrc_env =
  rv_fresh :: "u16 \<times> u16 \<times> phys_config"
  rv_preamble :: "u8 \<Rightarrow> u16 \<Rightarrow> (u8 \<times> u8) option"
  rv_pdcpStatus :: "u16 \<Rightarrow> u8 \<Rightarrow> u16 \<times> u16"
  rv_statusErabId :: u16
  rv_statusUlHfn :: u32
  rv_statusDlHfn :: u32
  rv_admittedUlTeid :: u32
  rv_admittedDlTeid :: u32

text \<open>
  When the search finds no identity an assertion fails; what follows would work on a context that is
  not in the map.
\<close>

definition AddUe :: "rrc_env \<Rightarrow> ue_state \<Rightarrow> u8 \<Rightarrow> enb_rrc \<Rightarrow> (u16 \<times> enb_rrc) option" where
  "AddUe v st cc s = do {
     (found, rnti) \<leftarrow> rnti_search (\<lambda>r. HasUeManager r s) (er_lastAllocatedRnti s)
       (er_lastAllocatedRnti s + 1);
     if \<not> found then None else do {
       let s = s\<lparr>er_lastAllocatedRnti := rnti\<rparr>;
       let s = ccm_AddUe rnti st s;
       let s = s\<lparr>er_ueMap := (er_ueMap s)(rnti \<mapsto> new_ue_manager (rv_fresh v) st cc)\<rparr>;
       s \<leftarrow> DoInitialize rnti s;
       cell \<leftarrow> ComponentCarrierToCellId cc s;
       Some (rnti, s) } }"

definition SetSource :: "u16 \<Rightarrow> u16 \<Rightarrow> ue_manager \<Rightarrow> ue_manager" where
  "SetSource cell x2apId u = u\<lparr>um_sourceX2apId := x2apId, um_sourceCellId := cell\<rparr>"

definition SetImsi :: "u64 \<Rightarrow> ue_manager \<Rightarrow> ue_manager" where
  "SetImsi imsi u = u\<lparr>um_imsi := imsi\<rparr>"

end
