(* ===== verification/EnbRrcHandlers.thy ===== *)
theory EnbRrcHandlers
  imports EnbRrcUe
begin

text \<open>
  The handlers of \<^verbatim>\<open>UeManager\<close> and the parts of \<^verbatim>\<open>LteEnbRrc\<close> that they call
  (\<^verbatim>\<open>src/lte/model/lte-enb-rrc.cc\<close>): data radio bearers, removal of a context, messages of the UE,
  both sides of a handover.
\<close>

section \<open>Data radio bearers\<close>

text \<open>\<^verbatim>\<open>insert\<close> leaves an entry that exists.\<close>

definition x2u_insert :: "u32 \<Rightarrow> u16 \<times> u8 \<Rightarrow> enb_rrc \<Rightarrow> enb_rrc" where
  "x2u_insert teid i s =
     (if er_x2uTeidInfo s teid \<noteq> None then s
      else s\<lparr>er_x2uTeidInfo := (er_x2uTeidInfo s)(teid \<mapsto> i)\<rparr>)"

definition x2u_erase :: "u32 \<Rightarrow> enb_rrc \<Rightarrow> enb_rrc" where
  "x2u_erase teid s = s\<lparr>er_x2uTeidInfo := (er_x2uTeidInfo s)(teid := None)\<rparr>"

definition add_lc :: "u8 \<times> lc_info \<Rightarrow> enb_rrc \<Rightarrow> enb_rrc option" where
  "add_lc e s = (case e of (cc, lc) \<Rightarrow> ccm_AddLc lc (emit (CmacAddLc cc lc) s))"

definition drb_info_for ::
    "eps_bearer \<Rightarrow> u8 \<Rightarrow> u32 \<Rightarrow> ipv4 \<Rightarrow> rlc_type \<Rightarrow> u8 \<Rightarrow> u8 \<Rightarrow> drb_info" where
  "drb_info_for bearer drbid gtpTeid addr rlc resourceType lcGroup =
     \<lparr>db_epsBearer = bearer, db_epsBearerIdentity = Drbid2Bid drbid, db_drbIdentity = drbid,
      db_logicalChannelIdentity = Drbid2Lcid drbid, db_gtpTeid = gtpTeid,
      db_transportLayerAddress = addr, db_rlc = rlc, db_havePdcp = (rlc \<noteq> LteRlcSm),
      db_rlcConfig = (if rlc = LteRlcAm then RlcConfig_AM else RlcConfig_UM_BI_DIRECTIONAL),
      db_logicalChannelConfig =
        \<lparr>lcc_priority = GetLogicalChannelPriority bearer,
         lcc_prioritizedBitRateKbps = (if 0 < resourceType then ucast (eb_gbrUl bearer) else 0),
         lcc_bucketSizeDurationMs = 1000, lcc_logicalChannelGroup = lcGroup\<rparr>\<rparr>"

text \<open>
  The identity of the bearer in the EPS is derived from the one that is allocated here; that it is
  the one that was asked for is only asserted.
\<close>

definition SetupDataRadioBearer ::
    "u16 \<Rightarrow> eps_bearer \<Rightarrow> u8 \<Rightarrow> u32 \<Rightarrow> ipv4 \<Rightarrow> enb_rrc \<Rightarrow> enb_rrc option" where
  "SetupDataRadioBearer rnti bearer bearerId gtpTeid addr s = do {
     u \<leftarrow> GetUeManager rnti s;
     rlc \<leftarrow> GetRlcType s bearer;
     resourceType \<leftarrow> GetResourceType bearer;
     lcGroup \<leftarrow> GetLogicalChannelGroup bearer;
     (drbid, u) \<leftarrow> AddDataRadioBearerInfo
        (drb_info_for bearer 0 gtpTeid addr rlc resourceType lcGroup) u;
     let d = drb_info_for bearer drbid gtpTeid addr rlc resourceType lcGroup;
     s \<leftarrow> upd_ue rnti (\<lambda>_. u\<lparr>um_drbMap := smap_put drbid d (um_drbMap u)\<rparr>) s;
     let s = (if um_state u = HANDOVER_JOINING then x2u_insert gtpTeid (rnti, drbid) s else s);
     (lcs, s) \<leftarrow> ccm_SetupDataRadioBearer bearer rnti (Drbid2Lcid drbid) lcGroup s;
     s \<leftarrow> fold_option add_lc lcs s;
     ScheduleRrcConnectionReconfiguration rnti s }"

definition release_message :: "u8 \<Rightarrow> ue_manager \<Rightarrow> rrc_reconf" where
  "release_message drbid u =
     \<lparr>rc_transactionIdentifier = None, rc_haveMeasConfig = False, rc_mobility = None,
      rc_dedicated = Some \<lparr>rd_srbToAddMod = [], rd_drbToAddMod = [], rd_drbToRelease = [drbid],
                           rd_physical = um_physicalConfig u\<rparr>,
      rc_haveNonCriticalExtension = False, rc_sCellToAddMod = [], rc_sCellToRelease = []\<rparr>"

definition ReleaseDataRadioBearer :: "u16 \<Rightarrow> u8 \<Rightarrow> enb_rrc \<Rightarrow> enb_rrc option" where
  "ReleaseDataRadioBearer rnti drbid s = do {
     u \<leftarrow> GetUeManager rnti s;
     d \<leftarrow> map_of (um_drbMap u) drbid;
     let s = x2u_erase (db_gtpTeid d) s;
     s \<leftarrow> upd_ue rnti (\<lambda>u. u\<lparr>um_drbMap := smap_erase drbid (um_drbMap u)\<rparr>) s;
     (ccs, s) \<leftarrow> ccm_ReleaseDataRadioBearer rnti (Drbid2Lcid drbid) s;
     if set ccs \<subseteq> set (carrier_ids s)
     then Some (emit (SendRrcConnectionReconfiguration rnti (release_message drbid u))
            (emits (map (\<lambda>cc. CmacReleaseLc cc rnti (Drbid2Lcid drbid)) ccs) s))
     else None }"

definition DoSendReleaseDataRadioBearer :: "u64 \<Rightarrow> u16 \<Rightarrow> u8 \<Rightarrow> enb_rrc \<Rightarrow> enb_rrc option" where
  "DoSendReleaseDataRadioBearer imsi rnti bearerId s =
     (if HasUeManager rnti s then do {
        s \<leftarrow> ReleaseDataRadioBearer rnti bearerId s;
        if er_haveS1 s then Some (emit (S1SendReleaseIndication imsi rnti bearerId) s) else None }
      else Some s)"

section \<open>Removing a context\<close>

text \<open>
  With the context its pending events are cancelled and the tunnels of its bearers forgotten. The
  SRS index 0 is taken for "none".
\<close>

definition RemoveUe :: "u16 \<Rightarrow> enb_rrc \<Rightarrow> enb_rrc option" where
  "RemoveUe rnti s = do {
     u \<leftarrow> GetUeManager rnti s;
     let srsCi = pc_srsConfigIndex (um_physicalConfig u);
     _ \<leftarrow> ComponentCarrierToCellId (um_componentCarrierId u) s;
     let s = s\<lparr>er_ueMap := (er_ueMap s)(rnti := None)\<rparr>;
     let s = fold (\<lambda>(_, d). x2u_erase (db_gtpTeid d)) (um_drbMap u) s;
     let s = emits (concat (map (\<lambda>i. [CmacRemoveUe i rnti, CphyRemoveUe i rnti]) (carrier_ids s))) s;
     let s = (if er_haveS1 s then emit (S1UeContextRelease rnti) s else s);
     s \<leftarrow> ccm_RemoveUe rnti s;
     s \<leftarrow> (if srsCi \<noteq> 0 then RemoveSrsConfigurationIndex srsCi s else Some s);
     Some (emit (SapRemoveUe rnti) s) }"

definition RecvIdealUeContextRemoveRequest :: "u16 \<Rightarrow> enb_rrc \<Rightarrow> enb_rrc option" where
  "RecvIdealUeContextRemoveRequest rnti s = do {
     u \<leftarrow> GetUeManager rnti s;
     Some (if er_haveS1 s
           then emits (map (\<lambda>(drbid, _). S1SendReleaseIndication (um_imsi u) rnti drbid) (um_drbMap u)) s
           else s) }"

definition BuildHoPrepFailMsg :: "u16 \<Rightarrow> enb_rrc \<Rightarrow> ho_failure_params option" where
  "BuildHoPrepFailMsg rnti s = do {
     u \<leftarrow> GetUeManager rnti s;
     cell \<leftarrow> ComponentCarrierToCellId (um_componentCarrierId u) s;
     Some \<lparr>hf_oldEnbUeX2apId = um_sourceX2apId u, hf_sourceCellId = um_sourceCellId u,
           hf_targetCellId = cell, hf_cause = 0, hf_criticalityDiagnostics = 0\<rparr> }"

definition BuildHoCancelMsg :: "u16 \<Rightarrow> enb_rrc \<Rightarrow> ho_cancel_params option" where
  "BuildHoCancelMsg rnti s = do {
     u \<leftarrow> GetUeManager rnti s;
     cell \<leftarrow> ComponentCarrierToCellId (um_componentCarrierId u) s;
     Some \<lparr>hc_oldEnbUeX2apId = rnti, hc_newEnbUeX2apId = um_targetX2apId u, hc_sourceCellId = cell,
           hc_targetCellId = um_targetCellId u, hc_cause = 0\<rparr> }"

definition DoRecvIdealUeContextRemoveRequest :: "u16 \<Rightarrow> enb_rrc \<Rightarrow> enb_rrc option" where
  "DoRecvIdealUeContextRemoveRequest rnti s =
     (case GetUeManager rnti s of
        None \<Rightarrow> Some s
      | Some u \<Rightarrow> do {
          s \<leftarrow> (if um_state u = HANDOVER_JOINING
                then do { m \<leftarrow> BuildHoPrepFailMsg rnti s;
                          x2_emit (XHandoverPreparationFailure m) s }
                else Some s);
          s \<leftarrow> RecvIdealUeContextRemoveRequest rnti s;
          RemoveUe rnti s })"

definition um_SendRrcConnectionRelease :: "u16 \<Rightarrow> enb_rrc \<Rightarrow> enb_rrc option" where
  "um_SendRrcConnectionRelease rnti s = do {
     u \<leftarrow> GetUeManager rnti s;
     let (n, u) = GetNewRrcTransactionIdentifier u;
     s \<leftarrow> upd_ue rnti (\<lambda>_. u) s;
     DoRecvIdealUeContextRemoveRequest rnti (emit (SendRrcConnectionRelease rnti n) s) }"

section \<open>Messages of the UE\<close>

definition RecvRrcConnectionRequest :: "u16 \<Rightarrow> u64 \<Rightarrow> enb_rrc \<Rightarrow> enb_rrc option" where
  "RecvRrcConnectionRequest rnti ueIdentity s = do {
     u \<leftarrow> GetUeManager rnti s;
     if um_state u = INITIAL_RANDOM_ACCESS then do {
       s \<leftarrow> upd_ue rnti (um_cancel ConnectionRequestTimeout) s;
       if er_admitRrcConnectionRequest s then do {
         s \<leftarrow> upd_ue rnti (SetImsi ueIdentity) s;
         u \<leftarrow> GetUeManager rnti s;
         let (n, u) = GetNewRrcTransactionIdentifier u;
         s \<leftarrow> upd_ue rnti (\<lambda>_. u) s;
         let s = emit (SendRrcConnectionSetup rnti n (BuildRadioResourceConfigDedicated u)) s;
         s \<leftarrow> upd_ue rnti (um_schedule ConnectionSetupTimeout \<circ> RecordDataRadioBearersToBeStarted) s;
         SwitchToState rnti CONNECTION_SETUP s }
       else do {
         s \<leftarrow> upd_ue rnti (um_schedule ConnectionRejectedTimeout)
                (emit (SendRrcConnectionReject rnti 3) s);
         SwitchToState rnti CONNECTION_REJECTED s } }
     else None }"

definition RecvRrcConnectionSetupCompleted :: "u16 \<Rightarrow> enb_rrc \<Rightarrow> enb_rrc option" where
  "RecvRrcConnectionSetupCompleted rnti s = do {
     u \<leftarrow> GetUeManager rnti s;
     if um_state u = CONNECTION_SETUP then do {
       s \<leftarrow> upd_ue rnti (um_cancel ConnectionSetupTimeout) s;
       s \<leftarrow> (if \<not> um_caSupportConfigured u \<and> 1 < er_numberOfComponentCarriers s
             then upd_ue rnti (\<lambda>u. u\<lparr>um_pendingReconfiguration := True, um_pendingStart := True\<rparr>) s
             else Some s);
       if er_haveS1 s
       then SwitchToState rnti ATTACH_REQUEST (emit (S1InitialUeMessage (um_imsi u) rnti) s)
       else SwitchToState rnti CONNECTED_NORMALLY s }
     else None }"

text \<open>
  The packets that were forwarded to the target wait in the buffer until the UE has arrived. A bearer
  in RLC saturation mode has no PDCP entity.
\<close>

definition SendPacket :: "u16 \<Rightarrow> u8 \<Rightarrow> bytes \<Rightarrow> enb_rrc \<Rightarrow> enb_rrc option" where
  "SendPacket rnti bid p s = do {
     u \<leftarrow> GetUeManager rnti s;
     case map_of (um_drbMap u) (Bid2Drbid bid) of
       None \<Rightarrow> Some s
     | Some d \<Rightarrow> if db_havePdcp d then Some (emit (TransmitPdcpSdu rnti (Bid2Lcid bid) p) s) else None }"

definition flush_buffer :: "u16 \<Rightarrow> enb_rrc \<Rightarrow> enb_rrc option" where
  "flush_buffer rnti s = do {
     u \<leftarrow> GetUeManager rnti s;
     s \<leftarrow> fold_option (\<lambda>(bid, p). SendPacket rnti bid p) (um_packetBuffer u) s;
     upd_ue rnti (\<lambda>u. u\<lparr>um_packetBuffer := []\<rparr>) s }"

definition path_switch_params :: "u16 \<Rightarrow> u16 \<Rightarrow> ue_manager \<Rightarrow> path_switch" where
  "path_switch_params rnti cell u =
     \<lparr>ps_rnti = rnti, ps_cellId = cell, ps_mmeUeS1Id = ucast (um_imsi u),
      ps_bearers = map (\<lambda>(_, d). (db_epsBearerIdentity d, db_gtpTeid d)) (um_drbMap u)\<rparr>"

definition configure_phy_mac :: "u16 \<Rightarrow> ue_manager \<Rightarrow> enb_rrc \<Rightarrow> enb_rrc" where
  "configure_phy_mac rnti u s =
     (let pc = um_physicalConfig u
      in emits (concat (map (\<lambda>i.
           [CmacUeUpdateConfigurationReq i rnti (pc_transmissionMode pc),
            CphySetTransmissionMode i rnti (pc_transmissionMode pc),
            CphySetPa i rnti (pc_pa pc)]) (carrier_ids s))) s)"

definition RecvRrcConnectionReconfigurationCompleted :: "u16 \<Rightarrow> enb_rrc \<Rightarrow> enb_rrc option" where
  "RecvRrcConnectionReconfigurationCompleted rnti s = do {
     u \<leftarrow> GetUeManager rnti s;
     case um_state u of
       CONNECTION_RECONFIGURATION \<Rightarrow> do {
         s \<leftarrow> StartDataRadioBearers rnti s;
         s \<leftarrow> (if um_needPhyMacConfiguration u
               then upd_ue rnti (\<lambda>u. u\<lparr>um_needPhyMacConfiguration := False\<rparr>) (configure_phy_mac rnti u s)
               else Some s);
         SwitchToState rnti CONNECTED_NORMALLY s }
     | CONNECTED_NORMALLY \<Rightarrow> Some s
     | HANDOVER_LEAVING \<Rightarrow> Some s
     | HANDOVER_JOINING \<Rightarrow> do {
         s \<leftarrow> upd_ue rnti (um_cancel HandoverJoiningTimeout) s;
         s \<leftarrow> flush_buffer rnti s;
         cell \<leftarrow> ComponentCarrierToCellId (um_componentCarrierId u) s;
         s \<leftarrow> SwitchToState rnti HANDOVER_PATH_SWITCH s;
         u \<leftarrow> GetUeManager rnti s;
         if er_haveS1 s then Some (emit (S1PathSwitchRequest (path_switch_params rnti cell u)) s)
         else None }
     | _ \<Rightarrow> None }"

definition RecvRrcConnectionReestablishmentRequest :: "u16 \<Rightarrow> enb_rrc \<Rightarrow> enb_rrc option" where
  "RecvRrcConnectionReestablishmentRequest rnti s = do {
     u \<leftarrow> GetUeManager rnti s;
     s \<leftarrow> (case um_state u of
             CONNECTED_NORMALLY \<Rightarrow> Some s
           | HANDOVER_LEAVING \<Rightarrow> upd_ue rnti (um_cancel HandoverLeavingTimeout) s
           | _ \<Rightarrow> None);
     u \<leftarrow> GetUeManager rnti s;
     let (n, u) = GetNewRrcTransactionIdentifier u;
     s \<leftarrow> upd_ue rnti (\<lambda>_. u) s;
     let s = emit (SendRrcConnectionReestablishment rnti n (BuildRadioResourceConfigDedicated u)) s;
     SwitchToState rnti CONNECTION_REESTABLISHMENT s }"

definition RecvRrcConnectionReestablishmentComplete :: "u16 \<Rightarrow> enb_rrc \<Rightarrow> enb_rrc option" where
  "RecvRrcConnectionReestablishmentComplete rnti s = SwitchToState rnti CONNECTED_NORMALLY s"

text \<open>A report is handed to those who asked for it.\<close>

definition RecvMeasurementReport :: "u16 \<Rightarrow> meas_results \<Rightarrow> enb_rrc \<Rightarrow> enb_rrc option" where
  "RecvMeasurementReport rnti ms s = do {
     _ \<leftarrow> GetUeManager rnti s;
     let i = ms_measId ms;
     let s = (if er_haveHandoverAlgorithm s \<and> i \<in> set (er_handoverMeasIds s)
              then emit (HandoverReportUeMeas rnti ms) s else s);
     let s = (if i \<in> set (er_componentCarrierMeasIds s) then emit (CcmReportUeMeas rnti ms) s else s);
     let s = (if er_haveAnr s \<and> i \<in> set (er_anrMeasIds s) then emit (AnrReportUeMeas ms) s else s);
     let s = (if 0 < er_numberOfFfr s \<and> i \<in> set (er_ffrMeasIds s)
              then emit (FfrReportUeMeas 0 rnti ms) s else s);
     s \<leftarrow> (case ms_servFreqs ms of
             None \<Rightarrow> Some s
           | Some fs \<Rightarrow> if list_all (\<lambda>f. unat f < er_numberOfFfr s) fs
                        then Some (emits (map (\<lambda>f. FfrReportUeMeas f rnti ms) fs) s) else None);
     Some (emit (CcmReportUeMeas rnti ms) s) }"

definition um_InitialContextSetupRequest :: "u16 \<Rightarrow> enb_rrc \<Rightarrow> enb_rrc option" where
  "um_InitialContextSetupRequest rnti s = do {
     u \<leftarrow> GetUeManager rnti s;
     if um_state u = ATTACH_REQUEST then SwitchToState rnti CONNECTED_NORMALLY s else None }"

definition CmacUeConfigUpdateInd :: "u16 \<Rightarrow> u8 \<Rightarrow> enb_rrc \<Rightarrow> enb_rrc option" where
  "CmacUeConfigUpdateInd rnti mode s = do {
     s \<leftarrow> upd_ue rnti (\<lambda>u. u\<lparr>um_physicalConfig := (um_physicalConfig u)\<lparr>pc_transmissionMode := mode\<rparr>,
                             um_needPhyMacConfiguration := True\<rparr>) s;
     ScheduleRrcConnectionReconfiguration rnti s }"

definition SetPdschConfigDedicated :: "u16 \<Rightarrow> u8 \<Rightarrow> enb_rrc \<Rightarrow> enb_rrc option" where
  "SetPdschConfigDedicated rnti pa s = do {
     s \<leftarrow> upd_ue rnti (\<lambda>u. u\<lparr>um_physicalConfig := (um_physicalConfig u)\<lparr>pc_pa := pa\<rparr>,
                             um_needPhyMacConfiguration := True\<rparr>) s;
     ScheduleRrcConnectionReconfiguration rnti s }"

definition DoReceivePdcpSdu :: "u16 \<Rightarrow> u8 \<Rightarrow> bytes \<Rightarrow> enb_rrc \<Rightarrow> enb_rrc" where
  "DoReceivePdcpSdu rnti lcid p s = (if 2 < lcid then emit (ForwardUp rnti (Lcid2Bid lcid) p) s else s)"

section \<open>Handover: the source\<close>

definition GetErabList :: "ue_manager \<Rightarrow> x2_erab list" where
  "GetErabList u = map (\<lambda>(_, d).
     \<lparr>xe_erabId = ucast (db_epsBearerIdentity d), xe_qos = db_epsBearer d, xe_arp = arp_init,
      xe_dlForwarding = False, xe_transportLayerAddress = db_transportLayerAddress d,
      xe_gtpTeid = db_gtpTeid d\<rparr>) (um_drbMap u)"

text \<open>A handover to another cell of the same eNB does not use X2: the UE is sent off at once.\<close>

definition setup_bearer_of :: "u16 \<Rightarrow> drb_info \<Rightarrow> enb_rrc \<Rightarrow> enb_rrc option" where
  "setup_bearer_of rnti d =
     SetupDataRadioBearer rnti (db_epsBearer d) (db_epsBearerIdentity d) (db_gtpTeid d)
       (db_transportLayerAddress d)"

definition internal_handover :: "rrc_env \<Rightarrow> u16 \<Rightarrow> u16 \<Rightarrow> enb_rrc \<Rightarrow> enb_rrc option" where
  "internal_handover v rnti cellId s = do {
     u \<leftarrow> GetUeManager rnti s;
     source \<leftarrow> carrier_at (um_componentCarrierId u) s;
     cc \<leftarrow> CellToComponentCarrierId cellId s;
     (newRnti, s) \<leftarrow> AddUe v HANDOVER_JOINING cc s;
     let s = emit (CmacAllocateNcRaPreamble cc newRnti) s;
     preamble \<leftarrow> rv_preamble v cc newRnti;
     s \<leftarrow> upd_ue newRnti (SetImsi (um_imsi u) \<circ> SetSource (ca_cellId source) rnti) s;
     s \<leftarrow> fold_option (\<lambda>(_, d). setup_bearer_of newRnti d) (um_drbMap u) s;
     (m, s) \<leftarrow> GetRrcConnectionReconfigurationForHandover rnti cc s;
     c \<leftarrow> carrier_at cc s;
     let s = emit (SendRrcConnectionReconfiguration rnti (set_rach newRnti preamble (ca_rach c) m)) s;
     s \<leftarrow> SwitchToState rnti HANDOVER_LEAVING s;
     upd_ue rnti (um_schedule HandoverLeavingTimeout) s }"

definition handover_request_params :: "u16 \<Rightarrow> u16 \<Rightarrow> u16 \<Rightarrow> ue_manager \<Rightarrow> bytes \<Rightarrow> ho_request_params" where
  "handover_request_params rnti sourceCell targetCell u context =
     \<lparr>hq_oldEnbUeX2apId = rnti, hq_cause = 0, hq_sourceCellId = sourceCell,
      hq_targetCellId = targetCell, hq_mmeUeS1apId = ucast (um_imsi u), hq_ambrDl = 200000,
      hq_ambrUl = 100000, hq_bearers = GetErabList u, hq_rrcContext = Some context\<rparr>"

definition handover_preparation_info :: "u16 \<Rightarrow> ue_manager \<Rightarrow> carrier \<Rightarrow> ho_prep_info" where
  "handover_preparation_info rnti u c =
     \<lparr>hp_sourceUeIdentity = rnti, hp_sourceDlCarrierFreq = ca_dlEarfcn c,
      hp_sourceRadioResourceConfig = BuildRadioResourceConfigDedicated u,
      hp_dlBandwidth = ca_dlBandwidth c, hp_cellIdentity = ca_cellId c,
      hp_csgIndication = ca_csgIndication c, hp_csgIdentity = ca_csgIdentity c,
      hp_rachConfig = ca_rach c, hp_ulCarrierFreq = ca_ulEarfcn c, hp_ulBandwidth = ca_ulBandwidth c\<rparr>"

definition x2_handover :: "u16 \<Rightarrow> u16 \<Rightarrow> enb_rrc \<Rightarrow> enb_rrc option" where
  "x2_handover rnti cellId s = do {
     u \<leftarrow> GetUeManager rnti s;
     c \<leftarrow> carrier_at (um_componentCarrierId u) s;
     let (context, g) = EncodeHandoverPreparationInformation (handover_preparation_info rnti u c)
                          (er_ideal s);
     let s = s\<lparr>er_ideal := g\<rparr>;
     s \<leftarrow> x2_emit (XHandoverRequest
                (handover_request_params rnti (ca_cellId c) cellId u context)) s;
     SwitchToState rnti HANDOVER_PREPARATION s }"

definition PrepareHandover :: "rrc_env \<Rightarrow> u16 \<Rightarrow> u16 \<Rightarrow> enb_rrc \<Rightarrow> enb_rrc option" where
  "PrepareHandover v rnti cellId s = do {
     u \<leftarrow> GetUeManager rnti s;
     if um_state u = CONNECTED_NORMALLY then do {
       s \<leftarrow> upd_ue rnti (\<lambda>u. u\<lparr>um_targetCellId := cellId\<rparr>) s;
       if HasCellId cellId s then internal_handover v rnti cellId s else x2_handover rnti cellId s }
     else None }"

definition status_item :: "rrc_env \<Rightarrow> u16 \<Rightarrow> u8 \<Rightarrow> x2_status_item" where
  "status_item v rnti drbid =
     (let (txSn, rxSn) = rv_pdcpStatus v rnti drbid
      in \<lparr>xs_erabId = rv_statusErabId v, xs_receiveStatus = replicate x2_maxPdcpSn False,
          xs_ulPdcpSn = rxSn, xs_ulHfn = rv_statusUlHfn v, xs_dlPdcpSn = txSn,
          xs_dlHfn = rv_statusDlHfn v\<rparr>)"

text \<open>
  The source is told that the target is ready. The state is not checked; a command with secondary
  carriers must fit their number here.
\<close>

definition RecvHandoverRequestAck :: "rrc_env \<Rightarrow> u16 \<Rightarrow> ho_ack_params \<Rightarrow> enb_rrc \<Rightarrow> enb_rrc option" where
  "RecvHandoverRequestAck v rnti p s = do {
     context \<leftarrow> hk_rrcContext p;
     (command, g) \<leftarrow> DecodeHandoverCommand context (er_ideal s);
     let s = s\<lparr>er_ideal := g\<rparr>;
     if rc_haveNonCriticalExtension command \<and>
        length (rc_sCellToAddMod command) + 1 \<noteq> unat (er_numberOfComponentCarriers s)
     then None
     else do {
       let s = emit (SendRrcConnectionReconfiguration rnti command) s;
       s \<leftarrow> SwitchToState rnti HANDOVER_LEAVING s;
       s \<leftarrow> upd_ue rnti (\<lambda>u. (um_schedule HandoverLeavingTimeout u)
              \<lparr>um_targetX2apId := hk_newEnbUeX2apId p, um_targetCellId := hk_targetCellId p\<rparr>) s;
       u \<leftarrow> GetUeManager rnti s;
       x2_emit (XSnStatusTransfer
         \<lparr>hs_oldEnbUeX2apId = hk_oldEnbUeX2apId p, hs_newEnbUeX2apId = hk_newEnbUeX2apId p,
          hs_sourceCellId = hk_sourceCellId p, hs_targetCellId = hk_targetCellId p,
          hs_erabs = map (\<lambda>(drbid, _). status_item v rnti drbid)
                       (filter (\<lambda>(_, d). db_rlc d = LteRlcAm) (um_drbMap u))\<rparr>) s } }"

definition RecvHandoverPreparationFailure :: "u16 \<Rightarrow> enb_rrc \<Rightarrow> enb_rrc option" where
  "RecvHandoverPreparationFailure rnti s = do {
     u \<leftarrow> GetUeManager rnti s;
     case um_state u of
       HANDOVER_PREPARATION \<Rightarrow> SwitchToState rnti CONNECTED_NORMALLY s
     | HANDOVER_LEAVING \<Rightarrow> do {
         s \<leftarrow> upd_ue rnti (um_cancel HandoverLeavingTimeout) s;
         um_SendRrcConnectionRelease rnti s }
     | _ \<Rightarrow> None }"

section \<open>Data\<close>

definition um_SendData :: "u16 \<Rightarrow> u8 \<Rightarrow> bytes \<Rightarrow> enb_rrc \<Rightarrow> enb_rrc option" where
  "um_SendData rnti bid p s = do {
     u \<leftarrow> GetUeManager rnti s;
     if um_state u \<in> {INITIAL_RANDOM_ACCESS, CONNECTION_SETUP} then Some s
     else if um_state u \<in> {CONNECTED_NORMALLY, CONNECTION_RECONFIGURATION,
            CONNECTION_REESTABLISHMENT, HANDOVER_PREPARATION, HANDOVER_PATH_SWITCH}
     then SendPacket rnti bid p s
     else if um_state u = HANDOVER_JOINING
     then upd_ue rnti (\<lambda>u. u\<lparr>um_packetBuffer := um_packetBuffer u @ [(bid, p)]\<rparr>) s
     else if um_state u = HANDOVER_LEAVING then do {
       cell \<leftarrow> ComponentCarrierToCellId (um_componentCarrierId u) s;
       d \<leftarrow> GetDataRadioBearerInfo (Bid2Drbid bid) u;
       x2_emit (XUeData \<lparr>hd_sourceCellId = cell, hd_targetCellId = um_targetCellId u,
         hd_gtpTeid = db_gtpTeid d, hd_ueData = p\<rparr>) s }
     else None }"

section \<open>Handover: the end\<close>

text \<open>
  The source removes its context when the target has taken over. For a handover within the eNB the
  target calls the source directly.
\<close>

definition DoRecvUeContextRelease :: "ue_release_params \<Rightarrow> enb_rrc \<Rightarrow> enb_rrc option" where
  "DoRecvUeContextRelease p s =
     (let rnti = hu_oldEnbUeX2apId p
      in if HasUeManager rnti s then do {
           s \<leftarrow> upd_ue rnti (um_cancel HandoverLeavingTimeout) s;
           RemoveUe rnti s }
         else Some s)"

definition SendUeContextRelease :: "u16 \<Rightarrow> enb_rrc \<Rightarrow> enb_rrc option" where
  "SendUeContextRelease rnti s = do {
     u \<leftarrow> GetUeManager rnti s;
     if um_state u = HANDOVER_PATH_SWITCH then do {
       let p = \<lparr>hu_oldEnbUeX2apId = um_sourceX2apId u, hu_newEnbUeX2apId = rnti,
                hu_sourceCellId = um_sourceCellId u, hu_targetCellId = um_targetCellId u\<rparr>;
       s \<leftarrow> (if HasCellId (um_sourceCellId u) s then DoRecvUeContextRelease p s
             else x2_emit (XUeContextRelease p) s);
       SwitchToState rnti CONNECTED_NORMALLY s }
     else None }"

end
