(* ===== verification/HandoverAlgo.thy ===== *)
theory HandoverAlgo
  imports EnbRrcBase StdMap
begin

text \<open>
  What an eNB does with the measurements of its UEs: the neighbour relation table of
  \<^verbatim>\<open>src/lte/model/lte-anr.cc\<close> and the two handover algorithms, \<^verbatim>\<open>a3-rsrp-handover-algorithm.cc\<close> and
  \<^verbatim>\<open>a2-a4-rsrq-handover-algorithm.cc\<close>, with what they choose.
\<close>

section \<open>Automatic neighbour relations\<close>

record nrt_entry =
  nt_noRemove :: bool
  nt_noHo :: bool
  nt_noX2 :: bool
  nt_detectedAsNeighbour :: bool

record anr =
  an_table :: "u16 \<Rightarrow> nrt_entry option"
  an_measId :: u8
  an_servingCellId :: u16

definition AddNeighbourRelation :: "u16 \<Rightarrow> anr \<Rightarrow> anr option" where
  "AddNeighbourRelation cellId a =
     (if cellId = an_servingCellId a \<or> an_table a cellId \<noteq> None then None
      else Some (a\<lparr>an_table := (an_table a)(cellId \<mapsto>
             \<lparr>nt_noRemove = True, nt_noHo = True, nt_noX2 = False, nt_detectedAsNeighbour = False\<rparr>)\<rparr>))"

text \<open>
  The test is the wrong way round: an entry that exists is a fatal error, and without one the end
  iterator is erased.
\<close>

definition RemoveNeighbourRelation :: "u16 \<Rightarrow> anr \<Rightarrow> anr option" where
  "RemoveNeighbourRelation cellId a =
     (case an_table a cellId of
        Some _ \<Rightarrow> None
      | None \<Rightarrow> None)"

definition anr_detected :: "nrt_entry option \<Rightarrow> nrt_entry" where
  "anr_detected e =
     (case e of
        Some r \<Rightarrow> r\<lparr>nt_noHo := (if nt_noX2 r then nt_noHo r else False), nt_detectedAsNeighbour := True\<rparr>
      | None \<Rightarrow> \<lparr>nt_noRemove = False, nt_noHo = True, nt_noX2 = True, nt_detectedAsNeighbour = True\<rparr>)"

definition anr_DoReportUeMeas :: "meas_results \<Rightarrow> anr \<Rightarrow> anr" where
  "anr_DoReportUeMeas ms a =
     (if ms_measId ms \<noteq> an_measId a \<or> \<not> ms_haveNeighCells ms then a
      else a\<lparr>an_table := fold (\<lambda>n t. t(me_physCellId n \<mapsto> anr_detected (t (me_physCellId n))))
               (ms_neighCells ms) (an_table a)\<rparr>)"

definition anr_GetNoRemove :: "u16 \<Rightarrow> anr \<Rightarrow> bool option" where
  "anr_GetNoRemove cellId a = map_option nt_noRemove (an_table a cellId)"

definition anr_GetNoHo :: "u16 \<Rightarrow> anr \<Rightarrow> bool option" where
  "anr_GetNoHo cellId a = map_option nt_noHo (an_table a cellId)"

definition anr_GetNoX2 :: "u16 \<Rightarrow> anr \<Rightarrow> bool option" where
  "anr_GetNoX2 cellId a = map_option nt_noX2 (an_table a cellId)"

section \<open>The best neighbour\<close>

text \<open>
  The search that both algorithms make: the first cell with the largest value above 0; 0 stands for
  none. Every neighbour is valid.
\<close>

definition IsValidNeighbour :: "u16 \<Rightarrow> bool" where
  "IsValidNeighbour cellId = True"

fun best_neighbour :: "(u16 \<times> u8) list \<Rightarrow> u16 \<times> u8 \<Rightarrow> u16 \<times> u8" where
  "best_neighbour [] b = b"
| "best_neighbour ((cell, x) # ns) b =
     best_neighbour ns (if snd b < x \<and> IsValidNeighbour cell then (cell, x) else b)"

lemma best_neighbour_max:
  "best_neighbour ns b \<in> insert b (set ns) \<and>
   snd b \<le> snd (best_neighbour ns b) \<and> (\<forall>n\<in>set ns. snd n \<le> snd (best_neighbour ns b))"
proof (induction ns b rule: best_neighbour.induct)
  case (1 b)
  then show ?case by simp
next
  case (2 cell x ns b)
  then show ?case
    by (cases "snd b < x") (auto simp: IsValidNeighbour_def)
qed

text \<open>A cell is named only together with a value above 0.\<close>

lemma best_neighbour_zero:
  "best_neighbour ns b = (cell, x) \<Longrightarrow> (cell, x) = b \<or> snd b < x"
  by (induction ns b rule: best_neighbour.induct) (fastforce split: if_splits)+

section \<open>A3: strongest cell\<close>

record a3 =
  a3_measIds :: "u8 list"

definition rsrp_reported :: "meas_eutra list \<Rightarrow> (u16 \<times> u8) list" where
  "rsrp_reported ns = concat (map (\<lambda>n. case me_rsrp n of None \<Rightarrow> [] | Some x \<Rightarrow> [(me_physCellId n, x)]) ns)"

text \<open>The call of \<^verbatim>\<open>TriggerHandover\<close>, if there is one.\<close>

definition a3_DoReportUeMeas :: "u16 \<Rightarrow> meas_results \<Rightarrow> a3 \<Rightarrow> (u16 \<times> u16) option" where
  "a3_DoReportUeMeas rnti ms a =
     (if ms_measId ms \<notin> set (a3_measIds a) \<or> \<not> ms_haveNeighCells ms then None
      else let (cell, _) = best_neighbour (rsrp_reported (ms_neighCells ms)) (0, 0)
           in if 0 < cell then Some (rnti, cell) else None)"

section \<open>A2-A4: serving cell bad, neighbour better\<close>

text \<open>The rows of the table in the order of the cells.\<close>

record a2a4 =
  a4_a2MeasIds :: "u8 list"
  a4_a4MeasIds :: "u8 list"
  a4_neighbourCellOffset :: u8
  a4_measures :: "u16 \<Rightarrow> (u16 \<times> u8) list option"

definition UpdateNeighbourMeasurements :: "u16 \<Rightarrow> u16 \<Rightarrow> u8 \<Rightarrow> a2a4 \<Rightarrow> a2a4" where
  "UpdateNeighbourMeasurements rnti cellId rsrq a =
     (let row = (case a4_measures a rnti of None \<Rightarrow> [] | Some r \<Rightarrow> r)
      in a\<lparr>a4_measures := (a4_measures a)(rnti \<mapsto> smap_put cellId rsrq row)\<rparr>)"

definition EvaluateHandover :: "u16 \<Rightarrow> u8 \<Rightarrow> a2a4 \<Rightarrow> (u16 \<times> u16) option" where
  "EvaluateHandover rnti servingCellRsrq a =
     (case a4_measures a rnti of
        None \<Rightarrow> None
      | Some row \<Rightarrow>
          let (cell, rsrq) = best_neighbour row (0, 0)
          in if 0 < cell \<and> uint (a4_neighbourCellOffset a) \<le> uint rsrq - uint servingCellRsrq
             then Some (rnti, cell) else None)"

text \<open>That a neighbour has an RSRQ is only asserted; \<open>unset\<close> is the member that was not set.\<close>

definition a2a4_DoReportUeMeas :: "u8 \<Rightarrow> u16 \<Rightarrow> meas_results \<Rightarrow> a2a4 \<Rightarrow> (u16 \<times> u16) option \<times> a2a4" where
  "a2a4_DoReportUeMeas unset rnti ms a =
     (if ms_measId ms \<in> set (a4_a2MeasIds a) then (EvaluateHandover rnti (ms_pcellRsrq ms) a, a)
      else if ms_measId ms \<in> set (a4_a4MeasIds a) \<and> ms_haveNeighCells ms
      then (None, fold (\<lambda>n. UpdateNeighbourMeasurements rnti (me_physCellId n)
                  (case me_rsrq n of None \<Rightarrow> unset | Some x \<Rightarrow> x)) (ms_neighCells ms) a)
      else (None, a))"

section \<open>What the algorithms choose\<close>

lemma rsrp_reported_set:
  "(cell, x) \<in> set (rsrp_reported ns) \<longleftrightarrow> (\<exists>n\<in>set ns. me_physCellId n = cell \<and> me_rsrp n = Some x)"
  unfolding rsrp_reported_def by (force split: option.splits)

lemma a3_chooses:
  assumes "a3_DoReportUeMeas rnti ms a = Some (r, cell)"
  shows "r = rnti \<and> (\<exists>n\<in>set (ms_neighCells ms). me_physCellId n = cell \<and>
    (\<exists>x. me_rsrp n = Some x \<and> 0 < x \<and>
      (\<forall>m\<in>set (ms_neighCells ms). \<forall>y. me_rsrp m = Some y \<longrightarrow> y \<le> x)))"
proof -
  let ?ns = "rsrp_reported (ms_neighCells ms)"
  obtain c x where b: "best_neighbour ?ns (0, 0) = (c, x)"
    by fastforce
  from assms b have c: "r = rnti" "cell = c" "0 < c"
    by (auto simp: a3_DoReportUeMeas_def Let_def split: if_splits)
  note m = best_neighbour_max [of ?ns "(0, 0)", unfolded b]
  from m c(3) have "(c, x) \<in> set ?ns"
    by auto
  then obtain n where n: "n \<in> set (ms_neighCells ms)" "me_physCellId n = c" "me_rsrp n = Some x"
    by (auto simp: rsrp_reported_set)
  have "y \<le> x" if "m \<in> set (ms_neighCells ms)" "me_rsrp m = Some y" for m y
    using m rsrp_reported_set [of "me_physCellId m" y "ms_neighCells ms"] that by fastforce
  moreover have "0 < x"
    using b c(3) best_neighbour_zero by fastforce
  ultimately show ?thesis
    using c n by auto
qed

end
