(* ===== verification/EnbRrc.thy ===== *)
theory EnbRrc
  imports EnbRrcHandlers HandoverAlgo
begin

text \<open>
  \<^verbatim>\<open>LteEnbRrc\<close> of \<^verbatim>\<open>src/lte/model/lte-enb-rrc.cc\<close>: the timers, the messages of the UEs and of the core
  network, X2 and the calls of the MAC, the scheduler and the handover algorithm. The messages of
  the SAPs are a data type; the entity handles one at a time.
\<close>

section \<open>Timers\<close>

text \<open>
  A timer that fires is no longer pending. The asserted state is part of the invariant. The two
  handover timers call X2, also when the other cell belongs to the same eNB, to which there is no
  X2 interface.
\<close>

definition fired :: "ue_timer \<Rightarrow> u16 \<Rightarrow> enb_rrc \<Rightarrow> enb_rrc option" where
  "fired t rnti s = upd_ue rnti (um_cancel t) s"

definition do_HandoverJoiningTimeout :: "u16 \<Rightarrow> enb_rrc \<Rightarrow> enb_rrc option" where
  "do_HandoverJoiningTimeout rnti s = do {
     m \<leftarrow> BuildHoPrepFailMsg rnti s;
     s \<leftarrow> x2_emit (XHandoverPreparationFailure m) s;
     RemoveUe rnti s }"

definition do_HandoverLeavingTimeout :: "u16 \<Rightarrow> enb_rrc \<Rightarrow> enb_rrc option" where
  "do_HandoverLeavingTimeout rnti s = do {
     m \<leftarrow> BuildHoCancelMsg rnti s;
     s \<leftarrow> x2_emit (XHandoverCancel m) s;
     um_SendRrcConnectionRelease rnti s }"

definition rrc_timeout :: "ue_timer \<Rightarrow> u16 \<Rightarrow> enb_rrc \<Rightarrow> enb_rrc option" where
  "rrc_timeout t rnti s = do {
     s \<leftarrow> fired t rnti s;
     case t of
       ConnectionRequestTimeout \<Rightarrow> RemoveUe rnti s
     | ConnectionSetupTimeout \<Rightarrow> RemoveUe rnti s
     | ConnectionRejectedTimeout \<Rightarrow> RemoveUe rnti s
     | HandoverJoiningTimeout \<Rightarrow> do_HandoverJoiningTimeout rnti s
     | HandoverLeavingTimeout \<Rightarrow> do_HandoverLeavingTimeout rnti s }"

section \<open>Handover: the target\<close>

definition prep_failure_for :: "ho_request_params \<Rightarrow> ho_failure_params" where
  "prep_failure_for req =
     \<lparr>hf_oldEnbUeX2apId = hq_oldEnbUeX2apId req, hf_sourceCellId = hq_sourceCellId req,
      hf_targetCellId = hq_targetCellId req, hf_cause = 0, hf_criticalityDiagnostics = 0\<rparr>"

definition setup_bearer_for :: "u16 \<Rightarrow> x2_erab \<Rightarrow> enb_rrc \<Rightarrow> enb_rrc option" where
  "setup_bearer_for rnti e =
     SetupDataRadioBearer rnti (xe_qos e) (ucast (xe_erabId e)) (xe_gtpTeid e)
       (xe_transportLayerAddress e)"

definition admitted_for :: "rrc_env \<Rightarrow> x2_erab \<Rightarrow> x2_admitted" where
  "admitted_for v e = \<lparr>xa_erabId = xe_erabId e, xa_ulGtpTeid = rv_admittedUlTeid v,
     xa_dlGtpTeid = rv_admittedDlTeid v\<rparr>"

text \<open>
  The target refuses when it does not admit handovers or has no SRS index; it fails when there is no
  preamble; otherwise it builds the command that the source passes to the UE.
\<close>

definition accept_handover ::
    "rrc_env \<Rightarrow> ho_request_params \<Rightarrow> u8 \<Rightarrow> u16 \<Rightarrow> u8 \<times> u8 \<Rightarrow> enb_rrc \<Rightarrow> enb_rrc option" where
  "accept_handover v req cc rnti preamble s = do {
     s \<leftarrow> fold_option (setup_bearer_for rnti) (hq_bearers req) s;
     (m, s) \<leftarrow> GetRrcConnectionReconfigurationForHandover rnti cc s;
     c \<leftarrow> carrier_at cc s;
     let m = set_connEstFailCount (ca_rach c) (set_rach rnti preamble (ca_rach c) m);
     let (context, g) = EncodeHandoverCommand m (er_ideal s);
     let s = s\<lparr>er_ideal := g\<rparr>;
     x2_emit (XHandoverRequestAck
       \<lparr>hk_oldEnbUeX2apId = hq_oldEnbUeX2apId req, hk_newEnbUeX2apId = rnti,
        hk_sourceCellId = hq_sourceCellId req, hk_targetCellId = hq_targetCellId req,
        hk_admitted = map (admitted_for v) (hq_bearers req), hk_notAdmitted = [],
        hk_rrcContext = Some context\<rparr>) s }"

definition DoRecvHandoverRequest :: "rrc_env \<Rightarrow> ho_request_params \<Rightarrow> enb_rrc \<Rightarrow> enb_rrc option" where
  "DoRecvHandoverRequest v req s = do {
     full \<leftarrow> (if er_admitHandoverRequest s then IsMaxSrsReached s else Some True);
     if full then x2_emit (XHandoverPreparationFailure (prep_failure_for req)) s
     else do {
       cc \<leftarrow> CellToComponentCarrierId (hq_targetCellId req) s;
       (rnti, s) \<leftarrow> AddUe v HANDOVER_JOINING cc s;
       s \<leftarrow> upd_ue rnti (SetImsi (ucast (hq_mmeUeS1apId req)) \<circ>
              SetSource (hq_sourceCellId req) (hq_oldEnbUeX2apId req)) s;
       let s = emit (CmacAllocateNcRaPreamble cc rnti) s;
       case rv_preamble v cc rnti of
         None \<Rightarrow> do {
           m \<leftarrow> BuildHoPrepFailMsg rnti s;
           s \<leftarrow> x2_emit (XHandoverPreparationFailure m) s;
           RemoveUe rnti s }
       | Some preamble \<Rightarrow> accept_handover v req cc rnti preamble s } }"

section \<open>Messages from X2\<close>

text \<open>The status of the PDCP entities is received and not used.\<close>

definition DoRecvSnStatusTransfer :: "sn_status_params \<Rightarrow> enb_rrc \<Rightarrow> enb_rrc" where
  "DoRecvSnStatusTransfer p s = s"

definition DoRecvHandoverRequestAck :: "rrc_env \<Rightarrow> ho_ack_params \<Rightarrow> enb_rrc \<Rightarrow> enb_rrc option" where
  "DoRecvHandoverRequestAck v p s = RecvHandoverRequestAck v (hk_oldEnbUeX2apId p) p s"

definition DoRecvHandoverPreparationFailure :: "ho_failure_params \<Rightarrow> enb_rrc \<Rightarrow> enb_rrc option" where
  "DoRecvHandoverPreparationFailure p s =
     (if HasUeManager (hf_oldEnbUeX2apId p) s
      then RecvHandoverPreparationFailure (hf_oldEnbUeX2apId p) s else Some s)"

text \<open>
  A cancelled context stays, without its timer: only the core network is told that the bearers are
  gone.
\<close>

definition DoRecvHandoverCancel :: "ho_cancel_params \<Rightarrow> enb_rrc \<Rightarrow> enb_rrc option" where
  "DoRecvHandoverCancel p s =
     (let rnti = hc_newEnbUeX2apId p
      in if HasUeManager rnti s then do {
           s \<leftarrow> upd_ue rnti (um_cancel HandoverJoiningTimeout) s;
           RecvIdealUeContextRemoveRequest rnti s }
         else Some s)"

definition DoRecvLoadInformation :: "load_info_params \<Rightarrow> enb_rrc \<Rightarrow> enb_rrc option" where
  "DoRecvLoadInformation p s =
     (if er_numberOfFfr s = 0 then None else Some (emit (FfrRecvLoadInformation p) s))"

definition DoRecvUeData :: "ue_data_params \<Rightarrow> enb_rrc \<Rightarrow> enb_rrc option" where
  "DoRecvUeData p s =
     (case er_x2uTeidInfo s (hd_gtpTeid p) of
        None \<Rightarrow> None
      | Some (rnti, drbid) \<Rightarrow> um_SendData rnti drbid (hd_ueData p) s)"

fun rrc_RecvX2 :: "rrc_env \<Rightarrow> x2_message \<Rightarrow> enb_rrc \<Rightarrow> enb_rrc option" where
  "rrc_RecvX2 v (XHandoverRequest p) s = DoRecvHandoverRequest v p s"
| "rrc_RecvX2 v (XHandoverRequestAck p) s = DoRecvHandoverRequestAck v p s"
| "rrc_RecvX2 v (XHandoverPreparationFailure p) s = DoRecvHandoverPreparationFailure p s"
| "rrc_RecvX2 v (XSnStatusTransfer p) s = Some (DoRecvSnStatusTransfer p s)"
| "rrc_RecvX2 v (XUeContextRelease p) s = DoRecvUeContextRelease p s"
| "rrc_RecvX2 v (XLoadInformation p) s = DoRecvLoadInformation p s"
| "rrc_RecvX2 v (XResourceStatusUpdate p) s = Some s"
| "rrc_RecvX2 v (XUeData p) s = DoRecvUeData p s"
| "rrc_RecvX2 v (XHandoverCancel p) s = DoRecvHandoverCancel p s"

section \<open>MAC, scheduler, handover algorithm\<close>

definition DoAllocateTemporaryCellRnti :: "rrc_env \<Rightarrow> u8 \<Rightarrow> enb_rrc \<Rightarrow> (u16 \<times> enb_rrc) option" where
  "DoAllocateTemporaryCellRnti v cc s = do {
     full \<leftarrow> IsMaxSrsReached s;
     if full then Some (0, s) else AddUe v INITIAL_RANDOM_ACCESS cc s }"

text \<open>The argument \<open>a\<close> is the neighbour relation function of the cell; without an entry \<^verbatim>\<open>Find\<close> is fatal.\<close>

definition DoTriggerHandover :: "anr \<Rightarrow> u16 \<Rightarrow> u16 \<Rightarrow> enb_rrc \<Rightarrow> rrc_env \<Rightarrow> enb_rrc option" where
  "DoTriggerHandover a rnti targetCellId s v = do {
     u \<leftarrow> GetUeManager rnti s;
     allowed \<leftarrow> (if er_haveAnr s \<and> \<not> HasCellId targetCellId s then do {
                    noHo \<leftarrow> anr_GetNoHo targetCellId a;
                    noX2 \<leftarrow> anr_GetNoX2 targetCellId a;
                    Some (\<not> (noHo \<or> noX2)) }
                  else Some True);
     if allowed \<and> um_state u = CONNECTED_NORMALLY then PrepareHandover v rnti targetCellId s
     else Some s }"

definition SendHandoverRequest :: "rrc_env \<Rightarrow> u16 \<Rightarrow> u16 \<Rightarrow> enb_rrc \<Rightarrow> enb_rrc option" where
  "SendHandoverRequest v rnti cellId s = PrepareHandover v rnti cellId s"

definition um_SetSrsConfigurationIndex :: "u16 \<Rightarrow> u16 \<Rightarrow> enb_rrc \<Rightarrow> enb_rrc option" where
  "um_SetSrsConfigurationIndex rnti srs s = do {
     u \<leftarrow> GetUeManager rnti s;
     s \<leftarrow> upd_ue rnti (\<lambda>u. u\<lparr>um_physicalConfig := (um_physicalConfig u)\<lparr>pc_srsConfigIndex := srs\<rparr>\<rparr>) s;
     let s = emits (map (\<lambda>i. CphySetSrsConfigurationIndex i rnti srs) (carrier_ids s)) s;
     if um_state u = INITIAL_RANDOM_ACCESS then Some s
     else ScheduleRrcConnectionReconfiguration rnti s }"

definition rrc_IsRandomAccessCompleted :: "u16 \<Rightarrow> enb_rrc \<Rightarrow> bool option" where
  "rrc_IsRandomAccessCompleted rnti s =
     map_option (\<lambda>u. um_state u \<in> {CONNECTED_NORMALLY, CONNECTION_RECONFIGURATION}) (GetUeManager rnti s)"

definition rrc_DoSendLoadInformation :: "load_info_params \<Rightarrow> enb_rrc \<Rightarrow> enb_rrc option" where
  "rrc_DoSendLoadInformation p s = x2_emit (XLoadInformation p) s"

section \<open>Core network\<close>

definition DoInitialContextSetupRequest :: "u16 \<Rightarrow> enb_rrc \<Rightarrow> enb_rrc option" where
  "DoInitialContextSetupRequest rnti s = um_InitialContextSetupRequest rnti s"

definition DoDataRadioBearerSetupRequest ::
    "u16 \<Rightarrow> eps_bearer \<Rightarrow> u8 \<Rightarrow> u32 \<Rightarrow> ipv4 \<Rightarrow> enb_rrc \<Rightarrow> enb_rrc option" where
  "DoDataRadioBearerSetupRequest rnti bearer bearerId gtpTeid addr s =
     SetupDataRadioBearer rnti bearer bearerId gtpTeid addr s"

definition DoPathSwitchRequestAcknowledge :: "u16 \<Rightarrow> enb_rrc \<Rightarrow> enb_rrc option" where
  "DoPathSwitchRequestAcknowledge rnti s = SendUeContextRelease rnti s"

definition rrc_SendData :: "u16 \<Rightarrow> u8 \<Rightarrow> bytes \<Rightarrow> enb_rrc \<Rightarrow> enb_rrc option" where
  "rrc_SendData rnti bid p s = um_SendData rnti bid p s"

section \<open>The entity as a whole\<close>

text \<open>A call that the entity receives.\<close>

datatype rrc_event =
    MacAllocateTemporaryCellRnti u8
  | UeConnectionRequest u16 u64
  | UeConnectionSetupCompleted u16
  | UeReconfigurationCompleted u16
  | UeReestablishmentRequest u16
  | UeReestablishmentComplete u16
  | UeMeasurementReport u16 meas_results
  | UeContextRemoveRequest u16
  | S1InitialContextSetup u16
  | S1DataRadioBearerSetup u16 eps_bearer u8 u32 ipv4
  | S1PathSwitchAcknowledge u16
  | S1Data u16 u8 bytes
  | ReleaseBearer u64 u16 u8
  | FromX2 x2_message
  | MacConfigUpdate u16 u8
  | FfrSetPdsch u16 u8
  | FfrSendLoad load_info_params
  | TriggerHandover anr u16 u16
  | PdcpReceived u16 u8 bytes
  | TimerFires ue_timer u16

fun rrc_handle :: "rrc_env \<Rightarrow> rrc_event \<Rightarrow> enb_rrc \<Rightarrow> enb_rrc option" where
  "rrc_handle v (MacAllocateTemporaryCellRnti cc) s = map_option snd (DoAllocateTemporaryCellRnti v cc s)"
| "rrc_handle v (UeConnectionRequest rnti imsi) s = RecvRrcConnectionRequest rnti imsi s"
| "rrc_handle v (UeConnectionSetupCompleted rnti) s = RecvRrcConnectionSetupCompleted rnti s"
| "rrc_handle v (UeReconfigurationCompleted rnti) s = RecvRrcConnectionReconfigurationCompleted rnti s"
| "rrc_handle v (UeReestablishmentRequest rnti) s = RecvRrcConnectionReestablishmentRequest rnti s"
| "rrc_handle v (UeReestablishmentComplete rnti) s = RecvRrcConnectionReestablishmentComplete rnti s"
| "rrc_handle v (UeMeasurementReport rnti ms) s = RecvMeasurementReport rnti ms s"
| "rrc_handle v (UeContextRemoveRequest rnti) s = DoRecvIdealUeContextRemoveRequest rnti s"
| "rrc_handle v (S1InitialContextSetup rnti) s = DoInitialContextSetupRequest rnti s"
| "rrc_handle v (S1DataRadioBearerSetup rnti b i teid addr) s =
     DoDataRadioBearerSetupRequest rnti b i teid addr s"
| "rrc_handle v (S1PathSwitchAcknowledge rnti) s = DoPathSwitchRequestAcknowledge rnti s"
| "rrc_handle v (S1Data rnti bid p) s = rrc_SendData rnti bid p s"
| "rrc_handle v (ReleaseBearer imsi rnti bid) s = DoSendReleaseDataRadioBearer imsi rnti bid s"
| "rrc_handle v (FromX2 m) s = rrc_RecvX2 v m s"
| "rrc_handle v (MacConfigUpdate rnti mode) s = CmacUeConfigUpdateInd rnti mode s"
| "rrc_handle v (FfrSetPdsch rnti pa) s = SetPdschConfigDedicated rnti pa s"
| "rrc_handle v (FfrSendLoad p) s = rrc_DoSendLoadInformation p s"
| "rrc_handle v (TriggerHandover a rnti cell) s = DoTriggerHandover a rnti cell s v"
| "rrc_handle v (PdcpReceived rnti lcid p) s =
     (if HasUeManager rnti s then Some (DoReceivePdcpSdu rnti lcid p s) else Some s)"
| "rrc_handle v (TimerFires t rnti) s = rrc_timeout t rnti s"

text \<open>
  The entity with a configuration: no contexts, no calls made. The random values are the members that
  a configuration sets.
\<close>

record rrc_config =
  rcf_carriers :: "(u8 \<times> carrier) list"
  rcf_srsPeriodicityId :: u16
  rcf_referenceSignalPower :: "8 word"
  rcf_defaultTransmissionMode :: u8
  rcf_bearerToRlc :: bearer_to_rlc
  rcf_admitHandoverRequest :: bool
  rcf_admitRrcConnectionRequest :: bool
  rcf_haveS1 :: bool
  rcf_haveHandoverAlgorithm :: bool
  rcf_haveAnr :: bool
  rcf_numberOfFfr :: nat
  rcf_measIds :: "u8 list \<times> u8 list \<times> u8 list \<times> u8 list"
  rcf_x2Cells :: "u16 list"

definition ideal_init :: ideal_rrc where
  "ideal_init = \<lparr>ir_prepInfoMap = (\<lambda>_. None), ir_prepInfoCounter = 0, ir_commandMap = (\<lambda>_. None),
     ir_commandCounter = 0\<rparr>"

definition rrc_init :: "rrc_config \<Rightarrow> enb_rrc" where
  "rrc_init f =
     \<lparr>er_ueMap = (\<lambda>_. None), er_lastAllocatedRnti = 0, er_x2uTeidInfo = (\<lambda>_. None),
      er_srsPeriodicityId = rcf_srsPeriodicityId f, er_srsSet = [], er_lastSrsIndex = 0,
      er_carriers = rcf_carriers f, er_numberOfComponentCarriers = of_nat (length (rcf_carriers f)),
      er_referenceSignalPower = rcf_referenceSignalPower f,
      er_defaultTransmissionMode = rcf_defaultTransmissionMode f,
      er_bearerToRlc = rcf_bearerToRlc f, er_admitHandoverRequest = rcf_admitHandoverRequest f,
      er_admitRrcConnectionRequest = rcf_admitRrcConnectionRequest f, er_haveS1 = rcf_haveS1 f,
      er_haveHandoverAlgorithm = rcf_haveHandoverAlgorithm f, er_haveAnr = rcf_haveAnr f,
      er_numberOfFfr = rcf_numberOfFfr f, er_handoverMeasIds = fst (rcf_measIds f),
      er_componentCarrierMeasIds = fst (snd (rcf_measIds f)),
      er_anrMeasIds = fst (snd (snd (rcf_measIds f))),
      er_ffrMeasIds = snd (snd (snd (rcf_measIds f))), er_ccm = (\<lambda>_. None), er_ideal = ideal_init,
      er_x2Cells = rcf_x2Cells f, er_out = []\<rparr>"

end
