(* ===== verification/EnbRrcInv.thy ===== *)
theory EnbRrcInv
  imports EnbRrc
begin

text \<open>
  The invariant of the eNB RRC: SRS indices and RNTIs are not shared, the table for forwarded data
  leads to bearers that exist, a pending timer fits the state of its context. It is stated on two
  views of the entity, so that most operations are seen to leave one of them alone.
\<close>

section \<open>Views\<close>

definition um_srs :: "ue_manager \<Rightarrow> u16" where
  "um_srs u = pc_srsConfigIndex (um_physicalConfig u)"

definition ctx_core :: "ue_manager \<Rightarrow> u16 \<times> u8 \<times> (u8 \<times> drb_info) list" where
  "ctx_core u = (um_srs u, um_componentCarrierId u, um_drbMap u)"

definition ctx_phase :: "ue_manager \<Rightarrow> ue_state \<times> (ue_timer \<Rightarrow> bool)" where
  "ctx_phase u = (um_state u, um_pending u)"

definition rrc_ctxs :: "enb_rrc \<Rightarrow> u16 \<Rightarrow> (u16 \<times> u8 \<times> (u8 \<times> drb_info) list) option" where
  "rrc_ctxs s = (\<lambda>r. map_option ctx_core (er_ueMap s r))"

definition rrc_phase :: "enb_rrc \<Rightarrow> u16 \<Rightarrow> (ue_state \<times> (ue_timer \<Rightarrow> bool)) option" where
  "rrc_phase s = (\<lambda>r. map_option ctx_phase (er_ueMap s r))"

definition rrc_rest :: "enb_rrc \<Rightarrow> u16 \<times> u16 list \<times> (u32 \<Rightarrow> (u16 \<times> u8) option) \<times>
    (u8 \<times> carrier) list \<times> u16 \<times> (u16 \<Rightarrow> bool)" where
  "rrc_rest s = (er_srsPeriodicityId s, er_srsSet s, er_x2uTeidInfo s, er_carriers s,
     er_numberOfComponentCarriers s, (\<lambda>r. er_ccm s r = None))"

definition same_core :: "enb_rrc \<Rightarrow> enb_rrc \<Rightarrow> bool" where
  "same_core s s' \<longleftrightarrow> rrc_ctxs s' = rrc_ctxs s \<and> rrc_rest s' = rrc_rest s"

named_theorems core_intros \<open>operations that leave the core of the state alone\<close>

lemma same_core_refl [simp, core_intros]: "same_core s s"
  by (simp add: same_core_def)

lemma same_core_trans [trans]: "same_core s t \<Longrightarrow> same_core t u \<Longrightarrow> same_core s u"
  by (simp add: same_core_def)

lemma same_core_emit [simp]:
  "same_core (emit a s) t \<longleftrightarrow> same_core s t" "same_core (emits as s) t \<longleftrightarrow> same_core s t"
  "same_core t (emit a s) \<longleftrightarrow> same_core t s" "same_core t (emits as s) \<longleftrightarrow> same_core t s"
  by (simp_all add: same_core_def rrc_ctxs_def rrc_rest_def emit_def emits_def)

lemma emit_fields [simp]:
  "er_ueMap (emit a s) = er_ueMap s" "er_ueMap (emits as s) = er_ueMap s"
  "er_srsSet (emit a s) = er_srsSet s" "er_srsSet (emits as s) = er_srsSet s"
  "er_ccm (emit a s) = er_ccm s" "er_ccm (emits as s) = er_ccm s"
  "er_carriers (emit a s) = er_carriers s" "er_carriers (emits as s) = er_carriers s"
  "er_x2uTeidInfo (emit a s) = er_x2uTeidInfo s" "er_x2uTeidInfo (emits as s) = er_x2uTeidInfo s"
  "er_srsPeriodicityId (emit a s) = er_srsPeriodicityId s"
  "er_srsPeriodicityId (emits as s) = er_srsPeriodicityId s"
  "er_ideal (emit a s) = er_ideal s" "er_ideal (emits as s) = er_ideal s"
  "er_x2Cells (emit a s) = er_x2Cells s" "er_x2Cells (emits as s) = er_x2Cells s"
  "er_haveS1 (emit a s) = er_haveS1 s" "er_haveS1 (emits as s) = er_haveS1 s"
  "er_numberOfComponentCarriers (emit a s) = er_numberOfComponentCarriers s"
  "er_numberOfComponentCarriers (emits as s) = er_numberOfComponentCarriers s"
  "er_lastAllocatedRnti (emit a s) = er_lastAllocatedRnti s"
  "er_lastAllocatedRnti (emits as s) = er_lastAllocatedRnti s"
  "rrc_phase (emit a s) = rrc_phase s" "rrc_phase (emits as s) = rrc_phase s"
  by (simp_all add: emit_def emits_def rrc_phase_def)

lemma upd_ue_eq:
  "upd_ue r f s = Some s' \<longleftrightarrow>
     (\<exists>u. er_ueMap s r = Some u \<and> s' = s\<lparr>er_ueMap := (er_ueMap s)(r \<mapsto> f u)\<rparr>)"
  by (auto simp: upd_ue_def split: option.splits)

lemma upd_ue_core:
  assumes "upd_ue r f s = Some s'" and "\<And>u. er_ueMap s r = Some u \<Longrightarrow> ctx_core (f u) = ctx_core u"
  shows "same_core s s'"
  using assms by (auto simp: upd_ue_eq same_core_def rrc_ctxs_def rrc_rest_def fun_eq_iff)

lemma upd_ue_phase:
  assumes "upd_ue r f s = Some s'"
  shows "\<exists>u. er_ueMap s r = Some u \<and> rrc_phase s' = (rrc_phase s)(r \<mapsto> ctx_phase (f u))"
  using assms by (auto simp: upd_ue_eq rrc_phase_def fun_eq_iff)

lemma same_coreD:
  "same_core s s' \<Longrightarrow> er_srsSet s' = er_srsSet s"
  "same_core s s' \<Longrightarrow> er_carriers s' = er_carriers s"
  "same_core s s' \<Longrightarrow> rrc_ctxs s' = rrc_ctxs s"
  by (simp_all add: same_core_def rrc_rest_def)

section \<open>The invariant\<close>

definition srs_low :: "enb_rrc \<Rightarrow> nat" where
  "srs_low s = g_srsCiLow ! unat (er_srsPeriodicityId s)"

definition srs_high :: "enb_rrc \<Rightarrow> nat" where
  "srs_high s = g_srsCiHigh ! unat (er_srsPeriodicityId s)"

definition srs_period :: "enb_rrc \<Rightarrow> nat" where
  "srs_period s = g_srsPeriodicity ! unat (er_srsPeriodicityId s)"

definition srs_inv :: "enb_rrc \<Rightarrow> bool" where
  "srs_inv s \<longleftrightarrow> 1 \<le> unat (er_srsPeriodicityId s) \<and> unat (er_srsPeriodicityId s) < 9 \<and>
     sorted (er_srsSet s) \<and> distinct (er_srsSet s) \<and>
     (\<forall>i\<in>set (er_srsSet s). srs_low s \<le> unat i \<and> unat i \<le> srs_high s)"

definition rrc_ids :: "enb_rrc \<Rightarrow> u16 \<Rightarrow> (u16 \<times> u8) option" where
  "rrc_ids s r = map_option (\<lambda>c. (fst c, fst (snd c))) (rrc_ctxs s r)"

definition ctxs_inv :: "enb_rrc \<Rightarrow> bool" where
  "ctxs_inv s \<longleftrightarrow>
     (\<forall>r srs cc. rrc_ids s r = Some (srs, cc) \<longrightarrow>
        r \<noteq> 0 \<and> srs \<in> set (er_srsSet s) \<and> carrier_at cc s \<noteq> None) \<and>
     (\<forall>r r' c c'. r \<noteq> r' \<longrightarrow> rrc_ids s r = Some c \<longrightarrow> rrc_ids s r' = Some c' \<longrightarrow> fst c \<noteq> fst c') \<and>
     (\<forall>r. er_ccm s r = None \<longleftrightarrow> rrc_ids s r = None)"

lemma rrc_ids_eq:
  "rrc_ids s r = map_option (\<lambda>u. (um_srs u, um_componentCarrierId u)) (er_ueMap s r)"
  by (cases "er_ueMap s r") (simp_all add: rrc_ids_def rrc_ctxs_def ctx_core_def)

definition x2u_inv :: "enb_rrc \<Rightarrow> bool" where
  "x2u_inv s \<longleftrightarrow> (\<forall>teid r b. er_x2uTeidInfo s teid = Some (r, b) \<longrightarrow>
     (\<exists>srs cc ds d. rrc_ctxs s r = Some (srs, cc, ds) \<and> map_of ds b = Some d \<and> db_gtpTeid d = teid))"

definition core_inv :: "enb_rrc \<Rightarrow> bool" where
  "core_inv s \<longleftrightarrow> srs_inv s \<and> ctxs_inv s \<and> x2u_inv s"

fun timer_state :: "ue_timer \<Rightarrow> ue_state" where
  "timer_state ConnectionRequestTimeout = INITIAL_RANDOM_ACCESS"
| "timer_state ConnectionSetupTimeout = CONNECTION_SETUP"
| "timer_state ConnectionRejectedTimeout = CONNECTION_REJECTED"
| "timer_state HandoverJoiningTimeout = HANDOVER_JOINING"
| "timer_state HandoverLeavingTimeout = HANDOVER_LEAVING"

definition phase_ok :: "ue_state \<times> (ue_timer \<Rightarrow> bool) \<Rightarrow> bool" where
  "phase_ok p \<longleftrightarrow> (\<forall>t. snd p t \<longrightarrow> fst p = timer_state t)"

definition timers_inv :: "enb_rrc \<Rightarrow> bool" where
  "timers_inv s \<longleftrightarrow> (\<forall>r p. rrc_phase s r = Some p \<longrightarrow> phase_ok p)"

lemma core_inv_cong:
  assumes "same_core s s'"
  shows "core_inv s' = core_inv s"
  using assms
  by (simp add: same_core_def rrc_rest_def core_inv_def srs_inv_def ctxs_inv_def x2u_inv_def
      srs_low_def srs_high_def carrier_at_def rrc_ids_def fun_eq_iff)

section \<open>SRS indices\<close>

lemma srs_range:
  assumes "1 \<le> unat (er_srsPeriodicityId s)" and "unat (er_srsPeriodicityId s) < 9"
  shows "srs_period s = Suc (srs_high s) - srs_low s" "srs_low s \<le> srs_high s" "srs_high s < 2 ^ 16 - 1"
    "0 < srs_period s" "srs_period s \<le> 320"
    "srs_entry g_srsPeriodicity s = Some (srs_period s)" "srs_entry g_srsCiLow s = Some (srs_low s)"
    "srs_entry g_srsCiHigh s = Some (srs_high s)"
proof -
  have "unat (er_srsPeriodicityId s) \<in> {1, 2, 3, 4, 5, 6, 7, 8}"
    using assms by auto
  then show "srs_period s = Suc (srs_high s) - srs_low s" "srs_low s \<le> srs_high s"
    "srs_high s < 2 ^ 16 - 1" "0 < srs_period s" "srs_period s \<le> 320"
    "srs_entry g_srsPeriodicity s = Some (srs_period s)" "srs_entry g_srsCiLow s = Some (srs_low s)"
    "srs_entry g_srsCiHigh s = Some (srs_high s)"
    by (auto simp: srs_period_def srs_high_def srs_low_def srs_entry_def g_srsPeriodicity_def
        g_srsCiLow_def g_srsCiHigh_def Let_def)
qed

lemma srs_invD:
  assumes "srs_inv s"
  shows "1 \<le> unat (er_srsPeriodicityId s)" "unat (er_srsPeriodicityId s) < 9"
  using assms by (auto simp: srs_inv_def)

lemma IsMaxSrsReached_eq:
  assumes "srs_inv s"
  shows "IsMaxSrsReached s = Some (srs_period s \<le> length (er_srsSet s))"
  using srs_range(6) [OF srs_invD [OF assms]] by (simp add: IsMaxSrsReached_def)

text \<open>When the largest index is in use and the set is not full, one below is free.\<close>

lemma srs_hole:
  assumes "srs_inv s" and "length (er_srsSet s) < srs_period s" and "of_nat (srs_high s) \<in> set (er_srsSet s)"
  shows "\<exists>i. find (\<lambda>i. (of_nat i :: u16) \<notin> set (er_srsSet s)) [srs_low s..<srs_high s] = Some i"
proof (rule ccontr)
  assume "\<not> ?thesis"
  then have all: "of_nat i \<in> set (er_srsSet s)" if "srs_low s \<le> i" "i < srs_high s" for i
    using that by (auto simp: find_None_iff)
  note r = srs_range [OF srs_invD [OF assms(1)]]
  have "of_nat i \<in> set (er_srsSet s)" if "i \<in> {srs_low s..srs_high s}" for i
    using that all [of i] assms(3) by (cases "i = srs_high s") auto
  then have sub: "(of_nat :: nat \<Rightarrow> u16) ` {srs_low s..srs_high s} \<subseteq> set (er_srsSet s)"
    by blast
  have "inj_on (of_nat :: nat \<Rightarrow> u16) {srs_low s..srs_high s}"
    using r(3) by (intro inj_onI) (auto simp: unat_of_nat dest!: arg_cong [where f = unat])
  then have "card {srs_low s..srs_high s} \<le> card (set (er_srsSet s))"
    using card_inj_on_le [OF _ sub] by simp
  with assms(1,2) r(1) show False
    by (simp add: srs_inv_def distinct_card)
qed

lemma sorted_last_max: "sorted xs \<Longrightarrow> x \<in> set xs \<Longrightarrow> x \<le> last xs"
  by (induction xs) auto

lemma GetNewSrs_total:
  assumes "srs_inv s" and "length (er_srsSet s) < srs_period s"
  shows "\<exists>i. GetNewSrsConfigurationIndex s = Some (i, srs_take i s) \<and> i \<notin> set (er_srsSet s) \<and>
    srs_low s \<le> unat i \<and> unat i \<le> srs_high s"
proof -
  note r = srs_range [OF srs_invD [OF assms(1)]]
  have start: "GetNewSrsConfigurationIndex s =
    (let s' = (if er_srsSet s = [] then srs_take (of_nat (srs_low s)) s
                 else if unat (last (er_srsSet s)) < srs_high s then srs_take (last (er_srsSet s) + 1) s
                 else (case find (\<lambda>i. (of_nat i :: u16) \<notin> set (er_srsSet s)) [srs_low s..<srs_high s] of
                         None \<Rightarrow> s
                       | Some i \<Rightarrow> srs_take (of_nat i) s))
       in Some (er_lastSrsIndex s', s'))"
    using assms(2) by (simp add: GetNewSrsConfigurationIndex_def r)
  consider (empty) "er_srsSet s = []"
    | (above) "er_srsSet s \<noteq> []" "unat (last (er_srsSet s)) < srs_high s"
    | (hole) "er_srsSet s \<noteq> []" "srs_high s \<le> unat (last (er_srsSet s))"
    by linarith
  then show ?thesis
  proof cases
    case empty
    then show ?thesis
      using r(2,3) start by (intro exI [of _ "of_nat (srs_low s)"]) (simp add: srs_take_def unat_of_nat)
  next
    case above
    have "unat (last (er_srsSet s) + 1) = Suc (unat (last (er_srsSet s)))"
      using above(2) r(3) unat_plus_if' [of "last (er_srsSet s)" 1] by simp
    moreover have "x \<noteq> last (er_srsSet s) + 1" if "x \<in> set (er_srsSet s)" for x
      using sorted_last_max [of "er_srsSet s" x] assms(1) that calculation
      by (auto simp: srs_inv_def word_le_nat_alt)
    moreover have "srs_low s \<le> unat (last (er_srsSet s))"
      using assms(1) above(1) by (simp add: srs_inv_def)
    ultimately show ?thesis
      using start above by (intro exI [of _ "last (er_srsSet s) + 1"]) (auto simp: srs_take_def)
  next
    case hole
    have "unat (last (er_srsSet s)) = srs_high s"
      using hole assms(1) by (intro antisym) (auto simp: srs_inv_def)
    then have "last (er_srsSet s) = of_nat (srs_high s)"
      by (metis of_nat_unat ucast_id)
    then have "of_nat (srs_high s) \<in> set (er_srsSet s)"
      using hole(1) last_in_set by metis
    then obtain i where i: "find (\<lambda>i. (of_nat i :: u16) \<notin> set (er_srsSet s)) [srs_low s..<srs_high s] = Some i"
      using srs_hole [OF assms] by blast
    then have "srs_low s \<le> i" "i < srs_high s" "(of_nat i :: u16) \<notin> set (er_srsSet s)"
      by (auto simp: find_Some_iff)
    with start hole i r(3) show ?thesis
      by (intro exI [of _ "of_nat i"]) (simp add: srs_take_def unat_of_nat)
  qed
qed

lemma srs_take_inv:
  assumes "srs_inv s" and "srs_low s \<le> unat i" and "unat i \<le> srs_high s"
  shows "srs_inv (srs_take i s)"
  using assms by (auto simp: srs_inv_def srs_take_def srs_insert_def srs_low_def srs_high_def
      sorted_insort distinct_insort set_insort_key)

end
