(* ===== verification/EnbRrcSteps.thy ===== *)
theory EnbRrcSteps
  imports EnbRrcInv
begin

text \<open>What the operations of the eNB RRC do to the two views of the state, and that all keep the invariant.\<close>

section \<open>Operations on one context\<close>

text \<open>
  An operation is calm when it changes neither SRS indices, bearers and tables nor any context but one,
  whose phase it changes as the relation says.
\<close>

definition calm :: "u16 \<Rightarrow> (ue_state \<times> (ue_timer \<Rightarrow> bool) \<Rightarrow> ue_state \<times> (ue_timer \<Rightarrow> bool) \<Rightarrow> bool) \<Rightarrow>
    enb_rrc \<Rightarrow> enb_rrc \<Rightarrow> bool" where
  "calm r P s s' \<longleftrightarrow> same_core s s' \<and>
     (\<exists>p p'. rrc_phase s r = Some p \<and> rrc_phase s' = (rrc_phase s)(r \<mapsto> p') \<and> P p p')"

definition enters :: "ue_state \<Rightarrow> ue_state \<times> (ue_timer \<Rightarrow> bool) \<Rightarrow> ue_state \<times> (ue_timer \<Rightarrow> bool) \<Rightarrow> bool" where
  "enters st p p' \<longleftrightarrow> snd p' = snd p \<and>
     (fst p' = st \<or> st = CONNECTED_NORMALLY \<and> fst p' = CONNECTION_RECONFIGURATION)"

definition settles :: "ue_state \<times> (ue_timer \<Rightarrow> bool) \<Rightarrow> ue_state \<times> (ue_timer \<Rightarrow> bool) \<Rightarrow> bool" where
  "settles p p' \<longleftrightarrow> snd p' = snd p \<and>
     (fst p' = fst p \<or> fst p = CONNECTED_NORMALLY \<and> fst p' = CONNECTION_RECONFIGURATION)"

definition keeps_ok :: "ue_state \<times> (ue_timer \<Rightarrow> bool) \<Rightarrow> ue_state \<times> (ue_timer \<Rightarrow> bool) \<Rightarrow> bool" where
  "keeps_ok p p' \<longleftrightarrow> (phase_ok p \<longrightarrow> phase_ok p')"

lemma calm_trans:
  assumes "calm r P s t" and "calm r Q t u" and "\<And>p q q'. P p q \<Longrightarrow> Q q q' \<Longrightarrow> R p q'"
  shows "calm r R s u"
  using assms same_core_trans unfolding calm_def by fastforce

lemma calm_OO [trans]: "calm r P s t \<Longrightarrow> calm r Q t u \<Longrightarrow> calm r (P OO Q) s u"
  by (erule (1) calm_trans) blast

lemma calm_eq_left: "calm r (=) s t \<Longrightarrow> calm r P t u \<Longrightarrow> calm r P s u"
  by (erule (1) calm_trans) simp

lemma calm_eq_right: "calm r P s t \<Longrightarrow> calm r (=) t u \<Longrightarrow> calm r P s u"
  by (erule (1) calm_trans) simp

lemma calm_mono:
  "calm r P s t \<Longrightarrow> (\<And>p p'. rrc_phase s r = Some p \<Longrightarrow> P p p' \<Longrightarrow> Q p p') \<Longrightarrow> calm r Q s t"
  unfolding calm_def by blast

lemma calm_same:
  assumes "same_core s t" and "rrc_phase t = rrc_phase s" and "er_ueMap s r \<noteq> None"
  shows "calm r (=) s t"
proof -
  from assms(3) obtain u where "er_ueMap s r = Some u"
    by auto
  then have "rrc_phase s r = Some (ctx_phase u)"
    by (simp add: rrc_phase_def)
  then show ?thesis
    unfolding calm_def using assms(1,2) by (intro conjI exI [of _ "ctx_phase u"]) auto
qed

lemma calm_emit [simp]:
  "calm r P (emit a s) t = calm r P s t" "calm r P (emits as s) t = calm r P s t"
  "calm r P s (emit a t) = calm r P s t" "calm r P s (emits as t) = calm r P s t"
  by (simp_all add: calm_def)

lemma calm_upd_ue:
  assumes "upd_ue r f s = Some s'" and "\<And>u. er_ueMap s r = Some u \<Longrightarrow> ctx_core (f u) = ctx_core u"
    and "\<And>u. er_ueMap s r = Some u \<Longrightarrow> P (ctx_phase u) (ctx_phase (f u))"
  shows "calm r P s s'"
proof -
  obtain u where u: "er_ueMap s r = Some u" "rrc_phase s' = (rrc_phase s)(r \<mapsto> ctx_phase (f u))"
    using upd_ue_phase [OF assms(1)] by blast
  then have "rrc_phase s r = Some (ctx_phase u)"
    by (simp add: rrc_phase_def)
  then show ?thesis
    unfolding calm_def using upd_ue_core [OF assms(1,2)] u assms(3) by blast
qed

lemmas rrc_steps = bind_eq_Some_conv GetUeManager_def Let_def prod.case_eq_if

lemma calm_mapped: "calm r P s s' \<Longrightarrow> \<exists>u. er_ueMap s' r = Some u"
proof -
  assume "calm r P s s'"
  then obtain p' where "rrc_phase s' = (rrc_phase s)(r \<mapsto> p')"
    by (auto simp: calm_def)
  then have "rrc_phase s' r = Some p'"
    by simp
  then show ?thesis
    by (auto simp: rrc_phase_def)
qed

lemma ctx_simps [simp]:
  "ctx_phase u = (um_state u, um_pending u)"
  "ctx_core (u\<lparr>um_state := st\<rparr>) = ctx_core u" "ctx_core (u\<lparr>um_pendingReconfiguration := b\<rparr>) = ctx_core u"
  "ctx_core (u\<lparr>um_drbsToBeStarted := ds\<rparr>) = ctx_core u" "ctx_core (u\<lparr>um_needPhyMacConfiguration := b\<rparr>) = ctx_core u"
  "ctx_core (u\<lparr>um_caSupportConfigured := b\<rparr>) = ctx_core u" "ctx_core (u\<lparr>um_pendingStart := b\<rparr>) = ctx_core u"
  "ctx_core (u\<lparr>um_packetBuffer := pb\<rparr>) = ctx_core u" "ctx_core (u\<lparr>um_targetCellId := c\<rparr>) = ctx_core u"
  "ctx_core (u\<lparr>um_targetX2apId := c\<rparr>) = ctx_core u" "ctx_core (SetImsi i u) = ctx_core u"
  "ctx_core (SetSource c x u) = ctx_core u" "ctx_core (um_cancel t u) = ctx_core u"
  "ctx_core (um_schedule t u) = ctx_core u" "ctx_core (RecordDataRadioBearersToBeStarted u) = ctx_core u"
  "ctx_core (u\<lparr>um_lastRrcTransactionIdentifier := n\<rparr>) = ctx_core u"
  by (simp_all add: ctx_core_def ctx_phase_def um_srs_def SetImsi_def SetSource_def um_cancel_def
      um_schedule_def RecordDataRadioBearersToBeStarted_def)

lemma ctx_fields [simp]:
  "um_state (SetImsi i u) = um_state u" "um_pending (SetImsi i u) = um_pending u"
  "um_state (SetSource c x u) = um_state u" "um_pending (SetSource c x u) = um_pending u"
  "um_state (um_cancel t u) = um_state u" "um_pending (um_cancel t u) = (um_pending u)(t := False)"
  "um_state (um_schedule t u) = um_state u" "um_pending (um_schedule t u) = (um_pending u)(t := True)"
  "um_state (RecordDataRadioBearersToBeStarted u) = um_state u"
  "um_pending (RecordDataRadioBearersToBeStarted u) = um_pending u"
  by (simp_all add: SetImsi_def SetSource_def um_cancel_def um_schedule_def
      RecordDataRadioBearersToBeStarted_def)

lemma new_transaction [simp]:
  "ctx_core (snd (GetNewRrcTransactionIdentifier u)) = ctx_core u"
  "um_state (snd (GetNewRrcTransactionIdentifier u)) = um_state u"
  "um_pending (snd (GetNewRrcTransactionIdentifier u)) = um_pending u"
  "um_drbMap (snd (GetNewRrcTransactionIdentifier u)) = um_drbMap u"
  "um_caSupportConfigured (snd (GetNewRrcTransactionIdentifier u)) = um_caSupportConfigured u"
  by (simp_all add: GetNewRrcTransactionIdentifier_def Let_def)

section \<open>States\<close>

lemma enter_state_calm:
  "enter_state r st s = Some s' \<Longrightarrow> calm r (\<lambda>p p'. p' = (st, snd p)) s s'"
  by (auto simp: enter_state_def split: if_splits intro!: calm_upd_ue)

lemma BuildReconfiguration_calm:
  "BuildRrcConnectionReconfiguration r s = Some (m, s') \<Longrightarrow> calm r (=) s s'"
  by (auto simp: BuildRrcConnectionReconfiguration_def rrc_steps intro!: calm_upd_ue)

lemma StartDataRadioBearers_calm:
  assumes "StartDataRadioBearers r s = Some s'"
  shows "calm r (=) s s'"
proof -
  from assms obtain as where "upd_ue r (\<lambda>u. u\<lparr>um_drbsToBeStarted := []\<rparr>) (emits as s) = Some s'"
    by (auto simp: StartDataRadioBearers_def rrc_steps split: if_splits)
  then have "calm r (=) (emits as s) s'"
    by (rule calm_upd_ue) auto
  then show ?thesis by simp
qed

lemma Schedule_calm:
  assumes "ScheduleRrcConnectionReconfiguration r s = Some s'"
  shows "calm r settles s s'"
proof -
  from assms obtain u where u: "er_ueMap s r = Some u"
    by (auto simp: ScheduleRrcConnectionReconfiguration_def rrc_steps)
  show ?thesis
  proof (cases "um_state u = CONNECTED_NORMALLY")
    case True
    with assms u obtain s1 m s2 s3 where
      1: "upd_ue r (\<lambda>u. u\<lparr>um_pendingReconfiguration := False\<rparr>) s = Some s1"
      and 2: "BuildRrcConnectionReconfiguration r s1 = Some (m, s2)"
      and 3: "upd_ue r RecordDataRadioBearersToBeStarted (emit (SendRrcConnectionReconfiguration r m) s2) = Some s3"
      and 4: "enter_state r CONNECTION_RECONFIGURATION s3 = Some s'"
      by (auto simp: ScheduleRrcConnectionReconfiguration_def rrc_steps)
    have "calm r (=) s s1"
      using 1 by (rule calm_upd_ue) auto
    also note BuildReconfiguration_calm [OF 2]
    also have "calm r (=) s2 s3"
      using calm_upd_ue [OF 3, of "(=)"] by simp
    also note enter_state_calm [OF 4]
    finally show ?thesis
      by (rule calm_mono) (use True u in \<open>auto simp: settles_def rrc_phase_def eq_OO OO_eq\<close>)
  next
    case False
    with assms u have "upd_ue r (\<lambda>u. u\<lparr>um_pendingReconfiguration := True\<rparr>) s = Some s'"
      by (auto simp: ScheduleRrcConnectionReconfiguration_def rrc_steps split: if_splits)
    then show ?thesis
      by (rule calm_upd_ue) (auto simp: settles_def)
  qed
qed

lemma SwitchToState_calm:
  assumes "SwitchToState r st s = Some s'"
  shows "calm r (enters st) s s'"
proof -
  from assms obtain s1 where 1: "enter_state r st s = Some s1"
    by (auto simp: SwitchToState_def rrc_steps)
  note c1 = enter_state_calm [OF 1]
  show ?thesis
  proof (cases "st = CONNECTED_NORMALLY")
    case False
    with assms 1 have "s' = s1"
      by (simp add: SwitchToState_def)
    with c1 show ?thesis
      by (auto intro: calm_mono simp: enters_def)
  next
    case True
    from assms 1 True obtain s2 where 2: "s2 = s1 \<or> ScheduleRrcConnectionReconfiguration r s1 = Some s2"
      and 3: "s' = s2 \<or> StartDataRadioBearers r s2 = Some s'"
      by (auto simp: SwitchToState_def rrc_steps split: if_splits)
    have "calm r (enters st) s s2"
      using 2
    proof
      assume "s2 = s1"
      with c1 show ?thesis
        by (auto intro: calm_mono simp: enters_def)
    next
      assume "ScheduleRrcConnectionReconfiguration r s1 = Some s2"
      from calm_trans [OF c1 Schedule_calm [OF this]] show ?thesis
        by (auto simp: enters_def settles_def True)
    qed
    then show ?thesis
      using 3 StartDataRadioBearers_calm calm_eq_right by blast
  qed
qed

section \<open>Handlers of a context\<close>

lemma calm_keeps:
  assumes "calm r keeps_ok s s'" and "core_inv s" and "timers_inv s"
  shows "core_inv s' \<and> timers_inv s'"
proof -
  have "core_inv s'"
    using assms(1,2) core_inv_cong by (auto simp: calm_def)
  moreover obtain p p' where p: "rrc_phase s r = Some p" "rrc_phase s' = (rrc_phase s)(r \<mapsto> p')" "keeps_ok p p'"
    using assms(1) unfolding calm_def by blast
  then have "timers_inv s'"
    using assms(3) unfolding timers_inv_def keeps_ok_def by (metis fun_upd_apply option.inject)
  ultimately show ?thesis ..
qed

lemma phase_ok_none: "phase_ok p \<Longrightarrow> fst p \<notin> range timer_state \<Longrightarrow> \<not> snd p t"
  by (auto simp: phase_ok_def)

lemma timer_state_inj: "timer_state t = timer_state t' \<Longrightarrow> t = t'"
  by (cases t; cases t') auto

lemma phase_ok_other: "phase_ok p \<Longrightarrow> fst p = timer_state t \<Longrightarrow> t' \<noteq> t \<Longrightarrow> \<not> snd p t'"
  using timer_state_inj by (fastforce simp: phase_ok_def)

lemma keeps_settles: "settles p p' \<Longrightarrow> keeps_ok p p'"
  unfolding settles_def keeps_ok_def phase_ok_def
  by (metis timer_state.simps timer_state.cases ue_state.distinct)

lemma RecvRrcConnectionRequest_calm:
  assumes "RecvRrcConnectionRequest r imsi s = Some s'"
  shows "calm r keeps_ok s s'"
proof -
  from assms obtain u s1 where u: "er_ueMap s r = Some u" "um_state u = INITIAL_RANDOM_ACCESS"
    and 1: "upd_ue r (um_cancel ConnectionRequestTimeout) s = Some s1"
    by (auto simp: RecvRrcConnectionRequest_def rrc_steps split: if_splits)
  have c1: "calm r (\<lambda>p p'. p' = (fst p, (snd p)(ConnectionRequestTimeout := False))) s s1"
    using 1 by (rule calm_upd_ue) auto
  have st: "rrc_phase s r = Some (INITIAL_RANDOM_ACCESS, um_pending u)"
    using u by (simp add: rrc_phase_def)
  have other: "\<not> um_pending u t" if "phase_ok (INITIAL_RANDOM_ACCESS, um_pending u)" "t \<noteq> ConnectionRequestTimeout" for t
    using phase_ok_other [OF that(1), of ConnectionRequestTimeout t] that(2) by simp
  show ?thesis
  proof (cases "er_admitRrcConnectionRequest s1")
    case True
    with assms u 1 obtain s2 u2 s3 s4 where 2: "upd_ue r (SetImsi imsi) s1 = Some s2"
      and u2: "er_ueMap s2 r = Some u2"
      and 3: "upd_ue r (\<lambda>_. snd (GetNewRrcTransactionIdentifier u2)) s2 = Some s3"
      and 4: "upd_ue r (um_schedule ConnectionSetupTimeout \<circ> RecordDataRadioBearersToBeStarted)
        (emit (SendRrcConnectionSetup r (fst (GetNewRrcTransactionIdentifier u2))
          (BuildRadioResourceConfigDedicated (snd (GetNewRrcTransactionIdentifier u2)))) s3) = Some s4"
      and 5: "SwitchToState r CONNECTION_SETUP s4 = Some s'"
      by (auto simp: RecvRrcConnectionRequest_def rrc_steps split: if_splits)
    note c1
    also have "calm r (=) s1 s2"
      using 2 by (rule calm_upd_ue) auto
    also have "calm r (=) s2 s3"
      using 3 by (rule calm_upd_ue) (auto simp: u2)
    also have "calm r (\<lambda>p p'. p' = (fst p, (snd p)(ConnectionSetupTimeout := True))) s3 s4"
      using calm_upd_ue [OF 4, of "\<lambda>p p'. p' = (fst p, (snd p)(ConnectionSetupTimeout := True))"] by simp
    also note SwitchToState_calm [OF 5]
    finally show ?thesis
      by (rule calm_mono)
         (use st other in \<open>auto simp: keeps_ok_def enters_def eq_OO OO_eq relcompp_apply phase_ok_def\<close>)
  next
    case False
    with assms u 1 obtain s2 where 2: "upd_ue r (um_schedule ConnectionRejectedTimeout)
        (emit (SendRrcConnectionReject r 3) s1) = Some s2"
      and 3: "SwitchToState r CONNECTION_REJECTED s2 = Some s'"
      by (auto simp: RecvRrcConnectionRequest_def rrc_steps split: if_splits)
    note c1
    also have "calm r (\<lambda>p p'. p' = (fst p, (snd p)(ConnectionRejectedTimeout := True))) s1 s2"
      using calm_upd_ue [OF 2, of "\<lambda>p p'. p' = (fst p, (snd p)(ConnectionRejectedTimeout := True))"] by simp
    also note SwitchToState_calm [OF 3]
    finally show ?thesis
      by (rule calm_mono)
         (use st other in \<open>auto simp: keeps_ok_def enters_def eq_OO OO_eq relcompp_apply phase_ok_def\<close>)
  qed
qed

lemmas keeps_simps = keeps_ok_def enters_def eq_OO OO_eq relcompp_apply phase_ok_def

text \<open>A context in a state without a timer has none pending, and may go to any such state.\<close>

definition untimed :: "ue_state \<Rightarrow> bool" where
  "untimed st \<longleftrightarrow> st \<notin> range timer_state"

lemma timer_state_range:
  "timer_state t \<in> {INITIAL_RANDOM_ACCESS, CONNECTION_SETUP, CONNECTION_REJECTED, HANDOVER_JOINING,
     HANDOVER_LEAVING}"
  by (cases t) auto

lemma untimed_simps [simp]:
  "untimed CONNECTED_NORMALLY" "untimed CONNECTION_RECONFIGURATION" "untimed CONNECTION_REESTABLISHMENT"
  "untimed ATTACH_REQUEST" "untimed HANDOVER_PREPARATION" "untimed HANDOVER_PATH_SWITCH"
  using timer_state_range by (auto simp: untimed_def) (metis ue_state.distinct)+

lemma keeps_enters: "phase_ok p \<Longrightarrow> untimed (fst p) \<Longrightarrow> enters st p p' \<Longrightarrow> phase_ok p'"
  by (auto simp: enters_def phase_ok_def untimed_def)

text \<open>The timer of a state is cancelled before the state is left.\<close>

definition cancels :: "ue_timer \<Rightarrow> ue_state \<times> (ue_timer \<Rightarrow> bool) \<Rightarrow> ue_state \<times> (ue_timer \<Rightarrow> bool) \<Rightarrow> bool" where
  "cancels t p p' \<longleftrightarrow> p' = (fst p, (snd p)(t := False))"

lemma keeps_cancels:
  assumes "phase_ok p" and "fst p = timer_state t" and "cancels t p q" and "enters st q p'"
  shows "phase_ok p'"
proof -
  have "\<not> snd p' t'" for t'
    using assms phase_ok_other [OF assms(1,2), of t'] by (auto simp: cancels_def enters_def)
  then show ?thesis
    by (simp add: phase_ok_def)
qed

lemma keeps_schedule:
  "phase_ok p \<Longrightarrow> untimed (fst p) \<Longrightarrow> enters (timer_state t) p q \<Longrightarrow>
     p' = (fst q, (snd q)(t := True)) \<Longrightarrow> phase_ok p'"
  by (cases t) (auto simp: enters_def phase_ok_def untimed_def)

lemma cancel_calm: "upd_ue r (um_cancel t) s = Some s' \<Longrightarrow> calm r (cancels t) s s'"
  by (erule calm_upd_ue) (auto simp: cancels_def)

lemma phase_at: "er_ueMap s r = Some u \<Longrightarrow> rrc_phase s r = Some (um_state u, um_pending u)"
  by (simp add: rrc_phase_def)

lemma fold_option_calm:
  assumes "fold_option f xs s = Some s'" and "er_ueMap s r \<noteq> None"
    and "\<And>x t t'. f x t = Some t' \<Longrightarrow> calm r (=) t t'"
  shows "calm r (=) s s'"
  using assms(1,2)
proof (induction xs arbitrary: s)
  case Nil
  then show ?case by (auto intro: calm_same)
next
  case (Cons x xs)
  then obtain t where t: "f x s = Some t" "fold_option f xs t = Some s'"
    by (auto simp: bind_eq_Some_conv)
  have c: "calm r (=) s t"
    by (rule assms(3) [OF t(1)])
  then show ?case
    using Cons.IH [OF t(2)] calm_mapped [OF c] calm_eq_left by blast
qed

lemma SendPacket_calm:
  assumes "SendPacket r bid p s = Some s'"
  shows "calm r (=) s s'"
proof -
  from assms obtain u where u: "er_ueMap s r = Some u"
    by (auto simp: SendPacket_def rrc_steps)
  with assms have "s' = s \<or> s' = emit (TransmitPdcpSdu r (Bid2Lcid bid) p) s"
    by (cases "map_of (um_drbMap u) (Bid2Drbid bid)") (auto simp: SendPacket_def rrc_steps split: if_splits)
  with u show ?thesis
    by (auto intro: calm_same)
qed

lemma flush_buffer_calm:
  assumes "flush_buffer r s = Some s'"
  shows "calm r (=) s s'"
proof -
  from assms obtain u s1 where u: "er_ueMap s r = Some u"
    and 1: "fold_option (\<lambda>(bid, p). SendPacket r bid p) (um_packetBuffer u) s = Some s1"
    and 2: "upd_ue r (\<lambda>u. u\<lparr>um_packetBuffer := []\<rparr>) s1 = Some s'"
    by (auto simp: flush_buffer_def rrc_steps)
  have "calm r (=) s s1"
    using u by (intro fold_option_calm [OF 1]) (auto intro: SendPacket_calm)
  moreover have "calm r (=) s1 s'"
    using 2 by (rule calm_upd_ue) auto
  ultimately show ?thesis by (rule calm_eq_left)
qed

lemma RecvRrcConnectionSetupCompleted_calm:
  assumes "RecvRrcConnectionSetupCompleted r s = Some s'"
  shows "calm r keeps_ok s s'"
proof -
  from assms obtain u s1 s2 where u: "er_ueMap s r = Some u" "um_state u = CONNECTION_SETUP"
    and 1: "upd_ue r (um_cancel ConnectionSetupTimeout) s = Some s1"
    and 2: "s2 = s1 \<or> upd_ue r (\<lambda>u. u\<lparr>um_pendingReconfiguration := True, um_pendingStart := True\<rparr>) s1 = Some s2"
    and 3: "SwitchToState r ATTACH_REQUEST (emit (S1InitialUeMessage (um_imsi u) r) s2) = Some s' \<or>
      SwitchToState r CONNECTED_NORMALLY s2 = Some s'"
    by (auto simp: RecvRrcConnectionSetupCompleted_def rrc_steps split: if_splits)
  then obtain st where 3: "calm r (enters st) s2 s'"
    using SwitchToState_calm by fastforce
  have "calm r (=) s1 s2"
    using 2 calm_mapped [OF cancel_calm [OF 1]] by (auto intro: calm_same calm_upd_ue)
  with cancel_calm [OF 1] have "calm r (cancels ConnectionSetupTimeout) s s2"
    by (rule calm_eq_right)
  also note 3
  finally show ?thesis
    by (rule calm_mono)
       (use phase_at [OF u(1)] u(2) keeps_cancels [of _ ConnectionSetupTimeout] in
         \<open>auto simp: keeps_ok_def relcompp_apply\<close>)
qed

lemma ideal_update [simp]:
  "same_core s (t\<lparr>er_ideal := g\<rparr>) = same_core s t" "same_core (t\<lparr>er_ideal := g\<rparr>) s = same_core t s"
  "rrc_phase (t\<lparr>er_ideal := g\<rparr>) = rrc_phase t"
  "calm r P s (t\<lparr>er_ideal := g\<rparr>) = calm r P s t" "calm r P (t\<lparr>er_ideal := g\<rparr>) s = calm r P t s"
  by (simp_all add: same_core_def rrc_ctxs_def rrc_rest_def rrc_phase_def calm_def)

lemma RecvRrcConnectionReconfigurationCompleted_calm:
  assumes "RecvRrcConnectionReconfigurationCompleted r s = Some s'"
  shows "calm r keeps_ok s s'"
proof -
  from assms obtain u where u: "er_ueMap s r = Some u"
    by (auto simp: RecvRrcConnectionReconfigurationCompleted_def rrc_steps)
  consider (idle) "um_state u \<in> {CONNECTED_NORMALLY, HANDOVER_LEAVING}"
    | (reconf) "um_state u = CONNECTION_RECONFIGURATION" | (join) "um_state u = HANDOVER_JOINING"
    using assms u by (cases "um_state u") (auto simp: RecvRrcConnectionReconfigurationCompleted_def rrc_steps)
  then show ?thesis
  proof cases
    case idle
    with assms u have "s' = s"
      by (auto simp: RecvRrcConnectionReconfigurationCompleted_def rrc_steps)
    with u have "calm r (=) s s'"
      by (auto intro: calm_same)
    then show ?thesis
      by (rule calm_mono) (simp add: keeps_ok_def)
  next
    case reconf
    with assms u obtain s1 s2 where 1: "StartDataRadioBearers r s = Some s1"
      and 2: "s2 = s1 \<or> upd_ue r (\<lambda>u. u\<lparr>um_needPhyMacConfiguration := False\<rparr>) (configure_phy_mac r u s1) = Some s2"
      and 3: "SwitchToState r CONNECTED_NORMALLY s2 = Some s'"
      by (auto simp: RecvRrcConnectionReconfigurationCompleted_def rrc_steps split: if_splits)
    have "calm r (=) s1 s2"
      using 2
    proof
      assume "s2 = s1"
      then show ?thesis
        using calm_mapped [OF StartDataRadioBearers_calm [OF 1]] by (auto intro: calm_same)
    next
      assume "upd_ue r (\<lambda>u. u\<lparr>um_needPhyMacConfiguration := False\<rparr>) (configure_phy_mac r u s1) = Some s2"
      then have "calm r (=) (configure_phy_mac r u s1) s2"
        by (rule calm_upd_ue) auto
      then show ?thesis
        by (simp add: configure_phy_mac_def Let_def)
    qed
    with StartDataRadioBearers_calm [OF 1] have "calm r (=) s s2"
      by (rule calm_eq_left)
    from calm_eq_left [OF this SwitchToState_calm [OF 3]] show ?thesis
      by (rule calm_mono)
         (use phase_at [OF u] reconf keeps_enters in \<open>auto simp: keeps_ok_def\<close>)
  next
    case join
    with assms u obtain s1 s2 s3 ps where 1: "upd_ue r (um_cancel HandoverJoiningTimeout) s = Some s1"
      and 2: "flush_buffer r s1 = Some s2" and 3: "SwitchToState r HANDOVER_PATH_SWITCH s2 = Some s3"
      and 4: "s' = emit (S1PathSwitchRequest ps) s3"
      by (auto simp: RecvRrcConnectionReconfigurationCompleted_def rrc_steps split: if_splits)
    from cancel_calm [OF 1] flush_buffer_calm [OF 2] have "calm r (cancels HandoverJoiningTimeout) s s2"
      by (rule calm_eq_right)
    also note SwitchToState_calm [OF 3]
    finally have "calm r keeps_ok s s3"
      by (rule calm_mono)
         (use phase_at [OF u] join keeps_cancels [of _ HandoverJoiningTimeout] in
           \<open>auto simp: keeps_ok_def relcompp_apply\<close>)
    then show ?thesis by (simp add: 4)
  qed
qed

lemma RecvRrcConnectionReestablishmentRequest_calm:
  assumes "RecvRrcConnectionReestablishmentRequest r s = Some s'"
  shows "calm r keeps_ok s s'"
proof -
  from assms obtain u where u: "er_ueMap s r = Some u"
    by (auto simp: RecvRrcConnectionReestablishmentRequest_def rrc_steps)
  with assms obtain s1 u1 s2 a where
    1: "um_state u = CONNECTED_NORMALLY \<and> s1 = s \<or>
        um_state u = HANDOVER_LEAVING \<and> upd_ue r (um_cancel HandoverLeavingTimeout) s = Some s1"
    and u1: "er_ueMap s1 r = Some u1"
    and 2: "upd_ue r (\<lambda>_. snd (GetNewRrcTransactionIdentifier u1)) s1 = Some s2"
    and 3: "SwitchToState r CONNECTION_REESTABLISHMENT (emit a s2) = Some s'"
    by (cases "um_state u") (auto simp: RecvRrcConnectionReestablishmentRequest_def rrc_steps)
  have c2: "calm r (=) s1 s2"
    using 2 by (rule calm_upd_ue) (auto simp: u1)
  have c3: "calm r (enters CONNECTION_REESTABLISHMENT) s2 s'"
    using SwitchToState_calm [OF 3] by simp
  from 1 show ?thesis
  proof (elim disjE conjE)
    assume "um_state u = CONNECTED_NORMALLY" "s1 = s"
    with calm_eq_left [OF c2 c3] show ?thesis
      by (auto intro: calm_mono simp: keeps_ok_def phase_at [OF u] keeps_enters)
  next
    assume st: "um_state u = HANDOVER_LEAVING" and 1: "upd_ue r (um_cancel HandoverLeavingTimeout) s = Some s1"
    from calm_OO [OF cancel_calm [OF 1] calm_eq_left [OF c2 c3]] show ?thesis
      by (rule calm_mono)
         (use phase_at [OF u] st keeps_cancels [of _ HandoverLeavingTimeout] in
           \<open>auto simp: keeps_ok_def relcompp_apply\<close>)
  qed
qed

lemma RecvReestablishmentComplete_calm:
  assumes "RecvRrcConnectionReestablishmentComplete r s = Some s'"
    and "rrc_phase s r = Some p" and "fst p = CONNECTION_REESTABLISHMENT"
  shows "calm r keeps_ok s s'"
  using SwitchToState_calm [OF assms(1) [unfolded RecvRrcConnectionReestablishmentComplete_def]]
  by (rule calm_mono) (use assms keeps_enters in \<open>auto simp: keeps_ok_def\<close>)

lemma InitialContextSetup_calm:
  assumes "um_InitialContextSetupRequest r s = Some s'"
  shows "calm r keeps_ok s s'"
proof -
  from assms obtain u where u: "er_ueMap s r = Some u" "um_state u = ATTACH_REQUEST"
    and 1: "SwitchToState r CONNECTED_NORMALLY s = Some s'"
    by (auto simp: um_InitialContextSetupRequest_def rrc_steps split: if_splits)
  from SwitchToState_calm [OF 1] show ?thesis
    by (rule calm_mono) (use phase_at [OF u(1)] u(2) keeps_enters in \<open>auto simp: keeps_ok_def\<close>)
qed

lemma calm_settles_keeps: "calm r settles s s' \<Longrightarrow> calm r keeps_ok s s'"
  by (erule calm_mono) (rule keeps_settles)

lemma phys_config_core [simp]:
  "ctx_core (u\<lparr>um_physicalConfig := (um_physicalConfig u)\<lparr>pc_transmissionMode := m\<rparr>\<rparr>) = ctx_core u"
  "ctx_core (u\<lparr>um_physicalConfig := (um_physicalConfig u)\<lparr>pc_pa := pa\<rparr>\<rparr>) = ctx_core u"
  by (simp_all add: ctx_core_def um_srs_def)

lemma CmacUeConfigUpdateInd_calm:
  assumes "CmacUeConfigUpdateInd r mode s = Some s'"
  shows "calm r keeps_ok s s'"
proof -
  from assms obtain s1 where 1: "upd_ue r (\<lambda>u. u\<lparr>um_physicalConfig := (um_physicalConfig u)\<lparr>pc_transmissionMode := mode\<rparr>,
        um_needPhyMacConfiguration := True\<rparr>) s = Some s1"
    and 2: "ScheduleRrcConnectionReconfiguration r s1 = Some s'"
    by (auto simp: CmacUeConfigUpdateInd_def rrc_steps)
  have "calm r (=) s s1"
    using 1 by (rule calm_upd_ue) auto
  from calm_eq_left [OF this Schedule_calm [OF 2]] show ?thesis
    by (rule calm_settles_keeps)
qed

lemma SetPdschConfigDedicated_calm:
  assumes "SetPdschConfigDedicated r pa s = Some s'"
  shows "calm r keeps_ok s s'"
proof -
  from assms obtain s1 where 1: "upd_ue r (\<lambda>u. u\<lparr>um_physicalConfig := (um_physicalConfig u)\<lparr>pc_pa := pa\<rparr>,
        um_needPhyMacConfiguration := True\<rparr>) s = Some s1"
    and 2: "ScheduleRrcConnectionReconfiguration r s1 = Some s'"
    by (auto simp: SetPdschConfigDedicated_def rrc_steps)
  have "calm r (=) s s1"
    using 1 by (rule calm_upd_ue) auto
  from calm_eq_left [OF this Schedule_calm [OF 2]] show ?thesis
    by (rule calm_settles_keeps)
qed

definition emitted :: "enb_rrc \<Rightarrow> enb_rrc \<Rightarrow> bool" where
  "emitted s t \<longleftrightarrow> (\<exists>as. t = emits as s)"

lemma emitted_refl: "emitted s s"
  unfolding emitted_def by (rule exI [of _ "[]"]) (simp add: emits_def)

lemma emitted_more:
  "emitted s t \<Longrightarrow> emitted s (emit a t)" "emitted s t \<Longrightarrow> emitted s (emits as t)"
  by (auto simp: emitted_def emit_def emits_def intro: exI [of _ "_ @ _"])

lemma emitted_if: "emitted s t \<Longrightarrow> emitted s t' \<Longrightarrow> emitted s (if c then t else t')"
  by simp

lemma if_Some_None: "(if c then Some x else None) = Some y \<longleftrightarrow> c \<and> x = y"
  by simp

lemma if_None_Some: "(if c then None else x) = Some y \<longleftrightarrow> \<not> c \<and> x = Some y"
  by simp

lemma RecvMeasurementReport_calm:
  assumes "RecvMeasurementReport r ms s = Some s'"
  shows "calm r keeps_ok s s'"
proof -
  from assms have "er_ueMap s r \<noteq> None"
    by (auto simp: RecvMeasurementReport_def rrc_steps simp del: not_None_eq)
  moreover from assms have "emitted s s'"
    unfolding RecvMeasurementReport_def
    by (cases "ms_servFreqs ms")
       (auto simp only: rrc_steps if_Some_None option.case option.simps intro!: emitted_more emitted_if emitted_refl)
  ultimately have "calm r (=) s s'"
    by (auto simp: emitted_def intro: calm_same)
  then show ?thesis
    by (rule calm_mono) (simp add: keeps_ok_def)
qed

lemma um_SendData_calm:
  assumes "um_SendData r bid p s = Some s'"
  shows "calm r (=) s s'"
proof -
  from assms obtain u where u: "er_ueMap s r = Some u"
    by (auto simp: um_SendData_def rrc_steps)
  with assms have "s' = s \<or> SendPacket r bid p s = Some s' \<or>
      upd_ue r (\<lambda>u. u\<lparr>um_packetBuffer := um_packetBuffer u @ [(bid, p)]\<rparr>) s = Some s' \<or> (\<exists>a. s' = emit a s)"
    by (auto simp: um_SendData_def rrc_steps split: if_splits)
  with u show ?thesis
    by (auto intro: calm_same SendPacket_calm elim: calm_upd_ue)
qed

lemma RecvHandoverRequestAck_calm:
  assumes "RecvHandoverRequestAck v r m s = Some s'"
    and "rrc_phase s r = Some p" and "fst p = HANDOVER_PREPARATION"
  shows "calm r keeps_ok s s'"
proof -
  from assms(1) obtain g a s1 s2 b where 1: "SwitchToState r HANDOVER_LEAVING (emit a (s\<lparr>er_ideal := g\<rparr>)) = Some s1"
    and 2: "upd_ue r (\<lambda>u. (um_schedule HandoverLeavingTimeout u)
       \<lparr>um_targetX2apId := hk_newEnbUeX2apId m, um_targetCellId := hk_targetCellId m\<rparr>) s1 = Some s2"
    and 3: "s' = emit b s2"
    by (auto simp: RecvHandoverRequestAck_def rrc_steps if_None_Some)
  have "calm r (enters HANDOVER_LEAVING) s s1"
    using SwitchToState_calm [OF 1] by simp
  also have "calm r (\<lambda>p p'. p' = (fst p, (snd p)(HandoverLeavingTimeout := True))) s1 s2"
    using 2 by (rule calm_upd_ue) auto
  finally show ?thesis
    unfolding 3 calm_emit
    by (rule calm_mono)
       (use assms(2,3) keeps_schedule [of p HandoverLeavingTimeout] in
         \<open>auto simp: keeps_ok_def relcompp_apply\<close>)
qed

lemma x2_handover_calm:
  assumes "x2_handover r cell s = Some s'" and "rrc_phase s r = Some p" and "fst p = CONNECTED_NORMALLY"
  shows "calm r keeps_ok s s'"
proof -
  from assms(1) obtain g a where 1: "SwitchToState r HANDOVER_PREPARATION (emit a (s\<lparr>er_ideal := g\<rparr>)) = Some s'"
    by (auto simp: x2_handover_def rrc_steps)
  have "calm r (enters HANDOVER_PREPARATION) s s'"
    using SwitchToState_calm [OF 1] by simp
  then show ?thesis
    by (rule calm_mono) (use assms(2,3) keeps_enters in \<open>auto simp: keeps_ok_def\<close>)
qed

section \<open>Bearers\<close>

lemma drbid_fresh:
  assumes "AddDataRadioBearerInfo d u = Some (drbid, u')"
  shows "map_of (um_drbMap u) drbid = None" and "drbid \<noteq> 0"
    and "u' = u\<lparr>um_drbMap := smap_put drbid (d\<lparr>db_drbIdentity := drbid\<rparr>) (um_drbMap u), um_lastAllocatedDrbid := drbid\<rparr>"
  using assms by (auto simp: AddDataRadioBearerInfo_def find_Some_iff smap_has_def split: option.splits)

lemma same_coreI:
  "rrc_ctxs s' = rrc_ctxs s \<Longrightarrow> rrc_rest s' = rrc_rest s \<Longrightarrow> same_core s s'"
  by (simp add: same_core_def)

lemma ccm_upd_rest:
  "ccm_upd r f s = Some s' \<Longrightarrow> same_core s s' \<and> er_ueMap s' = er_ueMap s \<and> rrc_phase s' = rrc_phase s"
  by (auto simp: ccm_upd_def same_core_def rrc_ctxs_def rrc_rest_def rrc_phase_def fun_eq_iff
      split: option.splits if_splits)

lemma add_lc_rest:
  "add_lc e s = Some s' \<Longrightarrow> same_core s s' \<and> rrc_phase s' = rrc_phase s"
  by (auto simp: add_lc_def ccm_AddLc_def split: prod.splits dest!: ccm_upd_rest)

lemma add_lcs_rest:
  "fold_option add_lc es s = Some s' \<Longrightarrow> same_core s s' \<and> rrc_phase s' = rrc_phase s"
proof (induction es arbitrary: s)
  case Nil
  then show ?case by simp
next
  case (Cons e es)
  then show ?case
    using same_core_trans by (fastforce simp: bind_eq_Some_conv dest!: add_lc_rest)
qed

lemma ccm_Setup_rest:
  "ccm_SetupDataRadioBearer b r lcid g s = Some (lcs, s') \<Longrightarrow> same_core s s' \<and> rrc_phase s' = rrc_phase s"
  by (auto simp: ccm_SetupDataRadioBearer_def rrc_steps dest!: ccm_upd_rest)

end
