(* ===== verification/EnbRrcReach.thy ===== *)
theory EnbRrcReach
  imports EnbRrcSteps
begin

text \<open>
  The operations of the eNB RRC that create and remove contexts and bearers, and the entity as a step
  relation: every call keeps the invariant, contexts can be created as long as an SRS index is free,
  and a timer that fires removes its context.
\<close>

section \<open>Bearers\<close>

definition rrc_ok :: "enb_rrc \<Rightarrow> bool" where
  "rrc_ok s \<longleftrightarrow> core_inv s \<and> timers_inv s"

lemma calm_ok: "calm r keeps_ok s s' \<Longrightarrow> rrc_ok s \<Longrightarrow> rrc_ok s'"
  using calm_keeps by (auto simp: rrc_ok_def)

lemma calm_eq_ok: "calm r (=) s s' \<Longrightarrow> rrc_ok s \<Longrightarrow> rrc_ok s'"
  by (erule calm_ok [OF calm_mono]) (simp add: keeps_ok_def)

lemma same_ok: "same_core s s' \<Longrightarrow> rrc_phase s' = rrc_phase s \<Longrightarrow> rrc_ok s' = rrc_ok s"
  using core_inv_cong by (auto simp: rrc_ok_def timers_inv_def)

lemma ok_emit [simp]:
  "rrc_ok (emit a s) = rrc_ok s" "rrc_ok (emits as s) = rrc_ok s" "rrc_ok (s\<lparr>er_ideal := g\<rparr>) = rrc_ok s"
  by (rule same_ok; simp)+

text \<open>The bearers of one context and the forwarding table change together.\<close>

lemma core_inv_bearers:
  assumes "core_inv s" and "rrc_ctxs s r = Some (srs, cc, ds)"
    and "rrc_ctxs s' = (rrc_ctxs s)(r \<mapsto> (srs, cc, ds'))"
    and "rrc_rest s' = rrc_rest (s\<lparr>er_x2uTeidInfo := x2u\<rparr>)"
    and "\<And>teid b. x2u teid = Some (r, b) \<Longrightarrow> \<exists>d. map_of ds' b = Some d \<and> db_gtpTeid d = teid"
    and "\<And>teid r' b. x2u teid = Some (r', b) \<Longrightarrow> r' \<noteq> r \<Longrightarrow> er_x2uTeidInfo s teid = Some (r', b)"
  shows "core_inv s'"
proof -
  from assms(4) have f: "er_srsPeriodicityId s' = er_srsPeriodicityId s" "er_srsSet s' = er_srsSet s"
    "er_x2uTeidInfo s' = x2u" "er_carriers s' = er_carriers s"
    "\<And>r. (er_ccm s' r = None) = (er_ccm s r = None)"
    by (auto simp: rrc_rest_def fun_eq_iff)
  have "srs_inv s'" using assms(1) f by (simp add: core_inv_def srs_inv_def srs_low_def srs_high_def)
  moreover have "ctxs_inv s'"
  proof -
    have ids: "rrc_ids s' r' = rrc_ids s r'" for r'
      by (simp add: rrc_ids_def assms(2,3))
    have "ctxs_inv s' = ctxs_inv s"
      unfolding ctxs_inv_def carrier_at_def ids f by (rule refl)
    then show ?thesis
      using assms(1) by (simp add: core_inv_def)
  qed
  moreover have "x2u_inv s'"
    unfolding x2u_inv_def f(3)
  proof (intro allI impI)
    fix teid r' b
    assume x: "x2u teid = Some (r', b)"
    show "\<exists>srs cc ds d. rrc_ctxs s' r' = Some (srs, cc, ds) \<and> map_of ds b = Some d \<and> db_gtpTeid d = teid"
    proof (cases "r' = r")
      case True
      then show ?thesis using assms(5) x by (auto simp: assms(3))
    next
      case False
      then show ?thesis
        using assms(1) assms(6) [OF x False] by (auto simp: core_inv_def x2u_inv_def assms(3))
    qed
  qed
  ultimately show ?thesis by (simp add: core_inv_def)
qed

lemma core_inv_x2u:
  assumes "core_inv s" and "er_x2uTeidInfo s teid = Some (r, b)" and "rrc_ctxs s r = Some (srs, cc, ds)"
  shows "\<exists>d. map_of ds b = Some d \<and> db_gtpTeid d = teid"
  using assms by (fastforce simp: core_inv_def x2u_inv_def)

lemma SetupDataRadioBearer_ok:
  assumes "SetupDataRadioBearer r bearer bid teid addr s = Some s'" and "rrc_ok s"
  shows "rrc_ok s'" and "r' \<noteq> r \<Longrightarrow> rrc_phase s' r' = rrc_phase s r'"
proof -
  from assms(1) obtain u rlc rt lg drbid u' s1 where u: "er_ueMap s r = Some u"
    and a: "AddDataRadioBearerInfo (drb_info_for bearer 0 teid addr rlc rt lg) u = Some (drbid, u')"
    and 1: "upd_ue r (\<lambda>_. u'\<lparr>um_drbMap := smap_put drbid (drb_info_for bearer drbid teid addr rlc rt lg)
      (um_drbMap u')\<rparr>) s = Some s1"
    and r: "\<exists>lcs s2 s3. ccm_SetupDataRadioBearer bearer r (Drbid2Lcid drbid) lg
        (if um_state u' = HANDOVER_JOINING then x2u_insert teid (r, drbid) s1 else s1) = Some (lcs, s2) \<and>
      fold_option add_lc lcs s2 = Some s3 \<and> ScheduleRrcConnectionReconfiguration r s3 = Some s'"
    by (fastforce simp: SetupDataRadioBearer_def rrc_steps)
  from r obtain lcs s2 s3 where 2: "ccm_SetupDataRadioBearer bearer r (Drbid2Lcid drbid) lg
        (if um_state u' = HANDOVER_JOINING then x2u_insert teid (r, drbid) s1 else s1) = Some (lcs, s2)"
      (is "ccm_SetupDataRadioBearer _ _ _ _ ?t = _")
    and 3: "fold_option add_lc lcs s2 = Some s3" and 4: "ScheduleRrcConnectionReconfiguration r s3 = Some s'"
    by blast
  let ?d = "drb_info_for bearer drbid teid addr rlc rt lg"
  note fresh = drbid_fresh [OF a]
  have s1: "s1 = s\<lparr>er_ueMap := (er_ueMap s)(r \<mapsto> u'\<lparr>um_drbMap := smap_put drbid ?d (um_drbMap u')\<rparr>)\<rparr>"
    using 1 by (simp add: upd_ue_eq u)
  have d: "db_gtpTeid ?d = teid"
    by (simp add: drb_info_for_def)
  have c: "rrc_ctxs ?t = (rrc_ctxs s)(r \<mapsto> (um_srs u, um_componentCarrierId u, um_drbMap
      (u'\<lparr>um_drbMap := smap_put drbid ?d (um_drbMap u')\<rparr>)))"
    by (auto simp: rrc_ctxs_def s1 x2u_insert_def ctx_core_def fresh(3) um_srs_def fun_eq_iff)
  have "core_inv ?t"
  proof (rule core_inv_bearers [OF _ _ c])
    show "core_inv s" using assms(2) by (simp add: rrc_ok_def)
    show ctx: "rrc_ctxs s r = Some (um_srs u, um_componentCarrierId u, um_drbMap u)"
      by (simp add: rrc_ctxs_def u ctx_core_def)
    show "rrc_rest ?t = rrc_rest (s\<lparr>er_x2uTeidInfo := er_x2uTeidInfo ?t\<rparr>)"
      by (auto simp: rrc_rest_def s1 x2u_insert_def)
    show "\<exists>d. map_of (um_drbMap (u'\<lparr>um_drbMap := smap_put drbid ?d (um_drbMap u')\<rparr>)) b = Some d \<and> db_gtpTeid d = teid'"
      if "er_x2uTeidInfo ?t teid' = Some (r, b)" for teid' b
    proof (cases "b = drbid")
      case True
      have "er_x2uTeidInfo s teid' \<noteq> Some (r, drbid)"
        using core_inv_x2u [OF _ _ ctx, of teid' drbid] assms(2) fresh(1) by (auto simp: rrc_ok_def)
      with that True have "teid' = teid"
        by (auto simp: s1 x2u_insert_def split: if_splits)
      then show ?thesis by (simp add: True d)
    next
      case False
      with that have "er_x2uTeidInfo s teid' = Some (r, b)"
        by (auto simp: s1 x2u_insert_def split: if_splits)
      from core_inv_x2u [OF _ this ctx] assms(2) obtain d where "map_of (um_drbMap u) b = Some d" "db_gtpTeid d = teid'"
        by (auto simp: rrc_ok_def)
      with False show ?thesis by (simp add: fresh(3))
    qed
    show "er_x2uTeidInfo s teid' = Some (r', b)" if "er_x2uTeidInfo ?t teid' = Some (r', b)" "r' \<noteq> r" for teid' r' b
      using that by (auto simp: s1 x2u_insert_def split: if_splits)
  qed
  moreover have ph: "rrc_phase ?t = rrc_phase s"
    by (auto simp: rrc_phase_def s1 x2u_insert_def fresh(3) u fun_eq_iff)
  ultimately have "rrc_ok ?t"
    using assms(2) by (simp add: rrc_ok_def timers_inv_def)
  then have "rrc_ok s3"
    using ccm_Setup_rest [OF 2] add_lcs_rest [OF 3] same_ok by blast
  then show "rrc_ok s'"
    using calm_ok calm_settles_keeps Schedule_calm [OF 4] by blast
  have "rrc_phase s3 = rrc_phase s"
    using ccm_Setup_rest [OF 2] add_lcs_rest [OF 3] ph by simp
  then show "rrc_phase s' r' = rrc_phase s r'" if "r' \<noteq> r"
    using Schedule_calm [OF 4] that by (auto simp: calm_def)
qed

lemma ccm_Release_rest:
  "ccm_ReleaseDataRadioBearer r lcid s = Some (ccs, s') \<Longrightarrow> same_core s s' \<and> rrc_phase s' = rrc_phase s"
  by (auto simp: ccm_ReleaseDataRadioBearer_def same_core_def rrc_ctxs_def rrc_rest_def rrc_phase_def
      fun_eq_iff split: option.splits if_splits)

lemma ReleaseDataRadioBearer_ok:
  assumes "ReleaseDataRadioBearer r drbid s = Some s'" and "rrc_ok s"
  shows "rrc_ok s'"
proof -
  from assms(1) obtain u d s1 ccs s2 a as where u: "er_ueMap s r = Some u" "map_of (um_drbMap u) drbid = Some d"
    and 1: "upd_ue r (\<lambda>u. u\<lparr>um_drbMap := smap_erase drbid (um_drbMap u)\<rparr>) (x2u_erase (db_gtpTeid d) s) = Some s1"
    and 2: "ccm_ReleaseDataRadioBearer r (Drbid2Lcid drbid) s1 = Some (ccs, s2)"
    and 3: "s' = emit a (emits as s2)"
    by (auto simp: ReleaseDataRadioBearer_def rrc_steps if_Some_None)
  have s1: "s1 = s\<lparr>er_ueMap := (er_ueMap s)(r \<mapsto> u\<lparr>um_drbMap := smap_erase drbid (um_drbMap u)\<rparr>),
      er_x2uTeidInfo := (er_x2uTeidInfo s)(db_gtpTeid d := None)\<rparr>"
    using 1 u(1) by (auto simp: upd_ue_eq x2u_erase_def)
  have ctx: "rrc_ctxs s r = Some (um_srs u, um_componentCarrierId u, um_drbMap u)"
    by (simp add: rrc_ctxs_def u ctx_core_def)
  have "core_inv s1"
  proof (rule core_inv_bearers [OF _ ctx])
    show "core_inv s" using assms(2) by (simp add: rrc_ok_def)
    show "rrc_ctxs s1 = (rrc_ctxs s)(r \<mapsto> (um_srs u, um_componentCarrierId u, smap_erase drbid (um_drbMap u)))"
      by (auto simp: rrc_ctxs_def s1 ctx_core_def um_srs_def)
    show "rrc_rest s1 = rrc_rest (s\<lparr>er_x2uTeidInfo := (er_x2uTeidInfo s)(db_gtpTeid d := None)\<rparr>)"
      by (simp add: rrc_rest_def s1)
    show "\<exists>d. map_of (smap_erase drbid (um_drbMap u)) b = Some d \<and> db_gtpTeid d = teid"
      if "((er_x2uTeidInfo s)(db_gtpTeid d := None)) teid = Some (r, b)" for teid b
    proof -
      from that have t: "teid \<noteq> db_gtpTeid d" "er_x2uTeidInfo s teid = Some (r, b)"
        by (auto split: if_splits)
      with core_inv_x2u [OF _ t(2) ctx] assms(2) u(2) show ?thesis
        by (auto simp: rrc_ok_def)
    qed
    show "er_x2uTeidInfo s teid = Some (r', b)"
      if "((er_x2uTeidInfo s)(db_gtpTeid d := None)) teid = Some (r', b)" "r' \<noteq> r" for teid r' b
      using that by (auto split: if_splits)
  qed
  moreover have "rrc_phase s1 = rrc_phase s"
    by (auto simp: rrc_phase_def s1 u fun_eq_iff)
  ultimately have "rrc_ok s1"
    using assms(2) by (simp add: rrc_ok_def timers_inv_def)
  then show ?thesis
    using ccm_Release_rest [OF 2] same_ok by (auto simp: 3)
qed

section \<open>Removing a context\<close>

lemma x2u_erase_all:
  "fold (\<lambda>(_, d). x2u_erase (db_gtpTeid d)) ds s =
     s\<lparr>er_x2uTeidInfo := \<lambda>t. if t \<in> db_gtpTeid ` snd ` set ds then None else er_x2uTeidInfo s t\<rparr>"
proof (induction ds arbitrary: s)
  case Nil
  then show ?case by simp
next
  case (Cons d ds)
  then show ?case
    by (auto simp: x2u_erase_def fun_eq_iff prod.case_eq_if intro!: arg_cong [where f = "\<lambda>x. s\<lparr>er_x2uTeidInfo := x\<rparr>"])
qed

text \<open>The state after the removal of a context; the SRS index 0 stays in the set.\<close>

definition removed :: "u16 \<Rightarrow> ue_manager \<Rightarrow> enb_rrc \<Rightarrow> enb_rrc" where
  "removed r u s = s\<lparr>er_ueMap := (er_ueMap s)(r := None),
     er_x2uTeidInfo := \<lambda>t. if t \<in> db_gtpTeid ` snd ` set (um_drbMap u) then None else er_x2uTeidInfo s t,
     er_ccm := (er_ccm s)(r := None),
     er_srsSet := (if um_srs u = 0 then er_srsSet s else remove1 (um_srs u) (er_srsSet s)),
     er_out := er_out s @ concat (map (\<lambda>i. [CmacRemoveUe i r, CphyRemoveUe i r]) (carrier_ids s))
       @ (if er_haveS1 s then [S1UeContextRelease r] else []) @ [SapRemoveUe r]\<rparr>"

lemma RemoveUe_eq:
  assumes "er_ueMap s r = Some u" and "carrier_at (um_componentCarrierId u) s \<noteq> None"
    and "er_ccm s r \<noteq> None" and "um_srs u \<in> set (er_srsSet s)"
  shows "RemoveUe r s = Some (removed r u s)"
  using assms
  by (auto simp: RemoveUe_def rrc_steps ComponentCarrierToCellId_def x2u_erase_all ccm_RemoveUe_def
      RemoveSrsConfigurationIndex_def removed_def emit_def emits_def um_srs_def carrier_ids_def cong: if_cong)

lemma ok_context:
  assumes "rrc_ok s" and "er_ueMap s r = Some u"
  shows "r \<noteq> 0" "um_srs u \<in> set (er_srsSet s)" "carrier_at (um_componentCarrierId u) s \<noteq> None"
    "er_ccm s r \<noteq> None"
proof -
  have ids: "rrc_ids s r = Some (um_srs u, um_componentCarrierId u)"
    by (simp add: rrc_ids_eq assms(2))
  have "ctxs_inv s"
    using assms(1) by (simp add: rrc_ok_def core_inv_def)
  then show "r \<noteq> 0" "um_srs u \<in> set (er_srsSet s)" "carrier_at (um_componentCarrierId u) s \<noteq> None"
    "er_ccm s r \<noteq> None"
    unfolding ctxs_inv_def using ids by (blast, blast, blast, metis option.distinct(1))
qed

lemma ctxs_inv_distinct:
  assumes "ctxs_inv s" and "r \<noteq> r'" and "rrc_ids s r = Some c" and "rrc_ids s r' = Some c'"
  shows "fst c \<noteq> fst c'"
  using assms unfolding ctxs_inv_def by blast

lemma x2u_invE:
  assumes "x2u_inv s" and "er_x2uTeidInfo s teid = Some (r, b)"
  obtains i cc ds d where "rrc_ctxs s r = Some (i, cc, ds)" "map_of ds b = Some d" "db_gtpTeid d = teid"
proof -
  from assms(1) have "er_x2uTeidInfo s teid = Some (r, b) \<longrightarrow>
     (\<exists>i cc ds d. rrc_ctxs s r = Some (i, cc, ds) \<and> map_of ds b = Some d \<and> db_gtpTeid d = teid)"
    unfolding x2u_inv_def by (elim allE)
  with assms(2) that show thesis by auto
qed

lemma removed_ok:
  assumes "rrc_ok s" and "er_ueMap s r = Some u"
  shows "rrc_ok (removed r u s)"
proof -
  let ?t = "removed r u s"
  have core: "srs_inv s" "ctxs_inv s" "x2u_inv s" and tm: "timers_inv s"
    using assms(1) by (simp_all add: rrc_ok_def core_inv_def)
  have ids: "rrc_ids ?t = (rrc_ids s)(r := None)"
    by (auto simp: rrc_ids_eq removed_def fun_eq_iff)
  have ctx: "rrc_ctxs ?t = (rrc_ctxs s)(r := None)"
    by (auto simp: rrc_ctxs_def removed_def fun_eq_iff)
  have srs: "srs_inv ?t"
    using core(1) by (auto simp: srs_inv_def removed_def srs_low_def srs_high_def sorted_remove1
        dest: set_remove1_subset [THEN subsetD])
  have dist: "distinct (er_srsSet s)"
    using core(1) by (simp add: srs_inv_def)
  have idr: "rrc_ids s r = Some (um_srs u, um_componentCarrierId u)"
    by (simp add: rrc_ids_eq assms(2))
  have "ctxs_inv ?t"
    unfolding ctxs_inv_def
  proof (intro conjI allI impI)
    fix r' i cc
    assume x: "rrc_ids ?t r' = Some (i, cc)"
    then have r': "r' \<noteq> r" "rrc_ids s r' = Some (i, cc)"
      by (auto simp: ids split: if_splits)
    then have "i \<noteq> um_srs u"
      using core(2) idr unfolding ctxs_inv_def by (metis fst_conv)
    moreover have "r' \<noteq> 0 \<and> i \<in> set (er_srsSet s) \<and> carrier_at cc s \<noteq> None"
      using core(2) r'(2) unfolding ctxs_inv_def by blast
    ultimately show "r' \<noteq> 0" "i \<in> set (er_srsSet ?t)" "carrier_at cc ?t \<noteq> None"
      using dist by (simp_all add: removed_def carrier_at_def)
  next
    fix r1 r2 c1 c2
    assume "r1 \<noteq> r2" "rrc_ids ?t r1 = Some c1" "rrc_ids ?t r2 = Some c2"
    then show "fst c1 \<noteq> fst c2"
      using core(2) unfolding ctxs_inv_def ids by (metis fun_upd_apply option.distinct(1))
  next
    fix r'
    show "(er_ccm ?t r' = None) = (rrc_ids ?t r' = None)"
      using core(2) unfolding ctxs_inv_def ids by (simp add: removed_def)
  qed
  moreover have "x2u_inv ?t"
    unfolding x2u_inv_def
  proof (intro allI impI)
    fix teid r' b
    assume "er_x2uTeidInfo ?t teid = Some (r', b)"
    then have x: "teid \<notin> db_gtpTeid ` snd ` set (um_drbMap u)" "er_x2uTeidInfo s teid = Some (r', b)"
      by (auto simp: removed_def split: if_splits)
    obtain i cc ds d where d: "rrc_ctxs s r' = Some (i, cc, ds)" "map_of ds b = Some d" "db_gtpTeid d = teid"
      by (rule x2u_invE [OF core(3) x(2)])
    have "r' \<noteq> r"
    proof
      assume "r' = r"
      with d have "(b, d) \<in> set (um_drbMap u)"
        using assms(2) by (auto simp: rrc_ctxs_def ctx_core_def dest: map_of_SomeD)
      with d(3) x(1) show False by force
    qed
    with d show "\<exists>i cc ds d. rrc_ctxs ?t r' = Some (i, cc, ds) \<and> map_of ds b = Some d \<and> db_gtpTeid d = teid"
      by (simp add: ctx)
  qed
  moreover have "timers_inv ?t"
    using tm by (auto simp: timers_inv_def rrc_phase_def removed_def)
  ultimately show ?thesis
    using srs by (simp add: rrc_ok_def core_inv_def)
qed

lemma RemoveUe_ok:
  assumes "rrc_ok s" and "er_ueMap s r = Some u"
  shows "RemoveUe r s = Some (removed r u s)" "rrc_ok (removed r u s)"
  using RemoveUe_eq [OF assms(2)] ok_context [OF assms] removed_ok [OF assms] by simp_all

section \<open>Creating a context\<close>

text \<open>The search for an RNTI: it ends as soon as one is free, and finds a free one.\<close>

lemma rnti_search_found:
  "rnti_search used prev rnti = Some (True, r) \<Longrightarrow> r \<noteq> 0 \<and> \<not> used r"
proof -
  have "rnti_search used prev rnti = Some y \<Longrightarrow> fst y \<longrightarrow> snd y \<noteq> 0 \<and> \<not> used (snd y)" for y
    by (rule rnti_search.raw_induct [where P = "\<lambda>used prev rnti y. fst y \<longrightarrow> snd y \<noteq> 0 \<and> \<not> used (snd y)"])
       (fastforce split: if_splits)
  from this [of "(True, r)"] show "rnti_search used prev rnti = Some (True, r) \<Longrightarrow> r \<noteq> 0 \<and> \<not> used r"
    by simp
qed

lemma rnti_search_finds:
  assumes "\<not> used x" and "x \<noteq> 0" and "\<forall>k \<le> unat (x - rnti). uint (rnti + of_nat k) \<noteq> uint prev - 1"
  shows "\<exists>r. rnti_search used prev rnti = Some (True, r)"
  using assms(3)
proof (induction "unat (x - rnti)" arbitrary: rnti rule: less_induct)
  case less
  have here: "uint rnti \<noteq> uint prev - 1"
    using less.prems [rule_format, of 0] by simp
  show ?case
  proof (cases "rnti \<noteq> 0 \<and> \<not> used rnti")
    case True
    with here show ?thesis
      by (subst rnti_search.simps) simp
  next
    case False
    then have "x \<noteq> rnti"
      using assms(1,2) by auto
    then have d: "unat (x - rnti) = Suc (unat (x - (rnti + 1)))"
      using unat_minus_one [of "x - rnti"] unat_gt_0 [of "x - rnti"] by (simp add: diff_diff_eq)
    have "\<forall>k \<le> unat (x - (rnti + 1)). uint (rnti + 1 + of_nat k) \<noteq> uint prev - 1"
    proof (intro allI impI)
      fix k
      assume "k \<le> unat (x - (rnti + 1))"
      then have "uint (rnti + of_nat (Suc k)) \<noteq> uint prev - 1"
        using d less.prems by (metis Suc_le_mono)
      then show "uint (rnti + 1 + of_nat k) \<noteq> uint prev - 1"
        by (simp add: add.assoc)
    qed
    from less.hyps [OF _ this] d obtain r where "rnti_search used prev (rnti + 1) = Some (True, r)"
      by auto
    with here False show ?thesis
      by (subst rnti_search.simps) simp
  qed
qed

text \<open>The contexts have different SRS indices, so they are at most as many, and an RNTI is free.\<close>

lemma contexts_few:
  assumes "rrc_ok s"
  shows "card {r. er_ueMap s r \<noteq> None} \<le> length (er_srsSet s)"
proof -
  let ?f = "\<lambda>r. um_srs (the (er_ueMap s r))"
  have "inj_on ?f {r. er_ueMap s r \<noteq> None}"
  proof (rule inj_onI, rule ccontr)
    fix r r'
    assume "r \<in> {r. er_ueMap s r \<noteq> None}" "r' \<in> {r. er_ueMap s r \<noteq> None}" and eq: "?f r = ?f r'" and ne: "r \<noteq> r'"
    then obtain u u' where "er_ueMap s r = Some u" "er_ueMap s r' = Some u'"
      by auto
    moreover have "ctxs_inv s"
      using assms by (simp add: rrc_ok_def core_inv_def)
    ultimately have "um_srs u \<noteq> um_srs u'"
      using ctxs_inv_distinct [of s r r' "(um_srs u, um_componentCarrierId u)" "(um_srs u', um_componentCarrierId u')"] ne
      by (simp add: rrc_ids_eq)
    with eq \<open>er_ueMap s r = Some u\<close> \<open>er_ueMap s r' = Some u'\<close> show False
      by simp
  qed
  moreover have "?f ` {r. er_ueMap s r \<noteq> None} \<subseteq> set (er_srsSet s)"
    using ok_context(2) [OF assms] by auto
  ultimately show ?thesis
    using card_inj_on_le [of ?f "{r. er_ueMap s r \<noteq> None}" "set (er_srsSet s)"] card_length [of "er_srsSet s"]
    by simp
qed

lemma rnti_free:
  assumes "card {r. er_ueMap s r \<noteq> None} \<le> 320"
  shows "\<exists>r. rnti_search (\<lambda>r. HasUeManager r s) prev (prev + 1) = Some (True, r)"
proof -
  let ?U = "insert 0 {r. er_ueMap s r \<noteq> None}"
  let ?g = "\<lambda>k. prev + 1 + of_nat k :: u16"
  have "inj_on ?g {..321}"
    by (intro inj_onI) (auto simp: unat_of_nat dest!: arg_cong [where f = unat])
  then have "card (?g ` {..321}) = 322"
    by (simp add: card_image)
  moreover have "card ?U \<le> 321"
    using card_insert_le_m1 [of 321 "{r. er_ueMap s r \<noteq> None}" 0] assms by simp
  ultimately have "\<not> ?g ` {..321} \<subseteq> ?U"
    using card_mono [of ?U "?g ` {..321}"] by (auto simp: finite_code)
  then obtain k where k: "k \<le> 321" "?g k \<noteq> 0" "er_ueMap s (?g k) = None"
    by auto
  have "unat (?g k - (prev + 1)) = k"
    using k(1) by (simp add: unat_of_nat)
  moreover have "uint (?g j) \<noteq> uint prev - 1" if "j \<le> k" for j
  proof
    assume eq: "uint (?g j) = uint prev - 1"
    then have "?g j = prev - 1"
      by (metis word_of_int_uint wi_hom_sub word_of_int_1)
    then have "of_nat (j + 2) = (0 :: u16)"
      by (simp add: algebra_simps)
    moreover have "unat (of_nat (j + 2) :: u16) = j + 2"
      unfolding unat_of_nat using that k(1) by simp
    ultimately show False
      by (metis add_is_0 unat_0 zero_neq_numeral)
  qed
  ultimately show ?thesis
    using k rnti_search_finds [of "\<lambda>r. HasUeManager r s" "?g k" "prev + 1" prev] by (simp add: HasUeManager_def)
qed

text \<open>Calls of the lower layers.\<close>

fun lower :: "rrc_action \<Rightarrow> bool" where
  "lower (CmacAddUe _ _) = True" | "lower (CmacRemoveUe _ _) = True" | "lower (CmacAddLc _ _) = True"
| "lower (CmacReleaseLc _ _ _) = True" | "lower (CmacUeUpdateConfigurationReq _ _ _) = True"
| "lower (CmacAllocateNcRaPreamble _ _) = True" | "lower (CphyAddUe _ _) = True"
| "lower (CphyRemoveUe _ _) = True" | "lower (CphySetTransmissionMode _ _ _) = True"
| "lower (CphySetSrsConfigurationIndex _ _ _) = True" | "lower (CphySetPa _ _ _) = True"
| "lower (SapSetupUe _) = True" | "lower (SapRemoveUe _) = True" | "lower _ = False"

lemma list_all_concat_map: "list_all P (concat (map f xs)) \<longleftrightarrow> list_all (\<lambda>x. list_all P (f x)) xs"
  by (induction xs) auto

lemma carrier_ids_update [simp]:
  "carrier_ids (s\<lparr>er_ueMap := m\<rparr>) = carrier_ids s" "carrier_ids (s\<lparr>er_out := as\<rparr>) = carrier_ids s"
  "carrier_ids (s\<lparr>er_ccm := c\<rparr>) = carrier_ids s" "carrier_ids (s\<lparr>er_srsSet := ss\<rparr>) = carrier_ids s"
  "carrier_ids (s\<lparr>er_lastSrsIndex := i\<rparr>) = carrier_ids s" "carrier_ids (srs_take i s) = carrier_ids s"
  "carrier_ids (s\<lparr>er_lastAllocatedRnti := r\<rparr>) = carrier_ids s"
  "carrier_ids (s\<lparr>er_ideal := g\<rparr>) = carrier_ids s" "carrier_ids (s\<lparr>er_x2uTeidInfo := x\<rparr>) = carrier_ids s"
  by (simp_all add: carrier_ids_def srs_take_def)

lemma upd_ue_Some:
  "er_ueMap s r = Some u \<Longrightarrow> upd_ue r f s = Some (s\<lparr>er_ueMap := (er_ueMap s)(r \<mapsto> f u)\<rparr>)"
  by (simp add: upd_ue_def)

lemma setup_srb_eq:
  assumes "er_ccm s r = Some i" and "li_rnti lc = r" and "cc \<in> set (carrier_ids s)"
  shows "setup_srb lc cc s = Some (s\<lparr>er_ccm := (er_ccm s)(r \<mapsto> lc_emplace lc (attach (li_lcId lc) i)),
     er_out := er_out s @ [CmacAddLc cc lc]\<rparr>)"
  using assms by (simp add: setup_srb_def ccm_ConfigureSignalBearer_def ccm_AddLc_def ccm_upd_def emit_def)

definition init_timer :: "ue_state \<Rightarrow> ue_timer" where
  "init_timer st = (if st = INITIAL_RANDOM_ACCESS then ConnectionRequestTimeout else HandoverJoiningTimeout)"

definition initialized :: "u16 \<Rightarrow> u8 \<Rightarrow> ue_manager \<Rightarrow> ue_manager" where
  "initialized i mode u = (um_schedule (init_timer (um_state u)) u)
     \<lparr>um_physicalConfig := \<lparr>pc_srsConfigIndex = i, pc_transmissionMode = mode, pc_pa = 4\<rparr>,
      um_caSupportConfigured := False\<rparr>"

lemma DoInitialize_eq:
  assumes u: "er_ueMap s r = Some u" and c: "er_ccm s r \<noteq> None"
    and i: "GetNewSrsConfigurationIndex s = Some (i, srs_take i s)"
    and cc: "um_componentCarrierId u \<in> set (carrier_ids s)"
    and st: "um_state u = INITIAL_RANDOM_ACCESS \<or> um_state u = HANDOVER_JOINING"
  shows "\<exists>c as. list_all lower as \<and> DoInitialize r s =
    Some (s\<lparr>er_ueMap := (er_ueMap s)(r \<mapsto> initialized i (er_defaultTransmissionMode s) u),
      er_srsSet := srs_insert i (er_srsSet s), er_lastSrsIndex := i, er_ccm := (er_ccm s)(r \<mapsto> c),
      er_out := er_out s @ as\<rparr>)"
proof -
  from c obtain k where k: "er_ccm s r = Some k" by blast
  let ?pc = "\<lparr>pc_srsConfigIndex = i, pc_transmissionMode = er_defaultTransmissionMode s, pc_pa = 4\<rparr>"
  let ?c = "lc_emplace (srb1_lc r) (attach 1 (lc_emplace (srb0_lc r) (attach 0 k)))"
  let ?as = "concat (map (\<lambda>i. [CmacAddUe i r, CphyAddUe i r]) (carrier_ids s))
     @ [CmacAddLc (um_componentCarrierId u) (srb0_lc r), CmacAddLc (um_componentCarrierId u) (srb1_lc r), SapSetupUe r]
     @ concat (map (\<lambda>j. [CmacUeUpdateConfigurationReq j r (er_defaultTransmissionMode s),
          CphySetTransmissionMode j r (er_defaultTransmissionMode s), CphySetSrsConfigurationIndex j r i]) (carrier_ids s))"
  have lc: "li_rnti (srb0_lc r) = r" "li_rnti (srb1_lc r) = r" "li_lcId (srb0_lc r) = 0" "li_lcId (srb1_lc r) = 1"
    by (simp_all add: srb0_lc_def srb1_lc_def)
  have "list_all lower ?as"
    by (simp add: list_all_concat_map)
  moreover have "DoInitialize r s = Some (s\<lparr>er_ueMap := (er_ueMap s)(r \<mapsto> initialized i (er_defaultTransmissionMode s) u),
      er_srsSet := srs_insert i (er_srsSet s), er_lastSrsIndex := i, er_ccm := (er_ccm s)(r \<mapsto> ?c),
      er_out := er_out s @ ?as\<rparr>)"
    using st
    by (elim disjE)
       (simp_all add: DoInitialize_def GetUeManager_def u i srs_take_def Let_def emit_def emits_def upd_ue_Some
          setup_srb_eq [of _ r] k cc lc initialized_def init_timer_def um_schedule_def,
        auto intro!: enb_rrc.equality arg_cong [where f = "\<lambda>m. (er_ueMap s)(r \<mapsto> m)"] ue_manager.equality)
  ultimately show ?thesis by blast
qed

text \<open>\<^verbatim>\<open>AddUe\<close>: the new context and what else changes.\<close>

definition added :: "rrc_env \<Rightarrow> ue_state \<Rightarrow> u8 \<Rightarrow> u16 \<Rightarrow> u16 \<Rightarrow> ccm_ue \<Rightarrow> rrc_action list \<Rightarrow> enb_rrc \<Rightarrow> enb_rrc" where
  "added v st cc r i c as s = s\<lparr>er_lastAllocatedRnti := r,
     er_ueMap := (er_ueMap s)(r \<mapsto> initialized i (er_defaultTransmissionMode s) (new_ue_manager (rv_fresh v) st cc)),
     er_srsSet := srs_insert i (er_srsSet s), er_lastSrsIndex := i, er_ccm := (er_ccm s)(r \<mapsto> c),
     er_out := er_out s @ as\<rparr>"

lemma new_ue_fields [simp]:
  "um_componentCarrierId (new_ue_manager w st cc) = cc" "um_state (new_ue_manager w st cc) = st"
  "um_drbMap (new_ue_manager w st cc) = []" "um_pending (new_ue_manager w st cc) = (\<lambda>_. False)"
  by (simp_all add: new_ue_manager_def)

lemma AddUe_eq:
  assumes "rnti_search (\<lambda>r. HasUeManager r s) (er_lastAllocatedRnti s) (er_lastAllocatedRnti s + 1) = Some (True, r)"
    and "srs_inv s" and "length (er_srsSet s) < srs_period s"
    and "cc \<in> set (carrier_ids s)" and "carrier_at cc s \<noteq> None"
    and "st = INITIAL_RANDOM_ACCESS \<or> st = HANDOVER_JOINING"
  shows "\<exists>i c as. AddUe v st cc s = Some (r, added v st cc r i c as s) \<and> list_all lower as \<and>
    i \<notin> set (er_srsSet s) \<and> srs_low s \<le> unat i \<and> unat i \<le> srs_high s"
proof -
  define t where "t = (ccm_AddUe r st (s\<lparr>er_lastAllocatedRnti := r\<rparr>))
    \<lparr>er_ueMap := (er_ueMap s)(r \<mapsto> new_ue_manager (rv_fresh v) st cc)\<rparr>"
  have t: "er_srsPeriodicityId t = er_srsPeriodicityId s" "er_srsSet t = er_srsSet s" "er_ccm t r \<noteq> None"
    "carrier_ids t = carrier_ids s" "er_defaultTransmissionMode t = er_defaultTransmissionMode s"
    "er_ueMap t r = Some (new_ue_manager (rv_fresh v) st cc)"
    by (simp_all add: t_def ccm_AddUe_def)
  have inv: "srs_inv t" "length (er_srsSet t) < srs_period t"
    using assms(2,3) by (simp_all add: srs_inv_def srs_low_def srs_high_def srs_period_def t)
  obtain i where i: "GetNewSrsConfigurationIndex t = Some (i, srs_take i t)" "i \<notin> set (er_srsSet s)"
    "srs_low s \<le> unat i" "unat i \<le> srs_high s"
    using GetNewSrs_total [OF inv] by (auto simp: t srs_low_def srs_high_def)
  obtain c as where d: "list_all lower as" "DoInitialize r t =
    Some (t\<lparr>er_ueMap := (er_ueMap t)(r \<mapsto> initialized i (er_defaultTransmissionMode t) (new_ue_manager (rv_fresh v) st cc)),
      er_srsSet := srs_insert i (er_srsSet t), er_lastSrsIndex := i, er_ccm := (er_ccm t)(r \<mapsto> c),
      er_out := er_out t @ as\<rparr>)" (is "_ = Some ?u")
    using DoInitialize_eq [OF t(6) t(3) i(1)] assms(4,6) by (auto simp: t)
  have u: "?u = added v st cc r i c as s"
    by (simp add: added_def t_def ccm_AddUe_def)
  have "carrier_at cc ?u = carrier_at cc s"
    by (simp add: carrier_at_def t_def ccm_AddUe_def)
  then have "AddUe v st cc s = Some (r, ?u)"
    using assms(1,5) d(2) t_def
    by (auto simp: AddUe_def Let_def ComponentCarrierToCellId_def ccm_AddUe_def HasUeManager_def)
  with i d(1) show ?thesis
    unfolding u by blast
qed

end
