(* ===== verification/EnbRrcAdmit.thy ===== *)
theory EnbRrcAdmit
  imports EnbRrcReach
begin

text \<open>The operations that create contexts, those that end them and the handover keep the invariant of the eNB RRC.\<close>

section \<open>Conditions\<close>

lemma setup_srb_cond:
  "setup_srb lc cc s = Some s' \<Longrightarrow> cc \<in> set (carrier_ids s) \<and> er_ueMap s' = er_ueMap s \<and> carrier_ids s' = carrier_ids s"
  by (auto simp: setup_srb_def ccm_ConfigureSignalBearer_def ccm_AddLc_def ccm_upd_def rrc_steps emit_def
      if_Some_None carrier_ids_def split: option.splits)

lemma GetNewSrs_cond:
  assumes "GetNewSrsConfigurationIndex s = Some x" and "srs_inv s"
  shows "length (er_srsSet s) < srs_period s"
  using assms(1) srs_range [OF srs_invD [OF assms(2)]]
  by (auto simp: GetNewSrsConfigurationIndex_def rrc_steps split: if_splits)

lemma DoInitialize_cond:
  assumes "DoInitialize r s = Some s'" and "er_ueMap s r = Some u" and "srs_inv s"
  shows "length (er_srsSet s) < srs_period s" and "um_componentCarrierId u \<in> set (carrier_ids s)"
    and "um_state u = INITIAL_RANDOM_ACCESS \<or> um_state u = HANDOVER_JOINING"
proof -
  obtain x where x: "GetNewSrsConfigurationIndex s = Some x"
    using assms(1,2) by (auto simp: DoInitialize_def rrc_steps)
  then show len: "length (er_srsSet s) < srs_period s"
    using GetNewSrs_cond assms(3) by blast
  obtain i where i: "GetNewSrsConfigurationIndex s = Some (i, srs_take i s)"
    using GetNewSrs_total [OF assms(3) len] by blast
  obtain f t lc where "upd_ue r f (srs_take i s) = Some t"
    and "\<exists>as t'. setup_srb lc (um_componentCarrierId u) (emits as t) = Some t'"
    using assms(1,2) i unfolding DoInitialize_def rrc_steps by fastforce
  then show "um_componentCarrierId u \<in> set (carrier_ids s)"
    by (auto simp: upd_ue_eq emits_def dest!: setup_srb_cond)
  show "um_state u = INITIAL_RANDOM_ACCESS \<or> um_state u = HANDOVER_JOINING"
    using assms(1,2) by (auto simp: DoInitialize_def rrc_steps split: if_splits)
qed

lemma AddUe_cond:
  assumes "AddUe v st cc s = Some (r, s')" and "rrc_ok s"
  shows "rnti_search (\<lambda>r. HasUeManager r s) (er_lastAllocatedRnti s) (er_lastAllocatedRnti s + 1) = Some (True, r)"
    and "length (er_srsSet s) < srs_period s" and "cc \<in> set (carrier_ids s)" and "carrier_at cc s \<noteq> None"
    and "st = INITIAL_RANDOM_ACCESS \<or> st = HANDOVER_JOINING"
proof -
  define t where "t = (ccm_AddUe r st (s\<lparr>er_lastAllocatedRnti := r\<rparr>))
    \<lparr>er_ueMap := (er_ueMap s)(r \<mapsto> new_ue_manager (rv_fresh v) st cc)\<rparr>"
  from assms(1) have found: "rnti_search (\<lambda>r. HasUeManager r s) (er_lastAllocatedRnti s) (er_lastAllocatedRnti s + 1) = Some (True, r)"
    and d: "DoInitialize r t = Some s'" and cell: "ComponentCarrierToCellId cc s' \<noteq> None"
    by (auto simp: AddUe_def t_def rrc_steps ccm_AddUe_def split: if_splits)
  show "rnti_search (\<lambda>r. HasUeManager r s) (er_lastAllocatedRnti s) (er_lastAllocatedRnti s + 1) = Some (True, r)"
    by (rule found)
  have t: "er_srsPeriodicityId t = er_srsPeriodicityId s" "er_srsSet t = er_srsSet s" "er_ccm t r \<noteq> None"
    "carrier_ids t = carrier_ids s" "er_ueMap t r = Some (new_ue_manager (rv_fresh v) st cc)"
    "er_carriers t = er_carriers s"
    by (simp_all add: t_def ccm_AddUe_def)
  have inv: "srs_inv t"
    using assms(2) by (simp add: rrc_ok_def core_inv_def srs_inv_def srs_low_def srs_high_def t)
  note c = DoInitialize_cond [OF d t(5) inv]
  show "length (er_srsSet s) < srs_period s"
    using c(1) by (simp add: srs_period_def t)
  show cc: "cc \<in> set (carrier_ids s)"
    using c(2) by (simp add: t)
  show st: "st = INITIAL_RANDOM_ACCESS \<or> st = HANDOVER_JOINING"
    using c(3) by simp
  obtain i where "GetNewSrsConfigurationIndex t = Some (i, srs_take i t)"
    using GetNewSrs_total [OF inv c(1)] by blast
  from DoInitialize_eq [OF t(5,3) this] cc st d have "er_carriers s' = er_carriers s"
    by (auto simp: t)
  with cell show "carrier_at cc s \<noteq> None"
    by (simp add: ComponentCarrierToCellId_def carrier_at_def)
qed

section \<open>A new context\<close>

lemma set_srs_insert [simp]: "set (srs_insert i is) = insert i (set is)"
  by (auto simp: srs_insert_def set_insort_key)

lemma phase_ok_init: "phase_ok (ctx_phase (initialized i m (new_ue_manager w st cc))) \<longleftrightarrow>
    timer_state (init_timer st) = st"
  by (auto simp: phase_ok_def initialized_def)

lemma added_ok:
  assumes ok: "rrc_ok s" and r: "r \<noteq> 0" "er_ueMap s r = None"
    and i: "i \<notin> set (er_srsSet s)" "srs_low s \<le> unat i" "unat i \<le> srs_high s"
    and cc: "carrier_at cc s \<noteq> None"
    and st: "st = INITIAL_RANDOM_ACCESS \<or> st = HANDOVER_JOINING"
  shows "rrc_ok (added v st cc r i c as s)"
proof -
  let ?t = "added v st cc r i c as s"
  have core: "srs_inv s" "ctxs_inv s" "x2u_inv s" and tm: "timers_inv s"
    using ok by (simp_all add: rrc_ok_def core_inv_def)
  have ids: "rrc_ids ?t = (rrc_ids s)(r \<mapsto> (i, cc))"
    by (auto simp: rrc_ids_eq added_def initialized_def um_srs_def fun_eq_iff um_schedule_def)
  have ctx: "rrc_ctxs ?t = (rrc_ctxs s)(r \<mapsto> (i, cc, []))"
    by (auto simp: rrc_ctxs_def ctx_core_def added_def initialized_def um_srs_def fun_eq_iff um_schedule_def)
  have "srs_inv (srs_take i s)"
    by (rule srs_take_inv [OF core(1) i(2,3)])
  then have srs: "srs_inv ?t"
    by (simp add: srs_inv_def added_def srs_low_def srs_high_def srs_take_def)
  have "ctxs_inv ?t"
    unfolding ctxs_inv_def
  proof (intro conjI allI impI)
    fix r' i' cc'
    assume x: "rrc_ids ?t r' = Some (i', cc')"
    have "r' \<noteq> 0 \<and> i' \<in> insert i (set (er_srsSet s)) \<and> carrier_at cc' s \<noteq> None"
    proof (cases "r' = r")
      case True
      with x r cc show ?thesis by (simp add: ids)
    next
      case False
      with x have "rrc_ids s r' = Some (i', cc')" by (simp add: ids)
      with core(2) show ?thesis unfolding ctxs_inv_def by blast
    qed
    then show "r' \<noteq> 0" "i' \<in> set (er_srsSet ?t)" "carrier_at cc' ?t \<noteq> None"
      by (simp_all add: added_def carrier_at_def)
  next
    fix r1 r2 c1 c2
    assume a: "r1 \<noteq> r2" "rrc_ids ?t r1 = Some c1" "rrc_ids ?t r2 = Some c2"
    have old: "fst d \<noteq> i" if "rrc_ids s r' = Some d" for r' d
      using core(2) that i(1) unfolding ctxs_inv_def by (cases d) auto
    show "fst c1 \<noteq> fst c2"
      using a ctxs_inv_distinct [OF core(2) a(1)] old [of r1 c1] old [of r2 c2]
      by (auto simp: ids split: if_splits)
  next
    fix r'
    show "(er_ccm ?t r' = None) = (rrc_ids ?t r' = None)"
      using core(2) unfolding ctxs_inv_def ids by (simp add: added_def)
  qed
  moreover have "x2u_inv ?t"
    unfolding x2u_inv_def
  proof (intro allI impI)
    fix teid r' b
    assume "er_x2uTeidInfo ?t teid = Some (r', b)"
    then have x: "er_x2uTeidInfo s teid = Some (r', b)"
      by (simp add: added_def)
    obtain i' cc' ds d where d: "rrc_ctxs s r' = Some (i', cc', ds)" "map_of ds b = Some d" "db_gtpTeid d = teid"
      by (rule x2u_invE [OF core(3) x])
    moreover have "r' \<noteq> r"
      using d(1) r(2) by (auto simp: rrc_ctxs_def)
    ultimately show "\<exists>i cc ds d. rrc_ctxs ?t r' = Some (i, cc, ds) \<and> map_of ds b = Some d \<and> db_gtpTeid d = teid"
      by (simp add: ctx)
  qed
  moreover have "timers_inv ?t"
  proof -
    have "rrc_phase ?t = (rrc_phase s)(r \<mapsto> ctx_phase (initialized i (er_defaultTransmissionMode s) (new_ue_manager (rv_fresh v) st cc)))"
      by (auto simp: rrc_phase_def added_def fun_eq_iff)
    with tm st show ?thesis
      by (auto simp: timers_inv_def phase_ok_init [simplified] init_timer_def split: if_splits)
  qed
  ultimately show ?thesis
    using srs by (simp add: rrc_ok_def core_inv_def)
qed

lemma AddUe_ok:
  assumes "AddUe v st cc s = Some (r, s')" and "rrc_ok s"
  shows "rrc_ok s'" and "\<exists>i c as. s' = added v st cc r i c as s" and "r \<noteq> 0" and "er_ueMap s r = None"
proof -
  note c = AddUe_cond [OF assms]
  have inv: "srs_inv s"
    using assms(2) by (simp add: rrc_ok_def core_inv_def)
  obtain i cm as where e: "s' = added v st cc r i cm as s" "i \<notin> set (er_srsSet s)" "srs_low s \<le> unat i" "unat i \<le> srs_high s"
    using AddUe_eq [OF c(1) inv c(2-5), of v] assms(1) by auto
  show r: "r \<noteq> 0" "er_ueMap s r = None"
    using rnti_search_found [OF c(1)] by (auto simp: HasUeManager_def)
  show "rrc_ok s'"
    unfolding e(1) by (rule added_ok [OF assms(2) r e(2-4) c(4,5)])
  show "\<exists>i c as. s' = added v st cc r i c as s"
    using e(1) by blast
qed

section \<open>Ends of contexts\<close>

lemma BuildHoPrepFailMsg_total:
  "rrc_ok s \<Longrightarrow> er_ueMap s r = Some u \<Longrightarrow>
     \<exists>m. BuildHoPrepFailMsg r s = Some m \<and> hf_sourceCellId m = um_sourceCellId u"
  using ok_context(3) [of s r u] by (auto simp: BuildHoPrepFailMsg_def GetUeManager_def ComponentCarrierToCellId_def)

lemma BuildHoCancelMsg_total:
  "rrc_ok s \<Longrightarrow> er_ueMap s r = Some u \<Longrightarrow>
     \<exists>m. BuildHoCancelMsg r s = Some m \<and> hc_targetCellId m = um_targetCellId u"
  using ok_context(3) [of s r u] by (auto simp: BuildHoCancelMsg_def GetUeManager_def ComponentCarrierToCellId_def)

text \<open>The context is gone, the others are as they were, and the invariant holds.\<close>

definition gone :: "u16 \<Rightarrow> enb_rrc \<Rightarrow> enb_rrc option \<Rightarrow> bool" where
  "gone r s x \<longleftrightarrow> (\<exists>s'. x = Some s' \<and> rrc_ok s' \<and> er_ueMap s' = (er_ueMap s)(r := None))"

lemma RemoveUe_gone: "rrc_ok s \<Longrightarrow> er_ueMap s r = Some u \<Longrightarrow> gone r s (RemoveUe r s)"
  using RemoveUe_ok [of s r u] by (auto simp: gone_def removed_def)

lemma gone_emit [simp]:
  "gone r (emit a s) x = gone r s x" "gone r (emits as s) x = gone r s x"
  by (simp_all add: gone_def)

text \<open>
  A context that is joining by a handover ends with a message to the source cell, which fails without
  an X2 interface to it.
\<close>

definition tells_source :: "ue_manager \<Rightarrow> enb_rrc \<Rightarrow> bool" where
  "tells_source u s \<longleftrightarrow> (um_state u = HANDOVER_JOINING \<longrightarrow> um_sourceCellId u \<in> set (er_x2Cells s))"

lemma RemoveRequest_fails:
  assumes "rrc_ok s" and u: "er_ueMap s r = Some u" and "\<not> tells_source u s"
  shows "DoRecvIdealUeContextRemoveRequest r s = None"
proof -
  obtain m where "BuildHoPrepFailMsg r s = Some m" "hf_sourceCellId m = um_sourceCellId u"
    using BuildHoPrepFailMsg_total [OF assms(1,2)] by blast
  with assms(3) show ?thesis
    by (simp add: DoRecvIdealUeContextRemoveRequest_def GetUeManager_def u tells_source_def x2_emit_def)
qed

lemma RemoveRequest_gone:
  assumes "rrc_ok s" and u: "er_ueMap s r = Some u" and peer: "tells_source u s"
  shows "gone r s (DoRecvIdealUeContextRemoveRequest r s)"
proof -
  obtain m where m: "BuildHoPrepFailMsg r s = Some m" "hf_sourceCellId m = um_sourceCellId u"
    using BuildHoPrepFailMsg_total [OF assms(1,2)] by blast
  have "\<exists>as. DoRecvIdealUeContextRemoveRequest r s = RemoveUe r (emits as s)"
  proof -
    have "\<exists>as. t = emits as s" if "t = s \<or> t = emit a s" for t a
      using that by (auto simp: emit_def emits_def intro: exI [of _ "[]"])
    then show ?thesis
      by (auto simp: DoRecvIdealUeContextRemoveRequest_def RecvIdealUeContextRemoveRequest_def
          GetUeManager_def u m x2_emit_def peer [unfolded tells_source_def] emit_def emits_def
          intro: exI [of _ "[]"])
  qed
  then obtain as where e: "DoRecvIdealUeContextRemoveRequest r s = RemoveUe r (emits as s)" ..
  have "gone r (emits as s) (RemoveUe r (emits as s))"
    by (rule RemoveUe_gone) (use assms in simp_all)
  with e show ?thesis by simp
qed

lemma SendRrcConnectionRelease_gone:
  assumes "rrc_ok s" and u: "er_ueMap s r = Some u"
  shows "if tells_source u s then gone r s (um_SendRrcConnectionRelease r s)
    else um_SendRrcConnectionRelease r s = None"
proof -
  let ?u = "snd (GetNewRrcTransactionIdentifier u)"
  obtain t where t: "upd_ue r (\<lambda>_. ?u) s = Some t" "t = s\<lparr>er_ueMap := (er_ueMap s)(r \<mapsto> ?u)\<rparr>"
    by (simp add: upd_ue_Some [where r = r] u)
  have "calm r (=) s t"
    using t(1) by (rule calm_upd_ue) (auto simp: u)
  then have "rrc_ok t"
    using calm_eq_ok assms(1) by blast
  moreover have "tells_source ?u (emit a t) = tells_source u s" for a
    by (simp add: tells_source_def t(2) GetNewRrcTransactionIdentifier_def Let_def)
  ultimately have "if tells_source u s then gone r t (DoRecvIdealUeContextRemoveRequest r (emit a t))
      else DoRecvIdealUeContextRemoveRequest r (emit a t) = None" for a
    using RemoveRequest_gone [of "emit a t" r ?u] RemoveRequest_fails [of "emit a t" r ?u] t(2) by simp
  moreover have "um_SendRrcConnectionRelease r s = DoRecvIdealUeContextRemoveRequest r
      (emit (SendRrcConnectionRelease r (fst (GetNewRrcTransactionIdentifier u))) t)"
    using t(1) by (simp add: um_SendRrcConnectionRelease_def GetUeManager_def u Let_def prod.case_eq_if)
  moreover have "(er_ueMap t)(r := None) = (er_ueMap s)(r := None)"
    by (simp add: t(2))
  ultimately show ?thesis
    by (cases "tells_source u s") (simp_all add: gone_def)
qed

lemma um_SendRelease_ok:
  assumes "um_SendRrcConnectionRelease r s = Some s'" and "rrc_ok s" and "er_ueMap s r = Some u"
  shows "rrc_ok s'"
  using SendRrcConnectionRelease_gone [OF assms(2,3)] assms(1) by (auto simp: gone_def split: if_splits)

text \<open>
  A timer that fires ends the context, whatever timer it is. The two handover timers first tell the
  other cell over X2, and fail when there is no interface to it.
\<close>

fun timer_x2_ok :: "ue_timer \<Rightarrow> ue_manager \<Rightarrow> enb_rrc \<Rightarrow> bool" where
  "timer_x2_ok HandoverJoiningTimeout u s = (um_sourceCellId u \<in> set (er_x2Cells s))"
| "timer_x2_ok HandoverLeavingTimeout u s = (um_targetCellId u \<in> set (er_x2Cells s))"
| "timer_x2_ok _ u s = True"

lemma timeout_gone:
  assumes "rrc_ok s" and u: "er_ueMap s r = Some u" and p: "um_pending u t"
  shows "if timer_x2_ok t u s then gone r s (rrc_timeout t r s) else rrc_timeout t r s = None"
proof -
  obtain s1 where s1: "fired t r s = Some s1" "s1 = s\<lparr>er_ueMap := (er_ueMap s)(r \<mapsto> um_cancel t u)\<rparr>"
    by (simp add: fired_def upd_ue_Some [where r = r] u)
  have "calm r keeps_ok s s1"
    using s1(1) unfolding fired_def
    by (rule calm_upd_ue) (auto simp: keeps_ok_def phase_ok_def)
  then have ok: "rrc_ok s1"
    using calm_ok assms(1) by blast
  have u1: "er_ueMap s1 r = Some (um_cancel t u)"
    by (simp add: s1(2))
  obtain m1 m2 where m: "BuildHoPrepFailMsg r s1 = Some m1" "hf_sourceCellId m1 = um_sourceCellId u"
    "BuildHoCancelMsg r s1 = Some m2" "hc_targetCellId m2 = um_targetCellId u"
    using BuildHoPrepFailMsg_total [OF ok u1] BuildHoCancelMsg_total [OF ok u1]
    by (auto simp: um_cancel_def)
  have "um_state u = timer_state t"
    using assms by (auto simp: rrc_ok_def timers_inv_def phase_ok_def rrc_phase_def)
  then have "tells_source (um_cancel t u) (emit a s1)" if "t = HandoverLeavingTimeout" for a
    using that by (simp add: tells_source_def um_cancel_def)
  then have "gone r s1 (RemoveUe r s1)" "gone r s1 (RemoveUe r (emit a s1))"
    "t = HandoverLeavingTimeout \<Longrightarrow> gone r s1 (um_SendRrcConnectionRelease r (emit a s1))" for a
    using RemoveUe_gone [OF ok u1] RemoveUe_gone [of "emit a s1" r] ok u1
      SendRrcConnectionRelease_gone [of "emit a s1" r] by simp_all
  moreover have "rrc_timeout t r s = (case t of
       ConnectionRequestTimeout \<Rightarrow> RemoveUe r s1
     | ConnectionSetupTimeout \<Rightarrow> RemoveUe r s1
     | ConnectionRejectedTimeout \<Rightarrow> RemoveUe r s1
     | HandoverJoiningTimeout \<Rightarrow> do_HandoverJoiningTimeout r s1
     | HandoverLeavingTimeout \<Rightarrow> do_HandoverLeavingTimeout r s1)"
    by (simp add: rrc_timeout_def s1(1))
  moreover have "er_x2Cells s1 = er_x2Cells s"
    by (simp add: s1(2))
  ultimately have "if timer_x2_ok t u s then gone r s1 (rrc_timeout t r s) else rrc_timeout t r s = None"
    by (cases t)
       (simp_all add: do_HandoverJoiningTimeout_def do_HandoverLeavingTimeout_def m x2_emit_def)
  moreover have "(er_ueMap s1)(r := None) = (er_ueMap s)(r := None)"
    by (simp add: s1(2))
  ultimately show ?thesis
    by (cases "timer_x2_ok t u s") (simp_all add: gone_def)
qed

lemma gone_ok: "gone r s x \<Longrightarrow> x = Some s' \<Longrightarrow> rrc_ok s'"
  by (auto simp: gone_def)

lemma RecvHandoverPreparationFailure_ok:
  assumes "RecvHandoverPreparationFailure r s = Some s'" and "rrc_ok s"
  shows "rrc_ok s'"
proof -
  from assms(1) obtain u where u: "er_ueMap s r = Some u"
    by (auto simp: RecvHandoverPreparationFailure_def rrc_steps)
  consider (prep) "um_state u = HANDOVER_PREPARATION" "SwitchToState r CONNECTED_NORMALLY s = Some s'"
    | (leave) s1 where "um_state u = HANDOVER_LEAVING" "upd_ue r (um_cancel HandoverLeavingTimeout) s = Some s1"
        "um_SendRrcConnectionRelease r s1 = Some s'"
    using assms(1) u by (cases "um_state u") (auto simp: RecvHandoverPreparationFailure_def rrc_steps)
  then show ?thesis
  proof cases
    case prep
    from SwitchToState_calm [OF prep(2)] have "calm r keeps_ok s s'"
      by (rule calm_mono) (use phase_at [OF u] prep(1) keeps_enters in \<open>auto simp: keeps_ok_def\<close>)
    then show ?thesis using calm_ok assms(2) by blast
  next
    case leave
    from cancel_calm [OF leave(2)] have "calm r keeps_ok s s1"
      by (rule calm_mono) (auto simp: keeps_ok_def cancels_def phase_ok_def)
    then have "rrc_ok s1" "\<exists>u. er_ueMap s1 r = Some u"
      using calm_ok assms(2) calm_mapped by blast+
    then show ?thesis
      using um_SendRelease_ok leave(3) by blast
  qed
qed

lemma HandoverCancel_ok:
  assumes "DoRecvHandoverCancel p s = Some s'" and "rrc_ok s"
  shows "rrc_ok s'"
proof (cases "HasUeManager (hc_newEnbUeX2apId p) s")
  case False
  with assms show ?thesis by (simp add: DoRecvHandoverCancel_def Let_def)
next
  case True
  let ?r = "hc_newEnbUeX2apId p"
  from True assms(1) obtain s1 where 1: "upd_ue ?r (um_cancel HandoverJoiningTimeout) s = Some s1"
    and 2: "RecvIdealUeContextRemoveRequest ?r s1 = Some s'"
    by (auto simp: DoRecvHandoverCancel_def rrc_steps)
  from cancel_calm [OF 1] have "calm ?r keeps_ok s s1"
    by (rule calm_mono) (auto simp: keeps_ok_def cancels_def phase_ok_def)
  then have "rrc_ok s1"
    using calm_ok assms(2) by blast
  with 2 show ?thesis
    by (auto simp: RecvIdealUeContextRemoveRequest_def rrc_steps)
qed

lemma UeContextRelease_ok:
  assumes "DoRecvUeContextRelease p s = Some s'" and "rrc_ok s"
  shows "rrc_ok s'" and "r \<noteq> hu_oldEnbUeX2apId p \<Longrightarrow> rrc_phase s' r = rrc_phase s r"
proof -
  let ?r = "hu_oldEnbUeX2apId p"
  have "rrc_ok s' \<and> (\<forall>r. r \<noteq> ?r \<longrightarrow> rrc_phase s' r = rrc_phase s r)"
  proof (cases "HasUeManager ?r s")
    case False
    with assms show ?thesis by (simp add: DoRecvUeContextRelease_def Let_def)
  next
    case True
    with assms(1) obtain s1 where 1: "upd_ue ?r (um_cancel HandoverLeavingTimeout) s = Some s1"
      and 2: "RemoveUe ?r s1 = Some s'"
      by (auto simp: DoRecvUeContextRelease_def rrc_steps)
    note c = cancel_calm [OF 1]
    from c have "calm ?r keeps_ok s s1"
      by (rule calm_mono) (auto simp: keeps_ok_def cancels_def phase_ok_def)
    then have "rrc_ok s1" "\<exists>u. er_ueMap s1 ?r = Some u"
      using calm_ok assms(2) calm_mapped by blast+
    then have "gone ?r s1 (Some s')"
      using RemoveUe_gone 2 by fastforce
    then show ?thesis
      using c by (auto simp: gone_def calm_def rrc_phase_def fun_eq_iff)
  qed
  then show "rrc_ok s'" "r \<noteq> ?r \<Longrightarrow> rrc_phase s' r = rrc_phase s r" by auto
qed

section \<open>Handover\<close>

text \<open>The bearers of one context are set up; the phases of the others stay.\<close>

definition only_phase :: "u16 \<Rightarrow> enb_rrc \<Rightarrow> enb_rrc \<Rightarrow> bool" where
  "only_phase r s s' \<longleftrightarrow> (rrc_ok s \<longrightarrow> rrc_ok s') \<and> (\<forall>r'. r' \<noteq> r \<longrightarrow> rrc_phase s' r' = rrc_phase s r')"

lemma only_phase_refl: "only_phase r s s"
  by (simp add: only_phase_def)

lemma only_phase_trans [trans]: "only_phase r s t \<Longrightarrow> only_phase r t u \<Longrightarrow> only_phase r s u"
  by (simp add: only_phase_def)

lemma only_phase_emit [simp]:
  "only_phase r s (emit a t) = only_phase r s t" "only_phase r (emit a s) t = only_phase r s t"
  "only_phase r s (emits as t) = only_phase r s t" "only_phase r (emits as s) t = only_phase r s t"
  "only_phase r s (t\<lparr>er_ideal := g\<rparr>) = only_phase r s t"
  by (simp_all add: only_phase_def)

lemma calm_only: "calm r keeps_ok s s' \<Longrightarrow> only_phase r s s'"
  using calm_ok by (auto simp: only_phase_def calm_def)

lemma calm_eq_only: "calm r (=) s s' \<Longrightarrow> only_phase r s s'"
  by (erule calm_only [OF calm_mono]) (simp add: keeps_ok_def)

lemma Setup_only: "SetupDataRadioBearer r b i t a s = Some s' \<Longrightarrow> rrc_ok s \<Longrightarrow> only_phase r s s'"
  using SetupDataRadioBearer_ok by (auto simp: only_phase_def)

lemma fold_Setup_only:
  assumes "fold_option f xs s = Some s'" and "rrc_ok s"
    and "\<And>x s. x \<in> set xs \<Longrightarrow> \<exists>b i t a. f x s = SetupDataRadioBearer r b i t a s"
  shows "only_phase r s s'"
  using assms
proof (induction xs arbitrary: s)
  case Nil
  then show ?case by (simp add: only_phase_refl)
next
  case (Cons x xs)
  from Cons.prems(1) obtain s1 where 1: "f x s = Some s1" and 2: "fold_option f xs s1 = Some s'"
    by (auto simp: bind_eq_Some_conv)
  have s1: "only_phase r s s1"
    using Cons.prems(3) [of x s] 1 Setup_only Cons.prems(2) by fastforce
  moreover have "only_phase r s1 s'"
    using Cons.IH [OF 2] Cons.prems(2,3) s1 by (auto simp: only_phase_def)
  ultimately show ?case by (rule only_phase_trans)
qed

lemma ForHandover_only:
  assumes "GetRrcConnectionReconfigurationForHandover r cc s = Some (m, s')"
  shows "only_phase r s s'"
proof -
  from assms obtain m1 where "BuildRrcConnectionReconfiguration r s = Some (m1, s')"
    by (auto simp: GetRrcConnectionReconfigurationForHandover_def rrc_steps split: if_splits)
  then show ?thesis
    using BuildReconfiguration_calm calm_eq_only by blast
qed

lemma identify_only:
  "upd_ue r (SetImsi imsi \<circ> SetSource cell x) s = Some s' \<Longrightarrow> only_phase r s s'"
  by (rule calm_eq_only, erule calm_upd_ue) auto

lemma accept_handover_only:
  assumes "accept_handover v req cc r pr s = Some s'" and "rrc_ok s"
  shows "only_phase r s s'"
proof -
  from assms(1) obtain s1 m s2 a g where 1: "fold_option (setup_bearer_for r) (hq_bearers req) s = Some s1"
    and 2: "GetRrcConnectionReconfigurationForHandover r cc s1 = Some (m, s2)"
    and 3: "s' = emit a (s2\<lparr>er_ideal := g\<rparr>)"
    by (auto simp: accept_handover_def rrc_steps)
  have "only_phase r s s1"
    by (rule fold_Setup_only [OF 1 assms(2)]) (auto simp: setup_bearer_for_def)
  also note ForHandover_only [OF 2]
  finally show ?thesis
    by (simp add: 3)
qed

lemma DoRecvHandoverRequest_ok:
  assumes "DoRecvHandoverRequest v req s = Some s'" and "rrc_ok s"
  shows "rrc_ok s'"
proof -
  obtain full where full: "(if er_admitHandoverRequest s then IsMaxSrsReached s else Some True) = Some full"
    using assms(1) by (auto simp: DoRecvHandoverRequest_def bind_eq_Some_conv)
  consider (refused) a where "s' = emit a s"
    | (tried) cc r s1 s2 where "AddUe v HANDOVER_JOINING cc s = Some (r, s1)"
        "upd_ue r (SetImsi (ucast (hq_mmeUeS1apId req)) \<circ>
              SetSource (hq_sourceCellId req) (hq_oldEnbUeX2apId req)) s1 = Some s2"
        "(case rv_preamble v cc r of
           None \<Rightarrow> \<exists>a. RemoveUe r (emit a (emit (CmacAllocateNcRaPreamble cc r) s2)) = Some s'
         | Some p \<Rightarrow> accept_handover v req cc r p (emit (CmacAllocateNcRaPreamble cc r) s2) = Some s')"
  proof (cases full)
    case True
    with assms(1) full have "s' = emit (X2Send (XHandoverPreparationFailure (prep_failure_for req))) s"
      by (simp add: DoRecvHandoverRequest_def)
    then show ?thesis by (rule that(1))
  next
    case False
    with assms(1) full obtain cc r s1 s2 where
      a: "AddUe v HANDOVER_JOINING cc s = Some (r, s1)"
        "upd_ue r (SetImsi (ucast (hq_mmeUeS1apId req)) \<circ>
              SetSource (hq_sourceCellId req) (hq_oldEnbUeX2apId req)) s1 = Some s2"
      and c: "(case rv_preamble v cc r of
         None \<Rightarrow> do {
           m \<leftarrow> BuildHoPrepFailMsg r (emit (CmacAllocateNcRaPreamble cc r) s2);
           t \<leftarrow> x2_emit (XHandoverPreparationFailure m) (emit (CmacAllocateNcRaPreamble cc r) s2);
           RemoveUe r t }
       | Some preamble \<Rightarrow> accept_handover v req cc r preamble (emit (CmacAllocateNcRaPreamble cc r) s2)) = Some s'"
      by (auto simp: DoRecvHandoverRequest_def bind_eq_Some_conv Let_def simp del: o_apply)
    from c have "(case rv_preamble v cc r of
           None \<Rightarrow> \<exists>a. RemoveUe r (emit a (emit (CmacAllocateNcRaPreamble cc r) s2)) = Some s'
         | Some p \<Rightarrow> accept_handover v req cc r p (emit (CmacAllocateNcRaPreamble cc r) s2) = Some s')"
      by (cases "rv_preamble v cc r") (auto simp: bind_eq_Some_conv)
    from a this show ?thesis by (rule that(2))
  qed
  then show ?thesis
  proof cases
    case refused
    with assms(2) show ?thesis by simp
  next
    case tried
    have s2: "rrc_ok s2"
      using AddUe_ok(1) [OF tried(1) assms(2)] identify_only [OF tried(2)] by (simp add: only_phase_def)
    show ?thesis
    proof (cases "rv_preamble v cc r")
      case None
      with tried(3) obtain a where rm: "RemoveUe r (emit a (emit (CmacAllocateNcRaPreamble cc r) s2)) = Some s'"
        by auto
      obtain u where "er_ueMap s2 r = Some u"
        using tried(2) by (auto simp: upd_ue_eq)
      then have "gone r (emit a (emit (CmacAllocateNcRaPreamble cc r) s2)) (Some s')"
        unfolding rm [symmetric] by (intro RemoveUe_gone) (use s2 in auto)
      then show ?thesis by (auto intro: gone_ok)
    next
      case (Some p)
      with tried(3) accept_handover_only s2 show ?thesis
        by (fastforce simp: only_phase_def)
    qed
  qed
qed

lemma internal_handover_ok:
  assumes "internal_handover v r cell s = Some s'" and "rrc_ok s"
    and "rrc_phase s r = Some p" and "fst p = CONNECTED_NORMALLY"
  shows "rrc_ok s'"
proof -
  from assms(1) obtain u cc n s1 s2 s3 m s4 s5 s6 a b x where u: "er_ueMap s r = Some u"
    and 1: "AddUe v HANDOVER_JOINING cc s = Some (n, s1)"
    and 2: "upd_ue n (SetImsi (um_imsi u) \<circ> SetSource x r) (emit a s1) = Some s2"
    and 3: "fold_option (\<lambda>(_, d). setup_bearer_of n d) (um_drbMap u) s2 = Some s3"
    and 4: "GetRrcConnectionReconfigurationForHandover r cc s3 = Some (m, s4)"
    and 5: "SwitchToState r HANDOVER_LEAVING (emit b s4) = Some s5"
    and 6: "upd_ue r (um_schedule HandoverLeavingTimeout) s5 = Some s'"
    unfolding internal_handover_def bind_eq_Some_conv GetUeManager_def Let_def
    by (clarsimp simp: bind_eq_Some_conv simp del: o_apply)
  obtain i c as where s1: "rrc_ok s1" "s1 = added v HANDOVER_JOINING cc n i c as s" "er_ueMap s n = None"
    using AddUe_ok [OF 1 assms(2)] by blast
  have n: "n \<noteq> r" using s1(3) u by auto
  have o2: "only_phase n s1 s2"
    using identify_only [OF 2] by simp
  then have ok2: "rrc_ok s2" using s1(1) by (simp add: only_phase_def)
  have "only_phase n s2 s3"
    by (rule fold_Setup_only [OF 3 ok2]) (auto simp: setup_bearer_of_def)
  with o2 have o3: "only_phase n s1 s3" by (rule only_phase_trans)
  then have ok3: "rrc_ok s3" using s1(1) by (simp add: only_phase_def)
  have c4: "calm r (=) s3 s4"
    using 4 BuildReconfiguration_calm
    by (fastforce simp: GetRrcConnectionReconfigurationForHandover_def rrc_steps split: if_splits)
  then have ok4: "rrc_ok s4" using calm_eq_ok ok3 by blast
  have "rrc_phase s1 r = rrc_phase s r"
    using n by (simp add: s1(2) added_def rrc_phase_def)
  then have p4: "rrc_phase s4 r = Some p"
    using o3 c4 n assms(3) by (auto simp: only_phase_def calm_def)
  have "calm r (enters HANDOVER_LEAVING) s4 s5"
    using SwitchToState_calm [OF 5] by simp
  also have "calm r (\<lambda>p p'. p' = (fst p, (snd p)(HandoverLeavingTimeout := True))) s5 s'"
    using 6 by (rule calm_upd_ue) auto
  finally have "calm r keeps_ok s4 s'"
    by (rule calm_mono)
       (use p4 assms(4) keeps_schedule [of p HandoverLeavingTimeout] in
         \<open>auto simp: keeps_ok_def relcompp_apply\<close>)
  then show ?thesis
    using calm_ok ok4 by blast
qed

lemma DoTriggerHandover_ok:
  assumes "DoTriggerHandover a r cell s v = Some s'" and "rrc_ok s"
  shows "rrc_ok s'"
proof -
  from assms(1) obtain u where u: "er_ueMap s r = Some u"
    by (auto simp: DoTriggerHandover_def rrc_steps)
  consider (no) "s' = s" | (yes) "um_state u = CONNECTED_NORMALLY" "PrepareHandover v r cell s = Some s'"
    using assms(1) u by (auto simp: DoTriggerHandover_def rrc_steps split: if_splits)
  then show ?thesis
  proof cases
    case no
    with assms(2) show ?thesis by simp
  next
    case yes
    then obtain s1 where 1: "upd_ue r (\<lambda>u. u\<lparr>um_targetCellId := cell\<rparr>) s = Some s1"
      and 2: "internal_handover v r cell s1 = Some s' \<or> x2_handover r cell s1 = Some s'"
      by (auto simp: PrepareHandover_def rrc_steps split: if_splits)
    have c: "calm r (=) s s1"
      using 1 by (rule calm_upd_ue) auto
    then have ok1: "rrc_ok s1" using calm_eq_ok assms(2) by blast
    have p1: "rrc_phase s1 r = Some (CONNECTED_NORMALLY, um_pending u)"
      using c u yes(1) by (auto simp: calm_def rrc_phase_def)
    from 2 show ?thesis
    proof
      assume "internal_handover v r cell s1 = Some s'"
      then show ?thesis by (rule internal_handover_ok [OF _ ok1 p1]) simp
    next
      assume "x2_handover r cell s1 = Some s'"
      then have "calm r keeps_ok s1 s'" by (rule x2_handover_calm [OF _ p1]) simp
      then show ?thesis using calm_ok ok1 by blast
    qed
  qed
qed

lemma UeContextRelease_removes:
  assumes "DoRecvUeContextRelease p s = Some s'" and "rrc_ok s"
  shows "er_ueMap s' (hu_oldEnbUeX2apId p) = None"
proof (cases "HasUeManager (hu_oldEnbUeX2apId p) s")
  case False
  with assms show ?thesis by (auto simp: DoRecvUeContextRelease_def Let_def HasUeManager_def)
next
  case True
  then show ?thesis
    using assms(1) by (auto simp: DoRecvUeContextRelease_def RemoveUe_def rrc_steps x2u_erase_all
        ccm_RemoveUe_def RemoveSrsConfigurationIndex_def emit_def emits_def split: if_splits)
qed

lemma SendUeContextRelease_ok:
  assumes "SendUeContextRelease r s = Some s'" and "rrc_ok s"
  shows "rrc_ok s'"
proof -
  from assms(1) obtain u where u: "er_ueMap s r = Some u" "um_state u = HANDOVER_PATH_SWITCH"
    by (auto simp: SendUeContextRelease_def rrc_steps split: if_splits)
  from assms(1) u obtain p s1 where 1: "DoRecvUeContextRelease p s = Some s1 \<or> (\<exists>a. s1 = emit a s)"
    and 2: "SwitchToState r CONNECTED_NORMALLY s1 = Some s'"
    by (fastforce simp: SendUeContextRelease_def rrc_steps split: if_splits)
  have c: "calm r (enters CONNECTED_NORMALLY) s1 s'"
    by (rule SwitchToState_calm [OF 2])
  then have some: "er_ueMap s1 r \<noteq> None"
    by (auto simp: calm_def rrc_phase_def)
  have "rrc_ok s1 \<and> rrc_phase s1 r = rrc_phase s r"
    using 1
  proof
    assume rel: "DoRecvUeContextRelease p s = Some s1"
    have "r \<noteq> hu_oldEnbUeX2apId p"
      using UeContextRelease_removes [OF rel assms(2)] some by auto
    with UeContextRelease_ok [OF rel assms(2)] show ?thesis by simp
  next
    assume "\<exists>a. s1 = emit a s"
    with assms(2) show ?thesis by auto
  qed
  moreover have "rrc_phase s r = Some (HANDOVER_PATH_SWITCH, um_pending u)"
    using u by (simp add: rrc_phase_def)
  moreover from c calculation have "calm r keeps_ok s1 s'"
    by (elim calm_mono) (auto simp: keeps_ok_def elim!: keeps_enters)
  ultimately show ?thesis
    using calm_ok by blast
qed

lemma SendRelease_ok:
  assumes "DoSendReleaseDataRadioBearer imsi r b s = Some s'" and "rrc_ok s"
  shows "rrc_ok s'"
proof (cases "HasUeManager r s")
  case True
  with assms(1) obtain s1 a where "ReleaseDataRadioBearer r b s = Some s1" "s' = emit a s1"
    by (auto simp: DoSendReleaseDataRadioBearer_def rrc_steps split: if_splits)
  then show ?thesis using ReleaseDataRadioBearer_ok assms(2) by simp
next
  case False
  with assms show ?thesis by (simp add: DoSendReleaseDataRadioBearer_def)
qed

end
