(* ===== verification/EnbRrcProps.thy ===== *)
theory EnbRrcProps
  imports EnbRrcAdmit HandoverAlgo
begin

text \<open>
  The eNB RRC as a transition system: the states that a configured entity reaches by the calls it
  receives, the invariant of all of them, and what it gives for timers, new contexts and for the
  table of forwarded data.
\<close>

section \<open>Calls that other entities make\<close>

text \<open>
  Three calls depend on the state of the context, which the code does not check: a re-establishment is
  completed only after it was requested, a handover is acknowledged only while it is prepared, and a
  timer fires only when it is pending.
\<close>

definition in_state :: "ue_state \<Rightarrow> u16 \<Rightarrow> enb_rrc \<Rightarrow> bool" where
  "in_state st r s \<longleftrightarrow> (case er_ueMap s r of None \<Rightarrow> False | Some u \<Rightarrow> um_state u = st)"

fun rrc_event_ok :: "rrc_event \<Rightarrow> enb_rrc \<Rightarrow> bool" where
  "rrc_event_ok (UeReestablishmentComplete r) s = in_state CONNECTION_REESTABLISHMENT r s"
| "rrc_event_ok (FromX2 (XHandoverRequestAck p)) s = in_state HANDOVER_PREPARATION (hk_oldEnbUeX2apId p) s"
| "rrc_event_ok (TimerFires t r) s = (case er_ueMap s r of None \<Rightarrow> False | Some u \<Rightarrow> um_pending u t)"
| "rrc_event_ok _ s = True"

lemma in_state_phase: "in_state st r s \<Longrightarrow> \<exists>p. rrc_phase s r = Some p \<and> fst p = st"
  by (auto simp: in_state_def rrc_phase_def split: option.splits)

lemma event_ok_timer:
  assumes "rrc_event_ok (TimerFires t r) s"
  obtains u where "er_ueMap s r = Some u" "um_pending u t"
  using assms that by (auto split: option.splits)

lemma rrc_x2_ok:
  assumes "rrc_RecvX2 v m s = Some s'" and "rrc_event_ok (FromX2 m) s" and "rrc_ok s"
  shows "rrc_ok s'"
proof (cases m)
  case (XHandoverRequest p)
  with assms show ?thesis using DoRecvHandoverRequest_ok by auto
next
  case (XHandoverRequestAck p)
  with assms(2) obtain q where "rrc_phase s (hk_oldEnbUeX2apId p) = Some q" "fst q = HANDOVER_PREPARATION"
    using in_state_phase by force
  moreover have "RecvHandoverRequestAck v (hk_oldEnbUeX2apId p) p s = Some s'"
    using XHandoverRequestAck assms(1) by (simp add: DoRecvHandoverRequestAck_def)
  ultimately show ?thesis
    using RecvHandoverRequestAck_calm calm_ok assms(3) by blast
next
  case (XHandoverPreparationFailure p)
  with assms show ?thesis
    using RecvHandoverPreparationFailure_ok by (auto simp: DoRecvHandoverPreparationFailure_def split: if_splits)
next
  case (XSnStatusTransfer p)
  with assms show ?thesis by (auto simp: DoRecvSnStatusTransfer_def)
next
  case (XUeContextRelease p)
  with assms show ?thesis using UeContextRelease_ok by auto
next
  case (XLoadInformation p)
  with assms show ?thesis by (auto simp: DoRecvLoadInformation_def split: if_splits)
next
  case (XResourceStatusUpdate p)
  with assms show ?thesis by auto
next
  case (XUeData p)
  with assms show ?thesis
    using um_SendData_calm calm_eq_ok by (fastforce simp: DoRecvUeData_def split: option.splits)
next
  case (XHandoverCancel p)
  with assms show ?thesis using HandoverCancel_ok by auto
qed

lemma in_context:
  assumes "DoRecvIdealUeContextRemoveRequest r s = Some s'" and "rrc_ok s"
  shows "rrc_ok s'"
proof (cases "er_ueMap s r")
  case None
  with assms show ?thesis by (simp add: DoRecvIdealUeContextRemoveRequest_def GetUeManager_def)
next
  case (Some u)
  then show ?thesis
    using RemoveRequest_gone [OF assms(2) Some] RemoveRequest_fails [OF assms(2) Some] gone_ok assms(1)
    by (cases "tells_source u s") auto
qed

lemma timer_ok:
  assumes "rrc_handle v (TimerFires t r) s = Some s'" and "rrc_event_ok (TimerFires t r) s" and "rrc_ok s"
  shows "rrc_ok s'"
proof -
  obtain u where "er_ueMap s r = Some u" "um_pending u t"
    using event_ok_timer [OF assms(2)] .
  from timeout_gone [OF assms(3) this] assms(1) show ?thesis
    by (auto simp: gone_def split: if_splits)
qed

lemma calm_events:
  assumes "rrc_handle v e s = Some s'" and "rrc_ok s"
    and "(\<exists>r i. e = UeConnectionRequest r i) \<or> (\<exists>r. e = UeConnectionSetupCompleted r) \<or>
      (\<exists>r. e = UeReconfigurationCompleted r) \<or> (\<exists>r. e = UeReestablishmentRequest r) \<or>
      (\<exists>r m. e = UeMeasurementReport r m) \<or> (\<exists>r. e = S1InitialContextSetup r) \<or>
      (\<exists>r m. e = MacConfigUpdate r m) \<or> (\<exists>r x. e = FfrSetPdsch r x)"
  shows "rrc_ok s'"
proof -
  have "\<exists>r. calm r keeps_ok s s'"
    using assms(1,3)
    by (auto simp: DoInitialContextSetupRequest_def)
       (blast dest: RecvRrcConnectionRequest_calm RecvRrcConnectionSetupCompleted_calm
          RecvRrcConnectionReconfigurationCompleted_calm RecvRrcConnectionReestablishmentRequest_calm
          RecvMeasurementReport_calm InitialContextSetup_calm CmacUeConfigUpdateInd_calm
          SetPdschConfigDedicated_calm)+
  then show ?thesis using calm_ok assms(2) by blast
qed

text \<open>Every call keeps the invariant.\<close>

lemma rrc_handle_ok:
  assumes "rrc_handle v e s = Some s'" and "rrc_event_ok e s" and "rrc_ok s"
  shows "rrc_ok s'"
proof (cases e)
  case (MacAllocateTemporaryCellRnti cc)
  with assms obtain r where "DoAllocateTemporaryCellRnti v cc s = Some (r, s')" by auto
  then have "s' = s \<or> AddUe v INITIAL_RANDOM_ACCESS cc s = Some (r, s')"
    by (auto simp: DoAllocateTemporaryCellRnti_def bind_eq_Some_conv split: if_splits)
  then show ?thesis using AddUe_ok(1) assms(3) by blast
next
  case (UeReestablishmentComplete r)
  with assms(2) obtain p where "rrc_phase s r = Some p" "fst p = CONNECTION_REESTABLISHMENT"
    using in_state_phase by force
  moreover have "RecvRrcConnectionReestablishmentComplete r s = Some s'"
    using UeReestablishmentComplete assms(1) by simp
  ultimately show ?thesis
    using RecvReestablishmentComplete_calm calm_ok assms(3) by blast
next
  case (S1DataRadioBearerSetup r b i t a)
  with assms show ?thesis
    using SetupDataRadioBearer_ok(1) by (auto simp: DoDataRadioBearerSetupRequest_def)
next
  case (S1PathSwitchAcknowledge r)
  with assms show ?thesis using SendUeContextRelease_ok by (auto simp: DoPathSwitchRequestAcknowledge_def)
next
  case (S1Data r b p)
  with assms(1) have "um_SendData r b p s = Some s'" by (simp add: rrc_SendData_def)
  then show ?thesis using um_SendData_calm calm_eq_ok assms(3) by blast
next
  case (FfrSendLoad p)
  with assms show ?thesis by (auto simp: rrc_DoSendLoadInformation_def)
next
  case (PdcpReceived r l p)
  with assms show ?thesis by (auto simp: DoReceivePdcpSdu_def split: if_splits)
qed (use assms calm_events [OF assms(1,3)] rrc_x2_ok in_context timer_ok SendRelease_ok DoTriggerHandover_ok in auto)

section \<open>Reachable states\<close>

text \<open>
  The entity is configured with carriers and a periodicity of the SRS; then it handles calls. The maps
  of the ideal protocol are static variables of the program: between two calls other eNBs may have
  changed them in any way.
\<close>

inductive rrc_reach :: "rrc_config \<Rightarrow> enb_rrc \<Rightarrow> bool" for f where
  configured: "SetSrsPeriodicity p (rrc_init f) = Some s \<Longrightarrow> rrc_reach f s"
| handled: "rrc_reach f s \<Longrightarrow> rrc_event_ok e s \<Longrightarrow> rrc_handle v e s = Some s' \<Longrightarrow> rrc_reach f s'"
| shared: "rrc_reach f s \<Longrightarrow> rrc_reach f (s\<lparr>er_ideal := g\<rparr>)"

lemma SetSrsPeriodicity_init:
  assumes "SetSrsPeriodicity p (rrc_init f) = Some s"
  shows "rrc_ok s"
proof -
  obtain i where i: "i < 9" "1 \<le> i" and s: "s = (rrc_init f)\<lparr>er_srsPeriodicityId := of_nat i\<rparr>"
  proof -
    from assms obtain i where f: "find (\<lambda>i. g_srsPeriodicity ! i = unat p) [1..<9] = Some i"
      and s: "s = (rrc_init f)\<lparr>er_srsPeriodicityId := of_nat i\<rparr>"
      by (auto simp: SetSrsPeriodicity_def split: option.splits)
    from f have "i \<in> set [1..<9]"
      by (metis find_Some_iff nth_mem)
    with s show ?thesis by (intro that) auto
  qed
  have "unat (of_nat i :: u16) = i"
    using i by (simp add: unat_of_nat)
  with i show ?thesis
    by (auto simp: s rrc_ok_def core_inv_def srs_inv_def ctxs_inv_def x2u_inv_def timers_inv_def rrc_init_def
        rrc_ids_eq rrc_phase_def)
qed

lemma rrc_reach_ok: "rrc_reach f s \<Longrightarrow> rrc_ok s"
  by (induction rule: rrc_reach.induct) (auto intro: SetSrsPeriodicity_init rrc_handle_ok)

text \<open>A sequence of calls, for instances.\<close>

fun rrc_calls :: "rrc_env \<Rightarrow> rrc_event list \<Rightarrow> enb_rrc \<Rightarrow> enb_rrc option" where
  "rrc_calls v [] s = Some s"
| "rrc_calls v (e # es) s =
     (if rrc_event_ok e s then do { s' \<leftarrow> rrc_handle v e s; rrc_calls v es s' } else None)"

lemma rrc_calls_reach: "rrc_calls v es s = Some s' \<Longrightarrow> rrc_reach f s \<Longrightarrow> rrc_reach f s'"
  by (induction es arbitrary: s) (auto simp: bind_eq_Some_conv split: if_splits intro: rrc_reach.handled)

section \<open>Consequences of the invariant\<close>

lemma srs_set_bound:
  assumes "srs_inv s"
  shows "length (er_srsSet s) \<le> srs_period s"
proof -
  note r = srs_range [OF srs_invD [OF assms]]
  have "unat ` set (er_srsSet s) \<subseteq> {srs_low s..srs_high s}"
    using assms by (auto simp: srs_inv_def)
  then have "card (unat ` set (er_srsSet s)) \<le> card {srs_low s..srs_high s}"
    by (intro card_mono) auto
  moreover have "card (unat ` set (er_srsSet s)) = length (er_srsSet s)"
    using assms by (subst card_image) (auto intro: inj_onI simp: srs_inv_def distinct_card word_unat_eq_iff)
  ultimately show ?thesis
    using r(1) by simp
qed

lemma ok_srs_inv: "rrc_ok s \<Longrightarrow> srs_inv s"
  by (simp add: rrc_ok_def core_inv_def)

lemma ok_srs_distinct:
  assumes "rrc_ok s" and "er_ueMap s r = Some u" and "er_ueMap s r' = Some u'" and "r \<noteq> r'"
  shows "um_srs u \<noteq> um_srs u'"
proof -
  have "ctxs_inv s" using assms(1) by (simp add: rrc_ok_def core_inv_def)
  then show ?thesis
    using ctxs_inv_distinct [of s r r' "(um_srs u, um_componentCarrierId u)" "(um_srs u', um_componentCarrierId u')"]
      assms(2-4) by (simp add: rrc_ids_eq)
qed

lemma ok_srs_range:
  assumes "rrc_ok s" and "er_ueMap s r = Some u"
  shows "srs_low s \<le> unat (um_srs u)" "unat (um_srs u) \<le> srs_high s"
  using ok_srs_inv [OF assms(1)] ok_context(2) [OF assms] by (auto simp: srs_inv_def)


lemma ok_forwarding:
  assumes "rrc_ok s" and "er_x2uTeidInfo s teid = Some (r, b)"
  shows "\<exists>u d. er_ueMap s r = Some u \<and> map_of (um_drbMap u) b = Some d \<and> db_gtpTeid d = teid"
proof -
  have "x2u_inv s" using assms(1) by (simp add: rrc_ok_def core_inv_def)
  from x2u_invE [OF this assms(2)] obtain i cc ds d where
    "rrc_ctxs s r = Some (i, cc, ds)" "map_of ds b = Some d" "db_gtpTeid d = teid" .
  then show ?thesis
    by (auto simp: rrc_ctxs_def ctx_core_def)
qed

lemma allocate_full:
  assumes "rrc_ok s" and "srs_period s \<le> length (er_srsSet s)"
  shows "DoAllocateTemporaryCellRnti v cc s = Some (0, s)"
  using IsMaxSrsReached_eq [OF ok_srs_inv [OF assms(1)]] assms(2)
  by (simp add: DoAllocateTemporaryCellRnti_def)

lemma allocate_free:
  assumes "rrc_ok s" and "length (er_srsSet s) < srs_period s" and "cc \<in> set (carrier_ids s)" and "carrier_at cc s \<noteq> None"
  shows "\<exists>r i c as. DoAllocateTemporaryCellRnti v cc s = Some (r, added v INITIAL_RANDOM_ACCESS cc r i c as s) \<and>
    r \<noteq> 0 \<and> er_ueMap s r = None \<and> i \<notin> set (er_srsSet s) \<and> srs_low s \<le> unat i \<and> unat i \<le> srs_high s"
proof -
  note inv = ok_srs_inv [OF assms(1)]
  have "card {r. er_ueMap s r \<noteq> None} \<le> 320"
    using contexts_few [OF assms(1)] assms(2) srs_range(5) [OF srs_invD [OF inv]] by linarith
  then obtain r where r: "rnti_search (\<lambda>r. HasUeManager r s) (er_lastAllocatedRnti s) (er_lastAllocatedRnti s + 1) = Some (True, r)"
    using rnti_free by blast
  have "DoAllocateTemporaryCellRnti v cc s = AddUe v INITIAL_RANDOM_ACCESS cc s"
    using IsMaxSrsReached_eq [OF inv] assms(2) by (simp add: DoAllocateTemporaryCellRnti_def)
  moreover have "r \<noteq> 0" "er_ueMap s r = None"
    using rnti_search_found [OF r] by (auto simp: HasUeManager_def)
  ultimately show ?thesis
    using AddUe_eq [OF r inv assms(2-4), of INITIAL_RANDOM_ACCESS v] by auto
qed

text \<open>The SRS index 0 is taken for "none": it stays in use when its context is removed.\<close>

lemma srs_zero_stays:
  assumes "rrc_ok s" and "er_ueMap s r = Some u" and "um_srs u = 0"
  shows "\<exists>s'. RemoveUe r s = Some s' \<and> er_ueMap s' = (er_ueMap s)(r := None) \<and> 0 \<in> set (er_srsSet s')"
  using RemoveUe_ok [OF assms(1,2)] ok_context(2) [OF assms(1,2)] assms(3) by (simp add: removed_def)

section \<open>Instances\<close>

text \<open>
  An eNB with one carrier. A UE attaches to cell 1 and gets a bearer; or a handover request for a UE
  with one bearer arrives at cell 2.
\<close>

definition rrc_demo_carrier :: "u16 \<Rightarrow> carrier" where
  "rrc_demo_carrier cell = \<lparr>ca_cellId = cell, ca_dlEarfcn = 100, ca_ulEarfcn = 18100, ca_dlBandwidth = 25,
     ca_ulBandwidth = 25, ca_csgIndication = False, ca_csgIdentity = 0,
     ca_rach = \<lparr>ra_numberOfRaPreambles = 52, ra_preambleTransMax = 50, ra_raResponseWindowSize = 3,
       ra_connEstFailCount = 1\<rparr>\<rparr>"

definition rrc_demo_config :: "u16 \<Rightarrow> rrc_config" where
  "rrc_demo_config cell = \<lparr>rcf_carriers = [(0, rrc_demo_carrier cell)], rcf_srsPeriodicityId = 0,
     rcf_referenceSignalPower = 30, rcf_defaultTransmissionMode = 0, rcf_bearerToRlc = RLC_AM_ALWAYS,
     rcf_admitHandoverRequest = True, rcf_admitRrcConnectionRequest = True, rcf_haveS1 = True,
     rcf_haveHandoverAlgorithm = True, rcf_haveAnr = False, rcf_numberOfFfr = 1,
     rcf_measIds = ([1], [], [], []), rcf_x2Cells = [if cell = 1 then 2 else 1]\<rparr>"

definition rrc_demo_env :: rrc_env where
  "rrc_demo_env = \<lparr>rv_fresh = (0, 0, \<lparr>pc_srsConfigIndex = 0, pc_transmissionMode = 0, pc_pa = 0\<rparr>),
     rv_preamble = (\<lambda>_ _. Some (53, 0)), rv_pdcpStatus = (\<lambda>_ _. (0, 0)), rv_statusErabId = 0,
     rv_statusUlHfn = 0, rv_statusDlHfn = 0, rv_admittedUlTeid = 0, rv_admittedDlTeid = 0\<rparr>"

definition rrc_demo_bearer :: eps_bearer where
  "rrc_demo_bearer = \<lparr>eb_qci = 9, eb_gbrDl = 0, eb_gbrUl = 0, eb_mbrDl = 0, eb_mbrUl = 0\<rparr>"

definition rrc_demo_calls :: "rrc_event list" where
  "rrc_demo_calls = [MacAllocateTemporaryCellRnti 0, UeConnectionRequest 1 77, UeConnectionSetupCompleted 1,
     S1InitialContextSetup 1, S1DataRadioBearerSetup 1 rrc_demo_bearer 1 9 0x0a000001,
     UeReconfigurationCompleted 1]"

definition rrc_demo_request :: ho_request_params where
  "rrc_demo_request = \<lparr>hq_oldEnbUeX2apId = 5, hq_cause = 0, hq_sourceCellId = 1, hq_targetCellId = 2,
     hq_mmeUeS1apId = 77, hq_ambrDl = 200000, hq_ambrUl = 100000,
     hq_bearers = [\<lparr>xe_erabId = 1, xe_qos = rrc_demo_bearer, xe_arp = arp_init, xe_dlForwarding = False,
       xe_transportLayerAddress = 0x0a000001, xe_gtpTeid = 9\<rparr>],
     hq_rrcContext = Some [1, 0, 0, 0]\<rparr>"

definition rrc_demo_run :: "u16 \<Rightarrow> rrc_event list \<Rightarrow> enb_rrc option" where
  "rrc_demo_run cell es = do {
     s \<leftarrow> SetSrsPeriodicity 40 (rrc_init (rrc_demo_config cell)); rrc_calls rrc_demo_env es s }"

lemma rrc_demo_reach: "rrc_demo_run cell es = Some s \<Longrightarrow> rrc_reach (rrc_demo_config cell) s"
  by (auto simp: rrc_demo_run_def bind_eq_Some_conv intro: rrc_calls_reach rrc_reach.configured)

text \<open>
  A handover between the two cells of one eNB that does not complete: the timer of the source context
  sends a cancellation over X2 to a cell of the same eNB and fails.
\<close>

definition rrc_two_cells :: rrc_config where
  "rrc_two_cells = (rrc_demo_config 1)
     \<lparr>rcf_carriers := [(0, rrc_demo_carrier 1), (1, rrc_demo_carrier 2)], rcf_x2Cells := [3]\<rparr>"

definition rrc_demo_anr :: anr where
  "rrc_demo_anr = \<lparr>an_table = (\<lambda>_. None), an_measId = 0, an_servingCellId = 1\<rparr>"

lemma internal_handover_timeout_fails:
  "case do { s \<leftarrow> SetSrsPeriodicity 40 (rrc_init rrc_two_cells);
             rrc_calls rrc_demo_env (rrc_demo_calls @ [UeReconfigurationCompleted 1, TriggerHandover rrc_demo_anr 1 2]) s } of None \<Rightarrow> False
   | Some s \<Rightarrow> (case er_ueMap s 1 of None \<Rightarrow> False | Some u \<Rightarrow> um_pending u HandoverLeavingTimeout) \<and>
       rrc_event_ok (TimerFires HandoverLeavingTimeout 1) s \<and>
       (case rrc_handle rrc_demo_env (TimerFires HandoverLeavingTimeout 1) s of None \<Rightarrow> True | Some _ \<Rightarrow> False)"
  by code_simp

section \<open>Properties\<close>

text \<open>C19: In every state that a configured eNB RRC reaches - whatever it is called with, in any order, by UEs, MAC, core
  network and other eNBs - every UE context has a nonzero RNTI, a component carrier that exists, and an SRS
  configuration index in the range of the configured periodicity that no other context has; there are at most as many
  contexts as the periodicity has indices; and the table that says where data from another eNB goes only leads to
  bearers that exist and have that tunnel.\<close>

theorem rrc_invariant:
  assumes "rrc_reach f s"
  shows "(\<forall>r u. er_ueMap s r = Some u \<longrightarrow> r \<noteq> 0 \<and> srs_low s \<le> unat (um_srs u) \<and> unat (um_srs u) \<le> srs_high s \<and>
        carrier_at (um_componentCarrierId u) s \<noteq> None) \<and>
    (\<forall>r r' u u'. er_ueMap s r = Some u \<and> er_ueMap s r' = Some u' \<and> r \<noteq> r' \<longrightarrow> um_srs u \<noteq> um_srs u') \<and>
    card {r. er_ueMap s r \<noteq> None} \<le> srs_period s \<and>
    (\<forall>teid r b. er_x2uTeidInfo s teid = Some (r, b) \<longrightarrow>
        (\<exists>u d. er_ueMap s r = Some u \<and> map_of (um_drbMap u) b = Some d \<and> db_gtpTeid d = teid))"
proof -
  note ok = rrc_reach_ok [OF assms]
  have "card {r. er_ueMap s r \<noteq> None} \<le> srs_period s"
    using contexts_few [OF ok] srs_set_bound [OF ok_srs_inv [OF ok]] by linarith
  then show ?thesis
    using ok_context [OF ok] ok_srs_range [OF ok] ok_srs_distinct [OF ok] ok_forwarding [OF ok] by blast
qed

theorem rrc_invariant_witness:
  "case rrc_demo_run 2 [FromX2 (XHandoverRequest rrc_demo_request)] of None \<Rightarrow> False
   | Some s \<Rightarrow> er_x2uTeidInfo s 9 = Some (1, 1) \<and> card {r. er_ueMap s r \<noteq> None} \<le> 40 \<and>
      (\<exists>u d. er_ueMap s 1 = Some u \<and> 37 \<le> unat (um_srs u) \<and> unat (um_srs u) \<le> 76 \<and>
        map_of (um_drbMap u) 1 = Some d \<and> db_gtpTeid d = 9)"
proof -
  have "case rrc_demo_run 2 [FromX2 (XHandoverRequest rrc_demo_request)] of None \<Rightarrow> False
    | Some s \<Rightarrow> er_x2uTeidInfo s 9 = Some (1, 1) \<and> srs_period s = 40 \<and> srs_low s = 37 \<and> srs_high s = 76"
    by code_simp
  then obtain s where s: "rrc_demo_run 2 [FromX2 (XHandoverRequest rrc_demo_request)] = Some s"
    "er_x2uTeidInfo s 9 = Some (1, 1)" "srs_period s = 40" "srs_low s = 37" "srs_high s = 76"
    by (auto split: option.splits)
  show ?thesis
    using rrc_invariant [OF rrc_demo_reach [OF s(1)]] s by fastforce
qed



text \<open>C21: A random access is refused with RNTI 0 and no other effect exactly when all SRS indices are in use; otherwise it
  never fails: it gets a nonzero RNTI that no context has, the loop that searches it ends, and the new context starts in
  INITIAL_RANDOM_ACCESS on its carrier with an SRS index of its own and the connection request timer running, while
  all other contexts stay as they are.\<close>

theorem rrc_admission:
  assumes "rrc_reach f s" and "cc \<in> set (carrier_ids s)" and "carrier_at cc s \<noteq> None"
  shows "if srs_period s \<le> length (er_srsSet s) then DoAllocateTemporaryCellRnti v cc s = Some (0, s)
    else \<exists>r s' u. DoAllocateTemporaryCellRnti v cc s = Some (r, s') \<and> r \<noteq> 0 \<and> er_ueMap s r = None \<and>
      er_ueMap s' = (er_ueMap s)(r \<mapsto> u) \<and> um_state u = INITIAL_RANDOM_ACCESS \<and>
      um_pending u = (\<lambda>t. t = ConnectionRequestTimeout) \<and> um_componentCarrierId u = cc \<and>
      um_srs u \<notin> set (er_srsSet s) \<and> er_srsSet s' = srs_insert (um_srs u) (er_srsSet s)"
proof (cases "srs_period s \<le> length (er_srsSet s)")
  case True
  then show ?thesis using allocate_full [OF rrc_reach_ok [OF assms(1)]] by simp
next
  case False
  then obtain r i c as where a: "DoAllocateTemporaryCellRnti v cc s = Some (r, added v INITIAL_RANDOM_ACCESS cc r i c as s)"
    "r \<noteq> 0" "er_ueMap s r = None" "i \<notin> set (er_srsSet s)"
    using allocate_free [OF rrc_reach_ok [OF assms(1)] _ assms(2,3), of v] by auto
  let ?u = "initialized i (er_defaultTransmissionMode s) (new_ue_manager (rv_fresh v) INITIAL_RANDOM_ACCESS cc)"
  have u: "um_srs ?u = i" "um_state ?u = INITIAL_RANDOM_ACCESS" "um_componentCarrierId ?u = cc"
    "um_pending ?u = (\<lambda>t. t = ConnectionRequestTimeout)"
    by (simp_all add: initialized_def um_srs_def init_timer_def um_schedule_def fun_eq_iff)
  have "er_ueMap (added v INITIAL_RANDOM_ACCESS cc r i c as s) = (er_ueMap s)(r \<mapsto> ?u)"
    "er_srsSet (added v INITIAL_RANDOM_ACCESS cc r i c as s) = srs_insert i (er_srsSet s)"
    by (simp_all add: added_def)
  with a u False show ?thesis by auto
qed

theorem rrc_admission_witness:
  "case rrc_demo_run 1 rrc_demo_calls of None \<Rightarrow> False
   | Some s \<Rightarrow> \<exists>r s' u. DoAllocateTemporaryCellRnti rrc_demo_env 0 s = Some (r, s') \<and> r \<noteq> 0 \<and>
       er_ueMap s r = None \<and> er_ueMap s' = (er_ueMap s)(r \<mapsto> u) \<and> um_state u = INITIAL_RANDOM_ACCESS"
proof -
  have "case rrc_demo_run 1 rrc_demo_calls of None \<Rightarrow> False
    | Some s \<Rightarrow> srs_period s = 40 \<and> er_srsSet s = [37] \<and> (0 :: u8) \<in> set (carrier_ids s) \<and> \<not> Option.is_none (carrier_at 0 s)"
    by code_simp
  then obtain s where s: "rrc_demo_run 1 rrc_demo_calls = Some s"
    "srs_period s = 40" "er_srsSet s = [37]" "(0 :: u8) \<in> set (carrier_ids s)" "carrier_at 0 s \<noteq> None"
    by (auto split: option.splits simp: Option.is_none_def)
  show ?thesis
    using rrc_admission [OF rrc_demo_reach [OF s(1)] s(4,5), of rrc_demo_env] s(1-3) by auto
qed

end
