(* ===== verification/OranData.thy ===== *)
theory OranData
  imports StdMap
begin

text \<open>
  The data repository of the Near-RT RIC (\<^verbatim>\<open>contrib/oran/model/oran-data-repository-sqlite.cc\<close>), and
  the commands that it logs (\<^verbatim>\<open>oran-command.cc\<close>). A table is the list of its rows in the order of
  \<^verbatim>\<open>entryid\<close>, and a query is a function on these lists: \<^verbatim>\<open>ORDER BY k DESC, entryid DESC LIMIT n\<close>
  takes the first n rows of the list sorted by k and reversed. Two things are parameters, because
  the code leaves them to SQLite: \<open>tie\<close>, the value of the bare column \<^verbatim>\<open>registered\<close> of a group in
  which several rows have the largest time, and \<open>ok\<close>, whether \<^verbatim>\<open>sqlite3_open\<close> succeeds. A failed
  query aborts. A double is of any type \<open>'x\<close>.
\<close>

section \<open>Commands\<close>

text \<open>A number in decimal, as \<^verbatim>\<open>operator<<\<close> and \<^verbatim>\<open>std::to_string\<close> print it.\<close>

fun decimal :: "nat \<Rightarrow> string" where
  "decimal n = (if n < 10 then [char_of (48 + n)] else decimal (n div 10) @ [char_of (48 + n mod 10)])"

declare decimal.simps [simp del]

datatype oran_command =
    OranCommand (cmd_target: u64)
  | Lte2LteHandover (cmd_target: u64) (cmd_cellId: u16) (cmd_rnti: u16)

fun cmd_ToString :: "oran_command \<Rightarrow> string" where
  "cmd_ToString (OranCommand n) = ''Parent OranCommand. Should not be used''"
| "cmd_ToString (Lte2LteHandover n c r) =
     ''OranCommandLte2LteHandover('' @ ''TargetE2NodeId = '' @ decimal (unat n) @ ''; TargetCellId = '' @
     decimal (unat c) @ ''; TargetRnti = '' @ decimal (unat r) @ '')''"

section \<open>The tables\<close>

datatype NodeType = WIRED | LTEUE | LTEENB

record 'x vector =
  vec_x :: 'x
  vec_y :: 'x
  vec_z :: 'x

record registration_row =
  rg_nodeid :: u64
  rg_registered :: bool
  rg_time :: time_ns

record 'x location_row =
  lc_nodeid :: u64
  lc_pos :: "'x vector"
  lc_time :: time_ns

record ue_cell_row =
  uc_nodeid :: u64
  uc_cellid :: u16
  uc_rnti :: u16
  uc_time :: time_ns

text \<open>
  \<open>t_nodeseq\<close> is the entry of table \<^verbatim>\<open>node\<close> in \<^verbatim>\<open>sqlite_sequence\<close>, the largest node id given so far.
\<close>

record 'x db_tables =
  t_node :: "(int \<times> NodeType) list"
  t_nodeseq :: int
  t_registration :: "registration_row list"
  t_location :: "'x location_row list"
  t_lteenb :: "(u64 \<times> u16) list"
  t_lteue :: "(u64 \<times> u64) list"
  t_lteuecell :: "ue_cell_row list"
  t_apploss :: "(u64 \<times> 'x \<times> time_ns) list"
  t_loadcell :: "(u64 \<times> 'x \<times> time_ns) list"
  t_terminatorcommand :: "(u64 \<times> time_ns \<times> string) list"
  t_lmcommand :: "(string \<times> time_ns \<times> string) list"
  t_lmaction :: "(string \<times> time_ns \<times> string) list"
  t_cmmaction :: "(string \<times> time_ns \<times> string) list"

definition empty_tables :: "'x db_tables" where
  "empty_tables = \<lparr>t_node = [], t_nodeseq = 0, t_registration = [], t_location = [], t_lteenb = [],
     t_lteue = [], t_lteuecell = [], t_apploss = [], t_loadcell = [], t_terminatorcommand = [],
     t_lmcommand = [], t_lmaction = [], t_cmmaction = []\<rparr>"

section \<open>Queries\<close>

definition order_desc :: "('r \<Rightarrow> int) \<Rightarrow> 'r list \<Rightarrow> 'r list" where
  "order_desc k rows = rev (sort_key k rows)"

definition CHECK_NODE_REGISTERED :: "u64 \<Rightarrow> 'x db_tables \<Rightarrow> bool list" where
  "CHECK_NODE_REGISTERED n t =
     map rg_registered (take 1 (order_desc rg_time (filter (\<lambda>r. rg_nodeid r = n) (t_registration t))))"

text \<open>\<^verbatim>\<open>GROUP BY nodeid HAVING registered = 1 ORDER BY nodeid\<close> with \<^verbatim>\<open>MAX(simulationtime)\<close>.\<close>

definition last_registrations ::
    "(bool list \<Rightarrow> bool) \<Rightarrow> registration_row list \<Rightarrow> (u64 \<times> time_ns) list" where
  "last_registrations tie rows =
     (let group = (\<lambda>n. filter (\<lambda>r. rg_nodeid r = n) rows);
          newest = (\<lambda>n. foldr max (map rg_time (tl (group n))) (rg_time (hd (group n))));
          registered = (\<lambda>n. tie (map rg_registered (filter (\<lambda>r. rg_time r = newest n) (group n))))
      in map (\<lambda>n. (n, newest n)) (filter registered (sort_key sint (remdups (map rg_nodeid rows)))))"

definition GET_ALL_LAST_REGISTRATION_TIMES ::
    "(bool list \<Rightarrow> bool) \<Rightarrow> 'x db_tables \<Rightarrow> (u64 \<times> time_ns) list" where
  "GET_ALL_LAST_REGISTRATION_TIMES tie t = last_registrations tie (t_registration t)"

definition GET_LTE_ALL_ENB_E2NODEIDS :: "(bool list \<Rightarrow> bool) \<Rightarrow> 'x db_tables \<Rightarrow> (u64 \<times> time_ns) list" where
  "GET_LTE_ALL_ENB_E2NODEIDS tie t =
     last_registrations tie (filter (\<lambda>r. rg_nodeid r \<in> fst ` set (t_lteenb t)) (t_registration t))"

definition GET_LTE_ALL_UE_E2NODEIDS :: "(bool list \<Rightarrow> bool) \<Rightarrow> 'x db_tables \<Rightarrow> (u64 \<times> time_ns) list" where
  "GET_LTE_ALL_UE_E2NODEIDS tie t =
     last_registrations tie (filter (\<lambda>r. rg_nodeid r \<in> fst ` set (t_lteue t)) (t_registration t))"

definition GET_LTE_CELLID_FROM_E2NODEID :: "u64 \<Rightarrow> 'x db_tables \<Rightarrow> u16 list" where
  "GET_LTE_CELLID_FROM_E2NODEID n t = map snd (filter (\<lambda>r. fst r = n) (t_lteenb t))"

definition GET_LTE_UE_CELLINFO :: "u64 \<Rightarrow> 'x db_tables \<Rightarrow> (u16 \<times> u16) list" where
  "GET_LTE_UE_CELLINFO n t =
     map (\<lambda>r. (uc_cellid r, uc_rnti r))
       (take 1 (order_desc uc_time (filter (\<lambda>r. uc_nodeid r = n) (t_lteuecell t))))"

definition GET_LTE_UE_E2NODEID_FROM_CELLINFO :: "u16 \<Rightarrow> u16 \<Rightarrow> 'x db_tables \<Rightarrow> u64 list" where
  "GET_LTE_UE_E2NODEID_FROM_CELLINFO c r t =
     map uc_nodeid (take 1 (rev (filter (\<lambda>x. uc_cellid x = c \<and> uc_rnti x = r) (t_lteuecell t))))"

text \<open>The limit is bound as a signed 64-bit number; a negative one is no limit.\<close>

definition GET_NODE_ALL_POSITIONS ::
    "u64 \<Rightarrow> time_ns \<Rightarrow> time_ns \<Rightarrow> u64 \<Rightarrow> 'x db_tables \<Rightarrow> (time_ns \<times> 'x vector) list" where
  "GET_NODE_ALL_POSITIONS n fromTime toTime maxEntries t =
     (let rows = order_desc lc_time (filter (\<lambda>r. lc_nodeid r = n \<and> fromTime \<le> lc_time r \<and> lc_time r \<le> toTime)
                   (t_location t))
      in map (\<lambda>r. (lc_time r, lc_pos r)) (if sint maxEntries < 0 then rows else take (unat maxEntries) rows))"

section \<open>Insertions\<close>

text \<open>
  The id of a new node is one more than the largest ever used; SQLite fails when there is none. An
  explicit id is used as it is and raises the sequence.
\<close>

definition INSERT_NODE_ADD :: "NodeType \<Rightarrow> 'x db_tables \<Rightarrow> (int \<times> 'x db_tables) option" where
  "INSERT_NODE_ADD ty t =
     (if t_nodeseq t = 2 ^ 63 - 1 then None
      else Some (t_nodeseq t + 1,
                 t\<lparr>t_node := t_node t @ [(t_nodeseq t + 1, ty)], t_nodeseq := t_nodeseq t + 1\<rparr>))"

definition INSERT_NODE_UPDATE :: "int \<Rightarrow> NodeType \<Rightarrow> 'x db_tables \<Rightarrow> int \<times> 'x db_tables" where
  "INSERT_NODE_UPDATE n ty t =
     (n, t\<lparr>t_node := filter (\<lambda>r. fst r \<noteq> n) (t_node t) @ [(n, ty)], t_nodeseq := max (t_nodeseq t) n\<rparr>)"

definition INSERT_NODE_REGISTRATION :: "u64 \<Rightarrow> bool \<Rightarrow> time_ns \<Rightarrow> 'x db_tables \<Rightarrow> 'x db_tables" where
  "INSERT_NODE_REGISTRATION n b now t =
     t\<lparr>t_registration := t_registration t @ [\<lparr>rg_nodeid = n, rg_registered = b, rg_time = now\<rparr>]\<rparr>"

text \<open>
  \<^verbatim>\<open>INSERT OR REPLACE\<close> deletes the rows that would violate the primary key or, for \<^verbatim>\<open>lteue\<close>, the
  uniqueness of the IMSI.
\<close>

definition INSERT_LTE_UE_NODE :: "u64 \<Rightarrow> u64 \<Rightarrow> 'x db_tables \<Rightarrow> 'x db_tables" where
  "INSERT_LTE_UE_NODE n imsi t =
     t\<lparr>t_lteue := filter (\<lambda>r. fst r \<noteq> n \<and> snd r \<noteq> imsi) (t_lteue t) @ [(n, imsi)]\<rparr>"

definition INSERT_LTE_ENB_NODE :: "u64 \<Rightarrow> u16 \<Rightarrow> 'x db_tables \<Rightarrow> 'x db_tables" where
  "INSERT_LTE_ENB_NODE n c t = t\<lparr>t_lteenb := filter (\<lambda>r. fst r \<noteq> n) (t_lteenb t) @ [(n, c)]\<rparr>"

section \<open>The repository\<close>

text \<open>\<open>db_conn\<close> is \<^verbatim>\<open>m_db\<close> with the tables behind it, \<open>db_disk\<close> the contents of the file.\<close>

record 'x oran_db =
  db_active :: bool
  db_conn :: "'x db_tables option"
  db_path :: string
  db_disk :: "'x db_tables"

definition db_init :: "'x oran_db" where
  "db_init = \<lparr>db_active = False, db_conn = None, db_path = ''oran-repository.db'', db_disk = empty_tables\<rparr>"

definition IsDbOpen :: "'x oran_db \<Rightarrow> bool" where
  "IsDbOpen db \<longleftrightarrow> db_conn db \<noteq> None"

text \<open>Databases in memory and temporary files start empty; other names with a colon are refused.\<close>

definition OpenDb :: "bool \<Rightarrow> 'x oran_db \<Rightarrow> 'x oran_db option" where
  "OpenDb ok db =
     (if db_path db \<noteq> '':memory:'' \<and> CHR '':'' \<in> set (db_path db) then None
      else if \<not> ok then None
      else Some (db\<lparr>db_conn := Some (if db_path db = '':memory:'' \<or> db_path db = [] then empty_tables
                                     else db_disk db)\<rparr>))"

definition CloseDb :: "'x oran_db \<Rightarrow> 'x oran_db" where
  "CloseDb db =
     (let disk = (case db_conn db of Some t \<Rightarrow> if db_path db = '':memory:'' \<or> db_path db = [] then db_disk db else t
                  | None \<Rightarrow> db_disk db)
      in db\<lparr>db_conn := None, db_disk := disk\<rparr>)"

definition db_Activate :: "bool \<Rightarrow> 'x oran_db \<Rightarrow> 'x oran_db option" where
  "db_Activate ok db =
     (let db1 = db\<lparr>db_active := True\<rparr> in if \<not> IsDbOpen db1 then OpenDb ok db1 else Some db1)"

definition db_Deactivate :: "'x oran_db \<Rightarrow> 'x oran_db" where
  "db_Deactivate db = (if IsDbOpen db then CloseDb db else db)\<lparr>db_active := False\<rparr>"

definition db_DoDispose :: "'x oran_db \<Rightarrow> 'x oran_db" where
  "db_DoDispose db = (if IsDbOpen db then CloseDb db else db)"

text \<open>A statement on a closed database crashes in \<^verbatim>\<open>CheckQueryReturnCode\<close>.\<close>

definition IsNodeRegistered :: "u64 \<Rightarrow> 'x oran_db \<Rightarrow> bool option" where
  "IsNodeRegistered n db =
     (if \<not> db_active db then Some False
      else map_option (\<lambda>t. foldl (\<lambda>_ b. b) False (CHECK_NODE_REGISTERED n t)) (db_conn db))"

text \<open>The node id is bound with \<^verbatim>\<open>sqlite3_bind_int\<close>, which takes 32 bits of it.\<close>

definition RegisterNode :: "time_ns \<Rightarrow> NodeType \<Rightarrow> u64 \<Rightarrow> 'x oran_db \<Rightarrow> (u64 \<times> 'x oran_db) option" where
  "RegisterNode now ty i db =
     (if \<not> db_active db then Some (0, db)
      else
        Option.bind (db_conn db) (\<lambda>t.
        Option.bind (if i = 0 then INSERT_NODE_ADD ty t
                     else Some (INSERT_NODE_UPDATE (sint (ucast i :: u32)) ty t)) (\<lambda>(rowid, t1).
          let e2NodeId = word_of_int rowid
          in Some (e2NodeId, db\<lparr>db_conn := Some (INSERT_NODE_REGISTRATION e2NodeId True now t1)\<rparr>))))"

text \<open>The row of the UE or eNB gets the id of the request, not the id just assigned.\<close>

definition RegisterNodeLteUe :: "time_ns \<Rightarrow> u64 \<Rightarrow> u64 \<Rightarrow> 'x oran_db \<Rightarrow> (u64 \<times> 'x oran_db) option" where
  "RegisterNodeLteUe now i imsi db =
     (if \<not> db_active db then Some (0, db)
      else
        Option.bind (RegisterNode now LTEUE i db) (\<lambda>(e2NodeId, db1).
          map_option (\<lambda>t. (e2NodeId, db1\<lparr>db_conn := Some (INSERT_LTE_UE_NODE i imsi t)\<rparr>)) (db_conn db1)))"

definition RegisterNodeLteEnb :: "time_ns \<Rightarrow> u64 \<Rightarrow> u16 \<Rightarrow> 'x oran_db \<Rightarrow> (u64 \<times> 'x oran_db) option" where
  "RegisterNodeLteEnb now i cellId db =
     (if \<not> db_active db then Some (0, db)
      else
        Option.bind (RegisterNode now LTEENB i db) (\<lambda>(e2NodeId, db1).
          map_option (\<lambda>t. (e2NodeId, db1\<lparr>db_conn := Some (INSERT_LTE_ENB_NODE i cellId t)\<rparr>)) (db_conn db1)))"

definition DeregisterNode :: "time_ns \<Rightarrow> u64 \<Rightarrow> 'x oran_db \<Rightarrow> (u64 \<times> 'x oran_db) option" where
  "DeregisterNode now e2NodeId db =
     (if \<not> db_active db then Some (0, db)
      else map_option (\<lambda>t. (e2NodeId, db\<lparr>db_conn := Some (INSERT_NODE_REGISTRATION e2NodeId False now t)\<rparr>))
             (db_conn db))"

text \<open>An insertion that is made for registered nodes only.\<close>

definition save_if_registered ::
    "u64 \<Rightarrow> ('x db_tables \<Rightarrow> 'x db_tables) \<Rightarrow> 'x oran_db \<Rightarrow> 'x oran_db option" where
  "save_if_registered n f db =
     (if \<not> db_active db then Some db
      else Option.bind (IsNodeRegistered n db) (\<lambda>registered.
             if registered then map_option (\<lambda>t. db\<lparr>db_conn := Some (f t)\<rparr>) (db_conn db) else Some db))"

definition SavePosition :: "u64 \<Rightarrow> 'x vector \<Rightarrow> time_ns \<Rightarrow> 'x oran_db \<Rightarrow> 'x oran_db option" where
  "SavePosition n pos tm = save_if_registered n
     (\<lambda>t. t\<lparr>t_location := t_location t @ [\<lparr>lc_nodeid = n, lc_pos = pos, lc_time = tm\<rparr>]\<rparr>)"

definition SaveLteUeCellInfo :: "u64 \<Rightarrow> u16 \<Rightarrow> u16 \<Rightarrow> time_ns \<Rightarrow> 'x oran_db \<Rightarrow> 'x oran_db option" where
  "SaveLteUeCellInfo n cellId rnti tm = save_if_registered n
     (\<lambda>t. t\<lparr>t_lteuecell := t_lteuecell t @
        [\<lparr>uc_nodeid = n, uc_cellid = cellId, uc_rnti = rnti, uc_time = tm\<rparr>]\<rparr>)"

definition SaveAppLoss :: "u64 \<Rightarrow> 'x \<Rightarrow> time_ns \<Rightarrow> 'x oran_db \<Rightarrow> 'x oran_db option" where
  "SaveAppLoss n loss tm = save_if_registered n (\<lambda>t. t\<lparr>t_apploss := t_apploss t @ [(n, loss, tm)]\<rparr>)"

definition SaveLteCellLoad :: "u64 \<Rightarrow> 'x \<Rightarrow> time_ns \<Rightarrow> 'x oran_db \<Rightarrow> 'x oran_db option" where
  "SaveLteCellLoad n load tm = save_if_registered n (\<lambda>t. t\<lparr>t_loadcell := t_loadcell t @ [(n, load, tm)]\<rparr>)"

definition LogCommandE2Terminator :: "time_ns \<Rightarrow> oran_command \<Rightarrow> 'x oran_db \<Rightarrow> 'x oran_db option" where
  "LogCommandE2Terminator now cmd = save_if_registered (cmd_target cmd)
     (\<lambda>t. t\<lparr>t_terminatorcommand := t_terminatorcommand t @ [(cmd_target cmd, now, cmd_ToString cmd)]\<rparr>)"

definition LogCommandLm :: "time_ns \<Rightarrow> string \<Rightarrow> oran_command \<Rightarrow> 'x oran_db \<Rightarrow> 'x oran_db option" where
  "LogCommandLm now lm cmd db =
     (if \<not> db_active db then Some db
      else map_option (\<lambda>t. db\<lparr>db_conn := Some (t\<lparr>t_lmcommand := t_lmcommand t @ [(lm, now, cmd_ToString cmd)]\<rparr>)\<rparr>)
             (db_conn db))"

definition LogActionLm :: "time_ns \<Rightarrow> string \<Rightarrow> string \<Rightarrow> 'x oran_db \<Rightarrow> 'x oran_db option" where
  "LogActionLm now lm logStr db =
     (if \<not> db_active db then Some db
      else map_option (\<lambda>t. db\<lparr>db_conn := Some (t\<lparr>t_lmaction := t_lmaction t @ [(lm, now, logStr)]\<rparr>)\<rparr>) (db_conn db))"

definition LogActionCmm :: "time_ns \<Rightarrow> string \<Rightarrow> string \<Rightarrow> 'x oran_db \<Rightarrow> 'x oran_db option" where
  "LogActionCmm now cmm logStr db =
     (if \<not> db_active db then Some db
      else map_option (\<lambda>t. db\<lparr>db_conn := Some (t\<lparr>t_cmmaction := t_cmmaction t @ [(cmm, now, logStr)]\<rparr>)\<rparr>) (db_conn db))"

text \<open>A query that is made for registered nodes only, with its default.\<close>

definition query_if_registered :: "u64 \<Rightarrow> 'r \<Rightarrow> ('x db_tables \<Rightarrow> 'r) \<Rightarrow> 'x oran_db \<Rightarrow> 'r option" where
  "query_if_registered n d q db =
     (if \<not> db_active db then Some d
      else Option.bind (IsNodeRegistered n db) (\<lambda>registered.
             if registered then map_option q (db_conn db) else Some d))"

text \<open>The \<^verbatim>\<open>std::map\<close> from time to position; a later row of the result replaces an earlier one.\<close>

definition GetNodePositions ::
    "u64 \<Rightarrow> time_ns \<Rightarrow> time_ns \<Rightarrow> u64 \<Rightarrow> 'x oran_db \<Rightarrow> (time_ns \<times> 'x vector) list option" where
  "GetNodePositions n fromTime toTime maxEntries =
     query_if_registered n []
       (\<lambda>t. foldl (\<lambda>m (tm, pos). smap_put tm pos m) [] (GET_NODE_ALL_POSITIONS n fromTime toTime maxEntries t))"

definition GetLteUeCellInfo :: "u64 \<Rightarrow> 'x oran_db \<Rightarrow> (bool \<times> u16 \<times> u16) option" where
  "GetLteUeCellInfo n = query_if_registered n (False, 0, 0)
     (\<lambda>t. foldl (\<lambda>_ (c, r). (True, c, r)) (False, 0, 0) (GET_LTE_UE_CELLINFO n t))"

definition GetLteEnbCellInfo :: "u64 \<Rightarrow> 'x oran_db \<Rightarrow> (bool \<times> u16) option" where
  "GetLteEnbCellInfo n = query_if_registered n (False, 0)
     (\<lambda>t. foldl (\<lambda>_ c. (True, c)) (False, 0) (GET_LTE_CELLID_FROM_E2NODEID n t))"

definition GetAppLoss :: "u64 \<Rightarrow> 'x oran_db \<Rightarrow> ('x :: zero) option" where
  "GetAppLoss n = query_if_registered n 0
     (\<lambda>t. foldl (\<lambda>_ (n, x, tm). x) 0 (take 1 (rev (filter (\<lambda>r. fst r = n) (t_apploss t)))))"

definition GetLteCellLoad :: "u64 \<Rightarrow> 'x oran_db \<Rightarrow> ('x :: zero) option" where
  "GetLteCellLoad n = query_if_registered n 0
     (\<lambda>t. foldl (\<lambda>_ (n, x, tm). x) 0 (take 1 (rev (filter (\<lambda>r. fst r = n) (t_loadcell t)))))"

definition GetLteUeE2NodeIdFromCellInfo :: "u16 \<Rightarrow> u16 \<Rightarrow> 'x oran_db \<Rightarrow> u64 option" where
  "GetLteUeE2NodeIdFromCellInfo cellId rnti db =
     (if \<not> db_active db then Some 0
      else map_option (\<lambda>t. foldl (\<lambda>_ n. n) 0 (GET_LTE_UE_E2NODEID_FROM_CELLINFO cellId rnti t)) (db_conn db))"

definition GetLteUeE2NodeIds :: "(bool list \<Rightarrow> bool) \<Rightarrow> 'x oran_db \<Rightarrow> u64 list option" where
  "GetLteUeE2NodeIds tie db =
     (if \<not> db_active db then Some [] else map_option (\<lambda>t. map fst (GET_LTE_ALL_UE_E2NODEIDS tie t)) (db_conn db))"

definition GetLteEnbE2NodeIds :: "(bool list \<Rightarrow> bool) \<Rightarrow> 'x oran_db \<Rightarrow> u64 list option" where
  "GetLteEnbE2NodeIds tie db =
     (if \<not> db_active db then Some [] else map_option (\<lambda>t. map fst (GET_LTE_ALL_ENB_E2NODEIDS tie t)) (db_conn db))"

definition GetLastRegistrationRequests ::
    "(bool list \<Rightarrow> bool) \<Rightarrow> 'x oran_db \<Rightarrow> (u64 \<times> time_ns) list option" where
  "GetLastRegistrationRequests tie db =
     (if \<not> db_active db then Some [] else map_option (GET_ALL_LAST_REGISTRATION_TIMES tie) (db_conn db))"

end
