(* ===== verification/OranStore.thy ===== *)
theory OranStore
  imports OranData
begin

text \<open>
  The registrations in the data repository: what a client relies on, stated as a locale, and its
  interpretation on the SQLite repository; and what is read back of the reports that are saved.
\<close>

section \<open>Rows in the order of time\<close>

lemma insort_key_snoc: "f a \<le> f x \<Longrightarrow> insort_key f a (ys @ [x]) = insort_key f a ys @ [x]"
  by (induction ys) auto

lemma sort_key_snoc: "\<forall>y\<in>set xs. f y \<le> f x \<Longrightarrow> sort_key f (xs @ [x]) = sort_key f xs @ [x]"
  by (induction xs) (simp_all add: insort_key_snoc)

lemma order_desc_snoc: "\<forall>y\<in>set xs. f y \<le> f x \<Longrightarrow> order_desc f (xs @ [x]) = x # order_desc f xs"
  by (simp add: order_desc_def sort_key_snoc)

section \<open>The state of registrations\<close>

definition reg_newest :: "u64 \<Rightarrow> 'x db_tables \<Rightarrow> bool" where
  "reg_newest n t \<longleftrightarrow> foldl (\<lambda>_ b. b) False (CHECK_NODE_REGISTERED n t)"

definition registered_nodes :: "'x oran_db \<Rightarrow> u64 set" where
  "registered_nodes db = {n. IsNodeRegistered n db = Some True}"

text \<open>The ids that have been given out.\<close>

definition known_nodes :: "'x oran_db \<Rightarrow> u64 set" where
  "known_nodes db = {n. \<exists>t. db_conn db = Some t \<and> sint n \<le> t_nodeseq t}"

text \<open>No row is later than now, and k more ids can be given out.\<close>

definition db_ok :: "time_ns \<Rightarrow> nat \<Rightarrow> 'x oran_db \<Rightarrow> bool" where
  "db_ok now k db \<longleftrightarrow> db_active db \<and>
     (\<exists>t. db_conn db = Some t \<and> (\<forall>r\<in>set (t_registration t). rg_time r \<le> now) \<and>
        0 \<le> t_nodeseq t \<and> t_nodeseq t + int k \<le> 2 ^ 62 \<and> int k \<le> 2 ^ 61)"

lemma db_okE:
  assumes "db_ok now k db"
  obtains t where "db_active db" "db_conn db = Some t" "\<forall>r\<in>set (t_registration t). rg_time r \<le> now"
    "0 \<le> t_nodeseq t" "t_nodeseq t + int k \<le> 2 ^ 62" "int k \<le> 2 ^ 61"
  using assms by (auto simp: db_ok_def)

lemma registered_nodes_newest:
  "db_active db \<Longrightarrow> db_conn db = Some t \<Longrightarrow> registered_nodes db = {n. reg_newest n t}"
  by (simp add: registered_nodes_def IsNodeRegistered_def reg_newest_def)

lemma reg_newest_insert:
  assumes "\<forall>r\<in>set (t_registration t). rg_time r \<le> now"
  shows "reg_newest n (INSERT_NODE_REGISTRATION m b now t) \<longleftrightarrow> (if n = m then b else reg_newest n t)"
  using assms by (simp add: reg_newest_def CHECK_NODE_REGISTERED_def INSERT_NODE_REGISTRATION_def order_desc_snoc)

lemma reg_newest_cong: "t_registration t = t_registration t' \<Longrightarrow> reg_newest n t = reg_newest n t'"
  by (simp add: reg_newest_def CHECK_NODE_REGISTERED_def)

section \<open>The contract\<close>

datatype store_event = StoreRegister NodeType u64 | StoreDeregister u64

text \<open>
  Registrations and deregistrations at given times; the result has the ids returned.
\<close>

fun store_run ::
    "(time_ns \<Rightarrow> NodeType \<Rightarrow> u64 \<Rightarrow> 'db \<Rightarrow> (u64 \<times> 'db) option) \<Rightarrow> (time_ns \<Rightarrow> u64 \<Rightarrow> 'db \<Rightarrow> (u64 \<times> 'db) option) \<Rightarrow>
     (time_ns \<times> store_event) list \<Rightarrow> 'db \<Rightarrow> (u64 list \<times> 'db) option" where
  "store_run reg dereg [] db = Some ([], db)"
| "store_run reg dereg ((now, StoreRegister ty i) # es) db =
     Option.bind (reg now ty i db) (\<lambda>(e, db1). map_option (\<lambda>(ids, db2). (e # ids, db2)) (store_run reg dereg es db1))"
| "store_run reg dereg ((now, StoreDeregister n) # es) db =
     Option.bind (dereg now n db) (\<lambda>(e, db1). map_option (\<lambda>(ids, db2). (e # ids, db2)) (store_run reg dereg es db1))"

text \<open>What the events make of the set of registered nodes, given the ids returned.\<close>

fun store_spec :: "(time_ns \<times> store_event) list \<Rightarrow> u64 list \<Rightarrow> u64 set \<Rightarrow> u64 set" where
  "store_spec ((now, StoreRegister ty i) # es) (e # ids) R = store_spec es ids (insert e R)"
| "store_spec ((now, StoreDeregister n) # es) (e # ids) R = store_spec es ids (R - {n})"
| "store_spec _ _ R = R"

text \<open>The ids given out for requests without an id.\<close>

fun new_ids :: "(time_ns \<times> store_event) list \<Rightarrow> u64 list \<Rightarrow> u64 list" where
  "new_ids ((now, StoreRegister ty i) # es) (e # ids) = (if i = 0 then e # new_ids es ids else new_ids es ids)"
| "new_ids ((now, StoreDeregister n) # es) (e # ids) = new_ids es ids"
| "new_ids _ _ = []"

fun times_from :: "time_ns \<Rightarrow> (time_ns \<times> store_event) list \<Rightarrow> bool" where
  "times_from now [] = True"
| "times_from now ((tm, e) # es) = (now \<le> tm \<and> times_from tm es)"

locale oran_store =
  fixes sok :: "time_ns \<Rightarrow> nat \<Rightarrow> 'db \<Rightarrow> bool"
    and sreg :: "'db \<Rightarrow> u64 set"
    and sknown :: "'db \<Rightarrow> u64 set"
    and reg :: "time_ns \<Rightarrow> NodeType \<Rightarrow> u64 \<Rightarrow> 'db \<Rightarrow> (u64 \<times> 'db) option"
    and dereg :: "time_ns \<Rightarrow> u64 \<Rightarrow> 'db \<Rightarrow> (u64 \<times> 'db) option"
  assumes later: "sok now k db \<Longrightarrow> now \<le> now' \<Longrightarrow> sok now' k db"
    and reg_law: "sok now (Suc k) db \<Longrightarrow>
      \<exists>e db'. reg now ty i db = Some (e, db') \<and> sok now k db' \<and> sreg db' = insert e (sreg db) \<and>
        sknown db \<subseteq> sknown db' \<and> (i = 0 \<longrightarrow> e \<in> sknown db' - sknown db)"
    and dereg_law: "sok now (Suc k) db \<Longrightarrow>
      \<exists>db'. dereg now n db = Some (n, db') \<and> sok now k db' \<and> sreg db' = sreg db - {n} \<and>
        sknown db \<subseteq> sknown db'"
begin

lemma run_law:
  assumes "sok now (length es) db" "times_from now es"
  shows "\<exists>ids db'. store_run reg dereg es db = Some (ids, db') \<and> sreg db' = store_spec es ids (sreg db) \<and>
    distinct (new_ids es ids) \<and> set (new_ids es ids) \<inter> sknown db = {}"
  using assms
proof (induction es arbitrary: now db)
  case (Cons te es)
  obtain tm e where te: "te = (tm, e)"
    by (cases te)
  have "now \<le> tm" "sok now (Suc (length es)) db" and tms: "times_from tm es"
    using Cons.prems te by simp_all
  then have ok: "sok tm (Suc (length es)) db"
    by (blast intro: later)
  show ?case
  proof (cases e)
    case (StoreRegister ty i)
    obtain d db1 where 1: "reg tm ty i db = Some (d, db1)" "sok tm (length es) db1"
      "sreg db1 = insert d (sreg db)" "sknown db \<subseteq> sknown db1" "i = 0 \<longrightarrow> d \<in> sknown db1 - sknown db"
      using reg_law [OF ok, of ty i] by blast
    obtain ids db2 where 2: "store_run reg dereg es db1 = Some (ids, db2)" "sreg db2 = store_spec es ids (sreg db1)"
      "distinct (new_ids es ids)" "set (new_ids es ids) \<inter> sknown db1 = {}"
      using Cons.IH [OF 1(2) tms] by blast
    show ?thesis
      using 1 2 te StoreRegister by (intro exI [of _ "d # ids"] exI [of _ db2]) auto
  next
    case (StoreDeregister n)
    obtain db1 where 1: "dereg tm n db = Some (n, db1)" "sok tm (length es) db1"
      "sreg db1 = sreg db - {n}" "sknown db \<subseteq> sknown db1"
      using dereg_law [OF ok, of n] by blast
    obtain ids db2 where 2: "store_run reg dereg es db1 = Some (ids, db2)" "sreg db2 = store_spec es ids (sreg db1)"
      "distinct (new_ids es ids)" "set (new_ids es ids) \<inter> sknown db1 = {}"
      using Cons.IH [OF 1(2) tms] by blast
    show ?thesis
      using 1 2 te StoreDeregister by (intro exI [of _ "n # ids"] exI [of _ db2]) auto
  qed
qed simp

end

section \<open>The SQLite repository meets the contract\<close>

lemma sint_word_of_rowid: "- (2 ^ 63) \<le> r \<Longrightarrow> r < 2 ^ 63 \<Longrightarrow> sint (word_of_int r :: u64) = r"
  by (simp add: signed_of_int signed_take_bit_int_eq_self)

lemma sint_u32_bounds: "sint (w :: u32) \<le> 2 ^ 31"
  using sint_lt [of w] by simp

lemma RegisterNode_law:
  assumes ok: "db_ok now (Suc k) db"
  shows "\<exists>e db'. RegisterNode now ty i db = Some (e, db') \<and> db_ok now k db' \<and>
    registered_nodes db' = insert e (registered_nodes db) \<and> known_nodes db \<subseteq> known_nodes db' \<and>
    (i = 0 \<longrightarrow> e \<in> known_nodes db' - known_nodes db)"
proof -
  from ok obtain t where t: "db_active db" "db_conn db = Some t" "\<forall>r\<in>set (t_registration t). rg_time r \<le> now"
    "0 \<le> t_nodeseq t" "t_nodeseq t + int (Suc k) \<le> 2 ^ 62" "int (Suc k) \<le> 2 ^ 61"
    by (rule db_okE)
  define r where "r = (if i = 0 then t_nodeseq t + 1 else sint (ucast i :: u32))"
  define t1 where "t1 = (if i = 0 then t\<lparr>t_node := t_node t @ [(r, ty)], t_nodeseq := r\<rparr> else snd (INSERT_NODE_UPDATE r ty t))"
  let ?t' = "INSERT_NODE_REGISTRATION (word_of_int r) True now t1"
  have ins: "(if i = 0 then INSERT_NODE_ADD ty t else Some (INSERT_NODE_UPDATE (sint (ucast i :: u32)) ty t)) = Some (r, t1)"
    using t(5) by (auto simp: r_def t1_def INSERT_NODE_ADD_def INSERT_NODE_UPDATE_def)
  have t1: "t_registration t1 = t_registration t" "t_nodeseq t1 = max (t_nodeseq t) r"
    by (auto simp: t1_def INSERT_NODE_UPDATE_def r_def)
  have r: "max (t_nodeseq t) r + int k \<le> 2 ^ 62" "i = 0 \<longrightarrow> sint (word_of_int r :: u64) = r"
    using t(4-6) sint_u32_bounds [of "ucast i"] sint_word_of_rowid [of r] by (auto simp: r_def max_def)
  define db' where "db' = db\<lparr>db_conn := Some ?t'\<rparr>"
  have "RegisterNode now ty i db = Some (word_of_int r, db')"
    using t ins by (simp add: RegisterNode_def db'_def Let_def)
  moreover have "db_ok now k db'"
    using t t1 r(1) by (simp add: db_ok_def db'_def INSERT_NODE_REGISTRATION_def)
  moreover have "registered_nodes db' = insert (word_of_int r) (registered_nodes db)"
    using t t1 reg_newest_cong [of t1 t] registered_nodes_newest [of db t] registered_nodes_newest [of db' ?t']
    by (auto simp: db'_def reg_newest_insert)
  moreover have "known_nodes db \<subseteq> known_nodes db'"
    using t t1 by (auto simp: known_nodes_def db'_def INSERT_NODE_REGISTRATION_def)
  moreover have "i = 0 \<longrightarrow> word_of_int r \<in> known_nodes db' - known_nodes db"
    using t t1 r(2) by (auto simp: known_nodes_def db'_def INSERT_NODE_REGISTRATION_def r_def)
  ultimately show ?thesis
    by blast
qed

lemma DeregisterNode_law:
  assumes ok: "db_ok now k db"
  shows "\<exists>db'. DeregisterNode now n db = Some (n, db') \<and> db_ok now k db' \<and>
    registered_nodes db' = registered_nodes db - {n} \<and> known_nodes db \<subseteq> known_nodes db'"
proof -
  from ok obtain t where t: "db_active db" "db_conn db = Some t" "\<forall>r\<in>set (t_registration t). rg_time r \<le> now"
    "0 \<le> t_nodeseq t" "t_nodeseq t + int k \<le> 2 ^ 62" "int k \<le> 2 ^ 61"
    by (rule db_okE)
  let ?t' = "INSERT_NODE_REGISTRATION n False now t"
  define db' where "db' = db\<lparr>db_conn := Some ?t'\<rparr>"
  have "DeregisterNode now n db = Some (n, db')"
    using t by (simp add: DeregisterNode_def db'_def)
  moreover have "db_ok now k db'"
    using t by (simp add: db_ok_def db'_def INSERT_NODE_REGISTRATION_def)
  moreover have "registered_nodes db' = registered_nodes db - {n}"
    using t registered_nodes_newest [of db t] registered_nodes_newest [of db' ?t']
    by (auto simp: db'_def reg_newest_insert)
  moreover have "known_nodes db \<subseteq> known_nodes db'"
    using t by (auto simp: known_nodes_def db'_def INSERT_NODE_REGISTRATION_def)
  ultimately show ?thesis
    by blast
qed

lemma db_ok_later: "db_ok now k db \<Longrightarrow> now \<le> now' \<Longrightarrow> db_ok now' k db"
  by (fastforce simp: db_ok_def)

lemma db_ok_less: "db_ok now (Suc k) db \<Longrightarrow> db_ok now k db"
  by (auto simp: db_ok_def)

interpretation sqlite: oran_store db_ok registered_nodes known_nodes RegisterNode DeregisterNode
proof
  fix now k db n
  assume "db_ok now (Suc k) (db :: 'x oran_db)"
  then show "\<exists>db'. DeregisterNode now n db = Some (n, db') \<and> db_ok now k db' \<and>
      registered_nodes db' = registered_nodes db - {n} \<and> known_nodes db \<subseteq> known_nodes db'"
    by (rule DeregisterNode_law [OF db_ok_less])
qed (fact db_ok_later RegisterNode_law)+

section \<open>What is saved is read back\<close>

lemma IsNodeRegistered_iff:
  "n \<in> registered_nodes db \<longleftrightarrow> IsNodeRegistered n db = Some True"
  by (simp add: registered_nodes_def)

lemma save_if_registered_ok:
  assumes "n \<in> registered_nodes db" "db_active db" "db_conn db = Some t"
  shows "save_if_registered n f db = Some (db\<lparr>db_conn := Some (f t)\<rparr>)"
  using assms by (simp add: save_if_registered_def IsNodeRegistered_iff)

lemma save_if_registered_not:
  "db_active db \<Longrightarrow> db_conn db = Some t \<Longrightarrow> n \<notin> registered_nodes db \<Longrightarrow> save_if_registered n f db = Some db"
  by (auto simp: save_if_registered_def registered_nodes_def IsNodeRegistered_def)

lemma registered_nodes_cong:
  assumes "db_active db" "db_conn db = Some t" "t_registration (f t) = t_registration t"
  shows "registered_nodes (db\<lparr>db_conn := Some (f t)\<rparr>) = registered_nodes db"
  using assms registered_nodes_newest [of db t] registered_nodes_newest [of "db\<lparr>db_conn := Some (f t)\<rparr>" "f t"]
    reg_newest_cong [OF assms(3)] by simp

text \<open>A save keeps the registrations, the ids and the order of times.\<close>

lemma save_keeps:
  assumes ok: "db_ok now k db" and f: "\<And>t. t_registration (f t) = t_registration t \<and> t_nodeseq (f t) = t_nodeseq t"
  shows "\<exists>db'. save_if_registered n f db = Some db' \<and> db_ok now k db' \<and> registered_nodes db' = registered_nodes db"
proof -
  from ok obtain t where t: "db_active db" "db_conn db = Some t"
    by (rule db_okE)
  show ?thesis
  proof (cases "n \<in> registered_nodes db")
    case True
    have "db_ok now k (db\<lparr>db_conn := Some (f t)\<rparr>)"
      using ok t f by (simp add: db_ok_def)
    with save_if_registered_ok [OF True t] registered_nodes_cong [OF t] f show ?thesis
      by fastforce
  next
    case False
    with save_if_registered_not [OF t] ok show ?thesis
      by fastforce
  qed
qed

lemma query_if_registered_ok:
  assumes "n \<in> registered_nodes db" "db_active db" "db_conn db = Some t"
  shows "query_if_registered n d q db = Some (q t)"
  using assms by (simp add: query_if_registered_def IsNodeRegistered_iff)

lemma position_roundtrip:
  assumes reg: "n \<in> registered_nodes db" and t: "db_active db" "db_conn db = Some t"
    and newer: "\<forall>r\<in>set (t_location t). lc_nodeid r = n \<longrightarrow> lc_time r \<le> tm" and now: "from \<le> tm" "tm \<le> now"
  shows "\<exists>db'. SavePosition n pos tm db = Some db' \<and> GetNodePositions n from now 1 db' = Some [(tm, pos)]"
proof -
  let ?r = "\<lparr>lc_nodeid = n, lc_pos = pos, lc_time = tm\<rparr>"
  let ?f = "\<lambda>t. t\<lparr>t_location := t_location t @ [?r]\<rparr>"
  have s: "SavePosition n pos tm db = Some (db\<lparr>db_conn := Some (?f t)\<rparr>)"
    unfolding SavePosition_def by (rule save_if_registered_ok [OF reg t])
  have "n \<in> registered_nodes (db\<lparr>db_conn := Some (?f t)\<rparr>)"
    using registered_nodes_cong [OF t, of ?f] reg by simp
  note q = query_if_registered_ok [OF this, of "?f t"]
  show ?thesis
    using t(1) now newer by (simp add: q s GetNodePositions_def GET_NODE_ALL_POSITIONS_def Let_def order_desc_snoc)
qed

lemma ue_cell_info_roundtrip:
  assumes reg: "n \<in> registered_nodes db" and t: "db_active db" "db_conn db = Some t"
    and newer: "\<forall>r\<in>set (t_lteuecell t). uc_nodeid r = n \<longrightarrow> uc_time r \<le> tm"
  shows "\<exists>db'. SaveLteUeCellInfo n cellId rnti tm db = Some db' \<and>
    GetLteUeCellInfo n db' = Some (True, cellId, rnti) \<and> GetLteUeE2NodeIdFromCellInfo cellId rnti db' = Some n"
proof -
  let ?r = "\<lparr>uc_nodeid = n, uc_cellid = cellId, uc_rnti = rnti, uc_time = tm\<rparr>"
  let ?f = "\<lambda>t. t\<lparr>t_lteuecell := t_lteuecell t @ [?r]\<rparr>"
  have s: "SaveLteUeCellInfo n cellId rnti tm db = Some (db\<lparr>db_conn := Some (?f t)\<rparr>)"
    unfolding SaveLteUeCellInfo_def by (rule save_if_registered_ok [OF reg t])
  have "n \<in> registered_nodes (db\<lparr>db_conn := Some (?f t)\<rparr>)"
    using registered_nodes_cong [OF t, of ?f] reg by simp
  note q = query_if_registered_ok [OF this, of "?f t"]
  show ?thesis
    using t newer by (simp add: q s GetLteUeCellInfo_def GET_LTE_UE_CELLINFO_def order_desc_snoc
        GetLteUeE2NodeIdFromCellInfo_def GET_LTE_UE_E2NODEID_FROM_CELLINFO_def)
qed

section \<open>The first registration of a UE\<close>

text \<open>
  The row of table \<^verbatim>\<open>lteue\<close> that the first registration of a UE inserts has the node id 0 of the
  request, so the UE is registered under its new id but is not among the LTE UEs; only its next
  registration, with the id, repairs this.
\<close>

definition db_fresh :: "nat oran_db" where
  "db_fresh = \<lparr>db_active = True, db_conn = Some empty_tables, db_path = '':memory:'', db_disk = empty_tables\<rparr>"

lemma db_fresh_activated:
  "db_Activate True (db_init\<lparr>db_path := '':memory:''\<rparr>) = Some db_fresh"
  by (simp add: db_Activate_def db_init_def IsDbOpen_def OpenDb_def db_fresh_def)

lemma db_fresh_ok: "db_ok 0 100 db_fresh"
  by (simp add: db_ok_def db_fresh_def empty_tables_def)

lemma first_ue_registration_not_listed:
  "case RegisterNodeLteUe 5 0 1234 db_fresh of Some (e, db1) \<Rightarrow>
     e = 1 \<and> IsNodeRegistered 1 db1 = Some True \<and> GetLteUeE2NodeIds hd db1 = Some [] \<and>
     (case RegisterNodeLteUe 6 1 1234 db1 of Some (e', db2) \<Rightarrow> e' = 1 \<and> GetLteUeE2NodeIds hd db2 = Some [1] | None \<Rightarrow> False)
   | None \<Rightarrow> False"
  by code_simp

end
