(* ===== verification/OranLm.thy ===== *)
theory OranLm
  imports OranStore
begin

text \<open>
  Logic modules of the Near-RT RIC: the base class (\<^verbatim>\<open>contrib/oran/model/oran-lm.cc\<close>), the module that
  does nothing and the one that hands UEs over to the closest cell
  (\<^verbatim>\<open>oran-lm-lte-2-lte-distance-handover.cc\<close>). The pending \<^verbatim>\<open>FinishRun\<close> event is a flag, because its
  delay is drawn from a random variable. The logic of a module is the argument \<open>logic\<close>, which gives
  the commands and the repository after it.
\<close>

section \<open>The base class\<close>

record oran_lm =
  lm_hasRic :: bool
  lm_active :: bool
  lm_name :: string
  lm_verbose :: bool
  lm_finishRunEvent :: bool
  lm_cycle :: time_ns
  lm_commands :: "oran_command list"

definition lm_init :: "string \<Rightarrow> oran_lm" where
  "lm_init name = \<lparr>lm_hasRic = False, lm_active = False, lm_name = name, lm_verbose = False,
     lm_finishRunEvent = False, lm_cycle = 0, lm_commands = []\<rparr>"

definition lm_IsRunning :: "oran_lm \<Rightarrow> bool" where
  "lm_IsRunning lm \<longleftrightarrow> lm_finishRunEvent lm"

definition lm_SetName :: "string \<Rightarrow> oran_lm \<Rightarrow> oran_lm" where
  "lm_SetName name lm = lm\<lparr>lm_name := name\<rparr>"

definition lm_Activate :: "oran_lm \<Rightarrow> oran_lm option" where
  "lm_Activate lm = (if \<not> lm_hasRic lm then None else Some (lm\<lparr>lm_active := True\<rparr>))"

text \<open>\<open>stamp\<close> is \<^verbatim>\<open>std::to_string\<close> of the time in seconds.\<close>

definition lm_LogLogicToRepository ::
    "(time_ns \<Rightarrow> string) \<Rightarrow> time_ns \<Rightarrow> string \<Rightarrow> oran_lm \<Rightarrow> 'x oran_db \<Rightarrow> 'x oran_db option" where
  "lm_LogLogicToRepository stamp now msg lm db =
     (if \<not> lm_hasRic lm then None
      else if lm_verbose lm
      then LogActionLm now (lm_name lm) (stamp now @ '' -- '' @ lm_name lm @ '' -- '' @ msg) db
      else Some db)"

definition decimal_int :: "int \<Rightarrow> string" where
  "decimal_int i = (if i < 0 then ''-'' @ decimal (nat (- i)) else decimal (nat i))"

definition cancel_message :: "oran_lm \<Rightarrow> string" where
  "cancel_message lm =
     ''Run canceld for cycle '' @ decimal_int (lm_cycle lm) @ '' with '' @ decimal (length (lm_commands lm)) @
     '' command(s) lost'' @ '' {'' @ butlast (concat (map (\<lambda>c. cmd_ToString c @ '','') (lm_commands lm))) @ ''}''"

definition lm_CancelRun ::
    "(time_ns \<Rightarrow> string) \<Rightarrow> time_ns \<Rightarrow> oran_lm \<Rightarrow> 'x oran_db \<Rightarrow> (oran_lm \<times> 'x oran_db) option" where
  "lm_CancelRun stamp now lm db =
     (if lm_active lm \<and> lm_IsRunning lm then
        map_option (\<lambda>db'. (lm\<lparr>lm_finishRunEvent := False, lm_commands := []\<rparr>, db'))
          (if lm_commands lm \<noteq> [] then lm_LogLogicToRepository stamp now (cancel_message lm) lm db else Some db)
      else Some (lm, db))"

definition lm_Deactivate ::
    "(time_ns \<Rightarrow> string) \<Rightarrow> time_ns \<Rightarrow> oran_lm \<Rightarrow> 'x oran_db \<Rightarrow> (oran_lm \<times> 'x oran_db) option" where
  "lm_Deactivate stamp now lm db =
     (let lm1 = lm\<lparr>lm_active := False\<rparr>
      in if lm_IsRunning lm1 then lm_CancelRun stamp now lm1 db else Some (lm1, db))"

definition lm_Run ::
    "(oran_lm \<Rightarrow> 'x oran_db \<Rightarrow> (oran_command list \<times> 'x oran_db) option) \<Rightarrow> time_ns \<Rightarrow> oran_lm \<Rightarrow> 'x oran_db \<Rightarrow>
     (oran_lm \<times> 'x oran_db) option" where
  "lm_Run logic cycle lm db =
     (if lm_active lm then
        (if lm_IsRunning lm then None
         else (let lm1 = lm\<lparr>lm_cycle := cycle\<rparr>
               in map_option (\<lambda>(cmds, db'). (lm1\<lparr>lm_commands := cmds, lm_finishRunEvent := True\<rparr>, db'))
                    (logic lm1 db)))
      else Some (lm, db))"

definition lm_DoDispose :: "oran_lm \<Rightarrow> oran_lm" where
  "lm_DoDispose lm = lm\<lparr>lm_hasRic := False, lm_finishRunEvent := False\<rparr>"

text \<open>
  \<^verbatim>\<open>Deactivate\<close> clears \<^verbatim>\<open>m_active\<close> first, so that \<^verbatim>\<open>CancelRun\<close> does nothing: the run stays scheduled.
\<close>

lemma lm_Deactivate_keeps_run:
  "lm_Deactivate stamp now lm db = Some (lm\<lparr>lm_active := False\<rparr>, db)"
  by (simp add: lm_Deactivate_def lm_CancelRun_def Let_def)

section \<open>The module that does nothing\<close>

definition noop_Run ::
    "(time_ns \<Rightarrow> string) \<Rightarrow> time_ns \<Rightarrow> oran_lm \<Rightarrow> 'x oran_db \<Rightarrow> (oran_command list \<times> 'x oran_db) option" where
  "noop_Run stamp now lm db =
     (if \<not> lm_hasRic lm then None
      else map_option (\<lambda>db'. ([], db')) (lm_LogLogicToRepository stamp now ''No action taken'' lm db))"

section \<open>Handover to the closest cell\<close>

text \<open>
  What the module takes from the library: square roots and the text of a double, the largest double, and
  SQLite's choice among rows with the same time.
\<close>

record 'x lm_env =
  le_stamp :: "time_ns \<Rightarrow> string"
  le_show :: "'x \<Rightarrow> string"
  le_sqrt :: "'x \<Rightarrow> 'x"
  le_max :: 'x
  le_tie :: "bool list \<Rightarrow> bool"

record 'x ue_info =
  ui_nodeId :: u64
  ui_cellId :: u16
  ui_rnti :: u16
  ui_position :: "'x vector"

record 'x enb_info =
  ei_nodeId :: u64
  ei_cellId :: u16
  ei_position :: "'x vector"

text \<open>\<^verbatim>\<open>nodePositions.rbegin()->second\<close>, the position with the largest time.\<close>

definition latest_position :: "u64 \<Rightarrow> time_ns \<Rightarrow> 'x oran_db \<Rightarrow> 'x vector option option" where
  "latest_position n now db =
     map_option (\<lambda>m. if m = [] then None else Some (snd (last m))) (GetNodePositions n 0 now 1 db)"

fun ue_infos :: "time_ns \<Rightarrow> 'x oran_db \<Rightarrow> u64 list \<Rightarrow> 'x ue_info list option" where
  "ue_infos now db [] = Some []"
| "ue_infos now db (n # ns) =
     Option.bind (GetLteUeCellInfo n db) (\<lambda>(found, cellId, rnti).
     Option.bind (if found then latest_position n now db else Some None) (\<lambda>pos.
     map_option (\<lambda>us. (case pos of
          Some p \<Rightarrow> \<lparr>ui_nodeId = n, ui_cellId = cellId, ui_rnti = rnti, ui_position = p\<rparr> # us
        | None \<Rightarrow> us)) (ue_infos now db ns)))"

definition GetUeInfos :: "'x lm_env \<Rightarrow> time_ns \<Rightarrow> 'x oran_db \<Rightarrow> 'x ue_info list option" where
  "GetUeInfos env now db = Option.bind (GetLteUeE2NodeIds (le_tie env) db) (ue_infos now db)"

fun enb_infos :: "time_ns \<Rightarrow> 'x oran_db \<Rightarrow> u64 list \<Rightarrow> 'x enb_info list option" where
  "enb_infos now db [] = Some []"
| "enb_infos now db (n # ns) =
     Option.bind (GetLteEnbCellInfo n db) (\<lambda>(found, cellId).
     Option.bind (if found then latest_position n now db else Some None) (\<lambda>pos.
     map_option (\<lambda>es. (case pos of
          Some p \<Rightarrow> \<lparr>ei_nodeId = n, ei_cellId = cellId, ei_position = p\<rparr> # es
        | None \<Rightarrow> es)) (enb_infos now db ns)))"

definition GetEnbInfos :: "'x lm_env \<Rightarrow> time_ns \<Rightarrow> 'x oran_db \<Rightarrow> 'x enb_info list option" where
  "GetEnbInfos env now db = Option.bind (GetLteEnbE2NodeIds (le_tie env) db) (enb_infos now db)"

definition distance :: "('x :: {minus,power,plus}) lm_env \<Rightarrow> 'x vector \<Rightarrow> 'x vector \<Rightarrow> 'x" where
  "distance env p q =
     le_sqrt env ((vec_x p - vec_x q) ^ 2 + (vec_y p - vec_y q) ^ 2 + (vec_z p - vec_z q) ^ 2)"

definition distance_message :: "'x lm_env \<Rightarrow> 'x ue_info \<Rightarrow> 'x enb_info \<Rightarrow> 'x \<Rightarrow> string" where
  "distance_message env ue enb dist =
     ''Distance from UE with RNTI '' @ decimal (unat (ui_rnti ue)) @ '' in CellID '' @
     decimal (unat (ui_cellId ue)) @ '' to eNB with CellID '' @ decimal (unat (ei_cellId enb)) @ '' is '' @
     le_show env dist"

definition shortest_message :: "'x enb_info \<Rightarrow> string" where
  "shortest_message enb =
     ''Distance to eNB with CellID '' @ decimal (unat (ei_cellId enb)) @ '' is shortest so far''"

definition handover_message :: "u16 \<Rightarrow> 'x ue_info \<Rightarrow> string" where
  "handover_message newCellId ue =
     ''Closest eNB (CellID '' @ decimal (unat newCellId) @ '')'' @
     '' is different than the currently attached eNB'' @ '' (CellID '' @ decimal (unat (ui_cellId ue)) @
     '').'' @ '' Issuing handover command.''"

text \<open>
  The inner loop. The state has the smallest distance, the id of the serving node, which is not
  initialised at first, and the id of the closest cell.
\<close>

fun scan_enbs ::
    "('x :: {minus,power,plus,ord}) lm_env \<Rightarrow> time_ns \<Rightarrow> oran_lm \<Rightarrow> 'x ue_info \<Rightarrow> 'x enb_info list \<Rightarrow>
     'x \<times> u64 option \<times> u16 \<Rightarrow> 'x oran_db \<Rightarrow> (('x \<times> u64 option \<times> u16) \<times> 'x oran_db) option" where
  "scan_enbs env now lm ue [] st db = Some (st, db)"
| "scan_enbs env now lm ue (enb # enbs) (mn, oldCellNodeId, newCellId) db =
     (let dist = distance env (ui_position ue) (ei_position enb) in
      Option.bind (lm_LogLogicToRepository (le_stamp env) now
          (distance_message env ue enb dist) lm db) (\<lambda>db1.
      Option.bind (if dist < mn then lm_LogLogicToRepository (le_stamp env) now
          (shortest_message enb) lm db1
          else Some db1) (\<lambda>db2.
      scan_enbs env now lm ue enbs
        (if dist < mn then dist else mn,
         if ui_cellId ue = ei_cellId enb then Some (ei_nodeId enb) else oldCellNodeId,
         if dist < mn then ei_cellId enb else newCellId) db2)))"

text \<open>Using the id of a serving node that was not found is undefined: \<open>None\<close>.\<close>

fun GetHandoverCommands ::
    "('x :: {minus,power,plus,ord}) lm_env \<Rightarrow> time_ns \<Rightarrow> oran_lm \<Rightarrow> 'x ue_info list \<Rightarrow> 'x enb_info list \<Rightarrow>
     'x oran_db \<Rightarrow> (oran_command list \<times> 'x oran_db) option" where
  "GetHandoverCommands env now lm [] enbs db = Some ([], db)"
| "GetHandoverCommands env now lm (ue # ues) enbs db =
     Option.bind (scan_enbs env now lm ue enbs (le_max env, None, ui_cellId ue) db) (\<lambda>((mn, old, newCellId), db1).
       if newCellId \<noteq> ui_cellId ue then
         Option.bind old (\<lambda>oldCellNodeId.
           (let handoverCommand = Lte2LteHandover oldCellNodeId newCellId (ui_rnti ue) in
            Option.bind (LogCommandLm now (lm_name lm) handoverCommand db1) (\<lambda>db2.
            Option.bind (lm_LogLogicToRepository (le_stamp env) now
                (handover_message newCellId ue) lm db2) (\<lambda>db3.
            map_option (\<lambda>(cmds, db4). (handoverCommand # cmds, db4)) (GetHandoverCommands env now lm ues enbs db3)))))
       else GetHandoverCommands env now lm ues enbs db1)"

definition distance_Run ::
    "('x :: {minus,power,plus,ord}) lm_env \<Rightarrow> time_ns \<Rightarrow> oran_lm \<Rightarrow> 'x oran_db \<Rightarrow>
     (oran_command list \<times> 'x oran_db) option" where
  "distance_Run env now lm db =
     (if lm_active lm then
        (if \<not> lm_hasRic lm then None
         else Option.bind (GetUeInfos env now db) (\<lambda>ues.
              Option.bind (GetEnbInfos env now db) (\<lambda>enbs.
              GetHandoverCommands env now lm ues enbs db)))
      else Some ([], db))"

section \<open>Logging changes only the logs\<close>

definition strip_logs :: "'x oran_db \<Rightarrow> 'x oran_db" where
  "strip_logs db = db\<lparr>db_conn := map_option (\<lambda>t. t\<lparr>t_terminatorcommand := [], t_lmcommand := [], t_lmaction := [],
     t_cmmaction := []\<rparr>) (db_conn db)\<rparr>"

definition same_data :: "'x oran_db \<Rightarrow> 'x oran_db \<Rightarrow> bool" where
  "same_data db db' \<longleftrightarrow> strip_logs db = strip_logs db'"

lemma same_data_refl [simp]: "same_data db db"
  by (simp add: same_data_def)

lemma same_data_trans: "same_data a b \<Longrightarrow> same_data b c \<Longrightarrow> same_data a c"
  by (simp add: same_data_def)

definition db_answers :: "'x oran_db \<Rightarrow> bool" where
  "db_answers db \<longleftrightarrow> (db_active db \<longrightarrow> db_conn db \<noteq> None)"

lemma db_ok_answers: "db_ok now k db \<Longrightarrow> db_answers db"
  by (auto simp: db_ok_def db_answers_def)

lemma same_data_simps:
  assumes "same_data db db'"
  shows "db_active db' = db_active db" "db_answers db' = db_answers db"
    "(db_conn db' = None) = (db_conn db = None)" "db_conn db = Some t \<Longrightarrow> \<exists>t'. db_conn db' = Some t' \<and>
       t_registration t' = t_registration t \<and> t_nodeseq t' = t_nodeseq t"
proof -
  let ?f = "\<lambda>t. t\<lparr>t_terminatorcommand := [], t_lmcommand := [], t_lmaction := [], t_cmmaction := []\<rparr>"
  have eq: "db_active (strip_logs db) = db_active (strip_logs db')" "db_conn (strip_logs db) = db_conn (strip_logs db')"
    using assms by (simp_all add: same_data_def)
  then have c: "map_option ?f (db_conn db) = map_option ?f (db_conn db')"
    by (simp add: strip_logs_def)
  show "db_active db' = db_active db"
    using eq(1) by (simp add: strip_logs_def)
  show n: "(db_conn db' = None) = (db_conn db = None)"
    using c by (cases "db_conn db"; cases "db_conn db'") auto
  show "db_answers db' = db_answers db"
    using \<open>db_active db' = db_active db\<close> n by (simp add: db_answers_def)
  show "\<exists>t'. db_conn db' = Some t' \<and> t_registration t' = t_registration t \<and> t_nodeseq t' = t_nodeseq t"
    if t: "db_conn db = Some t"
  proof -
    obtain t' where t': "db_conn db' = Some t'"
      using n t by auto
    then have "?f t = ?f t'"
      using c t by simp
    then have "t_registration (?f t') = t_registration (?f t)" "t_nodeseq (?f t') = t_nodeseq (?f t)"
      by simp_all
    with t' show ?thesis
      by simp
  qed
qed

lemma same_data_ok: "same_data db db' \<Longrightarrow> db_ok now k db \<Longrightarrow> db_ok now k db'"
  using same_data_simps(1,4) [of db db'] by (fastforce simp: db_ok_def)

lemma same_data_registered:
  assumes "same_data db db'"
  shows "registered_nodes db' = registered_nodes db"
proof (cases "db_conn db")
  case None
  then show ?thesis
    using same_data_simps [OF assms] by (simp add: registered_nodes_def IsNodeRegistered_def)
next
  case (Some t)
  obtain t' where "db_conn db' = Some t'" "t_registration t' = t_registration t"
    using same_data_simps(4) [OF assms Some] by blast
  with Some same_data_simps(1) [OF assms] show ?thesis
    by (simp add: registered_nodes_def IsNodeRegistered_def CHECK_NODE_REGISTERED_def)
qed

lemma log_total:
  assumes "db_answers db"
  shows "\<exists>db'. LogActionLm now n msg db = Some db' \<and> same_data db db'"
    and "\<exists>db'. LogActionCmm now n msg db = Some db' \<and> same_data db db'"
    and "\<exists>db'. LogCommandLm now n cmd db = Some db' \<and> same_data db db'"
  using assms
  by (auto simp: LogActionLm_def LogActionCmm_def LogCommandLm_def db_answers_def same_data_def strip_logs_def)

lemma lm_log_total:
  assumes "db_answers db" "lm_hasRic lm"
  shows "\<exists>db'. lm_LogLogicToRepository stamp now msg lm db = Some db' \<and> same_data db db' \<and> db_answers db'"
  using log_total(1) [OF assms(1), of now "lm_name lm" "stamp now @ '' -- '' @ lm_name lm @ '' -- '' @ msg"]
    assms same_data_simps(2)
  by (fastforce simp: lm_LogLogicToRepository_def)

section \<open>The closest cell\<close>

text \<open>The inner loop without the log.\<close>

definition scan_step ::
    "('x :: {minus,power,plus,ord}) lm_env \<Rightarrow> 'x ue_info \<Rightarrow> 'x enb_info \<Rightarrow> 'x \<times> u64 option \<times> u16 \<Rightarrow> 'x \<times> u64 option \<times> u16" where
  "scan_step env ue enb st =
     (let d = distance env (ui_position ue) (ei_position enb) in
      (if d < fst st then d else fst st,
       if ui_cellId ue = ei_cellId enb then Some (ei_nodeId enb) else fst (snd st),
       if d < fst st then ei_cellId enb else snd (snd st)))"

lemma scan_enbs_fold:
  assumes "db_answers db" "lm_hasRic lm"
  shows "\<exists>db'. scan_enbs env now lm ue enbs st db = Some (fold (scan_step env ue) enbs st, db') \<and>
    same_data db db' \<and> db_answers db'"
  using assms(1)
proof (induction enbs arbitrary: st db)
  case (Cons enb enbs)
  obtain mn old new where st: "st = (mn, old, new)"
    by (metis prod_cases3)
  let ?d = "distance env (ui_position ue) (ei_position enb)"
  let ?m1 = "distance_message env ue enb ?d" and ?m2 = "shortest_message enb"
  obtain db1 where 1: "lm_LogLogicToRepository (le_stamp env) now ?m1 lm db = Some db1" "same_data db db1" "db_answers db1"
    using lm_log_total [OF Cons.prems assms(2)] by blast
  obtain db2 where 2: "(if ?d < mn then lm_LogLogicToRepository (le_stamp env) now ?m2 lm db1 else Some db1) = Some db2"
    "same_data db1 db2" "db_answers db2"
    using lm_log_total [OF 1(3) assms(2), of "le_stamp env" now ?m2] 1(3) by (cases "?d < mn") auto
  obtain db3 where 3: "scan_enbs env now lm ue enbs (scan_step env ue enb st) db2
      = Some (fold (scan_step env ue) enbs (scan_step env ue enb st), db3)" "same_data db2 db3" "db_answers db3"
    using Cons.IH [OF 2(3)] by blast
  have "scan_enbs env now lm ue (enb # enbs) st db = scan_enbs env now lm ue enbs (scan_step env ue enb st) db2"
    unfolding st scan_enbs.simps Let_def 1(1) bind.simps 2(1) by (simp add: scan_step_def Let_def)
  with 3 1(2) 2(2) same_data_trans show ?case
    by fastforce
qed simp

text \<open>The first eNB at the smallest distance, and the last one that serves the cell of the UE.\<close>

definition nearest_enb ::
    "('x :: {minus,power,plus,ord}) lm_env \<Rightarrow> 'x enb_info list \<Rightarrow> 'x ue_info \<Rightarrow> 'x enb_info" where
  "nearest_enb env enbs ue =
     hd (filter (\<lambda>e. \<forall>e'\<in>set enbs. distance env (ui_position ue) (ei_position e)
                                \<le> distance env (ui_position ue) (ei_position e')) enbs)"

definition serving_enb :: "'x enb_info list \<Rightarrow> 'x ue_info \<Rightarrow> 'x enb_info" where
  "serving_enb enbs ue = last (filter (\<lambda>e. ei_cellId e = ui_cellId ue) enbs)"

definition firsts :: "('a \<Rightarrow> 'x :: linorder) \<Rightarrow> 'a list \<Rightarrow> 'a list" where
  "firsts d xs = filter (\<lambda>x. \<forall>y\<in>set xs. d x \<le> d y) xs"

lemma firsts_snoc:
  assumes "firsts d xs \<noteq> []"
  shows "hd (firsts d (xs @ [y])) = (if d y < d (hd (firsts d xs)) then y else hd (firsts d xs)) \<and> firsts d (xs @ [y]) \<noteq> []"
proof -
  let ?x = "hd (firsts d xs)"
  have "?x \<in> set (firsts d xs)"
    using assms by simp
  then have x: "?x \<in> set xs" "\<forall>z\<in>set xs. d ?x \<le> d z"
    by (simp_all add: firsts_def)
  show ?thesis
  proof (cases "d y < d ?x")
    case True
    have "\<not> d z \<le> d y" if "z \<in> set xs" for z
      using x(2) that True by (meson leD le_less_trans order.trans)
    then have "firsts d (xs @ [y]) = [y]"
      using x True by (force simp: firsts_def filter_empty_conv)
    with True show ?thesis
      by simp
  next
    case False
    have "(\<forall>w\<in>set (xs @ [y]). d z \<le> d w) \<longleftrightarrow> (\<forall>w\<in>set xs. d z \<le> d w)" if "z \<in> set xs" for z
      using x False by (auto intro: order.trans)
    then have "filter (\<lambda>z. \<forall>w\<in>set (xs @ [y]). d z \<le> d w) xs = firsts d xs"
      unfolding firsts_def by (intro filter_cong) auto
    then have "\<exists>zs. firsts d (xs @ [y]) = firsts d xs @ zs"
      by (simp add: firsts_def)
    with False assms show ?thesis
      by auto
  qed
qed

lemma firsts_neq_Nil: "xs \<noteq> [] \<Longrightarrow> firsts d xs \<noteq> []"
proof (induction xs rule: rev_induct)
  case (snoc x xs)
  then show ?case
    using firsts_snoc [of d xs x] by (cases "xs = []") (auto simp: firsts_def)
qed simp

lemma nearest_enb_in:
  fixes env :: "('x :: {minus,power,plus,linorder}) lm_env"
  assumes "enbs \<noteq> []"
  shows "nearest_enb env enbs ue \<in> set enbs"
  using hd_in_set [OF firsts_neq_Nil [OF assms, of "\<lambda>e. distance env (ui_position ue) (ei_position e)"]]
  by (auto simp: nearest_enb_def firsts_def)

lemma scan_result:
  fixes env :: "('x :: {minus,power,plus,linorder}) lm_env"
  assumes "enbs \<noteq> []" "\<forall>e\<in>set enbs. distance env (ui_position ue) (ei_position e) < le_max env"
  shows "fold (scan_step env ue) enbs (le_max env, None, ui_cellId ue) =
    (distance env (ui_position ue) (ei_position (nearest_enb env enbs ue)),
     if \<exists>e\<in>set enbs. ei_cellId e = ui_cellId ue then Some (ei_nodeId (serving_enb enbs ue)) else None,
     ei_cellId (nearest_enb env enbs ue))"
proof -
  let ?d = "\<lambda>e. distance env (ui_position ue) (ei_position e)"
  let ?f = "firsts ?d"
  have near: "nearest_enb env es ue = hd (?f es)" for es
    by (simp add: nearest_enb_def firsts_def)
  have "?f enbs \<noteq> [] \<and> fold (scan_step env ue) enbs (le_max env, None, ui_cellId ue) =
    (?d (hd (?f enbs)), if \<exists>e\<in>set enbs. ei_cellId e = ui_cellId ue then Some (ei_nodeId (serving_enb enbs ue)) else None,
     ei_cellId (hd (?f enbs)))"
    using assms
  proof (induction enbs rule: rev_induct)
    case (snoc e es)
    show ?case
    proof (cases "es = []")
      case True
      then show ?thesis
        using snoc.prems by (simp add: scan_step_def Let_def firsts_def serving_enb_def)
    next
      case False
      with snoc have ih: "?f es \<noteq> []" "fold (scan_step env ue) es (le_max env, None, ui_cellId ue) =
        (?d (hd (?f es)), if \<exists>e\<in>set es. ei_cellId e = ui_cellId ue then Some (ei_nodeId (serving_enb es ue)) else None,
         ei_cellId (hd (?f es)))"
        by simp_all
      show ?thesis
        using firsts_snoc [OF ih(1), of e] unfolding fold_append comp_def ih(2)
        by (simp add: scan_step_def Let_def serving_enb_def)
    qed
  qed simp
  then show ?thesis
    by (simp add: near)
qed

text \<open>
  The commands: every UE whose closest cell is not its own is handed over to it, by a command for the
  node that serves it.
\<close>

definition closest_handovers ::
    "('x :: {minus,power,plus,ord}) lm_env \<Rightarrow> 'x enb_info list \<Rightarrow> 'x ue_info list \<Rightarrow> oran_command list" where
  "closest_handovers env enbs ues =
     map (\<lambda>ue. Lte2LteHandover (ei_nodeId (serving_enb enbs ue)) (ei_cellId (nearest_enb env enbs ue)) (ui_rnti ue))
       (filter (\<lambda>ue. ei_cellId (nearest_enb env enbs ue) \<noteq> ui_cellId ue) ues)"

lemma handover_commands_spec:
  fixes env :: "('x :: {minus,power,plus,linorder}) lm_env"
  assumes "db_answers db" "lm_hasRic lm"
    and "\<forall>ue\<in>set ues. (\<exists>e\<in>set enbs. ei_cellId e = ui_cellId ue) \<and>
      (\<forall>e\<in>set enbs. distance env (ui_position ue) (ei_position e) < le_max env)"
  shows "\<exists>db'. GetHandoverCommands env now lm ues enbs db = Some (closest_handovers env enbs ues, db') \<and> same_data db db'"
  using assms(1,3)
proof (induction ues arbitrary: db)
  case (Cons ue ues)
  have ne: "enbs \<noteq> []" "\<exists>e\<in>set enbs. ei_cellId e = ui_cellId ue"
    "\<forall>e\<in>set enbs. distance env (ui_position ue) (ei_position e) < le_max env"
    using Cons.prems(2) by auto
  obtain db1 where 1: "scan_enbs env now lm ue enbs (le_max env, None, ui_cellId ue) db =
      Some (fold (scan_step env ue) enbs (le_max env, None, ui_cellId ue), db1)" "same_data db db1" "db_answers db1"
    using scan_enbs_fold [OF Cons.prems(1) assms(2)] by blast
  note scan = 1(1) [unfolded scan_result [OF ne(1,3)]]
  let ?c = "Lte2LteHandover (ei_nodeId (serving_enb enbs ue)) (ei_cellId (nearest_enb env enbs ue)) (ui_rnti ue)"
  show ?case
  proof (cases "ei_cellId (nearest_enb env enbs ue) = ui_cellId ue")
    case True
    with Cons.IH [OF 1(3)] Cons.prems(2) scan 1(2) show ?thesis
      by (fastforce simp: closest_handovers_def intro: same_data_trans)
  next
    case False
    obtain db2 where 2: "LogCommandLm now (lm_name lm) ?c db1 = Some db2" "same_data db1 db2"
      using log_total(3) [OF 1(3)] by blast
    then have "db_answers db2"
      using same_data_simps(2) 1(3) by blast
    then obtain db3 where 3: "lm_LogLogicToRepository (le_stamp env) now
        (handover_message (ei_cellId (nearest_enb env enbs ue)) ue) lm db2 = Some db3" "same_data db2 db3" "db_answers db3"
      using lm_log_total [OF _ assms(2)] by blast
    obtain db4 where 4: "GetHandoverCommands env now lm ues enbs db3 = Some (closest_handovers env enbs ues, db4)"
      "same_data db3 db4"
      using Cons.IH [OF 3(3)] Cons.prems(2) by auto
    have "GetHandoverCommands env now lm (ue # ues) enbs db = Some (?c # closest_handovers env enbs ues, db4)"
      using False ne(2) unfolding GetHandoverCommands.simps scan
      by (simp add: Let_def 2(1) 3(1) 4(1))
    moreover have "same_data db db4"
      using 1(2) 2(2) 3(2) 4(2) same_data_trans by blast
    ultimately show ?thesis
      using False by (simp add: closest_handovers_def)
  qed
qed (simp add: closest_handovers_def)

text \<open>
  A UE whose serving cell is not among the cells, because its eNB has no position or is not registered,
  makes the module use an uninitialised node id.
\<close>

lemma unknown_serving_cell_undefined:
  fixes env :: "('x :: {minus,power,plus,linorder}) lm_env"
  assumes "db_answers db" "lm_hasRic lm" "enbs \<noteq> []" "\<forall>e\<in>set enbs. ei_cellId e \<noteq> ui_cellId ue"
    and "\<forall>e\<in>set enbs. distance env (ui_position ue) (ei_position e) < le_max env"
  shows "GetHandoverCommands env now lm (ue # ues) enbs db = None"
proof -
  obtain db1 where 1: "scan_enbs env now lm ue enbs (le_max env, None, ui_cellId ue) db =
      Some (fold (scan_step env ue) enbs (le_max env, None, ui_cellId ue), db1)"
    using scan_enbs_fold [OF assms(1,2)] by blast
  have "nearest_enb env enbs ue \<in> set enbs"
    using nearest_enb_in [OF assms(3)] .
  then show ?thesis
    using assms(4) unfolding GetHandoverCommands.simps 1 scan_result [OF assms(3,5)] by auto
qed

end
