(* ===== verification/OranCmm.thy ===== *)
theory OranCmm
  imports OranLm "HOL-Library.Product_Lexorder" "HOL-Library.List_Lexorder" "HOL-Library.Char_ord"
begin

text \<open>
  The conflict mitigation modules (\<^verbatim>\<open>contrib/oran/model/oran-cmm*.cc\<close>): \<^verbatim>\<open>Filter\<close> of the module that
  does nothing, of the one that drops handovers already issued, and of the one that keeps a single
  command per affected node. The input is the \<^verbatim>\<open>std::map\<close> from the name of a logic module and the
  flag of the default module to its commands, in ascending order of the keys. The result has the
  commands, the module after the call and the texts given to \<^verbatim>\<open>LogLogicToStorage\<close>.
\<close>

section \<open>The base class\<close>

type_synonym cmd_sets = "((string \<times> bool) \<times> oran_command list) list"

record oran_cmm =
  cm_hasRic :: bool
  cm_active :: bool
  cm_name :: string
  cm_verbose :: bool
  cm_pendingCmds :: "oran_command list"

definition cmm_init :: "string \<Rightarrow> oran_cmm" where
  "cmm_init name = \<lparr>cm_hasRic = False, cm_active = False, cm_name = name, cm_verbose = False, cm_pendingCmds = []\<rparr>"

definition cmm_Activate :: "oran_cmm \<Rightarrow> oran_cmm option" where
  "cmm_Activate c = (if \<not> cm_hasRic c then None else Some (c\<lparr>cm_active := True\<rparr>))"

definition cmm_Deactivate :: "oran_cmm \<Rightarrow> oran_cmm" where
  "cmm_Deactivate c = c\<lparr>cm_active := False\<rparr>"

definition cmm_SetName :: "string \<Rightarrow> oran_cmm \<Rightarrow> oran_cmm" where
  "cmm_SetName name c = c\<lparr>cm_name := name\<rparr>"

definition cmm_DoDispose :: "oran_cmm \<Rightarrow> oran_cmm" where
  "cmm_DoDispose c = c\<lparr>cm_hasRic := False\<rparr>"

text \<open>
  \<^verbatim>\<open>LogLogicToStorage\<close>; \<open>stamp\<close> is \<^verbatim>\<open>std::to_string\<close> of the time in seconds.
\<close>

definition cmm_LogLogicToStorage ::
    "(time_ns \<Rightarrow> string) \<Rightarrow> time_ns \<Rightarrow> string \<Rightarrow> oran_cmm \<Rightarrow> 'x oran_db \<Rightarrow> 'x oran_db option" where
  "cmm_LogLogicToStorage stamp now msg c db =
     (if \<not> cm_hasRic c then None
      else if cm_verbose c
      then LogActionCmm now (cm_name c) (stamp now @ '' -- '' @ cm_name c @ '' -- '' @ msg) db
      else Some db)"

definition all_commands :: "cmd_sets \<Rightarrow> oran_command list" where
  "all_commands sets = concat (map snd sets)"

section \<open>Filters\<close>

definition cmm_noop_Filter ::
    "'x oran_db \<Rightarrow> cmd_sets \<Rightarrow> oran_cmm \<Rightarrow> (oran_command list \<times> oran_cmm \<times> string list) option" where
  "cmm_noop_Filter db inputCommands c =
     (if \<not> cm_hasRic c then None else Some (all_commands inputCommands, c, [''No action taken'']))"

definition is_pending :: "oran_command list \<Rightarrow> u64 \<Rightarrow> u16 \<Rightarrow> u16 \<Rightarrow> bool" where
  "is_pending pend n cell rnti =
     list_ex (\<lambda>p. case p of Lte2LteHandover n' cell' rnti' \<Rightarrow> n' = n \<and> cell' = cell \<and> rnti' = rnti
                  | OranCommand _ \<Rightarrow> False) pend"

fun handover_loop ::
    "oran_command list \<Rightarrow> oran_command list \<Rightarrow> oran_command list \<times> oran_command list \<times> string list" where
  "handover_loop [] pend = ([], pend, [])"
| "handover_loop (Lte2LteHandover n cell rnti # cmds) pend =
     (if \<not> is_pending pend n cell rnti then
        (let (out, pend', msgs) = handover_loop cmds (pend @ [Lte2LteHandover n cell rnti])
         in (Lte2LteHandover n cell rnti # out, pend', msgs))
      else
        (let (out, pend', msgs) = handover_loop cmds pend
         in (out, pend', (''Excluding a pending command: '' @ cmd_ToString (Lte2LteHandover n cell rnti)) # msgs)))"
| "handover_loop (OranCommand n # cmds) pend =
     (let (out, pend', msgs) = handover_loop cmds pend in (OranCommand n # out, pend', msgs))"

definition cmm_handover_Filter ::
    "'x oran_db \<Rightarrow> cmd_sets \<Rightarrow> oran_cmm \<Rightarrow> (oran_command list \<times> oran_cmm \<times> string list) option" where
  "cmm_handover_Filter db inputCommands c =
     (if \<not> cm_hasRic c then None
      else (let (out, pend, msgs) = handover_loop (all_commands inputCommands) (cm_pendingCmds c)
            in Some (out, c\<lparr>cm_pendingCmds := pend\<rparr>, msgs)))"

text \<open>The node affected by a command: for a handover the UE that is handed over.\<close>

definition affected_node :: "'x oran_db \<Rightarrow> oran_command \<Rightarrow> (u64 \<times> string) option" where
  "affected_node db command =
     (case command of
        Lte2LteHandover target cell rnti \<Rightarrow>
          Option.bind (GetLteEnbCellInfo target db) (\<lambda>(found, cellId).
          map_option (\<lambda>n. (n, ''Evaluating LTE-to-LTE Handover command affecting E2 Node '' @ decimal (unat n)))
            (GetLteUeE2NodeIdFromCellInfo cellId rnti db))
      | OranCommand target \<Rightarrow> Some (target, ''Evaluating commands affecting E2 Node '' @ decimal (unat target)))"

text \<open>The two maps of the loop: whether the selected command is of the default module, and the command.\<close>

type_synonym node_maps = "(u64 \<times> bool) list \<times> (u64 \<times> oran_command) list"

definition single_select :: "bool \<Rightarrow> u64 \<Rightarrow> oran_command \<Rightarrow> node_maps \<Rightarrow> node_maps \<times> string" where
  "single_select defaultLm n command m =
     (case m of (affectedNodes, selectedCommands) \<Rightarrow>
       (case map_of affectedNodes n of
          Some old \<Rightarrow>
            (if defaultLm \<and> \<not> old then
               ((smap_put n defaultLm affectedNodes, smap_put n command selectedCommands),
                ''There was a command for this node, but the new command was issued by the default LM, so new replaces old.'')
             else
               (m, ''There was a command for this node, and the new command has lower precedence (old default? '' @
                   decimal (if old then 1 else 0) @ ''; new default? '' @ decimal (if defaultLm then 1 else 0) @
                   ''). Ignoring new command.''))
        | None \<Rightarrow>
            ((smap_put n defaultLm affectedNodes, smap_put n command selectedCommands),
             ''There was no command for this node; Saving new command.'')))"

fun single_set ::
    "'x oran_db \<Rightarrow> bool \<Rightarrow> oran_command list \<Rightarrow> node_maps \<Rightarrow> (node_maps \<times> string list) option" where
  "single_set db defaultLm [] m = Some (m, [])"
| "single_set db defaultLm (command # commands) m =
     Option.bind (affected_node db command) (\<lambda>(n, msg).
       (let (m1, msg1) = single_select defaultLm n command m
        in map_option (\<lambda>(m2, msgs). (m2, msg # msg1 # msgs)) (single_set db defaultLm commands m1)))"

fun single_sets :: "'x oran_db \<Rightarrow> cmd_sets \<Rightarrow> node_maps \<Rightarrow> (node_maps \<times> string list) option" where
  "single_sets db [] m = Some (m, [])"
| "single_sets db (((lm, defaultLm), commands) # sets) m =
     Option.bind (single_set db defaultLm commands m) (\<lambda>(m1, msgs1).
       map_option (\<lambda>(m2, msgs2). (m2, (''Checking commands from LM '' @ lm) # msgs1 @ msgs2)) (single_sets db sets m1))"

definition cmm_single_Filter ::
    "'x oran_db \<Rightarrow> cmd_sets \<Rightarrow> oran_cmm \<Rightarrow> (oran_command list \<times> oran_cmm \<times> string list) option" where
  "cmm_single_Filter db inputCommands c =
     (if \<not> cm_hasRic c then None
      else if cm_active c then
        map_option (\<lambda>((affectedNodes, selectedCommands), msgs). (map snd selectedCommands, c, msgs))
          (single_sets db inputCommands ([], []))
      else Some (all_commands inputCommands, c, []))"

section \<open>The contract of the modules\<close>

text \<open>The repository answers the queries.\<close>

locale cmm_contract =
  fixes cinv :: "oran_cmm \<Rightarrow> bool"
    and cfilter :: "'x oran_db \<Rightarrow> cmd_sets \<Rightarrow> oran_cmm \<Rightarrow> (oran_command list \<times> oran_cmm \<times> string list) option"
  assumes filter_law: "cinv c \<Longrightarrow> db_answers db \<Longrightarrow>
    \<exists>out c' msgs. cfilter db sets c = Some (out, c', msgs) \<and> cinv c' \<and> set out \<subseteq> set (all_commands sets)"
begin

lemma filter_issued:
  "cinv c \<Longrightarrow> db_answers db \<Longrightarrow> cfilter db sets c = Some (out, c', msgs) \<Longrightarrow>
   cinv c' \<and> set out \<subseteq> set (all_commands sets)"
  using filter_law [of c db sets] by auto

end

interpretation cmm_noop: cmm_contract cm_hasRic cmm_noop_Filter
  by unfold_locales (simp add: cmm_noop_Filter_def)

subsection \<open>Handovers\<close>

lemma handover_loop_subset:
  "handover_loop cmds pend = (out, pend', msgs) \<Longrightarrow> set out \<subseteq> set cmds \<and> set pend \<subseteq> set pend'"
  by (induction cmds pend arbitrary: out pend' msgs rule: handover_loop.induct)
     (fastforce split: if_splits prod.splits)+

interpretation cmm_handover: cmm_contract cm_hasRic cmm_handover_Filter
proof
  fix c :: oran_cmm and db and sets :: cmd_sets
  assume "cm_hasRic c"
  then show "\<exists>out c' msgs. cmm_handover_Filter db sets c = Some (out, c', msgs) \<and> cm_hasRic c' \<and>
      set out \<subseteq> set (all_commands sets)"
    using handover_loop_subset by (fastforce simp: cmm_handover_Filter_def split: prod.splits)
qed

lemma is_pending_iff: "is_pending pend n c r \<longleftrightarrow> Lte2LteHandover n c r \<in> set pend"
  by (induction pend) (auto simp: is_pending_def split: oran_command.splits)

definition is_handover :: "oran_command \<Rightarrow> bool" where
  "is_handover c = (case c of Lte2LteHandover _ _ _ \<Rightarrow> True | _ \<Rightarrow> False)"

lemma is_handover_simps [simp]: "is_handover (Lte2LteHandover n c r)" "\<not> is_handover (OranCommand n)"
  by (simp_all add: is_handover_def)

text \<open>
  The handovers let through are those that were not let through before, each once; all other
  commands pass.
\<close>

lemma handover_loop_spec:
  assumes "handover_loop cmds pend = (out, pend', msgs)"
  shows "pend' = pend @ filter is_handover out \<and>
    distinct (filter is_handover out) \<and> set (filter is_handover out) = {c \<in> set cmds. is_handover c} - set pend \<and>
    filter (\<lambda>c. \<not> is_handover c) out = filter (\<lambda>c. \<not> is_handover c) cmds"
  using assms
proof (induction cmds pend arbitrary: out pend' msgs rule: handover_loop.induct)
  case (2 n cell rnti cmds pend)
  show ?case
  proof (cases "is_pending pend n cell rnti")
    case True
    with "2.prems" obtain msgs1 where "handover_loop cmds pend = (out, pend', msgs1)"
      by (auto split: prod.splits)
    from "2.IH"(2) [OF _ this] True show ?thesis
      by (auto simp: is_pending_iff)
  next
    case False
    from "2.prems" False obtain out1 msgs1 where
      1: "handover_loop cmds (pend @ [Lte2LteHandover n cell rnti]) = (out1, pend', msgs1)"
        "out = Lte2LteHandover n cell rnti # out1"
      by (auto split: prod.splits)
    from "2.IH"(1) [OF False 1(1)] have
      ih: "pend' = (pend @ [Lte2LteHandover n cell rnti]) @ filter is_handover out1" "distinct (filter is_handover out1)"
        "set (filter is_handover out1) = {c \<in> set cmds. is_handover c} - set (pend @ [Lte2LteHandover n cell rnti])"
        "filter (\<lambda>c. \<not> is_handover c) out1 = filter (\<lambda>c. \<not> is_handover c) cmds"
      by blast+
    have new: "Lte2LteHandover n cell rnti \<notin> set pend"
      using False by (simp add: is_pending_iff)
    have "Lte2LteHandover n cell rnti \<notin> set (filter is_handover out1)"
      unfolding ih(3) by simp
    moreover have "insert (Lte2LteHandover n cell rnti) (set (filter is_handover out1))
        = {c \<in> set (Lte2LteHandover n cell rnti # cmds). is_handover c} - set pend"
      unfolding ih(3) using new by auto
    ultimately show ?thesis
      using ih(1,2,4) unfolding 1(2) by (simp del: set_filter)
  qed
next
  case (3 n cmds pend)
  from "3.prems" obtain out1 where 1: "handover_loop cmds pend = (out1, pend', msgs)" "out = OranCommand n # out1"
    by (auto split: prod.splits)
  have "{c \<in> set (OranCommand n # cmds). is_handover c} = {c \<in> set cmds. is_handover c}"
    by auto
  with "3.IH" [OF 1(1)] show ?case
    unfolding 1(2) by (simp del: set_filter)
qed simp

text \<open>Successive calls, each with the repository of its time.\<close>

fun handover_calls :: "('x oran_db \<times> cmd_sets) list \<Rightarrow> oran_cmm \<Rightarrow> (oran_command list list \<times> oran_cmm) option" where
  "handover_calls [] c = Some ([], c)"
| "handover_calls ((db, sets) # ss) c =
     Option.bind (cmm_handover_Filter db sets c) (\<lambda>(out, c1, msgs).
       map_option (\<lambda>(outs, c2). (out # outs, c2)) (handover_calls ss c1))"

lemma handover_calls_spec:
  assumes "cm_hasRic c"
  shows "\<exists>outs c'. handover_calls ss c = Some (outs, c') \<and> distinct (filter is_handover (concat outs)) \<and>
    set (filter is_handover (concat outs)) = {x \<in> set (concat (map (all_commands \<circ> snd) ss)). is_handover x} - set (cm_pendingCmds c) \<and>
    map (filter (\<lambda>x. \<not> is_handover x)) outs = map (\<lambda>(db, s). filter (\<lambda>x. \<not> is_handover x) (all_commands s)) ss"
  using assms
proof (induction ss arbitrary: c)
  case (Cons x ss)
  obtain db sets where x: "x = (db, sets)"
    by (cases x)
  obtain out pend msgs where run: "handover_loop (all_commands sets) (cm_pendingCmds c) = (out, pend, msgs)"
    by (cases "handover_loop (all_commands sets) (cm_pendingCmds c)")
  note spec = handover_loop_spec [OF run]
  define c1 where "c1 = c\<lparr>cm_pendingCmds := pend\<rparr>"
  obtain outs c' where ih: "handover_calls ss c1 = Some (outs, c')" "distinct (filter is_handover (concat outs))"
    "set (filter is_handover (concat outs)) = {x \<in> set (concat (map (all_commands \<circ> snd) ss)). is_handover x} - set pend"
    "map (filter (\<lambda>x. \<not> is_handover x)) outs = map (\<lambda>(db, s). filter (\<lambda>x. \<not> is_handover x) (all_commands s)) ss"
    using Cons.IH [of c1] Cons.prems by (auto simp: c1_def simp del: set_filter)
  have f: "cmm_handover_Filter db sets c = Some (out, c1, msgs)"
    using Cons.prems run by (simp add: cmm_handover_Filter_def c1_def)
  have pend: "set pend = set (cm_pendingCmds c) \<union> set (filter is_handover out)"
    using spec by simp
  have out: "set (filter is_handover out) = {x \<in> set (all_commands sets). is_handover x} - set (cm_pendingCmds c)"
    using spec by simp
  have "set (filter is_handover out) \<inter> set (filter is_handover (concat outs)) = {}"
    unfolding ih(3) pend by blast
  moreover have "set (filter is_handover out) \<union> set (filter is_handover (concat outs)) =
      {x \<in> set (concat (map (all_commands \<circ> snd) ((db, sets) # ss))). is_handover x} - set (cm_pendingCmds c)"
    unfolding ih(3) pend out by auto
  ultimately show ?case
    using spec ih(1,2,4) f unfolding x by (intro exI [of _ "out # outs"] exI [of _ c']) (simp add: Int_commute del: set_filter)
qed simp

subsection \<open>A single command per node\<close>

lemma db_answers_queries:
  assumes "db_answers db"
  shows "\<exists>x. GetLteEnbCellInfo n db = Some x" "\<exists>x. GetLteUeE2NodeIdFromCellInfo c r db = Some x"
  using assms by (auto simp: db_answers_def GetLteEnbCellInfo_def query_if_registered_def IsNodeRegistered_def
      GetLteUeE2NodeIdFromCellInfo_def)

lemma affected_node_total: "db_answers db \<Longrightarrow> \<exists>n msg. affected_node db c = Some (n, msg)"
proof (cases c)
  case (Lte2LteHandover t cell rnti)
  assume db: "db_answers db"
  obtain f cid where "GetLteEnbCellInfo t db = Some (f, cid)"
    using db_answers_queries(1) [OF db, of t] by auto
  then show ?thesis
    using db_answers_queries(2) [OF db, of cid rnti] by (auto simp: affected_node_def Lte2LteHandover)
qed (simp add: affected_node_def)

definition affects :: "'x oran_db \<Rightarrow> oran_command \<Rightarrow> u64" where
  "affects db c = fst (the (affected_node db c))"

text \<open>All commands with the flag of the default module, in the order of the loop.\<close>

definition flagged :: "cmd_sets \<Rightarrow> (bool \<times> oran_command) list" where
  "flagged sets = concat (map (\<lambda>((lm, d), cs). map (Pair d) cs) sets)"

lemma flagged_simps [simp]:
  "flagged [] = []" "flagged (((lm, d), cs) # sets) = map (Pair d) cs @ flagged sets"
  by (simp_all add: flagged_def)

lemma flagged_all_commands: "snd ` set (flagged sets) = set (all_commands sets)"
  by (force simp: flagged_def all_commands_def)

definition select_step :: "'x oran_db \<Rightarrow> bool \<times> oran_command \<Rightarrow> node_maps \<Rightarrow> node_maps" where
  "select_step db e m = fst (single_select (fst e) (affects db (snd e)) (snd e) m)"

lemma single_set_fold:
  assumes "db_answers db"
  shows "\<exists>msgs. single_set db d cs m = Some (fold (select_step db) (map (Pair d) cs) m, msgs)"
proof (induction cs arbitrary: m)
  case (Cons c cs)
  obtain n msg where "affected_node db c = Some (n, msg)"
    using affected_node_total [OF assms] by blast
  moreover from this have "select_step db (d, c) m = fst (single_select d n c m)"
    by (simp add: select_step_def affects_def)
  ultimately show ?case
    using Cons [of "select_step db (d, c) m"] by (auto simp: case_prod_beta Let_def) (metis surj_pair)
qed simp

lemma single_sets_fold:
  assumes "db_answers db"
  shows "\<exists>msgs. single_sets db sets m = Some (fold (select_step db) (flagged sets) m, msgs)"
proof (induction sets arbitrary: m)
  case (Cons x sets)
  obtain lm d cs where x: "x = ((lm, d), cs)"
    by (metis prod.exhaust)
  obtain msgs where "single_set db d cs m = Some (fold (select_step db) (map (Pair d) cs) m, msgs)"
    using single_set_fold [OF assms] by blast
  with Cons [of "fold (select_step db) (map (Pair d) cs) m"] show ?case
    by (auto simp: x case_prod_beta) (metis surj_pair)
qed simp

text \<open>
  The command chosen for a node: the first one of the default module, or else the first one.
\<close>

definition chosen :: "'x oran_db \<Rightarrow> (bool \<times> oran_command) list \<Rightarrow> u64 \<Rightarrow> oran_command option" where
  "chosen db es n =
     (case filter (\<lambda>e. fst e \<and> affects db (snd e) = n) es @ filter (\<lambda>e. affects db (snd e) = n) es of
        [] \<Rightarrow> None
      | e # _ \<Rightarrow> Some (snd e))"

lemma chosen_Some: "chosen db es n = Some c \<Longrightarrow> c \<in> snd ` set es \<and> affects db c = n"
  by (auto simp: chosen_def filter_eq_Cons_iff append_eq_Cons_conv split: list.splits)

definition select_inv :: "'x oran_db \<Rightarrow> (bool \<times> oran_command) list \<Rightarrow> node_maps \<Rightarrow> bool" where
  "select_inv db es m \<longleftrightarrow> smap_wf (fst m) \<and> smap_wf (snd m) \<and>
     (\<forall>n. map_of (fst m) n = (if \<exists>e\<in>set es. affects db (snd e) = n
                             then Some (\<exists>e\<in>set es. fst e \<and> affects db (snd e) = n) else None)) \<and>
     (\<forall>n. map_of (snd m) n = chosen db es n)"

lemma chosen_snoc:
  "chosen db (es @ [(d, c)]) n =
     (if affects db c \<noteq> n then chosen db es n
      else if d \<and> \<not> (\<exists>e\<in>set es. fst e \<and> affects db (snd e) = n) then Some c
      else if \<exists>e\<in>set es. affects db (snd e) = n then chosen db es n else Some c)"
proof -
  have no: "filter P es = [] \<longleftrightarrow> \<not> (\<exists>e\<in>set es. P e)" for P :: "bool \<times> oran_command \<Rightarrow> bool"
    by (auto simp: filter_empty_conv)
  show ?thesis
    by (cases "filter (\<lambda>e. fst e \<and> affects db (snd e) = n) es"; cases "filter (\<lambda>e. affects db (snd e) = n) es")
       (insert no [of "\<lambda>e. fst e \<and> affects db (snd e) = n"] no [of "\<lambda>e. affects db (snd e) = n"],
        auto simp: chosen_def)
qed

lemma select_inv_fold: "select_inv db es (fold (select_step db) es ([], []))"
proof (induction es rule: rev_induct)
  case Nil
  show ?case
    by (simp add: select_inv_def chosen_def)
next
  case (snoc e es)
  obtain d c where e: "e = (d, c)"
    by (cases e)
  obtain af se where m: "fold (select_step db) es ([], []) = (af, se)"
    by (metis prod.exhaust)
  let ?k = "affects db c"
  have inv: "smap_wf af" "smap_wf se"
    "\<And>n. map_of af n = (if \<exists>e\<in>set es. affects db (snd e) = n
      then Some (\<exists>e\<in>set es. fst e \<and> affects db (snd e) = n) else None)" "\<And>n. map_of se n = chosen db es n"
    using snoc m by (simp_all add: select_inv_def)
  show ?case
  proof (cases "map_of af ?k")
    case None
    then have "\<not> (\<exists>e\<in>set es. affects db (snd e) = ?k)"
      using inv(3) [of ?k] by (auto split: if_splits)
    moreover from None have "fold (select_step db) (es @ [e]) ([], []) = (smap_put ?k d af, smap_put ?k c se)"
      by (simp add: m e select_step_def single_select_def)
    ultimately show ?thesis
      using inv by (auto simp: e select_inv_def chosen_snoc)
  next
    case (Some old)
    then have ex: "\<exists>e\<in>set es. affects db (snd e) = ?k" "old = (\<exists>e\<in>set es. fst e \<and> affects db (snd e) = ?k)"
      using inv(3) [of ?k] by (simp_all split: if_splits)
    from Some have "fold (select_step db) (es @ [e]) ([], []) =
        (if d \<and> \<not> old then (smap_put ?k d af, smap_put ?k c se) else (af, se))"
      by (simp add: m e select_step_def single_select_def)
    then show ?thesis
      using inv ex Some by (auto simp: e select_inv_def chosen_snoc)
  qed
qed

lemma single_filter_spec:
  assumes "db_answers db" "cm_hasRic c" "cm_active c"
  shows "\<exists>out msgs. cmm_single_Filter db sets c = Some (out, c, msgs) \<and>
    sorted_wrt (<) (map (affects db) out) \<and>
    (\<forall>x. x \<in> set out \<longleftrightarrow> chosen db (flagged sets) (affects db x) = Some x)"
proof -
  obtain msgs where run: "single_sets db sets ([], []) = Some (fold (select_step db) (flagged sets) ([], []), msgs)"
    using single_sets_fold [OF assms(1)] by blast
  obtain af se where m: "fold (select_step db) (flagged sets) ([], []) = (af, se)"
    by (metis prod.exhaust)
  have inv: "smap_wf se" "\<And>n. map_of se n = chosen db (flagged sets) n"
    using select_inv_fold [of db "flagged sets"] by (simp_all add: m select_inv_def)
  then have dist: "distinct (map fst se)"
    using strict_sorted_iff by (auto simp: smap_wf_def)
  have aff: "affects db (snd x) = fst x" if "x \<in> set se" for x
    using that map_of_is_SomeI [OF dist, of "fst x" "snd x"] chosen_Some [of db "flagged sets" "fst x" "snd x"]
      inv(2) [of "fst x"] by simp
  have "map (affects db) (map snd se) = map fst se"
    using aff by simp
  then have "sorted_wrt (<) (map (affects db) (map snd se))"
    using inv(1) by (simp only: smap_wf_def)
  moreover have "x \<in> set (map snd se) \<longleftrightarrow> chosen db (flagged sets) (affects db x) = Some x" for x
  proof
    assume "x \<in> set (map snd se)"
    then obtain n where "(n, x) \<in> set se"
      by auto
    with aff [OF this] map_of_is_SomeI [OF dist this] show "chosen db (flagged sets) (affects db x) = Some x"
      by (simp add: inv(2))
  next
    assume "chosen db (flagged sets) (affects db x) = Some x"
    then show "x \<in> set (map snd se)"
      using map_of_SomeD [of se "affects db x" x] by (force simp: inv(2))
  qed
  ultimately show ?thesis
    using assms run m by (simp add: cmm_single_Filter_def del: map_map)
qed

interpretation cmm_single: cmm_contract cm_hasRic cmm_single_Filter
proof
  fix c :: oran_cmm and db and sets :: cmd_sets
  assume c: "cm_hasRic c" and db: "db_answers db"
  show "\<exists>out c' msgs. cmm_single_Filter db sets c = Some (out, c', msgs) \<and> cm_hasRic c' \<and>
      set out \<subseteq> set (all_commands sets)"
  proof (cases "cm_active c")
    case True
    from single_filter_spec [OF db c True, of sets] show ?thesis
      using chosen_Some [of db "flagged sets"] c flagged_all_commands [of sets] by (fastforce simp: subset_iff)
  qed (use c in \<open>simp add: cmm_single_Filter_def\<close>)
qed

end
