(* ===== verification/OranRic.thy ===== *)
theory OranRic
  imports OranCmm
begin

text \<open>
  The Near-RT RIC (\<^verbatim>\<open>contrib/oran/model/oran-near-rt-ric.cc\<close>) with its E2 terminator
  (\<^verbatim>\<open>oran-near-rt-ric-e2terminator.cc\<close>): the control loop that queries the logic modules, collects
  their commands, filters them through the conflict mitigation module and sends them to the nodes.

  Logic modules are objects with an identity, the argument of \<open>ric_lm\<close>; a node terminator is a number.
  Null pointers are \<open>None\<close>. A call that is scheduled with a random delay towards a node is an action of
  the result; the node named \<open>None\<close> is the null pointer that \<^verbatim>\<open>m_nodeTerminators[id]\<close> makes up for an
  unknown id. The pending events of the RIC are members: an event whose handle is overwritten while it
  is pending goes to \<open>ric_lostProcess\<close>.
\<close>

section \<open>Reports\<close>

datatype 'x oran_report =
    ReportLocation (report_node: u64) (report_time: time_ns) "'x vector"
  | ReportLteCellLoad (report_node: u64) (report_time: time_ns) 'x
  | ReportLteUeCellInfo (report_node: u64) (report_time: time_ns) u16 u16
  | ReportAppLoss (report_node: u64) (report_time: time_ns) 'x
  | OtherReport (report_node: u64) (report_time: time_ns)

section \<open>The state\<close>

datatype LateCommandPolicy = DROP | SAVE

datatype AddLmResult = ADDLM_OK | ADDLM_ERR_NAME_EXISTS

datatype RemoveLmResult = DELLM_OK | DELLM_ERR_NAME_INVALID

datatype ric_action =
    RegistrationResponse nat u64
  | DeregistrationResponse "nat option" u64
  | DeliverCommand "nat option" oran_command

record e2_terminator =
  et_active :: bool
  et_nodeTerminators :: "(u64 \<times> nat option) list"

record 'x oran_ric =
  ric_e2Terminator :: "e2_terminator option"
  ric_data :: "'x oran_db option"
  ric_defaultLm :: "nat option"
  ric_additionalLms :: "(string \<times> nat) list"
  ric_cmm :: "oran_cmm option"
  ric_lm :: "nat \<Rightarrow> oran_lm"
  ric_active :: bool
  ric_lmQueryInterval :: time_ns
  ric_lmQueryEvent :: "time_ns option"
  ric_e2NodeInactivityEvent :: bool
  ric_e2NodeInactivityThreshold :: time_ns
  ric_lmQueryCycle :: time_ns
  ric_lmQueryMaxWaitTime :: time_ns
  ric_processLmQueryCommandsEvent :: "time_ns option"
  ric_lostProcess :: "time_ns list"
  ric_lmQueryLateCommandPolicy :: LateCommandPolicy
  ric_lmQueryCommands :: cmd_sets
  ric_queryTriggers :: "(string \<times> ('x oran_report \<Rightarrow> bool)) list"

text \<open>
  The virtual functions \<^verbatim>\<open>Filter\<close> of the conflict mitigation module and \<^verbatim>\<open>Run\<close> of the logic modules,
  the text of a time, and the parameters of the repository.
\<close>

record 'x ric_env =
  re_filter :: "'x oran_db \<Rightarrow> cmd_sets \<Rightarrow> oran_cmm \<Rightarrow> (oran_command list \<times> oran_cmm \<times> string list) option"
  re_logic :: "nat \<Rightarrow> time_ns \<Rightarrow> oran_lm \<Rightarrow> 'x oran_db \<Rightarrow> (oran_command list \<times> 'x oran_db) option"
  re_stamp :: "time_ns \<Rightarrow> string"
  re_tie :: "bool list \<Rightarrow> bool"
  re_open :: bool

definition ric_init :: "'x oran_ric" where
  "ric_init = \<lparr>ric_e2Terminator = None, ric_data = None, ric_defaultLm = None, ric_additionalLms = [],
     ric_cmm = None, ric_lm = (\<lambda>_. lm_init []), ric_active = False, ric_lmQueryInterval = 5000000000,
     ric_lmQueryEvent = None, ric_e2NodeInactivityEvent = False, ric_e2NodeInactivityThreshold = 5000000000,
     ric_lmQueryCycle = 0, ric_lmQueryMaxWaitTime = 0, ric_processLmQueryCommandsEvent = None,
     ric_lostProcess = [], ric_lmQueryLateCommandPolicy = DROP, ric_lmQueryCommands = [], ric_queryTriggers = []\<rparr>"

section \<open>The E2 terminator of the RIC\<close>

definition et_Activate :: "e2_terminator \<Rightarrow> e2_terminator" where
  "et_Activate et = et\<lparr>et_active := True\<rparr>"

definition et_Deactivate :: "e2_terminator \<Rightarrow> e2_terminator" where
  "et_Deactivate et = et\<lparr>et_active := False\<rparr>"

text \<open>\<^verbatim>\<open>m_nodeTerminators[id]\<close>, which inserts a null pointer for an unknown id.\<close>

definition et_lookup :: "u64 \<Rightarrow> e2_terminator \<Rightarrow> nat option \<times> e2_terminator" where
  "et_lookup n et =
     (case map_of (et_nodeTerminators et) n of
        Some t \<Rightarrow> (t, et)
      | None \<Rightarrow> (None, et\<lparr>et_nodeTerminators := smap_put n None (et_nodeTerminators et)\<rparr>))"

definition et_ReceiveRegistrationRequest ::
    "time_ns \<Rightarrow> NodeType \<Rightarrow> u64 \<Rightarrow> u64 \<Rightarrow> u16 \<Rightarrow> nat \<Rightarrow> e2_terminator \<Rightarrow> 'x oran_db \<Rightarrow>
     (e2_terminator \<times> 'x oran_db \<times> ric_action list) option" where
  "et_ReceiveRegistrationRequest now ty i imsi cellId term et db =
     (if et_active et then
        map_option (\<lambda>(e2NodeId, db').
            (et\<lparr>et_nodeTerminators := smap_put e2NodeId (Some term) (et_nodeTerminators et)\<rparr>, db',
             [RegistrationResponse term e2NodeId]))
          (case ty of
             LTEUE \<Rightarrow> RegisterNodeLteUe now i imsi db
           | LTEENB \<Rightarrow> RegisterNodeLteEnb now i cellId db
           | WIRED \<Rightarrow> RegisterNode now ty i db)
      else Some (et, db, []))"

definition et_ReceiveDeregistrationRequest ::
    "time_ns \<Rightarrow> u64 \<Rightarrow> e2_terminator \<Rightarrow> 'x oran_db \<Rightarrow> (e2_terminator \<times> 'x oran_db \<times> ric_action list) option" where
  "et_ReceiveDeregistrationRequest now e2NodeId et db =
     (if et_active et then
        map_option (\<lambda>(deregistered, db').
            (let (term, et') = et_lookup e2NodeId et in (et', db', [DeregistrationResponse term deregistered])))
          (DeregisterNode now e2NodeId db)
      else Some (et, db, []))"

definition et_SendCommand ::
    "time_ns \<Rightarrow> oran_command \<Rightarrow> e2_terminator \<Rightarrow> 'x oran_db \<Rightarrow> (e2_terminator \<times> 'x oran_db \<times> ric_action list) option" where
  "et_SendCommand now cmd et db =
     (if et_active et then
        map_option (\<lambda>db'. (let (term, et') = et_lookup (cmd_target cmd) et in (et', db', [DeliverCommand term cmd])))
          (LogCommandE2Terminator now cmd db)
      else Some (et, db, []))"

fun et_send_all ::
    "time_ns \<Rightarrow> oran_command list \<Rightarrow> e2_terminator \<Rightarrow> 'x oran_db \<Rightarrow> (e2_terminator \<times> 'x oran_db \<times> ric_action list) option" where
  "et_send_all now [] et db = Some (et, db, [])"
| "et_send_all now (cmd # cmds) et db =
     Option.bind (et_SendCommand now cmd et db) (\<lambda>(et1, db1, as1).
       map_option (\<lambda>(et2, db2, as2). (et2, db2, as1 @ as2)) (et_send_all now cmds et1 db1))"

definition et_ProcessCommands ::
    "time_ns \<Rightarrow> oran_command list \<Rightarrow> e2_terminator \<Rightarrow> 'x oran_db \<Rightarrow> (e2_terminator \<times> 'x oran_db \<times> ric_action list) option" where
  "et_ProcessCommands now commands et db =
     (if et_active et then et_send_all now commands et db else Some (et, db, []))"

definition save_report :: "'x oran_report \<Rightarrow> 'x oran_db \<Rightarrow> 'x oran_db option" where
  "save_report report db =
     (case report of
        ReportLocation n t pos \<Rightarrow> SavePosition n pos t db
      | ReportLteCellLoad n t load \<Rightarrow> SaveLteCellLoad n load t db
      | ReportLteUeCellInfo n t cellId rnti \<Rightarrow> SaveLteUeCellInfo n cellId rnti t db
      | ReportAppLoss n t loss \<Rightarrow> SaveAppLoss n loss t db
      | OtherReport n t \<Rightarrow> Some db)"

definition et_DoDispose :: "e2_terminator \<Rightarrow> e2_terminator" where
  "et_DoDispose et = et\<lparr>et_nodeTerminators := []\<rparr>"

section \<open>Activation\<close>

definition ric_complete :: "'x oran_ric \<Rightarrow> bool" where
  "ric_complete r \<longleftrightarrow> ric_e2Terminator r \<noteq> None \<and> ric_defaultLm r \<noteq> None \<and> ric_cmm r \<noteq> None \<and> ric_data r \<noteq> None"

text \<open>The default module and the additional ones, in the order in which they are called.\<close>

definition ric_lms :: "'x oran_ric \<Rightarrow> nat list" where
  "ric_lms r = the (ric_defaultLm r) # map snd (ric_additionalLms r)"

fun lms_Activate :: "nat list \<Rightarrow> (nat \<Rightarrow> oran_lm) \<Rightarrow> (nat \<Rightarrow> oran_lm) option" where
  "lms_Activate [] lm = Some lm"
| "lms_Activate (i # is) lm = Option.bind (lm_Activate (lm i)) (\<lambda>l. lms_Activate is (lm(i := l)))"

fun lms_Deactivate ::
    "(time_ns \<Rightarrow> string) \<Rightarrow> time_ns \<Rightarrow> nat list \<Rightarrow> (nat \<Rightarrow> oran_lm) \<Rightarrow> 'x oran_db \<Rightarrow> ((nat \<Rightarrow> oran_lm) \<times> 'x oran_db) option" where
  "lms_Deactivate stamp now [] lm db = Some (lm, db)"
| "lms_Deactivate stamp now (i # is) lm db =
     Option.bind (lm_Deactivate stamp now (lm i) db) (\<lambda>(l, db1). lms_Deactivate stamp now is (lm(i := l)) db1)"

definition ric_Activate :: "'x ric_env \<Rightarrow> 'x oran_ric \<Rightarrow> 'x oran_ric option" where
  "ric_Activate env r =
     (if \<not> ric_complete r then None
      else if ric_active r then Some r
      else
        Option.bind (db_Activate (re_open env) (the (ric_data r))) (\<lambda>db.
        Option.bind (lms_Activate (ric_lms r) (ric_lm r)) (\<lambda>lm.
        map_option (\<lambda>cmm. r\<lparr>ric_active := True,
            ric_e2Terminator := Some (et_Activate (the (ric_e2Terminator r))), ric_data := Some db,
            ric_lm := lm, ric_cmm := Some cmm\<rparr>)
          (cmm_Activate (the (ric_cmm r))))))"

text \<open>The repository is closed before the modules are deactivated.\<close>

definition ric_Deactivate :: "'x ric_env \<Rightarrow> time_ns \<Rightarrow> 'x oran_ric \<Rightarrow> 'x oran_ric option" where
  "ric_Deactivate env now r =
     (if \<not> ric_active r then Some r
      else if \<not> ric_complete r then None
      else
        map_option (\<lambda>(lm, db). r\<lparr>ric_active := False,
            ric_e2Terminator := Some (et_Deactivate (the (ric_e2Terminator r))), ric_data := Some db,
            ric_lm := lm, ric_cmm := Some (cmm_Deactivate (the (ric_cmm r)))\<rparr>)
          (lms_Deactivate (re_stamp env) now (ric_lms r) (ric_lm r) (db_Deactivate (the (ric_data r)))))"

definition ric_Start :: "'x ric_env \<Rightarrow> time_ns \<Rightarrow> 'x oran_ric \<Rightarrow> 'x oran_ric option" where
  "ric_Start env now r =
     Option.bind (ric_Activate env r) (\<lambda>r1.
       if ric_lmQueryEvent r1 \<noteq> None \<or> ric_e2NodeInactivityEvent r1 then None
       else Some (r1\<lparr>ric_lmQueryEvent := Some (now + ric_lmQueryInterval r1), ric_e2NodeInactivityEvent := True\<rparr>))"

definition ric_Stop :: "'x ric_env \<Rightarrow> time_ns \<Rightarrow> 'x oran_ric \<Rightarrow> 'x oran_ric option" where
  "ric_Stop env now r =
     map_option (\<lambda>r1. r1\<lparr>ric_lmQueryEvent := None, ric_e2NodeInactivityEvent := False,
         ric_processLmQueryCommandsEvent := None\<rparr>)
       (ric_Deactivate env now r)"

section \<open>Modules and triggers\<close>

definition ric_SetDefaultLogicModule :: "nat option \<Rightarrow> 'x oran_ric \<Rightarrow> 'x oran_ric option" where
  "ric_SetDefaultLogicModule newLm r = (if newLm = None then None else Some (r\<lparr>ric_defaultLm := newLm\<rparr>))"

definition ric_GetAdditionalLogicModule :: "string \<Rightarrow> 'x oran_ric \<Rightarrow> nat option" where
  "ric_GetAdditionalLogicModule name r = map_of (ric_additionalLms r) name"

definition ric_AddLogicModule :: "nat \<Rightarrow> 'x oran_ric \<Rightarrow> AddLmResult \<times> 'x oran_ric" where
  "ric_AddLogicModule i r =
     (let name = lm_name (ric_lm r i) in
      if \<not> smap_has (ric_additionalLms r) name
      then (ADDLM_OK, r\<lparr>ric_additionalLms := smap_put name i (ric_additionalLms r)\<rparr>)
      else (ADDLM_ERR_NAME_EXISTS, r))"

definition ric_RemoveLogicModule :: "string \<Rightarrow> 'x oran_ric \<Rightarrow> RemoveLmResult \<times> 'x oran_ric" where
  "ric_RemoveLogicModule name r =
     (if smap_has (ric_additionalLms r) name
      then (DELLM_OK, r\<lparr>ric_additionalLms := smap_erase name (ric_additionalLms r)\<rparr>)
      else (DELLM_ERR_NAME_INVALID, r))"

definition ric_AddQueryTrigger :: "string \<Rightarrow> ('x oran_report \<Rightarrow> bool) \<Rightarrow> 'x oran_ric \<Rightarrow> bool \<times> 'x oran_ric" where
  "ric_AddQueryTrigger name trigger r =
     (if \<not> smap_has (ric_queryTriggers r) name
      then (True, r\<lparr>ric_queryTriggers := smap_put name trigger (ric_queryTriggers r)\<rparr>)
      else (False, r))"

definition ric_RemoveQueryTrigger :: "string \<Rightarrow> 'x oran_ric \<Rightarrow> bool \<times> 'x oran_ric" where
  "ric_RemoveQueryTrigger name r =
     (if smap_has (ric_queryTriggers r) name
      then (True, r\<lparr>ric_queryTriggers := smap_erase name (ric_queryTriggers r)\<rparr>)
      else (False, r))"

definition ric_SetCmm :: "oran_cmm option \<Rightarrow> 'x oran_ric \<Rightarrow> 'x oran_ric option" where
  "ric_SetCmm newCmm r = (if newCmm = None then None else Some (r\<lparr>ric_cmm := newCmm\<rparr>))"

definition ric_DoDispose :: "'x oran_ric \<Rightarrow> 'x oran_ric" where
  "ric_DoDispose r = r\<lparr>ric_e2Terminator := None, ric_data := None, ric_defaultLm := None, ric_additionalLms := [],
     ric_lmQueryEvent := None, ric_e2NodeInactivityEvent := False, ric_processLmQueryCommandsEvent := None,
     ric_cmm := None, ric_lmQueryCommands := []\<rparr>"

section \<open>The control loop\<close>

fun cmm_log_all ::
    "(time_ns \<Rightarrow> string) \<Rightarrow> time_ns \<Rightarrow> string list \<Rightarrow> oran_cmm \<Rightarrow> 'x oran_db \<Rightarrow> 'x oran_db option" where
  "cmm_log_all stamp now [] c db = Some db"
| "cmm_log_all stamp now (msg # msgs) c db =
     Option.bind (cmm_LogLogicToStorage stamp now msg c db) (cmm_log_all stamp now msgs c)"

definition ric_ProcessLmQueryCommands ::
    "'x ric_env \<Rightarrow> time_ns \<Rightarrow> 'x oran_ric \<Rightarrow> ('x oran_ric \<times> ric_action list) option" where
  "ric_ProcessLmQueryCommands env now r =
     (if \<not> ric_active r then Some (r, [])
      else if ric_e2Terminator r = None \<or> ric_cmm r = None \<or> ric_data r = None then None
      else
        (let r1 = r\<lparr>ric_processLmQueryCommandsEvent := None\<rparr> in
         Option.bind (re_filter env (the (ric_data r1)) (ric_lmQueryCommands r1) (the (ric_cmm r1))) (\<lambda>(commands, cmm, msgs).
         Option.bind (cmm_log_all (re_stamp env) now msgs cmm (the (ric_data r1))) (\<lambda>db.
         map_option (\<lambda>(et, db', as).
             (r1\<lparr>ric_cmm := Some cmm, ric_e2Terminator := Some et, ric_data := Some db', ric_lmQueryCommands := []\<rparr>, as))
           (et_ProcessCommands now commands (the (ric_e2Terminator r1)) db)))))"

definition ric_NotifyLmFinished ::
    "'x ric_env \<Rightarrow> time_ns \<Rightarrow> time_ns \<Rightarrow> oran_command list \<Rightarrow> nat \<Rightarrow> 'x oran_ric \<Rightarrow>
     ('x oran_ric \<times> ric_action list) option" where
  "ric_NotifyLmFinished env now cycle commands i r =
     (let key = (lm_name (ric_lm r i), Some i = ric_defaultLm r);
          m = ric_lmQueryCommands r;
          m1 = (if smap_has m key then smap_put key [] m else m);
          add = (\<lambda>m. smap_put key ((case map_of m key of Some cs \<Rightarrow> cs | None \<Rightarrow> []) @ commands) m);
          onTime = (ric_processLmQueryCommandsEvent r \<noteq> None \<or> ric_lmQueryMaxWaitTime r = 0)
      in if cycle \<noteq> ric_lmQueryCycle r then None
         else
           (let m2 = (if onTime then add m1
                      else (case ric_lmQueryLateCommandPolicy r of DROP \<Rightarrow> m1 | SAVE \<Rightarrow> add m1));
                r1 = r\<lparr>ric_lmQueryCommands := m2\<rparr>
            in if length m2 = length (ric_additionalLms r) + 1 \<and> onTime
               then ric_ProcessLmQueryCommands env now r1 else Some (r1, [])))"

text \<open>\<^verbatim>\<open>OranLm::FinishRun\<close>, the event of module i.\<close>

definition ric_FinishRun ::
    "'x ric_env \<Rightarrow> time_ns \<Rightarrow> nat \<Rightarrow> 'x oran_ric \<Rightarrow> ('x oran_ric \<times> ric_action list) option" where
  "ric_FinishRun env now i r =
     (let lm = (ric_lm r i)\<lparr>lm_finishRunEvent := False\<rparr>; r1 = r\<lparr>ric_lm := (ric_lm r)(i := lm)\<rparr> in
      if lm_active lm then
        (if \<not> lm_hasRic lm then None
         else map_option (\<lambda>(r2, as). (r2\<lparr>ric_lm := (ric_lm r2)(i := (ric_lm r2 i)\<lparr>lm_commands := []\<rparr>)\<rparr>, as))
                (ric_NotifyLmFinished env now (lm_cycle lm) (lm_commands lm) i r1))
      else Some (r1, []))"

fun deregister_inactive ::
    "time_ns \<Rightarrow> time_ns \<Rightarrow> (u64 \<times> time_ns) list \<Rightarrow> e2_terminator \<Rightarrow> 'x oran_db \<Rightarrow>
     (e2_terminator \<times> 'x oran_db \<times> ric_action list) option" where
  "deregister_inactive now threshold [] et db = Some (et, db, [])"
| "deregister_inactive now threshold ((n, t) # regs) et db =
     Option.bind (if now - t > threshold then et_ReceiveDeregistrationRequest now n et db else Some (et, db, []))
       (\<lambda>(et1, db1, as1). map_option (\<lambda>(et2, db2, as2). (et2, db2, as1 @ as2))
          (deregister_inactive now threshold regs et1 db1))"

definition ric_CheckForInactivity ::
    "'x ric_env \<Rightarrow> time_ns \<Rightarrow> 'x oran_ric \<Rightarrow> ('x oran_ric \<times> ric_action list) option" where
  "ric_CheckForInactivity env now r =
     (if \<not> ric_active r then Some (r, [])
      else
        (case (ric_data r, ric_e2Terminator r) of
           (Some db, Some et) \<Rightarrow>
             Option.bind (GetLastRegistrationRequests (re_tie env) db) (\<lambda>regs.
             map_option (\<lambda>(et', db', as).
                 (r\<lparr>ric_e2Terminator := Some et', ric_data := Some db', ric_e2NodeInactivityEvent := True\<rparr>, as))
               (deregister_inactive now (ric_e2NodeInactivityThreshold r) regs et db))
         | _ \<Rightarrow> None))"

text \<open>A module that still runs is cancelled and all are run for the new cycle.\<close>

fun lms_query ::
    "'x ric_env \<Rightarrow> time_ns \<Rightarrow> nat list \<Rightarrow> (nat \<Rightarrow> oran_lm) \<Rightarrow> 'x oran_db \<Rightarrow> ((nat \<Rightarrow> oran_lm) \<times> 'x oran_db) option" where
  "lms_query env now [] lm db = Some (lm, db)"
| "lms_query env now (i # is) lm db =
     Option.bind (if lm_IsRunning (lm i) then lm_CancelRun (re_stamp env) now (lm i) db else Some (lm i, db)) (\<lambda>(l1, db1).
     Option.bind (lm_Run (re_logic env i now) now l1 db1) (\<lambda>(l2, db2).
     lms_query env now is (lm(i := l2)) db2))"

definition ric_QueryLms ::
    "'x ric_env \<Rightarrow> time_ns \<Rightarrow> 'x oran_ric \<Rightarrow> ('x oran_ric \<times> ric_action list) option" where
  "ric_QueryLms env now r =
     (if \<not> ric_active r then Some (r, [])
      else if \<not> ric_complete r then None
      else
        Option.bind (ric_CheckForInactivity env now (r\<lparr>ric_lmQueryCycle := now\<rparr>)) (\<lambda>(r1, as).
          (let r2 = (if ric_lmQueryMaxWaitTime r1 > 0
                     then r1\<lparr>ric_processLmQueryCommandsEvent := Some (now + ric_lmQueryMaxWaitTime r1),
                             ric_lostProcess := ric_lostProcess r1 @
                               (case ric_processLmQueryCommandsEvent r1 of Some t \<Rightarrow> [t] | None \<Rightarrow> [])\<rparr>
                     else r1)
           in map_option (\<lambda>(lm, db).
                  (r2\<lparr>ric_lm := lm, ric_data := Some db, ric_lmQueryEvent := Some (now + ric_lmQueryInterval r2)\<rparr>, as))
                (lms_query env now (ric_lms r2) (ric_lm r2) (the (ric_data r2))))))"

definition ric_NotifyReportReceived ::
    "'x ric_env \<Rightarrow> time_ns \<Rightarrow> 'x oran_report \<Rightarrow> 'x oran_ric \<Rightarrow> ('x oran_ric \<times> ric_action list) option" where
  "ric_NotifyReportReceived env now report r =
     (if list_ex (\<lambda>(name, trigger). trigger report) (ric_queryTriggers r)
      then ric_QueryLms env now (r\<lparr>ric_lmQueryEvent := None\<rparr>)
      else Some (r, []))"

definition ric_ReceiveReport ::
    "'x ric_env \<Rightarrow> time_ns \<Rightarrow> 'x oran_report \<Rightarrow> 'x oran_ric \<Rightarrow> ('x oran_ric \<times> ric_action list) option" where
  "ric_ReceiveReport env now report r =
     (case ric_e2Terminator r of
        None \<Rightarrow> None
      | Some et \<Rightarrow>
          if et_active et then
            (case ric_data r of
               None \<Rightarrow> None
             | Some db \<Rightarrow>
                 Option.bind (save_report report db) (\<lambda>db'.
                   ric_NotifyReportReceived env now report (r\<lparr>ric_data := Some db'\<rparr>)))
          else Some (r, []))"

section \<open>Events\<close>

text \<open>
  The events that the simulator runs in the RIC: its timers, the end of the run of a module, and the
  messages that arrive from the nodes. The handle of an event is not pending in its own handler. An
  event that is not pending does nothing.
\<close>

datatype 'x ric_event =
    EvQueryLms
  | EvInactivity
  | EvProcess
  | EvLostProcess
  | EvFinishRun nat
  | EvRegistration NodeType u64 u64 u16 nat
  | EvDeregistration u64
  | EvReport "'x oran_report"

fun ric_handle ::
    "'x ric_env \<Rightarrow> time_ns \<Rightarrow> 'x ric_event \<Rightarrow> 'x oran_ric \<Rightarrow> ('x oran_ric \<times> ric_action list) option" where
  "ric_handle env now EvQueryLms r =
     (if ric_lmQueryEvent r = None then Some (r, []) else ric_QueryLms env now (r\<lparr>ric_lmQueryEvent := None\<rparr>))"
| "ric_handle env now EvInactivity r =
     (if \<not> ric_e2NodeInactivityEvent r then Some (r, [])
      else ric_CheckForInactivity env now (r\<lparr>ric_e2NodeInactivityEvent := False\<rparr>))"
| "ric_handle env now EvProcess r =
     (if ric_processLmQueryCommandsEvent r = None then Some (r, [])
      else ric_ProcessLmQueryCommands env now (r\<lparr>ric_processLmQueryCommandsEvent := None\<rparr>))"
| "ric_handle env now EvLostProcess r =
     (case ric_lostProcess r of
        [] \<Rightarrow> Some (r, [])
      | t # ts \<Rightarrow> ric_ProcessLmQueryCommands env now (r\<lparr>ric_lostProcess := ts\<rparr>))"
| "ric_handle env now (EvFinishRun i) r =
     (if \<not> lm_finishRunEvent (ric_lm r i) then Some (r, []) else ric_FinishRun env now i r)"
| "ric_handle env now (EvRegistration ty i imsi cellId term) r =
     (case (ric_e2Terminator r, ric_data r) of
        (Some et, Some db) \<Rightarrow>
          map_option (\<lambda>(et', db', as). (r\<lparr>ric_e2Terminator := Some et', ric_data := Some db'\<rparr>, as))
            (et_ReceiveRegistrationRequest now ty i imsi cellId term et db)
      | _ \<Rightarrow> None)"
| "ric_handle env now (EvDeregistration n) r =
     (case (ric_e2Terminator r, ric_data r) of
        (Some et, Some db) \<Rightarrow>
          map_option (\<lambda>(et', db', as). (r\<lparr>ric_e2Terminator := Some et', ric_data := Some db'\<rparr>, as))
            (et_ReceiveDeregistrationRequest now n et db)
      | _ \<Rightarrow> None)"
| "ric_handle env now (EvReport report) r = ric_ReceiveReport env now report r"

end
