(* ===== verification/OranRicInv.thy ===== *)
theory OranRicInv
  imports OranRic
begin

text \<open>
  The invariant of the Near-RT RIC: what holds in every state that its events reach, for any conflict
  mitigation module and logic modules that meet the contract of locale \<open>ric_parts\<close>; and the
  interpretations on the modules of the code.
\<close>

section \<open>Results that may fail\<close>

text \<open>The result satisfies the predicate, and if the flag is set there is one.\<close>

definition returns :: "bool \<Rightarrow> ('a \<Rightarrow> bool) \<Rightarrow> 'a option \<Rightarrow> bool" where
  "returns tot Q x = (case x of None \<Rightarrow> \<not> tot | Some y \<Rightarrow> Q y)"

lemma returns_simps [simp]:
  "returns tot Q (Some y) \<longleftrightarrow> Q y"
  "returns tot Q None \<longleftrightarrow> \<not> tot"
  by (simp_all add: returns_def)

lemma returns_bind:
  assumes "returns tot Q x" "\<And>y. Q y \<Longrightarrow> returns tot R (f y)"
  shows "returns tot R (Option.bind x f)"
  using assms by (cases x) auto

lemma returns_map:
  assumes "returns tot Q x" "\<And>y. Q y \<Longrightarrow> R (f y)"
  shows "returns tot R (map_option f x)"
  using assms by (cases x) auto

lemma returns_mono: "returns tot Q x \<Longrightarrow> (\<And>y. Q y \<Longrightarrow> R y) \<Longrightarrow> returns tot R x"
  by (cases x) auto

lemma returns_Some: "returns tot Q x \<Longrightarrow> x = Some y \<Longrightarrow> Q y"
  by simp

lemma returns_total: "returns True Q x \<longleftrightarrow> (\<exists>y. x = Some y \<and> Q y)"
  by (cases x) auto

section \<open>The invariant\<close>

text \<open>
  P holds of the commands that the logic modules have issued and that are not yet sent.
\<close>

definition ric_idle :: "'x oran_ric \<Rightarrow> bool" where
  "ric_idle r \<longleftrightarrow> (\<exists>et. ric_e2Terminator r = Some et \<and> et_active et = ric_active r) \<and> ric_complete r"

definition lms_ok :: "nat list \<Rightarrow> time_ns \<Rightarrow> (oran_command \<Rightarrow> bool) \<Rightarrow> (nat \<Rightarrow> oran_lm) \<Rightarrow> bool" where
  "lms_ok is cycle P lm \<longleftrightarrow>
     (\<forall>i\<in>set is. lm_hasRic (lm i)) \<and>
     (\<forall>i. lm_active (lm i) \<and> lm_finishRunEvent (lm i) \<longrightarrow> i \<in> set is \<and> lm_cycle (lm i) = cycle) \<and>
     (\<forall>i. \<forall>c\<in>set (lm_commands (lm i)). P c)"

definition sets_ok :: "(oran_command \<Rightarrow> bool) \<Rightarrow> cmd_sets \<Rightarrow> bool" where
  "sets_ok P sets \<longleftrightarrow> (\<forall>c\<in>set (all_commands sets). P c)"

definition ric_inv :: "(oran_command \<Rightarrow> bool) \<Rightarrow> time_ns \<Rightarrow> nat \<Rightarrow> 'x oran_ric \<Rightarrow> bool" where
  "ric_inv P now k r \<longleftrightarrow> ric_idle r \<and>
     (\<forall>db. ric_data r = Some db \<and> ric_active r \<longrightarrow> db_ok now k db) \<and>
     (\<forall>c. ric_cmm r = Some c \<longrightarrow> cm_hasRic c) \<and>
     lms_ok (ric_lms r) (ric_lmQueryCycle r) P (ric_lm r) \<and> sets_ok P (ric_lmQueryCommands r)"

definition delivers :: "(oran_command \<Rightarrow> bool) \<Rightarrow> ric_action list \<Rightarrow> bool" where
  "delivers P as \<longleftrightarrow> (\<forall>n c. DeliverCommand n c \<in> set as \<longrightarrow> P c)"

lemma delivers_simps [simp]:
  "delivers P []"
  "delivers P (as @ bs) \<longleftrightarrow> delivers P as \<and> delivers P bs"
  "delivers P (DeliverCommand n c # as) \<longleftrightarrow> P c \<and> delivers P as"
  "delivers P (RegistrationResponse t e # as) \<longleftrightarrow> delivers P as"
  "delivers P (DeregistrationResponse u e # as) \<longleftrightarrow> delivers P as"
  by (auto simp: delivers_def)

lemma sets_ok_simps [simp]:
  "sets_ok P []"
  "sets_ok P (e # sets) \<longleftrightarrow> (\<forall>c\<in>set (snd e). P c) \<and> sets_ok P sets"
  by (auto simp: sets_ok_def all_commands_def)

lemma sets_ok_put: "sets_ok P m \<Longrightarrow> \<forall>c\<in>set cs. P c \<Longrightarrow> sets_ok P (smap_put k cs m)"
  by (induction k cs m rule: smap_put.induct) auto

lemma sets_ok_lookup: "sets_ok P m \<Longrightarrow> map_of m k = Some cs \<Longrightarrow> c \<in> set cs \<Longrightarrow> P c"
  by (induction m) (auto split: if_splits)

section \<open>The E2 terminator\<close>

text \<open>What a call of the terminator leaves.\<close>

definition et_post ::
    "time_ns \<Rightarrow> nat \<Rightarrow> (oran_command \<Rightarrow> bool) \<Rightarrow> e2_terminator \<Rightarrow> e2_terminator \<times> 'x oran_db \<times> ric_action list \<Rightarrow> bool" where
  "et_post now k P et = (\<lambda>(et', db', as). et_active et' = et_active et \<and> db_ok now k db' \<and> delivers P as)"

lemma et_post_simp [simp]:
  "et_post now k P et (et', db', as) \<longleftrightarrow> et_active et' = et_active et \<and> db_ok now k db' \<and> delivers P as"
  by (simp add: et_post_def)

lemma et_post_trans:
  "et_post now k P et (et1, db1, as1) \<Longrightarrow> et_post now k P et1 (et2, db2, as2) \<Longrightarrow> et_post now k P et (et2, db2, as1 @ as2)"
  by simp

lemma et_lookup_active: "et_lookup n et = (t, et') \<Longrightarrow> et_active et' = et_active et"
  by (auto simp: et_lookup_def split: option.splits)

lemma log_terminator_ok:
  assumes "db_ok now k db"
  shows "\<exists>db'. LogCommandE2Terminator now cmd db = Some db' \<and> db_ok now k db'"
  using save_keeps [OF assms, of "\<lambda>t. t\<lparr>t_terminatorcommand := t_terminatorcommand t @ [(cmd_target cmd, now, cmd_ToString cmd)]\<rparr>"]
  by (auto simp: LogCommandE2Terminator_def)

lemma SendCommand_ok:
  assumes "db_ok now k db" "P cmd"
  shows "returns True (et_post now k P et)
    (et_SendCommand now cmd et db)"
  using log_terminator_ok [OF assms(1), of cmd] assms
  by (auto simp: et_SendCommand_def dest: et_lookup_active split: prod.splits)

lemma send_all_ok:
  assumes "db_ok now k db" "\<forall>c\<in>set cmds. P c"
  shows "returns True (et_post now k P et)
    (et_send_all now cmds et db)"
  using assms
proof (induction cmds arbitrary: et db)
  case (Cons c cmds)
  have "returns True (et_post now k P et)
    (et_SendCommand now c et db)"
    using Cons.prems by (intro SendCommand_ok) simp_all
  then show ?case
    unfolding et_send_all.simps
    by (rule returns_bind) (use Cons.prems in \<open>auto intro!: returns_map [OF Cons.IH]\<close>)
qed simp

lemma ProcessCommands_ok:
  assumes "db_ok now k db" "\<forall>c\<in>set cmds. P c"
  shows "returns True (et_post now k P et)
    (et_ProcessCommands now cmds et db)"
  using send_all_ok [OF assms, of et] assms(1) by (cases "et_active et") (simp_all add: et_ProcessCommands_def)

lemma Deregistration_ok:
  assumes "db_ok now k db"
  shows "returns True (et_post now k P et)
    (et_ReceiveDeregistrationRequest now n et db)"
  using DeregisterNode_law [OF assms, of n] assms
  by (auto simp: et_ReceiveDeregistrationRequest_def dest: et_lookup_active split: prod.splits)

lemma deregister_inactive_ok:
  assumes "db_ok now k db"
  shows "returns True (et_post now k P et)
    (deregister_inactive now thr regs et db)"
  using assms
proof (induction regs arbitrary: et db)
  case (Cons x regs)
  obtain n t where x: "x = (n, t)"
    by (cases x)
  have "returns True (et_post now k P et)
    (if now - t > thr then et_ReceiveDeregistrationRequest now n et db else Some (et, db, []))"
    using Cons.prems Deregistration_ok [OF Cons.prems] by (cases "now - t > thr") auto
  then show ?case
    unfolding x deregister_inactive.simps
    by (rule returns_bind) (use Cons.prems in \<open>auto intro!: returns_map [OF Cons.IH]\<close>)
qed simp


lemma RegisterNode_ok:
  assumes "db_ok now (Suc k) db"
  shows "\<exists>e db' t. RegisterNode now ty i db = Some (e, db') \<and> db_ok now k db' \<and> db_conn db' = Some t"
  using RegisterNode_law [OF assms, of ty i] by (auto simp: db_ok_def)

lemma Registration_ok:
  assumes ok: "db_ok now (Suc k) db"
  shows "returns True (et_post now k P et)
    (et_ReceiveRegistrationRequest now ty i imsi cellId term et db)"
proof (cases "et_active et")
  case True
  have active: "db_active db"
    using ok by (simp add: db_ok_def)
  have put: "db_ok now k (db'\<lparr>db_conn := Some (f t)\<rparr>)"
    if "db_ok now k db'" "db_conn db' = Some t" "t_registration (f t) = t_registration t" "t_nodeseq (f t) = t_nodeseq t"
    for db' :: "'a oran_db" and t f
    using that by (simp add: db_ok_def)
  obtain e db' t where r: "RegisterNode now ty i db = Some (e, db')" "db_ok now k db'" "db_conn db' = Some t"
    using RegisterNode_ok [OF ok] by blast
  show ?thesis
    using r True active put [OF r(2,3), of "INSERT_LTE_UE_NODE i imsi"] put [OF r(2,3), of "INSERT_LTE_ENB_NODE i cellId"]
    by (cases ty) (auto simp: et_ReceiveRegistrationRequest_def RegisterNodeLteUe_def RegisterNodeLteEnb_def
        INSERT_LTE_UE_NODE_def INSERT_LTE_ENB_NODE_def)
qed (use db_ok_less [OF ok] in \<open>simp add: et_ReceiveRegistrationRequest_def\<close>)

lemma save_report_ok:
  assumes "db_ok now k db"
  shows "returns True (db_ok now k) (save_report report db)"
proof -
  have "returns True (db_ok now k) (save_if_registered n f db)"
    if "\<And>t. t_registration (f t) = t_registration t \<and> t_nodeseq (f t) = t_nodeseq t" for n f
    using save_keeps [OF assms that, of n] by (auto simp: returns_total)
  then show ?thesis
    using assms
    by (cases report)
       (simp_all add: save_report_def SavePosition_def SaveLteCellLoad_def SaveLteUeCellInfo_def SaveAppLoss_def)
qed

section \<open>The contract of the modules\<close>

definition lms_partial ::
    "nat list \<Rightarrow> nat list \<Rightarrow> time_ns \<Rightarrow> (oran_command \<Rightarrow> bool) \<Rightarrow> (nat \<Rightarrow> oran_lm) \<Rightarrow> bool" where
  "lms_partial is rest cycle P lm \<longleftrightarrow>
     (\<forall>i\<in>set is. lm_hasRic (lm i)) \<and>
     (\<forall>i. lm_active (lm i) \<and> lm_finishRunEvent (lm i) \<longrightarrow> i \<in> set is \<and> (i \<in> set rest \<or> lm_cycle (lm i) = cycle)) \<and>
     (\<forall>i. \<forall>c\<in>set (lm_commands (lm i)). P c)"

lemma lms_partial_Nil: "lms_partial is [] cycle P lm \<longleftrightarrow> lms_ok is cycle P lm"
  by (auto simp: lms_partial_def lms_ok_def)

lemma lms_ok_partial: "lms_ok is cycle P lm \<Longrightarrow> lms_partial is is now P lm"
  by (auto simp: lms_partial_def lms_ok_def)

lemma lm_log_ok:
  assumes "db_ok now k db" "lm_hasRic lm"
  shows "returns True (db_ok now k) (lm_LogLogicToRepository stamp now msg lm db)"
  using lm_log_total [OF db_ok_answers [OF assms(1)] assms(2), of stamp now msg] same_data_ok assms(1)
  by (auto simp: returns_total)

lemma cmm_log_all_ok:
  assumes "db_ok now k db" "cm_hasRic c"
  shows "returns True (db_ok now k) (cmm_log_all stamp now msgs c db)"
  using assms(1)
proof (induction msgs arbitrary: db)
  case (Cons msg msgs)
  have "returns True (db_ok now k) (cmm_LogLogicToStorage stamp now msg c db)"
    using log_total(2) [OF db_ok_answers [OF Cons.prems], of now "cm_name c" "stamp now @ '' -- '' @ cm_name c @ '' -- '' @ msg"]
      same_data_ok Cons.prems assms(2)
    by (auto simp: cmm_LogLogicToStorage_def returns_total)
  then show ?case
    unfolding cmm_log_all.simps by (rule returns_bind) (rule Cons.IH)
qed simp

lemma CancelRun_ok:
  assumes "db_ok now k db" "lm_hasRic lm"
  shows "returns True (\<lambda>(l, db'). db_ok now k db' \<and> lm_hasRic l \<and> lm_active l = lm_active lm \<and>
      set (lm_commands l) \<subseteq> set (lm_commands lm) \<and> (lm_active lm \<longrightarrow> \<not> lm_finishRunEvent l))
    (if lm_IsRunning lm then lm_CancelRun stamp now lm db else Some (lm, db))"
  using lm_log_ok [OF assms, of stamp "cancel_message lm"] assms
  by (auto simp: lm_CancelRun_def lm_IsRunning_def returns_total)

locale ric_parts =
  fixes env :: "'x ric_env" and tot :: bool and P :: "oran_command \<Rightarrow> bool"
  assumes filter_law: "cm_hasRic c \<Longrightarrow> db_answers db \<Longrightarrow>
      returns tot (\<lambda>(out, c', msgs). cm_hasRic c' \<and> set out \<subseteq> set (all_commands sets)) (re_filter env db sets c)"
    and logic_law: "lm_hasRic lm \<Longrightarrow> db_ok now k db \<Longrightarrow>
      returns tot (\<lambda>(cmds, db'). db_ok now k db' \<and> (\<forall>c\<in>set cmds. P c)) (re_logic env i now lm db)"
begin

lemma returns_weaken: "returns True Q x \<Longrightarrow> returns tot Q x"
  by (cases x) auto

lemma Process_ok:
  assumes inv: "ric_inv P now k r"
  shows "returns tot (\<lambda>(r', as). ric_inv P now k r' \<and> delivers P as \<and> ric_lm r' = ric_lm r)
    (ric_ProcessLmQueryCommands env now r)"
proof (cases "ric_active r")
  case True
  obtain et db c d where r: "ric_e2Terminator r = Some et" "et_active et" "ric_data r = Some db" "ric_cmm r = Some c"
    "ric_defaultLm r = Some d"
    using inv True by (auto simp: ric_inv_def ric_idle_def ric_complete_def)
  have ok: "db_ok now k db" "cm_hasRic c" "sets_ok P (ric_lmQueryCommands r)"
    using inv True r by (auto simp: ric_inv_def)
  note keep = filter_law [OF ok(2) db_ok_answers [OF ok(1)], of "ric_lmQueryCommands r"]
  show ?thesis
    unfolding ric_ProcessLmQueryCommands_def
    apply (simp add: r True Let_def)
    apply (rule returns_bind [OF keep])
    apply clarsimp
    apply (rule returns_bind [OF returns_weaken [OF cmm_log_all_ok [OF ok(1)]]], assumption)
    apply (rule returns_map [OF returns_weaken [OF ProcessCommands_ok [where P = P]]], assumption)
     apply (use ok(3) in \<open>auto simp: sets_ok_def\<close>) []
    using inv r True by (auto simp: ric_inv_def ric_idle_def ric_complete_def ric_lms_def)
qed (use inv in \<open>simp add: ric_ProcessLmQueryCommands_def\<close>)

lemma NotifyLmFinished_ok:
  assumes inv: "ric_inv P now k r" and "cycle = ric_lmQueryCycle r" "\<forall>c\<in>set commands. P c"
  shows "returns tot (\<lambda>(r', as). ric_inv P now k r' \<and> delivers P as \<and> ric_lm r' = ric_lm r)
    (ric_NotifyLmFinished env now cycle commands i r)"
proof -
  have put: "ric_inv P now k (r\<lparr>ric_lmQueryCommands := m\<rparr>)" if "sets_ok P m" for m
    using inv that by (simp add: ric_inv_def ric_idle_def ric_complete_def ric_lms_def)
  define key where "key = (lm_name (ric_lm r i), Some i = ric_defaultLm r)"
  define m1 where "m1 = (if smap_has (ric_lmQueryCommands r) key then smap_put key [] (ric_lmQueryCommands r)
    else ric_lmQueryCommands r)"
  define m2 where "m2 = smap_put key ((case map_of m1 key of Some cs \<Rightarrow> cs | None \<Rightarrow> []) @ commands) m1"
  have 1: "sets_ok P m1"
    using inv by (auto simp: m1_def ric_inv_def intro: sets_ok_put)
  have old: "\<forall>c\<in>set cs. P c" if "map_of m1 key = Some cs" for cs
    using sets_ok_lookup [OF 1 that] by blast
  have 2: "sets_ok P m2"
    unfolding m2_def using assms(3) old by (intro sets_ok_put [OF 1]) (cases "map_of m1 key"; auto)
  show ?thesis
    unfolding ric_NotifyLmFinished_def Let_def key_def [symmetric] m1_def [symmetric] m2_def [symmetric]
    using Process_ok [OF put [OF 1]] Process_ok [OF put [OF 2]] put [OF 1] put [OF 2] assms(2)
    by (simp split: LateCommandPolicy.split)
qed

lemma FinishRun_ok:
  assumes inv: "ric_inv P now k r" and run: "lm_finishRunEvent (ric_lm r i)"
  shows "returns tot (\<lambda>(r', as). ric_inv P now k r' \<and> delivers P as) (ric_FinishRun env now i r)"
proof -
  define r1 where "r1 = r\<lparr>ric_lm := (ric_lm r)(i := (ric_lm r i)\<lparr>lm_finishRunEvent := False\<rparr>)\<rparr>"
  have inv1: "ric_inv P now k r1"
    using inv by (auto simp: r1_def ric_inv_def ric_idle_def ric_complete_def ric_lms_def lms_ok_def)
  have clear: "ric_inv P now k (r'\<lparr>ric_lm := (ric_lm r')(i := (ric_lm r' i)\<lparr>lm_commands := []\<rparr>)\<rparr>)"
    if "ric_inv P now k r'" for r' :: "'x oran_ric"
    using that by (auto simp: ric_inv_def ric_idle_def ric_complete_def ric_lms_def lms_ok_def)
  show ?thesis
  proof (cases "lm_active (ric_lm r i)")
    case True
    have lm: "i \<in> set (ric_lms r)" "lm_cycle (ric_lm r i) = ric_lmQueryCycle r1" "lm_hasRic (ric_lm r i)"
      "\<forall>c\<in>set (lm_commands (ric_lm r i)). P c"
      using inv True run by (auto simp: ric_inv_def lms_ok_def r1_def)
    show ?thesis
      using True lm(3) unfolding ric_FinishRun_def Let_def r1_def [symmetric]
      by (auto intro!: returns_map [OF NotifyLmFinished_ok [OF inv1 lm(2,4)]] clear)
  next
    case False
    with inv1 show ?thesis
      by (simp add: ric_FinishRun_def Let_def r1_def [symmetric])
  qed
qed

lemma CheckForInactivity_frame:
  assumes r: "ric_active r" "ric_e2Terminator r = Some et" "ric_data r = Some db" and ok: "db_ok now k db"
  shows "returns True (\<lambda>(r', as). delivers P as \<and> (\<exists>et' db'. et_active et' = et_active et \<and> db_ok now k db' \<and>
      r' = r\<lparr>ric_e2Terminator := Some et', ric_data := Some db', ric_e2NodeInactivityEvent := True\<rparr>))
    (ric_CheckForInactivity env now r)"
proof -
  obtain regs where regs: "GetLastRegistrationRequests (re_tie env) db = Some regs"
    using ok by (auto simp: GetLastRegistrationRequests_def db_ok_def)
  show ?thesis
    unfolding ric_CheckForInactivity_def
    using r by (fastforce simp: regs intro!: returns_map [OF deregister_inactive_ok [OF ok, where P = P]])
qed

lemma CheckForInactivity_ok:
  assumes inv: "ric_inv P now k r"
  shows "returns True (\<lambda>(r', as). ric_inv P now k r' \<and> delivers P as) (ric_CheckForInactivity env now r)"
proof (cases "ric_active r")
  case True
  obtain et db where r: "ric_e2Terminator r = Some et" "et_active et" "ric_data r = Some db" "db_ok now k db"
    using inv True by (auto simp: ric_inv_def ric_idle_def ric_complete_def)
  show ?thesis
    by (rule returns_mono [OF CheckForInactivity_frame [OF True r(1,3,4)]])
       (use inv r True in \<open>auto simp: ric_inv_def ric_idle_def ric_complete_def ric_lms_def\<close>)
qed (use inv in \<open>simp add: ric_CheckForInactivity_def\<close>)

lemma lms_query_ok:
  assumes "lms_partial is rest now P lm" "set rest \<subseteq> set is" "db_ok now k db"
  shows "returns tot (\<lambda>(lm', db'). lms_ok is now P lm' \<and> db_ok now k db') (lms_query env now rest lm db)"
  using assms
proof (induction rest arbitrary: lm db)
  case (Cons i rest)
  have i: "lm_hasRic (lm i)"
    using Cons.prems by (auto simp: lms_partial_def)
  have run: "returns tot (\<lambda>(l2, db2). db_ok now k db2 \<and> lms_partial is rest now P (lm(i := l2)))
      (lm_Run (re_logic env i now) now l1 db1)"
    if l1: "db_ok now k db1 \<and> lm_hasRic l1 \<and> lm_active l1 = lm_active (lm i) \<and>
      set (lm_commands l1) \<subseteq> set (lm_commands (lm i)) \<and> (lm_active (lm i) \<longrightarrow> \<not> lm_finishRunEvent l1)" for l1 db1
  proof (cases "lm_active (lm i)")
    case True
    have "lm_hasRic (l1\<lparr>lm_cycle := now\<rparr>)"
      using l1 by simp
    with True l1 Cons.prems(1,2) show ?thesis
      unfolding lm_Run_def Let_def
      by (auto simp: lm_IsRunning_def lms_partial_def intro!: returns_map [OF logic_law])
  next
    case False
    with l1 Cons.prems(1,2) show ?thesis
      by (fastforce simp: lm_Run_def lms_partial_def)
  qed
  show ?case
    unfolding lms_query.simps
    apply (rule returns_bind [OF returns_weaken [OF CancelRun_ok [OF Cons.prems(3) i]]])
    apply (simp only: split_paired_all prod.case)
    apply (rule returns_bind [OF run], assumption)
    apply (simp only: split_paired_all prod.case)
    using Cons.prems(2) by (auto intro!: Cons.IH)
qed (simp add: lms_partial_Nil)

text \<open>The state after the check for inactivity: the modules are still to be run.\<close>

definition querying :: "time_ns \<Rightarrow> nat \<Rightarrow> 'x oran_ric \<Rightarrow> bool" where
  "querying now k r \<longleftrightarrow> ric_idle r \<and> ric_active r \<and> (\<exists>db. ric_data r = Some db \<and> db_ok now k db) \<and>
     (\<forall>c. ric_cmm r = Some c \<longrightarrow> cm_hasRic c) \<and> ric_lmQueryCycle r = now \<and>
     lms_partial (ric_lms r) (ric_lms r) now P (ric_lm r) \<and> sets_ok P (ric_lmQueryCommands r)"

lemma run_lms_ok:
  assumes "querying now k r" "delivers P as"
  shows "returns tot (\<lambda>(r', as). ric_inv P now k r' \<and> delivers P as)
    (map_option (\<lambda>(lm, db). (r\<lparr>ric_lm := lm, ric_data := Some db, ric_lmQueryEvent := Some (now + ric_lmQueryInterval r)\<rparr>, as))
      (lms_query env now (ric_lms r) (ric_lm r) (the (ric_data r))))"
proof -
  obtain db where db: "ric_data r = Some db" "db_ok now k db"
    using assms by (auto simp: querying_def)
  have "returns tot (\<lambda>(lm', db'). lms_ok (ric_lms r) now P lm' \<and> db_ok now k db')
      (lms_query env now (ric_lms r) (ric_lm r) (the (ric_data r)))"
    using assms db by (intro lms_query_ok) (auto simp: querying_def)
  then show ?thesis
    by (rule returns_map)
       (use assms in \<open>auto simp: querying_def ric_inv_def ric_idle_def ric_complete_def ric_lms_def\<close>)
qed

lemma QueryLms_ok:
  assumes inv: "ric_inv P now k r"
  shows "returns tot (\<lambda>(r', as). ric_inv P now k r' \<and> delivers P as) (ric_QueryLms env now r)"
proof (cases "ric_active r")
  case True
  obtain et db c d where r: "ric_e2Terminator r = Some et" "et_active et" "ric_data r = Some db" "ric_cmm r = Some c"
    "ric_defaultLm r = Some d" "db_ok now k db"
    using inv True by (auto simp: ric_inv_def ric_idle_def ric_complete_def)
  let ?r = "r\<lparr>ric_lmQueryCycle := now\<rparr>"
  have comp: "ric_complete r"
    using r by (simp add: ric_complete_def)
  have "returns True (\<lambda>(r', as). delivers P as \<and> (\<exists>et' db'. et_active et' = et_active et \<and> db_ok now k db' \<and>
      r' = ?r\<lparr>ric_e2Terminator := Some et', ric_data := Some db', ric_e2NodeInactivityEvent := True\<rparr>))
    (ric_CheckForInactivity env now ?r)"
    using r True by (intro CheckForInactivity_frame) simp_all
  note check = returns_weaken [OF this]
  have q: "querying now k (?r\<lparr>ric_e2Terminator := Some et', ric_data := Some db', ric_e2NodeInactivityEvent := True,
      ric_processLmQueryCommandsEvent := p, ric_lostProcess := l\<rparr>)" if "et_active et'" "db_ok now k db'" for et' db' p l
    using inv r True that
    by (auto simp: querying_def ric_inv_def ric_idle_def ric_complete_def ric_lms_def intro: lms_ok_partial)
  show ?thesis
    unfolding ric_QueryLms_def Let_def
    apply (simp only: True comp not_True_eq_False if_False)
    apply (rule returns_bind [OF check])
    apply (simp only: split_paired_all prod.case)
    apply (rule run_lms_ok)
    using q q [where p = "ric_processLmQueryCommandsEvent r" and l = "ric_lostProcess r"] r(2) by auto
qed (use inv in \<open>simp add: ric_QueryLms_def\<close>)

lemma ReceiveReport_ok:
  assumes inv: "ric_inv P now k r"
  shows "returns tot (\<lambda>(r', as). ric_inv P now k r' \<and> delivers P as) (ric_ReceiveReport env now report r)"
proof -
  obtain et db where r: "ric_e2Terminator r = Some et" "ric_data r = Some db" "et_active et = ric_active r"
    using inv by (auto simp: ric_inv_def ric_idle_def ric_complete_def)
  show ?thesis
  proof (cases "ric_active r")
    case True
    have keep: "ric_inv P now k (r\<lparr>ric_data := Some db'\<rparr>)" "ric_inv P now k (r\<lparr>ric_data := Some db', ric_lmQueryEvent := None\<rparr>)"
      if "db_ok now k db'" for db'
      using inv that by (auto simp: ric_inv_def ric_idle_def ric_complete_def ric_lms_def)
    have "db_ok now k db"
      using inv True r by (auto simp: ric_inv_def)
    note save = returns_weaken [OF save_report_ok [OF this, of report]]
    show ?thesis
      unfolding ric_ReceiveReport_def ric_NotifyReportReceived_def
      using r True by (auto intro!: returns_bind [OF save] QueryLms_ok keep)
  qed (use inv r in \<open>simp add: ric_ReceiveReport_def\<close>)
qed

end

section \<open>Runs\<close>

fun is_registration :: "'x ric_event \<Rightarrow> bool" where
  "is_registration (EvRegistration _ _ _ _ _) = True"
| "is_registration _ = False"

text \<open>Events with the times at which they happen; the result has all actions.\<close>

fun ric_run :: "'x ric_env \<Rightarrow> (time_ns \<times> 'x ric_event) list \<Rightarrow> 'x oran_ric \<Rightarrow> ('x oran_ric \<times> ric_action list) option" where
  "ric_run env [] r = Some (r, [])"
| "ric_run env ((now, ev) # evs) r =
     Option.bind (ric_handle env now ev r) (\<lambda>(r1, as1). map_option (\<lambda>(r2, as2). (r2, as1 @ as2)) (ric_run env evs r1))"

fun from_time :: "time_ns \<Rightarrow> (time_ns \<times> 'e) list \<Rightarrow> bool" where
  "from_time now [] = True"
| "from_time now ((tm, e) # es) = (now \<le> tm \<and> from_time tm es)"

lemma ric_inv_later: "ric_inv P now k r \<Longrightarrow> now \<le> now' \<Longrightarrow> ric_inv P now' k r"
  by (auto simp: ric_inv_def intro: db_ok_later)

lemma ric_inv_less: "ric_inv P now (Suc k) r \<Longrightarrow> ric_inv P now k r"
  by (auto simp: ric_inv_def intro: db_ok_less)

lemma ric_inv_timers:
  assumes "ric_inv P now k r"
  shows "ric_inv P now k (r\<lparr>ric_lmQueryEvent := a\<rparr>)" "ric_inv P now k (r\<lparr>ric_e2NodeInactivityEvent := b\<rparr>)"
    "ric_inv P now k (r\<lparr>ric_processLmQueryCommandsEvent := c\<rparr>)" "ric_inv P now k (r\<lparr>ric_lostProcess := d\<rparr>)"
  using assms by (auto simp: ric_inv_def ric_idle_def ric_complete_def ric_lms_def)

context ric_parts
begin

lemma handle_ok:
  assumes "ric_inv P now (Suc k) r"
  shows "returns tot (\<lambda>(r', as). ric_inv P now k r' \<and> delivers P as) (ric_handle env now ev r)"
proof -
  have inv: "ric_inv P now k r"
    using assms by (rule ric_inv_less)
  obtain et db where r: "ric_e2Terminator r = Some et" "ric_data r = Some db" "et_active et = ric_active r"
    using inv by (auto simp: ric_inv_def ric_idle_def ric_complete_def)
  have put: "ric_inv P now k (r\<lparr>ric_e2Terminator := Some et', ric_data := Some db'\<rparr>)"
    if "et_active et' = et_active et" "ric_active r \<longrightarrow> db_ok now k db'" for et' db'
    using inv r that by (auto simp: ric_inv_def ric_idle_def ric_complete_def ric_lms_def)
  have act: "ric_active r \<Longrightarrow> db_ok now (Suc k) db"
    using assms r by (auto simp: ric_inv_def)
  note process = returns_mono [OF Process_ok]
  show ?thesis
  proof (cases ev)
    case (EvRegistration ty i imsi cellId trm)
    show ?thesis
    proof (cases "ric_active r")
      case True
      note reg = returns_weaken [OF Registration_ok [where P = P, OF act [OF True]]]
      from True r EvRegistration put show ?thesis
        by (auto intro!: returns_map [OF reg])
    qed (use r inv put EvRegistration in \<open>simp add: et_ReceiveRegistrationRequest_def\<close>)
  next
    case (EvDeregistration n)
    show ?thesis
    proof (cases "ric_active r")
      case True
      note dereg = returns_weaken [OF Deregistration_ok [where P = P, OF db_ok_less [OF act [OF True]]]]
      from True r EvDeregistration put show ?thesis
        by (auto intro!: returns_map [OF dereg])
    qed (use r inv put EvDeregistration in \<open>simp add: et_ReceiveDeregistrationRequest_def\<close>)
  qed (use inv ric_inv_timers [OF inv] in \<open>auto split: list.splits intro!: QueryLms_ok returns_weaken [OF CheckForInactivity_ok]
        process FinishRun_ok ReceiveReport_ok\<close>)
qed

lemma run_ok:
  assumes "ric_inv P now (length evs) r" "from_time now evs"
  shows "returns tot (\<lambda>(r', as). (\<exists>now'. ric_inv P now' 0 r') \<and> delivers P as) (ric_run env evs r)"
  using assms
proof (induction evs arbitrary: now r)
  case (Cons te evs)
  obtain tm ev where te: "te = (tm, ev)"
    by (cases te)
  have "ric_inv P tm (Suc (length evs)) r" "from_time tm evs"
    using Cons.prems by (auto simp: te intro: ric_inv_later)
  then show ?case
    unfolding te ric_run.simps
    by (auto intro!: returns_bind [OF handle_ok] returns_map [OF Cons.IH])
qed auto

end

section \<open>Starting\<close>

text \<open>A RIC with all its parts that has not been started, and a repository in memory.\<close>

definition ric_configured :: "'x oran_ric \<Rightarrow> bool" where
  "ric_configured r \<longleftrightarrow> ric_complete r \<and> \<not> ric_active r \<and>
     (\<exists>et. ric_e2Terminator r = Some et \<and> \<not> et_active et) \<and>
     (\<exists>c. ric_cmm r = Some c \<and> cm_hasRic c) \<and>
     (\<exists>db. ric_data r = Some db \<and> \<not> db_active db \<and> db_conn db = None \<and> db_path db = '':memory:'') \<and>
     (\<forall>i\<in>set (ric_lms r). lm_hasRic (ric_lm r i)) \<and>
     (\<forall>i. \<not> lm_finishRunEvent (ric_lm r i) \<and> lm_commands (ric_lm r i) = []) \<and>
     ric_lmQueryCommands r = [] \<and> ric_lmQueryEvent r = None \<and> \<not> ric_e2NodeInactivityEvent r"

lemma lms_Activate_ok:
  assumes "\<forall>i\<in>set is. lm_hasRic (lm i)"
  shows "lms_Activate is lm = Some (\<lambda>i. if i \<in> set is then (lm i)\<lparr>lm_active := True\<rparr> else lm i)"
  using assms
proof (induction "is" arbitrary: lm)
  case (Cons i "is")
  then show ?case
    by (auto simp: lm_Activate_def fun_eq_iff)
qed simp

lemma Start_ok:
  assumes r: "ric_configured r" and "re_open env" "k \<le> 2 ^ 61"
  shows "\<exists>r'. ric_Start env now r = Some r' \<and> ric_inv P now k r' \<and> ric_active r'"
proof -
  obtain et c db where 1: "ric_e2Terminator r = Some et" "\<not> et_active et" "ric_cmm r = Some c" "cm_hasRic c"
    "ric_data r = Some db" "\<not> db_active db" "db_conn db = None" "db_path db = '':memory:''"
    using r by (auto simp: ric_configured_def)
  have k: "int k \<le> 2 ^ 61" "int k \<le> 2 ^ 62"
    using assms(3) by simp_all
  define db' where "db' = db\<lparr>db_active := True, db_conn := Some empty_tables\<rparr>"
  have opn: "db_Activate (re_open env) db = Some db'"
    using 1 assms(2) by (simp add: db_Activate_def IsDbOpen_def OpenDb_def db'_def)
  have ok: "db_ok now k db'"
    using k by (simp add: db_ok_def db'_def empty_tables_def)
  have lms: "lms_Activate (ric_lms r) (ric_lm r) =
      Some (\<lambda>i. if i \<in> set (ric_lms r) then (ric_lm r i)\<lparr>lm_active := True\<rparr> else ric_lm r i)"
    using r by (intro lms_Activate_ok) (auto simp: ric_configured_def)
  show ?thesis
    using r 1 opn ok unfolding ric_Start_def ric_Activate_def lms
    by (auto simp: ric_configured_def cmm_Activate_def et_Activate_def ric_inv_def ric_idle_def ric_complete_def
        ric_lms_def lms_ok_def)
qed

end
