(* ===== verification/OranRicStd.thy ===== *)
theory OranRicStd
  imports OranRicInv
begin

text \<open>
  The Near-RT RIC with the modules of the code: the virtual calls are dispatched on the kind of the
  conflict mitigation module and of each logic module, and these meet the contract of the RIC.
\<close>

section \<open>Dispatch\<close>

datatype cmm_kind = CmmNoop | CmmHandover | CmmSingleCommandPerNode

datatype lm_kind = LmNoop | LmLte2LteDistanceHandover

definition cmm_Filter ::
    "cmm_kind \<Rightarrow> 'x oran_db \<Rightarrow> cmd_sets \<Rightarrow> oran_cmm \<Rightarrow> (oran_command list \<times> oran_cmm \<times> string list) option" where
  "cmm_Filter k =
     (case k of CmmNoop \<Rightarrow> cmm_noop_Filter | CmmHandover \<Rightarrow> cmm_handover_Filter
      | CmmSingleCommandPerNode \<Rightarrow> cmm_single_Filter)"

definition lm_logic ::
    "lm_kind \<Rightarrow> ('x :: {minus,power,plus,ord}) lm_env \<Rightarrow> time_ns \<Rightarrow> oran_lm \<Rightarrow> 'x oran_db \<Rightarrow>
     (oran_command list \<times> 'x oran_db) option" where
  "lm_logic k env =
     (case k of LmNoop \<Rightarrow> noop_Run (le_stamp env) | LmLte2LteDistanceHandover \<Rightarrow> distance_Run env)"

definition std_env ::
    "cmm_kind \<Rightarrow> (nat \<Rightarrow> lm_kind) \<Rightarrow> ('x :: {minus,power,plus,ord}) lm_env \<Rightarrow> bool \<Rightarrow> 'x ric_env" where
  "std_env ck lk env op =
     \<lparr>re_filter = cmm_Filter ck, re_logic = (\<lambda>i. lm_logic (lk i) env), re_stamp = le_stamp env,
      re_tie = le_tie env, re_open = op\<rparr>"

section \<open>The contracts\<close>

lemma cmm_Filter_ok:
  assumes "cm_hasRic c" "db_answers db"
  shows "returns True (\<lambda>(out, c', msgs). cm_hasRic c' \<and> set out \<subseteq> set (all_commands sets)) (cmm_Filter k db sets c)"
  using cmm_noop.filter_law [OF assms, of sets] cmm_handover.filter_law [OF assms, of sets]
    cmm_single.filter_law [OF assms, of sets]
  by (cases k) (auto simp: cmm_Filter_def returns_total)

lemma noop_Run_ok:
  assumes "lm_hasRic lm" "db_ok now k db"
  shows "returns True (\<lambda>(cmds, db'). db_ok now k db' \<and> cmds = []) (noop_Run stamp t lm db)"
  using lm_log_total [OF db_ok_answers [OF assms(2)] assms(1), of stamp t "''No action taken''"] assms same_data_ok
  by (auto simp: noop_Run_def returns_total)

lemma handover_commands_partial:
  fixes env :: "('x :: {minus,power,plus,ord}) lm_env"
  assumes "db_ok t k db" "lm_hasRic lm"
  shows "returns False (\<lambda>(cmds, db'). db_ok t k db' \<and> (\<forall>c\<in>set cmds. is_handover c))
    (GetHandoverCommands env now lm ues enbs db)"
  using assms(1)
proof (induction ues arbitrary: db)
  case (Cons ue ues)
  have scan: "returns False (\<lambda>(st', db'). db_ok t k db') (scan_enbs env now lm ue enbs st db)" for st
    using scan_enbs_fold [OF db_ok_answers [OF Cons.prems] assms(2), of env now ue enbs st] same_data_ok Cons.prems
    by (auto simp: returns_def split: option.splits)
  have log: "returns False (db_ok t k) (LogCommandLm now n c db1)" if "db_ok t k db1" for n c db1
    using log_total(3) [OF db_ok_answers [OF that], of now n c] same_data_ok that
    by (auto simp: returns_def split: option.splits)
  have lm_log: "returns False (db_ok t k) (lm_LogLogicToRepository (le_stamp env) now msg lm db1)"
    if "db_ok t k db1" for msg and db1 :: "'x oran_db"
    using lm_log_total [OF db_ok_answers [OF that] assms(2), of "le_stamp env" now msg] same_data_ok that
    by (auto simp: returns_def split: option.splits)
  have issue: "returns False (\<lambda>(cmds, db'). db_ok t k db' \<and> (\<forall>c\<in>set cmds. is_handover c))
      (Option.bind (LogCommandLm now (lm_name lm) (Lte2LteHandover n new rnti) db1) (\<lambda>db2.
       Option.bind (lm_LogLogicToRepository (le_stamp env) now msg lm db2) (\<lambda>db3.
       map_option (\<lambda>(cmds, db4). (Lte2LteHandover n new rnti # cmds, db4)) (GetHandoverCommands env now lm ues enbs db3))))"
    if "db_ok t k db1" for n new rnti msg db1
    by (rule returns_bind [OF log [OF that]], rule returns_bind [OF lm_log], assumption,
        rule returns_map [OF Cons.IH], assumption) auto
  show ?case
    unfolding GetHandoverCommands.simps Let_def
    apply (rule returns_bind [OF scan])
    apply (clarsimp split del: if_split)
    subgoal for old new db1
      using Cons.IH [of db1] issue [of db1] by (cases old) auto
    done
qed simp

lemma distance_Run_partial:
  fixes env :: "('x :: {minus,power,plus,ord}) lm_env"
  assumes "lm_hasRic lm" "db_ok t k db"
  shows "returns False (\<lambda>(cmds, db'). db_ok t k db' \<and> (\<forall>c\<in>set cmds. is_handover c)) (distance_Run env now lm db)"
proof -
  have any: "returns False (\<lambda>_. True) x" for x :: "'z option"
    by (cases x) auto
  show ?thesis
    unfolding distance_Run_def
    using assms by (auto intro!: returns_bind [OF any] handover_commands_partial)
qed

interpretation std: ric_parts "std_env ck lk (env :: ('x :: {minus,power,plus,ord}) lm_env) op" False is_handover
proof
  fix c :: oran_cmm and db and sets :: cmd_sets
  assume "cm_hasRic c" "db_answers (db :: 'x oran_db)"
  from cmm_Filter_ok [OF this, of sets ck]
  show "returns False (\<lambda>(out, c', msgs). cm_hasRic c' \<and> set out \<subseteq> set (all_commands sets))
      (re_filter (std_env ck lk env op) db sets c)"
    by (auto simp: std_env_def returns_total)
next
  fix lm :: oran_lm and now k and db :: "'x oran_db" and i t
  assume "lm_hasRic lm" "db_ok now k db"
  with noop_Run_ok [OF this, of "le_stamp env" t] distance_Run_partial [OF this, of env t]
  show "returns False (\<lambda>(cmds, db'). db_ok now k db' \<and> (\<forall>c\<in>set cmds. is_handover c))
      (re_logic (std_env ck lk env op) i t lm db)"
    by (cases "lk i") (auto simp: std_env_def lm_logic_def returns_total)
qed

interpretation noop: ric_parts "std_env ck (\<lambda>_. LmNoop) (env :: ('x :: {minus,power,plus,ord}) lm_env) op" True "\<lambda>_. False"
proof
  fix c :: oran_cmm and db and sets :: cmd_sets
  assume "cm_hasRic c" "db_answers (db :: 'x oran_db)"
  from cmm_Filter_ok [OF this, of sets ck]
  show "returns True (\<lambda>(out, c', msgs). cm_hasRic c' \<and> set out \<subseteq> set (all_commands sets))
      (re_filter (std_env ck (\<lambda>_. LmNoop) env op) db sets c)"
    by (simp add: std_env_def)
next
  fix lm :: oran_lm and now k and db :: "'x oran_db" and i t
  assume "lm_hasRic lm" "db_ok now k db"
  from noop_Run_ok [OF this, of "le_stamp env" t]
  show "returns True (\<lambda>(cmds, db'). db_ok now k db' \<and> (\<forall>c\<in>set cmds. False))
      (re_logic (std_env ck (\<lambda>_. LmNoop) env op) i t lm db)"
    by (auto simp: std_env_def lm_logic_def returns_total)
qed

end
