(* ===== verification/OranRicCycle.thy ===== *)
theory OranRicCycle
  imports OranRicStd
begin

text \<open>
  A cycle of the Near-RT RIC: without a maximum wait time the commands of all logic modules are
  collected, whatever the order in which the modules finish, filtered once and sent; with a maximum
  wait time late commands are dropped. The last section has what happens outside these conditions.
\<close>

section \<open>Collecting\<close>

lemma smap_ext:
  assumes "smap_wf m" "smap_wf m'" "map_of m = map_of m'"
  shows "m = m'"
proof -
  have d: "distinct (map fst m)" "distinct (map fst m')" "sorted (map fst m)" "sorted (map fst m')"
    using assms(1,2) by (simp_all add: smap_wf_def strict_sorted_iff)
  have mem: "e \<in> set m \<longleftrightarrow> e \<in> set m'" for e
    using d(1,2) assms(3) map_of_eq_Some_iff [of m "fst e" "snd e"] map_of_eq_Some_iff [of m' "fst e" "snd e"] by simp
  then have eq: "set m = set m'"
    by blast
  moreover have "inj_on fst (set m \<union> set m')"
    using d(1) eq by (simp add: distinct_map)
  ultimately show ?thesis
    using d by (intro map_sorted_distinct_set_unique [of fst]) (auto simp: distinct_map)
qed

definition lm_key :: "'x oran_ric \<Rightarrow> nat \<Rightarrow> string \<times> bool" where
  "lm_key r i = (lm_name (ric_lm r i), Some i = ric_defaultLm r)"

definition collected :: "'x oran_ric \<Rightarrow> nat list \<Rightarrow> cmd_sets" where
  "collected r is = foldr (\<lambda>i. smap_put (lm_key r i) (lm_commands (ric_lm r i))) is []"

lemma collected_Cons: "collected r (i # is) = smap_put (lm_key r i) (lm_commands (ric_lm r i)) (collected r is)"
  by (simp add: collected_def)

lemma collected_Nil [simp]: "collected r [] = []"
  by (simp add: collected_def)

lemma collected_wf: "smap_wf (collected r is)"
  by (induction "is") (simp_all add: collected_Cons)

lemma length_smap_put: "smap_wf m \<Longrightarrow> length (smap_put k v m) = (if smap_has m k then length m else Suc (length m))"
proof (induction k v m rule: smap_put.induct)
  case (2 k v k' v' m)
  then show ?case
    by (auto simp: smap_has_iff dest: less_asym)
qed simp

lemma collected_has: "smap_has (collected r is) k \<longleftrightarrow> k \<in> lm_key r ` set is"
  by (induction "is") (auto simp: collected_Cons)

lemma length_collected:
  "distinct (map (lm_key r) is) \<Longrightarrow> length (collected r is) = length is"
  by (induction "is") (simp_all add: collected_Cons length_smap_put collected_wf collected_has)

lemma map_of_collected:
  "distinct (map (lm_key r) is) \<Longrightarrow>
   map_of (collected r is) k = Some cs \<longleftrightarrow> (\<exists>i\<in>set is. lm_key r i = k \<and> lm_commands (ric_lm r i) = cs)"
proof (induction "is")
  case (Cons i "is")
  then show ?case
    by (cases "lm_key r i = k") (auto simp: collected_Cons image_iff)
qed simp

text \<open>The order does not matter.\<close>

lemma collected_perm:
  assumes "distinct (map (lm_key r) is)" "distinct js" "set is = set js"
  shows "collected r is = collected r js"
proof -
  have d: "distinct (map (lm_key r) js)"
    using assms by (simp add: distinct_map)
  have "map_of (collected r is) k = Some cs \<longleftrightarrow> map_of (collected r js) k = Some cs" for k cs
    using map_of_collected [OF assms(1), of k cs] map_of_collected [OF d, of k cs] assms(3) by simp
  then have "map_of (collected r is) = map_of (collected r js)"
    by (intro ext) (metis not_Some_eq)
  then show ?thesis
    by (rule smap_ext [OF collected_wf collected_wf])
qed

section \<open>The end of a cycle\<close>

definition delivered :: "ric_action list \<Rightarrow> oran_command list" where
  "delivered as = concat (map (\<lambda>a. case a of DeliverCommand _ c \<Rightarrow> [c] | _ \<Rightarrow> []) as)"

lemma delivered_simps [simp]:
  "delivered [] = []"
  "delivered (as @ bs) = delivered as @ delivered bs"
  "delivered (DeliverCommand n c # as) = c # delivered as"
  by (simp_all add: delivered_def)

lemma send_all_delivered:
  "et_send_all now cmds et db = Some (et', db', as) \<Longrightarrow> et_active et \<Longrightarrow> delivered as = cmds"
proof (induction cmds arbitrary: et db as)
  case (Cons c cmds)
  then obtain et1 db1 as1 as2 where 1: "et_SendCommand now c et db = Some (et1, db1, as1)"
    "et_send_all now cmds et1 db1 = Some (et', db', as2)" "as = as1 @ as2"
    by (auto split: Option.bind_splits)
  have "delivered as1 = [c]" "et_active et1"
    using 1(1) Cons.prems(2)
    by (cases "et_lookup (cmd_target c) et"; auto simp: et_SendCommand_def dest: et_lookup_active)+
  with Cons.IH [OF 1(2)] 1(3) show ?case
    by simp
qed simp

text \<open>All modules run for the current cycle and nothing has been collected.\<close>

definition cycle_started :: "'x oran_ric \<Rightarrow> bool" where
  "cycle_started r \<longleftrightarrow> ric_active r \<and> ric_lmQueryMaxWaitTime r = 0 \<and> ric_lmQueryCommands r = [] \<and>
     distinct (map (lm_key r) (ric_lms r)) \<and>
     (\<forall>i\<in>set (ric_lms r). lm_active (ric_lm r i) \<and> lm_finishRunEvent (ric_lm r i) \<and> lm_hasRic (ric_lm r i) \<and>
        lm_cycle (ric_lm r i) = ric_lmQueryCycle r)"

definition finish_lms :: "nat list \<Rightarrow> (nat \<Rightarrow> oran_lm) \<Rightarrow> nat \<Rightarrow> oran_lm" where
  "finish_lms is lm = (\<lambda>i. if i \<in> set is then (lm i)\<lparr>lm_finishRunEvent := False, lm_commands := []\<rparr> else lm i)"

definition partway :: "'x oran_ric \<Rightarrow> nat list \<Rightarrow> 'x oran_ric" where
  "partway r is = r\<lparr>ric_lm := finish_lms is (ric_lm r), ric_lmQueryCommands := collected r is\<rparr>"

lemma partway_simps [simp]:
  "ric_lms (partway r is) = ric_lms r" "lm_key (partway r is) = lm_key r"
  "ric_lmQueryCycle (partway r is) = ric_lmQueryCycle r"
  "ric_lmQueryMaxWaitTime (partway r is) = ric_lmQueryMaxWaitTime r"
  "ric_lmQueryCommands (partway r is) = collected r is"
  "ric_additionalLms (partway r is) = ric_additionalLms r"
  "i \<notin> set is \<Longrightarrow> ric_lm (partway r is) i = ric_lm r i"
  by (auto simp: partway_def finish_lms_def ric_lms_def lm_key_def)

lemma partway_Nil: "ric_lmQueryCommands r = [] \<Longrightarrow> partway r [] = r"
  by (simp add: partway_def finish_lms_def)

lemma length_ric_lms: "length (ric_lms r) = Suc (length (ric_additionalLms r))"
  by (simp add: ric_lms_def)

text \<open>A module that finishes before the last one.\<close>

lemma collected_again:
  "distinct (map (lm_key r) (j # js)) \<Longrightarrow> \<not> smap_has (collected r js) (lm_key r j)"
  by (auto simp: collected_has)

lemma FinishRun_collects:
  assumes st: "cycle_started r" and j: "distinct (j # js)" "set (j # js) \<subseteq> set (ric_lms r)" "length (j # js) < length (ric_lms r)"
  shows "ric_handle env now (EvFinishRun j) (partway r js) = Some (partway r (j # js), [])"
proof -
  have lm: "lm_active (ric_lm r j)" "lm_finishRunEvent (ric_lm r j)" "lm_hasRic (ric_lm r j)"
    "lm_cycle (ric_lm r j) = ric_lmQueryCycle r"
    using st j(2) by (auto simp: cycle_started_def)
  have "inj_on (lm_key r) (set (ric_lms r))"
    using st by (simp add: cycle_started_def distinct_map)
  then have dist: "distinct (map (lm_key r) (j # js))"
    using j(1) inj_on_subset [OF _ j(2)] by (simp only: distinct_map simp_thms)
  define r1 where "r1 = (partway r js)\<lparr>ric_lm := (ric_lm (partway r js))(j := (ric_lm r j)\<lparr>lm_finishRunEvent := False\<rparr>)\<rparr>"
  have key: "(lm_name (ric_lm r1 j), Some j = ric_defaultLm r1) = lm_key r j"
    by (simp add: r1_def partway_def lm_key_def)
  have none: "map_of (collected r js) (lm_key r j) = None" "\<not> smap_has (collected r js) (lm_key r j)"
    using collected_again [OF dist] by (simp_all add: smap_has_def)
  have len: "length (collected r (j # js)) \<noteq> length (ric_additionalLms r) + 1"
    using length_collected [OF dist] j(3) by (simp add: length_ric_lms)
  have notify: "ric_NotifyLmFinished env now (ric_lmQueryCycle r) (lm_commands (ric_lm r j)) j r1 =
      Some (r1\<lparr>ric_lmQueryCommands := collected r (j # js)\<rparr>, [])"
    unfolding ric_NotifyLmFinished_def Let_def key
    using st len none by (simp add: r1_def cycle_started_def collected_Cons)
  have "ric_FinishRun env now j (partway r js) =
      Some ((r1\<lparr>ric_lmQueryCommands := collected r (j # js)\<rparr>)
        \<lparr>ric_lm := (ric_lm r1)(j := (ric_lm r1 j)\<lparr>lm_commands := []\<rparr>)\<rparr>, [])"
    using lm j(1) notify by (simp add: ric_FinishRun_def Let_def r1_def)
  also have "(r1\<lparr>ric_lmQueryCommands := collected r (j # js)\<rparr>)
        \<lparr>ric_lm := (ric_lm r1)(j := (ric_lm r1 j)\<lparr>lm_commands := []\<rparr>)\<rparr> = partway r (j # js)"
    by (simp add: r1_def partway_def finish_lms_def fun_eq_iff)
  finally show ?thesis
    using lm j(1) by simp
qed


lemma ric_run_append:
  "ric_run env (es @ fs) r =
     Option.bind (ric_run env es r) (\<lambda>(r1, as1). map_option (\<lambda>(r2, as2). (r2, as1 @ as2)) (ric_run env fs r1))"
proof (induction es arbitrary: r)
  case (Cons e es)
  obtain now ev where e: "e = (now, ev)"
    by (cases e)
  show ?case
    by (cases "ric_handle env now ev r") (auto simp: e Cons option.map_comp comp_def case_prod_beta bind_map_option map_option_bind)
qed (simp add: case_prod_beta option.map_ident [folded id_def] option.map_id)

text \<open>Before the last module nothing is sent.\<close>

lemma partway_run:
  assumes st: "cycle_started r"
    and "distinct is" "set is \<subseteq> set (ric_lms r)" "length is < length (ric_lms r)" "map snd evs = map EvFinishRun is"
  shows "ric_run env evs r = Some (partway r (rev is), [])"
  using assms(2-)
proof (induction "is" arbitrary: evs rule: rev_induct)
  case Nil
  then show ?case
    using st by (simp add: partway_Nil cycle_started_def)
next
  case (snoc i "is")
  then obtain evs' now where evs: "evs = evs' @ [(now, EvFinishRun i)]" "map snd evs' = map EvFinishRun is"
    by (cases evs rule: rev_cases) auto
  have "ric_handle env now (EvFinishRun i) (partway r (rev is)) = Some (partway r (i # rev is), [])"
    using snoc.prems by (intro FinishRun_collects [OF st]) auto
  moreover have "ric_run env evs' r = Some (partway r (rev is), [])"
    using snoc evs(2) by simp
  ultimately show ?case
    by (simp add: evs(1) ric_run_append)
qed

lemma sets_ok_collected: "\<forall>i. \<forall>c\<in>set (lm_commands (ric_lm r i)). P c \<Longrightarrow> sets_ok P (collected r is)"
  by (induction "is") (auto simp: collected_Cons intro: sets_ok_put)

lemma ric_inv_finish:
  assumes "ric_inv P now k r" "sets_ok P sets"
    and "\<And>i. lm_hasRic (lm i) = lm_hasRic (ric_lm r i) \<and> lm_active (lm i) = lm_active (ric_lm r i) \<and>
      lm_cycle (lm i) = lm_cycle (ric_lm r i) \<and> (lm_finishRunEvent (lm i) \<longrightarrow> lm_finishRunEvent (ric_lm r i)) \<and>
      set (lm_commands (lm i)) \<subseteq> set (lm_commands (ric_lm r i))"
  shows "ric_inv P now k (r\<lparr>ric_lm := lm, ric_lmQueryCommands := sets\<rparr>)"
proof -
  have "lms_ok is t P lm" if "lms_ok is t P (ric_lm r)" for "is" t
    using that assms(3) by (fastforce simp: lms_ok_def)
  then show ?thesis
    using assms(1,2) by (auto simp: ric_inv_def ric_idle_def ric_complete_def ric_lms_def)
qed

context ric_parts
begin

lemma process_sends:
  assumes "tot" and inv: "ric_inv P now k r" "ric_active r" and c: "ric_cmm r = Some c" and db: "ric_data r = Some db"
  shows "\<exists>r' as out c' msgs. ric_ProcessLmQueryCommands env now r = Some (r', as) \<and>
    re_filter env db (ric_lmQueryCommands r) c = Some (out, c', msgs) \<and> delivered as = out \<and> ric_lmQueryCommands r' = []"
proof -
  obtain r' as where run: "ric_ProcessLmQueryCommands env now r = Some (r', as)"
    using Process_ok [OF inv(1)] assms(1) by (auto simp: returns_total)
  obtain et where et: "ric_e2Terminator r = Some et" "et_active et"
    using inv by (auto simp: ric_inv_def ric_idle_def)
  from run show ?thesis
    using inv(2) c db et
    by (auto simp: ric_ProcessLmQueryCommands_def et_ProcessCommands_def bind_eq_Some_conv send_all_delivered)
qed

lemma last_FinishRun:
  assumes "tot" and inv: "ric_inv P now k r" and st: "cycle_started r" and c: "ric_cmm r = Some c" and db: "ric_data r = Some db"
    and j: "distinct (j # js)" "set (j # js) \<subseteq> set (ric_lms r)" "length (j # js) = length (ric_lms r)"
  shows "\<exists>r' as out c' msgs. ric_handle env now (EvFinishRun j) (partway r js) = Some (r', as) \<and>
    re_filter env db (collected r (j # js)) c = Some (out, c', msgs) \<and> delivered as = out \<and> ric_lmQueryCommands r' = []"
proof -
  have lm: "lm_active (ric_lm r j)" "lm_finishRunEvent (ric_lm r j)" "lm_hasRic (ric_lm r j)"
    "lm_cycle (ric_lm r j) = ric_lmQueryCycle r"
    using st j(2) by (auto simp: cycle_started_def)
  have "inj_on (lm_key r) (set (ric_lms r))"
    using st by (simp add: cycle_started_def distinct_map)
  then have dist: "distinct (map (lm_key r) (j # js))"
    using j(1) inj_on_subset [OF _ j(2)] by (simp only: distinct_map simp_thms)
  define r1 where "r1 = (partway r js)\<lparr>ric_lm := (ric_lm (partway r js))(j := (ric_lm r j)\<lparr>lm_finishRunEvent := False\<rparr>)\<rparr>"
  have key: "(lm_name (ric_lm r1 j), Some j = ric_defaultLm r1) = lm_key r j"
    by (simp add: r1_def partway_def lm_key_def)
  have none: "map_of (collected r js) (lm_key r j) = None" "\<not> smap_has (collected r js) (lm_key r j)"
    using collected_again [OF dist] by (simp_all add: smap_has_def)
  have len: "length (collected r (j # js)) = length (ric_additionalLms r) + 1"
    using length_collected [OF dist] j(3) by (simp add: length_ric_lms)
  define r2 where "r2 = r1\<lparr>ric_lmQueryCommands := collected r (j # js)\<rparr>"
  have notify: "ric_NotifyLmFinished env now (ric_lmQueryCycle r) (lm_commands (ric_lm r j)) j r1 =
      ric_ProcessLmQueryCommands env now r2"
    unfolding ric_NotifyLmFinished_def Let_def key r2_def
    using st len none by (simp add: r1_def cycle_started_def collected_Cons)
  have "sets_ok P (collected r (j # js))"
    using inv by (intro sets_ok_collected) (simp add: ric_inv_def lms_ok_def)
  then have "ric_inv P now k (r\<lparr>ric_lm := ric_lm r2, ric_lmQueryCommands := collected r (j # js)\<rparr>)"
    by (rule ric_inv_finish [OF inv]) (simp add: r2_def r1_def partway_def finish_lms_def)
  moreover have "r\<lparr>ric_lm := ric_lm r2, ric_lmQueryCommands := collected r (j # js)\<rparr> = r2"
    by (simp add: r2_def r1_def partway_def)
  ultimately have "ric_inv P now k r2"
    by simp
  moreover have "ric_active r2" "ric_cmm r2 = Some c" "ric_data r2 = Some db" "ric_lmQueryCommands r2 = collected r (j # js)"
    using st c db by (simp_all add: r2_def r1_def partway_def cycle_started_def)
  ultimately obtain r' as out c' msgs where 1: "ric_ProcessLmQueryCommands env now r2 = Some (r', as)"
    "re_filter env db (collected r (j # js)) c = Some (out, c', msgs)" "delivered as = out" "ric_lmQueryCommands r' = []"
    using process_sends [OF assms(1)] by metis
  then show ?thesis
    using lm j(1) notify by (simp add: ric_FinishRun_def Let_def r1_def)
qed

lemma cycle_end:
  assumes "tot" and inv: "ric_inv P now (length evs) r" and st: "cycle_started r"
    and c: "ric_cmm r = Some c" and db: "ric_data r = Some db"
    and "is": "distinct is" "set is = set (ric_lms r)" and evs: "map snd evs = map EvFinishRun is" "from_time now evs"
  shows "\<exists>r' as out c' msgs. ric_run env evs r = Some (r', as) \<and>
    re_filter env db (collected r (ric_lms r)) c = Some (out, c', msgs) \<and> delivered as = out \<and> ric_lmQueryCommands r' = []"
proof -
  have dist: "distinct (map (lm_key r) (ric_lms r))" "distinct (ric_lms r)"
    using st by (simp_all add: cycle_started_def distinct_map)
  have len: "length is = length (ric_lms r)"
    using "is" dist(2) by (metis distinct_card)
  then obtain js j where js: "is = js @ [j]"
    by (cases "is" rule: rev_cases) (auto simp: length_ric_lms)
  with evs obtain evs' tm where e: "evs = evs' @ [(tm, EvFinishRun j)]" "map snd evs' = map EvFinishRun js"
    by (cases evs rule: rev_cases) auto
  have tm: "now \<le> tm"
    using evs(2) unfolding e(1) by (induction evs' arbitrary: now) (auto intro: order.trans)
  have run: "ric_run env evs' r = Some (partway r (rev js), [])"
    using "is" js len e(2) by (intro partway_run [OF st]) auto
  have inv': "ric_inv P tm (length evs) r"
    by (rule ric_inv_later [OF inv tm])
  have j: "distinct (j # rev js)" "set (j # rev js) \<subseteq> set (ric_lms r)" "length (j # rev js) = length (ric_lms r)"
    using "is" js len by auto
  obtain r' as out c' msgs where fin: "ric_handle env tm (EvFinishRun j) (partway r (rev js)) = Some (r', as)"
    "re_filter env db (collected r (j # rev js)) c = Some (out, c', msgs)" "delivered as = out" "ric_lmQueryCommands r' = []"
    using last_FinishRun [OF assms(1) inv' st c db j] by blast
  have "collected r (ric_lms r) = collected r (j # rev js)"
    using "is" js by (intro collected_perm [OF dist(1)]) auto
  with fin run show ?thesis
    by (simp add: e(1) ric_run_append)
qed

end

section \<open>Late commands\<close>

lemma late_dropped:
  assumes "ric_lmQueryMaxWaitTime r \<noteq> 0" "ric_processLmQueryCommandsEvent r = None"
    "ric_lmQueryLateCommandPolicy r = DROP" "ric_lmQueryCommands r = []"
    "lm_active (ric_lm r i) \<longrightarrow> lm_hasRic (ric_lm r i) \<and> lm_cycle (ric_lm r i) = ric_lmQueryCycle r"
  shows "\<exists>r'. ric_handle env now (EvFinishRun i) r = Some (r', []) \<and> ric_lmQueryCommands r' = []"
  using assms by (auto simp: ric_FinishRun_def ric_NotifyLmFinished_def Let_def)

section \<open>A stopped RIC\<close>

definition ric_stopped :: "'x oran_ric \<Rightarrow> bool" where
  "ric_stopped r \<longleftrightarrow> \<not> ric_active r \<and> (\<exists>et. ric_e2Terminator r = Some et \<and> \<not> et_active et) \<and> ric_data r \<noteq> None \<and>
     (\<forall>i. \<not> (lm_active (ric_lm r i) \<and> lm_finishRunEvent (ric_lm r i)))"

lemma lms_Deactivate_eq:
  "lms_Deactivate stamp now is lm db =
     Some ((\<lambda>i. if i \<in> set is then (lm i)\<lparr>lm_active := False\<rparr> else lm i), db)"
  by (induction "is" arbitrary: lm) (auto simp: lm_Deactivate_keeps_run fun_eq_iff)

lemma Stop_stops:
  assumes "ric_inv P now k r" "ric_active r"
  shows "\<exists>r'. ric_Stop env now r = Some r' \<and> ric_stopped r' \<and> ric_lms r' = ric_lms r"
proof -
  have "\<exists>r'. ric_Deactivate env now r = Some r' \<and> ric_stopped r' \<and> ric_lms r' = ric_lms r"
    using assms
    by (auto simp: ric_Deactivate_def lms_Deactivate_eq ric_inv_def ric_idle_def ric_complete_def ric_stopped_def
          et_Deactivate_def ric_lms_def lms_ok_def)
  then show ?thesis
    by (auto simp: ric_Stop_def ric_stopped_def ric_lms_def)
qed

lemma stopped_silent:
  assumes "ric_stopped r"
  shows "\<exists>r'. ric_handle env now ev r = Some (r', []) \<and> ric_stopped r' \<and> ric_data r' = ric_data r"
proof -
  obtain et db where r: "ric_e2Terminator r = Some et" "\<not> et_active et" "ric_data r = Some db" "\<not> ric_active r"
    using assms by (auto simp: ric_stopped_def)
  show ?thesis
    using assms r
    by (cases ev)
       (auto simp: ric_stopped_def ric_QueryLms_def ric_CheckForInactivity_def ric_ProcessLmQueryCommands_def
          ric_FinishRun_def Let_def et_ReceiveRegistrationRequest_def et_ReceiveDeregistrationRequest_def
          ric_ReceiveReport_def split: list.splits)
qed

lemma stopped_run_silent:
  "ric_stopped r \<Longrightarrow> \<exists>r'. ric_run env evs r = Some (r', []) \<and> ric_stopped r' \<and> ric_data r' = ric_data r"
proof (induction evs arbitrary: r)
  case (Cons te evs)
  obtain tm ev where te: "te = (tm, ev)"
    by (cases te)
  obtain r1 where "ric_handle env tm ev r = Some (r1, [])" "ric_stopped r1" "ric_data r1 = ric_data r"
    using stopped_silent [OF Cons.prems] by blast
  with Cons.IH [of r1] show ?case
    by (auto simp: te)
qed simp

end
