(* ===== verification/OranInactivity.thy ===== *)
theory OranInactivity
  imports OranRicCycle
begin

text \<open>
  The check for inactivity of the Near-RT RIC: it deregisters exactly the registered nodes whose last
  registration request is older than the threshold.
\<close>

section \<open>The newest row of a node\<close>

definition node_rows :: "u64 \<Rightarrow> 'x db_tables \<Rightarrow> registration_row list" where
  "node_rows n t = filter (\<lambda>r. rg_nodeid r = n) (t_registration t)"

definition last_seen :: "u64 \<Rightarrow> 'x db_tables \<Rightarrow> time_ns" where
  "last_seen n t = Max (rg_time ` set (node_rows n t))"

lemma foldr_max_Max: "foldr max xs (x :: 'a :: linorder) = Max (set (x # xs))"
  by (induction xs) (auto simp: insert_commute)

text \<open>The newest rows of a node agree on whether it is registered.\<close>

definition rows_agree :: "'x db_tables \<Rightarrow> bool" where
  "rows_agree t \<longleftrightarrow> (\<forall>r\<in>set (t_registration t). \<forall>r'\<in>set (t_registration t).
     rg_nodeid r = rg_nodeid r' \<and> rg_time r = rg_time r' \<longrightarrow> rg_registered r = rg_registered r')"

lemma sort_key_eq_Nil [simp]: "sort_key f xs = [] \<longleftrightarrow> xs = []"
  by (metis set_empty set_sort)

lemma last_sort_key:
  assumes "xs \<noteq> []"
  shows "last (sort_key f xs) \<in> set xs" "\<forall>y\<in>set xs. f y \<le> f (last (sort_key f xs))"
proof -
  let ?s = "sort_key f xs"
  have s: "?s = butlast ?s @ [last ?s]"
    using assms by simp
  show "last ?s \<in> set xs"
    using assms last_in_set [of ?s] by simp
  have "sorted (map f (butlast ?s @ [last ?s]))"
    using s by simp
  then have "\<forall>y\<in>set (butlast ?s @ [last ?s]). f y \<le> f (last ?s)"
    by (auto simp: sorted_append)
  then show "\<forall>y\<in>set xs. f y \<le> f (last ?s)"
    using s by (metis set_sort)
qed

lemma reg_newest_rows:
  assumes "rows_agree t"
  shows "reg_newest n t \<longleftrightarrow> node_rows n t \<noteq> [] \<and>
    (\<forall>r\<in>set (node_rows n t). rg_time r = last_seen n t \<longrightarrow> rg_registered r)"
proof (cases "node_rows n t = []")
  case True
  then show ?thesis
    by (simp add: reg_newest_def CHECK_NODE_REGISTERED_def order_desc_def node_rows_def)
next
  case False
  let ?r = "last (sort_key rg_time (node_rows n t))"
  have r: "?r \<in> set (node_rows n t)" "\<forall>y\<in>set (node_rows n t). rg_time y \<le> rg_time ?r"
    using last_sort_key [OF False, of rg_time] by blast+
  then have seen: "last_seen n t = rg_time ?r"
    unfolding last_seen_def by (intro Max_eqI) auto
  have "foldl (\<lambda>_ b. b) False (map rg_registered (take 1 (rev ys))) = rg_registered (last ys)"
    if "ys \<noteq> []" for ys :: "registration_row list"
    using that by (cases ys rule: rev_cases) simp_all
  then have check: "reg_newest n t \<longleftrightarrow> rg_registered ?r"
    using False unfolding reg_newest_def CHECK_NODE_REGISTERED_def order_desc_def node_rows_def [symmetric]
    by simp
  have agree: "rg_registered y = rg_registered ?r" if "y \<in> set (node_rows n t)" "rg_time y = rg_time ?r" for y
    using assms that r(1) by (simp add: rows_agree_def node_rows_def)
  show ?thesis
    unfolding check seen using False r(1) agree by blast
qed

section \<open>The query\<close>

text \<open>SQLite takes the value of one of the newest rows.\<close>

definition tie_picks :: "(bool list \<Rightarrow> bool) \<Rightarrow> bool" where
  "tie_picks tie \<longleftrightarrow> (\<forall>bs. bs \<noteq> [] \<longrightarrow> tie bs \<in> set bs)"

lemma last_registrations_registered:
  assumes "rows_agree t" "tie_picks tie" "reg_newest n t"
  shows "(n, tm) \<in> set (GET_ALL_LAST_REGISTRATION_TIMES tie t) \<longleftrightarrow> tm = last_seen n t"
proof -
  have rows: "node_rows n t \<noteq> []" "\<forall>r\<in>set (node_rows n t). rg_time r = last_seen n t \<longrightarrow> rg_registered r"
    using assms(1,3) by (simp_all add: reg_newest_rows)
  have newest: "foldr max (map rg_time (tl (node_rows n t))) (rg_time (hd (node_rows n t))) = last_seen n t"
    using rows(1) by (cases "node_rows n t") (simp_all add: foldr_max_Max last_seen_def)
  let ?bs = "map rg_registered (filter (\<lambda>r. rg_time r = last_seen n t) (node_rows n t))"
  have "last_seen n t \<in> rg_time ` set (node_rows n t)"
    unfolding last_seen_def using rows(1) by (intro Max_in) auto
  then have "?bs \<noteq> []"
    by (auto simp: filter_empty_conv)
  then have "tie ?bs \<in> set ?bs"
    using assms(2) by (simp only: tie_picks_def simp_thms)
  then have tie: "tie ?bs"
    using rows(2) by auto
  have mem: "n \<in> rg_nodeid ` set (t_registration t)"
    using rows(1) by (auto simp: node_rows_def filter_empty_conv)
  show ?thesis
    using tie mem newest unfolding GET_ALL_LAST_REGISTRATION_TIMES_def last_registrations_def Let_def node_rows_def
    by auto
qed

section \<open>Deregistration\<close>

lemma deregister_inactive_effect:
  assumes "db_ok now k db" "et_active et"
  shows "\<exists>et' db' as. deregister_inactive now thr regs et db = Some (et', db', as) \<and> et_active et' \<and> db_ok now k db' \<and>
    registered_nodes db' = registered_nodes db - {n. \<exists>t. (n, t) \<in> set regs \<and> now - t > thr}"
  using assms
proof (induction regs arbitrary: et db)
  case (Cons x regs)
  obtain n t where x: "x = (n, t)"
    by (cases x)
  obtain et1 db1 as1 where 1: "(if now - t > thr then et_ReceiveDeregistrationRequest now n et db else Some (et, db, [])) =
      Some (et1, db1, as1)" "et_active et1" "db_ok now k db1"
    "registered_nodes db1 = registered_nodes db - (if now - t > thr then {n} else {})"
  proof (cases "now - t > thr")
    case True
    obtain db1 where "DeregisterNode now n db = Some (n, db1)" "db_ok now k db1" "registered_nodes db1 = registered_nodes db - {n}"
      using DeregisterNode_law [OF Cons.prems(1)] by blast
    moreover obtain tm et1 where "et_lookup n et = (tm, et1)"
      by (cases "et_lookup n et")
    ultimately show ?thesis
      using that True Cons.prems(2) by (simp add: et_ReceiveDeregistrationRequest_def et_lookup_active)
  qed (use Cons.prems that in simp)
  obtain et2 db2 as2 where 2: "deregister_inactive now thr regs et1 db1 = Some (et2, db2, as2)" "et_active et2" "db_ok now k db2"
    "registered_nodes db2 = registered_nodes db1 - {n. \<exists>t. (n, t) \<in> set regs \<and> now - t > thr}"
    using Cons.IH [OF 1(3,2)] by blast
  have "registered_nodes db2 = registered_nodes db - {m. \<exists>s. (m, s) \<in> set (x # regs) \<and> now - s > thr}"
    unfolding 2(4) 1(4) x by auto
  with 1(1) 2 show ?case
    unfolding x deregister_inactive.simps by simp
qed simp

text \<open>The check of the RIC.\<close>

lemma inactivity_spec:
  assumes inv: "ric_inv P now k r" and act: "ric_active r" and db: "ric_data r = Some db" "db_conn db = Some t"
    and agree: "rows_agree t" and tie: "tie_picks (re_tie env)"
  shows "\<exists>r' db' as. ric_CheckForInactivity env now r = Some (r', as) \<and> ric_data r' = Some db' \<and>
    registered_nodes db' = {n \<in> registered_nodes db. now - last_seen n t \<le> ric_e2NodeInactivityThreshold r}"
proof -
  obtain et where et: "ric_e2Terminator r = Some et" "et_active et" "db_ok now k db"
    using inv act db by (auto simp: ric_inv_def ric_idle_def)
  have dba: "db_active db"
    using et(3) by (simp add: db_ok_def)
  let ?regs = "GET_ALL_LAST_REGISTRATION_TIMES (re_tie env) t" and ?thr = "ric_e2NodeInactivityThreshold r"
  have regs: "GetLastRegistrationRequests (re_tie env) db = Some ?regs"
    using dba db by (simp add: GetLastRegistrationRequests_def)
  obtain et' db' as where run: "deregister_inactive now ?thr ?regs et db = Some (et', db', as)"
    "registered_nodes db' = registered_nodes db - {n. \<exists>tm. (n, tm) \<in> set ?regs \<and> now - tm > ?thr}"
    using deregister_inactive_effect [OF et(3,2)] by blast
  have "(\<exists>tm. (n, tm) \<in> set ?regs \<and> now - tm > ?thr) \<longleftrightarrow> now - last_seen n t > ?thr" if "n \<in> registered_nodes db" for n
    using that last_registrations_registered [OF agree tie, of n] registered_nodes_newest [OF dba db(2)] by auto
  then have "registered_nodes db' = {n \<in> registered_nodes db. now - last_seen n t \<le> ?thr}"
    unfolding run(2) by (auto simp: not_less) (meson not_less)
  with run(1) act db et regs show ?thesis
    by (simp add: ric_CheckForInactivity_def)
qed

end
