(* ===== verification/OranRicCases.thy ===== *)
theory OranRicCases
  imports OranInactivity
begin

text \<open>
  Runs of the Near-RT RIC outside the conditions of the properties, each evaluated: commands that are
  saved and then lost, commands of different cycles that are mixed, modules that are exchanged while
  they run, a second query while commands are awaited, and commands for unknown nodes.
\<close>

section \<open>An example RIC\<close>

text \<open>
  Module i issues one command, for the node t + i + 1 in the cycle at time t; module 0 is the default
  module.
\<close>

definition ex_env :: "int ric_env" where
  "ex_env = \<lparr>re_filter = cmm_noop_Filter,
     re_logic = (\<lambda>i now lm db. Some ([OranCommand (of_int (now) + of_nat i + 1)], db)),
     re_stamp = (\<lambda>_. []), re_tie = hd, re_open = True\<rparr>"

definition ex_lm :: "string \<Rightarrow> oran_lm" where
  "ex_lm name = (lm_init name)\<lparr>lm_hasRic := True\<rparr>"

definition ex_ric :: "int oran_ric" where
  "ex_ric = ric_init\<lparr>ric_e2Terminator := Some \<lparr>et_active = False, et_nodeTerminators = []\<rparr>,
     ric_data := Some (db_init\<lparr>db_path := '':memory:''\<rparr>), ric_defaultLm := Some 0,
     ric_additionalLms := [(''b'', 1)], ric_cmm := Some ((cmm_init ''c'')\<lparr>cm_hasRic := True\<rparr>),
     ric_lm := (\<lambda>i. if i = 0 then ex_lm ''a'' else if i = 1 then ex_lm ''b'' else ex_lm ''d'')\<rparr>"

definition commands_of :: "('x oran_ric \<times> ric_action list) option \<Rightarrow> u64 list option" where
  "commands_of x = map_option (\<lambda>(r, as). map cmd_target (delivered as)) x"

definition start_run :: "'x ric_env \<Rightarrow> (time_ns \<times> 'x ric_event) list \<Rightarrow> 'x oran_ric \<Rightarrow> ('x oran_ric \<times> ric_action list) option" where
  "start_run env evs r = (case ric_Start env 0 r of None \<Rightarrow> None | Some r1 \<Rightarrow> ric_run env evs r1)"

text \<open>Equations for evaluation, which does not go below a case.\<close>

lemma ric_run_code [code]:
  "ric_run env [] r = Some (r, [])"
  "ric_run env ((now, ev) # evs) r =
     (case ric_handle env now ev r of
        None \<Rightarrow> None
      | Some (r1, as1) \<Rightarrow> (case ric_run env evs r1 of None \<Rightarrow> None | Some (r2, as2) \<Rightarrow> Some (r2, as1 @ as2)))"
  by (auto split: option.splits)

text \<open>A cycle: the commands of both modules are sent when the second one is done.\<close>

lemma ex_cycle:
  "commands_of (start_run ex_env [(50, EvQueryLms), (51, EvFinishRun 1), (52, EvFinishRun 0)] ex_ric)
     = Some [51, 52]"
  by code_simp

section \<open>Saved commands are lost\<close>

text \<open>
  The entry of a module is emptied before its new commands are added, so what was saved for it does not
  reach the next cycle.
\<close>

lemma notify_replaces:
  assumes "cycle = ric_lmQueryCycle r" "ric_processLmQueryCommandsEvent r \<noteq> None"
    "length (smap_put (lm_key r i) commands (ric_lmQueryCommands r)) \<noteq> length (ric_additionalLms r) + 1"
    "smap_wf (ric_lmQueryCommands r)"
  shows "ric_NotifyLmFinished env now cycle commands i r =
    Some (r\<lparr>ric_lmQueryCommands := smap_put (lm_key r i) commands (ric_lmQueryCommands r)\<rparr>, [])"
proof -
  have put: "smap_put k v (smap_put k w m) = smap_put k v m" for k :: "string \<times> bool" and v w :: "oran_command list" and m
    by (induction k w m rule: smap_put.induct) auto
  define k where "k = lm_key r i"
  have "smap_put k ((case map_of (if smap_has (ric_lmQueryCommands r) k then smap_put k [] (ric_lmQueryCommands r)
        else ric_lmQueryCommands r) k of Some cs \<Rightarrow> cs | None \<Rightarrow> []) @ commands)
      (if smap_has (ric_lmQueryCommands r) k then smap_put k [] (ric_lmQueryCommands r) else ric_lmQueryCommands r)
    = smap_put k commands (ric_lmQueryCommands r)"
    by (simp add: put smap_has_def)
  then show ?thesis
    using assms unfolding ric_NotifyLmFinished_def Let_def lm_key_def [symmetric] k_def [symmetric]
    by simp
qed

lemma saved_commands_lost:
  "commands_of (start_run ex_env
     [(50, EvQueryLms), (51, EvFinishRun 0), (55, EvProcess), (56, EvFinishRun 1),
      (100, EvQueryLms), (101, EvFinishRun 1), (102, EvFinishRun 0)]
     (ex_ric\<lparr>ric_lmQueryMaxWaitTime := 5, ric_lmQueryLateCommandPolicy := SAVE\<rparr>)) = Some [51, 101, 102]"
  by code_simp

section \<open>Commands of different cycles\<close>

text \<open>
  Without a maximum wait time what a module has reported stays when the cycle ends before the other
  modules have finished: in the next cycle the first report of the other module sends it, and the
  module that reported first is one cycle late from then on.
\<close>

lemma stale_commands_sent:
  "commands_of (start_run ex_env
     [(50, EvQueryLms), (51, EvFinishRun 1),
      (100, EvQueryLms), (101, EvFinishRun 0)] ex_ric) = Some [101, 52]"
  by code_simp

section \<open>Modules that are exchanged\<close>

lemma removed_module_aborts:
  "(case start_run ex_env [(50, EvQueryLms)] ex_ric of
      Some (r, as) \<Rightarrow>
        (case ric_RemoveLogicModule ''b'' r of
           (res, r1) \<Rightarrow> res = DELLM_OK \<and>
             ric_run ex_env [(51, EvFinishRun 0), (100, EvQueryLms), (101, EvFinishRun 1)] r1 = None)
    | None \<Rightarrow> False)"
  by code_simp

text \<open>A module that is added to an active RIC is not activated, so no cycle ends any more.\<close>

lemma added_module_blocks:
  "(case start_run ex_env [] ex_ric of
      Some (r, as) \<Rightarrow>
        (case ric_AddLogicModule 2 r of
           (res, r1) \<Rightarrow> res = ADDLM_OK \<and>
             commands_of (ric_run ex_env [(50, EvQueryLms), (51, EvFinishRun 0), (52, EvFinishRun 1),
               (53, EvFinishRun 2)] r1) = Some [])
    | None \<Rightarrow> False)"
  by code_simp

section \<open>A second query\<close>

text \<open>
  A query that a report triggers while commands are awaited schedules a second event for the end of the
  wait and forgets the first, which then sends the commands of the second cycle too early.
\<close>

lemma early_processing:
  "commands_of (start_run ex_env
     [(50, EvQueryLms), (51, EvReport (OtherReport 1 0)), (54, EvFinishRun 0),
      (55, EvLostProcess), (55, EvFinishRun 1)]
     (ex_ric\<lparr>ric_lmQueryMaxWaitTime := 5, ric_queryTriggers := [(''t'', \<lambda>_. True)]\<rparr>)) = Some [52]"
  by code_simp

section \<open>Unknown nodes\<close>

text \<open>A command for a node that never registered is delivered to a null terminator.\<close>

lemma unknown_node_null:
  "(case start_run ex_env [(50, EvQueryLms), (51, EvFinishRun 1), (52, EvFinishRun 0)] ex_ric of
      Some (r, as) \<Rightarrow> as = [DeliverCommand None (OranCommand 51), DeliverCommand None (OranCommand 52)]
    | None \<Rightarrow> False)"
  by code_simp

end
