(* ===== verification/OranProps.thy ===== *)
theory OranProps
  imports OranRicCases
begin

text \<open>
  The properties of the O-RAN control loop: the repository, the logic modules, the conflict mitigation
  modules and the Near-RT RIC.
\<close>

section \<open>The Near-RT RIC\<close>

lemma ex_parts: "ric_parts ex_env True (\<lambda>c. \<not> is_handover c)"
  by unfold_locales (auto simp: ex_env_def cmm_noop_Filter_def)

lemma ex_configured: "ric_configured ex_ric"
  by (auto simp: ric_configured_def ric_complete_def ex_ric_def ric_init_def ric_lms_def db_init_def ex_lm_def
      lm_init_def)

lemma ex_open: "re_open ex_env"
  by (simp add: ex_env_def)








definition ex_cycle_state :: "int oran_ric" where
  "ex_cycle_state = (case start_run ex_env [(50, EvQueryLms)] ex_ric of Some (r, as) \<Rightarrow> r | None \<Rightarrow> ex_ric)"

lemma ex_cycle_state:
  "start_run ex_env [(50, EvQueryLms)] ex_ric = Some (ex_cycle_state, [])" "cycle_started ex_cycle_state"
  "ric_lms ex_cycle_state = [0, 1]" "ric_cmm ex_cycle_state \<noteq> None" "ric_data ex_cycle_state \<noteq> None"
proof -
  have "case start_run ex_env [(50, EvQueryLms)] ex_ric of Some (r, as) \<Rightarrow> cycle_started r \<and> ric_lms r = [0, 1] \<and>
      ric_cmm r \<noteq> None \<and> ric_data r \<noteq> None \<and> as = [] | None \<Rightarrow> False"
    by code_simp
  then show "start_run ex_env [(50, EvQueryLms)] ex_ric = Some (ex_cycle_state, [])" "cycle_started ex_cycle_state"
    "ric_lms ex_cycle_state = [0, 1]" "ric_cmm ex_cycle_state \<noteq> None" "ric_data ex_cycle_state \<noteq> None"
    unfolding ex_cycle_state_def by (auto split: option.splits)
qed

lemma ex_cycle_inv: "ric_inv (\<lambda>c. \<not> is_handover c) 50 2 ex_cycle_state"
proof -
  obtain r1 where 1: "ric_Start ex_env 0 ex_ric = Some r1" "ric_inv (\<lambda>c. \<not> is_handover c) 0 3 r1"
    using Start_ok [OF ex_configured ex_open, of 3 0] by auto
  then have "ric_inv (\<lambda>c. \<not> is_handover c) 50 (Suc 2) r1"
    using ric_inv_later [of _ 0 3 r1 50] by (simp add: numeral_3_eq_3)
  from ric_parts.handle_ok [OF ex_parts this, of EvQueryLms] show ?thesis
    using ex_cycle_state(1) 1(1) by (auto simp: start_run_def returns_total)
qed


text \<open>With a maximum wait time and the policy to drop late commands, what a module reports after the
  commands of the cycle were processed is not kept and not sent.\<close>

theorem ric_late_dropped:
  assumes "ric_lmQueryMaxWaitTime r \<noteq> 0" "ric_processLmQueryCommandsEvent r = None"
    "ric_lmQueryLateCommandPolicy r = DROP" "ric_lmQueryCommands r = []"
    "lm_active (ric_lm r i) \<longrightarrow> lm_hasRic (ric_lm r i) \<and> lm_cycle (ric_lm r i) = ric_lmQueryCycle r"
  shows "\<exists>r'. ric_handle env now (EvFinishRun i) r = Some (r', []) \<and> ric_lmQueryCommands r' = []"
  by (rule late_dropped [OF assms])

theorem ric_late_dropped_witness:
  "\<exists>r'. ric_handle ex_env 60 (EvFinishRun 0) (ric_init\<lparr>ric_lmQueryMaxWaitTime := 5, ric_lm := (\<lambda>_. (ex_lm ''a'')
      \<lparr>lm_active := True, lm_finishRunEvent := True, lm_commands := [OranCommand 7]\<rparr>)\<rparr>) = Some (r', []) \<and>
      ric_lmQueryCommands r' = []"
  by (rule ric_late_dropped) (simp_all add: ric_init_def ex_lm_def lm_init_def)

text \<open>A RIC that is stopped stays silent: it sends nothing and changes nothing in the repository,
  whatever arrives and whichever of its events were pending.\<close>

theorem ric_stopped_is_silent:
  assumes "ric_inv P now k r" "ric_active r"
  shows "\<exists>r1 r2. ric_Stop env now r = Some r1 \<and> ric_run env evs r1 = Some (r2, []) \<and> ric_data r2 = ric_data r1"
  using Stop_stops [OF assms, of env] stopped_run_silent [of _ env evs] by metis

theorem ric_stopped_is_silent_witness:
  "\<exists>r1 r2. ric_Stop ex_env 50 ex_cycle_state = Some r1 \<and>
     ric_run ex_env [(51, EvFinishRun 1), (52, EvFinishRun 0), (60, EvQueryLms)] r1 = Some (r2, []) \<and> ric_data r2 = ric_data r1"
  using ric_stopped_is_silent [OF ex_cycle_inv, of ex_env "[(51, EvFinishRun 1), (52, EvFinishRun 0), (60, EvQueryLms)]"]
    ex_cycle_state(2) by (simp add: cycle_started_def)




section \<open>Conflict mitigation\<close>

text \<open>The module that keeps a single command per node lets through exactly one command for every node
  that a command affects, in ascending order of the nodes: the first one of the default logic module, or
  else the first one.\<close>

theorem single_command_per_node:
  assumes "db_answers db" "cm_hasRic c" "cm_active c"
  shows "\<exists>out msgs. cmm_single_Filter db sets c = Some (out, c, msgs) \<and>
    sorted_wrt (<) (map (affects db) out) \<and>
    (\<forall>x. x \<in> set out \<longleftrightarrow> chosen db (flagged sets) (affects db x) = Some x)"
  by (rule single_filter_spec [OF assms])

definition ex_cmm :: oran_cmm where
  "ex_cmm = (cmm_init ''c'')\<lparr>cm_hasRic := True, cm_active := True\<rparr>"

theorem single_command_per_node_witness:
  "\<exists>out msgs. cmm_single_Filter db_fresh [((''a'', False), [OranCommand 1, OranCommand 2]), ((''b'', True), [OranCommand 1])]
      ex_cmm = Some (out, ex_cmm, msgs) \<and> sorted_wrt (<) (map (affects db_fresh) out)"
  using single_command_per_node [OF db_ok_answers [OF db_fresh_ok], of ex_cmm
      "[((''a'', False), [OranCommand 1, OranCommand 2]), ((''b'', True), [OranCommand 1])]"]
  by (auto simp: ex_cmm_def cmm_init_def)

text \<open>The module for pending handovers lets each handover through once and never again: over any
  sequence of calls the handovers let through are pairwise different and are those that were asked
  for; every other command passes each time.\<close>

theorem handover_once:
  assumes "cm_hasRic c"
  shows "\<exists>outs c'. handover_calls ss c = Some (outs, c') \<and> distinct (filter is_handover (concat outs)) \<and>
    set (filter is_handover (concat outs)) = {x \<in> set (concat (map (all_commands \<circ> snd) ss)). is_handover x} - set (cm_pendingCmds c) \<and>
    map (filter (\<lambda>x. \<not> is_handover x)) outs = map (\<lambda>(db, s). filter (\<lambda>x. \<not> is_handover x) (all_commands s)) ss"
  by (rule handover_calls_spec [OF assms])

theorem handover_once_witness:
  "\<exists>outs c'. handover_calls [(db_fresh, [((''a'', True), [Lte2LteHandover 1 2 3])]), (db_fresh, [((''a'', True), [Lte2LteHandover 1 2 3])])] ex_cmm
     = Some (outs, c') \<and> distinct (filter is_handover (concat outs))"
  using handover_once [of ex_cmm "[(db_fresh, [((''a'', True), [Lte2LteHandover 1 2 3])]), (db_fresh, [((''a'', True), [Lte2LteHandover 1 2 3])])]"]
  by (auto simp: ex_cmm_def cmm_init_def)

section \<open>Logic modules\<close>




section \<open>The repository\<close>



text \<open>C39: What a registered node reports is what the logic modules read: the newest position and the newest
  cell and RNTI of a UE come back from the queries, and the UE is found by its cell and RNTI.\<close>

theorem repository_roundtrip:
  assumes "n \<in> registered_nodes db" "db_active db" "db_conn db = Some t"
    and "\<forall>r\<in>set (t_location t). lc_nodeid r = n \<longrightarrow> lc_time r \<le> tm" "\<forall>r\<in>set (t_lteuecell t). uc_nodeid r = n \<longrightarrow> uc_time r \<le> tm"
    and "0 \<le> tm" "tm \<le> now"
  shows "\<exists>db1 db2. SavePosition n pos tm db = Some db1 \<and> GetNodePositions n 0 now 1 db1 = Some [(tm, pos)] \<and>
    SaveLteUeCellInfo n cellId rnti tm db = Some db2 \<and> GetLteUeCellInfo n db2 = Some (True, cellId, rnti) \<and>
    GetLteUeE2NodeIdFromCellInfo cellId rnti db2 = Some n"
  using position_roundtrip [OF assms(1-4) assms(6,7), of pos] ue_cell_info_roundtrip [OF assms(1-3,5), of cellId rnti]
  by blast

lemma db_fresh_registered:
  "\<exists>db t. RegisterNode 1 LTEUE 0 db_fresh = Some (1, db) \<and> 1 \<in> registered_nodes db \<and> db_active db \<and> db_conn db = Some t \<and>
     t_location t = [] \<and> t_lteuecell t = []"
proof -
  have "case RegisterNode 1 LTEUE 0 db_fresh of Some (e, db) \<Rightarrow> e = 1 \<and> IsNodeRegistered 1 db = Some True \<and> db_active db \<and>
      (case db_conn db of Some t \<Rightarrow> t_location t = [] \<and> t_lteuecell t = [] | None \<Rightarrow> False) | None \<Rightarrow> False"
    by code_simp
  then show ?thesis
    by (auto simp: registered_nodes_def split: option.splits)
qed

theorem repository_roundtrip_witness:
  "\<exists>db db1. RegisterNode 1 LTEUE 0 db_fresh = Some (1, db) \<and>
     SavePosition 1 \<lparr>vec_x = 3, vec_y = 4, vec_z = 5\<rparr> 10 db = Some db1 \<and>
     GetNodePositions 1 0 12 1 db1 = Some [(10, \<lparr>vec_x = 3, vec_y = 4, vec_z = 5\<rparr>)]"
proof -
  obtain db t where 1: "RegisterNode 1 LTEUE 0 db_fresh = Some (1, db)" "1 \<in> registered_nodes db" "db_active db"
    "db_conn db = Some t" "t_location t = []" "t_lteuecell t = []"
    using db_fresh_registered by blast
  from repository_roundtrip [OF 1(2-4), of 10 12 "\<lparr>vec_x = 3, vec_y = 4, vec_z = 5\<rparr>"] 1 show ?thesis
    by auto
qed

end
