(* ===== verification/LteAmc.thy ===== *)
theory LteAmc
  imports Complex_Main LteBase
begin

text \<open>
  Adaptive modulation and coding: \<^verbatim>\<open>src/lte/model/lte-amc.cc\<close>. An index outside an array is
  \<open>None\<close>. Doubles are rational numbers, without rounding; logarithms and the error model of the physical layer
  (\<^verbatim>\<open>lte-mi-error-model.cc\<close>) are parameters.
\<close>

section \<open>The tables\<close>

definition elem_at :: "'a list \<Rightarrow> int \<Rightarrow> 'a option" where
  "elem_at xs i = (if 0 \<le> i \<and> i < int (length xs) then Some (xs ! nat i) else None)"

definition SpectralEfficiencyForCqi :: "rat list" where
  "SpectralEfficiencyForCqi = map (\<lambda>c. of_nat c / 100)
     [0, 15, 23, 38, 60, 88, 118, 148, 191, 241, 273, 332, 390, 452, 512, 555]"

definition SpectralEfficiencyForMcs :: "rat list" where
  "SpectralEfficiencyForMcs = map (\<lambda>c. of_nat c / 100)
     [15, 19, 23, 31, 38, 49, 60, 74, 88, 103, 118, 133, 148, 170, 191, 216,
      241, 257, 273, 303, 332, 361, 390, 421, 452, 482, 512, 533, 555, 0, 0, 0]"

definition McsToItbsDl :: "int list" where
  "McsToItbsDl = [0, 1, 2, 3, 4, 5, 6, 7, 8, 9, 9, 10, 11, 12, 13, 14, 15, 15, 16, 17, 18, 19, 20, 21, 22, 23, 24, 25, 26]"

definition McsToItbsUl :: "int list" where
  "McsToItbsUl = [0, 1, 2, 3, 4, 5, 6, 7, 8, 9, 10, 10, 11, 12, 13, 14, 15, 16, 17, 18, 19, 19, 20, 21, 22, 23, 24, 25, 26]"

text \<open>The rows of the table of block sizes by their first number of resource blocks.\<close>

definition tbs_rows_001 :: "int list list" where
  "tbs_rows_001 =
    [[16, 24, 32, 40, 56, 72, 88, 104, 120, 136, 144, 176, 208, 224, 256, 280, 328, 336, 376, 408, 440, 488,
     520, 552, 584, 616, 712],
     [32, 56, 72, 104, 120, 144, 176, 224, 256, 296, 328, 376, 440, 488, 552, 600, 632, 696, 776, 840, 904,
     1000, 1064, 1128, 1192, 1256, 1480],
     [56, 88, 144, 176, 208, 224, 256, 328, 392, 456, 504, 584, 680, 744, 840, 904, 968, 1064, 1160, 1288,
     1384, 1480, 1608, 1736, 1800, 1864, 2216],
     [88, 144, 176, 208, 256, 328, 392, 472, 536, 616, 680, 776, 904, 1000, 1128, 1224, 1288, 1416, 1544,
     1736, 1864, 1992, 2152, 2280, 2408, 2536, 2984],
     [120, 176, 208, 256, 328, 424, 504, 584, 680, 776, 872, 1000, 1128, 1256, 1416, 1544, 1608, 1800, 1992,
     2152, 2344, 2472, 2664, 2856, 2984, 3112, 3752],
     [152, 208, 256, 328, 408, 504, 600, 712, 808, 936, 1032, 1192, 1352, 1544, 1736, 1800, 1928, 2152, 2344,
     2600, 2792, 2984, 3240, 3496, 3624, 3752, 4392],
     [176, 224, 296, 392, 488, 600, 712, 840, 968, 1096, 1224, 1384, 1608, 1800, 1992, 2152, 2280, 2536,
     2792, 2984, 3240, 3496, 3752, 4008, 4264, 4392, 5160],
     [208, 256, 328, 440, 552, 680, 808, 968, 1096, 1256, 1384, 1608, 1800, 2024, 2280, 2472, 2600, 2856,
     3112, 3496, 3752, 4008, 4264, 4584, 4968, 5160, 5992],
     [224, 328, 376, 504, 632, 776, 936, 1096, 1256, 1416, 1544, 1800, 2024, 2280, 2600, 2728, 2984, 3240,
     3624, 3880, 4136, 4584, 4776, 5160, 5544, 5736, 6712],
     [256, 344, 424, 568, 696, 872, 1032, 1224, 1384, 1544, 1736, 2024, 2280, 2536, 2856, 3112, 3240, 3624,
     4008, 4264, 4584, 4968, 5352, 5736, 5992, 6200, 7480]]"

definition tbs_rows_011 :: "int list list" where
  "tbs_rows_011 =
    [[288, 376, 472, 616, 776, 968, 1128, 1320, 1544, 1736, 1928, 2216, 2472, 2856, 3112, 3368, 3624, 4008,
     4392, 4776, 5160, 5544, 5992, 6200, 6712, 6968, 8248],
     [328, 424, 520, 680, 840, 1032, 1224, 1480, 1672, 1864, 2088, 2408, 2728, 3112, 3496, 3624, 3880, 4392,
     4776, 5160, 5544, 5992, 6456, 6968, 7224, 7480, 8760],
     [344, 456, 568, 744, 904, 1128, 1352, 1608, 1800, 2024, 2280, 2600, 2984, 3368, 3752, 4008, 4264, 4776,
     5160, 5544, 5992, 6456, 6968, 7480, 7992, 8248, 9528],
     [376, 488, 616, 808, 1000, 1224, 1480, 1672, 1928, 2216, 2472, 2792, 3240, 3624, 4008, 4264, 4584, 5160,
     5544, 5992, 6456, 6968, 7480, 7992, 8504, 8760, 10296],
     [392, 520, 648, 872, 1064, 1320, 1544, 1800, 2088, 2344, 2664, 2984, 3368, 3880, 4264, 4584, 4968, 5352,
     5992, 6456, 6968, 7480, 7992, 8504, 9144, 9528, 11064],
     [424, 568, 696, 904, 1128, 1384, 1672, 1928, 2216, 2536, 2792, 3240, 3624, 4136, 4584, 4968, 5160, 5736,
     6200, 6968, 7480, 7992, 8504, 9144, 9912, 10296, 11832],
     [456, 600, 744, 968, 1192, 1480, 1736, 2088, 2344, 2664, 2984, 3496, 3880, 4392, 4968, 5160, 5544, 6200,
     6712, 7224, 7992, 8504, 9144, 9912, 10296, 10680, 12576],
     [488, 632, 776, 1032, 1288, 1544, 1864, 2216, 2536, 2856, 3112, 3624, 4136, 4584, 5160, 5544, 5992,
     6456, 7224, 7736, 8248, 9144, 9528, 10296, 11064, 11448, 13536],
     [504, 680, 840, 1096, 1352, 1672, 1992, 2344, 2664, 2984, 3368, 3880, 4392, 4968, 5544, 5736, 6200,
     6712, 7480, 8248, 8760, 9528, 10296, 11064, 11448, 12216, 14112],
     [536, 712, 872, 1160, 1416, 1736, 2088, 2472, 2792, 3112, 3496, 4008, 4584, 5160, 5736, 6200, 6456,
     7224, 7992, 8504, 9144, 9912, 10680, 11448, 12216, 12576, 14688]]"

definition tbs_rows_021 :: "int list list" where
  "tbs_rows_021 =
    [[568, 744, 936, 1224, 1480, 1864, 2216, 2536, 2984, 3368, 3752, 4264, 4776, 5352, 5992, 6456, 6712,
     7480, 8248, 9144, 9912, 10680, 11448, 12216, 12960, 13536, 15264],
     [600, 776, 968, 1256, 1544, 1928, 2280, 2664, 3112, 3496, 3880, 4392, 4968, 5736, 6200, 6712, 7224,
     7992, 8760, 9528, 10296, 11064, 11832, 12576, 13536, 14112, 16416],
     [616, 808, 1000, 1320, 1608, 2024, 2408, 2792, 3240, 3624, 4008, 4584, 5352, 5992, 6456, 6968, 7480,
     8248, 9144, 9912, 10680, 11448, 12576, 12960, 14112, 14688, 16992],
     [648, 872, 1064, 1384, 1736, 2088, 2472, 2984, 3368, 3752, 4264, 4776, 5544, 6200, 6968, 7224, 7736,
     8760, 9528, 10296, 11064, 12216, 12960, 13536, 14688, 15264, 17568],
     [680, 904, 1096, 1416, 1800, 2216, 2600, 3112, 3496, 4008, 4392, 4968, 5736, 6456, 7224, 7736, 7992,
     9144, 9912, 10680, 11448, 12576, 13536, 14112, 15264, 15840, 18336],
     [712, 936, 1160, 1480, 1864, 2280, 2728, 3240, 3624, 4136, 4584, 5352, 5992, 6712, 7480, 7992, 8504,
     9528, 10296, 11064, 12216, 12960, 14112, 14688, 15840, 16416, 19080],
     [744, 968, 1192, 1544, 1928, 2344, 2792, 3368, 3752, 4264, 4776, 5544, 6200, 6968, 7736, 8248, 8760,
     9912, 10680, 11448, 12576, 13536, 14688, 15264, 16416, 16992, 19848],
     [776, 1000, 1256, 1608, 1992, 2472, 2984, 3368, 3880, 4392, 4968, 5736, 6456, 7224, 7992, 8504, 9144,
     10296, 11064, 12216, 12960, 14112, 15264, 15840, 16992, 17568, 20616],
     [776, 1032, 1288, 1672, 2088, 2536, 2984, 3496, 4008, 4584, 5160, 5992, 6712, 7480, 8248, 8760, 9528,
     10296, 11448, 12576, 13536, 14688, 15840, 16416, 17568, 18336, 21384],
     [808, 1064, 1320, 1736, 2152, 2664, 3112, 3624, 4264, 4776, 5352, 5992, 6712, 7736, 8504, 9144, 9912,
     10680, 11832, 12960, 14112, 15264, 16416, 16992, 18336, 19080, 22152]]"

definition tbs_rows_031 :: "int list list" where
  "tbs_rows_031 =
    [[840, 1128, 1384, 1800, 2216, 2728, 3240, 3752, 4392, 4968, 5544, 6200, 6968, 7992, 8760, 9528, 9912,
     11064, 12216, 13536, 14688, 15840, 16992, 17568, 19080, 19848, 22920],
     [872, 1160, 1416, 1864, 2280, 2792, 3368, 3880, 4584, 5160, 5736, 6456, 7224, 8248, 9144, 9912, 10296,
     11448, 12576, 13536, 14688, 15840, 16992, 18336, 19848, 20616, 23688],
     [904, 1192, 1480, 1928, 2344, 2856, 3496, 4008, 4584, 5160, 5736, 6712, 7480, 8504, 9528, 10296, 10680,
     11832, 12960, 14112, 15264, 16416, 17568, 19080, 19848, 20616, 24496],
     [936, 1224, 1544, 1992, 2408, 2984, 3496, 4136, 4776, 5352, 5992, 6968, 7736, 8760, 9912, 10296, 11064,
     12216, 13536, 14688, 15840, 16992, 18336, 19848, 20616, 21384, 25456],
     [968, 1256, 1544, 2024, 2472, 3112, 3624, 4264, 4968, 5544, 6200, 6968, 7992, 9144, 9912, 10680, 11448,
     12576, 14112, 15264, 16416, 17568, 19080, 19848, 21384, 22152, 25456],
     [1000, 1288, 1608, 2088, 2600, 3112, 3752, 4392, 4968, 5736, 6200, 7224, 8248, 9144, 10296, 11064,
     11832, 12960, 14112, 15264, 16992, 18336, 19080, 20616, 22152, 22920, 26416],
     [1032, 1352, 1672, 2152, 2664, 3240, 3880, 4584, 5160, 5736, 6456, 7480, 8504, 9528, 10680, 11448,
     12216, 13536, 14688, 15840, 16992, 18336, 19848, 21384, 22920, 23688, 27376],
     [1032, 1384, 1672, 2216, 2728, 3368, 4008, 4584, 5352, 5992, 6712, 7736, 8760, 9912, 11064, 11832,
     12216, 13536, 15264, 16416, 17568, 19080, 20616, 22152, 22920, 24496, 28336],
     [1064, 1416, 1736, 2280, 2792, 3496, 4136, 4776, 5544, 6200, 6712, 7736, 8760, 9912, 11064, 11832,
     12576, 14112, 15264, 16992, 18336, 19848, 21384, 22152, 23688, 24496, 29296],
     [1096, 1416, 1800, 2344, 2856, 3496, 4136, 4968, 5544, 6200, 6968, 7992, 9144, 10296, 11448, 12216,
     12960, 14688, 15840, 16992, 18336, 19848, 21384, 22920, 24496, 25456, 29296]]"

definition tbs_rows_041 :: "int list list" where
  "tbs_rows_041 =
    [[1128, 1480, 1800, 2408, 2984, 3624, 4264, 4968, 5736, 6456, 7224, 8248, 9528, 10680, 11832, 12576,
     13536, 14688, 16416, 17568, 19080, 20616, 22152, 23688, 25456, 26416, 30576],
     [1160, 1544, 1864, 2472, 2984, 3752, 4392, 5160, 5992, 6712, 7480, 8504, 9528, 10680, 12216, 12960,
     13536, 15264, 16416, 18336, 19848, 21384, 22920, 24496, 25456, 26416, 30576],
     [1192, 1544, 1928, 2536, 3112, 3752, 4584, 5352, 5992, 6712, 7480, 8760, 9912, 11064, 12216, 12960,
     14112, 15264, 16992, 18336, 19848, 21384, 22920, 24496, 26416, 27376, 31704],
     [1224, 1608, 1992, 2536, 3112, 3880, 4584, 5352, 6200, 6968, 7736, 8760, 9912, 11448, 12576, 13536,
     14112, 15840, 17568, 19080, 20616, 22152, 23688, 25456, 26416, 28336, 32856],
     [1256, 1608, 2024, 2600, 3240, 4008, 4776, 5544, 6200, 6968, 7992, 9144, 10296, 11448, 12960, 13536,
     14688, 16416, 17568, 19080, 20616, 22920, 24496, 25456, 27376, 28336, 32856],
     [1256, 1672, 2088, 2664, 3240, 4008, 4776, 5736, 6456, 7224, 7992, 9144, 10680, 11832, 12960, 14112,
     14688, 16416, 18336, 19848, 21384, 22920, 24496, 26416, 28336, 29296, 34008],
     [1288, 1736, 2088, 2728, 3368, 4136, 4968, 5736, 6456, 7480, 8248, 9528, 10680, 12216, 13536, 14688,
     15264, 16992, 18336, 20616, 22152, 23688, 25456, 27376, 28336, 29296, 35160],
     [1320, 1736, 2152, 2792, 3496, 4264, 4968, 5992, 6712, 7480, 8504, 9528, 11064, 12216, 13536, 14688,
     15840, 17568, 19080, 20616, 22152, 24496, 25456, 27376, 29296, 30576, 35160],
     [1352, 1800, 2216, 2856, 3496, 4392, 5160, 5992, 6968, 7736, 8504, 9912, 11064, 12576, 14112, 15264,
     15840, 17568, 19080, 21384, 22920, 24496, 26416, 28336, 29296, 31704, 36696],
     [1384, 1800, 2216, 2856, 3624, 4392, 5160, 6200, 6968, 7992, 8760, 9912, 11448, 12960, 14112, 15264,
     16416, 18336, 19848, 21384, 22920, 25456, 27376, 28336, 30576, 31704, 36696]]"

definition tbs_rows_051 :: "int list list" where
  "tbs_rows_051 =
    [[1416, 1864, 2280, 2984, 3624, 4584, 5352, 6200, 7224, 7992, 9144, 10296, 11832, 12960, 14688, 15840,
     16416, 18336, 19848, 22152, 23688, 25456, 27376, 29296, 31704, 32856, 37888],
     [1416, 1864, 2344, 2984, 3752, 4584, 5352, 6456, 7224, 8248, 9144, 10680, 11832, 13536, 14688, 15840,
     16992, 19080, 20616, 22152, 24496, 26416, 28336, 29296, 31704, 32856, 37888],
     [1480, 1928, 2344, 3112, 3752, 4776, 5544, 6456, 7480, 8248, 9144, 10680, 12216, 13536, 15264, 16416,
     16992, 19080, 21384, 22920, 24496, 26416, 28336, 30576, 32856, 34008, 39232],
     [1480, 1992, 2408, 3112, 3880, 4776, 5736, 6712, 7480, 8504, 9528, 11064, 12216, 14112, 15264, 16416,
     17568, 19848, 21384, 22920, 25456, 27376, 29296, 30576, 32856, 34008, 40576],
     [1544, 1992, 2472, 3240, 4008, 4776, 5736, 6712, 7736, 8760, 9528, 11064, 12576, 14112, 15840, 16992,
     17568, 19848, 22152, 23688, 25456, 27376, 29296, 31704, 34008, 35160, 40576],
     [1544, 2024, 2536, 3240, 4008, 4968, 5992, 6712, 7736, 8760, 9912, 11448, 12576, 14688, 15840, 16992,
     18336, 20616, 22152, 24496, 26416, 28336, 30576, 31704, 34008, 35160, 40576],
     [1608, 2088, 2536, 3368, 4136, 4968, 5992, 6968, 7992, 9144, 9912, 11448, 12960, 14688, 16416, 17568,
     18336, 20616, 22920, 24496, 26416, 28336, 30576, 32856, 35160, 36696, 42368],
     [1608, 2088, 2600, 3368, 4136, 5160, 5992, 6968, 7992, 9144, 10296, 11832, 12960, 14688, 16416, 17568,
     19080, 20616, 22920, 25456, 27376, 29296, 31704, 32856, 35160, 36696, 42368],
     [1608, 2152, 2664, 3496, 4264, 5160, 6200, 7224, 8248, 9144, 10296, 11832, 13536, 15264, 16992, 18336,
     19080, 21384, 23688, 25456, 27376, 29296, 31704, 34008, 36696, 37888, 43816],
     [1672, 2152, 2664, 3496, 4264, 5352, 6200, 7224, 8504, 9528, 10680, 12216, 13536, 15264, 16992, 18336,
     19848, 21384, 23688, 25456, 28336, 30576, 32856, 34008, 36696, 37888, 43816]]"

definition tbs_rows_061 :: "int list list" where
  "tbs_rows_061 =
    [[1672, 2216, 2728, 3624, 4392, 5352, 6456, 7480, 8504, 9528, 10680, 12216, 14112, 15840, 17568, 18336,
     19848, 22152, 24496, 26416, 28336, 30576, 32856, 35160, 36696, 39232, 45352],
     [1736, 2280, 2792, 3624, 4392, 5544, 6456, 7480, 8760, 9912, 11064, 12576, 14112, 15840, 17568, 19080,
     19848, 22152, 24496, 26416, 29296, 31704, 34008, 35160, 37888, 39232, 45352],
     [1736, 2280, 2856, 3624, 4584, 5544, 6456, 7736, 8760, 9912, 11064, 12576, 14112, 16416, 18336, 19080,
     20616, 22920, 24496, 27376, 29296, 31704, 34008, 36696, 37888, 40576, 46888],
     [1800, 2344, 2856, 3752, 4584, 5736, 6712, 7736, 9144, 10296, 11448, 12960, 14688, 16416, 18336, 19848,
     20616, 22920, 25456, 27376, 29296, 31704, 34008, 36696, 39232, 40576, 46888],
     [1800, 2344, 2856, 3752, 4584, 5736, 6712, 7992, 9144, 10296, 11448, 12960, 14688, 16992, 18336, 19848,
     21384, 23688, 25456, 28336, 30576, 32856, 35160, 37888, 39232, 40576, 48936],
     [1800, 2408, 2984, 3880, 4776, 5736, 6968, 7992, 9144, 10296, 11448, 13536, 15264, 16992, 19080, 20616,
     21384, 23688, 26416, 28336, 30576, 32856, 35160, 37888, 40576, 42368, 48936],
     [1864, 2472, 2984, 3880, 4776, 5992, 6968, 8248, 9528, 10680, 11832, 13536, 15264, 16992, 19080, 20616,
     22152, 24496, 26416, 29296, 31704, 34008, 36696, 37888, 40576, 42368, 48936],
     [1864, 2472, 3112, 4008, 4968, 5992, 6968, 8248, 9528, 10680, 11832, 13536, 15264, 17568, 19848, 20616,
     22152, 24496, 27376, 29296, 31704, 34008, 36696, 39232, 42368, 43816, 51024],
     [1928, 2536, 3112, 4008, 4968, 5992, 7224, 8504, 9528, 11064, 12216, 14112, 15840, 17568, 19848, 21384,
     22152, 24496, 27376, 29296, 31704, 35160, 36696, 39232, 42368, 43816, 51024],
     [1928, 2536, 3112, 4136, 4968, 6200, 7224, 8504, 9912, 11064, 12216, 14112, 15840, 18336, 19848, 21384,
     22920, 25456, 27376, 30576, 32856, 35160, 37888, 40576, 42368, 43816, 52752]]"

definition tbs_rows_071 :: "int list list" where
  "tbs_rows_071 =
    [[1992, 2600, 3240, 4136, 5160, 6200, 7480, 8760, 9912, 11064, 12576, 14112, 16416, 18336, 20616, 22152,
     22920, 25456, 28336, 30576, 32856, 35160, 37888, 40576, 43816, 45352, 52752],
     [1992, 2600, 3240, 4264, 5160, 6200, 7480, 8760, 9912, 11448, 12576, 14688, 16416, 18336, 20616, 22152,
     23688, 26416, 28336, 30576, 34008, 36696, 39232, 40576, 43816, 45352, 52752],
     [2024, 2664, 3240, 4264, 5160, 6456, 7736, 8760, 10296, 11448, 12960, 14688, 16416, 19080, 20616, 22152,
     23688, 26416, 29296, 31704, 34008, 36696, 39232, 42368, 45352, 46888, 55056],
     [2088, 2728, 3368, 4392, 5352, 6456, 7736, 9144, 10296, 11832, 12960, 14688, 16992, 19080, 21384, 22920,
     24496, 26416, 29296, 31704, 34008, 36696, 40576, 42368, 45352, 46888, 55056],
     [2088, 2728, 3368, 4392, 5352, 6712, 7736, 9144, 10680, 11832, 12960, 15264, 16992, 19080, 21384, 22920,
     24496, 27376, 29296, 32856, 35160, 37888, 40576, 43816, 45352, 46888, 55056],
     [2088, 2792, 3368, 4392, 5544, 6712, 7992, 9144, 10680, 11832, 13536, 15264, 17568, 19848, 22152, 23688,
     24496, 27376, 30576, 32856, 35160, 37888, 40576, 43816, 46888, 48936, 55056],
     [2152, 2792, 3496, 4584, 5544, 6712, 7992, 9528, 10680, 12216, 13536, 15840, 17568, 19848, 22152, 23688,
     25456, 27376, 30576, 32856, 35160, 39232, 42368, 43816, 46888, 48936, 57336],
     [2152, 2856, 3496, 4584, 5544, 6968, 8248, 9528, 11064, 12216, 13536, 15840, 17568, 19848, 22152, 23688,
     25456, 28336, 30576, 34008, 36696, 39232, 42368, 45352, 46888, 48936, 57336],
     [2216, 2856, 3496, 4584, 5736, 6968, 8248, 9528, 11064, 12576, 14112, 15840, 18336, 20616, 22920, 24496,
     25456, 28336, 31704, 34008, 36696, 39232, 42368, 45352, 48936, 51024, 57336],
     [2216, 2856, 3624, 4776, 5736, 6968, 8248, 9912, 11064, 12576, 14112, 16416, 18336, 20616, 22920, 24496,
     26416, 29296, 31704, 34008, 36696, 40576, 43816, 45352, 48936, 51024, 59256]]"

definition tbs_rows_081 :: "int list list" where
  "tbs_rows_081 =
    [[2280, 2984, 3624, 4776, 5736, 7224, 8504, 9912, 11448, 12960, 14112, 16416, 18336, 20616, 22920, 24496,
     26416, 29296, 31704, 35160, 37888, 40576, 43816, 46888, 48936, 51024, 59256],
     [2280, 2984, 3624, 4776, 5992, 7224, 8504, 9912, 11448, 12960, 14688, 16416, 19080, 21384, 23688, 25456,
     26416, 29296, 32856, 35160, 37888, 40576, 43816, 46888, 51024, 52752, 59256],
     [2280, 2984, 3752, 4776, 5992, 7224, 8760, 10296, 11448, 12960, 14688, 16992, 19080, 21384, 23688,
     25456, 27376, 30576, 32856, 35160, 39232, 42368, 45352, 46888, 51024, 52752, 61664],
     [2344, 3112, 3752, 4968, 5992, 7480, 8760, 10296, 11832, 13536, 14688, 16992, 19080, 21384, 24496,
     25456, 27376, 30576, 32856, 36696, 39232, 42368, 45352, 48936, 51024, 52752, 61664],
     [2344, 3112, 3880, 4968, 5992, 7480, 8760, 10296, 11832, 13536, 14688, 16992, 19080, 22152, 24496,
     26416, 27376, 30576, 34008, 36696, 39232, 42368, 45352, 48936, 52752, 55056, 61664],
     [2408, 3112, 3880, 4968, 6200, 7480, 9144, 10680, 12216, 13536, 15264, 17568, 19848, 22152, 24496,
     26416, 28336, 30576, 34008, 36696, 40576, 43816, 46888, 48936, 52752, 55056, 63776],
     [2408, 3240, 3880, 5160, 6200, 7736, 9144, 10680, 12216, 13536, 15264, 17568, 19848, 22152, 25456,
     26416, 28336, 31704, 34008, 37888, 40576, 43816, 46888, 51024, 52752, 55056, 63776],
     [2472, 3240, 4008, 5160, 6200, 7736, 9144, 10680, 12216, 14112, 15264, 17568, 19848, 22920, 25456,
     27376, 28336, 31704, 35160, 37888, 40576, 43816, 46888, 51024, 52752, 55056, 63776],
     [2472, 3240, 4008, 5160, 6456, 7736, 9144, 11064, 12576, 14112, 15840, 18336, 20616, 22920, 25456,
     27376, 29296, 31704, 35160, 37888, 42368, 45352, 48936, 51024, 55056, 57336, 66592],
     [2536, 3240, 4008, 5352, 6456, 7992, 9528, 11064, 12576, 14112, 15840, 18336, 20616, 22920, 25456,
     27376, 29296, 32856, 35160, 39232, 42368, 45352, 48936, 51024, 55056, 57336, 66592]]"

definition tbs_rows_091 :: "int list list" where
  "tbs_rows_091 =
    [[2536, 3368, 4136, 5352, 6456, 7992, 9528, 11064, 12576, 14112, 15840, 18336, 20616, 23688, 26416,
     28336, 29296, 32856, 36696, 39232, 42368, 45352, 48936, 52752, 55056, 57336, 66592],
     [2536, 3368, 4136, 5352, 6456, 7992, 9528, 11448, 12960, 14688, 16416, 18336, 21384, 23688, 26416,
     28336, 30576, 32856, 36696, 39232, 42368, 46888, 48936, 52752, 57336, 59256, 68808],
     [2600, 3368, 4136, 5352, 6712, 8248, 9528, 11448, 12960, 14688, 16416, 19080, 21384, 23688, 26416,
     28336, 30576, 34008, 36696, 40576, 43816, 46888, 51024, 52752, 57336, 59256, 68808],
     [2600, 3496, 4264, 5544, 6712, 8248, 9912, 11448, 12960, 14688, 16416, 19080, 21384, 24496, 27376,
     29296, 30576, 34008, 37888, 40576, 43816, 46888, 51024, 55056, 57336, 59256, 68808],
     [2664, 3496, 4264, 5544, 6712, 8248, 9912, 11448, 13536, 15264, 16992, 19080, 21384, 24496, 27376,
     29296, 30576, 34008, 37888, 40576, 43816, 46888, 51024, 55056, 57336, 61664, 71112],
     [2664, 3496, 4264, 5544, 6968, 8504, 9912, 11832, 13536, 15264, 16992, 19080, 22152, 24496, 27376,
     29296, 31704, 35160, 37888, 40576, 45352, 48936, 51024, 55056, 59256, 61664, 71112],
     [2728, 3496, 4392, 5736, 6968, 8504, 10296, 11832, 13536, 15264, 16992, 19848, 22152, 25456, 28336,
     29296, 31704, 35160, 37888, 42368, 45352, 48936, 52752, 55056, 59256, 61664, 71112],
     [2728, 3624, 4392, 5736, 6968, 8760, 10296, 11832, 13536, 15264, 16992, 19848, 22152, 25456, 28336,
     30576, 31704, 35160, 39232, 42368, 45352, 48936, 52752, 57336, 59256, 61664, 73712],
     [2728, 3624, 4392, 5736, 6968, 8760, 10296, 12216, 14112, 15840, 17568, 19848, 22920, 25456, 28336,
     30576, 31704, 35160, 39232, 42368, 46888, 48936, 52752, 57336, 61664, 63776, 73712],
     [2792, 3624, 4584, 5736, 7224, 8760, 10296, 12216, 14112, 15840, 17568, 19848, 22920, 25456, 28336,
     30576, 32856, 36696, 39232, 43816, 46888, 51024, 55056, 57336, 61664, 63776, 75376]]"

definition tbs_rows_101 :: "int list list" where
  "tbs_rows_101 =
    [[2792, 3752, 4584, 5992, 7224, 8760, 10680, 12216, 14112, 15840, 17568, 20616, 22920, 26416, 29296,
     30576, 32856, 36696, 40576, 43816, 46888, 51024, 55056, 57336, 61664, 63776, 75376],
     [2856, 3752, 4584, 5992, 7224, 9144, 10680, 12576, 14112, 16416, 18336, 20616, 23688, 26416, 29296,
     31704, 32856, 36696, 40576, 43816, 46888, 51024, 55056, 59256, 61664, 63776, 75376],
     [2856, 3752, 4584, 5992, 7480, 9144, 10680, 12576, 14688, 16416, 18336, 20616, 23688, 26416, 29296,
     31704, 34008, 36696, 40576, 43816, 48936, 51024, 55056, 59256, 63776, 66592, 75376],
     [2856, 3752, 4584, 5992, 7480, 9144, 10680, 12576, 14688, 16416, 18336, 21384, 23688, 26416, 29296,
     31704, 34008, 37888, 40576, 45352, 48936, 52752, 57336, 59256, 63776, 66592, 75376],
     [2984, 3880, 4776, 6200, 7480, 9144, 11064, 12960, 14688, 16416, 18336, 21384, 23688, 27376, 30576,
     31704, 34008, 37888, 42368, 45352, 48936, 52752, 57336, 59256, 63776, 66592, 75376],
     [2984, 3880, 4776, 6200, 7480, 9528, 11064, 12960, 14688, 16992, 18336, 21384, 24496, 27376, 30576,
     32856, 34008, 37888, 42368, 45352, 48936, 52752, 57336, 61664, 63776, 66592, 75376],
     [2984, 3880, 4776, 6200, 7736, 9528, 11064, 12960, 15264, 16992, 19080, 21384, 24496, 27376, 30576,
     32856, 35160, 39232, 42368, 46888, 48936, 52752, 57336, 61664, 66592, 68808, 75376],
     [2984, 4008, 4776, 6200, 7736, 9528, 11448, 12960, 15264, 16992, 19080, 22152, 24496, 27376, 30576,
     32856, 35160, 39232, 42368, 46888, 51024, 55056, 59256, 61664, 66592, 68808, 75376],
     [2984, 4008, 4968, 6456, 7736, 9528, 11448, 13536, 15264, 16992, 19080, 22152, 24496, 28336, 31704,
     34008, 35160, 39232, 43816, 46888, 51024, 55056, 59256, 61664, 66592, 68808, 75376],
     [3112, 4008, 4968, 6456, 7992, 9528, 11448, 13536, 15264, 17568, 19080, 22152, 25456, 28336, 31704,
     34008, 35160, 39232, 43816, 46888, 51024, 55056, 59256, 63776, 66592, 71112, 75376]]"

definition TransportBlockSizeTable :: "int list list" where
  "TransportBlockSizeTable = concat
    [tbs_rows_001, tbs_rows_011, tbs_rows_021, tbs_rows_031,
     tbs_rows_041, tbs_rows_051, tbs_rows_061, tbs_rows_071,
     tbs_rows_081, tbs_rows_091, tbs_rows_101]"

definition tbs_at :: "int \<Rightarrow> int \<Rightarrow> int option" where
  "tbs_at nprb itbs = Option.bind (elem_at TransportBlockSizeTable nprb) (\<lambda>row. elem_at row itbs)"

section \<open>Sizes of transport blocks\<close>

definition GetDlTbSizeFromMcs :: "int \<Rightarrow> int \<Rightarrow> int option" where
  "GetDlTbSizeFromMcs mcs nprb = Option.bind (elem_at McsToItbsDl mcs) (\<lambda>itbs. tbs_at (nprb - 1) itbs)"

definition GetUlTbSizeFromMcs :: "int \<Rightarrow> int \<Rightarrow> int option" where
  "GetUlTbSizeFromMcs mcs nprb = Option.bind (elem_at McsToItbsUl mcs) (\<lambda>itbs. tbs_at (nprb - 1) itbs)"

section \<open>Channel quality\<close>

text \<open>The loop over the CQI that \<^verbatim>\<open>GetCqiFromSpectralEfficiency\<close> and \<^verbatim>\<open>CreateCqiFeedbacks\<close> share.\<close>

function cqi_loop :: "rat \<Rightarrow> nat \<Rightarrow> nat" where
  "cqi_loop s cqi =
     (if cqi < 15 \<and> SpectralEfficiencyForCqi ! (cqi + 1) < s
      then cqi_loop s (cqi + 1) else cqi)"
  by pat_completeness auto
termination by (relation "measure (\<lambda>(s, cqi). 15 - cqi)") auto

definition GetCqiFromSpectralEfficiency :: "rat \<Rightarrow> int" where
  "GetCqiFromSpectralEfficiency s = int (cqi_loop s 0)"

function mcs_loop :: "rat \<Rightarrow> nat \<Rightarrow> nat" where
  "mcs_loop e mcs =
     (if mcs < 28 \<and> SpectralEfficiencyForMcs ! (mcs + 1) \<le> e
      then mcs_loop e (mcs + 1) else mcs)"
  by pat_completeness auto
termination by (relation "measure (\<lambda>(e, mcs). 28 - mcs)") auto

definition GetMcsFromCqi :: "int \<Rightarrow> int option" where
  "GetMcsFromCqi cqi =
     map_option (\<lambda>spectralEfficiency. int (mcs_loop spectralEfficiency 0)) (elem_at SpectralEfficiencyForCqi cqi)"

definition GetSpectralEfficiencyFromCqi :: "int \<Rightarrow> rat option" where
  "GetSpectralEfficiencyFromCqi cqi = elem_at SpectralEfficiencyForCqi cqi"

text \<open>
  The attributes of the object and what it calls: the two logarithms, and the rate of erroneous blocks
  of a given size and MCS on the given resource blocks.
\<close>

datatype amc_model = PiroEW2010 | MiErrorModel

record amc =
  am_ber :: rat
  am_amcModel :: amc_model
  am_log :: "rat \<Rightarrow> rat"
  am_log2 :: "rat \<Rightarrow> rat"
  am_tbler :: "rat list \<Rightarrow> int list \<Rightarrow> int \<Rightarrow> u8 \<Rightarrow> rat"

definition piro_cqi :: "amc \<Rightarrow> rat \<Rightarrow> int" where
  "piro_cqi amc sinr =
     (if sinr = 0 then - 1
      else GetCqiFromSpectralEfficiency (am_log2 amc (1 + sinr / ((- am_log amc (5 * am_ber amc)) / (3 / 2)))))"

text \<open>The search for the highest MCS with at most ten percent of errors: the MCS after the loop and the
  last rate.\<close>

function best_mcs :: "amc \<Rightarrow> rat list \<Rightarrow> int list \<Rightarrow> u8 \<Rightarrow> u8 \<Rightarrow> rat \<Rightarrow> (u8 \<times> rat) option" where
  "best_mcs amc sinr rbgMap rbgSize mcs tbler =
     (if mcs \<le> 28 then
        Option.bind (GetDlTbSizeFromMcs (uint mcs) (uint rbgSize)) (\<lambda>size.
          let t = am_tbler amc sinr rbgMap (uint (word_of_int size :: u16) div 8) mcs
          in if t > 1 / 10 then Some (mcs, t) else best_mcs amc sinr rbgMap rbgSize (mcs + 1) t)
      else Some (mcs, tbler))"
  by pat_completeness auto
termination
  by (relation "measure (\<lambda>(amc, sinr, rbgMap, rbgSize, mcs, tbler). 29 - unat mcs)")
     (auto simp: word_le_nat_alt unat_word_ariths)

definition rbg_cqi :: "u8 \<times> rat \<Rightarrow> int" where
  "rbg_cqi = (\<lambda>(mcs0, tbler).
     let mcs = (if mcs0 > 0 then mcs0 - 1 else mcs0)
     in if tbler > 1 / 10 \<and> mcs = 0 then 0
        else if mcs = 28 then 15
        else int (cqi_loop (SpectralEfficiencyForMcs ! unat mcs) 0))"

fun vienna_loop :: "amc \<Rightarrow> rat list \<Rightarrow> u8 \<Rightarrow> rat list \<Rightarrow> int list \<Rightarrow> int \<Rightarrow> int list option" where
  "vienna_loop amc sinr rbgSize [] rbgMap rbId = Some []"
| "vienna_loop amc sinr rbgSize (v # it) rbgMap rbId =
     (let rbgMap = rbgMap @ [rbId]; rbId = rbId + 1
      in if rbgSize = 0 then None
         else if rbId mod uint rbgSize = 0 \<or> it = [] then
           Option.bind (best_mcs amc sinr rbgMap rbgSize 0 0) (\<lambda>found.
             map_option (\<lambda>cqi. replicate (unat rbgSize) (rbg_cqi found) @ cqi) (vienna_loop amc sinr rbgSize it [] rbId))
         else vienna_loop amc sinr rbgSize it rbgMap rbId)"

definition CreateCqiFeedbacks :: "amc \<Rightarrow> rat list \<Rightarrow> u8 \<Rightarrow> int list option" where
  "CreateCqiFeedbacks amc sinr rbgSize =
     (case am_amcModel amc of
        PiroEW2010 \<Rightarrow> Some (map (piro_cqi amc) sinr)
      | MiErrorModel \<Rightarrow> vienna_loop amc sinr rbgSize sinr [] 0)"

section \<open>The tables are what they mean\<close>

text \<open>The efficiencies in hundredths, on which the loops compute.\<close>

definition cqi_hundredths :: "nat list" where
  "cqi_hundredths = [0, 15, 23, 38, 60, 88, 118, 148, 191, 241, 273, 332, 390, 452, 512, 555]"

definition mcs_hundredths :: "nat list" where
  "mcs_hundredths =
     [15, 19, 23, 31, 38, 49, 60, 74, 88, 103, 118, 133, 148, 170, 191, 216,
      241, 257, 273, 303, 332, 361, 390, 421, 452, 482, 512, 533, 555, 0, 0, 0]"

lemma efficiency_hundredths:
  "SpectralEfficiencyForCqi = map (\<lambda>c. of_nat c / 100) cqi_hundredths"
  "SpectralEfficiencyForMcs = map (\<lambda>c. of_nat c / 100) mcs_hundredths"
  unfolding SpectralEfficiencyForCqi_def SpectralEfficiencyForMcs_def cqi_hundredths_def mcs_hundredths_def
  by (rule refl)+

lemma length_efficiencies: "length cqi_hundredths = 16" "length mcs_hundredths = 32"
  by (simp_all add: cqi_hundredths_def mcs_hundredths_def)

lemma efficiency_nth:
  "c < 16 \<Longrightarrow> SpectralEfficiencyForCqi ! c = of_nat (cqi_hundredths ! c) / 100"
  "m < 32 \<Longrightarrow> SpectralEfficiencyForMcs ! m = of_nat (mcs_hundredths ! m) / 100"
  by (simp_all add: efficiency_hundredths length_efficiencies)

declare cqi_loop.simps [simp del] mcs_loop.simps [simp del] best_mcs.simps [simp del]

lemma cqi_loop_spec:
  assumes "cqi \<le> 15"
  shows "cqi \<le> cqi_loop s cqi \<and> cqi_loop s cqi \<le> 15 \<and>
    (\<forall>i. cqi < i \<and> i \<le> cqi_loop s cqi \<longrightarrow> SpectralEfficiencyForCqi ! i < s) \<and>
    (cqi_loop s cqi < 15 \<longrightarrow> s \<le> SpectralEfficiencyForCqi ! (cqi_loop s cqi + 1))"
  using assms
proof (induction s cqi rule: cqi_loop.induct)
  case (1 s cqi)
  show ?case
  proof (cases "cqi < 15 \<and> SpectralEfficiencyForCqi ! (cqi + 1) < s")
    case True
    then have eq: "cqi_loop s cqi = cqi_loop s (cqi + 1)"
      by (subst cqi_loop.simps) simp
    have "i = cqi + 1 \<or> cqi + 1 < i" if "cqi < i" for i
      using that by auto
    with 1(1) [OF True] True show ?thesis
      unfolding eq by (auto simp: Suc_le_eq)
  next
    case False
    then have "cqi_loop s cqi = cqi"
      by (subst cqi_loop.simps) auto
    with False 1(2) show ?thesis
      by auto
  qed
qed

text \<open>The loops on hundredths.\<close>

function cqi_loop_h :: "nat \<Rightarrow> nat \<Rightarrow> nat" where
  "cqi_loop_h s cqi = (if cqi < 15 \<and> cqi_hundredths ! (cqi + 1) < s then cqi_loop_h s (cqi + 1) else cqi)"
  by pat_completeness auto
termination by (relation "measure (\<lambda>(s, cqi). 15 - cqi)") auto

function mcs_loop_h :: "nat \<Rightarrow> nat \<Rightarrow> nat" where
  "mcs_loop_h e mcs = (if mcs < 28 \<and> mcs_hundredths ! (mcs + 1) \<le> e then mcs_loop_h e (mcs + 1) else mcs)"
  by pat_completeness auto
termination by (relation "measure (\<lambda>(e, mcs). 28 - mcs)") auto

declare cqi_loop_h.simps [simp del] mcs_loop_h.simps [simp del]

lemma cqi_loop_hundredths: "cqi_loop (of_nat s / 100) cqi = cqi_loop_h s cqi"
proof (induction s cqi rule: cqi_loop_h.induct)
  case (1 s cqi)
  have "cqi < 15 \<Longrightarrow> SpectralEfficiencyForCqi ! (cqi + 1) < of_nat s / 100 \<longleftrightarrow> cqi_hundredths ! (cqi + 1) < s"
    by (simp add: efficiency_nth divide_less_cancel)
  with 1 show ?case
    by (subst cqi_loop.simps, subst cqi_loop_h.simps) auto
qed

lemma mcs_loop_hundredths: "mcs_loop (of_nat e / 100) mcs = mcs_loop_h e mcs"
proof (induction e mcs rule: mcs_loop_h.induct)
  case (1 e mcs)
  have "mcs < 28 \<Longrightarrow> SpectralEfficiencyForMcs ! (mcs + 1) \<le> of_nat e / 100 \<longleftrightarrow> mcs_hundredths ! (mcs + 1) \<le> e"
    by (simp add: efficiency_nth divide_le_cancel)
  with 1 show ?case
    by (subst mcs_loop.simps, subst mcs_loop_h.simps) auto
qed

text \<open>The MCS of each CQI, and the CQI of each MCS.\<close>

lemma GetMcsFromCqi_value:
  assumes "0 \<le> c" "c \<le> 15"
  shows "GetMcsFromCqi c = Some (if c = 0 then 0 else 2 * (c - 1))"
proof -
  have "list_all (\<lambda>c. mcs_loop_h (cqi_hundredths ! c) 0 = (if c = 0 then 0 else 2 * (c - 1))) [0..<16]"
    by code_simp
  then have "mcs_loop_h (cqi_hundredths ! nat c) 0 = (if nat c = 0 then 0 else 2 * (nat c - 1))"
    using assms by (simp add: list_all_iff)
  then show ?thesis
    using assms by (auto simp: GetMcsFromCqi_def elem_at_def efficiency_nth mcs_loop_hundredths efficiency_hundredths length_efficiencies)
qed

lemma mcs_of_reported_cqi:
  assumes "m < 28"
  shows "2 * (cqi_loop (SpectralEfficiencyForMcs ! m) 0 - 1) \<le> m"
proof -
  have "list_all (\<lambda>m. 2 * (cqi_loop_h (mcs_hundredths ! m) 0 - 1) \<le> m) [0..<28]"
    by code_simp
  with assms show ?thesis
    by (simp add: list_all_iff efficiency_nth cqi_loop_hundredths)
qed

section \<open>The size of a transport block grows with the MCS and the resource blocks\<close>

lemma tbs_table_shape:
  "length TransportBlockSizeTable = 110 \<and> list_all (\<lambda>row. length row = 27) TransportBlockSizeTable"
  by code_simp

lemma tbs_table_grows:
  "successively (list_all2 (\<le>)) TransportBlockSizeTable \<and> list_all (successively (\<le>)) TransportBlockSizeTable"
  by code_simp

end
