(* ===== verification/OranCellLoad.thy ===== *)
theory OranCellLoad
  imports LteAmc
begin

text \<open>
  The number of resource blocks of a transport block, as the reporter of the cell load recovers it:
  \<^verbatim>\<open>GetDlRbSizeFromMcs\<close> of \<^verbatim>\<open>contrib/oran/model/oran-reporter-lte-cell-load.cc\<close>. The file has a copy of the
  tables of \<^verbatim>\<open>lte-amc.cc\<close> with the same entries. A read beyond the table is \<open>None\<close>.
\<close>

section \<open>The search\<close>

definition load_McsToItbsDl :: "int list" where
  "load_McsToItbsDl = [0, 1, 2, 3, 4, 5, 6, 7, 8, 9, 9, 10, 11, 12, 13, 14, 15, 15, 16, 17, 18, 19, 20, 21, 22, 23, 24, 25, 26]"

definition load_TransportBlockSizeTable :: "int list list" where
  "load_TransportBlockSizeTable = TransportBlockSizeTable"

partial_function (option) rb_loop :: "int \<Rightarrow> int \<Rightarrow> int \<Rightarrow> int option" where
  "rb_loop TbSize itbs nprb =
     Option.bind (Option.bind (elem_at load_TransportBlockSizeTable nprb) (\<lambda>row. elem_at row itbs)) (\<lambda>size.
       if TbSize > size div 8 then rb_loop TbSize itbs (nprb + 1) else Some nprb)"

lemma rb_loop_code [code]:
  "rb_loop TbSize itbs nprb =
     (case elem_at load_TransportBlockSizeTable nprb of
        None \<Rightarrow> None
      | Some row \<Rightarrow> (case elem_at row itbs of
            None \<Rightarrow> None
          | Some sz \<Rightarrow> if TbSize > sz div 8 then rb_loop TbSize itbs (nprb + 1) else Some nprb))"
  by (subst rb_loop.simps) (simp split: option.split)

definition GetDlRbSizeFromMcs :: "int \<Rightarrow> int \<Rightarrow> int option" where
  "GetDlRbSizeFromMcs mcs TbSize =
     Option.bind (elem_at load_McsToItbsDl mcs) (\<lambda>itbs. map_option (\<lambda>nprb. nprb + 1) (rb_loop TbSize itbs 0))"

section \<open>The sizes of transport blocks\<close>

lemma tbs_at_Some:
  assumes "0 \<le> n" "n < 110" "0 \<le> itbs" "itbs < 27"
  shows "tbs_at n itbs = Some (TransportBlockSizeTable ! nat n ! nat itbs)"
proof -
  have "length (TransportBlockSizeTable ! nat n) = 27"
    using tbs_table_shape assms by (simp add: list_all_length)
  then show ?thesis
    using tbs_table_shape assms by (simp add: tbs_at_def elem_at_def)
qed

lemma tbs_at_bounds: "tbs_at n itbs = Some v \<Longrightarrow> 0 \<le> n \<and> n < 110"
  using tbs_table_shape by (auto simp: tbs_at_def elem_at_def split: if_splits)

lemma tbs_at_mono:
  assumes "tbs_at n itbs = Some a" "tbs_at n' itbs = Some b" "n \<le> n'"
  shows "a \<le> b"
proof -
  have b: "0 \<le> n" "n < 110" "n' < 110"
    using tbs_at_bounds [OF assms(1)] tbs_at_bounds [OF assms(2)] by simp_all
  have i: "0 \<le> itbs" "itbs < 27"
    using assms(1) tbs_table_shape b by (auto simp: tbs_at_def elem_at_def list_all_length split: if_splits)
  have "sorted_wrt (list_all2 (\<le>)) TransportBlockSizeTable"
  proof -
    have "transp (list_all2 ((\<le>) :: int \<Rightarrow> int \<Rightarrow> bool))"
      by (rule transpI, rule list_all2_trans [of "(\<le>)" "(\<le>)" "(\<le>)"]) auto
    with tbs_table_grows show ?thesis
      by (simp add: successively_conv_sorted_wrt)
  qed
  then have "list_all2 (\<le>) (TransportBlockSizeTable ! nat n) (TransportBlockSizeTable ! nat n')"
  proof (cases "n = n'")
    case True
    then show ?thesis
      by (simp add: list_all2_refl)
  next
    case False
    with b assms(3) have "nat n < nat n'" "nat n' < length TransportBlockSizeTable"
      using tbs_table_shape by simp_all
    with \<open>sorted_wrt _ _\<close> show ?thesis
      by (rule sorted_wrt_nth_less)
  qed
  moreover have "length (TransportBlockSizeTable ! nat n) = 27"
    using tbs_table_shape b by (simp add: list_all_length)
  ultimately have "TransportBlockSizeTable ! nat n ! nat itbs \<le> TransportBlockSizeTable ! nat n' ! nat itbs"
    using i by (auto simp: list_all2_conv_all_nth)
  with assms show ?thesis
    using tbs_at_Some b i by simp
qed

text \<open>The search finds the first number of resource blocks that is large enough.\<close>

lemma rb_loop_unfold:
  "rb_loop TbSize itbs nprb =
     Option.bind (tbs_at nprb itbs) (\<lambda>size. if TbSize > size div 8 then rb_loop TbSize itbs (nprb + 1) else Some nprb)"
  by (subst rb_loop.simps) (simp add: load_TransportBlockSizeTable_def tbs_at_def)

lemma rb_loop_finds:
  assumes "k \<le> n" "0 \<le> k" "tbs_at n itbs = Some v" "TbSize \<le> v div 8" "0 \<le> itbs" "itbs < 27"
  shows "\<exists>r v'. rb_loop TbSize itbs k = Some r \<and> k \<le> r \<and> r \<le> n \<and> tbs_at r itbs = Some v' \<and> TbSize \<le> v' div 8 \<and>
    (\<forall>q u. k \<le> q \<and> q < r \<and> tbs_at q itbs = Some u \<longrightarrow> u div 8 < TbSize)"
  using assms
proof (induction "nat (n - k)" arbitrary: k rule: less_induct)
  case less
  have n: "n < 110"
    using tbs_at_bounds [OF less.prems(3)] by simp
  obtain w where w: "tbs_at k itbs = Some w"
    using tbs_at_Some [of k itbs] less.prems n by auto
  show ?case
  proof (cases "TbSize > w div 8")
    case False
    then show ?thesis
      using less.prems w by (subst rb_loop_unfold) auto
  next
    case True
    then have "k \<noteq> n"
      using w less.prems by auto
    then obtain r v' where r: "rb_loop TbSize itbs (k + 1) = Some r" "k + 1 \<le> r" "r \<le> n" "tbs_at r itbs = Some v'"
      "TbSize \<le> v' div 8" "\<forall>q u. k + 1 \<le> q \<and> q < r \<and> tbs_at q itbs = Some u \<longrightarrow> u div 8 < TbSize"
      using less.hyps [of "k + 1"] less.prems by auto
    have "u div 8 < TbSize" if "k \<le> q" "q < r" "tbs_at q itbs = Some u" for q u
      using that r(6) [rule_format, of q u] w True by (cases "q = k") auto
    then show ?thesis
      using True w r by (subst rb_loop_unfold) auto
  qed
qed

lemma mcs_itbs:
  assumes "0 \<le> mcs" "mcs < 29"
  shows "\<exists>itbs. elem_at McsToItbsDl mcs = Some itbs \<and> elem_at load_McsToItbsDl mcs = Some itbs \<and> 0 \<le> itbs \<and> itbs < 27"
proof -
  have "list_all (\<lambda>i. 0 \<le> i \<and> i < 27) McsToItbsDl \<and> length McsToItbsDl = 29 \<and> load_McsToItbsDl = McsToItbsDl"
    by code_simp
  with assms show ?thesis
    by (auto simp: elem_at_def list_all_length)
qed

lemma rb_size_of_block:
  assumes "0 \<le> mcs" "mcs < 29" "GetDlTbSizeFromMcs mcs n = Some sz"
  shows "\<exists>r sz2. GetDlRbSizeFromMcs mcs (sz div 8) = Some r \<and> 1 \<le> r \<and> r \<le> n \<and>
    GetDlTbSizeFromMcs mcs r = Some sz2 \<and> sz2 div 8 = sz div 8 \<and>
    (\<forall>q u. 1 \<le> q \<and> q < r \<and> GetDlTbSizeFromMcs mcs q = Some u \<longrightarrow> u div 8 < sz div 8)"
proof -
  obtain itbs where i: "elem_at McsToItbsDl mcs = Some itbs" "elem_at load_McsToItbsDl mcs = Some itbs" "0 \<le> itbs" "itbs < 27"
    using mcs_itbs assms by blast
  have at: "GetDlTbSizeFromMcs mcs q = tbs_at (q - 1) itbs" for q
    by (simp add: GetDlTbSizeFromMcs_def i)
  obtain r v where r: "rb_loop (sz div 8) itbs 0 = Some r" "0 \<le> r" "r \<le> n - 1" "tbs_at r itbs = Some v" "sz div 8 \<le> v div 8"
    "\<forall>q u. 0 \<le> q \<and> q < r \<and> tbs_at q itbs = Some u \<longrightarrow> u div 8 < sz div 8"
    using rb_loop_finds [of 0 "n - 1" itbs sz "sz div 8"] assms(3) i tbs_at_bounds [of "n - 1" itbs sz]
    unfolding at by auto
  have "v \<le> sz"
    using tbs_at_mono [OF r(4) _ r(3)] assms(3) unfolding at by simp
  then have "v div 8 = sz div 8"
    using r(5) by (simp add: zdiv_mono1 order_antisym)
  moreover have "GetDlRbSizeFromMcs mcs (sz div 8) = Some (r + 1)"
    by (simp add: GetDlRbSizeFromMcs_def i r)
  moreover have "u div 8 < sz div 8" if "1 \<le> q" "q < r + 1" "tbs_at (q - 1) itbs = Some u" for q u
    using that r(6) [rule_format, of "q - 1" u] by simp
  ultimately show ?thesis
    using r(2-4) unfolding at by (intro exI [of _ "r + 1"] conjI exI [where x = v]) auto
qed

text \<open>Where consecutive entries of the table are equal, fewer blocks are recovered than were used.\<close>

lemma rb_size_too_small:
  "GetDlTbSizeFromMcs 7 28 = Some 3368 \<and> (\<exists>r. GetDlRbSizeFromMcs 7 (3368 div 8) = Some r \<and> r < 28)"
proof -
  have "GetDlTbSizeFromMcs 7 27 = Some 3368 \<and> GetDlTbSizeFromMcs 7 28 = Some 3368"
    by code_simp
  with rb_size_of_block [of 7 27 3368] show ?thesis
    by fastforce
qed

end
