(* ===== verification/OranE2.thy ===== *)
theory OranE2
  imports OranRic OranCellLoad
begin

text \<open>
  The E2 node terminator (\<^verbatim>\<open>contrib/oran/model/oran-e2-node-terminator*.cc\<close>) with its reporters
  (\<^verbatim>\<open>oran-reporter*.cc\<close>) and their report triggers (\<^verbatim>\<open>oran-report-trigger*.cc\<close>).

  The objects point to each other, so reporters and triggers have numbers and the node has the store of
  both; a pointer to the terminator is a flag. An event is a flag when its handle is running, and a
  number counts the pending events whose handle was overwritten. What the node takes from the rest of
  the simulation at a call is a record of its own; a null pointer there is \<open>None\<close>.
\<close>

section \<open>State\<close>

datatype trigger_kind = TrgBase | TrgPeriodic | TrgLocationChange | TrgLteUeHandover

record oran_trigger =
  tg_kind :: trigger_kind
  tg_active :: bool
  tg_reporter :: "nat option"
  tg_initialReport :: bool
  tg_triggerEvent :: bool
  tg_lostEvents :: nat
  tg_connected :: bool

definition trg_init :: "trigger_kind \<Rightarrow> oran_trigger" where
  "trg_init k = \<lparr>tg_kind = k, tg_active = False, tg_reporter = None, tg_initialReport = False,
     tg_triggerEvent = False, tg_lostEvents = 0, tg_connected = False\<rparr>"

text \<open>The loss reporter has the counters of packets, the load reporter the sum of the usage, the time
  of the last report and the bandwidth, which it knows once it has found the FFR algorithm.\<close>

datatype 'x reporter_kind =
    RepLocation
  | RepLteUeCellInfo
  | RepAppLoss u64 u64
  | is_load: RepLteCellLoad 'x time_ns "u8 option"

record 'x oran_reporter =
  rp_kind :: "'x reporter_kind"
  rp_active :: bool
  rp_hasTerminator :: bool
  rp_trigger :: "nat option"

definition rep_init :: "'x reporter_kind \<Rightarrow> 'x oran_reporter" where
  "rep_init k = \<lparr>rp_kind = k, rp_active = False, rp_hasTerminator = False, rp_trigger = None\<rparr>"

record 'x e2_node =
  en_type :: NodeType
  en_e2NodeId :: u64
  en_hasRic :: bool
  en_hasNode :: bool
  en_active :: bool
  en_reports :: "'x oran_report list"
  en_registrationEvent :: bool
  en_sendEvent :: bool
  en_lostSends :: nat
  en_reporters :: "nat list"
  en_reporter :: "nat \<Rightarrow> 'x oran_reporter"
  en_trigger :: "nat \<Rightarrow> oran_trigger"

definition e2_init :: "NodeType \<Rightarrow> 'x e2_node" where
  "e2_init ty = \<lparr>en_type = ty, en_e2NodeId = 0, en_hasRic = False, en_hasNode = False, en_active = False,
     en_reports = [], en_registrationEvent = False, en_sendEvent = False, en_lostSends = 0, en_reporters = [],
     en_reporter = (\<lambda>_. rep_init RepLocation), en_trigger = (\<lambda>_. trg_init TrgPeriodic)\<rparr>"

text \<open>
  The position of the mobility model, the cell id and RNTI in the RRC of the UE device, the RNTIs that
  the RRC of the eNB device knows, the bandwidth of the eNB device, the reserved groups of resource
  blocks of its FFR algorithm, and the conversion of integers to doubles.
\<close>

record 'x e2_env =
  ee_position :: "'x vector option"
  ee_ueRrc :: "(u16 \<times> u16) option"
  ee_enbRrc :: "(u16 \<Rightarrow> bool) option"
  ee_dlBandwidth :: "u8 option"
  ee_dlRbg :: "bool list"
  ee_real :: "int \<Rightarrow> 'x"

datatype 'x e2_action =
    RegistrationRequest NodeType u64
  | DeregistrationRequest u64
  | SendReport "'x oran_report"
  | SendHandoverRequest u16 u16

definition set_reporter :: "nat \<Rightarrow> ('x oran_reporter \<Rightarrow> 'x oran_reporter) \<Rightarrow> 'x e2_node \<Rightarrow> 'x e2_node" where
  "set_reporter i f n = n\<lparr>en_reporter := (en_reporter n)(i := f (en_reporter n i))\<rparr>"

definition set_trigger :: "nat \<Rightarrow> (oran_trigger \<Rightarrow> oran_trigger) \<Rightarrow> 'x e2_node \<Rightarrow> 'x e2_node" where
  "set_trigger t f n = n\<lparr>en_trigger := (en_trigger n)(t := f (en_trigger n t))\<rparr>"

section \<open>Report triggers\<close>

definition trg_ScheduleNextTrigger :: "oran_trigger \<Rightarrow> oran_trigger" where
  "trg_ScheduleNextTrigger tg =
     tg\<lparr>tg_triggerEvent := True, tg_lostEvents := tg_lostEvents tg + (if tg_triggerEvent tg then 1 else 0)\<rparr>"

definition trg_CancelNextTrigger :: "oran_trigger \<Rightarrow> oran_trigger" where
  "trg_CancelNextTrigger tg = tg\<lparr>tg_triggerEvent := False\<rparr>"

text \<open>
  The objects that the triggers listen to: the mobility model and the RRC of the UE device of the node
  of the reporter's terminator. \<open>None\<close> is a null pointer on the way or an abort.
\<close>

definition trg_mobility :: "'x e2_env \<Rightarrow> nat \<Rightarrow> 'x e2_node \<Rightarrow> unit option" where
  "trg_mobility env i n =
     (if rp_hasTerminator (en_reporter n i) \<and> en_hasNode n \<and> ee_position env \<noteq> None then Some () else None)"

definition trg_ueRrc :: "'x e2_env \<Rightarrow> nat \<Rightarrow> 'x e2_node \<Rightarrow> unit option" where
  "trg_ueRrc env i n =
     (if rp_hasTerminator (en_reporter n i) \<and> en_hasNode n \<and> ee_ueRrc env \<noteq> None then Some () else None)"

definition trg_base_Activate :: "nat \<Rightarrow> nat \<Rightarrow> 'x e2_node \<Rightarrow> 'x e2_node" where
  "trg_base_Activate t i n =
     (if \<not> tg_active (en_trigger n t)
      then set_reporter i (\<lambda>rp. rp\<lparr>rp_trigger := Some t\<rparr>)
             (set_trigger t (\<lambda>tg. tg\<lparr>tg_active := True, tg_reporter := Some i\<rparr>) n)
      else n)"

definition trg_periodic_Activate :: "nat \<Rightarrow> nat \<Rightarrow> 'x e2_node \<Rightarrow> 'x e2_node" where
  "trg_periodic_Activate t i n =
     trg_base_Activate t i (if \<not> tg_active (en_trigger n t) then set_trigger t trg_ScheduleNextTrigger n else n)"

definition trg_location_Activate :: "'x e2_env \<Rightarrow> nat \<Rightarrow> nat \<Rightarrow> 'x e2_node \<Rightarrow> 'x e2_node option" where
  "trg_location_Activate env t i n =
     map_option (trg_base_Activate t i)
       (if \<not> tg_active (en_trigger n t)
        then map_option (\<lambda>_. set_trigger t (\<lambda>tg. tg\<lparr>tg_connected := True\<rparr>) n) (trg_mobility env i n)
        else Some n)"

definition trg_handover_Activate :: "'x e2_env \<Rightarrow> nat \<Rightarrow> nat \<Rightarrow> 'x e2_node \<Rightarrow> 'x e2_node option" where
  "trg_handover_Activate env t i n =
     map_option (trg_base_Activate t i)
       (if \<not> tg_active (en_trigger n t)
        then map_option (\<lambda>_. set_trigger t (\<lambda>tg. tg\<lparr>tg_connected := True\<rparr>) n) (trg_ueRrc env i n)
        else Some n)"

definition trg_Activate :: "'x e2_env \<Rightarrow> nat \<Rightarrow> nat \<Rightarrow> 'x e2_node \<Rightarrow> 'x e2_node option" where
  "trg_Activate env t i n =
     (case tg_kind (en_trigger n t) of
        TrgBase \<Rightarrow> Some (trg_base_Activate t i n)
      | TrgPeriodic \<Rightarrow> Some (trg_periodic_Activate t i n)
      | TrgLocationChange \<Rightarrow> trg_location_Activate env t i n
      | TrgLteUeHandover \<Rightarrow> trg_handover_Activate env t i n)"

definition trg_base_Deactivate :: "nat \<Rightarrow> 'x e2_node \<Rightarrow> 'x e2_node option" where
  "trg_base_Deactivate t n =
     (if tg_active (en_trigger n t)
      then map_option (\<lambda>i. set_trigger t (\<lambda>tg. tg\<lparr>tg_reporter := None, tg_active := False\<rparr>)
               (set_reporter i (\<lambda>rp. rp\<lparr>rp_trigger := None\<rparr>) n))
             (tg_reporter (en_trigger n t))
      else Some n)"

text \<open>\<^verbatim>\<open>DisconnectSink\<close> looks for the same object.\<close>

definition trg_location_DisconnectSink :: "'x e2_env \<Rightarrow> nat \<Rightarrow> 'x e2_node \<Rightarrow> 'x e2_node option" where
  "trg_location_DisconnectSink env t n =
     Option.bind (tg_reporter (en_trigger n t)) (\<lambda>i.
       map_option (\<lambda>_. set_trigger t (\<lambda>tg. tg\<lparr>tg_connected := False\<rparr>) n) (trg_mobility env i n))"

definition trg_handover_DisconnectSink :: "'x e2_env \<Rightarrow> nat \<Rightarrow> 'x e2_node \<Rightarrow> 'x e2_node option" where
  "trg_handover_DisconnectSink env t n =
     Option.bind (tg_reporter (en_trigger n t)) (\<lambda>i.
       map_option (\<lambda>_. set_trigger t (\<lambda>tg. tg\<lparr>tg_connected := False\<rparr>) n) (trg_ueRrc env i n))"

definition trg_periodic_Deactivate :: "nat \<Rightarrow> 'x e2_node \<Rightarrow> 'x e2_node option" where
  "trg_periodic_Deactivate t n =
     trg_base_Deactivate t (if tg_active (en_trigger n t) then set_trigger t trg_CancelNextTrigger n else n)"

definition trg_location_Deactivate :: "'x e2_env \<Rightarrow> nat \<Rightarrow> 'x e2_node \<Rightarrow> 'x e2_node option" where
  "trg_location_Deactivate env t n =
     Option.bind (if tg_active (en_trigger n t) then trg_location_DisconnectSink env t n else Some n)
       (trg_base_Deactivate t)"

definition trg_handover_Deactivate :: "'x e2_env \<Rightarrow> nat \<Rightarrow> 'x e2_node \<Rightarrow> 'x e2_node option" where
  "trg_handover_Deactivate env t n =
     Option.bind (if tg_active (en_trigger n t) then trg_handover_DisconnectSink env t n else Some n)
       (trg_base_Deactivate t)"

definition trg_Deactivate :: "'x e2_env \<Rightarrow> nat \<Rightarrow> 'x e2_node \<Rightarrow> 'x e2_node option" where
  "trg_Deactivate env t n =
     (case tg_kind (en_trigger n t) of
        TrgBase \<Rightarrow> trg_base_Deactivate t n
      | TrgPeriodic \<Rightarrow> trg_periodic_Deactivate t n
      | TrgLocationChange \<Rightarrow> trg_location_Deactivate env t n
      | TrgLteUeHandover \<Rightarrow> trg_handover_Deactivate env t n)"

definition trg_base_DoDispose :: "nat \<Rightarrow> 'x e2_node \<Rightarrow> 'x e2_node" where
  "trg_base_DoDispose t = set_trigger t (\<lambda>tg. tg\<lparr>tg_reporter := None\<rparr>)"

definition trg_periodic_DoDispose :: "nat \<Rightarrow> 'x e2_node \<Rightarrow> 'x e2_node" where
  "trg_periodic_DoDispose t n = trg_base_DoDispose t (set_trigger t trg_CancelNextTrigger n)"

definition trg_location_DoDispose :: "'x e2_env \<Rightarrow> nat \<Rightarrow> 'x e2_node \<Rightarrow> 'x e2_node option" where
  "trg_location_DoDispose env t n =
     map_option (trg_base_DoDispose t)
       (if tg_active (en_trigger n t) then trg_location_DisconnectSink env t n else Some n)"

definition trg_handover_DoDispose :: "'x e2_env \<Rightarrow> nat \<Rightarrow> 'x e2_node \<Rightarrow> 'x e2_node option" where
  "trg_handover_DoDispose env t n =
     map_option (trg_base_DoDispose t)
       (if tg_active (en_trigger n t) then trg_handover_DisconnectSink env t n else Some n)"

definition trg_DoDispose :: "'x e2_env \<Rightarrow> nat \<Rightarrow> 'x e2_node \<Rightarrow> 'x e2_node option" where
  "trg_DoDispose env t n =
     (case tg_kind (en_trigger n t) of
        TrgBase \<Rightarrow> Some (trg_base_DoDispose t n)
      | TrgPeriodic \<Rightarrow> Some (trg_periodic_DoDispose t n)
      | TrgLocationChange \<Rightarrow> trg_location_DoDispose env t n
      | TrgLteUeHandover \<Rightarrow> trg_handover_DoDispose env t n)"

text \<open>The triggers by what they listen to, and the facts that unfold them.\<close>

definition trg_sink :: "'x e2_env \<Rightarrow> trigger_kind \<Rightarrow> nat \<Rightarrow> 'x e2_node \<Rightarrow> unit option" where
  "trg_sink env k i n =
     (case k of TrgLocationChange \<Rightarrow> trg_mobility env i n | TrgLteUeHandover \<Rightarrow> trg_ueRrc env i n | _ \<Rightarrow> Some ())"

definition trg_disconnect :: "'x e2_env \<Rightarrow> nat \<Rightarrow> 'x e2_node \<Rightarrow> 'x e2_node option" where
  "trg_disconnect env t n =
     Option.bind (tg_reporter (en_trigger n t)) (\<lambda>i.
       map_option (\<lambda>_. set_trigger t (\<lambda>tg. tg\<lparr>tg_connected := False\<rparr>) n) (trg_sink env (tg_kind (en_trigger n t)) i n))"

lemma set_trigger_sel [simp]:
  "en_trigger (set_trigger t f n) t = f (en_trigger n t)"
  "en_reporter (set_trigger t f n) = en_reporter n"
  by (simp_all add: set_trigger_def)

lemma trg_Activate_by_sink:
  "trg_Activate env t i n =
     (let tg = en_trigger n t in
      map_option (trg_base_Activate t i)
        (if tg_active tg then Some n
         else (case tg_kind tg of
                 TrgBase \<Rightarrow> Some n
               | TrgPeriodic \<Rightarrow> Some (set_trigger t trg_ScheduleNextTrigger n)
               | k \<Rightarrow> map_option (\<lambda>_. set_trigger t (\<lambda>tg. tg\<lparr>tg_connected := True\<rparr>) n) (trg_sink env k i n))))"
  by (simp add: trg_Activate_def trg_periodic_Activate_def trg_location_Activate_def trg_handover_Activate_def
      trg_sink_def Let_def split: trigger_kind.splits)

lemma trg_Deactivate_by_sink:
  "trg_Deactivate env t n =
     (let tg = en_trigger n t in
      Option.bind
        (if \<not> tg_active tg then Some n
         else (case tg_kind tg of
                 TrgBase \<Rightarrow> Some n
               | TrgPeriodic \<Rightarrow> Some (set_trigger t trg_CancelNextTrigger n)
               | _ \<Rightarrow> trg_disconnect env t n))
        (trg_base_Deactivate t))"
  by (simp add: trg_Deactivate_def trg_periodic_Deactivate_def trg_location_Deactivate_def
      trg_handover_Deactivate_def trg_location_DisconnectSink_def trg_handover_DisconnectSink_def
      trg_disconnect_def trg_sink_def Let_def split: trigger_kind.splits)

section \<open>Reporters\<close>

text \<open>The reports of a reporter that is active, and the reporter after the call.\<close>

definition rep_location_GenerateReports ::
    "'x e2_env \<Rightarrow> time_ns \<Rightarrow> 'x e2_node \<Rightarrow> 'x oran_reporter \<Rightarrow> 'x oran_report list option" where
  "rep_location_GenerateReports env now n rp =
     (if \<not> rp_active rp then Some []
      else if \<not> rp_hasTerminator rp \<or> \<not> en_hasNode n then None
      else map_option (\<lambda>p. [ReportLocation (en_e2NodeId n) now p]) (ee_position env))"

definition rep_cellInfo_GenerateReports ::
    "'x e2_env \<Rightarrow> time_ns \<Rightarrow> 'x e2_node \<Rightarrow> 'x oran_reporter \<Rightarrow> 'x oran_report list option" where
  "rep_cellInfo_GenerateReports env now n rp =
     (if \<not> rp_active rp then Some []
      else if \<not> rp_hasTerminator rp \<or> \<not> en_hasNode n then None
      else map_option (\<lambda>(cellId, rnti). [ReportLteUeCellInfo (en_e2NodeId n) now cellId rnti]) (ee_ueRrc env))"

definition rep_appLoss_GenerateReports ::
    "('x :: {zero,plus,divide}) e2_env \<Rightarrow> time_ns \<Rightarrow> u64 \<Rightarrow> u64 \<Rightarrow> 'x e2_node \<Rightarrow> 'x oran_reporter \<Rightarrow>
     ('x oran_report list \<times> 'x reporter_kind) option" where
  "rep_appLoss_GenerateReports env now tx rx n rp =
     (if \<not> rp_active rp then Some ([], RepAppLoss tx rx)
      else if \<not> rp_hasTerminator rp then None
      else (let loss = (if rx \<le> tx \<and> tx > 0 then ee_real env (uint (tx - rx)) div ee_real env (uint tx) else 0)
            in Some ([ReportAppLoss (en_e2NodeId n) now loss], RepAppLoss 0 0)))"

definition rep_cellLoad_GenerateReports ::
    "('x :: {zero,plus,divide}) e2_env \<Rightarrow> time_ns \<Rightarrow> 'x \<Rightarrow> time_ns \<Rightarrow> u8 option \<Rightarrow> 'x e2_node \<Rightarrow> 'x oran_reporter \<Rightarrow>
     ('x oran_report list \<times> 'x reporter_kind) option" where
  "rep_cellLoad_GenerateReports env now rbUsageSum timeLastReport bandwidth n rp =
     map_option (\<lambda>reports. (reports, RepLteCellLoad 0 now bandwidth))
       (if \<not> rp_active rp then Some []
        else if \<not> rp_hasTerminator rp then None
        else (let numDlSubframes = word_of_int (GetMilliSeconds (now - timeLastReport)) :: u32;
                  load = rbUsageSum div ee_real env (uint numDlSubframes)
              in Some [ReportLteCellLoad (en_e2NodeId n) now load]))"

definition rep_GenerateReports ::
    "('x :: {zero,plus,divide}) e2_env \<Rightarrow> time_ns \<Rightarrow> 'x e2_node \<Rightarrow> 'x oran_reporter \<Rightarrow>
     ('x oran_report list \<times> 'x reporter_kind) option" where
  "rep_GenerateReports env now n rp =
     (case rp_kind rp of
        RepLocation \<Rightarrow> map_option (\<lambda>rs. (rs, RepLocation)) (rep_location_GenerateReports env now n rp)
      | RepLteUeCellInfo \<Rightarrow> map_option (\<lambda>rs. (rs, RepLteUeCellInfo)) (rep_cellInfo_GenerateReports env now n rp)
      | RepAppLoss tx rx \<Rightarrow> rep_appLoss_GenerateReports env now tx rx n rp
      | RepLteCellLoad rbUsageSum timeLastReport bandwidth \<Rightarrow>
          rep_cellLoad_GenerateReports env now rbUsageSum timeLastReport bandwidth n rp)"

lemmas generate_defs = rep_GenerateReports_def rep_location_GenerateReports_def rep_cellInfo_GenerateReports_def
  rep_appLoss_GenerateReports_def rep_cellLoad_GenerateReports_def

text \<open>
  \<^verbatim>\<open>DlScheduled\<close>, which the MAC of the eNB calls for every scheduled transmission. Without groups of resource
  blocks it divides by zero.
\<close>

record dl_info =
  dl_mcsTb1 :: u8
  dl_sizeTb1 :: u16
  dl_mcsTb2 :: u8
  dl_sizeTb2 :: u16

definition load_bandwidth :: "'x e2_env \<Rightarrow> 'x e2_node \<Rightarrow> u8 option \<Rightarrow> u8 option" where
  "load_bandwidth env n bandwidth =
     (if bandwidth \<noteq> None then bandwidth else if en_hasNode n then ee_dlBandwidth env else None)"

definition scheduled_rbs :: "dl_info \<Rightarrow> u16 \<Rightarrow> (u16 \<times> u16) option" where
  "scheduled_rbs info nAvailableRbgs =
     Option.bind (GetDlRbSizeFromMcs (uint (dl_mcsTb1 info)) (uint (dl_sizeTb1 info))) (\<lambda>rbs1.
       if dl_sizeTb2 info \<noteq> 0
       then map_option (\<lambda>rbs2. (word_of_int rbs1 + word_of_int rbs2, nAvailableRbgs * 2))
              (GetDlRbSizeFromMcs (uint (dl_mcsTb2 info)) (uint (dl_sizeTb2 info)))
       else Some (word_of_int rbs1, nAvailableRbgs))"

definition rep_DlScheduled ::
    "('x :: {zero,plus,divide}) e2_env \<Rightarrow> dl_info \<Rightarrow> 'x e2_node \<Rightarrow> 'x oran_reporter \<Rightarrow> 'x oran_reporter option" where
  "rep_DlScheduled env info n rp =
     (case rp_kind rp of
        RepLteCellLoad rbUsageSum timeLastReport bandwidth \<Rightarrow>
          (if \<not> rp_hasTerminator rp then None
           else Option.bind (load_bandwidth env n bandwidth) (\<lambda>b.
             let rbgMap = ee_dlRbg env;
                 numRbg = word_of_nat (length rbgMap) :: u16;
                 rbgSize = word_of_int (uint b div uint numRbg) :: u8;
                 nAvailableRbgs = word_of_nat (length (filter Not rbgMap)) :: u16
             in if numRbg = 0 then None
                else map_option (\<lambda>(nScheduledRbs, available).
                       let nScheduledRbgs = ee_real env (uint nScheduledRbs) div ee_real env (uint rbgSize)
                       in rp\<lparr>rp_kind := RepLteCellLoad (rbUsageSum + nScheduledRbgs div ee_real env (uint available))
                            timeLastReport (Some b)\<rparr>)
                     (scheduled_rbs info nAvailableRbgs)))
      | _ \<Rightarrow> Some rp)"

definition rep_AddTx :: "'x oran_reporter \<Rightarrow> 'x oran_reporter" where
  "rep_AddTx rp = (case rp_kind rp of RepAppLoss tx rx \<Rightarrow> rp\<lparr>rp_kind := RepAppLoss (tx + 1) rx\<rparr> | _ \<Rightarrow> rp)"

definition rep_AddRx :: "'x oran_reporter \<Rightarrow> 'x oran_reporter" where
  "rep_AddRx rp = (case rp_kind rp of RepAppLoss tx rx \<Rightarrow> rp\<lparr>rp_kind := RepAppLoss tx (rx + 1)\<rparr> | _ \<Rightarrow> rp)"

definition rep_Deactivate :: "'x e2_env \<Rightarrow> nat \<Rightarrow> 'x e2_node \<Rightarrow> 'x e2_node option" where
  "rep_Deactivate env i n =
     (if rp_active (en_reporter n i)
      then Option.bind (rp_trigger (en_reporter n i)) (\<lambda>t.
             map_option (set_reporter i (\<lambda>rp. rp\<lparr>rp_active := False\<rparr>)) (trg_Deactivate env t n))
      else Some n)"

definition rep_Activate :: "'x e2_env \<Rightarrow> nat \<Rightarrow> 'x e2_node \<Rightarrow> 'x e2_node option" where
  "rep_Activate env i n =
     (let rp = en_reporter n i in
      case rp_trigger rp of
        Some t \<Rightarrow>
          if \<not> rp_active rp \<and> rp_hasTerminator rp
          then trg_Activate env t i (set_reporter i (\<lambda>rp. rp\<lparr>rp_active := True\<rparr>) n)
          else rep_Deactivate env i n
      | None \<Rightarrow> rep_Deactivate env i n)"

definition e2_StoreReport :: "'x oran_report \<Rightarrow> 'x e2_node \<Rightarrow> 'x e2_node" where
  "e2_StoreReport report n = (if en_active n then n\<lparr>en_reports := en_reports n @ [report]\<rparr> else n)"

definition rep_PerformReport :: "('x :: {zero,plus,divide}) e2_env \<Rightarrow> time_ns \<Rightarrow> nat \<Rightarrow> 'x e2_node \<Rightarrow> 'x e2_node option" where
  "rep_PerformReport env now i n =
     (if rp_active (en_reporter n i) then
        (if \<not> rp_hasTerminator (en_reporter n i) then rep_Deactivate env i n
         else map_option (\<lambda>(reports, k). fold e2_StoreReport reports (set_reporter i (\<lambda>rp. rp\<lparr>rp_kind := k\<rparr>) n))
                (rep_GenerateReports env now n (en_reporter n i)))
      else Some n)"

definition rep_DoDispose :: "nat \<Rightarrow> 'x e2_node \<Rightarrow> 'x e2_node" where
  "rep_DoDispose i = set_reporter i (\<lambda>rp. rp\<lparr>rp_hasTerminator := False, rp_trigger := None\<rparr>)"

text \<open>\<^verbatim>\<open>TriggerReport\<close>: the periodic trigger schedules its next event first.\<close>

definition trg_TriggerReport :: "('x :: {zero,plus,divide}) e2_env \<Rightarrow> time_ns \<Rightarrow> nat \<Rightarrow> 'x e2_node \<Rightarrow> 'x e2_node option" where
  "trg_TriggerReport env now t n =
     (let n1 = (if tg_kind (en_trigger n t) = TrgPeriodic \<and> tg_active (en_trigger n t)
                then set_trigger t trg_ScheduleNextTrigger n else n)
      in Option.bind (tg_reporter (en_trigger n1 t)) (\<lambda>i. rep_PerformReport env now i n1))"

definition trg_NotifyRegistrationComplete ::
    "('x :: {zero,plus,divide}) e2_env \<Rightarrow> time_ns \<Rightarrow> nat \<Rightarrow> 'x e2_node \<Rightarrow> 'x e2_node option" where
  "trg_NotifyRegistrationComplete env now t n =
     (if tg_active (en_trigger n t) \<and> tg_initialReport (en_trigger n t) then trg_TriggerReport env now t n else Some n)"

definition rep_NotifyRegistrationComplete ::
    "('x :: {zero,plus,divide}) e2_env \<Rightarrow> time_ns \<Rightarrow> nat \<Rightarrow> 'x e2_node \<Rightarrow> 'x e2_node option" where
  "rep_NotifyRegistrationComplete env now i n =
     Option.bind (rp_trigger (en_reporter n i)) (\<lambda>t. trg_NotifyRegistrationComplete env now t n)"

section \<open>The terminator\<close>

fun for_reporters :: "(nat \<Rightarrow> 'x e2_node \<Rightarrow> 'x e2_node option) \<Rightarrow> nat list \<Rightarrow> 'x e2_node \<Rightarrow> 'x e2_node option" where
  "for_reporters f [] n = Some n"
| "for_reporters f (i # is) n = Option.bind (f i n) (for_reporters f is)"

definition e2_Register :: "'x e2_node \<Rightarrow> ('x e2_node \<times> 'x e2_action list) option" where
  "e2_Register n =
     (if en_active n then
        (if \<not> en_hasRic n then None
         else Some (n\<lparr>en_registrationEvent := True\<rparr>, [RegistrationRequest (en_type n) (en_e2NodeId n)]))
      else Some (n, []))"

definition e2_ScheduleNextSend :: "'x e2_node \<Rightarrow> 'x e2_node" where
  "e2_ScheduleNextSend n =
     (if en_active n
      then n\<lparr>en_sendEvent := True, en_lostSends := en_lostSends n + (if en_sendEvent n then 1 else 0)\<rparr>
      else n)"

definition e2_CancelNextSend :: "'x e2_node \<Rightarrow> 'x e2_node" where
  "e2_CancelNextSend n = n\<lparr>en_sendEvent := False\<rparr>"

definition e2_Deregister :: "'x e2_node \<Rightarrow> ('x e2_node \<times> 'x e2_action list) option" where
  "e2_Deregister n =
     (if \<not> en_hasRic n then None
      else Some (n\<lparr>en_registrationEvent := False\<rparr>, [DeregistrationRequest (en_e2NodeId n)]))"

definition e2_Deactivate :: "'x e2_env \<Rightarrow> 'x e2_node \<Rightarrow> ('x e2_node \<times> 'x e2_action list) option" where
  "e2_Deactivate env n =
     (if en_active n then
        Option.bind (for_reporters (rep_Deactivate env) (en_reporters n) n) (\<lambda>n1.
        map_option (\<lambda>(n2, as). (n2\<lparr>en_active := False\<rparr>, as)) (e2_Deregister (e2_CancelNextSend n1)))
      else Some (n, []))"

definition e2_Activate :: "'x e2_env \<Rightarrow> 'x e2_node \<Rightarrow> ('x e2_node \<times> 'x e2_action list) option" where
  "e2_Activate env n =
     (if \<not> en_hasRic n then e2_Deactivate env (n\<lparr>en_active := False\<rparr>)
      else if \<not> en_active n then
        Option.bind (e2_Register (n\<lparr>en_active := True, en_reports := []\<rparr>)) (\<lambda>(n1, as).
        map_option (\<lambda>n2. (n2, as)) (for_reporters (rep_Activate env) (en_reporters n1) n1))
      else Some (n, []))"

definition e2_AddReporter :: "nat \<Rightarrow> 'x e2_node \<Rightarrow> 'x e2_node" where
  "e2_AddReporter i n = n\<lparr>en_reporters := en_reporters n @ [i]\<rparr>"

definition e2_Attach :: "bool \<Rightarrow> 'x e2_node \<Rightarrow> 'x e2_node" where
  "e2_Attach node n = n\<lparr>en_hasNode := node\<rparr>"

definition e2_ReceiveDeregistrationResponse :: "u64 \<Rightarrow> 'x e2_node \<Rightarrow> 'x e2_node" where
  "e2_ReceiveDeregistrationResponse e2NodeId n = n\<lparr>en_e2NodeId := 0\<rparr>"

definition e2_ReceiveRegistrationResponse ::
    "('x :: {zero,plus,divide}) e2_env \<Rightarrow> time_ns \<Rightarrow> u64 \<Rightarrow> 'x e2_node \<Rightarrow> 'x e2_node option" where
  "e2_ReceiveRegistrationResponse env now e2NodeId n =
     (if en_active n then
        map_option e2_ScheduleNextSend
          (if en_e2NodeId n \<noteq> e2NodeId then
             (let n1 = n\<lparr>en_e2NodeId := e2NodeId\<rparr>
              in if e2NodeId > 0 then for_reporters (rep_NotifyRegistrationComplete env now) (en_reporters n1) n1 else Some n1)
           else Some n)
      else Some n)"

definition e2_DoSendReports :: "'x e2_node \<Rightarrow> ('x e2_node \<times> 'x e2_action list) option" where
  "e2_DoSendReports n =
     (if en_active n then
        (if \<not> en_hasRic n then None
         else Some (e2_ScheduleNextSend (n\<lparr>en_reports := []\<rparr>), map SendReport (en_reports n)))
      else Some (n, []))"

text \<open>\<^verbatim>\<open>ReceiveCommand\<close> of the three node types: only the eNB does something.\<close>

definition e2_ReceiveCommand :: "'x e2_env \<Rightarrow> oran_command \<Rightarrow> 'x e2_node \<Rightarrow> 'x e2_action list option" where
  "e2_ReceiveCommand env command n =
     (case en_type n of
        WIRED \<Rightarrow> Some []
      | LTEUE \<Rightarrow> Some []
      | LTEENB \<Rightarrow>
          if en_active n then
            (case command of
               OranCommand _ \<Rightarrow> Some []
             | Lte2LteHandover _ cellId rnti \<Rightarrow>
                 (if \<not> en_hasNode n then None
                  else map_option (\<lambda>hasUeManager. if hasUeManager rnti then [SendHandoverRequest rnti cellId] else [])
                         (ee_enbRrc env)))
          else Some [])"

definition e2_DoDispose :: "'x e2_node \<Rightarrow> 'x e2_node" where
  "e2_DoDispose n = n\<lparr>en_registrationEvent := False, en_sendEvent := False, en_hasNode := False, en_hasRic := False,
     en_reports := [], en_reporters := []\<rparr>"

section \<open>Events\<close>

text \<open>
  What happens to a node: activation and deactivation, its timers, the periodic events and the sinks of
  its triggers, and the messages of the RIC. An event that is not pending does nothing.
\<close>

datatype e2_event =
    NodeActivate
  | NodeDeactivate
  | NodeRegistrationTimer
  | NodeSendTimer
  | NodeLostSend
  | NodeTriggerTimer nat
  | NodeLostTrigger nat
  | NodeSink nat
  | NodeRegistered u64
  | NodeDeregistered u64
  | NodeCommand oran_command
  | NodeTx nat
  | NodeRx nat
  | NodeDlScheduled nat dl_info

definition quiet :: "'x e2_node option \<Rightarrow> ('x e2_node \<times> 'x e2_action list) option" where
  "quiet = map_option (\<lambda>n. (n, []))"

fun e2_handle ::
    "('x :: {zero,plus,divide}) e2_env \<Rightarrow> time_ns \<Rightarrow> e2_event \<Rightarrow> 'x e2_node \<Rightarrow> ('x e2_node \<times> 'x e2_action list) option" where
  "e2_handle env now NodeActivate n = e2_Activate env n"
| "e2_handle env now NodeDeactivate n = e2_Deactivate env n"
| "e2_handle env now NodeRegistrationTimer n =
     (if en_registrationEvent n then e2_Register (n\<lparr>en_registrationEvent := False\<rparr>) else Some (n, []))"
| "e2_handle env now NodeSendTimer n =
     (if en_sendEvent n then e2_DoSendReports (n\<lparr>en_sendEvent := False\<rparr>) else Some (n, []))"
| "e2_handle env now NodeLostSend n =
     (if en_lostSends n = 0 then Some (n, []) else e2_DoSendReports (n\<lparr>en_lostSends := en_lostSends n - 1\<rparr>))"
| "e2_handle env now (NodeTriggerTimer t) n =
     (if tg_triggerEvent (en_trigger n t)
      then quiet (trg_TriggerReport env now t (set_trigger t (\<lambda>tg. tg\<lparr>tg_triggerEvent := False\<rparr>) n)) else Some (n, []))"
| "e2_handle env now (NodeLostTrigger t) n =
     (if tg_lostEvents (en_trigger n t) = 0 then Some (n, [])
      else quiet (trg_TriggerReport env now t (set_trigger t (\<lambda>tg. tg\<lparr>tg_lostEvents := tg_lostEvents tg - 1\<rparr>) n)))"
| "e2_handle env now (NodeSink t) n =
     (if tg_connected (en_trigger n t) then quiet (trg_TriggerReport env now t n) else Some (n, []))"
| "e2_handle env now (NodeRegistered e2NodeId) n = quiet (e2_ReceiveRegistrationResponse env now e2NodeId n)"
| "e2_handle env now (NodeDeregistered e2NodeId) n = Some (e2_ReceiveDeregistrationResponse e2NodeId n, [])"
| "e2_handle env now (NodeCommand command) n = map_option (\<lambda>as. (n, as)) (e2_ReceiveCommand env command n)"
| "e2_handle env now (NodeTx i) n = Some (set_reporter i rep_AddTx n, [])"
| "e2_handle env now (NodeRx i) n = Some (set_reporter i rep_AddRx n, [])"
| "e2_handle env now (NodeDlScheduled i info) n =
     map_option (\<lambda>rp. (set_reporter i (\<lambda>_. rp) n, [])) (rep_DlScheduled env info n (en_reporter n i))"

fun e2_run ::
    "('x :: {zero,plus,divide}) e2_env \<Rightarrow> (time_ns \<times> e2_event) list \<Rightarrow> 'x e2_node \<Rightarrow> ('x e2_node \<times> 'x e2_action list) option" where
  "e2_run env [] n = Some (n, [])"
| "e2_run env ((now, ev) # evs) n =
     Option.bind (e2_handle env now ev n) (\<lambda>(n1, as1). map_option (\<lambda>(n2, as2). (n2, as1 @ as2)) (e2_run env evs n1))"

end
