(* ===== verification/OranE2Inv.thy ===== *)
theory OranE2Inv
  imports OranE2 OranRicInv
begin

text \<open>
  The invariant of the E2 node terminator: the links between reporters and triggers and what must be
  there for the reports, from which no event makes the node fail; the queue of reports; and runs that
  show what happens outside these conditions.
\<close>

section \<open>The invariant\<close>

text \<open>What the reports and the sinks need of the rest of the node.\<close>

definition e2_needs :: "'x e2_env \<Rightarrow> 'x e2_node \<Rightarrow> bool" where
  "e2_needs env n \<longleftrightarrow> en_hasNode n \<and>
     (ee_position env = None \<longrightarrow> (\<forall>i. rp_kind (en_reporter n i) \<noteq> RepLocation) \<and> (\<forall>t. tg_kind (en_trigger n t) \<noteq> TrgLocationChange)) \<and>
     (ee_ueRrc env = None \<longrightarrow> (\<forall>i. rp_kind (en_reporter n i) \<noteq> RepLteUeCellInfo) \<and> (\<forall>t. tg_kind (en_trigger n t) \<noteq> TrgLteUeHandover)) \<and>
     (en_type n = LTEENB \<longrightarrow> ee_enbRrc env \<noteq> None) \<and>
     (\<forall>i. is_load (rp_kind (en_reporter n i)) \<longrightarrow> rp_hasTerminator (en_reporter n i) \<and> ee_dlBandwidth env \<noteq> None \<and>
        ee_dlRbg env \<noteq> [] \<and> length (ee_dlRbg env) < 2 ^ 16)"

definition rep_linked :: "'x e2_node \<Rightarrow> nat \<Rightarrow> bool" where
  "rep_linked n i \<longleftrightarrow> rp_hasTerminator (en_reporter n i) \<and>
     (\<exists>t. rp_trigger (en_reporter n i) = Some t \<and> tg_active (en_trigger n t) \<and> tg_reporter (en_trigger n t) = Some i)"

definition trg_ok :: "'x e2_node \<Rightarrow> nat \<Rightarrow> bool" where
  "trg_ok n t \<longleftrightarrow>
     (if tg_active (en_trigger n t)
      then (\<exists>i. tg_reporter (en_trigger n t) = Some i \<and> rp_active (en_reporter n i) \<and> rp_trigger (en_reporter n i) = Some t)
      else \<not> tg_triggerEvent (en_trigger n t) \<and> tg_lostEvents (en_trigger n t) = 0 \<and> \<not> tg_connected (en_trigger n t)) \<and>
     (0 < tg_lostEvents (en_trigger n t) \<longrightarrow> tg_initialReport (en_trigger n t)) \<and>
     (tg_triggerEvent (en_trigger n t) \<or> 0 < tg_lostEvents (en_trigger n t) \<longrightarrow> tg_kind (en_trigger n t) = TrgPeriodic) \<and>
     (tg_connected (en_trigger n t) \<longrightarrow> tg_kind (en_trigger n t) \<in> {TrgLocationChange, TrgLteUeHandover})"

definition e2_core :: "'x e2_env \<Rightarrow> 'x e2_node \<Rightarrow> bool" where
  "e2_core env n \<longleftrightarrow> e2_needs env n \<and> (\<forall>i. rp_active (en_reporter n i) \<longrightarrow> rep_linked n i) \<and> (\<forall>t. trg_ok n t)"

definition e2_inv :: "'x e2_env \<Rightarrow> 'x e2_node \<Rightarrow> bool" where
  "e2_inv env n \<longleftrightarrow> e2_core env n \<and>
     (en_active n \<longrightarrow> en_hasRic n \<and> (\<forall>i\<in>set (en_reporters n). rp_active (en_reporter n i)))"

lemmas e2_inv_defs = e2_inv_def e2_core_def e2_needs_def rep_linked_def trg_ok_def

text \<open>The parts of the node that the invariant does not read.\<close>

lemma e2_core_frame [simp]:
  "e2_core env (n\<lparr>en_reports := a\<rparr>) = e2_core env n"
  "e2_core env (n\<lparr>en_sendEvent := b\<rparr>) = e2_core env n"
  "e2_core env (n\<lparr>en_lostSends := c\<rparr>) = e2_core env n"
  "e2_core env (n\<lparr>en_registrationEvent := d\<rparr>) = e2_core env n"
  "e2_core env (n\<lparr>en_e2NodeId := e\<rparr>) = e2_core env n"
  "e2_core env (n\<lparr>en_active := f\<rparr>) = e2_core env n"
  by (simp_all add: e2_inv_defs)

text \<open>What stays: the configuration and the activity of the node and of its reporters.\<close>

definition e2_same :: "'x e2_node \<Rightarrow> 'x e2_node \<Rightarrow> bool" where
  "e2_same n n' \<longleftrightarrow> en_active n' = en_active n \<and> en_hasRic n' = en_hasRic n \<and> en_reporters n' = en_reporters n \<and>
     en_type n' = en_type n \<and> en_e2NodeId n' = en_e2NodeId n \<and> en_sendEvent n' = en_sendEvent n \<and>
     en_lostSends n' = en_lostSends n \<and> en_registrationEvent n' = en_registrationEvent n \<and>
     (\<forall>i. rp_active (en_reporter n' i) = rp_active (en_reporter n i)) \<and>
     (\<forall>t. tg_initialReport (en_trigger n' t) = tg_initialReport (en_trigger n t))"

lemma e2_same_refl [simp]: "e2_same n n"
  by (simp add: e2_same_def)

lemma e2_same_trans: "e2_same a b \<Longrightarrow> e2_same b c \<Longrightarrow> e2_same a c"
  by (simp add: e2_same_def)

lemma e2_inv_same: "e2_inv env n \<Longrightarrow> e2_core env n' \<Longrightarrow> e2_same n n' \<Longrightarrow> e2_inv env n'"
  by (simp add: e2_inv_def e2_same_def)

section \<open>Reports\<close>

text \<open>The reports that a call adds.\<close>

definition adds_reports :: "time_ns \<Rightarrow> 'x e2_node \<Rightarrow> 'x e2_node \<Rightarrow> bool" where
  "adds_reports now n n' \<longleftrightarrow> (\<exists>new. en_reports n' = en_reports n @ new \<and>
     (\<forall>r\<in>set new. report_node r = en_e2NodeId n \<and> report_time r = now))"

lemma adds_reports_refl: "en_reports n' = en_reports n \<Longrightarrow> adds_reports now n n'"
  by (simp add: adds_reports_def)

lemma adds_reports_trans:
  assumes "adds_reports now a b" "adds_reports now b c" "en_e2NodeId b = en_e2NodeId a"
  shows "adds_reports now a c"
  using assms by (fastforce simp: adds_reports_def)

lemma fold_StoreReport:
  "fold e2_StoreReport reports n = (if en_active n then n\<lparr>en_reports := en_reports n @ reports\<rparr> else n)"
  by (induction reports arbitrary: n) (simp_all add: e2_StoreReport_def)


definition e2_step_ok :: "'x e2_env \<Rightarrow> time_ns \<Rightarrow> 'x e2_node \<Rightarrow> 'x e2_node \<Rightarrow> bool" where
  "e2_step_ok env now n n' \<longleftrightarrow> e2_core env n' \<and> e2_same n n' \<and> adds_reports now n n'"

lemma e2_step_ok_trans: "e2_step_ok env now a b \<Longrightarrow> e2_step_ok env now b c \<Longrightarrow> e2_step_ok env now a c"
  unfolding e2_step_ok_def using e2_same_trans adds_reports_trans by (metis e2_same_def)

lemma GenerateReports_ok:
  assumes "e2_needs env n" "rp_active (en_reporter n i)" "rp_hasTerminator (en_reporter n i)"
  shows "\<exists>reports k. rep_GenerateReports env now n (en_reporter n i) = Some (reports, k) \<and>
    (k = RepLocation \<longleftrightarrow> rp_kind (en_reporter n i) = RepLocation) \<and>
    (k = RepLteUeCellInfo \<longleftrightarrow> rp_kind (en_reporter n i) = RepLteUeCellInfo) \<and>
    (is_load k \<longleftrightarrow> is_load (rp_kind (en_reporter n i))) \<and>
    (\<forall>r\<in>set reports. report_node r = en_e2NodeId n \<and> report_time r = now)"
  using assms
  by (cases "rp_kind (en_reporter n i)"; cases "ee_position env"; cases "ee_ueRrc env")
     (auto simp: generate_defs e2_needs_def Let_def split: prod.splits)

lemma PerformReport_ok:
  assumes core: "e2_core env n" and i: "rp_active (en_reporter n i)"
  shows "returns True (e2_step_ok env now n) (rep_PerformReport env now i n)"
proof -
  have link: "rep_linked n i" and needs: "e2_needs env n"
    using core i by (auto simp: e2_core_def)
  then have trm: "rp_hasTerminator (en_reporter n i)"
    by (simp add: rep_linked_def)
  obtain reports k where g: "rep_GenerateReports env now n (en_reporter n i) = Some (reports, k)"
    "k = RepLocation \<longleftrightarrow> rp_kind (en_reporter n i) = RepLocation"
    "k = RepLteUeCellInfo \<longleftrightarrow> rp_kind (en_reporter n i) = RepLteUeCellInfo"
    "is_load k \<longleftrightarrow> is_load (rp_kind (en_reporter n i))"
    "\<forall>r\<in>set reports. report_node r = en_e2NodeId n \<and> report_time r = now"
    using GenerateReports_ok [OF needs i trm] by blast
  let ?n = "set_reporter i (\<lambda>rp. rp\<lparr>rp_kind := k\<rparr>) n"
  have f: "rp_active (en_reporter ?n j) = rp_active (en_reporter n j)"
    "rp_hasTerminator (en_reporter ?n j) = rp_hasTerminator (en_reporter n j)"
    "rp_trigger (en_reporter ?n j) = rp_trigger (en_reporter n j)" "en_trigger ?n = en_trigger n"
    "en_hasNode ?n = en_hasNode n" "en_type ?n = en_type n"
    "rp_kind (en_reporter ?n j) = RepLocation \<longleftrightarrow> rp_kind (en_reporter n j) = RepLocation"
    "rp_kind (en_reporter ?n j) = RepLteUeCellInfo \<longleftrightarrow> rp_kind (en_reporter n j) = RepLteUeCellInfo"
    "is_load (rp_kind (en_reporter ?n j)) \<longleftrightarrow> is_load (rp_kind (en_reporter n j))" for j
    using g(2-4) by (simp_all add: set_reporter_def)
  have "e2_core env ?n"
    using core by (simp add: e2_inv_defs f)
  moreover have "e2_same n ?n" "en_reports ?n = en_reports n"
    by (auto simp: e2_same_def set_reporter_def)
  ultimately have "e2_step_ok env now n (fold e2_StoreReport reports ?n)"
    using g(5) by (auto simp: fold_StoreReport e2_step_ok_def e2_same_def adds_reports_def)
  then show ?thesis
    using i trm g(1) by (simp add: rep_PerformReport_def)
qed

text \<open>The next event of the periodic trigger.\<close>

lemma schedule_ok:
  assumes "e2_core env n" "tg_active (en_trigger n t)" "tg_kind (en_trigger n t) = TrgPeriodic" "tg_triggerEvent (en_trigger n t) \<longrightarrow> tg_initialReport (en_trigger n t)"
  shows "e2_step_ok env now n (set_trigger t trg_ScheduleNextTrigger n)"
proof -
  let ?n = "set_trigger t trg_ScheduleNextTrigger n"
  have f: "tg_active (en_trigger ?n u) = tg_active (en_trigger n u)" "tg_reporter (en_trigger ?n u) = tg_reporter (en_trigger n u)"
    "tg_connected (en_trigger ?n u) = tg_connected (en_trigger n u)" "tg_kind (en_trigger ?n u) = tg_kind (en_trigger n u)"
    "tg_initialReport (en_trigger ?n u) = tg_initialReport (en_trigger n u)"
    "u \<noteq> t \<Longrightarrow> en_trigger ?n u = en_trigger n u" "en_reporter ?n = en_reporter n" for u
    by (simp_all add: set_trigger_def trg_ScheduleNextTrigger_def)
  have "trg_ok ?n u" for u
    using assms by (cases "u = t") (auto simp: e2_core_def trg_ok_def set_trigger_def trg_ScheduleNextTrigger_def)
  moreover have "rep_linked ?n i" if "rep_linked n i" for i
    using that f by (simp add: rep_linked_def)
  moreover have "e2_needs env ?n = e2_needs env n"
    using f by (simp add: e2_needs_def) (simp add: set_trigger_def)
  ultimately have "e2_core env ?n"
    using assms(1) f by (simp add: e2_core_def)
  moreover have "e2_same n ?n" "en_reports ?n = en_reports n"
    by (auto simp: e2_same_def set_trigger_def trg_ScheduleNextTrigger_def)
  ultimately show ?thesis
    by (simp add: e2_step_ok_def adds_reports_refl)
qed

lemma TriggerReport_ok:
  assumes core: "e2_core env n" and t: "tg_active (en_trigger n t)"
    and ev: "tg_kind (en_trigger n t) = TrgPeriodic \<and> tg_triggerEvent (en_trigger n t) \<longrightarrow> tg_initialReport (en_trigger n t)"
  shows "returns True (e2_step_ok env now n) (trg_TriggerReport env now t n)"
proof -
  define n1 where "n1 = (if tg_kind (en_trigger n t) = TrgPeriodic \<and> tg_active (en_trigger n t)
    then set_trigger t trg_ScheduleNextTrigger n else n)"
  have 1: "e2_step_ok env now n n1"
    using schedule_ok [OF core t _] ev core
    by (cases "tg_kind (en_trigger n t) = TrgPeriodic") (simp_all add: n1_def t e2_step_ok_def adds_reports_refl)
  have t1: "tg_active (en_trigger n1 t)"
    using t by (simp add: n1_def set_trigger_def trg_ScheduleNextTrigger_def)
  moreover have "trg_ok n1 t"
    using 1 by (simp add: e2_step_ok_def e2_core_def)
  ultimately obtain i where i: "tg_reporter (en_trigger n1 t) = Some i" "rp_active (en_reporter n1 i)"
    by (auto simp: trg_ok_def)
  have "e2_core env n1"
    using 1 by (simp add: e2_step_ok_def)
  from PerformReport_ok [OF this i(2), of now] show ?thesis
    using e2_step_ok_trans [OF 1] i(1) unfolding trg_TriggerReport_def Let_def n1_def [symmetric]
    by (auto simp: returns_total)
qed

lemma for_reporters_ok:
  assumes "\<And>i n. i \<in> set is \<Longrightarrow> Q n \<Longrightarrow> returns True Q (f i n)" "Q n"
  shows "returns True Q (for_reporters f is n)"
  using assms
proof (induction "is" arbitrary: n)
  case (Cons i "is")
  then show ?case
    by (auto intro!: returns_bind [of True Q])
qed simp

lemma notify_all_ok:
  assumes inv: "e2_inv env n" and act: "en_active n"
  shows "returns True (e2_step_ok env now n) (for_reporters (rep_NotifyRegistrationComplete env now) (en_reporters n) n)"
proof (rule for_reporters_ok)
  show "e2_step_ok env now n n"
    using inv by (simp add: e2_step_ok_def e2_inv_def adds_reports_refl)
  fix i n1
  assume i: "i \<in> set (en_reporters n)" and n1: "e2_step_ok env now n n1"
  have core: "e2_core env n1"
    using n1 by (simp add: e2_step_ok_def)
  have "rp_active (en_reporter n1 i)"
    using inv act i n1 by (auto simp: e2_inv_def e2_step_ok_def e2_same_def)
  then obtain t where t: "rp_trigger (en_reporter n1 i) = Some t" "tg_active (en_trigger n1 t)"
    using core by (auto simp: e2_core_def rep_linked_def)
  have "returns True (e2_step_ok env now n1) (rep_NotifyRegistrationComplete env now i n1)"
    using TriggerReport_ok [OF core t(2), of now] core t
    by (auto simp: rep_NotifyRegistrationComplete_def trg_NotifyRegistrationComplete_def e2_step_ok_def adds_reports_refl)
  then show "returns True (e2_step_ok env now n) (rep_NotifyRegistrationComplete env now i n1)"
    by (rule returns_mono) (rule e2_step_ok_trans [OF n1])
qed

text \<open>The reports among the actions.\<close>

definition sent_reports :: "'x e2_action list \<Rightarrow> 'x oran_report list" where
  "sent_reports as = concat (map (\<lambda>a. case a of SendReport r \<Rightarrow> [r] | _ \<Rightarrow> []) as)"

lemma sent_reports_simps [simp]:
  "sent_reports [] = []"
  "sent_reports (as @ bs) = sent_reports as @ sent_reports bs"
  "sent_reports (map SendReport rs) = rs"
  "sent_reports (RegistrationRequest ty e # as) = sent_reports as"
  "sent_reports (DeregistrationRequest e # as) = sent_reports as"
  "sent_reports (SendHandoverRequest u c # as) = sent_reports as"
  by (induction rs) (simp_all add: sent_reports_def)

section \<open>Activation and deactivation\<close>

definition no_initial :: "'x e2_node \<Rightarrow> bool" where
  "no_initial n \<longleftrightarrow> (\<forall>t. \<not> tg_initialReport (en_trigger n t))"

lemma trg_sink_ok:
  assumes "e2_needs env n" "rp_hasTerminator (en_reporter n i)" "tg_kind (en_trigger n t) = k"
  shows "trg_sink env k i n = Some ()"
  using assms by (auto simp: trg_sink_def trg_mobility_def trg_ueRrc_def e2_needs_def split: trigger_kind.splits)

text \<open>The node after a trigger and its reporter are deactivated.\<close>

definition unlinked :: "nat \<Rightarrow> nat \<Rightarrow> 'x e2_node \<Rightarrow> 'x e2_node" where
  "unlinked t i n = set_reporter i (\<lambda>rp. rp\<lparr>rp_trigger := None, rp_active := False\<rparr>)
     (set_trigger t (\<lambda>tg. tg\<lparr>tg_reporter := None, tg_active := False, tg_triggerEvent := False, tg_connected := False\<rparr>) n)"

lemma rep_Deactivate_eq:
  assumes core: "e2_core env n" and i: "rp_active (en_reporter n i)" "rp_trigger (en_reporter n i) = Some t"
  shows "rep_Deactivate env i n = Some (unlinked t i n)"
proof -
  have link: "rp_hasTerminator (en_reporter n i)" "tg_active (en_trigger n t)" "tg_reporter (en_trigger n t) = Some i"
    using core i by (auto simp: e2_core_def rep_linked_def)
  have sink: "trg_sink env (tg_kind (en_trigger n t)) i n = Some ()"
    using core link by (intro trg_sink_ok) (auto simp: e2_core_def)
  have "trg_ok n t"
    using core by (simp add: e2_core_def)
  then have "tg_kind (en_trigger n t) \<noteq> TrgPeriodic \<longrightarrow> \<not> tg_triggerEvent (en_trigger n t)"
    "tg_kind (en_trigger n t) \<in> {TrgBase, TrgPeriodic} \<longrightarrow> \<not> tg_connected (en_trigger n t)"
    by (auto simp: trg_ok_def)
  then show ?thesis
    using i link sink
    by (cases "tg_kind (en_trigger n t)"; cases "en_trigger n t")
       (auto simp: rep_Deactivate_def trg_Deactivate_by_sink Let_def trg_disconnect_def trg_base_Deactivate_def unlinked_def
          set_reporter_def set_trigger_def trg_CancelNextTrigger_def fun_eq_iff)
qed

lemma unlinked_core:
  assumes core: "e2_core env n" and i: "rp_active (en_reporter n i)" "rp_trigger (en_reporter n i) = Some t" "no_initial n"
  shows "e2_core env (unlinked t i n)"
proof -
  let ?n = "unlinked t i n"
  have link: "tg_reporter (en_trigger n t) = Some i"
    using core i by (auto simp: e2_core_def rep_linked_def)
  have f: "j \<noteq> i \<Longrightarrow> en_reporter ?n j = en_reporter n j" "u \<noteq> t \<Longrightarrow> en_trigger ?n u = en_trigger n u"
    "\<not> rp_active (en_reporter ?n i)" "\<not> tg_active (en_trigger ?n t)" for j u
    by (simp_all add: unlinked_def set_reporter_def set_trigger_def)
  have "rep_linked ?n j" if "rp_active (en_reporter ?n j)" for j
  proof -
    have j: "j \<noteq> i"
      using that f(3) by blast
    with that core have "rep_linked n j"
      by (simp add: f(1) e2_core_def)
    with link j show ?thesis
      unfolding rep_linked_def by (metis f(1,2) option.inject)
  qed
  moreover have "trg_ok ?n u" for u
  proof (cases "u = t")
    case True
    have "tg_lostEvents (en_trigger n t) = 0"
      using core i(3) by (auto simp: e2_core_def trg_ok_def no_initial_def)
    with True show ?thesis
      by (simp add: trg_ok_def unlinked_def set_reporter_def set_trigger_def)
  next
    case False
    have "trg_ok n u"
      using core by (simp add: e2_core_def)
    moreover have "j \<noteq> i" if "rp_trigger (en_reporter n j) = Some u" for j
      using that i(2) False by auto
    ultimately show ?thesis
      unfolding trg_ok_def f(2) [OF False] by (metis f(1))
  qed
  moreover have "e2_needs env ?n"
    using core by (auto simp: e2_core_def e2_needs_def unlinked_def set_reporter_def set_trigger_def)
  ultimately show ?thesis
    by (simp add: e2_core_def)
qed

text \<open>What the deactivation of the reporters keeps.\<close>

definition e2_kept :: "'x e2_node \<Rightarrow> 'x e2_node \<Rightarrow> bool" where
  "e2_kept n n' \<longleftrightarrow> en_active n' = en_active n \<and> en_hasRic n' = en_hasRic n \<and> en_reporters n' = en_reporters n \<and>
     en_type n' = en_type n \<and> en_e2NodeId n' = en_e2NodeId n \<and> en_reports n' = en_reports n \<and>
     en_sendEvent n' = en_sendEvent n \<and> en_lostSends n' = en_lostSends n \<and> (no_initial n \<longrightarrow> no_initial n')"

lemma e2_kept_refl [simp]: "e2_kept n n"
  by (simp add: e2_kept_def)

lemma e2_kept_trans: "e2_kept a b \<Longrightarrow> e2_kept b c \<Longrightarrow> e2_kept a c"
  by (simp add: e2_kept_def)

lemma unlinked_kept: "e2_kept n (unlinked t i n)"
  by (auto simp: e2_kept_def no_initial_def unlinked_def set_reporter_def set_trigger_def)

lemma rep_Deactivate_ok:
  assumes "e2_core env n" "no_initial n"
  shows "returns True (\<lambda>n'. e2_core env n' \<and> e2_kept n n') (rep_Deactivate env i n)"
proof (cases "rp_active (en_reporter n i)")
  case True
  then obtain t where "rp_trigger (en_reporter n i) = Some t"
    using assms(1) by (auto simp: e2_core_def rep_linked_def)
  with True show ?thesis
    using assms by (simp add: rep_Deactivate_eq unlinked_core unlinked_kept)
qed (use assms in \<open>simp add: rep_Deactivate_def\<close>)

lemma Deactivate_ok:
  assumes inv: "e2_inv env n" and ni: "no_initial n"
  shows "returns True (\<lambda>(n', as). e2_inv env n' \<and> \<not> en_active n' \<and> no_initial n' \<and>
      en_reports n' = en_reports n \<and> sent_reports as = []) (e2_Deactivate env n)"
proof (cases "en_active n")
  case True
  have "returns True (\<lambda>n'. e2_core env n' \<and> e2_kept n n') (for_reporters (rep_Deactivate env) (en_reporters n) n)"
  proof (rule for_reporters_ok)
    show "e2_core env n \<and> e2_kept n n"
      using inv by (simp add: e2_inv_def)
    fix i n1
    assume n1: "e2_core env n1 \<and> e2_kept n n1"
    then have "no_initial n1"
      using ni by (simp add: e2_kept_def)
    with n1 have "returns True (\<lambda>n'. e2_core env n' \<and> e2_kept n1 n') (rep_Deactivate env i n1)"
      by (intro rep_Deactivate_ok) simp_all
    then show "returns True (\<lambda>n'. e2_core env n' \<and> e2_kept n n') (rep_Deactivate env i n1)"
      by (rule returns_mono) (use n1 e2_kept_trans in blast)
  qed
  then show ?thesis
    unfolding e2_Deactivate_def
    using True inv ni
    by (auto intro!: returns_bind simp: e2_Deregister_def e2_CancelNextSend_def e2_inv_def e2_kept_def no_initial_def)
qed (use inv ni in \<open>simp add: e2_Deactivate_def\<close>)

text \<open>A node that is ready to be activated.\<close>

definition rep_ready :: "'x e2_node \<Rightarrow> nat \<Rightarrow> bool" where
  "rep_ready n i \<longleftrightarrow> \<not> rp_active (en_reporter n i) \<and> rp_hasTerminator (en_reporter n i) \<and>
     (\<exists>t. rp_trigger (en_reporter n i) = Some t \<and> \<not> tg_active (en_trigger n t))"

definition e2_configured :: "'x e2_env \<Rightarrow> 'x e2_node \<Rightarrow> bool" where
  "e2_configured env n \<longleftrightarrow> e2_core env n \<and> \<not> en_active n \<and> en_hasRic n \<and> (\<forall>i\<in>set (en_reporters n). rep_ready n i) \<and>
     distinct (map (\<lambda>i. rp_trigger (en_reporter n i)) (en_reporters n))"

text \<open>The node after a trigger and its reporter are activated.\<close>

definition linked :: "nat \<Rightarrow> nat \<Rightarrow> 'x e2_node \<Rightarrow> 'x e2_node" where
  "linked t i n = set_reporter i (\<lambda>rp. rp\<lparr>rp_trigger := Some t, rp_active := True\<rparr>)
     (set_trigger t (\<lambda>tg. tg\<lparr>tg_reporter := Some i, tg_active := True,
        tg_triggerEvent := (tg_kind tg = TrgPeriodic), tg_connected := (tg_kind tg \<in> {TrgLocationChange, TrgLteUeHandover})\<rparr>) n)"

lemma rep_Activate_eq:
  assumes core: "e2_core env n" and i: "rep_ready n i" "rp_trigger (en_reporter n i) = Some t"
  shows "rep_Activate env i n = Some (linked t i n)"
proof -
  have r: "\<not> rp_active (en_reporter n i)" "rp_hasTerminator (en_reporter n i)" "\<not> tg_active (en_trigger n t)"
    using i by (auto simp: rep_ready_def)
  have "e2_needs env (set_reporter i (\<lambda>rp. rp\<lparr>rp_active := True\<rparr>) n)"
    using core by (auto simp: e2_core_def e2_needs_def set_reporter_def)
  then have sink: "trg_sink env (tg_kind (en_trigger n t)) i (set_reporter i (\<lambda>rp. rp\<lparr>rp_active := True\<rparr>) n) = Some ()"
    using r by (intro trg_sink_ok) (auto simp: set_reporter_def)
  have "trg_ok n t"
    using core by (simp add: e2_core_def)
  then have "\<not> tg_triggerEvent (en_trigger n t)" "\<not> tg_connected (en_trigger n t)" "tg_lostEvents (en_trigger n t) = 0"
    using r by (auto simp: trg_ok_def)
  then show ?thesis
    using i r sink
    by (cases "tg_kind (en_trigger n t)"; cases "en_trigger n t")
       (auto simp: rep_Activate_def trg_Activate_by_sink Let_def trg_base_Activate_def linked_def
          set_reporter_def set_trigger_def trg_ScheduleNextTrigger_def fun_eq_iff)
qed

lemma linked_core:
  assumes core: "e2_core env n" and i: "rep_ready n i" "rp_trigger (en_reporter n i) = Some t"
  shows "e2_core env (linked t i n)"
proof -
  let ?n = "linked t i n"
  have r: "\<not> rp_active (en_reporter n i)" "rp_hasTerminator (en_reporter n i)" "\<not> tg_active (en_trigger n t)"
    using i by (auto simp: rep_ready_def)
  have f: "j \<noteq> i \<Longrightarrow> en_reporter ?n j = en_reporter n j" "u \<noteq> t \<Longrightarrow> en_trigger ?n u = en_trigger n u" for j u
    by (simp_all add: linked_def set_reporter_def set_trigger_def)
  have fi: "rp_active (en_reporter ?n i)" "rp_trigger (en_reporter ?n i) = Some t" "rp_hasTerminator (en_reporter ?n i)"
    "tg_active (en_trigger ?n t)" "tg_reporter (en_trigger ?n t) = Some i"
    using r by (simp_all add: linked_def set_reporter_def set_trigger_def)
  have ok: "trg_ok n u" for u
    using core by (simp add: e2_core_def)
  have "rep_linked ?n j" if "rp_active (en_reporter ?n j)" for j
  proof (cases "j = i")
    case False
    with that core have "rep_linked n j"
      by (simp add: f(1) e2_core_def)
    then obtain u where u: "rp_hasTerminator (en_reporter n j)" "rp_trigger (en_reporter n j) = Some u"
      "tg_active (en_trigger n u)" "tg_reporter (en_trigger n u) = Some j"
      by (auto simp: rep_linked_def)
    then have "u \<noteq> t"
      using r by auto
    with u show ?thesis
      by (simp add: rep_linked_def f False)
  qed (use fi in \<open>simp add: rep_linked_def\<close>)
  moreover have "trg_ok ?n u" for u
  proof (cases "u = t")
    case True
    have "tg_lostEvents (en_trigger n t) = 0"
      using ok [of t] r by (simp add: trg_ok_def)
    with True show ?thesis
      using fi by (auto simp: trg_ok_def) (auto simp: linked_def set_reporter_def set_trigger_def)
  next
    case False
    have "j \<noteq> i" if "rp_active (en_reporter n j)" for j
      using that r by auto
    with ok [of u] show ?thesis
      unfolding trg_ok_def f(2) [OF False] by (metis f(1))
  qed
  moreover have "e2_needs env ?n"
    using core by (auto simp: e2_core_def e2_needs_def linked_def set_reporter_def set_trigger_def)
  ultimately show ?thesis
    by (simp add: e2_core_def)
qed

lemma linked_kept: "e2_kept n (linked t i n)"
  by (auto simp: e2_kept_def no_initial_def linked_def set_reporter_def set_trigger_def)

lemma activate_all_ok:
  assumes "e2_core env n" "\<forall>i\<in>set is. rep_ready n i" "distinct (map (\<lambda>i. rp_trigger (en_reporter n i)) is)"
  shows "\<exists>n'. for_reporters (rep_Activate env) is n = Some n' \<and> e2_core env n' \<and> e2_kept n n' \<and>
    (\<forall>i\<in>set is. rp_active (en_reporter n' i)) \<and> (\<forall>i. rp_active (en_reporter n i) \<longrightarrow> rp_active (en_reporter n' i))"
  using assms
proof (induction "is" arbitrary: n)
  case (Cons i "is")
  obtain t where t: "rp_trigger (en_reporter n i) = Some t"
    using Cons.prems(2) by (auto simp: rep_ready_def)
  let ?n = "linked t i n"
  have ready: "rep_ready ?n j \<and> rp_trigger (en_reporter ?n j) = rp_trigger (en_reporter n j)" if "j \<in> set is" for j
  proof -
    have "rp_trigger (en_reporter n j) \<noteq> Some t"
      using Cons.prems(3) that t by force
    then have "j \<noteq> i"
      using t by auto
    with \<open>rp_trigger (en_reporter n j) \<noteq> Some t\<close> that Cons.prems(2) show ?thesis
      by (auto simp: rep_ready_def linked_def set_reporter_def set_trigger_def)
  qed
  have a: "\<forall>j\<in>set is. rep_ready ?n j"
    using ready by blast
  have eq: "map (\<lambda>j. rp_trigger (en_reporter ?n j)) is = map (\<lambda>j. rp_trigger (en_reporter n j)) is"
    using ready by (intro map_cong) auto
  have b: "distinct (map (\<lambda>j. rp_trigger (en_reporter ?n j)) is)"
    unfolding eq using Cons.prems(3) by simp
  have i: "rep_ready n i"
    using Cons.prems(2) by simp
  obtain n' where n': "for_reporters (rep_Activate env) is ?n = Some n'" "e2_core env n'" "e2_kept ?n n'"
    "\<forall>i\<in>set is. rp_active (en_reporter n' i)" "\<forall>i. rp_active (en_reporter ?n i) \<longrightarrow> rp_active (en_reporter n' i)"
    using Cons.IH [OF linked_core [OF Cons.prems(1) i t] a b] by blast
  have act: "rp_active (en_reporter ?n i)" "rp_active (en_reporter n j) \<Longrightarrow> rp_active (en_reporter ?n j)" for j
    by (auto simp: linked_def set_reporter_def set_trigger_def)
  have "for_reporters (rep_Activate env) (i # is) n = Some n'"
    using n'(1) by (simp add: rep_Activate_eq [OF Cons.prems(1) i t])
  moreover have "e2_kept n n'"
    by (rule e2_kept_trans [OF linked_kept n'(3)])
  ultimately show ?case
    using n'(2,4,5) act by auto
qed simp

lemma Activate_ok:
  assumes conf: "e2_configured env n"
  shows "\<exists>n'. e2_Activate env n = Some (n', [RegistrationRequest (en_type n) (en_e2NodeId n)]) \<and> e2_inv env n' \<and>
    en_active n' \<and> en_reports n' = [] \<and> en_sendEvent n' = en_sendEvent n \<and> en_lostSends n' = en_lostSends n \<and>
    (no_initial n \<longrightarrow> no_initial n')"
proof -
  define n1 where "n1 = n\<lparr>en_active := True, en_reports := [], en_registrationEvent := True\<rparr>"
  have "rep_ready n1 i = rep_ready n i" for i
    by (simp add: rep_ready_def n1_def)
  then have "\<exists>n'. for_reporters (rep_Activate env) (en_reporters n1) n1 = Some n' \<and> e2_core env n' \<and> e2_kept n1 n' \<and>
    (\<forall>i\<in>set (en_reporters n1). rp_active (en_reporter n' i)) \<and> (\<forall>i. rp_active (en_reporter n1 i) \<longrightarrow> rp_active (en_reporter n' i))"
    using conf by (intro activate_all_ok) (simp_all add: e2_configured_def n1_def)
  then obtain n' where n': "for_reporters (rep_Activate env) (en_reporters n1) n1 = Some n'" "e2_core env n'" "e2_kept n1 n'"
    "\<forall>i\<in>set (en_reporters n1). rp_active (en_reporter n' i)"
    by blast
  have "e2_Activate env n = Some (n', [RegistrationRequest (en_type n) (en_e2NodeId n)])"
    using conf n'(1) by (simp add: e2_Activate_def e2_configured_def e2_Register_def n1_def)
  with n' conf show ?thesis
    by (auto simp: e2_inv_def e2_configured_def e2_kept_def n1_def no_initial_def)
qed

text \<open>
  The effect of an event: the reports sent and those still stored are those stored before and new
  ones, made now under the id of the node; and every registration response adds a pending send event.
\<close>

definition pending_sends :: "'x e2_node \<Rightarrow> nat" where
  "pending_sends n = en_lostSends n + (if en_sendEvent n then 1 else 0)"

definition e2_effect :: "time_ns \<Rightarrow> e2_event \<Rightarrow> 'x e2_node \<Rightarrow> 'x e2_node \<Rightarrow> 'x e2_action list \<Rightarrow> bool" where
  "e2_effect now ev n n' as \<longleftrightarrow>
     (\<exists>new. sent_reports as @ en_reports n' = en_reports n @ new \<and>
        (\<forall>r\<in>set new. report_time r = now \<and> report_node r = en_e2NodeId n')) \<and>
     (ev \<noteq> NodeDeactivate \<longrightarrow> en_active n' = en_active n \<and> (en_active n \<longrightarrow>
        pending_sends n' = pending_sends n + (case ev of NodeRegistered _ \<Rightarrow> 1 | _ \<Rightarrow> 0)))"

lemma e2_effect_same:
  assumes "e2_same n n'" "adds_reports now n n'" "\<forall>e. ev \<noteq> NodeRegistered e"
  shows "e2_effect now ev n n' []"
  using assms by (cases ev) (auto simp: e2_effect_def e2_same_def adds_reports_def pending_sends_def)

lemma e2_effect_frame:
  assumes "en_reports n' = en_reports n" "sent_reports as = []" "en_active n' = en_active n" "pending_sends n' = pending_sends n"
    "\<forall>e. ev \<noteq> NodeRegistered e"
  shows "e2_effect now ev n n' as"
  using assms by (cases ev) (auto simp: e2_effect_def)

section \<open>Events\<close>

lemma ScheduleNextSend_inv:
  "e2_inv env m \<Longrightarrow> e2_inv env (e2_ScheduleNextSend m)"
  "en_active (e2_ScheduleNextSend m) = en_active m" "no_initial (e2_ScheduleNextSend m) = no_initial m"
  by (simp_all add: e2_ScheduleNextSend_def e2_inv_def no_initial_def)

lemma registered_ok:
  assumes inv: "e2_inv env n"
  shows "returns True (\<lambda>n'. e2_inv env n' \<and> (no_initial n \<longrightarrow> no_initial n') \<and> e2_effect now (NodeRegistered e) n n' [])
    (e2_ReceiveRegistrationResponse env now e n)"
proof (cases "en_active n")
  case True
  define n1 where "n1 = n\<lparr>en_e2NodeId := e\<rparr>"
  have inv1: "e2_inv env n1"
    using inv by (simp add: n1_def e2_inv_def)
  let ?Q = "\<lambda>m. e2_inv env m \<and> (no_initial n \<longrightarrow> no_initial m) \<and> en_active m \<and> pending_sends m = pending_sends n \<and>
      en_sendEvent m = en_sendEvent n \<and> en_lostSends m = en_lostSends n \<and>
      (\<exists>new. en_reports m = en_reports n @ new \<and> (\<forall>r\<in>set new. report_time r = now \<and> report_node r = en_e2NodeId m))"
  have step: "?Q m" if "e2_step_ok env now n1 m" for m
    using that e2_inv_same [OF inv1, of m] True
    by (auto simp: e2_step_ok_def e2_same_def n1_def no_initial_def adds_reports_def pending_sends_def)
  have "returns True (e2_step_ok env now n1) (for_reporters (rep_NotifyRegistrationComplete env now) (en_reporters n1) n1)"
    using True by (intro notify_all_ok [OF inv1]) (simp add: n1_def)
  then have notify: "returns True ?Q (for_reporters (rep_NotifyRegistrationComplete env now) (en_reporters n1) n1)"
    by (rule returns_mono) (rule step)
  have "?Q n1" "?Q n"
    using inv inv1 True by (auto simp: n1_def no_initial_def pending_sends_def)
  with notify have "returns True ?Q
    (if en_e2NodeId n \<noteq> e then
       (if e > 0 then for_reporters (rep_NotifyRegistrationComplete env now) (en_reporters n1) n1 else Some n1)
     else Some n)"
    by (cases "en_e2NodeId n \<noteq> e"; cases "e > 0") simp_all
  moreover have "e2_inv env (e2_ScheduleNextSend m) \<and> (no_initial n \<longrightarrow> no_initial (e2_ScheduleNextSend m)) \<and>
      e2_effect now (NodeRegistered e) n (e2_ScheduleNextSend m) []" if "?Q m" for m
    using that True ScheduleNextSend_inv(1) [of env m] ScheduleNextSend_inv(2,3) [of m]
    by (auto simp: e2_effect_def e2_ScheduleNextSend_def pending_sends_def)
  ultimately show ?thesis
    unfolding e2_ReceiveRegistrationResponse_def Let_def n1_def [symmetric]
    using True by (simp only: if_True) (rule returns_map)
qed (use inv in \<open>simp add: e2_ReceiveRegistrationResponse_def e2_effect_def\<close>)

text \<open>
  The events after the activation: what the MAC reports to the load reporter are transport blocks whose
  sizes are those of \<^const>\<open>GetDlTbSizeFromMcs\<close>, in bytes. A node whose triggers send an initial report is not
  deactivated.
\<close>

definition block_ok :: "u8 \<Rightarrow> u16 \<Rightarrow> bool" where
  "block_ok mcs bytes \<longleftrightarrow> mcs < 29 \<and> (\<exists>nprb sz. GetDlTbSizeFromMcs (uint mcs) nprb = Some sz \<and> uint bytes = sz div 8)"

definition e2_event_fits :: "e2_event \<Rightarrow> bool" where
  "e2_event_fits ev = (case ev of
     NodeActivate \<Rightarrow> False
   | NodeDlScheduled i info \<Rightarrow> block_ok (dl_mcsTb1 info) (dl_sizeTb1 info) \<and>
       (dl_sizeTb2 info \<noteq> 0 \<longrightarrow> block_ok (dl_mcsTb2 info) (dl_sizeTb2 info))
   | _ \<Rightarrow> True)"

definition e2_event_ok :: "'x e2_node \<Rightarrow> e2_event \<Rightarrow> bool" where
  "e2_event_ok n ev \<longleftrightarrow> e2_event_fits ev \<and> (ev = NodeDeactivate \<longrightarrow> no_initial n)"

lemma clear_event_core:
  assumes "e2_core env n"
  shows "e2_core env (set_trigger t (\<lambda>tg. tg\<lparr>tg_triggerEvent := False\<rparr>) n)"
    "e2_core env (set_trigger t (\<lambda>tg. tg\<lparr>tg_lostEvents := tg_lostEvents tg - 1\<rparr>) n)"
proof -
  have *: "e2_core env (set_trigger t (\<lambda>tg. tg\<lparr>tg_triggerEvent := a tg, tg_lostEvents := b tg\<rparr>) n)"
    if "\<And>tg. a tg \<longrightarrow> tg_triggerEvent tg" "\<And>tg. b tg \<le> tg_lostEvents tg" for a b
  proof -
    let ?n = "set_trigger t (\<lambda>tg. tg\<lparr>tg_triggerEvent := a tg, tg_lostEvents := b tg\<rparr>) n"
    have f: "tg_active (en_trigger ?n u) = tg_active (en_trigger n u)" "tg_reporter (en_trigger ?n u) = tg_reporter (en_trigger n u)"
      "tg_connected (en_trigger ?n u) = tg_connected (en_trigger n u)" "tg_kind (en_trigger ?n u) = tg_kind (en_trigger n u)"
      "tg_initialReport (en_trigger ?n u) = tg_initialReport (en_trigger n u)" "en_reporter ?n = en_reporter n"
      "en_hasNode ?n = en_hasNode n" "en_type ?n = en_type n"
      "tg_triggerEvent (en_trigger ?n u) \<longrightarrow> tg_triggerEvent (en_trigger n u)"
      "tg_lostEvents (en_trigger ?n u) \<le> tg_lostEvents (en_trigger n u)" for u
      using that by (simp_all add: set_trigger_def)
    have "trg_ok ?n u" for u
    proof -
      have "trg_ok n u"
        using assms by (simp add: e2_core_def)
      with f(9,10) [of u] show ?thesis
        unfolding trg_ok_def f(1-8) by (auto split: if_splits)
    qed
    with assms show ?thesis
      by (simp add: e2_core_def e2_needs_def rep_linked_def f(1-8))
  qed
  show "e2_core env (set_trigger t (\<lambda>tg. tg\<lparr>tg_triggerEvent := False\<rparr>) n)"
    using * [of "\<lambda>_. False" tg_lostEvents] by simp
  show "e2_core env (set_trigger t (\<lambda>tg. tg\<lparr>tg_lostEvents := tg_lostEvents tg - 1\<rparr>) n)"
    using * [of tg_triggerEvent "\<lambda>tg. tg_lostEvents tg - 1"] by simp
qed

lemma clear_event_same:
  "e2_same n (set_trigger t (\<lambda>tg. tg\<lparr>tg_triggerEvent := False\<rparr>) n)"
  "e2_same n (set_trigger t (\<lambda>tg. tg\<lparr>tg_lostEvents := tg_lostEvents tg - 1\<rparr>) n)"
  by (auto simp: e2_same_def set_trigger_def)

text \<open>An event of a trigger, after which the trigger reports.\<close>

lemma trigger_event_ok:
  assumes inv: "e2_inv env n" and n1: "e2_core env n1" "e2_same n n1" "tg_active (en_trigger n1 t)"
    "tg_kind (en_trigger n1 t) = TrgPeriodic \<and> tg_triggerEvent (en_trigger n1 t) \<longrightarrow> tg_initialReport (en_trigger n1 t)"
    "en_reports n1 = en_reports n"
  shows "returns True (\<lambda>(n', as). e2_inv env n' \<and> e2_same n n' \<and> adds_reports now n n' \<and> as = []) (quiet (trg_TriggerReport env now t n1))"
proof -
  have "returns True (e2_step_ok env now n1) (trg_TriggerReport env now t n1)"
    by (rule TriggerReport_ok [OF n1(1,3,4)])
  then show ?thesis
    unfolding quiet_def
  proof (rule returns_map)
    fix m
    assume m: "e2_step_ok env now n1 m"
    have "e2_same n m"
      using m e2_same_trans [OF n1(2)] by (simp add: e2_step_ok_def)
    moreover have "e2_inv env m"
      using m calculation by (intro e2_inv_same [OF inv]) (simp_all add: e2_step_ok_def)
    moreover have "adds_reports now n m"
      using m n1(2,5) by (simp add: e2_step_ok_def adds_reports_def e2_same_def)
    ultimately show "case (m, []) of (n', as) \<Rightarrow> e2_inv env n' \<and> e2_same n n' \<and> adds_reports now n n' \<and> as = []"
      by simp
  qed
qed

lemma e2_same_no_initial: "e2_same n n' \<Longrightarrow> no_initial n' = no_initial n"
  by (simp add: e2_same_def no_initial_def)

text \<open>A reporter whose counters change.\<close>

lemma count_reporter_ok:
  assumes inv: "e2_inv env n"
    and k: "\<And>rp. rp = en_reporter n i \<Longrightarrow> rp_active (f rp) = rp_active rp \<and> rp_hasTerminator (f rp) = rp_hasTerminator rp \<and>
      rp_trigger (f rp) = rp_trigger rp \<and> (rp_kind (f rp) = RepLocation \<longleftrightarrow> rp_kind rp = RepLocation) \<and>
      (rp_kind (f rp) = RepLteUeCellInfo \<longleftrightarrow> rp_kind rp = RepLteUeCellInfo) \<and> (is_load (rp_kind (f rp)) \<longleftrightarrow> is_load (rp_kind rp))"
  shows "e2_inv env (set_reporter i f n) \<and> e2_same n (set_reporter i f n)"
proof -
  let ?n = "set_reporter i f n"
  have g: "rp_active (en_reporter ?n j) = rp_active (en_reporter n j)"
    "rp_hasTerminator (en_reporter ?n j) = rp_hasTerminator (en_reporter n j)"
    "rp_trigger (en_reporter ?n j) = rp_trigger (en_reporter n j)" "en_trigger ?n = en_trigger n"
    "en_hasNode ?n = en_hasNode n" "en_type ?n = en_type n" "en_active ?n = en_active n" "en_hasRic ?n = en_hasRic n"
    "en_reporters ?n = en_reporters n"
    "rp_kind (en_reporter ?n j) = RepLocation \<longleftrightarrow> rp_kind (en_reporter n j) = RepLocation"
    "rp_kind (en_reporter ?n j) = RepLteUeCellInfo \<longleftrightarrow> rp_kind (en_reporter n j) = RepLteUeCellInfo"
    "is_load (rp_kind (en_reporter ?n j)) \<longleftrightarrow> is_load (rp_kind (en_reporter n j))" for j
    using k by (simp_all add: set_reporter_def)
  have "e2_same n ?n"
    using k by (simp add: e2_same_def set_reporter_def)
  moreover have "e2_inv env ?n"
    using inv by (simp add: e2_inv_defs g)
  ultimately show ?thesis
    by blast
qed

lemma count_ok:
  assumes "e2_inv env n" "f = rep_AddTx \<or> f = rep_AddRx"
  shows "e2_inv env (set_reporter i f n) \<and> e2_same n (set_reporter i f n)"
  using assms by (intro count_reporter_ok) (auto simp: rep_AddTx_def rep_AddRx_def split: reporter_kind.splits)

lemma rbs_of_block:
  assumes "block_ok mcs bytes"
  shows "\<exists>r. GetDlRbSizeFromMcs (uint mcs) (uint bytes) = Some r"
proof -
  obtain nprb sz where "GetDlTbSizeFromMcs (uint mcs) nprb = Some sz" "uint bytes = sz div 8" "mcs < 29"
    using assms by (auto simp: block_ok_def)
  with rb_size_of_block [of "uint mcs" nprb sz] show ?thesis
    by (auto simp: word_less_def)
qed

lemma DlScheduled_ok:
  assumes inv: "e2_inv env n" and ev: "e2_event_fits (NodeDlScheduled i info)"
  shows "\<exists>rp. rep_DlScheduled env info n (en_reporter n i) = Some rp \<and>
    e2_inv env (set_reporter i (\<lambda>_. rp) n) \<and> e2_same n (set_reporter i (\<lambda>_. rp) n)"
proof -
  let ?rp = "en_reporter n i"
  have "\<exists>rp. rep_DlScheduled env info n ?rp = Some rp \<and> rp_active rp = rp_active ?rp \<and>
      rp_hasTerminator rp = rp_hasTerminator ?rp \<and> rp_trigger rp = rp_trigger ?rp \<and>
      (rp_kind rp = RepLocation \<longleftrightarrow> rp_kind ?rp = RepLocation) \<and>
      (rp_kind rp = RepLteUeCellInfo \<longleftrightarrow> rp_kind ?rp = RepLteUeCellInfo) \<and> (is_load (rp_kind rp) \<longleftrightarrow> is_load (rp_kind ?rp))"
  proof (cases "rp_kind ?rp")
    case (RepLteCellLoad usage last bw)
    then have "is_load (rp_kind ?rp)"
      by simp
    then have need: "rp_hasTerminator ?rp" "ee_dlBandwidth env \<noteq> None" "ee_dlRbg env \<noteq> []" "length (ee_dlRbg env) < 2 ^ 16" "en_hasNode n"
      using inv by (auto simp: e2_inv_def e2_core_def e2_needs_def)
    then obtain b where b: "load_bandwidth env n bw = Some b"
      by (cases bw) (auto simp: load_bandwidth_def)
    have "unat (word_of_nat (length (ee_dlRbg env)) :: u16) = length (ee_dlRbg env)"
      using need(4) by (simp add: unat_of_nat take_bit_nat_eq_self)
    then have num: "(word_of_nat (length (ee_dlRbg env)) :: u16) \<noteq> 0"
      using need(3) by (metis length_0_conv unat_0)
    obtain av sc where "scheduled_rbs info (word_of_nat (length (filter Not (ee_dlRbg env)))) = Some (sc, av)"
      using ev rbs_of_block [of "dl_mcsTb1 info" "dl_sizeTb1 info"] rbs_of_block [of "dl_mcsTb2 info" "dl_sizeTb2 info"]
      by (cases "dl_sizeTb2 info = 0") (auto simp: scheduled_rbs_def e2_event_fits_def)
    with RepLteCellLoad need(1) b num show ?thesis
      by (simp add: rep_DlScheduled_def Let_def)
  qed (simp_all add: rep_DlScheduled_def)
  then obtain rp where rp: "rep_DlScheduled env info n ?rp = Some rp" "rp_active rp = rp_active ?rp"
      "rp_hasTerminator rp = rp_hasTerminator ?rp" "rp_trigger rp = rp_trigger ?rp"
      "rp_kind rp = RepLocation \<longleftrightarrow> rp_kind ?rp = RepLocation"
      "rp_kind rp = RepLteUeCellInfo \<longleftrightarrow> rp_kind ?rp = RepLteUeCellInfo" "is_load (rp_kind rp) \<longleftrightarrow> is_load (rp_kind ?rp)"
    by blast
  then show ?thesis
    using count_reporter_ok [OF inv, of i "\<lambda>_. rp"] by simp
qed

lemma handle_event_ok:
  assumes inv: "e2_inv env n" and ev: "e2_event_ok n ev"
  shows "returns True (\<lambda>(n', as). e2_inv env n' \<and> (no_initial n \<longrightarrow> no_initial n') \<and> e2_effect now ev n n' as) (e2_handle env now ev n)"
    (is "returns True ?Q _")
proof -
  have core: "e2_core env n"
    using inv by (simp add: e2_inv_def)
  have send: "returns True ?Q (e2_DoSendReports m)"
    if "e2_inv env m" "no_initial n \<longrightarrow> no_initial m" "en_reports m = en_reports n" "en_active m = en_active n"
      "pending_sends n = Suc (pending_sends m)" "ev = NodeSendTimer \<or> ev = NodeLostSend" for m
    using that by (auto simp: e2_DoSendReports_def e2_ScheduleNextSend_def e2_inv_def no_initial_def e2_effect_def pending_sends_def)
  have trig: "returns True ?Q (quiet (trg_TriggerReport env now t n1))"
    if "e2_core env n1" "e2_same n n1" "tg_active (en_trigger n1 t)"
      "tg_kind (en_trigger n1 t) = TrgPeriodic \<and> tg_triggerEvent (en_trigger n1 t) \<longrightarrow> tg_initialReport (en_trigger n1 t)" "en_reports n1 = en_reports n"
      "\<forall>e. ev \<noteq> NodeRegistered e" for t n1
    by (rule returns_mono [OF trigger_event_ok [OF inv that(1-5)]])
       (use that(6) in \<open>auto dest: e2_same_no_initial intro: e2_effect_same\<close>)
  show ?thesis
  proof (cases ev)
    case NodeActivate
    with ev show ?thesis
      by (simp add: e2_event_ok_def e2_event_fits_def)
  next
    case NodeDeactivate
    then have "no_initial n"
      using ev by (simp add: e2_event_ok_def)
    from Deactivate_ok [OF inv this] show ?thesis
      unfolding NodeDeactivate e2_handle.simps by (rule returns_mono) (auto simp: e2_effect_def)
  next
    case NodeRegistrationTimer
    then show ?thesis
      using inv by (auto simp: e2_Register_def e2_inv_def no_initial_def pending_sends_def intro!: e2_effect_frame)
  next
    case NodeSendTimer
    have "e2_inv env (n\<lparr>en_sendEvent := False\<rparr>)"
      using inv by (simp add: e2_inv_def)
    then show ?thesis
      using inv NodeSendTimer send [of "n\<lparr>en_sendEvent := False\<rparr>"]
      by (auto simp: no_initial_def pending_sends_def intro!: e2_effect_frame)
  next
    case NodeLostSend
    have "e2_inv env (n\<lparr>en_lostSends := en_lostSends n - 1\<rparr>)"
      using inv by (simp add: e2_inv_def)
    then show ?thesis
      using inv NodeLostSend send [of "n\<lparr>en_lostSends := en_lostSends n - 1\<rparr>"]
      by (auto simp: no_initial_def pending_sends_def intro!: e2_effect_frame)
  next
    case (NodeTriggerTimer t)
    show ?thesis
    proof (cases "tg_triggerEvent (en_trigger n t)")
      case True
      have "trg_ok n t"
        using core by (simp add: e2_core_def)
      then have "tg_active (en_trigger n t)"
        using True by (auto simp: trg_ok_def split: if_splits)
      then show ?thesis
        using NodeTriggerTimer True trig [OF clear_event_core(1) [OF core] clear_event_same(1), of t t]
        by (simp add: set_trigger_def)
    qed (use NodeTriggerTimer inv in \<open>simp add: e2_effect_frame\<close>)
  next
    case (NodeLostTrigger t)
    show ?thesis
    proof (cases "tg_lostEvents (en_trigger n t) = 0")
      case False
      have "trg_ok n t"
        using core by (simp add: e2_core_def)
      then have "tg_active (en_trigger n t)" "tg_initialReport (en_trigger n t)"
        using False by (auto simp: trg_ok_def split: if_splits)
      then show ?thesis
        using NodeLostTrigger False trig [OF clear_event_core(2) [OF core] clear_event_same(2), of t t]
        by (simp add: set_trigger_def)
    qed (use NodeLostTrigger inv in \<open>simp add: e2_effect_frame\<close>)
  next
    case (NodeSink t)
    show ?thesis
    proof (cases "tg_connected (en_trigger n t)")
      case True
      have "trg_ok n t"
        using core by (simp add: e2_core_def)
      then have "tg_active (en_trigger n t)" "tg_kind (en_trigger n t) \<noteq> TrgPeriodic"
        using True by (auto simp: trg_ok_def split: if_splits)
      then show ?thesis
        using NodeSink True trig [OF core e2_same_refl, of t] by simp
    qed (use NodeSink inv in \<open>simp add: e2_effect_frame\<close>)
  next
    case (NodeRegistered e)
    show ?thesis
      unfolding NodeRegistered e2_handle.simps quiet_def
      by (rule returns_map [OF registered_ok [OF inv]]) simp
  next
    case (NodeDeregistered e)
    then show ?thesis
      using inv by (auto simp: e2_ReceiveDeregistrationResponse_def e2_inv_def no_initial_def pending_sends_def intro!: e2_effect_frame)
  next
    case (NodeCommand c)
    have "e2_needs env n"
      using core by (simp add: e2_core_def)
    then have "returns True (\<lambda>as. sent_reports as = []) (e2_ReceiveCommand env c n)"
      by (auto simp: e2_ReceiveCommand_def e2_needs_def split: NodeType.splits oran_command.splits)
    then show ?thesis
      unfolding NodeCommand e2_handle.simps
      by (rule returns_map) (use inv in \<open>simp add: e2_effect_frame\<close>)
  next
    case (NodeTx i)
    with count_ok [OF inv, of rep_AddTx i] show ?thesis
      by (auto dest: e2_same_no_initial intro!: e2_effect_same adds_reports_refl simp: set_reporter_def)
  next
    case (NodeRx i)
    with count_ok [OF inv, of rep_AddRx i] show ?thesis
      by (auto dest: e2_same_no_initial intro!: e2_effect_same adds_reports_refl simp: set_reporter_def)
  next
    case (NodeDlScheduled i info)
    with DlScheduled_ok [OF inv, of i info] ev obtain rp where "rep_DlScheduled env info n (en_reporter n i) = Some rp"
      "e2_inv env (set_reporter i (\<lambda>_. rp) n)" "e2_same n (set_reporter i (\<lambda>_. rp) n)"
      by (auto simp: e2_event_ok_def)
    with NodeDlScheduled show ?thesis
      by (auto dest: e2_same_no_initial intro!: e2_effect_same adds_reports_refl simp: set_reporter_def)
  qed
qed

definition registrations :: "(time_ns \<times> e2_event) list \<Rightarrow> nat" where
  "registrations evs = length (filter (\<lambda>(t, ev). case ev of NodeRegistered _ \<Rightarrow> True | _ \<Rightarrow> False) evs)"

lemma registrations_simps [simp]:
  "registrations [] = 0"
  "registrations ((t, ev) # evs) = (case ev of NodeRegistered _ \<Rightarrow> 1 | _ \<Rightarrow> 0) + registrations evs"
  by (auto simp: registrations_def split: e2_event.splits)

definition e2_run_effect :: "(time_ns \<times> e2_event) list \<Rightarrow> 'x e2_node \<Rightarrow> 'x e2_node \<Rightarrow> 'x e2_action list \<Rightarrow> bool" where
  "e2_run_effect evs n n' as \<longleftrightarrow>
     (\<exists>new. sent_reports as @ en_reports n' = en_reports n @ new \<and> (\<forall>r\<in>set new. report_time r \<in> fst ` set evs)) \<and>
     (NodeDeactivate \<notin> snd ` set evs \<and> en_active n \<longrightarrow> en_active n' \<and> pending_sends n' = pending_sends n + registrations evs)"

lemma e2_run_effect_Cons:
  assumes 1: "e2_effect now ev n n1 as1" and 2: "e2_run_effect evs n1 n2 as2"
  shows "e2_run_effect ((now, ev) # evs) n n2 (as1 @ as2)"
proof -
  obtain new1 where new1: "sent_reports as1 @ en_reports n1 = en_reports n @ new1" "\<forall>r\<in>set new1. report_time r = now"
    using 1 by (auto simp: e2_effect_def)
  obtain new2 where new2: "sent_reports as2 @ en_reports n2 = en_reports n1 @ new2" "\<forall>r\<in>set new2. report_time r \<in> fst ` set evs"
    using 2 by (auto simp: e2_run_effect_def)
  have "sent_reports (as1 @ as2) @ en_reports n2 = en_reports n @ new1 @ new2"
    using new1(1) new2(1) by (metis append.assoc sent_reports_simps(2))
  moreover have "\<forall>r\<in>set (new1 @ new2). report_time r \<in> fst ` set ((now, ev) # evs)"
    using new1(2) new2(2) by auto
  ultimately have "\<exists>new. sent_reports (as1 @ as2) @ en_reports n2 = en_reports n @ new \<and>
      (\<forall>r\<in>set new. report_time r \<in> fst ` set ((now, ev) # evs))"
    by blast
  with 1 2 show ?thesis
    unfolding e2_run_effect_def by (auto simp: e2_effect_def)
qed

lemma e2_run_ok:
  assumes "e2_inv env n" "\<forall>ev\<in>snd ` set evs. e2_event_fits ev" "no_initial n \<or> NodeDeactivate \<notin> snd ` set evs"
  shows "returns True (\<lambda>(n', as). e2_inv env n' \<and> e2_run_effect evs n n' as) (e2_run env evs n)"
  using assms
proof (induction evs arbitrary: n)
  case (Cons te evs)
  obtain now ev where te: "te = (now, ev)"
    by (cases te)
  have "e2_event_ok n ev"
    using Cons.prems te by (auto simp: e2_event_ok_def)
  then obtain n1 as1 where 1: "e2_handle env now ev n = Some (n1, as1)" "e2_inv env n1"
    "no_initial n \<longrightarrow> no_initial n1" "e2_effect now ev n n1 as1"
    using handle_event_ok [OF Cons.prems(1), of ev now] by (auto simp: returns_total)
  then obtain n2 as2 where 2: "e2_run env evs n1 = Some (n2, as2)" "e2_inv env n2" "e2_run_effect evs n1 n2 as2"
    using Cons.IH [OF 1(2)] Cons.prems(2,3) te by (auto simp: returns_total)
  with e2_run_effect_Cons [OF 1(4) 2(3)] 1(1) te show ?case
    by simp
qed (simp add: e2_run_effect_def)

end
