(* ===== verification/OranE2Link.thy ===== *)
theory OranE2Link
  imports OranE2Inv
begin

text \<open>
  The E2 nodes and the E2 terminator of the Near-RT RIC with the repository, joined by messages that
  are delivered in any order: a step relation. What the control loop decides (which commands it sends,
  which nodes it deregisters) is left open, so the runs of the RIC are among those of the relation.
\<close>

section \<open>The id of a node\<close>

text \<open>No reporter and no trigger changes the id of the node.\<close>

lemma set_id [simp]:
  "en_e2NodeId (set_reporter i f n) = en_e2NodeId n" "en_e2NodeId (set_trigger t g n) = en_e2NodeId n"
  by (simp_all add: set_reporter_def set_trigger_def)

lemma trg_id:
  "trg_Activate env t i n = Some n' \<Longrightarrow> en_e2NodeId n' = en_e2NodeId n"
  "trg_disconnect env t n = Some n' \<Longrightarrow> en_e2NodeId n' = en_e2NodeId n"
  "trg_base_Deactivate t n = Some n' \<Longrightarrow> en_e2NodeId n' = en_e2NodeId n"
  by (auto simp: trg_Activate_by_sink trg_disconnect_def trg_base_Deactivate_def trg_base_Activate_def Let_def bind_eq_Some_conv
      split: if_splits trigger_kind.splits)

lemma trg_Deactivate_id: "trg_Deactivate env t n = Some n' \<Longrightarrow> en_e2NodeId n' = en_e2NodeId n"
  by (auto simp: trg_Deactivate_by_sink Let_def bind_eq_Some_conv dest!: trg_id split: if_splits trigger_kind.splits)

lemma rep_Deactivate_id: "rep_Deactivate env i n = Some n' \<Longrightarrow> en_e2NodeId n' = en_e2NodeId n"
  by (auto simp: rep_Deactivate_def bind_eq_Some_conv dest!: trg_Deactivate_id split: if_splits)

lemma rep_Activate_id: "rep_Activate env i n = Some n' \<Longrightarrow> en_e2NodeId n' = en_e2NodeId n"
  by (auto simp: rep_Activate_def Let_def dest!: rep_Deactivate_id trg_id(1) split: if_splits option.splits)

lemma rep_PerformReport_id: "rep_PerformReport env now i n = Some n' \<Longrightarrow> en_e2NodeId n' = en_e2NodeId n"
  by (auto simp: rep_PerformReport_def fold_StoreReport dest!: rep_Deactivate_id split: if_splits)

lemma trg_TriggerReport_id: "trg_TriggerReport env now t n = Some n' \<Longrightarrow> en_e2NodeId n' = en_e2NodeId n"
  by (auto simp: trg_TriggerReport_def Let_def bind_eq_Some_conv dest!: rep_PerformReport_id split: if_splits)

lemma rep_Notify_id: "rep_NotifyRegistrationComplete env now i n = Some n' \<Longrightarrow> en_e2NodeId n' = en_e2NodeId n"
  by (auto simp: rep_NotifyRegistrationComplete_def trg_NotifyRegistrationComplete_def bind_eq_Some_conv
      dest!: trg_TriggerReport_id split: if_splits)

lemma for_reporters_id:
  assumes "\<And>i n n'. f i n = Some n' \<Longrightarrow> en_e2NodeId n' = en_e2NodeId n"
  shows "for_reporters f is n = Some n' \<Longrightarrow> en_e2NodeId n' = en_e2NodeId n"
  by (induction "is" arbitrary: n) (auto simp: bind_eq_Some_conv dest: assms)

lemma all_id:
  "for_reporters (rep_Deactivate env) is n = Some n' \<Longrightarrow> en_e2NodeId n' = en_e2NodeId n"
  "for_reporters (rep_Activate env) is n = Some n' \<Longrightarrow> en_e2NodeId n' = en_e2NodeId n"
  "for_reporters (rep_NotifyRegistrationComplete env2 now) is n2 = Some n2' \<Longrightarrow> en_e2NodeId n2' = en_e2NodeId n2"
  using for_reporters_id [of "rep_Deactivate env"] for_reporters_id [of "rep_Activate env"]
    for_reporters_id [of "rep_NotifyRegistrationComplete env2 now"] rep_Deactivate_id rep_Activate_id rep_Notify_id
  by metis+

text \<open>The id that a node has after an event, and the id that it asks to register.\<close>

lemma e2_handle_id:
  assumes "e2_handle env now ev n = Some (n', as)"
  shows "en_e2NodeId n' = (case ev of NodeRegistered e \<Rightarrow> if en_active n then e else en_e2NodeId n
      | NodeDeregistered e \<Rightarrow> 0 | _ \<Rightarrow> en_e2NodeId n)"
    and "RegistrationRequest ty i \<in> set as \<Longrightarrow> i = en_e2NodeId n"
proof -
  note ids = all_id trg_TriggerReport_id
  show "en_e2NodeId n' = (case ev of NodeRegistered e \<Rightarrow> if en_active n then e else en_e2NodeId n
      | NodeDeregistered e \<Rightarrow> 0 | _ \<Rightarrow> en_e2NodeId n)"
    using assms
    by (cases ev)
       (auto simp: e2_Activate_def e2_Deactivate_def e2_Register_def e2_Deregister_def e2_CancelNextSend_def e2_DoSendReports_def
          e2_ScheduleNextSend_def quiet_def e2_ReceiveRegistrationResponse_def e2_ReceiveDeregistrationResponse_def Let_def
          bind_eq_Some_conv dest!: ids split: if_splits)
  show "RegistrationRequest ty i \<in> set as \<Longrightarrow> i = en_e2NodeId n"
    using assms
    by (cases ev)
       (auto simp: e2_Activate_def e2_Deactivate_def e2_Register_def e2_Deregister_def e2_DoSendReports_def quiet_def
          e2_ReceiveCommand_def bind_eq_Some_conv split: if_splits NodeType.splits oran_command.splits)
qed

section \<open>The step relation\<close>

datatype 'x up_message = UpRegister nat NodeType u64 | UpDeregister u64 | UpReport "'x oran_report"

datatype down_message =
    DownRegistered nat u64
  | DownDeregistered "nat option" u64
  | DownCommand "nat option" oran_command

record 'x e2_system =
  sy_et :: e2_terminator
  sy_db :: "'x oran_db"
  sy_node :: "nat \<Rightarrow> 'x e2_node"
  sy_up :: "'x up_message list"
  sy_down :: "down_message list"

fun to_up :: "nat \<Rightarrow> 'x e2_action \<Rightarrow> 'x up_message list" where
  "to_up j (RegistrationRequest ty i) = [UpRegister j ty i]"
| "to_up j (DeregistrationRequest i) = [UpDeregister i]"
| "to_up j (SendReport r) = [UpReport r]"
| "to_up j (SendHandoverRequest rnti cellId) = []"

fun to_down :: "ric_action \<Rightarrow> down_message" where
  "to_down (RegistrationResponse t e) = DownRegistered t e"
| "to_down (DeregistrationResponse t e) = DownDeregistered t e"
| "to_down (DeliverCommand t c) = DownCommand t c"

fun local_event :: "e2_event \<Rightarrow> bool" where
  "local_event (NodeRegistered e) = False"
| "local_event (NodeDeregistered e) = False"
| "local_event (NodeCommand c) = False"
| "local_event _ = True"

text \<open>The IMSI and the cell id of each node and what it takes from the simulation are parameters.\<close>

inductive sys_step ::
    "(nat \<Rightarrow> u64) \<Rightarrow> (nat \<Rightarrow> u16) \<Rightarrow> (nat \<Rightarrow> ('x :: {zero,plus,divide}) e2_env) \<Rightarrow> 'x e2_system \<Rightarrow> 'x e2_system \<Rightarrow> bool"
  for imsi :: "nat \<Rightarrow> u64" and cell :: "nat \<Rightarrow> u16" and ee :: "nat \<Rightarrow> 'x e2_env" where
  node: "local_event ev \<Longrightarrow> e2_handle (ee j) now ev (sy_node s j) = Some (n', as) \<Longrightarrow>
    sys_step imsi cell ee s (s\<lparr>sy_node := (sy_node s)(j := n'), sy_up := sy_up s @ concat (map (to_up j) as)\<rparr>)"
| register: "sy_up s = ms @ UpRegister j ty i # ms' \<Longrightarrow>
    et_ReceiveRegistrationRequest now ty i (imsi j) (cell j) j (sy_et s) (sy_db s) = Some (et', db', as) \<Longrightarrow>
    sys_step imsi cell ee s (s\<lparr>sy_et := et', sy_db := db', sy_up := ms @ ms', sy_down := sy_down s @ map to_down as\<rparr>)"
| deregister: "sy_up s = ms @ UpDeregister i # ms' \<Longrightarrow>
    et_ReceiveDeregistrationRequest now i (sy_et s) (sy_db s) = Some (et', db', as) \<Longrightarrow>
    sys_step imsi cell ee s (s\<lparr>sy_et := et', sy_db := db', sy_up := ms @ ms', sy_down := sy_down s @ map to_down as\<rparr>)"
| report: "sy_up s = ms @ UpReport r # ms' \<Longrightarrow> save_report r (sy_db s) = Some db' \<Longrightarrow>
    sys_step imsi cell ee s (s\<lparr>sy_db := db', sy_up := ms @ ms'\<rparr>)"
| inactive: "et_ReceiveDeregistrationRequest now i (sy_et s) (sy_db s) = Some (et', db', as) \<Longrightarrow>
    sys_step imsi cell ee s (s\<lparr>sy_et := et', sy_db := db', sy_down := sy_down s @ map to_down as\<rparr>)"
| command: "et_SendCommand now c (sy_et s) (sy_db s) = Some (et', db', as) \<Longrightarrow>
    sys_step imsi cell ee s (s\<lparr>sy_et := et', sy_db := db', sy_down := sy_down s @ map to_down as\<rparr>)"
| registered: "sy_down s = ms @ DownRegistered j e # ms' \<Longrightarrow>
    e2_handle (ee j) now (NodeRegistered e) (sy_node s j) = Some (n', as) \<Longrightarrow>
    sys_step imsi cell ee s (s\<lparr>sy_node := (sy_node s)(j := n'), sy_down := ms @ ms'\<rparr>)"
| deregistered: "sy_down s = ms @ DownDeregistered (Some j) e # ms' \<Longrightarrow>
    e2_handle (ee j) now (NodeDeregistered e) (sy_node s j) = Some (n', as) \<Longrightarrow>
    sys_step imsi cell ee s (s\<lparr>sy_node := (sy_node s)(j := n'), sy_down := ms @ ms'\<rparr>)"
| commanded: "sy_down s = ms @ DownCommand (Some j) c # ms' \<Longrightarrow>
    e2_handle (ee j) now (NodeCommand c) (sy_node s j) = Some (n', as) \<Longrightarrow>
    sys_step imsi cell ee s (s\<lparr>sy_node := (sy_node s)(j := n'), sy_down := ms @ ms'\<rparr>)"

inductive sys_reach ::
    "(nat \<Rightarrow> u64) \<Rightarrow> (nat \<Rightarrow> u16) \<Rightarrow> (nat \<Rightarrow> ('x :: {zero,plus,divide}) e2_env) \<Rightarrow> 'x e2_system \<Rightarrow> 'x e2_system \<Rightarrow> bool"
  for imsi cell ee s0 where
  start: "sys_reach imsi cell ee s0 s0"
| step: "sys_reach imsi cell ee s0 s \<Longrightarrow> sys_step imsi cell ee s s' \<Longrightarrow> sys_reach imsi cell ee s0 s'"

section \<open>The ids\<close>

definition node_seq :: "'x oran_db \<Rightarrow> int" where
  "node_seq db = (case db_conn db of Some t \<Rightarrow> t_nodeseq t | None \<Rightarrow> 0)"

text \<open>The terminator of a node id is the node that has it, asks for it or is about to get it.\<close>

definition owned :: "'x e2_system \<Rightarrow> u64 \<Rightarrow> nat \<Rightarrow> bool" where
  "owned s i j \<longleftrightarrow> map_of (et_nodeTerminators (sy_et s)) i = Some (Some j)"

definition has_db :: "'x oran_db \<Rightarrow> bool" where
  "has_db db \<longleftrightarrow> db_active db \<and> (\<exists>t. db_conn db = Some t) \<and> 0 \<le> node_seq db"

definition ids_inv :: "'x e2_system \<Rightarrow> bool" where
  "ids_inv s \<longleftrightarrow> has_db (sy_db s) \<and>
     (\<forall>i j. i \<noteq> 0 \<and> owned s i j \<longrightarrow> 0 < sint i \<and> sint i \<le> node_seq (sy_db s)) \<and>
     (\<forall>j. en_e2NodeId (sy_node s j) \<noteq> 0 \<longrightarrow> owned s (en_e2NodeId (sy_node s j)) j) \<and>
     (\<forall>j ty i. UpRegister j ty i \<in> set (sy_up s) \<and> i \<noteq> 0 \<longrightarrow> owned s i j) \<and>
     (\<forall>j e. DownRegistered j e \<in> set (sy_down s) \<and> e \<noteq> 0 \<longrightarrow> owned s e j) \<and>
     (\<forall>j c. DownCommand (Some j) c \<in> set (sy_down s) \<and> cmd_target c \<noteq> 0 \<longrightarrow> owned s (cmd_target c) j)"

subsection \<open>The terminator and the repository\<close>

lemma save_if_registered_seq:
  assumes "has_db db" "save_if_registered n f db = Some db'" "\<And>t. t_nodeseq (f t) = t_nodeseq t"
  shows "has_db db' \<and> node_seq db' = node_seq db"
  using assms by (auto simp: save_if_registered_def has_db_def node_seq_def bind_eq_Some_conv split: if_splits option.splits)

lemma save_report_seq:
  assumes "has_db db" "save_report r db = Some db'"
  shows "has_db db' \<and> node_seq db' = node_seq db"
  using assms save_if_registered_seq [OF assms(1)]
  by (cases r) (auto simp: save_report_def SavePosition_def SaveLteCellLoad_def SaveLteUeCellInfo_def SaveAppLoss_def)

text \<open>The lookup changes no entry that points to a node.\<close>

lemma lookup_points:
  assumes "et_lookup n et = (tm, et')"
  shows "map_of (et_nodeTerminators et') i = Some (Some j) \<longleftrightarrow> map_of (et_nodeTerminators et) i = Some (Some j)"
    and "tm = Some j \<longleftrightarrow> map_of (et_nodeTerminators et) n = Some (Some j)"
  using assms by (auto simp: et_lookup_def split: option.splits if_splits)

lemma deregistration_points:
  assumes "has_db db" "et_ReceiveDeregistrationRequest now n et db = Some (et', db', as)"
  shows "has_db db' \<and> node_seq db' = node_seq db \<and>
    (\<forall>i j. map_of (et_nodeTerminators et') i = Some (Some j) \<longleftrightarrow> map_of (et_nodeTerminators et) i = Some (Some j)) \<and>
    (\<forall>j e c. RegistrationResponse j e \<notin> set as \<and> DeliverCommand (Some j) c \<notin> set as)"
proof (cases "et_active et")
  case True
  obtain tm et1 where l: "et_lookup n et = (tm, et1)"
    by (cases "et_lookup n et")
  from True assms show ?thesis
    using lookup_points(1) [OF l]
    by (auto simp: et_ReceiveDeregistrationRequest_def l DeregisterNode_def has_db_def node_seq_def INSERT_NODE_REGISTRATION_def)
qed (use assms in \<open>simp add: et_ReceiveDeregistrationRequest_def\<close>)

lemma command_points:
  assumes "has_db db" "et_SendCommand now c et db = Some (et', db', as)"
  shows "has_db db' \<and> node_seq db' = node_seq db \<and>
    (\<forall>i j. map_of (et_nodeTerminators et') i = Some (Some j) \<longleftrightarrow> map_of (et_nodeTerminators et) i = Some (Some j)) \<and>
    (\<forall>j e. RegistrationResponse j e \<notin> set as) \<and>
    (\<forall>j c'. DeliverCommand (Some j) c' \<in> set as \<longrightarrow> map_of (et_nodeTerminators et) (cmd_target c') = Some (Some j))"
proof (cases "et_active et")
  case True
  obtain tm et1 where l: "et_lookup (cmd_target c) et = (tm, et1)"
    by (cases "et_lookup (cmd_target c) et")
  from True assms(2) have db: "LogCommandE2Terminator now c db = Some db'" and as: "as = [DeliverCommand tm c]" "et' = et1"
    by (auto simp: et_SendCommand_def l)
  have "has_db db' \<and> node_seq db' = node_seq db"
    using save_if_registered_seq [OF assms(1) db [unfolded LogCommandE2Terminator_def]] by simp
  with as show ?thesis
    using lookup_points [OF l] by auto
qed (use assms in \<open>simp add: et_SendCommand_def\<close>)

lemma sint_id_32:
  assumes "0 < sint (i :: u64)" "sint i < 2 ^ 31"
  shows "(word_of_int (sint (ucast i :: u32)) :: u64) = i"
proof -
  have "uint i = take_bit 64 (sint i)"
    using uint_sint [of i] by simp
  then have u: "sint i = uint i"
    using assms by (simp add: take_bit_int_eq_self)
  have v: "uint (ucast i :: u32) = uint i"
    using assms u by (simp add: unsigned_ucast_eq take_bit_int_eq_self)
  have "sint (ucast i :: u32) = signed_take_bit 31 (uint (ucast i :: u32))"
    by (simp add: sint_uint)
  also have "\<dots> = uint i"
    unfolding v using assms u by (intro signed_take_bit_int_eq_self) simp_all
  finally show ?thesis
    by simp
qed

lemma registration_mono:
  assumes "has_db db" "et_ReceiveRegistrationRequest now ty i imsi cellId j et db = Some (et', db', as)"
  shows "has_db db' \<and> node_seq db \<le> node_seq db'"
  using assms
  by (auto simp: et_ReceiveRegistrationRequest_def RegisterNodeLteUe_def RegisterNodeLteEnb_def has_db_def node_seq_def
      RegisterNode_def INSERT_NODE_ADD_def INSERT_NODE_UPDATE_def INSERT_NODE_REGISTRATION_def INSERT_LTE_UE_NODE_def
      INSERT_LTE_ENB_NODE_def Let_def bind_eq_Some_conv split: NodeType.splits if_splits)

lemma registration_points:
  assumes db: "has_db db" "node_seq db < 2 ^ 62" and i: "i = 0 \<or> 0 < sint i \<and> sint i < 2 ^ 31"
    and r: "et_ReceiveRegistrationRequest now ty i imsi cellId j et db = Some (et', db', as)" "et_active et"
  shows "\<exists>e. has_db db' \<and> node_seq db \<le> node_seq db' \<and> sint e \<le> node_seq db' \<and>
    et_nodeTerminators et' = smap_put e (Some j) (et_nodeTerminators et) \<and> as = [RegistrationResponse j e] \<and>
    (if i = 0 then sint e = node_seq db + 1 else e = i)"
proof -
  obtain t where t: "db_conn db = Some t" "db_active db" "0 \<le> t_nodeseq t" "t_nodeseq t < 2 ^ 62"
    using db by (auto simp: has_db_def node_seq_def)
  define rowid where "rowid = (if i = 0 then t_nodeseq t + 1 else sint (ucast i :: u32))"
  define e where "e = (word_of_int rowid :: u64)"
  have e: "if i = 0 then sint e = node_seq db + 1 else e = i"
    using i t sint_id_32 [of i] sint_word_of_rowid [of "t_nodeseq t + 1"] by (auto simp: e_def rowid_def node_seq_def)
  have seq: "sint e \<le> max (t_nodeseq t) rowid"
  proof (cases "i = 0")
    case True
    with e t show ?thesis
      by (simp add: rowid_def node_seq_def)
  next
    case False
    have "- (2 ^ 31) \<le> sint (ucast i :: u32)" "sint (ucast i :: u32) < 2 ^ 31"
      using sint_ge [of "ucast i :: u32"] sint_lt [of "ucast i :: u32"] by simp_all
    then have "sint e = rowid"
      using False sint_word_of_rowid [of rowid] by (simp add: e_def rowid_def)
    then show ?thesis
      by simp
  qed
  have "\<exists>t'. RegisterNode now ty' i db = Some (e, db\<lparr>db_conn := Some t'\<rparr>) \<and> t_nodeseq t' = max (t_nodeseq t) rowid" for ty'
    using t by (auto simp: RegisterNode_def INSERT_NODE_ADD_def INSERT_NODE_UPDATE_def INSERT_NODE_REGISTRATION_def Let_def
        e_def rowid_def)
  then obtain t' where t': "RegisterNode now ty i db = Some (e, db\<lparr>db_conn := Some t'\<rparr>)" "t_nodeseq t' = max (t_nodeseq t) rowid"
    by blast
  have "(et', as) = (et\<lparr>et_nodeTerminators := smap_put e (Some j) (et_nodeTerminators et)\<rparr>, [RegistrationResponse j e]) \<and>
      has_db db' \<and> node_seq db' = max (t_nodeseq t) rowid"
    using r t t' by (cases ty)
      (auto simp: et_ReceiveRegistrationRequest_def RegisterNodeLteUe_def RegisterNodeLteEnb_def has_db_def node_seq_def
        INSERT_LTE_UE_NODE_def INSERT_LTE_ENB_NODE_def)
  then show ?thesis
    using e seq t by (intro exI [of _ e]) (auto simp: node_seq_def)
qed

subsection \<open>The invariant\<close>

lemma to_up_register [simp]: "UpRegister j ty i \<in> set (to_up k a) \<longleftrightarrow> k = j \<and> a = RegistrationRequest ty i"
  by (cases a) auto

lemma to_down_iff [simp]:
  "to_down a = DownRegistered j e \<longleftrightarrow> a = RegistrationResponse j e"
  "DownRegistered j e = to_down a \<longleftrightarrow> a = RegistrationResponse j e"
  "to_down a = DownCommand t c \<longleftrightarrow> a = DeliverCommand t c"
  "DownCommand t c = to_down a \<longleftrightarrow> a = DeliverCommand t c"
  by (cases a; auto)+

text \<open>The invariant stays when ids keep their owners, channels lose messages and new messages are owned.\<close>

lemma ids_inv_frame:
  assumes "ids_inv s" and "has_db (sy_db s')" "node_seq (sy_db s) \<le> node_seq (sy_db s')"
    and "\<And>i j. owned s i j \<Longrightarrow> owned s' i j"
    and "\<And>i j. i \<noteq> 0 \<Longrightarrow> owned s' i j \<Longrightarrow> owned s i j \<or> 0 < sint i \<and> sint i \<le> node_seq (sy_db s')"
    and "\<And>j. en_e2NodeId (sy_node s' j) \<noteq> 0 \<Longrightarrow>
      en_e2NodeId (sy_node s' j) = en_e2NodeId (sy_node s j) \<or> owned s' (en_e2NodeId (sy_node s' j)) j"
    and "\<And>j ty i. UpRegister j ty i \<in> set (sy_up s') \<Longrightarrow> i \<noteq> 0 \<Longrightarrow> UpRegister j ty i \<in> set (sy_up s) \<or> owned s' i j"
    and "\<And>j e. DownRegistered j e \<in> set (sy_down s') \<Longrightarrow> e \<noteq> 0 \<Longrightarrow> DownRegistered j e \<in> set (sy_down s) \<or> owned s' e j"
    and "\<And>j c. DownCommand (Some j) c \<in> set (sy_down s') \<Longrightarrow> cmd_target c \<noteq> 0 \<Longrightarrow>
      DownCommand (Some j) c \<in> set (sy_down s) \<or> owned s' (cmd_target c) j"
  shows "ids_inv s'"
proof -
  have old: "\<And>i j. i \<noteq> 0 \<Longrightarrow> owned s i j \<Longrightarrow> 0 < sint i \<and> sint i \<le> node_seq (sy_db s')"
    "\<And>j. en_e2NodeId (sy_node s j) \<noteq> 0 \<Longrightarrow> owned s' (en_e2NodeId (sy_node s j)) j"
    "\<And>j ty i. UpRegister j ty i \<in> set (sy_up s) \<Longrightarrow> i \<noteq> 0 \<Longrightarrow> owned s' i j"
    "\<And>j e. DownRegistered j e \<in> set (sy_down s) \<Longrightarrow> e \<noteq> 0 \<Longrightarrow> owned s' e j"
    "\<And>j c. DownCommand (Some j) c \<in> set (sy_down s) \<Longrightarrow> cmd_target c \<noteq> 0 \<Longrightarrow> owned s' (cmd_target c) j"
    using assms(1,3,4) unfolding ids_inv_def by (blast intro: order_trans)+
  show ?thesis
    unfolding ids_inv_def
  proof (intro conjI allI impI; (elim conjE)?)
    show "has_db (sy_db s')"
      by (rule assms(2))
    show "0 < sint i" if "i \<noteq> 0" "owned s' i j" for i j
      using that assms(5) old(1) by blast
    show "sint i \<le> node_seq (sy_db s')" if "i \<noteq> 0" "owned s' i j" for i j
      using that assms(5) old(1) by blast
    show "owned s' (en_e2NodeId (sy_node s' j)) j" if "en_e2NodeId (sy_node s' j) \<noteq> 0" for j
      using that assms(6) old(2) by metis
    show "owned s' i j" if "UpRegister j ty i \<in> set (sy_up s')" "i \<noteq> 0" for j ty i
      using that assms(7) old(3) by blast
    show "owned s' e j" if "DownRegistered j e \<in> set (sy_down s')" "e \<noteq> 0" for j e
      using that assms(8) old(4) by blast
    show "owned s' (cmd_target c) j" if "DownCommand (Some j) c \<in> set (sy_down s')" "cmd_target c \<noteq> 0" for j c
      using that assms(9) old(5) by blast
  qed
qed

lemma step_ids_inv:
  assumes "sys_step imsi cell ee s s'" "ids_inv s" "node_seq (sy_db s') < 2 ^ 31"
  shows "ids_inv s' \<and> node_seq (sy_db s) \<le> node_seq (sy_db s')"
proof -
  have db: "has_db (sy_db s)"
    using assms(2) by (simp add: ids_inv_def)
  note inv = assms(2) [unfolded ids_inv_def]
  show ?thesis
    using assms(1,3)
  proof (cases rule: sys_step.cases)
    case (node ev j now n' as)
    have id: "en_e2NodeId n' = en_e2NodeId (sy_node s j)"
      using e2_handle_id(1) [OF node(3)] node(2) by (cases ev) simp_all
    have own: "en_e2NodeId n' \<noteq> 0 \<Longrightarrow> owned s (en_e2NodeId n') j"
      using inv id by simp
    have asked: "i \<noteq> 0 \<Longrightarrow> owned s i j" if "RegistrationRequest ty i \<in> set as" for ty i
      using e2_handle_id(2) [OF node(3) that] id own by simp
    have "ids_inv s'"
      using assms(2) unfolding node(1)
      by (rule ids_inv_frame) (use inv id own asked in \<open>auto simp: owned_def db split: if_splits\<close>)
    then show ?thesis
      by (simp add: node)
  next
    case (register ms j ty i ms' now et' db' as)
    note req = register(2) and resp = register(3)
    show ?thesis
    proof (cases "et_active (sy_et s)")
      case False
      with resp have "et' = sy_et s" "db' = sy_db s" "as = []"
        by (simp_all add: et_ReceiveRegistrationRequest_def)
      moreover from this have "ids_inv s'"
        using assms(2) unfolding register(1)
        by (intro ids_inv_frame [OF assms(2)]) (use inv req in \<open>auto simp: owned_def db\<close>)
      ultimately show ?thesis
        by (simp add: register)
    next
      case True
      have "UpRegister j ty i \<in> set (sy_up s)"
        using req by simp
      with inv have i: "i \<noteq> 0 \<Longrightarrow> owned s i j"
        by blast
      have mono: "has_db db'" "node_seq (sy_db s) \<le> node_seq db'" and small: "node_seq db' < 2 ^ 31"
        using registration_mono [OF db resp] assms(3) by (simp_all add: register(1))
      have range: "i = 0 \<or> 0 < sint i \<and> sint i < 2 ^ 31"
        using inv i mono(2) small by force
      have small': "node_seq (sy_db s) < 2 ^ 62"
        using mono(2) small by simp
      obtain e where e: "sint e \<le> node_seq db'" "et_nodeTerminators et' = smap_put e (Some j) (et_nodeTerminators (sy_et s))"
        "as = [RegistrationResponse j e]" "if i = 0 then sint e = node_seq (sy_db s) + 1 else e = i"
        using registration_points [OF db small' range resp True] by blast
      have pos: "0 < sint e"
        using e(4) range db by (auto simp: has_db_def split: if_splits)
      have fresh: "k = j" if "owned s e k" for k
      proof (cases "i = 0")
        case True
        have "e \<noteq> 0"
          using pos by auto
        then have "sint e \<le> node_seq (sy_db s)"
          using inv that by blast
        with True e(4) show ?thesis
          by simp
      next
        case False
        with i e(4) that show ?thesis
          by (simp add: owned_def)
      qed
      have own: "owned s' i' k \<longleftrightarrow> (if i' = e then k = j else owned s i' k)" for i' k
        by (auto simp: owned_def register(1) e(2))
      have "ids_inv s'"
      proof (rule ids_inv_frame [OF assms(2)])
        show "owned s' i' k" if "owned s i' k" for i' k
          using that fresh own by auto
        show "owned s i' k \<or> 0 < sint i' \<and> sint i' \<le> node_seq (sy_db s')" if "owned s' i' k" for i' k
          using that own pos e(1) by (auto simp: register(1) split: if_splits)
        show "DownRegistered k e' \<in> set (sy_down s) \<or> owned s' e' k" if "DownRegistered k e' \<in> set (sy_down s')" for k e'
          using that own by (auto simp: register(1) e(3))
      qed (use mono req in \<open>auto simp: register(1) e(3)\<close>)
      with mono(2) show ?thesis
        by (simp add: register(1))
    qed
  next
    case (deregister ms i ms' now et' db' as)
    note d = deregistration_points [OF db deregister(3)]
    have "ids_inv s'"
      using assms(2) unfolding deregister(1)
      by (rule ids_inv_frame) (use inv d deregister(2) in \<open>auto simp: owned_def\<close>)
    with d show ?thesis
      by (simp add: deregister)
  next
    case (report ms r ms' db')
    note d = save_report_seq [OF db report(3)]
    have "ids_inv s'"
      using assms(2) unfolding report(1)
      by (rule ids_inv_frame) (use inv d report(2) in \<open>auto simp: owned_def\<close>)
    with d show ?thesis
      by (simp add: report)
  next
    case (inactive now i et' db' as)
    note d = deregistration_points [OF db inactive(2)]
    have "ids_inv s'"
      using assms(2) unfolding inactive(1)
      by (rule ids_inv_frame) (use inv d in \<open>auto simp: owned_def\<close>)
    with d show ?thesis
      by (simp add: inactive)
  next
    case (command now c et' db' as)
    note d = command_points [OF db command(2)]
    have "ids_inv s'"
      using assms(2) unfolding command(1)
      by (rule ids_inv_frame) (use inv d in \<open>auto simp: owned_def\<close>)
    with d show ?thesis
      by (simp add: command)
  next
    case (registered ms j e ms' now n' as)
    have "ids_inv s'"
      using assms(2) unfolding registered(1)
      by (rule ids_inv_frame)
         (use inv e2_handle_id(1) [OF registered(3)] registered(2) in \<open>auto simp: owned_def db split: if_splits\<close>)
    then show ?thesis
      by (simp add: registered)
  next
    case (deregistered ms j e ms' now n' as)
    have "ids_inv s'"
      using assms(2) unfolding deregistered(1)
      by (rule ids_inv_frame)
         (use inv e2_handle_id(1) [OF deregistered(3)] deregistered(2) in \<open>auto simp: owned_def db split: if_splits\<close>)
    then show ?thesis
      by (simp add: deregistered)
  next
    case (commanded ms j c ms' now n' as)
    have "ids_inv s'"
      using assms(2) unfolding commanded(1)
      by (rule ids_inv_frame)
         (use inv e2_handle_id(1) [OF commanded(3)] commanded(2) in \<open>auto simp: owned_def db split: if_splits\<close>)
    then show ?thesis
      by (simp add: commanded)
  qed
qed

text \<open>A start of the system: nothing registered, nothing sent.\<close>

definition sys_fresh :: "'x e2_system \<Rightarrow> bool" where
  "sys_fresh s \<longleftrightarrow> has_db (sy_db s) \<and> et_nodeTerminators (sy_et s) = [] \<and> sy_up s = [] \<and> sy_down s = [] \<and>
     (\<forall>j. en_e2NodeId (sy_node s j) = 0)"

lemma sys_fresh_inv: "sys_fresh s \<Longrightarrow> ids_inv s"
  by (simp add: sys_fresh_def ids_inv_def owned_def)

lemma step_mono:
  assumes "sys_step imsi cell ee s s'" "has_db (sy_db s)"
  shows "has_db (sy_db s') \<and> node_seq (sy_db s) \<le> node_seq (sy_db s')"
  using assms(1)
proof (cases rule: sys_step.cases)
  case (register ms j ty i ms' now et' db' as)
  with registration_mono [OF assms(2) register(3)] show ?thesis
    by simp
next
  case (deregister ms i ms' now et' db' as)
  with deregistration_points [OF assms(2) deregister(3)] show ?thesis
    by simp
next
  case (report ms r ms' db')
  with save_report_seq [OF assms(2) report(3)] show ?thesis
    by simp
next
  case (inactive now i et' db' as)
  with deregistration_points [OF assms(2) inactive(2)] show ?thesis
    by simp
next
  case (command now c et' db' as)
  with command_points [OF assms(2) command(2)] show ?thesis
    by simp
qed (use assms(2) in simp_all)

lemma reach_ids_inv:
  assumes "sys_reach imsi cell ee s0 s" "ids_inv s0"
  shows "has_db (sy_db s) \<and> (node_seq (sy_db s) < 2 ^ 31 \<longrightarrow> ids_inv s)"
  using assms
proof (induction rule: sys_reach.induct)
  case start
  then have "has_db (sy_db s0)"
    by (simp add: ids_inv_def)
  with start show ?case
    by blast
next
  case (step s s')
  with step_mono [OF step(2)] have "has_db (sy_db s')" "node_seq (sy_db s) \<le> node_seq (sy_db s')"
    by simp_all
  with step step_ids_inv [OF step(2)] show ?case
    by simp
qed

lemma ids_inv_unique:
  assumes "ids_inv s"
  shows "\<lbrakk>en_e2NodeId (sy_node s j) = en_e2NodeId (sy_node s k); en_e2NodeId (sy_node s j) \<noteq> 0\<rbrakk> \<Longrightarrow> j = k"
    and "\<lbrakk>DownCommand (Some j) c \<in> set (sy_down s); en_e2NodeId (sy_node s k) = cmd_target c; cmd_target c \<noteq> 0\<rbrakk> \<Longrightarrow> j = k"
proof -
  have own: "\<And>j. en_e2NodeId (sy_node s j) \<noteq> 0 \<Longrightarrow> owned s (en_e2NodeId (sy_node s j)) j"
    and cmd: "\<And>j c. DownCommand (Some j) c \<in> set (sy_down s) \<Longrightarrow> cmd_target c \<noteq> 0 \<Longrightarrow> owned s (cmd_target c) j"
    using assms unfolding ids_inv_def by blast+
  show "\<lbrakk>en_e2NodeId (sy_node s j) = en_e2NodeId (sy_node s k); en_e2NodeId (sy_node s j) \<noteq> 0\<rbrakk> \<Longrightarrow> j = k"
    using own [of j] own [of k] by (simp add: owned_def)
  show "\<lbrakk>DownCommand (Some j) c \<in> set (sy_down s); en_e2NodeId (sy_node s k) = cmd_target c; cmd_target c \<noteq> 0\<rbrakk> \<Longrightarrow> j = k"
    using own [of k] cmd [of j c] by (simp add: owned_def)
qed

end
