(* ===== verification/OranE2Props.thy ===== *)
theory OranE2Props
  imports OranE2Link
begin

text \<open>
  The properties of the E2 nodes of \<^verbatim>\<open>contrib/oran/model\<close> with their witnesses, and the runs in which a
  node fails.
\<close>

section \<open>Example nodes\<close>

definition ex_node_env :: "int e2_env" where
  "ex_node_env = \<lparr>ee_position = Some \<lparr>vec_x = 1, vec_y = 2, vec_z = 3\<rparr>, ee_ueRrc = Some (1, 7), ee_enbRrc = None,
     ee_dlBandwidth = None, ee_dlRbg = [], ee_real = id\<rparr>"

text \<open>A UE whose location is reported periodically.\<close>

definition ex_node :: "bool \<Rightarrow> int e2_node" where
  "ex_node initial = (e2_init LTEUE)\<lparr>en_hasRic := True, en_hasNode := True, en_reporters := [0],
     en_reporter := (\<lambda>i. (rep_init RepLocation)\<lparr>rp_hasTerminator := (i = 0), rp_trigger := (if i = 0 then Some 0 else None)\<rparr>),
     en_trigger := (\<lambda>_. (trg_init TrgPeriodic)\<lparr>tg_initialReport := initial\<rparr>)\<rparr>"

lemma ex_node_configured: "e2_configured ex_node_env (ex_node initial)"
  by (auto simp: e2_configured_def e2_inv_defs rep_ready_def ex_node_def e2_init_def rep_init_def trg_init_def ex_node_env_def)

lemma ex_node_simps [simp]: "en_type (ex_node initial) = LTEUE" "en_e2NodeId (ex_node initial) = 0"
  by (simp_all add: ex_node_def e2_init_def)


section \<open>Runs of a node\<close>



text \<open>C37: Every registration response starts one more chain of send timers: while the node stays active,
  the number of pending send events grows by the number of responses, and never falls.\<close>

theorem e2_send_chains_grow:
  assumes "e2_inv env n" "en_active n" "\<forall>ev\<in>snd ` set evs. e2_event_fits ev" "NodeDeactivate \<notin> snd ` set evs"
  shows "\<exists>n' as. e2_run env evs n = Some (n', as) \<and> pending_sends n' = pending_sends n + registrations evs"
  using e2_run_ok [OF assms(1,3) disjI2 [OF assms(4)]] assms(2,4) by (auto simp: returns_total e2_run_effect_def)

theorem e2_send_chains_grow_witness:
  "\<exists>n n' as. e2_Activate ex_node_env (ex_node False) = Some (n, [RegistrationRequest LTEUE 0]) \<and> pending_sends n = 0 \<and>
     e2_run ex_node_env [(1, NodeRegistered 4), (3, NodeSendTimer), (10, NodeRegistered 4), (20, NodeRegistered 4)] n = Some (n', as) \<and>
     pending_sends n' = 3"
proof -
  obtain n where 1: "e2_Activate ex_node_env (ex_node False) = Some (n, [RegistrationRequest LTEUE 0])" "e2_inv ex_node_env n"
    "en_active n" "en_sendEvent n = False" "en_lostSends n = 0"
    using Activate_ok [OF ex_node_configured [of False]] by (auto simp: ex_node_def e2_init_def)
  with e2_send_chains_grow [OF 1(2,3), of
      "[(1, NodeRegistered 4), (3, NodeSendTimer), (10, NodeRegistered 4), (20, NodeRegistered 4)]"]
  show ?thesis
    by (auto simp: pending_sends_def e2_event_fits_def simp del: e2_run.simps)
qed

section \<open>Ids and commands\<close>

text \<open>C35: E2 nodes and the RIC joined by messages that arrive in any order, or not yet: from a start where
  nothing is registered, and as long as fewer than 2^31 ids are given out, no two nodes ever hold the same
  id, and a command on its way is addressed to the only node that can hold its target id.\<close>

theorem e2_ids_unique:
  assumes "sys_fresh s0" "sys_reach imsi cell ee s0 s" "node_seq (sy_db s) < 2 ^ 31"
  shows "(\<forall>j k. en_e2NodeId (sy_node s j) = en_e2NodeId (sy_node s k) \<and> en_e2NodeId (sy_node s j) \<noteq> 0 \<longrightarrow> j = k) \<and>
    (\<forall>j k c. DownCommand (Some j) c \<in> set (sy_down s) \<and> en_e2NodeId (sy_node s k) = cmd_target c \<and> cmd_target c \<noteq> 0 \<longrightarrow> j = k)"
proof -
  have "ids_inv s"
    using reach_ids_inv [OF assms(2) sys_fresh_inv [OF assms(1)]] assms(3) by blast
  from ids_inv_unique [OF this] show ?thesis
    by blast
qed

definition ex_db :: "int oran_db" where
  "ex_db = \<lparr>db_active = True, db_conn = Some empty_tables, db_path = [], db_disk = empty_tables\<rparr>"

definition ex_system :: "int e2_system" where
  "ex_system = \<lparr>sy_et = \<lparr>et_active = True, et_nodeTerminators = []\<rparr>, sy_db = ex_db, sy_node = (\<lambda>_. ex_node False),
     sy_up = [], sy_down = []\<rparr>"

lemma ex_system_fresh: "sys_fresh ex_system"
  by (simp add: sys_fresh_def ex_system_def has_db_def node_seq_def ex_db_def empty_tables_def ex_node_def e2_init_def)

text \<open>The first node is activated, registers, and is sent a command.\<close>

lemma ex_system_node:
  "\<exists>n1 n2. e2_handle ex_node_env 0 NodeActivate (ex_node False) = Some (n1, [RegistrationRequest LTEUE 0]) \<and>
     e2_handle ex_node_env 2 (NodeRegistered 1) n1 = Some (n2, []) \<and> en_e2NodeId n2 = 1"
proof -
  have "case e2_handle ex_node_env 0 NodeActivate (ex_node False) of Some (n1, as1) \<Rightarrow>
      as1 = [RegistrationRequest LTEUE 0] \<and>
      (case e2_handle ex_node_env 2 (NodeRegistered 1) n1 of Some (n2, as2) \<Rightarrow> as2 = [] \<and> en_e2NodeId n2 = 1 | None \<Rightarrow> False)
    | None \<Rightarrow> False"
    by code_simp
  then show ?thesis
    by (auto split: option.splits)
qed

lemma ex_system_ric:
  "\<exists>et1 db1 et2 db2. et_ReceiveRegistrationRequest 1 LTEUE 0 7 0 0 (sy_et ex_system) (sy_db ex_system)
       = Some (et1, db1, [RegistrationResponse 0 1]) \<and>
     et_SendCommand 3 (OranCommand 1) et1 db1 = Some (et2, db2, [DeliverCommand (Some 0) (OranCommand 1)]) \<and> node_seq db2 = 1"
proof -
  have "case et_ReceiveRegistrationRequest 1 LTEUE 0 7 0 0 (sy_et ex_system) (sy_db ex_system) of Some (et1, db1, as1) \<Rightarrow>
      as1 = [RegistrationResponse 0 1] \<and>
      (case et_SendCommand 3 (OranCommand 1) et1 db1 of Some (et2, db2, as2) \<Rightarrow>
         as2 = [DeliverCommand (Some 0) (OranCommand 1)] \<and> node_seq db2 = 1 | None \<Rightarrow> False) | None \<Rightarrow> False"
    by code_simp
  then show ?thesis
    by (auto split: option.splits)
qed

lemma ex_system_run:
  "\<exists>s. sys_reach (\<lambda>_. 7) (\<lambda>_. 0) (\<lambda>_. ex_node_env) ex_system s \<and> node_seq (sy_db s) = 1 \<and>
     en_e2NodeId (sy_node s 0) = 1 \<and> DownCommand (Some 0) (OranCommand 1) \<in> set (sy_down s)"
proof -
  let ?step = "sys_step (\<lambda>_. 7) (\<lambda>_. 0) (\<lambda>_. ex_node_env)"
  obtain n1 n2 where n: "e2_handle ex_node_env 0 NodeActivate (ex_node False) = Some (n1, [RegistrationRequest LTEUE 0])"
    "e2_handle ex_node_env 2 (NodeRegistered 1) n1 = Some (n2, [])" "en_e2NodeId n2 = 1"
    using ex_system_node by blast
  obtain et1 db1 et2 db2 where r: "et_ReceiveRegistrationRequest 1 LTEUE 0 7 0 0 (sy_et ex_system) (sy_db ex_system)
      = Some (et1, db1, [RegistrationResponse 0 1])"
    "et_SendCommand 3 (OranCommand 1) et1 db1 = Some (et2, db2, [DeliverCommand (Some 0) (OranCommand 1)])" "node_seq db2 = 1"
    using ex_system_ric by blast
  define s1 where "s1 = ex_system\<lparr>sy_node := (sy_node ex_system)(0 := n1), sy_up := [UpRegister 0 LTEUE 0]\<rparr>"
  define s2 where "s2 = s1\<lparr>sy_et := et1, sy_db := db1, sy_up := [], sy_down := [DownRegistered 0 1]\<rparr>"
  define s3 where "s3 = s2\<lparr>sy_node := (sy_node s2)(0 := n2), sy_down := []\<rparr>"
  define s4 where "s4 = s3\<lparr>sy_et := et2, sy_db := db2, sy_down := [DownCommand (Some 0) (OranCommand 1)]\<rparr>"
  have "?step ex_system s1"
    using sys_step.node [of NodeActivate "\<lambda>_. ex_node_env" 0 0 ex_system] n(1) by (simp add: s1_def ex_system_def)
  moreover have "?step s1 s2"
    using sys_step.register [of s1 "[]" 0 LTEUE 0 "[]" 1 "\<lambda>_. 7" "\<lambda>_. 0"] r(1) by (simp add: s1_def s2_def ex_system_def)
  moreover have "?step s2 s3"
    using sys_step.registered [of s2 "[]" 0 1 "[]" "\<lambda>_. ex_node_env" 2] n(2) by (simp add: s1_def s2_def s3_def)
  moreover have "?step s3 s4"
    using sys_step.command [of 3 "OranCommand 1" s3] r(2) by (simp add: s2_def s3_def s4_def)
  ultimately have "sys_reach (\<lambda>_. 7) (\<lambda>_. 0) (\<lambda>_. ex_node_env) ex_system s4"
    using sys_reach.start sys_reach.step by meson
  then show ?thesis
    using n(3) r(3) by (intro exI [of _ s4]) (simp add: s4_def s3_def)
qed

theorem e2_ids_unique_witness:
  "\<exists>s. sys_reach (\<lambda>_. 7) (\<lambda>_. 0) (\<lambda>_. ex_node_env) ex_system s \<and> DownCommand (Some 0) (OranCommand 1) \<in> set (sy_down s) \<and>
     (\<forall>k. en_e2NodeId (sy_node s k) = 1 \<longleftrightarrow> k = 0)"
proof -
  obtain s where s: "sys_reach (\<lambda>_. 7) (\<lambda>_. 0) (\<lambda>_. ex_node_env) ex_system s" "node_seq (sy_db s) = 1"
    "en_e2NodeId (sy_node s 0) = 1" "DownCommand (Some 0) (OranCommand 1) \<in> set (sy_down s)"
    using ex_system_run by blast
  have lt: "node_seq (sy_db s) < 2 ^ 31"
    using s(2) by simp
  have "k = 0" if "en_e2NodeId (sy_node s k) = 1" for k
    using conjunct2 [OF e2_ids_unique [OF ex_system_fresh s(1) lt], rule_format, of 0 "OranCommand 1" k] s(4) that by simp
  with s show ?thesis
    by blast
qed

section \<open>Runs in which a node fails\<close>

text \<open>Deactivation unlinks the reporters from their triggers, so that a node that is activated again aborts
  at the next response to a registration.\<close>

lemma reactivated_node_aborts:
  "e2_run ex_node_env [(0, NodeActivate), (1, NodeRegistered 4), (5, NodeDeactivate), (6, NodeDeregistered 4), (9, NodeActivate),
     (10, NodeRegistered 4)] (ex_node False) = None"
  by code_simp

text \<open>With an initial report the periodic trigger has two chains of events; only one of them is cancelled,
  and the other one aborts after the deactivation.\<close>

lemma initial_report_event_lost:
  "e2_run ex_node_env [(0, NodeActivate), (1, NodeRegistered 4), (5, NodeDeactivate), (6, NodeLostTrigger 0)] (ex_node True) = None"
  "case e2_run ex_node_env [(0, NodeActivate), (1, NodeRegistered 4)] (ex_node True) of
     Some (n, as) \<Rightarrow> tg_triggerEvent (en_trigger n 0) \<and> tg_lostEvents (en_trigger n 0) = 1
   | None \<Rightarrow> False"
  by code_simp+

text \<open>A reporter that is activated while it is active is deactivated.\<close>

lemma second_activation_deactivates:
  "case rep_Activate ex_node_env 0 (ex_node False) of
     Some n \<Rightarrow> rp_active (en_reporter n 0) \<and>
       (case rep_Activate ex_node_env 0 n of Some n' \<Rightarrow> \<not> rp_active (en_reporter n' 0) | None \<Rightarrow> False)
   | None \<Rightarrow> False"
  by code_simp

end
