(* ===== verification/LteAmcSpec.thy ===== *)
theory LteAmcSpec
  imports OranCellLoad
begin

text \<open>
  What the channel quality reports of \<^verbatim>\<open>LteAmc::CreateCqiFeedbacks\<close> promise to a scheduler: the MCS it takes
  from a reported CQI is one that the error model allows.
\<close>

section \<open>The search for the MCS\<close>

text \<open>
  The rate of erroneous blocks that the search looks at: of a block whose size in bits is cut to 16
  bits.
\<close>

definition checked_error :: "amc \<Rightarrow> rat list \<Rightarrow> int list \<Rightarrow> u8 \<Rightarrow> u8 \<Rightarrow> rat" where
  "checked_error amc sinr rbgMap rbgSize mcs =
     am_tbler amc sinr rbgMap (uint (word_of_int (the (GetDlTbSizeFromMcs (uint mcs) (uint rbgSize))) :: u16) div 8) mcs"

lemma GetDlTbSize_defined:
  assumes "0 \<le> mcs" "mcs \<le> 28" "0 < n" "n \<le> 110"
  shows "GetDlTbSizeFromMcs mcs n \<noteq> None"
  using mcs_itbs [of mcs] assms tbs_at_Some [of "n - 1"] by (auto simp: GetDlTbSizeFromMcs_def)

text \<open>The search stops at the first MCS with too many errors, or beyond the last one.\<close>

lemma best_mcs_spec:
  assumes "mcs \<le> 28" "0 < rbgSize" "rbgSize \<le> 110"
  shows "\<exists>m t. best_mcs amc sinr rbgMap rbgSize mcs t0 = Some (m, t) \<and> mcs \<le> m \<and> m \<le> 29 \<and>
    (\<forall>k. mcs \<le> k \<and> k < m \<longrightarrow> checked_error amc sinr rbgMap rbgSize k \<le> 1 / 10) \<and>
    (if m = 29 then t \<le> 1 / 10 else t > 1 / 10) \<and>
    (m \<noteq> 29 \<longrightarrow> checked_error amc sinr rbgMap rbgSize m > 1 / 10)"
  using assms
proof (induction "29 - unat mcs" arbitrary: mcs t0 rule: less_induct)
  case less
  let ?e = "checked_error amc sinr rbgMap rbgSize mcs"
  have size: "GetDlTbSizeFromMcs (uint mcs) (uint rbgSize) \<noteq> None"
    using less.prems by (intro GetDlTbSize_defined) (simp_all add: word_le_def word_less_def)
  have step: "best_mcs amc sinr rbgMap rbgSize mcs t0 =
      (if ?e > 1 / 10 then Some (mcs, ?e) else best_mcs amc sinr rbgMap rbgSize (mcs + 1) ?e)"
    using size less.prems(1) by (subst best_mcs.simps) (auto simp: checked_error_def Let_def)
  show ?case
  proof (cases "?e > 1 / 10")
    case True
    moreover have "mcs \<noteq> 29" "mcs \<le> 29"
      using less.prems(1) by (auto simp: word_le_nat_alt)
    ultimately show ?thesis
      unfolding step by auto
  next
    case False
    have one: "k = mcs \<or> mcs + 1 \<le> k" if "mcs \<le> k" for k
      using that less.prems(1) by (auto simp: word_le_nat_alt unat_word_ariths word_unat_eq_iff)
    show ?thesis
    proof (cases "mcs = 28")
      case True
      have "best_mcs amc sinr rbgMap rbgSize (mcs + 1) ?e = Some (29, ?e)"
        unfolding True by (subst best_mcs.simps) simp
      moreover have "checked_error amc sinr rbgMap rbgSize k \<le> 1 / 10" if "mcs \<le> k" "k < 29" for k
      proof -
        have "k = mcs"
          using that True by (auto simp: word_le_nat_alt word_less_nat_alt word_unat_eq_iff)
        with False show ?thesis
          by simp
      qed
      ultimately show ?thesis
        using False True unfolding step by auto
    next
      case mcs: False
      then have lt: "unat mcs < 28"
        using less.prems(1) by (simp add: word_le_nat_alt word_unat_eq_iff)
      then have next_mcs: "unat (mcs + 1) = unat mcs + 1"
        by (simp add: unat_word_ariths)
      obtain m t where m: "best_mcs amc sinr rbgMap rbgSize (mcs + 1) ?e = Some (m, t)" "mcs + 1 \<le> m" "m \<le> 29"
        "\<forall>k. mcs + 1 \<le> k \<and> k < m \<longrightarrow> checked_error amc sinr rbgMap rbgSize k \<le> 1 / 10" "if m = 29 then t \<le> 1 / 10 else t > 1 / 10"
        "m \<noteq> 29 \<longrightarrow> checked_error amc sinr rbgMap rbgSize m > 1 / 10"
      proof -
        have "29 - unat (mcs + 1) < 29 - unat mcs" "mcs + 1 \<le> 28"
          using lt next_mcs by (simp_all add: word_le_nat_alt)
        with that less.hyps [of "mcs + 1" ?e] less.prems(2,3) show ?thesis
          by blast
      qed
      have "mcs \<le> m"
        using m(2) next_mcs by (simp add: word_le_nat_alt)
      moreover have "\<forall>k. mcs \<le> k \<and> k < m \<longrightarrow> checked_error amc sinr rbgMap rbgSize k \<le> 1 / 10"
        using m(4) one False by (auto simp: not_less)
      ultimately show ?thesis
        using False m unfolding step by auto
    qed
  qed
qed

section \<open>The report of a group of resource blocks\<close>

definition cqi_safe :: "amc \<Rightarrow> rat list \<Rightarrow> int list \<Rightarrow> u8 \<Rightarrow> int \<Rightarrow> bool" where
  "cqi_safe amc sinr rbgMap rbgSize cqi \<longleftrightarrow> 0 \<le> cqi \<and> cqi \<le> 15 \<and>
     (cqi > 0 \<longrightarrow> (\<exists>m. GetMcsFromCqi cqi = Some (uint m) \<and> checked_error amc sinr rbgMap rbgSize m \<le> 1 / 10))"

lemma rbg_cqi_safe:
  assumes "m \<le> 29" "\<forall>k<m. checked_error amc sinr rbgMap rbgSize k \<le> 1 / 10" "if m = 29 then t \<le> 1 / 10 else t > 1 / 10"
  shows "cqi_safe amc sinr rbgMap rbgSize (rbg_cqi (m, t))"
proof -
  consider "m = 0 \<or> m = 1" | "m = 29" | "1 < m" "m < 29"
    using assms(1) by (auto simp: word_le_nat_alt word_less_nat_alt word_unat_eq_iff) linarith
  then show ?thesis
  proof cases
    case 1
    with assms(3) have "rbg_cqi (m, t) = 0"
      by (auto simp: rbg_cqi_def)
    then show ?thesis
      by (simp add: cqi_safe_def)
  next
    case 2
    with assms(3) have "rbg_cqi (m, t) = 15"
      by (auto simp: rbg_cqi_def)
    moreover have "GetMcsFromCqi 15 = Some (uint (28 :: u8))"
      by (simp add: GetMcsFromCqi_value)
    moreover have "checked_error amc sinr rbgMap rbgSize 28 \<le> 1 / 10"
      using assms(2) 2 by simp
    ultimately show ?thesis
      unfolding cqi_safe_def by (intro conjI impI exI [of _ "28 :: u8"]) simp_all
  next
    case 3
    then have u: "unat (m - 1) = unat m - 1" "unat (m - 1) < 28" "0 < unat (m - 1)"
      by (auto simp: word_less_nat_alt unat_sub_if_size word_size)
    define c where "c = cqi_loop (SpectralEfficiencyForMcs ! unat (m - 1)) 0"
    have "m - 1 \<noteq> 28" "m - 1 \<noteq> 0" "m > 0"
      using u 3 by (auto simp: word_less_nat_alt)
    then have cqi: "rbg_cqi (m, t) = int c"
      by (simp add: rbg_cqi_def c_def)
    have c: "c \<le> 15" "2 * (c - 1) \<le> unat (m - 1)"
      using cqi_loop_spec [of 0] mcs_of_reported_cqi [OF u(2)] by (simp_all add: c_def)
    define k where "k = (word_of_nat (2 * (c - 1)) :: u8)"
    have k: "unat k = 2 * (c - 1)"
      unfolding k_def by (subst unat_of_nat) (use c(1) in \<open>simp add: take_bit_nat_eq_self\<close>)
    then have "k < m"
      using c(2) u 3 by (simp add: word_less_nat_alt)
    then have "checked_error amc sinr rbgMap rbgSize k \<le> 1 / 10"
      using assms(2) by simp
    moreover have "GetMcsFromCqi (int c) = Some (uint k)" if "c > 0"
      using that c(1) k by (simp add: GetMcsFromCqi_value uint_nat)
    ultimately show ?thesis
      using c(1) by (auto simp: cqi_safe_def cqi)
  qed
qed

section \<open>All groups\<close>

text \<open>The resource blocks of the group of the one with a given number.\<close>

definition rbg_of :: "nat \<Rightarrow> nat \<Rightarrow> nat \<Rightarrow> int list" where
  "rbg_of w n i = map int [i div w * w ..< min n ((i div w + 1) * w)]"

lemma vienna_loop_safe:
  assumes "0 < rbgSize" "rbgSize \<le> 110" "length sinr = n"
    and "rbgMap = map int [k div unat rbgSize * unat rbgSize ..< k]" "k + length it = n"
  shows "\<exists>cqis. vienna_loop amc sinr rbgSize it rbgMap (int k) = Some cqis \<and>
    (it \<noteq> [] \<longrightarrow> n \<le> length cqis + k div unat rbgSize * unat rbgSize) \<and>
    (\<forall>j<length cqis. cqi_safe amc sinr (rbg_of (unat rbgSize) n (k div unat rbgSize * unat rbgSize + j)) rbgSize (cqis ! j))"
  using assms(4,5)
proof (induction it arbitrary: rbgMap k)
  case (Cons v it)
  let ?s = "unat rbgSize"
  have s: "0 < ?s"
    using assms(1) by (simp add: word_less_nat_alt)
  have map: "rbgMap @ [int k] = map int [k div ?s * ?s ..< k + 1]"
    using Cons.prems(1) by (simp add: div_times_less_eq_dividend)
  show ?case
  proof (cases "(int k + 1) mod uint rbgSize = 0 \<or> it = []")
    case False
    then have "\<not> ?s dvd k + 1"
      using s by (metis dvd_eq_mod_eq_0 of_nat_1 of_nat_add of_nat_dvd_iff uint_nat)
    then have div: "(k + 1) div ?s = k div ?s"
      by (metis Suc_eq_plus1 div_Suc dvd_eq_mod_eq_0)
    have "vienna_loop amc sinr rbgSize (v # it) rbgMap (int k) = vienna_loop amc sinr rbgSize it (rbgMap @ [int k]) (int (k + 1))"
      using False assms(1) by (auto simp: Let_def add.commute)
    moreover note Cons.IH [of "rbgMap @ [int k]" "k + 1"]
    ultimately show ?thesis
      using False map Cons.prems(2) div by auto
  next
    case True
    let ?b = "k div ?s * ?s" and ?g = "map int [k div ?s * ?s ..< k + 1]"
    obtain m t where m: "best_mcs amc sinr ?g rbgSize 0 0 = Some (m, t)" "m \<le> 29"
      "\<forall>i. 0 \<le> i \<and> i < m \<longrightarrow> checked_error amc sinr ?g rbgSize i \<le> 1 / 10" "if m = 29 then t \<le> 1 / 10 else t > 1 / 10"
      using best_mcs_spec [of 0 rbgSize amc sinr ?g 0] assms(1,2) by auto
    have safe: "cqi_safe amc sinr ?g rbgSize (rbg_cqi (m, t))"
      using m by (intro rbg_cqi_safe) simp_all
    have less: "k < (k div ?s + 1) * ?s"
      using s by (metis Suc_eq_plus1 dividend_less_div_times mult.commute mult_Suc_right add.commute)
    have dvd: "it \<noteq> [] \<Longrightarrow> ?s dvd k + 1"
      using True by (metis dvd_eq_mod_eq_0 of_nat_1 of_nat_add of_nat_dvd_iff uint_nat)
    have next_block: "(k + 1) div ?s * ?s = k + 1 \<and> k + 1 = (k div ?s + 1) * ?s" if "it \<noteq> []"
      using dvd [OF that] s by (metis Suc_eq_plus1 div_Suc dvd_div_mult_self dvd_eq_mod_eq_0)
    have group: "rbg_of ?s n (?b + j) = ?g" if "j < ?s" for j
    proof -
      have "(?b + j) div ?s = k div ?s"
        using that s by simp
      moreover have "min n ((k div ?s + 1) * ?s) = k + 1"
        using Cons.prems(2) less next_block by (cases "it = []") auto
      ultimately show ?thesis
        by (simp add: rbg_of_def)
    qed
    obtain rest where rest: "vienna_loop amc sinr rbgSize it [] (int (k + 1)) = Some rest"
      "it \<noteq> [] \<Longrightarrow> n \<le> length rest + (?b + ?s)"
      "\<And>j. j < length rest \<Longrightarrow> cqi_safe amc sinr (rbg_of ?s n (?b + ?s + j)) rbgSize (rest ! j)"
    proof (cases "it = []")
      case False
      have "\<exists>cqis. vienna_loop amc sinr rbgSize it [] (int (k + 1)) = Some cqis \<and>
          (it \<noteq> [] \<longrightarrow> n \<le> length cqis + (k + 1) div ?s * ?s) \<and>
          (\<forall>j<length cqis. cqi_safe amc sinr (rbg_of ?s n ((k + 1) div ?s * ?s + j)) rbgSize (cqis ! j))"
        using next_block [OF False] Cons.prems(2) by (intro Cons.IH) simp_all
      moreover have "(k + 1) div ?s * ?s = ?b + ?s"
        using next_block [OF False] by simp
      ultimately show ?thesis
        using that False by metis
    qed (use that in simp)
    have "vienna_loop amc sinr rbgSize (v # it) rbgMap (int k) = Some (replicate ?s (rbg_cqi (m, t)) @ rest)"
      using True assms(1) m(1) rest(1) map by (auto simp: Let_def add.commute)
    moreover have "n \<le> length (replicate ?s (rbg_cqi (m, t)) @ rest) + ?b"
      using rest(2) less Cons.prems(2) by (cases "it = []") auto
    moreover have "cqi_safe amc sinr (rbg_of ?s n (?b + j)) rbgSize ((replicate ?s (rbg_cqi (m, t)) @ rest) ! j)"
      if "j < length (replicate ?s (rbg_cqi (m, t)) @ rest)" for j
      using that rest(3) [of "j - ?s"] safe group [of j] by (cases "j < ?s") (auto simp: nth_append)
    ultimately show ?thesis
      by auto
  qed
qed simp

lemma vienna_safe:
  assumes "0 < rbgSize" "rbgSize \<le> 110" "am_amcModel amc = MiErrorModel"
  shows "\<exists>cqis. CreateCqiFeedbacks amc sinr rbgSize = Some cqis \<and> length sinr \<le> length cqis \<and>
    (\<forall>j<length cqis. cqi_safe amc sinr (rbg_of (unat rbgSize) (length sinr) j) rbgSize (cqis ! j))"
  using vienna_loop_safe [OF assms(1,2) refl, of "[]" 0 sinr sinr amc] assms(3)
  by (cases "sinr = []") (auto simp: CreateCqiFeedbacks_def)

section \<open>The block that is sent\<close>

text \<open>
  The size of the block of an MCS in bits, and the rate of erroneous blocks of exactly this block. The
  search looks at it when the size fits 16 bits.
\<close>

definition block_bits :: "u8 \<Rightarrow> u8 \<Rightarrow> int" where
  "block_bits rbgSize mcs = the (GetDlTbSizeFromMcs (uint mcs) (uint rbgSize))"

definition mcs_error :: "amc \<Rightarrow> rat list \<Rightarrow> int list \<Rightarrow> u8 \<Rightarrow> u8 \<Rightarrow> rat" where
  "mcs_error amc sinr rbgMap rbgSize mcs = am_tbler amc sinr rbgMap (block_bits rbgSize mcs div 8) mcs"

lemma tb_sizes: "list_all (list_all (\<lambda>x. 0 \<le> x \<and> x < 65536)) (take 88 TransportBlockSizeTable) \<and>
    list_all (list_all (\<lambda>x. 0 \<le> x)) TransportBlockSizeTable"
  by code_simp

lemma elem_at_SomeD: "elem_at xs i = Some x \<Longrightarrow> 0 \<le> i \<and> nat i < length xs \<and> x = xs ! nat i"
  by (auto simp: elem_at_def split: if_splits)

lemma block_bits_range:
  assumes "m \<le> 28" "0 < rbgSize" "rbgSize \<le> 110"
  shows "0 \<le> block_bits rbgSize m" and "rbgSize \<le> 88 \<Longrightarrow> block_bits rbgSize m < 65536"
proof -
  have "GetDlTbSizeFromMcs (uint m) (uint rbgSize) \<noteq> None"
    using assms by (intro GetDlTbSize_defined) (simp_all add: word_le_def word_less_def)
  then obtain b where b: "GetDlTbSizeFromMcs (uint m) (uint rbgSize) = Some b"
    by blast
  then obtain itbs row where "elem_at TransportBlockSizeTable (uint rbgSize - 1) = Some row" "elem_at row itbs = Some b"
    by (auto simp: GetDlTbSizeFromMcs_def tbs_at_def bind_eq_Some_conv)
  then have r: "nat (uint rbgSize - 1) < length TransportBlockSizeTable"
    "row = TransportBlockSizeTable ! nat (uint rbgSize - 1)" "b \<in> set row"
    by (auto dest!: elem_at_SomeD)
  then have "0 \<le> b"
    using tb_sizes by (auto simp: list_all_iff)
  then show "0 \<le> block_bits rbgSize m"
    by (simp add: block_bits_def b)
  assume "rbgSize \<le> 88"
  then have n: "nat (uint rbgSize - 1) < 88"
    using assms(2) by (simp add: word_le_def word_less_def nat_less_iff)
  then have "row \<in> set (take 88 TransportBlockSizeTable)"
    using r(1,2) by (auto simp: in_set_conv_nth intro!: exI [of _ "nat (uint rbgSize - 1)"])
  then have "b < 65536"
    using tb_sizes r(3) by (auto simp: list_all_iff)
  then show "block_bits rbgSize m < 65536"
    by (simp add: block_bits_def b)
qed

lemma checked_error_real:
  assumes "0 \<le> block_bits rbgSize m" "block_bits rbgSize m < 65536"
  shows "checked_error amc sinr rbgMap rbgSize m = mcs_error amc sinr rbgMap rbgSize m"
  using assms by (simp add: checked_error_def mcs_error_def block_bits_def uint_word_of_int)

lemma reported_mcs: "GetMcsFromCqi cqi = Some (uint (m :: u8)) \<Longrightarrow> 0 < cqi \<Longrightarrow> cqi \<le> 15 \<Longrightarrow> m \<le> 28"
  by (auto simp: GetMcsFromCqi_value word_le_def)

text \<open>
  At 100 resource blocks - the group over which the wideband report of the UE is made - MCS 28 has a
  block of 75376 bits, of which 9840 are left: the report is made for another block than the one sent.
\<close>

definition cut_amc :: amc where
  "cut_amc = \<lparr>am_ber = 1 / 20000, am_amcModel = MiErrorModel, am_log = id, am_log2 = id,
     am_tbler = (\<lambda>sinr rbgMap size mcs. if 8192 \<le> size then 1 else 0)\<rparr>"

lemma cut_amc_checked: "checked_error cut_amc sinr rbgMap rbgSize m = 0"
proof -
  have "uint (w :: u16) div 8 < 8192" for w
    using uint_lt2p [of w] by simp
  then show ?thesis
    by (simp add: checked_error_def cut_amc_def not_le)
qed

lemma cqi_report_of_cut_block:
  "CreateCqiFeedbacks cut_amc [1] 100 = Some (replicate 100 15) \<and> GetMcsFromCqi 15 = Some 28 \<and>
   block_bits 100 28 = 75376 \<and> mcs_error cut_amc [1] [0] 100 28 = 1"
proof -
  obtain t where "best_mcs cut_amc [1] [0] 100 0 0 = Some (29, t)" "t \<le> 1 / 10"
    using best_mcs_spec [of 0 100 cut_amc "[1]" "[0]" 0] by (auto simp: cut_amc_checked split: if_splits)
  then have "vienna_loop cut_amc [1] 100 [1] [] 0 = Some (replicate 100 15)"
    by (simp add: Let_def rbg_cqi_def)
  then have "CreateCqiFeedbacks cut_amc [1] 100 = Some (replicate 100 15)"
    by (simp add: CreateCqiFeedbacks_def cut_amc_def)
  moreover have "GetMcsFromCqi 15 = Some 28"
    by (simp add: GetMcsFromCqi_value)
  moreover have b: "block_bits 100 28 = 75376"
    unfolding block_bits_def by code_simp
  moreover have "mcs_error cut_amc [1] [0] 100 28 = 1"
    by (simp add: mcs_error_def b) (simp add: cut_amc_def)
  ultimately show ?thesis
    by blast
qed

end
