(* ===== verification/AmcProps.thy ===== *)
theory AmcProps
  imports LteAmcSpec
begin

text \<open>
  The properties of the adaptive modulation and coding and of the resource blocks that the cell load
  reporter recovers from the size of a transport block, with their witnesses.
\<close>




text \<open>C29: The number of resource blocks that the cell load reporter recovers from the size in bytes of a
  transport block is the smallest one with that size; it is at most the number that the scheduler used,
  and gives the same size.\<close>

theorem rb_size_roundtrip:
  assumes "0 \<le> mcs" "mcs < 29" "GetDlTbSizeFromMcs mcs nprb = Some sz"
  shows "\<exists>r sz'. GetDlRbSizeFromMcs mcs (sz div 8) = Some r \<and> 1 \<le> r \<and> r \<le> nprb \<and>
    GetDlTbSizeFromMcs mcs r = Some sz' \<and> sz' div 8 = sz div 8 \<and>
    (\<forall>q u. 1 \<le> q \<and> q < r \<and> GetDlTbSizeFromMcs mcs q = Some u \<longrightarrow> u div 8 < sz div 8)"
  by (rule rb_size_of_block [OF assms])

theorem rb_size_roundtrip_witness:
  "\<exists>sz r sz'. GetDlTbSizeFromMcs 5 3 = Some sz \<and> GetDlRbSizeFromMcs 5 (sz div 8) = Some r \<and> r \<le> 3 \<and>
     GetDlTbSizeFromMcs 5 r = Some sz' \<and> sz' div 8 = sz div 8"
proof -
  obtain sz where "GetDlTbSizeFromMcs 5 3 = Some sz"
    using GetDlTbSize_defined [of 5 3] by auto
  with rb_size_roundtrip [of 5 3 sz] show ?thesis
    by auto
qed

end
