(* ===== verification/Spec2Isabelle.thy ===== *)
theory Spec2Isabelle
  imports RlcProps EpcProps X2Props EnbRrcProps OranProps OranE2Props AmcProps
begin

text \<open>
  A verification development for the LTE and O-RAN parts of this ns-3 tree: the RLC and PDCP user plane, adaptive
  modulation and coding, the core network, X2 and the RRC of the eNB (\<^verbatim>\<open>src/lte/model\<close>), and the O-RAN control loop
  (\<^verbatim>\<open>contrib/oran/model\<close>).

  \<^bold>\<open>The parts.\<close> Above the MAC an eNB and a UE have, for each bearer, an RLC entity and a PDCP entity. PDCP numbers
  the SDUs; RLC queues them, cuts and joins them into PDUs of the size that the MAC grants
  (\<^verbatim>\<open>DoNotifyTxOpportunity\<close>) and rebuilds them at the receiver (\<^verbatim>\<open>DoReceivePdu\<close>), in transparent, unacknowledged
  or acknowledged mode; the acknowledged mode retransmits what STATUS PDUs report missing. The size of a
  grant comes from the CQI of the channel by way of \<^verbatim>\<open>LteAmc\<close>. Behind the eNBs the core network carries the IP
  packets: the PGW classifies what comes from the internet by the traffic flow templates of the UE and sends it
  through GTP-U tunnels by way of the SGW to the eNB, which maps the TEID of the tunnel to a radio bearer; the
  NAS of the UE chooses the bearer of the other direction. MME, SGW and PGW exchange GTP-C messages to set up,
  switch and delete the tunnels; neighbouring eNBs exchange X2 messages to prepare a handover, to forward data and to
  report their load. The RRC of an eNB keeps a context with a state machine and timers for every UE: it admits UEs,
  sets up their bearers when the core network asks for them, and prepares, executes and ends handovers by X2 messages. On top of the network, reporters on each E2
  node collect reports (position, serving cell, packet loss, cell load) that the node's terminator sends to
  the Near-RT RIC; the RIC stores them in a repository, runs its logic modules in cycles, filters the
  commands they issue in a conflict mitigation module and sends the rest to the nodes.

  \<^bold>\<open>RLC and PDCP.\<close> \<^verbatim>\<open>LteBase\<close> is the prelude: machine words, packets as byte lists, \<^verbatim>\<open>CreateFragment\<close> and
  \<^verbatim>\<open>RemoveAtStart\<close>. \<^verbatim>\<open>HeaderCodec\<close> is the contract of a packet header as a locale, interpreted on the three
  headers of \<^verbatim>\<open>RlcHeader\<close>, \<^verbatim>\<open>RlcAmHeader\<close> and \<^verbatim>\<open>Pdcp\<close>. \<^verbatim>\<open>SeqNum10\<close> is \<^verbatim>\<open>SequenceNumber10\<close>. \<^verbatim>\<open>RlcSap\<close> has the
  base class, the saturation mode, the structures of the MAC SAP, and the contract of a transmission
  queue as a locale, interpreted on \<^verbatim>\<open>RlcTm\<close>, \<^verbatim>\<open>RlcUmTx\<close> and \<^verbatim>\<open>RlcAmQueue\<close>. \<^verbatim>\<open>RlcReas\<close> and \<^verbatim>\<open>RlcAmReas\<close> are the
  reassembly functions, \<^verbatim>\<open>RlcReasSpec\<close> the abstract reassembler that they refine. \<^verbatim>\<open>RlcUmTx\<close> and \<^verbatim>\<open>RlcUmRx\<close> are
  \<^verbatim>\<open>LteRlcUm\<close>; \<^verbatim>\<open>RlcUmLink\<close> joins two of them, and PDCP above them. \<^verbatim>\<open>RlcAmTx\<close> and \<^verbatim>\<open>RlcAmRx\<close> are \<^verbatim>\<open>LteRlcAm\<close>;
  \<^verbatim>\<open>RlcAmWindow\<close>, \<^verbatim>\<open>RlcAmStatus\<close>, \<^verbatim>\<open>RlcAmQueue\<close>, \<^verbatim>\<open>RlcAmRecv\<close> and \<^verbatim>\<open>RlcAmTimers\<close> prove the invariant of window, buffers and
  counters for each operation, and \<^verbatim>\<open>RlcAmLink\<close> joins two entities by lossy channels. \<^verbatim>\<open>RlcProps\<close> has the
  properties of single entities, this theory those of the links.

  \<^bold>\<open>Modulation and coding.\<close> \<^verbatim>\<open>LteAmc\<close> has the tables and functions of \<^verbatim>\<open>lte-amc.cc\<close>, \<^verbatim>\<open>OranCellLoad\<close> the search by which
  the cell load reporter recovers the resource blocks of a transport block, \<^verbatim>\<open>LteAmcSpec\<close> what a CQI report
  promises, \<^verbatim>\<open>AmcProps\<close> the properties.

  \<^bold>\<open>Core network.\<close> \<^verbatim>\<open>ByteIO\<close> has the reads and writes of \<^verbatim>\<open>Buffer::Iterator\<close> and the contract of an information element
  as a locale; \<^verbatim>\<open>IpHeaders\<close> the IP, UDP and TCP headers as far as the classifier reads them; \<^verbatim>\<open>EpcTft\<close> packet filters,
  templates and the classifier with its specification; \<^verbatim>\<open>GtpuHeader\<close> the tunnel header (another header codec);
  \<^verbatim>\<open>GtpcIes\<close> and \<^verbatim>\<open>GtpcMessages\<close> the information elements and the seven messages, each an interpretation of the
  contract of a message. \<^verbatim>\<open>EpcNet\<close> is what the applications exchange; \<^verbatim>\<open>EpcPgw\<close>, \<^verbatim>\<open>EpcSgw\<close>, \<^verbatim>\<open>EpcMme\<close> and \<^verbatim>\<open>EpcEnb\<close> are
  the applications with all their handlers, \<^verbatim>\<open>EpcUeNas\<close> the NAS with the invariant of its bearer numbers. \<^verbatim>\<open>EpcSystem\<close>
  composes them: datagrams in flight, delivery, the steps of the environment; routing is a parameter.
  \<^verbatim>\<open>EpcWire\<close> evaluates the handlers on well-formed messages, \<^verbatim>\<open>EpcSession\<close> and \<^verbatim>\<open>EpcSwitch\<close> the exchanges of an attach
  and of a path switch and the paths of the bearers that they leave. \<^verbatim>\<open>EpcIsolation\<close> is the whole core network as a step
  relation, with every handler, configuration call and order of delivery, and its invariant: a TEID belongs to
  one UE. \<^verbatim>\<open>EpcProps\<close> has the properties.

  \<^bold>\<open>X2.\<close> \<^verbatim>\<open>EpcX2Header\<close> is the common header of \<^verbatim>\<open>epc-x2-header.cc\<close> with the contract of an element of a list as a locale,
  \<^verbatim>\<open>EpcX2Messages\<close> and \<^verbatim>\<open>EpcX2Reports\<close> the eight message headers, \<^verbatim>\<open>EpcX2\<close> the entity of \<^verbatim>\<open>epc-x2.cc\<close> with its
  interfaces, primitives and reception. \<^verbatim>\<open>EpcX2Link\<close> joins two entities that were set up by any calls of
  \<^verbatim>\<open>AddX2Interface\<close>; \<^verbatim>\<open>X2Props\<close> has the property.

  \<^bold>\<open>RRC of the eNB.\<close> \<^verbatim>\<open>EnbRrcBase\<close> has the messages, the UE context (\<^verbatim>\<open>UeManager\<close>) and the state of
  \<^verbatim>\<open>LteEnbRrc\<close>, where calls at other entities are a list of actions and a pending timer is a flag; then the
  requirements of a QCI, the allocation of SRS indices and RNTIs, the component carrier manager for one carrier and
  the ideal encoding of inter-node messages. \<^verbatim>\<open>EnbRrcUe\<close> and \<^verbatim>\<open>EnbRrcHandlers\<close> have the operations of a context,
  \<^verbatim>\<open>EnbRrc\<close> those of the entity and one function for all calls that it receives; \<^verbatim>\<open>HandoverAlgo\<close> the neighbour relations
  of \<^verbatim>\<open>lte-anr.cc\<close> and the handover algorithms A3 and A2-A4. \<^verbatim>\<open>EnbRrcInv\<close> states the invariant on two views of the state;
  \<^verbatim>\<open>EnbRrcSteps\<close> (operations on one context), \<^verbatim>\<open>EnbRrcReach\<close> (bearers, removal, creation) and \<^verbatim>\<open>EnbRrcAdmit\<close> (ends of
  contexts, handover) prove it of the operations, \<^verbatim>\<open>EnbRrcProps\<close> of all reachable states, with the properties.

  \<^bold>\<open>O-RAN.\<close> \<^verbatim>\<open>OranData\<close> is the SQLite repository: a record of tables, one function per SQL statement, the methods
  over them; \<^verbatim>\<open>OranStore\<close> the contract of the registrations as a locale, with its interpretation. \<^verbatim>\<open>OranLm\<close> is the
  base class of the logic modules with the no-operation and the distance handover module, \<^verbatim>\<open>OranCmm\<close> the three
  conflict mitigation modules and their common contract, \<^verbatim>\<open>OranRic\<close> the E2 terminator and the RIC with all its
  operations and events. \<^verbatim>\<open>OranRicInv\<close> is the invariant of the RIC, relative to a locale for what the plugged
  modules promise, which \<^verbatim>\<open>OranRicStd\<close> interprets on the modules of the code; \<^verbatim>\<open>OranRicCycle\<close>, \<^verbatim>\<open>OranInactivity\<close>
  and \<^verbatim>\<open>OranRicCases\<close> treat cycles, the inactivity check and the runs that go wrong. \<^verbatim>\<open>OranE2\<close> is the node side:
  triggers, reporters and the terminator; \<^verbatim>\<open>OranE2Inv\<close> its invariant; \<^verbatim>\<open>OranE2Link\<close> the system of nodes and RIC as
  a step relation with messages in any order. \<^verbatim>\<open>OranProps\<close> and \<^verbatim>\<open>OranE2Props\<close> have the properties. \<^verbatim>\<open>StdMap\<close> is
  \<^verbatim>\<open>std::map\<close>.

  \<^bold>\<open>Conventions.\<close> A class is a record of its members, an operation a function from the state to an option of the
  new state and the list of calls and messages it makes; \<^const>\<open>None\<close> is an abort, a null pointer, a read outside
  an array or of an uninitialised variable. \<^verbatim>\<open>NS_ASSERT\<close> is compiled out in optimised builds and is not a check.
  Timers are the time of the pending event or a flag; the delays drawn from random variables are left open,
  as the time of the event is a parameter. Members that are serialised without having been initialised are
  arguments of the functions that make the message. Members of fixed width are words, with their wrap-around. Loops that may
  not end are partial functions with values in option, and the properties say that they return. The only bound is
  the number of deliveries of \<open>epc_run\<close>, which gives \<^const>\<open>None\<close> when a datagram is left: the properties of the core
  network state the exact numbers, four for an attach or a path switch, two for a packet. Doubles are a type parameter in the O-RAN part and rational numbers in the modulation part: rounding
  is not modelled.

  \<^bold>\<open>What the lemmas show.\<close> Every operation keeps the invariant of its component and does not fail (RLC, PDCP, RIC,
  E2 nodes); headers and stored reports are read back; the concrete machines refine abstract ones
  (reassembly, links, registrations, classification); attach, traffic and path switch work from end to end in
  the composed core network, and no packet reaches the radio bearers of another UE; what the modules and filters compute is characterised; and the
  places where the code does not do what it means to are run as examples.

  \<^bold>\<open>Not modelled.\<close> Logging, trace sources, byte and packet tags; the MAC schedulers, the physical layer and its
  error model; the RRC of the UE, the ASN.1 encoding of RRC messages, system information and measurement configuration;
  checksums and TCP options; the logic modules that call neural networks; the helpers that
  build objects from a configuration; the simulator, the packet library and the other ns-3 modules, of which
  the model uses events, byte lists and time only.
\<close>

section \<open>RLC unacknowledged mode\<close>

text \<open>C2: A transmitting and a receiving LteRlcUm whose PDUs arrive in order: for any sequence of
  submissions of non-empty SDUs and of opportunities no operation fails, and the SDUs delivered
  above, followed by the SDUs still queued (the first one joined with its part already sent), are
  exactly the SDUs the transmitter accepted, in order and byte for byte, also across the wrap of
  the sequence number. Opportunities are below 64 KB, or the buffer has at most 43689 bytes (the
  default is 10240): beyond both, the 16-bit length of the header can wrap.\<close>

theorem um_link_in_order:
  assumes "um_in_step kept0 s r" and "list_all (um_event_ok (um_maxTxBufferSize s)) es"
  shows "\<exists>s' r' acc d kept. um_link es s r = Some (s', r', acc, d) \<and> um_in_step kept s' r' \<and>
    d @ join kept (pdus (um_txBuffer s')) = join kept0 (pdus (um_txBuffer s)) @ acc"
  by (rule um_link_run [OF assms])

theorem um_link_in_order_witness:
  "\<exists>s' r' acc d kept. um_link [Submit 0 [1, 2, 3], Opportunity 5 (ex_grant 4), Submit 6 [4, 5],
        Opportunity 7 (ex_grant 20)] um_init um_init = Some (s', r', acc, d) \<and>
     um_in_step kept s' r' \<and> d @ join kept (pdus (um_txBuffer s')) = acc"
  using um_link_in_order [OF um_in_step_init, of "[Submit 0 [1, 2, 3], Opportunity 5 (ex_grant 4),
      Submit 6 [4, 5], Opportunity 7 (ex_grant 20)]"]
  by (simp add: um_sdu_ok_def sdu_ok_def join_def um_init_def ex_grant_def)

text \<open>C4: The whole user plane, PDCP over RLC UM on both ends: the SDUs delivered above the
  receiving PDCP are a subsequence of the SDUs given to the sending PDCP, unchanged; if RLC
  dropped none and its buffer is empty, they are all of them.\<close>

theorem stack_end_to_end:
  assumes "\<forall>p\<in>set (stack_sdus es). length p < 2 ^ 31 - 2"
  shows "\<exists>s' r' acc out. stack_link es stack_init stack_init = Some (s', r', acc, out) \<and>
    subseq out (stack_sdus es) \<and>
    (length acc = length (stack_sdus es) \<and> um_txBuffer (sk_um s') = [] \<longrightarrow> out = stack_sdus es)"
  by (rule stack_link_delivers [OF assms])

theorem stack_end_to_end_witness:
  "\<exists>s' r' acc out. stack_link [Sdu 0 [1, 2, 3], Grant 1 (ex_grant 50)] stack_init stack_init
     = Some (s', r', acc, out) \<and> subseq out [[1, 2, 3]]"
  using stack_end_to_end [of "[Sdu 0 [1, 2, 3], Grant 1 (ex_grant 50)]"] by auto

text \<open>C12: Reassembly under losses: when fewer than 1024 PDUs are lost in a row, the receiver
  processes every PDU that arrives and what it delivers is a subsequence of the SDUs sent: no SDU
  is corrupted, duplicated, reordered or made up from parts of different SDUs.\<close>

theorem um_losses_no_corruption:
  assumes "fits_stream None us" and "on_air 0 us ps" and "gaps_ok 0 ps"
  shows "\<exists>r d. um_rx_stream reas_init ps = Some (r, d) \<and> subseq d (snd (spec_stream None us)) \<and> reas_wf r"
  using um_rx_stream_lossy [OF reas_rel_init assms(1) _ _ assms(2,3)] by (simp add: reas_init_def)

theorem um_losses_no_corruption_witness:
  "\<exists>r d. um_rx_stream reas_init [Some (ex_pdu 1 0 [7]), None, Some (ex_pdu 0 2 [9])] = Some (r, d) \<and>
     subseq d [[7, 8], [9]] \<and> reas_wf r"
proof -
  let ?us = "[\<lparr>pf_noFirst = False, pf_noLast = True, pf_fields = [[7 :: u8]]\<rparr>,
    \<lparr>pf_noFirst = True, pf_noLast = False, pf_fields = [[8]]\<rparr>,
    \<lparr>pf_noFirst = False, pf_noLast = False, pf_fields = [[9]]\<rparr>]"
  have "on_air 0 ?us [Some (ex_pdu 1 0 [7]), None, Some (ex_pdu 0 2 [9])]"
    using ex_pdu_contents [of 0 0 1 True "[7]"] ex_pdu_contents [of 2 2 0 False "[9]"] by simp
  from um_losses_no_corruption [OF _ this] show ?thesis
    by (simp add: pdu_fits_def reas_spec_def join_def)
qed

section \<open>RLC acknowledged mode\<close>



end
